(* ===== verification/Py_Decimal.thy ===== *)
theory Py_Decimal
  imports Complex_Main "HOL-Library.Log_Nat"
begin

text \<open>
  Python's \<^verbatim>\<open>decimal.Decimal\<close> and the one use of \<^verbatim>\<open>float\<close> in the program.

  A finite Decimal is modelled by its value, a rational number. Constructing a Decimal from
  text and comparing two Decimals are exact; the arithmetic operators round their result to
  the 28 significant digits of the default context, half to even (\<open>rnd28\<close>). A conversion
  with \<^verbatim>\<open>float(x)\<close> rounds to 53 binary digits, half to even (\<open>to_float\<close>).
  The exponent of a Decimal (trailing zeros) and the sign of zero are not part of the value.
  The limits of the exponent range (10 to the power 999999, and 2 to the power 1024 for
  \<^verbatim>\<open>float\<close>) are not modelled.
\<close>

text \<open>Floors of rational literals.\<close>

lemma floor_rat_literal [simp]:
  "\<lfloor>numeral a / numeral b :: rat\<rfloor> = numeral a div numeral b"
  "\<lfloor>1 / numeral b :: rat\<rfloor> = 1 div numeral b"
  "\<lfloor>- (numeral a / numeral b) :: rat\<rfloor> = - numeral a div numeral b"
  "\<lfloor>- (1 / numeral b) :: rat\<rfloor> = - 1 div numeral b"
  using floor_divide_of_int_eq [of "numeral a" "numeral b", where 'a = rat]
    floor_divide_of_int_eq [of 1 "numeral b", where 'a = rat]
    floor_divide_of_int_eq [of "- numeral a" "numeral b", where 'a = rat]
    floor_divide_of_int_eq [of "- 1" "numeral b", where 'a = rat]
  by simp_all

section \<open>Rounding a rational to an integer, half to even\<close>

definition rhe :: "rat \<Rightarrow> int" where
  "rhe x = (let f = \<lfloor>x\<rfloor>; d = x - of_int f in
     if d < 1/2 then f else if 1/2 < d then f + 1 else if even f then f else f + 1)"

lemma rhe_of_int [simp]: "rhe (of_int n) = n"
  by (simp add: rhe_def)

lemma rhe_numeral [simp]: "rhe 0 = 0" "rhe 1 = 1" "rhe (numeral k) = numeral k"
  using rhe_of_int [of 0] rhe_of_int [of 1] rhe_of_int [of "numeral k"] by simp_all

lemma rhe_cases: "rhe x = \<lfloor>x\<rfloor> \<and> x - of_int \<lfloor>x\<rfloor> \<le> 1/2 \<or> rhe x = \<lfloor>x\<rfloor> + 1 \<and> 1/2 \<le> x - of_int \<lfloor>x\<rfloor>"
  by (auto simp: rhe_def Let_def)

lemma rhe_error: "\<bar>x - of_int (rhe x)\<bar> \<le> 1/2"
proof -
  have "of_int \<lfloor>x\<rfloor> \<le> x" "x < of_int \<lfloor>x\<rfloor> + 1" by linarith+
  with rhe_cases [of x] show ?thesis by auto
qed

lemma rhe_mono: "x \<le> y \<Longrightarrow> rhe x \<le> rhe y"
proof -
  assume xy: "x \<le> y"
  then have f: "\<lfloor>x\<rfloor> \<le> \<lfloor>y\<rfloor>" by (rule floor_mono)
  show ?thesis
  proof (cases "\<lfloor>x\<rfloor> = \<lfloor>y\<rfloor>")
    case True
    with xy show ?thesis by (auto simp: rhe_def Let_def)
  next
    case False
    with f have "\<lfloor>x\<rfloor> + 1 \<le> \<lfloor>y\<rfloor>" by simp
    moreover have "rhe x \<le> \<lfloor>x\<rfloor> + 1" "\<lfloor>y\<rfloor> \<le> rhe y"
      by (auto simp: rhe_def Let_def)
    ultimately show ?thesis by simp
  qed
qed

lemma rhe_minus: "rhe (- x) = - rhe x"
proof (cases "x = of_int \<lfloor>x\<rfloor>")
  case True
  then have "rhe x = \<lfloor>x\<rfloor>" "rhe (- x) = - \<lfloor>x\<rfloor>"
    by (metis rhe_of_int) (metis True of_int_minus rhe_of_int)
  then show ?thesis by simp
next
  case False
  then have l: "of_int \<lfloor>x\<rfloor> < x" by linarith
  have u: "x < of_int \<lfloor>x\<rfloor> + 1" by linarith
  have "\<lfloor>- x\<rfloor> = - \<lfloor>x\<rfloor> - 1" using l u by linarith
  then show ?thesis by (auto simp: rhe_def Let_def)
qed

lemma rhe_nonneg: "0 \<le> x \<Longrightarrow> 0 \<le> rhe x"
  using rhe_mono [of 0 x] by simp

section \<open>Rounding to a number of significant digits\<close>

text \<open>\<open>magnitude b x\<close> is the exponent of the leading digit of \<open>x\<close> in base \<open>b\<close>.\<close>

definition magnitude :: "nat \<Rightarrow> rat \<Rightarrow> int" where
  "magnitude b x = (case quotient_of \<bar>x\<bar> of (n, d) \<Rightarrow>
     let g = int (floorlog b (nat n)) - int (floorlog b (nat d)) in
     if of_nat b powi g \<le> \<bar>x\<bar> then g else g - 1)"

definition round_sig :: "nat \<Rightarrow> nat \<Rightarrow> rat \<Rightarrow> rat" where
  "round_sig b p x = (if x = 0 then 0 else
     let u = of_nat b powi (magnitude b x - int p + 1) in of_int (rhe (x / u)) * u)"

definition rnd28 :: "rat \<Rightarrow> rat" where
  "rnd28 x = round_sig 10 28 x"

definition to_float :: "rat \<Rightarrow> rat" where
  "to_float x = round_sig 2 53 x"


locale significant_digits =
  fixes b p :: nat
  assumes base: "2 \<le> b" and digits: "1 \<le> p"
begin

lemma b_pos: "(0::rat) < of_nat b" and b_gt1: "(1::rat) < of_nat b"
  using base by simp_all

lemma powi_pos: "(0::rat) < of_nat b powi k"
  using b_pos by (rule zero_less_power_int)

lemma powi_mono: "i \<le> j \<Longrightarrow> (of_nat b :: rat) powi i \<le> of_nat b powi j"
  using b_gt1 by (intro power_int_increasing) simp_all

lemma powi_add: "(of_nat b :: rat) powi (i + j) = of_nat b powi i * of_nat b powi j"
  using b_pos by (intro power_int_add) simp

lemma powi_less_iff: "(of_nat b :: rat) powi i < of_nat b powi j \<longleftrightarrow> i < j"
  using b_gt1 powi_mono [of j i] by (auto simp: not_less [symmetric] intro: power_int_strict_increasing)

lemma powi_nat: "(of_nat b :: rat) powi int k = of_int (int b ^ k)"
  by simp

lemma magnitude_bounds:
  assumes "x \<noteq> 0"
  shows "of_nat b powi magnitude b x \<le> \<bar>x\<bar>" "\<bar>x\<bar> < of_nat b powi (magnitude b x + 1)"
proof -
  obtain n d where q: "quotient_of \<bar>x\<bar> = (n, d)" by (cases "quotient_of \<bar>x\<bar>")
  then have d: "0 < d" and x: "\<bar>x\<bar> = of_int n / of_int d"
    by (auto dest: quotient_of_denom_pos quotient_of_div)
  with assms have n: "0 < n"
    by (metis abs_of_nonneg divide_eq_0_iff divide_nonpos_pos linorder_not_less of_int_0_le_iff
        of_int_0_less_iff of_int_nonneg zero_less_abs_iff of_int_le_0_iff leD)
  define ln ld where "ln = floorlog b (nat n)" and "ld = floorlog b (nat d)"
  have b1: "1 < b" using base by simp
  have ln: "b ^ (ln - 1) \<le> nat n" "nat n < b ^ ln" "1 \<le> ln"
    using floorlog_bounds [of "nat n" b] n b1
    by (auto simp: ln_def floorlog_def)
  have ld: "b ^ (ld - 1) \<le> nat d" "nat d < b ^ ld" "1 \<le> ld"
    using floorlog_bounds [of "nat d" b] d b1
    by (auto simp: ld_def floorlog_def)
  have rn: "(of_nat b :: rat) ^ (ln - 1) \<le> of_int n" "of_int n < (of_nat b :: rat) ^ ln"
    using of_nat_mono [OF ln(1), where 'a = rat] ln(2) n
    by simp (metis of_nat_less_iff of_nat_nat of_nat_power ln(2) n order_less_imp_le of_int_of_nat_eq)
  have rd: "(of_nat b :: rat) ^ (ld - 1) \<le> of_int d" "of_int d < (of_nat b :: rat) ^ ld"
    using of_nat_mono [OF ld(1), where 'a = rat] ld(2) d
    by simp (metis of_nat_less_iff of_nat_nat of_nat_power ld(2) d order_less_imp_le of_int_of_nat_eq)
  let ?g = "int ln - int ld"
  have low: "of_nat b powi (?g - 1) \<le> \<bar>x\<bar>"
  proof -
    have "(of_nat b :: rat) powi (?g - 1) = of_nat b ^ (ln - 1) / of_nat b ^ ld"
      using b_pos ln(3) by (simp add: power_int_diff power_int_minus of_nat_diff flip: power_int_of_nat)
    also have "\<dots> \<le> of_int n / of_int d"
      using rn rd d n b_pos by (intro frac_le) simp_all
    finally show ?thesis by (simp add: x)
  qed
  have up: "\<bar>x\<bar> < of_nat b powi (?g + 1)"
  proof -
    have "of_int n / of_int d < (of_nat b :: rat) ^ ln / of_nat b ^ (ld - 1)"
      using rn rd d n b_pos by (intro frac_less) simp_all
    also have "\<dots> = of_nat b powi (?g + 1)"
      using b_pos ld(3) by (simp add: power_int_diff power_int_add of_nat_diff flip: power_int_of_nat)
    finally show ?thesis by (simp add: x)
  qed
  have m: "magnitude b x = (if of_nat b powi ?g \<le> \<bar>x\<bar> then ?g else ?g - 1)"
    by (simp add: magnitude_def q ln_def ld_def Let_def)
  show "of_nat b powi magnitude b x \<le> \<bar>x\<bar>" using low by (simp add: m)
  show "\<bar>x\<bar> < of_nat b powi (magnitude b x + 1)" using up by (simp add: m not_le)
qed

lemma scaled_bounds:
  fixes x :: rat
  assumes "x \<noteq> 0"
  defines "u \<equiv> of_nat b powi (magnitude b x - int p + 1)"
  shows "0 < u" "of_int (int b ^ (p - 1)) \<le> \<bar>x\<bar> / u" "\<bar>x\<bar> / u < of_int (int b ^ p)"
    "of_int (int b ^ p) * u = of_nat b powi (magnitude b x + 1)"
    "of_int (int b ^ (p - 1)) * u = of_nat b powi magnitude b x"
proof -
  show u: "0 < u" by (simp add: u_def powi_pos)
  show e1: "of_int (int b ^ p) * u = of_nat b powi (magnitude b x + 1)"
    unfolding u_def powi_nat [symmetric] powi_add [symmetric] by (simp add: algebra_simps)
  show e2: "of_int (int b ^ (p - 1)) * u = of_nat b powi magnitude b x"
    unfolding u_def powi_nat [symmetric] powi_add [symmetric] using digits by (simp add: of_nat_diff)
  show "of_int (int b ^ (p - 1)) \<le> \<bar>x\<bar> / u"
    using magnitude_bounds(1) [OF assms(1)] u by (simp add: e2 [symmetric] pos_le_divide_eq)
  show "\<bar>x\<bar> / u < of_int (int b ^ p)"
    using magnitude_bounds(2) [OF assms(1)] u by (simp add: e1 [symmetric] pos_divide_less_eq)
qed

lemma round_sig_minus: "round_sig b p (- x) = - round_sig b p x"
  by (simp add: round_sig_def magnitude_def Let_def rhe_minus)

lemma round_sig_0 [simp]: "round_sig b p 0 = 0"
  by (simp add: round_sig_def)

lemma round_sig_range:
  assumes "0 < x"
  shows "of_nat b powi magnitude b x \<le> round_sig b p x"
    "round_sig b p x \<le> of_nat b powi (magnitude b x + 1)"
proof -
  let ?u = "of_nat b powi (magnitude b x - int p + 1) :: rat"
  note sb = scaled_bounds [of x]
  have r: "round_sig b p x = of_int (rhe (x / ?u)) * ?u"
    using assms by (simp add: round_sig_def Let_def)
  have "rhe (of_int (int b ^ (p - 1))) \<le> rhe (x / ?u)"
    using sb(2) assms by (intro rhe_mono) simp
  then have l: "int b ^ (p - 1) \<le> rhe (x / ?u)" by (simp only: rhe_of_int)
  have "rhe (x / ?u) \<le> rhe (of_int (int b ^ p))"
    using sb(3) assms by (intro rhe_mono) simp
  then have h: "rhe (x / ?u) \<le> int b ^ p" by (simp only: rhe_of_int)
  show "of_nat b powi magnitude b x \<le> round_sig b p x"
    unfolding r using sb(1,5) assms l by (metis less_imp_neq mult_right_mono of_int_le_iff order_less_imp_le)
  show "round_sig b p x \<le> of_nat b powi (magnitude b x + 1)"
    unfolding r using sb(1,4) assms h by (metis less_imp_neq mult_right_mono of_int_le_iff order_less_imp_le)
qed

lemma round_sig_pos: "0 < x \<Longrightarrow> 0 < round_sig b p x"
  using round_sig_range(1) powi_pos by (meson less_le_trans)

lemma round_sig_neg: "x < 0 \<Longrightarrow> round_sig b p x < 0"
  using round_sig_pos [of "- x"] by (simp add: round_sig_minus)

lemma round_sig_eq_0 [simp]: "round_sig b p x = 0 \<longleftrightarrow> x = 0"
  using round_sig_pos [of x] round_sig_neg [of x] by (cases x "0::rat" rule: linorder_cases) auto

lemma round_sig_pos_iff [simp]: "0 < round_sig b p x \<longleftrightarrow> 0 < x"
  using round_sig_pos [of x] round_sig_neg [of x] by (cases x "0::rat" rule: linorder_cases) auto

lemma round_sig_neg_iff [simp]: "round_sig b p x < 0 \<longleftrightarrow> x < 0"
  using round_sig_pos_iff [of "- x"] by (simp add: round_sig_minus del: round_sig_pos_iff)

lemma round_sig_nonneg_iff [simp]: "0 \<le> round_sig b p x \<longleftrightarrow> 0 \<le> x"
  by (simp add: not_less [symmetric])

lemma magnitude_mono: "0 < x \<Longrightarrow> x \<le> y \<Longrightarrow> magnitude b x \<le> magnitude b y"
proof -
  assume "0 < x" "x \<le> y"
  then have "of_nat b powi magnitude b x < (of_nat b powi (magnitude b y + 1) :: rat)"
    using magnitude_bounds [of x] magnitude_bounds [of y] by simp
  then show ?thesis by (simp add: powi_less_iff)
qed

lemma round_sig_mono_pos:
  assumes "0 < x" "x \<le> y"
  shows "round_sig b p x \<le> round_sig b p y"
proof (cases "magnitude b x = magnitude b y")
  case True
  with assms show ?thesis
    by (auto simp: round_sig_def Let_def intro!: mult_right_mono rhe_mono divide_right_mono
        less_imp_le [OF powi_pos])
next
  case False
  with magnitude_mono [OF assms] have "magnitude b x + 1 \<le> magnitude b y" by simp
  then have "(of_nat b powi (magnitude b x + 1) :: rat) \<le> of_nat b powi magnitude b y"
    by (rule powi_mono)
  with round_sig_range(2) [of x] round_sig_range(1) [of y] assms show ?thesis by simp
qed

lemma round_sig_mono: "x \<le> y \<Longrightarrow> round_sig b p x \<le> round_sig b p y"
proof (cases "0 < x")
  case False
  assume xy: "x \<le> y"
  show ?thesis
  proof (cases "y < 0")
    case True
    with xy have "round_sig b p (- y) \<le> round_sig b p (- x)" by (intro round_sig_mono_pos) auto
    then show ?thesis by (simp add: round_sig_minus)
  next
    case neg: False
    with False have "round_sig b p x \<le> 0" "0 \<le> round_sig b p y"
      using round_sig_pos_iff [of x] by (simp_all only: not_less [symmetric] round_sig_pos_iff round_sig_neg_iff not_False_eq_True)
    then show ?thesis by (rule order_trans)
  qed
qed (rule round_sig_mono_pos)

lemma round_sig_eval:
  assumes "of_nat b powi m \<le> \<bar>x\<bar>" "\<bar>x\<bar> < of_nat b powi (m + 1)"
  shows "round_sig b p x = of_int (rhe (x / of_nat b powi (m - int p + 1))) * of_nat b powi (m - int p + 1)"
proof -
  have x: "x \<noteq> 0" using assms(1) powi_pos [of m] by auto
  have "(of_nat b powi magnitude b x :: rat) < of_nat b powi (m + 1)"
    "(of_nat b powi m :: rat) < of_nat b powi (magnitude b x + 1)"
    using magnitude_bounds [OF x] assms by (simp_all only: le_less_trans)
  then have "magnitude b x = m" by (simp add: powi_less_iff)
  then show ?thesis using x by (simp add: round_sig_def Let_def)
qed

lemma scale_abs: "0 < (u::rat) \<Longrightarrow> \<bar>x / u - r\<bar> * u = \<bar>x - r * u\<bar>"
proof -
  assume u: "0 < u"
  then have "\<bar>x / u - r\<bar> * u = \<bar>(x / u - r) * u\<bar>" by (simp add: abs_mult)
  also have "(x / u - r) * u = x - r * u" using u by (simp add: left_diff_distrib)
  finally show ?thesis .
qed

lemma scale_back: "0 < (u::rat) \<Longrightarrow> x / u * u = x"
  by simp

lemma round_sig_exact:
  fixes x :: rat
  assumes x: "x = of_int k * of_nat b powi q" and k: "\<bar>k\<bar> < int b ^ p"
  shows "round_sig b p x = x"
proof (cases "x = 0")
  case False
  let ?e = "magnitude b x - int p + 1"
  have "of_nat b powi magnitude b x \<le> \<bar>x\<bar>" using magnitude_bounds(1) [OF False] .
  also have "\<bar>x\<bar> = of_int \<bar>k\<bar> * of_nat b powi q"
    using powi_pos [of q] by (simp add: x abs_mult)
  also have "\<dots> < of_int (int b ^ p) * of_nat b powi q"
    using k powi_pos [of q] by (intro mult_strict_right_mono) (simp_all only: of_int_less_iff)
  also have "\<dots> = of_nat b powi (int p + q)" by (simp add: powi_add)
  finally have e: "?e \<le> q" by (simp add: powi_less_iff)
  have "x / of_nat b powi ?e = of_int k * of_nat b powi (q - ?e)"
    using b_pos by (simp add: x power_int_diff)
  also have "\<dots> = of_int (k * int b ^ nat (q - ?e))"
    using e by (metis diff_ge_0_iff_ge nat_0_le of_int_mult powi_nat)
  finally have xe: "x / of_nat b powi ?e = of_int (k * int b ^ nat (q - ?e))" .
  have "round_sig b p x = of_int (rhe (x / of_nat b powi ?e)) * of_nat b powi ?e"
    using False by (simp add: round_sig_def Let_def)
  also have "\<dots> = x / of_nat b powi ?e * of_nat b powi ?e" by (simp only: xe rhe_of_int)
  also have "\<dots> = x" by (rule scale_back [OF powi_pos])
  finally show ?thesis .
qed simp

lemma round_sig_error: "\<bar>round_sig b p x - x\<bar> \<le> \<bar>x\<bar> / of_nat b ^ (p - 1) / 2"
proof (cases "x = 0")
  case False
  let ?u = "of_nat b powi (magnitude b x - int p + 1) :: rat"
  note sb = scaled_bounds [OF False]
  have "\<bar>x / ?u - of_int (rhe (x / ?u))\<bar> \<le> 1 / 2" by (rule rhe_error)
  then have "\<bar>x / ?u - of_int (rhe (x / ?u))\<bar> * ?u \<le> 1 / 2 * ?u"
    using sb(1) by (intro mult_right_mono) auto
  moreover have "\<bar>x / ?u - of_int (rhe (x / ?u))\<bar> * ?u = \<bar>x - of_int (rhe (x / ?u)) * ?u\<bar>"
    using scale_abs [OF sb(1)] .
  moreover have "round_sig b p x = of_int (rhe (x / ?u)) * ?u"
    using False by (simp add: round_sig_def Let_def)
  moreover have "?u \<le> \<bar>x\<bar> / of_nat b ^ (p - 1)"
    using sb(1,2) b_pos by (simp add: pos_le_divide_eq field_simps)
  ultimately show ?thesis by (simp add: abs_minus_commute)
qed simp

end

section \<open>The two instances the program uses\<close>

interpretation dec28: significant_digits 10 28
  by unfold_locales auto

interpretation binary64: significant_digits 2 53
  by unfold_locales auto

section \<open>The operators of Decimal\<close>

definition dadd :: "rat \<Rightarrow> rat \<Rightarrow> rat" where "dadd x y = rnd28 (x + y)"
definition dsub :: "rat \<Rightarrow> rat \<Rightarrow> rat" where "dsub x y = rnd28 (x - y)"
definition dmul :: "rat \<Rightarrow> rat \<Rightarrow> rat" where "dmul x y = rnd28 (x * y)"
definition dneg :: "rat \<Rightarrow> rat" where "dneg x = rnd28 (- x)"
definition dabs :: "rat \<Rightarrow> rat" where "dabs x = rnd28 \<bar>x\<bar>"

text \<open>The quotient of a division whose divisor is known to be nonzero.\<close>

definition dquot :: "rat \<Rightarrow> rat \<Rightarrow> rat" where "dquot x y = rnd28 (x / y)"

text \<open>
  \<^verbatim>\<open>x // y\<close> for a nonzero divisor: the exact quotient truncated towards zero, \<open>None\<close> (an
  InvalidOperation) when it needs more than 28 digits.
\<close>

definition dfloordiv :: "rat \<Rightarrow> rat \<Rightarrow> int option" where
  "dfloordiv x y = (let q = x / y; t = (if 0 \<le> q then \<lfloor>q\<rfloor> else - \<lfloor>- q\<rfloor>) in
     if \<bar>t\<bar> < 10 ^ 28 then Some t else None)"

text \<open>\<^verbatim>\<open>sum(xs, start)\<close> adds from the left, rounding after every addition.\<close>

fun dsum :: "rat \<Rightarrow> rat list \<Rightarrow> rat" where
  "dsum s [] = s"
| "dsum s (x # xs) = dsum (dadd s x) xs"

text \<open>\<^verbatim>\<open>round(float(x))\<close>: binary64 first, then to the nearest integer, ties to even.\<close>

definition round_float :: "rat \<Rightarrow> int" where
  "round_float x = rhe (to_float x)"

lemma rnd28_0 [simp]: "rnd28 0 = 0"
  by (simp add: rnd28_def)

lemma rnd28_mono: "x \<le> y \<Longrightarrow> rnd28 x \<le> rnd28 y"
  unfolding rnd28_def by (rule dec28.round_sig_mono)

lemma rnd28_minus: "rnd28 (- x) = - rnd28 x"
  unfolding rnd28_def by (rule dec28.round_sig_minus)

lemma rnd28_sign [simp]:
  "rnd28 x = 0 \<longleftrightarrow> x = 0" "0 < rnd28 x \<longleftrightarrow> 0 < x" "rnd28 x < 0 \<longleftrightarrow> x < 0"
  "0 \<le> rnd28 x \<longleftrightarrow> 0 \<le> x" "rnd28 x \<le> 0 \<longleftrightarrow> x \<le> 0"
  unfolding rnd28_def by (simp_all add: not_less [symmetric])

lemma dsub_sign [simp]:
  "dsub x y = 0 \<longleftrightarrow> x = y" "0 < dsub x y \<longleftrightarrow> y < x" "dsub x y < 0 \<longleftrightarrow> x < y"
  "0 \<le> dsub x y \<longleftrightarrow> y \<le> x" "dsub x y \<le> 0 \<longleftrightarrow> x \<le> y"
  by (auto simp: dsub_def)

lemma dmul_sign [simp]:
  "dmul x y = 0 \<longleftrightarrow> x = 0 \<or> y = 0" "dmul x y < 0 \<longleftrightarrow> x * y < 0" "0 < dmul x y \<longleftrightarrow> 0 < x * y"
  "0 \<le> dmul x y \<longleftrightarrow> 0 \<le> x * y"
  by (auto simp: dmul_def)

lemma dquot_sign [simp]:
  "0 < dquot x y \<longleftrightarrow> 0 < x / y" "dquot x y < 0 \<longleftrightarrow> x / y < 0" "0 \<le> dquot x y \<longleftrightarrow> 0 \<le> x / y"
  by (auto simp: dquot_def)

lemma dsub_self [simp]: "dsub x x = 0"
  by (simp add: dsub_def)

lemma dabs_nonneg [simp]: "0 \<le> dabs x" "dabs x = 0 \<longleftrightarrow> x = 0"
  by (simp_all add: dabs_def)

lemma dadd_mono: "x \<le> x' \<Longrightarrow> y \<le> y' \<Longrightarrow> dadd x y \<le> dadd x' y'"
  by (auto simp: dadd_def intro: rnd28_mono add_mono)

lemma dsub_mono: "x \<le> x' \<Longrightarrow> y' \<le> y \<Longrightarrow> dsub x y \<le> dsub x' y'"
  by (auto simp: dsub_def intro: rnd28_mono diff_mono)

lemma dsum_append: "dsum s (xs @ ys) = dsum (dsum s xs) ys"
  by (induction xs arbitrary: s) auto

section \<open>Values on the ounce grid: where the arithmetic is exact\<close>

text \<open>
  Quantities have at most nine decimal places (the fixed precision of the venue's quantity
  type). On that grid and below 10 to the power 19 the 28 digits suffice, and below
  4194304 ounces the detour through binary64 does not change the rounding to an integer.
\<close>

definition on_grid :: "rat \<Rightarrow> bool" where
  "on_grid x \<longleftrightarrow> of_int \<lfloor>x * 1000000000\<rfloor> = x * 1000000000"

lemma on_gridI: "x * 1000000000 = of_int n \<Longrightarrow> on_grid x"
  by (simp add: on_grid_def)

lemma on_gridE:
  assumes "on_grid x"
  obtains n where "x = of_int n / 1000000000"
  using assms by (metis (no_types) on_grid_def nonzero_mult_div_cancel_right zero_neq_numeral)

lemma on_grid_of_int [simp]: "on_grid (of_int n)"
  by (rule on_gridI [of _ "n * 1000000000"]) simp

lemma on_grid_numeral [simp]: "on_grid 0" "on_grid 1" "on_grid (numeral k)" "on_grid (1/2)"
  using on_grid_of_int [of 0] on_grid_of_int [of 1] on_grid_of_int [of "numeral k"]
  by (simp_all add: on_gridI [of _ 500000000])

lemma on_grid_uminus: "on_grid x \<Longrightarrow> on_grid (- x)"
proof (erule on_gridE)
  fix n assume "x = of_int n / 1000000000"
  then show "on_grid (- x)" by (intro on_gridI [of _ "- n"]) simp
qed

lemma on_grid_minus [simp]: "on_grid (- x) \<longleftrightarrow> on_grid x"
  using on_grid_uminus [of x] on_grid_uminus [of "- x"] by auto

lemma on_grid_add [simp, intro]: "on_grid x \<Longrightarrow> on_grid y \<Longrightarrow> on_grid (x + y)"
proof (elim on_gridE)
  fix n m assume "x = of_int n / 1000000000" "y = of_int m / 1000000000"
  then show "on_grid (x + y)" by (intro on_gridI [of _ "n + m"]) (simp add: add_divide_distrib [symmetric])
qed

lemma on_grid_diff [simp, intro]: "on_grid x \<Longrightarrow> on_grid y \<Longrightarrow> on_grid (x - y)"
  using on_grid_add [of x "- y"] by simp

lemma on_grid_sum_list [simp, intro]: "(\<And>x. x \<in> set xs \<Longrightarrow> on_grid x) \<Longrightarrow> on_grid (sum_list xs)"
  by (induction xs) auto

lemma on_grid_abs [simp, intro]: "on_grid x \<Longrightarrow> on_grid \<bar>x\<bar>"
  by (simp add: abs_if)

lemma on_grid_min [simp, intro]: "on_grid x \<Longrightarrow> on_grid y \<Longrightarrow> on_grid (min x y)"
  by (simp add: min_def)

lemma rnd28_exact:
  assumes "on_grid x" "\<bar>x\<bar> < 10 ^ 19"
  shows "rnd28 x = x"
proof -
  obtain n where n: "x = of_int n / 1000000000" using assms(1) by (rule on_gridE)
  have "\<bar>x\<bar> * 1000000000 < 10 ^ 19 * 1000000000"
    using assms(2) by (intro mult_strict_right_mono) auto
  then have "(of_int \<bar>n\<bar> :: rat) < of_int (10 ^ 28)" by (simp add: n)
  then have "\<bar>n\<bar> < int 10 ^ 28" by (simp only: of_int_less_iff of_nat_numeral)
  moreover have "x = of_int n * of_nat 10 powi (- 9)"
    by (simp add: n power_int_minus)
  ultimately show ?thesis unfolding rnd28_def by (rule dec28.round_sig_exact [rotated])
qed

lemma dadd_exact: "on_grid x \<Longrightarrow> on_grid y \<Longrightarrow> \<bar>x + y\<bar> < 10 ^ 19 \<Longrightarrow> dadd x y = x + y"
  unfolding dadd_def by (rule rnd28_exact) auto

lemma dsub_exact: "on_grid x \<Longrightarrow> on_grid y \<Longrightarrow> \<bar>x - y\<bar> < 10 ^ 19 \<Longrightarrow> dsub x y = x - y"
  unfolding dsub_def by (rule rnd28_exact) auto

lemma dabs_exact: "on_grid x \<Longrightarrow> \<bar>x\<bar> < 10 ^ 19 \<Longrightarrow> dabs x = \<bar>x\<bar>"
  unfolding dabs_def by (rule rnd28_exact) auto

lemma dmul_unit_exact:
  "on_grid x \<Longrightarrow> \<bar>x\<bar> < 10 ^ 19 \<Longrightarrow> dmul 1 x = x" "on_grid x \<Longrightarrow> \<bar>x\<bar> < 10 ^ 19 \<Longrightarrow> dmul (- 1) x = - x"
  unfolding dmul_def by (simp_all add: rnd28_exact)

lemma dneg_exact: "on_grid x \<Longrightarrow> \<bar>x\<bar> < 10 ^ 19 \<Longrightarrow> dneg x = - x"
  unfolding dneg_def by (rule rnd28_exact) auto

lemma dsum_exact:
  "on_grid s \<Longrightarrow> (\<And>x. x \<in> set xs \<Longrightarrow> on_grid x) \<Longrightarrow> \<bar>s\<bar> + sum_list (map abs xs) < 10 ^ 19
    \<Longrightarrow> dsum s xs = s + sum_list xs"
proof (induction xs arbitrary: s)
  case (Cons x xs)
  have nn: "0 \<le> sum_list (map abs xs)" by (rule sum_list_nonneg) auto
  have b: "\<bar>s + x\<bar> + sum_list (map abs xs) < 10 ^ 19"
    using Cons.prems(3) abs_triangle_ineq [of s x] by simp
  then have "dadd s x = s + x"
    using Cons.prems nn by (intro dadd_exact) auto
  then show ?case using Cons.IH [of "s + x"] Cons.prems b by simp
qed simp

section \<open>Rounding ounces to whole ounces\<close>

lemma rhe_eqI: "\<bar>x - of_int n\<bar> < 1/2 \<Longrightarrow> rhe x = n"
proof -
  assume a: "\<bar>x - of_int n\<bar> < 1/2"
  have e: "\<bar>x - of_int (rhe x)\<bar> \<le> 1/2" by (rule rhe_error)
  have "\<bar>of_int (rhe x) - of_int n\<bar> < (1::rat)" using a e by linarith
  then have "of_int \<bar>rhe x - n\<bar> < (of_int 1 :: rat)" by simp
  then have "\<bar>rhe x - n\<bar> < 1" by (simp only: of_int_less_iff)
  then show ?thesis by simp
qed

lemma to_float_error: "\<bar>to_float x - x\<bar> \<le> \<bar>x\<bar> / 2 ^ 53"
  using binary64.round_sig_error [of x] by (simp add: to_float_def)

lemma to_float_half:
  assumes "\<bar>n\<bar> < 2 ^ 50"
  shows "to_float (of_int n + 1/2) = of_int n + 1/2"
proof -
  have "(of_int n + 1/2 :: rat) = of_int (2 * n + 1) * of_nat 2 powi (- 1 :: int)"
    by (simp add: power_int_minus field_simps)
  moreover have "\<bar>2 * n + 1\<bar> < int 2 ^ 53" using assms by simp
  ultimately show ?thesis unfolding to_float_def by (rule binary64.round_sig_exact)
qed

lemma round_float_error: "\<bar>x - of_int (round_float x)\<bar> \<le> 1/2 + \<bar>x\<bar> / 2 ^ 53"
proof -
  let ?y = "to_float x"
  have "\<bar>x - of_int (rhe ?y)\<bar> \<le> \<bar>?y - of_int (rhe ?y)\<bar> + \<bar>?y - x\<bar>" by linarith
  then show ?thesis using rhe_error [of ?y] to_float_error [of x] by (simp only: round_float_def)
qed

lemma round_float_eq_rhe:
  assumes g: "on_grid x" and b: "\<bar>x\<bar> < 4194304"
  shows "round_float x = rhe x"
proof (cases "\<bar>x - of_int (rhe x)\<bar> = 1/2")
  case True
  define n where "n = (if x < of_int (rhe x) then rhe x - 1 else rhe x)"
  have x: "x = of_int n + 1/2" using True by (auto simp: n_def abs_if split: if_splits)
  have "of_int \<bar>n\<bar> < (of_int (2 ^ 50) :: rat)" using b x by (simp add: abs_if split: if_splits)
  then have "\<bar>n\<bar> < 2 ^ 50" by (simp only: of_int_less_iff)
  then show ?thesis using to_float_half [of n] by (simp add: round_float_def x)
next
  case False
  obtain k where k: "x - of_int (rhe x) = of_int k / 1000000000"
    using on_grid_diff [OF g on_grid_of_int] by (rule on_gridE)
  have "\<bar>x - of_int (rhe x)\<bar> < 1/2" using False rhe_error [of x] by linarith
  then have "\<bar>k\<bar> < 500000000" by (simp add: k abs_divide)
  then have "\<bar>k\<bar> \<le> 499999999" by simp
  then have d: "\<bar>x - of_int (rhe x)\<bar> \<le> 499999999 / 1000000000" by (simp add: k abs_divide)
  have "\<bar>to_float x - x\<bar> \<le> \<bar>x\<bar> / 2 ^ 53" by (rule to_float_error)
  also have "\<dots> < 1 / 2000000000" using b by simp
  finally have "\<bar>to_float x - of_int (rhe x)\<bar> < 1/2" using d by linarith
  then show ?thesis unfolding round_float_def by (rule rhe_eqI)
qed

text \<open>Binary64 is visible: half an ounce plus a tiny amount rounds down, as the tie does.\<close>

lemma round_float_tie_detour: "round_float (1/2 + 1 / 10 ^ 25) = 0"
proof -
  have "to_float (1/2 + 1 / 10 ^ 25) = of_int (rhe ((1/2 + 1 / 10 ^ 25) / 2 powi (- 1 - 53 + 1))) * 2 powi (- 1 - 53 + 1)"
    using binary64.round_sig_eval [of "- 1" "1/2 + 1 / 10 ^ 25"] by (simp add: to_float_def power_int_minus)
  also have "rhe ((1/2 + 1 / 10 ^ 25) / 2 powi (- 1 - 53 + 1)) = 4503599627370496"
    by (rule rhe_eqI) (simp add: power_int_minus)
  also have "of_int 4503599627370496 * 2 powi (- 1 - 53 + 1) = (1/2 :: rat)"
    by (simp add: power_int_minus)
  finally have "round_float (1/2 + 1 / 10 ^ 25) = rhe (1/2)" unfolding round_float_def by (rule arg_cong)
  then show ?thesis by (simp add: rhe_def)
qed

end
