(* ===== verification/Prelude.thy ===== *)
theory Prelude
  imports Py_Decimal "HOL-Library.AList" "HOL-Library.List_Lexorder" "HOL-Library.Char_ord"
begin

text \<open>
  What every component shares: exceptions as values, insertion-ordered dictionaries, the text
  operations the stores use on identifiers, and the collections of rules their proofs name.

  A Python call that may raise returns \<open>exn + 'a\<close>. The constructor is the exception's class,
  its argument the message where the program reads it back. A \<^verbatim>\<open>dict\<close> is an association
  list in insertion order: \<open>AList.update\<close> keeps the place of an existing key and appends a
  new one, as Python does. Text is a list of bytes, compared lexicographically, which agrees
  with Python's comparison by code point on UTF-8 text.
\<close>

section \<open>Exceptions\<close>

datatype exn =
    ValueError string
  | TypeError string
  | RuntimeError string
  | KeyError
  | IndexError
  | ArithmeticError
  | OSError
  | ParentDirectorySyncError
  | HedgePlanningError string
  | HedgeLaneBusy string

text \<open>\<^verbatim>\<open>str(exc)\<close>, as far as the program stores it.\<close>

fun exn_text :: "exn \<Rightarrow> string" where
  "exn_text (ValueError m) = m"
| "exn_text (TypeError m) = m"
| "exn_text (RuntimeError m) = m"
| "exn_text (HedgePlanningError m) = m"
| "exn_text (HedgeLaneBusy m) = m"
| "exn_text _ = []"

definition bindE :: "'e + 'a \<Rightarrow> ('a \<Rightarrow> 'e + 'b) \<Rightarrow> 'e + 'b" where
  "bindE m f = (case m of Inl e \<Rightarrow> Inl e | Inr x \<Rightarrow> f x)"

definition guardE :: "bool \<Rightarrow> 'e \<Rightarrow> 'e + unit" where
  "guardE ok e = (if ok then Inr () else Inl e)"

text \<open>A chain of early raises succeeds iff no guard fires.\<close>

lemma if_Inl_eq_Inr [simp]: "((if b then Inl e else m) = Inr r) \<longleftrightarrow> \<not> b \<and> m = Inr r"
  by simp

lemma if_Inl_Inr_unit [simp]: "((if b then Inl e else Inr ()) = Inr r) \<longleftrightarrow> \<not> b"
  by simp

text \<open>A loop whose body may raise, collecting the results.\<close>

fun mapE :: "('a \<Rightarrow> 'e + 'b) \<Rightarrow> 'a list \<Rightarrow> 'e + 'b list" where
  "mapE f [] = Inr []"
| "mapE f (x # xs) = bindE (f x) (\<lambda>y. bindE (mapE f xs) (\<lambda>ys. Inr (y # ys)))"

text \<open>A loop that threads a state and may raise.\<close>

fun foldE :: "('a \<Rightarrow> 's \<Rightarrow> 'e + 's) \<Rightarrow> 'a list \<Rightarrow> 's \<Rightarrow> 'e + 's" where
  "foldE f [] s = Inr s"
| "foldE f (x # xs) s = bindE (f x s) (foldE f xs)"

lemma bindE_simps [simp]:
  "bindE (Inl e) f = Inl e" "bindE (Inr x) f = f x"
  by (simp_all add: bindE_def)

lemma bindE_Inr_iff: "bindE m f = Inr y \<longleftrightarrow> (\<exists>x. m = Inr x \<and> f x = Inr y)"
  by (cases m) auto

lemma bindE_InrE:
  assumes "bindE m f = Inr y"
  obtains x where "m = Inr x" "f x = Inr y"
  using assms by (auto simp: bindE_Inr_iff)

lemma if_InlE:
  assumes "(if b then Inl e else m) = Inr y"
  obtains "\<not> b" "m = Inr y"
  using assms by (auto split: if_splits)

lemma bindE_Inl_iff: "bindE m f = Inl e \<longleftrightarrow> m = Inl e \<or> (\<exists>x. m = Inr x \<and> f x = Inl e)"
  by (cases m) auto

lemma guardE_simps [simp]:
  "guardE ok e = Inr u \<longleftrightarrow> ok" "guardE ok e = Inl e' \<longleftrightarrow> \<not> ok \<and> e' = e"
  "guardE True e = Inr ()" "guardE False e = Inl e"
  by (auto simp: guardE_def)

lemma bindE_guard: "bindE (guardE ok e) f = (if ok then f () else Inl e)"
  by (simp add: guardE_def)

lemma mapE_length: "mapE f xs = Inr ys \<Longrightarrow> length ys = length xs"
  by (induction xs arbitrary: ys) (auto simp: bindE_Inr_iff)

lemma mapE_nth: "mapE f xs = Inr ys \<Longrightarrow> i < length xs \<Longrightarrow> f (xs ! i) = Inr (ys ! i)"
  by (induction xs arbitrary: ys i) (auto simp: bindE_Inr_iff nth_Cons split: nat.splits)

lemma mapE_all: "mapE f xs = Inr ys \<Longrightarrow> x \<in> set xs \<Longrightarrow> \<exists>y \<in> set ys. f x = Inr y"
  by (induction xs arbitrary: ys) (auto simp: bindE_Inr_iff)

lemma mapE_Inr: "(\<And>x. x \<in> set xs \<Longrightarrow> f x = Inr (g x)) \<Longrightarrow> mapE f xs = Inr (map g xs)"
  by (induction xs) auto

lemma foldE_append: "foldE f (xs @ ys) s = bindE (foldE f xs s) (foldE f ys)"
  by (induction xs arbitrary: s) (simp_all add: bindE_def split: sum.split)

section \<open>Dictionaries\<close>

abbreviation dict_get :: "('k \<times> 'v) list \<Rightarrow> 'k \<Rightarrow> 'v option" where
  "dict_get d k \<equiv> map_of d k"

abbreviation dict_set :: "'k \<Rightarrow> 'v \<Rightarrow> ('k \<times> 'v) list \<Rightarrow> ('k \<times> 'v) list" where
  "dict_set \<equiv> AList.update"

abbreviation dict_values :: "('k \<times> 'v) list \<Rightarrow> 'v list" where
  "dict_values d \<equiv> map snd d"

abbreviation dict_keys :: "('k \<times> 'v) list \<Rightarrow> 'k set" where
  "dict_keys d \<equiv> fst ` set d"

text \<open>\<^verbatim>\<open>d[k]\<close>.\<close>

definition dict_index :: "('k \<times> 'v) list \<Rightarrow> 'k \<Rightarrow> exn + 'v" where
  "dict_index d k = (case map_of d k of None \<Rightarrow> Inl KeyError | Some v \<Rightarrow> Inr v)"

lemma dict_index_Inr [simp]: "dict_index d k = Inr v \<longleftrightarrow> map_of d k = Some v"
  by (simp add: dict_index_def split: option.splits)

lemma dict_get_set [simp]: "map_of (dict_set k v d) k' = (if k' = k then Some v else map_of d k')"
  by (simp add: update_conv')

lemma dict_set_keys [simp]: "dict_keys (dict_set k v d) = insert k (dict_keys d)"
  by (induction d) auto

lemma dict_set_distinct [simp]: "distinct (map fst d) \<Longrightarrow> distinct (map fst (dict_set k v d))"
  by (rule distinct_update)

lemma dict_set_fresh: "k \<notin> dict_keys d \<Longrightarrow> dict_set k v d = d @ [(k, v)]"
  by (induction d) auto

lemma set_dict_set_subset: "set (dict_set k v d) \<subseteq> insert (k, v) (set d)"
  by (induction d) auto

lemma set_dict_set: "distinct (map fst d) \<Longrightarrow>
    set (dict_set k v d) = insert (k, v) {e \<in> set d. fst e \<noteq> k}"
  by (induction d) (auto simp: rev_image_eqI)

lemma dict_set_split:
  assumes "map_of d k = Some w"
  obtains d1 d2 where "d = d1 @ (k, w) # d2" "k \<notin> dict_keys d1"
    "\<And>v. dict_set k v d = d1 @ (k, v) # d2"
  using assms
proof (induction d arbitrary: thesis)
  case (Cons e d)
  obtain k' w' where e: "e = (k', w')" by (cases e)
  show ?case
  proof (cases "k' = k")
    case True
    with Cons.prems(2) e show ?thesis by (intro Cons.prems(1) [of "[]" d]) auto
  next
    case False
    with Cons.prems(2) e have "map_of d k = Some w" by simp
    then obtain d1 d2 where "d = d1 @ (k, w) # d2" "k \<notin> dict_keys d1"
      "\<And>v. dict_set k v d = d1 @ (k, v) # d2" using Cons.IH by blast
    with False e show ?thesis by (intro Cons.prems(1) [of "e # d1" d2]) auto
  qed
qed simp

text \<open>Replacing one value changes a sum over the dictionary by the difference.\<close>

lemma sum_dict_replace:
  fixes f :: "'v \<Rightarrow> 'a::ab_group_add"
  assumes "map_of d k = Some w"
  shows "sum_list (map (f \<circ> snd) (dict_set k v d)) = sum_list (map (f \<circ> snd) d) - f w + f v"
  using assms by (rule dict_set_split) (simp add: algebra_simps)

lemma sum_dict_fresh:
  fixes f :: "'v \<Rightarrow> 'a::ab_group_add"
  assumes "k \<notin> dict_keys d"
  shows "sum_list (map (f \<circ> snd) (dict_set k v d)) = sum_list (map (f \<circ> snd) d) + f v"
  using assms by (simp add: dict_set_fresh)

section \<open>Code that mutates and may raise\<close>

text \<open>
  A method body maps the object before to the object after and a result; an exception keeps
  what was mutated before it was raised, as in Python, and only an explicit rollback undoes it.
\<close>

type_synonym ('s, 'e, 'a) act = "'s \<Rightarrow> 's \<times> ('e + 'a)"

type_synonym ('s, 'a) tx = "('s, exn, 'a) act"

definition ret_tx :: "'a \<Rightarrow> ('s, 'e, 'a) act" where
  "ret_tx x = (\<lambda>s. (s, Inr x))"

definition raise_tx :: "'e \<Rightarrow> ('s, 'e, 'a) act" where
  "raise_tx e = (\<lambda>s. (s, Inl e))"

definition bind_tx :: "('s, 'e, 'a) act \<Rightarrow> ('a \<Rightarrow> ('s, 'e, 'b) act) \<Rightarrow> ('s, 'e, 'b) act" where
  "bind_tx m f = (\<lambda>s. case m s of (s', Inl e) \<Rightarrow> (s', Inl e) | (s', Inr x) \<Rightarrow> f x s')"

definition modify_tx :: "('s \<Rightarrow> 's) \<Rightarrow> ('s, 'e, unit) act" where
  "modify_tx f = (\<lambda>s. (f s, Inr ()))"

text \<open>A pure computation that may raise.\<close>

definition lift_tx :: "'e + 'a \<Rightarrow> ('s, 'e, 'a) act" where
  "lift_tx r = (\<lambda>s. (s, r))"

fun each_tx :: "('a \<Rightarrow> ('s, 'e, unit) act) \<Rightarrow> 'a list \<Rightarrow> ('s, 'e, unit) act" where
  "each_tx f [] = ret_tx ()"
| "each_tx f (x # xs) = bind_tx (f x) (\<lambda>_. each_tx f xs)"

named_theorems tx_simps \<open>how the combinators run\<close>

lemma bind_tx_run [tx_simps]:
  "m s = (s', Inl e) \<Longrightarrow> bind_tx m f s = (s', Inl e)"
  "m s = (s', Inr x) \<Longrightarrow> bind_tx m f s = f x s'"
  by (simp_all add: bind_tx_def)

lemma tx_run [simp, tx_simps]:
  "ret_tx x s = (s, Inr x)" "raise_tx e s = (s, Inl e)" "modify_tx f s = (f s, Inr ())"
  "lift_tx r s = (s, r)"
  "bind_tx (ret_tx x) k s = k x s" "bind_tx (raise_tx e) k s = (s, Inl e)"
  "bind_tx (modify_tx f) k' s = k' () (f s)"
  "bind_tx (lift_tx (Inr y)) k'' s = k'' y s" "bind_tx (lift_tx (Inl e)) k'' s = (s, Inl e)"
  by (simp_all add: ret_tx_def raise_tx_def modify_tx_def lift_tx_def bind_tx_def)

lemma bind_tx_Inr_iff:
  "bind_tx m f s = (s2, Inr y) \<longleftrightarrow> (\<exists>s1 x. m s = (s1, Inr x) \<and> f x s1 = (s2, Inr y))"
  by (auto simp: bind_tx_def split: prod.splits sum.splits)

lemma bind_tx_Inl_iff:
  "bind_tx m f s = (s2, Inl e) \<longleftrightarrow>
    m s = (s2, Inl e) \<or> (\<exists>s1 x. m s = (s1, Inr x) \<and> f x s1 = (s2, Inl e))"
  by (auto simp: bind_tx_def split: prod.splits sum.splits)

lemma bind_tx_fst:
  "fst (bind_tx m f s) = (case m s of (s', Inl e) \<Rightarrow> s' | (s', Inr x) \<Rightarrow> fst (f x s'))"
  by (simp add: bind_tx_def split: prod.splits sum.splits)

lemma bind_tx_preserves:
  assumes "P s" "\<And>s. P s \<Longrightarrow> P (fst (m s))" "\<And>x s. P s \<Longrightarrow> P (fst (f x s))"
  shows "P (fst (bind_tx m f s))"
  using assms(2) [OF assms(1)] assms(3) by (auto simp: bind_tx_fst split: prod.splits sum.splits)

lemma each_tx_preserves:
  assumes "P s" "\<And>x s. x \<in> set xs \<Longrightarrow> P s \<Longrightarrow> P (fst (f x s))"
  shows "P (fst (each_tx f xs s))"
  using assms
proof (induction xs arbitrary: s)
  case (Cons x xs)
  show ?case
    unfolding each_tx.simps
  proof (rule bind_tx_preserves [of "\<lambda>t. P t"])
    show "P s" by (rule Cons.prems(1))
  qed (use Cons in auto)
qed simp

section \<open>Text\<close>

text \<open>\<^verbatim>\<open>s.split("|")\<close>.\<close>

fun split_bar :: "string \<Rightarrow> string list" where
  "split_bar [] = [[]]"
| "split_bar (c # cs) = (if c = CHR ''|'' then [] # split_bar cs
     else (case split_bar cs of p # ps \<Rightarrow> (c # p) # ps | [] \<Rightarrow> [[c]]))"

lemma split_bar_nonempty [simp]: "split_bar s \<noteq> []"
  by (cases s) (auto split: list.splits)

lemma split_bar_plain: "CHR ''|'' \<notin> set s \<Longrightarrow> split_bar s = [s]"
  by (induction s) auto

lemma split_bar_append: "CHR ''|'' \<notin> set s \<Longrightarrow> split_bar (s @ CHR ''|'' # t) = s # split_bar t"
  by (induction s) auto

definition bar_join2 :: "string \<Rightarrow> string \<Rightarrow> string" where
  "bar_join2 a b = a @ ''|'' @ b"

definition bar_join3 :: "string \<Rightarrow> string \<Rightarrow> string \<Rightarrow> string" where
  "bar_join3 a b c = a @ ''|'' @ b @ ''|'' @ c"

lemma split_bar_join2:
  "CHR ''|'' \<notin> set a \<Longrightarrow> CHR ''|'' \<notin> set b \<Longrightarrow> split_bar (bar_join2 a b) = [a, b]"
  by (simp add: bar_join2_def split_bar_append split_bar_plain)

lemma split_bar_join3:
  "CHR ''|'' \<notin> set a \<Longrightarrow> CHR ''|'' \<notin> set b \<Longrightarrow> CHR ''|'' \<notin> set c
    \<Longrightarrow> split_bar (bar_join3 a b c) = [a, b, c]"
  by (simp add: bar_join3_def split_bar_append split_bar_plain)

text \<open>\<^verbatim>\<open>s.strip()\<close>, for the white space of ASCII.\<close>

definition is_space :: "char \<Rightarrow> bool" where
  "is_space c \<longleftrightarrow> (let n = of_char c :: nat in 9 \<le> n \<and> n \<le> 13 \<or> 28 \<le> n \<and> n \<le> 32)"

definition py_strip :: "string \<Rightarrow> string" where
  "py_strip s = rev (dropWhile is_space (rev (dropWhile is_space s)))"

text \<open>\<^verbatim>\<open>s.isdecimal()\<close> and \<^verbatim>\<open>int(s)\<close> on ASCII digits.\<close>

definition is_digit :: "char \<Rightarrow> bool" where
  "is_digit c \<longleftrightarrow> CHR ''0'' \<le> c \<and> c \<le> CHR ''9''"

definition is_decimal :: "string \<Rightarrow> bool" where
  "is_decimal s \<longleftrightarrow> s \<noteq> [] \<and> list_all is_digit s"

definition digit_value :: "char \<Rightarrow> int" where
  "digit_value c = int (of_char c) - 48"

definition parse_nat :: "string \<Rightarrow> int" where
  "parse_nat s = foldl (\<lambda>n c. 10 * n + digit_value c) 0 s"

text \<open>Decimal text of an integer.\<close>

fun nat_digits :: "nat \<Rightarrow> string" where
  "nat_digits n = (if n < 10 then [char_of (48 + n)] else nat_digits (n div 10) @ [char_of (48 + n mod 10)])"

declare nat_digits.simps [simp del]

definition int_text :: "int \<Rightarrow> string" where
  "int_text i = (if i < 0 then ''-'' @ nat_digits (nat (- i)) else nat_digits (nat i))"

lemma digit_value_char: "n < 10 \<Longrightarrow> digit_value (char_of (48 + n)) = int n"
  by (simp add: digit_value_def)

lemma parse_nat_digits: "parse_nat (nat_digits n) = int n"
proof (induction n rule: nat_digits.induct)
  case (1 n)
  show ?case
  proof (cases "n < 10")
    case True
    then show ?thesis by (simp add: nat_digits.simps [of n] parse_nat_def digit_value_char)
  next
    case False
    then have "parse_nat (nat_digits (n div 10)) = int (n div 10)" by (rule 1)
    then have "parse_nat (nat_digits n) = 10 * int (n div 10) + int (n mod 10)"
      using False by (simp add: nat_digits.simps [of n] parse_nat_def digit_value_char)
    then show ?thesis by presburger
  qed
qed

text \<open>
  The text of a Decimal in the messages of the program: sign, integral part, and the
  fraction without trailing zeros (at most \<open>dec_places\<close> places, more than any quantity has).
\<close>

definition dec_places :: nat where "dec_places = 30"

fun frac_digits :: "nat \<Rightarrow> rat \<Rightarrow> string" where
  "frac_digits 0 x = []"
| "frac_digits (Suc k) x = (if x = 0 then [] else
     char_of (48 + nat \<lfloor>10 * x\<rfloor>) # frac_digits k (10 * x - of_int \<lfloor>10 * x\<rfloor>))"

definition dec_text :: "rat \<Rightarrow> string" where
  "dec_text x = (let a = \<bar>x\<bar>; f = frac_digits dec_places (a - of_int \<lfloor>a\<rfloor>) in
     (if x < 0 then ''-'' else []) @ nat_digits (nat \<lfloor>a\<rfloor>) @ (if f = [] then [] else ''.'' @ f))"

end
