(* ===== verification/Models.thy ===== *)
theory Models
  imports Prelude
begin

text \<open>
  The business records of \<^verbatim>\<open>models.py\<close> and \<^verbatim>\<open>config.py\<close>.

  Every dataclass is a record, every \<^verbatim>\<open>StrEnum\<close> a datatype. A \<^verbatim>\<open>__post_init__\<close> is a function
  that returns the record or the exception it raises; \<^verbatim>\<open>dataclasses.replace\<close> runs it again, so
  the stores call \<open>mk_hedge_intent\<close> wherever the code replaces a field of an intent.
  Isinstance checks are discharged by the types; a Decimal that has passed its finiteness
  check is a rational, and a list index that has passed its sign check is a natural number.
\<close>

section \<open>Enumerations\<close>

datatype source_direction = LONG | SHORT

datatype business_side = BUY | SELL

datatype obligation_status =
  PENDING | SUBMITTING | SUBMITTED | ACCEPTED | COMPLETED | BLOCKED | REJECTED | UNKNOWN

fun direction_value :: "source_direction \<Rightarrow> string" where
  "direction_value LONG = ''bid''"
| "direction_value SHORT = ''ask''"

fun side_value :: "business_side \<Rightarrow> string" where
  "side_value BUY = ''BUY''"
| "side_value SELL = ''SELL''"

fun status_value :: "obligation_status \<Rightarrow> string" where
  "status_value PENDING = ''PENDING''"
| "status_value SUBMITTING = ''SUBMITTING''"
| "status_value SUBMITTED = ''SUBMITTED''"
| "status_value ACCEPTED = ''ACCEPTED''"
| "status_value COMPLETED = ''COMPLETED''"
| "status_value BLOCKED = ''BLOCKED''"
| "status_value REJECTED = ''REJECTED''"
| "status_value UNKNOWN = ''UNKNOWN''"

text \<open>A Decimal before its finiteness check.\<close>

datatype dec = Fin rat | NonFinite

section \<open>Market and account facts\<close>

record book_top =
  bt_bid :: rat
  bt_ask :: rat
  bt_bid_size :: rat
  bt_ask_size :: rat

record source_account =
  sa_account_id :: string
  sa_client_id :: "string option"
  sa_position_ounces :: rat
  sa_max_long_ounces :: rat
  sa_max_short_ounces :: rat
  sa_base_margin_level :: rat

record hedge_account =
  ha_position_ounces :: rat
  ha_max_long_ounces :: rat
  ha_max_short_ounces :: rat

record maker_account =
  ma_account_id :: string
  ma_client_id :: "string option"
  ma_position_ounces :: rat
  ma_max_long_ounces :: rat
  ma_max_short_ounces :: rat

record maker_quote_rec =
  mq_direction :: source_direction
  mq_source_account :: source_account
  mq_hedge_account :: maker_account
  mq_source_price_usdt :: rat
  mq_hedge_reference_price_usd :: rat
  mq_quantity_ounces :: rat
  mq_adjusted_spread :: rat
  mq_leverage :: int

record opportunity =
  op_direction :: source_direction
  op_source_account :: source_account
  op_source_price_usdt :: rat
  op_hedge_reference_price_usd :: rat
  op_source_quantity_ounces :: rat
  op_net_return :: rat
  op_leverage :: int

section \<open>Configuration\<close>

record carry_config =
  cc_bitfinex_long :: rat
  cc_bitfinex_short :: rat
  cc_mt5_long_swap :: rat
  cc_mt5_short_swap :: rat
  cc_total_trade_fee :: rat

record fx_config =
  fx_usd_usdt_bid :: rat
  fx_usd_usdt_ask :: rat

record risk_config =
  rc_source_max_abs :: rat
  rc_hedge_max_abs :: rat
  rc_source_min_keep_abs :: rat
  rc_hedge_min_keep_abs :: rat
  rc_only_long :: bool

record taker_economics_config =
  te_base_book_quantity :: rat
  te_open_quantity_long :: rat
  te_open_quantity_short :: rat
  te_threshold_long :: rat
  te_threshold_short :: rat
  te_margin_level :: rat
  te_carry :: carry_config
  te_fx :: fx_config
  te_risk :: risk_config

record source_account_route =
  sr_account_id :: string
  sr_max_long_ounces :: dec
  sr_max_short_ounces :: dec
  sr_client_id :: "string option"
  sr_base_margin_level :: dec

record hedge_account_route =
  hr_account_id :: string
  hr_max_long_ounces :: dec
  hr_max_short_ounces :: dec
  hr_client_id :: "string option"

record maker_side_config =
  ms_open_quantity_ounces :: rat
  ms_open_spread :: rat
  ms_delta :: rat

record maker_economics_config =
  me_bid :: maker_side_config
  me_ask :: maker_side_config
  me_margin_level :: rat
  me_carry :: carry_config
  me_fx :: fx_config
  me_risk :: risk_config

record maker_strategy_config =
  mc_source_accounts :: "source_account_route list"
  mc_hedge_accounts :: "hedge_account_route list"
  mc_economics :: maker_economics_config
  mc_residual_mode :: string
  mc_residual_limit_ounces :: dec
  mc_max_unhedged_ounces :: "dec option"
  mc_keep_last_accounts :: bool
  mc_cross_clamp_ticks :: int

definition check_maker_strategy_config :: "maker_strategy_config \<Rightarrow> exn + unit" where
  "check_maker_strategy_config c =
    (if mc_keep_last_accounts c then
       Inl (ValueError ''keep_last_accounts is not restart-safe and is unsupported'')
     else if mc_cross_clamp_ticks c \<le> 0 then
       Inl (ValueError ''cross_clamp_ticks must be positive'')
     else if mc_residual_mode c \<noteq> ''strict'' \<and> mc_residual_mode c \<noteq> ''bounded-carry'' then
       Inl (ValueError ''unsupported Maker residual mode'')
     else case mc_residual_limit_ounces c of
       NonFinite \<Rightarrow> Inl (ValueError ''Maker residual limit must be finite and between zero and 0.5'')
     | Fin limit \<Rightarrow>
       if \<not> (0 \<le> limit \<and> limit \<le> 1/2) then
         Inl (ValueError ''Maker residual limit must be finite and between zero and 0.5'')
       else if mc_residual_mode c = ''strict'' then
         (if limit \<noteq> 0 \<or> mc_max_unhedged_ounces c \<noteq> None then
            Inl (ValueError ''strict Maker requires zero residual limit and no carry budget'')
          else Inr ())
       else if limit = 0 \<or> (case mc_max_unhedged_ounces c of Some (Fin b) \<Rightarrow> b \<le> 0 | _ \<Rightarrow> True) then
         Inl (ValueError ''bounded-carry requires positive residual and exposure budgets'')
       else if length (mc_source_accounts c) \<noteq> 1 \<or> length (mc_hedge_accounts c) \<noteq> 1 then
         Inl (ValueError ''bounded-carry requires one explicit source and hedge account route'')
       else Inr ())"

section \<open>Hedge legs\<close>

record hedge_leg =
  leg_side :: business_side
  leg_quantity_ounces :: rat
  leg_position_id :: "string option"
  leg_expected_position_side :: "business_side option"
  leg_expected_position_quantity_ounces :: "rat option"

definition leg_is_close :: "hedge_leg \<Rightarrow> bool" where
  "leg_is_close leg \<longleftrightarrow> leg_position_id leg \<noteq> None"

definition make_hedge_leg ::
  "business_side \<Rightarrow> dec \<Rightarrow> string option \<Rightarrow> business_side option \<Rightarrow> dec option \<Rightarrow> exn + hedge_leg"
where
  "make_hedge_leg side quantity position_id expected_side expected_quantity =
    (case quantity of
       NonFinite \<Rightarrow> Inl (ValueError ''hedge leg quantity must be a positive finite Decimal'')
     | Fin q \<Rightarrow>
       if q \<le> 0 then Inl (ValueError ''hedge leg quantity must be a positive finite Decimal'')
       else case position_id of
         Some pid \<Rightarrow>
           if pid = [] then Inl (ValueError ''hedge close leg position ID must not be empty'')
           else (case expected_side of
             None \<Rightarrow> Inl (TypeError ''hedge close leg requires the expected position side'')
           | Some eside \<Rightarrow> (case expected_quantity of
               Some (Fin eq) \<Rightarrow>
                 if eq \<le> 0 then
                   Inl (ValueError ''hedge close leg requires a positive expected position quantity'')
                 else if eside = side then
                   Inl (ValueError ''hedge close leg side must oppose the position side'')
                 else if eq < q then
                   Inl (ValueError ''hedge close leg exceeds the expected position quantity'')
                 else Inr \<lparr>leg_side = side, leg_quantity_ounces = q, leg_position_id = Some pid,
                   leg_expected_position_side = Some eside,
                   leg_expected_position_quantity_ounces = Some eq\<rparr>
             | _ \<Rightarrow> Inl (ValueError ''hedge close leg requires a positive expected position quantity'')))
       | None \<Rightarrow>
           if expected_side \<noteq> None then
             Inl (ValueError ''hedge open leg cannot bind an expected position side'')
           else if expected_quantity \<noteq> None then
             Inl (ValueError ''hedge open leg cannot bind an expected position quantity'')
           else Inr \<lparr>leg_side = side, leg_quantity_ounces = q, leg_position_id = None,
             leg_expected_position_side = None, leg_expected_position_quantity_ounces = None\<rparr>)"

text \<open>What a constructed leg satisfies.\<close>

definition valid_leg :: "hedge_leg \<Rightarrow> bool" where
  "valid_leg leg \<longleftrightarrow> 0 < leg_quantity_ounces leg \<and>
    (case leg_position_id leg of
       None \<Rightarrow> leg_expected_position_side leg = None \<and> leg_expected_position_quantity_ounces leg = None
     | Some pid \<Rightarrow> pid \<noteq> [] \<and>
         (\<exists>s eq. leg_expected_position_side leg = Some s \<and> s \<noteq> leg_side leg \<and>
           leg_expected_position_quantity_ounces leg = Some eq \<and> leg_quantity_ounces leg \<le> eq))"

lemma make_hedge_leg_valid: "make_hedge_leg s q p es eq = Inr leg \<Longrightarrow> valid_leg leg"
  by (auto simp: make_hedge_leg_def valid_leg_def split: dec.splits option.splits if_splits)

lemma make_close_leg:
  "0 < q \<Longrightarrow> pid \<noteq> [] \<Longrightarrow> es \<noteq> s \<Longrightarrow> q \<le> eq \<Longrightarrow>
    make_hedge_leg s (Fin q) (Some pid) (Some es) (Some (Fin eq)) =
      Inr \<lparr>leg_side = s, leg_quantity_ounces = q, leg_position_id = Some pid,
        leg_expected_position_side = Some es, leg_expected_position_quantity_ounces = Some eq\<rparr>"
  by (auto simp: make_hedge_leg_def)

lemma make_open_leg:
  "0 < q \<Longrightarrow> make_hedge_leg s (Fin q) None None None =
      Inr \<lparr>leg_side = s, leg_quantity_ounces = q, leg_position_id = None,
        leg_expected_position_side = None, leg_expected_position_quantity_ounces = None\<rparr>"
  by (auto simp: make_hedge_leg_def)

section \<open>Hedge intents\<close>

record rejected_attempt =
  ra_client_order_id :: string
  ra_leg_index :: nat

definition make_rejected_attempt :: "string \<Rightarrow> int \<Rightarrow> exn + rejected_attempt" where
  "make_rejected_attempt cid index =
    (if cid = [] \<or> CHR ''|'' \<in> set cid then
       Inl (ValueError ''rejected hedge attempt requires a non-empty order ID'')
     else if index < 0 then
       Inl (ValueError ''rejected hedge attempt requires an exact non-negative leg index'')
     else Inr \<lparr>ra_client_order_id = cid, ra_leg_index = nat index\<rparr>)"

record hedge_intent =
  hi_intent_id :: string
  hi_fill_key :: string
  hi_source_client_order_id :: string
  hi_source_trade_id :: string
  hi_source_side :: business_side
  hi_source_fill_ounces :: rat
  hi_hedge_side :: business_side
  hi_hedge_quantity_ounces :: rat
  hi_hedge_position_id :: "string option"
  hi_hedge_position_quantity_ounces :: "rat option"
  hi_status :: obligation_status
  hi_hedge_client_order_id :: "string option"
  hi_hedge_filled_ounces :: rat
  hi_hedge_plan :: "hedge_leg list"
  hi_hedge_leg_index :: nat
  hi_hedge_leg_filled_ounces :: rat
  hi_hedge_order_ids :: "string list"
  hi_rejected_attempt :: "rejected_attempt option"

definition hedge_leg_order_ids :: "hedge_intent \<Rightarrow> string list" where
  "hedge_leg_order_ids i = (case hi_rejected_attempt i of
     None \<Rightarrow> hi_hedge_order_ids i
   | Some a \<Rightarrow> filter (\<lambda>cid. cid \<noteq> ra_client_order_id a) (hi_hedge_order_ids i))"

definition list_index :: "'a list \<Rightarrow> 'a \<Rightarrow> nat" where
  "list_index xs x = length (takeWhile (\<lambda>y. y \<noteq> x) xs)"

definition plan_total :: "hedge_leg list \<Rightarrow> rat" where
  "plan_total plan = dsum 0 (map leg_quantity_ounces plan)"

definition check_rejected_history :: "hedge_intent \<Rightarrow> exn + unit" where
  "check_rejected_history i = (case hi_rejected_attempt i of
     None \<Rightarrow> Inr ()
   | Some a \<Rightarrow>
     if hi_hedge_plan i = []
       \<or> ra_client_order_id a \<notin> set (hi_hedge_order_ids i)
       \<or> length (hi_hedge_plan i) \<le> ra_leg_index a
       \<or> list_index (hi_hedge_order_ids i) (ra_client_order_id a) \<noteq> ra_leg_index a
       \<or> hi_hedge_leg_index i < ra_leg_index a
       \<or> hi_hedge_client_order_id i = Some (ra_client_order_id a)
     then Inl (ValueError ''rejected hedge attempt does not match its retained plan history'')
     else let ids = hedge_leg_order_ids i in
       if length ids \<noteq> hi_hedge_leg_index i + (if hi_hedge_client_order_id i \<noteq> None then 1 else 0)
         \<or> (case hi_hedge_client_order_id i of None \<Rightarrow> False
           | Some c \<Rightarrow> hi_hedge_leg_index i = length (hi_hedge_plan i)
               \<or> c \<noteq> ids ! hi_hedge_leg_index i)
       then Inl (ValueError ''rejected hedge attempt has inconsistent subsequent leg history'')
       else Inr ())"

definition check_plan_progress :: "hedge_intent \<Rightarrow> exn + unit" where
  "check_plan_progress i =
    (if hi_hedge_plan i = [] then
       if hi_hedge_leg_index i \<noteq> 0 \<or> hi_hedge_leg_filled_ounces i \<noteq> 0 then
         Inl (ValueError ''unplanned hedge intent cannot have leg progress'')
       else Inr ()
     else if list_ex (\<lambda>leg. leg_side leg \<noteq> hi_hedge_side i) (hi_hedge_plan i) then
       Inl (ValueError ''hedge plan side does not match its intent'')
     else if plan_total (hi_hedge_plan i) \<noteq> hi_hedge_quantity_ounces i then
       Inl (ValueError ''hedge plan quantity does not match its intent'')
     else if hi_hedge_leg_index i = length (hi_hedge_plan i) \<and> hi_hedge_leg_filled_ounces i \<noteq> 0 then
       Inl (ValueError ''completed hedge plan cannot retain a partial leg fill'')
     else if hi_hedge_leg_index i \<noteq> length (hi_hedge_plan i) \<and> hi_status i \<noteq> BLOCKED
       \<and> leg_quantity_ounces (hi_hedge_plan i ! hi_hedge_leg_index i) \<le> hi_hedge_leg_filled_ounces i then
       Inl (ValueError ''hedge leg progress must advance at the planned quantity'')
     else if hi_status i \<noteq> BLOCKED
       \<and> hi_hedge_filled_ounces i \<noteq> dsum (hi_hedge_leg_filled_ounces i)
           (map leg_quantity_ounces (take (hi_hedge_leg_index i) (hi_hedge_plan i))) then
       Inl (ValueError ''hedge aggregate fill does not match its leg progress'')
     else if hi_status i = COMPLETED
       \<and> (hi_hedge_leg_index i \<noteq> length (hi_hedge_plan i)
         \<or> hi_hedge_filled_ounces i \<noteq> hi_hedge_quantity_ounces i) then
       Inl (ValueError ''completed hedge intent has incomplete plan progress'')
     else Inr ())"

definition check_hedge_intent :: "hedge_intent \<Rightarrow> exn + unit" where
  "check_hedge_intent i =
    (if hi_hedge_position_id i = None \<and> hi_hedge_position_quantity_ounces i \<noteq> None then
       Inl (ValueError ''bound hedge position quantity requires a position ID'')
     else if (case hi_hedge_position_quantity_ounces i of None \<Rightarrow> False | Some q \<Rightarrow> q \<le> 0) then
       Inl (ValueError ''bound hedge position quantity must be positive and finite'')
     else if hi_hedge_quantity_ounces i \<le> 0 then
       Inl (ValueError ''hedge intent quantity must be a positive finite Decimal'')
     else if hi_hedge_filled_ounces i < 0 then
       Inl (ValueError ''hedge filled quantity must be a non-negative finite Decimal'')
     else if length (hi_hedge_plan i) < hi_hedge_leg_index i then
       Inl (ValueError ''hedge plan index is out of bounds'')
     else if hi_hedge_leg_filled_ounces i < 0 then
       Inl (ValueError ''hedge leg fill must be a non-negative finite Decimal'')
     else if list_ex (\<lambda>v. v = []) (hi_hedge_order_ids i) \<or> \<not> distinct (hi_hedge_order_ids i) then
       Inl (ValueError ''hedge order history must contain unique non-empty IDs'')
     else bindE (check_rejected_history i) (\<lambda>_. check_plan_progress i))"

text \<open>Constructing or replacing an intent runs the checks.\<close>

definition mk_hedge_intent :: "hedge_intent \<Rightarrow> exn + hedge_intent" where
  "mk_hedge_intent i = bindE (check_hedge_intent i) (\<lambda>_. Inr i)"

definition valid_intent :: "hedge_intent \<Rightarrow> bool" where
  "valid_intent i \<longleftrightarrow> check_hedge_intent i = Inr ()"

lemma mk_hedge_intent_Inr [simp]: "mk_hedge_intent i = Inr j \<longleftrightarrow> valid_intent i \<and> j = i"
  by (auto simp: mk_hedge_intent_def valid_intent_def bindE_Inr_iff)

lemma mk_hedge_intent_valid: "valid_intent i \<Longrightarrow> mk_hedge_intent i = Inr i"
  by simp

text \<open>The validity of an intent as a conjunction of named parts.\<close>

definition intent_scalars_ok :: "hedge_intent \<Rightarrow> bool" where
  "intent_scalars_ok i \<longleftrightarrow>
    (hi_hedge_position_id i = None \<longrightarrow> hi_hedge_position_quantity_ounces i = None) \<and>
    (\<forall>q. hi_hedge_position_quantity_ounces i = Some q \<longrightarrow> 0 < q) \<and>
    0 < hi_hedge_quantity_ounces i \<and> 0 \<le> hi_hedge_filled_ounces i \<and>
    hi_hedge_leg_index i \<le> length (hi_hedge_plan i) \<and> 0 \<le> hi_hedge_leg_filled_ounces i \<and>
    [] \<notin> set (hi_hedge_order_ids i) \<and> distinct (hi_hedge_order_ids i)"

definition plan_matches :: "hedge_intent \<Rightarrow> bool" where
  "plan_matches i \<longleftrightarrow>
    (\<forall>leg \<in> set (hi_hedge_plan i). leg_side leg = hi_hedge_side i) \<and>
    plan_total (hi_hedge_plan i) = hi_hedge_quantity_ounces i \<and>
    (hi_hedge_leg_index i = length (hi_hedge_plan i) \<longrightarrow> hi_hedge_leg_filled_ounces i = 0)"

definition progress_exact :: "hedge_intent \<Rightarrow> bool" where
  "progress_exact i \<longleftrightarrow>
    (hi_hedge_leg_index i \<noteq> length (hi_hedge_plan i) \<longrightarrow>
       hi_hedge_leg_filled_ounces i < leg_quantity_ounces (hi_hedge_plan i ! hi_hedge_leg_index i)) \<and>
    hi_hedge_filled_ounces i = dsum (hi_hedge_leg_filled_ounces i)
      (map leg_quantity_ounces (take (hi_hedge_leg_index i) (hi_hedge_plan i)))"

lemma plan_progress_iff: "check_plan_progress i = Inr () \<longleftrightarrow>
    (if hi_hedge_plan i = [] then hi_hedge_leg_index i = 0 \<and> hi_hedge_leg_filled_ounces i = 0
     else plan_matches i \<and> (hi_status i \<noteq> BLOCKED \<longrightarrow> progress_exact i) \<and>
       (hi_status i = COMPLETED \<longrightarrow> hi_hedge_leg_index i = length (hi_hedge_plan i) \<and>
         hi_hedge_filled_ounces i = hi_hedge_quantity_ounces i))"
  by (cases "hi_hedge_plan i = []"; simp add: check_plan_progress_def plan_matches_def
      progress_exact_def list_ex_iff not_le; blast)

lemma valid_intent_parts:
  "valid_intent i \<longleftrightarrow> intent_scalars_ok i \<and> check_rejected_history i = Inr () \<and>
    check_plan_progress i = Inr ()"
  unfolding valid_intent_def check_hedge_intent_def intent_scalars_ok_def
  by (cases "hi_hedge_position_quantity_ounces i";
      simp add: bindE_Inr_iff list_ex_iff not_le not_less; blast)

lemmas valid_intent_iff = valid_intent_parts [unfolded plan_progress_iff]

lemma rejected_history_status [simp]:
  "check_rejected_history (i\<lparr>hi_status := st\<rparr>) = check_rejected_history i"
  "check_rejected_history (i\<lparr>hi_hedge_filled_ounces := f\<rparr>) = check_rejected_history i"
  "check_rejected_history (i\<lparr>hi_hedge_leg_filled_ounces := f\<rparr>) = check_rejected_history i"
  by (cases "hi_rejected_attempt i", simp_all add: check_rejected_history_def hedge_leg_order_ids_def
      cong: option.case_cong)+

text \<open>Blocking a valid intent keeps it valid, and so does any other open status.\<close>

lemma valid_intent_block: "valid_intent i \<Longrightarrow> valid_intent (i\<lparr>hi_status := BLOCKED\<rparr>)"
  by (auto simp: valid_intent_iff intent_scalars_ok_def plan_matches_def)

lemma valid_intent_status:
  "valid_intent i \<Longrightarrow> hi_status i \<noteq> BLOCKED \<Longrightarrow> st \<noteq> COMPLETED \<Longrightarrow> valid_intent (i\<lparr>hi_status := st\<rparr>)"
  by (auto simp: valid_intent_iff intent_scalars_ok_def plan_matches_def progress_exact_def)

lemma valid_intent_quantity: "valid_intent i \<Longrightarrow> 0 < hi_hedge_quantity_ounces i"
  by (simp add: valid_intent_iff intent_scalars_ok_def)

lemma valid_intent_fill_nonneg: "valid_intent i \<Longrightarrow> 0 \<le> hi_hedge_filled_ounces i"
  by (simp add: valid_intent_iff intent_scalars_ok_def)

lemma check_hedge_intent_error: "check_hedge_intent i = Inl e \<Longrightarrow> \<exists>m. e = ValueError m"
proof -
  have r: "check_rejected_history i = Inl e \<Longrightarrow> \<exists>m. e = ValueError m"
    by (cases "hi_rejected_attempt i") (auto simp: check_rejected_history_def Let_def split: if_splits)
  have p: "check_plan_progress i = Inl e \<Longrightarrow> \<exists>m. e = ValueError m"
    by (auto simp: check_plan_progress_def split: if_splits)
  assume "check_hedge_intent i = Inl e"
  then show ?thesis using r p by (auto simp: check_hedge_intent_def bindE_Inl_iff split: if_splits)
qed

end
