(* ===== verification/Hedge_Planning.thy ===== *)
theory Hedge_Planning
  imports Models "HOL-Library.Multiset"
begin

text \<open>
  The pure part of \<^verbatim>\<open>hedge.py\<close>: from the open MT5 tickets and a signed delta to the ordered
  legs that realise it, and the check of one leg against the tickets just before it is sent.

  A native Position is what the planner reads of it: identifier, the two direction flags and
  the quantity as a Decimal. A snapshot is the authenticated triple the planner sorts.
  The second half states what a plan is for: executing its legs one by one on the tickets
  changes the signed net position by exactly the requested delta, each leg still passes its
  check when its turn comes, and the order in which the tickets were listed is irrelevant.
\<close>

section \<open>Positions and their identifiers\<close>

record position =
  pos_id :: string
  pos_is_long :: bool
  pos_is_short :: bool
  pos_quantity :: dec

definition position_side :: "position \<Rightarrow> exn + business_side" where
  "position_side p =
    (if pos_is_long p \<and> \<not> pos_is_short p then Inr BUY
     else if pos_is_short p \<and> \<not> pos_is_long p then Inr SELL
     else Inl (HedgePlanningError (''MT5 position '' @ pos_id p @ '' has an invalid direction'')))"

text \<open>The sort key: numeric identifiers first, by number; then text, by text.\<close>

datatype pid_key = NumericId int string | TextId string

instantiation pid_key :: linorder
begin

fun less_eq_pid_key :: "pid_key \<Rightarrow> pid_key \<Rightarrow> bool" where
  "NumericId m s \<le> NumericId n t \<longleftrightarrow> m < n \<or> m = n \<and> s \<le> t"
| "NumericId m s \<le> TextId t \<longleftrightarrow> True"
| "TextId s \<le> NumericId n t \<longleftrightarrow> False"
| "TextId s \<le> TextId t \<longleftrightarrow> s \<le> t"

definition less_pid_key :: "pid_key \<Rightarrow> pid_key \<Rightarrow> bool" where
  "less_pid_key a b \<longleftrightarrow> a \<le> b \<and> \<not> b \<le> a"

instance
proof
  fix x y z :: pid_key
  show "x < y \<longleftrightarrow> x \<le> y \<and> \<not> y \<le> x" by (simp add: less_pid_key_def)
  show "x \<le> x" by (cases x) auto
  show "x \<le> y \<Longrightarrow> y \<le> z \<Longrightarrow> x \<le> z" by (cases x; cases y; cases z) auto
  show "x \<le> y \<Longrightarrow> y \<le> x \<Longrightarrow> x = y" by (cases x; cases y) auto
  show "x \<le> y \<or> y \<le> x" by (cases x; cases y) auto
qed

end

definition position_id_sort_key :: "string \<Rightarrow> pid_key" where
  "position_id_sort_key pid = (if is_decimal pid then NumericId (parse_nat pid) pid else TextId pid)"

lemma position_id_sort_key_inj: "position_id_sort_key a = position_id_sort_key b \<Longrightarrow> a = b"
  by (auto simp: position_id_sort_key_def split: if_splits)

section \<open>Planning\<close>

type_synonym snapshot = "string \<times> rat \<times> business_side"

fun snapshot_positions :: "string list \<Rightarrow> position list \<Rightarrow> exn + snapshot list" where
  "snapshot_positions seen [] = Inr []"
| "snapshot_positions seen (p # ps) =
    (if pos_id p = [] \<or> pos_id p \<in> set seen then
       Inl (HedgePlanningError ''MT5 open positions contain a duplicate position ID'')
     else bindE (position_side p) (\<lambda>side.
       case pos_quantity p of
         NonFinite \<Rightarrow> Inl (HedgePlanningError (''MT5 position '' @ pos_id p @
           '' has a non-positive or invalid quantity''))
       | Fin q \<Rightarrow>
           if q \<le> 0 then Inl (HedgePlanningError (''MT5 position '' @ pos_id p @
             '' has a non-positive or invalid quantity''))
           else bindE (snapshot_positions (pos_id p # seen) ps) (\<lambda>rest.
             Inr ((pos_id p, q, side) # rest))))"

fun plan_closes :: "business_side \<Rightarrow> rat \<Rightarrow> snapshot list \<Rightarrow> exn + hedge_leg list \<times> rat" where
  "plan_closes side remaining [] = Inr ([], remaining)"
| "plan_closes side remaining ((pid, q, pside) # rest) =
    (if pside = side then plan_closes side remaining rest
     else let close = min remaining q in
       bindE (make_hedge_leg side (Fin close) (Some pid) (Some pside) (Some (Fin q))) (\<lambda>leg.
         let remaining' = dsub remaining close in
         if remaining' = 0 then Inr ([leg], remaining')
         else bindE (plan_closes side remaining' rest) (\<lambda>(legs, r). Inr (leg # legs, r))))"

definition plan_hedge_delta :: "position list \<Rightarrow> business_side \<Rightarrow> dec \<Rightarrow> exn + hedge_leg list" where
  "plan_hedge_delta positions side quantity =
    (case quantity of
       NonFinite \<Rightarrow> Inl (ValueError ''hedge quantity must be a positive finite Decimal'')
     | Fin quantity_ounces \<Rightarrow>
       if quantity_ounces \<le> 0 then
         Inl (ValueError ''hedge quantity must be a positive finite Decimal'')
       else bindE (snapshot_positions [] positions) (\<lambda>snapshots.
         bindE (plan_closes side quantity_ounces
             (sort_key (\<lambda>item. position_id_sort_key (fst item)) snapshots)) (\<lambda>(legs, remaining).
           if 0 < remaining then
             bindE (make_hedge_leg side (Fin remaining) None None None) (\<lambda>leg. Inr (legs @ [leg]))
           else Inr legs)))"

definition validate_hedge_leg :: "hedge_leg \<Rightarrow> position list \<Rightarrow> exn + unit" where
  "validate_hedge_leg leg positions =
    (if \<not> leg_is_close leg then
       bindE (mapE position_side positions) (\<lambda>sides.
         if list_ex (\<lambda>s. s \<noteq> leg_side leg) sides then
           Inl (HedgePlanningError ''opposing MT5 ticket appeared before the planned open residual'')
         else Inr ())
     else case filter (\<lambda>p. leg_position_id leg = Some (pos_id p)) positions of
       [target] \<Rightarrow>
         bindE (position_side target) (\<lambda>side.
           if leg_expected_position_side leg \<noteq> Some side then
             Inl (HedgePlanningError (''MT5 position '' @ the (leg_position_id leg) @
               '' direction drifted after planning''))
           else case pos_quantity target of
             NonFinite \<Rightarrow> Inl (HedgePlanningError (''MT5 position '' @ the (leg_position_id leg) @
               '' quantity drifted after planning''))
           | Fin observed \<Rightarrow>
             if leg_expected_position_quantity_ounces leg \<noteq> Some observed then
               Inl (HedgePlanningError (''MT5 position '' @ the (leg_position_id leg) @
                 '' quantity drifted after planning''))
             else Inr ())
     | _ \<Rightarrow> Inl (HedgePlanningError (''MT5 position '' @ the (leg_position_id leg) @
         '' disappeared after planning'')))"

section \<open>Well-formed tickets\<close>

fun side_sign :: "business_side \<Rightarrow> rat" where
  "side_sign BUY = 1"
| "side_sign SELL = - 1"

definition wf_snapshots :: "snapshot list \<Rightarrow> bool" where
  "wf_snapshots ss \<longleftrightarrow> distinct (map fst ss) \<and> list_all (\<lambda>(pid, q, s). pid \<noteq> [] \<and> 0 < q \<and> on_grid q) ss"

definition position_of :: "snapshot \<Rightarrow> position" where
  "position_of s = (case s of (pid, q, side) \<Rightarrow>
    \<lparr>pos_id = pid, pos_is_long = (side = BUY), pos_is_short = (side = SELL), pos_quantity = Fin q\<rparr>)"

lemma position_side_of [simp]: "position_side (position_of s) = Inr (snd (snd s))"
  by (cases s; cases "snd (snd s)") (auto simp: position_of_def position_side_def)

lemma position_of_simps [simp]:
  "pos_id (position_of s) = fst s" "pos_quantity (position_of s) = Fin (fst (snd s))"
  by (simp_all add: position_of_def split: prod.splits)

lemma wf_snapshots_Cons:
  "wf_snapshots ((pid, q, s) # ss) \<longleftrightarrow> pid \<noteq> [] \<and> 0 < q \<and> on_grid q \<and> pid \<notin> fst ` set ss \<and> wf_snapshots ss"
  by (auto simp: wf_snapshots_def)

lemma snapshot_positions_of:
  "wf_snapshots ss \<Longrightarrow> fst ` set ss \<inter> set seen = {} \<Longrightarrow>
    snapshot_positions seen (map position_of ss) = Inr ss"
proof (induction ss arbitrary: seen)
  case (Cons s ss)
  obtain pid q side where s: "s = (pid, q, side)" by (cases s)
  with Cons.prems have "snapshot_positions (pid # seen) (map position_of ss) = Inr ss"
    by (intro Cons.IH) (auto simp: wf_snapshots_Cons)
  with Cons.prems s show ?case by (simp add: wf_snapshots_Cons)
qed simp

lemma wf_snapshots_sort: "wf_snapshots (sort_key f ss) \<longleftrightarrow> wf_snapshots ss"
proof -
  have "distinct (map fst (sort_key f ss)) \<longleftrightarrow> distinct (map fst ss)"
    by (metis distinct_map distinct_sort list.set_map set_sort sort_key_simps)
  then show ?thesis by (simp add: wf_snapshots_def list_all_iff)
qed

section \<open>Executing a plan on the venue\<close>

text \<open>
  The venue, as the plan sees it: a close leg takes its quantity off its ticket and removes a
  ticket it exhausts, an open leg adds a ticket under a new identifier.
\<close>

definition exec_leg :: "string \<Rightarrow> hedge_leg \<Rightarrow> snapshot list \<Rightarrow> snapshot list" where
  "exec_leg nid leg ts = (case leg_position_id leg of
     None \<Rightarrow> ts @ [(nid, leg_quantity_ounces leg, leg_side leg)]
   | Some pid \<Rightarrow> concat (map (\<lambda>(p, q, s).
       if p \<noteq> pid then [(p, q, s)]
       else if q = leg_quantity_ounces leg then []
       else [(p, q - leg_quantity_ounces leg, s)]) ts))"

text \<open>Every leg is checked against the tickets its predecessors left.\<close>

fun execute_plan :: "string \<Rightarrow> hedge_leg list \<Rightarrow> snapshot list \<Rightarrow> exn + snapshot list" where
  "execute_plan nid [] ts = Inr ts"
| "execute_plan nid (leg # legs) ts =
    bindE (validate_hedge_leg leg (map position_of ts)) (\<lambda>_. execute_plan nid legs (exec_leg nid leg ts))"

definition net_ounces :: "snapshot list \<Rightarrow> rat" where
  "net_ounces ts = sum_list (map (\<lambda>(p, q, s). side_sign s * q) ts)"

definition opposing_ounces :: "business_side \<Rightarrow> snapshot list \<Rightarrow> rat" where
  "opposing_ounces side ts = sum_list (map (\<lambda>(p, q, s). if s = side then 0 else q) ts)"

lemma net_ounces_simps [simp]:
  "net_ounces [] = 0" "net_ounces ((p, q, s) # ts) = side_sign s * q + net_ounces ts"
  "net_ounces (ts @ us) = net_ounces ts + net_ounces us"
  by (simp_all add: net_ounces_def)

lemma opposing_ounces_simps [simp]:
  "opposing_ounces side [] = 0"
  "opposing_ounces side ((p, q, s) # ts) = (if s = side then 0 else q) + opposing_ounces side ts"
  "opposing_ounces side (ts @ us) = opposing_ounces side ts + opposing_ounces side us"
  by (simp_all add: opposing_ounces_def)

lemma opposite_sign: "s \<noteq> side \<Longrightarrow> side_sign s = - side_sign side"
  by (cases s; cases side) auto

text \<open>The target of a close leg: its ticket, unchanged, large enough and on the other side.\<close>

definition targets :: "hedge_leg \<Rightarrow> snapshot \<Rightarrow> bool" where
  "targets leg t \<longleftrightarrow> (case t of (p, q, s) \<Rightarrow>
     leg_position_id leg = Some p \<and> leg_expected_position_side leg = Some s \<and>
     leg_expected_position_quantity_ounces leg = Some q \<and> s \<noteq> leg_side leg \<and>
     0 < leg_quantity_ounces leg \<and> leg_quantity_ounces leg \<le> q)"

lemma exec_close_untouched:
  "leg_position_id leg = Some pid \<Longrightarrow> pid \<notin> fst ` set ts \<Longrightarrow> exec_leg nid leg ts = ts"
  by (induction ts) (auto simp: exec_leg_def)

lemma exec_close_split:
  assumes t: "targets leg (p, q, s)" and ts: "ts = us @ (p, q, s) # vs" and wf: "wf_snapshots ts"
  shows "exec_leg nid leg ts = us @
    (if q = leg_quantity_ounces leg then [] else [(p, q - leg_quantity_ounces leg, s)]) @ vs"
proof -
  have pid: "leg_position_id leg = Some p" using t by (simp add: targets_def)
  have "p \<notin> fst ` set us" "p \<notin> fst ` set vs" using wf by (auto simp: ts wf_snapshots_def)
  then have "exec_leg nid leg us = us" "exec_leg nid leg vs = vs"
    using pid exec_close_untouched by blast+
  moreover have "exec_leg nid leg (as @ bs) = exec_leg nid leg as @ exec_leg nid leg bs" for as bs
    by (simp add: exec_leg_def pid)
  moreover have "exec_leg nid leg ((p, q, s) # vs) =
      (if q = leg_quantity_ounces leg then [] else [(p, q - leg_quantity_ounces leg, s)]) @ exec_leg nid leg vs"
    by (simp add: exec_leg_def pid)
  ultimately show ?thesis by (simp add: ts)
qed

lemma validate_close:
  assumes t: "targets leg (p, q, s)" and "(p, q, s) \<in> set ts" and wf: "wf_snapshots ts"
  shows "validate_hedge_leg leg (map position_of ts) = Inr ()"
proof -
  obtain us vs where ts: "ts = us @ (p, q, s) # vs" using assms(2) by (meson split_list)
  have nin: "p \<notin> fst ` set us" "p \<notin> fst ` set vs" using wf by (auto simp: ts wf_snapshots_def)
  have pid: "leg_position_id leg = Some p" using t by (simp add: targets_def)
  have "filter (\<lambda>x. leg_position_id leg = Some (pos_id x)) (map position_of xs) = []"
    if "p \<notin> fst ` set xs" for xs
    using that by (force simp: pid filter_empty_conv)
  with nin have "filter (\<lambda>x. leg_position_id leg = Some (pos_id x)) (map position_of ts) = [position_of (p, q, s)]"
    by (simp add: ts pid)
  then show ?thesis using t by (simp add: validate_hedge_leg_def leg_is_close_def targets_def)
qed

lemma exec_close_effects:
  assumes t: "targets leg (p, q, s)" and m: "(p, q, s) \<in> set ts" and wf: "wf_snapshots ts"
    and g: "on_grid (leg_quantity_ounces leg)"
  shows "wf_snapshots (exec_leg nid leg ts)"
    "net_ounces (exec_leg nid leg ts) = net_ounces ts + side_sign (leg_side leg) * leg_quantity_ounces leg"
    "opposing_ounces (leg_side leg) (exec_leg nid leg ts)
      = opposing_ounces (leg_side leg) ts - leg_quantity_ounces leg"
    "x \<in> set ts \<Longrightarrow> fst x \<noteq> p \<Longrightarrow> x \<in> set (exec_leg nid leg ts)"
    "fst ` set (exec_leg nid leg ts) \<subseteq> fst ` set ts"
proof -
  obtain us vs where ts: "ts = us @ (p, q, s) # vs" using m by (meson split_list)
  have e: "exec_leg nid leg ts = us @
    (if q = leg_quantity_ounces leg then [] else [(p, q - leg_quantity_ounces leg, s)]) @ vs"
    using exec_close_split [OF t ts wf] .
  have q: "0 < leg_quantity_ounces leg" "leg_quantity_ounces leg \<le> q" "s \<noteq> leg_side leg"
    using t by (auto simp: targets_def)
  show "wf_snapshots (exec_leg nid leg ts)"
    unfolding e using wf g q by (auto simp: ts wf_snapshots_def)
  show "net_ounces (exec_leg nid leg ts) = net_ounces ts + side_sign (leg_side leg) * leg_quantity_ounces leg"
    unfolding e using opposite_sign [OF q(3)] by (auto simp: ts algebra_simps)
  show "opposing_ounces (leg_side leg) (exec_leg nid leg ts)
      = opposing_ounces (leg_side leg) ts - leg_quantity_ounces leg"
    unfolding e using q(3) by (auto simp: ts)
  show "x \<in> set ts \<Longrightarrow> fst x \<noteq> p \<Longrightarrow> x \<in> set (exec_leg nid leg ts)"
    unfolding e by (auto simp: ts)
  show "fst ` set (exec_leg nid leg ts) \<subseteq> fst ` set ts"
    unfolding e by (auto simp: ts)
qed

text \<open>A list of close legs aimed at different tickets runs to the end.\<close>

definition leg_total :: "hedge_leg list \<Rightarrow> rat" where
  "leg_total legs = sum_list (map leg_quantity_ounces legs)"

definition close_list :: "business_side \<Rightarrow> hedge_leg list \<Rightarrow> snapshot list \<Rightarrow> bool" where
  "close_list side legs ts \<longleftrightarrow> distinct (map leg_position_id legs) \<and>
    (\<forall>leg \<in> set legs. leg_side leg = side \<and> on_grid (leg_quantity_ounces leg) \<and> (\<exists>t \<in> set ts. targets leg t))"

lemma close_list_exec:
  assumes "close_list side (leg # legs) ts" "wf_snapshots ts"
  shows "close_list side legs (exec_leg nid leg ts)"
proof -
  obtain p q s where t: "targets leg (p, q, s)" and m: "(p, q, s) \<in> set ts"
    using assms(1) unfolding close_list_def by fastforce
  have pid: "leg_position_id leg = Some p" using t by (simp add: targets_def)
  have g: "on_grid (leg_quantity_ounces leg)" using assms(1) by (simp add: close_list_def)
  have "\<exists>t \<in> set (exec_leg nid leg ts). targets l t" if l: "l \<in> set legs" for l
  proof -
    obtain x where x: "x \<in> set ts" "targets l x" using assms(1) l by (auto simp: close_list_def)
    have "leg_position_id l \<noteq> leg_position_id leg"
      using assms(1) l by (fastforce simp: close_list_def image_iff)
    with x pid have "fst x \<noteq> p" by (auto simp: targets_def)
    with exec_close_effects(4) [OF t m assms(2) g x(1)] x(2) show ?thesis by blast
  qed
  with assms(1) show ?thesis by (simp add: close_list_def)
qed

lemma execute_closes:
  assumes "close_list side legs ts" "wf_snapshots ts" "nid \<notin> fst ` set ts"
  shows "\<exists>ts'. execute_plan nid legs ts = Inr ts' \<and> wf_snapshots ts' \<and> nid \<notin> fst ` set ts' \<and>
    net_ounces ts' = net_ounces ts + side_sign side * leg_total legs \<and>
    opposing_ounces side ts' = opposing_ounces side ts - leg_total legs"
  using assms
proof (induction legs arbitrary: ts)
  case Nil
  then show ?case by (simp add: leg_total_def)
next
  case (Cons leg legs)
  obtain p q s where t: "targets leg (p, q, s)" and m: "(p, q, s) \<in> set ts"
    using Cons.prems(1) unfolding close_list_def by fastforce
  have g: "on_grid (leg_quantity_ounces leg)" and side: "leg_side leg = side"
    using Cons.prems(1) by (simp_all add: close_list_def)
  note fx = exec_close_effects [OF t m Cons.prems(2) g, where nid = nid]
  have n: "nid \<notin> fst ` set (exec_leg nid leg ts)" using fx(5) Cons.prems(3) by blast
  obtain ts' where "execute_plan nid legs (exec_leg nid leg ts) = Inr ts'" "wf_snapshots ts'"
    "nid \<notin> fst ` set ts'"
    "net_ounces ts' = net_ounces (exec_leg nid leg ts) + side_sign side * leg_total legs"
    "opposing_ounces side ts' = opposing_ounces side (exec_leg nid leg ts) - leg_total legs"
    using Cons.IH [OF close_list_exec [OF Cons.prems(1,2)] fx(1) n] by blast
  with fx(2,3) side show ?case
    using validate_close [OF t m Cons.prems(2)] by (simp add: leg_total_def algebra_simps)
qed

section \<open>What the planner returns\<close>

definition opposing :: "business_side \<Rightarrow> snapshot list \<Rightarrow> snapshot list" where
  "opposing side ts = filter (\<lambda>(p, q, s). s \<noteq> side) ts"

lemma opposing_ounces_filter: "opposing_ounces side ts = sum_list (map (\<lambda>t. fst (snd t)) (opposing side ts))"
  by (induction ts) (auto simp: opposing_def)

lemma opposing_ounces_nonneg: "wf_snapshots ts \<Longrightarrow> 0 \<le> opposing_ounces side ts"
  by (induction ts) (auto simp: wf_snapshots_Cons)

lemma close_listD: "close_list side legs ts \<Longrightarrow> l \<in> set legs \<Longrightarrow> \<exists>t \<in> set ts. targets l t"
  by (simp add: close_list_def)

lemma close_list_Cons:
  assumes "close_list side legs ts" "targets leg t" "t = (p, q, s)" "p \<notin> fst ` set ts"
    "leg_side leg = side" "on_grid (leg_quantity_ounces leg)"
  shows "close_list side (leg # legs) (t # ts)"
proof -
  have "leg_position_id leg \<noteq> leg_position_id l" if l: "l \<in> set legs" for l
  proof -
    obtain x where "x \<in> set ts" "targets l x" using close_listD [OF assms(1) l] by blast
    then have "leg_position_id l = Some (fst x)" "fst x \<noteq> p"
      using assms(4) by (auto simp: targets_def)
    then show ?thesis using assms(2,3) by (auto simp: targets_def)
  qed
  then have "leg_position_id leg \<notin> leg_position_id ` set legs" by blast
  moreover have "\<exists>t' \<in> set (t # ts). targets l t'" if "l \<in> set legs" for l
    using assms(1) that by (auto simp: close_list_def)
  ultimately show ?thesis using assms by (auto simp: close_list_def)
qed

lemma close_list_skip: "close_list side legs ts \<Longrightarrow> close_list side legs (t # ts)"
  by (auto simp: close_list_def)

lemma plan_closes_spec:
  assumes "wf_snapshots ts" "0 < r" "on_grid r" "r < 10 ^ 19"
  shows "\<exists>legs rem. plan_closes side r ts = Inr (legs, rem) \<and> close_list side legs ts \<and>
    0 \<le> rem \<and> on_grid rem \<and> leg_total legs + rem = r \<and>
    rem = max 0 (r - opposing_ounces side ts) \<and> length legs \<le> length (opposing side ts)"
  using assms
proof (induction ts arbitrary: r)
  case Nil
  then show ?case by (auto simp: close_list_def leg_total_def)
next
  case (Cons t ts)
  obtain p q s where t: "t = (p, q, s)" by (cases t)
  have wf: "p \<noteq> []" "0 < q" "on_grid q" "p \<notin> fst ` set ts" "wf_snapshots ts"
    using Cons.prems(1) by (auto simp: t wf_snapshots_Cons)
  have nn: "0 \<le> opposing_ounces side ts" by (rule opposing_ounces_nonneg [OF wf(5)])
  show ?case
  proof (cases "s = side")
    case True
    from Cons.IH [OF wf(5) Cons.prems(2-4)] show ?thesis
      by (auto simp: t True opposing_def intro: close_list_skip)
  next
    case False
    define close where "close = min r q"
    define leg where "leg = \<lparr>leg_side = side, leg_quantity_ounces = close, leg_position_id = Some p,
        leg_expected_position_side = Some s, leg_expected_position_quantity_ounces = Some q\<rparr>"
    have c: "0 < close" "close \<le> q" "close \<le> r" "on_grid close"
      using Cons.prems(2,3) wf(2,3) by (auto simp: close_def)
    have mk: "make_hedge_leg side (Fin close) (Some p) (Some s) (Some (Fin q)) = Inr leg"
      unfolding leg_def by (rule make_close_leg [OF c(1) wf(1) False c(2)])
    have tg: "targets leg t" using False c by (simp add: targets_def leg_def t)
    have sub: "dsub r close = r - close"
      using Cons.prems(2-4) c by (intro dsub_exact) auto
    show ?thesis
    proof (cases "r - close = 0")
      case True
      have "close_list side [leg] (t # ts)"
        using tg c(4) by (auto simp: close_list_def leg_def)
      moreover have "r \<le> q" using True by (auto simp: close_def min_def split: if_splits)
      ultimately show ?thesis using True False nn mk sub
        by (auto simp: t close_def [symmetric] leg_total_def leg_def opposing_def Let_def)
    next
      case rem: False
      then have q: "close = q" "0 < r - q" using c(3) by (auto simp: close_def min_def split: if_splits)
      have pre: "0 < r - close" "on_grid (r - close)" "r - close < 10 ^ 19"
        using q c Cons.prems(3,4) by (simp_all add: on_grid_diff)
      obtain legs rem' where ih: "plan_closes side (r - close) ts = Inr (legs, rem')"
        "close_list side legs ts" "0 \<le> rem'" "on_grid rem'" "leg_total legs + rem' = r - close"
        "rem' = max 0 (r - close - opposing_ounces side ts)" "length legs \<le> length (opposing side ts)"
        using Cons.IH [OF wf(5) pre] by blast
      have cl: "close_list side (leg # legs) (t # ts)"
        using close_list_Cons [OF ih(2) tg t wf(4)] c(4) by (simp add: leg_def)
      have pl: "plan_closes side r (t # ts) = Inr (leg # legs, rem')"
        using False mk sub rem ih(1) by (simp add: t close_def [symmetric] Let_def)
      have tot: "leg_total (leg # legs) + rem' = r"
        using ih(5) by (simp add: leg_total_def leg_def)
      have mx: "rem' = max 0 (r - opposing_ounces side (t # ts))"
        using ih(6) False q(1) by (simp add: t algebra_simps)
      have len: "length (leg # legs) \<le> length (opposing side (t # ts))"
        using ih(7) False by (simp add: t opposing_def)
      from cl pl tot mx len ih(3,4) show ?thesis by blast
    qed
  qed
qed

lemma opposing_ounces_mset: "mset ts = mset us \<Longrightarrow> opposing_ounces side ts = opposing_ounces side us"
  unfolding opposing_ounces_def sum_mset_sum_list [symmetric] mset_map by simp

lemma close_list_set: "set ts = set us \<Longrightarrow> close_list side legs ts \<longleftrightarrow> close_list side legs us"
  by (simp add: close_list_def)

text \<open>The shape of a whole plan: close legs in identifier order, then at most one open leg.\<close>

lemma plan_hedge_delta_spec:
  assumes wf: "wf_snapshots ts" and q: "0 < q" "on_grid q" "q < 10 ^ 19"
  shows "\<exists>legs rem. plan_hedge_delta (map position_of ts) side (Fin q) =
      Inr (legs @ (if 0 < rem then [\<lparr>leg_side = side, leg_quantity_ounces = rem, leg_position_id = None,
        leg_expected_position_side = None, leg_expected_position_quantity_ounces = None\<rparr>] else [])) \<and>
    close_list side legs ts \<and> on_grid rem \<and> leg_total legs + rem = q \<and>
    rem = max 0 (q - opposing_ounces side ts) \<and> length legs \<le> length (opposing side ts)"
proof -
  let ?f = "\<lambda>item. position_id_sort_key (fst item)"
  let ?s = "sort_key ?f ts"
  have m: "mset ?s = mset ts" by simp
  obtain legs rem where p: "plan_closes side q ?s = Inr (legs, rem)" "close_list side legs ?s"
    "0 \<le> rem" "on_grid rem" "leg_total legs + rem = q" "rem = max 0 (q - opposing_ounces side ?s)"
    "length legs \<le> length (opposing side ?s)"
    using plan_closes_spec [of ?s q side] q wf by (auto simp: wf_snapshots_sort)
  have "length (opposing side ?s) = length (opposing side ts)"
    unfolding opposing_def by (metis m mset_filter size_mset)
  moreover have "snapshot_positions [] (map position_of ts) = Inr ts"
    using wf by (intro snapshot_positions_of) auto
  ultimately show ?thesis
    using p opposing_ounces_mset [OF m, of side] close_list_set [of ?s ts] q(1)
    by (intro exI [of _ legs] exI [of _ rem]) (auto simp: plan_hedge_delta_def make_open_leg)
qed

lemma validate_open:
  assumes "\<not> leg_is_close leg" "opposing (leg_side leg) ts = []"
  shows "validate_hedge_leg leg (map position_of ts) = Inr ()"
proof -
  have "mapE position_side (map position_of ts) = Inr (map (\<lambda>t. snd (snd t)) ts)"
    by (induction ts) auto
  moreover have "\<not> list_ex (\<lambda>s. s \<noteq> leg_side leg) (map (\<lambda>t. snd (snd t)) ts)"
    using assms(2) by (auto simp: opposing_def list_ex_iff filter_empty_conv)
  ultimately show ?thesis using assms(1) by (simp add: validate_hedge_leg_def)
qed

lemma opposing_empty_iff: "wf_snapshots ts \<Longrightarrow> opposing side ts = [] \<longleftrightarrow> opposing_ounces side ts \<le> 0"
proof (induction ts)
  case (Cons t ts)
  obtain p q s where t: "t = (p, q, s)" by (cases t)
  with Cons opposing_ounces_nonneg [of ts side] show ?case
    by (auto simp: opposing_def wf_snapshots_Cons)
qed (simp add: opposing_def)

lemma execute_plan_append:
  "execute_plan nid (xs @ ys) ts = bindE (execute_plan nid xs ts) (execute_plan nid ys)"
proof (induction xs arbitrary: ts)
  case (Cons x xs)
  then show ?case by (cases "validate_hedge_leg x (map position_of ts)") auto
qed simp

section \<open>The properties of the planner\<close>

text \<open>A plan, leg by leg, and what executing it does to the tickets.\<close>

lemma plan_then_execute:
  assumes "wf_snapshots ts" "nid \<notin> fst ` set ts" "nid \<noteq> []" "0 < q" "on_grid q" "q < 10 ^ 19"
  obtains legs ts' where "plan_hedge_delta (map position_of ts) side (Fin q) = Inr legs"
    "execute_plan nid legs ts = Inr ts'" "wf_snapshots ts'" "net_ounces ts' = net_ounces ts + side_sign side * q"
    "opposing_ounces side ts' = max 0 (opposing_ounces side ts - q)" "leg_total legs = q"
    "length legs \<le> Suc (length (opposing side ts))"
    "\<And>leg. leg \<in> set legs \<Longrightarrow> leg_side leg = side \<and> on_grid (leg_quantity_ounces leg) \<and> 0 < leg_quantity_ounces leg"
proof -
  obtain legs rem where p: "plan_hedge_delta (map position_of ts) side (Fin q) =
      Inr (legs @ (if 0 < rem then [\<lparr>leg_side = side, leg_quantity_ounces = rem, leg_position_id = None,
        leg_expected_position_side = None, leg_expected_position_quantity_ounces = None\<rparr>] else []))"
    "close_list side legs ts" "on_grid rem" "leg_total legs + rem = q"
    "rem = max 0 (q - opposing_ounces side ts)" "length legs \<le> length (opposing side ts)"
    using plan_hedge_delta_spec [OF assms(1,4-6), of side] by blast
  obtain us where u: "execute_plan nid legs ts = Inr us" "wf_snapshots us" "nid \<notin> fst ` set us"
    "net_ounces us = net_ounces ts + side_sign side * leg_total legs"
    "opposing_ounces side us = opposing_ounces side ts - leg_total legs"
    using execute_closes [OF p(2) assms(1,2)] by blast
  have legs: "leg_side leg = side \<and> on_grid (leg_quantity_ounces leg) \<and> 0 < leg_quantity_ounces leg"
    if "leg \<in> set legs" for leg
    using p(2) that by (auto simp: close_list_def targets_def)
  show thesis
  proof (cases "0 < rem")
    case False
    with p(4,5) have "leg_total legs = q" by auto
    with p(1,5,6) u False legs show thesis by (intro that [of legs us]) auto
  next
    case True
    define leg where "leg = \<lparr>leg_side = side, leg_quantity_ounces = rem, leg_position_id = None,
        leg_expected_position_side = None, leg_expected_position_quantity_ounces = None\<rparr>"
    have o0: "opposing_ounces side us = 0" using True p(4,5) u(5) by auto
    then have "validate_hedge_leg leg (map position_of us) = Inr ()"
      by (intro validate_open) (simp_all add: leg_def leg_is_close_def opposing_empty_iff [OF u(2)])
    then have x: "execute_plan nid (legs @ [leg]) ts = Inr (us @ [(nid, rem, side)])"
      by (simp add: execute_plan_append u(1) exec_leg_def leg_def)
    have "wf_snapshots (us @ [(nid, rem, side)])"
      using u(2,3) True p(3) assms(3) by (auto simp: wf_snapshots_def)
    moreover have "net_ounces (us @ [(nid, rem, side)]) = net_ounces ts + side_sign side * q"
      using u(4) p(4) by (simp add: algebra_simps flip: p(4))
    moreover have "opposing_ounces side (us @ [(nid, rem, side)]) = max 0 (opposing_ounces side ts - q)"
      using o0 True p(5) by simp
    ultimately show thesis
      using p(1,3,4,6) True x legs by (intro that [of "legs @ [leg]" "us @ [(nid, rem, side)]"])
        (auto simp: leg_total_def leg_def)
  qed
qed

text \<open>C34: planning and then executing a hedge delta leg by leg. For well-formed tickets on the
  ounce grid and a positive quantity, the planner succeeds, every leg still passes its
  re-authentication when its turn comes, the signed net position of the tickets changes by
  exactly the requested delta, and opposing exposure is consumed before anything is opened.\<close>

theorem plan_executes_exact_delta:
  assumes "wf_snapshots ts" "nid \<notin> fst ` set ts" "nid \<noteq> []" "0 < q" "on_grid q" "q < 10 ^ 19"
  shows "\<exists>legs ts'. plan_hedge_delta (map position_of ts) side (Fin q) = Inr legs \<and>
    execute_plan nid legs ts = Inr ts' \<and> wf_snapshots ts' \<and>
    net_ounces ts' = net_ounces ts + side_sign side * q \<and>
    opposing_ounces side ts' = max 0 (opposing_ounces side ts - q)"
  using plan_then_execute [OF assms, of side] by metis

theorem plan_executes_exact_delta_witness:
  "\<exists>legs ts'. plan_hedge_delta (map position_of [(''12'', 2, BUY), (''7'', 1, BUY), (''9'', 3, SELL)]) SELL (Fin (5/2)) = Inr legs \<and>
    execute_plan ''20'' legs [(''12'', 2, BUY), (''7'', 1, BUY), (''9'', 3, SELL)] = Inr ts' \<and> wf_snapshots ts' \<and>
    net_ounces ts' = net_ounces [(''12'', 2, BUY), (''7'', 1, BUY), (''9'', 3, SELL)] + side_sign SELL * (5/2) \<and>
    opposing_ounces SELL ts' = max 0 (opposing_ounces SELL [(''12'', 2, BUY), (''7'', 1, BUY), (''9'', 3, SELL)] - 5/2)"
  by (rule plan_executes_exact_delta) (simp_all add: wf_snapshots_def on_grid_def)

text \<open>the plan does not depend on the order in which the venue lists its tickets.\<close>

theorem plan_order_independent:
  assumes "wf_snapshots ts" "mset us = mset ts"
  shows "plan_hedge_delta (map position_of us) side q = plan_hedge_delta (map position_of ts) side q"
proof -
  let ?f = "\<lambda>item :: snapshot. position_id_sort_key (fst item)"
  have set: "set us = set ts" using assms(2) by (rule mset_eq_setD)
  have "mset (map fst us) = mset (map fst ts)" using assms(2) by simp
  then have "distinct (map fst us)"
    using assms(1) mset_eq_imp_distinct_iff unfolding wf_snapshots_def by blast
  with assms(1) set have wfu: "wf_snapshots us" by (simp add: wf_snapshots_def list_all_iff)
  have "inj_on ?f (set us)"
    using wfu position_id_sort_key_inj by (auto simp: wf_snapshots_def distinct_map inj_on_def)
  then have "sort_key ?f us = sort_key ?f ts"
    using assms(2) by (intro sort_key_inj_key_eq) simp_all
  moreover have "snapshot_positions [] (map position_of us) = Inr us"
    "snapshot_positions [] (map position_of ts) = Inr ts"
    by (rule snapshot_positions_of; simp add: wfu assms(1))+
  ultimately show ?thesis unfolding plan_hedge_delta_def by (simp only: bindE_simps)
qed

theorem plan_order_independent_witness:
  "plan_hedge_delta (map position_of [(''9'', 3, BUY), (''12'', 2, BUY)]) SELL (Fin 4) =
   plan_hedge_delta (map position_of [(''12'', 2, BUY), (''9'', 3, BUY)]) SELL (Fin 4)"
  by (rule plan_order_independent) (simp_all add: wf_snapshots_def on_grid_def)

lemma snapshot_positions_checked:
  "snapshot_positions seen ps = Inr ss \<Longrightarrow>
    distinct (map pos_id ps) \<and> set (map pos_id ps) \<inter> set seen = {} \<and>
    (\<forall>p \<in> set ps. pos_id p \<noteq> [] \<and> (\<exists>s. position_side p = Inr s) \<and> (\<exists>q > 0. pos_quantity p = Fin q))"
proof (induction ps arbitrary: seen ss)
  case (Cons p ps)
  from Cons.prems obtain q side rest where
    p: "pos_id p \<noteq> []" "pos_id p \<notin> set seen" "position_side p = Inr side" "pos_quantity p = Fin q" "0 < q"
    and rest: "snapshot_positions (pos_id p # seen) ps = Inr rest"
    by (cases "pos_quantity p") (auto simp: bindE_Inr_iff not_le)
  from Cons.IH [OF rest] p show ?case by auto
qed simp

definition ticket_ok :: "position \<Rightarrow> bool" where
  "ticket_ok p \<longleftrightarrow> pos_id p \<noteq> [] \<and> pos_is_long p \<noteq> pos_is_short p \<and>
    (case pos_quantity p of Fin q \<Rightarrow> 0 < q | NonFinite \<Rightarrow> False)"

lemma position_side_Inr: "position_side p = Inr s \<Longrightarrow> pos_is_long p \<noteq> pos_is_short p"
  by (auto simp: position_side_def split: if_splits)

lemma plan_hedge_delta_InrD:
  assumes "plan_hedge_delta positions side quantity = Inr legs"
  obtains q ss where "quantity = Fin q" "0 < q" "snapshot_positions [] positions = Inr ss"
  using assms
  by (cases quantity; cases "snapshot_positions [] positions") (simp_all add: plan_hedge_delta_def not_le)

text \<open>whatever the tickets are, a plan is only returned when every ticket has its own nonempty
  identifier, one direction and a positive finite quantity, and the delta is positive.\<close>

theorem plan_refuses_ambiguous_tickets:
  "case plan_hedge_delta positions side quantity of
     Inl e \<Rightarrow> True
   | Inr legs \<Rightarrow> distinct (map pos_id positions) \<and> (\<exists>q. quantity = Fin q \<and> 0 < q) \<and>
       list_all ticket_ok positions"
proof (cases "plan_hedge_delta positions side quantity")
  case (Inr legs)
  then obtain q ss where q: "quantity = Fin q" "0 < q" "snapshot_positions [] positions = Inr ss"
    by (rule plan_hedge_delta_InrD)
  note checked = snapshot_positions_checked [OF q(3)]
  then have "list_all ticket_ok positions"
    by (fastforce simp: list_all_iff ticket_ok_def dest: position_side_Inr)
  with checked q Inr show ?thesis by simp
qed simp

end
