(* ===== verification/Economics.thy ===== *)
theory Economics
  imports Models
begin

text \<open>
  \<^verbatim>\<open>economics.py\<close>: the Taker's returns, account choice, leverage, risk gate and freshness gate,
  and the normalisation of MT5 swap points.

  The time zone database is a parameter: \<open>zone name\<close> is \<open>None\<close> for a name it does not know,
  otherwise a function from the UTC second to the Python weekday (Monday is 0) on the server's
  clock, which is \<open>None\<close> outside the range of \<^verbatim>\<open>datetime\<close>.
\<close>

section \<open>Input checks\<close>

definition require_positive :: "string \<Rightarrow> rat \<Rightarrow> exn + unit" where
  "require_positive name value =
    (if value \<le> 0 then Inl (ValueError (name @ '' must be positive'')) else Inr ())"

definition require_finite_decimal :: "string \<Rightarrow> dec \<Rightarrow> exn + rat" where
  "require_finite_decimal name value = (case value of
     NonFinite \<Rightarrow> Inl (ValueError (name @ '' must be a finite Decimal'')) | Fin x \<Rightarrow> Inr x)"

definition require_positive_decimal :: "string \<Rightarrow> dec \<Rightarrow> exn + rat" where
  "require_positive_decimal name value = bindE (require_finite_decimal name value) (\<lambda>x.
     if x \<le> 0 then Inl (ValueError (name @ '' must be positive'')) else Inr x)"

definition validate_book :: "book_top \<Rightarrow> exn + unit" where
  "validate_book book = bindE (require_positive ''bid'' (bt_bid book)) (\<lambda>_.
     bindE (require_positive ''ask'' (bt_ask book)) (\<lambda>_.
       if bt_ask book < bt_bid book then Inl (ValueError ''crossed book'')
       else if bt_bid_size book < 0 \<or> bt_ask_size book < 0 then
         Inl (ValueError ''book sizes cannot be negative'')
       else Inr ()))"

section \<open>MT5 swap\<close>

definition MT5_SWAP_DISABLED :: int where "MT5_SWAP_DISABLED = 0"
definition MT5_SWAP_POINTS :: int where "MT5_SWAP_POINTS = 1"

type_synonym zone_db = "string \<Rightarrow> (int \<Rightarrow> int option) option"

definition normalize_mt5_points_swap ::
  "zone_db \<Rightarrow> dec \<Rightarrow> dec \<Rightarrow> dec \<Rightarrow> dec \<Rightarrow> int \<Rightarrow> dec list \<Rightarrow> int \<Rightarrow> string \<Rightarrow> exn + rat \<times> rat"
where
  "normalize_mt5_points_swap zone swap_long swap_short point ask native_swap_mode swap_rates now_ns
      server_timezone =
    bindE (require_finite_decimal ''swap_long'' swap_long) (\<lambda>long.
    bindE (require_finite_decimal ''swap_short'' swap_short) (\<lambda>short.
    bindE (require_positive_decimal ''point'' point) (\<lambda>pt.
    bindE (require_positive_decimal ''ask'' ask) (\<lambda>a.
      if native_swap_mode \<noteq> MT5_SWAP_DISABLED \<and> native_swap_mode \<noteq> MT5_SWAP_POINTS then
        Inl (ValueError ''native_swap_mode must be MT5 DISABLED(0) or POINTS(1)'')
      else if length swap_rates \<noteq> 7 then
        Inl (ValueError ''swap_rates must contain exactly seven MQL weekday multipliers'')
      else bindE (mapE (\<lambda>(index, rate). require_finite_decimal (''swap_rates['' @ int_text (int index) @ '']'') rate)
          (enumerate 0 swap_rates)) (\<lambda>rates.
        if now_ns < 0 then Inl (ValueError ''now_ns must be a non-bool non-negative integer'')
        else if server_timezone = [] \<or> server_timezone \<noteq> py_strip server_timezone then
          Inl (ValueError ''server_timezone must be a non-empty trimmed IANA timezone'')
        else case zone server_timezone of
          None \<Rightarrow> Inl (ValueError ''server_timezone must name an available IANA timezone'')
        | Some clock \<Rightarrow> (case clock (now_ns div 1000000000) of
            None \<Rightarrow> Inl (ValueError ''now_ns is outside the supported datetime range'')
          | Some weekday \<Rightarrow>
              if native_swap_mode = MT5_SWAP_DISABLED then Inr (0, 0)
              else let multiplier = rates ! nat ((weekday + 1) mod 7) in
                Inr (dmul (dquot (dmul long pt) a) multiplier,
                     dmul (dquot (dmul short pt) a) multiplier)))))))"

section \<open>Account choice and returns\<close>

definition select_source_account :: "source_account list \<Rightarrow> source_direction \<Rightarrow> exn + source_account" where
  "select_source_account accounts direction =
    (if accounts = [] then Inl (ValueError ''at least one source account is required'')
     else let ordered = sort_key sa_position_ounces accounts in
       Inr (if direction = LONG then hd ordered else last ordered))"

definition long_net_return ::
  "rat \<Rightarrow> rat \<Rightarrow> taker_economics_config \<Rightarrow> carry_config option \<Rightarrow> fx_config option \<Rightarrow> exn + rat"
where
  "long_net_return source_ask_usdt hedge_bid_usd config carry fx =
    bindE (require_positive ''source ask'' source_ask_usdt) (\<lambda>_.
    bindE (require_positive ''hedge bid'' hedge_bid_usd) (\<lambda>_.
      let current_carry = (case carry of None \<Rightarrow> te_carry config | Some c \<Rightarrow> c);
          current_fx = (case fx of None \<Rightarrow> te_fx config | Some f \<Rightarrow> f);
          hedge_bid_usdt = dmul hedge_bid_usd (fx_usd_usdt_bid current_fx);
          gross = dsub (dquot hedge_bid_usdt source_ask_usdt) 1
      in Inr (dsub (dadd (dsub gross (cc_bitfinex_long current_carry))
                (cc_mt5_short_swap current_carry))
           (cc_total_trade_fee current_carry))))"

definition short_net_return ::
  "rat \<Rightarrow> rat \<Rightarrow> taker_economics_config \<Rightarrow> carry_config option \<Rightarrow> fx_config option \<Rightarrow> exn + rat"
where
  "short_net_return source_bid_usdt hedge_ask_usd config carry fx =
    bindE (require_positive ''source bid'' source_bid_usdt) (\<lambda>_.
    bindE (require_positive ''hedge ask'' hedge_ask_usd) (\<lambda>_.
      let current_carry = (case carry of None \<Rightarrow> te_carry config | Some c \<Rightarrow> c);
          current_fx = (case fx of None \<Rightarrow> te_fx config | Some f \<Rightarrow> f);
          hedge_ask_usdt = dmul hedge_ask_usd (fx_usd_usdt_ask current_fx)
      in if hedge_ask_usdt = 0 then Inl ArithmeticError
         else let gross = dsub (dquot source_bid_usdt hedge_ask_usdt) 1
         in Inr (dsub (dadd (dsub gross (cc_bitfinex_short current_carry))
                   (cc_mt5_long_swap current_carry))
              (cc_total_trade_fee current_carry))))"

definition expected_leverage :: "rat \<Rightarrow> rat \<Rightarrow> exn + int" where
  "expected_leverage margin_level base_margin_level =
    (let denominator = dadd margin_level base_margin_level in
     if denominator \<le> 0 then Inl (ValueError ''combined margin level must be positive'')
     else case dfloordiv 10000 denominator of
       None \<Rightarrow> Inl ArithmeticError
     | Some q \<Rightarrow> Inr (max 1 q))"

section \<open>The risk gate\<close>

definition risk_allows :: "opportunity \<Rightarrow> hedge_account \<Rightarrow> taker_economics_config \<Rightarrow> bool" where
  "risk_allows opp hedge config =
    (let quantity = op_source_quantity_ounces opp in
     if quantity \<le> 0 then False
     else
     let sign = (if op_direction opp = LONG then 1 else - 1);
         source_before = sa_position_ounces (op_source_account opp);
         hedge_before = ha_position_ounces hedge;
         source_after = dadd source_before (dmul sign quantity);
         hedge_after = dsub hedge_before (dmul sign quantity);
         risk = te_risk config
     in if rc_source_max_abs risk < dabs source_after \<and> dabs source_before < dabs source_after then False
     else if rc_hedge_max_abs risk < dabs hedge_after \<and> dabs hedge_before < dabs hedge_after then False
     else if \<not> rc_only_long risk then True
     else if dmul source_before source_after < 0 \<or> dmul hedge_before hedge_after < 0 then False
     else if dabs source_after < rc_source_min_keep_abs risk \<and> dabs source_after < dabs source_before then False
     else \<not> (dabs hedge_after < rc_hedge_min_keep_abs risk \<and> dabs hedge_after < dabs hedge_before))"

section \<open>The opportunity\<close>

text \<open>The two branches of the evaluation, each for a return above its threshold.\<close>

definition short_candidate ::
  "book_top \<Rightarrow> book_top \<Rightarrow> source_account list \<Rightarrow> hedge_account \<Rightarrow> taker_economics_config \<Rightarrow> rat \<Rightarrow>
    exn + opportunity option"
where
  "short_candidate source_book hedge_book accounts hedge config short_return =
    bindE (select_source_account accounts SHORT) (\<lambda>account.
      bindE (expected_leverage (te_margin_level config) (sa_base_margin_level account)) (\<lambda>lev.
        let quantity = min (min (min (sa_max_short_ounces account) (ha_max_long_ounces hedge))
              (bt_bid_size source_book)) (te_open_quantity_short config);
            candidate = \<lparr>op_direction = SHORT, op_source_account = account,
              op_source_price_usdt = bt_bid source_book,
              op_hedge_reference_price_usd = bt_ask hedge_book,
              op_source_quantity_ounces = quantity, op_net_return = short_return,
              op_leverage = lev\<rparr>
        in Inr (if risk_allows candidate hedge config then Some candidate else None)))"

definition long_candidate ::
  "book_top \<Rightarrow> book_top \<Rightarrow> source_account list \<Rightarrow> hedge_account \<Rightarrow> taker_economics_config \<Rightarrow> rat \<Rightarrow>
    exn + opportunity option"
where
  "long_candidate source_book hedge_book accounts hedge config long_return =
    bindE (select_source_account accounts LONG) (\<lambda>account.
      bindE (expected_leverage (te_margin_level config) (sa_base_margin_level account)) (\<lambda>lev.
        let quantity = min (min (min (sa_max_long_ounces account) (ha_max_short_ounces hedge))
              (bt_ask_size source_book)) (te_open_quantity_long config);
            candidate = \<lparr>op_direction = LONG, op_source_account = account,
              op_source_price_usdt = bt_ask source_book,
              op_hedge_reference_price_usd = bt_bid hedge_book,
              op_source_quantity_ounces = quantity, op_net_return = long_return,
              op_leverage = lev\<rparr>
        in Inr (if risk_allows candidate hedge config then Some candidate else None)))"

definition evaluate_taker ::
  "book_top \<Rightarrow> book_top \<Rightarrow> source_account list \<Rightarrow> hedge_account \<Rightarrow> taker_economics_config \<Rightarrow>
    source_direction option \<Rightarrow> carry_config option \<Rightarrow> fx_config option \<Rightarrow> exn + opportunity option"
where
  "evaluate_taker source_book hedge_book accounts hedge config allowed_direction carry fx =
    bindE (validate_book source_book) (\<lambda>_.
    bindE (validate_book hedge_book) (\<lambda>_.
      if te_base_book_quantity config \<le> 0 then
        Inl (ValueError ''base book quantity must be positive'')
      else
      bindE (if te_base_book_quantity config \<le> bt_bid_size source_book
          then bindE (short_net_return (bt_bid source_book) (bt_ask hedge_book) config carry fx) (\<lambda>r. Inr (Some r))
          else Inr None) (\<lambda>short_return.
      bindE (if te_base_book_quantity config \<le> bt_ask_size source_book
          then bindE (long_net_return (bt_ask source_book) (bt_bid hedge_book) config carry fx) (\<lambda>r. Inr (Some r))
          else Inr None) (\<lambda>long_return.
        if (allowed_direction = None \<or> allowed_direction = Some SHORT)
          \<and> (case short_return of None \<Rightarrow> False | Some r \<Rightarrow> te_threshold_short config < r)
        then short_candidate source_book hedge_book accounts hedge config (the short_return)
        else if (allowed_direction = None \<or> allowed_direction = Some LONG)
          \<and> (case long_return of None \<Rightarrow> False | Some r \<Rightarrow> te_threshold_long config < r)
        then long_candidate source_book hedge_book accounts hedge config (the long_return)
        else Inr None))))"

definition round_hedge_ounces :: "rat \<Rightarrow> int" where
  "round_hedge_ounces value = round_float value"

section \<open>Allocating a fill to whole ounces\<close>

text \<open>
  Both stores turn a signed source fill into a hedge obligation the same way
  (\<^verbatim>\<open>_allocate_source_fill\<close> of \<^verbatim>\<open>store.py\<close>): add it to the balance, round to whole ounces,
  keep the rest as the new balance.
\<close>

definition allocate_fill :: "rat \<Rightarrow> rat \<Rightarrow> int \<times> rat" where
  "allocate_fill balance signed_fill =
    (let total = dadd balance signed_fill; rounded = round_hedge_ounces total
     in (rounded, dsub total (of_int rounded)))"

lemma allocate_exact:
  assumes g: "on_grid b" "on_grid f" and l: "\<bar>b + f\<bar> < 4194304"
  shows "allocate_fill b f = (rhe (b + f), b + f - of_int (rhe (b + f)))"
    and "\<bar>b + f - of_int (rhe (b + f))\<bar> \<le> 1/2" and "on_grid (b + f - of_int (rhe (b + f)))"
proof -
  have e: "\<bar>b + f - of_int (rhe (b + f))\<bar> \<le> 1/2" by (rule rhe_error)
  then show "\<bar>b + f - of_int (rhe (b + f))\<bar> \<le> 1/2" .
  have "dadd b f = b + f" using g l by (intro dadd_exact) auto
  moreover have "round_hedge_ounces (b + f) = rhe (b + f)"
    unfolding round_hedge_ounces_def using g l by (intro round_float_eq_rhe) auto
  moreover have "dsub (b + f) (of_int (rhe (b + f))) = b + f - of_int (rhe (b + f))"
    using g e by (intro dsub_exact) auto
  ultimately show "allocate_fill b f = (rhe (b + f), b + f - of_int (rhe (b + f)))"
    by (simp add: allocate_fill_def Let_def)
  show "on_grid (b + f - of_int (rhe (b + f)))" using g by auto
qed

text \<open>A run of fills: the last balance and the net whole ounces handed to the hedge.\<close>

fun allocate_run :: "rat \<Rightarrow> rat list \<Rightarrow> rat \<times> int" where
  "allocate_run b [] = (b, 0)"
| "allocate_run b (f # fs) = (case allocate_fill b f of (n, b') \<Rightarrow>
     case allocate_run b' fs of (b'', m) \<Rightarrow> (b'', n + m))"

lemma allocate_run_conserves:
  assumes "on_grid b" "\<bar>b\<bar> \<le> 1/2" "\<forall>f \<in> set fs. on_grid f \<and> \<bar>f\<bar> < 4000000" "allocate_run b fs = (r, n)"
  shows "r + of_int n = b + sum_list fs \<and> \<bar>r\<bar> \<le> 1/2 \<and> on_grid r"
  using assms
proof (induction fs arbitrary: b r n)
  case (Cons f fs)
  have f: "on_grid f" "\<bar>f\<bar> < 4000000" using Cons.prems by auto
  then have l: "\<bar>b + f\<bar> < 4194304" using Cons.prems(2) by linarith
  note a = allocate_exact [OF Cons.prems(1) f(1) l]
  obtain r' n' where rn: "allocate_run (b + f - of_int (rhe (b + f))) fs = (r', n')" by fastforce
  have "r' + of_int n' = b + f - of_int (rhe (b + f)) + sum_list fs \<and> \<bar>r'\<bar> \<le> 1/2 \<and> on_grid r'"
    using Cons.IH [OF a(3,2) _ rn] Cons.prems(3) by simp
  moreover have "r = r'" "n = rhe (b + f) + n'" using Cons.prems(4) a(1) rn by auto
  ultimately show ?case by (auto simp: algebra_simps)
qed auto

lemma rhe_half [simp]: "rhe (1/2) = 0" "rhe (- (1/2)) = 0"
  using rhe_minus [of "1/2"] by (simp_all add: rhe_def)

lemma allocate_run_one_sided:
  assumes "on_grid b" "\<bar>b\<bar> \<le> 1/2" "\<forall>f \<in> set fs. on_grid f \<and> \<bar>f\<bar> < 4000000" "allocate_run b fs = (r, n)"
  shows "\<forall>f \<in> set fs. f \<le> 0 \<Longrightarrow> n \<le> 0" and "\<forall>f \<in> set fs. 0 \<le> f \<Longrightarrow> 0 \<le> n"
  using assms
proof (induction fs arbitrary: b r n)
  case (Cons f fs)
  { case 1
    have f: "on_grid f" "\<bar>f\<bar> < 4000000" "f \<le> 0" using 1 by auto
    then have l: "\<bar>b + f\<bar> < 4194304" and u: "b + f \<le> 1/2" using 1(3) by linarith+
    note a = allocate_exact [OF 1(2) f(1) l]
    obtain r' n' where rn: "allocate_run (b + f - of_int (rhe (b + f))) fs = (r', n')" by fastforce
    have "n' \<le> 0" using Cons.IH(1) [OF _ a(3,2) _ rn] 1 by simp
    moreover have "n = rhe (b + f) + n'" using 1(5) a(1) rn by auto
    ultimately show ?case using rhe_mono [OF u] by simp
  next
    case 2
    have f: "on_grid f" "\<bar>f\<bar> < 4000000" "0 \<le> f" using 2 by auto
    then have l: "\<bar>b + f\<bar> < 4194304" and u: "- (1/2) \<le> b + f" using 2(3) by linarith+
    note a = allocate_exact [OF 2(2) f(1) l]
    obtain r' n' where rn: "allocate_run (b + f - of_int (rhe (b + f))) fs = (r', n')" by fastforce
    have "0 \<le> n'" using Cons.IH(2) [OF _ a(3,2) _ rn] 2 by simp
    moreover have "n = rhe (b + f) + n'" using 2(5) a(1) rn by auto
    ultimately show ?case using rhe_mono [OF u] by simp
  }
qed auto

section \<open>Freshness\<close>

definition MAX_OBSERVATION_FUTURE_NS :: int where "MAX_OBSERVATION_FUTURE_NS = 1000000000"

definition market_inputs_are_fresh ::
  "int \<Rightarrow> int \<Rightarrow> int \<Rightarrow> int \<Rightarrow> int \<Rightarrow> bool \<Rightarrow> int \<Rightarrow> int \<Rightarrow> int \<Rightarrow> int \<Rightarrow> bool"
where
  "market_inputs_are_fresh now_ns source_ts_ns hedge_ts_ns cost_ts_ns session_ts_ns session_open
      max_quote_age_ns max_cross_leg_skew_ns max_cost_age_ns max_session_age_ns =
    (if \<not> session_open \<or> list_ex (\<lambda>timestamp. now_ns < timestamp) [source_ts_ns, hedge_ts_ns, cost_ts_ns]
        \<or> now_ns + MAX_OBSERVATION_FUTURE_NS < session_ts_ns then False
     else if max_quote_age_ns < now_ns - source_ts_ns then False
     else if max_quote_age_ns < now_ns - hedge_ts_ns then False
     else if max_cross_leg_skew_ns < \<bar>source_ts_ns - hedge_ts_ns\<bar> then False
     else if max_cost_age_ns < now_ns - cost_ts_ns then False
     else now_ns - session_ts_ns \<le> max_session_age_ns)"

section \<open>Account choice is extremal\<close>

lemma sort_key_hd_min: "xs \<noteq> [] \<Longrightarrow> x \<in> set xs \<Longrightarrow> f (hd (sort_key f xs)) \<le> f x"
proof -
  assume xs: "xs \<noteq> []" "x \<in> set xs"
  have "sorted (map f (sort_key f xs))" by (rule sorted_sort_key)
  moreover obtain y ys where ys: "sort_key f xs = y # ys" using xs(1) by (metis list.exhaust set_empty set_sort)
  moreover have "x \<in> set (sort_key f xs)" using xs(2) by simp
  ultimately show ?thesis by auto
qed

lemma sort_key_last_max: "xs \<noteq> [] \<Longrightarrow> x \<in> set xs \<Longrightarrow> f x \<le> f (last (sort_key f xs))"
proof -
  assume xs: "xs \<noteq> []" "x \<in> set xs"
  have s: "sorted (map f (sort_key f xs))" by (rule sorted_sort_key)
  have "sort_key f xs \<noteq> []" using xs(1) by (metis set_empty set_sort)
  then obtain ys y where ys: "sort_key f xs = ys @ [y]" by (metis append_butlast_last_id)
  moreover have "x \<in> set (sort_key f xs)" using xs(2) by simp
  ultimately show ?thesis using s by (auto simp: sorted_append)
qed

lemma sort_key_ends_in: "xs \<noteq> [] \<Longrightarrow> hd (sort_key f xs) \<in> set xs \<and> last (sort_key f xs) \<in> set xs"
  by (metis hd_in_set last_in_set set_empty set_sort)

definition extremal_account :: "source_account list \<Rightarrow> source_direction \<Rightarrow> source_account \<Rightarrow> bool" where
  "extremal_account accounts direction account \<longleftrightarrow> account \<in> set accounts \<and>
    list_all (\<lambda>a. if direction = LONG then sa_position_ounces account \<le> sa_position_ounces a
      else sa_position_ounces a \<le> sa_position_ounces account) accounts"

lemma select_source_account_extremal:
  "select_source_account accounts direction = Inr account \<Longrightarrow> extremal_account accounts direction account"
  by (cases "accounts = []"; cases direction)
    (auto simp: select_source_account_def extremal_account_def list_all_iff Let_def
      sort_key_hd_min sort_key_last_max sort_key_ends_in)

section \<open>Leverage\<close>

lemma dfloordiv_Some:
  assumes "dfloordiv x y = Some q" "0 \<le> x" "0 < y"
  shows "of_int q * y \<le> x" "x < (of_int q + 1) * y" "0 \<le> q"
proof -
  have xy: "0 \<le> x / y" using assms(2,3) by simp
  then have q: "q = \<lfloor>x / y\<rfloor>" using assms(1) by (simp add: dfloordiv_def Let_def split: if_splits)
  show "of_int q * y \<le> x" using assms(3) by (simp add: q pos_le_divide_eq [symmetric])
  have "x / y < of_int q + 1" unfolding q by linarith
  then show "x < (of_int q + 1) * y" using assms(3) by (simp add: pos_divide_less_eq)
  show "0 \<le> q" using xy by (simp add: q)
qed

text \<open>the leverage is the largest whole number that keeps leverage times the combined margin level
  within 10000, but never below one; a nonpositive margin level is an error.\<close>

theorem expected_leverage_spec:
  "case expected_leverage margin base of
     Inr lev \<Rightarrow> 0 < dadd margin base \<and> 1 \<le> lev \<and>
       (lev = 1 \<or> of_int lev * dadd margin base \<le> 10000) \<and> 10000 < (of_int lev + 1) * dadd margin base
   | Inl e \<Rightarrow> dadd margin base \<le> 0 \<or> dadd margin base * 10 ^ 28 \<le> 10000"
proof (cases "0 < dadd margin base")
  case True
  show ?thesis
  proof (cases "dfloordiv 10000 (dadd margin base)")
    case None
    then have "10 ^ 28 \<le> \<lfloor>10000 / dadd margin base\<rfloor>"
      using True by (auto simp: dfloordiv_def Let_def split: if_splits)
    then have "10 ^ 28 \<le> 10000 / dadd margin base" by (simp add: le_floor_iff)
    then show ?thesis using True None by (simp add: expected_leverage_def pos_le_divide_eq mult.commute)
  next
    case (Some q)
    note q = dfloordiv_Some [OF Some _ True]
    have "(of_int q + 1) * dadd margin base \<le> (of_int (max 1 q) + 1) * dadd margin base"
      using True by (intro mult_right_mono) auto
    with q(2) have "10000 < (of_int (max 1 q) + 1) * dadd margin base" by simp
    then show ?thesis using True Some q(1) by (auto simp: expected_leverage_def max_def)
  qed
qed (simp add: expected_leverage_def)

section \<open>The risk gate bounds every partial fill\<close>

lemma between_abs: "(0::rat) \<le> f \<Longrightarrow> f \<le> q \<Longrightarrow> \<bar>b + s * f\<bar> \<le> max \<bar>b\<bar> \<bar>b + s * q\<bar>"
proof -
  assume f: "0 \<le> f" "f \<le> q"
  show ?thesis
  proof (cases "0 \<le> s")
    case True
    then have "0 \<le> s * f" "s * f \<le> s * q" using f by (auto intro: mult_left_mono)
    then show ?thesis by linarith
  next
    case False
    then have "s * f \<le> 0" "s * q \<le> s * f" using f by (auto simp: mult_nonpos_nonneg intro: mult_left_mono_neg)
    then show ?thesis by linarith
  qed
qed

lemma between_sign: "(0::rat) \<le> f \<Longrightarrow> f \<le> q \<Longrightarrow> 0 \<le> b * (b + s * q) \<Longrightarrow> 0 \<le> b * (b + s * f)"
proof -
  assume f: "0 \<le> f" "f \<le> q" and n: "0 \<le> b * (b + s * q)"
  show ?thesis
  proof (cases "q = 0")
    case False
    with f have q: "0 < q" by simp
    have "b * (b + s * f) = (1 - f / q) * (b * b) + (f / q) * (b * (b + s * q))"
      using q by (simp add: field_simps)
    moreover have "0 \<le> (1 - f / q) * (b * b)" "0 \<le> (f / q) * (b * (b + s * q))"
      using f q n by (auto intro!: mult_nonneg_nonneg)
    ultimately show ?thesis by linarith
  qed (use f n in simp)
qed

definition oz :: "rat \<Rightarrow> bool" where
  "oz x \<longleftrightarrow> on_grid x \<and> \<bar>x\<bar> < 10 ^ 18"

lemma oz_after:
  assumes "oz b" "oz q" "s = 1 \<or> s = - 1"
  shows "dmul s q = s * q" "dadd b (s * q) = b + s * q" "dsub b (s * q) = b - s * q"
    "dabs b = \<bar>b\<bar>" "dabs (b + s * q) = \<bar>b + s * q\<bar>" "dabs (b - s * q) = \<bar>b - s * q\<bar>"
proof -
  have q: "on_grid q" "\<bar>q\<bar> < 10 ^ 18" and b: "on_grid b" "\<bar>b\<bar> < 10 ^ 18" using assms by (auto simp: oz_def)
  show "dmul s q = s * q" using assms(3) q dmul_unit_exact [of q] by auto
  have g: "on_grid (s * q)" "\<bar>s * q\<bar> < 10 ^ 18" using assms(3) q by auto
  have l: "\<bar>b + s * q\<bar> < 10 ^ 19" "\<bar>b - s * q\<bar> < 10 ^ 19" using b(2) g(2) by (simp_all add: abs_if split: if_splits)
  show "dadd b (s * q) = b + s * q" "dsub b (s * q) = b - s * q"
    using b g l by (simp_all add: dadd_exact dsub_exact)
  show "dabs b = \<bar>b\<bar>" using b by (intro dabs_exact) auto
  show "dabs (b + s * q) = \<bar>b + s * q\<bar>" "dabs (b - s * q) = \<bar>b - s * q\<bar>"
    using b g l by (auto intro!: dabs_exact)
qed

text \<open>The gate on exact quantities, with the direction as a sign.\<close>

definition direction_sign :: "source_direction \<Rightarrow> rat" where
  "direction_sign d = (if d = LONG then 1 else - 1)"

definition gate_leg :: "rat \<Rightarrow> rat \<Rightarrow> bool \<Rightarrow> rat \<Rightarrow> rat \<Rightarrow> bool" where
  "gate_leg maximum minimum only_long before after \<longleftrightarrow>
    \<not> (maximum < \<bar>after\<bar> \<and> \<bar>before\<bar> < \<bar>after\<bar>) \<and>
    (\<not> only_long \<or> \<not> before * after < 0 \<and> \<not> (\<bar>after\<bar> < minimum \<and> \<bar>after\<bar> < \<bar>before\<bar>))"

lemma risk_allows_exact:
  assumes oz: "oz (sa_position_ounces (op_source_account opp))" "oz (ha_position_ounces hedge)"
      "oz (op_source_quantity_ounces opp)"
  shows "risk_allows opp hedge config \<longleftrightarrow> 0 < op_source_quantity_ounces opp \<and>
    gate_leg (rc_source_max_abs (te_risk config)) (rc_source_min_keep_abs (te_risk config))
      (rc_only_long (te_risk config)) (sa_position_ounces (op_source_account opp))
      (sa_position_ounces (op_source_account opp) + direction_sign (op_direction opp) * op_source_quantity_ounces opp) \<and>
    gate_leg (rc_hedge_max_abs (te_risk config)) (rc_hedge_min_keep_abs (te_risk config))
      (rc_only_long (te_risk config)) (ha_position_ounces hedge)
      (ha_position_ounces hedge - direction_sign (op_direction opp) * op_source_quantity_ounces opp)"
proof -
  have s: "direction_sign (op_direction opp) = 1 \<or> direction_sign (op_direction opp) = - 1"
    by (simp add: direction_sign_def)
  show ?thesis
    unfolding risk_allows_def Let_def direction_sign_def [symmetric] gate_leg_def
      oz_after [OF oz(1,3) s] oz_after [OF oz(2,3) s] dmul_sign
    by (simp add: not_le)
qed

lemma gate_leg_partial:
  assumes g: "gate_leg maximum minimum only_long b (b + s * q)" and f: "0 \<le> f" "f \<le> q"
  shows "\<bar>b + s * f\<bar> \<le> max maximum \<bar>b\<bar> \<and> (only_long \<longrightarrow> 0 \<le> b * (b + s * f))"
proof -
  have "\<bar>b + s * q\<bar> \<le> max maximum \<bar>b\<bar>" using g unfolding gate_leg_def by linarith
  then have "\<bar>b + s * f\<bar> \<le> max maximum \<bar>b\<bar>" using between_abs [OF f, of b s] by linarith
  moreover have "only_long \<Longrightarrow> 0 \<le> b * (b + s * q)" using g by (simp add: gate_leg_def not_less)
  ultimately show ?thesis using between_sign [OF f] by blast
qed

text \<open>an admitted Taker opportunity is safe under every partial fill, not only the full one: neither
  leg's absolute position exceeds its limit unless it already did and shrinks, and in long-only
  mode neither leg crosses zero.\<close>

theorem risk_gate_covers_partial_fills:
  assumes "risk_allows opp hedge config"
    "oz (sa_position_ounces (op_source_account opp))" "oz (ha_position_ounces hedge)"
    "oz (op_source_quantity_ounces opp)"
    "0 \<le> f" "f \<le> op_source_quantity_ounces opp"
  shows "let sb = sa_position_ounces (op_source_account opp); hb = ha_position_ounces hedge;
      s = direction_sign (op_direction opp); risk = te_risk config in
    \<bar>sb + s * f\<bar> \<le> max (rc_source_max_abs risk) \<bar>sb\<bar> \<and>
    \<bar>hb - s * f\<bar> \<le> max (rc_hedge_max_abs risk) \<bar>hb\<bar> \<and>
    (rc_only_long risk \<longrightarrow> 0 \<le> sb * (sb + s * f) \<and> 0 \<le> hb * (hb - s * f))"
proof -
  note g = assms(1) [unfolded risk_allows_exact [OF assms(2-4)]]
  from g have h: "gate_leg (rc_hedge_max_abs (te_risk config)) (rc_hedge_min_keep_abs (te_risk config))
      (rc_only_long (te_risk config)) (ha_position_ounces hedge)
      (ha_position_ounces hedge + (- direction_sign (op_direction opp)) * op_source_quantity_ounces opp)"
    by simp
  from g have s: "gate_leg (rc_source_max_abs (te_risk config)) (rc_source_min_keep_abs (te_risk config))
      (rc_only_long (te_risk config)) (sa_position_ounces (op_source_account opp))
      (sa_position_ounces (op_source_account opp) + direction_sign (op_direction opp) * op_source_quantity_ounces opp)"
    by simp
  from gate_leg_partial [OF s assms(5,6)] gate_leg_partial [OF h assms(5,6)]
  show ?thesis by (simp add: Let_def)
qed

text \<open>An example evaluation shared by the witnesses.\<close>

definition ex_account :: source_account where
  "ex_account = \<lparr>sa_account_id = ''A'', sa_client_id = None, sa_position_ounces = 3,
    sa_max_long_ounces = 5, sa_max_short_ounces = 5, sa_base_margin_level = 15\<rparr>"

definition ex_hedge :: hedge_account where
  "ex_hedge = \<lparr>ha_position_ounces = - 3, ha_max_long_ounces = 5, ha_max_short_ounces = 5\<rparr>"

definition ex_opp :: opportunity where
  "ex_opp = \<lparr>op_direction = SHORT, op_source_account = ex_account, op_source_price_usdt = 2000,
    op_hedge_reference_price_usd = 1000, op_source_quantity_ounces = 2, op_net_return = 1, op_leverage = 19\<rparr>"

definition ex_carry :: carry_config where
  "ex_carry = \<lparr>cc_bitfinex_long = 0, cc_bitfinex_short = 0, cc_mt5_long_swap = 0,
    cc_mt5_short_swap = 0, cc_total_trade_fee = 0\<rparr>"

definition ex_risk :: risk_config where
  "ex_risk = \<lparr>rc_source_max_abs = 4, rc_hedge_max_abs = 4, rc_source_min_keep_abs = 0,
    rc_hedge_min_keep_abs = 0, rc_only_long = True\<rparr>"

definition ex_taker :: taker_economics_config where
  "ex_taker = \<lparr>te_base_book_quantity = 1, te_open_quantity_long = 2, te_open_quantity_short = 2,
    te_threshold_long = 0, te_threshold_short = 0, te_margin_level = 500, te_carry = ex_carry,
    te_fx = \<lparr>fx_usd_usdt_bid = 1, fx_usd_usdt_ask = 1\<rparr>, te_risk = ex_risk\<rparr>"

definition ex_book :: "rat \<Rightarrow> rat \<Rightarrow> book_top" where
  "ex_book bid ask = \<lparr>bt_bid = bid, bt_ask = ask, bt_bid_size = 5, bt_ask_size = 5\<rparr>"

lemmas ex_defs = ex_account_def ex_hedge_def ex_opp_def ex_carry_def ex_risk_def ex_taker_def ex_book_def

lemma ex_oz: "oz 3" "oz (- 3)" "oz 2"
  by (simp_all add: oz_def)

lemma ex_gate: "risk_allows ex_opp ex_hedge ex_taker"
  by (subst risk_allows_exact) (simp_all add: ex_defs ex_oz gate_leg_def direction_sign_def)

theorem risk_gate_covers_partial_fills_witness:
  "risk_allows ex_opp ex_hedge ex_taker \<and>
   (let sb = sa_position_ounces (op_source_account ex_opp); hb = ha_position_ounces ex_hedge;
      s = direction_sign (op_direction ex_opp); risk = te_risk ex_taker in
    \<bar>sb + s * 1\<bar> \<le> max (rc_source_max_abs risk) \<bar>sb\<bar> \<and>
    \<bar>hb - s * 1\<bar> \<le> max (rc_hedge_max_abs risk) \<bar>hb\<bar> \<and>
    (rc_only_long risk \<longrightarrow> 0 \<le> sb * (sb + s * 1) \<and> 0 \<le> hb * (hb - s * 1)))"
  by (intro conjI ex_gate risk_gate_covers_partial_fills) (simp_all add: ex_defs ex_oz)

section \<open>What an opportunity guarantees\<close>

definition taker_signal ::
  "source_direction \<Rightarrow> book_top \<Rightarrow> book_top \<Rightarrow> taker_economics_config \<Rightarrow> carry_config option \<Rightarrow> fx_config option \<Rightarrow> rat \<Rightarrow> bool"
where
  "taker_signal d source_book hedge_book config carry fx r \<longleftrightarrow> (case d of
     SHORT \<Rightarrow> te_base_book_quantity config \<le> bt_bid_size source_book \<and>
       short_net_return (bt_bid source_book) (bt_ask hedge_book) config carry fx = Inr r \<and>
       te_threshold_short config < r
   | LONG \<Rightarrow> te_base_book_quantity config \<le> bt_ask_size source_book \<and>
       long_net_return (bt_ask source_book) (bt_bid hedge_book) config carry fx = Inr r \<and>
       te_threshold_long config < r)"

definition opportunity_sound ::
  "book_top \<Rightarrow> book_top \<Rightarrow> source_account list \<Rightarrow> hedge_account \<Rightarrow> taker_economics_config \<Rightarrow>
    carry_config option \<Rightarrow> fx_config option \<Rightarrow> opportunity \<Rightarrow> bool"
where
  "opportunity_sound source_book hedge_book accounts hedge config carry fx opp \<longleftrightarrow>
    (let d = op_direction opp; account = op_source_account opp; q = op_source_quantity_ounces opp in
     taker_signal d source_book hedge_book config carry fx (op_net_return opp) \<and>
     extremal_account accounts d account \<and>
     expected_leverage (te_margin_level config) (sa_base_margin_level account) = Inr (op_leverage opp) \<and>
     0 < q \<and>
     (if d = LONG then q \<le> sa_max_long_ounces account \<and> q \<le> ha_max_short_ounces hedge \<and>
         q \<le> bt_ask_size source_book \<and> q \<le> te_open_quantity_long config \<and>
         op_source_price_usdt opp = bt_ask source_book
      else q \<le> sa_max_short_ounces account \<and> q \<le> ha_max_long_ounces hedge \<and>
         q \<le> bt_bid_size source_book \<and> q \<le> te_open_quantity_short config \<and>
         op_source_price_usdt opp = bt_bid source_book) \<and>
     risk_allows opp hedge config)"

lemma risk_allows_positive: "risk_allows opp hedge config \<Longrightarrow> 0 < op_source_quantity_ounces opp"
  by (simp add: risk_allows_def Let_def split: if_splits)

lemma short_candidate_sound:
  assumes "short_candidate sb hb accounts hedge config r = Inr (Some opp)"
    "taker_signal SHORT sb hb config carry fx r"
  shows "op_direction opp = SHORT \<and> opportunity_sound sb hb accounts hedge config carry fx opp"
  using assms
  by (auto simp: short_candidate_def bindE_Inr_iff Let_def opportunity_sound_def
      dest: select_source_account_extremal risk_allows_positive split: if_splits)

lemma long_candidate_sound:
  assumes "long_candidate sb hb accounts hedge config r = Inr (Some opp)"
    "taker_signal LONG sb hb config carry fx r"
  shows "op_direction opp = LONG \<and> opportunity_sound sb hb accounts hedge config carry fx opp"
  using assms
  by (auto simp: long_candidate_def bindE_Inr_iff Let_def opportunity_sound_def
      dest: select_source_account_extremal risk_allows_positive split: if_splits)

lemma evaluate_taker_opportunity:
  assumes e: "evaluate_taker sb hb accounts hedge config allowed carry fx = Inr (Some opp)"
  shows "(allowed = None \<or> allowed = Some (op_direction opp)) \<and>
    opportunity_sound sb hb accounts hedge config carry fx opp \<and>
    \<not> (op_direction opp = LONG \<and> allowed = None \<and> taker_signal SHORT sb hb config carry fx r)"
proof -
  from e obtain short long where
    s0: "(if te_base_book_quantity config \<le> bt_bid_size sb
        then bindE (short_net_return (bt_bid sb) (bt_ask hb) config carry fx) (\<lambda>r. Inr (Some r))
        else Inr None) = Inr short" and
    l0: "(if te_base_book_quantity config \<le> bt_ask_size sb
        then bindE (long_net_return (bt_ask sb) (bt_bid hb) config carry fx) (\<lambda>r. Inr (Some r))
        else Inr None) = Inr long" and
    body: "(if (allowed = None \<or> allowed = Some SHORT)
        \<and> (case short of None \<Rightarrow> False | Some r \<Rightarrow> te_threshold_short config < r)
      then short_candidate sb hb accounts hedge config (the short)
      else if (allowed = None \<or> allowed = Some LONG)
        \<and> (case long of None \<Rightarrow> False | Some r \<Rightarrow> te_threshold_long config < r)
      then long_candidate sb hb accounts hedge config (the long)
      else Inr None) = Inr (Some opp)"
    unfolding evaluate_taker_def by (elim bindE_InrE if_InlE)
  have sh: "short = None \<and> \<not> te_base_book_quantity config \<le> bt_bid_size sb \<or>
      te_base_book_quantity config \<le> bt_bid_size sb \<and>
      (\<exists>r. short = Some r \<and> short_net_return (bt_bid sb) (bt_ask hb) config carry fx = Inr r)"
    using s0 by (auto simp: bindE_Inr_iff split: if_splits)
  have lo: "long = None \<or> te_base_book_quantity config \<le> bt_ask_size sb \<and>
      (\<exists>r. long = Some r \<and> long_net_return (bt_ask sb) (bt_bid hb) config carry fx = Inr r)"
    using l0 by (auto simp: bindE_Inr_iff split: if_splits)
  let ?S = "(allowed = None \<or> allowed = Some SHORT)
        \<and> (case short of None \<Rightarrow> False | Some r \<Rightarrow> te_threshold_short config < r)"
  show ?thesis
  proof (cases ?S)
    case True
    then obtain r where r: "short = Some r" "te_threshold_short config < r" by (cases short) auto
    with sh have "taker_signal SHORT sb hb config carry fx r" by (simp add: taker_signal_def)
    with short_candidate_sound [of sb hb accounts hedge config r opp] body True r show ?thesis
      by (auto simp: taker_signal_def)
  next
    case False
    let ?L = "(allowed = None \<or> allowed = Some LONG)
        \<and> (case long of None \<Rightarrow> False | Some r \<Rightarrow> te_threshold_long config < r)"
    from body False have L: ?L and lc: "long_candidate sb hb accounts hedge config (the long) = Inr (Some opp)"
      by (auto simp only: if_False split: if_splits)
    from L obtain r' where r': "long = Some r'" "te_threshold_long config < r'" by (cases long) auto
    with lo have "taker_signal LONG sb hb config carry fx r'" by (simp add: taker_signal_def)
    with long_candidate_sound [of sb hb accounts hedge config r' opp] lc r'
    have d: "op_direction opp = LONG" "opportunity_sound sb hb accounts hedge config carry fx opp" by simp_all
    have "allowed = None \<Longrightarrow> \<not> taker_signal SHORT sb hb config carry fx r"
      using False sh by (auto simp: taker_signal_def)
    with d L show ?thesis by auto
  qed
qed

text \<open>C35: a Taker opportunity is only returned for a direction the caller allows and whose net return is
  above its threshold; its account is the one with the extreme position, its quantity is positive
  and within both accounts' capacities, the visible book and the configured size, its leverage is
  the expected one and the risk gate admits it. Short wins over long when both signal.\<close>

theorem evaluate_taker_sound:
  "case evaluate_taker sb hb accounts hedge config allowed carry fx of
     Inr (Some opp) \<Rightarrow> (allowed = None \<or> allowed = Some (op_direction opp)) \<and>
       opportunity_sound sb hb accounts hedge config carry fx opp \<and>
       \<not> (op_direction opp = LONG \<and> allowed = None \<and> taker_signal SHORT sb hb config carry fx r)
   | _ \<Rightarrow> True"
  using evaluate_taker_opportunity [of sb hb accounts hedge config allowed carry fx]
  by (auto split: sum.split option.split)

end
