(* ===== verification/Maker_Economics.thy ===== *)
theory Maker_Economics
  imports Economics
begin

text \<open>
  \<^verbatim>\<open>maker_economics.py\<close>: the Maker's spread, its choice of accounts, its quote, the passive clamp
  of a price, and the bounds on what the working orders can still do to the hedge account.

  \<^verbatim>\<open>sorted(..., reverse=True)\<close> keeps the order of equal elements, so it is the reversal of the
  stable sort of the reversed list. An \<^verbatim>\<open>Account | None\<close> is an option.
\<close>

section \<open>Spread\<close>

definition maker_adjusted_spread ::
  "source_direction \<Rightarrow> maker_economics_config \<Rightarrow> carry_config option \<Rightarrow> rat"
where
  "maker_adjusted_spread direction config carry =
    (let current_carry = (case carry of None \<Rightarrow> me_carry config | Some c \<Rightarrow> c);
         side = (if direction = LONG then me_bid config else me_ask config);
         bfx_rate = (if direction = LONG then cc_bitfinex_long current_carry else cc_bitfinex_short current_carry);
         meta_rate = (if direction = LONG then cc_mt5_short_swap current_carry else cc_mt5_long_swap current_carry)
     in dsub (dadd (dadd (dadd (ms_open_spread side) (cc_total_trade_fee current_carry)) (ms_delta side)) bfx_rate)
          meta_rate)"

section \<open>Account choice\<close>

definition account_allows :: "rat \<Rightarrow> rat \<Rightarrow> rat \<Rightarrow> rat \<Rightarrow> rat \<Rightarrow> bool \<Rightarrow> bool" where
  "account_allows before signed_change capacity maximum minimum only_long =
    (let quantity = dabs signed_change in
     if capacity < quantity then False
     else let after = dadd before signed_change in
     if maximum < dabs after \<and> dabs before < dabs after then False
     else if \<not> only_long then True
     else if dmul before after < 0 then False
     else \<not> (dabs after < minimum \<and> dabs after < dabs before))"

definition source_allows ::
  "source_direction \<Rightarrow> rat \<Rightarrow> maker_economics_config \<Rightarrow> source_account \<Rightarrow> bool"
where
  "source_allows direction quantity config account =
    account_allows (sa_position_ounces account)
      (if direction = LONG then quantity else dneg quantity)
      (if direction = LONG then sa_max_long_ounces account else sa_max_short_ounces account)
      (rc_source_max_abs (me_risk config)) (rc_source_min_keep_abs (me_risk config))
      (rc_only_long (me_risk config))"

definition select_source ::
  "source_account list \<Rightarrow> source_direction \<Rightarrow> rat \<Rightarrow> maker_economics_config \<Rightarrow> source_account option"
where
  "select_source accounts direction quantity config =
    (let ordered = sort_key sa_position_ounces accounts;
         candidates = (if direction = LONG then ordered else rev ordered)
     in find (source_allows direction quantity config) candidates)"

definition hedge_allows ::
  "source_direction \<Rightarrow> rat \<Rightarrow> maker_economics_config \<Rightarrow> maker_account \<Rightarrow> bool"
where
  "hedge_allows direction quantity config account =
    account_allows (ma_position_ounces account)
      (if direction = LONG then dneg quantity else quantity)
      (if direction = LONG then ma_max_short_ounces account else ma_max_long_ounces account)
      (rc_hedge_max_abs (me_risk config)) (rc_hedge_min_keep_abs (me_risk config))
      (rc_only_long (me_risk config))"

definition select_hedge ::
  "maker_account list \<Rightarrow> source_direction \<Rightarrow> rat \<Rightarrow> maker_economics_config \<Rightarrow> maker_account option"
where
  "select_hedge accounts direction quantity config =
    (let ordered = rev (sort_key ma_position_ounces (rev accounts));
         candidates = (if direction = LONG then ordered else rev ordered)
     in find (hedge_allows direction quantity config) candidates)"

section \<open>The quote\<close>

definition maker_quote ::
  "source_direction \<Rightarrow> book_top \<Rightarrow> source_account list \<Rightarrow> maker_account list \<Rightarrow> maker_economics_config \<Rightarrow>
    carry_config option \<Rightarrow> fx_config option \<Rightarrow> rat option \<Rightarrow> exn + maker_quote_rec option"
where
  "maker_quote direction hedge_book source_accounts hedge_accounts config carry fx hedge_quantity_ounces =
    (let current_fx = (case fx of None \<Rightarrow> me_fx config | Some f \<Rightarrow> f);
         side_config = (if direction = LONG then me_bid config else me_ask config);
         quantity = ms_open_quantity_ounces side_config
     in if quantity \<le> 0 then Inr None
     else
     let source = select_source source_accounts direction quantity config;
         hedge = select_hedge hedge_accounts direction
           (case hedge_quantity_ounces of None \<Rightarrow> quantity | Some q \<Rightarrow> q) config
     in case (source, hedge) of
       (Some source, Some hedge) \<Rightarrow>
         let spread = maker_adjusted_spread direction config carry in
         if spread \<le> - 1 then Inl (ValueError ''maker adjusted spread must be greater than -1'')
         else
         let reference = (if direction = LONG then bt_bid hedge_book else bt_ask hedge_book);
             base_usdt = dmul reference
               (if direction = LONG then fx_usd_usdt_bid current_fx else fx_usd_usdt_ask current_fx);
             source_price = dmul base_usdt (if direction = LONG then dsub 1 spread else dadd 1 spread)
         in if source_price \<le> 0 then Inl (ValueError ''maker source price must be positive'')
         else bindE (expected_leverage (me_margin_level config) (sa_base_margin_level source)) (\<lambda>lev.
           Inr (Some \<lparr>mq_direction = direction, mq_source_account = source, mq_hedge_account = hedge,
             mq_source_price_usdt = source_price, mq_hedge_reference_price_usd = reference,
             mq_quantity_ounces = quantity, mq_adjusted_spread = spread, mq_leverage = lev\<rparr>))
     | _ \<Rightarrow> Inr None)"

section \<open>The passive clamp\<close>

definition to_increment :: "(rat \<Rightarrow> int) \<Rightarrow> rat \<Rightarrow> rat \<Rightarrow> rat" where
  "to_increment rounding v increment = dmul (of_int (rounding (dquot v increment))) increment"

definition passive_maker_price ::
  "source_direction \<Rightarrow> rat \<Rightarrow> book_top \<Rightarrow> rat \<Rightarrow> int \<Rightarrow> exn + rat"
where
  "passive_maker_price direction calculated_price source_book price_increment cross_clamp_ticks =
    (if price_increment \<le> 0 then Inl (ValueError ''price increment must be positive'')
     else if cross_clamp_ticks \<le> 0 then Inl (ValueError ''cross clamp ticks must be positive'')
     else
     let rounding = (if direction = LONG then floor else ceiling);
         price = to_increment rounding calculated_price price_increment;
         offset = dmul price_increment (of_int cross_clamp_ticks);
         price = (if direction = LONG \<and> bt_ask source_book \<le> price then
             to_increment floor (dsub (bt_ask source_book) offset) price_increment
           else if direction = SHORT \<and> price \<le> bt_bid source_book then
             to_increment ceiling (dadd (bt_bid source_book) offset) price_increment
           else price)
     in if price \<le> 0 then Inl (ValueError ''passive maker price must be positive'') else Inr price)"

section \<open>Bounds on the hedge of working orders\<close>

definition maker_carry_bounds :: "dec \<Rightarrow> dec \<Rightarrow> dec \<Rightarrow> exn + rat \<times> rat \<times> rat" where
  "maker_carry_bounds residual buy_leaves sell_leaves = (case (residual, buy_leaves, sell_leaves) of
     (Fin r, Fin b, Fin s) \<Rightarrow>
       if 1/2 < dabs r \<or> min b s < 0 then Inl (ValueError ''invalid Maker carry budget inputs'')
       else let half = 1/2;
           exposure = (if b \<noteq> 0 \<and> s \<noteq> 0 then dadd half (max b s)
             else max (dabs r) (dabs (dsub (dadd r b) s)));
           buy = (if s \<noteq> 0 then max 0 (of_int \<lfloor>dadd (dadd (dneg r) s) half\<rfloor>) else 0);
           sell = (if b \<noteq> 0 then max 0 (of_int \<lfloor>dadd (dadd r b) half\<rfloor>) else 0)
         in Inr (exposure, buy, sell)
   | _ \<Rightarrow> Inl (ValueError ''invalid Maker carry budget inputs''))"

definition maker_hedge_quantity_bound :: "rat \<Rightarrow> rat \<Rightarrow> source_direction \<Rightarrow> bool \<Rightarrow> rat" where
  "maker_hedge_quantity_bound residual source_quantity direction opposite_working =
    (let signed = (if direction = LONG then residual else dneg residual);
         initial = (if opposite_working then 1/2 else signed)
     in of_int (max 0 (round_hedge_ounces (dadd initial source_quantity))))"

definition maker_hedge_bounds_allow :: "maker_account \<Rightarrow> risk_config \<Rightarrow> rat \<Rightarrow> rat \<Rightarrow> bool" where
  "maker_hedge_bounds_allow account risk buy sell =
    list_all (\<lambda>(delta, capacity). account_allows (ma_position_ounces account) delta capacity
        (rc_hedge_max_abs risk) (rc_hedge_min_keep_abs risk) (rc_only_long risk))
      [(buy, ma_max_long_ounces account), (dneg sell, ma_max_short_ounces account)]"

section \<open>The account gate on exact quantities\<close>

lemma account_allows_exact:
  assumes "oz b" "oz q" "s = 1 \<or> s = - 1" "0 \<le> q"
  shows "account_allows b (s * q) capacity maximum minimum only_long \<longleftrightarrow>
    q \<le> capacity \<and> gate_leg maximum minimum only_long b (b + s * q)"
proof -
  have q: "dabs (s * q) = q"
    using assms dabs_exact [of "s * q"] by (auto simp: oz_def)
  show ?thesis
    unfolding account_allows_def Let_def gate_leg_def oz_after [OF assms(1-3)] q dmul_sign
    by (auto simp: not_le)
qed

lemma account_allows_partial:
  assumes "account_allows b (s * q) capacity maximum minimum only_long"
    "oz b" "oz q" "s = 1 \<or> s = - 1" "0 \<le> f" "f \<le> q"
  shows "f \<le> capacity \<and> \<bar>b + s * f\<bar> \<le> max maximum \<bar>b\<bar> \<and> (only_long \<longrightarrow> 0 \<le> b * (b + s * f))"
  using assms account_allows_exact [of b q s] gate_leg_partial [of maximum minimum only_long b s q f] by auto

lemma oz_dneg: "oz q \<Longrightarrow> dneg q = (- 1) * q"
  using dneg_exact [of q] by (simp add: oz_def)

lemma source_allows_partial:
  assumes "source_allows d q config account" "oz (sa_position_ounces account)" "oz q" "0 \<le> f" "f \<le> q"
  shows "f \<le> (if d = LONG then sa_max_long_ounces account else sa_max_short_ounces account) \<and>
    \<bar>sa_position_ounces account + direction_sign d * f\<bar>
      \<le> max (rc_source_max_abs (me_risk config)) \<bar>sa_position_ounces account\<bar> \<and>
    (rc_only_long (me_risk config) \<longrightarrow>
      0 \<le> sa_position_ounces account * (sa_position_ounces account + direction_sign d * f))"
proof -
  have "(if d = LONG then q else dneg q) = direction_sign d * q"
    using oz_dneg [OF assms(3)] by (simp add: direction_sign_def)
  moreover have "direction_sign d = 1 \<or> direction_sign d = - 1" by (simp add: direction_sign_def)
  ultimately show ?thesis
    using assms(1) [unfolded source_allows_def] assms(2-5) by (intro account_allows_partial) simp_all
qed

lemma hedge_allows_partial:
  assumes "hedge_allows d q config account" "oz (ma_position_ounces account)" "oz q" "0 \<le> f" "f \<le> q"
  shows "f \<le> (if d = LONG then ma_max_short_ounces account else ma_max_long_ounces account) \<and>
    \<bar>ma_position_ounces account - direction_sign d * f\<bar>
      \<le> max (rc_hedge_max_abs (me_risk config)) \<bar>ma_position_ounces account\<bar> \<and>
    (rc_only_long (me_risk config) \<longrightarrow>
      0 \<le> ma_position_ounces account * (ma_position_ounces account - direction_sign d * f))"
proof -
  have "(if d = LONG then dneg q else q) = - direction_sign d * q"
    using oz_dneg [OF assms(3)] by (simp add: direction_sign_def)
  moreover have s: "- direction_sign d = 1 \<or> - direction_sign d = - 1" by (simp add: direction_sign_def)
  ultimately have "account_allows (ma_position_ounces account) (- direction_sign d * q)
      (if d = LONG then ma_max_short_ounces account else ma_max_long_ounces account)
      (rc_hedge_max_abs (me_risk config)) (rc_hedge_min_keep_abs (me_risk config)) (rc_only_long (me_risk config))"
    using assms(1) [unfolded hedge_allows_def] by simp
  from account_allows_partial [OF this assms(2,3) s assms(4,5)] show ?thesis by simp
qed

section \<open>The chosen accounts\<close>

lemma find_first_sorted:
  assumes "sorted_wrt R xs" "find P xs = Some x" "\<And>y. R y y"
  shows "P x \<and> x \<in> set xs \<and> (\<forall>y \<in> set xs. P y \<longrightarrow> R x y)"
  using assms by (induction xs) (auto split: if_splits)

lemma sort_key_sorted_wrt: "sorted_wrt (\<lambda>x y. f x \<le> f y) (sort_key f xs)"
  using sorted_sort_key [of f xs] by (simp add: sorted_map)

lemma select_source_best:
  assumes "select_source accounts d q config = Some a"
  shows "source_allows d q config a \<and> a \<in> set accounts \<and>
    (\<forall>b \<in> set accounts. source_allows d q config b \<longrightarrow>
      direction_sign d * sa_position_ounces a \<le> direction_sign d * sa_position_ounces b)"
proof (cases d)
  case LONG
  have "find (source_allows d q config) (sort_key sa_position_ounces accounts) = Some a"
    using assms LONG by (simp add: select_source_def)
  from find_first_sorted [OF sort_key_sorted_wrt this] LONG show ?thesis by (auto simp: direction_sign_def)
next
  case SHORT
  have f: "find (source_allows d q config) (rev (sort_key sa_position_ounces accounts)) = Some a"
    using assms SHORT by (simp add: select_source_def)
  have "sorted_wrt (\<lambda>x y. sa_position_ounces y \<le> sa_position_ounces x) (rev (sort_key sa_position_ounces accounts))"
    by (simp add: sorted_wrt_rev sort_key_sorted_wrt)
  from find_first_sorted [OF this f] SHORT show ?thesis by (auto simp: direction_sign_def)
qed

lemma select_hedge_best:
  assumes "select_hedge accounts d q config = Some a"
  shows "hedge_allows d q config a \<and> a \<in> set accounts \<and>
    (\<forall>b \<in> set accounts. hedge_allows d q config b \<longrightarrow>
      direction_sign d * ma_position_ounces b \<le> direction_sign d * ma_position_ounces a)"
proof (cases d)
  case LONG
  have f: "find (hedge_allows d q config) (rev (sort_key ma_position_ounces (rev accounts))) = Some a"
    using assms LONG by (simp add: select_hedge_def)
  have "sorted_wrt (\<lambda>x y. ma_position_ounces y \<le> ma_position_ounces x)
      (rev (sort_key ma_position_ounces (rev accounts)))"
    by (simp add: sorted_wrt_rev sort_key_sorted_wrt)
  from find_first_sorted [OF this f] LONG show ?thesis by (auto simp: direction_sign_def)
next
  case SHORT
  have "find (hedge_allows d q config) (sort_key ma_position_ounces (rev accounts)) = Some a"
    using assms SHORT by (simp add: select_hedge_def)
  from find_first_sorted [OF sort_key_sorted_wrt this] SHORT show ?thesis by (auto simp: direction_sign_def)
qed

text \<open>The quantity the hedge account is chosen for: the quote's own, or the one the caller gives.\<close>

definition hedge_of_quote :: "rat option \<Rightarrow> maker_quote_rec \<Rightarrow> rat" where
  "hedge_of_quote hedge_quantity_ounces q = (case hedge_quantity_ounces of None \<Rightarrow> mq_quantity_ounces q | Some h \<Rightarrow> h)"

text \<open>C36: a Maker quote names the account of each leg with the most favourable position among those the risk
  gate allows, the source account for the quantity of the quote and the hedge account for the hedge
  quantity, which is the given one or else that of the quote; its quantity and price are positive;
  and every partial fill of the quote, and every partial hedge of the hedge quantity, keeps its leg
  within capacity and limit and, in long-only mode, on its side of zero.\<close>

theorem maker_quote_sound:
  assumes "maker_quote d book sources hedges config carry fx hedge_quantity_ounces = Inr (Some q)"
    "oz (sa_position_ounces (mq_source_account q))" "oz (ma_position_ounces (mq_hedge_account q))"
    "oz (mq_quantity_ounces q)" "oz (hedge_of_quote hedge_quantity_ounces q)"
    "0 \<le> f" "f \<le> mq_quantity_ounces q" "0 \<le> g" "g \<le> hedge_of_quote hedge_quantity_ounces q"
  shows "let a = mq_source_account q; h = mq_hedge_account q; s = direction_sign d; risk = me_risk config;
      sb = sa_position_ounces a; hb = ma_position_ounces h; hq = hedge_of_quote hedge_quantity_ounces q in
    a \<in> set sources \<and> h \<in> set hedges \<and> 0 < mq_quantity_ounces q \<and> 0 < mq_source_price_usdt q \<and>
    (\<forall>a' \<in> set sources. source_allows d (mq_quantity_ounces q) config a' \<longrightarrow> s * sb \<le> s * sa_position_ounces a') \<and>
    (\<forall>h' \<in> set hedges. hedge_allows d hq config h' \<longrightarrow> s * ma_position_ounces h' \<le> s * hb) \<and>
    f \<le> (if d = LONG then sa_max_long_ounces a else sa_max_short_ounces a) \<and>
    g \<le> (if d = LONG then ma_max_short_ounces h else ma_max_long_ounces h) \<and>
    \<bar>sb + s * f\<bar> \<le> max (rc_source_max_abs risk) \<bar>sb\<bar> \<and>
    \<bar>hb - s * g\<bar> \<le> max (rc_hedge_max_abs risk) \<bar>hb\<bar> \<and>
    (rc_only_long risk \<longrightarrow> 0 \<le> sb * (sb + s * f) \<and> 0 \<le> hb * (hb - s * g))"
proof -
  have b: "select_source sources d (mq_quantity_ounces q) config = Some (mq_source_account q)"
    "select_hedge hedges d (hedge_of_quote hedge_quantity_ounces q) config = Some (mq_hedge_account q)"
    "0 < mq_quantity_ounces q" "0 < mq_source_price_usdt q"
    using assms(1) by (auto simp: maker_quote_def Let_def bindE_Inr_iff not_le hedge_of_quote_def split: option.splits if_splits)
  note s = select_source_best [OF b(1)] and h = select_hedge_best [OF b(2)]
  from s h source_allows_partial [OF _ assms(2,4,6,7), of d config]
    hedge_allows_partial [OF _ assms(3,5,8,9), of d config] b(3,4)
  show ?thesis by (simp add: Let_def)
qed

text \<open>An example quote: five ounces of capacity, one ounce per order, no spread.\<close>

definition ex_maker :: maker_economics_config where
  "ex_maker = \<lparr>me_bid = \<lparr>ms_open_quantity_ounces = 1, ms_open_spread = 0, ms_delta = 0\<rparr>,
    me_ask = \<lparr>ms_open_quantity_ounces = 1, ms_open_spread = 0, ms_delta = 0\<rparr>,
    me_margin_level = 500, me_carry = ex_carry, me_fx = \<lparr>fx_usd_usdt_bid = 1, fx_usd_usdt_ask = 1\<rparr>,
    me_risk = ex_risk\<rparr>"

definition ex_maker_account :: maker_account where
  "ex_maker_account = \<lparr>ma_account_id = ''H'', ma_client_id = None, ma_position_ounces = - 3,
    ma_max_long_ounces = 5, ma_max_short_ounces = 5\<rparr>"

definition ex_maker_quote :: maker_quote_rec where
  "ex_maker_quote = \<lparr>mq_direction = LONG, mq_source_account = ex_account, mq_hedge_account = ex_maker_account,
    mq_source_price_usdt = 2000, mq_hedge_reference_price_usd = 2000, mq_quantity_ounces = 1,
    mq_adjusted_spread = 0, mq_leverage = 19\<rparr>"

lemma ex_account_exact:
  "dabs 1 = 1" "dabs (- 1) = 1" "dabs 3 = 3" "dabs (- 3) = 3" "dabs 4 = 4" "dabs (- 4) = 4" "dneg 1 = - 1"
  "dadd 3 1 = 4" "dadd (- 3) (- 1) = - 4" "dadd 0 0 = 0" "dsub 1 0 = 1" "dmul 2000 1 = 2000"
  "dadd 500 15 = 515"
  by (simp_all add: dabs_exact dneg_exact dadd_exact dsub_exact dmul_unit_exact dmul_def rnd28_exact)

lemma ex_half_exact:
  "dabs (1/2) = 1/2" "dabs (- (1/2)) = 1/2" "dneg (1/2) = - (1/2)" "dadd (- 3) (- (1/2)) = - (7/2)" "dabs (- (7/2)) = 7/2"
proof -
  have "on_grid (7/2)" by (rule on_gridI [of _ 3500000000]) simp
  then show "dabs (- (7/2)) = 7/2" using dabs_exact [of "- (7/2)"] by simp
  show "dabs (1/2) = 1/2" "dabs (- (1/2)) = 1/2" "dneg (1/2) = - (1/2)" "dadd (- 3) (- (1/2)) = - (7/2)"
    using dabs_exact [of "1/2"] dabs_exact [of "- (1/2)"] dneg_exact [of "1/2"] dadd_exact [of "- 3" "- (1/2)"] by simp_all
qed

lemma ex_maker_quote_eq:
  "maker_quote LONG (ex_book 2000 2001) [ex_account] [ex_maker_account] ex_maker None None (Some (1/2))
    = Inr (Some ex_maker_quote)"
  by (simp add: maker_quote_def ex_maker_def ex_maker_account_def ex_maker_quote_def ex_defs select_source_def
      select_hedge_def source_allows_def hedge_allows_def account_allows_def maker_adjusted_spread_def
      ex_account_exact ex_half_exact Let_def expected_leverage_def dfloordiv_def)

theorem maker_quote_sound_witness:
  "maker_quote LONG (ex_book 2000 2001) [ex_account] [ex_maker_account] ex_maker None None (Some (1/2))
     = Inr (Some ex_maker_quote) \<and>
   3/4 \<le> sa_max_long_ounces ex_account \<and> 1/2 \<le> ma_max_short_ounces ex_maker_account \<and>
   \<bar>sa_position_ounces ex_account + 3/4\<bar> \<le> max (rc_source_max_abs ex_risk) \<bar>sa_position_ounces ex_account\<bar> \<and>
   \<bar>ma_position_ounces ex_maker_account - 1/2\<bar> \<le> max (rc_hedge_max_abs ex_risk) \<bar>ma_position_ounces ex_maker_account\<bar>"
proof (intro conjI ex_maker_quote_eq)
  have o: "oz (sa_position_ounces (mq_source_account ex_maker_quote))"
    "oz (ma_position_ounces (mq_hedge_account ex_maker_quote))" "oz (mq_quantity_ounces ex_maker_quote)"
    "oz (hedge_of_quote (Some (1/2)) ex_maker_quote)" "0 \<le> (3/4 :: rat)" "3/4 \<le> mq_quantity_ounces ex_maker_quote"
    "0 \<le> (1/2 :: rat)" "1/2 \<le> hedge_of_quote (Some (1/2)) ex_maker_quote"
    by (simp_all add: ex_maker_quote_def ex_maker_account_def ex_defs oz_def hedge_of_quote_def)
  note q = maker_quote_sound [OF ex_maker_quote_eq o]
  show "3/4 \<le> sa_max_long_ounces ex_account" "1/2 \<le> ma_max_short_ounces ex_maker_account"
    "\<bar>sa_position_ounces ex_account + 3/4\<bar> \<le> max (rc_source_max_abs ex_risk) \<bar>sa_position_ounces ex_account\<bar>"
    "\<bar>ma_position_ounces ex_maker_account - 1/2\<bar> \<le> max (rc_hedge_max_abs ex_risk) \<bar>ma_position_ounces ex_maker_account\<bar>"
    using q by (simp_all add: Let_def ex_maker_quote_def ex_maker_def direction_sign_def)
qed

section \<open>The passive price stays on its side of the book\<close>

lemma on_grid_scale: "on_grid p \<Longrightarrow> on_grid (of_int n * p)"
proof (erule on_gridE)
  fix m assume "p = of_int m / 1000000000"
  then show "on_grid (of_int n * p)" by (intro on_gridI [of _ "n * m"]) simp
qed

lemma on_grid_pos_ge: "on_grid p \<Longrightarrow> 0 < p \<Longrightarrow> 1 / 1000000000 \<le> p"
proof (erule on_gridE)
  fix m assume p: "p = of_int m / 1000000000" and "0 < p"
  then have "0 < m" by (simp add: zero_less_divide_iff)
  then have "(1::rat) \<le> of_int m" by simp
  then show "1 / 1000000000 \<le> p" unfolding p by (rule divide_right_mono) simp
qed

lemma rnd28_between_ints:
  assumes "of_int a \<le> x" "x \<le> of_int b"
    "\<bar>a\<bar> < 10000000000000000000" "\<bar>b\<bar> < 10000000000000000000"
  shows "of_int a \<le> rnd28 x \<and> rnd28 x \<le> of_int b"
proof -
  have "(of_int \<bar>a\<bar> :: rat) < of_int 10000000000000000000" "(of_int \<bar>b\<bar> :: rat) < of_int 10000000000000000000"
    using assms(3,4) by (simp_all only: of_int_less_iff)
  then have "rnd28 (of_int a) = of_int a" "rnd28 (of_int b) = of_int b" by (simp_all add: rnd28_exact)
  then show ?thesis using rnd28_mono [OF assms(1)] rnd28_mono [OF assms(2)] by simp
qed

lemma to_increment_near:
  assumes r: "rounding = floor \<or> rounding = ceiling"
    and p: "on_grid p" "0 < p" "p < 1000000000" and v: "\<bar>v\<bar> < 4000000000"
  shows "\<exists>n. to_increment rounding v p = of_int n * p \<and> v - p < of_int n * p \<and> of_int n * p < v + p"
proof -
  have ge: "1 / 1000000000 \<le> p" using p by (intro on_grid_pos_ge)
  have "\<bar>v / p\<bar> \<le> \<bar>v\<bar> / (1 / 1000000000)"
    using ge p(2) by (simp only: abs_divide) (intro divide_left_mono, auto)
  then have b: "\<bar>v / p\<bar> < 4000000000000000000" using v by simp
  have x: "v / p < 4000000000000000000" "- 4000000000000000000 < v / p" using b by linarith+
  have "\<lfloor>v / p\<rfloor> < 4000000000000000001" "- 4000000000000000001 \<le> \<lfloor>v / p\<rfloor>"
    "\<lceil>v / p\<rceil> \<le> 4000000000000000000" "- 4000000000000000000 < \<lceil>v / p\<rceil>"
    using x by (simp_all add: floor_less_iff le_floor_iff ceiling_le_iff less_ceiling_iff)
  then have c: "\<bar>\<lfloor>v / p\<rfloor>\<bar> < 10000000000000000000" "\<bar>\<lceil>v / p\<rceil>\<bar> < 10000000000000000000" by linarith+
  have q: "of_int \<lfloor>v / p\<rfloor> \<le> dquot v p" "dquot v p \<le> of_int \<lceil>v / p\<rceil>"
    using rnd28_between_ints [OF of_int_floor_le le_of_int_ceiling c] by (simp_all add: dquot_def)
  define n where "n = rounding (dquot v p)"
  have n: "\<lfloor>v / p\<rfloor> \<le> n" "n \<le> \<lceil>v / p\<rceil>"
    using r q by (auto simp: n_def le_floor_iff ceiling_le_iff) linarith+
  have "of_int n < v / p + 1" "v / p - 1 < of_int n" using n by linarith+
  then have near: "v - p < of_int n * p" "of_int n * p < v + p"
    using p(2) by (simp_all add: field_simps)
  have "\<bar>of_int n * p\<bar> < 10 ^ 19" using near v p(3) by (simp add: abs_less_iff)
  then have "to_increment rounding v p = of_int n * p"
    using p(1) by (simp add: to_increment_def dmul_def n_def on_grid_scale rnd28_exact)
  with near show ?thesis by blast
qed

text \<open>the passive price of a Maker order is a positive multiple of the tick that does not cross: a bid
  stays below the ask and an ask above the bid, and the clamp never makes the price more aggressive
  than the calculated one by a whole tick.\<close>

theorem passive_price_never_crosses:
  assumes "passive_maker_price d calc book tick ticks = Inr price"
    "on_grid tick" "on_grid (bt_bid book)" "on_grid (bt_ask book)"
    "0 \<le> bt_bid book" "bt_bid book < 1000000000" "0 \<le> bt_ask book" "bt_ask book < 1000000000"
    "\<bar>calc\<bar> < 1000000000" "tick * of_int ticks < 1000000000"
  shows "0 < price \<and> (\<exists>n. price = of_int n * tick) \<and>
    (if d = LONG then price < bt_ask book \<and> price < calc + tick
     else bt_bid book < price \<and> calc - tick < price)"
proof -
  let ?r = "if d = LONG then floor else (ceiling :: rat \<Rightarrow> int)"
  let ?p0 = "to_increment ?r calc tick" and ?off = "dmul tick (of_int ticks)"
  have t: "0 < tick" "0 < ticks" "0 < price" using assms(1)
    by (auto simp: passive_maker_price_def Let_def not_le split: if_splits)
  have "(1::rat) \<le> of_int ticks" using t(2) by simp
  then have m: "tick \<le> tick * of_int ticks" using t(1) by simp
  then have u: "tick < 1000000000" using assms(10) by linarith
  have r: "?r = floor \<or> ?r = ceiling" by simp
  have off: "?off = of_int ticks * tick"
    using rnd28_exact [OF on_grid_scale [OF assms(2)], of ticks] assms(10) t
    by (simp add: dmul_def mult.commute [of tick] abs_mult)
  have o: "on_grid (of_int ticks * tick)" by (rule on_grid_scale [OF assms(2)])
  have m': "tick \<le> of_int ticks * tick" and l: "of_int ticks * tick < 1000000000"
    using m assms(10) by (simp_all only: mult.commute [of tick])
  have w: "\<bar>bt_ask book - of_int ticks * tick\<bar> < 4000000000" "\<bar>bt_bid book + of_int ticks * tick\<bar> < 4000000000"
    using assms(5-8) m' l t(1) by linarith+
  have s: "dsub (bt_ask book) ?off = bt_ask book - of_int ticks * tick"
      "dadd (bt_bid book) ?off = bt_bid book + of_int ticks * tick"
    unfolding off by (rule dsub_exact [OF assms(4) o] dadd_exact [OF assms(3) o]; use w in simp)+
  have v: "\<bar>calc\<bar> < 4000000000" using assms(9) by simp
  note near = to_increment_near [OF _ assms(2) t(1) u]
  from near [OF r v] obtain n where n: "?p0 = of_int n * tick" "calc - tick < ?p0" "?p0 < calc + tick" by auto
  from near [OF _ w(1), of floor] obtain a where
    a: "to_increment floor (bt_ask book - of_int ticks * tick) tick = of_int a * tick"
       "of_int a * tick < bt_ask book - of_int ticks * tick + tick" by auto
  from near [OF _ w(2), of ceiling] obtain b where
    b: "to_increment ceiling (bt_bid book + of_int ticks * tick) tick = of_int b * tick"
       "bt_bid book + of_int ticks * tick - tick < of_int b * tick" by auto
  have "price = (if d = LONG \<and> bt_ask book \<le> ?p0 then of_int a * tick
      else if d = SHORT \<and> ?p0 \<le> bt_bid book then of_int b * tick else ?p0)"
    using assms(1) unfolding passive_maker_price_def Let_def s a b
    by (simp only: if_Inl_eq_Inr) simp
  then consider "d = LONG" "bt_ask book \<le> ?p0" "price = of_int a * tick"
    | "d = LONG" "?p0 < bt_ask book" "price = ?p0"
    | "d = SHORT" "?p0 \<le> bt_bid book" "price = of_int b * tick"
    | "d = SHORT" "bt_bid book < ?p0" "price = ?p0"
    by (cases d; simp split: if_splits)
  then show ?thesis
  proof cases
    case 1
    then have "price < bt_ask book" "price < calc + tick" using a(2) m' n(3) by linarith+
    with 1 t show ?thesis by auto
  next
    case 2 with n t show ?thesis by auto
  next
    case 3
    then have "bt_bid book < price" "calc - tick < price" using b(2) m' n(2) by linarith+
    with 3 t show ?thesis by auto
  next
    case 4 with n t show ?thesis by auto
  qed
qed

theorem passive_price_never_crosses_witness:
  "\<exists>price. passive_maker_price LONG 2002 (ex_book 2000 2001) 1 2 = Inr price \<and>
    0 < price \<and> (\<exists>n. price = of_int n * 1) \<and>
    (if LONG = LONG then price < bt_ask (ex_book 2000 2001) \<and> price < 2002 + 1
     else bt_bid (ex_book 2000 2001) < price \<and> 2002 - 1 < price)"
proof -
  have e: "passive_maker_price LONG 2002 (ex_book 2000 2001) 1 2 = Inr 1999"
    by (simp add: passive_maker_price_def to_increment_def dquot_def dmul_def dsub_def rnd28_exact ex_book_def Let_def)
  from e passive_price_never_crosses [OF e] show ?thesis by (simp add: ex_book_def)
qed

section \<open>What the working orders can still do to the hedge\<close>

definition fills_within :: "rat \<Rightarrow> rat \<Rightarrow> rat list \<Rightarrow> bool" where
  "fills_within b s fs \<longleftrightarrow> (\<forall>f \<in> set fs. on_grid f) \<and>
    sum_list (map (max 0) fs) \<le> b \<and> sum_list (map (\<lambda>f. max 0 (- f)) fs) \<le> s"

lemma fills_within_bounds:
  assumes "fills_within b s (xs @ ys)"
  shows "0 \<le> sum_list (map (max 0) ys)" "0 \<le> sum_list (map (max 0) xs)"
    "0 \<le> sum_list (map (\<lambda>f. max 0 (- f)) ys)" "0 \<le> sum_list (map (\<lambda>f. max 0 (- f)) xs)"
    "sum_list xs = sum_list (map (max 0) xs) - sum_list (map (\<lambda>f. max 0 (- f)) xs)"
    "sum_list ys = sum_list (map (max 0) ys) - sum_list (map (\<lambda>f. max 0 (- f)) ys)"
    "sum_list (map (max 0) xs) + sum_list (map (max 0) ys) \<le> b"
    "sum_list (map (\<lambda>f. max 0 (- f)) xs) + sum_list (map (\<lambda>f. max 0 (- f)) ys) \<le> s"
proof -
  have d: "sum_list zs = sum_list (map (max 0) zs) - sum_list (map (\<lambda>f. max 0 (- f)) zs)" for zs :: "rat list"
    by (induction zs) (auto simp: max_def)
  show "sum_list xs = sum_list (map (max 0) xs) - sum_list (map (\<lambda>f. max 0 (- f)) xs)"
    "sum_list ys = sum_list (map (max 0) ys) - sum_list (map (\<lambda>f. max 0 (- f)) ys)"
    by (rule d)+
  show "0 \<le> sum_list (map (max 0) ys)" "0 \<le> sum_list (map (max 0) xs)"
    "0 \<le> sum_list (map (\<lambda>f. max 0 (- f)) ys)" "0 \<le> sum_list (map (\<lambda>f. max 0 (- f)) xs)"
    by (auto intro!: sum_list_nonneg)
  show "sum_list (map (max 0) xs) + sum_list (map (max 0) ys) \<le> b"
    "sum_list (map (\<lambda>f. max 0 (- f)) xs) + sum_list (map (\<lambda>f. max 0 (- f)) ys) \<le> s"
    using assms by (auto simp: fills_within_def)
qed

lemma sum_nonneg_member: "(f::rat) \<in> set fs \<Longrightarrow> (\<And>x. 0 \<le> g x) \<Longrightarrow> (g f :: rat) \<le> sum_list (map g fs)"
  by (intro member_le_sum_list) auto

lemma fills_within_each:
  assumes "fills_within b s fs" "f \<in> set fs"
  shows "f \<le> b" "- f \<le> s"
  using assms sum_nonneg_member [of f fs "max 0"] sum_nonneg_member [of f fs "\<lambda>f. max 0 (- f)"]
  by (auto simp: fills_within_def)

text \<open>What \<open>maker_carry_bounds\<close> returns on exact quantities.\<close>

lemma maker_carry_bounds_exact:
  assumes "maker_carry_bounds (Fin r) (Fin b) (Fin s) = Inr (exposure, buy, sell)"
    "on_grid r" "on_grid b" "on_grid s" "b < 4000000" "s < 4000000"
  shows "\<bar>r\<bar> \<le> 1/2 \<and> 0 \<le> b \<and> 0 \<le> s \<and>
    exposure = (if b \<noteq> 0 \<and> s \<noteq> 0 then 1/2 + max b s else max \<bar>r\<bar> \<bar>r + b - s\<bar>) \<and>
    buy = (if s \<noteq> 0 then max 0 (of_int \<lfloor>- r + s + 1/2\<rfloor>) else 0) \<and>
    sell = (if b \<noteq> 0 then max 0 (of_int \<lfloor>r + b + 1/2\<rfloor>) else 0)"
proof -
  have nn: "0 \<le> b" "0 \<le> s" and "\<not> 1/2 < dabs r"
    using assms(1) by (auto simp: maker_carry_bounds_def Let_def split: if_splits)
  moreover have "1/2 < dabs r" if "1/2 < \<bar>r\<bar>"
  proof -
    have "500000001 / 1000000000 \<le> \<bar>r\<bar>" using on_grid_pos_ge [of "\<bar>r\<bar> - 1/2"] assms(2) that by simp
    moreover have "rnd28 (500000001 / 1000000000) = 500000001 / 1000000000"
      by (rule rnd28_exact [OF on_gridI [of _ 500000001]]) simp_all
    ultimately have "500000001 / 1000000000 \<le> dabs r"
      using rnd28_mono [of "500000001 / 1000000000" "\<bar>r\<bar>"] by (simp add: dabs_def)
    then show ?thesis by simp
  qed
  ultimately have r: "\<bar>r\<bar> \<le> 1/2" by linarith
  have v: "\<bar>b\<bar> < 4000000" "\<bar>s\<bar> < 4000000" using nn assms(5,6) by simp_all
  have g: "on_grid (r + b)" "on_grid (- r + s)" "on_grid (r + b - s)" "on_grid (max b s)"
    using assms(2-4) by (auto simp: max_def simp del: add_uminus_conv_diff uminus_add_conv_diff)
  have m: "0 \<le> max b s" "max b s < 4000000" using nn v by (simp_all add: max_def)
  have "\<bar>1/2 + max b s\<bar> < 10000000" "\<bar>r + b\<bar> < 10000000" "\<bar>- r + s\<bar> < 10000000" "\<bar>r + b - s\<bar> < 10000000"
    "\<bar>r + b + 1/2\<bar> < 10000000" "\<bar>- r + s + 1/2\<bar> < 10000000"
    using m v r by linarith+
  moreover have t: "\<bar>x\<bar> < 10000000 \<Longrightarrow> \<bar>x\<bar> < 10 ^ 19" for x :: rat by simp
  ultimately have l: "\<bar>1/2 + max b s\<bar> < 10 ^ 19" "\<bar>r + b\<bar> < 10 ^ 19" "\<bar>- r + s\<bar> < 10 ^ 19"
    "\<bar>r + b - s\<bar> < 10 ^ 19" "\<bar>r + b + 1/2\<bar> < 10 ^ 19" "\<bar>- r + s + 1/2\<bar> < 10 ^ 19"
    by (blast intro: t)+
  note h = on_grid_numeral(4)
  have "\<bar>r\<bar> < 10000000" using r by linarith
  then have rl: "\<bar>r\<bar> < 10 ^ 19" by (rule t)
  note x = dabs_exact [OF assms(2) rl] dneg_exact [OF assms(2) rl] dadd_exact [OF h g(4) l(1)]
    dadd_exact [OF assms(2,3) l(2)] dsub_exact [OF g(1) assms(4) l(4)] dabs_exact [OF g(3) l(4)]
    dadd_exact [OF g(1) h l(5)] dadd_exact [OF g(2) h l(6)]
    dadd_exact [OF assms(2) [THEN on_grid_uminus] assms(4) l(3)]
  have "(exposure, buy, sell) =
      (if b \<noteq> 0 \<and> s \<noteq> 0 then 1/2 + max b s else max \<bar>r\<bar> \<bar>r + b - s\<bar>,
       if s \<noteq> 0 then max 0 (of_int \<lfloor>- r + s + 1/2\<rfloor>) else 0,
       if b \<noteq> 0 then max 0 (of_int \<lfloor>r + b + 1/2\<rfloor>) else 0)"
    using assms(1) unfolding maker_carry_bounds_def Let_def prod.case dec.case x
    by (simp only: if_Inl_eq_Inr sum.inject)
  with r nn show ?thesis by (simp only: prod.inject simp_thms)
qed

lemma carry_bounds_cover:
  assumes "maker_carry_bounds (Fin r) (Fin b) (Fin s) = Inr (exposure, buy, sell)"
    "on_grid r" "on_grid b" "on_grid s" "b < 4000000" "s < 4000000"
    "fills_within b s (hedged @ unhedged)"
  shows "case allocate_run r hedged of (balance, net) \<Rightarrow>
    - buy \<le> of_int net \<and> of_int net \<le> sell \<and> \<bar>balance + sum_list unhedged\<bar> \<le> exposure"
proof -
  obtain bal net where run: "allocate_run r hedged = (bal, net)" by fastforce
  note e = maker_carry_bounds_exact [OF assms(1-6)]
  then have r: "\<bar>r\<bar> \<le> 1/2" and nn: "0 \<le> b" "0 \<le> s" by auto
  have small: "\<forall>f \<in> set hedged. on_grid f \<and> \<bar>f\<bar> < 4000000"
    using fills_within_each [OF assms(7)] assms(5-7) by (fastforce simp: fills_within_def abs_less_iff)
  note c = allocate_run_conserves [OF assms(2) r small run]
  note w = fills_within_bounds [OF assms(7)]
  have pos: "s = 0 \<Longrightarrow> \<forall>f \<in> set (hedged @ unhedged). 0 \<le> f"
    and neg: "b = 0 \<Longrightarrow> \<forall>f \<in> set (hedged @ unhedged). f \<le> 0"
    using fills_within_each [OF assms(7)] by fastforce+
  have n0: "s = 0 \<Longrightarrow> 0 \<le> net" using allocate_run_one_sided(2) [OF assms(2) r small run] pos by auto
  have n1: "b = 0 \<Longrightarrow> net \<le> 0" using allocate_run_one_sided(1) [OF assms(2) r small run] neg by auto
  have up: "of_int net \<le> r + b + 1/2" and lo: "of_int (- net) \<le> - r + s + 1/2"
    using c w by (auto simp: abs_le_iff)
  have sell: "of_int net \<le> sell"
  proof (cases "b = 0")
    case True with e n1 show ?thesis by simp
  next
    case False
    have "net \<le> \<lfloor>r + b + 1/2\<rfloor>" using up by (simp only: le_floor_iff)
    then have "(of_int net :: rat) \<le> of_int \<lfloor>r + b + 1/2\<rfloor>" by (simp only: of_int_le_iff)
    with e False show ?thesis by simp
  qed
  have buy: "- buy \<le> of_int net"
  proof (cases "s = 0")
    case True with e n0 show ?thesis by simp
  next
    case False
    have "- net \<le> \<lfloor>- r + s + 1/2\<rfloor>" using lo by (simp only: le_floor_iff)
    then have "(of_int (- net) :: rat) \<le> of_int \<lfloor>- r + s + 1/2\<rfloor>" by (simp only: of_int_le_iff)
    with e False show ?thesis by simp
  qed
  have ni: "net \<le> - 1 \<or> net = 0 \<or> 1 \<le> net" by linarith
  have nr: "net \<le> - 1 \<Longrightarrow> (of_int net :: rat) \<le> - 1" "1 \<le> net \<Longrightarrow> (1::rat) \<le> of_int net"
    "s = 0 \<Longrightarrow> (0::rat) \<le> of_int net" "b = 0 \<Longrightarrow> of_int net \<le> (0::rat)" using n0 n1 by simp_all
  have "\<bar>bal + sum_list unhedged\<bar> \<le> exposure"
  proof (cases "b \<noteq> 0 \<and> s \<noteq> 0")
    case True
    with e c w show ?thesis by (simp add: abs_le_iff) linarith
  next
    case False
    then have bs: "b = 0 \<or> s = 0" by blast
    with e have x: "exposure = max \<bar>r\<bar> \<bar>r + b - s\<bar>" by auto
    from bs show ?thesis unfolding x le_max_iff_disj abs_le_iff using c w nr nn ni by linarith
  qed
  with buy sell run show ?thesis by simp
qed

text \<open>C37: the carry bounds hold for every way the working orders can fill. However the leaves are split into
  fills and interleaved, the net hedge after any prefix stays between the two bounds, and the
  unhedged balance stays within the exposure bound even when only a prefix has been hedged.\<close>

theorem maker_carry_bounds_sound:
  assumes "maker_carry_bounds (Fin r) (Fin b) (Fin s) = Inr (exposure, buy, sell)"
    "on_grid r" "on_grid b" "on_grid s" "b < 4000000" "s < 4000000"
    "fills_within b s (hedged @ unhedged)"
  shows "case allocate_run r hedged of (balance, net) \<Rightarrow>
    - buy \<le> of_int net \<and> of_int net \<le> sell \<and> \<bar>balance + sum_list unhedged\<bar> \<le> exposure"
  using assms by (rule carry_bounds_cover)

theorem maker_carry_bounds_sound_witness:
  "maker_carry_bounds (Fin 0) (Fin 2) (Fin 1) = Inr (5/2, 1, 2) \<and> fills_within 2 1 ([2] @ [- 1]) \<and>
   (case allocate_run 0 [2] of (balance, net) \<Rightarrow>
    - 1 \<le> (of_int net :: rat) \<and> of_int net \<le> (2 :: rat) \<and> \<bar>balance + sum_list [- 1]\<bar> \<le> 5/2)"
proof -
  have e: "maker_carry_bounds (Fin 0) (Fin 2) (Fin 1) = Inr (5/2, 1, 2)"
    by (simp add: maker_carry_bounds_def Let_def dadd_def dneg_def dabs_def rnd28_exact
        on_gridI [of "5/2" 2500000000] on_gridI [of "3/2" 1500000000])
  have f: "fills_within 2 1 ([2] @ [- 1])" by (simp add: fills_within_def)
  from e f maker_carry_bounds_sound [OF e _ _ _ _ _ f] show ?thesis by simp
qed

end
