(* ===== verification/Durability.thy ===== *)
theory Durability
  imports Prelude
begin

text \<open>
  \<^verbatim>\<open>durability.py\<close> and \<^verbatim>\<open>_persist_payload\<close> of \<^verbatim>\<open>store.py\<close>: replacing or creating one state file.

  The operating system's answers are a record of booleans, one per call that can fail; the
  destination is the content of the file, \<open>None\<close> when it does not exist. Hard links refuse an
  existing target. A temporary file that was written but not published is not modelled: the
  stores never read it.
\<close>

record os_answers =
  os_prepared :: bool
  os_posix :: bool
  os_directory_opened :: bool
  os_published :: bool
  os_directory_synced :: bool
  os_directory_closed :: bool

definition publish_and_sync_parent ::
  "os_answers \<Rightarrow> ('f option \<Rightarrow> 'f option option) \<Rightarrow> ('f option, unit) tx"
where
  "publish_and_sync_parent os publish = (\<lambda>file.
    if os_posix os \<and> \<not> os_directory_opened os then (file, Inl OSError)
    else
    let (file', body) = (if \<not> os_published os then (file, Inl OSError)
          else case publish file of
            None \<Rightarrow> (file, Inl OSError)
          | Some file' \<Rightarrow>
              if os_posix os \<and> \<not> os_directory_synced os then (file', Inl ParentDirectorySyncError)
              else (file', Inr ()));
        close_error = (os_posix os \<and> \<not> os_directory_closed os)
    in case body of
      Inl e \<Rightarrow> (file', Inl e)
    | Inr _ \<Rightarrow> if close_error then (file', Inl ParentDirectorySyncError) else (file', Inr ()))"

definition replace_and_sync_parent :: "os_answers \<Rightarrow> 'f \<Rightarrow> ('f option, unit) tx" where
  "replace_and_sync_parent os source = publish_and_sync_parent os (\<lambda>_. Some (Some source))"

definition create_and_sync_parent :: "os_answers \<Rightarrow> 'f \<Rightarrow> ('f option, unit) tx" where
  "create_and_sync_parent os source =
    publish_and_sync_parent os (\<lambda>destination. if destination = None then Some (Some source) else None)"

text \<open>\<open>os_prepared\<close>: the directory was made, the temporary file written and flushed to disk.\<close>

definition persist_payload :: "os_answers \<Rightarrow> bool \<Rightarrow> 'f \<Rightarrow> ('f option, unit) tx" where
  "persist_payload os overwrite payload =
    bind_tx (if os_prepared os then ret_tx () else raise_tx OSError) (\<lambda>_.
      if overwrite then replace_and_sync_parent os payload else create_and_sync_parent os payload)"

section \<open>The three outcomes of a write\<close>

text \<open>
  The caller can tell from the exception alone whether the file changed: nothing was published
  on an \<open>OSError\<close>, and the new content is in place on a \<open>ParentDirectorySyncError\<close>.
\<close>

definition write_outcome :: "'f option \<Rightarrow> 'f option \<Rightarrow> 'f \<Rightarrow> exn + unit \<Rightarrow> bool" where
  "write_outcome before after payload r \<longleftrightarrow> (case r of
     Inr _ \<Rightarrow> after = Some payload
   | Inl ParentDirectorySyncError \<Rightarrow> after = Some payload
   | Inl OSError \<Rightarrow> after = before
   | Inl _ \<Rightarrow> False)"

lemma publish_outcome:
  assumes "\<And>f f'. publish f = Some f' \<Longrightarrow> f' = Some payload"
  shows "case publish_and_sync_parent os publish f0 of (file', r) \<Rightarrow> write_outcome f0 file' payload r"
  using assms by (auto simp: publish_and_sync_parent_def write_outcome_def Let_def split: option.splits)

lemma persist_payload_outcome:
  "case persist_payload os overwrite payload f0 of (file', r) \<Rightarrow> write_outcome f0 file' payload r"
proof (cases "os_prepared os")
  case True
  then show ?thesis
    unfolding persist_payload_def replace_and_sync_parent_def create_and_sync_parent_def
    by (cases overwrite; simp; intro publish_outcome; simp split: if_splits)
qed (simp add: persist_payload_def write_outcome_def)

lemma persist_payload_cases:
  obtains (written) "persist_payload os overwrite payload f0 = (Some payload, Inr ())"
  | (unsynced) "persist_payload os overwrite payload f0 = (Some payload, Inl ParentDirectorySyncError)"
  | (refused) "persist_payload os overwrite payload f0 = (f0, Inl OSError)"
proof -
  obtain f r where e: "persist_payload os overwrite payload f0 = (f, r)" by fastforce
  with persist_payload_outcome [where os = os and overwrite = overwrite and payload = payload and ?f0.0 = f0] have w: "write_outcome f0 f payload r" by simp
  show thesis
  proof (cases r)
    case (Inl x)
    with w e show thesis
      using unsynced refused by (cases x) (auto simp: write_outcome_def)
  next
    case (Inr x)
    with w e show thesis using written by (auto simp: write_outcome_def)
  qed
qed

text \<open>C40: a state file is never overwritten by a creation, and whatever the operating system answers, the
  exception tells the caller which content the file has: the new one after success or a parent
  directory error, the old one after any other error.\<close>

theorem persist_payload_tells_what_happened:
  "case persist_payload os overwrite payload f0 of (file', r) \<Rightarrow>
     (case r of
        Inr _ \<Rightarrow> file' = Some payload
      | Inl e \<Rightarrow> (if e = ParentDirectorySyncError then file' = Some payload else e = OSError \<and> file' = f0)) \<and>
     \<not> (\<not> overwrite \<and> f0 \<noteq> None \<and> file' \<noteq> f0)"
proof (cases "persist_payload os overwrite payload f0" rule: prod.exhaust)
  case (Pair f r)
  have "overwrite \<or> f0 = None \<or> f = f0"
    using Pair by (auto simp: persist_payload_def create_and_sync_parent_def publish_and_sync_parent_def
        Let_def bind_tx_def split: if_splits)
  then show ?thesis
    using persist_payload_outcome [where os = os and overwrite = overwrite and payload = payload and ?f0.0 = f0] Pair
    by (auto simp: write_outcome_def split: sum.splits exn.splits)
qed

end
