(* ===== verification/State_Store.thy ===== *)
theory State_Store
  imports Durability Economics
begin

text \<open>
  \<^verbatim>\<open>store.py\<close>: the durable custody of source orders, fills and hedge obligations.

  A view is one \<^verbatim>\<open>JsonStateStore\<close> object: its \<^verbatim>\<open>_state\<close> and the log of the callbacks it made.
  Every method is the code's body on a view followed by the persistence the code does. What a
  subclass overrides (\<^verbatim>\<open>_persist\<close>, the residual, its admissibility, the allocation of a fill) is
  the record \<open>custody\<close>, so that the methods are written once and run both on the standalone
  store (here) and on the views of the allocation owner (\<open>Maker_Store\<close>).
\<close>

section \<open>State\<close>

record source_order_record =
  so_client_order_id :: string
  so_side :: business_side
  so_quantity_ounces :: rat
  so_source_account_id :: "string option"
  so_source_client_id :: "string option"
  so_hedge_account_id :: "string option"
  so_hedge_client_id :: "string option"
  so_hedge_position_id :: "string option"
  so_hedge_position_quantity_ounces :: "rat option"
  so_filled_ounces :: rat
  so_status :: string

record store_state =
  ss_source_orders :: "(string \<times> source_order_record) list"
  ss_active_source_order_id :: "string option"
  ss_seen_source_fills :: "string set"
  ss_seen_hedge_fills :: "string set"
  ss_hedge_intents :: "(string \<times> hedge_intent) list"
  ss_net_unhedged_ounces :: rat
  ss_halt_reason :: "string option"
  ss_source_freeze_reason :: "string option"

datatype callback = RevokePermission | RecordFailure | RecordHalt string

record view =
  vw_state :: store_state
  vw_log :: "callback list"

definition empty_state :: store_state where
  "empty_state = \<lparr>ss_source_orders = [], ss_active_source_order_id = None, ss_seen_source_fills = {},
    ss_seen_hedge_fills = {}, ss_hedge_intents = [], ss_net_unhedged_ounces = 0, ss_halt_reason = None,
    ss_source_freeze_reason = None\<rparr>"

definition state_intents :: "store_state \<Rightarrow> hedge_intent list" where
  "state_intents s = dict_values (ss_hedge_intents s)"

definition state_orders :: "store_state \<Rightarrow> source_order_record list" where
  "state_orders s = dict_values (ss_source_orders s)"

text \<open>What a subclass overrides; \<open>'w\<close> is the object that owns the view.\<close>

record 'w custody =
  cu_view :: "'w \<Rightarrow> view"
  cu_set_view :: "view \<Rightarrow> 'w \<Rightarrow> 'w"
  cu_persist :: "('w, unit) tx"
  cu_residual :: "'w \<Rightarrow> rat"
  cu_admissible :: "'w \<Rightarrow> bool"
  cu_allocate :: "source_order_record \<Rightarrow> string \<Rightarrow> rat \<Rightarrow> 'w \<Rightarrow> int \<times> 'w"

abbreviation cu_state :: "'w custody \<Rightarrow> 'w \<Rightarrow> store_state" where
  "cu_state cu w \<equiv> vw_state (cu_view cu w)"

definition on_view :: "'w custody \<Rightarrow> (view, 'a) tx \<Rightarrow> ('w, 'a) tx" where
  "on_view cu m = (\<lambda>w. case m (cu_view cu w) of (v, r) \<Rightarrow> (cu_set_view cu v w, r))"

text \<open>Mutations of a view.\<close>

definition update_state :: "(store_state \<Rightarrow> store_state) \<Rightarrow> (view, unit) tx" where
  "update_state f = modify_tx (\<lambda>v. v\<lparr>vw_state := f (vw_state v)\<rparr>)"

definition call_back :: "callback \<Rightarrow> (view, unit) tx" where
  "call_back c = modify_tx (\<lambda>v. v\<lparr>vw_log := vw_log v @ [c]\<rparr>)"

definition revoke_restart_permission :: "(view, unit) tx" where
  "revoke_restart_permission = call_back RevokePermission"

text \<open>\<^verbatim>\<open>self._state.hedge_intents[intent.intent_id] = replace(...)\<close>: the new intent is checked first.\<close>

definition put_intent :: "hedge_intent \<Rightarrow> (view, hedge_intent) tx" where
  "put_intent intent = bind_tx (lift_tx (mk_hedge_intent intent)) (\<lambda>i.
     bind_tx (update_state (\<lambda>s. s\<lparr>ss_hedge_intents := dict_set (hi_intent_id i) i (ss_hedge_intents s)\<rparr>)) (\<lambda>_.
     ret_tx i))"

definition set_halt :: "string option \<Rightarrow> store_state \<Rightarrow> store_state" where
  "set_halt reason s = s\<lparr>ss_halt_reason := reason\<rparr>"

definition set_order :: "string \<Rightarrow> source_order_record \<Rightarrow> store_state \<Rightarrow> store_state" where
  "set_order cid record s = s\<lparr>ss_source_orders := dict_set cid record (ss_source_orders s)\<rparr>"

definition source_reconcile_reason :: "string \<Rightarrow> string" where
  "source_reconcile_reason cid = ''source '' @ cid @ '' terminal event requires fill reconciliation''"

section \<open>Queries\<close>

definition outstanding_ounces :: "rat \<Rightarrow> hedge_intent list \<Rightarrow> rat" where
  "outstanding_ounces residual intents = foldl (\<lambda>outstanding intent.
     let remaining = dsub (hi_hedge_quantity_ounces intent) (hi_hedge_filled_ounces intent);
         sign = (if hi_hedge_side intent = SELL then 1 else - 1)
     in dadd outstanding (dmul sign remaining)) residual intents"

definition net_unhedged_ounces :: "'w custody \<Rightarrow> 'w \<Rightarrow> rat" where
  "net_unhedged_ounces cu w = outstanding_ounces (cu_residual cu w) (state_intents (cu_state cu w))"

definition all_completed :: "store_state \<Rightarrow> bool" where
  "all_completed s \<longleftrightarrow> list_all (\<lambda>intent. hi_status intent = COMPLETED) (state_intents s)"

definition can_submit_source :: "'w custody \<Rightarrow> 'w \<Rightarrow> bool" where
  "can_submit_source cu w \<longleftrightarrow>
    ss_halt_reason (cu_state cu w) = None
    \<and> ss_source_freeze_reason (cu_state cu w) = None
    \<and> ss_active_source_order_id (cu_state cu w) = None
    \<and> cu_admissible cu w
    \<and> all_completed (cu_state cu w)"

definition has_unresolved_hedges :: "store_state \<Rightarrow> bool" where
  "has_unresolved_hedges s \<longleftrightarrow> list_ex (\<lambda>intent. hi_status intent \<noteq> COMPLETED) (state_intents s)"

definition cycle_evidence_complete :: "'w custody \<Rightarrow> 'w \<Rightarrow> bool" where
  "cycle_evidence_complete cu w \<longleftrightarrow>
    ss_halt_reason (cu_state cu w) = None
    \<and> ss_active_source_order_id (cu_state cu w) = None
    \<and> list_all (\<lambda>record. so_status record \<in>
        {''FILLED'', ''DENIED'', ''REJECTED'', ''CANCELED'', ''EXPIRED''}) (state_orders (cu_state cu w))
    \<and> all_completed (cu_state cu w)
    \<and> cu_admissible cu w"

definition is_rejected_attempt :: "hedge_intent \<Rightarrow> string \<Rightarrow> bool" where
  "is_rejected_attempt intent cid = (case hi_rejected_attempt intent of
     None \<Rightarrow> False | Some a \<Rightarrow> ra_client_order_id a = cid)"

definition intent_for_hedge_order :: "store_state \<Rightarrow> string \<Rightarrow> hedge_intent option" where
  "intent_for_hedge_order s cid =
    find (\<lambda>intent. hi_hedge_client_order_id intent = Some cid \<or> is_rejected_attempt intent cid) (state_intents s)"

section \<open>Freeze and restart\<close>

definition freeze_source_submissions :: "'w custody \<Rightarrow> string \<Rightarrow> ('w, unit) tx" where
  "freeze_source_submissions cu reason =
    (if reason = [] then raise_tx (ValueError ''freeze reason must not be empty'')
     else bind_tx (on_view cu revoke_restart_permission) (\<lambda>_ w.
       if ss_source_freeze_reason (cu_state cu w) \<noteq> None then (w, Inr ())
       else bind_tx (on_view cu (update_state (\<lambda>s. s\<lparr>ss_source_freeze_reason := Some reason\<rparr>)))
         (\<lambda>_. cu_persist cu) w))"

definition clear_source_freeze :: "'w custody \<Rightarrow> ('w, unit) tx" where
  "clear_source_freeze cu = (\<lambda>w.
     if \<not> cycle_evidence_complete cu w then (w, Inl (RuntimeError ''Maker cycle evidence is incomplete''))
     else bind_tx (on_view cu (update_state (\<lambda>s. s\<lparr>ss_source_freeze_reason := None\<rparr>)))
       (\<lambda>_. cu_persist cu) w)"

fun join_comma :: "string list \<Rightarrow> string" where
  "join_comma [] = []"
| "join_comma [x] = x"
| "join_comma (x # xs) = x @ '','' @ join_comma xs"

definition join_space :: "string list \<Rightarrow> string" where
  "join_space xs = (case xs of [] \<Rightarrow> [] | x # ys \<Rightarrow> x @ concat (map (\<lambda>y. '' '' @ y) ys))"

definition unresolved_intents :: "store_state \<Rightarrow> hedge_intent list" where
  "unresolved_intents s = filter (\<lambda>intent. hi_status intent \<noteq> COMPLETED) (state_intents s)"

text \<open>What \<^verbatim>\<open>recover_for_start\<close> does before it persists: the details it found, or nothing.\<close>

definition mark_source_in_flight :: "(view, string list) tx" where
  "mark_source_in_flight = (\<lambda>v. case ss_active_source_order_id (vw_state v) of
     None \<Rightarrow> (v, Inr [])
   | Some active \<Rightarrow>
       bind_tx (lift_tx (dict_index (ss_source_orders (vw_state v)) active)) (\<lambda>current.
       bind_tx (update_state (set_order active (current\<lparr>so_status := ''UNKNOWN''\<rparr>))) (\<lambda>_.
       ret_tx [''source='' @ active])) v)"

definition mark_hedges_in_flight :: "hedge_intent list \<Rightarrow> (view, string list) tx" where
  "mark_hedges_in_flight unresolved =
    (if unresolved = [] then ret_tx []
     else bind_tx (each_tx (\<lambda>intent.
         if hi_status intent \<in> {PENDING, SUBMITTING, SUBMITTED, ACCEPTED}
         then bind_tx (put_intent (intent\<lparr>hi_status := UNKNOWN\<rparr>)) (\<lambda>_. ret_tx ())
         else ret_tx ()) unresolved) (\<lambda>_.
       ret_tx [''hedges='' @ join_comma (map hi_intent_id unresolved)]))"

definition publish_recovery :: "'w custody \<Rightarrow> bool \<Rightarrow> ('w, string option) tx" where
  "publish_recovery cu new_halt = (\<lambda>w. case cu_persist cu w of
     (w, Inl e) \<Rightarrow>
       if e = ParentDirectorySyncError then bind_tx (on_view cu (call_back RecordFailure)) (\<lambda>_. raise_tx e) w
       else (w, Inl e)
   | (w, Inr _) \<Rightarrow>
       bind_tx (on_view cu (case ss_halt_reason (cu_state cu w) of
           Some reason \<Rightarrow> if new_halt then call_back (RecordHalt reason) else ret_tx ()
         | None \<Rightarrow> ret_tx ())) (\<lambda>_ w. (w, Inr (ss_halt_reason (cu_state cu w)))) w)"

definition recover_for_start :: "'w custody \<Rightarrow> ('w, string option) tx" where
  "recover_for_start cu = (\<lambda>w.
     let s = cu_state cu w; active = ss_active_source_order_id s; unresolved = unresolved_intents s in
     if active = None \<and> unresolved = [] then (w, Inr (ss_halt_reason s))
     else
     bind_tx (on_view cu mark_source_in_flight) (\<lambda>source_details.
     bind_tx (on_view cu (mark_hedges_in_flight unresolved)) (\<lambda>hedge_details w.
       let new_halt = (ss_halt_reason (cu_state cu w) = None) in
       bind_tx (on_view cu (if new_halt then update_state (set_halt (Some
           (''restart requires reconciliation: '' @ join_space (source_details @ hedge_details))))
           else ret_tx ())) (\<lambda>_. publish_recovery cu new_halt) w)) w)"

section \<open>Source orders\<close>

record source_route =
  rt_source_account_id :: "string option"
  rt_source_client_id :: "string option"
  rt_hedge_account_id :: "string option"
  rt_hedge_client_id :: "string option"
  rt_hedge_position_id :: "string option"
  rt_hedge_position_quantity_ounces :: "dec option"

definition new_source_record ::
  "string \<Rightarrow> business_side \<Rightarrow> rat \<Rightarrow> source_route \<Rightarrow> rat option \<Rightarrow> source_order_record"
where
  "new_source_record cid side quantity route position_quantity =
    \<lparr>so_client_order_id = cid, so_side = side, so_quantity_ounces = quantity,
     so_source_account_id = rt_source_account_id route, so_source_client_id = rt_source_client_id route,
     so_hedge_account_id = rt_hedge_account_id route, so_hedge_client_id = rt_hedge_client_id route,
     so_hedge_position_id = rt_hedge_position_id route,
     so_hedge_position_quantity_ounces = position_quantity,
     so_filled_ounces = 0, so_status = ''SUBMITTING''\<rparr>"

definition begin_source ::
  "'w custody \<Rightarrow> string \<Rightarrow> business_side \<Rightarrow> rat \<Rightarrow> source_route \<Rightarrow> string option \<Rightarrow> ('w, unit) tx"
where
  "begin_source cu cid side quantity route freeze = (\<lambda>w.
     if \<not> can_submit_source cu w then (w, Inl (RuntimeError ''source submission blocked by persisted state''))
     else if quantity \<le> 0 then (w, Inl (ValueError ''source quantity must be positive''))
     else if freeze = Some [] then (w, Inl (ValueError ''source freeze reason must not be empty''))
     else if (rt_hedge_position_id route = None) \<noteq> (rt_hedge_position_quantity_ounces route = None) then
       (w, Inl (ValueError ''hedge position ID and quantity must appear together''))
     else if rt_hedge_position_id route = Some [] then
       (w, Inl (ValueError ''hedge position ID must not be empty''))
     else bind_tx (lift_tx (case rt_hedge_position_quantity_ounces route of
         None \<Rightarrow> Inr None
       | Some NonFinite \<Rightarrow> Inl (ValueError ''hedge position quantity must be positive and finite'')
       | Some (Fin q) \<Rightarrow>
           if q \<le> 0 then Inl (ValueError ''hedge position quantity must be positive and finite'')
           else Inr (Some q))) (\<lambda>position_quantity.
       let record = new_source_record cid side quantity route position_quantity
       in bind_tx (on_view cu (update_state (\<lambda>s. (set_order cid record s)
             \<lparr>ss_active_source_order_id := Some cid, ss_source_freeze_reason := freeze\<rparr>)))
           (\<lambda>_. cu_persist cu)) w)"

definition update_source_status :: "'w custody \<Rightarrow> string \<Rightarrow> string \<Rightarrow> ('w, unit) tx" where
  "update_source_status cu cid status = (\<lambda>w.
     case dict_get (ss_source_orders (cu_state cu w)) cid of
       None \<Rightarrow> (w, Inr ())
     | Some record \<Rightarrow>
         bind_tx (on_view cu (if status \<in> {''UNKNOWN'', ''DENIED'', ''REJECTED'', ''CANCELED'', ''EXPIRED''}
             then revoke_restart_permission else ret_tx ())) (\<lambda>_.
         bind_tx (on_view cu (update_state (set_order cid (record\<lparr>so_status := status\<rparr>)))) (\<lambda>_.
         bind_tx (on_view cu (update_state (\<lambda>s.
             if status \<in> {''DENIED'', ''FILLED'', ''REJECTED''} \<and> ss_active_source_order_id s = Some cid
             then s\<lparr>ss_active_source_order_id := None\<rparr> else s))) (\<lambda>_.
         bind_tx (on_view cu (update_state (\<lambda>s.
             if status \<in> {''CANCELED'', ''EXPIRED''} \<and> ss_halt_reason s = None
             then set_halt (Some (source_reconcile_reason cid)) s else s))) (\<lambda>_.
         cu_persist cu)))) w)"

text \<open>\<^verbatim>\<open>except ParentDirectorySyncError: raise; except Exception: self._state = previous_state; raise\<close>.\<close>

definition rolling_back :: "'w custody \<Rightarrow> store_state \<Rightarrow> ('w, 'a) tx \<Rightarrow> ('w, 'a) tx" where
  "rolling_back cu previous m = (\<lambda>w. case m w of
     (w, Inl e) \<Rightarrow> if e = ParentDirectorySyncError then (w, Inl e)
       else bind_tx (on_view cu (update_state (\<lambda>_. previous))) (\<lambda>_. raise_tx e) w
   | (w, Inr x) \<Rightarrow> (w, Inr x))"

definition confirm_source_reconciled :: "'w custody \<Rightarrow> string \<Rightarrow> ('w, unit) tx" where
  "confirm_source_reconciled cu cid = (\<lambda>w.
     if (case dict_get (ss_source_orders (cu_state cu w)) cid of None \<Rightarrow> True
         | Some record \<Rightarrow> so_status record \<notin> {''CANCELED'', ''EXPIRED''})
     then (w, Inl (ValueError ''source order is not awaiting terminal reconciliation''))
     else let previous = cu_state cu w in
     bind_tx (on_view cu (update_state (\<lambda>s.
         if ss_active_source_order_id s = Some cid then s\<lparr>ss_active_source_order_id := None\<rparr> else s))) (\<lambda>_.
     bind_tx (on_view cu (update_state (\<lambda>s.
         if ss_halt_reason s = Some (source_reconcile_reason cid) then set_halt None s else s))) (\<lambda>_.
     rolling_back cu previous (cu_persist cu))) w)"

definition mark_source_unknown :: "'w custody \<Rightarrow> string \<Rightarrow> string \<Rightarrow> ('w, unit) tx" where
  "mark_source_unknown cu cid reason =
    bind_tx (on_view cu revoke_restart_permission) (\<lambda>_.
    bind_tx (on_view cu (update_state (\<lambda>s. case dict_get (ss_source_orders s) cid of
        None \<Rightarrow> s | Some record \<Rightarrow> set_order cid (record\<lparr>so_status := ''UNKNOWN''\<rparr>) s))) (\<lambda>_.
    bind_tx (on_view cu (update_state (set_halt (Some reason)))) (\<lambda>_.
    cu_persist cu)))"

section \<open>Source fills\<close>

text \<open>
  \<^verbatim>\<open>_reserve_source_fill\<close>, in three parts: the fill is booked on its order, allocated to whole
  ounces by the owner of the balance, and becomes an intent when at least one ounce accrued.
  \<open>digest\<close> stands for the first 24 hexadecimal digits of SHA-256.
\<close>

definition book_source_fill ::
  "string \<Rightarrow> string \<Rightarrow> business_side \<Rightarrow> rat \<Rightarrow> string option \<Rightarrow> source_order_record \<Rightarrow> (view, unit) tx"
where
  "book_source_fill fill_key cid side fill_ounces blocked_reason record =
    (if so_side record \<noteq> side then raise_tx (ValueError ''source fill side does not match submitted order'')
     else if fill_ounces \<le> 0 then raise_tx (ValueError ''fill quantity must be positive'')
     else
     let filled = dadd (so_filled_ounces record) fill_ounces;
         status = (if so_quantity_ounces record \<le> filled then ''FILLED'' else ''PARTIALLY_FILLED'')
     in update_state (\<lambda>s.
       let s = s\<lparr>ss_seen_source_fills := insert fill_key (ss_seen_source_fills s)\<rparr>;
           s = set_order cid (record\<lparr>so_filled_ounces := filled, so_status := status\<rparr>) s
       in if blocked_reason = None \<and> status = ''FILLED'' \<and> ss_active_source_order_id s = Some cid then
            let s = s\<lparr>ss_active_source_order_id := None\<rparr> in
            if ss_halt_reason s = Some (source_reconcile_reason cid) then set_halt None s else s
          else s))"

definition new_intent ::
  "(string \<Rightarrow> string) \<Rightarrow> string \<Rightarrow> string \<Rightarrow> string \<Rightarrow> business_side \<Rightarrow> rat \<Rightarrow> string option \<Rightarrow>
    source_order_record \<Rightarrow> int \<Rightarrow> hedge_intent"
where
  "new_intent digest fill_key cid trade_id side fill_ounces blocked_reason record rounded =
    \<lparr>hi_intent_id = ''hedge-'' @ digest fill_key, hi_fill_key = fill_key, hi_source_client_order_id = cid,
     hi_source_trade_id = trade_id, hi_source_side = side, hi_source_fill_ounces = fill_ounces,
     hi_hedge_side = (if 0 < rounded then SELL else BUY), hi_hedge_quantity_ounces = of_int \<bar>rounded\<bar>,
     hi_hedge_position_id = so_hedge_position_id record,
     hi_hedge_position_quantity_ounces = so_hedge_position_quantity_ounces record,
     hi_status = (if blocked_reason = None then PENDING else BLOCKED), hi_hedge_client_order_id = None,
     hi_hedge_filled_ounces = 0, hi_hedge_plan = [], hi_hedge_leg_index = 0, hi_hedge_leg_filled_ounces = 0,
     hi_hedge_order_ids = [], hi_rejected_attempt = None\<rparr>"

definition signed_ounces :: "business_side \<Rightarrow> rat \<Rightarrow> rat" where
  "signed_ounces side ounces = (if side = BUY then ounces else dneg ounces)"

definition reserve_source_fill_step ::
  "'w custody \<Rightarrow> (string \<Rightarrow> string) \<Rightarrow> string \<Rightarrow> string \<Rightarrow> string \<Rightarrow> business_side \<Rightarrow> rat \<Rightarrow> string option \<Rightarrow>
    ('w, hedge_intent option) tx"
where
  "reserve_source_fill_step cu digest fill_key cid trade_id side fill_ounces blocked_reason = (\<lambda>w.
     if fill_key \<in> ss_seen_source_fills (cu_state cu w) then (w, Inr None)
     else case dict_get (ss_source_orders (cu_state cu w)) cid of
       None \<Rightarrow> (w, Inr None)
     | Some record \<Rightarrow>
         bind_tx (on_view cu (book_source_fill fill_key cid side fill_ounces blocked_reason record)) (\<lambda>_ w.
           case cu_allocate cu record fill_key (signed_ounces side fill_ounces) w of (rounded, w) \<Rightarrow>
             if rounded = 0 then (w, Inr None)
             else bind_tx (on_view cu (put_intent
                 (new_intent digest fill_key cid trade_id side fill_ounces blocked_reason record rounded)))
               (\<lambda>i. ret_tx (Some i)) w) w)"

definition reserve_source_fill ::
  "'w custody \<Rightarrow> (string \<Rightarrow> string) \<Rightarrow> string \<Rightarrow> string \<Rightarrow> string \<Rightarrow> business_side \<Rightarrow> rat \<Rightarrow>
    ('w, hedge_intent option) tx"
where
  "reserve_source_fill cu digest fill_key cid trade_id side fill_ounces = (\<lambda>w.
     if fill_key \<in> ss_seen_source_fills (cu_state cu w)
       \<or> dict_get (ss_source_orders (cu_state cu w)) cid = None then (w, Inr None)
     else let previous = cu_state cu w in
       case reserve_source_fill_step cu digest fill_key cid trade_id side fill_ounces None w of
         (w, Inl e) \<Rightarrow> bind_tx (on_view cu (update_state (\<lambda>_. previous))) (\<lambda>_. raise_tx e) w
       | (w, Inr intent) \<Rightarrow>
           bind_tx (rolling_back cu previous (cu_persist cu)) (\<lambda>_. ret_tx intent) w)"

section \<open>Hedge orders\<close>

definition bind_hedge_order :: "'w custody \<Rightarrow> string \<Rightarrow> string \<Rightarrow> ('w, unit) tx" where
  "bind_hedge_order cu intent_id cid = (\<lambda>w.
     bind_tx (lift_tx (dict_index (ss_hedge_intents (cu_state cu w)) intent_id)) (\<lambda>intent w.
       if hi_status intent \<noteq> PENDING \<or> hi_hedge_client_order_id intent \<noteq> None \<or> cid = []
         \<or> list_ex (\<lambda>existing. hi_hedge_client_order_id existing = Some cid
             \<or> cid \<in> set (hi_hedge_order_ids existing)) (state_intents (cu_state cu w))
       then (w, Inl (ValueError ''hedge order binding requires a pending unique leg''))
       else bind_tx (on_view cu (bind_tx (lift_tx (mk_hedge_intent (intent\<lparr>hi_hedge_client_order_id := Some cid,
             hi_hedge_order_ids := hi_hedge_order_ids intent @ [cid], hi_status := SUBMITTING\<rparr>)))
           (\<lambda>i. update_state (\<lambda>s. s\<lparr>ss_hedge_intents := dict_set intent_id i (ss_hedge_intents s)\<rparr>))))
         (\<lambda>_. cu_persist cu) w) w)"

definition bind_hedge_plan :: "'w custody \<Rightarrow> string \<Rightarrow> hedge_leg list \<Rightarrow> ('w, hedge_intent) tx" where
  "bind_hedge_plan cu intent_id plan = (\<lambda>w.
     bind_tx (lift_tx (dict_index (ss_hedge_intents (cu_state cu w)) intent_id)) (\<lambda>intent.
       if hi_hedge_plan intent \<noteq> [] then
         (if hi_hedge_plan intent \<noteq> plan then
            raise_tx (ValueError ''hedge intent already has a different ticket plan'')
          else ret_tx intent)
       else if hi_status intent \<noteq> PENDING \<or> hi_hedge_client_order_id intent \<noteq> None
         \<or> hi_hedge_filled_ounces intent \<noteq> 0 then
         raise_tx (ValueError ''hedge plan must be bound before the first hedge order'')
       else if plan = [] then raise_tx (ValueError ''hedge plan must contain at least one leg'')
       else if list_ex (\<lambda>leg. leg_side leg \<noteq> hi_hedge_side intent) plan then
         raise_tx (ValueError ''hedge plan side does not match the durable intent'')
       else if plan_total plan \<noteq> dsub (hi_hedge_quantity_ounces intent) (hi_hedge_filled_ounces intent) then
         raise_tx (ValueError ''hedge plan quantity does not match the durable intent'')
       else bind_tx (on_view cu (bind_tx (lift_tx (mk_hedge_intent (intent\<lparr>hi_hedge_plan := plan,
             hi_hedge_leg_index := 0, hi_hedge_leg_filled_ounces := 0\<rparr>)))
           (\<lambda>i. bind_tx (update_state (\<lambda>s. s\<lparr>ss_hedge_intents := dict_set intent_id i (ss_hedge_intents s)\<rparr>))
             (\<lambda>_. ret_tx i))))
         (\<lambda>planned. bind_tx (cu_persist cu) (\<lambda>_. ret_tx planned))) w)"

definition block_hedge_intent :: "'w custody \<Rightarrow> string \<Rightarrow> string \<Rightarrow> ('w, unit) tx" where
  "block_hedge_intent cu intent_id reason = (\<lambda>w.
     bind_tx (lift_tx (dict_index (ss_hedge_intents (cu_state cu w)) intent_id)) (\<lambda>intent.
       if hi_status intent = COMPLETED then raise_tx (ValueError ''completed hedge intent cannot be blocked'')
       else if reason = [] then raise_tx (ValueError ''hedge block reason must not be empty'')
       else bind_tx (on_view cu (bind_tx revoke_restart_permission (\<lambda>_.
           bind_tx (lift_tx (mk_hedge_intent (intent\<lparr>hi_status := BLOCKED\<rparr>))) (\<lambda>i.
           update_state (\<lambda>s. set_halt (Some (''hedge '' @ intent_id @ '' blocked: '' @ reason))
             (s\<lparr>ss_hedge_intents := dict_set intent_id i (ss_hedge_intents s)\<rparr>))))))
         (\<lambda>_. cu_persist cu)) w)"

text \<open>Contradictory evidence on an archived rejected order: the result says whether anything changed.\<close>

definition hold_rejected_attempt :: "hedge_intent \<Rightarrow> string \<Rightarrow> string \<Rightarrow> (view, bool) tx" where
  "hold_rejected_attempt intent cid evidence =
    bind_tx revoke_restart_permission (\<lambda>_.
    bind_tx (lift_tx (mk_hedge_intent (intent\<lparr>hi_status := BLOCKED\<rparr>))) (\<lambda>blocked v.
      let reason = ''archived rejected hedge '' @ cid @ '' has conflicting '' @ evidence;
          changed = (blocked \<noteq> intent \<or> ss_halt_reason (vw_state v) \<noteq> Some reason)
      in bind_tx (update_state (\<lambda>s. set_halt (Some reason)
           (s\<lparr>ss_hedge_intents := dict_set (hi_intent_id intent) blocked (ss_hedge_intents s)\<rparr>)))
         (\<lambda>_. ret_tx changed) v))"

definition update_hedge_status ::
  "'w custody \<Rightarrow> string \<Rightarrow> obligation_status \<Rightarrow> string option \<Rightarrow> ('w, unit) tx"
where
  "update_hedge_status cu cid status native_status = (\<lambda>w.
     case intent_for_hedge_order (cu_state cu w) cid of
       None \<Rightarrow> (w, Inr ())
     | Some intent \<Rightarrow>
         if is_rejected_attempt intent cid then
           (if status \<noteq> REJECTED \<or> native_status \<notin> {None, Some ''REJECTED''} then
              bind_tx (on_view cu (hold_rejected_attempt intent cid ''terminal status'')) (\<lambda>changed.
                if changed then cu_persist cu else ret_tx ()) w
            else (w, Inr ()))
         else
         bind_tx (on_view cu (if status \<in> {BLOCKED, REJECTED, UNKNOWN} then revoke_restart_permission
             else ret_tx ())) (\<lambda>_.
         if hi_status intent \<in> {BLOCKED, REJECTED, UNKNOWN} then ret_tx ()
         else
         bind_tx (on_view cu (put_intent (intent\<lparr>hi_status := status\<rparr>))) (\<lambda>_.
         bind_tx (on_view cu (if status \<in> {REJECTED, UNKNOWN} then
             update_state (set_halt (Some (''hedge '' @ cid @ '' has unresolved status '' @ status_value status)))
           else ret_tx ())) (\<lambda>_.
         cu_persist cu))) w)"

section \<open>Hedge fills\<close>

text \<open>The three ways a fill of a live hedge order is applied.\<close>

definition hold_hedge_fill ::
  "hedge_intent \<Rightarrow> string \<Rightarrow> rat \<Rightarrow> string option \<Rightarrow> (view, bool) tx"
where
  "hold_hedge_fill intent cid fill_ounces blocked_reason =
    (let filled = dadd (hi_hedge_filled_ounces intent) fill_ounces;
         leg_filled = (if hi_hedge_plan intent \<noteq> [] \<and> hi_hedge_leg_index intent < length (hi_hedge_plan intent)
           then dadd (hi_hedge_leg_filled_ounces intent) fill_ounces else hi_hedge_leg_filled_ounces intent)
     in bind_tx (put_intent (intent\<lparr>hi_hedge_filled_ounces := filled, hi_hedge_leg_filled_ounces := leg_filled,
         hi_status := BLOCKED\<rparr>)) (\<lambda>_.
       bind_tx (case blocked_reason of
           None \<Rightarrow> bind_tx revoke_restart_permission (\<lambda>_. update_state (set_halt (Some
             (''hedge '' @ cid @ '' filled after unresolved status '' @ status_value (hi_status intent)))))
         | Some reason \<Rightarrow> update_state (\<lambda>s. if ss_halt_reason s = None then set_halt (Some reason) s else s))
       (\<lambda>_. ret_tx True)))"

definition fill_planned_leg :: "hedge_intent \<Rightarrow> string \<Rightarrow> rat \<Rightarrow> (view, bool) tx" where
  "fill_planned_leg intent cid fill_ounces =
    (let filled = dadd (hi_hedge_filled_ounces intent) fill_ounces in
     if length (hi_hedge_plan intent) \<le> hi_hedge_leg_index intent then
       bind_tx revoke_restart_permission (\<lambda>_.
       bind_tx (put_intent (intent\<lparr>hi_hedge_filled_ounces := filled, hi_status := BLOCKED\<rparr>)) (\<lambda>_.
       bind_tx (update_state (set_halt (Some (''hedge '' @ cid @ '' filled after its ticket plan completed''))))
       (\<lambda>_. ret_tx True)))
     else
     let leg = hi_hedge_plan intent ! hi_hedge_leg_index intent;
         expected = dsub (leg_quantity_ounces leg) (hi_hedge_leg_filled_ounces intent)
     in if fill_ounces \<noteq> expected then
       bind_tx revoke_restart_permission (\<lambda>_.
       bind_tx (put_intent (intent\<lparr>hi_hedge_filled_ounces := filled,
         hi_hedge_leg_filled_ounces := dadd (hi_hedge_leg_filled_ounces intent) fill_ounces,
         hi_status := BLOCKED\<rparr>)) (\<lambda>_.
       bind_tx (update_state (set_halt (Some (''hedge '' @ cid @ '' fill quantity '' @ dec_text fill_ounces @
         '' does not match planned leg remainder '' @ dec_text expected))))
       (\<lambda>_. ret_tx True)))
     else
     let next_leg_index = hi_hedge_leg_index intent + 1;
         completed = (next_leg_index = length (hi_hedge_plan intent))
     in bind_tx (put_intent (intent\<lparr>hi_hedge_filled_ounces := filled,
         hi_status := (if completed then COMPLETED else PENDING), hi_hedge_client_order_id := None,
         hi_hedge_leg_index := next_leg_index, hi_hedge_leg_filled_ounces := 0\<rparr>)) (\<lambda>_. ret_tx True))"

definition fill_unplanned :: "hedge_intent \<Rightarrow> rat \<Rightarrow> (view, bool) tx" where
  "fill_unplanned intent fill_ounces =
    (let filled = dadd (hi_hedge_filled_ounces intent) fill_ounces;
         status = (if hi_hedge_quantity_ounces intent \<le> filled then COMPLETED else ACCEPTED)
     in bind_tx (put_intent (intent\<lparr>hi_hedge_filled_ounces := filled, hi_status := status\<rparr>)) (\<lambda>_. ret_tx True))"

definition apply_hedge_fill_step ::
  "string \<Rightarrow> string \<Rightarrow> rat \<Rightarrow> string option \<Rightarrow> (view, bool) tx"
where
  "apply_hedge_fill_step cid trade_id fill_ounces blocked_reason = (\<lambda>v.
     let fill_key = bar_join2 cid trade_id in
     if fill_key \<in> ss_seen_hedge_fills (vw_state v) then (v, Inr False)
     else case intent_for_hedge_order (vw_state v) cid of
       None \<Rightarrow> (v, Inr False)
     | Some intent \<Rightarrow>
         if is_rejected_attempt intent cid then hold_rejected_attempt intent cid ''late fill'' v
         else if fill_ounces \<le> 0 then (v, Inl (ValueError ''hedge fill quantity must be positive''))
         else bind_tx (update_state (\<lambda>s. s\<lparr>ss_seen_hedge_fills := insert fill_key (ss_seen_hedge_fills s)\<rparr>)) (\<lambda>_.
           if blocked_reason \<noteq> None \<or> hi_status intent \<in> {BLOCKED, REJECTED, UNKNOWN} then
             hold_hedge_fill intent cid fill_ounces blocked_reason
           else if hi_hedge_plan intent \<noteq> [] then fill_planned_leg intent cid fill_ounces
           else fill_unplanned intent fill_ounces) v)"

definition apply_hedge_fill :: "'w custody \<Rightarrow> string \<Rightarrow> string \<Rightarrow> rat \<Rightarrow> ('w, bool) tx" where
  "apply_hedge_fill cu cid trade_id fill_ounces = (\<lambda>w.
     if bar_join2 cid trade_id \<in> ss_seen_hedge_fills (cu_state cu w)
       \<or> intent_for_hedge_order (cu_state cu w) cid = None then (w, Inr False)
     else rolling_back cu (cu_state cu w)
       (bind_tx (on_view cu (apply_hedge_fill_step cid trade_id fill_ounces None)) (\<lambda>changed.
         if changed then bind_tx (cu_persist cu) (\<lambda>_. ret_tx changed) else ret_tx changed)) w)"

section \<open>The standalone store\<close>

text \<open>
  The file, and the operating system's answers to the coming writes (a write beyond the list
  succeeds).
\<close>

record store =
  st_view :: view
  st_file :: "store_state option"
  st_answers :: "os_answers list"

definition all_well :: os_answers where
  "all_well = \<lparr>os_prepared = True, os_posix = True, os_directory_opened = True, os_published = True,
    os_directory_synced = True, os_directory_closed = True\<rparr>"

definition next_answer :: "os_answers list \<Rightarrow> os_answers" where
  "next_answer answers = (case answers of [] \<Rightarrow> all_well | os # _ \<Rightarrow> os)"

definition persist :: "(store, unit) tx" where
  "persist = (\<lambda>w. case persist_payload (next_answer (st_answers w)) True (vw_state (st_view w)) (st_file w) of
     (f, r) \<Rightarrow> (w\<lparr>st_file := f, st_answers := tl (st_answers w)\<rparr>, r))"

definition allocate_source_fill :: "source_order_record \<Rightarrow> string \<Rightarrow> rat \<Rightarrow> store \<Rightarrow> int \<times> store" where
  "allocate_source_fill record fill_key signed_fill w =
    (let s = vw_state (st_view w); (rounded, rest) = allocate_fill (ss_net_unhedged_ounces s) signed_fill
     in (rounded, w\<lparr>st_view := (st_view w)\<lparr>vw_state := s\<lparr>ss_net_unhedged_ounces := rest\<rparr>\<rparr>\<rparr>))"

definition standalone :: "store custody" where
  "standalone = \<lparr>cu_view = st_view, cu_set_view = (\<lambda>v w. w\<lparr>st_view := v\<rparr>), cu_persist = persist,
    cu_residual = (\<lambda>w. ss_net_unhedged_ounces (vw_state (st_view w))),
    cu_admissible = (\<lambda>w. ss_net_unhedged_ounces (vw_state (st_view w)) = 0
      \<and> outstanding_ounces (ss_net_unhedged_ounces (vw_state (st_view w)))
          (state_intents (vw_state (st_view w))) = 0),
    cu_allocate = allocate_source_fill\<rparr>"

lemma standalone_simps:
  "cu_view standalone = st_view" "cu_set_view standalone v w = w\<lparr>st_view := v\<rparr>" "cu_persist standalone = persist"
  "cu_residual standalone w = ss_net_unhedged_ounces (vw_state (st_view w))"
  "cu_allocate standalone = allocate_source_fill"
  by (simp_all add: standalone_def)

definition open_store :: "store_state option \<Rightarrow> os_answers list \<Rightarrow> store" where
  "open_store content answers = \<lparr>st_view = \<lparr>vw_state = (case content of None \<Rightarrow> empty_state | Some s \<Rightarrow> s),
    vw_log = []\<rparr>, st_file = content, st_answers = answers\<rparr>"

end
