(* ===== verification/Store_Ledger.thy ===== *)
theory Store_Ledger
  imports State_Store
begin

text \<open>
  What the store promises. The locale \<open>custody\<close> states the interface between the methods of the
  store and the object that owns and persists its view; it is interpreted here for the standalone
  store and in \<open>Maker_Store\<close> for the views of the allocation owner. The ledger ties the fills
  booked on the source orders to the hedge obligations and the balance; every operation keeps it.
\<close>

section \<open>The interface of a view\<close>

definition upd_state :: "'w custody \<Rightarrow> (store_state \<Rightarrow> store_state) \<Rightarrow> 'w \<Rightarrow> 'w" where
  "upd_state cu f w = cu_set_view cu ((cu_view cu w)\<lparr>vw_state := f (cu_state cu w)\<rparr>) w"

definition log_view :: "'w custody \<Rightarrow> callback \<Rightarrow> 'w \<Rightarrow> 'w" where
  "log_view cu c w = cu_set_view cu ((cu_view cu w)\<lparr>vw_log := vw_log (cu_view cu w) @ [c]\<rparr>) w"

lemma on_view_run [simp, tx_simps]:
  "on_view cu (update_state f) w = (upd_state cu f w, Inr ())"
  "on_view cu (call_back c) w = (log_view cu c w, Inr ())"
  "on_view cu revoke_restart_permission w = (log_view cu RevokePermission w, Inr ())"
  by (simp_all add: on_view_def update_state_def call_back_def revoke_restart_permission_def
      upd_state_def log_view_def)

lemma bind_on_view [simp, tx_simps]:
  "bind_tx (on_view cu (update_state f)) k w = k () (upd_state cu f w)"
  "bind_tx (on_view cu (call_back c)) k w = k () (log_view cu c w)"
  "bind_tx (on_view cu revoke_restart_permission) k w = k () (log_view cu RevokePermission w)"
  by (simp_all add: bind_tx_def)

locale custody =
  fixes cu :: "'w custody" and published :: "'w \<Rightarrow> store_state option"
  assumes view_set [simp]: "cu_view cu (cu_set_view cu v w) = v"
    and published_set [simp]: "published (cu_set_view cu v w) = published w"
    and persist_published: "cu_persist cu w = (w', r) \<Longrightarrow> r = Inr () \<or> r = Inl ParentDirectorySyncError
      \<Longrightarrow> cu_view cu w' = cu_view cu w \<and> published w' = Some (cu_state cu w)"
    and persist_failed: "cu_persist cu w = (w', Inl e) \<Longrightarrow> e \<noteq> ParentDirectorySyncError
      \<Longrightarrow> published w' = published w"
    and allocate_keeps: "cu_allocate cu record key f w = (n, w') \<Longrightarrow> published w' = published w \<and>
      vw_log (cu_view cu w') = vw_log (cu_view cu w) \<and>
      (\<exists>net. cu_state cu w' = (cu_state cu w)\<lparr>ss_net_unhedged_ounces := net\<rparr>)"
begin

lemma state_upd [simp]: "cu_state cu (upd_state cu f w) = f (cu_state cu w)"
  by (simp add: upd_state_def)

lemma state_log [simp]: "cu_state cu (log_view cu c w) = cu_state cu w"
  by (simp add: log_view_def)

lemma published_upd [simp]: "published (upd_state cu f w) = published w" "published (log_view cu c w) = published w"
  by (simp_all add: upd_state_def log_view_def)

lemma published_on_view [simp]: "published (fst (on_view cu m w)) = published w"
  by (simp add: on_view_def split: prod.splits)

text \<open>Persisting leaves the view in step with the file, or the file as it was.\<close>

lemma persist_cases:
  obtains (written) w' where "cu_persist cu w = (w', Inr ())" "cu_view cu w' = cu_view cu w"
      "published w' = Some (cu_state cu w)"
  | (unsynced) w' where "cu_persist cu w = (w', Inl ParentDirectorySyncError)" "cu_view cu w' = cu_view cu w"
      "published w' = Some (cu_state cu w)"
  | (failed) w' e where "cu_persist cu w = (w', Inl e)" "e \<noteq> ParentDirectorySyncError"
      "published w' = published w"
proof -
  obtain w' r where p: "cu_persist cu w = (w', r)" by fastforce
  show thesis
  proof (cases r)
    case (Inl e)
    with p persist_published [OF p] persist_failed [of w w' e] show thesis
      using unsynced failed by (cases "e = ParentDirectorySyncError") auto
  next
    case (Inr u)
    with p persist_published [OF p] show thesis using written by auto
  qed
qed

text \<open>A persist inside a rollback either publishes the view or restores it.\<close>

lemma rolling_back_persist:
  "case rolling_back cu previous (cu_persist cu) w of (w', r) \<Rightarrow>
     (case r of
        Inl e \<Rightarrow> (if e = ParentDirectorySyncError then cu_state cu w' = cu_state cu w \<and> published w' = Some (cu_state cu w)
          else cu_state cu w' = previous \<and> published w' = published w)
      | Inr _ \<Rightarrow> cu_state cu w' = cu_state cu w \<and> published w' = Some (cu_state cu w))"
  by (cases w rule: persist_cases) (simp_all add: rolling_back_def)

end

lemma persist_standalone:
  "persist w = (w', r) \<Longrightarrow> st_view w' = st_view w \<and>
     write_outcome (st_file w) (st_file w') (vw_state (st_view w)) r"
  using persist_payload_outcome [where os = "next_answer (st_answers w)" and overwrite = True
      and payload = "vw_state (st_view w)" and ?f0.0 = "st_file w"]
  by (auto simp: persist_def split: prod.splits)

interpretation standalone: custody standalone st_file
proof
  fix w w' r assume p: "cu_persist standalone w = (w', r)" and "r = Inr () \<or> r = Inl ParentDirectorySyncError"
  then show "cu_view standalone w' = cu_view standalone w \<and> st_file w' = Some (cu_state standalone w)"
    using persist_standalone [of w w' r] by (auto simp: standalone_def write_outcome_def)
next
  fix w w' e assume p: "cu_persist standalone w = (w', Inl e)" and "e \<noteq> ParentDirectorySyncError"
  then show "st_file w' = st_file w"
    using persist_standalone [of w w' "Inl e"] by (cases e) (auto simp: standalone_def write_outcome_def)
next
  fix rec key f w n w' assume "cu_allocate standalone rec key f w = (n, w')"
  then show "st_file w' = st_file w \<and> vw_log (cu_view standalone w') = vw_log (cu_view standalone w) \<and>
      (\<exists>net. cu_state standalone w' = (cu_state standalone w)\<lparr>ss_net_unhedged_ounces := net\<rparr>)"
    by (auto simp: standalone_def allocate_source_fill_def Let_def split: prod.splits)
qed (simp_all add: standalone_def)

section \<open>The body of a fill publishes nothing\<close>

context custody
begin

lemma published_view_ret [simp]: "published (fst (bind_tx (on_view cu m) (\<lambda>x. ret_tx (g x)) w)) = published w"
  by (rule bind_tx_preserves [where P = "\<lambda>t. published t = published w"]) simp_all

lemma published_step:
  assumes "reserve_source_fill_step cu digest key cid trade side ounces blocked w = (w', r)"
  shows "published w' = published w"
proof -
  have alloc: "published (fst (case cu_allocate cu rec key f t of (rounded, t) \<Rightarrow>
      if rounded = 0 then (t, Inr None) else bind_tx (on_view cu (m rounded)) (\<lambda>i. ret_tx (Some i)) t)) = published t"
    for rec f t and m :: "int \<Rightarrow> (view, hedge_intent) tx"
    using allocate_keeps [of rec key f t] by (auto split: prod.splits)
  have "published (fst (reserve_source_fill_step cu digest key cid trade side ounces blocked w)) = published w"
    unfolding reserve_source_fill_step_def
    by (simp split: option.splits)
      (intro impI allI bind_tx_preserves [where P = "\<lambda>t. published t = published w"]; simp add: alloc)
  with assms show ?thesis by simp
qed

end

section \<open>What the ledger is made of\<close>

definition order_fact :: "source_order_record \<Rightarrow> string \<times> business_side \<times> rat" where
  "order_fact r = (so_client_order_id r, so_side r, so_filled_ounces r)"

definition intent_fact :: "hedge_intent \<Rightarrow> string \<times> string \<times> business_side \<times> rat" where
  "intent_fact i = (hi_intent_id i, hi_fill_key i, hi_hedge_side i, hi_hedge_quantity_ounces i)"

definition order_facts :: "store_state \<Rightarrow> (string \<times> string \<times> business_side \<times> rat) list" where
  "order_facts s = map (\<lambda>(k, r). (k, order_fact r)) (ss_source_orders s)"

definition intent_facts :: "store_state \<Rightarrow> (string \<times> string \<times> string \<times> business_side \<times> rat) list" where
  "intent_facts s = map (\<lambda>(k, i). (k, intent_fact i)) (ss_hedge_intents s)"

definition keyed :: "store_state \<Rightarrow> bool" where
  "keyed s \<longleftrightarrow> distinct (map fst (ss_hedge_intents s)) \<and>
    (\<forall>(k, i) \<in> set (ss_hedge_intents s). k = hi_intent_id i)"

definition same_ledger :: "store_state \<Rightarrow> store_state \<Rightarrow> bool" where
  "same_ledger s t \<longleftrightarrow> order_facts s = order_facts t \<and> intent_facts s = intent_facts t \<and>
    ss_seen_source_fills s = ss_seen_source_fills t \<and> ss_net_unhedged_ounces s = ss_net_unhedged_ounces t"

lemma same_ledger_refl [simp]: "same_ledger s s"
  by (simp add: same_ledger_def)

lemma same_ledger_sym: "same_ledger s t \<Longrightarrow> same_ledger t s"
  by (simp add: same_ledger_def)

lemma same_ledger_trans: "same_ledger s t \<Longrightarrow> same_ledger t u \<Longrightarrow> same_ledger s u"
  by (simp add: same_ledger_def)

lemma order_facts_get: "map_of (order_facts s) k = map_option order_fact (dict_get (ss_source_orders s) k)"
  unfolding order_facts_def by (simp add: map_of_map)

lemma intent_facts_get: "map_of (intent_facts s) k = map_option intent_fact (dict_get (ss_hedge_intents s) k)"
  unfolding intent_facts_def by (simp add: map_of_map)

lemma facts_dict_set:
  "map_of d k = Some v \<Longrightarrow> f v' = f v \<Longrightarrow> map (\<lambda>(k, v). (k, f v)) (dict_set k v' d) = map (\<lambda>(k, v). (k, f v)) d"
  by (induction d) auto

lemma keyed_facts: "keyed s \<longleftrightarrow> distinct (map fst (intent_facts s)) \<and>
    (\<forall>(k, j, _) \<in> set (intent_facts s). k = j)"
  by (auto simp: keyed_def intent_facts_def intent_fact_def o_def case_prod_unfold)

lemma same_ledger_keyed: "same_ledger s t \<Longrightarrow> keyed s \<longleftrightarrow> keyed t"
  by (simp add: same_ledger_def keyed_facts)

lemma keyed_get: "keyed s \<Longrightarrow> i \<in> set (state_intents s) \<Longrightarrow> dict_get (ss_hedge_intents s) (hi_intent_id i) = Some i"
  by (fastforce simp: keyed_def state_intents_def intro: map_of_is_SomeI)

lemma keyed_index: "keyed s \<Longrightarrow> dict_get (ss_hedge_intents s) k = Some i \<Longrightarrow> hi_intent_id i = k \<and> i \<in> set (state_intents s)"
  by (force simp: keyed_def state_intents_def dest: map_of_SomeD)

lemma intent_for_hedge_order_in: "intent_for_hedge_order s cid = Some i \<Longrightarrow> i \<in> set (state_intents s)"
  by (auto simp: intent_for_hedge_order_def find_Some_iff)

text \<open>Mutations that keep the ledger.\<close>

named_theorems ledger_rules

lemma ledger_plain [simp]:
  "same_ledger s (s\<lparr>ss_halt_reason := h\<rparr>)" "same_ledger s (s\<lparr>ss_source_freeze_reason := fr\<rparr>)"
  "same_ledger s (s\<lparr>ss_active_source_order_id := a\<rparr>)" "same_ledger s (s\<lparr>ss_seen_hedge_fills := f\<rparr>)"
  "same_ledger s (set_halt h s)"
  by (simp_all add: same_ledger_def order_facts_def intent_facts_def set_halt_def)

lemma ledger_through [simp]:
  "same_ledger s (t\<lparr>ss_halt_reason := h\<rparr>) \<longleftrightarrow> same_ledger s t"
  "same_ledger s (t\<lparr>ss_source_freeze_reason := fr\<rparr>) \<longleftrightarrow> same_ledger s t"
  "same_ledger s (t\<lparr>ss_active_source_order_id := a\<rparr>) \<longleftrightarrow> same_ledger s t"
  "same_ledger s (t\<lparr>ss_seen_hedge_fills := f\<rparr>) \<longleftrightarrow> same_ledger s t"
  "same_ledger s (set_halt h t) \<longleftrightarrow> same_ledger s t"
  by (simp_all add: same_ledger_def order_facts_def intent_facts_def set_halt_def)

lemma ledger_set_order:
  assumes "same_ledger s t" "dict_get (ss_source_orders s) cid = Some r" "order_fact r' = order_fact r"
  shows "same_ledger s (set_order cid r' t)"
proof -
  have "map_option order_fact (dict_get (ss_source_orders t) cid) = Some (order_fact r)"
    using assms(1,2) order_facts_get [of t cid] order_facts_get [of s cid] by (simp add: same_ledger_def)
  then obtain v where "dict_get (ss_source_orders t) cid = Some v" "order_fact v = order_fact r" by auto
  then have "order_facts (set_order cid r' t) = order_facts t"
    using assms(3) facts_dict_set [of "ss_source_orders t" cid v order_fact r']
    by (simp add: order_facts_def set_order_def)
  then show ?thesis using assms(1) by (simp add: same_ledger_def set_order_def intent_facts_def)
qed

lemma ledger_set_intent:
  assumes "same_ledger s t" "dict_get (ss_hedge_intents s) k = Some i" "intent_fact i' = intent_fact i"
  shows "same_ledger s (t\<lparr>ss_hedge_intents := dict_set k i' (ss_hedge_intents t)\<rparr>)"
proof -
  have "map_option intent_fact (dict_get (ss_hedge_intents t) k) = Some (intent_fact i)"
    using assms(1,2) intent_facts_get [of t k] intent_facts_get [of s k] by (simp add: same_ledger_def)
  then obtain v where "dict_get (ss_hedge_intents t) k = Some v" "intent_fact v = intent_fact i" by auto
  then have "intent_facts (t\<lparr>ss_hedge_intents := dict_set k i' (ss_hedge_intents t)\<rparr>) = intent_facts t"
    using assms(3) facts_dict_set [of "ss_hedge_intents t" k v intent_fact i'] by (simp add: intent_facts_def)
  then show ?thesis using assms(1) by (simp add: same_ledger_def order_facts_def)
qed

lemma ledger_update_order:
  "same_ledger s t \<Longrightarrow> dict_get (ss_source_orders t) cid = Some r \<Longrightarrow> order_fact r' = order_fact r \<Longrightarrow>
    same_ledger s (set_order cid r' t)"
  using ledger_set_order [OF same_ledger_refl] same_ledger_trans by blast

lemma if_casesI: "(b \<Longrightarrow> P x) \<Longrightarrow> (\<not> b \<Longrightarrow> P y) \<Longrightarrow> P (if b then x else y)"
  by simp

text \<open>Bodies on a view that keep a property of the state, whether they return or raise.\<close>

definition stays :: "(store_state \<Rightarrow> bool) \<Rightarrow> (view, 'a) tx \<Rightarrow> bool" where
  "stays I m \<longleftrightarrow> (\<forall>v. I (vw_state v) \<longrightarrow> I (vw_state (fst (m v))))"

lemma keeps_bind [ledger_rules]:
  "stays I m \<Longrightarrow> (\<And>x. stays I (f x)) \<Longrightarrow> stays I (bind_tx m f)"
  unfolding stays_def
  by (intro allI impI bind_tx_preserves [where P = "\<lambda>v. I (vw_state v)"]) auto

lemma keeps_pure [ledger_rules]:
  "stays I (ret_tx x)" "stays I (raise_tx e)" "stays I (lift_tx y)"
  "stays I (call_back c)" "stays I revoke_restart_permission"
  by (simp_all add: stays_def call_back_def revoke_restart_permission_def)

lemma keeps_update [ledger_rules]:
  "(\<And>t. I t \<Longrightarrow> I (f t)) \<Longrightarrow> stays I (update_state f)"
  by (simp add: stays_def update_state_def)

lemma keeps_if [ledger_rules]:
  "(b \<Longrightarrow> stays I m) \<Longrightarrow> (\<not> b \<Longrightarrow> stays I m') \<Longrightarrow> stays I (if b then m else m')"
  by simp

lemma keeps_each [ledger_rules]:
  "(\<And>x. x \<in> set xs \<Longrightarrow> stays I (f x)) \<Longrightarrow> stays I (each_tx f xs)"
  unfolding stays_def
  by (intro allI impI each_tx_preserves [where P = "\<lambda>v. I (vw_state v)"]) auto

lemma stays_apply: "stays I m \<Longrightarrow> I (vw_state v) \<Longrightarrow> I (vw_state (fst (m v)))"
  by (simp add: stays_def)

lemmas keeps_apply = stays_apply [where I = "same_ledger s" for s]

lemma keeps_check:
  "(valid_intent i' \<Longrightarrow> stays I (g i')) \<Longrightarrow> stays I (bind_tx (lift_tx (mk_hedge_intent i')) g)"
  by (cases "mk_hedge_intent i'") (auto simp: stays_def mk_hedge_intent_valid)

lemma keeps_put_intent:
  assumes "keyed s" "i \<in> set (state_intents s)" "intent_fact i' = intent_fact i"
  shows "stays (same_ledger s) (put_intent i')"
proof -
  have k: "hi_intent_id i' = hi_intent_id i" using assms(3) by (simp add: intent_fact_def)
  show ?thesis
    unfolding put_intent_def
    by (intro keeps_check ledger_rules, unfold k, erule ledger_set_intent [OF _ keyed_get [OF assms(1,2)] assms(3)])
qed

text \<open>The bodies of the hedge side.\<close>

lemma keeps_hold_rejected:
  assumes "keyed s" "i \<in> set (state_intents s)"
  shows "stays (same_ledger s) (hold_rejected_attempt i cid evidence)"
proof -
  have b: "stays (same_ledger s) (\<lambda>v. bind_tx (update_state (\<lambda>t. set_halt (Some r)
      (t\<lparr>ss_hedge_intents := dict_set (hi_intent_id i) (i\<lparr>hi_status := BLOCKED\<rparr>) (ss_hedge_intents t)\<rparr>)))
      (\<lambda>_. ret_tx (c v)) v)" for r and c :: "view \<Rightarrow> bool"
    using ledger_set_intent [OF _ keyed_get [OF assms], where i' = "i\<lparr>hi_status := BLOCKED\<rparr>"]
    by (simp add: stays_def update_state_def intent_fact_def)
  show ?thesis
    unfolding hold_rejected_attempt_def Let_def by (intro keeps_check ledger_rules b)
qed

lemma keeps_hold_fill:
  assumes "keyed s" "i \<in> set (state_intents s)"
  shows "stays (same_ledger s) (hold_hedge_fill i cid f blocked)"
  unfolding hold_hedge_fill_def Let_def
  by (intro ledger_rules keeps_put_intent [OF assms]; cases blocked; (intro ledger_rules)?; simp add: intent_fact_def ledger_rules)

lemma keeps_planned_leg:
  assumes "keyed s" "i \<in> set (state_intents s)"
  shows "stays (same_ledger s) (fill_planned_leg i cid f)"
  unfolding fill_planned_leg_def Let_def
  by (intro ledger_rules keeps_put_intent [OF assms]; simp add: intent_fact_def)

lemma keeps_unplanned:
  assumes "keyed s" "i \<in> set (state_intents s)"
  shows "stays (same_ledger s) (fill_unplanned i f)"
  unfolding fill_unplanned_def Let_def
  by (intro ledger_rules keeps_put_intent [OF assms]; simp add: intent_fact_def)

lemma keeps_hedge_fill_step:
  assumes "keyed (vw_state v)"
  shows "same_ledger (vw_state v) (vw_state (fst (apply_hedge_fill_step cid trade f blocked v)))"
proof (cases "intent_for_hedge_order (vw_state v) cid")
  case (Some i)
  note i = assms intent_for_hedge_order_in [OF Some]
  show ?thesis
    unfolding apply_hedge_fill_step_def Let_def Some
    by (simp, intro conjI impI keeps_apply [OF keeps_hold_rejected [OF i]] keeps_apply [OF keeps_bind] ledger_rules
        keeps_hold_fill [OF i] keeps_planned_leg [OF i] keeps_unplanned [OF i]; simp)
qed (simp add: apply_hedge_fill_step_def Let_def)

section \<open>Every other operation keeps the ledger\<close>

definition keeps :: "'w custody \<Rightarrow> (store_state \<Rightarrow> bool) \<Rightarrow> ('w, 'b) tx \<Rightarrow> bool" where
  "keeps cu I m \<longleftrightarrow> (\<forall>w. I (cu_state cu w) \<longrightarrow> I (cu_state cu (fst (m w))))"

text \<open>A view whose persistence never touches it: the standalone store.\<close>

locale steady_custody = custody cu published
  for cu :: "'w custody" and published :: "'w \<Rightarrow> store_state option" +
  assumes persist_view [simp]: "cu_view cu (fst (cu_persist cu w)) = cu_view cu w"
begin

lemma keeps_persist: "keeps cu I (cu_persist cu)"
  by (simp add: keeps_def)

lemma keeps_on_view: "stays I m \<Longrightarrow> keeps cu I (on_view cu m)"
  by (auto simp: keeps_def on_view_def stays_def split: prod.splits)

lemma keeps_bindW: "keeps cu I m \<Longrightarrow> (\<And>x. keeps cu I (f x)) \<Longrightarrow> keeps cu I (bind_tx m f)"
  unfolding keeps_def
  by (intro allI impI bind_tx_preserves [where P = "\<lambda>w. I (cu_state cu w)"]) auto

lemma keeps_pureW: "keeps cu I (ret_tx x)" "keeps cu I (raise_tx e)" "keeps cu I (lift_tx y)"
  by (simp_all add: keeps_def)

lemma keeps_ifW: "(b \<Longrightarrow> keeps cu I m) \<Longrightarrow> (\<not> b \<Longrightarrow> keeps cu I m') \<Longrightarrow> keeps cu I (if b then m else m')"
  by simp

lemma keeps_stateW: "(\<And>w. I (cu_state cu w) \<Longrightarrow> keeps cu I (f w)) \<Longrightarrow> keeps cu I (\<lambda>w. f w w)"
  by (simp add: keeps_def)

lemma keeps_ret_pair: "keeps cu I (\<lambda>w. (w, r w))"
  by (simp add: keeps_def)

lemma keeps_rolling_back:
  "keeps cu I m \<Longrightarrow> I previous \<Longrightarrow> keeps cu I (rolling_back cu previous m)"
  by (auto simp: keeps_def rolling_back_def split: prod.splits sum.splits)

lemmas keeps_rules = keeps_bindW keeps_pureW keeps_ifW keeps_persist keeps_on_view keeps_rolling_back keeps_ret_pair

lemma stays_applyW: "keeps cu I m \<Longrightarrow> I (cu_state cu w) \<Longrightarrow> I (cu_state cu (fst (m w)))"
  by (simp add: keeps_def)

lemmas keeps_applyW = stays_applyW [where I = "same_ledger s" for s]

lemma ledger_freeze: "same_ledger (cu_state cu w) (cu_state cu (fst (freeze_source_submissions cu reason w)))"
  by (simp add: freeze_source_submissions_def)

lemma ledger_clear_freeze: "same_ledger (cu_state cu w) (cu_state cu (fst (clear_source_freeze cu w)))"
  by (simp add: clear_source_freeze_def)

lemma ledger_source_status: "same_ledger (cu_state cu w) (cu_state cu (fst (update_source_status cu cid status w)))"
proof (cases "dict_get (ss_source_orders (cu_state cu w)) cid")
  case (Some r)
  show ?thesis
    unfolding update_source_status_def Some option.case
    by (rule keeps_applyW, intro keeps_rules ledger_rules; simp add: ledger_rules ledger_set_order [OF _ Some] order_fact_def)
qed (simp add: update_source_status_def)

lemma ledger_confirm: "same_ledger (cu_state cu w) (cu_state cu (fst (confirm_source_reconciled cu cid w)))"
  unfolding confirm_source_reconciled_def Let_def
  by (rule if_casesI [where P = "\<lambda>p. same_ledger (cu_state cu w) (cu_state cu (fst p))"], simp)
    (simp, rule keeps_applyW [OF keeps_rolling_back [OF keeps_persist]]; simp)

lemma ledger_mark_unknown: "same_ledger (cu_state cu w) (cu_state cu (fst (mark_source_unknown cu cid reason w)))"
  unfolding mark_source_unknown_def
  by (rule keeps_applyW, intro keeps_rules ledger_rules)
    (auto split: option.splits intro: ledger_update_order simp: order_fact_def)

lemma ledger_bind_order:
  assumes "keyed (cu_state cu w)"
  shows "same_ledger (cu_state cu w) (cu_state cu (fst (bind_hedge_order cu iid cid w)))"
proof (cases "dict_get (ss_hedge_intents (cu_state cu w)) iid")
  case (Some i)
  show ?thesis
    unfolding bind_hedge_order_def
    by (simp only: dict_index_def Some option.case tx_run, rule if_casesI [where P = "\<lambda>p. same_ledger (cu_state cu w) (cu_state cu (fst p))"],
        simp, rule keeps_applyW, intro keeps_rules keeps_check ledger_rules)
      (simp_all add: ledger_set_intent [OF _ Some] intent_fact_def)
qed (simp add: bind_hedge_order_def dict_index_def)

lemma ledger_bind_plan:
  assumes "keyed (cu_state cu w)"
  shows "same_ledger (cu_state cu w) (cu_state cu (fst (bind_hedge_plan cu iid plan w)))"
proof (cases "dict_get (ss_hedge_intents (cu_state cu w)) iid")
  case (Some i)
  show ?thesis
    unfolding bind_hedge_plan_def
    by (simp only: dict_index_def Some option.case tx_run, rule keeps_applyW, intro keeps_rules keeps_check ledger_rules)
      (simp_all add: ledger_set_intent [OF _ Some] intent_fact_def)
qed (simp add: bind_hedge_plan_def dict_index_def)

lemma ledger_block:
  assumes "keyed (cu_state cu w)"
  shows "same_ledger (cu_state cu w) (cu_state cu (fst (block_hedge_intent cu iid reason w)))"
proof (cases "dict_get (ss_hedge_intents (cu_state cu w)) iid")
  case (Some i)
  show ?thesis
    unfolding block_hedge_intent_def
    by (simp only: dict_index_def Some option.case tx_run, rule keeps_applyW, intro keeps_rules ledger_rules keeps_check)
      (simp_all add: ledger_set_intent [OF _ Some] intent_fact_def)
qed (simp add: block_hedge_intent_def dict_index_def)

lemma ledger_hedge_status:
  assumes "keyed (cu_state cu w)"
  shows "same_ledger (cu_state cu w) (cu_state cu (fst (update_hedge_status cu cid status native w)))"
proof (cases "intent_for_hedge_order (cu_state cu w) cid")
  case (Some i)
  note i = assms intent_for_hedge_order_in [OF Some]
  show ?thesis
    unfolding update_hedge_status_def Some option.case
    by (intro if_casesI [where P = "\<lambda>p. same_ledger (cu_state cu w) (cu_state cu (fst p))"] keeps_applyW keeps_rules
        keeps_hold_rejected [OF i] ledger_rules keeps_put_intent [OF i]; simp add: intent_fact_def)
qed (simp add: update_hedge_status_def)

lemma ledger_hedge_fill:
  assumes "keyed (cu_state cu w)"
  shows "same_ledger (cu_state cu w) (cu_state cu (fst (apply_hedge_fill cu cid trade f w)))"
proof -
  have v: "same_ledger (cu_state cu w) (cu_state cu (fst (on_view cu (apply_hedge_fill_step cid trade f None) w)))"
    using keeps_hedge_fill_step [of "cu_view cu w" cid trade f None] assms
    by (cases "apply_hedge_fill_step cid trade f None (cu_view cu w)") (simp add: on_view_def)
  have "same_ledger (cu_state cu w) (cu_state cu (fst (bind_tx (on_view cu (apply_hedge_fill_step cid trade f None)) (\<lambda>changed.
         if changed then bind_tx (cu_persist cu) (\<lambda>_. ret_tx changed) else ret_tx changed) w)))"
    unfolding bind_tx_fst
    using v by (auto split: prod.splits sum.splits intro!: keeps_applyW keeps_rules)
  then show ?thesis
    by (auto simp: apply_hedge_fill_def rolling_back_def split: prod.splits sum.splits)
qed

lemma ledger_recover:
  assumes "keyed (cu_state cu w)"
  shows "same_ledger (cu_state cu w) (cu_state cu (fst (recover_for_start cu w)))"
proof -
  let ?s = "cu_state cu w"
  have src: "same_ledger ?s (vw_state (fst (mark_source_in_flight (cu_view cu w))))"
    by (auto simp: mark_source_in_flight_def update_state_def dict_index_def order_fact_def bind_tx_def
        split: option.splits intro: ledger_update_order)
  have un: "set (unresolved_intents ?s) \<subseteq> set (state_intents ?s)" by (auto simp: unresolved_intents_def)
  have hed: "stays (same_ledger ?s) (mark_hedges_in_flight (unresolved_intents ?s))"
    unfolding mark_hedges_in_flight_def
    by (intro ledger_rules keeps_put_intent [OF assms]) (use un in \<open>auto simp: intent_fact_def\<close>)
  have per: "same_ledger ?s (cu_state cu (fst (publish_recovery cu nh t)))" if "same_ledger ?s (cu_state cu t)" for t nh
    using that persist_view [of t]
    by (cases "cu_persist cu t") (auto simp: publish_recovery_def on_view_def ret_tx_def bind_tx_def call_back_def
        modify_tx_def split: sum.splits option.splits)
  have src': "same_ledger ?s (cu_state cu (fst (on_view cu mark_source_in_flight w)))"
    using src by (cases "mark_source_in_flight (cu_view cu w)") (simp add: on_view_def)
  have halt: "keeps cu (same_ledger ?s) (\<lambda>w. bind_tx (on_view cu (if ss_halt_reason (cu_state cu w) = None then update_state (set_halt (h w))
      else ret_tx ())) (\<lambda>_. publish_recovery cu (ss_halt_reason (cu_state cu w) = None)) w)" for h
    unfolding keeps_def
    by (intro allI impI bind_tx_preserves [where P = "\<lambda>w. same_ledger ?s (cu_state cu w)"])
      (auto simp: per on_view_def ret_tx_def update_state_def modify_tx_def)
  have "same_ledger ?s (cu_state cu (fst (bind_tx (on_view cu mark_source_in_flight) (\<lambda>sd.
      bind_tx (on_view cu (mark_hedges_in_flight (unresolved_intents ?s))) (\<lambda>hd w.
        bind_tx (on_view cu (if ss_halt_reason (cu_state cu w) = None then update_state (set_halt (Some
           (''restart requires reconciliation: '' @ join_space (sd @ hd)))) else ret_tx ()))
          (\<lambda>_. publish_recovery cu (ss_halt_reason (cu_state cu w) = None)) w)) w)))"
    unfolding bind_tx_fst [of "on_view cu mark_source_in_flight"]
    using src' by (auto split: prod.splits sum.splits intro!: keeps_applyW keeps_bindW keeps_on_view hed halt)
  then show ?thesis
    unfolding recover_for_start_def Let_def
    by (intro if_casesI [where P = "\<lambda>p. same_ledger ?s (cu_state cu (fst p))"]) simp_all
qed

end

section \<open>The ledger\<close>

definition signed :: "business_side \<Rightarrow> rat \<Rightarrow> rat" where
  "signed side q = (if side = BUY then q else - q)"

text \<open>The signed ounces filled at the source, and the signed ounces handed to the hedge.\<close>

definition filled_ounces :: "store_state \<Rightarrow> rat" where
  "filled_ounces s = sum_list (map ((\<lambda>r. signed (so_side r) (so_filled_ounces r)) \<circ> snd) (ss_source_orders s))"

definition obliged_ounces :: "store_state \<Rightarrow> rat" where
  "obliged_ounces s =
    sum_list (map ((\<lambda>i. - signed (hi_hedge_side i) (hi_hedge_quantity_ounces i)) \<circ> snd) (ss_hedge_intents s))"

definition ledger_ok :: "(string \<Rightarrow> string) \<Rightarrow> store_state \<Rightarrow> bool" where
  "ledger_ok digest s \<longleftrightarrow> keyed s \<and>
    (\<forall>r \<in> set (state_orders s). on_grid (so_filled_ounces r) \<and> 0 \<le> so_filled_ounces r) \<and>
    (\<forall>i \<in> set (state_intents s). hi_fill_key i \<in> ss_seen_source_fills s \<and>
       hi_intent_id i = ''hedge-'' @ digest (hi_fill_key i)) \<and>
    on_grid (ss_net_unhedged_ounces s) \<and> \<bar>ss_net_unhedged_ounces s\<bar> \<le> 1/2 \<and>
    ss_net_unhedged_ounces s + obliged_ounces s = filled_ounces s"

lemma filled_facts: "filled_ounces s = sum_list (map (\<lambda>(_, _, side, f). signed side f) (order_facts s))"
  by (simp add: filled_ounces_def order_facts_def order_fact_def o_def case_prod_unfold)

lemma obliged_facts: "obliged_ounces s = sum_list (map (\<lambda>(_, _, _, side, q). - signed side q) (intent_facts s))"
  by (simp add: obliged_ounces_def intent_facts_def intent_fact_def o_def case_prod_unfold)

lemma ledger_ok_facts:
  "ledger_ok digest s \<longleftrightarrow> keyed s \<and>
    (\<forall>(_, _, _, f) \<in> set (order_facts s). on_grid f \<and> 0 \<le> f) \<and>
    (\<forall>(_, j, key, _, _) \<in> set (intent_facts s). key \<in> ss_seen_source_fills s \<and> j = ''hedge-'' @ digest key) \<and>
    on_grid (ss_net_unhedged_ounces s) \<and> \<bar>ss_net_unhedged_ounces s\<bar> \<le> 1/2 \<and>
    ss_net_unhedged_ounces s + sum_list (map (\<lambda>(_, _, _, side, q). - signed side q) (intent_facts s)) =
      sum_list (map (\<lambda>(_, _, side, f). signed side f) (order_facts s))"
  unfolding ledger_ok_def filled_facts [symmetric] obliged_facts [symmetric]
  by (auto simp: order_facts_def intent_facts_def order_fact_def intent_fact_def state_orders_def state_intents_def)

lemma same_ledger_ok: "same_ledger s t \<Longrightarrow> ledger_ok digest s \<Longrightarrow> ledger_ok digest t"
  using same_ledger_keyed [of s t] by (simp add: ledger_ok_facts same_ledger_def)

lemma ledger_ok_keyed: "ledger_ok digest s \<Longrightarrow> keyed s"
  by (simp add: ledger_ok_def)

lemma ledger_empty: "ledger_ok digest empty_state"
  by (simp add: ledger_ok_def empty_state_def keyed_def state_orders_def state_intents_def
      obliged_ounces_def filled_ounces_def)

lemma state_orders_set_order: "set (state_orders (set_order cid r s)) \<subseteq> insert r (set (state_orders s))"
  using set_dict_set_subset [of cid r "ss_source_orders s"] by (force simp: state_orders_def set_order_def)

text \<open>A new order has no fill.\<close>

lemma ledger_new_order:
  assumes "ledger_ok digest s" "cid \<notin> dict_keys (ss_source_orders s)" "so_filled_ounces r = 0"
  shows "ledger_ok digest (set_order cid r s)"
proof -
  have "filled_ounces (set_order cid r s) = filled_ounces s"
    using sum_dict_fresh [OF assms(2), where f = "\<lambda>r. signed (so_side r) (so_filled_ounces r)" and v = r] assms(3)
    by (simp add: filled_ounces_def set_order_def signed_def)
  then show ?thesis
    using assms state_orders_set_order [of cid r s]
    by (auto simp: ledger_ok_def set_order_def keyed_def state_intents_def obliged_ounces_def)
qed

text \<open>One fill moves the ledger by the same amount on both sides.\<close>

definition fill_effect ::
  "(string \<Rightarrow> string) \<Rightarrow> string \<Rightarrow> string \<Rightarrow> source_order_record \<Rightarrow> rat \<Rightarrow> hedge_intent option \<Rightarrow>
    store_state \<Rightarrow> store_state \<Rightarrow> bool"
where
  "fill_effect digest key cid r ounces intent s t \<longleftrightarrow>
    ss_seen_source_fills t = insert key (ss_seen_source_fills s) \<and>
    (\<exists>st. ss_source_orders t = dict_set cid (r\<lparr>so_filled_ounces := so_filled_ounces r + ounces, so_status := st\<rparr>)
        (ss_source_orders s)) \<and>
    (case intent of
       None \<Rightarrow> ss_hedge_intents t = ss_hedge_intents s \<and>
         ss_net_unhedged_ounces t = ss_net_unhedged_ounces s + signed (so_side r) ounces
     | Some i \<Rightarrow> ss_hedge_intents t = dict_set (hi_intent_id i) i (ss_hedge_intents s) \<and>
         hi_fill_key i = key \<and> hi_intent_id i = ''hedge-'' @ digest key \<and>
         ss_net_unhedged_ounces t - signed (hi_hedge_side i) (hi_hedge_quantity_ounces i)
           = ss_net_unhedged_ounces s + signed (so_side r) ounces) \<and>
    on_grid (ss_net_unhedged_ounces t) \<and> \<bar>ss_net_unhedged_ounces t\<bar> \<le> 1/2"

text \<open>The identity of a new obligation is new.\<close>

lemma new_intent_fresh:
  assumes l: "ledger_ok digest s" and d: "key \<notin> ss_seen_source_fills s" "inj_on digest (insert key (ss_seen_source_fills s))"
  shows "''hedge-'' @ digest key \<notin> dict_keys (ss_hedge_intents s)"
proof
  assume "''hedge-'' @ digest key \<in> dict_keys (ss_hedge_intents s)"
  then obtain j where "(''hedge-'' @ digest key, j) \<in> set (ss_hedge_intents s)" by auto
  then have "''hedge-'' @ digest key = hi_intent_id j" "hi_fill_key j \<in> ss_seen_source_fills s"
    "hi_intent_id j = ''hedge-'' @ digest (hi_fill_key j)"
    using l by (auto simp: ledger_ok_def keyed_def state_intents_def)
  then have "digest (hi_fill_key j) = digest key" "hi_fill_key j \<in> ss_seen_source_fills s" by simp_all
  with d show False by (metis inj_on_eq_iff insertCI)
qed

lemma ledger_fill:
  assumes l: "ledger_ok digest s" and r: "dict_get (ss_source_orders s) cid = Some r"
    and o: "on_grid ounces" "0 < ounces" and d: "key \<notin> ss_seen_source_fills s"
      "inj_on digest (insert key (ss_seen_source_fills s))"
    and e: "fill_effect digest key cid r ounces intent s t"
  shows "ledger_ok digest t"
proof -
  obtain st where ord: "ss_source_orders t = dict_set cid (r\<lparr>so_filled_ounces := so_filled_ounces r + ounces, so_status := st\<rparr>)
        (ss_source_orders s)" using e by (auto simp: fill_effect_def)
  have rin: "r \<in> set (state_orders s)" using map_of_SomeD [OF r] by (force simp: state_orders_def)
  have fill: "filled_ounces t = filled_ounces s + signed (so_side r) ounces"
    using sum_dict_replace [OF r, where f = "\<lambda>r. signed (so_side r) (so_filled_ounces r)"] ord
    by (simp add: filled_ounces_def signed_def)
  have orders: "\<forall>r \<in> set (state_orders t). on_grid (so_filled_ounces r) \<and> 0 \<le> so_filled_ounces r"
  proof
    fix x assume "x \<in> set (state_orders t)"
    then have "x \<in> set (state_orders s) \<or> x = r\<lparr>so_filled_ounces := so_filled_ounces r + ounces, so_status := st\<rparr>"
      using state_orders_set_order [of cid _ s] by (auto simp: state_orders_def set_order_def ord)
    then show "on_grid (so_filled_ounces x) \<and> 0 \<le> so_filled_ounces x"
      using l o rin by (auto simp: ledger_ok_def)
  qed
  show ?thesis
  proof (cases intent)
    case None
    with e have i: "ss_hedge_intents t = ss_hedge_intents s" by (simp add: fill_effect_def)
    then have "obliged_ounces t = obliged_ounces s" "state_intents t = state_intents s" "keyed t = keyed s"
      by (simp_all add: obliged_ounces_def state_intents_def keyed_def)
    with l e None fill orders show ?thesis by (auto simp: ledger_ok_def fill_effect_def)
  next
    case (Some i)
    have fresh: "hi_intent_id i \<notin> dict_keys (ss_hedge_intents s)"
      using new_intent_fresh [OF l d] e Some by (simp add: fill_effect_def)
    have i: "ss_hedge_intents t = ss_hedge_intents s @ [(hi_intent_id i, i)]"
      using e Some dict_set_fresh [OF fresh] by (simp add: fill_effect_def)
    have "obliged_ounces t = obliged_ounces s - signed (hi_hedge_side i) (hi_hedge_quantity_ounces i)"
      by (simp add: obliged_ounces_def i)
    moreover have "keyed t" using l fresh by (auto simp: ledger_ok_def keyed_def i)
    moreover have "\<forall>j \<in> set (state_intents t). hi_fill_key j \<in> ss_seen_source_fills t \<and>
        hi_intent_id j = ''hedge-'' @ digest (hi_fill_key j)"
      using l e Some by (auto simp: ledger_ok_def fill_effect_def state_intents_def i)
    ultimately show ?thesis using l e Some fill orders by (auto simp: ledger_ok_def fill_effect_def)
  qed
qed

text \<open>The body of a reservation either raises or has the effect of one fill.\<close>

definition sane_fill :: "store_state \<Rightarrow> string \<Rightarrow> rat \<Rightarrow> bool" where
  "sane_fill s cid ounces \<longleftrightarrow> on_grid ounces \<and> ounces < 4000000 \<and>
    (\<forall>r. dict_get (ss_source_orders s) cid = Some r \<longrightarrow> so_filled_ounces r + ounces < 10 ^ 18)"

lemma signed_ounces_exact: "on_grid q \<Longrightarrow> \<bar>q\<bar> < 10 ^ 19 \<Longrightarrow> signed_ounces side q = signed side q"
  by (simp add: signed_ounces_def signed_def dneg_exact)

lemma reserve_step_effect:
  assumes l: "ledger_ok digest (cu_state standalone w)" and sane: "sane_fill (cu_state standalone w) cid ounces"
    and key: "key \<notin> ss_seen_source_fills (cu_state standalone w)"
    and r: "dict_get (ss_source_orders (cu_state standalone w)) cid = Some r"
    and e: "reserve_source_fill_step standalone digest key cid trade side ounces blocked w = (w', Inr intent)"
  shows "0 < ounces \<and> so_side r = side \<and>
    fill_effect digest key cid r ounces intent (cu_state standalone w) (cu_state standalone w')"
proof -
  let ?s = "cu_state standalone w" and ?net = "ss_net_unhedged_ounces (cu_state standalone w)"
  have side: "so_side r = side" and pos: "0 < ounces"
    using e unfolding reserve_source_fill_step_def
    by (auto simp: key r book_source_fill_def bind_tx_Inr_iff on_view_def not_le split: if_splits prod.splits)
  have rin: "r \<in> set (state_orders ?s)" using map_of_SomeD [OF r] by (force simp: state_orders_def)
  have g: "on_grid ounces" "\<bar>ounces\<bar> < 4000000" and rg: "on_grid (so_filled_ounces r)" "0 \<le> so_filled_ounces r"
    and b: "so_filled_ounces r + ounces < 10 ^ 18" and n: "on_grid ?net" "\<bar>?net\<bar> \<le> 1/2"
    using sane l rin pos r by (auto simp: sane_fill_def ledger_ok_def)
  have filled: "dadd (so_filled_ounces r) ounces = so_filled_ounces r + ounces"
    using g rg b pos by (intro dadd_exact) auto
  have sg: "signed_ounces side ounces = signed side ounces" using g by (intro signed_ounces_exact) auto
  have sb: "on_grid (signed side ounces)" "\<bar>?net + signed side ounces\<bar> < 4194304"
    using g n by (auto simp: signed_def abs_le_iff abs_less_iff)
  note a = allocate_exact [OF n(1) sb]
  define m where "m = rhe (?net + signed side ounces)"
  define st where "st = (if so_quantity_ounces r \<le> so_filled_ounces r + ounces then ''FILLED'' else ''PARTIALLY_FILLED'')"
  define r' where "r' = r\<lparr>so_filled_ounces := so_filled_ounces r + ounces, so_status := st\<rparr>"
  obtain w1 where w1: "on_view standalone (book_source_fill key cid side ounces blocked r) w = (w1, Inr ())"
      and s1: "ss_seen_source_fills (cu_state standalone w1) = insert key (ss_seen_source_fills ?s)"
        "ss_source_orders (cu_state standalone w1) = dict_set cid r' (ss_source_orders ?s)"
        "ss_hedge_intents (cu_state standalone w1) = ss_hedge_intents ?s"
        "ss_net_unhedged_ounces (cu_state standalone w1) = ?net"
    using side pos
    by (auto simp: book_source_fill_def filled Let_def r'_def st_def not_le set_order_def set_halt_def)
  obtain w2 where w2: "cu_allocate standalone r key (signed_ounces side ounces) w1 = (m, w2)"
      and s2: "cu_state standalone w2 = (cu_state standalone w1)\<lparr>ss_net_unhedged_ounces := ?net + signed side ounces - of_int m\<rparr>"
    using a(1) s1(4) by (auto simp: standalone_def allocate_source_fill_def sg m_def)
  have body: "(if m = 0 then (w2, Inr None) else bind_tx (on_view standalone (put_intent
      (new_intent digest key cid trade side ounces blocked r m))) (\<lambda>i. ret_tx (Some i)) w2) = (w', Inr intent)"
    using e unfolding reserve_source_fill_step_def
    by (simp add: key r bind_tx_def w1 w2)
  have fe: "on_grid (?net + signed side ounces - of_int m)" "\<bar>?net + signed side ounces - of_int m\<bar> \<le> 1/2"
    using a(2,3) by (simp_all add: m_def)
  show ?thesis
  proof (cases "m = 0")
    case True
    with body have "w' = w2" "intent = None" by auto
    with True s1 s2 fe side pos show ?thesis by (auto simp: fill_effect_def r'_def)
  next
    case False
    let ?i = "new_intent digest key cid trade side ounces blocked r m"
    have "intent = Some ?i \<and> cu_state standalone w' =
        (cu_state standalone w2)\<lparr>ss_hedge_intents := dict_set (hi_intent_id ?i) ?i (ss_hedge_intents (cu_state standalone w2))\<rparr>"
      using body False
      by (auto simp: put_intent_def bind_tx_Inr_iff on_view_def update_state_def lift_tx_def modify_tx_def standalone_def
          split: prod.splits)
    moreover have "- signed (hi_hedge_side ?i) (hi_hedge_quantity_ounces ?i) = of_int m"
      using False by (auto simp: new_intent_def signed_def)
    ultimately show ?thesis
      using s1 s2 fe side pos by (auto simp: fill_effect_def r'_def new_intent_def)
  qed
qed

lemma ledger_reserve:
  assumes l: "ledger_ok digest (cu_state standalone w)" and sane: "sane_fill (cu_state standalone w) cid ounces"
    and d: "inj_on digest (insert key (ss_seen_source_fills (cu_state standalone w)))"
  shows "ledger_ok digest (cu_state standalone (fst (reserve_source_fill standalone digest key cid trade side ounces w)))"
proof (cases "key \<in> ss_seen_source_fills (cu_state standalone w) \<or>
    dict_get (ss_source_orders (cu_state standalone w)) cid = None")
  case True
  with l show ?thesis by (simp add: reserve_source_fill_def)
next
  case False
  then obtain r where key: "key \<notin> ss_seen_source_fills (cu_state standalone w)"
    and r: "dict_get (ss_source_orders (cu_state standalone w)) cid = Some r" by auto
  obtain w1 res where s: "reserve_source_fill_step standalone digest key cid trade side ounces None w = (w1, res)" by fastforce
  show ?thesis
  proof (cases res)
    case (Inl x)
    with s False l show ?thesis by (simp add: reserve_source_fill_def)
  next
    case (Inr intent)
    note eff = reserve_step_effect [OF l sane key r s [unfolded Inr]]
    have "ledger_ok digest (cu_state standalone w1)"
      using ledger_fill [OF l r _ _ key d] eff sane by (auto simp: sane_fill_def)
    moreover obtain w2 r2 where b: "rolling_back standalone (cu_state standalone w) (cu_persist standalone) w1 = (w2, r2)"
      by fastforce
    moreover have "cu_state standalone w2 \<in> {cu_state standalone w1, cu_state standalone w}"
      using standalone.rolling_back_persist [where previous = "cu_state standalone w" and w = w1] b
      by (auto split: sum.splits if_splits)
    ultimately show ?thesis
      using False s Inr l by (cases r2) (auto simp: reserve_source_fill_def bind_tx_def)
  qed
qed

interpretation standalone: steady_custody standalone st_file
proof
  show "cu_view standalone (fst (cu_persist standalone w)) = cu_view standalone w" for w
    using persist_standalone [of w] by (cases "persist w") (simp add: standalone_def)
qed

end
