(* ===== verification/Store_Runs.thy ===== *)
theory Store_Runs
  imports Store_Ledger
begin

text \<open>
  Runs of the standalone store: any sequence of its operations with any arguments and results,
  any answer of the operating system to each write, and restarts from the file at any point.
  The theorems are about every state such a run can reach, in memory and on disk.
\<close>

section \<open>Operations as data\<close>

datatype store_op =
    Freeze string
  | ClearFreeze
  | Recover
  | Begin string business_side rat source_route "string option"
  | SourceStatus string string
  | Confirm string
  | MarkUnknown string string
  | Reserve string string string business_side rat
  | BindOrder string string
  | BindPlan string "hedge_leg list"
  | Block string string
  | HedgeStatus string obligation_status "string option"
  | HedgeFill string string rat

fun run_op :: "'w custody \<Rightarrow> (string \<Rightarrow> string) \<Rightarrow> store_op \<Rightarrow> 'w \<Rightarrow> 'w" where
  "run_op cu digest (Freeze reason) w = fst (freeze_source_submissions cu reason w)"
| "run_op cu digest ClearFreeze w = fst (clear_source_freeze cu w)"
| "run_op cu digest Recover w = fst (recover_for_start cu w)"
| "run_op cu digest (Begin cid side q route fr) w = fst (begin_source cu cid side q route fr w)"
| "run_op cu digest (SourceStatus cid st) w = fst (update_source_status cu cid st w)"
| "run_op cu digest (Confirm cid) w = fst (confirm_source_reconciled cu cid w)"
| "run_op cu digest (MarkUnknown cid reason) w = fst (mark_source_unknown cu cid reason w)"
| "run_op cu digest (Reserve key cid trade side f) w = fst (reserve_source_fill cu digest key cid trade side f w)"
| "run_op cu digest (BindOrder iid cid) w = fst (bind_hedge_order cu iid cid w)"
| "run_op cu digest (BindPlan iid plan) w = fst (bind_hedge_plan cu iid plan w)"
| "run_op cu digest (Block iid reason) w = fst (block_hedge_intent cu iid reason w)"
| "run_op cu digest (HedgeStatus cid st native) w = fst (update_hedge_status cu cid st native w)"
| "run_op cu digest (HedgeFill cid trade f) w = fst (apply_hedge_fill cu cid trade f w)"

section \<open>What an operation can publish\<close>

text \<open>\<open>publishes\<close>: the file afterwards is the file before or the state afterwards.\<close>

definition publishes ::
  "'w custody \<Rightarrow> ('w \<Rightarrow> store_state option) \<Rightarrow> store_state option \<Rightarrow> 'w \<times> (exn + 'b) \<Rightarrow> bool"
where
  "publishes cu published before p \<longleftrightarrow> published (fst p) \<in> {before, Some (cu_state cu (fst p))}"

named_theorems pub_rules

context custody
begin

lemma pub_persist [pub_rules]:
  assumes "published w = before"
  shows "publishes cu published before (cu_persist cu w)"
  using assms by (cases w rule: persist_cases) (auto simp: publishes_def)

lemma pub_pair [pub_rules]: "published w = before \<Longrightarrow> publishes cu published before (w, r)"
  by (simp add: publishes_def)

lemma pub_ret [pub_rules]:
  "published w = before \<Longrightarrow> publishes cu published before (ret_tx x w)"
  "published w = before \<Longrightarrow> publishes cu published before (raise_tx e w)"
  by (simp_all add: publishes_def)

lemma pub_view [pub_rules]:
  assumes "published w = before" "\<And>x w. published w = before \<Longrightarrow> publishes cu published before (f x w)"
  shows "publishes cu published before (bind_tx (on_view cu m) f w)"
proof -
  obtain w1 r where m: "on_view cu m w = (w1, r)" by fastforce
  then have "published w1 = before" using published_on_view [of m w] assms(1) by simp
  with assms(2) m show ?thesis by (cases r) (auto simp: bind_tx_def publishes_def)
qed

lemma pub_lift [pub_rules]:
  "published w = before \<Longrightarrow> (\<And>x. y = Inr x \<Longrightarrow> publishes cu published before (f x w)) \<Longrightarrow>
    publishes cu published before (bind_tx (lift_tx y) f w)"
  by (cases y) (simp_all add: publishes_def)

lemma pub_if [pub_rules]:
  "(b \<Longrightarrow> publishes cu published before p) \<Longrightarrow> (\<not> b \<Longrightarrow> publishes cu published before q) \<Longrightarrow>
    publishes cu published before (if b then p else q)"
  "(b \<Longrightarrow> publishes cu published before (m w)) \<Longrightarrow> (\<not> b \<Longrightarrow> publishes cu published before (m' w)) \<Longrightarrow>
    publishes cu published before ((if b then m else m') w)"
  by simp_all

lemma pub_persist_ret [pub_rules]:
  assumes "published w = before"
  shows "publishes cu published before (bind_tx (cu_persist cu) (\<lambda>_. ret_tx x) w)"
  using assms by (cases w rule: persist_cases) (auto simp: publishes_def bind_tx_def)

lemma pub_rolling_back [pub_rules]:
  assumes "published w = before"
  shows "publishes cu published before (rolling_back cu previous (cu_persist cu) w)"
  using assms by (cases w rule: persist_cases) (auto simp: publishes_def rolling_back_def)

lemma pub_recovery [pub_rules]:
  assumes "published w = before"
  shows "publishes cu published before (publish_recovery cu new_halt w)"
proof -
  have v: "published (fst (bind_tx (on_view cu m) (\<lambda>_ w. (w, Inr (h w))) t)) = published t" for m :: "(view, unit) tx" and h t
    by (rule bind_tx_preserves [where P = "\<lambda>u. published u = published t"]) simp_all
  have s: "cu_state cu (fst (bind_tx (on_view cu (case hr of Some reason \<Rightarrow> if new_halt then call_back (RecordHalt reason)
      else ret_tx () | None \<Rightarrow> ret_tx ())) (\<lambda>_ w. (w, Inr (h w))) t)) = cu_state cu t" for hr h t
    by (cases hr) (auto simp: bind_tx_def on_view_def ret_tx_def call_back_def modify_tx_def)
  show ?thesis
    using assms by (cases w rule: persist_cases) (auto simp: publish_recovery_def publishes_def v s)
qed

lemma pub_option [pub_rules]:
  "(hr = None \<Longrightarrow> publishes cu published before n) \<Longrightarrow> (\<And>x. hr = Some x \<Longrightarrow> publishes cu published before (f x)) \<Longrightarrow>
    publishes cu published before (case hr of None \<Rightarrow> n | Some x \<Rightarrow> f x)"
  by (cases hr) simp_all

lemma pub_begin: "publishes cu published (published w) (begin_source cu cid side q route fr w)"
  unfolding begin_source_def Let_def by (intro pub_rules; simp)

lemma pub_source:
  "publishes cu published (published w) (freeze_source_submissions cu reason w)"
  "publishes cu published (published w) (clear_source_freeze cu w)"
  "publishes cu published (published w) (update_source_status cu cid status w)"
  "publishes cu published (published w) (mark_source_unknown cu cid reason w)"
  "publishes cu published (published w) (recover_for_start cu w)"
  unfolding freeze_source_submissions_def clear_source_freeze_def update_source_status_def
    mark_source_unknown_def recover_for_start_def Let_def
  by (intro pub_rules; simp)+

lemma pub_hedge:
  "publishes cu published (published w) (bind_hedge_order cu iid cid w)"
  "publishes cu published (published w) (bind_hedge_plan cu iid plan w)"
  "publishes cu published (published w) (block_hedge_intent cu iid reason w)"
  "publishes cu published (published w) (update_hedge_status cu cid status native w)"
  unfolding bind_hedge_order_def bind_hedge_plan_def block_hedge_intent_def update_hedge_status_def Let_def
  by (intro pub_rules; simp)+

lemma pub_confirm: "publishes cu published (published w) (confirm_source_reconciled cu cid w)"
  unfolding confirm_source_reconciled_def Let_def by (intro pub_rules; simp)

lemma pub_hedge_fill: "publishes cu published (published w) (apply_hedge_fill cu cid trade f w)"
proof -
  have "publishes cu published (published w) (rolling_back cu previous (bind_tx (on_view cu m) (\<lambda>changed.
      if changed then bind_tx (cu_persist cu) (\<lambda>_. ret_tx changed) else ret_tx changed)) w)" for previous m
  proof -
    obtain w1 r where m: "on_view cu m w = (w1, r)" by fastforce
    then have p: "published w1 = published w" using published_on_view [of m w] by simp
    show ?thesis
      by (cases w1 rule: persist_cases; cases r)
        (auto simp: rolling_back_def bind_tx_def m p publishes_def)
  qed
  then show ?thesis unfolding apply_hedge_fill_def by (intro pub_rules; simp)
qed

lemma pub_reserve: "publishes cu published (published w) (reserve_source_fill cu digest key cid trade side f w)"
proof -
  obtain w1 r where m: "reserve_source_fill_step cu digest key cid trade side f None w = (w1, r)" by fastforce
  note p = published_step [OF m]
  show ?thesis
    by (cases w1 rule: persist_cases; cases r)
      (auto simp: reserve_source_fill_def m p publishes_def rolling_back_def bind_tx_def Let_def)
qed

lemma run_op_publishes: "published (run_op cu digest op w) \<in> {published w, Some (cu_state cu (run_op cu digest op w))}"
  using pub_begin pub_source pub_hedge pub_confirm pub_hedge_fill pub_reserve
  by (cases op) (simp_all add: publishes_def)

end

section \<open>Reachable stores\<close>

text \<open>
  What the runs assume of their environment: a new source order has a new identity, a fill is
  on the quantity grid and within the bounds of exact arithmetic, and the digest does not
  collide on the fill keys of the run.
\<close>

definition sane_op :: "(string \<Rightarrow> string) \<Rightarrow> store \<Rightarrow> store_op \<Rightarrow> bool" where
  "sane_op digest w op = (case op of
     Begin cid _ _ _ _ \<Rightarrow> cid \<notin> dict_keys (ss_source_orders (cu_state standalone w))
   | Reserve key cid _ _ f \<Rightarrow> sane_fill (cu_state standalone w) cid f
       \<and> inj_on digest (insert key (ss_seen_source_fills (cu_state standalone w)))
   | _ \<Rightarrow> True)"

inductive store_reachable :: "(string \<Rightarrow> string) \<Rightarrow> store \<Rightarrow> bool" for digest where
  start: "store_reachable digest (open_store None answers)"
| operate: "store_reachable digest w \<Longrightarrow> sane_op digest w op \<Longrightarrow>
    store_reachable digest (run_op standalone digest op w)"
| restart: "store_reachable digest w \<Longrightarrow> store_reachable digest (open_store (st_file w) answers)"

definition on_record :: "store \<Rightarrow> store_state set" where
  "on_record w = insert (cu_state standalone w) (set_option (st_file w))"

lemma on_record_open: "on_record (open_store content answers) \<subseteq> insert empty_state (set_option content)"
  by (cases content) (auto simp: on_record_def open_store_def standalone_def)

lemma on_record_op: "on_record (run_op standalone digest op w) \<subseteq>
    insert (cu_state standalone (run_op standalone digest op w)) (on_record w)"
  using standalone.run_op_publishes [of digest op w] by (auto simp: on_record_def)

text \<open>A property of states that every operation keeps holds of every state on record.\<close>

lemma reachable_invariant:
  assumes "store_reachable digest w" "P empty_state"
    and "\<And>w op. store_reachable digest w \<Longrightarrow> P (cu_state standalone w) \<Longrightarrow> sane_op digest w op
      \<Longrightarrow> P (cu_state standalone (run_op standalone digest op w))"
  shows "\<forall>s \<in> on_record w. P s"
  using assms(1)
proof induction
  case (start answers)
  then show ?case using on_record_open [of None answers] assms(2) by auto
next
  case (operate w op)
  then show ?case
    using on_record_op [of digest op w] assms(3) [of w op] by (auto simp: on_record_def)
next
  case (restart w answers)
  then show ?case using on_record_open [of "st_file w" answers] assms(2) by (auto simp: on_record_def)
qed

lemma ledger_begin:
  assumes "ledger_ok digest (cu_state standalone w)" "cid \<notin> dict_keys (ss_source_orders (cu_state standalone w))"
  shows "ledger_ok digest (cu_state standalone (fst (begin_source standalone cid side q route fr w)))"
proof -
  let ?f = "\<lambda>p s. (set_order cid (new_source_record cid side q route p) s)
      \<lparr>ss_active_source_order_id := Some cid, ss_source_freeze_reason := fr\<rparr>"
  have "ledger_ok digest (?f p (cu_state standalone w))" for p
    by (rule same_ledger_ok [OF _ ledger_new_order [OF assms, where r = "new_source_record cid side q route p"]])
      (simp_all add: new_source_record_def)
  then have "ledger_ok digest (cu_state standalone (fst (bind_tx (lift_tx y) (\<lambda>p.
      bind_tx (on_view standalone (update_state (?f p))) (\<lambda>_. cu_persist standalone)) w)))" for y
    using assms(1) by (cases y) simp_all
  then show ?thesis
    unfolding begin_source_def Let_def using assms(1)
    by (intro if_casesI [where P = "\<lambda>p. ledger_ok digest (cu_state standalone (fst p))"]) simp_all
qed

lemma run_op_ledger:
  assumes "ledger_ok digest (cu_state standalone w)" "sane_op digest w op"
  shows "ledger_ok digest (cu_state standalone (run_op standalone digest op w))"
proof -
  note k = ledger_ok_keyed [OF assms(1)]
  note s = same_ledger_ok [OF _ assms(1)]
  show ?thesis
    using assms(2) ledger_begin [OF assms(1)] ledger_reserve [OF assms(1)]
      s [OF standalone.ledger_freeze] s [OF standalone.ledger_clear_freeze] s [OF standalone.ledger_recover [OF k]]
      s [OF standalone.ledger_source_status] s [OF standalone.ledger_confirm] s [OF standalone.ledger_mark_unknown]
      s [OF standalone.ledger_bind_order [OF k]] s [OF standalone.ledger_bind_plan [OF k]]
      s [OF standalone.ledger_block [OF k]] s [OF standalone.ledger_hedge_status [OF k]]
      s [OF standalone.ledger_hedge_fill [OF k]]
    by (cases op) (simp_all add: sane_op_def)
qed

text \<open>C1: no ounce is lost or invented. In every state the store can reach, in memory and in its file, through
  any operations, write failures and restarts, the balance carried forward is at most half an
  ounce, and balance plus hedge obligations equals the signed ounces filled at the source.\<close>

theorem store_ledger_conserved:
  assumes "store_reachable digest w" "s \<in> on_record w"
  shows "\<bar>ss_net_unhedged_ounces s\<bar> \<le> 1/2 \<and> ss_net_unhedged_ounces s + obliged_ounces s = filled_ounces s"
  using reachable_invariant [OF assms(1) ledger_empty run_op_ledger] assms(2)
  by (auto simp: ledger_ok_def)

definition ex_route :: source_route where
  "ex_route = \<lparr>rt_source_account_id = Some ''S'', rt_source_client_id = None, rt_hedge_account_id = Some ''H'',
    rt_hedge_client_id = None, rt_hedge_position_id = None, rt_hedge_position_quantity_ounces = None\<rparr>"

definition ex_begun :: store where
  "ex_begun = run_op standalone id (Begin ''o1'' BUY 3 ex_route None) (open_store None [])"

definition ex_store :: store where
  "ex_store = run_op standalone id (Reserve ''o1|v1|t1'' ''o1'' ''t1'' BUY 2) ex_begun"

lemma persist_well: "st_answers w = [] \<Longrightarrow> persist w = (w\<lparr>st_file := Some (vw_state (st_view w))\<rparr>, Inr ())"
  by (simp add: persist_def persist_payload_def next_answer_def all_well_def replace_and_sync_parent_def
      publish_and_sync_parent_def)

lemma ex_begun_state: "cu_state standalone ex_begun = empty_state\<lparr>
    ss_source_orders := [(''o1'', new_source_record ''o1'' BUY 3 ex_route None)],
    ss_active_source_order_id := Some ''o1''\<rparr>"
  by (simp add: ex_begun_def begin_source_def can_submit_source_def open_store_def standalone_def
      outstanding_ounces_def state_intents_def all_completed_def empty_state_def ex_route_def
      on_view_def update_state_def persist_well set_order_def bind_tx_def modify_tx_def)

lemma ex_store_reachable: "store_reachable id ex_store"
proof -
  have b: "store_reachable id ex_begun" unfolding ex_begun_def
    by (intro store_reachable.intros) (simp add: sane_op_def open_store_def standalone_def empty_state_def)
  show ?thesis unfolding ex_store_def
    by (intro store_reachable.operate b)
      (simp add: sane_op_def sane_fill_def ex_begun_state empty_state_def new_source_record_def)
qed

theorem store_ledger_conserved_witness:
  "store_reachable id ex_store \<and> cu_state standalone ex_store \<in> on_record ex_store \<and>
   \<bar>ss_net_unhedged_ounces (cu_state standalone ex_store)\<bar> \<le> 1/2 \<and>
   ss_net_unhedged_ounces (cu_state standalone ex_store) + obliged_ounces (cu_state standalone ex_store)
     = filled_ounces (cu_state standalone ex_store)"
proof -
  have r: "cu_state standalone ex_store \<in> on_record ex_store" by (simp add: on_record_def)
  from ex_store_reachable r store_ledger_conserved [OF ex_store_reachable r] show ?thesis by simp
qed

end
