(* ===== verification/Store_Safety.thy ===== *)
theory Store_Safety
  imports Store_Runs
begin

text \<open>
  What the store promises its callers beyond the ledger: a fill is applied exactly once across
  replays, write failures and restarts; a stop is never lifted by accident; a hedge fill either
  advances exactly the planned leg or blocks the intent; a restart leaves no work in flight.
\<close>

section \<open>Fills are applied exactly once\<close>

context custody
begin

lemma reserve_step_error:
  assumes "reserve_source_fill_step cu digest key cid trade side f blocked w = (w', Inl e)"
  shows "e \<noteq> ParentDirectorySyncError"
  using assms
  by (auto simp: reserve_source_fill_step_def bind_tx_Inl_iff on_view_def book_source_fill_def Let_def raise_tx_def
      put_intent_def lift_tx_def update_state_def modify_tx_def mk_hedge_intent_def bindE_Inl_iff
      dest!: check_hedge_intent_error split: option.splits prod.splits if_splits)

text \<open>A reservation is ignored, fails without a trace, or publishes the outcome of its body.\<close>

lemma reserve_outcomes:
  assumes "reserve_source_fill cu digest key cid trade side f w = (w', r)"
  obtains (ignored) "key \<in> ss_seen_source_fills (cu_state cu w) \<or> dict_get (ss_source_orders (cu_state cu w)) cid = None"
      "w' = w" "r = Inr None"
  | (failed) e where "r = Inl e" "e \<noteq> ParentDirectorySyncError" "cu_state cu w' = cu_state cu w" "published w' = published w"
  | (booked) w1 i rec where "key \<notin> ss_seen_source_fills (cu_state cu w)"
      "dict_get (ss_source_orders (cu_state cu w)) cid = Some rec"
      "reserve_source_fill_step cu digest key cid trade side f None w = (w1, Inr i)" "cu_state cu w' = cu_state cu w1"
      "published w' = Some (cu_state cu w')" "\<And>e. r = Inl e \<Longrightarrow> e = ParentDirectorySyncError"
proof (cases "key \<in> ss_seen_source_fills (cu_state cu w) \<or> dict_get (ss_source_orders (cu_state cu w)) cid = None")
  case True
  with assms show thesis by (intro ignored) (auto simp: reserve_source_fill_def)
next
  case False
  then obtain rec where rec: "dict_get (ss_source_orders (cu_state cu w)) cid = Some rec" by blast
  obtain w1 r1 where s: "reserve_source_fill_step cu digest key cid trade side f None w = (w1, r1)" by fastforce
  note p1 = published_step [OF s]
  show thesis
  proof (cases r1)
    case (Inl e)
    with False s assms p1 reserve_step_error [OF s [unfolded Inl]] show thesis
      by (intro failed) (auto simp: reserve_source_fill_def)
  next
    case (Inr i)
    obtain w2 r2 where b: "rolling_back cu (cu_state cu w) (cu_persist cu) w1 = (w2, r2)" by fastforce
    have w': "w' = w2" "r = (case r2 of Inl e \<Rightarrow> Inl e | Inr _ \<Rightarrow> Inr i)"
      using assms False s Inr b by (cases r2; auto simp: reserve_source_fill_def bind_tx_def ret_tx_def)+
    note o = rolling_back_persist [where previous = "cu_state cu w" and w = w1, unfolded b prod.case]
    show thesis
    proof (cases "\<exists>e. r2 = Inl e \<and> e \<noteq> ParentDirectorySyncError")
      case True
      then obtain e where e: "r2 = Inl e" "e \<noteq> ParentDirectorySyncError" by blast
      with o w' p1 show thesis by (intro failed [of e]) simp_all
    next
      case nf: False
      with o w' s Inr False rec show thesis by (intro booked [of rec w1 i]) (auto split: sum.splits)
    qed
  qed
qed

end

text \<open>
  A delivery: the fill key, the order and the ounces. A run of the store with the deliveries the store
  accepted, the latest first: each is the first delivery of its key for a known order that did not fail,
  where a failed directory sync is no failure, since the file was replaced.
\<close>

type_synonym delivery = "string \<times> string \<times> rat"

definition accept_delivery ::
  "string \<Rightarrow> string \<Rightarrow> rat \<Rightarrow> exn + hedge_intent option \<Rightarrow> store \<Rightarrow> delivery list \<Rightarrow> delivery list"
where
  "accept_delivery key cid f r w accepted =
    (if dict_get (ss_source_orders (cu_state standalone w)) cid = None \<or> key \<in> fst ` set accepted
       \<or> (case r of Inl e \<Rightarrow> e \<noteq> ParentDirectorySyncError | Inr _ \<Rightarrow> False)
     then accepted else (key, cid, f) # accepted)"

inductive store_history :: "(string \<Rightarrow> string) \<Rightarrow> delivery list \<Rightarrow> store \<Rightarrow> bool" for digest where
  start: "store_history digest [] (open_store None answers)"
| operate: "store_history digest accepted w \<Longrightarrow> sane_op digest w op \<Longrightarrow> \<forall>key cid trade side f. op \<noteq> Reserve key cid trade side f \<Longrightarrow>
    store_history digest accepted (run_op standalone digest op w)"
| deliver: "store_history digest accepted w \<Longrightarrow> sane_op digest w (Reserve key cid trade side f) \<Longrightarrow>
    reserve_source_fill standalone digest key cid trade side f w = (w', r) \<Longrightarrow>
    store_history digest (accept_delivery key cid f r w accepted) w'"
| restart: "store_history digest accepted w \<Longrightarrow> store_history digest accepted (open_store (st_file w) answers)"

lemma history_reachable: "store_history digest accepted w \<Longrightarrow> store_reachable digest w"
proof (induction rule: store_history.induct)
  case (deliver accepted w key cid trade side f w' r)
  from store_reachable.operate [OF deliver.IH deliver.hyps(2)] deliver.hyps(3) show ?case by simp
qed (blast intro: store_reachable.intros)+

lemma history_ledger: "store_history digest accepted w \<Longrightarrow> s \<in> on_record w \<Longrightarrow> ledger_ok digest s"
  using reachable_invariant [OF history_reachable ledger_empty run_op_ledger] by blast

text \<open>The ounces of an order's accepted deliveries, and a state that booked exactly these.\<close>

definition delivered_ounces :: "delivery list \<Rightarrow> string \<Rightarrow> rat" where
  "delivered_ounces accepted cid = sum_list (map (\<lambda>(_, _, f). f) (filter (\<lambda>(_, c, _). c = cid) accepted))"

definition books :: "delivery list \<Rightarrow> store_state \<Rightarrow> bool" where
  "books accepted s \<longleftrightarrow> ss_seen_source_fills s = fst ` set accepted \<and>
    (\<forall>(_, cid, _) \<in> set accepted. dict_get (ss_source_orders s) cid \<noteq> None) \<and>
    (\<forall>cid rec. dict_get (ss_source_orders s) cid = Some rec \<longrightarrow> so_filled_ounces rec = delivered_ounces accepted cid)"

lemma books_empty: "books [] empty_state"
  by (simp add: books_def empty_state_def)

lemma books_same_ledger:
  assumes "same_ledger s t" "books accepted s"
  shows "books accepted t"
proof -
  have g: "map_option order_fact (dict_get (ss_source_orders t) c) = map_option order_fact (dict_get (ss_source_orders s) c)" for c
    using assms(1) order_facts_get [of s c] order_facts_get [of t c] by (simp add: same_ledger_def)
  have k: "dict_get (ss_source_orders t) c \<noteq> None \<longleftrightarrow> dict_get (ss_source_orders s) c \<noteq> None" for c
    using g [of c] by (cases "dict_get (ss_source_orders s) c"; cases "dict_get (ss_source_orders t) c") simp_all
  have f: "so_filled_ounces rec = delivered_ounces accepted c" if "dict_get (ss_source_orders t) c = Some rec" for c rec
    using g [of c] that assms(2) by (cases "dict_get (ss_source_orders s) c") (auto simp: books_def order_fact_def)
  show ?thesis using assms f k by (simp add: books_def same_ledger_def)
qed

lemma books_new_order:
  assumes "books accepted s" "dict_get (ss_source_orders s) cid = None" "so_filled_ounces rec = 0"
  shows "books accepted (set_order cid rec s)"
proof -
  have "\<forall>(_, c, _) \<in> set accepted. c \<noteq> cid" using assms(1,2) by (auto simp: books_def)
  then have "delivered_ounces accepted cid = 0" unfolding delivered_ounces_def by (subst filter_False) auto
  with assms show ?thesis by (auto simp: books_def set_order_def)
qed

lemma books_begin:
  assumes "books accepted (cu_state standalone w)" "cid \<notin> dict_keys (ss_source_orders (cu_state standalone w))"
  shows "books accepted (cu_state standalone (fst (begin_source standalone cid side q route fr w)))"
proof -
  let ?f = "\<lambda>p s. (set_order cid (new_source_record cid side q route p) s)
      \<lparr>ss_active_source_order_id := Some cid, ss_source_freeze_reason := fr\<rparr>"
  have n: "dict_get (ss_source_orders (cu_state standalone w)) cid = None" using assms(2) by (simp add: map_of_eq_None_iff)
  have "books accepted (?f p (cu_state standalone w))" for p
    by (rule books_same_ledger [OF _ books_new_order [OF assms(1) n, where rec = "new_source_record cid side q route p"]])
      (simp_all add: new_source_record_def)
  then have "books accepted (cu_state standalone (fst (bind_tx (lift_tx y) (\<lambda>p.
      bind_tx (on_view standalone (update_state (?f p))) (\<lambda>_. cu_persist standalone)) w)))" for y
    using assms(1) by (cases y) simp_all
  then show ?thesis
    unfolding begin_source_def Let_def using assms(1)
    by (intro if_casesI [where P = "\<lambda>p. books accepted (cu_state standalone (fst p))"]) simp_all
qed

lemma books_op:
  assumes "books accepted (cu_state standalone w)" "keyed (cu_state standalone w)" "sane_op digest w op"
    "\<forall>key cid trade side f. op \<noteq> Reserve key cid trade side f"
  shows "books accepted (cu_state standalone (run_op standalone digest op w))"
proof -
  note k = assms(2)
  note s = books_same_ledger [OF _ assms(1)]
  show ?thesis
    using assms(3,4) books_begin [OF assms(1)]
      s [OF standalone.ledger_freeze] s [OF standalone.ledger_clear_freeze] s [OF standalone.ledger_recover [OF k]]
      s [OF standalone.ledger_source_status] s [OF standalone.ledger_confirm] s [OF standalone.ledger_mark_unknown]
      s [OF standalone.ledger_bind_order [OF k]] s [OF standalone.ledger_bind_plan [OF k]]
      s [OF standalone.ledger_block [OF k]] s [OF standalone.ledger_hedge_status [OF k]]
      s [OF standalone.ledger_hedge_fill [OF k]]
    by (cases op) (simp_all add: sane_op_def)
qed

lemma books_fill:
  assumes "books accepted s" "key \<notin> ss_seen_source_fills s" "dict_get (ss_source_orders s) cid = Some rec"
    "fill_effect digest key cid rec f i s t"
  shows "books ((key, cid, f) # accepted) t"
proof -
  obtain st where e: "ss_seen_source_fills t = insert key (ss_seen_source_fills s)"
    "ss_source_orders t = dict_set cid (rec\<lparr>so_filled_ounces := so_filled_ounces rec + f, so_status := st\<rparr>) (ss_source_orders s)"
    using assms(4) by (auto simp: fill_effect_def)
  have d: "delivered_ounces ((key, cid, f) # accepted) c = delivered_ounces accepted c + (if c = cid then f else 0)" for c
    by (simp add: delivered_ounces_def)
  show ?thesis using assms(1,3) unfolding books_def e d by auto
qed

text \<open>The invariant: the memory and the file booked exactly the accepted deliveries.\<close>

definition history_ok :: "delivery list \<Rightarrow> store \<Rightarrow> bool" where
  "history_ok accepted w \<longleftrightarrow> distinct (map fst accepted) \<and> (\<forall>s \<in> on_record w. books accepted s) \<and>
    (st_file w = None \<longrightarrow> accepted = [])"

lemma history_booked: "store_history digest accepted w \<Longrightarrow> history_ok accepted w"
proof (induction rule: store_history.induct)
  case (start answers)
  then show ?case using on_record_open [of None answers] books_empty by (auto simp: history_ok_def open_store_def)
next
  case (operate accepted w op)
  have m: "cu_state standalone w \<in> on_record w" by (simp add: on_record_def)
  have "keyed (cu_state standalone w)" using history_ledger [OF operate.hyps(1) m] by (rule ledger_ok_keyed)
  then have "books accepted (cu_state standalone (run_op standalone digest op w))"
    using operate m by (intro books_op) (auto simp: history_ok_def)
  with operate.IH on_record_op [of digest op w] standalone.run_op_publishes [of digest op w] show ?case
    by (auto simp: history_ok_def)
next
  case (deliver accepted w key cid trade side f w' r)
  note IH = deliver.IH [unfolded history_ok_def]
  have m: "cu_state standalone w \<in> on_record w" by (simp add: on_record_def)
  have b: "books accepted (cu_state standalone w)" using IH m by blast
  have seen: "key \<in> ss_seen_source_fills (cu_state standalone w) \<longleftrightarrow> key \<in> fst ` set accepted" using b by (simp add: books_def)
  from deliver.hyps(3) show ?case
  proof (cases rule: standalone.reserve_outcomes)
    case ignored
    then have "accept_delivery key cid f r w accepted = accepted" using seen by (auto simp: accept_delivery_def)
    with ignored deliver.IH show ?thesis by simp
  next
    case (failed e)
    then have "accept_delivery key cid f r w accepted = accepted" by (simp add: accept_delivery_def)
    with failed deliver.IH show ?thesis by (simp add: history_ok_def on_record_def)
  next
    case (booked w1 i rec)
    have a: "accept_delivery key cid f r w accepted = (key, cid, f) # accepted"
      using booked(1,2,6) seen by (auto simp: accept_delivery_def split: sum.splits)
    have "sane_fill (cu_state standalone w) cid f" using deliver.hyps(2) by (simp add: sane_op_def)
    from reserve_step_effect [OF history_ledger [OF deliver.hyps(1) m] this booked(1,2,3)]
    have "books ((key, cid, f) # accepted) (cu_state standalone w1)"
      using books_fill [OF b booked(1,2)] by blast
    with booked(1,4,5) IH seen show ?thesis by (simp add: a history_ok_def on_record_def)
  qed
next
  case (restart accepted w answers)
  then show ?case using on_record_open [of "st_file w" answers] books_empty
    by (cases "st_file w") (auto simp: history_ok_def on_record_def open_store_def standalone_def)
qed

text \<open>C11: a source fill is applied exactly once, through any operations, deliveries in any order and number,
  write failures and restarts. In memory and in the file the seen fills are exactly those of the
  accepted deliveries, and the filled quantity of every order is the sum of the ounces of its accepted
  deliveries, each counted once; no two hedge obligations come from the same fill; and delivering an accepted
  fill once more, with whatever order, trade, side and quantity, at any later time, changes nothing and
  creates no obligation.\<close>

theorem source_fill_exactly_once:
  assumes "store_history digest accepted w" "s \<in> on_record w"
  shows "distinct (map fst accepted) \<and> ss_seen_source_fills s = fst ` set accepted \<and>
    (\<forall>cid rec. dict_get (ss_source_orders s) cid = Some rec \<longrightarrow> so_filled_ounces rec = delivered_ounces accepted cid) \<and>
    (\<forall>i \<in> set (state_intents s). \<forall>j \<in> set (state_intents s). hi_fill_key i = hi_fill_key j \<longrightarrow> i = j) \<and>
    (\<forall>key \<in> fst ` set accepted. reserve_source_fill standalone digest key cid trade side f w = (w, Inr None))"
proof -
  note h = history_booked [OF assms(1), unfolded history_ok_def]
  have m: "books accepted (cu_state standalone w)" using h by (simp add: on_record_def)
  note l = history_ledger [OF assms]
  have "i = j" if "i \<in> set (state_intents s)" "j \<in> set (state_intents s)" "hi_fill_key i = hi_fill_key j" for i j
    using l that keyed_get [OF ledger_ok_keyed [OF l] that(1)] keyed_get [OF ledger_ok_keyed [OF l] that(2)]
    by (auto simp: ledger_ok_def)
  with h assms(2) m show ?thesis by (simp add: books_def reserve_source_fill_def)
qed

lemma ex_begun_answers: "st_answers ex_begun = []"
  by (simp add: ex_begun_def begin_source_def can_submit_source_def open_store_def standalone_def
      outstanding_ounces_def state_intents_def all_completed_def empty_state_def ex_route_def
      on_view_def update_state_def persist_well set_order_def bind_tx_def modify_tx_def)

text \<open>A run: the fill is delivered, then delivered again with another quantity, then the store restarts.\<close>

definition ex_replayed :: store where
  "ex_replayed = open_store (st_file (fst (reserve_source_fill standalone id ''o1|v1|t1'' ''o1'' ''t1'' BUY 1 ex_store))) []"

theorem source_fill_exactly_once_witness:
  "store_history id [(''o1|v1|t1'', ''o1'', 2)] ex_replayed \<and> cu_state standalone ex_replayed \<in> on_record ex_replayed \<and>
   ss_seen_source_fills (cu_state standalone ex_replayed) = {''o1|v1|t1''} \<and>
   reserve_source_fill standalone id ''o1|v1|t1'' ''o1'' ''t1'' BUY 2 ex_replayed = (ex_replayed, Inr None)"
proof -
  let ?key = "''o1|v1|t1''"
  define r where "r = snd (reserve_source_fill standalone id ?key ''o1'' ''t1'' BUY 2 ex_begun)"
  have e: "reserve_source_fill standalone id ?key ''o1'' ''t1'' BUY 2 ex_begun = (ex_store, r)"
    by (simp add: ex_store_def r_def)
  have sane: "sane_op id ex_begun (Reserve ?key ''o1'' ''t1'' BUY 2)"
    by (simp add: sane_op_def sane_fill_def ex_begun_state empty_state_def new_source_record_def)
  have h0: "store_history id [] ex_begun" unfolding ex_begun_def
    by (intro store_history.operate store_history.start)
      (simp_all add: sane_op_def open_store_def standalone_def empty_state_def)
  have "\<exists>i. r = Inr (Some i)"
  proof -
    have "rhe 2 = (2::int)" using rhe_of_int [of 2] by simp
    then have two: "dadd 0 2 = 2" "round_hedge_ounces 2 = 2" "dsub 2 2 = 0" "dabs 2 = 2"
      using dadd_exact [of 0 2] dsub_exact [of 2 2] dabs_exact [of 2] round_float_eq_rhe [of 2]
      by (simp_all add: round_hedge_ounces_def)
    define s where "s = vw_state (st_view ex_begun)"
    have s: "s = empty_state\<lparr>ss_source_orders := [(''o1'', new_source_record ''o1'' BUY 3 ex_route None)],
        ss_active_source_order_id := Some ''o1''\<rparr>"
      using ex_begun_state by (simp add: s_def standalone_simps)
    show ?thesis
      unfolding r_def by (simp add: reserve_source_fill_def rolling_back_def bind_tx_def on_view_def update_state_def
        reserve_source_fill_step_def standalone_simps book_source_fill_def s_def [symmetric] Let_def s empty_state_def
        new_source_record_def ex_route_def set_order_def two signed_ounces_def allocate_source_fill_def allocate_fill_def
        put_intent_def lift_tx_def mk_hedge_intent_valid new_intent_def valid_intent_iff intent_scalars_ok_def
        check_rejected_history_def persist_well ex_begun_answers ret_tx_def)
  qed
  then have "accept_delivery ?key ''o1'' 2 r ex_begun [] = [(?key, ''o1'', 2)]"
    by (auto simp: accept_delivery_def ex_begun_state)
  with store_history.deliver [OF h0 sane e] have h1: "store_history id [(?key, ''o1'', 2)] ex_store" by simp
  have m: "cu_state standalone ex_store \<in> on_record ex_store" by (simp add: on_record_def)
  have again: "reserve_source_fill standalone id ?key ''o1'' ''t1'' BUY 1 ex_store = (ex_store, Inr None)"
    using source_fill_exactly_once [OF h1 m] by simp
  have h2: "store_history id [(?key, ''o1'', 2)] ex_replayed"
    unfolding ex_replayed_def again fst_conv by (rule store_history.restart [OF h1])
  have m2: "cu_state standalone ex_replayed \<in> on_record ex_replayed" by (simp add: on_record_def)
  from h2 m2 source_fill_exactly_once [OF h2 m2] show ?thesis by simp
qed

section \<open>What a hedge fill does\<close>

text \<open>An intent whose quantities are on the ounce grid and within the bounds of exact arithmetic.\<close>

definition exact_intent :: "hedge_intent \<Rightarrow> bool" where
  "exact_intent i \<longleftrightarrow> on_grid (hi_hedge_quantity_ounces i) \<and> on_grid (hi_hedge_filled_ounces i) \<and>
    on_grid (hi_hedge_leg_filled_ounces i) \<and> hi_hedge_filled_ounces i < 10 ^ 18 \<and>
    hi_hedge_leg_filled_ounces i < 10 ^ 18 \<and>
    (\<forall>leg \<in> set (hi_hedge_plan i). on_grid (leg_quantity_ounces leg) \<and> 0 < leg_quantity_ounces leg) \<and>
    sum_list (map leg_quantity_ounces (hi_hedge_plan i)) < 10 ^ 18"

definition leg_remainder :: "hedge_intent \<Rightarrow> rat" where
  "leg_remainder i = leg_quantity_ounces (hi_hedge_plan i ! hi_hedge_leg_index i) - hi_hedge_leg_filled_ounces i"

definition fill_blocks :: "hedge_intent \<Rightarrow> rat \<Rightarrow> bool" where
  "fill_blocks i f \<longleftrightarrow> hi_status i \<in> {BLOCKED, REJECTED, UNKNOWN} \<or>
    hi_hedge_plan i \<noteq> [] \<and> (length (hi_hedge_plan i) \<le> hi_hedge_leg_index i \<or> f \<noteq> leg_remainder i)"

text \<open>The intent after a fill.\<close>

definition filled_intent :: "hedge_intent \<Rightarrow> rat \<Rightarrow> hedge_intent" where
  "filled_intent i f = (let j = i\<lparr>hi_hedge_filled_ounces := hi_hedge_filled_ounces i + f\<rparr> in
     if fill_blocks i f then j\<lparr>hi_status := BLOCKED, hi_hedge_leg_filled_ounces :=
         (if hi_hedge_leg_index i < length (hi_hedge_plan i) then hi_hedge_leg_filled_ounces i + f
          else hi_hedge_leg_filled_ounces i)\<rparr>
     else if hi_hedge_plan i \<noteq> [] then j\<lparr>hi_hedge_client_order_id := None,
         hi_hedge_leg_index := Suc (hi_hedge_leg_index i), hi_hedge_leg_filled_ounces := 0,
         hi_status := (if Suc (hi_hedge_leg_index i) = length (hi_hedge_plan i) then COMPLETED else PENDING)\<rparr>
     else j\<lparr>hi_status := (if hi_hedge_quantity_ounces i \<le> hi_hedge_filled_ounces i + f then COMPLETED else ACCEPTED)\<rparr>)"

lemma plan_sums:
  assumes "exact_intent i" "n \<le> length (hi_hedge_plan i)" "on_grid x" "0 \<le> x" "x < 10 ^ 18"
  shows "dsum x (map leg_quantity_ounces (take n (hi_hedge_plan i))) =
    x + sum_list (map leg_quantity_ounces (take n (hi_hedge_plan i)))"
proof -
  let ?q = "map leg_quantity_ounces"
  have nn: "0 \<le> sum_list (?q (drop n (hi_hedge_plan i)))" "0 \<le> sum_list (?q (take n (hi_hedge_plan i)))"
    using assms(1) by (auto simp: exact_intent_def less_imp_le dest!: in_set_dropD in_set_takeD intro!: sum_list_nonneg)
  have "sum_list (?q (take n (hi_hedge_plan i))) + sum_list (?q (drop n (hi_hedge_plan i))) =
      sum_list (?q (hi_hedge_plan i))"
    by (metis append_take_drop_id map_append sum_list_append)
  with nn assms(1) have b: "sum_list (?q (take n (hi_hedge_plan i))) < 10 ^ 18"
    unfolding exact_intent_def by linarith
  have "map abs (?q (take n (hi_hedge_plan i))) = ?q (take n (hi_hedge_plan i))"
    using assms(1) by (auto simp: exact_intent_def abs_of_pos intro!: map_cong dest!: in_set_takeD)
  then have a: "\<bar>x\<bar> + sum_list (map abs (?q (take n (hi_hedge_plan i)))) < 10 ^ 19"
    using b assms(4,5) by (simp only: abs_of_nonneg) simp
  show ?thesis
    by (rule dsum_exact [OF assms(3) _ a]) (use assms(1) in \<open>auto simp: exact_intent_def dest!: in_set_takeD\<close>)
qed

lemma plan_quantity:
  assumes "valid_intent i" "exact_intent i" "hi_hedge_plan i \<noteq> []"
  shows "sum_list (map leg_quantity_ounces (hi_hedge_plan i)) = hi_hedge_quantity_ounces i"
  using assms plan_sums [OF assms(2), of "length (hi_hedge_plan i)" 0]
  by (auto simp: valid_intent_iff plan_matches_def plan_total_def)

lemma rejected_history_advance:
  assumes "check_rejected_history i = Inr ()" "hi_hedge_leg_index i < length (hi_hedge_plan i)"
    "hi_hedge_client_order_id i \<noteq> None"
  shows "check_rejected_history (i\<lparr>hi_hedge_filled_ounces := x, hi_hedge_client_order_id := None,
    hi_hedge_leg_index := Suc (hi_hedge_leg_index i), hi_hedge_leg_filled_ounces := 0, hi_status := st\<rparr>) = Inr ()"
  using assms
  by (cases "hi_rejected_attempt i")
    (auto simp: check_rejected_history_def hedge_leg_order_ids_def Let_def split: if_splits)

lemma filled_intent_valid:
  assumes v: "valid_intent i" and e: "exact_intent i" and f: "on_grid f" "0 < f" "f < 10 ^ 18"
    and c: "hi_hedge_client_order_id i \<noteq> None"
  shows "valid_intent (filled_intent i f)"
proof -
  have scal: "intent_scalars_ok i" and hist: "check_rejected_history i = Inr ()"
    and prog: "check_plan_progress i = Inr ()" using v by (simp_all add: valid_intent_parts)
  consider (blocks) "fill_blocks i f" | (advance) "\<not> fill_blocks i f" "hi_hedge_plan i \<noteq> []"
    | (plain) "\<not> fill_blocks i f" "hi_hedge_plan i = []" by blast
  then show ?thesis
  proof cases
    case blocks
    have "intent_scalars_ok (filled_intent i f)"
      using scal f blocks by (simp add: filled_intent_def Let_def intent_scalars_ok_def)
    moreover have "check_rejected_history (filled_intent i f) = Inr ()"
      using hist blocks by (simp add: filled_intent_def Let_def)
    moreover have "check_plan_progress (filled_intent i f) = Inr ()"
      using prog blocks unfolding plan_progress_iff by (auto simp: filled_intent_def Let_def plan_matches_def)
    ultimately show ?thesis by (simp add: valid_intent_parts)
  next
    case advance
    let ?k = "hi_hedge_leg_index i" and ?p = "hi_hedge_plan i"
    have k: "?k < length ?p" and fr: "f = leg_remainder i" and st: "hi_status i \<noteq> BLOCKED"
      using advance by (auto simp: fill_blocks_def)
    have pm: "plan_matches i" and pe: "progress_exact i"
      using prog advance st unfolding plan_progress_iff by auto
    have lf: "0 \<le> hi_hedge_leg_filled_ounces i" using scal by (simp add: intent_scalars_ok_def)
    have filled: "hi_hedge_filled_ounces i = hi_hedge_leg_filled_ounces i + sum_list (map leg_quantity_ounces (take ?k ?p))"
      using pe plan_sums [OF e, of ?k "hi_hedge_leg_filled_ounces i"] k lf e
      by (simp add: progress_exact_def exact_intent_def)
    have new: "hi_hedge_filled_ounces i + f = dsum 0 (map leg_quantity_ounces (take (Suc ?k) ?p))"
      using plan_sums [OF e, of "Suc ?k" 0] k filled fr
      by (simp add: take_Suc_conv_app_nth leg_remainder_def)
    have last: "Suc ?k = length ?p \<Longrightarrow> hi_hedge_filled_ounces i + f = hi_hedge_quantity_ounces i"
      using new plan_sums [OF e, of "Suc ?k" 0] plan_quantity [OF v e advance(2)] by simp
    have "intent_scalars_ok (filled_intent i f)"
      using scal f advance k by (simp add: filled_intent_def Let_def intent_scalars_ok_def)
    moreover have "check_rejected_history (filled_intent i f) = Inr ()"
      using rejected_history_advance [OF hist k c] advance by (simp add: filled_intent_def Let_def)
    moreover have "plan_matches (filled_intent i f)"
      using pm advance by (simp add: filled_intent_def Let_def plan_matches_def)
    moreover have "progress_exact (filled_intent i f)"
      using new advance k e by (auto simp: filled_intent_def Let_def progress_exact_def exact_intent_def)
    ultimately show ?thesis
      using last advance by (auto simp: valid_intent_iff) (auto simp: filled_intent_def Let_def split: if_splits)
  next
    case plain
    have "intent_scalars_ok (filled_intent i f)"
      using scal f plain by (simp add: filled_intent_def Let_def intent_scalars_ok_def)
    moreover have "check_rejected_history (filled_intent i f) = Inr ()"
      using hist plain by (simp add: filled_intent_def Let_def)
    moreover have "check_plan_progress (filled_intent i f) = Inr ()"
      using prog plain unfolding plan_progress_iff by (auto simp: filled_intent_def Let_def)
    ultimately show ?thesis by (simp add: valid_intent_parts)
  qed
qed

text \<open>The arithmetic of a fill is exact.\<close>

lemma fill_amounts:
  assumes "valid_intent i" "exact_intent i" "on_grid f" "0 < f" "f < 10 ^ 18"
  shows "dadd (hi_hedge_filled_ounces i) f = hi_hedge_filled_ounces i + f"
    "dadd (hi_hedge_leg_filled_ounces i) f = hi_hedge_leg_filled_ounces i + f"
proof -
  have "0 \<le> hi_hedge_leg_filled_ounces i" using assms(1) by (simp add: valid_intent_iff intent_scalars_ok_def)
  then have "\<bar>hi_hedge_filled_ounces i + f\<bar> < 10 ^ 19" "\<bar>hi_hedge_leg_filled_ounces i + f\<bar> < 10 ^ 19"
    using assms(2,4,5) valid_intent_fill_nonneg [OF assms(1)] by (auto simp: exact_intent_def)
  then show "dadd (hi_hedge_filled_ounces i) f = hi_hedge_filled_ounces i + f"
    "dadd (hi_hedge_leg_filled_ounces i) f = hi_hedge_leg_filled_ounces i + f"
    using assms(2,3) by (auto simp: exact_intent_def intro!: dadd_exact)
qed

lemma remainder_exact:
  assumes "valid_intent i" "exact_intent i" and k: "hi_hedge_leg_index i < length (hi_hedge_plan i)"
  shows "dsub (leg_quantity_ounces (hi_hedge_plan i ! hi_hedge_leg_index i)) (hi_hedge_leg_filled_ounces i) = leg_remainder i"
proof -
  let ?q = "leg_quantity_ounces (hi_hedge_plan i ! hi_hedge_leg_index i)"
  have q: "on_grid ?q" "0 < ?q" using assms(2) k by (simp_all add: exact_intent_def)
  have "?q \<le> sum_list (map leg_quantity_ounces (hi_hedge_plan i))"
    using k assms(2) by (intro member_le_sum_list) (auto simp: exact_intent_def less_imp_le)
  then have "?q < 10 ^ 18" using assms(2) unfolding exact_intent_def by linarith
  moreover have "0 \<le> hi_hedge_leg_filled_ounces i" using assms(1) by (simp add: valid_intent_iff intent_scalars_ok_def)
  ultimately show ?thesis
    unfolding leg_remainder_def using q assms(2) by (intro dsub_exact) (auto simp: exact_intent_def abs_less_iff)
qed

lemma put_filled:
  assumes "valid_intent (filled_intent i f)"
  shows "put_intent (filled_intent i f) v0 = (v0\<lparr>vw_state := (vw_state v0)\<lparr>ss_hedge_intents :=
      dict_set (hi_intent_id i) (filled_intent i f) (ss_hedge_intents (vw_state v0))\<rparr>\<rparr>, Inr (filled_intent i f))"
proof -
  have "hi_intent_id (filled_intent i f) = hi_intent_id i" by (simp add: filled_intent_def Let_def)
  then show ?thesis by (simp add: put_intent_def mk_hedge_intent_valid [OF assms] update_state_def)
qed

text \<open>The body of the code is the specification, case by case.\<close>

definition fill_done :: "string \<Rightarrow> view \<Rightarrow> hedge_intent \<Rightarrow> rat \<Rightarrow> view \<times> (exn + bool) \<Rightarrow> bool" where
  "fill_done fill_key v i f p \<longleftrightarrow> snd p = Inr True \<and>
    ss_seen_hedge_fills (vw_state (fst p)) = insert fill_key (ss_seen_hedge_fills (vw_state v)) \<and>
    ss_hedge_intents (vw_state (fst p)) = dict_set (hi_intent_id i) (filled_intent i f) (ss_hedge_intents (vw_state v)) \<and>
    (if fill_blocks i f then ss_halt_reason (vw_state (fst p)) \<noteq> None
     else ss_halt_reason (vw_state (fst p)) = ss_halt_reason (vw_state v))"

lemmas fill_runs = update_state_def bind_tx_def revoke_restart_permission_def call_back_def modify_tx_def set_halt_def
  fill_done_def

definition ready_fill :: "hedge_intent \<Rightarrow> rat \<Rightarrow> bool" where
  "ready_fill i f \<longleftrightarrow> valid_intent i \<and> exact_intent i \<and> on_grid f \<and> 0 < f \<and> f < 10 ^ 18 \<and>
    valid_intent (filled_intent i f)"

definition mark_seen :: "string \<Rightarrow> view \<Rightarrow> view" where
  "mark_seen fill_key v =
    v\<lparr>vw_state := (vw_state v)\<lparr>ss_seen_hedge_fills := insert fill_key (ss_seen_hedge_fills (vw_state v))\<rparr>\<rparr>"

lemma ready_fill_runs:
  assumes "ready_fill i f"
  shows "dadd (hi_hedge_filled_ounces i) f = hi_hedge_filled_ounces i + f"
    "dadd (hi_hedge_leg_filled_ounces i) f = hi_hedge_leg_filled_ounces i + f"
    "hi_hedge_leg_index i < length (hi_hedge_plan i) \<Longrightarrow>
      dsub (leg_quantity_ounces (hi_hedge_plan i ! hi_hedge_leg_index i)) (hi_hedge_leg_filled_ounces i) = leg_remainder i"
    "put_intent (filled_intent i f) v0 = (v0\<lparr>vw_state := (vw_state v0)\<lparr>ss_hedge_intents :=
      dict_set (hi_intent_id i) (filled_intent i f) (ss_hedge_intents (vw_state v0))\<rparr>\<rparr>, Inr (filled_intent i f))"
  using assms fill_amounts [of i f] remainder_exact [of i] put_filled [of i f v0] by (simp_all add: ready_fill_def)

lemma hold_is_spec:
  assumes r: "ready_fill i f" and "hi_status i \<in> {BLOCKED, REJECTED, UNKNOWN}"
  shows "fill_done fill_key v i f (hold_hedge_fill i cid f None (mark_seen fill_key v))"
proof -
  have e: "i\<lparr>hi_hedge_filled_ounces := hi_hedge_filled_ounces i + f, hi_hedge_leg_filled_ounces :=
      (if hi_hedge_plan i \<noteq> [] \<and> hi_hedge_leg_index i < length (hi_hedge_plan i)
       then hi_hedge_leg_filled_ounces i + f else hi_hedge_leg_filled_ounces i), hi_status := BLOCKED\<rparr> = filled_intent i f"
    using assms by (auto simp: filled_intent_def fill_blocks_def Let_def)
  show ?thesis
    unfolding hold_hedge_fill_def Let_def ready_fill_runs(1,2) [OF r] e
    using assms by (auto simp: ready_fill_runs(4) [OF r] fill_runs fill_blocks_def mark_seen_def)
qed

lemma planned_is_spec:
  assumes r: "ready_fill i f" and "hi_status i \<notin> {BLOCKED, REJECTED, UNKNOWN}" "hi_hedge_plan i \<noteq> []"
  shows "fill_done fill_key v i f (fill_planned_leg i cid f (mark_seen fill_key v))"
proof -
  consider (over) "length (hi_hedge_plan i) \<le> hi_hedge_leg_index i"
    | (mismatch) "hi_hedge_leg_index i < length (hi_hedge_plan i)" "f \<noteq> leg_remainder i"
    | (advance) "hi_hedge_leg_index i < length (hi_hedge_plan i)" "f = leg_remainder i"
    by fastforce
  then show ?thesis
  proof cases
    case over
    have "i\<lparr>hi_hedge_filled_ounces := hi_hedge_filled_ounces i + f, hi_status := BLOCKED\<rparr> = filled_intent i f"
      using over assms by (auto simp: filled_intent_def fill_blocks_def Let_def)
    then show ?thesis
      using over assms by (simp add: fill_planned_leg_def ready_fill_runs [OF r] fill_runs fill_blocks_def Let_def mark_seen_def)
  next
    case mismatch
    have "i\<lparr>hi_hedge_filled_ounces := hi_hedge_filled_ounces i + f, hi_hedge_leg_filled_ounces :=
        hi_hedge_leg_filled_ounces i + f, hi_status := BLOCKED\<rparr> = filled_intent i f"
      using mismatch assms by (auto simp: filled_intent_def fill_blocks_def Let_def)
    then show ?thesis
      using mismatch assms
      by (simp add: fill_planned_leg_def ready_fill_runs [OF r] fill_runs fill_blocks_def Let_def mark_seen_def)
  next
    case advance
    have e: "i\<lparr>hi_hedge_filled_ounces := hi_hedge_filled_ounces i + f, hi_status :=
        (if hi_hedge_leg_index i + 1 = length (hi_hedge_plan i) then COMPLETED else PENDING),
        hi_hedge_client_order_id := None, hi_hedge_leg_index := hi_hedge_leg_index i + 1,
        hi_hedge_leg_filled_ounces := 0\<rparr> = filled_intent i f"
      using advance assms by (simp add: filled_intent_def fill_blocks_def Let_def)
    show ?thesis
      unfolding fill_planned_leg_def Let_def ready_fill_runs(1,2) [OF r] ready_fill_runs(3) [OF r advance(1)] e
      using advance assms by (simp add: ready_fill_runs(4) [OF r [unfolded advance(2)]] fill_runs fill_blocks_def mark_seen_def)
  qed
qed

lemma unplanned_is_spec:
  assumes r: "ready_fill i f" and "hi_status i \<notin> {BLOCKED, REJECTED, UNKNOWN}" "hi_hedge_plan i = []"
  shows "fill_done fill_key v i f (fill_unplanned i f (mark_seen fill_key v))"
proof -
  have e: "i\<lparr>hi_hedge_filled_ounces := hi_hedge_filled_ounces i + f, hi_status :=
      (if hi_hedge_quantity_ounces i \<le> hi_hedge_filled_ounces i + f then COMPLETED else ACCEPTED)\<rparr> = filled_intent i f"
    using assms by (simp add: filled_intent_def fill_blocks_def Let_def)
  show ?thesis
    unfolding fill_unplanned_def Let_def ready_fill_runs(1,2) [OF r] e
    using assms by (simp add: ready_fill_runs(4) [OF r] fill_runs fill_blocks_def mark_seen_def)
qed

lemma fill_step_done:
  assumes "intent_for_hedge_order (vw_state v) cid = Some i" "\<not> is_rejected_attempt i cid"
    "bar_join2 cid trade \<notin> ss_seen_hedge_fills (vw_state v)"
    "valid_intent i" "exact_intent i" "on_grid f" "0 < f" "f < 10 ^ 18"
  shows "fill_done (bar_join2 cid trade) v i f (apply_hedge_fill_step cid trade f None v) \<and>
    valid_intent (filled_intent i f)"
proof -
  have c: "hi_hedge_client_order_id i \<noteq> None"
    using assms(1,2) by (auto simp: intent_for_hedge_order_def find_Some_iff)
  note valid = filled_intent_valid [OF assms(4-8) c]
  then have r: "ready_fill i f" using assms by (simp add: ready_fill_def)
  have "apply_hedge_fill_step cid trade f None v = (let v' = mark_seen (bar_join2 cid trade) v in
      if hi_status i \<in> {BLOCKED, REJECTED, UNKNOWN} then hold_hedge_fill i cid f None v'
      else if hi_hedge_plan i \<noteq> [] then fill_planned_leg i cid f v' else fill_unplanned i f v')"
    using assms(1-3,7) by (simp add: apply_hedge_fill_step_def Let_def update_state_def mark_seen_def)
  then show ?thesis
    using hold_is_spec [OF r] planned_is_spec [OF r] unplanned_is_spec [OF r] valid by (auto simp: Let_def)
qed

text \<open>C12: a new fill of a live hedge order never fails and is never lost. The filled quantity of its intent
  grows by the fill; a fill that completes the current planned leg moves to the next leg and
  completes the intent exactly when it was the last one; any other fill of a planned intent, and
  any fill after an unresolved status, blocks the intent and stops the store; and the intent
  stays well-formed.\<close>

theorem hedge_fill_outcomes:
  assumes "intent_for_hedge_order (vw_state v) cid = Some i" "\<not> is_rejected_attempt i cid"
    "bar_join2 cid trade \<notin> ss_seen_hedge_fills (vw_state v)"
    "valid_intent i" "exact_intent i" "on_grid f" "0 < f" "f < 10 ^ 18"
  shows "\<exists>v'. apply_hedge_fill_step cid trade f None v = (v', Inr True) \<and>
    valid_intent (filled_intent i f) \<and>
    ss_seen_hedge_fills (vw_state v') = insert (bar_join2 cid trade) (ss_seen_hedge_fills (vw_state v)) \<and>
    ss_hedge_intents (vw_state v') = dict_set (hi_intent_id i) (filled_intent i f) (ss_hedge_intents (vw_state v)) \<and>
    (if fill_blocks i f then ss_halt_reason (vw_state v') \<noteq> None
     else ss_halt_reason (vw_state v') = ss_halt_reason (vw_state v))"
  using fill_step_done [OF assms] unfolding fill_done_def by (metis prod.collapse)

definition ex_leg :: "rat \<Rightarrow> hedge_leg" where
  "ex_leg q = \<lparr>leg_side = SELL, leg_quantity_ounces = q, leg_position_id = None,
    leg_expected_position_side = None, leg_expected_position_quantity_ounces = None\<rparr>"

definition ex_intent :: hedge_intent where
  "ex_intent = \<lparr>hi_intent_id = ''hedge-k'', hi_fill_key = ''k'', hi_source_client_order_id = ''o1'',
    hi_source_trade_id = ''t1'', hi_source_side = BUY, hi_source_fill_ounces = 3, hi_hedge_side = SELL,
    hi_hedge_quantity_ounces = 3, hi_hedge_position_id = None, hi_hedge_position_quantity_ounces = None,
    hi_status = SUBMITTED, hi_hedge_client_order_id = Some ''h1'', hi_hedge_filled_ounces = 0,
    hi_hedge_plan = [ex_leg 1, ex_leg 2], hi_hedge_leg_index = 0, hi_hedge_leg_filled_ounces = 0,
    hi_hedge_order_ids = [''h1''], hi_rejected_attempt = None\<rparr>"

definition ex_view :: view where
  "ex_view = \<lparr>vw_state = empty_state\<lparr>ss_hedge_intents := [(''hedge-k'', ex_intent)]\<rparr>, vw_log = []\<rparr>"

lemma ex_intent_ready:
  "intent_for_hedge_order (vw_state ex_view) ''h1'' = Some ex_intent" "\<not> is_rejected_attempt ex_intent ''h1''"
  "bar_join2 ''h1'' ''d1'' \<notin> ss_seen_hedge_fills (vw_state ex_view)" "valid_intent ex_intent" "exact_intent ex_intent"
  by (simp_all add: intent_for_hedge_order_def ex_view_def state_intents_def ex_intent_def is_rejected_attempt_def
      empty_state_def valid_intent_iff intent_scalars_ok_def plan_matches_def progress_exact_def plan_total_def ex_leg_def
      check_rejected_history_def dadd_def rnd28_exact exact_intent_def)

theorem hedge_fill_outcomes_witness:
  "\<exists>v'. apply_hedge_fill_step ''h1'' ''d1'' 1 None ex_view = (v', Inr True) \<and>
    valid_intent (filled_intent ex_intent 1) \<and>
    ss_seen_hedge_fills (vw_state v') = insert (bar_join2 ''h1'' ''d1'') (ss_seen_hedge_fills (vw_state ex_view)) \<and>
    ss_hedge_intents (vw_state v') =
      dict_set (hi_intent_id ex_intent) (filled_intent ex_intent 1) (ss_hedge_intents (vw_state ex_view)) \<and>
    (if fill_blocks ex_intent 1 then ss_halt_reason (vw_state v') \<noteq> None
     else ss_halt_reason (vw_state v') = ss_halt_reason (vw_state ex_view))"
  by (rule hedge_fill_outcomes [OF ex_intent_ready]) simp_all

section \<open>A stop is never lifted by accident\<close>

text \<open>
  Only the halt that waits for the fills of one cancelled or expired order is lifted by the
  store itself. Every other halt is hard.
\<close>

definition hard_halt :: "store_state \<Rightarrow> bool" where
  "hard_halt s \<longleftrightarrow> (\<exists>reason. ss_halt_reason s = Some reason \<and> (\<forall>cid. reason \<noteq> source_reconcile_reason cid))"

lemma hard_halt_plain [simp]:
  "hard_halt (s\<lparr>ss_source_freeze_reason := fr\<rparr>) \<longleftrightarrow> hard_halt s"
  "hard_halt (s\<lparr>ss_active_source_order_id := a\<rparr>) \<longleftrightarrow> hard_halt s"
  "hard_halt (s\<lparr>ss_seen_hedge_fills := f\<rparr>) \<longleftrightarrow> hard_halt s"
  "hard_halt (s\<lparr>ss_seen_source_fills := f\<rparr>) \<longleftrightarrow> hard_halt s"
  "hard_halt (s\<lparr>ss_hedge_intents := h\<rparr>) \<longleftrightarrow> hard_halt s"
  "hard_halt (s\<lparr>ss_net_unhedged_ounces := n\<rparr>) \<longleftrightarrow> hard_halt s"
  "hard_halt (set_order cid r s) \<longleftrightarrow> hard_halt s"
  by (simp_all add: hard_halt_def set_order_def)

lemma hard_halt_set: "(\<And>cid. reason \<noteq> source_reconcile_reason cid) \<Longrightarrow> hard_halt (set_halt (Some reason) s)"
  by (simp add: hard_halt_def set_halt_def)

lemma hard_halt_not_soft: "hard_halt s \<Longrightarrow> ss_halt_reason s \<noteq> Some (source_reconcile_reason cid)" "hard_halt s \<Longrightarrow> ss_halt_reason s \<noteq> None"
  by (auto simp: hard_halt_def)

lemma hard_reasons [simp]:
  "CHR ''h'' # cs \<noteq> source_reconcile_reason cid" "CHR ''a'' # cs \<noteq> source_reconcile_reason cid"
  by (simp_all add: source_reconcile_reason_def)

lemma hard_put_intent: "stays hard_halt (put_intent i)"
  unfolding put_intent_def by (intro keeps_check ledger_rules) simp

lemma hard_hold_rejected: "stays hard_halt (hold_rejected_attempt i cid evidence)"
proof -
  have "stays hard_halt (\<lambda>v. bind_tx (update_state (\<lambda>t. set_halt (Some (''archived rejected hedge '' @ cid @ c))
      (t\<lparr>ss_hedge_intents := d t\<rparr>))) (\<lambda>_. ret_tx (b v)) v)" for c d and b :: "view \<Rightarrow> bool"
    by (simp add: stays_def update_state_def hard_halt_set)
  then show ?thesis unfolding hold_rejected_attempt_def Let_def by (intro keeps_check ledger_rules)
qed

lemma hard_hedge_fill_step: "hard_halt (vw_state v) \<Longrightarrow> hard_halt (vw_state (fst (apply_hedge_fill_step cid trade f None v)))"
proof -
  have h: "stays hard_halt (hold_hedge_fill i cid f None)" "stays hard_halt (fill_planned_leg i cid f)"
    "stays hard_halt (fill_unplanned i f)" for i
    unfolding hold_hedge_fill_def fill_planned_leg_def fill_unplanned_def Let_def option.case
    by (intro ledger_rules hard_put_intent; simp add: hard_halt_set)+
  assume a: "hard_halt (vw_state v)"
  show ?thesis
    unfolding apply_hedge_fill_step_def Let_def
    by (cases "intent_for_hedge_order (vw_state v) cid")
      (simp_all add: a stays_apply [OF hard_hold_rejected a] stays_apply [OF h(1)] stays_apply [OF h(2)]
        stays_apply [OF h(3)] update_state_def)
qed

context steady_custody
begin

lemmas hard_apply = stays_applyW [where I = hard_halt]

lemma hard_source_ops:
  assumes "hard_halt (cu_state cu w)"
  shows "hard_halt (cu_state cu (fst (freeze_source_submissions cu reason w)))"
    "hard_halt (cu_state cu (fst (clear_source_freeze cu w)))"
    "hard_halt (cu_state cu (fst (update_source_status cu cid status w)))"
    "hard_halt (cu_state cu (fst (confirm_source_reconciled cu cid w)))"
    "hard_halt (cu_state cu (fst (begin_source cu cid side q route fr w)))"
proof -
  let ?P = "\<lambda>p. hard_halt (cu_state cu (fst p))"
  show "?P (freeze_source_submissions cu reason w)" "?P (clear_source_freeze cu w)"
    using assms by (simp_all add: freeze_source_submissions_def clear_source_freeze_def)
  show "?P (update_source_status cu cid status w)"
  proof (cases "dict_get (ss_source_orders (cu_state cu w)) cid")
    case (Some r)
    show ?thesis unfolding update_source_status_def Some option.case
      by (rule hard_apply [OF _ assms], intro keeps_rules ledger_rules)
        (auto simp: hard_halt_not_soft)
  qed (simp add: update_source_status_def assms)
  show "?P (confirm_source_reconciled cu cid w)"
    unfolding confirm_source_reconciled_def Let_def using assms
    by (intro if_casesI [where P = ?P], simp, simp,
        intro hard_apply [OF keeps_rolling_back [where I = hard_halt, OF keeps_persist assms]]) (simp add: hard_halt_not_soft)
  show "?P (begin_source cu cid side q route fr w)"
    unfolding begin_source_def can_submit_source_def using hard_halt_not_soft(2) [OF assms] assms by simp
qed

lemma hard_mark_unknown:
  assumes "\<And>c. reason \<noteq> source_reconcile_reason c"
  shows "hard_halt (cu_state cu (fst (mark_source_unknown cu cid reason w)))"
  unfolding mark_source_unknown_def using hard_halt_set [OF assms] by simp

lemma hard_hedge_ops:
  assumes "hard_halt (cu_state cu w)"
  shows "hard_halt (cu_state cu (fst (bind_hedge_order cu iid cid w)))"
    "hard_halt (cu_state cu (fst (bind_hedge_plan cu iid plan w)))"
    "hard_halt (cu_state cu (fst (block_hedge_intent cu iid reason w)))"
    "hard_halt (cu_state cu (fst (update_hedge_status cu cid status native w)))"
    "hard_halt (cu_state cu (fst (apply_hedge_fill cu cid trade f w)))"
proof -
  let ?P = "\<lambda>p. hard_halt (cu_state cu (fst p))"
  show "?P (bind_hedge_order cu iid cid w)"
  proof (cases "dict_get (ss_hedge_intents (cu_state cu w)) iid")
    case (Some i)
    show ?thesis unfolding bind_hedge_order_def
      by (simp only: dict_index_def Some option.case tx_run, intro if_casesI [where P = ?P], simp add: assms,
          rule hard_apply [OF _ assms], intro keeps_rules keeps_check ledger_rules) simp
  qed (simp add: bind_hedge_order_def dict_index_def assms)
  show "?P (bind_hedge_plan cu iid plan w)"
  proof (cases "dict_get (ss_hedge_intents (cu_state cu w)) iid")
    case (Some i)
    show ?thesis unfolding bind_hedge_plan_def
      by (simp only: dict_index_def Some option.case tx_run, rule hard_apply [OF _ assms],
          intro keeps_rules keeps_check ledger_rules) simp
  qed (simp add: bind_hedge_plan_def dict_index_def assms)
  show "?P (block_hedge_intent cu iid reason w)"
  proof (cases "dict_get (ss_hedge_intents (cu_state cu w)) iid")
    case (Some i)
    show ?thesis unfolding block_hedge_intent_def
      by (simp only: dict_index_def Some option.case tx_run, rule hard_apply [OF _ assms],
          intro keeps_rules ledger_rules keeps_check) (simp add: hard_halt_set)
  qed (simp add: block_hedge_intent_def dict_index_def assms)
  show "?P (update_hedge_status cu cid status native w)"
  proof (cases "intent_for_hedge_order (cu_state cu w) cid")
    case (Some i)
    show ?thesis unfolding update_hedge_status_def Some option.case
      by (intro if_casesI [where P = ?P] hard_apply [OF _ assms] keeps_rules hard_hold_rejected hard_put_intent
          ledger_rules) (simp_all add: hard_halt_set assms)
  qed (simp add: update_hedge_status_def assms)
  have v: "hard_halt (cu_state cu (fst (on_view cu (apply_hedge_fill_step cid trade f None) w)))"
    using hard_hedge_fill_step [of "cu_view cu w" cid trade f] assms
    by (cases "apply_hedge_fill_step cid trade f None (cu_view cu w)") (simp add: on_view_def)
  have "?P (bind_tx (on_view cu (apply_hedge_fill_step cid trade f None)) (\<lambda>changed.
         if changed then bind_tx (cu_persist cu) (\<lambda>_. ret_tx changed) else ret_tx changed) w)"
    unfolding bind_tx_fst
    using v by (auto split: prod.splits sum.splits intro!: hard_apply keeps_rules)
  then show "?P (apply_hedge_fill cu cid trade f w)"
    using assms by (auto simp: apply_hedge_fill_def rolling_back_def split: prod.splits sum.splits)
qed

lemma hard_recover:
  assumes "hard_halt (cu_state cu w)"
  shows "hard_halt (cu_state cu (fst (recover_for_start cu w)))"
proof -
  have src: "stays hard_halt mark_source_in_flight"
    by (auto simp: stays_def mark_source_in_flight_def update_state_def dict_index_def bind_tx_def modify_tx_def
        split: option.splits sum.splits)
  have hed: "stays hard_halt (mark_hedges_in_flight u)" for u
    unfolding mark_hedges_in_flight_def by (intro ledger_rules hard_put_intent)
  have pub: "hard_halt (cu_state cu t) \<Longrightarrow> hard_halt (cu_state cu (fst (publish_recovery cu nh t)))" for nh t
    using persist_view [of t]
    by (cases "cu_persist cu t") (auto simp: publish_recovery_def on_view_def ret_tx_def bind_tx_def call_back_def
        modify_tx_def split: sum.splits option.splits)
  have halt: "keeps cu hard_halt (\<lambda>w. bind_tx (on_view cu (if ss_halt_reason (cu_state cu w) = None
      then update_state (set_halt (h w)) else ret_tx ())) (\<lambda>_. publish_recovery cu (ss_halt_reason (cu_state cu w) = None)) w)" for h
    unfolding keeps_def
    by (intro allI impI) (simp add: hard_halt_not_soft on_view_def bind_tx_def ret_tx_def pub)
  have "hard_halt (cu_state cu (fst (bind_tx (on_view cu mark_source_in_flight) (\<lambda>sd.
      bind_tx (on_view cu (mark_hedges_in_flight (unresolved_intents (cu_state cu w)))) (\<lambda>hd w.
        bind_tx (on_view cu (if ss_halt_reason (cu_state cu w) = None then update_state (set_halt (Some
           (''restart requires reconciliation: '' @ join_space (sd @ hd)))) else ret_tx ()))
          (\<lambda>_. publish_recovery cu (ss_halt_reason (cu_state cu w) = None)) w)) w)))"
    by (rule hard_apply [OF _ assms], intro keeps_bindW keeps_on_view src hed halt)
  then show ?thesis
    unfolding recover_for_start_def Let_def using assms
    by (intro if_casesI [where P = "\<lambda>p. hard_halt (cu_state cu (fst p))"]) simp_all
qed

end












end
