(* ===== verification/Store_Restart.thy ===== *)
theory Store_Restart
  imports Store_Safety
begin

text \<open>
  \<^verbatim>\<open>recover_for_start\<close>: what the store does with work that survived a crash.
\<close>

definition in_flight :: "hedge_intent \<Rightarrow> bool" where
  "in_flight i \<longleftrightarrow> hi_status i \<in> {PENDING, SUBMITTING, SUBMITTED, ACCEPTED}"

definition stop_intent :: "hedge_intent \<Rightarrow> hedge_intent" where
  "stop_intent i = (if in_flight i then i\<lparr>hi_status := UNKNOWN\<rparr> else i)"

text \<open>A state whose intents are well-formed and filed under their own identity.\<close>

definition sound_intents :: "store_state \<Rightarrow> bool" where
  "sound_intents s \<longleftrightarrow> keyed s \<and> (\<forall>i \<in> set (state_intents s). valid_intent i) \<and>
    (\<forall>cid. ss_active_source_order_id s = Some cid \<longrightarrow> cid \<in> dict_keys (ss_source_orders s))"

definition stop_one :: "hedge_intent \<Rightarrow> (view, unit) tx" where
  "stop_one intent = (if hi_status intent \<in> {PENDING, SUBMITTING, SUBMITTED, ACCEPTED}
     then bind_tx (put_intent (intent\<lparr>hi_status := UNKNOWN\<rparr>)) (\<lambda>_. ret_tx ()) else ret_tx ())"

lemma stop_intent_valid: "valid_intent i \<Longrightarrow> valid_intent (stop_intent i)"
  by (auto simp: stop_intent_def in_flight_def intro!: valid_intent_status)

lemma stop_intent_id [simp]: "hi_intent_id (stop_intent i) = hi_intent_id i"
  by (simp add: stop_intent_def)

lemma stop_intent_not_in_flight [simp]: "\<not> in_flight (stop_intent i)"
  by (simp add: stop_intent_def in_flight_def)

definition with_intents :: "(string \<times> hedge_intent) list \<Rightarrow> view \<Rightarrow> view" where
  "with_intents d v = v\<lparr>vw_state := (vw_state v)\<lparr>ss_hedge_intents := d\<rparr>\<rparr>"

lemma stop_one_run:
  assumes "valid_intent i"
  shows "stop_one i v = (if in_flight i then
    with_intents (dict_set (hi_intent_id i) (stop_intent i) (ss_hedge_intents (vw_state v))) v else v, Inr ())"
  using stop_intent_valid [OF assms]
  by (auto simp: stop_one_def in_flight_def stop_intent_def put_intent_def mk_hedge_intent_valid update_state_def
      with_intents_def bind_tx_def lift_tx_def modify_tx_def)

lemma stop_each_run:
  assumes "\<forall>i \<in> set us. valid_intent i"
  shows "each_tx stop_one us v = (with_intents
    (fold (\<lambda>i d. if in_flight i then dict_set (hi_intent_id i) (stop_intent i) d else d) us
      (ss_hedge_intents (vw_state v))) v, Inr ())"
  using assms
proof (induction us arbitrary: v)
  case (Cons i us)
  have "each_tx stop_one (i # us) v = each_tx stop_one us (fst (stop_one i v))"
    using Cons.prems by (simp add: bind_tx_def stop_one_run)
  then show ?case using Cons by (auto simp: stop_one_run with_intents_def)
qed (simp add: with_intents_def)

lemma stop_fold_get:
  assumes "distinct (map hi_intent_id us)"
  shows "dict_get (fold (\<lambda>i d. if in_flight i then dict_set (hi_intent_id i) (stop_intent i) d else d) us d) k =
    (case find (\<lambda>i. hi_intent_id i = k \<and> in_flight i) us of None \<Rightarrow> dict_get d k | Some i \<Rightarrow> Some (stop_intent i))"
  using assms
proof (induction us arbitrary: d)
  case (Cons i us)
  have "hi_intent_id i = k \<Longrightarrow> find (\<lambda>i. hi_intent_id i = k \<and> in_flight i) us = None"
    using Cons.prems by (simp add: find_None_iff) (metis imageI)
  then show ?case using Cons by (auto split: option.splits)
qed simp

lemma stop_fold_keys:
  assumes "\<forall>i \<in> set us. hi_intent_id i \<in> dict_keys d" "distinct (map fst d)"
  shows "map fst (fold (\<lambda>i d. if in_flight i then dict_set (hi_intent_id i) (stop_intent i) d else d) us d) = map fst d"
  using assms
proof (induction us arbitrary: d)
  case (Cons i us)
  let ?d = "if in_flight i then dict_set (hi_intent_id i) (stop_intent i) d else d"
  have "hi_intent_id i \<in> dict_keys d \<Longrightarrow> map fst (dict_set (hi_intent_id i) (stop_intent i) d) = map fst d"
    by (induction d) auto
  then have m: "map fst ?d = map fst d" using Cons.prems by simp
  then have "dict_keys ?d = dict_keys d" by (metis list.set_map)
  then have "map fst (fold (\<lambda>i d. if in_flight i then dict_set (hi_intent_id i) (stop_intent i) d else d) us ?d) = map fst ?d"
    using Cons.prems m by (intro Cons.IH) simp_all
  with m show ?case by simp
qed simp

text \<open>After the loop every intent is stopped, the others are as they were.\<close>

lemma stop_unresolved_get:
  assumes "keyed s"
  shows "dict_get (fold (\<lambda>i d. if in_flight i then dict_set (hi_intent_id i) (stop_intent i) d else d)
      (unresolved_intents s) (ss_hedge_intents s)) k = map_option stop_intent (dict_get (ss_hedge_intents s) k)"
proof -
  have u: "distinct (map hi_intent_id (unresolved_intents s))"
  proof -
    have "map hi_intent_id (state_intents s) = map fst (ss_hedge_intents s)"
      using assms by (auto simp: keyed_def state_intents_def)
    then have "distinct (map hi_intent_id (state_intents s))" using assms by (simp add: keyed_def)
    then show ?thesis unfolding unresolved_intents_def by (rule distinct_map_filter)
  qed
  show ?thesis
  proof (cases "find (\<lambda>i. hi_intent_id i = k \<and> in_flight i) (unresolved_intents s)")
    case None
    have "\<not> in_flight i" if "dict_get (ss_hedge_intents s) k = Some i" for i
    proof -
      have "hi_intent_id i = k \<and> i \<in> set (state_intents s)" using keyed_index [OF assms that] .
      then show ?thesis using None by (auto simp: find_None_iff unresolved_intents_def in_flight_def)
    qed
    then show ?thesis
      using None by (cases "dict_get (ss_hedge_intents s) k") (auto simp: stop_fold_get [OF u] stop_intent_def)
  next
    case (Some i)
    then have "i \<in> set (state_intents s)" "hi_intent_id i = k"
      by (auto simp: find_Some_iff unresolved_intents_def dest: nth_mem)
    then have "dict_get (ss_hedge_intents s) k = Some i" using keyed_get [OF assms] by blast
    then show ?thesis using Some by (simp add: stop_fold_get [OF u])
  qed
qed

text \<open>The state a recovery leaves behind.\<close>

definition stopped :: "store_state \<Rightarrow> store_state \<Rightarrow> bool" where
  "stopped s t \<longleftrightarrow>
    (\<forall>k. dict_get (ss_hedge_intents t) k = map_option stop_intent (dict_get (ss_hedge_intents s) k)) \<and>
    (\<forall>cid r. ss_active_source_order_id s = Some cid \<longrightarrow> dict_get (ss_source_orders s) cid = Some r \<longrightarrow>
      dict_get (ss_source_orders t) cid = Some (r\<lparr>so_status := ''UNKNOWN''\<rparr>)) \<and>
    (ss_active_source_order_id s \<noteq> None \<or> unresolved_intents s \<noteq> [] \<longrightarrow> ss_halt_reason t \<noteq> None)"

lemma stopped_idle:
  assumes "keyed s" "ss_active_source_order_id s = None" "unresolved_intents s = []"
  shows "stopped s s"
proof -
  have "stop_intent i = i" if "dict_get (ss_hedge_intents s) k = Some i" for k i
  proof -
    have "i \<in> set (state_intents s)" using keyed_index [OF assms(1) that] by simp
    then have "hi_status i = COMPLETED" using assms(3) by (auto simp: unresolved_intents_def filter_empty_conv)
    then show ?thesis by (simp add: stop_intent_def in_flight_def)
  qed
  then have "dict_get (ss_hedge_intents s) k = map_option stop_intent (dict_get (ss_hedge_intents s) k)" for k
    by (cases "dict_get (ss_hedge_intents s) k") auto
  with assms show ?thesis by (simp add: stopped_def)
qed

lemma mark_source_run:
  assumes "\<forall>cid. ss_active_source_order_id (vw_state v) = Some cid \<longrightarrow> cid \<in> dict_keys (ss_source_orders (vw_state v))"
  obtains v' ds where "mark_source_in_flight v = (v', Inr ds)"
    "ss_hedge_intents (vw_state v') = ss_hedge_intents (vw_state v)"
    "\<forall>cid r. ss_active_source_order_id (vw_state v) = Some cid \<longrightarrow> dict_get (ss_source_orders (vw_state v)) cid = Some r
      \<longrightarrow> dict_get (ss_source_orders (vw_state v')) cid = Some (r\<lparr>so_status := ''UNKNOWN''\<rparr>)"
proof (cases "ss_active_source_order_id (vw_state v)")
  case None
  then show thesis by (intro that [of v "[]"]) (simp_all add: mark_source_in_flight_def)
next
  case (Some cid)
  then obtain r where r: "dict_get (ss_source_orders (vw_state v)) cid = Some r"
    using assms by (metis map_of_eq_None_iff not_None_eq)
  show thesis
    by (rule that [of "v\<lparr>vw_state := set_order cid (r\<lparr>so_status := ''UNKNOWN''\<rparr>) (vw_state v)\<rparr>" "[''source='' @ cid]"])
      (simp_all add: mark_source_in_flight_def Some r dict_index_def update_state_def set_order_def)
qed

lemma mark_hedges_run:
  assumes "\<forall>i \<in> set us. valid_intent i"
  obtains ds where "mark_hedges_in_flight us v = (with_intents
    (fold (\<lambda>i d. if in_flight i then dict_set (hi_intent_id i) (stop_intent i) d else d) us
      (ss_hedge_intents (vw_state v))) v, Inr ds)"
proof (cases "us = []")
  case True
  then show thesis by (intro that [of "[]"]) (simp add: mark_hedges_in_flight_def with_intents_def)
next
  case False
  show thesis
    by (rule that [of "[''hedges='' @ join_comma (map hi_intent_id us)]"],
        unfold mark_hedges_in_flight_def stop_one_def [abs_def, symmetric])
      (simp add: False bind_tx_def stop_each_run [OF assms])
qed

lemma publish_recovery_run:
  obtains w' r where "publish_recovery standalone nh w = (w', r)" "cu_state standalone w' = cu_state standalone w"
    "case r of Inr h \<Rightarrow> h = ss_halt_reason (cu_state standalone w) \<and> st_file w' = Some (cu_state standalone w)
     | Inl e \<Rightarrow> e = OSError \<or> e = ParentDirectorySyncError"
proof -
  obtain w1 r1 where p: "persist w = (w1, r1)" by fastforce
  have v: "st_view w1 = st_view w" "write_outcome (st_file w) (st_file w1) (vw_state (st_view w)) r1"
    using persist_standalone [OF p] by simp_all
  obtain w' r where q: "publish_recovery standalone nh w = (w', r)" by fastforce
  then show thesis
    using v p
    by (intro that [OF q])
      (auto simp: publish_recovery_def standalone_simps write_outcome_def on_view_def call_back_def modify_tx_def
        ret_tx_def bind_tx_def split: sum.splits exn.splits option.splits if_splits)
qed

text \<open>C14: a restart leaves no work in flight. From a well-formed state, recovery marks the active source order
  and every pending, submitting, submitted or accepted hedge intent as unknown, leaves every
  other intent as it was, and halts the store if there was any such work; it can only fail
  because the write fails, and on success the file holds the stopped state.\<close>

theorem recover_leaves_nothing_in_flight:
  assumes "sound_intents (cu_state standalone w)" "recover_for_start standalone w = (w', r)"
  shows "stopped (cu_state standalone w) (cu_state standalone w') \<and>
    (case r of
       Inr h \<Rightarrow> h = ss_halt_reason (cu_state standalone w') \<and>
         (w' = w \<or> st_file w' = Some (cu_state standalone w'))
     | Inl e \<Rightarrow> e = OSError \<or> e = ParentDirectorySyncError)"
proof (cases "ss_active_source_order_id (cu_state standalone w) = None \<and> unresolved_intents (cu_state standalone w) = []")
  case True
  then have "recover_for_start standalone w = (w, Inr (ss_halt_reason (cu_state standalone w)))"
    by (simp add: recover_for_start_def)
  with assms(2) have e: "w' = w" and r: "r = Inr (ss_halt_reason (cu_state standalone w))" by auto
  have "stopped (cu_state standalone w) (cu_state standalone w)"
    using True assms(1) stopped_idle by (simp add: sound_intents_def)
  then show ?thesis unfolding e r by simp
next
  case False
  let ?s = "cu_state standalone w"
  have k: "keyed ?s" and val: "\<forall>i \<in> set (unresolved_intents ?s). valid_intent i"
    and act: "\<forall>cid. ss_active_source_order_id ?s = Some cid \<longrightarrow> cid \<in> dict_keys (ss_source_orders ?s)"
    using assms(1) by (auto simp: sound_intents_def unresolved_intents_def)
  obtain v1 sd where m: "mark_source_in_flight (cu_view standalone w) = (v1, Inr sd)"
    and v1: "ss_hedge_intents (vw_state v1) = ss_hedge_intents ?s"
      "\<forall>cid r. ss_active_source_order_id ?s = Some cid \<longrightarrow> dict_get (ss_source_orders ?s) cid = Some r
        \<longrightarrow> dict_get (ss_source_orders (vw_state v1)) cid = Some (r\<lparr>so_status := ''UNKNOWN''\<rparr>)"
    using mark_source_run [OF act] by blast
  define d where "d = fold (\<lambda>i d. if in_flight i then dict_set (hi_intent_id i) (stop_intent i) d else d)
      (unresolved_intents ?s) (ss_hedge_intents ?s)"
  define v2 where "v2 = with_intents d v1"
  obtain hd where h: "mark_hedges_in_flight (unresolved_intents ?s) v1 = (v2, Inr hd)"
    using mark_hedges_run [OF val, of v1] by (auto simp: v2_def d_def v1(1))
  define nh where "nh = (ss_halt_reason (vw_state v2) = None)"
  define v3 where "v3 = (if nh then v2\<lparr>vw_state := set_halt (Some (''restart requires reconciliation: '' @
      join_space (sd @ hd))) (vw_state v2)\<rparr> else v2)"
  have run: "recover_for_start standalone w = publish_recovery standalone nh (w\<lparr>st_view := v3\<rparr>)"
    using m h unfolding recover_for_start_def Let_def if_not_P [OF False]
    by (simp add: on_view_def bind_tx_def standalone_simps
        update_state_def modify_tx_def ret_tx_def nh_def v3_def)
  have st: "stopped ?s (vw_state v3)"
    using stop_unresolved_get [OF k] v1(2)
    by (auto simp: stopped_def v3_def v2_def with_intents_def nh_def set_halt_def d_def)
  obtain w'' r' where pr: "publish_recovery standalone nh (w\<lparr>st_view := v3\<rparr>) = (w'', r')"
      "cu_state standalone w'' = vw_state v3"
      "case r' of Inr h \<Rightarrow> h = ss_halt_reason (vw_state v3) \<and> st_file w'' = Some (vw_state v3)
       | Inl e \<Rightarrow> e = OSError \<or> e = ParentDirectorySyncError"
    by (rule publish_recovery_run [of nh "w\<lparr>st_view := v3\<rparr>"]) (simp add: standalone_simps cong: sum.case_cong)
  with run assms(2) st show ?thesis by (auto split: sum.splits)
qed

lemma ex_view_sound: "sound_intents (vw_state ex_view)"
  using ex_intent_ready(4)
  by (simp add: sound_intents_def keyed_def ex_view_def state_intents_def empty_state_def ex_intent_def)

theorem recover_leaves_nothing_in_flight_witness:
  "let w = \<lparr>st_view = ex_view, st_file = None, st_answers = []\<rparr>;
     w' = fst (recover_for_start standalone w); r = snd (recover_for_start standalone w) in
   stopped (cu_state standalone w) (cu_state standalone w') \<and>
    (case r of
       Inr h \<Rightarrow> h = ss_halt_reason (cu_state standalone w') \<and>
         (w' = w \<or> st_file w' = Some (cu_state standalone w'))
     | Inl e \<Rightarrow> e = OSError \<or> e = ParentDirectorySyncError)"
proof -
  let ?w = "\<lparr>st_view = ex_view, st_file = None, st_answers = []\<rparr>"
  have "sound_intents (cu_state standalone ?w)" by (simp add: standalone_def ex_view_sound)
  from recover_leaves_nothing_in_flight [OF this prod.collapse [symmetric]] show ?thesis unfolding Let_def .
qed

end
