(* ===== verification/Maker_Store.thy ===== *)
theory Maker_Store
  imports State_Store "HOL-Library.Product_Lexorder"
begin

text \<open>
  \<^verbatim>\<open>maker_store.py\<close>: one owner allocates every source fill of its views, bid and ask of the Maker
  and, when shared, the Taker. The views are the methods of \<open>State_Store\<close> run with the custody
  \<open>maker_view\<close>: their persistence is the owner's, which validates the whole candidate first, and
  their residual is computed from the ordered allocations.

  A snapshot is what the owner persists and restores; the instrument bindings, the strategy ids,
  the limits and the legacy checkpoint never change after loading and are the configuration.
\<close>

section \<open>Records\<close>

datatype view_key = Bid | Ask | Taker

type_synonym route = "string option \<times> string option \<times> string option \<times> string option \<times> string option"

record allocation =
  al_fill_key :: string
  al_route :: route
  al_signed_fill_ounces :: rat
  al_allocated_ounces :: rat

record legacy_order =
  lo_client_order_id :: string
  lo_direction :: source_direction
  lo_route :: route
  lo_filled_ounces :: rat
  lo_fill_keys :: "string list"
  lo_intent_ids :: "string list"
  lo_allocated_ounces :: rat

definition route_of :: "source_order_record \<Rightarrow> route" where
  "route_of record =
    (let isolated = (if so_source_account_id record \<in> {None, Some []} \<or> so_hedge_account_id record \<in> {None, Some []}
         \<or> so_hedge_position_id record \<noteq> None then Some (so_client_order_id record) else None)
     in (so_source_account_id record, so_source_client_id record, so_hedge_account_id record,
         so_hedge_client_id record, isolated))"

record owner_config =
  oc_source_instrument_id :: string
  oc_hedge_instrument_id :: string
  oc_residual_limit :: rat
  oc_carry_route :: "route option"
  oc_shared_strategy_ids :: "(string \<times> string) option"
  oc_legacy_sources :: "(string \<times> string) list option"
  oc_legacy_orders :: "legacy_order list"

record snapshot =
  sn_states :: "view_key \<Rightarrow> store_state"
  sn_allocations :: "allocation list"
  sn_cycle_freeze_only :: bool

record owner =
  ow_config :: owner_config
  ow_views :: "view_key \<Rightarrow> view"
  ow_allocations :: "allocation list"
  ow_cycle_freeze_only :: bool
  ow_freeze_publication_failed :: bool
  ow_committed :: snapshot
  ow_file :: "snapshot option"
  ow_answers :: "os_answers list"

text \<open>\<^verbatim>\<open>all_views\<close>, in the owner's order.\<close>

definition view_keys :: "owner_config \<Rightarrow> view_key list" where
  "view_keys cfg = (if oc_shared_strategy_ids cfg \<noteq> None then [Bid, Ask, Taker] else [Bid, Ask])"

fun direction_view :: "source_direction \<Rightarrow> view_key" where
  "direction_view LONG = Bid"
| "direction_view SHORT = Ask"

text \<open>The side a view accepts; the Taker takes both.\<close>

fun view_side :: "view_key \<Rightarrow> business_side option" where
  "view_side Bid = Some BUY"
| "view_side Ask = Some SELL"
| "view_side Taker = None"

definition strategy_id_for :: "owner_config \<Rightarrow> view_key \<Rightarrow> exn + string option" where
  "strategy_id_for cfg k =
    (if k \<notin> set (view_keys cfg) then Inl (ValueError ''view does not belong to this state owner'')
     else Inr (case oc_shared_strategy_ids cfg of None \<Rightarrow> None
       | Some (maker, taker) \<Rightarrow> Some (if k = Taker then taker else maker)))"

definition owner_snapshot :: "owner \<Rightarrow> snapshot" where
  "owner_snapshot o' = \<lparr>sn_states = (\<lambda>k. vw_state (ow_views o' k)), sn_allocations = ow_allocations o',
    sn_cycle_freeze_only = ow_cycle_freeze_only o'\<rparr>"

definition owner_restore :: "snapshot \<Rightarrow> owner \<Rightarrow> owner" where
  "owner_restore sn o' = o'\<lparr>ow_views := (\<lambda>k. (ow_views o' k)\<lparr>vw_state := sn_states sn k\<rparr>),
    ow_allocations := sn_allocations sn, ow_cycle_freeze_only := sn_cycle_freeze_only sn\<rparr>"

text \<open>A dictionary built from pairs, the later binding of a key winning.\<close>

definition dict_of :: "('k \<times> 'v) list \<Rightarrow> ('k \<times> 'v) list" where
  "dict_of pairs = fold (\<lambda>(k, v). dict_set k v) pairs []"

section \<open>Balances\<close>

type_synonym balances = "(route \<times> rat \<times> view_key) list"

definition add_to_balance :: "route \<Rightarrow> rat \<Rightarrow> rat \<Rightarrow> view_key \<Rightarrow> balances \<Rightarrow> balances" where
  "add_to_balance route fill allocated view balances =
    (let previous = (case dict_get balances route of None \<Rightarrow> 0 | Some (balance, _) \<Rightarrow> balance)
     in dict_set route (dsub (dadd previous fill) allocated, view) balances)"

definition checkpoint_balances :: "owner_config \<Rightarrow> balances" where
  "checkpoint_balances cfg = fold (\<lambda>item balances.
     if lo_filled_ounces item = 0 \<and> lo_allocated_ounces item = 0 then balances
     else add_to_balance (lo_route item)
       (dmul (lo_filled_ounces item) (if lo_direction item = LONG then 1 else - 1))
       (lo_allocated_ounces item) (direction_view (lo_direction item)) balances)
     (sort_key (\<lambda>item. (lo_direction item = SHORT, lo_client_order_id item)) (oc_legacy_orders cfg)) []"

text \<open>
  The view that booked a fill: the last one that has it, as in the code's dictionary comprehension.
  The code reads the dictionary only for allocations of a validated snapshot, whose every fill some view
  has seen, so the default is never read.
\<close>

definition fill_view :: "owner_config \<Rightarrow> snapshot \<Rightarrow> string \<Rightarrow> view_key" where
  "fill_view cfg sn fill_key =
    (case find (\<lambda>k. fill_key \<in> ss_seen_source_fills (sn_states sn k)) (rev (view_keys cfg)) of
       None \<Rightarrow> Bid | Some k \<Rightarrow> k)"

definition route_balances :: "owner_config \<Rightarrow> snapshot \<Rightarrow> balances" where
  "route_balances cfg sn = fold (\<lambda>item.
     add_to_balance (al_route item) (al_signed_fill_ounces item) (al_allocated_ounces item)
       (fill_view cfg sn (al_fill_key item))) (sn_allocations sn) (checkpoint_balances cfg)"

definition has_residuals :: "owner_config \<Rightarrow> snapshot \<Rightarrow> bool" where
  "has_residuals cfg sn \<longleftrightarrow> list_ex (\<lambda>(_, balance, _). balance \<noteq> 0) (route_balances cfg sn)"

definition carry_residual_ounces :: "owner_config \<Rightarrow> snapshot \<Rightarrow> rat" where
  "carry_residual_ounces cfg sn = (case oc_carry_route cfg of
     None \<Rightarrow> 0
   | Some route \<Rightarrow> (case dict_get (route_balances cfg sn) route of None \<Rightarrow> 0 | Some (balance, _) \<Rightarrow> balance))"

definition residuals :: "owner_config \<Rightarrow> snapshot \<Rightarrow> (route \<times> rat) list" where
  "residuals cfg sn = [(route, balance). (route, balance, _) \<leftarrow> route_balances cfg sn, balance \<noteq> 0]"

definition source_balance_is_admissible :: "owner_config \<Rightarrow> snapshot \<Rightarrow> bool" where
  "source_balance_is_admissible cfg sn \<longleftrightarrow> list_all (\<lambda>(route, balance).
     Some route = oc_carry_route cfg \<and> dabs balance \<le> oc_residual_limit cfg) (residuals cfg sn)"

definition rounding_residual :: "owner_config \<Rightarrow> snapshot \<Rightarrow> view_key \<Rightarrow> rat" where
  "rounding_residual cfg sn k =
    dsum 0 [balance. (_, balance, last_view) \<leftarrow> route_balances cfg sn, last_view = k]"

section \<open>The hedge queue\<close>

definition first_unfinished_hedge :: "owner_config \<Rightarrow> snapshot \<Rightarrow> (view_key \<times> hedge_intent) option" where
  "first_unfinished_hedge cfg sn =
    (let intents = dict_of [(hi_fill_key i, (k, i)). k \<leftarrow> view_keys cfg, i \<leftarrow> state_intents (sn_states sn k)];
         legacy_ids = concat (map lo_intent_ids (oc_legacy_orders cfg))
     in if list_ex (\<lambda>(_, i). hi_intent_id i \<in> set legacy_ids \<and> hi_status i \<noteq> COMPLETED) (dict_values intents)
        then None
        else case find (\<lambda>item. case dict_get intents (al_fill_key item) of
            None \<Rightarrow> False | Some (_, i) \<Rightarrow> hi_status i \<noteq> COMPLETED) (sn_allocations sn) of
          None \<Rightarrow> None | Some item \<Rightarrow> dict_get intents (al_fill_key item))"

definition next_pending_hedge :: "owner_config \<Rightarrow> snapshot \<Rightarrow> (source_direction \<times> hedge_intent) option" where
  "next_pending_hedge cfg sn = (case first_unfinished_hedge cfg sn of
     None \<Rightarrow> None
   | Some (k, i) \<Rightarrow>
       if hi_status i = PENDING \<and> hi_hedge_client_order_id i = None
       then (case k of Bid \<Rightarrow> Some (LONG, i) | Ask \<Rightarrow> Some (SHORT, i) | Taker \<Rightarrow> None)
       else None)"

definition hedge_dispatch_ready :: "owner_config \<Rightarrow> snapshot \<Rightarrow> view_key \<Rightarrow> string \<Rightarrow> bool" where
  "hedge_dispatch_ready cfg sn k intent_id = (oc_shared_strategy_ids cfg = None \<or>
     (case first_unfinished_hedge cfg sn of
        None \<Rightarrow> False | Some (k', i) \<Rightarrow> k' = k \<and> hi_intent_id i = intent_id))"

definition validate_source_projection_tail ::
  "owner_config \<Rightarrow> snapshot \<Rightarrow> string \<Rightarrow> string list \<Rightarrow> exn + unit"
where
  "validate_source_projection_tail cfg sn cid prefix =
    (if list_ex (\<lambda>item. lo_client_order_id item = cid) (oc_legacy_orders cfg) then
       Inl (ValueError ''source projection cannot append to a legacy Maker checkpoint order'')
     else if prefix = [] then
       (if sn_allocations sn \<noteq> [] then
          Inl (ValueError ''source projection Maker suffix has no allocation anchor'') else Inr ())
     else case dropWhile (\<lambda>item. al_fill_key item \<noteq> last prefix) (sn_allocations sn) of
       [] \<Rightarrow> Inl (ValueError ''source projection Maker suffix crosses another source allocation'')
     | _ # later \<Rightarrow>
         if list_ex (\<lambda>item. hd (split_bar (al_fill_key item)) \<noteq> cid) later then
           Inl (ValueError ''source projection Maker suffix crosses another source allocation'')
         else Inr ())"

section \<open>Validation\<close>

text \<open>
  The identities collected over the views, in order. A set of fill keys has no order: when one
  key is ill-formed and two others collide, the first kind of error is the one reported here.
\<close>

record identities =
  id_sources :: "string set"
  id_fill_keys :: "string set"
  id_intents :: "string set"
  id_hedges :: "string set"
  id_hedge_fill_keys :: "string set"
  id_source_trades :: "(string option \<times> string) set"
  id_hedge_trades :: "(string option \<times> string) set"

definition no_identities :: identities where
  "no_identities = \<lparr>id_sources = {}, id_fill_keys = {}, id_intents = {}, id_hedges = {},
    id_hedge_fill_keys = {}, id_source_trades = {}, id_hedge_trades = {}\<rparr>"

definition validate_order :: "view_key \<Rightarrow> string \<times> source_order_record \<Rightarrow> identities \<Rightarrow> exn + identities" where
  "validate_order k = (\<lambda>(key, record) ids.
     if key \<noteq> so_client_order_id record \<or> key = [] \<or> key \<in> id_sources ids then
       Inl (ValueError ''conflicting Maker source identity'')
     else if view_side k \<noteq> None \<and> view_side k \<noteq> Some (so_side record) then
       Inl (ValueError ''Maker source direction differs from its view'')
     else Inr (ids\<lparr>id_sources := insert key (id_sources ids)\<rparr>))"

definition validate_orders :: "view_key \<Rightarrow> store_state \<Rightarrow> identities \<Rightarrow> exn + identities" where
  "validate_orders k s = foldE (validate_order k) (ss_source_orders s)"

text \<open>The account and venue trade of a fill key, for a booked order.\<close>

definition source_trade :: "store_state \<Rightarrow> string \<Rightarrow> string option \<times> string" where
  "source_trade s fill_key = (case split_bar fill_key of
     cid # _ # trade # _ \<Rightarrow> (case dict_get (ss_source_orders s) cid of
         Some record \<Rightarrow> (so_source_account_id record, trade) | None \<Rightarrow> (None, trade))
   | _ \<Rightarrow> (None, []))"

definition source_fill_key_ok :: "store_state \<Rightarrow> string \<Rightarrow> bool" where
  "source_fill_key_ok s fill_key = (let parts = split_bar fill_key in
     length parts = 3 \<and> dict_get (ss_source_orders s) (hd parts) \<noteq> None \<and> list_all (\<lambda>p. p \<noteq> []) parts)"

definition validate_source_fills :: "store_state \<Rightarrow> identities \<Rightarrow> exn + identities" where
  "validate_source_fills s ids =
    (let seen = ss_seen_source_fills s in
     if \<not> (\<forall>key \<in> seen. source_fill_key_ok s key) then
       Inl (ValueError ''Maker source fill identity is invalid'')
     else if \<not> (\<forall>a \<in> seen. source_trade s a \<notin> id_source_trades ids \<and>
         (\<forall>b \<in> seen. source_trade s a = source_trade s b \<longrightarrow> a = b)) then
       Inl (ValueError ''conflicting Maker source fill identity'')
     else Inr (ids\<lparr>id_source_trades := id_source_trades ids \<union> source_trade s ` seen\<rparr>))"

type_synonym hedge_accounts = "(string \<times> string option) list"

definition intent_order_ids :: "hedge_intent \<Rightarrow> string set" where
  "intent_order_ids i = set (hi_hedge_order_ids i) \<union> set_option (hi_hedge_client_order_id i)"

definition intent_order_list :: "hedge_intent \<Rightarrow> string list" where
  "intent_order_list i = hi_hedge_order_ids i @
    (case hi_hedge_client_order_id i of None \<Rightarrow> [] | Some cid \<Rightarrow> [cid])"

definition validate_intent ::
  "view_key \<Rightarrow> store_state \<Rightarrow> string \<times> hedge_intent \<Rightarrow> identities \<times> hedge_accounts \<Rightarrow>
    exn + identities \<times> hedge_accounts"
where
  "validate_intent k s = (\<lambda>(key, intent) (ids, accounts).
     if key \<noteq> hi_intent_id intent \<or> key \<in> id_intents ids then
       Inl (ValueError ''conflicting Maker intent identity'')
     else if view_side k \<noteq> None \<and> view_side k \<noteq> Some (hi_source_side intent) then
       Inl (ValueError ''Maker intent direction differs from its view'')
     else case dict_get (ss_source_orders s) (hi_source_client_order_id intent) of
       None \<Rightarrow> Inl (ValueError ''Maker intent source fill identity is missing'')
     | Some record \<Rightarrow>
         if hi_fill_key intent \<notin> ss_seen_source_fills s then
           Inl (ValueError ''Maker intent source fill identity is missing'')
         else if hi_source_side intent \<noteq> so_side record then
           Inl (ValueError ''intent direction differs from its source order'')
         else if split_bar (hi_fill_key intent) ! 0 \<noteq> hi_source_client_order_id intent
           \<or> split_bar (hi_fill_key intent) ! 2 \<noteq> hi_source_trade_id intent then
           Inl (ValueError ''Maker intent source fill identity differs'')
         else if id_hedges ids \<inter> intent_order_ids intent \<noteq> {} then
           Inl (ValueError ''conflicting Maker hedge order identity'')
         else Inr (ids\<lparr>id_intents := insert key (id_intents ids),
               id_hedges := id_hedges ids \<union> intent_order_ids intent\<rparr>,
             fold (\<lambda>cid. dict_set cid (so_hedge_account_id record)) (intent_order_list intent) accounts))"

definition validate_intents ::
  "view_key \<Rightarrow> store_state \<Rightarrow> identities \<times> hedge_accounts \<Rightarrow> exn + identities \<times> hedge_accounts"
where
  "validate_intents k s = foldE (validate_intent k s) (ss_hedge_intents s)"

definition hedge_trade :: "hedge_accounts \<Rightarrow> string \<Rightarrow> string option \<times> string" where
  "hedge_trade accounts fill_key = (case split_bar fill_key of
     cid # trade # _ \<Rightarrow> (case dict_get accounts cid of Some account \<Rightarrow> (account, trade) | None \<Rightarrow> (None, trade))
   | _ \<Rightarrow> (None, []))"

definition hedge_fill_key_ok :: "hedge_accounts \<Rightarrow> string \<Rightarrow> bool" where
  "hedge_fill_key_ok accounts fill_key = (let parts = split_bar fill_key in
     length parts = 2 \<and> dict_get accounts (hd parts) \<noteq> None \<and> list_all (\<lambda>p. p \<noteq> []) parts)"

definition validate_hedge_fills :: "store_state \<Rightarrow> identities \<times> hedge_accounts \<Rightarrow> exn + identities" where
  "validate_hedge_fills s = (\<lambda>(ids, accounts).
     let seen = ss_seen_hedge_fills s in
     if \<not> (\<forall>key \<in> seen. hedge_fill_key_ok accounts key) then
       Inl (ValueError ''Maker hedge fill identity is invalid'')
     else if \<not> (\<forall>a \<in> seen. hedge_trade accounts a \<notin> id_hedge_trades ids \<and>
         (\<forall>b \<in> seen. hedge_trade accounts a = hedge_trade accounts b \<longrightarrow> a = b)) then
       Inl (ValueError ''conflicting Maker hedge fill identity'')
     else Inr (ids\<lparr>id_hedge_trades := id_hedge_trades ids \<union> hedge_trade accounts ` seen\<rparr>))"

definition validate_view :: "snapshot \<Rightarrow> view_key \<Rightarrow> identities \<Rightarrow> exn + identities" where
  "validate_view sn k ids =
    (let s = sn_states sn k in
     if (case ss_active_source_order_id s of None \<Rightarrow> False
         | Some active \<Rightarrow> dict_get (ss_source_orders s) active = None) then
       Inl (ValueError ''Maker active source identity is missing'')
     else if ss_net_unhedged_ounces s \<noteq> 0 then
       Inl (ValueError ''Maker view residual must be zero; allocations own the balance'')
     else bindE (validate_orders k s ids) (\<lambda>ids.
       if id_fill_keys ids \<inter> ss_seen_source_fills s \<noteq> {}
         \<or> id_hedge_fill_keys ids \<inter> ss_seen_hedge_fills s \<noteq> {} then
         Inl (ValueError ''conflicting Maker fill identity'')
       else bindE (validate_source_fills s
           (ids\<lparr>id_fill_keys := id_fill_keys ids \<union> ss_seen_source_fills s,
             id_hedge_fill_keys := id_hedge_fill_keys ids \<union> ss_seen_hedge_fills s\<rparr>)) (\<lambda>ids.
         bindE (validate_intents k s (ids, [])) (validate_hedge_fills s))))"

definition all_records :: "owner_config \<Rightarrow> snapshot \<Rightarrow> (string \<times> source_order_record) list" where
  "all_records cfg sn = dict_of (concat (map (\<lambda>k. ss_source_orders (sn_states sn k)) (view_keys cfg)))"

definition all_intents :: "owner_config \<Rightarrow> snapshot \<Rightarrow> hedge_intent list" where
  "all_intents cfg sn = concat (map (\<lambda>k. state_intents (sn_states sn k)) (view_keys cfg))"

definition all_seen :: "owner_config \<Rightarrow> snapshot \<Rightarrow> string set" where
  "all_seen cfg sn = (\<Union>k \<in> set (view_keys cfg). ss_seen_source_fills (sn_states sn k))"

text \<open>
  The legacy checkpoint: fixed cumulative facts of orders older than the ordered allocations.
  The loop removes the intents it accounts for and collects their fill keys and totals.
\<close>

type_synonym intents_by_key = "(string \<times> hedge_intent) list"

definition checkpoint_direction :: "snapshot \<Rightarrow> string \<Rightarrow> source_direction option" where
  "checkpoint_direction sn cid =
    (if dict_get (ss_source_orders (sn_states sn Ask)) cid \<noteq> None then Some SHORT
     else if dict_get (ss_source_orders (sn_states sn Bid)) cid \<noteq> None then Some LONG else None)"

definition claim_intents ::
  "legacy_order \<Rightarrow> (string \<times> hedge_intent) list \<Rightarrow> intents_by_key \<Rightarrow> exn + intents_by_key \<times> rat \<times> rat"
where
  "claim_intents item by_id intents = foldE (\<lambda>intent_id (intents, known, allocated).
     case dict_get by_id intent_id of
       None \<Rightarrow> Inl (ValueError ''legacy checkpoint intent identity differs'')
     | Some intent \<Rightarrow>
         if hi_source_client_order_id intent \<noteq> lo_client_order_id item
           \<or> hi_fill_key intent \<notin> set (lo_fill_keys item) \<or> hi_source_fill_ounces intent \<le> 0
           \<or> dict_get intents (hi_fill_key intent) = None then
           Inl (ValueError ''legacy checkpoint intent identity differs'')
         else Inr (AList.delete (hi_fill_key intent) intents,
           dadd known (hi_source_fill_ounces intent),
           dadd allocated (dmul (hi_hedge_quantity_ounces intent) (if hi_hedge_side intent = SELL then 1 else - 1))))
     (lo_intent_ids item) (intents, 0, 0)"

definition validate_checkpoint ::
  "owner_config \<Rightarrow> snapshot \<Rightarrow> (string \<times> source_order_record) list \<Rightarrow> intents_by_key \<Rightarrow>
    exn + string set \<times> (string \<times> rat) list \<times> intents_by_key"
where
  "validate_checkpoint cfg sn records intents =
    (let by_id = dict_of (map (\<lambda>(_, i). (hi_intent_id i, i)) intents) in
     foldE (\<lambda>item (keys, totals, intents).
       let cid = lo_client_order_id item in
       case dict_get records cid of
         None \<Rightarrow> Inl (ValueError ''legacy checkpoint source binding or quantity differs'')
       | Some record \<Rightarrow>
         if dict_get totals cid \<noteq> None \<or> Some (lo_direction item) \<noteq> checkpoint_direction sn cid
           \<or> lo_route item \<noteq> route_of record \<or> lo_filled_ounces item < 0 then
           Inl (ValueError ''legacy checkpoint source binding or quantity differs'')
         else if \<not> distinct (lo_fill_keys item) \<or> keys \<inter> set (lo_fill_keys item) \<noteq> {}
           \<or> list_ex (\<lambda>key. hd (split_bar key) \<noteq> cid) (lo_fill_keys item)
           \<or> (lo_fill_keys item \<noteq> []) \<noteq> (0 < lo_filled_ounces item)
           \<or> \<not> distinct (lo_intent_ids item) then
           Inl (ValueError ''legacy checkpoint fill identities differ'')
         else bindE (claim_intents item by_id intents) (\<lambda>(intents, known, allocated).
           let unknown = int (length (lo_fill_keys item)) - int (length (lo_intent_ids item)) in
           if allocated \<noteq> lo_allocated_ounces item \<or> lo_filled_ounces item < known
             \<or> unknown = 0 \<and> known \<noteq> lo_filled_ounces item
             \<or> 0 < unknown \<and> lo_filled_ounces item \<le> known then
             Inl (ValueError ''legacy checkpoint cumulative or fixed allocation differs'')
           else Inr (keys \<union> set (lo_fill_keys item), dict_set cid (lo_filled_ounces item) totals, intents)))
     (oc_legacy_orders cfg) ({}, [], intents))"

text \<open>The replay of the ordered allocations.\<close>

record replay =
  rp_fills :: "string set"
  rp_totals :: "(string \<times> rat) list"
  rp_intents :: intents_by_key
  rp_balances :: "(route \<times> rat) list"

definition replay_allocation ::
  "string set \<Rightarrow> (string \<times> source_order_record) list \<Rightarrow> allocation \<Rightarrow> replay \<Rightarrow> exn + replay"
where
  "replay_allocation seen records item rp =
    (let key = al_fill_key item; cid = hd (split_bar key); signed_fill = al_signed_fill_ounces item;
         allocated = al_allocated_ounces item in
     if key \<notin> seen \<or> key \<in> rp_fills rp then
       Inl (ValueError ''Maker allocation fill identity is missing or duplicated'')
     else bindE (dict_index records cid) (\<lambda>record.
       if signed_fill = 0 \<or> (0 < signed_fill) \<noteq> (so_side record = BUY) \<or> al_route item \<noteq> route_of record then
         Inl (ValueError ''Maker allocation direction, quantity or route differs'')
       else
       let combined = dadd (case dict_get (rp_balances rp) (al_route item) of None \<Rightarrow> 0 | Some b \<Rightarrow> b) signed_fill in
       if allocated \<noteq> of_int (round_hedge_ounces combined) then
         Inl (ValueError ''Maker allocation does not match ordered route residual'')
       else
       let intent = dict_get (rp_intents rp) key;
           rp' = rp\<lparr>rp_fills := insert key (rp_fills rp),
             rp_balances := dict_set (al_route item) (dsub combined allocated) (rp_balances rp),
             rp_totals := dict_set cid (dadd (case dict_get (rp_totals rp) cid of None \<Rightarrow> 0 | Some t \<Rightarrow> t)
               (dabs signed_fill)) (rp_totals rp),
             rp_intents := AList.delete key (rp_intents rp)\<rparr> in
       if allocated = 0 then
         (if intent \<noteq> None then Inl (ValueError ''unallocated Maker fill cannot own a hedge intent'') else Inr rp')
       else case intent of
         None \<Rightarrow> Inl (ValueError ''Maker allocated quantity does not match its hedge intent'')
       | Some i \<Rightarrow>
           if hi_hedge_quantity_ounces i \<noteq> dabs allocated \<or> hi_source_fill_ounces i \<noteq> dabs signed_fill
             \<or> (hi_hedge_side i = SELL) \<noteq> (0 < allocated) then
             Inl (ValueError ''Maker allocated quantity does not match its hedge intent'')
           else Inr rp'))"

definition validate_allocations :: "owner_config \<Rightarrow> snapshot \<Rightarrow> exn + unit" where
  "validate_allocations cfg sn =
    (let records = all_records cfg sn; seen = all_seen cfg sn;
         intents = dict_of (map (\<lambda>i. (hi_fill_key i, i)) (all_intents cfg sn)) in
     if length intents \<noteq> length (all_intents cfg sn) then
       Inl (ValueError ''multiple Maker intents claim the same allocation'')
     else bindE (validate_checkpoint cfg sn records intents) (\<lambda>(fills, totals, intents).
       bindE (foldE (replay_allocation seen records) (sn_allocations sn)
         \<lparr>rp_fills = fills, rp_totals = totals, rp_intents = intents,
          rp_balances = map (\<lambda>(route, balance, _). (route, balance)) (checkpoint_balances cfg)\<rparr>) (\<lambda>rp.
       if rp_fills rp \<noteq> seen \<or> rp_intents rp \<noteq> []
         \<or> list_ex (\<lambda>(key, record). (case dict_get (rp_totals rp) key of None \<Rightarrow> 0 | Some t \<Rightarrow> t)
             \<noteq> so_filled_ounces record) records then
         Inl (ValueError ''Maker allocation history differs from source/intent facts'')
       else Inr ())))"

definition validate :: "owner_config \<Rightarrow> snapshot \<Rightarrow> exn + unit" where
  "validate cfg sn =
    (if oc_shared_strategy_ids cfg \<noteq> None \<and> (oc_legacy_sources cfg \<noteq> None \<or> oc_legacy_orders cfg \<noteq> []) then
       Inl (ValueError ''shared state cannot claim legacy allocation order'')
     else if sn_cycle_freeze_only sn \<and>
       (let reasons = map (\<lambda>k. ss_source_freeze_reason (sn_states sn k)) (view_keys cfg) in
        \<not> (list_all (\<lambda>r. r \<noteq> None \<and> r \<noteq> Some []) reasons \<and> list_all (\<lambda>r. r = hd reasons) reasons)) then
       Inl (ValueError ''Maker cycle freeze provenance requires both matching freezes'')
     else bindE (foldE (validate_view sn) (view_keys cfg) no_identities) (\<lambda>ids.
       if id_sources ids \<inter> id_hedges ids \<noteq> {} then
         Inl (ValueError ''conflicting Maker source/hedge order identity'')
       else validate_allocations cfg sn))"

section \<open>The owner's persistence\<close>

definition mark_committed :: "snapshot \<Rightarrow> owner \<Rightarrow> owner" where
  "mark_committed candidate w = w\<lparr>ow_committed := candidate\<rparr>"

text \<open>A write after a failed freeze publication cannot publish the revoked provenance again.\<close>

definition settled :: "owner \<Rightarrow> owner" where
  "settled w = (if ow_freeze_publication_failed w then w\<lparr>ow_cycle_freeze_only := False\<rparr> else w)"

definition owner_persist :: "(owner, unit) tx" where
  "owner_persist = (\<lambda>w.
     let w = settled w;
         candidate = owner_snapshot w in
     case validate (ow_config w) candidate of
       Inl e \<Rightarrow> (owner_restore (ow_committed w) w, Inl e)
     | Inr _ \<Rightarrow> (case persist_payload (next_answer (ow_answers w)) True candidate (ow_file w) of
         (file, r) \<Rightarrow>
           let w = w\<lparr>ow_file := file, ow_answers := tl (ow_answers w)\<rparr> in
           case r of
             Inl e \<Rightarrow> if e = ParentDirectorySyncError
               then ((mark_committed candidate w)\<lparr>ow_freeze_publication_failed := True\<rparr>, Inl e)
               else (owner_restore (ow_committed w) w, Inl e)
           | Inr _ \<Rightarrow> (mark_committed candidate w, Inr ())))"

definition owner_allocate :: "source_order_record \<Rightarrow> string \<Rightarrow> rat \<Rightarrow> owner \<Rightarrow> int \<times> owner" where
  "owner_allocate record fill_key signed_fill w =
    (let route = route_of record;
         current = (case dict_get (route_balances (ow_config w) (owner_snapshot w)) route of
           None \<Rightarrow> 0 | Some (balance, _) \<Rightarrow> balance);
         combined = dadd current signed_fill;
         allocated = round_hedge_ounces combined
     in (allocated, w\<lparr>ow_allocations := ow_allocations w @
          [\<lparr>al_fill_key = fill_key, al_route = route, al_signed_fill_ounces = signed_fill,
            al_allocated_ounces = of_int allocated\<rparr>]\<rparr>))"

definition owner_cycle_freeze_only :: "owner \<Rightarrow> bool" where
  "owner_cycle_freeze_only w \<longleftrightarrow> ow_cycle_freeze_only w \<and> \<not> ow_freeze_publication_failed w"

section \<open>The views\<close>

abbreviation view_of :: "view_key \<Rightarrow> owner \<Rightarrow> store_state" where
  "view_of k w \<equiv> vw_state (ow_views w k)"

definition put_view :: "view_key \<Rightarrow> view \<Rightarrow> owner \<Rightarrow> owner" where
  "put_view k v w = w\<lparr>ow_views := (ow_views w)(k := v)\<rparr>"

definition view_admissible :: "view_key \<Rightarrow> owner \<Rightarrow> bool" where
  "view_admissible k w \<longleftrightarrow>
    (let sn = owner_snapshot w; residual = rounding_residual (ow_config w) sn k in
     source_balance_is_admissible (ow_config w) sn
     \<and> outstanding_ounces residual (state_intents (view_of k w)) = residual
     \<and> list_all (\<lambda>i. hi_hedge_quantity_ounces i = hi_hedge_filled_ounces i) (state_intents (view_of k w)))"

definition maker_view :: "view_key \<Rightarrow> owner custody" where
  "maker_view k = \<lparr>cu_view = (\<lambda>w. ow_views w k), cu_set_view = put_view k, cu_persist = owner_persist,
    cu_residual = (\<lambda>w. rounding_residual (ow_config w) (owner_snapshot w) k),
    cu_admissible = view_admissible k, cu_allocate = owner_allocate\<rparr>"

section \<open>Freezes\<close>

definition is_frozen :: "view_key \<Rightarrow> owner \<Rightarrow> bool" where
  "is_frozen k w \<longleftrightarrow> ss_source_freeze_reason (view_of k w) \<noteq> None"

definition set_freeze :: "string option \<Rightarrow> view_key \<Rightarrow> owner \<Rightarrow> owner" where
  "set_freeze reason k w = put_view k ((ow_views w k)\<lparr>vw_state :=
     (view_of k w)\<lparr>ss_source_freeze_reason := reason\<rparr>\<rparr>) w"

text \<open>\<^verbatim>\<open>_set_freezes\<close>: whether anything changed, and the owner after.\<close>

fun set_freezes :: "string \<Rightarrow> view_key list \<Rightarrow> owner \<Rightarrow> bool \<times> owner" where
  "set_freezes reason [] w = (False, w)"
| "set_freezes reason (k # ks) w =
    (if \<not> is_frozen k w then (True, snd (set_freezes reason ks (set_freeze (Some reason) k w)))
     else set_freezes reason ks w)"

definition revoke_views :: "view_key list \<Rightarrow> owner \<Rightarrow> owner" where
  "revoke_views ks w = fold (\<lambda>k w. put_view k ((ow_views w k)\<lparr>vw_log := vw_log (ow_views w k) @ [RevokePermission]\<rparr>) w)
     ks w"

definition freeze_external :: "string \<Rightarrow> view_key list \<Rightarrow> (owner, unit) tx" where
  "freeze_external reason views =
    (if reason = [] then raise_tx (ValueError ''freeze reason must not be empty'')
     else (\<lambda>w.
       let (frozen, w1) = set_freezes reason views (revoke_views views w);
           changed = (frozen \<or> ow_cycle_freeze_only w1);
           w2 = w1\<lparr>ow_cycle_freeze_only := False\<rparr> in
       if changed then
         (case owner_persist w2 of
            (w3, Inl e) \<Rightarrow> (w3\<lparr>ow_freeze_publication_failed := True\<rparr>, Inl e)
          | (w3, Inr _) \<Rightarrow> (w3, Inr ()))
       else (w2, Inr ())))"

definition freeze_sources :: "string \<Rightarrow> (owner, unit) tx" where
  "freeze_sources reason = (\<lambda>w. freeze_external reason (view_keys (ow_config w)) w)"

definition clear_source_freezes :: "(owner, bool) tx" where
  "clear_source_freezes = (\<lambda>w.
     let keys = view_keys (ow_config w);
         reasons = remdups (map (\<lambda>k. ss_source_freeze_reason (view_of k w)) (filter (\<lambda>k. is_frozen k w) keys)) in
     if ow_freeze_publication_failed w
       \<or> \<not> source_balance_is_admissible (ow_config w) (owner_snapshot w)
       \<or> length reasons \<noteq> 1
       \<or> \<not> list_all (\<lambda>k. cycle_evidence_complete (maker_view k) w) keys
     then (w, Inr False)
     else bind_tx owner_persist (\<lambda>_. ret_tx True)
       ((fold (set_freeze None) keys w)\<lparr>ow_cycle_freeze_only := False\<rparr>))"

section \<open>What a view overrides\<close>

definition maker_clear_source_freeze :: "(owner, unit) tx" where
  "maker_clear_source_freeze = bind_tx clear_source_freezes (\<lambda>cleared w.
     if \<not> cleared \<and> list_ex (\<lambda>k. is_frozen k w) (view_keys (ow_config w))
     then (w, Inl (RuntimeError ''Maker cycle evidence is incomplete'')) else (w, Inr ()))"

definition maker_freeze_source_submissions :: "view_key \<Rightarrow> string \<Rightarrow> (owner, unit) tx" where
  "maker_freeze_source_submissions k reason = freeze_external reason [k]"

definition release_completed_cycle :: "(owner, bool) tx" where
  "release_completed_cycle = (\<lambda>w.
     if oc_shared_strategy_ids (ow_config w) \<noteq> None \<and> owner_cycle_freeze_only w
     then clear_source_freezes w else (w, Inr False))"

text \<open>A fill freezes every view before it is booked; any failure but the directory sync undoes all.\<close>

definition claim_cycle_freeze :: "owner \<Rightarrow> owner" where
  "claim_cycle_freeze w =
    (let keys = view_keys (ow_config w) in
     if \<not> ow_freeze_publication_failed w
       \<and> list_all (\<lambda>k. ss_halt_reason (view_of k w) = None) keys
       \<and> (owner_cycle_freeze_only w \<or> list_all (\<lambda>k. \<not> is_frozen k w) keys)
     then w\<lparr>ow_cycle_freeze_only := True\<rparr> else w)"

definition fill_freeze_reason :: "string \<Rightarrow> string \<Rightarrow> string" where
  "fill_freeze_reason cid trade_id = ''Maker fill '' @ cid @ ''/'' @ trade_id @
     '' requires authoritative two-sided reconciliation''"

definition maker_reserve_source_fill ::
  "view_key \<Rightarrow> (string \<Rightarrow> string) \<Rightarrow> string \<Rightarrow> string \<Rightarrow> string \<Rightarrow> business_side \<Rightarrow> rat \<Rightarrow>
    (owner, hedge_intent option) tx"
where
  "maker_reserve_source_fill k digest fill_key cid trade_id side fill_ounces = (\<lambda>w.
     if fill_key \<in> ss_seen_source_fills (view_of k w)
       \<or> dict_get (ss_source_orders (view_of k w)) cid = None then (w, Inr None)
     else
     let previous = owner_snapshot w;
         w1 = snd (set_freezes (fill_freeze_reason cid trade_id) (view_keys (ow_config w)) (claim_cycle_freeze w)) in
     case reserve_source_fill (maker_view k) digest fill_key cid trade_id side fill_ounces w1 of
       (w2, Inl e) \<Rightarrow> if e = ParentDirectorySyncError then (w2, Inl e) else (owner_restore previous w2, Inl e)
     | (w2, Inr intent) \<Rightarrow> (w2, Inr intent))"

section \<open>Opening the owner\<close>

definition check_owner_config :: "owner_config \<Rightarrow> exn + unit" where
  "check_owner_config cfg =
    (if oc_source_instrument_id cfg = [] \<or> oc_hedge_instrument_id cfg = [] then
       Inl (ValueError ''Maker state requires both instrument bindings'')
     else if (case oc_shared_strategy_ids cfg of None \<Rightarrow> False
         | Some (maker, taker) \<Rightarrow> py_strip maker = [] \<or> py_strip taker = [] \<or> maker = taker) then
       Inl (ValueError ''shared state requires distinct Maker and Taker strategy IDs'')
     else if \<not> (0 \<le> oc_residual_limit cfg \<and> oc_residual_limit cfg \<le> 1/2) then
       Inl (ValueError ''Maker residual limit must be finite and between zero and 0.5'')
     else if 0 < oc_residual_limit cfg \<and> (case oc_carry_route cfg of None \<Rightarrow> True
         | Some (source, _, hedge, _) \<Rightarrow> source \<in> {None, Some []} \<or> hedge \<in> {None, Some []}) then
       Inl (ValueError ''bounded Maker state requires an explicit account route'')
     else Inr ())"

definition empty_snapshot :: snapshot where
  "empty_snapshot = \<lparr>sn_states = (\<lambda>_. empty_state), sn_allocations = [], sn_cycle_freeze_only = False\<rparr>"

text \<open>\<open>legacy_files\<close> and \<open>maker_file\<close>: whether the files of the older layouts exist beside this one.\<close>

definition open_owner ::
  "owner_config \<Rightarrow> bool \<Rightarrow> bool \<Rightarrow> snapshot option \<Rightarrow> os_answers list \<Rightarrow> exn + owner"
where
  "open_owner cfg legacy_files maker_file content answers =
    bindE (check_owner_config cfg) (\<lambda>_.
      if content = None \<and> legacy_files then
        Inl (ValueError ''legacy Maker state requires explicit migration before startup'')
      else if oc_shared_strategy_ids cfg \<noteq> None \<and> content = None \<and> maker_file then
        Inl (ValueError ''shared state cannot merge an existing standalone Maker file'')
      else
      let sn = (case content of None \<Rightarrow> empty_snapshot | Some sn \<Rightarrow> sn) in
      bindE (validate cfg sn) (\<lambda>_.
        Inr \<lparr>ow_config = cfg, ow_views = (\<lambda>k. \<lparr>vw_state = sn_states sn k, vw_log = []\<rparr>),
          ow_allocations = sn_allocations sn, ow_cycle_freeze_only = sn_cycle_freeze_only sn,
          ow_freeze_publication_failed = False, ow_committed = sn, ow_file = content,
          ow_answers = answers\<rparr>))"

section \<open>An example\<close>

text \<open>A shared owner whose bid view booked one fill of two ounces.\<close>

definition ex_cfg :: owner_config where
  "ex_cfg = \<lparr>oc_source_instrument_id = ''S'', oc_hedge_instrument_id = ''H'', oc_residual_limit = 0,
    oc_carry_route = None, oc_shared_strategy_ids = Some (''m'', ''t''), oc_legacy_sources = None, oc_legacy_orders = []\<rparr>"

definition ex_order :: source_order_record where
  "ex_order = \<lparr>so_client_order_id = ''o1'', so_side = BUY, so_quantity_ounces = 5,
     so_source_account_id = Some ''a'', so_source_client_id = None, so_hedge_account_id = Some ''b'',
     so_hedge_client_id = None, so_hedge_position_id = None, so_hedge_position_quantity_ounces = None,
     so_filled_ounces = 2, so_status = ''PARTIALLY_FILLED''\<rparr>"

definition ex_hedge :: hedge_intent where
  "ex_hedge = new_intent id ''o1|v1|t1'' ''o1'' ''t1'' BUY 2 None ex_order 2"

definition ex_bid :: store_state where
  "ex_bid = empty_state\<lparr>ss_source_orders := [(''o1'', ex_order)], ss_active_source_order_id := Some ''o1'',
     ss_seen_source_fills := {''o1|v1|t1''}, ss_hedge_intents := [(hi_intent_id ex_hedge, ex_hedge)]\<rparr>"

definition ex_snapshot :: snapshot where
  "ex_snapshot = \<lparr>sn_states = (\<lambda>k. if k = Bid then ex_bid else empty_state),
     sn_allocations = [\<lparr>al_fill_key = ''o1|v1|t1'', al_route = route_of ex_order, al_signed_fill_ounces = 2,
       al_allocated_ounces = 2\<rparr>], sn_cycle_freeze_only = False\<rparr>"

lemma ex_two: "round_hedge_ounces 2 = 2" "dadd 0 2 = 2" "dsub 2 2 = 0" "dabs 2 = 2"
proof -
  have "rhe 2 = (2::int)" using rhe_of_int [of 2] by simp
  show "dadd 0 2 = 2" using dadd_exact [of 0 2] by simp
  show "dsub 2 2 = 0" using dsub_exact [of 2 2] by simp
  show "dabs 2 = 2" using dabs_exact [of 2] by simp
  show "round_hedge_ounces 2 = 2" unfolding round_hedge_ounces_def
    using round_float_eq_rhe [of 2] \<open>rhe 2 = 2\<close> by simp
qed

lemma ex_snapshot_valid: "validate ex_cfg ex_snapshot = Inr ()"
  by (simp add: validate_def ex_cfg_def ex_snapshot_def view_keys_def validate_view_def Let_def no_identities_def
    validate_orders_def validate_order_def validate_source_fills_def validate_intents_def validate_intent_def
    validate_hedge_fills_def ex_bid_def empty_state_def ex_hedge_def new_intent_def ex_order_def source_fill_key_ok_def
    source_trade_def intent_order_ids_def intent_order_list_def validate_allocations_def all_records_def all_intents_def all_seen_def
    dict_of_def state_intents_def validate_checkpoint_def checkpoint_balances_def replay_allocation_def dict_index_def ex_two
    route_of_def)

lemma ex_config_ok: "check_owner_config ex_cfg = Inr ()"
  by (simp add: check_owner_config_def ex_cfg_def py_strip_def is_space_def)

definition ex_owner :: owner where
  "ex_owner = \<lparr>ow_config = ex_cfg, ow_views = (\<lambda>k. \<lparr>vw_state = sn_states ex_snapshot k, vw_log = []\<rparr>),
     ow_allocations = sn_allocations ex_snapshot, ow_cycle_freeze_only = False, ow_freeze_publication_failed = False,
     ow_committed = ex_snapshot, ow_file = Some ex_snapshot, ow_answers = []\<rparr>"

lemma ex_owner_opened: "open_owner ex_cfg False False (Some ex_snapshot) [] = Inr ex_owner"
  by (simp add: open_owner_def ex_config_ok ex_snapshot_valid ex_owner_def Let_def) (simp add: ex_snapshot_def)

end
