(* ===== verification/Maker_Runs.thy ===== *)
theory Maker_Runs
  imports Maker_Store Store_Runs
begin

text \<open>
  Runs of the allocation owner. The locale \<open>guarded\<close> says what every method of a view is made of:
  it changes its view, allocates, and persists, so whatever these three keep, every method
  keeps. The owner's views are interpreted in the same locale \<open>custody\<close> as the standalone store.
\<close>

section \<open>What every method of a view keeps\<close>

definition leaves :: "('w \<Rightarrow> bool) \<Rightarrow> 'w \<times> (exn + 'a) \<Rightarrow> bool" where
  "leaves P p \<longleftrightarrow> P (fst p)"

named_theorems leave_rules

lemma leaves_bind [leave_rules]:
  "P w \<Longrightarrow> (P w \<Longrightarrow> leaves P (m w)) \<Longrightarrow> (\<And>x w. P w \<Longrightarrow> leaves P (f x w)) \<Longrightarrow> leaves P (bind_tx m f w)"
  by (auto simp: leaves_def bind_tx_fst split: prod.splits sum.splits)

lemma leaves_pure [leave_rules]:
  "P w \<Longrightarrow> leaves P (w, r)" "P w \<Longrightarrow> leaves P (ret_tx x w)" "P w \<Longrightarrow> leaves P (raise_tx e w)"
  "P w \<Longrightarrow> leaves P (lift_tx y w)"
  by (simp_all add: leaves_def)

lemma leaves_if [leave_rules]:
  "(b \<Longrightarrow> leaves P p) \<Longrightarrow> (\<not> b \<Longrightarrow> leaves P q) \<Longrightarrow> leaves P (if b then p else q)"
  "(b \<Longrightarrow> leaves P (m w)) \<Longrightarrow> (\<not> b \<Longrightarrow> leaves P (m' w)) \<Longrightarrow> leaves P ((if b then m else m') w)"
  by simp_all

lemma leaves_option [leave_rules]:
  "(y = None \<Longrightarrow> leaves P p) \<Longrightarrow> (\<And>x. y = Some x \<Longrightarrow> leaves P (f x)) \<Longrightarrow>
    leaves P (case y of None \<Rightarrow> p | Some x \<Rightarrow> f x)"
  by (cases y) simp_all

locale guarded =
  fixes cu :: "'w custody" and P :: "'w \<Rightarrow> bool"
  assumes set_view: "P w \<Longrightarrow> P (cu_set_view cu v w)"
    and persists: "P w \<Longrightarrow> P (fst (cu_persist cu w))"
    and allocates: "cu_allocate cu rec key f w = (n, w') \<Longrightarrow> P w \<Longrightarrow> P w'"
begin

lemma leaves_view: "P w \<Longrightarrow> leaves P (on_view cu m w)"
  by (auto simp: leaves_def on_view_def set_view split: prod.splits)

lemma leaves_persist: "P w \<Longrightarrow> leaves P (cu_persist cu w)"
  by (simp add: leaves_def persists)

lemma leaves_undo: "P w \<Longrightarrow> leaves P (bind_tx (on_view cu m) (\<lambda>_. raise_tx e) w)"
  by (intro leave_rules leaves_view)

lemma leaves_rolling_back:
  assumes "leaves P (m w)"
  shows "leaves P (rolling_back cu previous m w)"
proof -
  obtain w1 r where m: "m w = (w1, r)" by fastforce
  with assms have "P w1" by (simp add: leaves_def)
  then show ?thesis
    by (cases r) (simp_all only: rolling_back_def m prod.case sum.case, (intro leave_rules leaves_undo leaves_view; assumption)+)
qed

lemma leaves_recovery:
  assumes "P w"
  shows "leaves P (publish_recovery cu new_halt w)"
proof -
  obtain w1 r where p: "cu_persist cu w = (w1, r)" by fastforce
  then have "P w1" using persists [OF assms] by simp
  then show ?thesis
    by (cases r) (simp_all only: publish_recovery_def p prod.case sum.case, (intro leave_rules leaves_undo leaves_view; assumption)+)
qed

lemma leaves_allocation:
  assumes "P w" "\<And>n w. P w \<Longrightarrow> leaves P (g n w)"
  shows "leaves P (case cu_allocate cu rec key f w of (n, w) \<Rightarrow> g n w)"
  using allocates [OF _ assms(1)] assms(2) by (cases "cu_allocate cu rec key f w") auto

lemmas leaves_rules = leaves_view leaves_persist leaves_rolling_back leaves_recovery leaves_allocation

lemma leaves_reserve_step: "P w \<Longrightarrow> leaves P (reserve_source_fill_step cu digest key cid trade side f blocked w)"
  unfolding reserve_source_fill_step_def by (intro leave_rules leaves_rules)

lemma leaves_reserve:
  assumes "P w"
  shows "leaves P (reserve_source_fill cu digest key cid trade side f w)"
proof -
  obtain w1 r where s: "reserve_source_fill_step cu digest key cid trade side f None w = (w1, r)" by fastforce
  then have "P w1" using leaves_reserve_step [OF assms, of digest key cid trade side f None] by (simp add: leaves_def)
  then show ?thesis
    unfolding reserve_source_fill_def Let_def s prod.case
    by (cases r; simp only: sum.case) (intro leave_rules leaves_rules leaves_undo assms; assumption)+
qed

lemma leaves_source:
  "P w \<Longrightarrow> leaves P (freeze_source_submissions cu reason w)" "P w \<Longrightarrow> leaves P (clear_source_freeze cu w)"
  "P w \<Longrightarrow> leaves P (update_source_status cu cid status w)" "P w \<Longrightarrow> leaves P (mark_source_unknown cu cid reason w)"
  "P w \<Longrightarrow> leaves P (begin_source cu cid side q route fr w)" "P w \<Longrightarrow> leaves P (confirm_source_reconciled cu cid w)"
  "P w \<Longrightarrow> leaves P (recover_for_start cu w)"
  unfolding freeze_source_submissions_def clear_source_freeze_def update_source_status_def begin_source_def
    mark_source_unknown_def confirm_source_reconciled_def recover_for_start_def Let_def
  by (intro leave_rules leaves_rules; assumption)+

lemma leaves_hedge:
  "P w \<Longrightarrow> leaves P (bind_hedge_order cu iid cid w)" "P w \<Longrightarrow> leaves P (bind_hedge_plan cu iid plan w)"
  "P w \<Longrightarrow> leaves P (block_hedge_intent cu iid reason w)" "P w \<Longrightarrow> leaves P (update_hedge_status cu cid status native w)"
  "P w \<Longrightarrow> leaves P (apply_hedge_fill cu cid trade f w)"
  unfolding bind_hedge_order_def bind_hedge_plan_def block_hedge_intent_def update_hedge_status_def
    apply_hedge_fill_def
  by (intro leave_rules leaves_rules; assumption)+

text \<open>Every method keeps what the three primitives keep.\<close>

lemma run_op_guarded: "P w \<Longrightarrow> P (run_op cu digest op w)"
  using leaves_source [of w] leaves_hedge [of w] leaves_reserve [of w]
  by (cases op) (simp_all add: leaves_def)

end

section \<open>Validation refuses with a ValueError or a KeyError\<close>

definition refusal :: "exn \<Rightarrow> bool" where
  "refusal e \<longleftrightarrow> (\<exists>m. e = ValueError m) \<or> e = KeyError"

lemma refusal_simps [simp]:
  "refusal (ValueError m)" "refusal KeyError" "\<not> refusal ParentDirectorySyncError"
  by (simp_all add: refusal_def)

lemma foldE_refusal:
  assumes "foldE f xs s = Inl e" "\<And>x s e. f x s = Inl e \<Longrightarrow> refusal e"
  shows "refusal e"
  using assms(1) by (induction xs arbitrary: s) (auto simp: bindE_Inl_iff dest: assms(2))

lemma view_refusal: "validate_view sn k ids = Inl e \<Longrightarrow> refusal e"
proof -
  have a: "validate_orders k s ids = Inl e \<Longrightarrow> refusal e" for s ids
    unfolding validate_orders_def by (erule foldE_refusal) (auto simp: validate_order_def split: if_splits)
  have b: "validate_intents k s ia = Inl e \<Longrightarrow> refusal e" for s ia
    unfolding validate_intents_def
    by (erule foldE_refusal) (auto simp: validate_intent_def split: if_splits option.splits prod.splits)
  show "validate_view sn k ids = Inl e \<Longrightarrow> refusal e"
    by (auto simp: validate_view_def validate_source_fills_def validate_hedge_fills_def Let_def bindE_Inl_iff
        split: if_splits option.splits dest!: a b)
qed

lemma allocations_refusal: "validate_allocations cfg sn = Inl e \<Longrightarrow> refusal e"
proof -
  have a: "claim_intents item by_id intents = Inl e \<Longrightarrow> refusal e" for item by_id intents e
    unfolding claim_intents_def by (erule foldE_refusal) (auto split: if_splits option.splits prod.splits)
  have b: "validate_checkpoint cfg sn records intents = Inl e \<Longrightarrow> refusal e" for records intents
    unfolding validate_checkpoint_def Let_def
    by (erule foldE_refusal) (auto simp: bindE_Inl_iff Let_def split: if_splits option.splits prod.splits dest!: a)
  have c: "foldE (replay_allocation seen records) items rp = Inl e \<Longrightarrow> refusal e" for seen records items rp
    by (erule foldE_refusal)
      (auto simp: replay_allocation_def bindE_Inl_iff Let_def dict_index_def split: if_splits option.splits)
  show "validate_allocations cfg sn = Inl e \<Longrightarrow> refusal e"
    by (auto simp: validate_allocations_def Let_def bindE_Inl_iff split: if_splits prod.splits dest!: b c)
qed

lemma validate_refusal: "validate cfg sn = Inl e \<Longrightarrow> refusal e"
  by (auto simp: validate_def bindE_Inl_iff Let_def split: if_splits
      dest!: allocations_refusal foldE_refusal intro: view_refusal)

section \<open>The outcomes of a persist\<close>

lemma settled_simps [simp]:
  "ow_views (settled w) = ow_views w" "ow_config (settled w) = ow_config w" "ow_file (settled w) = ow_file w"
  "ow_committed (settled w) = ow_committed w" "ow_allocations (settled w) = ow_allocations w"
  "ow_freeze_publication_failed (settled w) = ow_freeze_publication_failed w"
  "ow_answers (settled w) = ow_answers w"
  by (simp_all add: settled_def)

lemma snapshot_simps [simp]:
  "sn_states (owner_snapshot w) k = view_of k w" "sn_allocations (owner_snapshot w) = ow_allocations w"
  "sn_cycle_freeze_only (owner_snapshot w) = ow_cycle_freeze_only w"
  by (simp_all add: owner_snapshot_def)

lemma restore_simps [simp]:
  "owner_snapshot (owner_restore sn w) = sn" "ow_config (owner_restore sn w) = ow_config w"
  "ow_file (owner_restore sn w) = ow_file w" "ow_committed (owner_restore sn w) = ow_committed w"
  "ow_freeze_publication_failed (owner_restore sn w) = ow_freeze_publication_failed w"
  "vw_log (ow_views (owner_restore sn w) k) = vw_log (ow_views w k)"
  by (simp_all add: owner_restore_def owner_snapshot_def)

lemma restore_own [simp]: "owner_restore (owner_snapshot w) w = w"
  by (simp add: owner_restore_def owner_snapshot_def)

lemma owner_persist_cases:
  obtains (written) w' where "owner_persist w = (w', Inr ())" "ow_views w' = ow_views w"
      "ow_file w' = Some (owner_snapshot (settled w))" "ow_committed w' = owner_snapshot (settled w)"
      "owner_snapshot w' = owner_snapshot (settled w)" "validate (ow_config w) (owner_snapshot (settled w)) = Inr ()"
      "ow_config w' = ow_config w" "ow_freeze_publication_failed w' = ow_freeze_publication_failed w"
  | (unsynced) w' where "owner_persist w = (w', Inl ParentDirectorySyncError)" "ow_views w' = ow_views w"
      "ow_file w' = Some (owner_snapshot (settled w))" "ow_committed w' = owner_snapshot (settled w)"
      "owner_snapshot w' = owner_snapshot (settled w)" "validate (ow_config w) (owner_snapshot (settled w)) = Inr ()"
      "ow_config w' = ow_config w" "ow_freeze_publication_failed w'"
  | (failed) w' e where "owner_persist w = (w', Inl e)" "e \<noteq> ParentDirectorySyncError"
      "ow_file w' = ow_file w" "ow_committed w' = ow_committed w" "owner_snapshot w' = ow_committed w"
      "ow_config w' = ow_config w" "ow_freeze_publication_failed w' = ow_freeze_publication_failed w"
      "\<forall>k. vw_log (ow_views w' k) = vw_log (ow_views w k)"
proof -
  let ?c = "owner_snapshot (settled w)"
  have run: "owner_persist w = (case validate (ow_config w) ?c of
      Inl e \<Rightarrow> (owner_restore (ow_committed w) (settled w), Inl e)
    | Inr _ \<Rightarrow> (case persist_payload (next_answer (ow_answers w)) True ?c (ow_file w) of
         (file, r) \<Rightarrow> let w1 = (settled w)\<lparr>ow_file := file, ow_answers := tl (ow_answers w)\<rparr> in
           case r of
             Inl e \<Rightarrow> if e = ParentDirectorySyncError
               then ((mark_committed ?c w1)\<lparr>ow_freeze_publication_failed := True\<rparr>, Inl e)
               else (owner_restore (ow_committed w) w1, Inl e)
           | Inr _ \<Rightarrow> (mark_committed ?c w1, Inr ())))"
    unfolding owner_persist_def Let_def by (simp split: sum.split prod.split)
  show thesis
  proof (cases "validate (ow_config w) ?c")
    case (Inl e)
    show thesis
      by (rule failed [where w' = "owner_restore (ow_committed w) (settled w)" and e = e])
        (use Inl validate_refusal [OF Inl] run in auto)
  next
    case (Inr u)
    let ?w = "\<lambda>f. (settled w)\<lparr>ow_file := f, ow_answers := tl (ow_answers w)\<rparr>"
    show thesis
    proof (cases rule: persist_payload_cases [where os = "next_answer (ow_answers w)" and overwrite = True
          and payload = ?c and ?f0.0 = "ow_file w"])
      case p: written
      show thesis
        by (rule written [where w' = "mark_committed ?c (?w (Some ?c))"])
          (use Inr p run in \<open>auto simp: mark_committed_def owner_snapshot_def\<close>)
    next
      case p: unsynced
      show thesis
        by (rule unsynced [where w' = "(mark_committed ?c (?w (Some ?c)))\<lparr>ow_freeze_publication_failed := True\<rparr>"])
          (use Inr p run in \<open>auto simp: mark_committed_def owner_snapshot_def\<close>)
    next
      case p: refused
      show thesis
        by (rule failed [where w' = "owner_restore (ow_committed w) (?w (ow_file w))" and e = OSError])
          (use Inr p run in auto)
    qed
  qed
qed

section \<open>The views are custodies\<close>

lemma put_view_simps [simp]:
  "ow_views (put_view k v w) = (ow_views w)(k := v)" "ow_config (put_view k v w) = ow_config w"
  "ow_file (put_view k v w) = ow_file w" "ow_committed (put_view k v w) = ow_committed w"
  "ow_allocations (put_view k v w) = ow_allocations w"
  "ow_cycle_freeze_only (put_view k v w) = ow_cycle_freeze_only w"
  "ow_freeze_publication_failed (put_view k v w) = ow_freeze_publication_failed w"
  by (simp_all add: put_view_def)

lemma maker_view_simps [simp]:
  "cu_view (maker_view k) w = ow_views w k" "cu_set_view (maker_view k) = put_view k"
  "cu_persist (maker_view k) = owner_persist" "cu_allocate (maker_view k) = owner_allocate"
  by (simp_all add: maker_view_def)

lemma owner_allocate_run:
  "owner_allocate rec key f w = (n, w') \<Longrightarrow> ow_views w' = ow_views w \<and> ow_config w' = ow_config w \<and>
     ow_file w' = ow_file w \<and> ow_committed w' = ow_committed w \<and>
     ow_cycle_freeze_only w' = ow_cycle_freeze_only w \<and>
     ow_freeze_publication_failed w' = ow_freeze_publication_failed w \<and>
     (\<exists>item. ow_allocations w' = ow_allocations w @ [item] \<and> al_fill_key item = key \<and> al_route item = route_of rec \<and>
       al_signed_fill_ounces item = f \<and> al_allocated_ounces item = of_int n)"
  by (auto simp: owner_allocate_def Let_def)

interpretation maker: custody "maker_view k" "\<lambda>w. map_option (\<lambda>sn. sn_states sn k) (ow_file w)" for k
proof
  fix w w' r
  assume p: "cu_persist (maker_view k) w = (w', r)" and r: "r = Inr () \<or> r = Inl ParentDirectorySyncError"
  show "cu_view (maker_view k) w' = cu_view (maker_view k) w \<and>
      map_option (\<lambda>sn. sn_states sn k) (ow_file w') = Some (cu_state (maker_view k) w)"
    by (cases rule: owner_persist_cases [of w]) (use p r in auto)
next
  fix w w' e
  assume p: "cu_persist (maker_view k) w = (w', Inl e)" and e: "e \<noteq> ParentDirectorySyncError"
  show "map_option (\<lambda>sn. sn_states sn k) (ow_file w') = map_option (\<lambda>sn. sn_states sn k) (ow_file w)"
    by (cases rule: owner_persist_cases [of w]) (use p e in auto)
next
  fix rec key f w n w' assume a: "cu_allocate (maker_view k) rec key f w = (n, w')"
  show "map_option (\<lambda>sn. sn_states sn k) (ow_file w') = map_option (\<lambda>sn. sn_states sn k) (ow_file w) \<and>
      vw_log (cu_view (maker_view k) w') = vw_log (cu_view (maker_view k) w) \<and>
      (\<exists>net. cu_state (maker_view k) w' = (cu_state (maker_view k) w)\<lparr>ss_net_unhedged_ounces := net\<rparr>)"
    using owner_allocate_run [of rec key f w n w'] a
    by (auto intro: exI [of _ "ss_net_unhedged_ounces (view_of k w)"])
qed (simp_all add: maker_view_def)

section \<open>Operations of the owner\<close>

datatype owner_op = ViewOp view_key store_op | FreezeAll string | ClearAll | ReleaseCycle

text \<open>A view runs the methods of the store, except those it overrides.\<close>

fun run_view_op :: "view_key \<Rightarrow> (string \<Rightarrow> string) \<Rightarrow> store_op \<Rightarrow> owner \<Rightarrow> owner" where
  "run_view_op k digest (Freeze reason) w = fst (maker_freeze_source_submissions k reason w)"
| "run_view_op k digest ClearFreeze w = fst (maker_clear_source_freeze w)"
| "run_view_op k digest (Reserve key cid trade side f) w = fst (maker_reserve_source_fill k digest key cid trade side f w)"
| "run_view_op k digest op w = run_op (maker_view k) digest op w"

fun run_owner_op :: "(string \<Rightarrow> string) \<Rightarrow> owner_op \<Rightarrow> owner \<Rightarrow> owner" where
  "run_owner_op digest (ViewOp k op) w = (if k \<in> set (view_keys (ow_config w)) then run_view_op k digest op w else w)"
| "run_owner_op digest (FreezeAll reason) w = fst (freeze_sources reason w)"
| "run_owner_op digest ClearAll w = fst (clear_source_freezes w)"
| "run_owner_op digest ReleaseCycle w = fst (release_completed_cycle w)"

text \<open>
  Runs: opened from any content and afterwards any operations, any answers of the operating
  system, and restarts from the file.
\<close>

inductive owner_reachable :: "owner_config \<Rightarrow> (string \<Rightarrow> string) \<Rightarrow> owner \<Rightarrow> bool" for cfg digest where
  opened: "open_owner cfg legacy_files maker_file content answers = Inr w \<Longrightarrow> owner_reachable cfg digest w"
| operated: "owner_reachable cfg digest w \<Longrightarrow> owner_reachable cfg digest (run_owner_op digest op w)"

lemma bind_ret_fst: "fst (bind_tx m (\<lambda>_. ret_tx x) w) = fst (m w)"
  by (simp add: bind_tx_fst split: prod.split sum.split)

section \<open>What the three primitives keep, every operation keeps\<close>

locale owner_guard =
  fixes P :: "owner \<Rightarrow> bool"
  assumes views: "P w \<Longrightarrow> P (w\<lparr>ow_views := vs\<rparr>)"
    and allocations: "P w \<Longrightarrow> P (w\<lparr>ow_allocations := as\<rparr>)"
    and cycle: "P w \<Longrightarrow> P (w\<lparr>ow_cycle_freeze_only := b\<rparr>)"
    and publication: "P w \<Longrightarrow> P (w\<lparr>ow_freeze_publication_failed := True\<rparr>)"
    and persisted: "P w \<Longrightarrow> P (fst (owner_persist w))"

sublocale owner_guard \<subseteq> guarded "maker_view k" P for k
proof
  show "P w \<Longrightarrow> P (cu_set_view (maker_view k) v w)" for w v
    by (simp add: put_view_def views)
  show "P w \<Longrightarrow> P (fst (cu_persist (maker_view k) w))" for w
    by (simp add: persisted)
  show "cu_allocate (maker_view k) rec key f w = (n, w') \<Longrightarrow> P w \<Longrightarrow> P w'" for rec key f w n w'
    by (auto simp: owner_allocate_def Let_def intro: allocations)
qed

context owner_guard
begin

lemma guard_restore: "P w \<Longrightarrow> P (owner_restore sn w)"
  by (simp add: owner_restore_def views allocations cycle)

lemma guard_put: "P w \<Longrightarrow> P (put_view k v w)"
  by (simp add: put_view_def views)

lemma guard_set_freezes: "P w \<Longrightarrow> P (snd (set_freezes reason ks w))"
  by (induction ks arbitrary: w) (simp_all add: set_freeze_def guard_put)

lemma guard_fold: "P w \<Longrightarrow> (\<And>k w. P w \<Longrightarrow> P (f k w)) \<Longrightarrow> P (fold f ks w)"
  by (induction ks arbitrary: w) simp_all

lemma guard_freeze_external: "P w \<Longrightarrow> P (fst (freeze_external reason ks w))"
proof -
  assume "P w"
  then have r: "P (revoke_views ks w)" unfolding revoke_views_def by (intro guard_fold guard_put)
  obtain b w1 where s: "set_freezes reason ks (revoke_views ks w) = (b, w1)" by fastforce
  then have "P w1" using guard_set_freezes [OF r, of reason ks] by simp
  then have c: "P (w1\<lparr>ow_cycle_freeze_only := False\<rparr>)" by (rule cycle)
  obtain w3 r3 where p: "owner_persist (w1\<lparr>ow_cycle_freeze_only := False\<rparr>) = (w3, r3)" by fastforce
  then have "P w3" using persisted [OF c] by simp
  with \<open>P w\<close> c show ?thesis
    by (cases r3) (simp_all add: freeze_external_def s p publication Let_def)
qed

lemma guard_clear:
  assumes "P w"
  shows "P (fst (clear_source_freezes w))"
proof -
  have "P (fst (bind_tx owner_persist (\<lambda>_. ret_tx True)
      ((fold (set_freeze None) ks w)\<lparr>ow_cycle_freeze_only := False\<rparr>)))" for ks
    unfolding bind_ret_fst set_freeze_def by (intro persisted cycle guard_fold guard_put assms)
  then show ?thesis using assms unfolding clear_source_freezes_def Let_def by simp
qed

lemma guard_maker_clear: "P w \<Longrightarrow> P (fst (maker_clear_source_freeze w))"
  using guard_clear [of w] unfolding maker_clear_source_freeze_def
  by (cases "clear_source_freezes w") (auto simp: bind_tx_fst split: sum.split)

lemma guard_release: "P w \<Longrightarrow> P (fst (release_completed_cycle w))"
  using guard_clear [of w] by (simp add: release_completed_cycle_def)

lemma guard_maker_reserve:
  assumes "P w"
  shows "P (fst (maker_reserve_source_fill k digest key cid trade side f w))"
proof -
  define w1 where "w1 = snd (set_freezes (fill_freeze_reason cid trade) (view_keys (ow_config w)) (claim_cycle_freeze w))"
  have "P (claim_cycle_freeze w)" using assms cycle by (simp add: claim_cycle_freeze_def Let_def)
  then have "P w1" unfolding w1_def by (rule guard_set_freezes)
  obtain w2 r where s: "reserve_source_fill (maker_view k) digest key cid trade side f w1 = (w2, r)" by fastforce
  then have "P w2" using leaves_reserve [OF \<open>P w1\<close>, of k digest key cid trade side f] by (simp add: leaves_def)
  then show ?thesis
    using assms s guard_restore
    by (cases r) (simp_all add: maker_reserve_source_fill_def w1_def [symmetric] Let_def)
qed

lemma run_owner_op_guarded:
  assumes "P w"
  shows "P (run_owner_op digest op w)"
proof (cases op)
  case (ViewOp k sop)
  have "P (run_view_op k digest sop w)"
    using run_op_guarded [OF assms, of k digest sop] guard_freeze_external [OF assms] guard_maker_clear [OF assms]
      guard_maker_reserve [OF assms]
    by (cases sop) (simp_all add: maker_freeze_source_submissions_def)
  with assms ViewOp show ?thesis by simp
qed (use assms guard_freeze_external guard_clear guard_release in \<open>simp_all add: freeze_sources_def\<close>)

lemma reachable_guarded:
  assumes "owner_reachable cfg digest w"
    "\<And>lf mf content answers w. open_owner cfg lf mf content answers = Inr w \<Longrightarrow> P w"
  shows "P w"
  using assms by (induction rule: owner_reachable.induct) (auto intro: run_owner_op_guarded)

end

section \<open>The file of the owner\<close>

definition file_bound :: "owner_config \<Rightarrow> owner \<Rightarrow> bool" where
  "file_bound cfg w \<longleftrightarrow> ow_config w = cfg \<and> check_owner_config cfg = Inr () \<and> validate cfg (ow_committed w) = Inr () \<and>
    (ow_file w = Some (ow_committed w) \<or> ow_file w = None \<and> ow_committed w = empty_snapshot)"

interpretation bound: owner_guard "file_bound cfg" for cfg
proof
  fix w assume b: "file_bound cfg w"
  show "file_bound cfg (fst (owner_persist w))"
    by (cases rule: owner_persist_cases [of w]) (use b in \<open>auto simp: file_bound_def\<close>)
qed (simp_all add: file_bound_def)

lemma open_owner_bound: "open_owner cfg lf mf content answers = Inr w \<Longrightarrow> file_bound cfg w \<and> owner_snapshot w = ow_committed w
    \<and> \<not> ow_freeze_publication_failed w"
  by (auto simp: open_owner_def bindE_Inr_iff file_bound_def owner_snapshot_def Let_def split: if_splits option.splits)

text \<open>C17: whatever operations, write failures and restarts an owner goes through, its file holds a snapshot
  that passes the full validation, the last committed one, so the next start never refuses it and
  resumes from exactly that snapshot.\<close>

theorem owner_file_always_restarts:
  assumes "owner_reachable cfg digest w" "ow_file w \<noteq> None"
  shows "validate cfg (the (ow_file w)) = Inr () \<and>
    (\<exists>w'. open_owner cfg legacy_files maker_file (ow_file w) answers = Inr w' \<and>
      owner_snapshot w' = ow_committed w \<and> ow_committed w' = ow_committed w \<and> ow_file w' = ow_file w)"
proof -
  have "file_bound cfg w"
    using assms(1) by (rule bound.reachable_guarded) (simp add: open_owner_bound)
  with assms(2) show ?thesis
    by (auto simp: file_bound_def open_owner_def owner_snapshot_def Let_def)
qed

theorem owner_file_always_restarts_witness:
  "validate ex_cfg (the (ow_file ex_owner)) = Inr () \<and>
    (\<exists>w'. open_owner ex_cfg False False (ow_file ex_owner) [] = Inr w' \<and>
      owner_snapshot w' = ow_committed ex_owner \<and> ow_committed w' = ow_committed ex_owner \<and> ow_file w' = ow_file ex_owner)"
  by (rule owner_file_always_restarts [OF owner_reachable.opened [OF ex_owner_opened, of id]]) (simp add: ex_owner_def)

end
