(* ===== verification/Maker_Ledger.thy ===== *)
theory Maker_Ledger
  imports Maker_Runs "HOL-Library.Multiset"
begin

text \<open>
  What a snapshot that passes the owner's validation is: identities are unique across the views,
  the ordered allocations and the legacy checkpoint account for every fill and every obligation exactly
  once, and replaying them gives balances of at most half an ounce.
\<close>

section \<open>Dictionaries built from pairs\<close>

lemma dict_of_distinct: "distinct (map fst ps) \<Longrightarrow> dict_of ps = ps"
proof -
  have "distinct (map fst (d @ ps)) \<Longrightarrow> fold (\<lambda>(k, v). dict_set k v) ps d = d @ ps" for d
  proof (induction ps arbitrary: d)
    case (Cons p ps)
    obtain k v where p: "p = (k, v)" by (cases p)
    with Cons.prems have "dict_set k v d = d @ [(k, v)]" by (intro dict_set_fresh) auto
    with Cons.IH [of "d @ [(k, v)]"] Cons.prems p show ?case by simp
  qed simp
  from this [of "[]"] show "distinct (map fst ps) \<Longrightarrow> dict_of ps = ps" by (simp add: dict_of_def)
qed

lemma dict_of_keys: "dict_keys (dict_of ps) = fst ` set ps" and dict_of_unique: "distinct (map fst (dict_of ps))"
proof -
  have k: "dict_keys (fold (\<lambda>(k, v). dict_set k v) ps d) = dict_keys d \<union> fst ` set ps" for d
  proof (induction ps arbitrary: d)
    case (Cons p ps)
    show ?case using Cons.IH [of "dict_set (fst p) (snd p) d"] by (simp only: dict_set_keys) (simp add: case_prod_unfold)
  qed simp
  have u: "distinct (map fst d) \<Longrightarrow> distinct (map fst (fold (\<lambda>(k, v). dict_set k v) ps d))" for d
    by (induction ps arbitrary: d) auto
  show "dict_keys (dict_of ps) = fst ` set ps" using k [of "[]"] by (simp add: dict_of_def)
  show "distinct (map fst (dict_of ps))" using u [of "[]"] by (simp add: dict_of_def)
qed

lemma dict_of_subset: "set (dict_of ps) \<subseteq> set ps"
proof -
  have "set (fold (\<lambda>(k, v). dict_set k v) ps d) \<subseteq> set d \<union> set ps" for d
  proof (induction ps arbitrary: d)
    case (Cons p ps)
    obtain k v where p: "p = (k, v)" by (cases p)
    show ?case using Cons.IH [of "dict_set k v d"] set_dict_set_subset [of k v d] by (auto simp: p)
  qed simp
  from this [of "[]"] show ?thesis by (simp add: dict_of_def)
qed

text \<open>No binding is lost exactly when the keys are distinct.\<close>

lemma dict_of_length: "length (dict_of ps) = length ps \<longleftrightarrow> distinct (map fst ps)"
proof
  assume l: "length (dict_of ps) = length ps"
  have "card (set (map fst ps)) = card (set (map fst (dict_of ps)))" using dict_of_keys [of ps] by simp
  also have "\<dots> = length (map fst (dict_of ps))" using dict_of_unique by (rule distinct_card)
  finally show "distinct (map fst ps)" using l by (intro card_distinct) simp
qed (simp add: dict_of_distinct)

text \<open>Summing over keys that include those of a dictionary.\<close>

lemma sum_over_keys:
  fixes f :: "'v \<Rightarrow> 'a::comm_monoid_add"
  assumes "distinct (map fst d)" "distinct ks" "dict_keys d \<subseteq> set ks"
  shows "sum_list (map (\<lambda>k. case dict_get d k of None \<Rightarrow> 0 | Some v \<Rightarrow> f v) ks) = sum_list (map (f \<circ> snd) d)"
proof -
  let ?g = "\<lambda>k. case dict_get d k of None \<Rightarrow> 0 | Some v \<Rightarrow> f v"
  have none: "dict_get d k = None" if "k \<notin> dict_keys d" for k using that by (simp add: map_of_eq_None_iff)
  have "sum_list (map ?g ks) = sum ?g (set ks)" using assms(2) by (simp add: sum_list_distinct_conv_sum_set)
  also have "\<dots> = sum ?g (dict_keys d)"
    by (rule sum.mono_neutral_right) (use assms(3) none in auto)
  also have "\<dots> = sum_list (map ?g (map fst d))"
    using sum_list_distinct_conv_sum_set [OF assms(1), of ?g] by simp
  also have "map ?g (map fst d) = map (f \<circ> snd) d"
    using assms(1) by (auto simp: map_of_is_SomeI intro!: map_cong)
  finally show ?thesis .
qed

section \<open>Folds that may refuse\<close>

lemma foldE_Cons_Inr: "foldE f (x # xs) s = Inr t \<longleftrightarrow> (\<exists>u. f x s = Inr u \<and> foldE f xs u = Inr t)"
  by (simp add: bindE_Inr_iff)

section \<open>The replay\<close>

definition balance_of :: "(route \<times> rat) list \<Rightarrow> route \<Rightarrow> rat" where
  "balance_of d route = (case dict_get d route of None \<Rightarrow> 0 | Some b \<Rightarrow> b)"

definition total_of :: "(string \<times> rat) list \<Rightarrow> string \<Rightarrow> rat" where
  "total_of d cid = (case dict_get d cid of None \<Rightarrow> 0 | Some t \<Rightarrow> t)"

definition item_order :: "allocation \<Rightarrow> string" where
  "item_order item = hd (split_bar (al_fill_key item))"

definition intent_matches :: "allocation \<Rightarrow> hedge_intent option \<Rightarrow> bool" where
  "intent_matches item io \<longleftrightarrow>
    (if al_allocated_ounces item = 0 then io = None
     else \<exists>i. io = Some i \<and> hi_hedge_quantity_ounces i = dabs (al_allocated_ounces item) \<and>
       hi_source_fill_ounces i = dabs (al_signed_fill_ounces item) \<and>
       (hi_hedge_side i = SELL \<longleftrightarrow> 0 < al_allocated_ounces item))"

definition replay_ok :: "string set \<Rightarrow> (string \<times> source_order_record) list \<Rightarrow> allocation \<Rightarrow> replay \<Rightarrow> bool" where
  "replay_ok seen records item rp \<longleftrightarrow> al_fill_key item \<in> seen \<and> al_fill_key item \<notin> rp_fills rp \<and>
    (\<exists>rec. dict_get records (item_order item) = Some rec \<and> al_signed_fill_ounces item \<noteq> 0 \<and>
      (0 < al_signed_fill_ounces item \<longleftrightarrow> so_side rec = BUY) \<and> al_route item = route_of rec) \<and>
    al_allocated_ounces item =
      of_int (round_hedge_ounces (dadd (balance_of (rp_balances rp) (al_route item)) (al_signed_fill_ounces item))) \<and>
    intent_matches item (dict_get (rp_intents rp) (al_fill_key item))"

definition replayed :: "allocation \<Rightarrow> replay \<Rightarrow> replay" where
  "replayed item rp = rp\<lparr>rp_fills := insert (al_fill_key item) (rp_fills rp),
     rp_balances := dict_set (al_route item) (dsub (dadd (balance_of (rp_balances rp) (al_route item))
       (al_signed_fill_ounces item)) (al_allocated_ounces item)) (rp_balances rp),
     rp_totals := dict_set (item_order item) (dadd (total_of (rp_totals rp) (item_order item))
       (dabs (al_signed_fill_ounces item))) (rp_totals rp),
     rp_intents := AList.delete (al_fill_key item) (rp_intents rp)\<rparr>"

lemma replay_allocation_Inr:
  "replay_allocation seen records item rp = Inr rp' \<longleftrightarrow> replay_ok seen records item rp \<and> rp' = replayed item rp"
  unfolding replay_allocation_def replay_ok_def replayed_def balance_of_def total_of_def item_order_def
    intent_matches_def Let_def
  by (auto simp: bindE_Inr_iff split: option.splits if_splits)

text \<open>Fills, totals and intents of a whole replay.\<close>

abbreviation item_keys :: "allocation list \<Rightarrow> string list" where
  "item_keys items \<equiv> map al_fill_key items"

lemma replay_keys:
  assumes "foldE (replay_allocation seen records) items rp = Inr rp'"
  shows "distinct (item_keys items) \<and> set (item_keys items) \<subseteq> seen \<and>
    set (item_keys items) \<inter> rp_fills rp = {} \<and> rp_fills rp' = rp_fills rp \<union> set (item_keys items) \<and>
    rp_intents rp' = filter (\<lambda>(k, _). k \<notin> set (item_keys items)) (rp_intents rp) \<and>
    (\<forall>item \<in> set items. intent_matches item (dict_get (rp_intents rp) (al_fill_key item)) \<and>
      (\<exists>rec. dict_get records (item_order item) = Some rec \<and> al_signed_fill_ounces item \<noteq> 0 \<and>
        (0 < al_signed_fill_ounces item \<longleftrightarrow> so_side rec = BUY) \<and> al_route item = route_of rec))"
  using assms
proof (induction items arbitrary: rp)
  case (Cons item items)
  from Cons.prems have ok: "replay_ok seen records item rp"
    and rest: "foldE (replay_allocation seen records) items (replayed item rp) = Inr rp'"
    by (auto simp only: foldE_Cons_Inr replay_allocation_Inr)
  note IH = Cons.IH [OF rest]
  have del: "dict_get (rp_intents (replayed item rp)) (al_fill_key x) = dict_get (rp_intents rp) (al_fill_key x)"
    if "x \<in> set items" for x
  proof -
    have "al_fill_key x \<in> set (item_keys items)" using that by simp
    moreover have "al_fill_key item \<notin> set (item_keys items)" using IH by (simp add: replayed_def)
    ultimately have "al_fill_key x \<noteq> al_fill_key item" by metis
    then show ?thesis by (simp add: replayed_def delete_conv')
  qed
  have "rp_intents rp' = filter (\<lambda>(k, _). k \<notin> set (item_keys (item # items))) (rp_intents rp)"
    using IH by (auto simp: replayed_def AList.delete_eq intro!: filter_cong)
  with IH ok del show ?case by (auto simp: replay_ok_def replayed_def)
qed simp

text \<open>Balances: with exact amounts every step is exact, and no balance exceeds half an ounce.\<close>

definition exact_item :: "allocation \<Rightarrow> bool" where
  "exact_item item \<longleftrightarrow> on_grid (al_signed_fill_ounces item) \<and> \<bar>al_signed_fill_ounces item\<bar> < 4000000"

definition small_balances :: "(route \<times> rat) list \<Rightarrow> bool" where
  "small_balances d \<longleftrightarrow> distinct (map fst d) \<and> (\<forall>(_, b) \<in> set d. on_grid b \<and> \<bar>b\<bar> \<le> 1/2)"

abbreviation net_item :: "allocation \<Rightarrow> rat" where
  "net_item item \<equiv> al_signed_fill_ounces item - al_allocated_ounces item"

lemma small_balance_of: "small_balances d \<Longrightarrow> on_grid (balance_of d r) \<and> \<bar>balance_of d r\<bar> \<le> 1/2"
  by (auto simp: small_balances_def balance_of_def split: option.split dest!: map_of_SomeD)

lemma balance_step:
  assumes d: "small_balances d" and i: "exact_item item"
    and a: "al_allocated_ounces item =
      of_int (round_hedge_ounces (dadd (balance_of d r) (al_signed_fill_ounces item)))"
  defines "d' \<equiv> dict_set r (dsub (dadd (balance_of d r) (al_signed_fill_ounces item)) (al_allocated_ounces item)) d"
  shows "small_balances d'" and "balance_of d' r' = balance_of d r' + (if r' = r then net_item item else 0)"
    and "sum_list (map (id \<circ> snd) d') = sum_list (map (id \<circ> snd) d) + net_item item"
    and "on_grid (al_allocated_ounces item)" "\<bar>al_allocated_ounces item\<bar> < 4194305"
proof -
  let ?b = "balance_of d r" and ?f = "al_signed_fill_ounces item"
  have b: "on_grid ?b" "\<bar>?b\<bar> \<le> 1/2" and f: "on_grid ?f" "\<bar>?f\<bar> < 4000000"
    using small_balance_of [OF d] i by (auto simp: exact_item_def)
  then have l: "\<bar>?b + ?f\<bar> < 4194304" by linarith
  note ex = allocate_exact [OF b(1) f(1) l]
  have v: "dsub (dadd ?b ?f) (al_allocated_ounces item) = ?b + net_item item"
    and n: "al_allocated_ounces item = of_int (rhe (?b + ?f))"
    using ex(1) a by (auto simp: allocate_fill_def Let_def)
  show "on_grid (al_allocated_ounces item)" unfolding n by simp
  have e: "on_grid (?b + net_item item)" "\<bar>?b + net_item item\<bar> \<le> 1/2" using ex(2,3) n by (simp_all add: add_diff_eq)
  show "\<bar>al_allocated_ounces item\<bar> < 4194305" using e(2) l by linarith
  show "small_balances d'"
    using d e set_dict_set_subset [of r "?b + net_item item" d] unfolding d'_def v small_balances_def
    by (auto dest!: subsetD)
  show "balance_of d' r' = balance_of d r' + (if r' = r then net_item item else 0)"
    unfolding d'_def v by (simp add: balance_of_def)
  show "sum_list (map (id \<circ> snd) d') = sum_list (map (id \<circ> snd) d) + net_item item"
  proof (cases "dict_get d r")
    case None
    then have "r \<notin> dict_keys d" by (simp add: map_of_eq_None_iff)
    from sum_dict_fresh [OF this, where f = id] None show ?thesis
      unfolding d'_def v by (simp add: balance_of_def)
  next
    case (Some b)
    from sum_dict_replace [OF this, where f = id] Some show ?thesis
      unfolding d'_def v by (simp add: balance_of_def)
  qed
qed

lemma replay_balances:
  assumes "foldE (replay_allocation seen records) items rp = Inr rp'"
    "small_balances (rp_balances rp)" "\<forall>item \<in> set items. exact_item item"
  shows "small_balances (rp_balances rp') \<and>
    balance_of (rp_balances rp') r = balance_of (rp_balances rp) r +
      sum_list (map net_item (filter (\<lambda>item. al_route item = r) items)) \<and>
    sum_list (map (id \<circ> snd) (rp_balances rp')) = sum_list (map (id \<circ> snd) (rp_balances rp)) +
      sum_list (map net_item items) \<and>
    (\<forall>item \<in> set items. on_grid (al_allocated_ounces item) \<and> \<bar>al_allocated_ounces item\<bar> < 4194305)"
  using assms
proof (induction items arbitrary: rp)
  case (Cons item items)
  from Cons.prems(1) have ok: "replay_ok seen records item rp"
    and rest: "foldE (replay_allocation seen records) items (replayed item rp) = Inr rp'"
    by (auto simp only: foldE_Cons_Inr replay_allocation_Inr)
  have a: "al_allocated_ounces item = of_int (round_hedge_ounces (dadd (balance_of (rp_balances rp) (al_route item))
      (al_signed_fill_ounces item)))" using ok by (simp add: replay_ok_def)
  note st = balance_step [OF Cons.prems(2) _ a]
  have i: "exact_item item" using Cons.prems(3) by simp
  have rb: "rp_balances (replayed item rp) = dict_set (al_route item) (dsub (dadd (balance_of (rp_balances rp) (al_route item))
       (al_signed_fill_ounces item)) (al_allocated_ounces item)) (rp_balances rp)" by (simp add: replayed_def)
  note IH = Cons.IH [OF rest, unfolded rb, OF st(1) [OF i]]
  show ?case using IH st(2-5) [OF i] Cons.prems(3) by simp
qed simp

text \<open>Totals: the filled amount of an order is the sum of its allocations.\<close>

lemma replay_totals:
  assumes "foldE (replay_allocation seen records) items rp = Inr rp'"
    "\<forall>item \<in> set items. exact_item item"
    "\<forall>cid. on_grid (total_of (rp_totals rp) cid) \<and> 0 \<le> total_of (rp_totals rp) cid \<and>
      total_of (rp_totals rp) cid + 4000000 * of_nat (length items) < 10 ^ 18"
  shows "total_of (rp_totals rp') cid = total_of (rp_totals rp) cid +
    sum_list (map (\<lambda>item. \<bar>al_signed_fill_ounces item\<bar>) (filter (\<lambda>item. item_order item = cid) items))"
  using assms
proof (induction items arbitrary: rp)
  case (Cons item items)
  from Cons.prems(1) have rest: "foldE (replay_allocation seen records) items (replayed item rp) = Inr rp'"
    by (auto simp only: foldE_Cons_Inr replay_allocation_Inr)
  let ?t = "total_of (rp_totals rp)" and ?f = "al_signed_fill_ounces item"
  have f: "on_grid ?f" "\<bar>?f\<bar> < 4000000" using Cons.prems(2) by (auto simp: exact_item_def)
  have t: "on_grid (?t c)" "0 \<le> ?t c" "?t c + 4000000 * of_nat (length items) + 4000000 < 10 ^ 18" for c
    using Cons.prems(3) by (auto simp: algebra_simps)
  have n: "(0::rat) \<le> 4000000 * of_nat (length items)" by simp
  have ab: "dabs ?f = \<bar>?f\<bar>" using f by (intro dabs_exact) auto
  have "\<bar>?t c + \<bar>?f\<bar>\<bar> < 10 ^ 19" for c
  proof -
    have "?t c < 10 ^ 18" using t(3) [of c] n by linarith
    with t(2) [of c] f(2) have "\<bar>?t c + \<bar>?f\<bar>\<bar> < 10 ^ 18 + 4000000" by linarith
    then show ?thesis by simp
  qed
  then have ad: "dadd (?t c) \<bar>?f\<bar> = ?t c + \<bar>?f\<bar>" for c using t f by (intro dadd_exact) auto
  have tot: "total_of (rp_totals (replayed item rp)) c = ?t c + (if c = item_order item then \<bar>?f\<bar> else 0)" for c
    by (auto simp: replayed_def total_of_def ab ad [unfolded total_of_def])
  have "\<forall>c. on_grid (total_of (rp_totals (replayed item rp)) c) \<and> 0 \<le> total_of (rp_totals (replayed item rp)) c \<and>
      total_of (rp_totals (replayed item rp)) c + 4000000 * of_nat (length items) < 10 ^ 18"
  proof
    fix c
    show "on_grid (total_of (rp_totals (replayed item rp)) c) \<and> 0 \<le> total_of (rp_totals (replayed item rp)) c \<and>
      total_of (rp_totals (replayed item rp)) c + 4000000 * of_nat (length items) < 10 ^ 18"
      unfolding tot using t [of c] f by auto
  qed
  from Cons.IH [OF rest _ this] Cons.prems(2) tot show ?case by simp
qed simp

section \<open>Identities\<close>

lemma orders_validated:
  assumes "foldE (validate_order k) orders ids = Inr ids'"
  shows "distinct (map fst orders) \<and> fst ` set orders \<inter> id_sources ids = {} \<and>
    ids' = ids\<lparr>id_sources := id_sources ids \<union> fst ` set orders\<rparr> \<and>
    (\<forall>(key, rec) \<in> set orders. key = so_client_order_id rec \<and> key \<noteq> [] \<and> view_side k \<in> {None, Some (so_side rec)})"
  using assms
proof (induction orders arbitrary: ids)
  case (Cons e orders)
  obtain key rec where e: "e = (key, rec)" by (cases e)
  from Cons.prems e have ok: "key = so_client_order_id rec" "key \<noteq> []" "key \<notin> id_sources ids"
      "view_side k \<in> {None, Some (so_side rec)}"
    and rest: "foldE (validate_order k) orders (ids\<lparr>id_sources := insert key (id_sources ids)\<rparr>) = Inr ids'"
    by (auto simp: validate_order_def split: if_splits)
  from Cons.IH [OF rest] ok e show ?case by auto
qed simp

definition intent_bound :: "view_key \<Rightarrow> store_state \<Rightarrow> string \<Rightarrow> hedge_intent \<Rightarrow> bool" where
  "intent_bound k s key i \<longleftrightarrow> key = hi_intent_id i \<and> view_side k \<in> {None, Some (hi_source_side i)} \<and>
    hi_fill_key i \<in> ss_seen_source_fills s \<and>
    (\<exists>rec. dict_get (ss_source_orders s) (hi_source_client_order_id i) = Some rec \<and> hi_source_side i = so_side rec) \<and>
    split_bar (hi_fill_key i) ! 0 = hi_source_client_order_id i \<and> split_bar (hi_fill_key i) ! 2 = hi_source_trade_id i"

abbreviation disjoint_orders :: "hedge_intent list \<Rightarrow> bool" where
  "disjoint_orders \<equiv> sorted_wrt (\<lambda>i j. intent_order_ids i \<inter> intent_order_ids j = {})"

lemma validate_intent_Inr:
  "validate_intent k s (key, i) (ids, accounts) = Inr (ids', accounts') \<Longrightarrow>
    intent_bound k s key i \<and> key \<notin> id_intents ids \<and> id_hedges ids \<inter> intent_order_ids i = {} \<and>
    ids' = ids\<lparr>id_intents := insert key (id_intents ids), id_hedges := id_hedges ids \<union> intent_order_ids i\<rparr>"
  unfolding validate_intent_def intent_bound_def
  by (cases "dict_get (ss_source_orders s) (hi_source_client_order_id i)") (auto split: if_splits)

lemma intents_validated:
  assumes "foldE (validate_intent k s) intents (ids, accounts) = Inr (ids', accounts')"
  shows "distinct (map fst intents) \<and> fst ` set intents \<inter> id_intents ids = {} \<and>
    disjoint_orders (map snd intents) \<and>
    (\<forall>(key, i) \<in> set intents. intent_bound k s key i \<and> id_hedges ids \<inter> intent_order_ids i = {}) \<and>
    ids' = ids\<lparr>id_intents := id_intents ids \<union> fst ` set intents,
      id_hedges := id_hedges ids \<union> (\<Union>i \<in> snd ` set intents. intent_order_ids i)\<rparr>"
  using assms
proof (induction intents arbitrary: ids accounts)
  case (Cons e intents)
  obtain key i where e: "e = (key, i)" by (cases e)
  from Cons.prems obtain ids1 accounts1
    where one: "validate_intent k s (key, i) (ids, accounts) = Inr (ids1, accounts1)"
    and rest: "foldE (validate_intent k s) intents (ids1, accounts1) = Inr (ids', accounts')"
    unfolding e foldE_Cons_Inr by auto
  note v = validate_intent_Inr [OF one]
  note IH = Cons.IH [OF rest]
  have d: "\<forall>j \<in> snd ` set intents. intent_order_ids i \<inter> intent_order_ids j = {}"
    using IH v by fastforce
  have a: "\<forall>(key, i) \<in> set intents. intent_bound k s key i \<and> id_hedges ids \<inter> intent_order_ids i = {}"
    using IH v by fastforce
  have f: "key \<notin> fst ` set intents" "fst ` set intents \<inter> id_intents ids = {}" using IH v by auto
  have u: "ids' = ids\<lparr>id_intents := id_intents ids \<union> fst ` set (e # intents),
      id_hedges := id_hedges ids \<union> (\<Union>i \<in> snd ` set (e # intents). intent_order_ids i)\<rparr>"
    using IH v e by (simp add: Un_assoc insert_commute)
  show ?case using IH v d a f u e by simp
qed simp

text \<open>What one view contributes.\<close>

lemma view_validated:
  assumes "validate_view sn k ids = Inr ids'"
  defines "s \<equiv> sn_states sn k"
  shows "ss_net_unhedged_ounces s = 0"
    and "distinct (map fst (ss_source_orders s))" "dict_keys (ss_source_orders s) \<inter> id_sources ids = {}"
    and "\<forall>(key, rec) \<in> set (ss_source_orders s). key = so_client_order_id rec \<and> view_side k \<in> {None, Some (so_side rec)}"
    and "ss_seen_source_fills s \<inter> id_fill_keys ids = {}" "\<forall>key \<in> ss_seen_source_fills s. source_fill_key_ok s key"
    and "distinct (map fst (ss_hedge_intents s))" "dict_keys (ss_hedge_intents s) \<inter> id_intents ids = {}"
    and "disjoint_orders (state_intents s)"
    and "\<forall>(key, i) \<in> set (ss_hedge_intents s). intent_bound k s key i \<and> id_hedges ids \<inter> intent_order_ids i = {}"
    and "id_sources ids' = id_sources ids \<union> dict_keys (ss_source_orders s)"
    and "id_fill_keys ids' = id_fill_keys ids \<union> ss_seen_source_fills s"
    and "id_intents ids' = id_intents ids \<union> dict_keys (ss_hedge_intents s)"
    and "id_hedges ids' = id_hedges ids \<union> (\<Union>i \<in> set (state_intents s). intent_order_ids i)"
proof -
  from assms obtain ids1 ids2 where net: "ss_net_unhedged_ounces s = 0"
    and o: "foldE (validate_order k) (ss_source_orders s) ids = Inr ids1"
    and d: "id_fill_keys ids1 \<inter> ss_seen_source_fills s = {}"
    and f: "validate_source_fills s (ids1\<lparr>id_fill_keys := id_fill_keys ids1 \<union> ss_seen_source_fills s,
             id_hedge_fill_keys := id_hedge_fill_keys ids1 \<union> ss_seen_hedge_fills s\<rparr>) = Inr ids2"
    and rest: "bindE (foldE (validate_intent k s) (ss_hedge_intents s) (ids2, [])) (validate_hedge_fills s) = Inr ids'"
    unfolding validate_view_def s_def validate_orders_def validate_intents_def Let_def
    by (auto simp: bindE_Inr_iff split: if_splits)
  from rest obtain ids3 accounts where i: "foldE (validate_intent k s) (ss_hedge_intents s) (ids2, []) = Inr (ids3, accounts)"
    and h: "validate_hedge_fills s (ids3, accounts) = Inr ids'"
    by (auto simp only: bindE_Inr_iff split_paired_Ex)
  note o' = orders_validated [OF o] and i' = intents_validated [OF i]
  have f': "\<forall>key \<in> ss_seen_source_fills s. source_fill_key_ok s key" "id_sources ids2 = id_sources ids1"
      "id_fill_keys ids2 = id_fill_keys ids1 \<union> ss_seen_source_fills s" "id_intents ids2 = id_intents ids1"
      "id_hedges ids2 = id_hedges ids1"
    using f by (auto simp: validate_source_fills_def Let_def split: if_splits)
  have h': "id_sources ids' = id_sources ids3" "id_fill_keys ids' = id_fill_keys ids3" "id_intents ids' = id_intents ids3"
      "id_hedges ids' = id_hedges ids3"
    using h by (auto simp: validate_hedge_fills_def Let_def split: if_splits)
  show "ss_net_unhedged_ounces s = 0" by (rule net)
  show "distinct (map fst (ss_source_orders s))" "dict_keys (ss_source_orders s) \<inter> id_sources ids = {}"
    "\<forall>(key, rec) \<in> set (ss_source_orders s). key = so_client_order_id rec \<and> view_side k \<in> {None, Some (so_side rec)}"
    using o' by auto
  show "ss_seen_source_fills s \<inter> id_fill_keys ids = {}" using d o' by auto
  show "\<forall>key \<in> ss_seen_source_fills s. source_fill_key_ok s key" by (rule f')
  show "distinct (map fst (ss_hedge_intents s))" "dict_keys (ss_hedge_intents s) \<inter> id_intents ids = {}"
    using i' f' o' by auto
  show "disjoint_orders (state_intents s)" using i' by (simp add: state_intents_def)
  show "\<forall>(key, i) \<in> set (ss_hedge_intents s). intent_bound k s key i \<and> id_hedges ids \<inter> intent_order_ids i = {}"
    using i' f' o' by auto
  show "id_sources ids' = id_sources ids \<union> dict_keys (ss_source_orders s)"
    "id_fill_keys ids' = id_fill_keys ids \<union> ss_seen_source_fills s"
    "id_intents ids' = id_intents ids \<union> dict_keys (ss_hedge_intents s)"
    "id_hedges ids' = id_hedges ids \<union> (\<Union>i \<in> set (state_intents s). intent_order_ids i)"
    using h' i' f' o' by (simp_all add: state_intents_def)
qed

text \<open>Uniqueness over a list of views.\<close>

abbreviation orders_of :: "snapshot \<Rightarrow> view_key list \<Rightarrow> (string \<times> source_order_record) list" where
  "orders_of sn ks \<equiv> concat (map (\<lambda>k. ss_source_orders (sn_states sn k)) ks)"

abbreviation intents_of :: "snapshot \<Rightarrow> view_key list \<Rightarrow> hedge_intent list" where
  "intents_of sn ks \<equiv> concat (map (\<lambda>k. state_intents (sn_states sn k)) ks)"

lemma views_validated:
  assumes "foldE (validate_view sn) ks ids = Inr ids'"
  shows "distinct (map fst (orders_of sn ks)) \<and> fst ` set (orders_of sn ks) \<inter> id_sources ids = {} \<and>
    distinct (map hi_intent_id (intents_of sn ks)) \<and> hi_intent_id ` set (intents_of sn ks) \<inter> id_intents ids = {} \<and>
    disjoint_orders (intents_of sn ks) \<and> (\<forall>i \<in> set (intents_of sn ks). intent_order_ids i \<inter> id_hedges ids = {}) \<and>
    id_sources ids' = id_sources ids \<union> fst ` set (orders_of sn ks) \<and>
    id_hedges ids' = id_hedges ids \<union> (\<Union>i \<in> set (intents_of sn ks). intent_order_ids i) \<and>
    (\<forall>k \<in> set ks. \<exists>ids ids'. validate_view sn k ids = Inr ids')"
  using assms
proof (induction ks arbitrary: ids)
  case (Cons k ks)
  from Cons.prems obtain ids1 where one: "validate_view sn k ids = Inr ids1"
    and rest: "foldE (validate_view sn) ks ids1 = Inr ids'" by (auto simp only: foldE_Cons_Inr)
  note v = view_validated [OF one] and IH = Cons.IH [OF rest]
  note I1 = conjunct1 [OF IH] and J1 = conjunct2 [OF IH]
  note I2 = conjunct1 [OF J1] and J2 = conjunct2 [OF J1]
  note I3 = conjunct1 [OF J2] and J3 = conjunct2 [OF J2]
  note I4 = conjunct1 [OF J3] and J4 = conjunct2 [OF J3]
  note I5 = conjunct1 [OF J4] and J5 = conjunct2 [OF J4]
  note I6 = conjunct1 [OF J5] and J6 = conjunct2 [OF J5]
  note I7 = conjunct1 [OF J6] and J7 = conjunct2 [OF J6]
  note I8 = conjunct1 [OF J7] and I9 = conjunct2 [OF J7]
  let ?s = "sn_states sn k"
  have "\<forall>e \<in> set (ss_hedge_intents ?s). fst e = hi_intent_id (snd e)" using v(10) by (auto simp: intent_bound_def)
  then have ids: "map hi_intent_id (state_intents ?s) = map fst (ss_hedge_intents ?s)"
    by (auto simp: state_intents_def)
  then have ids': "hi_intent_id ` set (state_intents ?s) = dict_keys (ss_hedge_intents ?s)"
    by (metis set_map)
  let ?A = "dict_keys (ss_source_orders ?s)" and ?B = "fst ` set (orders_of sn ks)"
  let ?C = "hi_intent_id ` set (state_intents ?s)" and ?D = "hi_intent_id ` set (intents_of sn ks)"
  have split: "fst ` set (orders_of sn (k # ks)) = ?A \<union> ?B" "hi_intent_id ` set (intents_of sn (k # ks)) = ?C \<union> ?D"
    by (simp_all add: image_Un)
  have AB: "?A \<inter> ?B = {}" using I2 [unfolded v(11)] by blast
  have CD: "?C \<inter> ?D = {}" unfolding ids' using I4 [unfolded v(13)] by blast
  have o: "distinct (map fst (orders_of sn (k # ks)))"
    using AB I1 v(2) by (simp only: list.map concat.simps map_append distinct_append set_map)
  have o': "fst ` set (orders_of sn (k # ks)) \<inter> id_sources ids = {}"
    unfolding split using I2 [unfolded v(11)] v(3) by blast
  have i: "distinct (map hi_intent_id (intents_of sn (k # ks)))"
    using CD [unfolded ids'] I3 v(7) ids by (simp only: list.map concat.simps map_append distinct_append set_map)
  have i': "hi_intent_id ` set (intents_of sn (k # ks)) \<inter> id_intents ids = {}"
    unfolding split ids' using I4 [unfolded v(13)] v(8) by blast
  have h0: "\<forall>i \<in> set (state_intents ?s). intent_order_ids i \<inter> id_hedges ids = {}"
    using v(10) by (fastforce simp: state_intents_def)
  have cross: "\<forall>x \<in> set (state_intents ?s). \<forall>y \<in> set (intents_of sn ks). intent_order_ids x \<inter> intent_order_ids y = {}"
    using I6 [unfolded v(14)] by blast
  have h: "disjoint_orders (intents_of sn (k # ks))"
    using v(9) I5 cross by (simp only: list.map concat.simps sorted_wrt_append)
  have h': "\<forall>i \<in> set (intents_of sn (k # ks)). intent_order_ids i \<inter> id_hedges ids = {}"
    using I6 [unfolded v(14)] h0 by (simp only: list.map concat.simps set_append) blast
  have "\<forall>k' \<in> set (k # ks). \<exists>ids ids'. validate_view sn k' ids = Inr ids'" using I9 one by auto
  moreover have "id_sources ids' = id_sources ids \<union> fst ` set (orders_of sn (k # ks))"
    unfolding split using I7 v(11) by blast
  moreover have "id_hedges ids' = id_hedges ids \<union> (\<Union>i \<in> set (intents_of sn (k # ks)). intent_order_ids i)"
    using I8 v(14) by auto
  ultimately show ?case using o o' i i' h h' by blast
qed simp

section \<open>A validated snapshot without a legacy checkpoint\<close>

definition fresh_replay :: "hedge_intent list \<Rightarrow> replay" where
  "fresh_replay intents = \<lparr>rp_fills = {}, rp_totals = [], rp_intents = map (\<lambda>i. (hi_fill_key i, i)) intents, rp_balances = []\<rparr>"

lemma validated_parts:
  assumes "validate cfg sn = Inr ()" "oc_legacy_orders cfg = []"
  obtains ids rp where "foldE (validate_view sn) (view_keys cfg) no_identities = Inr ids" "id_sources ids \<inter> id_hedges ids = {}"
    "distinct (map hi_fill_key (all_intents cfg sn))" "all_records cfg sn = orders_of sn (view_keys cfg)"
    "foldE (replay_allocation (all_seen cfg sn) (orders_of sn (view_keys cfg))) (sn_allocations sn)
      (fresh_replay (all_intents cfg sn)) = Inr rp"
    "rp_fills rp = all_seen cfg sn" "rp_intents rp = []"
    "\<forall>(key, rec) \<in> set (orders_of sn (view_keys cfg)). total_of (rp_totals rp) key = so_filled_ounces rec"
proof -
  from assms(1) obtain ids where v: "foldE (validate_view sn) (view_keys cfg) no_identities = Inr ids"
    and d: "id_sources ids \<inter> id_hedges ids = {}" and a: "validate_allocations cfg sn = Inr ()"
    by (auto simp: validate_def bindE_Inr_iff Let_def split: if_splits)
  have rec: "all_records cfg sn = orders_of sn (view_keys cfg)"
    unfolding all_records_def using views_validated [OF v] by (intro dict_of_distinct) simp
  have f: "distinct (map hi_fill_key (all_intents cfg sn))"
    using a dict_of_length [of "map (\<lambda>i. (hi_fill_key i, i)) (all_intents cfg sn)"]
    by (auto simp: validate_allocations_def Let_def o_def split: if_splits)
  then have ints: "dict_of (map (\<lambda>i. (hi_fill_key i, i)) (all_intents cfg sn)) = map (\<lambda>i. (hi_fill_key i, i)) (all_intents cfg sn)"
    by (intro dict_of_distinct) (simp add: o_def)
  from a obtain rp where "foldE (replay_allocation (all_seen cfg sn) (all_records cfg sn)) (sn_allocations sn)
      (fresh_replay (all_intents cfg sn)) = Inr rp"
    "rp_fills rp = all_seen cfg sn" "rp_intents rp = []"
    "\<forall>(key, rec) \<in> set (all_records cfg sn). total_of (rp_totals rp) key = so_filled_ounces rec"
    unfolding validate_allocations_def Let_def ints
    by (auto simp: bindE_Inr_iff validate_checkpoint_def assms(2) checkpoint_balances_def fresh_replay_def total_of_def
        list_ex_iff split: if_splits)
  with that [OF v d f rec] rec show thesis by simp
qed

lemma sum_by_group:
  fixes f :: "'x \<Rightarrow> 'a::comm_monoid_add"
  assumes "distinct ks" "\<forall>x \<in> set xs. g x \<in> set ks"
  shows "sum_list (map (\<lambda>k. sum_list (map f (filter (\<lambda>x. g x = k) xs))) ks) = sum_list (map f xs)"
  using assms(2)
proof (induction xs)
  case (Cons x xs)
  have one: "sum_list (map (\<lambda>k. if g x = k then f x else 0) ks) = f x" if "g x \<in> set ks"
  proof -
    have "g x \<notin> set ks \<Longrightarrow> sum_list (map (\<lambda>k. if g x = k then f x else 0) ks) = 0" for ks
      by (induction ks) auto
    with assms(1) that show ?thesis by (induction ks) auto
  qed
  have "sum_list (map (\<lambda>k. sum_list (map f (filter (\<lambda>y. g y = k) (x # xs)))) ks) =
      sum_list (map (\<lambda>k. (if g x = k then f x else 0) + sum_list (map f (filter (\<lambda>y. g y = k) xs))) ks)"
    by (intro arg_cong [where f = sum_list] map_cong) auto
  also have "\<dots> = f x + sum_list (map f xs)"
    using Cons one by (simp add: sum_list_addf)
  finally show ?case by simp
qed simp

lemma sum_concat: "sum_list (concat xss) = sum_list (map sum_list xss)"
  by (induction xss) simp_all

text \<open>What the whole allocations hand to the hedge and take from the source.\<close>

lemma not_sell: "side \<noteq> SELL \<longleftrightarrow> side = BUY"
  by (cases side) simp_all

lemma allocated_is_obliged:
  assumes "distinct (item_keys items)" "distinct (map hi_fill_key intents)"
    "set (map hi_fill_key intents) \<subseteq> set (item_keys items)"
    "\<forall>item \<in> set items. intent_matches item (dict_get (map (\<lambda>i. (hi_fill_key i, i)) intents) (al_fill_key item)) \<and>
      on_grid (al_allocated_ounces item) \<and> \<bar>al_allocated_ounces item\<bar> < 4194305"
  shows "sum_list (map al_allocated_ounces items) =
    sum_list (map (\<lambda>i. - signed (hi_hedge_side i) (hi_hedge_quantity_ounces i)) intents)"
proof -
  let ?d = "map (\<lambda>i. (hi_fill_key i, i)) intents" and ?f = "\<lambda>i. - signed (hi_hedge_side i) (hi_hedge_quantity_ounces i)"
  have "al_allocated_ounces item = (case dict_get ?d (al_fill_key item) of None \<Rightarrow> 0 | Some i \<Rightarrow> ?f i)"
    if "item \<in> set items" for item
  proof -
    have m: "intent_matches item (dict_get ?d (al_fill_key item))" "dabs (al_allocated_ounces item) = \<bar>al_allocated_ounces item\<bar>"
      using assms(4) that by (auto intro!: dabs_exact)
    show ?thesis
      using m by (cases "dict_get ?d (al_fill_key item)") (auto simp: intent_matches_def signed_def not_sell split: if_splits)
  qed
  then have "sum_list (map al_allocated_ounces items) =
      sum_list (map (\<lambda>k. case dict_get ?d k of None \<Rightarrow> 0 | Some i \<Rightarrow> ?f i) (item_keys items))"
    by (intro arg_cong [where f = sum_list]) auto
  moreover have "sum_list (map (\<lambda>k. case dict_get ?d k of None \<Rightarrow> 0 | Some i \<Rightarrow> ?f i) (item_keys items)) =
      sum_list (map (?f \<circ> snd) ?d)"
    by (rule sum_over_keys) (use assms in \<open>auto simp: o_def\<close>)
  ultimately show ?thesis by (simp add: o_def)
qed

lemma fills_are_filled:
  assumes "distinct (map fst orders)"
    "\<forall>item \<in> set items. \<exists>rec. dict_get orders (item_order item) = Some rec \<and>
      (0 < al_signed_fill_ounces item \<longleftrightarrow> so_side rec = BUY)"
    "\<forall>(key, rec) \<in> set orders. so_filled_ounces rec =
      sum_list (map (\<lambda>item. \<bar>al_signed_fill_ounces item\<bar>) (filter (\<lambda>item. item_order item = key) items))"
  shows "sum_list (map al_signed_fill_ounces items) =
    sum_list (map ((\<lambda>r. signed (so_side r) (so_filled_ounces r)) \<circ> snd) orders)"
proof -
  have side: "al_signed_fill_ounces item = signed (so_side rec) \<bar>al_signed_fill_ounces item\<bar>"
    if "item \<in> set items" "item_order item = key" "(key, rec) \<in> set orders" for item key rec
  proof -
    have "dict_get orders (item_order item) = Some rec" using assms(1) that by simp
    with assms(2) that(1) have "0 < al_signed_fill_ounces item \<longleftrightarrow> so_side rec = BUY" by auto
    then show ?thesis by (auto simp: signed_def)
  qed
  have lin: "signed sd (sum_list xs) = sum_list (map (signed sd) xs)" for sd xs
    by (induction xs) (auto simp: signed_def)
  have "signed (so_side rec) (so_filled_ounces rec) =
      sum_list (map al_signed_fill_ounces (filter (\<lambda>item. item_order item = key) items))" if "(key, rec) \<in> set orders" for key rec
  proof -
    have "so_filled_ounces rec = sum_list (map (\<lambda>item. \<bar>al_signed_fill_ounces item\<bar>) (filter (\<lambda>item. item_order item = key) items))"
      using assms(3) that by auto
    then have "signed (so_side rec) (so_filled_ounces rec) =
        sum_list (map (\<lambda>item. signed (so_side rec) \<bar>al_signed_fill_ounces item\<bar>) (filter (\<lambda>item. item_order item = key) items))"
      by (simp add: lin o_def)
    also have "\<dots> = sum_list (map al_signed_fill_ounces (filter (\<lambda>item. item_order item = key) items))"
      by (intro arg_cong [where f = sum_list] map_cong refl) (use side that in auto)
    finally show ?thesis .
  qed
  then have "sum_list (map ((\<lambda>r. signed (so_side r) (so_filled_ounces r)) \<circ> snd) orders) =
      sum_list (map (\<lambda>key. sum_list (map al_signed_fill_ounces (filter (\<lambda>item. item_order item = key) items))) (map fst orders))"
    by (intro arg_cong [where f = sum_list]) auto
  also have "\<dots> = sum_list (map al_signed_fill_ounces items)"
  proof (rule sum_by_group [OF assms(1)])
    show "\<forall>item \<in> set items. item_order item \<in> set (map fst orders)"
      using assms(2) by (force dest: map_of_SomeD)
  qed
  finally show ?thesis by simp
qed

text \<open>The owner's own balances are the replayed ones.\<close>

lemma add_to_balance_replay:
  "map (\<lambda>(r, b, _). (r, b)) (add_to_balance route f a v d) =
    (let d' = map (\<lambda>(r, b, _). (r, b)) d in dict_set route (dsub (dadd (balance_of d' route) f) a) d')"
proof -
  have g: "dict_get (map (\<lambda>(r, b, _). (r, b)) d) route = map_option fst (dict_get d route)"
    by (induction d) auto
  have u: "map (\<lambda>(r, b, _). (r, b)) (dict_set route (x, v) d) = dict_set route x (map (\<lambda>(r, b, _). (r, b)) d)" for x
    by (induction d) auto
  show ?thesis
    unfolding add_to_balance_def Let_def u balance_of_def g by (auto split: option.split)
qed

lemma replay_route_balances:
  assumes "foldE (replay_allocation seen records) items rp = Inr rp'" "rp_balances rp = map (\<lambda>(r, b, _). (r, b)) d"
  shows "rp_balances rp' = map (\<lambda>(r, b, _). (r, b)) (fold (\<lambda>item.
     add_to_balance (al_route item) (al_signed_fill_ounces item) (al_allocated_ounces item) (v item)) items d)"
  using assms
proof (induction items arbitrary: rp d)
  case (Cons item items)
  from Cons.prems(1) have rest: "foldE (replay_allocation seen records) items (replayed item rp) = Inr rp'"
    by (auto simp only: foldE_Cons_Inr replay_allocation_Inr)
  show ?case
    using Cons.IH [OF rest, of "add_to_balance (al_route item) (al_signed_fill_ounces item) (al_allocated_ounces item) (v item) d"]
      Cons.prems(2) by (simp add: replayed_def add_to_balance_replay Let_def)
qed simp

lemma intents_allocated:
  assumes "foldE (replay_allocation seen records) items rp = Inr rp'" "rp_intents rp' = []"
  shows "fst ` set (rp_intents rp) \<subseteq> set (item_keys items)"
proof -
  have "filter (\<lambda>(k, _). k \<notin> set (item_keys items)) (rp_intents rp) = []"
    using replay_keys [OF assms(1)] assms(2) by metis
  then show ?thesis by (auto simp: filter_empty_conv)
qed

lemma allocations_exact:
  assumes "validate cfg sn = Inr ()" "oc_legacy_orders cfg = []"
  shows "distinct (item_keys (sn_allocations sn)) \<and> set (item_keys (sn_allocations sn)) = all_seen cfg sn \<and>
    set (map hi_fill_key (all_intents cfg sn)) \<subseteq> set (item_keys (sn_allocations sn)) \<and>
    distinct (map hi_fill_key (all_intents cfg sn))"
proof (rule validated_parts [OF assms])
  fix ids rp
  assume rp: "foldE (replay_allocation (all_seen cfg sn) (orders_of sn (view_keys cfg))) (sn_allocations sn)
      (fresh_replay (all_intents cfg sn)) = Inr rp" "rp_fills rp = all_seen cfg sn" "rp_intents rp = []"
    and "distinct (map hi_fill_key (all_intents cfg sn))"
  with replay_keys [OF rp(1)] intents_allocated [OF rp(1,3)] show ?thesis
    by (simp add: fresh_replay_def image_image)
qed

section \<open>The legacy checkpoint\<close>

definition legacy_signed :: "legacy_order \<Rightarrow> rat" where
  "legacy_signed item = (if lo_direction item = LONG then lo_filled_ounces item else - lo_filled_ounces item)"

abbreviation legacy_net :: "legacy_order \<Rightarrow> rat" where
  "legacy_net item \<equiv> legacy_signed item - lo_allocated_ounces item"

abbreviation legacy_keys :: "owner_config \<Rightarrow> string list" where
  "legacy_keys cfg \<equiv> concat (map lo_fill_keys (oc_legacy_orders cfg))"

text \<open>Amounts of the checkpoint whose sums are exact.\<close>

definition exact_legacy :: "legacy_order \<Rightarrow> bool" where
  "exact_legacy item \<longleftrightarrow> on_grid (lo_filled_ounces item) \<and> \<bar>lo_filled_ounces item\<bar> < 4000000 \<and>
    on_grid (lo_allocated_ounces item) \<and> \<bar>lo_allocated_ounces item\<bar> < 4000000 \<and> length (lo_intent_ids item) < 10 ^ 11"

definition plain_balances :: "balances \<Rightarrow> (route \<times> rat) list" where
  "plain_balances = map (\<lambda>(r, b, _). (r, b))"

definition exact_checkpoint :: "owner_config \<Rightarrow> snapshot \<Rightarrow> bool" where
  "exact_checkpoint cfg sn \<longleftrightarrow> small_balances (plain_balances (checkpoint_balances cfg)) \<and>
    (\<forall>item \<in> set (oc_legacy_orders cfg). exact_legacy item) \<and> length (oc_legacy_orders cfg) < 10 ^ 11 \<and>
    (\<forall>i \<in> set (all_intents cfg sn). (\<exists>item \<in> set (oc_legacy_orders cfg). hi_intent_id i \<in> set (lo_intent_ids item)) \<longrightarrow>
      on_grid (hi_hedge_quantity_ounces i) \<and> \<bar>hi_hedge_quantity_ounces i\<bar> < 4000000)"

text \<open>Without a checkpoint there is nothing to assume.\<close>

lemma no_checkpoint_exact: "oc_legacy_orders cfg = [] \<Longrightarrow> exact_checkpoint cfg sn"
  by (simp add: exact_checkpoint_def checkpoint_balances_def plain_balances_def small_balances_def)

text \<open>Its balances.\<close>

lemma checkpoint_step:
  fixes r
  assumes d: "distinct (map fst d)" "\<forall>(_, b) \<in> set d. on_grid b \<and> \<bar>b\<bar> \<le> B" and b: "0 \<le> B" "B < 10 ^ 18" and i: "exact_legacy item"
  defines "v \<equiv> dsub (dadd (balance_of d r) (dmul (lo_filled_ounces item) (if lo_direction item = LONG then 1 else - 1))) (lo_allocated_ounces item)"
  shows "v = balance_of d r + legacy_net item" "on_grid v" "\<bar>v\<bar> \<le> B + 8000000"
proof -
  have g: "on_grid (balance_of d r) \<and> \<bar>balance_of d r\<bar> \<le> B"
    using d(2) b(1) by (auto simp: balance_of_def split: option.split dest!: map_of_SomeD)
  have x: "on_grid (lo_filled_ounces item)" "\<bar>lo_filled_ounces item\<bar> < 4000000" "on_grid (lo_allocated_ounces item)"
    "\<bar>lo_allocated_ounces item\<bar> < 4000000" using i by (simp_all add: exact_legacy_def)
  have m: "dmul (lo_filled_ounces item) (if lo_direction item = LONG then 1 else - 1) = legacy_signed item"
    using dmul_unit_exact [of "lo_filled_ounces item"] x by (auto simp: legacy_signed_def dmul_def mult.commute)
  have l: "on_grid (legacy_signed item)" "\<bar>legacy_signed item\<bar> < 4000000" using x by (auto simp: legacy_signed_def)
  have a: "dadd (balance_of d r) (legacy_signed item) = balance_of d r + legacy_signed item"
    using g l b(2) by (intro dadd_exact) auto
  have s: "dsub (balance_of d r + legacy_signed item) (lo_allocated_ounces item) = balance_of d r + legacy_signed item - lo_allocated_ounces item"
    using g l x b(2) by (intro dsub_exact) auto
  show "v = balance_of d r + legacy_net item" unfolding v_def m a s by simp
  then show "on_grid v" using g l x by (simp add: add_diff_eq)
  show "\<bar>v\<bar> \<le> B + 8000000" unfolding \<open>v = _\<close> using g l x by linarith
qed

lemma checkpoint_fold:
  assumes "\<forall>item \<in> set items. exact_legacy item" "distinct (map fst (plain_balances d))"
    "\<forall>(_, b) \<in> set (plain_balances d). on_grid b \<and> \<bar>b\<bar> \<le> B" "0 \<le> B" "B + 8000000 * of_nat (length items) < 10 ^ 18"
  defines "f \<equiv> \<lambda>item balances. if lo_filled_ounces item = 0 \<and> lo_allocated_ounces item = 0 then balances
     else add_to_balance (lo_route item) (dmul (lo_filled_ounces item) (if lo_direction item = LONG then 1 else - 1))
       (lo_allocated_ounces item) (direction_view (lo_direction item)) balances"
  shows "balance_of (plain_balances (fold f items d)) r = balance_of (plain_balances d) r +
      sum_list (map legacy_net (filter (\<lambda>item. lo_route item = r) items)) \<and>
    sum_list (map (id \<circ> snd) (plain_balances (fold f items d))) = sum_list (map (id \<circ> snd) (plain_balances d)) + sum_list (map legacy_net items)"
  using assms(1-5)
proof (induction items arbitrary: d B)
  case (Cons item items)
  show ?case
  proof (cases "lo_filled_ounces item = 0 \<and> lo_allocated_ounces item = 0")
    case True
    then have n: "legacy_net item = 0" "f item d = d" by (simp_all add: legacy_signed_def f_def)
    have "B + 8000000 * of_nat (length items) < 10 ^ 18" using Cons.prems(5) by simp
    from Cons.IH [OF _ Cons.prems(2,3,4) this] Cons.prems(1) n show ?thesis by simp
  next
    case False
    let ?p = "plain_balances d" and ?r = "lo_route item"
    have bound: "B < 10 ^ 18" "B + 8000000 + 8000000 * of_nat (length items) < 10 ^ 18" using Cons.prems(5) by simp_all
    have i: "exact_legacy item" using Cons.prems(1) by simp
    note st = checkpoint_step [OF Cons.prems(2,3,4) bound(1) i, where r = ?r]
    let ?v = "balance_of ?p ?r + legacy_net item"
    have e: "plain_balances (f item d) = dict_set ?r ?v ?p"
      unfolding plain_balances_def f_def if_not_P [OF False] add_to_balance_replay Let_def
      unfolding plain_balances_def [symmetric] st(1) ..
    have "\<forall>(_, b) \<in> set (plain_balances (f item d)). on_grid b \<and> \<bar>b\<bar> \<le> B + 8000000"
    proof -
      have "on_grid b \<and> \<bar>b\<bar> \<le> B + 8000000" if "(q, b) \<in> set ?p" for q b
      proof -
        have "on_grid b \<and> \<bar>b\<bar> \<le> B" using Cons.prems(3) that by blast
        then show ?thesis by auto
      qed
      then show ?thesis using set_dict_set_subset [of ?r ?v ?p] st(2,3) unfolding e st(1) by (auto dest!: subsetD)
    qed
    note ih = Cons.IH [OF _ _ this _ bound(2)]
    have "distinct (map fst (plain_balances (f item d)))" using Cons.prems(2) by (simp add: e)
    note ih = ih [OF _ this]
    have b: "balance_of (plain_balances (f item d)) r = balance_of ?p r + (if ?r = r then legacy_net item else 0)"
      unfolding e by (simp add: balance_of_def)
    have s: "sum_list (map (id \<circ> snd) (plain_balances (f item d))) = sum_list (map (id \<circ> snd) ?p) + legacy_net item"
    proof (cases "dict_get ?p ?r")
      case None
      then have "?r \<notin> dict_keys ?p" by (simp add: map_of_eq_None_iff)
      from sum_dict_fresh [OF this, where f = id] None show ?thesis unfolding e by (simp add: balance_of_def)
    next
      case (Some b)
      from sum_dict_replace [OF this, where f = id] Some show ?thesis unfolding e by (simp add: balance_of_def)
    qed
    show ?thesis using ih Cons.prems(1,4) b s by simp
  qed
qed simp

lemma sum_sort_key:
  fixes g :: "'x \<Rightarrow> 'a::comm_monoid_add"
  shows "sum_list (map g (filter P (sort_key k xs))) = sum_list (map g (filter P xs))"
proof -
  have "mset (map g (filter P (sort_key k xs))) = mset (map g (filter P xs))" by simp
  then show ?thesis by (metis sum_mset_sum_list)
qed

lemma checkpoint_sums:
  assumes "exact_checkpoint cfg sn"
  shows "balance_of (plain_balances (checkpoint_balances cfg)) r =
      sum_list (map legacy_net (filter (\<lambda>item. lo_route item = r) (oc_legacy_orders cfg)))"
    "sum_list (map (id \<circ> snd) (plain_balances (checkpoint_balances cfg))) = sum_list (map legacy_net (oc_legacy_orders cfg))"
proof -
  let ?its = "sort_key (\<lambda>item. (lo_direction item = SHORT, lo_client_order_id item)) (oc_legacy_orders cfg)"
  have x: "\<forall>item \<in> set ?its. exact_legacy item" "0 + 8000000 * rat_of_nat (length ?its) < 10 ^ 18"
    using assms of_nat_less_iff [of "length (oc_legacy_orders cfg)" "10 ^ 11", where 'a = rat] by (auto simp: exact_checkpoint_def)
  note f = checkpoint_fold [OF x(1) _ _ _ x(2), of "[]" r, folded checkpoint_balances_def]
  show "balance_of (plain_balances (checkpoint_balances cfg)) r =
      sum_list (map legacy_net (filter (\<lambda>item. lo_route item = r) (oc_legacy_orders cfg)))"
    using f sum_sort_key [where P = "\<lambda>item. lo_route item = r"] by (simp add: plain_balances_def balance_of_def)
  show "sum_list (map (id \<circ> snd) (plain_balances (checkpoint_balances cfg))) = sum_list (map legacy_net (oc_legacy_orders cfg))"
    using f sum_sort_key [where P = "\<lambda>_. True"] by (simp add: plain_balances_def)
qed

text \<open>Its intents: each is claimed once, by the order it belongs to, and they are what the order handed to the hedge.\<close>

definition handed :: "hedge_intent \<Rightarrow> rat" where
  "handed i = - signed (hi_hedge_side i) (hi_hedge_quantity_ounces i)"

definition small_intent :: "hedge_intent \<Rightarrow> bool" where
  "small_intent i \<longleftrightarrow> on_grid (hi_hedge_quantity_ounces i) \<and> \<bar>hi_hedge_quantity_ounces i\<bar> < 4000000"

abbreviation without :: "hedge_intent list \<Rightarrow> intents_by_key \<Rightarrow> intents_by_key" where
  "without js \<equiv> filter (\<lambda>(k, _). k \<notin> hi_fill_key ` set js)"

lemma without_get: "dict_get (without js d) k = (if k \<in> hi_fill_key ` set js then None else dict_get d k)"
  by (induction d) auto

lemma claims_Inr:
  assumes "foldE (\<lambda>intent_id (intents, known, allocated).
     case dict_get by_id intent_id of
       None \<Rightarrow> Inl (ValueError ''legacy checkpoint intent identity differs'')
     | Some intent \<Rightarrow>
         if hi_source_client_order_id intent \<noteq> lo_client_order_id item
           \<or> hi_fill_key intent \<notin> set (lo_fill_keys item) \<or> hi_source_fill_ounces intent \<le> 0
           \<or> dict_get intents (hi_fill_key intent) = None then
           Inl (ValueError ''legacy checkpoint intent identity differs'')
         else Inr (AList.delete (hi_fill_key intent) intents,
           dadd known (hi_source_fill_ounces intent),
           dadd allocated (dmul (hi_hedge_quantity_ounces intent) (if hi_hedge_side intent = SELL then 1 else - 1))))
     ids (intents, known, allocated) = Inr (intents', known', allocated')"
    "\<And>c i. dict_get by_id c = Some i \<Longrightarrow> hi_intent_id i = c \<and> i \<in> set all \<and> (c \<in> set ids \<longrightarrow> small_intent i)"
    "on_grid allocated" "\<bar>allocated\<bar> \<le> B" "B + 4000000 * of_nat (length ids) < 10 ^ 18"
  shows "\<exists>js. intents' = without js intents \<and> distinct (map hi_fill_key js) \<and> set js \<subseteq> set all \<and>
    hi_fill_key ` set js \<subseteq> set (lo_fill_keys item) \<inter> dict_keys intents \<and> allocated' = allocated + sum_list (map handed js)"
  using assms
proof (induction ids arbitrary: intents known allocated B)
  case Nil
  then show ?case by (intro exI [of _ "[]"]) auto
next
  case (Cons c ids)
  from Cons.prems(1) obtain i where i: "dict_get by_id c = Some i" "hi_fill_key i \<in> set (lo_fill_keys item)"
      "dict_get intents (hi_fill_key i) \<noteq> None"
    and rest: "foldE (\<lambda>intent_id (intents, known, allocated).
     case dict_get by_id intent_id of
       None \<Rightarrow> Inl (ValueError ''legacy checkpoint intent identity differs'')
     | Some intent \<Rightarrow>
         if hi_source_client_order_id intent \<noteq> lo_client_order_id item
           \<or> hi_fill_key intent \<notin> set (lo_fill_keys item) \<or> hi_source_fill_ounces intent \<le> 0
           \<or> dict_get intents (hi_fill_key intent) = None then
           Inl (ValueError ''legacy checkpoint intent identity differs'')
         else Inr (AList.delete (hi_fill_key intent) intents,
           dadd known (hi_source_fill_ounces intent),
           dadd allocated (dmul (hi_hedge_quantity_ounces intent) (if hi_hedge_side intent = SELL then 1 else - 1))))
     ids (AList.delete (hi_fill_key i) intents, dadd known (hi_source_fill_ounces i),
       dadd allocated (dmul (hi_hedge_quantity_ounces i) (if hi_hedge_side i = SELL then 1 else - 1))) = Inr (intents', known', allocated')"
    by (auto simp: foldE_Cons_Inr split: option.splits if_splits)
  have q: "small_intent i" "i \<in> set all" using Cons.prems(2) [OF i(1)] by simp_all
  have h: "dmul (hi_hedge_quantity_ounces i) (if hi_hedge_side i = SELL then 1 else - 1) = handed i"
    using dmul_unit_exact [of "hi_hedge_quantity_ounces i"] q(1)
    by (auto simp: handed_def signed_def small_intent_def dmul_def mult.commute not_sell)
  have hg: "on_grid (handed i)" "\<bar>handed i\<bar> < 4000000" using q(1) by (auto simp: handed_def signed_def small_intent_def)
  have a: "dadd allocated (handed i) = allocated + handed i"
  proof (rule dadd_exact [OF Cons.prems(3) hg(1)])
    have "0 \<le> (4000000 :: rat) * of_nat (length (c # ids))" by simp
    with Cons.prems(4,5) hg(2) have "\<bar>allocated + handed i\<bar> < 10 ^ 18 + 4000000" by linarith
    then show "\<bar>allocated + handed i\<bar> < 10 ^ 19" by simp
  qed
  have g: "on_grid (allocated + handed i)" "\<bar>allocated + handed i\<bar> \<le> B + 4000000"
    "B + 4000000 + 4000000 * of_nat (length ids) < 10 ^ 18"
    using Cons.prems(3,4,5) hg by (auto simp: algebra_simps)
  have all: "hi_intent_id x = d \<and> x \<in> set all \<and> (d \<in> set ids \<longrightarrow> small_intent x)" if "dict_get by_id d = Some x" for d x
    using Cons.prems(2) [OF that] by simp
  from Cons.IH [OF rest [unfolded h a] all g] obtain js where js: "intents' = without js (AList.delete (hi_fill_key i) intents)"
    "distinct (map hi_fill_key js)" "set js \<subseteq> set all" "hi_fill_key ` set js \<subseteq> set (lo_fill_keys item) \<inter> dict_keys (AList.delete (hi_fill_key i) intents)"
    "allocated' = allocated + handed i + sum_list (map handed js)" by blast
  have keys: "dict_keys (AList.delete (hi_fill_key i) intents) = dict_keys intents - {hi_fill_key i}"
    by (auto simp: AList.delete_eq image_iff)
  have "hi_fill_key i \<notin> hi_fill_key ` set js" using js(4) unfolding keys by blast
  moreover have "without js (AList.delete (hi_fill_key i) intents) = without (i # js) intents"
    by (auto simp: AList.delete_eq intro!: filter_cong)
  moreover have "hi_fill_key ` set (i # js) \<subseteq> set (lo_fill_keys item) \<inter> dict_keys intents"
    using js(4) i(2,3) unfolding keys by (auto simp: map_of_eq_None_iff)
  ultimately show ?case using js(1,2,3,5) q(2) by (intro exI [of _ "i # js"]) (simp only: list.map distinct.simps sum_list.Cons
      list.set_map insert_subset list.simps(15) simp_thms add.assoc)
qed

text \<open>The whole checkpoint: the intents it claims, the keys and totals it starts the replay with.\<close>

definition checkpoint_item ::
  "snapshot \<Rightarrow> (string \<times> source_order_record) list \<Rightarrow> (string \<times> hedge_intent) list \<Rightarrow> legacy_order \<Rightarrow>
    string set \<times> (string \<times> rat) list \<times> intents_by_key \<Rightarrow> exn + string set \<times> (string \<times> rat) list \<times> intents_by_key"
where
  "checkpoint_item sn records by_id = (\<lambda>item (keys, totals, intents).
       let cid = lo_client_order_id item in
       case dict_get records cid of
         None \<Rightarrow> Inl (ValueError ''legacy checkpoint source binding or quantity differs'')
       | Some record \<Rightarrow>
         if dict_get totals cid \<noteq> None \<or> Some (lo_direction item) \<noteq> checkpoint_direction sn cid
           \<or> lo_route item \<noteq> route_of record \<or> lo_filled_ounces item < 0 then
           Inl (ValueError ''legacy checkpoint source binding or quantity differs'')
         else if \<not> distinct (lo_fill_keys item) \<or> keys \<inter> set (lo_fill_keys item) \<noteq> {}
           \<or> list_ex (\<lambda>key. hd (split_bar key) \<noteq> cid) (lo_fill_keys item)
           \<or> (lo_fill_keys item \<noteq> []) \<noteq> (0 < lo_filled_ounces item)
           \<or> \<not> distinct (lo_intent_ids item) then
           Inl (ValueError ''legacy checkpoint fill identities differ'')
         else bindE (claim_intents item by_id intents) (\<lambda>(intents, known, allocated).
           let unknown = int (length (lo_fill_keys item)) - int (length (lo_intent_ids item)) in
           if allocated \<noteq> lo_allocated_ounces item \<or> lo_filled_ounces item < known
             \<or> unknown = 0 \<and> known \<noteq> lo_filled_ounces item
             \<or> 0 < unknown \<and> lo_filled_ounces item \<le> known then
             Inl (ValueError ''legacy checkpoint cumulative or fixed allocation differs'')
           else Inr (keys \<union> set (lo_fill_keys item), dict_set cid (lo_filled_ounces item) totals, intents)))"

lemma validate_checkpoint_items:
  "validate_checkpoint cfg sn records intents =
    foldE (checkpoint_item sn records (dict_of (map (\<lambda>(_, i). (hi_intent_id i, i)) intents))) (oc_legacy_orders cfg) ({}, [], intents)"
  by (simp add: validate_checkpoint_def checkpoint_item_def Let_def)

definition bound_legacy :: "snapshot \<Rightarrow> (string \<times> source_order_record) list \<Rightarrow> legacy_order \<Rightarrow> bool" where
  "bound_legacy sn records item \<longleftrightarrow> 0 \<le> lo_filled_ounces item \<and> distinct (lo_fill_keys item) \<and>
    Some (lo_direction item) = checkpoint_direction sn (lo_client_order_id item) \<and>
    (\<exists>record. dict_get records (lo_client_order_id item) = Some record \<and> lo_route item = route_of record)"

abbreviation legacy_totals :: "legacy_order list \<Rightarrow> (string \<times> rat) list" where
  "legacy_totals items \<equiv> map (\<lambda>item. (lo_client_order_id item, lo_filled_ounces item)) items"

lemma checkpoint_item_Inr:
  assumes "checkpoint_item sn records by_id item (keys, totals, intents) = Inr (keys', totals', intents')"
  obtains known where "bound_legacy sn records item" "lo_client_order_id item \<notin> dict_keys totals" "keys \<inter> set (lo_fill_keys item) = {}"
    "claim_intents item by_id intents = Inr (intents', known, lo_allocated_ounces item)"
    "keys' = keys \<union> set (lo_fill_keys item)" "totals' = totals @ [(lo_client_order_id item, lo_filled_ounces item)]"
proof -
  obtain rec where rec: "dict_get records (lo_client_order_id item) = Some rec"
    using assms by (auto simp: checkpoint_item_def Let_def split: option.splits)
  obtain known allocated where c: "claim_intents item by_id intents = Inr (intents', known, allocated)" "allocated = lo_allocated_ounces item"
    and o: "bound_legacy sn records item" "dict_get totals (lo_client_order_id item) = None" "keys \<inter> set (lo_fill_keys item) = {}"
      "keys' = keys \<union> set (lo_fill_keys item)" "totals' = dict_set (lo_client_order_id item) (lo_filled_ounces item) totals"
    using assms rec by (auto simp: checkpoint_item_def Let_def bindE_Inr_iff bound_legacy_def split: if_splits)
  have f: "lo_client_order_id item \<notin> dict_keys totals" using o(2) by (simp add: map_of_eq_None_iff)
  show thesis by (rule that [OF o(1) f o(3) c(1) [unfolded c(2)] o(4)]) (simp add: o(5) dict_set_fresh [OF f])
qed

lemma checkpoint_items_Inr:
  assumes "foldE (checkpoint_item sn records by_id) items (keys, totals, intents) = Inr (keys', totals', intents')"
    "\<And>c i. dict_get by_id c = Some i \<Longrightarrow> hi_intent_id i = c \<and> i \<in> set all \<and>
      ((\<exists>item \<in> set items. c \<in> set (lo_intent_ids item)) \<longrightarrow> small_intent i)"
    "\<forall>item \<in> set items. exact_legacy item"
  shows "keys' = keys \<union> set (concat (map lo_fill_keys items)) \<and> keys \<inter> set (concat (map lo_fill_keys items)) = {} \<and>
    distinct (concat (map lo_fill_keys items)) \<and> totals' = totals @ legacy_totals items \<and>
    distinct (map lo_client_order_id items) \<and> lo_client_order_id ` set items \<inter> dict_keys totals = {} \<and>
    (\<forall>item \<in> set items. bound_legacy sn records item) \<and>
    (\<exists>js. intents' = without js intents \<and> distinct (map hi_fill_key js) \<and> set js \<subseteq> set all \<and>
      hi_fill_key ` set js \<subseteq> dict_keys intents \<and> sum_list (map lo_allocated_ounces items) = sum_list (map handed js))"
  using assms
proof (induction items arbitrary: keys totals intents)
  case Nil
  then show ?case by (auto intro!: exI [of _ "[]"])
next
  case (Cons item items)
  obtain keys1 totals1 intents1 where one: "checkpoint_item sn records by_id item (keys, totals, intents) = Inr (keys1, totals1, intents1)"
    and rest: "foldE (checkpoint_item sn records by_id) items (keys1, totals1, intents1) = Inr (keys', totals', intents')"
    using Cons.prems(1) by (auto simp only: foldE_Cons_Inr split_paired_Ex)
  obtain known where o: "bound_legacy sn records item" "lo_client_order_id item \<notin> dict_keys totals" "keys \<inter> set (lo_fill_keys item) = {}"
    "claim_intents item by_id intents = Inr (intents1, known, lo_allocated_ounces item)"
    "keys1 = keys \<union> set (lo_fill_keys item)" "totals1 = totals @ [(lo_client_order_id item, lo_filled_ounces item)]"
    by (rule checkpoint_item_Inr [OF one])
  have ids: "hi_intent_id i = c \<and> i \<in> set all \<and> (c \<in> set (lo_intent_ids item) \<longrightarrow> small_intent i)" if "dict_get by_id c = Some i" for c i
    using Cons.prems(2) [OF that] by auto
  have "length (lo_intent_ids item) < 10 ^ 11" using Cons.prems(3) by (simp add: exact_legacy_def)
  then have "0 + 4000000 * rat_of_nat (length (lo_intent_ids item)) < 10 ^ 18"
    using of_nat_less_iff [of "length (lo_intent_ids item)" "10 ^ 11", where 'a = rat] by simp
  from claims_Inr [OF o(4) [unfolded claim_intents_def] ids _ _ this] obtain js where js:
    "intents1 = without js intents" "distinct (map hi_fill_key js)" "set js \<subseteq> set all"
    "hi_fill_key ` set js \<subseteq> set (lo_fill_keys item) \<inter> dict_keys intents" "lo_allocated_ounces item = sum_list (map handed js)"
    by auto
  have ids': "hi_intent_id i = c \<and> i \<in> set all \<and> ((\<exists>item \<in> set items. c \<in> set (lo_intent_ids item)) \<longrightarrow> small_intent i)"
    if "dict_get by_id c = Some i" for c i using Cons.prems(2) [OF that] by auto
  note ih = Cons.IH [OF rest ids']
  have ih': "\<forall>item \<in> set items. exact_legacy item" using Cons.prems(3) by simp
  note ih = ih [OF _ ih', simplified]
  from ih obtain ks where ks: "intents' = without ks intents1" "distinct (map hi_fill_key ks)" "set ks \<subseteq> set all"
    "hi_fill_key ` set ks \<subseteq> dict_keys intents1" "sum_list (map lo_allocated_ounces items) = sum_list (map handed ks)" by blast
  have dj: "hi_fill_key ` set ks \<inter> hi_fill_key ` set js = {}" using ks(4) js(1) by auto
  have "intents' = without (js @ ks) intents" unfolding ks(1) js(1) by (auto intro!: filter_cong)
  moreover have "distinct (map hi_fill_key (js @ ks))" using js(2) ks(2) dj by (simp add: Int_commute)
  moreover have "hi_fill_key ` set (js @ ks) \<subseteq> dict_keys intents" using js(4) ks(4) by (auto simp: js(1))
  moreover have "sum_list (map lo_allocated_ounces (item # items)) = sum_list (map handed (js @ ks))" using js(5) ks(5) by simp
  moreover have "set (js @ ks) \<subseteq> set all" using js(3) ks(3) by simp
  ultimately have J: "\<exists>js. intents' = without js intents \<and> distinct (map hi_fill_key js) \<and> set js \<subseteq> set all \<and>
      hi_fill_key ` set js \<subseteq> dict_keys intents \<and> sum_list (map lo_allocated_ounces (item # items)) = sum_list (map handed js)" by blast
  have d: "distinct (lo_fill_keys item)" using o(1) by (simp add: bound_legacy_def)
  show ?case using ih J o d by auto
qed

definition checkpoint_replay :: "owner_config \<Rightarrow> hedge_intent list \<Rightarrow> hedge_intent list \<Rightarrow> replay" where
  "checkpoint_replay cfg intents js = \<lparr>rp_fills = set (legacy_keys cfg), rp_totals = legacy_totals (oc_legacy_orders cfg),
     rp_intents = without js (map (\<lambda>i. (hi_fill_key i, i)) intents), rp_balances = plain_balances (checkpoint_balances cfg)\<rparr>"

lemma list_ex_total: "list_ex (\<lambda>(key, rec). (case dict_get d key of None \<Rightarrow> 0 | Some t \<Rightarrow> t) \<noteq> so_filled_ounces rec) xs \<longleftrightarrow>
    \<not> (\<forall>(key, rec) \<in> set xs. total_of d key = so_filled_ounces rec)"
  by (auto simp: list_ex_iff total_of_def)

lemma validated_replay:
  assumes "validate cfg sn = Inr ()" "exact_checkpoint cfg sn"
  obtains ids rp js where "foldE (validate_view sn) (view_keys cfg) no_identities = Inr ids"
    "distinct (map hi_fill_key (all_intents cfg sn))"
    "foldE (replay_allocation (all_seen cfg sn) (orders_of sn (view_keys cfg))) (sn_allocations sn)
      (checkpoint_replay cfg (all_intents cfg sn) js) = Inr rp"
    "rp_fills rp = all_seen cfg sn" "rp_intents rp = []"
    "\<forall>(key, rec) \<in> set (orders_of sn (view_keys cfg)). total_of (rp_totals rp) key = so_filled_ounces rec"
    "distinct (legacy_keys cfg)" "distinct (map lo_client_order_id (oc_legacy_orders cfg))"
    "\<forall>item \<in> set (oc_legacy_orders cfg). bound_legacy sn (orders_of sn (view_keys cfg)) item"
    "distinct (map hi_fill_key js)" "set js \<subseteq> set (all_intents cfg sn)"
    "sum_list (map lo_allocated_ounces (oc_legacy_orders cfg)) = sum_list (map handed js)"
proof -
  let ?all = "all_intents cfg sn"
  let ?ints = "map (\<lambda>i. (hi_fill_key i, i)) ?all"
  from assms(1) obtain ids where v: "foldE (validate_view sn) (view_keys cfg) no_identities = Inr ids"
    and a: "validate_allocations cfg sn = Inr ()"
    by (auto simp: validate_def bindE_Inr_iff Let_def split: if_splits)
  have rec: "all_records cfg sn = orders_of sn (view_keys cfg)"
    unfolding all_records_def using views_validated [OF v] by (intro dict_of_distinct) simp
  have f: "distinct (map hi_fill_key ?all)"
    using a dict_of_length [of ?ints] by (auto simp: validate_allocations_def Let_def o_def split: if_splits)
  then have ints: "dict_of ?ints = ?ints" by (intro dict_of_distinct) (simp add: o_def)
  let ?by_id = "dict_of (map (\<lambda>(_, i). (hi_intent_id i, i)) ?ints)"
  from a obtain fills totals intents rp
    where cp: "foldE (checkpoint_item sn (orders_of sn (view_keys cfg)) ?by_id) (oc_legacy_orders cfg) ({}, [], ?ints) = Inr (fills, totals, intents)"
    and rp: "foldE (replay_allocation (all_seen cfg sn) (orders_of sn (view_keys cfg))) (sn_allocations sn)
         \<lparr>rp_fills = fills, rp_totals = totals, rp_intents = intents,
          rp_balances = map (\<lambda>(route, balance, _). (route, balance)) (checkpoint_balances cfg)\<rparr> = Inr rp"
      "rp_fills rp = all_seen cfg sn" "rp_intents rp = []"
      "\<forall>(key, rec) \<in> set (orders_of sn (view_keys cfg)). total_of (rp_totals rp) key = so_filled_ounces rec"
    unfolding validate_allocations_def Let_def ints rec validate_checkpoint_items bindE_Inr_iff list_ex_total
    by (auto simp only: if_Inl_eq_Inr split_paired_Ex prod.case bindE_Inr_iff list_ex_total de_Morgan_disj not_not simp_thms)
  have "hi_intent_id i = c \<and> i \<in> set ?all \<and>
      ((\<exists>item \<in> set (oc_legacy_orders cfg). c \<in> set (lo_intent_ids item)) \<longrightarrow> small_intent i)" if g: "dict_get ?by_id c = Some i" for c i
  proof -
    have "(c, i) \<in> set (map (\<lambda>(_, i). (hi_intent_id i, i)) ?ints)" using map_of_SomeD [OF g] dict_of_subset by blast
    then have "hi_intent_id i = c" "i \<in> set ?all" by auto
    with assms(2) show ?thesis by (auto simp: exact_checkpoint_def small_intent_def)
  qed
  note c = checkpoint_items_Inr [OF cp this]
  have "\<forall>item \<in> set (oc_legacy_orders cfg). exact_legacy item" using assms(2) by (simp add: exact_checkpoint_def)
  note c = c [OF _ this, simplified]
  from c obtain js where js: "intents = without js ?ints" "distinct (map hi_fill_key js)" "set js \<subseteq> set ?all"
    "sum_list (map lo_allocated_ounces (oc_legacy_orders cfg)) = sum_list (map handed js)" by blast
  have start: "\<lparr>rp_fills = fills, rp_totals = totals, rp_intents = intents,
          rp_balances = map (\<lambda>(route, balance, _). (route, balance)) (checkpoint_balances cfg)\<rparr> = checkpoint_replay cfg ?all js"
    using c js(1) by (simp add: checkpoint_replay_def plain_balances_def)
  show thesis by (rule that [OF v f rp(1) [unfolded start] rp(2-4) _ _ _ js(2,3,4)]) (use c in simp_all)
qed

text \<open>The order of a checkpoint entry has the side of the entry's direction.\<close>

lemma legacy_side:
  assumes v: "foldE (validate_view sn) (view_keys cfg) no_identities = Inr ids"
    and b: "bound_legacy sn (orders_of sn (view_keys cfg)) item"
    and r: "(lo_client_order_id item, rec) \<in> set (orders_of sn (view_keys cfg))"
  shows "legacy_signed item = signed (so_side rec) (lo_filled_ounces item)"
proof -
  let ?c = "lo_client_order_id item" and ?orders = "orders_of sn (view_keys cfg)"
  have d: "distinct (map fst ?orders)" using views_validated [OF v] by (rule conjunct1)
  have side: "so_side rec = side" if k: "k \<in> set (view_keys cfg)" "dict_get (ss_source_orders (sn_states sn k)) ?c \<noteq> None"
      "view_side k = Some side" for k side
  proof -
    obtain rec' where rec': "(?c, rec') \<in> set (ss_source_orders (sn_states sn k))"
      using k(2) by (auto dest: map_of_SomeD)
    then have "(?c, rec') \<in> set ?orders" using k(1) by auto
    then have "rec' = rec" using map_of_is_SomeI [OF d] map_of_is_SomeI [OF d r] by (metis option.inject)
    moreover have "\<forall>k \<in> set (view_keys cfg). \<exists>i j. validate_view sn k i = Inr j"
      using views_validated [OF v] by (elim conjE) assumption
    then obtain i j where "validate_view sn k i = Inr j" using k(1) by fast
    from bspec [OF view_validated(4) [OF this] rec'] k(3) have "so_side rec' = side" by simp
    ultimately show ?thesis by simp
  qed
  have keys: "Bid \<in> set (view_keys cfg)" "Ask \<in> set (view_keys cfg)" by (auto simp: view_keys_def)
  have "Some (lo_direction item) = checkpoint_direction sn ?c" using b by (simp add: bound_legacy_def)
  then consider "lo_direction item = SHORT" "dict_get (ss_source_orders (sn_states sn Ask)) ?c \<noteq> None"
    | "lo_direction item = LONG" "dict_get (ss_source_orders (sn_states sn Bid)) ?c \<noteq> None"
    by (auto simp: checkpoint_direction_def simp del: not_None_eq split: if_splits)
  then show ?thesis
  proof cases
    case 1
    with side [OF keys(2) 1(2)] have "so_side rec = SELL" by simp
    with 1 show ?thesis by (simp add: legacy_signed_def signed_def)
  next
    case 2
    with side [OF keys(1) 2(2)] have "so_side rec = BUY" by simp
    with 2 show ?thesis by (simp add: legacy_signed_def signed_def)
  qed
qed

lemma legacy_total:
  assumes "distinct (map lo_client_order_id items)"
  shows "total_of (legacy_totals items) cid = (case dict_get (map (\<lambda>item. (lo_client_order_id item, item)) items) cid of
      None \<Rightarrow> 0 | Some item \<Rightarrow> lo_filled_ounces item)"
  using assms by (induction items) (auto simp: total_of_def)

lemma fills_are_filled_after:
  assumes "distinct (map fst orders)"
    "\<forall>item \<in> set items. \<exists>rec. dict_get orders (item_order item) = Some rec \<and>
      (0 < al_signed_fill_ounces item \<longleftrightarrow> so_side rec = BUY)"
    "\<forall>(key, rec) \<in> set orders. so_filled_ounces rec = start key +
      sum_list (map (\<lambda>item. \<bar>al_signed_fill_ounces item\<bar>) (filter (\<lambda>item. item_order item = key) items))"
  shows "sum_list (map (\<lambda>(key, rec). signed (so_side rec) (start key)) orders) + sum_list (map al_signed_fill_ounces items) =
    sum_list (map ((\<lambda>r. signed (so_side r) (so_filled_ounces r)) \<circ> snd) orders)"
proof -
  let ?later = "map (\<lambda>(key, rec). (key, rec\<lparr>so_filled_ounces := so_filled_ounces rec - start key\<rparr>)) orders"
  have keys: "map fst ?later = map fst orders" by (auto simp: case_prod_unfold)
  have get: "dict_get ?later c = map_option (\<lambda>rec. rec\<lparr>so_filled_ounces := so_filled_ounces rec - start c\<rparr>) (dict_get orders c)" for c
    by (induction orders) auto
  have "sum_list (map al_signed_fill_ounces items) = sum_list (map ((\<lambda>r. signed (so_side r) (so_filled_ounces r)) \<circ> snd) ?later)"
  proof (rule fills_are_filled)
    show "distinct (map fst ?later)" using assms(1) unfolding keys .
    show "\<forall>item \<in> set items. \<exists>rec. dict_get ?later (item_order item) = Some rec \<and>
        (0 < al_signed_fill_ounces item \<longleftrightarrow> so_side rec = BUY)" using assms(2) by (auto simp: get)
    show "\<forall>(key, rec) \<in> set ?later. so_filled_ounces rec =
        sum_list (map (\<lambda>item. \<bar>al_signed_fill_ounces item\<bar>) (filter (\<lambda>item. item_order item = key) items))"
      using assms(3) by auto
  qed
  moreover have "sum_list (map (\<lambda>(key, rec). signed (so_side rec) (start key)) orders) +
      sum_list (map ((\<lambda>r. signed (so_side r) (so_filled_ounces r)) \<circ> snd) ?later) =
      sum_list (map ((\<lambda>r. signed (so_side r) (so_filled_ounces r)) \<circ> snd) orders)"
    by (induction orders) (auto simp: signed_def)
  ultimately show ?thesis by simp
qed

lemma sum_split:
  fixes f :: "'x \<Rightarrow> 'a::comm_monoid_add"
  shows "sum_list (map f xs) = sum_list (map f (filter P xs)) + sum_list (map f (filter (\<lambda>x. \<not> P x) xs))"
  by (induction xs) (auto simp: add.assoc add.left_commute)

lemma claimed_sum:
  assumes "distinct (map hi_fill_key all)" "distinct (map hi_fill_key js)" "set js \<subseteq> set all"
  shows "sum_list (map f all) = (sum_list (map f js) :: rat) + sum_list (map f (filter (\<lambda>i. hi_fill_key i \<notin> hi_fill_key ` set js) all))"
proof -
  let ?in = "filter (\<lambda>i. hi_fill_key i \<in> hi_fill_key ` set js) all"
  have i: "inj_on hi_fill_key (set all)" using assms(1) by (simp add: distinct_map)
  have "set ?in = set js" using assms(3) inj_onD [OF i] by (auto; blast)
  moreover have "distinct ?in" "distinct js" using assms(1,2) by (simp_all add: distinct_map)
  ultimately have "sum_list (map f ?in) = sum_list (map f js)" by (metis sum_list_distinct_conv_sum_set)
  with sum_split [of f all "\<lambda>i. hi_fill_key i \<in> hi_fill_key ` set js"] show ?thesis by simp
qed

text \<open>What the checkpoint says was filled, over its orders.\<close>

lemma legacy_sum:
  assumes v: "foldE (validate_view sn) (view_keys cfg) no_identities = Inr ids"
    and lc: "distinct (map lo_client_order_id (oc_legacy_orders cfg))"
    and lb: "\<forall>item \<in> set (oc_legacy_orders cfg). bound_legacy sn (orders_of sn (view_keys cfg)) item"
  shows "sum_list (map (\<lambda>(key, rec). signed (so_side rec) (total_of (legacy_totals (oc_legacy_orders cfg)) key)) (orders_of sn (view_keys cfg)))
    = sum_list (map legacy_signed (oc_legacy_orders cfg))"
proof -
  let ?legacy = "oc_legacy_orders cfg" and ?orders = "orders_of sn (view_keys cfg)"
  let ?start = "total_of (legacy_totals ?legacy)"
  have d: "distinct (map fst ?orders)" using views_validated [OF v] by (rule conjunct1)
  let ?d = "map (\<lambda>item. (lo_client_order_id item, item)) ?legacy"
  have dd: "distinct (map fst ?d)" using lc by (simp add: o_def)
  have sub: "dict_keys ?d \<subseteq> set (map fst ?orders)"
  proof
    fix c assume "c \<in> dict_keys ?d"
    then obtain item where "item \<in> set ?legacy" "c = lo_client_order_id item" by auto
    with lb obtain rec where "dict_get ?orders c = Some rec" unfolding bound_legacy_def by blast
    then have "(c, rec) \<in> set ?orders" by (rule map_of_SomeD)
    then show "c \<in> set (map fst ?orders)" by (simp only: set_map image_iff) force
  qed
  have "signed (so_side rec) (?start key) = (case dict_get ?d key of None \<Rightarrow> 0 | Some item \<Rightarrow> legacy_signed item)"
    if "(key, rec) \<in> set ?orders" for key rec
  proof (cases "dict_get ?d key")
    case None
    then show ?thesis by (simp add: legacy_total [OF lc] signed_def)
  next
    case (Some item)
    then have i: "item \<in> set ?legacy" "lo_client_order_id item = key" by (auto dest!: map_of_SomeD)
    with legacy_side [OF v _ that [folded i(2)]] lb Some show ?thesis by (simp add: legacy_total [OF lc])
  qed
  then have "map (\<lambda>(key, rec). signed (so_side rec) (?start key)) ?orders =
      map (\<lambda>k. case dict_get ?d k of None \<Rightarrow> 0 | Some item \<Rightarrow> legacy_signed item) (map fst ?orders)"
    unfolding map_map by (intro map_cong refl) (auto simp: case_prod_unfold)
  then show ?thesis using sum_over_keys [OF dd d sub, of legacy_signed] by (simp only: list.map_comp) (simp add: o_def)
qed

lemma replay_projects:
  assumes "foldE (replay_allocation seen orders) (sn_allocations sn) (checkpoint_replay cfg intents js) = Inr rp"
  shows "rp_balances rp = plain_balances (route_balances cfg sn)"
  using replay_route_balances [OF assms, where d = "checkpoint_balances cfg" and v = "\<lambda>item. fill_view cfg sn (al_fill_key item)"]
  by (simp add: checkpoint_replay_def route_balances_def plain_balances_def)

lemma balances_explained:
  assumes rp: "foldE (replay_allocation seen orders) (sn_allocations sn) (checkpoint_replay cfg intents js) = Inr rp"
    and small: "small_balances (rp_balances (checkpoint_replay cfg intents js))"
    and items: "\<forall>item \<in> set (sn_allocations sn). exact_item item"
    and cs: "\<And>r. balance_of (plain_balances (checkpoint_balances cfg)) r =
      sum_list (map legacy_net (filter (\<lambda>item. lo_route item = r) (oc_legacy_orders cfg)))"
  shows "list_all (\<lambda>(route, balance, _). \<bar>balance\<bar> \<le> 1/2 \<and>
      balance = sum_list (map legacy_net (filter (\<lambda>item. lo_route item = route) (oc_legacy_orders cfg)))
        + sum_list (map net_item (filter (\<lambda>item. al_route item = route) (sn_allocations sn)))) (route_balances cfg sn)"
proof -
  let ?items = "sn_allocations sn" and ?legacy = "oc_legacy_orders cfg"
  note rb = replay_balances [OF rp small items] and proj = replay_projects [OF rp]
  have "list_all (\<lambda>(route, balance). \<bar>balance\<bar> \<le> 1/2 \<and>
      balance = sum_list (map legacy_net (filter (\<lambda>item. lo_route item = route) ?legacy)) +
        sum_list (map net_item (filter (\<lambda>item. al_route item = route) ?items))) (rp_balances rp)"
    unfolding list_all_iff
  proof (intro ballI, clarify)
    fix route b assume e: "(route, b) \<in> set (rp_balances rp)"
    have sm: "small_balances (rp_balances rp)" using rb by blast
    with e have g: "balance_of (rp_balances rp) route = b" by (simp add: small_balances_def balance_of_def)
    have "\<bar>b\<bar> \<le> 1/2" using small_balance_of [OF sm, of route] g by simp
    moreover have "balance_of (rp_balances rp) route = sum_list (map legacy_net (filter (\<lambda>item. lo_route item = route) ?legacy)) +
        sum_list (map net_item (filter (\<lambda>item. al_route item = route) ?items))"
      using replay_balances [OF rp small items, of route] cs [of route] by (simp add: checkpoint_replay_def)
    ultimately show "\<bar>b\<bar> \<le> 1/2 \<and> b = sum_list (map legacy_net (filter (\<lambda>item. lo_route item = route) ?legacy)) +
        sum_list (map net_item (filter (\<lambda>item. al_route item = route) ?items))"
      using g by simp
  qed
  then show "list_all (\<lambda>(route, balance, _). \<bar>balance\<bar> \<le> 1/2 \<and>
      balance = sum_list (map legacy_net (filter (\<lambda>item. lo_route item = route) ?legacy)) +
        sum_list (map net_item (filter (\<lambda>item. al_route item = route) ?items))) (route_balances cfg sn)"
    unfolding proj plain_balances_def by (auto simp: list_all_iff)
qed

text \<open>C16: the allocations of a validated snapshot, together with the legacy checkpoint of the configuration, explain
  every ounce. The fills of the checkpoint and the allocations list every booked fill exactly once; every route's balance
  is the fills of the route minus the whole ounces handed to the hedge, those of the checkpoint included,
  and is at most half an ounce either way; and over all views together, the balances plus the hedge
  obligations are exactly the signed source fills. Amounts are within the bounds of exact arithmetic,
  and the balances the checkpoint starts with at most half an ounce, which is so when there is none
  (\<open>exact_checkpoint\<close>, \<open>exact_item\<close>).\<close>

theorem validated_allocations_conserve:
  assumes "validate cfg sn = Inr ()" "exact_checkpoint cfg sn"
    "\<forall>item \<in> set (sn_allocations sn). exact_item item" "length (sn_allocations sn) < 10 ^ 11"
  shows "distinct (legacy_keys cfg @ item_keys (sn_allocations sn)) \<and>
    set (legacy_keys cfg @ item_keys (sn_allocations sn)) = all_seen cfg sn \<and>
    list_all (\<lambda>(route, balance, _). \<bar>balance\<bar> \<le> 1/2 \<and>
      balance = sum_list (map legacy_net (filter (\<lambda>item. lo_route item = route) (oc_legacy_orders cfg)))
        + sum_list (map net_item (filter (\<lambda>item. al_route item = route) (sn_allocations sn)))) (route_balances cfg sn) \<and>
    sum_list (map (\<lambda>(_, balance, _). balance) (route_balances cfg sn)) +
      sum_list (map (\<lambda>k. obliged_ounces (sn_states sn k)) (view_keys cfg)) =
      sum_list (map (\<lambda>k. filled_ounces (sn_states sn k)) (view_keys cfg))"
proof (rule validated_replay [OF assms(1,2)])
  fix ids rp and js :: "hedge_intent list"
  let ?items = "sn_allocations sn" and ?orders = "orders_of sn (view_keys cfg)" and ?all = "all_intents cfg sn"
    and ?legacy = "oc_legacy_orders cfg"
  let ?rest = "filter (\<lambda>i. hi_fill_key i \<notin> hi_fill_key ` set js) ?all"
  assume v: "foldE (validate_view sn) (view_keys cfg) no_identities = Inr ids"
    and keys: "distinct (map hi_fill_key ?all)"
    and rp: "foldE (replay_allocation (all_seen cfg sn) ?orders) ?items (checkpoint_replay cfg ?all js) = Inr rp"
      "rp_fills rp = all_seen cfg sn" "rp_intents rp = []"
    and tot: "\<forall>(key, rec) \<in> set ?orders. total_of (rp_totals rp) key = so_filled_ounces rec"
    and lk: "distinct (legacy_keys cfg)" and lc: "distinct (map lo_client_order_id ?legacy)"
    and lb: "\<forall>item \<in> set ?legacy. bound_legacy sn ?orders item"
    and js: "distinct (map hi_fill_key js)" "set js \<subseteq> set ?all" "sum_list (map lo_allocated_ounces ?legacy) = sum_list (map handed js)"
  note rk = replay_keys [OF rp(1)]
  have d: "distinct (map fst ?orders)" using views_validated [OF v] by (rule conjunct1)
  have ri: "rp_intents (checkpoint_replay cfg ?all js) = map (\<lambda>i. (hi_fill_key i, i)) ?rest"
    by (simp add: checkpoint_replay_def filter_map o_def case_prod_unfold)
  have small: "small_balances (rp_balances (checkpoint_replay cfg ?all js))"
    using assms(2) by (simp add: checkpoint_replay_def exact_checkpoint_def)
  note rb = replay_balances [OF rp(1) small assms(3)] and cs = checkpoint_sums [OF assms(2)]
  note proj = replay_projects [OF rp(1)]
  note bal = balances_explained [OF rp(1) small assms(3) cs(1)]
  have cap: "4000000 * rat_of_nat (length ?items) < 10 ^ 18 - 4000000"
    using assms(4) of_nat_less_iff [of "length ?items" "10 ^ 11", where 'a = rat] by simp
  let ?start = "total_of (legacy_totals ?legacy)"
  have st: "on_grid (?start c) \<and> 0 \<le> ?start c \<and> ?start c < 4000000" for c
    using assms(2) lb by (auto simp: legacy_total [OF lc] exact_checkpoint_def exact_legacy_def bound_legacy_def
        split: option.split dest!: map_of_SomeD)
  have "\<forall>c. on_grid (?start c) \<and> 0 \<le> ?start c \<and> ?start c + 4000000 * of_nat (length ?items) < 10 ^ 18"
  proof
    fix c show "on_grid (?start c) \<and> 0 \<le> ?start c \<and> ?start c + 4000000 * of_nat (length ?items) < 10 ^ 18"
      using st [of c] cap by linarith
  qed
  then have totals: "total_of (rp_totals rp) cid = ?start cid +
      sum_list (map (\<lambda>item. \<bar>al_signed_fill_ounces item\<bar>) (filter (\<lambda>item. item_order item = cid) ?items))" for cid
    using replay_totals [OF rp(1) assms(3), of cid] by (simp add: checkpoint_replay_def)
  have S: "sum_list (map (\<lambda>(key, rec). signed (so_side rec) (?start key)) ?orders) + sum_list (map al_signed_fill_ounces ?items) =
      sum_list (map ((\<lambda>r. signed (so_side r) (so_filled_ounces r)) \<circ> snd) ?orders)"
  proof (rule fills_are_filled_after [OF d])
    show "\<forall>item \<in> set ?items. \<exists>rec. dict_get ?orders (item_order item) = Some rec \<and>
        (0 < al_signed_fill_ounces item \<longleftrightarrow> so_side rec = BUY)" using rk by blast
    show "\<forall>(key, rec) \<in> set ?orders. so_filled_ounces rec = ?start key +
        sum_list (map (\<lambda>item. \<bar>al_signed_fill_ounces item\<bar>) (filter (\<lambda>item. item_order item = key) ?items))"
      using tot unfolding totals by fastforce
  qed
  note L = legacy_sum [OF v lc lb]
  have A: "sum_list (map al_allocated_ounces ?items) = sum_list (map handed ?rest)"
    unfolding handed_def
  proof (rule allocated_is_obliged)
    show "distinct (item_keys ?items)" using rk by (rule conjunct1)
    show "set (map hi_fill_key ?rest) \<subseteq> set (item_keys ?items)"
      using intents_allocated [OF rp(1,3)] unfolding ri by (simp add: image_image)
    show "\<forall>item \<in> set ?items. intent_matches item (dict_get (map (\<lambda>i. (hi_fill_key i, i)) ?rest) (al_fill_key item)) \<and>
      on_grid (al_allocated_ounces item) \<and> \<bar>al_allocated_ounces item\<bar> < 4194305"
      using rk rb unfolding ri by blast
    show "distinct (map hi_fill_key ?rest)" using keys by (rule distinct_map_filter)
  qed
  have B: "sum_list (map (\<lambda>(_, balance, _). balance) (route_balances cfg sn)) = sum_list (map legacy_net ?legacy) +
      sum_list (map al_signed_fill_ounces ?items) - sum_list (map al_allocated_ounces ?items)"
    using rb cs(2) unfolding proj
    by (simp add: checkpoint_replay_def plain_balances_def sum_list_subtractf o_def case_prod_unfold)
  have F: "sum_list (map (\<lambda>k. filled_ounces (sn_states sn k)) (view_keys cfg)) =
      sum_list (map ((\<lambda>r. signed (so_side r) (so_filled_ounces r)) \<circ> snd) ?orders)"
    by (simp add: filled_ounces_def map_concat sum_concat o_def)
  have O: "sum_list (map (\<lambda>k. obliged_ounces (sn_states sn k)) (view_keys cfg)) = sum_list (map handed ?all)"
    by (simp add: obliged_ounces_def all_intents_def state_intents_def map_concat sum_concat o_def handed_def)
  have fills: "distinct (legacy_keys cfg @ item_keys ?items)" "set (legacy_keys cfg @ item_keys ?items) = all_seen cfg sn"
    using rk rp(2) lk by (auto simp: checkpoint_replay_def)
  have "sum_list (map (\<lambda>(_, balance, _). balance) (route_balances cfg sn)) +
      sum_list (map (\<lambda>k. obliged_ounces (sn_states sn k)) (view_keys cfg)) =
      sum_list (map (\<lambda>k. filled_ounces (sn_states sn k)) (view_keys cfg))"
    using S L A B F O js(3) claimed_sum [OF keys js(1,2), of handed] by (simp add: sum_list_subtractf)
  with fills bal show ?thesis by blast
qed

text \<open>An owner with a checkpoint: the first fill of the order is the checkpoint's, the second was allocated later.\<close>

definition ex_legacy :: legacy_order where
  "ex_legacy = \<lparr>lo_client_order_id = ''o1'', lo_direction = LONG, lo_route = route_of ex_order, lo_filled_ounces = 2,
     lo_fill_keys = [''o1|v1|t1''], lo_intent_ids = [hi_intent_id ex_hedge], lo_allocated_ounces = 2\<rparr>"

definition ex_legacy_cfg :: owner_config where
  "ex_legacy_cfg = ex_cfg\<lparr>oc_shared_strategy_ids := None, oc_legacy_orders := [ex_legacy]\<rparr>"

definition ex_later :: hedge_intent where
  "ex_later = new_intent id ''o1|v2|t2'' ''o1'' ''t2'' BUY 1 None ex_order 1"

definition ex_legacy_snapshot :: snapshot where
  "ex_legacy_snapshot = \<lparr>sn_states = (\<lambda>k. if k = Bid then ex_bid\<lparr>ss_source_orders := [(''o1'', ex_order\<lparr>so_filled_ounces := 3\<rparr>)],
       ss_seen_source_fills := {''o1|v1|t1'', ''o1|v2|t2''},
       ss_hedge_intents := [(hi_intent_id ex_hedge, ex_hedge), (hi_intent_id ex_later, ex_later)]\<rparr> else empty_state),
     sn_allocations = [\<lparr>al_fill_key = ''o1|v2|t2'', al_route = route_of ex_order, al_signed_fill_ounces = 1,
       al_allocated_ounces = 1\<rparr>], sn_cycle_freeze_only = False\<rparr>"

lemma ex_one: "round_hedge_ounces 1 = 1" "dadd 0 1 = 1" "dadd 2 1 = 3" "dsub 1 1 = 0" "dabs 1 = 1" "dmul 2 1 = 2"
proof -
  have "rhe 1 = (1::int)" using rhe_of_int [of 1] by simp
  then show "round_hedge_ounces 1 = 1" unfolding round_hedge_ounces_def using round_float_eq_rhe [of 1] by simp
  show "dadd 0 1 = 1" "dadd 2 1 = 3" "dsub 1 1 = 0" "dabs 1 = 1" "dmul 2 1 = 2"
    using dadd_exact [of 0 1] dadd_exact [of 2 1] dsub_exact [of 1 1] dabs_exact [of 1] dmul_unit_exact [of 2]
    by (simp_all add: dmul_def)
qed

lemma ex_legacy_valid: "validate ex_legacy_cfg ex_legacy_snapshot = Inr ()"
  by (simp add: validate_def ex_legacy_cfg_def ex_cfg_def ex_legacy_snapshot_def view_keys_def validate_view_def Let_def no_identities_def
    validate_orders_def validate_order_def validate_source_fills_def validate_intents_def validate_intent_def
    validate_hedge_fills_def ex_bid_def empty_state_def ex_hedge_def ex_later_def new_intent_def ex_order_def source_fill_key_ok_def
    source_trade_def intent_order_ids_def intent_order_list_def validate_allocations_def all_records_def all_intents_def all_seen_def
    dict_of_def state_intents_def validate_checkpoint_def claim_intents_def checkpoint_direction_def ex_legacy_def
    checkpoint_balances_def add_to_balance_def replay_allocation_def dict_index_def ex_two ex_one route_of_def insert_commute)

lemma ex_legacy_exact: "exact_checkpoint ex_legacy_cfg ex_legacy_snapshot"
  by (simp add: exact_checkpoint_def checkpoint_balances_def add_to_balance_def ex_legacy_cfg_def ex_cfg_def ex_legacy_def
    plain_balances_def small_balances_def exact_legacy_def ex_two ex_one all_intents_def view_keys_def ex_legacy_snapshot_def
    ex_hedge_def ex_later_def new_intent_def state_intents_def empty_state_def)

theorem validated_allocations_conserve_witness:
  "legacy_keys ex_legacy_cfg @ item_keys (sn_allocations ex_legacy_snapshot) = [''o1|v1|t1'', ''o1|v2|t2''] \<and>
    {''o1|v1|t1'', ''o1|v2|t2''} = all_seen ex_legacy_cfg ex_legacy_snapshot \<and>
    sum_list (map (\<lambda>(_, balance, _). balance) (route_balances ex_legacy_cfg ex_legacy_snapshot)) +
      sum_list (map (\<lambda>k. obliged_ounces (sn_states ex_legacy_snapshot k)) (view_keys ex_legacy_cfg)) =
      sum_list (map (\<lambda>k. filled_ounces (sn_states ex_legacy_snapshot k)) (view_keys ex_legacy_cfg))"
proof -
  have x: "\<forall>item \<in> set (sn_allocations ex_legacy_snapshot). exact_item item" "length (sn_allocations ex_legacy_snapshot) < 10 ^ 11"
    and k: "legacy_keys ex_legacy_cfg @ item_keys (sn_allocations ex_legacy_snapshot) = [''o1|v1|t1'', ''o1|v2|t2'']"
    by (simp_all add: ex_legacy_cfg_def ex_legacy_def ex_legacy_snapshot_def exact_item_def)
  show ?thesis using k validated_allocations_conserve [OF ex_legacy_valid ex_legacy_exact x] unfolding k by simp
qed

end
