(* ===== verification/Maker_Safety.thy ===== *)
theory Maker_Safety
  imports Maker_Ledger
begin

text \<open>
  What the allocation owner promises its strategies: a fill is booked completely or not at all,
  in every view and in the file; it pauses every view until both sides are reconciled; and a
  shared owner lets one hedge obligation at a time, the oldest, be dispatched.
\<close>

section \<open>A fill is all or nothing\<close>

lemma book_fill_run:
  assumes "book_source_fill key cid side f blocked rec v = (v', r)"
  shows "ss_source_freeze_reason (vw_state v') = ss_source_freeze_reason (vw_state v)"
    and "r = Inr () \<Longrightarrow> key \<in> ss_seen_source_fills (vw_state v')"
  using assms
  by (auto simp: book_source_fill_def Let_def update_state_def set_order_def set_halt_def split: if_splits)

lemma put_intent_run:
  assumes "put_intent i v = (v', r)"
  shows "ss_source_freeze_reason (vw_state v') = ss_source_freeze_reason (vw_state v)"
    and "ss_seen_source_fills (vw_state v') = ss_seen_source_fills (vw_state v)"
  using assms
  by (cases "mk_hedge_intent i"; auto simp: put_intent_def update_state_def)+

text \<open>Everything the body of a reservation leaves alone, and what it adds.\<close>

definition fill_booked :: "view_key \<Rightarrow> string \<Rightarrow> owner \<Rightarrow> owner \<Rightarrow> bool" where
  "fill_booked k key w w' \<longleftrightarrow> key \<in> ss_seen_source_fills (view_of k w') \<and>
    (\<exists>item. ow_allocations w' = ow_allocations w @ [item] \<and> al_fill_key item = key)"

definition step_frame :: "view_key \<Rightarrow> owner \<Rightarrow> owner \<Rightarrow> bool" where
  "step_frame k w w' \<longleftrightarrow> ow_file w' = ow_file w \<and> ow_config w' = ow_config w \<and>
    ow_freeze_publication_failed w' = ow_freeze_publication_failed w \<and>
    ow_cycle_freeze_only w' = ow_cycle_freeze_only w \<and> (\<forall>k'. is_frozen k' w' = is_frozen k' w) \<and>
    (\<forall>k'. k' \<noteq> k \<longrightarrow> ow_views w' k' = ow_views w k')"

lemma reserve_step_maker:
  assumes new: "key \<notin> ss_seen_source_fills (view_of k w)" "dict_get (ss_source_orders (view_of k w)) cid = Some rec"
    and e: "reserve_source_fill_step (maker_view k) digest key cid trade side f None w = (w', r)"
  shows "step_frame k w w' \<and> (\<forall>i. r = Inr i \<longrightarrow> fill_booked k key w w')"
proof -
  obtain v1 r1 where b: "book_source_fill key cid side f None rec (ow_views w k) = (v1, r1)" by fastforce
  note b' = book_fill_run [OF b]
  have frame1: "step_frame k w (put_view k v1 w)"
    using b' by (auto simp: step_frame_def is_frozen_def)
  show ?thesis
  proof (cases r1)
    case (Inl x)
    with e new b frame1 show ?thesis
      by (auto simp: reserve_source_fill_step_def on_view_def bind_tx_def)
  next
    case (Inr u)
    obtain n w2 where a: "owner_allocate rec key (signed_ounces side f) (put_view k v1 w) = (n, w2)" by fastforce
    note a' = owner_allocate_run [OF a]
    have frame2: "step_frame k w w2" using a' frame1 by (auto simp: step_frame_def is_frozen_def)
    have booked2: "fill_booked k key w w2" using a' b' Inr by (auto simp: fill_booked_def)
    have body: "(w', r) = (if n = 0 then (w2, Inr None) else bind_tx (on_view (maker_view k) (put_intent
        (new_intent digest key cid trade side f None rec n))) (\<lambda>i. ret_tx (Some i)) w2)"
      using e new b Inr a by (simp add: reserve_source_fill_step_def bind_tx_def on_view_def)
    show ?thesis
    proof (cases "n = 0")
      case True
      with body frame2 booked2 show ?thesis by simp
    next
      case False
      obtain v3 r3 where p: "put_intent (new_intent digest key cid trade side f None rec n) (ow_views w2 k) = (v3, r3)"
        by fastforce
      note p' = put_intent_run [OF p]
      have "w' = put_view k v3 w2" using body False p by (cases r3) (auto simp: on_view_def bind_tx_def)
      moreover have "step_frame k w (put_view k v3 w2)" using frame2 p' by (auto simp: step_frame_def is_frozen_def)
      moreover have "fill_booked k key w (put_view k v3 w2)" using booked2 p' by (simp add: fill_booked_def)
      ultimately show ?thesis by simp
    qed
  qed
qed

text \<open>What a reservation through a view does to the whole owner.\<close>

lemma reserve_maker:
  assumes new: "key \<notin> ss_seen_source_fills (view_of k w)" "dict_get (ss_source_orders (view_of k w)) cid \<noteq> None"
    and e: "reserve_source_fill (maker_view k) digest key cid trade side f w = (w', r)"
  shows "if \<exists>e. r = Inl e \<and> e \<noteq> ParentDirectorySyncError then ow_file w' = ow_file w
    else ow_file w' = Some (owner_snapshot w') \<and> fill_booked k key w w' \<and> (\<forall>k'. is_frozen k' w' = is_frozen k' w)
      \<and> ow_config w' = ow_config w \<and> validate (ow_config w) (owner_snapshot w') = Inr ()"
proof -
  obtain rec where rec: "dict_get (ss_source_orders (view_of k w)) cid = Some rec" using new by auto
  obtain w1 r1 where s: "reserve_source_fill_step (maker_view k) digest key cid trade side f None w = (w1, r1)" by fastforce
  note step = reserve_step_maker [OF new(1) rec s]
  show ?thesis
  proof (cases r1)
    case (Inl x)
    have "x \<noteq> ParentDirectorySyncError"
      using s Inl rec new
      by (auto simp: reserve_source_fill_step_def bind_tx_def on_view_def book_source_fill_def Let_def update_state_def
          put_intent_def mk_hedge_intent_def bindE_def split: prod.splits sum.splits if_splits dest!: check_hedge_intent_error)
    moreover have "w' = upd_state (maker_view k) (\<lambda>_. view_of k w) w1" "r = Inl x"
      using e s Inl new by (auto simp: reserve_source_fill_def)
    ultimately show ?thesis using step by (auto simp: upd_state_def step_frame_def)
  next
    case (Inr i)
    have booked: "step_frame k w w1" "fill_booked k key w w1" using step Inr by auto
    have run: "(w', r) = bind_tx (rolling_back (maker_view k) (view_of k w) owner_persist) (\<lambda>_. ret_tx i) w1"
      using e s Inr new by (auto simp: reserve_source_fill_def)
    show ?thesis
      by (cases rule: owner_persist_cases [of w1])
        (use run booked in \<open>auto simp: rolling_back_def bind_tx_def upd_state_def step_frame_def fill_booked_def
          is_frozen_def owner_snapshot_def\<close>)
  qed
qed

lemma set_freezes_run:
  "ow_file (snd (set_freezes reason ks w)) = ow_file w" "ow_config (snd (set_freezes reason ks w)) = ow_config w"
  "ow_allocations (snd (set_freezes reason ks w)) = ow_allocations w"
  "ss_seen_source_fills (view_of k (snd (set_freezes reason ks w))) = ss_seen_source_fills (view_of k w)"
  "ss_source_orders (view_of k (snd (set_freezes reason ks w))) = ss_source_orders (view_of k w)"
  "is_frozen k (snd (set_freezes reason ks w)) \<longleftrightarrow> is_frozen k w \<or> k \<in> set ks"
  by (induction ks arbitrary: w) (auto simp: set_freeze_def is_frozen_def)

lemma claim_cycle_run:
  "ow_file (claim_cycle_freeze w) = ow_file w" "ow_config (claim_cycle_freeze w) = ow_config w"
  "ow_allocations (claim_cycle_freeze w) = ow_allocations w" "ow_views (claim_cycle_freeze w) = ow_views w"
  by (simp_all add: claim_cycle_freeze_def Let_def)

text \<open>C15: a source fill is booked completely or not at all. A fill already seen, or of an unknown order,
  changes nothing. Otherwise, if the reservation raises anything but a parent directory error,
  every view, the allocations and the file are as before; in all other cases the file holds the
  new state of all views, which passes validation, the fill is booked in its view and last in
  the allocation order, and every view is paused for new source orders.\<close>

theorem maker_fill_all_or_nothing:
  assumes "maker_reserve_source_fill k digest key cid trade side f w = (w', r)"
  shows "if key \<in> ss_seen_source_fills (view_of k w) \<or> dict_get (ss_source_orders (view_of k w)) cid = None
      then w' = w \<and> r = Inr None
    else if \<exists>e. r = Inl e \<and> e \<noteq> ParentDirectorySyncError
      then owner_snapshot w' = owner_snapshot w \<and> ow_file w' = ow_file w
    else ow_file w' = Some (owner_snapshot w') \<and> validate (ow_config w) (owner_snapshot w') = Inr () \<and>
      key \<in> ss_seen_source_fills (view_of k w') \<and>
      (\<exists>item. ow_allocations w' = ow_allocations w @ [item] \<and> al_fill_key item = key) \<and>
      list_all (\<lambda>k'. is_frozen k' w' \<and> \<not> can_submit_source (maker_view k') w') (view_keys (ow_config w))"
proof (cases "key \<in> ss_seen_source_fills (view_of k w) \<or> dict_get (ss_source_orders (view_of k w)) cid = None")
  case True
  with assms show ?thesis by (auto simp: maker_reserve_source_fill_def)
next
  case False
  define w1 where "w1 = snd (set_freezes (fill_freeze_reason cid trade) (view_keys (ow_config w)) (claim_cycle_freeze w))"
  note w1 = set_freezes_run [where reason = "fill_freeze_reason cid trade" and ks = "view_keys (ow_config w)"
      and w = "claim_cycle_freeze w", unfolded claim_cycle_run, folded w1_def]
  obtain w2 r2 where s: "reserve_source_fill (maker_view k) digest key cid trade side f w1 = (w2, r2)" by fastforce
  have new: "key \<notin> ss_seen_source_fills (view_of k w1)" "dict_get (ss_source_orders (view_of k w1)) cid \<noteq> None"
    using False w1 claim_cycle_run(4) [of w] by (simp_all add: is_frozen_def)
  note res = reserve_maker [OF new s]
  have run: "(w', r) = (case r2 of Inl e \<Rightarrow> if e = ParentDirectorySyncError then (w2, Inl e)
      else (owner_restore (owner_snapshot w) w2, Inl e) | Inr i \<Rightarrow> (w2, Inr i))"
    using assms False s unfolding maker_reserve_source_fill_def Let_def w1_def [symmetric]
    by (auto split: sum.split)
  show ?thesis
  proof (cases "\<exists>e. r2 = Inl e \<and> e \<noteq> ParentDirectorySyncError")
    case True
    with res run w1(1) False show ?thesis by auto
  next
    case ok: False
    then have w2: "w' = w2" "r = r2" using run by (auto split: sum.splits)
    have "list_all (\<lambda>k'. is_frozen k' w2 \<and> \<not> can_submit_source (maker_view k') w2) (view_keys (ow_config w))"
      using res ok w1(6) by (auto simp: list_all_iff can_submit_source_def is_frozen_def)
    with res ok w2 w1(2,3) False show ?thesis by (auto simp: fill_booked_def)
  qed
qed

section \<open>One hedge at a time\<close>

definition all_hedges :: "owner_config \<Rightarrow> snapshot \<Rightarrow> (string \<times> view_key \<times> hedge_intent) list" where
  "all_hedges cfg sn = [(hi_fill_key i, (k, i)). k \<leftarrow> view_keys cfg, i \<leftarrow> state_intents (sn_states sn k)]"

lemma all_hedges_keys: "map fst (all_hedges cfg sn) = map hi_fill_key (all_intents cfg sn)"
  by (simp add: all_hedges_def all_intents_def map_concat o_def)

lemma all_hedges_in: "(key, k, i) \<in> set (all_hedges cfg sn) \<longleftrightarrow>
    k \<in> set (view_keys cfg) \<and> i \<in> set (state_intents (sn_states sn k)) \<and> key = hi_fill_key i"
  by (auto simp: all_hedges_def)

lemma find_prefix:
  "find p xs = Some x \<Longrightarrow> \<exists>pre post. xs = pre @ x # post \<and> p x \<and> list_all (\<lambda>y. \<not> p y) pre"
proof (induction xs)
  case (Cons y xs)
  show ?case
  proof (cases "p y")
    case True
    with Cons.prems show ?thesis by (intro exI [of _ "[]"] exI [of _ xs]) auto
  next
    case False
    with Cons obtain pre post where "xs = pre @ x # post" "p x" "list_all (\<lambda>y. \<not> p y) pre" by auto
    with False show ?thesis by (intro exI [of _ "y # pre"] exI [of _ post]) auto
  qed
qed simp

lemma first_unfinished_shared:
  assumes "validate cfg sn = Inr ()" "oc_legacy_orders cfg = []"
  shows "first_unfinished_hedge cfg sn =
    (case find (\<lambda>item. case dict_get (all_hedges cfg sn) (al_fill_key item) of
        None \<Rightarrow> False | Some (_, i) \<Rightarrow> hi_status i \<noteq> COMPLETED) (sn_allocations sn) of
      None \<Rightarrow> None | Some item \<Rightarrow> dict_get (all_hedges cfg sn) (al_fill_key item))"
proof -
  have "dict_of (all_hedges cfg sn) = all_hedges cfg sn"
    using allocations_exact [OF assms] all_hedges_keys [of cfg sn] by (intro dict_of_distinct) simp
  then show ?thesis
    by (simp add: first_unfinished_hedge_def all_hedges_def [symmetric] assms(2) list_ex_iff Let_def)
qed

definition completed_fill :: "owner_config \<Rightarrow> snapshot \<Rightarrow> string \<Rightarrow> bool" where
  "completed_fill cfg sn key \<longleftrightarrow>
    list_all (\<lambda>i. hi_fill_key i = key \<longrightarrow> hi_status i = COMPLETED) (all_intents cfg sn)"

text \<open>C18: a shared owner dispatches one hedge obligation at a time, oldest first. In a validated snapshot no
  obligation may be dispatched exactly when every obligation of every view is completed; otherwise
  exactly one is dispatchable, it is unfinished, and every fill allocated before it has a completed
  obligation or none.\<close>

theorem shared_hedge_lane:
  assumes "validate cfg sn = Inr ()" "oc_shared_strategy_ids cfg \<noteq> None"
  shows "case first_unfinished_hedge cfg sn of
      None \<Rightarrow> list_all (\<lambda>i. hi_status i = COMPLETED) (all_intents cfg sn) \<and>
        (\<forall>k intent_id. \<not> hedge_dispatch_ready cfg sn k intent_id)
    | Some (k, i) \<Rightarrow> k \<in> set (view_keys cfg) \<and> i \<in> set (state_intents (sn_states sn k)) \<and> hi_status i \<noteq> COMPLETED \<and>
        (\<forall>k' intent_id. hedge_dispatch_ready cfg sn k' intent_id \<longleftrightarrow> k' = k \<and> intent_id = hi_intent_id i) \<and>
        (\<exists>pre item post. sn_allocations sn = pre @ item # post \<and> al_fill_key item = hi_fill_key i \<and>
          list_all (\<lambda>earlier. completed_fill cfg sn (al_fill_key earlier)) pre)"
proof -
  let ?d = "all_hedges cfg sn"
  let ?open = "\<lambda>item. case dict_get ?d (al_fill_key item) of None \<Rightarrow> False | Some (_, i) \<Rightarrow> hi_status i \<noteq> COMPLETED"
  have leg: "oc_legacy_orders cfg = []" using assms by (auto simp: validate_def split: if_splits)
  note exact = allocations_exact [OF assms(1) leg] and first = first_unfinished_shared [OF assms(1) leg]
  have dist: "distinct (map fst ?d)" using exact all_hedges_keys [of cfg sn] by simp
  have member: "\<exists>k. (hi_fill_key i, k, i) \<in> set ?d" if "i \<in> set (all_intents cfg sn)" for i
    using that by (auto simp: all_hedges_in all_intents_def)
  have get: "dict_get ?d (hi_fill_key i) = Some (k, i)" if "(hi_fill_key i, k, i) \<in> set ?d" for k i
    using that dist by simp
  show ?thesis
  proof (cases "find ?open (sn_allocations sn)")
    case None
    have "hi_status i = COMPLETED" if i: "i \<in> set (all_intents cfg sn)" for i
    proof -
      obtain k where k: "(hi_fill_key i, k, i) \<in> set ?d" using member [OF i] by blast
      obtain item where "item \<in> set (sn_allocations sn)" "al_fill_key item = hi_fill_key i"
        using subsetD [OF conjunct1 [OF conjunct2 [OF conjunct2 [OF exact]]], of "hi_fill_key i"] i by auto
      moreover from this(1) None have "\<not> ?open item" by (simp add: find_None_iff)
      ultimately show ?thesis using get [OF k] by simp
    qed
    then have "list_all (\<lambda>i. hi_status i = COMPLETED) (all_intents cfg sn)" by (simp add: list_all_iff)
    moreover have none: "first_unfinished_hedge cfg sn = None" unfolding first None by simp
    ultimately show ?thesis using assms(2) by (simp add: none hedge_dispatch_ready_def)
  next
    case (Some item)
    from find_prefix [OF Some] obtain pre post where split: "sn_allocations sn = pre @ item # post"
      and op: "?open item" and pre: "list_all (\<lambda>y. \<not> ?open y) pre" by blast
    from op obtain k i where ki: "dict_get ?d (al_fill_key item) = Some (k, i)" "hi_status i \<noteq> COMPLETED"
      by (auto split: option.splits)
    have "(al_fill_key item, k, i) \<in> set ?d" using map_of_SomeD [OF ki(1)] .
    then have view: "k \<in> set (view_keys cfg)" "i \<in> set (state_intents (sn_states sn k))" "al_fill_key item = hi_fill_key i"
      by (simp_all add: all_hedges_in)
    have "list_all (\<lambda>earlier. completed_fill cfg sn (al_fill_key earlier)) pre"
      unfolding list_all_iff completed_fill_def
    proof (intro ballI impI)
      fix earlier j assume e: "earlier \<in> set pre" "j \<in> set (all_intents cfg sn)" "hi_fill_key j = al_fill_key earlier"
      obtain k' where "(hi_fill_key j, k', j) \<in> set ?d" using member [OF e(2)] by blast
      from get [OF this] e(1,3) pre show "hi_status j = COMPLETED" by (auto simp: list_all_iff)
    qed
    moreover have some: "first_unfinished_hedge cfg sn = Some (k, i)" unfolding first Some using ki by simp
    moreover have "hedge_dispatch_ready cfg sn k' intent_id \<longleftrightarrow> k' = k \<and> intent_id = hi_intent_id i" for k' intent_id
      using assms(2) some by (auto simp: hedge_dispatch_ready_def)
    ultimately show ?thesis using ki view split by auto
  qed
qed

section \<open>When a pause is lifted\<close>

text \<open>What has to hold of a view before its pause is lifted.\<close>

definition reconciled :: "view_key \<Rightarrow> owner \<Rightarrow> bool" where
  "reconciled k w \<longleftrightarrow> ss_halt_reason (view_of k w) = None \<and> ss_active_source_order_id (view_of k w) = None \<and>
    list_all (\<lambda>rec. so_status rec \<in> {''FILLED'', ''DENIED'', ''REJECTED'', ''CANCELED'', ''EXPIRED''}) (state_orders (view_of k w)) \<and>
    list_all (\<lambda>i. hi_status i = COMPLETED \<and> hi_hedge_filled_ounces i = hi_hedge_quantity_ounces i) (state_intents (view_of k w))"

lemma cycle_evidence_reconciled: "cycle_evidence_complete (maker_view k) w \<Longrightarrow> reconciled k w"
  by (simp add: cycle_evidence_complete_def reconciled_def maker_view_def view_admissible_def Let_def all_completed_def
      list_all_iff)

lemma unfreeze_run:
  "ow_file (fold (set_freeze None) ks w) = ow_file w" "ow_config (fold (set_freeze None) ks w) = ow_config w"
  "ow_committed (fold (set_freeze None) ks w) = ow_committed w"
  "ow_freeze_publication_failed (fold (set_freeze None) ks w) = ow_freeze_publication_failed w"
  "is_frozen k (fold (set_freeze None) ks w) \<longleftrightarrow> is_frozen k w \<and> k \<notin> set ks"
  by (induction ks arbitrary: w) (auto simp: set_freeze_def is_frozen_def)

text \<open>One reason remains after duplicates are removed: some view is paused, and all paused views agree.\<close>

lemma one_pause_reason:
  assumes "length (remdups (map (\<lambda>k. ss_source_freeze_reason (view_of k w)) (filter (\<lambda>k. is_frozen k w) ks))) = 1"
  shows "\<exists>reason. list_ex (\<lambda>k. is_frozen k w) ks \<and>
    list_all (\<lambda>k. ss_source_freeze_reason (view_of k w) \<in> {None, Some reason}) ks"
proof -
  let ?f = "\<lambda>k. ss_source_freeze_reason (view_of k w)"
  obtain x where "remdups (map ?f (filter (\<lambda>k. is_frozen k w) ks)) = [x]" using assms by (auto simp: length_Suc_conv)
  then have "set (remdups (map ?f (filter (\<lambda>k. is_frozen k w) ks))) = {x}" by simp
  then have x: "?f ` {k \<in> set ks. is_frozen k w} = {x}" by (simp only: set_remdups set_map set_filter)
  then have "x \<in> ?f ` {k \<in> set ks. is_frozen k w}" by simp
  then obtain k reason where k: "k \<in> set ks" "is_frozen k w" "x = Some reason" by (auto simp: is_frozen_def)
  have "?f j \<in> {None, Some reason}" if "j \<in> set ks" for j
  proof (cases "is_frozen j w")
    case True
    with that have "?f j \<in> {x}" by (subst x [symmetric]) blast
    with k(3) show ?thesis by simp
  qed (simp add: is_frozen_def)
  with k show ?thesis by (intro exI [of _ reason]) (auto simp: list_ex_iff list_all_iff)
qed

text \<open>C19: the owner lifts the pause of its views only on complete evidence. When the pause is lifted, before
  the call some view was paused and all paused views for the same reason, no view had a halt or an
  active order, every source order was final, every hedge obligation completed and fully filled,
  every non-zero balance was on the carry route within its limit, and no freeze had failed to
  publish; afterwards no view is paused, and the file says so. That is so when the call reports
  success, and also when only the directory sync of the write failed; the owner then remembers the
  failed publication. When it reports that the evidence is incomplete, nothing changed; with any
  other exception the last committed state is back and the file is untouched.\<close>

theorem pause_lifted_on_evidence:
  assumes "clear_source_freezes w = (w', r)"
  shows "if r = Inr True \<or> r = Inl ParentDirectorySyncError then
      list_all (\<lambda>k. reconciled k w \<and> \<not> is_frozen k w') (view_keys (ow_config w)) \<and>
      (\<exists>reason. list_ex (\<lambda>k. is_frozen k w) (view_keys (ow_config w)) \<and>
        list_all (\<lambda>k. ss_source_freeze_reason (view_of k w) \<in> {None, Some reason}) (view_keys (ow_config w))) \<and>
      list_all (\<lambda>(route, balance). Some route = oc_carry_route (ow_config w) \<and> dabs balance \<le> oc_residual_limit (ow_config w))
        (residuals (ow_config w) (owner_snapshot w)) \<and>
      \<not> ow_freeze_publication_failed w \<and> ow_freeze_publication_failed w' = (r = Inl ParentDirectorySyncError) \<and>
      ow_file w' = Some (owner_snapshot w') \<and> \<not> ow_cycle_freeze_only w'
    else if r = Inr False then w' = w
    else owner_snapshot w' = ow_committed w \<and> ow_file w' = ow_file w"
proof (cases "w' = w \<and> r = Inr False")
  case False
  let ?ks = "view_keys (ow_config w)"
  let ?w1 = "(fold (set_freeze None) ?ks w)\<lparr>ow_cycle_freeze_only := False\<rparr>"
  let ?reasons = "remdups (map (\<lambda>k. ss_source_freeze_reason (view_of k w)) (filter (\<lambda>k. is_frozen k w) ?ks))"
  from False assms have ok: "\<not> ow_freeze_publication_failed w" "source_balance_is_admissible (ow_config w) (owner_snapshot w)"
      "list_all (\<lambda>k. cycle_evidence_complete (maker_view k) w) ?ks" "length ?reasons = 1"
    and run: "bind_tx owner_persist (\<lambda>_. ret_tx True) ?w1 = (w', r)"
    by (auto simp: clear_source_freezes_def Let_def split: if_splits)
  note u = unfreeze_run [where ks = ?ks and w = w]
  have rec: "list_all (\<lambda>k. reconciled k w \<and> \<not> is_frozen k ?w1) ?ks"
    using ok(3) cycle_evidence_reconciled u(5) by (auto simp: list_all_iff is_frozen_def)
  note one = one_pause_reason [OF ok(4)]
  have lifted: "list_all (\<lambda>k. reconciled k w \<and> \<not> is_frozen k x) ?ks \<and> ow_file x = Some (owner_snapshot x) \<and> \<not> ow_cycle_freeze_only x"
    if "ow_views x = ow_views ?w1" "ow_file x = Some (owner_snapshot (settled ?w1))" "owner_snapshot x = owner_snapshot (settled ?w1)" for x
  proof -
    have "\<not> sn_cycle_freeze_only (owner_snapshot x)" unfolding that(3) by (simp add: settled_def)
    then have "\<not> ow_cycle_freeze_only x" by (simp only: snapshot_simps not_False_eq_True)
    then show ?thesis using rec that by (simp add: is_frozen_def)
  qed
  show ?thesis
  proof (cases rule: owner_persist_cases [of ?w1])
    case p: (written x)
    with run have x: "w' = x" "r = Inr True" by (auto simp: bind_tx_def)
    show ?thesis using lifted [OF p(2,3,5)] one ok(1,2) p(8) u by (simp add: x source_balance_is_admissible_def)
  next
    case p: (unsynced x)
    with run have x: "w' = x" "r = Inl ParentDirectorySyncError" by (auto simp: bind_tx_def)
    show ?thesis using lifted [OF p(2,3,5)] one ok(1,2) p(8) by (simp add: x source_balance_is_admissible_def)
  next
    case p: (failed x e)
    with run have "w' = x" "r = Inl e" by (auto simp: bind_tx_def)
    with p u show ?thesis by simp
  qed
qed simp

section \<open>Witnesses\<close>

theorem maker_fill_all_or_nothing_witness:
  "let p = maker_reserve_source_fill Bid id ''o1|v2|t2'' ''o1'' ''t2'' BUY 3 ex_owner in
    if \<exists>e. snd p = Inl e \<and> e \<noteq> ParentDirectorySyncError
      then owner_snapshot (fst p) = owner_snapshot ex_owner \<and> ow_file (fst p) = ow_file ex_owner
    else ow_file (fst p) = Some (owner_snapshot (fst p)) \<and> validate ex_cfg (owner_snapshot (fst p)) = Inr () \<and>
      ''o1|v2|t2'' \<in> ss_seen_source_fills (view_of Bid (fst p))"
proof -
  have new: "''o1|v2|t2'' \<notin> ss_seen_source_fills (view_of Bid ex_owner)"
    "dict_get (ss_source_orders (view_of Bid ex_owner)) ''o1'' \<noteq> None" "ow_config ex_owner = ex_cfg"
    by (simp_all add: ex_owner_def ex_snapshot_def ex_bid_def)
  with maker_fill_all_or_nothing [where k = Bid and digest = id and key = "''o1|v2|t2''" and cid = "''o1''"
      and trade = "''t2''" and side = BUY and f = 3 and w = ex_owner, OF prod.collapse [symmetric]]
  show ?thesis by (simp add: Let_def split: if_split_asm)
qed

lemma ex_first_hedge: "first_unfinished_hedge ex_cfg ex_snapshot = Some (Bid, ex_hedge)"
  by (simp add: first_unfinished_hedge_def ex_cfg_def ex_snapshot_def view_keys_def ex_bid_def empty_state_def
      state_intents_def dict_of_def ex_hedge_def new_intent_def)

theorem shared_hedge_lane_witness:
  "Bid \<in> set (view_keys ex_cfg) \<and> ex_hedge \<in> set (state_intents (sn_states ex_snapshot Bid)) \<and> hi_status ex_hedge \<noteq> COMPLETED \<and>
    (\<forall>k' intent_id. hedge_dispatch_ready ex_cfg ex_snapshot k' intent_id \<longleftrightarrow> k' = Bid \<and> intent_id = hi_intent_id ex_hedge) \<and>
    (\<exists>pre item post. sn_allocations ex_snapshot = pre @ item # post \<and> al_fill_key item = hi_fill_key ex_hedge \<and>
      list_all (\<lambda>earlier. completed_fill ex_cfg ex_snapshot (al_fill_key earlier)) pre)"
proof -
  have "oc_shared_strategy_ids ex_cfg \<noteq> None" by (simp add: ex_cfg_def)
  from shared_hedge_lane [OF ex_snapshot_valid this] show ?thesis by (simp add: ex_first_hedge)
qed

text \<open>A finished cycle: the order of two ounces is filled and hedged, and both Maker views and the Taker's are paused.\<close>

definition ex_paused_view :: "view_key \<Rightarrow> store_state" where
  "ex_paused_view k = (if k = Bid then ex_bid\<lparr>ss_active_source_order_id := None,
      ss_source_orders := [(''o1'', ex_order\<lparr>so_quantity_ounces := 2, so_status := ''FILLED''\<rparr>)],
      ss_hedge_intents := [(hi_intent_id ex_hedge, ex_hedge\<lparr>hi_status := COMPLETED, hi_hedge_filled_ounces := 2\<rparr>)]\<rparr>
    else empty_state)\<lparr>ss_source_freeze_reason := Some ''fill''\<rparr>"

definition ex_paused_snapshot :: snapshot where
  "ex_paused_snapshot = ex_snapshot\<lparr>sn_states := ex_paused_view\<rparr>"

definition ex_paused :: "os_answers list \<Rightarrow> owner" where
  "ex_paused answers = \<lparr>ow_config = ex_cfg, ow_views = (\<lambda>k. \<lparr>vw_state = ex_paused_view k, vw_log = []\<rparr>),
     ow_allocations = sn_allocations ex_snapshot, ow_cycle_freeze_only = False, ow_freeze_publication_failed = False,
     ow_committed = ex_paused_snapshot, ow_file = Some ex_paused_snapshot, ow_answers = answers\<rparr>"

lemma ex_view_keys: "view_keys ex_cfg = [Bid, Ask, Taker]"
  by (simp add: view_keys_def ex_cfg_def)

text \<open>The state it may publish: the same without the pause.\<close>

lemma ex_lifted_valid: "validate ex_cfg (ex_paused_snapshot\<lparr>sn_states := (\<lambda>k. ex_paused_view k\<lparr>ss_source_freeze_reason := None\<rparr>)\<rparr>) = Inr ()"
  by (simp add: validate_def ex_cfg_def ex_paused_snapshot_def ex_paused_view_def ex_snapshot_def view_keys_def validate_view_def
    Let_def no_identities_def
    validate_orders_def validate_order_def validate_source_fills_def validate_intents_def validate_intent_def
    validate_hedge_fills_def ex_bid_def empty_state_def ex_hedge_def new_intent_def ex_order_def source_fill_key_ok_def
    source_trade_def intent_order_ids_def intent_order_list_def validate_allocations_def all_records_def all_intents_def all_seen_def
    dict_of_def state_intents_def validate_checkpoint_def checkpoint_balances_def replay_allocation_def dict_index_def ex_two
    route_of_def)

lemma ex_lift:
  "clear_source_freezes (ex_paused answers) = bind_tx owner_persist (\<lambda>_. ret_tx True)
     ((fold (set_freeze None) (view_keys ex_cfg) (ex_paused answers))\<lparr>ow_cycle_freeze_only := False\<rparr>)"
proof -
  let ?w = "ex_paused answers"
  have snap: "owner_snapshot ?w = ex_paused_snapshot"
    by (simp add: owner_snapshot_def ex_paused_def ex_paused_snapshot_def) (simp add: ex_snapshot_def)
  have bal: "route_balances ex_cfg ex_paused_snapshot = [(route_of ex_order, 0, Bid)]"
    by (simp add: route_balances_def ex_paused_snapshot_def ex_paused_view_def ex_snapshot_def checkpoint_balances_def ex_cfg_def
        add_to_balance_def fill_view_def view_keys_def ex_bid_def empty_state_def ex_two)
  have adm: "source_balance_is_admissible ex_cfg ex_paused_snapshot"
    by (simp add: source_balance_is_admissible_def residuals_def bal)
  have res: "rounding_residual ex_cfg ex_paused_snapshot k = 0" for k
    using dadd_exact [of 0 0] by (cases k) (simp_all add: rounding_residual_def bal)
  have view: "view_of k ?w = ex_paused_view k" "ow_config ?w = ex_cfg" for k by (simp_all add: ex_paused_def)
  have "view_admissible k ?w" for k
    unfolding view_admissible_def Let_def snap view using adm dadd_exact [of 0 0] dmul_unit_exact [of 0]
    by (cases k) (simp_all add: res dmul_def mult.commute outstanding_ounces_def state_intents_def ex_paused_view_def ex_bid_def empty_state_def
        ex_hedge_def new_intent_def ex_two)
  then have ev: "cycle_evidence_complete (maker_view k) ?w" for k
    unfolding cycle_evidence_complete_def all_completed_def
    by (cases k) (simp_all add: maker_view_def view ex_paused_view_def state_orders_def state_intents_def ex_bid_def empty_state_def)
  have fr: "is_frozen k ?w" "ss_source_freeze_reason (ex_paused_view k) = Some ''fill''" "\<not> ow_freeze_publication_failed ?w" for k
    by (simp_all add: is_frozen_def ex_paused_view_def ex_paused_def)
  show ?thesis
    unfolding clear_source_freezes_def Let_def snap view by (simp add: ev fr adm ex_view_keys view)
qed

theorem pause_lifted_on_evidence_witness:
  "let p = clear_source_freezes (ex_paused []) in snd p = Inr True \<and>
      list_all (\<lambda>k. reconciled k (ex_paused []) \<and> is_frozen k (ex_paused []) \<and> \<not> is_frozen k (fst p)) (view_keys ex_cfg) \<and>
      ow_file (fst p) = Some (owner_snapshot (fst p))"
proof -
  obtain w' r where e: "clear_source_freezes (ex_paused []) = (w', r)" by fastforce
  let ?w1 = "(fold (set_freeze None) (view_keys ex_cfg) (ex_paused []))\<lparr>ow_cycle_freeze_only := False\<rparr>"
  have "view_of k (settled ?w1) = ex_paused_view k\<lparr>ss_source_freeze_reason := None\<rparr>" for k
    by (cases k) (simp_all add: ex_view_keys set_freeze_def put_view_def settled_def ex_paused_def)
  then have snap: "owner_snapshot (settled ?w1) = ex_paused_snapshot\<lparr>sn_states := (\<lambda>k. ex_paused_view k\<lparr>ss_source_freeze_reason := None\<rparr>)\<rparr>"
    by (simp add: owner_snapshot_def) (simp add: ex_view_keys set_freeze_def put_view_def settled_def ex_paused_def ex_paused_snapshot_def ex_snapshot_def)
  have cfg: "ow_config ?w1 = ex_cfg" "ow_answers ?w1 = []" using unfreeze_run(2) [of "view_keys ex_cfg" "ex_paused []"]
    by (simp_all add: ex_paused_def ex_view_keys set_freeze_def put_view_def)
  have "snd (owner_persist ?w1) = Inr ()"
    unfolding owner_persist_def Let_def settled_simps cfg snap ex_lifted_valid
    by (simp add: persist_payload_def next_answer_def all_well_def replace_and_sync_parent_def publish_and_sync_parent_def)
  then have r: "r = Inr True" using e unfolding ex_lift by (cases "owner_persist ?w1") (simp add: bind_tx_def ret_tx_def)
  have keys: "ow_config (ex_paused []) = ex_cfg" "list_all (\<lambda>k. is_frozen k (ex_paused [])) (view_keys ex_cfg)"
    by (simp_all add: ex_paused_def is_frozen_def ex_paused_view_def list_all_iff)
  show ?thesis using pause_lifted_on_evidence [OF e] keys by (simp add: e r list_all_iff)
qed

end
