(* ===== verification/Hedge_Coordinator.thy ===== *)
theory Hedge_Coordinator
  imports Store_Safety Maker_Safety Hedge_Planning
begin

text \<open>
  \<^verbatim>\<open>HedgeCoordinator\<close> of \<^verbatim>\<open>hedge.py\<close>: between the native fill events, the planner and the store.

  The coordinator calls its store through the record \<open>store_object\<close>: the custody of the inherited
  methods and the two methods the owner's views override. The standalone store and the views of
  the allocation owner are its two instances.
\<close>

section \<open>The store the coordinator calls\<close>

record 'w store_object =
  sb_custody :: "'w custody"
  sb_reserve :: "string \<Rightarrow> string \<Rightarrow> string \<Rightarrow> business_side \<Rightarrow> rat \<Rightarrow> ('w, hedge_intent option) tx"
  sb_dispatch_ready :: "string \<Rightarrow> 'w \<Rightarrow> bool"

definition standalone_object :: "(string \<Rightarrow> string) \<Rightarrow> store store_object" where
  "standalone_object digest = \<lparr>sb_custody = standalone, sb_reserve = reserve_source_fill standalone digest,
    sb_dispatch_ready = (\<lambda>_ _. True)\<rparr>"

definition view_object :: "(string \<Rightarrow> string) \<Rightarrow> view_key \<Rightarrow> owner store_object" where
  "view_object digest k = \<lparr>sb_custody = maker_view k, sb_reserve = maker_reserve_source_fill k digest,
    sb_dispatch_ready = (\<lambda>intent_id w. hedge_dispatch_ready (ow_config w) (owner_snapshot w) k intent_id)\<rparr>"

abbreviation sb_state :: "'w store_object \<Rightarrow> 'w \<Rightarrow> store_state" where
  "sb_state ob w \<equiv> cu_state (sb_custody ob) w"

section \<open>Events\<close>

text \<open>A native OrderFilled, as far as it is read; \<open>None\<close> is a side that is neither buy nor sell.\<close>

record order_filled =
  of_instrument_id :: string
  of_client_order_id :: string
  of_venue_order_id :: string
  of_trade_id :: string
  of_order_side :: "business_side option"
  of_last_qty :: rat

definition business_side_of :: "business_side option \<Rightarrow> exn + business_side" where
  "business_side_of side = (case side of None \<Rightarrow> Inl (ValueError ''unsupported source fill side'') | Some s \<Rightarrow> Inr s)"

definition fill_key_of :: "order_filled \<Rightarrow> string" where
  "fill_key_of event = bar_join3 (of_client_order_id event) (of_venue_order_id event) (of_trade_id event)"

definition knows_source_order :: "store_state \<Rightarrow> string \<Rightarrow> bool" where
  "knows_source_order s cid \<longleftrightarrow> dict_get (ss_source_orders s) cid \<noteq> None"

definition on_source_filled :: "'w store_object \<Rightarrow> string \<Rightarrow> order_filled \<Rightarrow> ('w, hedge_intent option) tx" where
  "on_source_filled ob instrument event = (\<lambda>w.
     if of_instrument_id event \<noteq> instrument then (w, Inr None)
     else if \<not> knows_source_order (sb_state ob w) (of_client_order_id event) then (w, Inr None)
     else bind_tx (lift_tx (business_side_of (of_order_side event))) (\<lambda>side.
       sb_reserve ob (fill_key_of event) (of_client_order_id event) (of_trade_id event) side (of_last_qty event)) w)"

definition has_seen_source_fill :: "'w store_object \<Rightarrow> string \<Rightarrow> order_filled \<Rightarrow> 'w \<Rightarrow> bool" where
  "has_seen_source_fill ob instrument event w \<longleftrightarrow>
    of_instrument_id event = instrument \<and> knows_source_order (sb_state ob w) (of_client_order_id event) \<and>
    fill_key_of event \<in> ss_seen_source_fills (sb_state ob w)"

definition on_hedge_filled :: "'w store_object \<Rightarrow> order_filled \<Rightarrow> ('w, bool) tx" where
  "on_hedge_filled ob event =
    apply_hedge_fill (sb_custody ob) (of_client_order_id event) (of_trade_id event) (of_last_qty event)"

definition bind_hedge_leg :: "'w store_object \<Rightarrow> string \<Rightarrow> string \<Rightarrow> ('w, unit) tx" where
  "bind_hedge_leg ob intent_id cid = bind_hedge_order (sb_custody ob) intent_id cid"

section \<open>The next leg\<close>

text \<open>\<^verbatim>\<open>hedge_order_params\<close>: the ticket quantity a close leg carries to its order.\<close>

definition hedge_order_params :: "hedge_leg \<Rightarrow> rat option" where
  "hedge_order_params leg = (if leg_is_close leg then leg_expected_position_quantity_ounces leg else None)"

definition validate_bound_exit :: "hedge_intent \<Rightarrow> hedge_leg list \<Rightarrow> exn + unit" where
  "validate_bound_exit intent plan = (case hi_hedge_position_id intent of
     None \<Rightarrow> Inr ()
   | Some pid \<Rightarrow>
       (case plan of
          [leg] \<Rightarrow>
            if leg_is_close leg \<and> leg_position_id leg = Some pid
              \<and> leg_expected_position_quantity_ounces leg = hi_hedge_position_quantity_ounces intent
            then Inr () else Inl (HedgePlanningError ''exit hedge MT5 position ID disappeared or changed'')
        | _ \<Rightarrow> Inl (HedgePlanningError ''exit hedge MT5 position ID disappeared or changed'')))"

text \<open>The \<^verbatim>\<open>try\<close> block: persist a plan once, then authenticate the current leg against the tickets.\<close>

definition planned_leg :: "'w store_object \<Rightarrow> hedge_intent \<Rightarrow> position list \<Rightarrow> ('w, hedge_leg) tx" where
  "planned_leg ob intent positions =
    bind_tx (if hi_hedge_plan intent = [] then
        bind_tx (lift_tx (plan_hedge_delta positions (hi_hedge_side intent)
          (Fin (dsub (hi_hedge_quantity_ounces intent) (hi_hedge_filled_ounces intent))))) (\<lambda>plan.
        bind_tx (lift_tx (validate_bound_exit intent plan)) (\<lambda>_.
        bind_hedge_plan (sb_custody ob) (hi_intent_id intent) plan))
      else ret_tx intent) (\<lambda>intent.
    if length (hi_hedge_plan intent) \<le> hi_hedge_leg_index intent then
      raise_tx (HedgePlanningError ''hedge ticket plan has no remaining leg'')
    else let leg = hi_hedge_plan intent ! hi_hedge_leg_index intent in
      lift_tx (bindE (validate_hedge_leg leg positions) (\<lambda>_. Inr leg)))"

text \<open>\<^verbatim>\<open>except (HedgePlanningError, TypeError, ValueError)\<close>.\<close>

fun planning_failure :: "exn \<Rightarrow> bool" where
  "planning_failure (HedgePlanningError _) = True"
| "planning_failure (HedgeLaneBusy _) = True"
| "planning_failure (TypeError _) = True"
| "planning_failure (ValueError _) = True"
| "planning_failure _ = False"

definition next_hedge_leg :: "'w store_object \<Rightarrow> string \<Rightarrow> position list \<Rightarrow> ('w, hedge_leg) tx" where
  "next_hedge_leg ob intent_id positions = (\<lambda>w.
     bind_tx (lift_tx (dict_index (ss_hedge_intents (sb_state ob w)) intent_id)) (\<lambda>intent w.
       if \<not> sb_dispatch_ready ob intent_id w then
         (w, Inl (HedgeLaneBusy ''an earlier hedge obligation still owns the route''))
       else case planned_leg ob intent positions w of
         (w, Inr leg) \<Rightarrow> (w, Inr leg)
       | (w, Inl e) \<Rightarrow>
           if planning_failure e then
             bind_tx (lift_tx (dict_index (ss_hedge_intents (sb_state ob w)) intent_id)) (\<lambda>current.
             bind_tx (if hi_status current \<noteq> COMPLETED
               then block_hedge_intent (sb_custody ob) intent_id (exn_text e) else ret_tx ()) (\<lambda>_.
             raise_tx (HedgePlanningError (exn_text e)))) w
           else (w, Inl e)) w)"

section \<open>A leg is authenticated, or the intent is stopped\<close>

lemma standalone_object_simps [simp]:
  "sb_custody (standalone_object digest) = standalone" "sb_dispatch_ready (standalone_object digest) iid w"
  "sb_reserve (standalone_object digest) = reserve_source_fill standalone digest"
  by (simp_all add: standalone_object_def)

lemma persist_standalone_state:
  "cu_persist standalone w = (w', r) \<Longrightarrow> cu_state standalone w' = cu_state standalone w \<and>
     (r = Inr () \<longrightarrow> st_file w' = Some (cu_state standalone w))"
  using standalone.persist_view [of w] standalone.persist_published [of w w' r] by (auto simp: standalone_def)

lemma upd_standalone_simps [simp]:
  "cu_state standalone (upd_state standalone f w) = f (cu_state standalone w)"
  "st_file (upd_state standalone f w) = st_file w" "st_answers (upd_state standalone f w) = st_answers w"
  "cu_state standalone (log_view standalone c w) = cu_state standalone w"
  "st_answers (log_view standalone c w) = st_answers w"
  by (simp_all add: upd_state_def log_view_def standalone_def)

lemma bind_plan_Inr:
  assumes b: "bind_hedge_plan standalone iid plan w = (w', Inr j)"
    and i: "dict_get (ss_hedge_intents (cu_state standalone w)) iid = Some i" "hi_hedge_plan i = []"
  shows "plan \<noteq> [] \<and> j = i\<lparr>hi_hedge_plan := plan, hi_hedge_leg_index := 0, hi_hedge_leg_filled_ounces := 0\<rparr> \<and>
    valid_intent j \<and> cu_state standalone w' = (cu_state standalone w)\<lparr>ss_hedge_intents :=
      dict_set iid j (ss_hedge_intents (cu_state standalone w))\<rparr> \<and> st_file w' = Some (cu_state standalone w')"
proof -
  let ?j = "i\<lparr>hi_hedge_plan := plan, hi_hedge_leg_index := 0, hi_hedge_leg_filled_ounces := 0\<rparr>"
  have ne: "plan \<noteq> []" using b i by (auto simp: bind_hedge_plan_def dict_index_def split: if_splits)
  have run: "bind_tx (on_view standalone (bind_tx (lift_tx (mk_hedge_intent ?j))
           (\<lambda>i. bind_tx (update_state (\<lambda>s. s\<lparr>ss_hedge_intents := dict_set iid i (ss_hedge_intents s)\<rparr>))
             (\<lambda>_. ret_tx i)))) (\<lambda>planned. bind_tx (cu_persist standalone) (\<lambda>_. ret_tx planned)) w = (w', Inr j)"
    using b i by (auto simp: bind_hedge_plan_def dict_index_def split: if_splits)
  have v: "valid_intent ?j"
  proof (rule ccontr)
    assume "\<not> valid_intent ?j"
    then obtain e where "mk_hedge_intent ?j = Inl e" by (cases "mk_hedge_intent ?j") auto
    with run show False by (simp add: bind_tx_def on_view_def)
  qed
  let ?w = "upd_state standalone (\<lambda>s. s\<lparr>ss_hedge_intents := dict_set iid ?j (ss_hedge_intents s)\<rparr>) w"
  have "bind_tx (cu_persist standalone) (\<lambda>_. ret_tx ?j) ?w = (w', Inr j)"
    using run mk_hedge_intent_valid [OF v] by (simp add: bind_tx_def on_view_def update_state_def upd_state_def)
  then have "cu_persist standalone ?w = (w', Inr ())" "j = ?j" by (auto simp: bind_tx_Inr_iff)
  with persist_standalone_state [of ?w w' "Inr ()"] ne v show ?thesis by simp
qed

lemma planned_leg_Inr:
  assumes p: "planned_leg (standalone_object digest) i positions w = (w', Inr leg)"
    and i: "dict_get (ss_hedge_intents (cu_state standalone w)) iid = Some i" "hi_intent_id i = iid"
  shows "\<exists>j. dict_get (ss_hedge_intents (cu_state standalone w')) iid = Some j \<and> hi_intent_id j = iid \<and> hi_hedge_plan j \<noteq> [] \<and>
    hi_hedge_leg_index j < length (hi_hedge_plan j) \<and> hi_hedge_plan j ! hi_hedge_leg_index j = leg \<and>
    validate_hedge_leg leg positions = Inr () \<and> (w' = w \<or> st_file w' = Some (cu_state standalone w'))"
proof (cases "hi_hedge_plan i = []")
  case True
  from p True obtain plan j where b: "bind_hedge_plan standalone iid plan w = (w', Inr j)"
    and leg: "hi_hedge_leg_index j < length (hi_hedge_plan j)" "hi_hedge_plan j ! hi_hedge_leg_index j = leg"
      "validate_hedge_leg leg positions = Inr ()"
    unfolding planned_leg_def
    by (auto simp: bind_tx_Inr_iff bindE_Inr_iff Let_def lift_tx_def i(2) split: if_splits)
  from bind_plan_Inr [OF b i(1) True] leg i(2) show ?thesis by auto
next
  case False
  with p i show ?thesis
    unfolding planned_leg_def by (auto simp: bindE_Inr_iff Let_def split: if_splits)
qed

lemma block_run:
  assumes b: "block_hedge_intent standalone iid reason w = (w', Inr ())"
  shows "\<exists>j. dict_get (ss_hedge_intents (cu_state standalone w')) iid = Some j \<and> hi_status j = BLOCKED \<and>
    ss_halt_reason (cu_state standalone w') \<noteq> None \<and> st_file w' = Some (cu_state standalone w')"
proof (cases "dict_get (ss_hedge_intents (cu_state standalone w)) iid")
  case None
  with b show ?thesis by (simp add: block_hedge_intent_def dict_index_def)
next
  case (Some i)
  let ?f = "\<lambda>j s. set_halt (Some (''hedge '' @ iid @ '' blocked: '' @ reason))
      (s\<lparr>ss_hedge_intents := dict_set iid j (ss_hedge_intents s)\<rparr>)"
  have run: "bind_tx (on_view standalone (bind_tx revoke_restart_permission (\<lambda>_.
      bind_tx (lift_tx (mk_hedge_intent (i\<lparr>hi_status := BLOCKED\<rparr>))) (\<lambda>j. update_state (?f j)))))
      (\<lambda>_. cu_persist standalone) w = (w', Inr ())"
    using b Some by (auto simp: block_hedge_intent_def dict_index_def split: if_splits)
  then obtain w1 where v: "on_view standalone (bind_tx revoke_restart_permission (\<lambda>_.
      bind_tx (lift_tx (mk_hedge_intent (i\<lparr>hi_status := BLOCKED\<rparr>))) (\<lambda>j. update_state (?f j)))) w = (w1, Inr ())"
    and p: "cu_persist standalone w1 = (w', Inr ())"
    by (auto simp: bind_tx_Inr_iff)
  have "cu_state standalone w1 = ?f (i\<lparr>hi_status := BLOCKED\<rparr>) (cu_state standalone w)"
    using v by (cases "mk_hedge_intent (i\<lparr>hi_status := BLOCKED\<rparr>)")
      (auto simp: on_view_def revoke_restart_permission_def call_back_def update_state_def bind_tx_def standalone_def)
  with persist_standalone_state [OF p] show ?thesis by (simp add: set_halt_def)
qed

lemma block_error:
  assumes "block_hedge_intent standalone iid reason w = (w', Inl x)"
  shows "\<nexists>m. x = HedgePlanningError m"
proof -
  have p: "cu_persist standalone v \<noteq> (v', Inl (HedgePlanningError m))" for v v' m
    using persist_standalone [of v v' "Inl (HedgePlanningError m)"] by (auto simp: standalone_simps write_outcome_def)
  from assms show ?thesis
    by (auto simp: block_hedge_intent_def dict_index_def bind_tx_Inl_iff on_view_def revoke_restart_permission_def
        call_back_def update_state_def mk_hedge_intent_def bindE_Inl_iff lift_tx_def
        split: option.splits if_splits prod.splits sum.splits dest!: p [THEN notE] check_hedge_intent_error)
qed

text \<open>C20: the coordinator either returns an authenticated leg or stops the intent. A returned leg is the
  current leg of the intent's durable plan and has just been checked against the MT5 tickets, and
  asking again with the same tickets returns the same leg and changes nothing. A planning error is
  raised only with the intent completed, or blocked and the store halted, in memory and on disk.\<close>

theorem next_leg_authentic_or_blocked:
  assumes "next_hedge_leg (standalone_object digest) iid positions w = (w', r)" "keyed (cu_state standalone w)"
  shows "case r of
      Inr leg \<Rightarrow> (\<exists>j. dict_get (ss_hedge_intents (cu_state standalone w')) iid = Some j \<and>
          hi_hedge_leg_index j < length (hi_hedge_plan j) \<and> hi_hedge_plan j ! hi_hedge_leg_index j = leg) \<and>
        validate_hedge_leg leg positions = Inr () \<and> (w' = w \<or> st_file w' = Some (cu_state standalone w')) \<and>
        next_hedge_leg (standalone_object digest) iid positions w' = (w', Inr leg)
    | Inl e \<Rightarrow> (\<exists>m. e = HedgePlanningError m) \<longrightarrow>
        (\<exists>j. dict_get (ss_hedge_intents (cu_state standalone w')) iid = Some j \<and>
          (hi_status j = COMPLETED \<or> hi_status j = BLOCKED \<and> ss_halt_reason (cu_state standalone w') \<noteq> None \<and>
            st_file w' = Some (cu_state standalone w')))"
proof (cases "dict_get (ss_hedge_intents (cu_state standalone w)) iid")
  case None
  with assms(1) show ?thesis by (auto simp: next_hedge_leg_def dict_index_def)
next
  case (Some i)
  note k = keyed_index [OF assms(2) Some]
  obtain w1 r1 where p: "planned_leg (standalone_object digest) i positions w = (w1, r1)" by fastforce
  show ?thesis
  proof (cases r1)
    case (Inr leg)
    with assms(1) Some p have r: "w' = w1" "r = Inr leg" by (auto simp: next_hedge_leg_def dict_index_def)
    from planned_leg_Inr [OF p [unfolded Inr] Some] k obtain j
      where j: "dict_get (ss_hedge_intents (cu_state standalone w1)) iid = Some j" "hi_hedge_plan j \<noteq> []"
        "hi_hedge_leg_index j < length (hi_hedge_plan j)" "hi_hedge_plan j ! hi_hedge_leg_index j = leg"
        "validate_hedge_leg leg positions = Inr ()" "w1 = w \<or> st_file w1 = Some (cu_state standalone w1)" by auto
    then have "next_hedge_leg (standalone_object digest) iid positions w1 = (w1, Inr leg)"
      by (simp add: next_hedge_leg_def dict_index_def planned_leg_def Let_def)
    with j r show ?thesis by auto
  next
    case (Inl e)
    show ?thesis
    proof (cases "planning_failure e")
      case False
      with assms(1) Some p Inl show ?thesis by (auto simp: next_hedge_leg_def dict_index_def)
    next
      case True
      let ?fail = "\<lambda>current. bind_tx (if hi_status current \<noteq> COMPLETED
          then block_hedge_intent standalone iid (exn_text e) else ret_tx ())
          (\<lambda>_. raise_tx (HedgePlanningError (exn_text e)) :: (store, hedge_leg) tx)"
      have run: "bind_tx (lift_tx (dict_index (ss_hedge_intents (cu_state standalone w1)) iid)) ?fail w1 = (w', r)"
        using assms(1) [unfolded next_hedge_leg_def standalone_object_simps(1)] Some p Inl True
        by (simp add: dict_index_def)
      show ?thesis
      proof (cases "dict_get (ss_hedge_intents (cu_state standalone w1)) iid")
        case None
        with run show ?thesis by (auto simp: dict_index_def)
      next
        case (Some c)
        with run have run: "?fail c w1 = (w', r)" by (simp add: dict_index_def)
        show ?thesis
        proof (cases "hi_status c = COMPLETED")
          case True
          with run Some show ?thesis by auto
        next
          case False
          obtain w2 r2 where b: "block_hedge_intent standalone iid (exn_text e) w1 = (w2, r2)" by fastforce
          show ?thesis
          proof (cases r2)
            case (Inl x)
            have "\<nexists>m. x = HedgePlanningError m" using block_error [OF b [unfolded Inl]] .
            with run False b Inl show ?thesis by (auto simp: bind_tx_def)
          next
            case (Inr u)
            with run False b block_run [of iid "exn_text e" w1 w2] show ?thesis by (auto simp: bind_tx_def)
          qed
        qed
      qed
    qed
  qed
qed

definition ex_planned :: store where
  "ex_planned = open_store (Some (empty_state\<lparr>ss_hedge_intents := [(''hedge-k'', ex_intent\<lparr>hi_status := PENDING,
    hi_hedge_client_order_id := None, hi_hedge_order_ids := []\<rparr>)]\<rparr>)) []"

theorem next_leg_authentic_or_blocked_witness:
  "next_hedge_leg (standalone_object id) ''hedge-k'' [] ex_planned = (ex_planned, Inr (ex_leg 1)) \<and>
    validate_hedge_leg (ex_leg 1) [] = Inr ()"
proof -
  have r: "next_hedge_leg (standalone_object id) ''hedge-k'' [] ex_planned = (ex_planned, Inr (ex_leg 1))"
    by (simp add: next_hedge_leg_def ex_planned_def open_store_def standalone_simps dict_index_def planned_leg_def
        ex_intent_def ex_leg_def validate_hedge_leg_def leg_is_close_def)
  have "keyed (cu_state standalone ex_planned)"
    by (simp add: keyed_def ex_planned_def open_store_def standalone_simps ex_intent_def empty_state_def)
  from next_leg_authentic_or_blocked [OF r this] r show ?thesis by simp
qed

end
