(* ===== verification/Hedge_Cycle.thy ===== *)
theory Hedge_Cycle
  imports Hedge_Coordinator
begin

text \<open>
  The hedge cycle from end to end: until the intent is completed, a round asks the coordinator for
  the next leg, binds an order to it, and reports the leg's exact fill. The driver composes the coordinator, the planner, the
  store and the tickets; the property says that the cycle of a fresh intent completes.
\<close>

section \<open>Rounds\<close>

definition is_completed :: "string \<Rightarrow> store_state \<Rightarrow> bool" where
  "is_completed iid s = (case dict_get (ss_hedge_intents s) iid of None \<Rightarrow> False | Some i \<Rightarrow> hi_status i = COMPLETED)"

definition leg_fill :: "string \<Rightarrow> string \<Rightarrow> hedge_leg \<Rightarrow> order_filled" where
  "leg_fill cid trade leg = \<lparr>of_instrument_id = [], of_client_order_id = cid, of_venue_order_id = [],
    of_trade_id = trade, of_order_side = Some (leg_side leg), of_last_qty = leg_quantity_ounces leg\<rparr>"

fun hedge_rounds ::
  "store store_object \<Rightarrow> string \<Rightarrow> string \<Rightarrow> (string \<times> string) list \<Rightarrow> store \<Rightarrow> snapshot list \<Rightarrow>
    exn + store \<times> snapshot list"
where
  "hedge_rounds ob iid nid [] w ts = Inr (w, ts)"
| "hedge_rounds ob iid nid ((cid, trade) # rounds) w ts =
    (if is_completed iid (sb_state ob w) then Inr (w, ts)
     else case next_hedge_leg ob iid (map position_of ts) w of
       (w, Inl e) \<Rightarrow> Inl e
     | (w, Inr leg) \<Rightarrow>
       (case bind_hedge_leg ob iid cid w of
          (w, Inl e) \<Rightarrow> Inl e
        | (w, Inr _) \<Rightarrow>
          (case on_hedge_filled ob (leg_fill cid trade leg) w of
             (w, Inl e) \<Rightarrow> Inl e
           | (w, Inr _) \<Rightarrow> hedge_rounds ob iid nid rounds w (exec_leg nid leg ts))))"

section \<open>One round\<close>

definition fresh_id :: "string \<Rightarrow> store_state \<Rightarrow> bool" where
  "fresh_id cid s \<longleftrightarrow> cid \<noteq> [] \<and> list_all (\<lambda>i. hi_hedge_client_order_id i \<noteq> Some cid \<and>
    cid \<notin> set (hi_hedge_order_ids i) \<and> \<not> is_rejected_attempt i cid) (state_intents s)"

definition fresh_round :: "store_state \<Rightarrow> string \<times> string \<Rightarrow> bool" where
  "fresh_round s r \<longleftrightarrow> fresh_id (fst r) s \<and> bar_join2 (fst r) (snd r) \<notin> ss_seen_hedge_fills s"

text \<open>An intent whose first legs are completed and which waits for its next order.\<close>

definition waiting :: "hedge_intent \<Rightarrow> bool" where
  "waiting i \<longleftrightarrow> valid_intent i \<and> exact_intent i \<and> hi_status i = PENDING \<and> hi_hedge_client_order_id i = None \<and>
    hi_hedge_leg_filled_ounces i = 0 \<and> hi_rejected_attempt i = None \<and> hi_hedge_plan i \<noteq> [] \<and>
    hi_hedge_leg_index i < length (hi_hedge_plan i)"

definition submitted :: "hedge_intent \<Rightarrow> string \<Rightarrow> hedge_intent" where
  "submitted i cid = i\<lparr>hi_hedge_client_order_id := Some cid, hi_hedge_order_ids := hi_hedge_order_ids i @ [cid],
    hi_status := SUBMITTING\<rparr>"

definition with_intent :: "string \<Rightarrow> hedge_intent \<Rightarrow> store_state \<Rightarrow> store_state" where
  "with_intent iid i s = s\<lparr>ss_hedge_intents := dict_set iid i (ss_hedge_intents s)\<rparr>"

lemma with_intent_simps [simp]:
  "ss_hedge_intents (with_intent iid i s) = dict_set iid i (ss_hedge_intents s)"
  "ss_seen_hedge_fills (with_intent iid i s) = ss_seen_hedge_fills s"
  "ss_halt_reason (with_intent iid i s) = ss_halt_reason s"
  by (simp_all add: with_intent_def)

lemma find_unique:
  assumes "x \<in> set xs" "P x" "\<And>y. y \<in> set xs \<Longrightarrow> P y \<Longrightarrow> y = x"
  shows "find P xs = Some x"
proof (cases "find P xs")
  case None
  with assms(1,2) show ?thesis by (auto simp: find_None_iff)
next
  case (Some y)
  then obtain n where "n < length xs" "P (xs ! n)" "y = xs ! n" by (auto simp: find_Some_iff)
  then have "y = x" using assms(3) [of y] by simp
  with Some show ?thesis by simp
qed

lemma bind_fresh:
  assumes i: "dict_get (ss_hedge_intents (cu_state standalone w)) iid = Some i" "waiting i"
    and c: "fresh_id cid (cu_state standalone w)" and a: "st_answers w = []"
  shows "\<exists>w'. bind_hedge_order standalone iid cid w = (w', Inr ()) \<and> valid_intent (submitted i cid) \<and>
    cu_state standalone w' = with_intent iid (submitted i cid) (cu_state standalone w) \<and> st_answers w' = [] \<and>
    st_file w' = Some (cu_state standalone w')"
proof -
  have m: "i \<in> set (state_intents (cu_state standalone w))"
    using i(1) by (force simp: state_intents_def dest!: map_of_SomeD)
  have v: "valid_intent (submitted i cid)"
    using i(2) c m by (auto simp: waiting_def submitted_def valid_intent_iff intent_scalars_ok_def plan_matches_def
        progress_exact_def check_rejected_history_def fresh_id_def list_all_iff)
  have n: "\<not> list_ex (\<lambda>e. hi_hedge_client_order_id e = Some cid \<or> cid \<in> set (hi_hedge_order_ids e))
      (state_intents (cu_state standalone w))"
    using c by (auto simp: fresh_id_def list_all_iff list_ex_iff)
  show ?thesis
    unfolding bind_hedge_order_def
    using i c n v a
    by (simp add: mk_hedge_intent_valid [OF v] dict_index_def waiting_def fresh_id_def bind_tx_def on_view_def update_state_def lift_tx_def modify_tx_def
        submitted_def [symmetric] standalone_simps persist_well with_intent_def)
qed

lemma fill_submitted:
  assumes i: "dict_get (ss_hedge_intents s) iid = Some i" "hi_intent_id i = iid" "waiting i" "keyed s"
    and w: "cu_state standalone w = with_intent iid (submitted i cid) s" "st_answers w = []"
    and c: "fresh_id cid s" "bar_join2 cid trade \<notin> ss_seen_hedge_fills s" and v: "valid_intent (submitted i cid)"
    and f: "f = leg_quantity_ounces (hi_hedge_plan i ! hi_hedge_leg_index i)"
  shows "\<exists>w'. apply_hedge_fill standalone cid trade f w = (w', Inr True) \<and> st_answers w' = [] \<and>
    valid_intent (filled_intent (submitted i cid) f) \<and> st_file w' = Some (cu_state standalone w') \<and>
    ss_hedge_intents (cu_state standalone w') = dict_set iid (filled_intent (submitted i cid) f) (ss_hedge_intents s) \<and>
    ss_seen_hedge_fills (cu_state standalone w') = insert (bar_join2 cid trade) (ss_seen_hedge_fills s) \<and>
    ss_halt_reason (cu_state standalone w') = ss_halt_reason s"
proof -
  let ?j = "submitted i cid"
  have e: "exact_intent ?j" using i(3) by (auto simp: waiting_def submitted_def exact_intent_def)
  have k: "hi_hedge_leg_index i < length (hi_hedge_plan i)" using i(3) by (simp add: waiting_def)
  then have q: "on_grid f" "0 < f" using i(3) f by (auto simp: waiting_def exact_intent_def)
  have "f \<le> sum_list (map leg_quantity_ounces (hi_hedge_plan i))"
    using k i(3) unfolding f by (intro member_le_sum_list) (auto simp: waiting_def exact_intent_def less_imp_le)
  then have b: "f < 10 ^ 18" using i(3) unfolding waiting_def exact_intent_def by linarith
  have fi: "intent_for_hedge_order (cu_state standalone w) cid = Some ?j"
    unfolding intent_for_hedge_order_def
  proof (rule find_unique)
    show "?j \<in> set (state_intents (cu_state standalone w))"
      using i(4) by (auto simp: w(1) state_intents_def set_dict_set keyed_def image_iff)
    show "hi_hedge_client_order_id ?j = Some cid \<or> is_rejected_attempt ?j cid" by (simp add: submitted_def)
    show "y = ?j" if "y \<in> set (state_intents (cu_state standalone w))"
      "hi_hedge_client_order_id y = Some cid \<or> is_rejected_attempt y cid" for y
      using that c(1) set_dict_set_subset [of iid ?j "ss_hedge_intents s"]
      by (fastforce simp: w(1) state_intents_def fresh_id_def list_all_iff)
  qed
  have nr: "\<not> is_rejected_attempt ?j cid" using i(3) by (simp add: waiting_def submitted_def is_rejected_attempt_def)
  have nb: "\<not> fill_blocks ?j f"
    using i(3) f k by (auto simp: waiting_def submitted_def fill_blocks_def leg_remainder_def)
  have s: "cu_state standalone w = vw_state (st_view w)" by (simp add: standalone_simps)
  have d: "fill_done (bar_join2 cid trade) (st_view w) ?j f (apply_hedge_fill_step cid trade f None (st_view w))"
    "valid_intent (filled_intent ?j f)"
    using fill_step_done [OF fi [unfolded s] nr _ v e q b, of trade] c(2) w(1) s by auto
  obtain v' where v': "apply_hedge_fill_step cid trade f None (st_view w) = (v', Inr True)"
    using d(1) by (cases "apply_hedge_fill_step cid trade f None (st_view w)") (auto simp: fill_done_def)
  have jd: "hi_intent_id ?j = iid" using i(2) by (simp add: submitted_def)
  have "dict_set iid x (dict_set iid y d) = dict_set iid x d" for x y :: hedge_intent and d
    by (induction d) auto
  then show ?thesis
    using d v' nb fi c(2) w s jd
    by (simp add: fill_done_def apply_hedge_fill_def rolling_back_def bind_tx_def on_view_def ret_tx_def
        standalone_simps persist_well)
qed

text \<open>A round takes the intent to its next leg, or completes it.\<close>

definition advanced :: "hedge_intent \<Rightarrow> string \<Rightarrow> hedge_intent" where
  "advanced i cid = (let q = leg_quantity_ounces (hi_hedge_plan i ! hi_hedge_leg_index i);
      k = Suc (hi_hedge_leg_index i)
    in i\<lparr>hi_hedge_order_ids := hi_hedge_order_ids i @ [cid], hi_hedge_filled_ounces := hi_hedge_filled_ounces i + q,
      hi_hedge_leg_index := k, hi_status := (if k = length (hi_hedge_plan i) then COMPLETED else PENDING)\<rparr>)"

lemma filled_submitted:
  assumes "waiting i" "f = leg_quantity_ounces (hi_hedge_plan i ! hi_hedge_leg_index i)"
  shows "filled_intent (submitted i cid) f = advanced i cid"
  using assms by (auto simp: filled_intent_def fill_blocks_def submitted_def advanced_def waiting_def leg_remainder_def Let_def)

definition cycle_at :: "string \<Rightarrow> hedge_intent \<Rightarrow> store \<Rightarrow> bool" where
  "cycle_at iid i w \<longleftrightarrow> dict_get (ss_hedge_intents (cu_state standalone w)) iid = Some i \<and> hi_intent_id i = iid \<and>
    keyed (cu_state standalone w) \<and> st_answers w = []"

lemma keyed_update: "keyed s \<Longrightarrow> hi_intent_id i = iid \<Longrightarrow> ss_hedge_intents t = dict_set iid i (ss_hedge_intents s) \<Longrightarrow> keyed t"
  using set_dict_set_subset [of iid i "ss_hedge_intents s"] by (fastforce simp: keyed_def)

lemma hedge_round:
  assumes c: "cycle_at iid i w" "waiting i" and r: "fresh_round (cu_state standalone w) (cid, trade)"
    and leg: "leg = hi_hedge_plan i ! hi_hedge_leg_index i" "validate_hedge_leg leg (map position_of ts) = Inr ()"
  shows "\<exists>w'. hedge_rounds (standalone_object digest) iid nid ((cid, trade) # rounds) w ts =
      hedge_rounds (standalone_object digest) iid nid rounds w' (exec_leg nid leg ts) \<and>
    cycle_at iid (advanced i cid) w' \<and> valid_intent (advanced i cid) \<and> st_file w' = Some (cu_state standalone w') \<and>
    ss_hedge_intents (cu_state standalone w') = dict_set iid (advanced i cid) (ss_hedge_intents (cu_state standalone w)) \<and>
    ss_seen_hedge_fills (cu_state standalone w') = insert (bar_join2 cid trade) (ss_seen_hedge_fills (cu_state standalone w)) \<and>
    ss_halt_reason (cu_state standalone w') = ss_halt_reason (cu_state standalone w)"
proof -
  have d: "dict_get (ss_hedge_intents (cu_state standalone w)) iid = Some i" "hi_intent_id i = iid"
    "keyed (cu_state standalone w)" "st_answers w = []" using c(1) by (simp_all add: cycle_at_def)
  have f: "fresh_id cid (cu_state standalone w)" "bar_join2 cid trade \<notin> ss_seen_hedge_fills (cu_state standalone w)"
    using r by (simp_all add: fresh_round_def)
  obtain w1 where w1: "bind_hedge_order standalone iid cid w = (w1, Inr ())" "valid_intent (submitted i cid)"
    "cu_state standalone w1 = with_intent iid (submitted i cid) (cu_state standalone w)" "st_answers w1 = []"
    using bind_fresh [OF d(1) c(2) f(1) d(4)] by blast
  obtain w2 where w2: "apply_hedge_fill standalone cid trade (leg_quantity_ounces leg) w1 = (w2, Inr True)" "st_answers w2 = []"
    "valid_intent (filled_intent (submitted i cid) (leg_quantity_ounces leg))" "st_file w2 = Some (cu_state standalone w2)"
    "ss_hedge_intents (cu_state standalone w2) =
      dict_set iid (filled_intent (submitted i cid) (leg_quantity_ounces leg)) (ss_hedge_intents (cu_state standalone w))"
    "ss_seen_hedge_fills (cu_state standalone w2) = insert (bar_join2 cid trade) (ss_seen_hedge_fills (cu_state standalone w))"
    "ss_halt_reason (cu_state standalone w2) = ss_halt_reason (cu_state standalone w)"
    using fill_submitted [OF d(1,2) c(2) d(3) w1(3,4) f w1(2), of "leg_quantity_ounces leg"] leg(1) by blast
  have a: "filled_intent (submitted i cid) (leg_quantity_ounces leg) = advanced i cid"
    using c(2) leg(1) by (simp add: filled_submitted)
  have n: "next_hedge_leg (standalone_object digest) iid (map position_of ts) w = (w, Inr leg)"
    using d c(2) leg by (simp add: next_hedge_leg_def dict_index_def planned_leg_def waiting_def Let_def)
  have "hi_intent_id (advanced i cid) = iid" using d(2) by (simp add: advanced_def Let_def)
  moreover from keyed_update [OF d(3) this w2(5) [unfolded a]] have "keyed (cu_state standalone w2)" .
  ultimately have "cycle_at iid (advanced i cid) w2" using w2(2,5) by (simp add: cycle_at_def a)
  moreover have "\<not> is_completed iid (cu_state standalone w)"
    using d(1) c(2) by (simp add: is_completed_def waiting_def)
  ultimately show ?thesis
    using n w1(1) w2 a by (intro exI [of _ w2]) (simp add: bind_hedge_leg_def on_hedge_filled_def leg_fill_def)
qed

lemma fresh_after:
  assumes "ss_hedge_intents t = dict_set iid j (ss_hedge_intents s)" "dict_get (ss_hedge_intents s) iid = Some i"
    and j: "hi_hedge_client_order_id j = hi_hedge_client_order_id i" "hi_rejected_attempt j = hi_rejected_attempt i"
      "set (hi_hedge_order_ids j) \<subseteq> set (hi_hedge_order_ids i) \<union> cids"
    and "ss_seen_hedge_fills t = ss_seen_hedge_fills s \<union> fills"
    and r: "fresh_round s r" "fst r \<notin> cids" "bar_join2 (fst r) (snd r) \<notin> fills"
  shows "fresh_round t r"
proof -
  have i: "i \<in> set (state_intents s)" using assms(2) by (force simp: state_intents_def dest!: map_of_SomeD)
  have "x \<in> insert j (set (state_intents s))" if "x \<in> set (state_intents t)" for x
    using that set_dict_set_subset [of iid j "ss_hedge_intents s"] by (fastforce simp: state_intents_def assms(1))
  with r i j show ?thesis
    unfolding fresh_round_def fresh_id_def list_all_iff assms(6) by (fastforce simp: is_rejected_attempt_def)
qed

lemma exact_advanced:
  assumes w: "waiting i" and v: "valid_intent (advanced i cid)"
  shows "exact_intent (advanced i cid)"
proof -
  let ?k = "hi_hedge_leg_index i" and ?p = "hi_hedge_plan i" and ?q = "map leg_quantity_ounces"
  have e: "exact_intent i" and k: "?k < length ?p" using w by (simp_all add: waiting_def)
  have "hi_status (advanced i cid) \<noteq> BLOCKED" "hi_hedge_plan (advanced i cid) \<noteq> []"
    using w by (simp_all add: advanced_def Let_def waiting_def)
  then have "progress_exact (advanced i cid)" using v by (auto simp: valid_intent_iff)
  then have "hi_hedge_filled_ounces (advanced i cid) = dsum 0 (?q (take (Suc ?k) ?p))"
    using w by (simp add: progress_exact_def advanced_def Let_def waiting_def)
  also have "\<dots> = sum_list (?q (take (Suc ?k) ?p))" using plan_sums [OF e, of "Suc ?k" 0] k by simp
  finally have f: "hi_hedge_filled_ounces (advanced i cid) = sum_list (?q (take (Suc ?k) ?p))" .
  have "0 \<le> sum_list (?q (drop (Suc ?k) ?p))"
    using e by (auto simp: exact_intent_def less_imp_le dest!: in_set_dropD intro!: sum_list_nonneg)
  moreover have "sum_list (?q (take (Suc ?k) ?p)) + sum_list (?q (drop (Suc ?k) ?p)) = sum_list (?q ?p)"
    by (metis append_take_drop_id map_append sum_list_append)
  ultimately have "hi_hedge_filled_ounces (advanced i cid) < 10 ^ 18" using e f unfolding exact_intent_def by linarith
  moreover have "on_grid (leg_quantity_ounces (?p ! ?k))" using e k by (simp add: exact_intent_def)
  ultimately show ?thesis using e w by (auto simp: exact_intent_def advanced_def Let_def waiting_def on_grid_add)
qed

text \<open>The remaining legs of a waiting intent, run to the end.\<close>

lemma hedge_rounds_complete:
  assumes "cycle_at iid i w" "waiting i" "length (drop (hi_hedge_leg_index i) (hi_hedge_plan i)) \<le> length rounds"
    "execute_plan nid (drop (hi_hedge_leg_index i) (hi_hedge_plan i)) ts = Inr ts'"
    "list_all (fresh_round (cu_state standalone w)) rounds" "distinct (map fst rounds)"
    "distinct (map (\<lambda>(c, t). bar_join2 c t) rounds)"
  shows "\<exists>w' j. hedge_rounds (standalone_object digest) iid nid rounds w ts = Inr (w', ts') \<and> cycle_at iid j w' \<and>
    valid_intent j \<and> hi_status j = COMPLETED \<and> hi_hedge_filled_ounces j = hi_hedge_quantity_ounces i \<and>
    st_file w' = Some (cu_state standalone w') \<and> ss_halt_reason (cu_state standalone w') = ss_halt_reason (cu_state standalone w)"
  using assms
proof (induction rounds arbitrary: i w ts)
  case Nil
  then show ?case by (simp add: waiting_def)
next
  case (Cons r rounds)
  obtain cid trade where rd: "r = (cid, trade)" by (cases r)
  let ?k = "hi_hedge_leg_index i" and ?p = "hi_hedge_plan i"
  have k: "?k < length ?p" using Cons.prems(2) by (simp add: waiting_def)
  have dr: "drop ?k ?p = ?p ! ?k # drop (Suc ?k) ?p" using k by (simp add: Cons_nth_drop_Suc)
  have ex: "validate_hedge_leg (?p ! ?k) (map position_of ts) = Inr ()"
    "execute_plan nid (drop (Suc ?k) ?p) (exec_leg nid (?p ! ?k) ts) = Inr ts'"
    using Cons.prems(4) unfolding dr by (auto simp: bindE_Inr_iff)
  have fr: "fresh_round (cu_state standalone w) (cid, trade)" using Cons.prems(5) rd by simp
  obtain w2 where w2: "hedge_rounds (standalone_object digest) iid nid ((cid, trade) # rounds) w ts =
      hedge_rounds (standalone_object digest) iid nid rounds w2 (exec_leg nid (?p ! ?k) ts)"
    "cycle_at iid (advanced i cid) w2" "valid_intent (advanced i cid)" "st_file w2 = Some (cu_state standalone w2)"
    "ss_hedge_intents (cu_state standalone w2) = dict_set iid (advanced i cid) (ss_hedge_intents (cu_state standalone w))"
    "ss_seen_hedge_fills (cu_state standalone w2) = insert (bar_join2 cid trade) (ss_seen_hedge_fills (cu_state standalone w))"
    "ss_halt_reason (cu_state standalone w2) = ss_halt_reason (cu_state standalone w)"
    using hedge_round [OF Cons.prems(1,2) fr refl ex(1)] by blast
  show ?case
  proof (cases "Suc ?k = length ?p")
    case True
    then have fin: "exec_leg nid (?p ! ?k) ts = ts'" "hi_status (advanced i cid) = COMPLETED"
      using ex(2) k by (simp_all add: advanced_def Let_def)
    moreover have "hedge_rounds (standalone_object digest) iid nid rounds w2 ts' = Inr (w2, ts')"
      using w2(2) fin(2) by (cases rounds) (auto simp: cycle_at_def is_completed_def)
    moreover have "hi_hedge_filled_ounces (advanced i cid) = hi_hedge_quantity_ounces i"
      using w2(3) True Cons.prems(2) by (auto simp: valid_intent_iff advanced_def Let_def waiting_def)
    ultimately show ?thesis using w2 rd by auto
  next
    case False
    have "exact_intent (advanced i cid)" using exact_advanced [OF Cons.prems(2) w2(3)] .
    with False w2(3) Cons.prems(2) have wt: "waiting (advanced i cid)"
      by (auto simp: waiting_def advanced_def Let_def)
    have sub: "hi_hedge_leg_index (advanced i cid) = Suc ?k" "hi_hedge_plan (advanced i cid) = ?p"
      "hi_hedge_quantity_ounces (advanced i cid) = hi_hedge_quantity_ounces i" by (simp_all add: advanced_def Let_def)
    have fresh: "list_all (fresh_round (cu_state standalone w2)) rounds"
      using Cons.prems(5-7) rd Cons.prems(1)
      by (auto simp: list_all_iff cycle_at_def image_iff advanced_def Let_def w2(6)
          intro!: fresh_after [OF w2(5), where cids = "{cid}" and fills = "{bar_join2 cid trade}"])
    show ?thesis
      using Cons.IH [OF w2(2) wt _ _ fresh] Cons.prems(3,6,7) ex(2) k w2(1,7) rd sub by auto
  qed
qed

section \<open>The cycle of a fresh intent\<close>

text \<open>An intent as a source fill leaves it, not bound to one ticket and on the ounce grid.\<close>

definition unplanned :: "hedge_intent \<Rightarrow> bool" where
  "unplanned i \<longleftrightarrow> valid_intent i \<and> hi_status i = PENDING \<and> hi_hedge_client_order_id i = None \<and> hi_hedge_plan i = [] \<and>
    hi_hedge_filled_ounces i = 0 \<and> hi_hedge_position_id i = None \<and> hi_rejected_attempt i = None \<and>
    on_grid (hi_hedge_quantity_ounces i) \<and> hi_hedge_quantity_ounces i < 10 ^ 18"

definition with_plan :: "hedge_intent \<Rightarrow> hedge_leg list \<Rightarrow> hedge_intent" where
  "with_plan i plan = i\<lparr>hi_hedge_plan := plan, hi_hedge_leg_index := 0, hi_hedge_leg_filled_ounces := 0\<rparr>"

lemma planned_waiting:
  assumes i: "unplanned i" and t: "leg_total plan = hi_hedge_quantity_ounces i"
    and legs: "\<And>leg. leg \<in> set plan \<Longrightarrow> leg_side leg = hi_hedge_side i \<and> on_grid (leg_quantity_ounces leg) \<and> 0 < leg_quantity_ounces leg"
  shows "waiting (with_plan i plan)" "plan_total plan = hi_hedge_quantity_ounces i"
proof -
  have e: "exact_intent (with_plan i plan)"
    using assms by (auto simp: exact_intent_def with_plan_def unplanned_def leg_total_def)
  show pt: "plan_total plan = hi_hedge_quantity_ounces i"
    using plan_sums [OF e, of "length plan" 0] t by (simp add: with_plan_def plan_total_def leg_total_def)
  have q: "0 < hi_hedge_quantity_ounces i" using i by (auto simp: unplanned_def valid_intent_quantity)
  then have ne: "plan \<noteq> []" using t by (auto simp: leg_total_def)
  have "valid_intent (with_plan i plan)"
    using i pt legs ne
    by (auto simp: unplanned_def with_plan_def valid_intent_iff intent_scalars_ok_def plan_matches_def progress_exact_def
        check_rejected_history_def)
  with e i ne show "waiting (with_plan i plan)" by (auto simp: waiting_def with_plan_def unplanned_def)
qed

lemma first_leg_binds:
  assumes c: "cycle_at iid i w" "unplanned i" and wt: "waiting (with_plan i plan)"
    "plan_total plan = hi_hedge_quantity_ounces i" "\<And>leg. leg \<in> set plan \<Longrightarrow> leg_side leg = hi_hedge_side i"
    and p: "plan_hedge_delta positions (hi_hedge_side i) (Fin (hi_hedge_quantity_ounces i)) = Inr plan"
    and v: "validate_hedge_leg (hd plan) positions = Inr ()"
  shows "\<exists>w'. next_hedge_leg (standalone_object digest) iid positions w = (w', Inr (hd plan)) \<and>
    cycle_at iid (with_plan i plan) w' \<and> cu_state standalone w' = with_intent iid (with_plan i plan) (cu_state standalone w)"
proof -
  have d: "dict_get (ss_hedge_intents (cu_state standalone w)) iid = Some i" "hi_intent_id i = iid"
    "keyed (cu_state standalone w)" "st_answers w = []" using c(1) by (simp_all add: cycle_at_def)
  have ne: "plan \<noteq> []" "valid_intent (with_plan i plan)" using wt(1) by (auto simp: waiting_def with_plan_def)
  have s: "dsub (hi_hedge_quantity_ounces i) (hi_hedge_filled_ounces i) = hi_hedge_quantity_ounces i"
    using c(2) valid_intent_quantity [of i] by (auto simp: unplanned_def intro!: dsub_exact [of _ 0, simplified])
  let ?w = "w\<lparr>st_view := (st_view w)\<lparr>vw_state := with_intent iid (with_plan i plan) (vw_state (st_view w))\<rparr>,
      st_file := Some (with_intent iid (with_plan i plan) (vw_state (st_view w)))\<rparr>"
  have b: "bind_hedge_plan standalone iid plan w = (?w, Inr (with_plan i plan))"
    using d c(2) ne s wt(2,3)
    by (simp add: bind_hedge_plan_def dict_index_def unplanned_def list_ex_iff with_plan_def [symmetric]
        mk_hedge_intent_valid [OF ne(2)] bind_tx_def on_view_def update_state_def standalone_simps persist_well
        with_intent_def ret_tx_def lift_tx_def modify_tx_def)
  have "planned_leg (standalone_object digest) i positions w = (?w, Inr (hd plan))"
    using c(2) s p b d(2) v ne(1)
    by (simp add: planned_leg_def unplanned_def validate_bound_exit_def bind_tx_def lift_tx_def ret_tx_def Let_def hd_conv_nth)
      (simp add: with_plan_def hd_conv_nth)
  then have "next_hedge_leg (standalone_object digest) iid positions w = (?w, Inr (hd plan))"
    using d(1) by (simp add: next_hedge_leg_def dict_index_def)
  moreover have "hi_intent_id (with_plan i plan) = iid" using d(2) by (simp add: with_plan_def)
  moreover from keyed_update [OF d(3) this, of "with_intent iid (with_plan i plan) (cu_state standalone w)"]
  have "keyed (with_intent iid (with_plan i plan) (cu_state standalone w))" by simp
  ultimately show ?thesis
    using d(4) by (intro exI [of _ ?w]) (simp add: cycle_at_def standalone_simps)
qed

text \<open>C21: the hedge cycle completes. From any well-formed MT5 tickets, a fresh intent is completed after at
  most one round per opposing ticket and one more: every call succeeds, the intent's fill is
  exactly its quantity, the net position of the tickets has moved by exactly the signed quantity,
  opposing exposure was consumed first, and nothing was halted.\<close>

theorem hedge_cycle_completes:
  assumes "cycle_at iid i w" "unplanned i" "wf_snapshots ts" "nid \<noteq> []" "nid \<notin> fst ` set ts"
    "Suc (length ts) \<le> length rounds" "list_all (fresh_round (cu_state standalone w)) rounds"
    "distinct (map fst rounds)" "distinct (map (\<lambda>(c, t). bar_join2 c t) rounds)"
  shows "\<exists>w' ts' j. hedge_rounds (standalone_object digest) iid nid rounds w ts = Inr (w', ts') \<and>
    dict_get (ss_hedge_intents (cu_state standalone w')) iid = Some j \<and> valid_intent j \<and> hi_status j = COMPLETED \<and>
    hi_hedge_filled_ounces j = hi_hedge_quantity_ounces i \<and> st_file w' = Some (cu_state standalone w') \<and>
    ss_halt_reason (cu_state standalone w') = ss_halt_reason (cu_state standalone w) \<and>
    net_ounces ts' = net_ounces ts + side_sign (hi_hedge_side i) * hi_hedge_quantity_ounces i \<and>
    opposing_ounces (hi_hedge_side i) ts' = max 0 (opposing_ounces (hi_hedge_side i) ts - hi_hedge_quantity_ounces i)"
proof -
  have q: "0 < hi_hedge_quantity_ounces i" "on_grid (hi_hedge_quantity_ounces i)" "hi_hedge_quantity_ounces i < 10 ^ 19"
    using assms(2) valid_intent_quantity by (auto simp: unplanned_def)
  obtain plan ts' where p: "plan_hedge_delta (map position_of ts) (hi_hedge_side i) (Fin (hi_hedge_quantity_ounces i)) = Inr plan"
    "execute_plan nid plan ts = Inr ts'"
    "net_ounces ts' = net_ounces ts + side_sign (hi_hedge_side i) * hi_hedge_quantity_ounces i"
    "opposing_ounces (hi_hedge_side i) ts' = max 0 (opposing_ounces (hi_hedge_side i) ts - hi_hedge_quantity_ounces i)"
    "leg_total plan = hi_hedge_quantity_ounces i" "length plan \<le> Suc (length (opposing (hi_hedge_side i) ts))"
    "\<And>leg. leg \<in> set plan \<Longrightarrow> leg_side leg = hi_hedge_side i \<and> on_grid (leg_quantity_ounces leg) \<and> 0 < leg_quantity_ounces leg"
    using plan_then_execute [OF assms(3,5,4) q, of "hi_hedge_side i"] by metis
  note pw = planned_waiting [OF assms(2) p(5,7)]
  have ne: "plan \<noteq> []" using pw(1) by (auto simp: waiting_def with_plan_def)
  have v: "validate_hedge_leg (hd plan) (map position_of ts) = Inr ()"
    using p(2) ne by (cases plan) (auto simp: bindE_Inr_iff)
  obtain w1 where w1: "next_hedge_leg (standalone_object digest) iid (map position_of ts) w = (w1, Inr (hd plan))"
    "cycle_at iid (with_plan i plan) w1" "cu_state standalone w1 = with_intent iid (with_plan i plan) (cu_state standalone w)"
    using first_leg_binds [OF assms(1,2) pw _ p(1) v, where digest = digest] p(7) by blast
  obtain r rs where rs: "rounds = r # rs" using assms(6) by (cases rounds) auto
  have again: "next_hedge_leg (standalone_object digest) iid (map position_of ts) w1 = (w1, Inr (hd plan))"
    using w1(2) pw(1) v ne
    by (simp add: cycle_at_def next_hedge_leg_def dict_index_def planned_leg_def waiting_def with_plan_def Let_def hd_conv_nth)
  have "\<not> is_completed iid (cu_state standalone w)" "\<not> is_completed iid (cu_state standalone w1)"
    using assms(1,2) w1(2) pw(1) by (simp_all add: cycle_at_def is_completed_def unplanned_def waiting_def)
  then have same: "hedge_rounds (standalone_object digest) iid nid rounds w ts = hedge_rounds (standalone_object digest) iid nid rounds w1 ts"
    using w1(1) again by (cases r) (simp add: rs)
  have len: "length (drop (hi_hedge_leg_index (with_plan i plan)) (hi_hedge_plan (with_plan i plan))) \<le> length rounds"
  proof -
    have "length plan \<le> length rounds"
      using p(6) assms(6) length_filter_le [of "\<lambda>(p, q, s). s \<noteq> hi_hedge_side i" ts] unfolding opposing_def by linarith
    then show ?thesis by (simp add: with_plan_def)
  qed
  have run: "execute_plan nid (drop (hi_hedge_leg_index (with_plan i plan)) (hi_hedge_plan (with_plan i plan))) ts = Inr ts'"
    using p(2) by (simp add: with_plan_def)
  have fresh: "list_all (fresh_round (cu_state standalone w1)) rounds"
  proof -
    have "ss_hedge_intents (cu_state standalone w1) = dict_set iid (with_plan i plan) (ss_hedge_intents (cu_state standalone w))"
      "dict_get (ss_hedge_intents (cu_state standalone w)) iid = Some i"
      using w1(3) assms(1) by (simp_all add: cycle_at_def)
    from fresh_after [OF this, where cids = "{}" and fills = "{}"] w1(3) assms(7) show ?thesis
      by (simp add: list_all_iff with_plan_def)
  qed
  from hedge_rounds_complete [OF w1(2) pw(1) len run fresh assms(8,9), where digest = digest] p(3,4) w1(3) same
  show ?thesis by (auto simp: cycle_at_def with_plan_def)
qed

definition ex_fresh_intent :: hedge_intent where
  "ex_fresh_intent = ex_intent\<lparr>hi_status := PENDING, hi_hedge_client_order_id := None, hi_hedge_order_ids := [],
    hi_hedge_plan := []\<rparr>"

definition ex_cycle :: store where
  "ex_cycle = open_store (Some (empty_state\<lparr>ss_hedge_intents := [(''hedge-k'', ex_fresh_intent)]\<rparr>)) []"

theorem hedge_cycle_completes_witness:
  "\<exists>w' ts' j. hedge_rounds (standalone_object id) ''hedge-k'' ''20'' [(''a'', ''1''), (''b'', ''2''), (''c'', ''3'')]
      ex_cycle [(''12'', 2, BUY), (''9'', 1, SELL)] = Inr (w', ts') \<and>
    dict_get (ss_hedge_intents (cu_state standalone w')) ''hedge-k'' = Some j \<and> hi_status j = COMPLETED \<and>
    hi_hedge_filled_ounces j = 3 \<and> net_ounces ts' = - 2 \<and> opposing_ounces SELL ts' = 0"
proof -
  have c: "cycle_at ''hedge-k'' ex_fresh_intent ex_cycle"
    by (simp add: cycle_at_def ex_cycle_def ex_fresh_intent_def ex_intent_def open_store_def standalone_simps keyed_def
        empty_state_def)
  have u: "unplanned ex_fresh_intent"
    by (simp add: unplanned_def ex_fresh_intent_def ex_intent_def valid_intent_iff intent_scalars_ok_def
        check_rejected_history_def)
  have f: "list_all (fresh_round (cu_state standalone ex_cycle)) [(''a'', ''1''), (''b'', ''2''), (''c'', ''3'')]"
    by (simp add: fresh_round_def fresh_id_def ex_cycle_def ex_fresh_intent_def ex_intent_def open_store_def
        standalone_simps state_intents_def is_rejected_attempt_def empty_state_def)
  obtain w' ts' j where "hedge_rounds (standalone_object id) ''hedge-k'' ''20'' [(''a'', ''1''), (''b'', ''2''), (''c'', ''3'')]
      ex_cycle [(''12'', 2, BUY), (''9'', 1, SELL)] = Inr (w', ts')"
    "dict_get (ss_hedge_intents (cu_state standalone w')) ''hedge-k'' = Some j" "hi_status j = COMPLETED"
    "hi_hedge_filled_ounces j = hi_hedge_quantity_ounces ex_fresh_intent"
    "net_ounces ts' = net_ounces [(''12'', 2, BUY), (''9'', 1, SELL)] +
      side_sign (hi_hedge_side ex_fresh_intent) * hi_hedge_quantity_ounces ex_fresh_intent"
    "opposing_ounces (hi_hedge_side ex_fresh_intent) ts' = max 0 (opposing_ounces (hi_hedge_side ex_fresh_intent)
      [(''12'', 2, BUY), (''9'', 1, SELL)] - hi_hedge_quantity_ounces ex_fresh_intent)"
    using hedge_cycle_completes [OF c u, of "[(''12'', 2, BUY), (''9'', 1, SELL)]" "''20''"
        "[(''a'', ''1''), (''b'', ''2''), (''c'', ''3'')]" id] f
    by (auto simp: wf_snapshots_def bar_join2_def)
  then show ?thesis by (simp add: ex_fresh_intent_def ex_intent_def)
qed

end
