(* ===== verification/Py_Value.thy ===== *)
theory Py_Value
  imports Models
begin

text \<open>
  Values whose type the program only knows at run time: what \<^verbatim>\<open>json.loads\<close> returns, what a
  venue message or the \<^verbatim>\<open>info\<close> of an account event contains. A value is a tree; an object is a
  dictionary in insertion order. The second half is \<^verbatim>\<open>Decimal(text)\<close> on ASCII text.
\<close>

section \<open>Dynamic values\<close>

datatype pyval =
    PNone
  | PBool bool
  | PInt int
  | PFloat dec
  | PDec dec
  | PStr string
  | PList "pyval list"
  | PObj "(string \<times> pyval) list"

type_synonym pyobj = "(string \<times> pyval) list"

definition is_int :: "pyval \<Rightarrow> bool" where
  "is_int v = (case v of PInt _ \<Rightarrow> True | _ \<Rightarrow> False)"

definition is_str :: "pyval \<Rightarrow> bool" where
  "is_str v = (case v of PStr _ \<Rightarrow> True | _ \<Rightarrow> False)"

lemma is_int_iff: "is_int v \<longleftrightarrow> (\<exists>n. v = PInt n)"
  by (cases v) (simp_all add: is_int_def)

lemma is_str_iff: "is_str v \<longleftrightarrow> (\<exists>s. v = PStr s)"
  by (cases v) (simp_all add: is_str_def)

text \<open>\<^verbatim>\<open>s.upper()\<close> on ASCII text.\<close>

definition upper_char :: "char \<Rightarrow> char" where
  "upper_char c = (if CHR ''a'' \<le> c \<and> c \<le> CHR ''z'' then char_of (of_char c - 32 :: nat) else c)"

definition py_upper :: "string \<Rightarrow> string" where
  "py_upper s = map upper_char s"

definition lower_char :: "char \<Rightarrow> char" where
  "lower_char c = (if CHR ''A'' \<le> c \<and> c \<le> CHR ''Z'' then char_of (of_char c + 32 :: nat) else c)"

definition py_lower :: "string \<Rightarrow> string" where
  "py_lower s = map lower_char s"

section \<open>Decimal literals\<close>

text \<open>Digits as a number, with the count of them.\<close>

definition take_digits :: "string \<Rightarrow> string \<times> string" where
  "take_digits s = (takeWhile is_digit s, dropWhile is_digit s)"

definition decimal_sign :: "string \<Rightarrow> rat \<times> string" where
  "decimal_sign s = (case s of
     c # cs \<Rightarrow> if c = CHR ''-'' then (- 1, cs) else if c = CHR ''+'' then (1, cs) else (1, s)
   | [] \<Rightarrow> (1, s))"

text \<open>The exponent part: nothing, or \<open>e\<close> with an optional sign and at least one digit.\<close>

definition decimal_exponent :: "string \<Rightarrow> int option" where
  "decimal_exponent s = (case s of
     [] \<Rightarrow> Some 0
   | c # cs \<Rightarrow> if c = CHR ''e'' \<or> c = CHR ''E'' then
       (case decimal_sign cs of (sg, ds) \<Rightarrow>
          if is_decimal ds then Some (if sg < 0 then - parse_nat ds else parse_nat ds) else None)
     else None)"

text \<open>The coefficient: digits with at most one point, at least one digit in all.\<close>

definition decimal_coefficient :: "string \<Rightarrow> ((string \<times> string) \<times> string) option" where
  "decimal_coefficient s = (case take_digits s of (whole, rest) \<Rightarrow>
     (case rest of
        c # cs \<Rightarrow> if c = CHR ''.'' then
            (case take_digits cs of (fraction, rest') \<Rightarrow>
               if whole = [] \<and> fraction = [] then None else Some ((whole, fraction), rest'))
          else if whole = [] then None else Some ((whole, []), rest)
      | [] \<Rightarrow> if whole = [] then None else Some ((whole, []), rest)))"

definition special_decimal :: "string \<Rightarrow> bool" where
  "special_decimal s \<longleftrightarrow> (let t = py_lower s in
     t = ''inf'' \<or> t = ''infinity'' \<or>
     (take 3 t = ''nan'' \<and> list_all is_digit (drop 3 t)) \<or>
     (take 4 t = ''snan'' \<and> list_all is_digit (drop 4 t)))"

text \<open>\<^verbatim>\<open>Decimal(text)\<close>: surrounding space and underscores are ignored; \<open>None\<close> is InvalidOperation.\<close>

definition decimal_of_text :: "string \<Rightarrow> dec option" where
  "decimal_of_text text =
    (case decimal_sign (filter (\<lambda>c. c \<noteq> CHR ''_'') (py_strip text)) of (sg, body) \<Rightarrow>
       if special_decimal body then Some NonFinite
       else (case decimal_coefficient body of
          None \<Rightarrow> None
        | Some ((whole, fraction), rest) \<Rightarrow>
            (case decimal_exponent rest of
               None \<Rightarrow> None
             | Some e \<Rightarrow> Some (Fin (sg * of_int (parse_nat (whole @ fraction)) * 10 powi (e - int (length fraction)))))))"

lemma decimal_examples:
  "decimal_of_text ''12.50'' = Some (Fin (25/2))" "decimal_of_text ''-3e2'' = Some (Fin (- 300))"
  "decimal_of_text '' +.5 '' = Some (Fin (1/2))" "decimal_of_text ''1.2.3'' = None"
  "decimal_of_text ''NaN'' = Some NonFinite" "decimal_of_text '''' = None" "decimal_of_text ''1E'' = None"
  by code_simp+

section \<open>Which exceptions a computation can raise\<close>

definition raises_only :: "(exn \<Rightarrow> bool) \<Rightarrow> exn + 'a \<Rightarrow> bool" where
  "raises_only P m \<longleftrightarrow> (case m of Inl e \<Rightarrow> P e | Inr _ \<Rightarrow> True)"

named_theorems raises_rules \<open>composing \<open>raises_only\<close>\<close>

lemma raises_only_simps [simp]: "raises_only P (Inr x)" "raises_only P (Inl e) \<longleftrightarrow> P e"
  by (simp_all add: raises_only_def)

lemma raises_bind [raises_rules]:
  "raises_only P m \<Longrightarrow> (\<And>x. raises_only P (f x)) \<Longrightarrow> raises_only P (bindE m f)"
  by (cases m) auto

lemma raises_if [raises_rules]: "raises_only P a \<Longrightarrow> raises_only P b \<Longrightarrow> raises_only P (if c then a else b)"
  by simp

lemma raises_index [raises_rules]: "P KeyError \<Longrightarrow> raises_only P (dict_index d k)"
  by (simp add: dict_index_def split: option.split)

lemma raises_value [raises_rules]: "raises_only P (Inr x)"
  by simp

lemma raises_onlyD: "raises_only P m \<Longrightarrow> m = Inl e \<Longrightarrow> P e"
  by simp

end
