(* ===== verification/Margin.thy ===== *)
theory Margin
  imports Py_Value Economics
begin

text \<open>
  \<^verbatim>\<open>margin.py\<close>: the holding bounds of the two venues, and the projections of one native account
  event to an account the economics can use. A projection never raises: every missing, malformed,
  stale or foreign fact is \<open>None\<close>.

  An account event is the part the projections read: identity, type, base currency, and the
  \<^verbatim>\<open>info\<close> tree. The arithmetic contexts of the module and of the caller agree (28 digits).
\<close>

section \<open>Checked inputs\<close>

definition to_floor :: "rat \<Rightarrow> rat" where
  "to_floor x = of_int \<lfloor>x\<rfloor>"

fun first_infinite :: "(string \<times> dec) list \<Rightarrow> string option" where
  "first_infinite [] = None"
| "first_infinite ((name, v) # rest) = (if v = NonFinite then Some name else first_infinite rest)"

definition dec_value :: "dec \<Rightarrow> rat" where
  "dec_value d = (case d of Fin x \<Rightarrow> x | NonFinite \<Rightarrow> 0)"

lemma dec_value_Fin [simp]: "dec_value (Fin x) = x"
  by (simp add: dec_value_def)

definition validate_inputs :: "dec \<Rightarrow> dec \<Rightarrow> string \<Rightarrow> (string \<times> dec) list \<Rightarrow> exn + rat" where
  "validate_inputs margin_target base_margin_level price_name vals =
    (case first_infinite ([(''margin_target'', margin_target), (''base_margin_level'', base_margin_level)] @ vals) of
       Some name \<Rightarrow> Inl (ValueError (name @ '' must be a finite Decimal''))
     | None \<Rightarrow>
         if (case dict_get vals price_name of Some (Fin p) \<Rightarrow> p \<le> 0 | _ \<Rightarrow> False)
         then Inl (ValueError (price_name @ '' must be positive''))
         else let denominator = dadd (dec_value margin_target) (dec_value base_margin_level) in
           if denominator \<le> 0
           then Inl (ValueError ''combined margin target and base margin must be positive'')
           else Inr denominator)"

section \<open>Holding bounds\<close>

text \<open>What may still be bought and sold around a position within the limit on either side.\<close>

definition capacity_around :: "rat \<Rightarrow> rat \<Rightarrow> rat \<times> rat" where
  "capacity_around holding_limit position_ounces =
    (max (dsub holding_limit position_ounces) 0, max (dadd holding_limit position_ounces) 0)"

definition bitfinex_holding_limit :: "rat \<Rightarrow> rat \<Rightarrow> rat \<Rightarrow> rat \<Rightarrow> rat \<Rightarrow> rat \<Rightarrow> rat \<Rightarrow> rat" where
  "bitfinex_holding_limit denominator position price collateral pnl available free =
    (let leverage = to_floor (dquot 10000 denominator);
         total_available = dadd (dadd collateral pnl) available;
         equity_bound = to_floor (dquot (dmul total_available leverage) price);
         free_bound = dadd (to_floor (dquot (dmul free leverage) price)) (dabs position)
     in min equity_bound free_bound)"

definition bitfinex_margin_capacity ::
  "dec \<Rightarrow> dec \<Rightarrow> dec \<Rightarrow> dec \<Rightarrow> dec \<Rightarrow> dec \<Rightarrow> dec \<Rightarrow> dec \<Rightarrow> exn + rat \<times> rat"
where
  "bitfinex_margin_capacity margin_target base_margin_level position_ounces reference_price collateral
      unrealized_pnl available_balance free_margin =
    bindE (validate_inputs margin_target base_margin_level ''reference_price''
        [(''reference_price'', reference_price), (''position_ounces'', position_ounces), (''collateral'', collateral),
         (''unrealized_pnl'', unrealized_pnl), (''available_balance'', available_balance), (''free_margin'', free_margin)])
      (\<lambda>denominator. Inr (capacity_around
        (bitfinex_holding_limit denominator (dec_value position_ounces) (dec_value reference_price) (dec_value collateral)
          (dec_value unrealized_pnl) (dec_value available_balance) (dec_value free_margin))
        (dec_value position_ounces)))"

definition mt5_holding_limit :: "rat \<Rightarrow> rat \<Rightarrow> rat \<Rightarrow> rat" where
  "mt5_holding_limit denominator ask equity = to_floor (dquot (dmul equity 10000) (dmul denominator ask))"

definition mt5_margin_capacity :: "dec \<Rightarrow> dec \<Rightarrow> dec \<Rightarrow> dec \<Rightarrow> dec \<Rightarrow> exn + rat \<times> rat" where
  "mt5_margin_capacity margin_target base_margin_level position_ounces ask equity =
    bindE (validate_inputs margin_target base_margin_level ''ask''
        [(''ask'', ask), (''position_ounces'', position_ounces), (''equity'', equity)])
      (\<lambda>denominator. Inr (capacity_around (mt5_holding_limit denominator (dec_value ask) (dec_value equity))
        (dec_value position_ounces)))"

text \<open>The configured limits: route caps are trade amounts, \<open>max_abs\<close> bounds the position.\<close>

definition intersect_capacity :: "rat \<times> rat \<Rightarrow> rat \<Rightarrow> dec \<Rightarrow> dec \<Rightarrow> dec \<Rightarrow> exn + rat \<times> rat" where
  "intersect_capacity dynamic quantity route_buy route_sell max_abs =
    (if list_ex (\<lambda>v. case v of NonFinite \<Rightarrow> True | Fin x \<Rightarrow> x < 0) [Fin (fst dynamic), Fin (snd dynamic), route_buy, route_sell, max_abs]
     then Inl (ValueError ''capacity limits must be finite and nonnegative'')
     else Inr
       (min (min (fst dynamic) (dec_value route_buy)) (max (dsub (dec_value max_abs) quantity) 0),
        min (min (snd dynamic) (dec_value route_sell)) (max (dadd (dec_value max_abs) quantity) 0)))"

section \<open>Facts of an account event\<close>

record account_state =
  as_account_id :: string
  as_margin :: bool
  as_base_currency :: string
  as_info :: pyval

definition py_object :: "pyval \<Rightarrow> exn + pyobj" where
  "py_object v = (case v of PObj d \<Rightarrow> Inr d | _ \<Rightarrow> Inl (ValueError ''account facts must be an object''))"

definition py_decimal :: "pyval \<Rightarrow> exn + rat" where
  "py_decimal v =
    (case (case v of
        PStr s \<Rightarrow> (case decimal_of_text s of None \<Rightarrow> Inl ArithmeticError | Some d \<Rightarrow> Inr d)
      | PDec d \<Rightarrow> Inr d
      | _ \<Rightarrow> Inl (ValueError ''account value must be an exact decimal'')) of
       Inl e \<Rightarrow> Inl e
     | Inr NonFinite \<Rightarrow> Inl (ValueError ''account value must be finite'')
     | Inr (Fin x) \<Rightarrow> Inr x)"

definition fresh :: "pyval \<Rightarrow> int \<Rightarrow> int \<Rightarrow> int \<Rightarrow> bool" where
  "fresh observed now_ns max_age_ns max_future_ns = (case observed of
     PInt observed_ns \<Rightarrow> 0 \<le> observed_ns \<and> 0 \<le> now_ns \<and> 0 \<le> max_age_ns
       \<and> - max_future_ns \<le> now_ns - observed_ns \<and> now_ns - observed_ns \<le> max_age_ns
   | _ \<Rightarrow> False)"

definition fresh_ask :: "dec \<Rightarrow> int \<Rightarrow> int \<Rightarrow> int \<Rightarrow> bool \<Rightarrow> exn + rat" where
  "fresh_ask ask ts_ns now_ns max_age_ns actionable =
    (if \<not> actionable \<or> \<not> fresh (PInt ts_ns) now_ns max_age_ns 0 \<or> (case ask of NonFinite \<Rightarrow> True | Fin x \<Rightarrow> x \<le> 0)
     then Inl (ValueError ''account capacity requires a fresh actionable ask'')
     else Inr (dec_value ask))"

definition account_info :: "account_state option \<Rightarrow> string \<Rightarrow> bool \<Rightarrow> string \<Rightarrow> exn + pyobj" where
  "account_info event account_id client_ready currency =
    (case event of
       None \<Rightarrow> Inl (ValueError ''account sample has no current qualification'')
     | Some e \<Rightarrow>
         if \<not> client_ready \<or> as_account_id e \<noteq> account_id \<or> \<not> as_margin e \<or> as_base_currency e \<noteq> currency
         then Inl (ValueError ''account sample has no current qualification'')
         else py_object (as_info e))"

text \<open>\<^verbatim>\<open>except (KeyError, TypeError, ValueError, ArithmeticError): return None\<close>.\<close>

fun unusable_sample :: "exn \<Rightarrow> bool" where
  "unusable_sample KeyError = True"
| "unusable_sample (TypeError _) = True"
| "unusable_sample (ValueError _) = True"
| "unusable_sample ArithmeticError = True"
| "unusable_sample _ = False"

definition or_none :: "exn + 'a option \<Rightarrow> exn + 'a option" where
  "or_none r = (case r of Inl e \<Rightarrow> if unusable_sample e then Inr None else Inl e | Inr a \<Rightarrow> Inr a)"

section \<open>The Bitfinex source account\<close>

record projection_limits =
  pl_margin_target :: dec
  pl_max_abs_ounces :: dec
  pl_now_ns :: int
  pl_max_account_age_ns :: int
  pl_client_ready :: bool
  pl_ask :: dec
  pl_ask_ts_ns :: int
  pl_max_quote_age_ns :: int
  pl_ask_actionable :: bool

text \<open>A held position: quantity, entry price, profit, collateral and the margin level it implies.\<close>

definition held_position :: "pyobj \<Rightarrow> exn + (rat \<times> rat \<times> rat \<times> rat \<times> rat) option" where
  "held_position row =
    bindE (dict_index row ''position_id'') (\<lambda>pid.
    bindE (dict_index row ''status'') (\<lambda>status.
    bindE (dict_index row ''type'') (\<lambda>type.
    if \<not> is_int pid \<or> (case pid of PInt n \<Rightarrow> n \<le> 0 | _ \<Rightarrow> True) \<or> status \<noteq> PStr ''ACTIVE'' \<or> type \<noteq> PInt 1 then Inr None
    else
    bindE (bindE (dict_index row ''quantity'') py_decimal) (\<lambda>quantity.
    bindE (bindE (dict_index row ''base_price'') py_decimal) (\<lambda>price.
    bindE (bindE (dict_index row ''profit_loss'') py_decimal) (\<lambda>pnl.
    bindE (bindE (dict_index row ''collateral'') py_decimal) (\<lambda>collateral.
    bindE (bindE (dict_index row ''leverage'') py_decimal) (\<lambda>leverage.
    bindE (bindE (dict_index row ''collateral_min'') py_decimal) (\<lambda>minimum.
    if quantity = 0 \<or> collateral \<le> 0 \<or> leverage \<le> 0 \<or> minimum < 0 then Inr None
    else Inr (Some (quantity, price, pnl, collateral,
      dquot (dmul 10000 minimum) (dmul collateral leverage))))))))))))"

definition position_facts ::
  "source_account_route \<Rightarrow> projection_limits \<Rightarrow> pyval \<Rightarrow> exn + (rat \<times> rat \<times> rat \<times> rat \<times> rat) option"
where
  "position_facts route lims position =
    (if position = PNone then
       (case sr_base_margin_level route of
          NonFinite \<Rightarrow> Inr None
        | Fin base \<Rightarrow>
            if base \<le> 0 then Inr None
            else bindE (fresh_ask (pl_ask lims) (pl_ask_ts_ns lims) (pl_now_ns lims) (pl_max_quote_age_ns lims)
              (pl_ask_actionable lims)) (\<lambda>price. Inr (Some (0, price, 0, 0, base))))
     else bindE (py_object position) held_position)"

definition bitfinex_sample ::
  "account_state option \<Rightarrow> source_account_route \<Rightarrow> string \<Rightarrow> string \<Rightarrow> projection_limits \<Rightarrow> exn + source_account option"
where
  "bitfinex_sample event route instrument_id wallet_currency lims =
    bindE (account_info event (sr_account_id route) (pl_client_ready lims) ''USDT'') (\<lambda>info.
    bindE (bindE (dict_index info ''bitfinex_margin'') py_object) (\<lambda>facts.
    bindE (dict_index info ''bitfinex_wallet_currency'') (\<lambda>currency.
    if wallet_currency = [] then Inr None else
    bindE (dict_index facts ''instrument_id'') (\<lambda>instrument.
    if instrument \<noteq> PStr instrument_id
      \<or> (case currency of PStr c \<Rightarrow> py_upper c \<noteq> py_upper wallet_currency | _ \<Rightarrow> True) then Inr None else
    bindE (bindE (dict_index facts ''wallet'') py_object) (\<lambda>wallet.
    bindE (bindE (dict_index facts ''positions'') py_object) (\<lambda>positions.
    bindE (dict_index wallet ''current'') (\<lambda>wallet_current. if wallet_current \<noteq> PBool True then Inr None else
    bindE (dict_index positions ''current'') (\<lambda>positions_current. if positions_current \<noteq> PBool True then Inr None else
    bindE (dict_index positions ''complete'') (\<lambda>complete. if complete \<noteq> PBool True then Inr None else
    bindE (dict_index wallet ''observed_ns'') (\<lambda>wallet_ns.
    if \<not> fresh wallet_ns (pl_now_ns lims) (pl_max_account_age_ns lims) 0 then Inr None else
    bindE (dict_index positions ''observed_ns'') (\<lambda>positions_ns.
    if \<not> fresh positions_ns (pl_now_ns lims) (pl_max_account_age_ns lims) 0 then Inr None else
    bindE (bindE (dict_index wallet ''balance'') py_decimal) (\<lambda>_.
    bindE (bindE (dict_index wallet ''available_balance'') py_decimal) (\<lambda>available.
    bindE (dict_index positions ''position'') (\<lambda>position.
    bindE (position_facts route lims position) (\<lambda>held. case held of
      None \<Rightarrow> Inr None
    | Some (quantity, price, pnl, collateral, base) \<Rightarrow>
        bindE (bitfinex_margin_capacity (pl_margin_target lims) (Fin base) (Fin quantity) (Fin price) (Fin collateral)
          (Fin pnl) (Fin available) (Fin available)) (\<lambda>dynamic.
        bindE (intersect_capacity dynamic quantity (sr_max_long_ounces route) (sr_max_short_ounces route)
          (pl_max_abs_ounces lims)) (\<lambda>(buy, sell).
        Inr (Some \<lparr>sa_account_id = sr_account_id route, sa_client_id = sr_client_id route, sa_position_ounces = quantity,
          sa_max_long_ounces = buy, sa_max_short_ounces = sell, sa_base_margin_level = base\<rparr>))))))))))))))))))"

definition bitfinex_source_account ::
  "account_state option \<Rightarrow> source_account_route \<Rightarrow> string \<Rightarrow> string \<Rightarrow> projection_limits \<Rightarrow> exn + source_account option"
where
  "bitfinex_source_account event route instrument_id wallet_currency lims =
    or_none (bitfinex_sample event route instrument_id wallet_currency lims)"

section \<open>The MT5 hedge account\<close>

definition mt5_sample ::
  "account_state option \<Rightarrow> hedge_account_route \<Rightarrow> string \<Rightarrow> string \<Rightarrow> projection_limits \<Rightarrow> exn + hedge_account option"
where
  "mt5_sample event route symbol stream_id lims =
    bindE (account_info event (hr_account_id route) (pl_client_ready lims) ''USD'') (\<lambda>info.
    if symbol = [] \<or> stream_id = [] then Inr None else
    bindE (dict_index info ''mt5_symbol'') (\<lambda>sym. if sym \<noteq> PStr symbol then Inr None else
    bindE (dict_index info ''mt5_stream_id'') (\<lambda>stream. if stream \<noteq> PStr stream_id then Inr None else
    bindE (dict_index info ''mt5_positions_complete'') (\<lambda>complete. if complete \<noteq> PBool True then Inr None else
    bindE (dict_index info ''mt5_account_sample_valid'') (\<lambda>valid. if valid \<noteq> PBool True then Inr None else
    bindE (dict_index info ''mt5_account_observed_ns'') (\<lambda>observed.
    if \<not> fresh observed (pl_now_ns lims) (pl_max_account_age_ns lims) MAX_OBSERVATION_FUTURE_NS then Inr None else
    bindE (bindE (dict_index info ''mt5_net_position_ounces'') py_decimal) (\<lambda>quantity.
    bindE (bindE (dict_index info ''mt5_equity'') py_decimal) (\<lambda>equity.
    bindE (dict_index info ''mt5_position_count'') (\<lambda>count. case count of
      PInt n \<Rightarrow>
        if n < 0 \<or> n = 0 \<and> quantity \<noteq> 0 \<or> n = 1 \<and> quantity = 0 then Inr None
        else
        bindE (fresh_ask (pl_ask lims) (pl_ask_ts_ns lims) (pl_now_ns lims) (pl_max_quote_age_ns lims)
          (pl_ask_actionable lims)) (\<lambda>price.
        bindE (mt5_margin_capacity (pl_margin_target lims) (Fin 60) (Fin quantity) (Fin price) (Fin equity)) (\<lambda>dynamic.
        bindE (intersect_capacity dynamic quantity (hr_max_long_ounces route) (hr_max_short_ounces route)
          (pl_max_abs_ounces lims)) (\<lambda>(buy, sell).
        Inr (Some \<lparr>ha_position_ounces = quantity, ha_max_long_ounces = buy, ha_max_short_ounces = sell\<rparr>))))
    | _ \<Rightarrow> Inr None)))))))))"

definition mt5_hedge_account ::
  "account_state option \<Rightarrow> hedge_account_route \<Rightarrow> string \<Rightarrow> string \<Rightarrow> projection_limits \<Rightarrow> exn + hedge_account option"
where
  "mt5_hedge_account event route symbol stream_id lims = or_none (mt5_sample event route symbol stream_id lims)"

definition mt5_maker_account ::
  "account_state option \<Rightarrow> hedge_account_route \<Rightarrow> string \<Rightarrow> string \<Rightarrow> projection_limits \<Rightarrow> exn + maker_account option"
where
  "mt5_maker_account event route symbol stream_id lims =
    bindE (mt5_hedge_account event route symbol stream_id lims) (\<lambda>hedge. Inr (map_option (\<lambda>h.
      \<lparr>ma_account_id = hr_account_id route, ma_client_id = hr_client_id route, ma_position_ounces = ha_position_ounces h,
       ma_max_long_ounces = ha_max_long_ounces h, ma_max_short_ounces = ha_max_short_ounces h\<rparr>) hedge))"

section \<open>The holding bounds are margin bounds\<close>

text \<open>Rounding to 28 digits changes a nonnegative value by less than one part in \<open>10 ^ 27\<close>.\<close>

lemma rnd28_near: "0 \<le> x \<Longrightarrow> \<bar>rnd28 x - x\<bar> \<le> x / 10 ^ 27 / 2"
  using dec28.round_sig_error [of x] by (simp add: rnd28_def)

lemma rnd28_upper: "0 \<le> x \<Longrightarrow> rnd28 x \<le> x * (1 + 1 / 10 ^ 27)"
  using rnd28_near [of x] unfolding abs_le_iff by (simp add: algebra_simps)

lemma rnd28_lower: "0 \<le> x \<Longrightarrow> x * (1 - 1 / 10 ^ 27) \<le> rnd28 x"
  using rnd28_near [of x] unfolding abs_le_iff by (simp add: algebra_simps)

lemma capacity_around_sound:
  assumes c: "capacity_around H pos = (buy, sell)" and g: "on_grid H" "on_grid pos" "\<bar>H\<bar> < 10 ^ 18" "\<bar>pos\<bar> < 10 ^ 18"
    and f: "0 \<le> bought" "bought \<le> buy" "0 \<le> sold" "sold \<le> sell"
  shows "0 \<le> buy" "0 \<le> sell" "\<bar>pos + bought - sold\<bar> \<le> \<bar>pos\<bar> \<or> \<bar>pos + bought - sold\<bar> \<le> H"
proof -
  have "dsub H pos = H - pos" "dadd H pos = H + pos"
    using g by (auto intro!: dsub_exact dadd_exact simp: abs_less_iff)
  then have "buy = max (H - pos) 0" "sell = max (H + pos) 0" using c by (auto simp: capacity_around_def)
  then show "0 \<le> buy" "0 \<le> sell" "\<bar>pos + bought - sold\<bar> \<le> \<bar>pos\<bar> \<or> \<bar>pos + bought - sold\<bar> \<le> H"
    using f by (auto simp: max_def split: if_splits)
qed

text \<open>A rounded product of margins over a rounded product of prices, as an inequality without division.\<close>

definition margin_slack :: rat where "margin_slack = 1 + 1 / 10 ^ 26"

lemma quotient_upper:
  assumes "0 < d" "0 \<le> n" "x \<le> dquot n d"
  shows "x * d \<le> n * (1 + 1 / 10 ^ 27)"
proof -
  have "x \<le> n / d * (1 + 1 / 10 ^ 27)"
    using assms rnd28_upper [of "n / d"] by (simp add: dquot_def)
  then show ?thesis using assms(1) by (simp add: field_simps)
qed

lemma product_lower: "0 \<le> x \<Longrightarrow> 0 \<le> y \<Longrightarrow> x * y * (1 - 1 / 10 ^ 27) \<le> dmul x y"
  using rnd28_lower [of "x * y"] by (simp add: dmul_def)

lemma product_upper: "0 \<le> x \<Longrightarrow> 0 \<le> y \<Longrightarrow> dmul x y \<le> x * y * (1 + 1 / 10 ^ 27)"
  using rnd28_upper [of "x * y"] by (simp add: dmul_def)

lemma slack_combine:
  fixes a b :: rat
  assumes "a * (1 - 1 / 10 ^ 27) * (1 - 1 / 10 ^ 27) \<le> b * (1 + 1 / 10 ^ 27) * (1 + 1 / 10 ^ 27)" "0 \<le> b"
  shows "a \<le> b * margin_slack"
proof (rule ccontr)
  let ?u = "1 / 10 ^ 27 :: rat"
  assume "\<not> a \<le> b * margin_slack"
  then have "b * margin_slack * ((1 - ?u) * (1 - ?u)) < a * ((1 - ?u) * (1 - ?u))" by (intro mult_strict_right_mono) simp_all
  with assms(1) have "b * (margin_slack * ((1 - ?u) * (1 - ?u))) < b * ((1 + ?u) * (1 + ?u))" by (simp add: mult.assoc)
  moreover have "(1 + ?u) * (1 + ?u) \<le> margin_slack * ((1 - ?u) * (1 - ?u))" by (simp add: margin_slack_def)
  ultimately show False using assms(2) by (meson mult_left_mono not_less)
qed

text \<open>The validated inputs.\<close>

lemma validate_inputs_Inr:
  assumes "validate_inputs (Fin m) (Fin b) name vals = Inr den" "dict_get vals name = Some (Fin price)"
  shows "den = dadd m b" "0 < den" "0 < price"
  using assms by (auto simp: validate_inputs_def Let_def split: option.splits if_splits)

text \<open>C38: the MT5 capacity respects the margin. Whatever part of both capacities is filled, the position is
  not larger than before or its notional is within the account's equity at the leverage the
  combined margin level allows, up to the rounding of the arithmetic.\<close>

theorem mt5_capacity_within_margin:
  assumes c: "mt5_margin_capacity (Fin m) (Fin b) (Fin pos) (Fin ask) (Fin equity) = Inr (buy, sell)"
    and g: "on_grid pos" "\<bar>pos\<bar> < 10 ^ 18" "\<bar>mt5_holding_limit (dadd m b) ask equity\<bar> < 10 ^ 18"
    and f: "0 \<le> bought" "bought \<le> buy" "0 \<le> sold" "sold \<le> sell"
  shows "0 \<le> buy \<and> 0 \<le> sell \<and> (\<bar>pos + bought - sold\<bar> \<le> \<bar>pos\<bar> \<or>
    \<bar>pos + bought - sold\<bar> * (dadd m b * ask) \<le> 10000 * equity * margin_slack)"
proof -
  let ?H = "mt5_holding_limit (dadd m b) ask equity" and ?p = "pos + bought - sold"
  obtain den where v: "validate_inputs (Fin m) (Fin b) ''ask'' [(''ask'', Fin ask), (''position_ounces'', Fin pos), (''equity'', Fin equity)] = Inr den"
    and r: "capacity_around (mt5_holding_limit den ask equity) pos = (buy, sell)"
    using c by (auto simp: mt5_margin_capacity_def bindE_Inr_iff)
  have den: "den = dadd m b" "0 < den" "0 < ask" using validate_inputs_Inr [OF v, of ask] by simp_all
  have "on_grid ?H" by (simp add: mt5_holding_limit_def to_floor_def)
  from capacity_around_sound [OF r [unfolded den(1)] this g(1,3,2) f]
  have s: "0 \<le> buy" "0 \<le> sell" "\<bar>?p\<bar> \<le> \<bar>pos\<bar> \<or> \<bar>?p\<bar> \<le> ?H" by simp_all
  have "\<bar>?p\<bar> * (dadd m b * ask) \<le> 10000 * equity * margin_slack" if h: "\<bar>?p\<bar> \<le> ?H" "\<bar>pos\<bar> < \<bar>?p\<bar>"
  proof -
    have d: "0 < dmul den ask" using den by simp
    have q: "\<bar>?p\<bar> \<le> dquot (dmul equity 10000) (dmul den ask)"
      using order_trans [OF h(1) [unfolded mt5_holding_limit_def to_floor_def] of_int_floor_le] den(1) by simp
    have "0 < dquot (dmul equity 10000) (dmul den ask)" using q h(2) by linarith
    then have e: "0 < equity" using d by (auto simp: dquot_def zero_less_divide_iff dmul_def zero_less_mult_iff not_less)
        (metis den(2,3) mult_pos_pos not_less_iff_gr_or_eq)+
    have "\<bar>?p\<bar> * (den * ask * (1 - 1 / 10 ^ 27)) \<le> \<bar>?p\<bar> * dmul den ask"
      using product_lower [of den ask] den by (intro mult_left_mono) simp_all
    also have "\<dots> \<le> dmul equity 10000 * (1 + 1 / 10 ^ 27)"
      using quotient_upper [OF d _ q] e by simp
    also have "\<dots> \<le> equity * 10000 * (1 + 1 / 10 ^ 27) * (1 + 1 / 10 ^ 27)"
      using product_upper [of equity 10000] e by (intro mult_right_mono) simp_all
    finally have "\<bar>?p\<bar> * (den * ask) * (1 - 1 / 10 ^ 27) \<le> equity * 10000 * (1 + 1 / 10 ^ 27) * (1 + 1 / 10 ^ 27)"
      by (simp add: mult.assoc)
    moreover have "\<bar>?p\<bar> * (den * ask) * (1 - 1 / 10 ^ 27) * (1 - 1 / 10 ^ 27) \<le> \<bar>?p\<bar> * (den * ask) * (1 - 1 / 10 ^ 27)"
      using den by (intro mult_left_le) simp_all
    ultimately have "\<bar>?p\<bar> * (den * ask) * (1 - 1 / 10 ^ 27) * (1 - 1 / 10 ^ 27)
        \<le> equity * 10000 * (1 + 1 / 10 ^ 27) * (1 + 1 / 10 ^ 27)" by linarith
    from slack_combine [OF this] e den(1) show ?thesis by (simp add: mult.commute)
  qed
  with s show ?thesis by fastforce
qed

theorem mt5_capacity_within_margin_witness:
  "mt5_margin_capacity (Fin 400) (Fin 60) (Fin 1) (Fin 4000) (Fin 1840) = Inr (9, 11) \<and>
    \<bar>1 + 9 - 0\<bar> * (dadd 400 60 * 4000) \<le> 10000 * 1840 * margin_slack"
proof -
  have h: "mt5_holding_limit (dadd 400 60) 4000 1840 = 10"
    by (simp add: mt5_holding_limit_def dadd_exact dmul_def dquot_def to_floor_def rnd28_exact)
  have c: "mt5_margin_capacity (Fin 400) (Fin 60) (Fin 1) (Fin 4000) (Fin 1840) = Inr (9, 11)"
    using h by (simp add: mt5_margin_capacity_def validate_inputs_def dadd_exact dsub_exact capacity_around_def)
  from mt5_capacity_within_margin [OF c, of 9 0] c h show ?thesis by simp
qed

text \<open>the Bitfinex capacity respects both margin bounds. Whatever part of both capacities is filled, the
  position is not larger than before, or its notional is within the equity times the whole leverage and
  its growth is within the free margin times that leverage; the leverage never exceeds the one the
  combined margin level allows.\<close>

theorem bitfinex_capacity_within_margin:
  assumes c: "bitfinex_margin_capacity (Fin m) (Fin b) (Fin pos) (Fin price) (Fin coll) (Fin pnl) (Fin avail) (Fin free) = Inr (buy, sell)"
    and g: "on_grid pos" "\<bar>pos\<bar> < 10 ^ 18" "on_grid coll" "on_grid pnl" "on_grid avail" "\<bar>coll\<bar> + \<bar>pnl\<bar> + \<bar>avail\<bar> < 10 ^ 18"
    and H: "H = bitfinex_holding_limit (dadd m b) pos price coll pnl avail free" "\<bar>H\<bar> < 10 ^ 18"
      "\<bar>to_floor (dquot (dmul free L) price)\<bar> < 10 ^ 18"
    and L: "L = to_floor (dquot 10000 (dadd m b))"
    and f: "0 \<le> bought" "bought \<le> buy" "0 \<le> sold" "sold \<le> sell"
  shows "0 \<le> buy \<and> 0 \<le> sell \<and> L * dadd m b \<le> 10000 * margin_slack \<and>
    (\<bar>pos + bought - sold\<bar> \<le> \<bar>pos\<bar> \<or>
     \<bar>pos + bought - sold\<bar> * price \<le> (coll + pnl + avail) * L * margin_slack \<and>
     (\<bar>pos + bought - sold\<bar> - \<bar>pos\<bar>) * price \<le> free * L * margin_slack)"
proof -
  let ?p = "pos + bought - sold" and ?t = "coll + pnl + avail"
  obtain den where v: "validate_inputs (Fin m) (Fin b) ''reference_price'' [(''reference_price'', Fin price),
      (''position_ounces'', Fin pos), (''collateral'', Fin coll), (''unrealized_pnl'', Fin pnl),
      (''available_balance'', Fin avail), (''free_margin'', Fin free)] = Inr den"
    and r: "capacity_around (bitfinex_holding_limit den pos price coll pnl avail free) pos = (buy, sell)"
    using c by (auto simp: bitfinex_margin_capacity_def bindE_Inr_iff)
  have den: "den = dadd m b" "0 < den" "0 < price" using validate_inputs_Inr [OF v, of price] by simp_all
  have tot: "dadd (dadd coll pnl) avail = ?t" using g by (simp add: dadd_exact)
  have L0: "0 \<le> L" using den by (simp add: L to_floor_def dquot_def)
  have fb: "dadd (to_floor (dquot (dmul free L) price)) (dabs pos) = to_floor (dquot (dmul free L) price) + \<bar>pos\<bar>"
    using g H(3) by (auto simp: to_floor_def dabs_exact intro!: dadd_exact)
  have Hm: "H = min (to_floor (dquot (dmul ?t L) price)) (to_floor (dquot (dmul free L) price) + \<bar>pos\<bar>)"
    unfolding H(1) bitfinex_holding_limit_def Let_def L [symmetric] tot fb ..
  have "on_grid H" unfolding Hm to_floor_def using g(1) by (intro on_grid_min on_grid_add on_grid_of_int on_grid_abs)
  from capacity_around_sound [OF r [unfolded den(1), folded H(1)] this g(1) H(2) g(2) f]
  have s: "0 \<le> buy" "0 \<le> sell" "\<bar>?p\<bar> \<le> \<bar>pos\<bar> \<or> \<bar>?p\<bar> \<le> H" by simp_all
  have "L \<le> dquot 10000 den" unfolding L to_floor_def den(1) by (rule of_int_floor_le)
  from quotient_upper [OF den(2) _ this] have lev: "L * den \<le> 10000 * margin_slack"
    by (simp add: margin_slack_def)
  have bound: "x * price \<le> n * L * margin_slack" if x: "x \<le> to_floor (dquot (dmul n L) price)" "0 < x" for x n
  proof -
    have q: "x \<le> dquot (dmul n L) price" using order_trans [OF x(1) [unfolded to_floor_def] of_int_floor_le] .
    then have "0 < dquot (dmul n L) price" using x(2) by linarith
    then have "0 < n * L" using den(3) by (simp add: dquot_def dmul_def zero_less_divide_iff)
    then have n: "0 \<le> n" using L0 by (simp add: zero_less_mult_iff)
    have "x * price \<le> dmul n L * (1 + 1 / 10 ^ 27)" using quotient_upper [OF den(3) _ q] n L0 by simp
    also have "\<dots> \<le> n * L * (1 + 1 / 10 ^ 27) * (1 + 1 / 10 ^ 27)"
      using product_upper [OF n L0] by (intro mult_right_mono) simp_all
    finally have u: "x * price \<le> n * L * (1 + 1 / 10 ^ 27) * (1 + 1 / 10 ^ 27)" .
    have "x * price * (1 - 1 / 10 ^ 27) * (1 - 1 / 10 ^ 27) \<le> x * price * (1 - 1 / 10 ^ 27)"
      using x(2) den(3) by (intro mult_left_le) simp_all
    also have "\<dots> \<le> x * price" using x(2) den(3) by (intro mult_left_le) simp_all
    finally have "x * price * (1 - 1 / 10 ^ 27) * (1 - 1 / 10 ^ 27) \<le> x * price" .
    from slack_combine [OF order_trans [OF this u]] n L0 show ?thesis by simp
  qed
  have "\<bar>?p\<bar> * price \<le> ?t * L * margin_slack \<and> (\<bar>?p\<bar> - \<bar>pos\<bar>) * price \<le> free * L * margin_slack"
    if h: "\<bar>?p\<bar> \<le> H" "\<bar>pos\<bar> < \<bar>?p\<bar>"
  proof -
    have "\<bar>?p\<bar> \<le> to_floor (dquot (dmul ?t L) price)" "\<bar>?p\<bar> - \<bar>pos\<bar> \<le> to_floor (dquot (dmul free L) price)"
      using h(1) by (simp_all add: Hm)
    then show ?thesis using bound h(2) by auto
  qed
  with s lev den(1) show ?thesis by fastforce
qed

theorem bitfinex_capacity_within_margin_witness:
  "bitfinex_margin_capacity (Fin 400) (Fin 100) (Fin 1) (Fin 4000) (Fin 500) (Fin 0) (Fin 700) (Fin 700) = Inr (3, 5) \<and>
    \<bar>1 + 3 - 0\<bar> * 4000 \<le> (500 + 0 + 700) * 20 * margin_slack"
proof -
  have L: "20 = to_floor (dquot 10000 (dadd 400 100))"
    by (simp add: dadd_exact dquot_def to_floor_def rnd28_exact)
  have fr: "to_floor (dquot (dmul 700 20) 4000) = 3"
    by (simp add: dmul_def dquot_def to_floor_def rnd28_exact on_gridI [where n = 3500000000])
  have h: "4 = bitfinex_holding_limit (dadd 400 100) 1 4000 500 0 700 700"
    using fr by (simp add: bitfinex_holding_limit_def L [symmetric] dadd_exact dabs_exact)
      (simp add: dmul_def dquot_def to_floor_def rnd28_exact dadd_exact)
  have c: "bitfinex_margin_capacity (Fin 400) (Fin 100) (Fin 1) (Fin 4000) (Fin 500) (Fin 0) (Fin 700) (Fin 700) = Inr (3, 5)"
    using h by (simp add: bitfinex_margin_capacity_def validate_inputs_def dadd_exact dsub_exact capacity_around_def)
  from bitfinex_capacity_within_margin [OF c _ _ _ _ _ _ h _ _ L, of 3 0] c fr show ?thesis by simp
qed

section \<open>What a projection vouches for\<close>

lemma raises_object [raises_rules]: "(\<And>m. P (ValueError m)) \<Longrightarrow> raises_only P (py_object v)"
  by (cases v) (simp_all add: py_object_def)

lemma raises_decimal [raises_rules]: "(\<And>m. P (ValueError m)) \<Longrightarrow> P ArithmeticError \<Longrightarrow> raises_only P (py_decimal v)"
  by (auto simp: py_decimal_def raises_only_def split: pyval.splits option.splits dec.splits sum.splits)

lemma sample_raises:
  "raises_only unusable_sample (bitfinex_sample event route iid cur lims)"
  "raises_only unusable_sample (mt5_sample event hroute symbol stream lims)"
proof -
  have v: "raises_only unusable_sample (validate_inputs m b name vals)" for m b name vals
    by (simp add: validate_inputs_def Let_def raises_only_def split: option.splits)
  have p: "raises_only unusable_sample (position_facts route lims position)" for position
    unfolding position_facts_def held_position_def fresh_ask_def
    by (auto simp: split: dec.split intro!: raises_rules)
  have i: "raises_only unusable_sample (account_info e a c cy)" for e a c cy
    by (auto simp: account_info_def split: option.split intro!: raises_rules)
  have x: "raises_only unusable_sample (intersect_capacity d q rb rs mx)" for d q rb rs mx
    by (simp add: intersect_capacity_def)
  show "raises_only unusable_sample (bitfinex_sample event route iid cur lims)"
    unfolding bitfinex_sample_def bitfinex_margin_capacity_def
    by (auto split: option.split prod.split intro!: raises_rules v p i x)
  show "raises_only unusable_sample (mt5_sample event hroute symbol stream lims)"
    unfolding mt5_sample_def mt5_margin_capacity_def fresh_ask_def
    by (auto split: option.split prod.split pyval.split intro!: raises_rules v i x)
qed

lemma or_none_total: "raises_only unusable_sample m \<Longrightarrow> \<exists>a. or_none m = Inr a \<and> (\<forall>x. a = Some x \<longrightarrow> m = Inr (Some x))"
  by (cases m) (auto simp: or_none_def)

text \<open>A section of the facts that was current within the age limit, and not from the future.\<close>

definition current_section :: "pyobj \<Rightarrow> string \<Rightarrow> projection_limits \<Rightarrow> bool" where
  "current_section facts name lims \<longleftrightarrow> (\<exists>d ns. dict_get facts name = Some (PObj d) \<and>
    dict_get d ''current'' = Some (PBool True) \<and> dict_get d ''observed_ns'' = Some (PInt ns) \<and>
    ns \<le> pl_now_ns lims \<and> pl_now_ns lims - ns \<le> pl_max_account_age_ns lims)"

lemma py_object_Inr [simp]: "py_object v = Inr d \<longleftrightarrow> v = PObj d"
  by (cases v) (auto simp: py_object_def)

lemma fresh_iff: "fresh v now age future \<longleftrightarrow> (\<exists>ns. v = PInt ns \<and> 0 \<le> ns \<and> 0 \<le> now \<and> 0 \<le> age \<and> - future \<le> now - ns \<and> now - ns \<le> age)"
  by (cases v) (simp_all add: fresh_def)

lemma account_info_Inr: "account_info event aid ready cur = Inr info \<longleftrightarrow>
    (\<exists>e. event = Some e \<and> ready \<and> as_account_id e = aid \<and> as_margin e \<and> as_base_currency e = cur \<and> as_info e = PObj info)"
  by (cases event) (auto simp: account_info_def)

lemma intersect_Inr:
  assumes "intersect_capacity dynamic q rb rs mx = Inr (buy, sell)"
  shows "0 \<le> buy" "0 \<le> sell" "buy \<le> dec_value rb" "sell \<le> dec_value rs" "buy \<le> fst dynamic" "sell \<le> snd dynamic"
    "buy \<le> max (dsub (dec_value mx) q) 0" "sell \<le> max (dadd (dec_value mx) q) 0"
  using assms by (auto simp: intersect_capacity_def dec_value_def split: if_splits dec.splits)

text \<open>C39: a source account is only projected from evidence. The projection never raises; an account it returns
  belongs to the route, comes from a margin event of the qualified client whose wallet and position
  sections are both current, complete and within the age limit, and its capacities are nonnegative and
  within the route's caps and the position limit.\<close>

theorem source_account_evidence:
  "case bitfinex_source_account event route iid cur lims of
     Inl e \<Rightarrow> False
   | Inr None \<Rightarrow> True
   | Inr (Some a) \<Rightarrow> pl_client_ready lims \<and>
       (\<exists>e info facts positions. event = Some e \<and> as_account_id e = sr_account_id route \<and> as_margin e \<and>
          as_base_currency e = ''USDT'' \<and> as_info e = PObj info \<and> dict_get info ''bitfinex_margin'' = Some (PObj facts) \<and>
          dict_get facts ''instrument_id'' = Some (PStr iid) \<and> current_section facts ''wallet'' lims \<and>
          current_section facts ''positions'' lims \<and> dict_get facts ''positions'' = Some (PObj positions) \<and>
          dict_get positions ''complete'' = Some (PBool True) \<and> dict_get positions ''position'' \<noteq> None) \<and>
       sa_account_id a = sr_account_id route \<and> 0 \<le> sa_max_long_ounces a \<and> 0 \<le> sa_max_short_ounces a \<and>
       sa_max_long_ounces a \<le> dec_value (sr_max_long_ounces route) \<and>
       sa_max_short_ounces a \<le> dec_value (sr_max_short_ounces route) \<and>
       sa_max_long_ounces a \<le> max (dsub (dec_value (pl_max_abs_ounces lims)) (sa_position_ounces a)) 0 \<and>
       sa_max_short_ounces a \<le> max (dadd (dec_value (pl_max_abs_ounces lims)) (sa_position_ounces a)) 0"
proof -
  obtain r where r: "bitfinex_source_account event route iid cur lims = Inr r"
    "\<And>a. r = Some a \<Longrightarrow> bitfinex_sample event route iid cur lims = Inr (Some a)"
    using or_none_total [OF sample_raises(1)] unfolding bitfinex_source_account_def by blast
  show ?thesis
  proof (cases r)
    case None
    with r(1) show ?thesis by simp
  next
    case (Some a)
    note s = r(2) [OF Some]
    obtain info facts currency wallet positions wns pns available position quantity price pnl coll base dynamic buy sell where
      i: "account_info event (sr_account_id route) (pl_client_ready lims) ''USDT'' = Inr info"
        "dict_get info ''bitfinex_margin'' = Some (PObj facts)" "dict_get facts ''instrument_id'' = Some (PStr iid)"
      and w: "dict_get facts ''wallet'' = Some (PObj wallet)" "dict_get wallet ''current'' = Some (PBool True)"
        "dict_get wallet ''observed_ns'' = Some wns" "fresh wns (pl_now_ns lims) (pl_max_account_age_ns lims) 0"
      and p: "dict_get facts ''positions'' = Some (PObj positions)" "dict_get positions ''current'' = Some (PBool True)"
        "dict_get positions ''complete'' = Some (PBool True)"
        "dict_get positions ''observed_ns'' = Some pns" "fresh pns (pl_now_ns lims) (pl_max_account_age_ns lims) 0"
        "dict_get positions ''position'' = Some position"
      and c: "intersect_capacity dynamic quantity (sr_max_long_ounces route) (sr_max_short_ounces route)
          (pl_max_abs_ounces lims) = Inr (buy, sell)"
      and a: "sa_account_id a = sr_account_id route" "sa_position_ounces a = quantity" "sa_max_long_ounces a = buy"
        "sa_max_short_ounces a = sell"
      using s unfolding bitfinex_sample_def
      by (auto simp: bindE_Inr_iff split: if_splits option.splits)
    have "current_section facts ''wallet'' lims" "current_section facts ''positions'' lims"
      using w p by (auto simp: current_section_def fresh_iff)
    with r(1) Some i w p intersect_Inr [OF c] a show ?thesis
      by (auto simp: account_info_Inr)
  qed
qed

end
