(* ===== verification/Shared_Admission.thy ===== *)
theory Shared_Admission
  imports Maker_Safety Maker_Economics Margin
begin

text \<open>
  \<^verbatim>\<open>shared_admission.py\<close>: whether a view of the shared owner may start one more source order, when
  every working order, and the new one, may still fill in full.

  The venue is a parameter: the quote ticks, the native orders of the instrument, the account
  reader and the position check are what the code asks for, as far as it reads their answers. An
  attached callable is a \<open>Some\<close>. Besides the owner and the answer, the model returns whether
  \<^verbatim>\<open>on_position_mismatch\<close> was called.
\<close>

record native_order =
  no_client_order_id :: string
  no_strategy_id :: string
  no_side :: "business_side option"
  no_quantity :: rat
  no_filled_qty :: rat
  no_leaves_qty :: rat
  no_account_id :: "string option"
  no_is_closed :: bool

record venue_facts =
  vf_source_tick :: "(book_top \<times> int) option"
  vf_hedge_tick :: "(book_top \<times> int) option"
  vf_orders :: "native_order list"
  vf_reader :: "(book_top \<Rightarrow> int \<Rightarrow> book_top \<Rightarrow> int \<Rightarrow> bool \<Rightarrow>
    (source_account \<times> hedge_account \<times> int \<times> bool) option) option"
  vf_positions_ready :: "bool option"
  vf_on_mismatch :: bool

definition within_bounds :: "rat \<Rightarrow> rat \<Rightarrow> rat \<Rightarrow> rat \<Rightarrow> rat \<Rightarrow> bool \<Rightarrow> bool" where
  "within_bounds net buy sell maximum minimum only_long =
    (let upper = dadd net buy; lower = dsub net sell in
     if max net maximum < upper \<or> lower < min net (dneg maximum) then False
     else if \<not> only_long then True
     else list_all (\<lambda>after. 0 \<le> dmul net after \<and> \<not> (dabs after < minimum \<and> dabs after < dabs net)) [upper, lower])"

section \<open>The source orders and their native orders\<close>

definition source_records :: "owner_config \<Rightarrow> snapshot \<Rightarrow> (string \<times> view_key \<times> source_order_record) list" where
  "source_records cfg sn = dict_of [(so_client_order_id r, (k, r)).
     k \<leftarrow> view_keys cfg, r \<leftarrow> dict_values (ss_source_orders (sn_states sn k))]"

definition native_orders :: "venue_facts \<Rightarrow> (string \<times> native_order) list" where
  "native_orders vf = dict_of (map (\<lambda>n. (no_client_order_id n, n)) (vf_orders vf))"

text \<open>\<^verbatim>\<open>order.strategy_id.value != owner.strategy_id_for(target)\<close> and the other facts.\<close>

definition facts_differ :: "owner_config \<Rightarrow> source_account \<Rightarrow> view_key \<Rightarrow> source_order_record \<Rightarrow> native_order \<Rightarrow> bool" where
  "facts_differ cfg source k record n \<longleftrightarrow>
    strategy_id_for cfg k \<noteq> Inr (Some (no_strategy_id n))
    \<or> no_side n \<noteq> Some (so_side record)
    \<or> no_quantity n \<noteq> so_quantity_ounces record
    \<or> no_filled_qty n \<noteq> so_filled_ounces record
    \<or> no_account_id n \<notin> {None, Some (sa_account_id source)}"

text \<open>The loop over the records: \<open>None\<close> where the facts differ, else the buy and sell leaves.\<close>

fun add_leaves ::
  "owner_config \<Rightarrow> source_account \<Rightarrow> (string \<times> native_order) list \<Rightarrow> (string \<times> view_key \<times> source_order_record) list \<Rightarrow>
    rat \<times> rat \<Rightarrow> (rat \<times> rat) option"
where
  "add_leaves cfg source native [] working = Some working"
| "add_leaves cfg source native ((cid, k, record) # rest) (buy, sell) =
    (case dict_get native cid of
       None \<Rightarrow> None
     | Some n \<Rightarrow>
         if facts_differ cfg source k record n then None
         else add_leaves cfg source native rest
           (if no_is_closed n then (buy, sell)
            else if so_side record = BUY then (dadd buy (no_leaves_qty n), sell)
            else (buy, dadd sell (no_leaves_qty n))))"

section \<open>The decision\<close>

definition owner_ready :: "view_key \<Rightarrow> dec \<Rightarrow> venue_facts \<Rightarrow> owner \<Rightarrow> bool" where
  "owner_ready k quantity vf w \<longleftrightarrow>
    k \<in> set (view_keys (ow_config w)) \<and> (case quantity of Fin q \<Rightarrow> 0 < q | NonFinite \<Rightarrow> False)
    \<and> vf_reader vf \<noteq> None \<and> can_submit_source (maker_view k) w \<and> \<not> ow_freeze_publication_failed w
    \<and> list_all (\<lambda>j. ss_halt_reason (view_of j w) = None \<and> ss_source_freeze_reason (view_of j w) = None)
        (view_keys (ow_config w))
    \<and> first_unfinished_hedge (ow_config w) (owner_snapshot w) = None
    \<and> source_balance_is_admissible (ow_config w) (owner_snapshot w)"

definition read_accounts :: "venue_facts \<Rightarrow> (source_account \<times> hedge_account) option" where
  "read_accounts vf = (case (vf_reader vf, vf_source_tick vf, vf_hedge_tick vf) of
     (Some reader, Some (source_book, source_ts), Some (hedge_book, hedge_ts)) \<Rightarrow>
       (case reader source_book source_ts hedge_book hedge_ts True of
          Some (source, hedge, _, qualified) \<Rightarrow> if qualified then Some (source, hedge) else None
        | None \<Rightarrow> None)
   | _ \<Rightarrow> None)"

text \<open>The last part, on the summed leaves: capacities, position limits and the carry budget.\<close>

definition leaves_allowed :: "maker_strategy_config \<Rightarrow> rat \<Rightarrow> source_account \<Rightarrow> hedge_account \<Rightarrow> rat \<times> rat \<Rightarrow> exn + bool" where
  "leaves_allowed config carry source hedge = (\<lambda>(buy, sell).
     let risk = me_risk (mc_economics config) in
     if sa_max_long_ounces source < buy \<or> sa_max_short_ounces source < sell
       \<or> \<not> within_bounds (sa_position_ounces source) buy sell (rc_source_max_abs risk) (rc_source_min_keep_abs risk)
           (rc_only_long risk)
     then Inr False
     else bindE (maker_carry_bounds (Fin carry) (Fin buy) (Fin sell)) (\<lambda>(exposure, hedge_buy, hedge_sell).
       Inr ((case mc_max_unhedged_ounces config of None \<Rightarrow> True | Some m \<Rightarrow> exposure \<le> dec_value m)
         \<and> hedge_buy \<le> ha_max_long_ounces hedge \<and> hedge_sell \<le> ha_max_short_ounces hedge
         \<and> within_bounds (ha_position_ounces hedge) hedge_buy hedge_sell (rc_hedge_max_abs risk)
             (rc_hedge_min_keep_abs risk) (rc_only_long risk))))"

definition admit_source ::
  "maker_strategy_config \<Rightarrow> venue_facts \<Rightarrow> view_key \<Rightarrow> business_side \<Rightarrow> dec \<Rightarrow> (owner, bool \<times> bool) tx"
where
  "admit_source config vf k side quantity = (\<lambda>w.
     if \<not> owner_ready k quantity vf w then (w, Inr (False, False))
     else case read_accounts vf of
       None \<Rightarrow> (w, Inr (False, False))
     | Some (source, hedge) \<Rightarrow>
         if vf_positions_ready vf = Some False then
           bind_tx (freeze_sources ''shared current venue/native positions differ'')
             (\<lambda>_. ret_tx (False, vf_on_mismatch vf)) w
         else
         let records = source_records (ow_config w) (owner_snapshot w); native = native_orders vf in
         if dict_keys records \<noteq> dict_keys native then
           bind_tx (freeze_sources ''shared source/native ownership differs'') (\<lambda>_. ret_tx (False, False)) w
         else
         case add_leaves (ow_config w) source native records
             (if side = BUY then (dec_value quantity, 0) else (0, dec_value quantity)) of
           None \<Rightarrow> bind_tx (freeze_sources ''shared source/native facts differ'') (\<lambda>_. ret_tx (False, False)) w
         | Some working \<Rightarrow>
             bind_tx (lift_tx (leaves_allowed config (carry_residual_ounces (ow_config w) (owner_snapshot w)) source hedge working))
               (\<lambda>allowed. ret_tx (allowed, False)) w)"

section \<open>An admitted order is safe however the working orders fill\<close>

text \<open>The position bounds hold for every position between the extremes.\<close>

definition position_kept :: "rat \<Rightarrow> rat \<Rightarrow> rat \<Rightarrow> bool \<Rightarrow> rat \<Rightarrow> bool" where
  "position_kept net maximum minimum only_long after \<longleftrightarrow>
    min net (- maximum) \<le> after \<and> after \<le> max net maximum \<and>
    (only_long \<longrightarrow> 0 \<le> net * after \<and> (minimum \<le> \<bar>after\<bar> \<or> \<bar>net\<bar> \<le> \<bar>after\<bar>))"

lemma within_bounds_exact:
  assumes "within_bounds net buy sell maximum minimum only_long"
    and g: "on_grid net" "on_grid buy" "on_grid sell" "on_grid maximum"
    and b: "\<bar>net\<bar> < 10 ^ 9" "0 \<le> buy" "buy < 10 ^ 9" "0 \<le> sell" "sell < 10 ^ 9" "\<bar>maximum\<bar> < 10 ^ 9"
    and a: "net - sell \<le> after" "after \<le> net + buy"
  shows "position_kept net maximum minimum only_long after"
proof -
  have l: "\<bar>net + buy\<bar> < 10 ^ 10" "\<bar>net - sell\<bar> < 10 ^ 10" using b by (simp_all add: abs_less_iff)
  have e: "dadd net buy = net + buy" "dsub net sell = net - sell" "dneg maximum = - maximum"
    "dabs (net + buy) = \<bar>net + buy\<bar>" "dabs (net - sell) = \<bar>net - sell\<bar>" "dabs net = \<bar>net\<bar>"
    using g l b by (auto intro!: dadd_exact dsub_exact dneg_exact dabs_exact)
  have o: "net + buy \<le> max net maximum" "min net (- maximum) \<le> net - sell"
    using assms(1) by (auto simp: within_bounds_def Let_def e not_less split: if_splits)
  have k: "0 \<le> net * (net + buy) \<and> \<not> (\<bar>net + buy\<bar> < minimum \<and> \<bar>net + buy\<bar> < \<bar>net\<bar>)"
    "0 \<le> net * (net - sell) \<and> \<not> (\<bar>net - sell\<bar> < minimum \<and> \<bar>net - sell\<bar> < \<bar>net\<bar>)" if "only_long"
    using assms(1) that by (auto simp: within_bounds_def Let_def e dmul_def split: if_splits)
  have "0 \<le> net * after \<and> (minimum \<le> \<bar>after\<bar> \<or> \<bar>net\<bar> \<le> \<bar>after\<bar>)" if "only_long"
  proof (cases "0 \<le> net")
    case True
    then show ?thesis using k [OF that] a b by (cases "net = 0") (auto simp: zero_le_mult_iff not_less)
  next
    case False
    then show ?thesis using k [OF that] a b by (auto simp: zero_le_mult_iff not_less)
  qed
  with o a show ?thesis by (simp add: position_kept_def)
qed

text \<open>The exact sums of the loop.\<close>

definition open_leaves :: "business_side \<Rightarrow> (string \<times> native_order) list \<Rightarrow> (string \<times> view_key \<times> source_order_record) list \<Rightarrow> rat" where
  "open_leaves side native records = sum_list (map (\<lambda>(cid, k, record). case dict_get native cid of
     Some n \<Rightarrow> if so_side record = side \<and> \<not> no_is_closed n then no_leaves_qty n else 0 | None \<Rightarrow> 0) records)"

definition leaves_exact :: "(string \<times> native_order) list \<Rightarrow> bool" where
  "leaves_exact native \<longleftrightarrow> (\<forall>(cid, n) \<in> set native. on_grid (no_leaves_qty n) \<and> 0 \<le> no_leaves_qty n)"

lemma open_leaves_Cons [simp]:
  "open_leaves side native [] = 0"
  "open_leaves side native ((cid, k, record) # rest) = (case dict_get native cid of
     Some n \<Rightarrow> if so_side record = side \<and> \<not> no_is_closed n then no_leaves_qty n else 0 | None \<Rightarrow> 0) + open_leaves side native rest"
  by (simp_all add: open_leaves_def)

lemma open_leaves_grid:
  assumes "leaves_exact native"
  shows "on_grid (open_leaves side native records) \<and> 0 \<le> open_leaves side native records"
proof (induction records)
  case (Cons r records)
  obtain cid k so where "r = (cid, k, so)" by (cases r)
  with Cons assms show ?case
    by (cases "dict_get native cid") (auto simp: leaves_exact_def dest!: map_of_SomeD)
qed simp

lemma add_leaves_exact:
  assumes "add_leaves cfg source native records (b, s) = Some (buy, sell)" "leaves_exact native"
    "on_grid b" "on_grid s" "0 \<le> b" "0 \<le> s"
    "b + open_leaves BUY native records < 10 ^ 9" "s + open_leaves SELL native records < 10 ^ 9"
  shows "buy = b + open_leaves BUY native records \<and> sell = s + open_leaves SELL native records"
  using assms
proof (induction records arbitrary: b s)
  case (Cons r records)
  obtain cid k so where r: "r = (cid, k, so)" by (cases r)
  obtain n where n: "dict_get native cid = Some n" using Cons.prems(1) by (cases "dict_get native cid") (auto simp: r)
  have l: "on_grid (no_leaves_qty n)" "0 \<le> no_leaves_qty n"
    using Cons.prems(2) n by (auto simp: leaves_exact_def dest!: map_of_SomeD)
  have o: "0 \<le> open_leaves side native records" for side using open_leaves_grid [OF Cons.prems(2)] by blast
  consider (closed) "no_is_closed n" | (buy) "\<not> no_is_closed n" "so_side so = BUY"
    | (sell) "\<not> no_is_closed n" "so_side so = SELL" by (cases "so_side so") auto
  then show ?case
  proof cases
    case closed
    with Cons.IH [of b s] Cons.prems r n show ?thesis by (auto split: if_splits)
  next
    case buy
    have e: "dadd b (no_leaves_qty n) = b + no_leaves_qty n"
      using Cons.prems(3,5,7) l o [of BUY] buy r n by (intro dadd_exact) (auto simp: abs_less_iff)
    with Cons.IH [of "b + no_leaves_qty n" s] Cons.prems buy r n l show ?thesis by (auto split: if_splits)
  next
    case sell
    have e: "dadd s (no_leaves_qty n) = s + no_leaves_qty n"
      using Cons.prems(4,6,8) l o [of SELL] sell r n by (intro dadd_exact) (auto simp: abs_less_iff)
    with Cons.IH [of b "s + no_leaves_qty n"] Cons.prems sell r n l show ?thesis by (auto split: if_splits)
  qed
qed simp

definition new_leaves :: "business_side \<Rightarrow> business_side \<Rightarrow> rat \<Rightarrow> rat" where
  "new_leaves side new_side q = (if side = new_side then q else 0)"

definition total_leaves :: "business_side \<Rightarrow> venue_facts \<Rightarrow> owner \<Rightarrow> business_side \<Rightarrow> rat \<Rightarrow> rat" where
  "total_leaves side vf w new_side q = new_leaves side new_side q +
    open_leaves side (native_orders vf) (source_records (ow_config w) (owner_snapshot w))"

text \<open>Quantities on the ounce grid and within the bounds of exact arithmetic.\<close>

definition exact_market :: "maker_strategy_config \<Rightarrow> venue_facts \<Rightarrow> owner \<Rightarrow> source_account \<Rightarrow> hedge_account \<Rightarrow> business_side \<Rightarrow> rat \<Rightarrow> bool" where
  "exact_market config vf w source hedge side q \<longleftrightarrow>
    (let risk = me_risk (mc_economics config) in
     on_grid q \<and> leaves_exact (native_orders vf)
     \<and> total_leaves BUY vf w side q < 10 ^ 6 \<and> total_leaves SELL vf w side q < 10 ^ 6
     \<and> on_grid (sa_position_ounces source) \<and> \<bar>sa_position_ounces source\<bar> < 10 ^ 9
     \<and> on_grid (ha_position_ounces hedge) \<and> \<bar>ha_position_ounces hedge\<bar> < 10 ^ 9
     \<and> on_grid (rc_source_max_abs risk) \<and> \<bar>rc_source_max_abs risk\<bar> < 10 ^ 9
     \<and> on_grid (rc_hedge_max_abs risk) \<and> \<bar>rc_hedge_max_abs risk\<bar> < 10 ^ 9
     \<and> on_grid (carry_residual_ounces (ow_config w) (owner_snapshot w)))"

lemma admit_source_True:
  assumes "admit_source config vf k side quantity w = (w', Inr (True, m))"
  obtains q source hedge buy sell where "quantity = Fin q" "0 < q" "w' = w" "owner_ready k quantity vf w"
    "read_accounts vf = Some (source, hedge)" "vf_positions_ready vf \<noteq> Some False"
    "dict_keys (source_records (ow_config w) (owner_snapshot w)) = dict_keys (native_orders vf)"
    "add_leaves (ow_config w) source (native_orders vf) (source_records (ow_config w) (owner_snapshot w))
      (new_leaves BUY side q, new_leaves SELL side q) = Some (buy, sell)"
    "leaves_allowed config (carry_residual_ounces (ow_config w) (owner_snapshot w)) source hedge (buy, sell) = Inr True"
proof -
  have r: "owner_ready k quantity vf w" using assms by (auto simp: admit_source_def split: if_splits)
  then obtain q where q: "quantity = Fin q" "0 < q" by (cases quantity) (auto simp: owner_ready_def)
  from assms r obtain source hedge where a: "read_accounts vf = Some (source, hedge)"
    by (cases "read_accounts vf") (auto simp: admit_source_def)
  have n: "(if side = BUY then (dec_value quantity, 0) else (0, dec_value quantity)) = (new_leaves BUY side q, new_leaves SELL side q)"
    using q by (cases side) (simp_all add: new_leaves_def)
  from assms r a show thesis
    unfolding admit_source_def n
    by (auto simp: Let_def bind_tx_Inr_iff lift_tx_def split: if_splits option.splits intro: that [OF q, of source hedge])
qed

lemma hedge_bound_range:
  fixes r x :: rat
  assumes "\<bar>r\<bar> \<le> 1/2" "0 \<le> x" "x < 4000000"
  shows "on_grid (max 0 (of_int \<lfloor>- r + x + 1/2\<rfloor>))" "max 0 (of_int \<lfloor>- r + x + 1/2\<rfloor>) < (10 ^ 9 :: rat)"
proof -
  show "on_grid (max 0 (of_int \<lfloor>- r + x + 1/2\<rfloor>))" by (simp add: max_def)
  have "of_int \<lfloor>- r + x + 1/2\<rfloor> \<le> - r + x + 1/2" by (rule of_int_floor_le)
  also have "\<dots> < 10 ^ 9" using assms by (simp add: abs_le_iff)
  finally show "max 0 (of_int \<lfloor>- r + x + 1/2\<rfloor>) < (10 ^ 9 :: rat)" by simp
qed

text \<open>C24: an admitted source order is safe however the venue fills. If the shared admission says yes, nothing
  was changed, no view is stopped or paused, no hedge is open, every known source order is a native order
  with the same facts, and then for every way the working orders and the new one can be split into fills and
  interleaved, of which any prefix has been hedged: the source and the hedge position stay within their limits
  (and, where only reductions are wanted, keep their sign and their minimum), and the unhedged balance stays
  within the carry budget.\<close>

theorem admitted_order_is_safe:
  assumes adm: "admit_source config vf k side (Fin q) w = (w', Inr (True, m))"
    and acc: "read_accounts vf = Some (source, hedge)" and ex: "exact_market config vf w source hedge side q"
    and fills: "fills_within (total_leaves BUY vf w side q) (total_leaves SELL vf w side q) (hedged @ unhedged)"
  shows "w' = w \<and> owner_ready k (Fin q) vf w \<and>
    dict_keys (source_records (ow_config w) (owner_snapshot w)) = dict_keys (native_orders vf) \<and>
    (let risk = me_risk (mc_economics config) in
     position_kept (sa_position_ounces source) (rc_source_max_abs risk) (rc_source_min_keep_abs risk) (rc_only_long risk)
       (sa_position_ounces source + sum_list (hedged @ unhedged)) \<and>
     (case allocate_run (carry_residual_ounces (ow_config w) (owner_snapshot w)) hedged of (balance, net) \<Rightarrow>
        position_kept (ha_position_ounces hedge) (rc_hedge_max_abs risk) (rc_hedge_min_keep_abs risk) (rc_only_long risk)
          (ha_position_ounces hedge - of_int net) \<and>
        (case mc_max_unhedged_ounces config of None \<Rightarrow> True
         | Some limit \<Rightarrow> \<bar>balance + sum_list unhedged\<bar> \<le> dec_value limit)))"
proof -
  let ?risk = "me_risk (mc_economics config)" and ?n = "native_orders vf" and ?r = "source_records (ow_config w) (owner_snapshot w)"
  let ?c = "carry_residual_ounces (ow_config w) (owner_snapshot w)"
  obtain buy sell where w: "w' = w" "owner_ready k (Fin q) vf w" "dict_keys ?r = dict_keys ?n" "0 < q"
    and l: "add_leaves (ow_config w) source ?n ?r (new_leaves BUY side q, new_leaves SELL side q) = Some (buy, sell)"
    and al: "leaves_allowed config ?c source hedge (buy, sell) = Inr True"
    using admit_source_True [OF adm] acc by (metis dec.inject option.inject prod.inject)
  have lex: "leaves_exact ?n" and gq: "on_grid q" and tot: "total_leaves BUY vf w side q < 10 ^ 6" "total_leaves SELL vf w side q < 10 ^ 6"
    using ex by (simp_all add: exact_market_def Let_def)
  have bs: "buy = total_leaves BUY vf w side q" "sell = total_leaves SELL vf w side q"
    using add_leaves_exact [OF l lex] tot gq w(4) by (auto simp: total_leaves_def new_leaves_def)
  have g: "on_grid buy" "on_grid sell" "0 \<le> buy" "0 \<le> sell"
    using open_leaves_grid [OF lex] gq w(4) unfolding bs total_leaves_def new_leaves_def by auto
  obtain exposure hb hs where cb: "maker_carry_bounds (Fin ?c) (Fin buy) (Fin sell) = Inr (exposure, hb, hs)"
    and ok: "within_bounds (sa_position_ounces source) buy sell (rc_source_max_abs ?risk) (rc_source_min_keep_abs ?risk) (rc_only_long ?risk)"
      "within_bounds (ha_position_ounces hedge) hb hs (rc_hedge_max_abs ?risk) (rc_hedge_min_keep_abs ?risk) (rc_only_long ?risk)"
      "case mc_max_unhedged_ounces config of None \<Rightarrow> True | Some limit \<Rightarrow> exposure \<le> dec_value limit"
    using al by (auto simp: leaves_allowed_def Let_def bindE_Inr_iff split: if_splits)
  have small: "buy < 4000000" "sell < 4000000" using tot bs by simp_all
  have gc: "on_grid ?c" using ex by (simp add: exact_market_def Let_def)
  note cbe = maker_carry_bounds_exact [OF cb gc g(1,2) small]
  have hbs: "on_grid hb" "on_grid hs" "0 \<le> hb" "0 \<le> hs" "hb < 10 ^ 9" "hs < 10 ^ 9"
    using cbe hedge_bound_range [of ?c sell] hedge_bound_range [of "- ?c" buy] small by auto
  obtain balance net where run: "allocate_run ?c hedged = (balance, net)" by fastforce
  have cover: "- hb \<le> of_int net" "of_int net \<le> hs" "\<bar>balance + sum_list unhedged\<bar> \<le> exposure"
    using carry_bounds_cover [OF cb gc g(1,2) small fills [folded bs]] run by simp_all
  have sums: "- sell \<le> sum_list (hedged @ unhedged)" "sum_list (hedged @ unhedged) \<le> buy"
    using fills_within_bounds [of buy sell hedged unhedged] fills bs by auto
  have "position_kept (sa_position_ounces source) (rc_source_max_abs ?risk) (rc_source_min_keep_abs ?risk) (rc_only_long ?risk)
       (sa_position_ounces source + sum_list (hedged @ unhedged))"
    using ex g small sums by (intro within_bounds_exact [OF ok(1)]) (auto simp: exact_market_def Let_def)
  moreover have "position_kept (ha_position_ounces hedge) (rc_hedge_max_abs ?risk) (rc_hedge_min_keep_abs ?risk) (rc_only_long ?risk)
       (ha_position_ounces hedge - of_int net)"
    using ex hbs cover by (intro within_bounds_exact [OF ok(2)]) (auto simp: exact_market_def Let_def)
  ultimately show ?thesis
    using w(1-3) run ok(3) cover(3) by (auto simp: Let_def split: option.splits)
qed

text \<open>The ask view has a working order of two ounces; the bid view asks for one ounce.\<close>

definition ex_ask_order :: source_order_record where
  "ex_ask_order = ex_order\<lparr>so_client_order_id := ''o2'', so_side := SELL, so_quantity_ounces := 2, so_filled_ounces := 0\<rparr>"

definition ex_working :: owner where
  "ex_working = ex_owner\<lparr>ow_views := (\<lambda>k. \<lparr>vw_state = (if k = Ask then empty_state\<lparr>ss_source_orders := [(''o2'', ex_ask_order)],
     ss_active_source_order_id := Some ''o2''\<rparr> else empty_state), vw_log = []\<rparr>), ow_allocations := []\<rparr>"

definition ex_source :: source_account where
  "ex_source = \<lparr>sa_account_id = ''a'', sa_client_id = None, sa_position_ounces = 3, sa_max_long_ounces = 5,
     sa_max_short_ounces = 5, sa_base_margin_level = 15\<rparr>"

definition ex_hedge_account :: hedge_account where
  "ex_hedge_account = \<lparr>ha_position_ounces = - 3, ha_max_long_ounces = 5, ha_max_short_ounces = 5\<rparr>"

definition ex_venue :: venue_facts where
  "ex_venue = (let book = \<lparr>bt_bid = 2000, bt_ask = 2001, bt_bid_size = 1, bt_ask_size = 1\<rparr> in
     \<lparr>vf_source_tick = Some (book, 0), vf_hedge_tick = Some (book, 0),
      vf_orders = [\<lparr>no_client_order_id = ''o2'', no_strategy_id = ''m'', no_side = Some SELL, no_quantity = 2, no_filled_qty = 0,
        no_leaves_qty = 2, no_account_id = None, no_is_closed = False\<rparr>],
      vf_reader = Some (\<lambda>_ _ _ _ _. Some (ex_source, ex_hedge_account, 0, True)),
      vf_positions_ready = Some True, vf_on_mismatch = True\<rparr>)"

definition ex_strategy :: maker_strategy_config where
  "ex_strategy = \<lparr>mc_source_accounts = [], mc_hedge_accounts = [], mc_economics = ex_maker\<lparr>me_risk :=
     \<lparr>rc_source_max_abs = 10, rc_hedge_max_abs = 10, rc_source_min_keep_abs = 0, rc_hedge_min_keep_abs = 0, rc_only_long = False\<rparr>\<rparr>,
     mc_residual_mode = ''strict'', mc_residual_limit_ounces = Fin 0, mc_max_unhedged_ounces = None, mc_keep_last_accounts = False,
     mc_cross_clamp_ticks = 1\<rparr>"

lemmas ex_admission_defs = ex_working_def ex_owner_def ex_cfg_def ex_source_def ex_hedge_account_def ex_venue_def ex_strategy_def
  ex_ask_order_def ex_order_def empty_state_def

lemma ex_working_records: "source_records (ow_config ex_working) (owner_snapshot ex_working) = [(''o2'', Ask, ex_ask_order)]"
  "native_orders ex_venue = [(''o2'', hd (vf_orders ex_venue))]" "carry_residual_ounces (ow_config ex_working) (owner_snapshot ex_working) = 0"
  by (simp_all add: source_records_def view_keys_def owner_snapshot_def dict_of_def ex_admission_defs native_orders_def
      carry_residual_ounces_def Let_def)

lemma ex_working_ready: "owner_ready Bid (Fin 1) ex_venue ex_working"
  by (simp add: owner_ready_def can_submit_source_def maker_view_def view_admissible_def view_keys_def ex_admission_defs
      all_completed_def state_intents_def first_unfinished_hedge_def dict_of_def source_balance_is_admissible_def residuals_def
      route_balances_def checkpoint_balances_def owner_snapshot_def rounding_residual_def outstanding_ounces_def Let_def)

lemma ex_admitted: "admit_source ex_strategy ex_venue Bid BUY (Fin 1) ex_working = (ex_working, Inr (True, False))"
proof -
  have b: "maker_carry_bounds (Fin 0) (Fin 1) (Fin 2) = Inr (5/2, 2, 1)"
    by (simp add: maker_carry_bounds_def Let_def dadd_def dneg_def dabs_def rnd28_exact
        on_gridI [of "5/2" 2500000000] on_gridI [of "3/2" 1500000000])
  have l: "leaves_allowed ex_strategy 0 ex_source ex_hedge_account (1, 2) = Inr True"
    by (simp add: leaves_allowed_def b Let_def) (simp add: ex_admission_defs within_bounds_def Let_def dadd_exact dsub_exact dneg_exact)
  have r: "read_accounts ex_venue = Some (ex_source, ex_hedge_account)"
    by (simp add: read_accounts_def ex_venue_def Let_def)
  have p: "vf_positions_ready ex_venue = Some True" by (simp add: ex_venue_def Let_def)
  have a: "add_leaves (ow_config ex_working) ex_source (native_orders ex_venue) [(''o2'', Ask, ex_ask_order)] (1, 0) = Some (1, 2)"
    unfolding ex_working_records
    by (simp add: facts_differ_def strategy_id_for_def view_keys_def ex_admission_defs Let_def dadd_exact)
  show ?thesis
    using a by (simp add: admit_source_def ex_working_ready r p l Let_def ex_working_records)
qed

theorem admitted_order_is_safe_witness:
  "case allocate_run 0 [- 2] of (balance, net) \<Rightarrow>
     position_kept (- 3) 10 0 False (- 3 - of_int net) \<and> position_kept 3 10 0 False (3 + sum_list [- 2, 1])"
proof -
  have g: "new_leaves BUY BUY 1 = 1" "new_leaves SELL BUY 1 = 0" by (simp_all add: new_leaves_def)
  have t: "total_leaves BUY ex_venue ex_working BUY 1 = 1" "total_leaves SELL ex_venue ex_working BUY 1 = 2"
    unfolding total_leaves_def ex_working_records g by (simp_all add: ex_admission_defs Let_def)
  have r: "read_accounts ex_venue = Some (ex_source, ex_hedge_account)"
    by (simp add: read_accounts_def ex_venue_def Let_def)
  have e: "exact_market ex_strategy ex_venue ex_working ex_source ex_hedge_account BUY 1"
    unfolding exact_market_def Let_def t ex_working_records leaves_exact_def
    by (simp add: ex_admission_defs Let_def)
  have f: "fills_within (total_leaves BUY ex_venue ex_working BUY 1) (total_leaves SELL ex_venue ex_working BUY 1) ([- 2] @ [1])"
    unfolding t by (simp add: fills_within_def)
  from admitted_order_is_safe [OF ex_admitted r e f]
  show ?thesis unfolding ex_working_records Let_def
    by (simp add: ex_strategy_def ex_source_def ex_hedge_account_def split: prod.splits)
qed

end
