(* ===== verification/Native_Orders.thy ===== *)
theory Native_Orders
  imports State_Store
begin

text \<open>
  The native Nautilus orders the projections read: an order is the facts and the event history the
  program compares with its own records. Quantities of native orders and fills are finite. A side
  that is neither buy nor sell is \<open>None\<close>, as is an identifier that is not yet known.
\<close>

record event_head =
  eh_trader_id :: string
  eh_strategy_id :: string
  eh_instrument_id :: string
  eh_client_order_id :: string

record initial_facts =
  in_quantity :: rat
  in_side :: "business_side option"
  in_order_type :: string
  in_time_in_force :: string
  in_quote_quantity :: bool
  in_reduce_only :: bool

record native_fill =
  nf_head :: event_head
  nf_account_id :: string
  nf_venue_order_id :: string
  nf_trade_id :: string
  nf_side :: "business_side option"
  nf_order_type :: string
  nf_last_qty :: rat
  nf_position_id :: "string option"

datatype native_event =
    EvInitialized event_head initial_facts
  | EvFilled native_fill
  | EvOther event_head "string option"

abbreviation nf_client_order_id :: "native_fill \<Rightarrow> string" where
  "nf_client_order_id f \<equiv> eh_client_order_id (nf_head f)"

fun event_head_of :: "native_event \<Rightarrow> event_head" where
  "event_head_of (EvInitialized h _) = h"
| "event_head_of (EvFilled f) = nf_head f"
| "event_head_of (EvOther h _) = h"

text \<open>\<^verbatim>\<open>getattr(event, "account_id", None)\<close>.\<close>

fun event_account :: "native_event \<Rightarrow> string option" where
  "event_account (EvInitialized _ _) = None"
| "event_account (EvFilled f) = Some (nf_account_id f)"
| "event_account (EvOther _ a) = a"

record order_facts =
  po_trader_id :: string
  po_strategy_id :: string
  po_instrument_id :: string
  po_client_order_id :: string
  po_side :: "business_side option"
  po_order_type :: string
  po_time_in_force :: string
  po_is_quote_quantity :: bool
  po_is_reduce_only :: bool
  po_quantity :: rat
  po_filled_qty :: rat
  po_account_id :: "string option"
  po_venue_order_id :: "string option"
  po_position_id :: "string option"
  po_status :: string
  po_trade_ids :: "string list"
  po_events :: "native_event list"

text \<open>\<^verbatim>\<open>[event for event in order.events if isinstance(event, OrderFilled)]\<close>.\<close>

definition order_fills :: "order_facts \<Rightarrow> native_fill list" where
  "order_fills order = concat (map (\<lambda>e. case e of EvFilled f \<Rightarrow> [f] | _ \<Rightarrow> []) (po_events order))"

definition first_event :: "order_facts \<Rightarrow> initial_facts option" where
  "first_event order = (case po_events order of EvInitialized _ i # _ \<Rightarrow> Some i | _ \<Rightarrow> None)"

text \<open>The events of another trader, strategy, instrument or order.\<close>

definition foreign_event :: "order_facts \<Rightarrow> string \<Rightarrow> string \<Rightarrow> string \<Rightarrow> native_event \<Rightarrow> bool" where
  "foreign_event order instrument trader strategy e \<longleftrightarrow> (let h = event_head_of e in
     eh_trader_id h \<noteq> trader \<or> eh_strategy_id h \<noteq> strategy \<or> eh_instrument_id h \<noteq> instrument
     \<or> eh_client_order_id h \<noteq> po_client_order_id order)"

definition fill_total :: "native_fill list \<Rightarrow> rat" where
  "fill_total fills = dsum 0 (map nf_last_qty fills)"

end
