(* ===== verification/Source_Projection.thy ===== *)
theory Source_Projection
  imports Native_Orders Store_Safety Maker_Safety
begin

text \<open>
  \<^verbatim>\<open>source_projection.py\<close>: after a restart, the native fills of the known source orders are compared
  with the durable state, and at most one order's missing suffix of fills is booked, with every
  view held.

  The checks are pure functions of the states of the views; the effect runs on the standalone
  store or on the owner of the Maker views. \<open>'k\<close> names a view.
\<close>

section \<open>One order\<close>

definition source_fill_key :: "native_fill \<Rightarrow> string" where
  "source_fill_key fill = bar_join3 (nf_client_order_id fill) (nf_venue_order_id fill) (nf_trade_id fill)"

definition sign_of :: "business_side \<Rightarrow> rat" where
  "sign_of side = (if side = BUY then 1 else - 1)"

definition checked_source_fills ::
  "order_facts \<Rightarrow> source_order_record \<Rightarrow> string \<Rightarrow> string \<Rightarrow> string \<Rightarrow> exn + native_fill list"
where
  "checked_source_fills order record instrument trader strategy =
    (if (case first_event order of None \<Rightarrow> True | Some i \<Rightarrow> in_quantity i \<noteq> so_quantity_ounces record)
       \<or> po_trader_id order \<noteq> trader \<or> po_strategy_id order \<noteq> strategy
       \<or> po_instrument_id order \<noteq> instrument
       \<or> po_client_order_id order \<noteq> so_client_order_id record \<or> po_side order \<noteq> Some (so_side record)
       \<or> CHR ''|'' \<in> set (so_client_order_id record)
       \<or> po_is_quote_quantity order
       \<or> so_quantity_ounces record \<le> 0
       \<or> \<not> (0 \<le> so_filled_ounces record \<and> so_filled_ounces record \<le> so_quantity_ounces record)
       \<or> po_quantity order \<noteq> so_quantity_ounces record
       \<or> (case (so_source_account_id record, po_account_id order) of (Some a, Some b) \<Rightarrow> b \<noteq> a | _ \<Rightarrow> False)
     then Inl (ValueError (''source projection order facts differ: '' @ so_client_order_id record))
     else if list_ex (foreign_event order instrument trader strategy) (po_events order) then
       Inl (ValueError ''source projection event ownership differs'')
     else let fills = order_fills order in
     if list_ex (\<lambda>f. Some (nf_account_id f) \<noteq> po_account_id order \<or> Some (nf_venue_order_id f) \<noteq> po_venue_order_id order
         \<or> CHR ''|'' \<in> set (nf_venue_order_id f) \<or> CHR ''|'' \<in> set (nf_trade_id f)
         \<or> nf_side f \<noteq> Some (so_side record) \<or> nf_order_type f \<noteq> po_order_type order \<or> nf_last_qty f \<le> 0) fills
     then Inl (ValueError ''source projection fill identity or quantity differs'')
     else if fill_total fills \<noteq> po_filled_qty order \<or> so_quantity_ounces record < fill_total fills
       \<or> po_trade_ids order \<noteq> map nf_trade_id fills
     then Inl (ValueError ''source projection native fill history is incomplete'')
     else Inr fills)"

section \<open>All orders\<close>

record 'k projection =
  pj_views :: "('k \<times> store_state) list"
  pj_owner_id :: "'k \<Rightarrow> exn + string option"
  pj_maker :: "(owner_config \<times> snapshot) option"

definition view_identity_ok :: "store_state \<Rightarrow> bool" where
  "view_identity_ok s \<longleftrightarrow> list_all (\<lambda>(key, record). key \<noteq> [] \<and> key = so_client_order_id record) (ss_source_orders s)
    \<and> (case ss_active_source_order_id s of None \<Rightarrow> True | Some cid \<Rightarrow> dict_get (ss_source_orders s) cid \<noteq> None)"

definition projected_records :: "'k projection \<Rightarrow> (string \<times> 'k \<times> store_state \<times> source_order_record) list" where
  "projected_records pj = dict_of [(so_client_order_id r, (k, s, r)). (k, s) \<leftarrow> pj_views pj, r \<leftarrow> state_orders s]"

definition orders_by_id :: "order_facts list \<Rightarrow> (string \<times> order_facts) list" where
  "orders_by_id orders = dict_of (map (\<lambda>n. (po_client_order_id n, n)) orders)"

text \<open>What the loop over the records collects.\<close>

record 'k progress =
  pg_native_fills :: "(string \<times> native_fill) list"
  pg_trades :: "(string \<times> string) set"
  pg_suffixes :: "(string \<times> native_fill list) list"
  pg_prefixes :: "(string \<times> string list) list"

definition no_progress :: "'k progress" where
  "no_progress = \<lparr>pg_native_fills = [], pg_trades = {}, pg_suffixes = [], pg_prefixes = []\<rparr>"

definition add_native_fill :: "native_fill \<Rightarrow> 'k progress \<Rightarrow> exn + 'k progress" where
  "add_native_fill fill pg =
    (let key = source_fill_key fill; trade = (nf_account_id fill, nf_trade_id fill) in
     if dict_get (pg_native_fills pg) key \<noteq> None \<or> trade \<in> pg_trades pg then
       Inl (ValueError ''source projection native TradeId is duplicated'')
     else Inr (pg\<lparr>pg_native_fills := dict_set key fill (pg_native_fills pg), pg_trades := insert trade (pg_trades pg)\<rparr>))"

definition seen_of_order :: "string \<Rightarrow> string set \<Rightarrow> string set" where
  "seen_of_order cid seen = {key \<in> seen. hd (split_bar key) = cid}"

text \<open>The seen fills of an order are its first native fills; the others are its suffix.\<close>

definition match_prefix ::
  "string \<Rightarrow> store_state \<Rightarrow> source_order_record \<Rightarrow> native_fill list \<Rightarrow> 'k progress \<Rightarrow> exn + 'k progress"
where
  "match_prefix cid s record fills pg =
    (let seen = seen_of_order cid (ss_seen_source_fills s); count = card seen; keys = map source_fill_key fills in
     if seen \<noteq> set (take count keys) then
       Inl (ValueError ''source projection seen fills are not a complete contiguous prefix'')
     else if fill_total (take count fills) \<noteq> so_filled_ounces record then
       Inl (ValueError ''source projection seen prefix quantity differs'')
     else Inr (pg\<lparr>pg_prefixes := dict_set cid (take count keys) (pg_prefixes pg),
       pg_suffixes := (if drop count fills \<noteq> [] then dict_set cid (drop count fills) (pg_suffixes pg)
         else pg_suffixes pg)\<rparr>))"

definition project_order ::
  "'k projection \<Rightarrow> (string \<times> order_facts) list \<Rightarrow> string \<Rightarrow> string \<Rightarrow> string \<Rightarrow>
    string \<times> 'k \<times> store_state \<times> source_order_record \<Rightarrow> 'k progress \<Rightarrow> exn + 'k progress"
where
  "project_order pj by_id instrument trader strategy = (\<lambda>(cid, k, s, record) pg.
     bindE (pj_owner_id pj k) (\<lambda>owner_id.
     bindE (dict_index by_id cid) (\<lambda>order.
     bindE (checked_source_fills order record instrument trader
         (case owner_id of Some i \<Rightarrow> if i \<noteq> [] then i else strategy | None \<Rightarrow> strategy)) (\<lambda>fills.
     bindE (foldE add_native_fill fills pg) (match_prefix cid s record fills)))))"

section \<open>The recorded facts\<close>

definition check_recorded_intent ::
  "store_state \<Rightarrow> (string \<times> native_fill) list \<Rightarrow> string \<times> hedge_intent \<Rightarrow> string set \<Rightarrow> exn + string set"
where
  "check_recorded_intent s fills = (\<lambda>(intent_id, intent) claimed.
     if intent_id \<noteq> hi_intent_id intent \<or> hi_fill_key intent \<in> claimed then
       Inl (ValueError ''source projection recorded intent identity is not unique'')
     else if (case (dict_get fills (hi_fill_key intent), dict_get (ss_source_orders s) (hi_source_client_order_id intent)) of
         (Some fill, Some record) \<Rightarrow>
           hi_fill_key intent \<notin> ss_seen_source_fills s
           \<or> hi_source_client_order_id intent \<noteq> nf_client_order_id fill
           \<or> hi_source_trade_id intent \<noteq> nf_trade_id fill
           \<or> hi_source_side intent \<noteq> so_side record
           \<or> hi_source_fill_ounces intent \<noteq> nf_last_qty fill
       | _ \<Rightarrow> True)
     then Inl (ValueError ''source projection recorded intent differs from fill'')
     else Inr (insert (hi_fill_key intent) claimed))"

definition check_recorded_facts :: "store_state list \<Rightarrow> (string \<times> native_fill) list \<Rightarrow> exn + unit" where
  "check_recorded_facts views fills =
    bindE (foldE (\<lambda>s. foldE (check_recorded_intent s fills) (ss_hedge_intents s)) views {}) (\<lambda>_. Inr ())"

definition booked_residual :: "source_order_record list \<Rightarrow> hedge_intent list \<Rightarrow> rat" where
  "booked_residual records intents =
    dsub (dsum 0 (map (\<lambda>r. dmul (so_filled_ounces r) (sign_of (so_side r))) records))
      (dsum 0 (map (\<lambda>i. dmul (- sign_of (hi_hedge_side i)) (hi_hedge_quantity_ounces i)) intents))"

definition check_taker_tail :: "store_state \<Rightarrow> string \<Rightarrow> (string \<times> order_facts) list \<Rightarrow> exn + unit" where
  "check_taker_tail s candidate orders =
    (if length (state_orders s) = 1 then Inr ()
     else if ss_active_source_order_id s \<noteq> Some candidate then
       Inl (ValueError ''source projection cannot order historical Taker late fills'')
     else
     let historical = filter (\<lambda>r. so_client_order_id r \<noteq> candidate) (state_orders s);
         old_intents = filter (\<lambda>i. hi_source_client_order_id i \<noteq> candidate) (state_intents s) in
     if list_ex (\<lambda>r. (case dict_get orders (so_client_order_id r) of None \<Rightarrow> True | Some n \<Rightarrow> po_status n \<noteq> so_status r)
         \<or> \<not> (so_status r = ''FILLED'' \<and> so_filled_ounces r = so_quantity_ounces r
              \<or> so_status r \<in> {''DENIED'', ''REJECTED''} \<and> so_filled_ounces r = 0)) historical
       \<or> list_ex (\<lambda>i. hi_status i \<noteq> COMPLETED \<or> hi_hedge_filled_ounces i \<noteq> hi_hedge_quantity_ounces i) old_intents
     then Inl (ValueError ''source projection historical Taker orders or hedges are unresolved'')
     else if booked_residual historical old_intents \<noteq> 0 then
       Inl (ValueError ''source projection historical Taker residual is not zero'')
     else Inr ())"

definition check_maker_allocations ::
  "owner_config \<Rightarrow> snapshot \<Rightarrow> (string \<times> native_fill) list \<Rightarrow> (string \<times> string list) list \<Rightarrow> exn + unit"
where
  "check_maker_allocations cfg sn native prefixes =
    (let checkpoint_keys = concat (map lo_fill_keys (oc_legacy_orders cfg)) in
     if list_ex (\<lambda>(cid, prefix).
          filter (\<lambda>key. hd (split_bar key) = cid) (map al_fill_key (sn_allocations sn))
          \<noteq> filter (\<lambda>key. key \<notin> set checkpoint_keys) prefix) prefixes
     then Inl (ValueError ''source projection Maker allocation order differs'')
     else foldE (\<lambda>item _. bindE (dict_index native (al_fill_key item)) (\<lambda>fill.
       if al_signed_fill_ounces item \<noteq> dmul (if nf_side fill = Some BUY then 1 else - 1) (nf_last_qty fill)
       then Inl (ValueError ''source projection recorded Maker allocation quantity differs'')
       else Inr ())) (sn_allocations sn) ())"

section \<open>The check\<close>

text \<open>The durable allocations or the durable residual, against the native fills.\<close>

definition check_balances :: "'k projection \<Rightarrow> 'k progress \<Rightarrow> exn + unit" where
  "check_balances pj pg = (case pj_maker pj of
     Some (cfg, sn) \<Rightarrow> check_maker_allocations cfg sn (pg_native_fills pg) (pg_prefixes pg)
   | None \<Rightarrow>
       (let s = snd (hd (pj_views pj)) in
        if ss_net_unhedged_ounces s \<noteq> booked_residual (state_orders s) (state_intents s) then
          Inl (ValueError ''source projection recorded Taker residual is inconsistent'')
        else Inr ()))"

text \<open>At most one order has a suffix, and nothing was booked after its prefix.\<close>

definition choose_suffix ::
  "'k projection \<Rightarrow> (string \<times> order_facts) list \<Rightarrow> 'k progress \<Rightarrow>
    exn + ('k \<times> string \<times> business_side \<times> native_fill list) option"
where
  "choose_suffix pj by_id pg = (case pg_suffixes pg of
     [] \<Rightarrow> Inr None
   | [(cid, suffix)] \<Rightarrow>
       bindE (dict_index (projected_records pj) cid) (\<lambda>(k, s, record).
       bindE (case pj_maker pj of
           Some (cfg, sn) \<Rightarrow> bindE (dict_index (pg_prefixes pg) cid) (validate_source_projection_tail cfg sn cid)
         | None \<Rightarrow> check_taker_tail (snd (hd (pj_views pj))) cid by_id) (\<lambda>_.
       Inr (Some (k, cid, so_side record, suffix))))
   | _ \<Rightarrow> Inl (ValueError ''source projection cannot order multiple source suffixes''))"

text \<open>Everything before the effect: no suffix, or the one order, its view and its missing fills.\<close>

definition check_source_projection ::
  "'k projection \<Rightarrow> order_facts list \<Rightarrow> string \<Rightarrow> string \<Rightarrow> string \<Rightarrow>
    exn + ('k \<times> string \<times> business_side \<times> native_fill list) option"
where
  "check_source_projection pj orders instrument trader strategy =
    (if \<not> list_all (\<lambda>(_, s). view_identity_ok s) (pj_views pj) then
       Inl (ValueError ''source projection source dictionary or active identity differs'')
     else
     let records = projected_records pj; by_id = orders_by_id orders in
     if length records \<noteq> sum_list (map (\<lambda>(_, s). length (state_orders s)) (pj_views pj))
       \<or> length by_id \<noteq> length orders \<or> dict_keys records \<noteq> dict_keys by_id then
       Inl (ValueError ''source projection requires the exact complete source order set'')
     else
     bindE (foldE (project_order pj by_id instrument trader strategy) records no_progress) (\<lambda>pg.
     if \<not> list_all (\<lambda>(_, s). ss_seen_source_fills s \<subseteq> dict_keys (pg_native_fills pg)) (pj_views pj) then
       Inl (ValueError ''source projection seen fill has no native order'')
     else
     bindE (check_recorded_facts (map snd (pj_views pj)) (pg_native_fills pg)) (\<lambda>_.
     bindE (check_balances pj pg) (\<lambda>_. choose_suffix pj by_id pg))))"

section \<open>The effect\<close>

definition hold_state :: "string \<Rightarrow> store_state \<Rightarrow> store_state" where
  "hold_state reason s =
    (let s = (if ss_halt_reason s = None then s\<lparr>ss_halt_reason := Some reason\<rparr> else s)
     in if ss_source_freeze_reason s = None then s\<lparr>ss_source_freeze_reason := Some reason\<rparr> else s)"

definition book_suffix ::
  "'w custody \<Rightarrow> (string \<Rightarrow> string) \<Rightarrow> string \<Rightarrow> string \<Rightarrow> business_side \<Rightarrow> native_fill list \<Rightarrow> ('w, unit) tx"
where
  "book_suffix cu digest reason cid side suffix =
    each_tx (\<lambda>fill. bind_tx (reserve_source_fill_step cu digest (source_fill_key fill) cid (nf_trade_id fill) side
      (nf_last_qty fill) (Some reason)) (\<lambda>_. ret_tx ())) suffix"

definition store_projection :: "store \<Rightarrow> unit projection" where
  "store_projection w = \<lparr>pj_views = [((), cu_state standalone w)], pj_owner_id = (\<lambda>_. Inr None), pj_maker = None\<rparr>"

definition project_store_fills ::
  "(string \<Rightarrow> string) \<Rightarrow> order_facts list \<Rightarrow> string \<Rightarrow> string \<Rightarrow> string \<Rightarrow> string \<Rightarrow> (store, nat) tx"
where
  "project_store_fills digest orders instrument trader strategy reason = (\<lambda>w.
     if reason = [] then (w, Inl (ValueError ''source projection requires a non-empty HOLD reason''))
     else case check_source_projection (store_projection w) orders instrument trader strategy of
       Inl e \<Rightarrow> (w, Inl e)
     | Inr None \<Rightarrow> (w, Inr 0)
     | Inr (Some (_, cid, side, suffix)) \<Rightarrow>
         rolling_back standalone (cu_state standalone w)
           (bind_tx (on_view standalone (update_state (hold_state reason))) (\<lambda>_.
            bind_tx (book_suffix standalone digest reason cid side suffix) (\<lambda>_.
            bind_tx (cu_persist standalone) (\<lambda>_. ret_tx (length suffix))))) w)"

definition owner_projection :: "owner \<Rightarrow> view_key projection" where
  "owner_projection w = \<lparr>pj_views = map (\<lambda>k. (k, view_of k w)) (view_keys (ow_config w)),
    pj_owner_id = strategy_id_for (ow_config w), pj_maker = Some (ow_config w, owner_snapshot w)\<rparr>"

definition hold_views :: "string \<Rightarrow> owner \<Rightarrow> owner" where
  "hold_views reason w = fold (\<lambda>k w. put_view k ((ow_views w k)\<lparr>vw_state := hold_state reason (view_of k w)\<rparr>) w)
    (view_keys (ow_config w)) w"

text \<open>\<^verbatim>\<open>except ParentDirectorySyncError: raise; except Exception: maker._restore(previous); raise\<close>.\<close>

definition restoring :: "snapshot \<Rightarrow> (owner, 'a) tx \<Rightarrow> (owner, 'a) tx" where
  "restoring previous m = (\<lambda>w. case m w of
     (w', Inl e) \<Rightarrow> if e = ParentDirectorySyncError then (w', Inl e) else (owner_restore previous w', Inl e)
   | (w', Inr x) \<Rightarrow> (w', Inr x))"

definition project_owner_fills ::
  "(string \<Rightarrow> string) \<Rightarrow> order_facts list \<Rightarrow> string \<Rightarrow> string \<Rightarrow> string \<Rightarrow> string \<Rightarrow> (owner, nat) tx"
where
  "project_owner_fills digest orders instrument trader strategy reason = (\<lambda>w.
     if reason = [] then (w, Inl (ValueError ''source projection requires a non-empty HOLD reason''))
     else if oc_source_instrument_id (ow_config w) \<noteq> instrument then
       (w, Inl (ValueError ''source projection Maker instrument differs''))
     else case bindE (validate (ow_config w) (owner_snapshot w))
         (\<lambda>_. check_source_projection (owner_projection w) orders instrument trader strategy) of
       Inl e \<Rightarrow> (w, Inl e)
     | Inr None \<Rightarrow> (w, Inr 0)
     | Inr (Some (k, cid, side, suffix)) \<Rightarrow>
         restoring (owner_snapshot w)
           (bind_tx (modify_tx (hold_views reason)) (\<lambda>_.
            bind_tx (book_suffix (maker_view k) digest reason cid side suffix) (\<lambda>_.
            bind_tx owner_persist (\<lambda>_. ret_tx (length suffix))))) w)"

section \<open>What the check establishes\<close>

lemma order_fills_event: "f \<in> set (order_fills order) \<Longrightarrow> EvFilled f \<in> set (po_events order)"
  by (auto simp: order_fills_def split: native_event.splits)

lemma checked_fills_Inr:
  assumes "checked_source_fills order record instrument trader strategy = Inr fills"
  shows "fills = order_fills order" "fill_total fills = po_filled_qty order" "so_client_order_id record = po_client_order_id order"
    "CHR ''|'' \<notin> set (so_client_order_id record)" "\<And>f. f \<in> set fills \<Longrightarrow> nf_client_order_id f = po_client_order_id order"
    "\<And>f. f \<in> set fills \<Longrightarrow> CHR ''|'' \<notin> set (nf_venue_order_id f) \<and> CHR ''|'' \<notin> set (nf_trade_id f) \<and> 0 < nf_last_qty f"
    "fill_total fills \<le> so_quantity_ounces record" "0 \<le> so_filled_ounces record"
proof -
  note c = assms [unfolded checked_source_fills_def Let_def]
  show f: "fills = order_fills order" and "fill_total fills = po_filled_qty order"
    and "so_client_order_id record = po_client_order_id order" and "CHR ''|'' \<notin> set (so_client_order_id record)"
    and "fill_total fills \<le> so_quantity_ounces record" "0 \<le> so_filled_ounces record"
    using c by (auto simp: not_less split: if_splits)
  show "nf_client_order_id f = po_client_order_id order" if "f \<in> set fills" for f
    using c that order_fills_event [of f order] by (force simp: list_ex_iff foreign_event_def Let_def split: if_splits)
  show "CHR ''|'' \<notin> set (nf_venue_order_id f) \<and> CHR ''|'' \<notin> set (nf_trade_id f) \<and> 0 < nf_last_qty f" if "f \<in> set fills" for f
    using c that by (auto simp: list_ex_iff not_le split: if_splits)
qed

lemma source_key_order:
  assumes "nf_client_order_id f = cid" "CHR ''|'' \<notin> set cid"
  shows "hd (split_bar (source_fill_key f)) = cid"
  using assms by (simp add: source_fill_key_def bar_join3_def split_bar_append)

lemma add_native_fill_Inr:
  assumes "add_native_fill f pg = Inr pg'"
  shows "dict_keys (pg_native_fills pg') = insert (source_fill_key f) (dict_keys (pg_native_fills pg))"
    "source_fill_key f \<notin> dict_keys (pg_native_fills pg)" "pg_suffixes pg' = pg_suffixes pg" "pg_prefixes pg' = pg_prefixes pg"
proof -
  have e: "pg' = pg\<lparr>pg_native_fills := dict_set (source_fill_key f) f (pg_native_fills pg),
      pg_trades := insert (nf_account_id f, nf_trade_id f) (pg_trades pg)\<rparr>" "dict_get (pg_native_fills pg) (source_fill_key f) = None"
    using assms by (auto simp: add_native_fill_def Let_def split: if_splits)
  then show "dict_keys (pg_native_fills pg') = insert (source_fill_key f) (dict_keys (pg_native_fills pg))"
    "source_fill_key f \<notin> dict_keys (pg_native_fills pg)" "pg_suffixes pg' = pg_suffixes pg" "pg_prefixes pg' = pg_prefixes pg"
    by (simp_all only: map_of_eq_None_iff) simp_all
qed

lemma add_native_fills:
  "foldE add_native_fill fills pg = Inr pg' \<Longrightarrow>
    dict_keys (pg_native_fills pg') = dict_keys (pg_native_fills pg) \<union> source_fill_key ` set fills \<and>
    distinct (map source_fill_key fills) \<and> pg_suffixes pg' = pg_suffixes pg \<and> pg_prefixes pg' = pg_prefixes pg \<and>
    source_fill_key ` set fills \<inter> dict_keys (pg_native_fills pg) = {}"
proof (induction fills arbitrary: pg)
  case (Cons f fills)
  obtain pg1 where s: "add_native_fill f pg = Inr pg1" "foldE add_native_fill fills pg1 = Inr pg'"
    using Cons.prems by (auto simp: bindE_Inr_iff)
  from Cons.IH [OF s(2)] add_native_fill_Inr [OF s(1)] show ?case by auto
qed simp

text \<open>A record whose native fills are a seen prefix and, possibly, one missing suffix.\<close>

definition record_matches ::
  "(string \<times> order_facts) list \<Rightarrow> (string \<times> native_fill list) list \<Rightarrow> string \<times> 'k \<times> store_state \<times> source_order_record \<Rightarrow> bool"
where
  "record_matches by_id suffixes = (\<lambda>(cid, k, s, record). \<exists>n c. dict_get by_id cid = Some n \<and>
     seen_of_order cid (ss_seen_source_fills s) = source_fill_key ` set (take c (order_fills n)) \<and>
     fill_total (take c (order_fills n)) = so_filled_ounces record \<and> fill_total (order_fills n) = po_filled_qty n \<and>
     distinct (map source_fill_key (order_fills n)) \<and> CHR ''|'' \<notin> set cid \<and>
     (\<forall>f \<in> set (order_fills n). nf_client_order_id f = cid) \<and> so_client_order_id record = cid \<and>
     dict_get suffixes cid = (if drop c (order_fills n) = [] then None else Some (drop c (order_fills n))))"

lemma match_prefix_Inr:
  assumes "match_prefix cid s record fills pg = Inr pg'"
  defines "c \<equiv> card (seen_of_order cid (ss_seen_source_fills s))"
  shows "seen_of_order cid (ss_seen_source_fills s) = set (take c (map source_fill_key fills))"
    "fill_total (take c fills) = so_filled_ounces record" "pg_native_fills pg' = pg_native_fills pg"
    "pg_suffixes pg' = (if drop c fills \<noteq> [] then dict_set cid (drop c fills) (pg_suffixes pg) else pg_suffixes pg)"
proof -
  have g: "seen_of_order cid (ss_seen_source_fills s) = set (take c (map source_fill_key fills))"
    "fill_total (take c fills) = so_filled_ounces record"
    and e: "pg' = pg\<lparr>pg_prefixes := dict_set cid (take c (map source_fill_key fills)) (pg_prefixes pg),
       pg_suffixes := (if drop c fills \<noteq> [] then dict_set cid (drop c fills) (pg_suffixes pg) else pg_suffixes pg)\<rparr>"
    using assms(1) unfolding match_prefix_def Let_def c_def [symmetric]
    by (simp_all only: if_Inl_eq_Inr sum.inject not_not)
  show "seen_of_order cid (ss_seen_source_fills s) = set (take c (map source_fill_key fills))"
    "fill_total (take c fills) = so_filled_ounces record" by (rule g)+
  show "pg_native_fills pg' = pg_native_fills pg"
    "pg_suffixes pg' = (if drop c fills \<noteq> [] then dict_set cid (drop c fills) (pg_suffixes pg) else pg_suffixes pg)"
    unfolding e by simp_all
qed

lemma project_order_Inr:
  assumes "project_order pj by_id instrument trader strategy (cid, k, s, record) pg = Inr pg'"
    "dict_get (pg_suffixes pg) cid = None" "\<And>n. dict_get by_id cid = Some n \<Longrightarrow> po_client_order_id n = cid"
  shows "record_matches by_id (pg_suffixes pg') (cid, k, s, record) \<and>
    (\<forall>c. c \<noteq> cid \<longrightarrow> dict_get (pg_suffixes pg') c = dict_get (pg_suffixes pg) c) \<and>
    dict_keys (pg_native_fills pg') = dict_keys (pg_native_fills pg) \<union> source_fill_key ` set (order_fills (the (dict_get by_id cid)))"
proof -
  obtain owner_id n fills pg1 where n: "dict_get by_id cid = Some n"
    and f: "checked_source_fills n record instrument trader
      (case owner_id of Some i \<Rightarrow> if i \<noteq> [] then i else strategy | None \<Rightarrow> strategy) = Inr fills"
    and a: "foldE add_native_fill fills pg = Inr pg1" and m: "match_prefix cid s record fills pg1 = Inr pg'"
    using assms(1) by (auto simp: project_order_def bindE_Inr_iff)
  note x = checked_fills_Inr [OF f] and y = add_native_fills [OF a]
  let ?c = "card (seen_of_order cid (ss_seen_source_fills s))"
  have c: "seen_of_order cid (ss_seen_source_fills s) = set (take ?c (map source_fill_key fills))"
      "fill_total (take ?c fills) = so_filled_ounces record" and p: "pg_native_fills pg' = pg_native_fills pg1"
    and q: "pg_suffixes pg' = (if drop ?c fills \<noteq> [] then dict_set cid (drop ?c fills) (pg_suffixes pg1) else pg_suffixes pg1)"
    using match_prefix_Inr [OF m] by simp_all
  have i: "po_client_order_id n = cid" using assms(3) n by blast
  have e: "fills = order_fills n" by (rule x(1))
  have "record_matches by_id (pg_suffixes pg') (cid, k, s, record)"
    unfolding record_matches_def prod.case
  proof (intro exI conjI)
    show "dict_get by_id cid = Some n" by (rule n)
    show "seen_of_order cid (ss_seen_source_fills s) = source_fill_key ` set (take ?c (order_fills n))"
      using c(1) unfolding e take_map set_map .
    show "fill_total (take ?c (order_fills n)) = so_filled_ounces record" using c(2) e by simp
    show "fill_total (order_fills n) = po_filled_qty n" using x(2) e by simp
    show "distinct (map source_fill_key (order_fills n))" using y e by simp
    show "CHR ''|'' \<notin> set cid" "so_client_order_id record = cid" using x(3,4) i by simp_all
    show "\<forall>f \<in> set (order_fills n). nf_client_order_id f = cid" using x(5) e i by simp
    show "dict_get (pg_suffixes pg') cid = (if drop ?c (order_fills n) = [] then None else Some (drop ?c (order_fills n)))"
      using q y e assms(2) by simp
  qed
  with p q y e n show ?thesis by simp
qed

text \<open>All records, by the same steps.\<close>

definition keyed_by_id :: "(string \<times> order_facts) list \<Rightarrow> bool" where
  "keyed_by_id by_id \<longleftrightarrow> (\<forall>cid n. dict_get by_id cid = Some n \<longrightarrow> po_client_order_id n = cid)"

lemma record_matches_cong:
  "dict_get suffixes' cid = dict_get suffixes cid \<Longrightarrow>
    record_matches by_id suffixes' (cid, k, s, record) \<longleftrightarrow> record_matches by_id suffixes (cid, k, s, record)"
  by (simp add: record_matches_def)

lemma project_orders_Inr:
  assumes "foldE (project_order pj by_id instrument trader strategy) records pg = Inr pg'" "keyed_by_id by_id"
    "distinct (map fst records)" "\<And>cid. cid \<in> fst ` set records \<Longrightarrow> dict_get (pg_suffixes pg) cid = None"
  shows "(\<forall>r \<in> set records. record_matches by_id (pg_suffixes pg') r) \<and>
    (\<forall>c. c \<notin> fst ` set records \<longrightarrow> dict_get (pg_suffixes pg') c = dict_get (pg_suffixes pg) c) \<and>
    dict_keys (pg_native_fills pg') = dict_keys (pg_native_fills pg) \<union>
      (\<Union>cid \<in> fst ` set records. source_fill_key ` set (order_fills (the (dict_get by_id cid))))"
  using assms(1,3,4)
proof (induction records arbitrary: pg)
  case (Cons r records)
  obtain cid k s rec where r: "r = (cid, k, s, rec)" by (cases r)
  obtain pg1 where p: "project_order pj by_id instrument trader strategy (cid, k, s, rec) pg = Inr pg1"
    "foldE (project_order pj by_id instrument trader strategy) records pg1 = Inr pg'"
    using Cons.prems(1) by (auto simp: bindE_Inr_iff r)
  have n0: "dict_get (pg_suffixes pg) cid = None" by (intro Cons.prems(3)) (simp add: r)
  have k0: "\<And>n. dict_get by_id cid = Some n \<Longrightarrow> po_client_order_id n = cid"
    using assms(2) unfolding keyed_by_id_def by blast
  have one: "record_matches by_id (pg_suffixes pg1) (cid, k, s, rec)"
    "\<And>c. c \<noteq> cid \<Longrightarrow> dict_get (pg_suffixes pg1) c = dict_get (pg_suffixes pg) c"
    "dict_keys (pg_native_fills pg1) = dict_keys (pg_native_fills pg) \<union> source_fill_key ` set (order_fills (the (dict_get by_id cid)))"
    using project_order_Inr [OF p(1) n0 k0] by blast+
  have cid: "cid \<notin> fst ` set records" and d: "distinct (map fst records)" using Cons.prems(2) by (auto simp: r)
  have fresh: "dict_get (pg_suffixes pg1) c = None" if c: "c \<in> fst ` set records" for c
  proof -
    have "c \<noteq> cid" using cid c by blast
    moreover have "dict_get (pg_suffixes pg) c = None" using c by (intro Cons.prems(3)) simp
    ultimately show ?thesis using one(2) by simp
  qed
  have ih: "\<forall>r \<in> set records. record_matches by_id (pg_suffixes pg') r"
    "\<And>c. c \<notin> fst ` set records \<Longrightarrow> dict_get (pg_suffixes pg') c = dict_get (pg_suffixes pg1) c"
    "dict_keys (pg_native_fills pg') = dict_keys (pg_native_fills pg1) \<union>
      (\<Union>cid \<in> fst ` set records. source_fill_key ` set (order_fills (the (dict_get by_id cid))))"
    using Cons.IH [OF p(2) d fresh] by blast+
  have "record_matches by_id (pg_suffixes pg') r"
    unfolding r by (rule record_matches_cong [OF ih(2) [OF cid], THEN iffD2, OF one(1)])
  with ih one(2,3) show ?case by (auto simp: r)
qed simp

text \<open>The result of the check: every view is a prefix of the native history, but for one suffix.\<close>

definition projection_plan ::
  "'k projection \<Rightarrow> order_facts list \<Rightarrow> ('k \<times> string \<times> business_side \<times> native_fill list) option \<Rightarrow> bool"
where
  "projection_plan pj orders plan \<longleftrightarrow>
    distinct (map po_client_order_id orders) \<and>
    length (projected_records pj) = sum_list (map (\<lambda>(_, s). length (state_orders s)) (pj_views pj)) \<and>
    fst ` set (projected_records pj) = po_client_order_id ` set orders \<and>
    (\<forall>(_, s) \<in> set (pj_views pj). view_identity_ok s \<and>
       ss_seen_source_fills s \<subseteq> source_fill_key ` set (concat (map order_fills orders))) \<and>
    (\<exists>suffixes. (\<forall>r \<in> set (projected_records pj). record_matches (orders_by_id orders) suffixes r) \<and>
       (case plan of None \<Rightarrow> suffixes = []
        | Some (k, cid, side, suffix) \<Rightarrow> suffixes = [(cid, suffix)] \<and> suffix \<noteq> [] \<and>
            (\<exists>s record. dict_get (projected_records pj) cid = Some (k, s, record) \<and> side = so_side record)))"

lemma by_id_facts:
  assumes "length (orders_by_id orders) = length orders"
  shows "distinct (map po_client_order_id orders)" "keyed_by_id (orders_by_id orders)"
    "dict_get (orders_by_id orders) cid = Some n \<longleftrightarrow> n \<in> set orders \<and> po_client_order_id n = cid"
    "fst ` set (orders_by_id orders) = po_client_order_id ` set orders"
proof -
  let ?ps = "map (\<lambda>n. (po_client_order_id n, n)) orders"
  have d: "distinct (map fst ?ps)" using assms dict_of_length [of ?ps] by (simp add: orders_by_id_def)
  then show "distinct (map po_client_order_id orders)" by (simp add: o_def)
  have e: "orders_by_id orders = ?ps" unfolding orders_by_id_def using d by (rule dict_of_distinct)
  have i: "dict_get (orders_by_id orders) c = Some n \<longleftrightarrow> n \<in> set orders \<and> po_client_order_id n = c" for c n
    unfolding e using d by (auto simp: map_of_eq_Some_iff)
  then show "dict_get (orders_by_id orders) cid = Some n \<longleftrightarrow> n \<in> set orders \<and> po_client_order_id n = cid" .
  show "keyed_by_id (orders_by_id orders)" using i by (simp add: keyed_by_id_def)
  show "fst ` set (orders_by_id orders) = po_client_order_id ` set orders" by (auto simp: e image_iff)
qed

lemma check_source_projection_Inr:
  assumes "check_source_projection pj orders instrument trader strategy = Inr plan"
  shows "projection_plan pj orders plan"
proof -
  let ?r = "projected_records pj" and ?b = "orders_by_id orders"
  obtain pg where v: "list_all (\<lambda>(_, s). view_identity_ok s) (pj_views pj)"
    and l: "length ?b = length orders" "dict_keys ?r = dict_keys ?b"
    and lr: "length ?r = sum_list (map (\<lambda>(_, s). length (state_orders s)) (pj_views pj))"
    and pg: "foldE (project_order pj ?b instrument trader strategy) ?r no_progress = Inr pg"
    and seen: "list_all (\<lambda>(_, s). ss_seen_source_fills s \<subseteq> dict_keys (pg_native_fills pg)) (pj_views pj)"
    and tail: "choose_suffix pj ?b pg = Inr plan"
    using assms unfolding check_source_projection_def Let_def
    by (auto simp: bindE_Inr_iff split: if_splits)
  note b = by_id_facts [OF l(1)]
  have dr: "distinct (map fst ?r)" unfolding projected_records_def by (rule dict_of_unique)
  have s0: "dict_get (pg_suffixes (no_progress :: 'a progress)) cid = None" for cid by (simp add: no_progress_def)
  note f = project_orders_Inr [OF pg b(2) dr s0]
  have native: "dict_keys (pg_native_fills pg) = source_fill_key ` set (concat (map order_fills orders))"
  proof -
    have "(\<Union>cid \<in> fst ` set ?r. source_fill_key ` set (order_fills (the (dict_get ?b cid)))) =
        (\<Union>n \<in> set orders. source_fill_key ` set (order_fills n))"
      unfolding l(2) b(4) image_image by (intro SUP_cong refl) (simp add: b(3) [THEN iffD2])
    with f show ?thesis by (simp add: no_progress_def image_UN)
  qed
  have tail': "case plan of None \<Rightarrow> pg_suffixes pg = []
      | Some (k, cid, side, suffix) \<Rightarrow> pg_suffixes pg = [(cid, suffix)] \<and>
          (\<exists>s record. dict_get ?r cid = Some (k, s, record) \<and> side = so_side record)"
    using tail by (auto simp: choose_suffix_def bindE_Inr_iff split: list.splits prod.splits)
  have ne: "suffix \<noteq> []" if "pg_suffixes pg = [(cid, suffix)]" "dict_get ?r cid = Some (k, s, so)" for cid suffix k s so
  proof -
    have "(cid, k, s, so) \<in> set ?r" using that(2) by (rule map_of_SomeD)
    with f have "record_matches ?b (pg_suffixes pg) (cid, k, s, so)" by blast
    with that(1) show ?thesis by (auto simp: record_matches_def split: if_splits)
  qed
  show ?thesis
    unfolding projection_plan_def
  proof (intro conjI exI [of _ "pg_suffixes pg"])
    show "distinct (map po_client_order_id orders)" by (rule b(1))
    show "length ?r = sum_list (map (\<lambda>(_, s). length (state_orders s)) (pj_views pj))" by (rule lr)
    show "fst ` set ?r = po_client_order_id ` set orders" using l(2) b(4) by simp
    show "\<forall>(_, s) \<in> set (pj_views pj). view_identity_ok s \<and>
       ss_seen_source_fills s \<subseteq> source_fill_key ` set (concat (map order_fills orders))"
      using v seen unfolding native list_all_iff by fastforce
    show "\<forall>r \<in> set ?r. record_matches ?b (pg_suffixes pg) r" using f by blast
    show "case plan of None \<Rightarrow> pg_suffixes pg = []
        | Some (k, cid, side, suffix) \<Rightarrow> pg_suffixes pg = [(cid, suffix)] \<and> suffix \<noteq> [] \<and>
            (\<exists>s record. dict_get ?r cid = Some (k, s, record) \<and> side = so_side record)"
      using tail' ne by (auto split: option.splits) blast
  qed
qed

section \<open>What booking a suffix does\<close>

definition held_fill :: "source_order_record \<Rightarrow> rat \<Rightarrow> source_order_record" where
  "held_fill r ounces = (let filled = dadd (so_filled_ounces r) ounces in
     r\<lparr>so_filled_ounces := filled, so_status := (if so_quantity_ounces r \<le> filled then ''FILLED'' else ''PARTIALLY_FILLED'')\<rparr>)"

text \<open>A held fill is seen and counted; it lifts nothing and ends no order.\<close>

definition same_stops :: "store_state \<Rightarrow> store_state \<Rightarrow> bool" where
  "same_stops s t \<longleftrightarrow> ss_halt_reason t = ss_halt_reason s \<and> ss_source_freeze_reason t = ss_source_freeze_reason s \<and>
    ss_active_source_order_id t = ss_active_source_order_id s \<and> ss_seen_hedge_fills t = ss_seen_hedge_fills s"

lemma same_stops_trans: "same_stops s t \<Longrightarrow> same_stops t u \<Longrightarrow> same_stops s u"
  by (simp add: same_stops_def)

lemma book_held:
  "book_source_fill key cid side ounces (Some reason) r v = (v', res) \<Longrightarrow> res = Inr () \<and>
      v' = v\<lparr>vw_state := set_order cid (held_fill r ounces) ((vw_state v)\<lparr>ss_seen_source_fills := insert key (ss_seen_source_fills (vw_state v))\<rparr>)\<rparr>
    \<or> v' = v \<and> (\<exists>m. res = Inl (ValueError m))"
  by (auto simp: book_source_fill_def held_fill_def update_state_def Let_def split: if_splits)

context custody
begin

lemma reserve_held:
  assumes e: "reserve_source_fill_step cu digest key cid trade side ounces (Some reason) w = (w', Inr x)"
    and k: "key \<notin> ss_seen_source_fills (cu_state cu w)" and r: "dict_get (ss_source_orders (cu_state cu w)) cid = Some r"
  shows "published w' = published w \<and> same_stops (cu_state cu w) (cu_state cu w') \<and>
    ss_seen_source_fills (cu_state cu w') = insert key (ss_seen_source_fills (cu_state cu w)) \<and>
    ss_source_orders (cu_state cu w') = dict_set cid (held_fill r ounces) (ss_source_orders (cu_state cu w))"
proof -
  obtain v1 r1 where b: "book_source_fill key cid side ounces (Some reason) r (cu_view cu w) = (v1, r1)" by fastforce
  have r1: "r1 = Inr ()" using e k r b by (cases r1) (auto simp: reserve_source_fill_step_def on_view_def bind_tx_def)
  define w1 where "w1 = cu_set_view cu v1 w"
  have s1: "cu_state cu w1 = set_order cid (held_fill r ounces) ((cu_state cu w)\<lparr>ss_seen_source_fills := insert key (ss_seen_source_fills (cu_state cu w))\<rparr>)"
    using book_held [OF b] r1 by (auto simp: w1_def)
  obtain n w2 where a: "cu_allocate cu r key (signed_ounces side ounces) w1 = (n, w2)" by fastforce
  have s2: "published w2 = published w" "\<exists>net. cu_state cu w2 = (cu_state cu w1)\<lparr>ss_net_unhedged_ounces := net\<rparr>"
    using allocate_keeps [OF a] by (auto simp: w1_def)
  have body: "(w', Inr x) = (if n = 0 then (w2, Inr None) else bind_tx (on_view cu (put_intent
      (new_intent digest key cid trade side ounces (Some reason) r n))) (\<lambda>i. ret_tx (Some i)) w2)"
    using e k r b r1 a by (simp add: reserve_source_fill_step_def on_view_def bind_tx_def w1_def)
  have "published w' = published w \<and> same_stops (cu_state cu w1) (cu_state cu w') \<and>
      ss_seen_source_fills (cu_state cu w') = ss_seen_source_fills (cu_state cu w1) \<and>
      ss_source_orders (cu_state cu w') = ss_source_orders (cu_state cu w1)"
  proof (cases "n = 0")
    case True
    with body s2 show ?thesis by (auto simp: same_stops_def)
  next
    case False
    with body have p: "bind_tx (on_view cu (put_intent (new_intent digest key cid trade side ounces (Some reason) r n)))
        (\<lambda>i. ret_tx (Some i)) w2 = (w', Inr x)" by simp
    then show ?thesis
      using s2 by (auto simp: bind_tx_Inr_iff on_view_def put_intent_def update_state_def lift_tx_def same_stops_def
          split: prod.splits)
  qed
  then show ?thesis using s1 by (auto simp: same_stops_def set_order_def)
qed

lemma book_suffix_Inr:
  assumes "book_suffix cu digest reason cid side suffix w = (w', Inr u)" "dict_get (ss_source_orders (cu_state cu w)) cid = Some r"
    "distinct (map source_fill_key suffix)" "source_fill_key ` set suffix \<inter> ss_seen_source_fills (cu_state cu w) = {}"
  shows "published w' = published w \<and> same_stops (cu_state cu w) (cu_state cu w') \<and>
    ss_seen_source_fills (cu_state cu w') = ss_seen_source_fills (cu_state cu w) \<union> source_fill_key ` set suffix \<and>
    (\<exists>r'. dict_get (ss_source_orders (cu_state cu w')) cid = Some r' \<and> so_client_order_id r' = so_client_order_id r \<and>
      so_filled_ounces r' = dsum (so_filled_ounces r) (map nf_last_qty suffix)) \<and>
    (\<forall>c. c \<noteq> cid \<longrightarrow> dict_get (ss_source_orders (cu_state cu w')) c = dict_get (ss_source_orders (cu_state cu w)) c) \<and>
    dict_keys (ss_source_orders (cu_state cu w')) = dict_keys (ss_source_orders (cu_state cu w))"
  using assms
proof (induction suffix arbitrary: w r)
  case Nil
  then show ?case by (simp add: book_suffix_def same_stops_def)
next
  case (Cons f suffix)
  obtain w1 x where one: "reserve_source_fill_step cu digest (source_fill_key f) cid (nf_trade_id f) side (nf_last_qty f) (Some reason) w = (w1, Inr x)"
    and rest: "book_suffix cu digest reason cid side suffix w1 = (w', Inr u)"
    using Cons.prems(1) by (auto simp: book_suffix_def bind_tx_Inr_iff)
  have k: "source_fill_key f \<notin> ss_seen_source_fills (cu_state cu w)" using Cons.prems(4) by auto
  note h = reserve_held [OF one k Cons.prems(2)]
  have r1: "dict_get (ss_source_orders (cu_state cu w1)) cid = Some (held_fill r (nf_last_qty f))" using h by simp
  have keys: "dict_keys (ss_source_orders (cu_state cu w1)) = dict_keys (ss_source_orders (cu_state cu w))"
    using h Cons.prems(2) by (auto simp: insert_absorb dest!: map_of_SomeD) (force simp: image_iff)
  have "source_fill_key ` set suffix \<inter> ss_seen_source_fills (cu_state cu w1) = {}"
    using h Cons.prems(3,4) by auto
  note ih = Cons.IH [OF rest r1 _ this]
  have "so_client_order_id (held_fill r (nf_last_qty f)) = so_client_order_id r"
    "so_filled_ounces (held_fill r (nf_last_qty f)) = dadd (so_filled_ounces r) (nf_last_qty f)"
    by (simp_all add: held_fill_def Let_def)
  with ih Cons.prems(3) h keys show ?case by (auto intro: same_stops_trans)
qed

text \<open>An exception of the booking is a failed check; nothing was published.\<close>

lemma book_suffix_Inl:
  "book_suffix cu digest reason cid side suffix w = (w', Inl e) \<Longrightarrow> published w' = published w \<and> (\<exists>m. e = ValueError m)"
proof (induction suffix arbitrary: w)
  case (Cons f suffix)
  obtain w1 x where one: "reserve_source_fill_step cu digest (source_fill_key f) cid (nf_trade_id f) side (nf_last_qty f) (Some reason) w = (w1, x)"
    by fastforce
  note p = published_step [OF one]
  show ?case
  proof (cases x)
    case (Inr i)
    with Cons.prems one have "book_suffix cu digest reason cid side suffix w1 = (w', Inl e)"
      by (auto simp: book_suffix_def bind_tx_def ret_tx_def)
    from Cons.IH [OF this] p show ?thesis by simp
  next
    case (Inl y)
    with Cons.prems one have "w' = w1" "e = y" by (auto simp: book_suffix_def bind_tx_def)
    moreover have "\<exists>m. y = ValueError m"
      using one unfolding Inl reserve_source_fill_step_def
      by (auto simp: bind_tx_Inl_iff on_view_def put_intent_def mk_hedge_intent_def bindE_Inl_iff update_state_def lift_tx_def
          split: if_splits option.splits prod.splits dest!: book_held check_hedge_intent_error)
    ultimately show ?thesis using p by simp
  qed
qed (simp add: book_suffix_def)

end

section \<open>A projection completes the books\<close>

lemma projected_record_view:
  assumes "(cid, k, s, r) \<in> set (projected_records pj)"
  shows "(k, s) \<in> set (pj_views pj)" "r \<in> set (state_orders s)" "so_client_order_id r = cid"
  using assms dict_of_subset unfolding projected_records_def by fastforce+

lemma by_id_distinct: "distinct (map po_client_order_id orders) \<Longrightarrow>
    dict_get (orders_by_id orders) cid = Some n \<longleftrightarrow> n \<in> set orders \<and> po_client_order_id n = cid"
  using by_id_facts(3) [of orders] dict_of_length [of "map (\<lambda>n. (po_client_order_id n, n)) orders"]
  by (simp add: orders_by_id_def o_def)

definition missing_of :: "('k \<times> string \<times> business_side \<times> native_fill list) option \<Rightarrow> string \<Rightarrow> native_fill list" where
  "missing_of plan cid = (case plan of Some (_, cid', _, suffix) \<Rightarrow> if cid' = cid then suffix else [] | None \<Rightarrow> [])"

lemma missing_of_simps [simp]:
  "missing_of None cid = []" "missing_of (Some (k, cid', side, suffix)) cid = (if cid' = cid then suffix else [])"
  by (simp_all add: missing_of_def)

lemma plan_record:
  assumes "projection_plan pj orders plan" "(cid, k, s, r) \<in> set (projected_records pj)"
  obtains n c where "n \<in> set orders" "po_client_order_id n = cid"
    "seen_of_order cid (ss_seen_source_fills s) = source_fill_key ` set (take c (order_fills n))"
    "fill_total (take c (order_fills n)) = so_filled_ounces r" "fill_total (order_fills n) = po_filled_qty n"
    "distinct (map source_fill_key (order_fills n))" "CHR ''|'' \<notin> set cid"
    "\<And>f. f \<in> set (order_fills n) \<Longrightarrow> nf_client_order_id f = cid"
    "drop c (order_fills n) = missing_of plan cid"
proof -
  obtain suffixes where m: "record_matches (orders_by_id orders) suffixes (cid, k, s, r)"
    and sf: "case plan of None \<Rightarrow> suffixes = [] | Some (_, cid', _, suffix) \<Rightarrow> suffixes = [(cid', suffix)]"
    and d: "distinct (map po_client_order_id orders)"
    using assms unfolding projection_plan_def by (fastforce split: option.splits)
  then have "dict_get suffixes cid = (case plan of Some (_, cid', _, suffix) \<Rightarrow> if cid' = cid then Some suffix else None | None \<Rightarrow> None)"
    by (auto split: option.splits)
  moreover from m obtain n c where "dict_get (orders_by_id orders) cid = Some n"
     "seen_of_order cid (ss_seen_source_fills s) = source_fill_key ` set (take c (order_fills n))"
     "fill_total (take c (order_fills n)) = so_filled_ounces r" "fill_total (order_fills n) = po_filled_qty n"
     "distinct (map source_fill_key (order_fills n))" "CHR ''|'' \<notin> set cid"
     "\<forall>f \<in> set (order_fills n). nf_client_order_id f = cid"
     "dict_get suffixes cid = (if drop c (order_fills n) = [] then None else Some (drop c (order_fills n)))"
    unfolding record_matches_def prod.case by blast
  ultimately show thesis
    using by_id_distinct [OF d, of cid n] by (intro that [of n c]) (auto simp: missing_of_def split: option.splits if_splits)
qed

lemma plan_covers:
  assumes p: "projection_plan pj orders plan"
  shows "source_fill_key ` set (concat (map order_fills orders)) =
    (\<Union>(k, s) \<in> set (pj_views pj). ss_seen_source_fills s) \<union>
    (case plan of None \<Rightarrow> {} | Some (_, _, _, suffix) \<Rightarrow> source_fill_key ` set suffix)" (is "?native = ?seen \<union> ?new")
proof
  show "?native \<subseteq> ?seen \<union> ?new"
  proof
    fix key assume "key \<in> ?native"
    then obtain n f where n: "n \<in> set orders" "f \<in> set (order_fills n)" "key = source_fill_key f" by auto
    then have "po_client_order_id n \<in> fst ` set (projected_records pj)" using p by (simp add: projection_plan_def)
    then obtain k s r where rec: "(po_client_order_id n, k, s, r) \<in> set (projected_records pj)" by force
    obtain m c where m: "m \<in> set orders" "po_client_order_id m = po_client_order_id n"
      "seen_of_order (po_client_order_id n) (ss_seen_source_fills s) = source_fill_key ` set (take c (order_fills m))"
      "drop c (order_fills m) = missing_of plan (po_client_order_id n)"
      by (rule plan_record [OF p rec]) (rule that)
    have "m = n" using m(1,2) n(1) p by (auto simp: projection_plan_def distinct_map inj_on_def)
    moreover have "f \<in> set (take c (order_fills n)) \<or> f \<in> set (drop c (order_fills n))"
      using n(2) by (metis Un_iff append_take_drop_id set_append)
    ultimately show "key \<in> ?seen \<union> ?new"
      using m projected_record_view(1) [OF rec] n(3)
      by (auto simp: seen_of_order_def missing_of_def split: option.splits if_splits)
  qed
  show "?seen \<union> ?new \<subseteq> ?native"
  proof
    fix key assume "key \<in> ?seen \<union> ?new"
    then consider "key \<in> ?seen" | k cid side suffix where "plan = Some (k, cid, side, suffix)" "key \<in> source_fill_key ` set suffix"
      by (cases plan) auto
    then show "key \<in> ?native"
    proof cases
      case 1 then show ?thesis using p by (fastforce simp: projection_plan_def)
    next
      case 2
      then obtain s r where rec: "dict_get (projected_records pj) cid = Some (k, s, r)"
        using p by (auto simp: projection_plan_def)
      obtain m c where "m \<in> set orders" "drop c (order_fills m) = suffix"
        by (rule plan_record [OF p map_of_SomeD [OF rec]]) (rule that, assumption, simp add: 2(1))
      then show ?thesis using 2(2) by (force dest: in_set_dropD)
    qed
  qed
qed

lemma plan_suffix:
  assumes p: "projection_plan pj orders (Some (k, cid, side, suffix))" and r: "dict_get (projected_records pj) cid = Some (k', s, r)"
  shows "k' = k" "distinct (map source_fill_key suffix)" "source_fill_key ` set suffix \<inter> ss_seen_source_fills s = {}" "suffix \<noteq> []"
    "\<exists>n \<in> set orders. po_client_order_id n = cid \<and> dsum (so_filled_ounces r) (map nf_last_qty suffix) = po_filled_qty n"
proof -
  show "k' = k" "suffix \<noteq> []" using p r by (auto simp: projection_plan_def)
  obtain n c where n: "n \<in> set orders" "po_client_order_id n = cid"
    "seen_of_order cid (ss_seen_source_fills s) = source_fill_key ` set (take c (order_fills n))"
    "fill_total (take c (order_fills n)) = so_filled_ounces r" "fill_total (order_fills n) = po_filled_qty n"
    "distinct (map source_fill_key (order_fills n))" "CHR ''|'' \<notin> set cid"
    "\<And>f. f \<in> set (order_fills n) \<Longrightarrow> nf_client_order_id f = cid" "drop c (order_fills n) = suffix"
    by (rule plan_record [OF p map_of_SomeD [OF r]]) (rule that, simp_all)
  have split: "order_fills n = take c (order_fills n) @ suffix" using n(9) by (metis append_take_drop_id)
  have d: "distinct (map source_fill_key (take c (order_fills n) @ suffix))" using n(6) split by simp
  then show "distinct (map source_fill_key suffix)" by simp
  have "key \<in> source_fill_key ` set (take c (order_fills n))" if "key \<in> ss_seen_source_fills s" "key = source_fill_key f" "f \<in> set suffix" for key f
  proof -
    have "f \<in> set (order_fills n)" using that(3) n(9) by (metis in_set_dropD)
    then have "hd (split_bar key) = cid" using source_key_order [OF n(8) n(7)] that(2) by simp
    with that(1) n(3) show ?thesis by (auto simp: seen_of_order_def)
  qed
  with d show "source_fill_key ` set suffix \<inter> ss_seen_source_fills s = {}" by fastforce
  have "dsum (so_filled_ounces r) (map nf_last_qty suffix) = fill_total (order_fills n)"
    using arg_cong [OF split, of fill_total] unfolding n(4) [symmetric] by (simp only: fill_total_def map_append dsum_append)
  with n(1,2,5) show "\<exists>n \<in> set orders. po_client_order_id n = cid \<and> dsum (so_filled_ounces r) (map nf_last_qty suffix) = po_filled_qty n"
    by auto
qed

text \<open>The records are the orders of the views, each in one view only.\<close>

lemma plan_records:
  assumes p: "projection_plan pj orders plan"
  shows "dict_get (projected_records pj) cid = Some (k, s, r) \<longleftrightarrow> (k, s) \<in> set (pj_views pj) \<and> dict_get (ss_source_orders s) cid = Some r"
proof -
  let ?ps = "[(so_client_order_id r, (k, s, r)). (k, s) \<leftarrow> pj_views pj, r \<leftarrow> state_orders s]"
  have v: "c = so_client_order_id r" if "(k, s) \<in> set (pj_views pj)" "(c, r) \<in> set (ss_source_orders s)" for k s c r
    using p that by (fastforce simp: projection_plan_def view_identity_ok_def list_all_iff)
  have "length ?ps = sum_list (map (\<lambda>(_, s). length (state_orders s)) (pj_views pj))"
    by (simp add: length_concat o_def case_prod_unfold)
  then have d: "distinct (map fst ?ps)"
    using p dict_of_length [of ?ps] by (simp add: projection_plan_def projected_records_def)
  then have e: "projected_records pj = ?ps" unfolding projected_records_def by (rule dict_of_distinct)
  have one: "distinct (map fst (ss_source_orders s))" if s: "(k, s) \<in> set (pj_views pj)" for k s
  proof -
    obtain xs ys where split: "pj_views pj = xs @ (k, s) # ys" using split_list [OF s] by blast
    have "distinct (map so_client_order_id (state_orders s))" using d unfolding split by (simp add: o_def)
    moreover have "map so_client_order_id (state_orders s) = map fst (ss_source_orders s)"
      using v [OF s] by (auto simp: state_orders_def)
    ultimately show ?thesis by simp
  qed
  have "dict_get ?ps cid = Some (k, s, r) \<longleftrightarrow> (cid, k, s, r) \<in> set ?ps" using d by (rule map_of_eq_Some_iff)
  also have "\<dots> \<longleftrightarrow> (k, s) \<in> set (pj_views pj) \<and> (cid, r) \<in> set (ss_source_orders s)"
  proof -
    have "r \<in> set (state_orders s) \<and> so_client_order_id r = cid \<longleftrightarrow> (cid, r) \<in> set (ss_source_orders s)" if "(k, s) \<in> set (pj_views pj)"
      using v [OF that] by (auto simp: state_orders_def intro: rev_image_eqI)
    moreover have "(cid, k, s, r) \<in> set ?ps \<longleftrightarrow> (k, s) \<in> set (pj_views pj) \<and> r \<in> set (state_orders s) \<and> so_client_order_id r = cid"
      by auto
    ultimately show ?thesis by blast
  qed
  also have "\<dots> \<longleftrightarrow> (k, s) \<in> set (pj_views pj) \<and> dict_get (ss_source_orders s) cid = Some r"
    using one by (auto simp: map_of_eq_Some_iff)
  finally show ?thesis unfolding e .
qed

lemma plan_quantity_kept:
  assumes p: "projection_plan pj orders plan" and r: "(cid, k, s, so) \<in> set (projected_records pj)" and m: "missing_of plan cid = []"
  shows "\<exists>n \<in> set orders. po_client_order_id n = cid \<and> so_filled_ounces so = po_filled_qty n"
proof (rule plan_record [OF p r])
  fix n c
  assume "n \<in> set orders" "po_client_order_id n = cid" "fill_total (take c (order_fills n)) = so_filled_ounces so"
    "fill_total (order_fills n) = po_filled_qty n" "drop c (order_fills n) = missing_of plan cid"
  then show ?thesis using m by (intro bexI [of _ n]) simp_all
qed

text \<open>The books of several views are complete: they have seen exactly the native fills, and every order has its native quantity.\<close>

definition book_complete :: "order_facts list \<Rightarrow> store_state list \<Rightarrow> bool" where
  "book_complete orders states \<longleftrightarrow>
    (\<Union>s \<in> set states. ss_seen_source_fills s) = source_fill_key ` set (concat (map order_fills orders)) \<and>
    (\<forall>s \<in> set states. \<forall>cid so. dict_get (ss_source_orders s) cid = Some so \<longrightarrow>
      (\<exists>n \<in> set orders. po_client_order_id n = cid \<and> so_filled_ounces so = po_filled_qty n))"

lemma hold_state_simps [simp]:
  "ss_halt_reason (hold_state reason s) \<noteq> None" "ss_source_freeze_reason (hold_state reason s) \<noteq> None"
  "ss_seen_source_fills (hold_state reason s) = ss_seen_source_fills s" "ss_source_orders (hold_state reason s) = ss_source_orders s"
  "ss_seen_hedge_fills (hold_state reason s) = ss_seen_hedge_fills s" "ss_hedge_intents (hold_state reason s) = ss_hedge_intents s"
  "ss_net_unhedged_ounces (hold_state reason s) = ss_net_unhedged_ounces s"
  by (auto simp: hold_state_def Let_def)

text \<open>
  Booking the missing suffix completes the books. \<open>t\<close> is the state of each view afterwards: the view of the
  suffix booked it, as \<open>book_suffix\<close> does, and the others saw nothing.
\<close>

lemma suffix_completes:
  assumes p: "projection_plan pj orders (Some (k, cid, side, suffix))" and dv: "distinct (map fst (pj_views pj))"
    and others: "\<And>j u. (j, u) \<in> set (pj_views pj) \<Longrightarrow> j \<noteq> k \<Longrightarrow>
      ss_seen_source_fills (t j) = ss_seen_source_fills u \<and> ss_source_orders (t j) = ss_source_orders u"
    and booked: "\<And>s so. (k, s) \<in> set (pj_views pj) \<Longrightarrow> dict_get (ss_source_orders s) cid = Some so \<Longrightarrow>
      distinct (map source_fill_key suffix) \<Longrightarrow> source_fill_key ` set suffix \<inter> ss_seen_source_fills s = {} \<Longrightarrow>
      ss_seen_source_fills (t k) = ss_seen_source_fills s \<union> source_fill_key ` set suffix \<and>
      (\<exists>r. dict_get (ss_source_orders (t k)) cid = Some r \<and> so_filled_ounces r = dsum (so_filled_ounces so) (map nf_last_qty suffix)) \<and>
      (\<forall>c. c \<noteq> cid \<longrightarrow> dict_get (ss_source_orders (t k)) c = dict_get (ss_source_orders s) c)"
  shows "book_complete orders (map (t \<circ> fst) (pj_views pj)) \<and> suffix \<noteq> []"
proof -
  obtain s so where rec: "dict_get (projected_records pj) cid = Some (k, s, so)"
    using p by (auto simp: projection_plan_def)
  have s: "(k, s) \<in> set (pj_views pj)" "dict_get (ss_source_orders s) cid = Some so" using rec plan_records [OF p] by simp_all
  note sf = plan_suffix [OF p rec] and bk = booked [OF s plan_suffix(2,3) [OF p rec]]
  have uniq: "u = s" if "(k, u) \<in> set (pj_views pj)" for u using dv that s(1) by (metis eq_key_imp_eq_value)
  have seen: "ss_seen_source_fills (t j) = ss_seen_source_fills u \<union> (if j = k then source_fill_key ` set suffix else {})"
    if "(j, u) \<in> set (pj_views pj)" for j u
    using others [OF that] bk uniq that by (cases "j = k") auto
  have "(\<Union>x \<in> set (map (t \<circ> fst) (pj_views pj)). ss_seen_source_fills x) =
      (\<Union>(j, u) \<in> set (pj_views pj). ss_seen_source_fills u) \<union> source_fill_key ` set suffix"
    using seen s(1) by (auto split: if_splits)
  then have "(\<Union>x \<in> set (map (t \<circ> fst) (pj_views pj)). ss_seen_source_fills x) = source_fill_key ` set (concat (map order_fills orders))"
    using plan_covers [OF p] by simp
  moreover have "\<exists>n \<in> set orders. po_client_order_id n = c \<and> so_filled_ounces x = po_filled_qty n"
    if j: "(j, u) \<in> set (pj_views pj)" and x: "dict_get (ss_source_orders (t j)) c = Some x" for j u c x
  proof (cases "j = k \<and> c = cid")
    case True
    with bk x sf(5) show ?thesis by auto
  next
    case False
    have "dict_get (ss_source_orders u) c = Some x"
      using False others [OF j] bk uniq j x by (cases "j = k") auto
    then have r: "(c, j, u, x) \<in> set (projected_records pj)" using j plan_records [OF p] map_of_SomeD by metis
    have "c \<noteq> cid"
    proof
      assume c: "c = cid"
      with \<open>dict_get (ss_source_orders u) c = Some x\<close> j have "dict_get (projected_records pj) cid = Some (j, u, x)"
        using plan_records [OF p] by simp
      with rec False c show False by simp
    qed
    then show ?thesis using plan_quantity_kept [OF p r] by simp
  qed
  ultimately show ?thesis using sf(4) by (auto simp: book_complete_def)
qed

lemma nothing_missing:
  assumes p: "projection_plan pj orders None"
  shows "book_complete orders (map snd (pj_views pj))"
proof -
  have "\<exists>n \<in> set orders. po_client_order_id n = cid \<and> so_filled_ounces so = po_filled_qty n"
    if "(k, s) \<in> set (pj_views pj)" "dict_get (ss_source_orders s) cid = Some so" for k s cid so
  proof -
    have "(cid, k, s, so) \<in> set (projected_records pj)" using plan_records [OF p] that map_of_SomeD by metis
    from plan_quantity_kept [OF p this] show ?thesis by simp
  qed
  with plan_covers [OF p] show ?thesis by (auto simp: book_complete_def case_prod_unfold)
qed

text \<open>A failed check is no failed directory sync.\<close>

lemma dict_index_refusal: "dict_index d c = Inl m \<Longrightarrow> refusal m"
  by (auto simp: dict_index_def split: option.splits)

lemma check_source_projection_error:
  assumes "check_source_projection pj orders instrument trader strategy = Inl e" "\<And>k e. pj_owner_id pj k = Inl e \<Longrightarrow> refusal e"
  shows "refusal e"
proof -
  have order: "project_order pj by_id instrument trader strategy r pg = Inl m \<Longrightarrow> refusal m" for by_id r pg m
  proof -
    have native: "foldE add_native_fill fs pg = Inl m \<Longrightarrow> refusal m" for fs m and pg :: "'a progress"
      by (erule foldE_refusal) (auto simp: add_native_fill_def Let_def split: if_splits)
    have checked: "checked_source_fills n rec i t st = Inl m \<Longrightarrow> refusal m" for n rec i t st m
      unfolding checked_source_fills_def Let_def by (auto simp only: refusal_simps sum.inject split: if_splits)
    have matched: "match_prefix c s rec fs pg = Inl m \<Longrightarrow> refusal m" for c s rec fs m and pg :: "'a progress"
      unfolding match_prefix_def Let_def by (auto simp only: refusal_simps sum.inject split: if_splits)
    show "project_order pj by_id instrument trader strategy r pg = Inl m \<Longrightarrow> refusal m"
      by (cases r) (auto simp: project_order_def bindE_Inl_iff dest: checked matched native dict_index_refusal assms(2))
  qed
  have orders: "foldE (project_order pj by_id instrument trader strategy) rs pg = Inl m \<Longrightarrow> refusal m" for by_id rs pg m
    by (erule foldE_refusal) (rule order)
  have facts: "check_recorded_facts views fills = Inl m \<Longrightarrow> refusal m" for views fills m
  proof -
    have one: "foldE (check_recorded_intent s fills) is c = Inl m \<Longrightarrow> refusal m" for s "is" c m
      by (erule foldE_refusal) (auto simp: check_recorded_intent_def split: if_splits prod.splits)
    have "foldE (\<lambda>s. foldE (check_recorded_intent s fills) (ss_hedge_intents s)) views c = Inl m \<Longrightarrow> refusal m" for c m
      by (erule foldE_refusal) (rule one)
    then show "check_recorded_facts views fills = Inl m \<Longrightarrow> refusal m" by (auto simp: check_recorded_facts_def bindE_Inl_iff)
  qed
  have balances: "check_balances pj pg = Inl m \<Longrightarrow> refusal m" for pg m
  proof -
    have "foldE (\<lambda>item _. bindE (dict_index native (al_fill_key item)) (\<lambda>fill. if c item fill then Inl (ValueError t) else Inr ())) is () = Inl m
        \<Longrightarrow> refusal m" for native :: "(string \<times> native_fill) list" and c t "is" m
      by (erule foldE_refusal) (auto simp: bindE_Inl_iff split: if_splits dest!: dict_index_refusal)
    then show "check_balances pj pg = Inl m \<Longrightarrow> refusal m"
      by (auto simp: check_balances_def check_maker_allocations_def Let_def split: if_splits option.splits)
  qed
  have maker: "validate_source_projection_tail cfg sn cid prefix = Inl m \<Longrightarrow> refusal m" for cfg sn cid prefix m
    unfolding validate_source_projection_tail_def
    by (cases "dropWhile (\<lambda>item. al_fill_key item \<noteq> last prefix) (sn_allocations sn)")
      (auto simp only: list.case refusal_simps sum.inject sum.distinct split: if_splits)
  have taker: "check_taker_tail s cid n = Inl m \<Longrightarrow> refusal m" for s cid n m
    unfolding check_taker_tail_def Let_def by (auto simp only: refusal_simps sum.inject sum.distinct split: if_splits)
  have tail: "choose_suffix pj by_id pg = Inl m \<Longrightarrow> refusal m" for by_id pg m
    unfolding choose_suffix_def
    by (auto simp: bindE_Inl_iff split: list.splits option.splits) (erule dict_index_refusal maker taker)+
  show ?thesis
    using assms(1) unfolding check_source_projection_def Let_def
    by (auto simp: bindE_Inl_iff split: if_splits dest!: orders facts balances tail)
qed

text \<open>The standalone store.\<close>

definition projected_store :: "order_facts list \<Rightarrow> store \<Rightarrow> store \<Rightarrow> exn + nat \<Rightarrow> bool" where
  "projected_store orders w w' r \<longleftrightarrow>
    (if \<exists>e. r = Inl e \<and> e \<noteq> ParentDirectorySyncError
     then cu_state standalone w' = cu_state standalone w \<and> st_file w' = st_file w
     else book_complete orders [cu_state standalone w'] \<and>
       (if r = Inr 0 then w' = w
        else ss_halt_reason (cu_state standalone w') \<noteq> None \<and> ss_source_freeze_reason (cu_state standalone w') \<noteq> None \<and>
          st_file w' = Some (cu_state standalone w')))"

lemma store_projection_owner: "pj_owner_id (store_projection w) k = Inr None"
  by (simp add: store_projection_def)

lemma store_suffix:
  assumes p: "projection_plan (store_projection w) orders (Some (k, cid, side, suffix))"
    and b: "book_suffix standalone digest reason cid side suffix (upd_state standalone (hold_state reason) w) = (w', Inr u)"
  shows "book_complete orders [cu_state standalone w'] \<and> suffix \<noteq> [] \<and> ss_halt_reason (cu_state standalone w') \<noteq> None \<and>
    ss_source_freeze_reason (cu_state standalone w') \<noteq> None \<and> st_file w' = st_file w"
proof -
  let ?w = "upd_state standalone (hold_state reason) w" and ?s = "cu_state standalone w"
  have views: "pj_views (store_projection w) = [(k, ?s)]" by (simp add: store_projection_def)
  obtain so where so: "dict_get (projected_records (store_projection w)) cid = Some (k, ?s, so)"
    using p views plan_records [OF p] by (auto simp: projection_plan_def)
  have "dict_get (ss_source_orders (cu_state standalone ?w)) cid = Some so" using so plan_records [OF p] by simp
  note bk = standalone.book_suffix_Inr [OF b this]
  have stops: "same_stops (hold_state reason ?s) (cu_state standalone w') \<and> st_file w' = st_file w"
    using bk [OF plan_suffix(2) [OF p so]] plan_suffix(3) [OF p so] by simp
  have "book_complete orders (map ((\<lambda>_. cu_state standalone w') \<circ> fst) (pj_views (store_projection w))) \<and> suffix \<noteq> []"
  proof (rule suffix_completes [OF p])
    fix s so'
    assume "(k, s) \<in> set (pj_views (store_projection w))" "dict_get (ss_source_orders s) cid = Some so'"
      "distinct (map source_fill_key suffix)" "source_fill_key ` set suffix \<inter> ss_seen_source_fills s = {}"
    moreover from this(1,2) have "s = ?s" "so' = so" using views so plan_records [OF p] by auto
    ultimately show "ss_seen_source_fills (cu_state standalone w') = ss_seen_source_fills s \<union> source_fill_key ` set suffix \<and>
      (\<exists>r. dict_get (ss_source_orders (cu_state standalone w')) cid = Some r \<and>
        so_filled_ounces r = dsum (so_filled_ounces so') (map nf_last_qty suffix)) \<and>
      (\<forall>c. c \<noteq> cid \<longrightarrow> dict_get (ss_source_orders (cu_state standalone w')) c = dict_get (ss_source_orders s) c)"
      using bk by auto
  qed (simp_all add: views)
  with stops views show ?thesis by (auto simp: same_stops_def)
qed

lemma store_projected:
  assumes e: "project_store_fills digest orders instrument trader strategy reason w = (w', r)"
  shows "projected_store orders w w' r"
proof -
  let ?pj = "store_projection w" and ?s = "cu_state standalone w"
  consider (refused) m where "r = Inl m" "w' = w" "refusal m"
    | (complete) "r = Inr 0" "w' = w" "projection_plan ?pj orders None"
    | (suffix) cid side suffix where "projection_plan ?pj orders (Some ((), cid, side, suffix))"
        "rolling_back standalone ?s (bind_tx (on_view standalone (update_state (hold_state reason))) (\<lambda>_.
            bind_tx (book_suffix standalone digest reason cid side suffix) (\<lambda>_.
            bind_tx (cu_persist standalone) (\<lambda>_. ret_tx (length suffix))))) w = (w', r)"
    using e check_source_projection_Inr [of ?pj orders instrument trader strategy]
      check_source_projection_error [of ?pj orders instrument trader strategy] store_projection_owner [of w]
    by (cases "check_source_projection ?pj orders instrument trader strategy")
      (auto simp: project_store_fills_def split: if_splits option.splits)
  then show ?thesis
  proof cases
    case refused
    then show ?thesis by (auto simp: projected_store_def)
  next
    case complete
    then show ?thesis using nothing_missing [OF complete(3)] by (simp add: projected_store_def store_projection_def)
  next
    case suffix
    let ?w = "upd_state standalone (hold_state reason) w"
    obtain w2 r2 where b: "book_suffix standalone digest reason cid side suffix ?w = (w2, r2)" by fastforce
    show ?thesis
    proof (cases r2)
      case (Inl x)
      with suffix b standalone.book_suffix_Inl [OF b [unfolded Inl]] show ?thesis
        by (auto simp: rolling_back_def bind_tx_def projected_store_def)
    next
      case (Inr u)
      note c = store_suffix [OF suffix(1) b [unfolded Inr]]
      show ?thesis
        by (cases w2 rule: standalone.persist_cases)
          (use suffix(2) b Inr c in \<open>auto simp: rolling_back_def bind_tx_def projected_store_def\<close>)
    qed
  qed
qed

text \<open>The owner of the Maker views. The body of a fill touches its own view and the allocations only.\<close>

lemma step_frame:
  assumes view: "\<And>v w. q (cu_set_view cu v w) = q w" and alloc: "\<And>rec key f w n w'. cu_allocate cu rec key f w = (n, w') \<Longrightarrow> q w' = q w"
    and e: "reserve_source_fill_step cu digest key cid trade side ounces blocked w = (w', r)"
  shows "q w' = q w"
proof -
  have v: "q (fst (on_view cu m t)) = q t" for m :: "(view, 'x) tx" and t
    by (simp add: on_view_def view split: prod.splits)
  have put: "q (fst (case cu_allocate cu rec key f t of (rounded, t) \<Rightarrow>
      if rounded = 0 then (t, Inr None) else bind_tx (on_view cu (m rounded)) (\<lambda>i. ret_tx (Some i)) t)) = q t"
    for rec f t and m :: "int \<Rightarrow> (view, hedge_intent) tx"
  proof -
    obtain n u where a: "cu_allocate cu rec key f t = (n, u)" by fastforce
    have "q (fst (bind_tx (on_view cu (m n)) (\<lambda>i. ret_tx (Some i)) u)) = q u"
      by (rule bind_tx_preserves [where P = "\<lambda>x. q x = q u"]) (simp_all add: v)
    with a alloc [OF a] show ?thesis by simp
  qed
  have "q (fst (reserve_source_fill_step cu digest key cid trade side ounces blocked w)) = q w"
    unfolding reserve_source_fill_step_def
    by (simp split: option.splits)
      (intro impI allI bind_tx_preserves [where P = "\<lambda>t. q t = q w"]; simp add: put v)
  with e show ?thesis by simp
qed

lemma book_suffix_frame:
  assumes view: "\<And>v w. q (cu_set_view cu v w) = q w" and alloc: "\<And>rec key f w n w'. cu_allocate cu rec key f w = (n, w') \<Longrightarrow> q w' = q w"
    and e: "book_suffix cu digest reason cid side suffix w = (w', r)"
  shows "q w' = q w"
proof -
  have one: "q (fst (reserve_source_fill_step cu digest key cid trade side ounces blocked t)) = q t" for key trade ounces blocked t
    using step_frame [of q cu, OF view alloc prod.collapse [symmetric]] .
  have "q (fst (bind_tx (reserve_source_fill_step cu digest key cid trade side ounces blocked) (\<lambda>_. ret_tx ()) t)) = q t"
    for key trade ounces blocked t
    by (rule bind_tx_preserves [where P = "\<lambda>u. q u = q t"]) (simp_all add: one)
  then have "q (fst (book_suffix cu digest reason cid side suffix w)) = q w"
    unfolding book_suffix_def by (intro each_tx_preserves [where P = "\<lambda>t. q t = q w"]) simp_all
  with e show ?thesis by simp
qed

lemma owner_suffix_frame:
  assumes "book_suffix (maker_view k) digest reason cid side suffix w = (w', r)"
  shows "j \<noteq> k \<Longrightarrow> ow_views w' j = ow_views w j" "ow_config w' = ow_config w" "ow_file w' = ow_file w"
proof -
  define q :: "owner \<Rightarrow> _" where "q = (\<lambda>w. (ow_config w, ow_file w, if j = k then None else Some (ow_views w j)))"
  have view: "q (cu_set_view (maker_view k) v w) = q w" for v w by (simp add: q_def)
  have alloc: "q w' = q w" if "cu_allocate (maker_view k) rec key f w = (n, w')" for rec key f w n w'
    using owner_allocate_run [of rec key f w n w'] that by (simp add: q_def)
  have "q w' = q w" using book_suffix_frame [OF view alloc assms] .
  then show "j \<noteq> k \<Longrightarrow> ow_views w' j = ow_views w j" "ow_config w' = ow_config w" "ow_file w' = ow_file w"
    by (simp_all add: q_def)
qed

lemma hold_views_simps:
  "ow_config (hold_views reason w) = ow_config w" "ow_file (hold_views reason w) = ow_file w"
  "j \<in> set (view_keys (ow_config w)) \<Longrightarrow> view_of j (hold_views reason w) = hold_state reason (view_of j w)"
proof -
  let ?f = "\<lambda>k w. put_view k ((ow_views w k)\<lparr>vw_state := hold_state reason (view_of k w)\<rparr>) w"
  have "ow_config (fold ?f ks w) = ow_config w \<and> ow_file (fold ?f ks w) = ow_file w \<and>
      view_of j (fold ?f ks w) = (if j \<in> set ks then hold_state reason (view_of j w) else view_of j w)" if "distinct ks" for ks j w
    using that by (induction ks arbitrary: w) auto
  moreover have "distinct (view_keys (ow_config w))" by (simp add: view_keys_def)
  ultimately show "ow_config (hold_views reason w) = ow_config w" "ow_file (hold_views reason w) = ow_file w"
    "j \<in> set (view_keys (ow_config w)) \<Longrightarrow> view_of j (hold_views reason w) = hold_state reason (view_of j w)"
    unfolding hold_views_def by simp_all
qed

text \<open>What holds after the native fills are projected on the owner.\<close>

definition owner_views :: "owner \<Rightarrow> store_state list" where
  "owner_views w = map (\<lambda>k. view_of k w) (view_keys (ow_config w))"

definition projected_owner :: "order_facts list \<Rightarrow> owner \<Rightarrow> owner \<Rightarrow> exn + nat \<Rightarrow> bool" where
  "projected_owner orders w w' r \<longleftrightarrow>
    (if \<exists>e. r = Inl e \<and> e \<noteq> ParentDirectorySyncError
     then owner_snapshot w' = owner_snapshot w \<and> ow_file w' = ow_file w
     else book_complete orders (owner_views w') \<and>
       (if r = Inr 0 then w' = w
        else list_all (\<lambda>s. ss_halt_reason s \<noteq> None \<and> ss_source_freeze_reason s \<noteq> None) (owner_views w') \<and>
          ow_file w' = Some (owner_snapshot w') \<and> validate (ow_config w) (owner_snapshot w') = Inr ()))"

lemma owner_suffix:
  assumes p: "projection_plan (owner_projection w) orders (Some (k, cid, side, suffix))"
    and b: "book_suffix (maker_view k) digest reason cid side suffix (hold_views reason w) = (w', Inr u)"
  shows "book_complete orders (owner_views w') \<and> suffix \<noteq> [] \<and>
    list_all (\<lambda>s. ss_halt_reason s \<noteq> None \<and> ss_source_freeze_reason s \<noteq> None) (owner_views w')"
proof -
  let ?w = "hold_views reason w" and ?ks = "view_keys (ow_config w)"
  note fr = owner_suffix_frame [OF b] and h = hold_views_simps
  have cfg: "ow_config w' = ow_config w" using fr(2) h(1) by simp
  have views: "pj_views (owner_projection w) = map (\<lambda>k. (k, view_of k w)) ?ks" by (simp add: owner_projection_def)
  have dk: "distinct ?ks" by (simp add: view_keys_def)
  obtain s so where so: "dict_get (projected_records (owner_projection w)) cid = Some (k, s, so)"
    using p by (auto simp: projection_plan_def)
  then have k: "k \<in> set ?ks" "s = view_of k w" "dict_get (ss_source_orders (view_of k w)) cid = Some so"
    using plan_records [OF p] views by auto
  have "dict_get (ss_source_orders (cu_state (maker_view k) ?w)) cid = Some so" using k h(3) [OF k(1)] by simp
  note bk = maker.book_suffix_Inr [OF b this]
  have stops: "same_stops (hold_state reason (view_of k w)) (view_of k w')"
    using bk [OF plan_suffix(2) [OF p so]] plan_suffix(3) [OF p so] h(3) [OF k(1)] k(2) by simp
  have "book_complete orders (map ((\<lambda>j. view_of j w') \<circ> fst) (pj_views (owner_projection w))) \<and> suffix \<noteq> []"
  proof (rule suffix_completes [OF p])
    show "distinct (map fst (pj_views (owner_projection w)))" using dk by (simp add: views o_def)
    fix j v assume "(j, v) \<in> set (pj_views (owner_projection w))" "j \<noteq> k"
    then show "ss_seen_source_fills (view_of j w') = ss_seen_source_fills v \<and> ss_source_orders (view_of j w') = ss_source_orders v"
      using fr(1) [of j] h(3) [of j w reason] by (auto simp: views)
  next
    fix s so'
    assume "(k, s) \<in> set (pj_views (owner_projection w))" "dict_get (ss_source_orders s) cid = Some so'"
      "distinct (map source_fill_key suffix)" "source_fill_key ` set suffix \<inter> ss_seen_source_fills s = {}"
    moreover from this(1,2) have "s = view_of k w" "so' = so" using views k by auto
    ultimately show "ss_seen_source_fills (view_of k w') = ss_seen_source_fills s \<union> source_fill_key ` set suffix \<and>
      (\<exists>r. dict_get (ss_source_orders (view_of k w')) cid = Some r \<and>
        so_filled_ounces r = dsum (so_filled_ounces so') (map nf_last_qty suffix)) \<and>
      (\<forall>c. c \<noteq> cid \<longrightarrow> dict_get (ss_source_orders (view_of k w')) c = dict_get (ss_source_orders s) c)"
      using bk h(3) [OF k(1)] by auto
  qed
  moreover have "ss_halt_reason (view_of j w') \<noteq> None \<and> ss_source_freeze_reason (view_of j w') \<noteq> None" if "j \<in> set ?ks" for j
    using stops fr(1) [of j] h(3) [OF that, of reason] by (cases "j = k") (auto simp: same_stops_def)
  ultimately show ?thesis by (simp add: owner_views_def cfg views o_def list_all_iff)
qed

lemma owner_projection_owner: "pj_owner_id (owner_projection w) k = Inl e \<Longrightarrow> refusal e"
  by (auto simp: owner_projection_def strategy_id_for_def split: if_splits)

lemma owner_projected:
  assumes e: "project_owner_fills digest orders instrument trader strategy reason w = (w', r)"
  shows "projected_owner orders w w' r"
proof -
  let ?pj = "owner_projection w"
  let ?run = "\<lambda>k cid side suffix. restoring (owner_snapshot w) (bind_tx (modify_tx (hold_views reason)) (\<lambda>_.
      bind_tx (book_suffix (maker_view k) digest reason cid side suffix) (\<lambda>_.
      bind_tx owner_persist (\<lambda>_. ret_tx (length suffix))))) w"
  consider (refused) m where "r = Inl m" "w' = w" "refusal m"
    | (complete) "r = Inr 0" "w' = w" "projection_plan ?pj orders None"
    | (suffix) k cid side suffix where "projection_plan ?pj orders (Some (k, cid, side, suffix))" "?run k cid side suffix = (w', r)"
    using e check_source_projection_Inr [of ?pj orders instrument trader strategy] validate_refusal [of "ow_config w" "owner_snapshot w"]
      check_source_projection_error [of ?pj orders instrument trader strategy] owner_projection_owner [of w]
    by (cases "validate (ow_config w) (owner_snapshot w)"; cases "check_source_projection ?pj orders instrument trader strategy")
      (auto simp: project_owner_fills_def split: if_splits option.splits)
  then show ?thesis
  proof cases
    case refused
    then show ?thesis by (auto simp: projected_owner_def)
  next
    case complete
    then show ?thesis using nothing_missing [OF complete(3)]
      by (simp add: projected_owner_def owner_projection_def owner_views_def o_def)
  next
    case suffix
    obtain w2 r2 where b: "book_suffix (maker_view k) digest reason cid side suffix (hold_views reason w) = (w2, r2)" by fastforce
    have kept: "ow_file w2 = ow_file w" "ow_config w2 = ow_config w"
      using owner_suffix_frame [OF b] hold_views_simps by simp_all
    show ?thesis
    proof (cases r2)
      case (Inl x)
      with suffix(2) b kept maker.book_suffix_Inl [OF b [unfolded Inl]] show ?thesis
        by (auto simp: restoring_def bind_tx_def modify_tx_def projected_owner_def)
    next
      case (Inr u)
      note c = owner_suffix [OF suffix(1) b [unfolded Inr]]
      have rest: "(w', r) = (case owner_persist w2 of (x, Inl e) \<Rightarrow> if e = ParentDirectorySyncError then (x, Inl e)
          else (owner_restore (owner_snapshot w) x, Inl e) | (x, Inr _) \<Rightarrow> (x, Inr (length suffix)))"
        using suffix(2) b Inr by (auto simp: restoring_def bind_tx_def modify_tx_def ret_tx_def split: prod.splits sum.splits)
      show ?thesis
      proof (cases rule: owner_persist_cases [of w2])
        case p: (written x)
        have "owner_views x = owner_views w2" using p by (simp add: owner_views_def)
        with p c rest kept show ?thesis by (auto simp: projected_owner_def)
      next
        case p: (unsynced x)
        have "owner_views x = owner_views w2" using p by (simp add: owner_views_def)
        with p c rest kept show ?thesis by (auto simp: projected_owner_def)
      next
        case p: (failed x e)
        with rest kept show ?thesis by (simp add: projected_owner_def)
      qed
    qed
  qed
qed

text \<open>C25: a source projection completes the books, on the standalone store and on the owner of the Maker views.
  When it succeeds, the seen fills are exactly the fills of the native orders and every order's filled
  quantity is the native one, over all views; nothing changed if no fill was missing, and otherwise
  every view is stopped and paused, and the file holds the new state, which the owner's validation
  accepts. The same holds when only the directory sync of the write failed. Any other failure leaves
  the state of the views and the file as they were.\<close>

theorem source_projection_completes:
  assumes "project_store_fills digest orders instrument trader strategy reason w = (w', r)"
    "project_owner_fills digest orders' instrument' trader' strategy' reason' v = (v', q)"
  shows "(if \<exists>e. r = Inl e \<and> e \<noteq> ParentDirectorySyncError
     then cu_state standalone w' = cu_state standalone w \<and> st_file w' = st_file w
     else book_complete orders [cu_state standalone w'] \<and>
       (if r = Inr 0 then w' = w
        else ss_halt_reason (cu_state standalone w') \<noteq> None \<and> ss_source_freeze_reason (cu_state standalone w') \<noteq> None \<and>
          st_file w' = Some (cu_state standalone w'))) \<and>
    (if \<exists>e. q = Inl e \<and> e \<noteq> ParentDirectorySyncError
     then owner_snapshot v' = owner_snapshot v \<and> ow_file v' = ow_file v
     else book_complete orders' (owner_views v') \<and>
       (if q = Inr 0 then v' = v
        else list_all (\<lambda>s. ss_halt_reason s \<noteq> None \<and> ss_source_freeze_reason s \<noteq> None) (owner_views v') \<and>
          ow_file v' = Some (owner_snapshot v') \<and> validate (ow_config v) (owner_snapshot v') = Inr ()))"
  by (rule conjI [OF store_projected [OF assms(1), unfolded projected_store_def] owner_projected [OF assms(2), unfolded projected_owner_def]])

text \<open>An order of three ounces with no booked fill, and a native fill of two.\<close>

definition ex_native_fill :: native_fill where
  "ex_native_fill = \<lparr>nf_head = \<lparr>eh_trader_id = ''T'', eh_strategy_id = ''m'', eh_instrument_id = ''XAUT'',
      eh_client_order_id = ''o1''\<rparr>, nf_account_id = ''S'', nf_venue_order_id = ''v1'', nf_trade_id = ''t1'',
    nf_side = Some BUY, nf_order_type = ''LIMIT'', nf_last_qty = 2, nf_position_id = None\<rparr>"

definition ex_native_order :: order_facts where
  "ex_native_order = \<lparr>po_trader_id = ''T'', po_strategy_id = ''m'', po_instrument_id = ''XAUT'',
    po_client_order_id = ''o1'', po_side = Some BUY, po_order_type = ''LIMIT'', po_time_in_force = ''GTC'',
    po_is_quote_quantity = False, po_is_reduce_only = False, po_quantity = 3, po_filled_qty = 2,
    po_account_id = Some ''S'', po_venue_order_id = Some ''v1'', po_position_id = None,
    po_status = ''PARTIALLY_FILLED'', po_trade_ids = [''t1''],
    po_events = [EvInitialized (nf_head ex_native_fill) \<lparr>in_quantity = 3, in_side = Some BUY, in_order_type = ''LIMIT'',
        in_time_in_force = ''GTC'', in_quote_quantity = False, in_reduce_only = False\<rparr>,
      EvOther (nf_head ex_native_fill) None, EvFilled ex_native_fill]\<rparr>"

lemma ex_projection_plan:
  "check_source_projection (store_projection ex_begun) [ex_native_order] ''XAUT'' ''T'' ''m''
    = Inr (Some ((), ''o1'', BUY, [ex_native_fill]))"
proof -
  have z: "dsum 0 [] = 0" "dsum 0 [2] = 2" "dmul 0 1 = 0" "dadd 0 0 = 0" "dadd 0 2 = 2"
    using dadd_exact [of 0 2] dmul_unit_exact [of 0] dadd_exact [of 0 0] by simp_all
  show ?thesis
    by (simp add: check_source_projection_def store_projection_def ex_begun_state view_identity_ok_def Let_def
      projected_records_def state_orders_def dict_of_def orders_by_id_def new_source_record_def ex_route_def
      ex_native_order_def ex_native_fill_def empty_state_def no_progress_def project_order_def dict_index_def
      checked_source_fills_def first_event_def foreign_event_def order_fills_def fill_total_def z
      add_native_fill_def match_prefix_def seen_of_order_def check_recorded_facts_def check_balances_def
      booked_residual_def state_intents_def sign_of_def choose_suffix_def check_taker_tail_def)
qed

lemma ex_projected:
  "snd (project_store_fills id [ex_native_order] ''XAUT'' ''T'' ''m'' ''held'' ex_begun) = Inr 1"
proof -
  obtain w' r where e: "project_store_fills id [ex_native_order] ''XAUT'' ''T'' ''m'' ''held'' ex_begun = (w', r)" by fastforce
  have two: "dadd 0 2 = 2" "dmul 2 1 = 2" "round_hedge_ounces 2 = 2" "dsub 2 2 = 0" using dmul_unit_exact [of 2] by (simp_all add: ex_two dmul_def mult.commute)
  define s where "s = vw_state (st_view ex_begun)"
  have s: "s = empty_state\<lparr>ss_source_orders := [(''o1'', new_source_record ''o1'' BUY 3 ex_route None)],
      ss_active_source_order_id := Some ''o1''\<rparr>"
    using ex_begun_state by (simp add: s_def standalone_simps)
  have "project_store_fills id [ex_native_order] ''XAUT'' ''T'' ''m'' ''held'' ex_begun = (w', r) \<Longrightarrow> r = Inr 1"
    by (simp add: project_store_fills_def ex_projection_plan rolling_back_def bind_tx_def on_view_def update_state_def
       book_suffix_def reserve_source_fill_step_def standalone_simps book_source_fill_def s_def [symmetric] hold_state_def
       Let_def s empty_state_def new_source_record_def ex_route_def ex_native_fill_def set_order_def two signed_ounces_def
       allocate_source_fill_def allocate_fill_def put_intent_def lift_tx_def mk_hedge_intent_valid new_intent_def
       source_fill_key_def bar_join3_def valid_intent_iff intent_scalars_ok_def check_rejected_history_def persist_well ex_begun_answers
       ret_tx_def)
  then show ?thesis using e by simp
qed

text \<open>The owner whose bid view booked two ounces of an order, and the native order with one ounce more.\<close>

definition ex_owner_fill :: "string \<Rightarrow> rat \<Rightarrow> native_fill" where
  "ex_owner_fill trade q = \<lparr>nf_head = \<lparr>eh_trader_id = ''T'', eh_strategy_id = ''m'', eh_instrument_id = ''S'',
      eh_client_order_id = ''o1''\<rparr>, nf_account_id = ''a'', nf_venue_order_id = ''v1'', nf_trade_id = trade,
    nf_side = Some BUY, nf_order_type = ''LIMIT'', nf_last_qty = q, nf_position_id = None\<rparr>"

definition ex_owner_order :: order_facts where
  "ex_owner_order = \<lparr>po_trader_id = ''T'', po_strategy_id = ''m'', po_instrument_id = ''S'',
    po_client_order_id = ''o1'', po_side = Some BUY, po_order_type = ''LIMIT'', po_time_in_force = ''GTC'',
    po_is_quote_quantity = False, po_is_reduce_only = False, po_quantity = 5, po_filled_qty = 3,
    po_account_id = Some ''a'', po_venue_order_id = Some ''v1'', po_position_id = None,
    po_status = ''PARTIALLY_FILLED'', po_trade_ids = [''t1'', ''t2''],
    po_events = [EvInitialized (nf_head (ex_owner_fill ''t1'' 2)) \<lparr>in_quantity = 5, in_side = Some BUY, in_order_type = ''LIMIT'',
        in_time_in_force = ''GTC'', in_quote_quantity = False, in_reduce_only = False\<rparr>,
      EvOther (nf_head (ex_owner_fill ''t1'' 2)) None, EvFilled (ex_owner_fill ''t1'' 2), EvFilled (ex_owner_fill ''t2'' 1)]\<rparr>"

lemma ex_owner_plan:
  "check_source_projection (owner_projection ex_owner) [ex_owner_order] ''S'' ''T'' ''m''
    = Inr (Some (Bid, ''o1'', BUY, [ex_owner_fill ''t2'' 1]))"
proof -
  have z: "dsum 0 [] = 0" "dsum 0 [2, 1] = 3" "dsum 0 [2] = 2" "dmul 1 2 = 2" "dadd 0 0 = 0" "dadd 0 2 = 2" "dadd 2 1 = 3"
    using dadd_exact [of 0 2] dadd_exact [of 2 1] dmul_unit_exact [of 2] dadd_exact [of 0 0] by simp_all
  have split: "hd (split_bar ''o1|v1|t1'') = ''o1''" by simp
  then have seen: "seen_of_order ''o1'' {''o1|v1|t1''} = {''o1|v1|t1''}" by (auto simp: seen_of_order_def)
  show ?thesis
    by (simp add: check_source_projection_def owner_projection_def ex_owner_def ex_snapshot_def ex_bid_def view_keys_def ex_cfg_def
      view_identity_ok_def Let_def strategy_id_for_def
      projected_records_def state_orders_def dict_of_def orders_by_id_def ex_order_def owner_snapshot_def
      ex_owner_order_def ex_owner_fill_def empty_state_def no_progress_def project_order_def dict_index_def
      checked_source_fills_def first_event_def foreign_event_def order_fills_def fill_total_def z
      add_native_fill_def match_prefix_def seen check_recorded_facts_def check_balances_def check_recorded_intent_def
      check_maker_allocations_def source_fill_key_def bar_join3_def ex_hedge_def new_intent_def route_of_def
      booked_residual_def state_intents_def sign_of_def choose_suffix_def validate_source_projection_tail_def)
qed

text \<open>The state of the bid view with the missing fill booked.\<close>

definition ex_held_intent :: hedge_intent where
  "ex_held_intent = new_intent id ''o1|v1|t2'' ''o1'' ''t2'' BUY 1 (Some ''held'') ex_order 1"

definition ex_held_bid :: store_state where
  "ex_held_bid = ex_bid\<lparr>ss_source_orders := [(''o1'', ex_order\<lparr>so_filled_ounces := 3\<rparr>)],
     ss_seen_source_fills := {''o1|v1|t1'', ''o1|v1|t2''}, ss_halt_reason := Some ''held'', ss_source_freeze_reason := Some ''held'',
     ss_hedge_intents := [(hi_intent_id ex_hedge, ex_hedge), (hi_intent_id ex_held_intent, ex_held_intent)]\<rparr>"

definition ex_held_snapshot :: snapshot where
  "ex_held_snapshot = \<lparr>sn_states = (\<lambda>k. if k = Bid then ex_held_bid else hold_state ''held'' empty_state),
     sn_allocations = sn_allocations ex_snapshot @ [\<lparr>al_fill_key = ''o1|v1|t2'', al_route = route_of ex_order,
       al_signed_fill_ounces = 1, al_allocated_ounces = 1\<rparr>], sn_cycle_freeze_only = False\<rparr>"

lemma ex_held_valid: "validate ex_cfg ex_held_snapshot = Inr ()"
  by (simp add: validate_def ex_cfg_def ex_held_snapshot_def ex_held_bid_def ex_held_intent_def ex_snapshot_def view_keys_def
    validate_view_def Let_def no_identities_def hold_state_def
    validate_orders_def validate_order_def validate_source_fills_def validate_intents_def validate_intent_def
    validate_hedge_fills_def ex_bid_def empty_state_def ex_hedge_def new_intent_def ex_order_def source_fill_key_ok_def
    source_trade_def intent_order_ids_def intent_order_list_def validate_allocations_def all_records_def all_intents_def all_seen_def
    dict_of_def state_intents_def validate_checkpoint_def checkpoint_balances_def replay_allocation_def dict_index_def ex_two ex_one
    route_of_def insert_commute)

lemma ex_owner_booked:
  "\<exists>w2. book_suffix (maker_view Bid) id ''held'' ''o1'' BUY [ex_owner_fill ''t2'' 1] (hold_views ''held'' ex_owner) = (w2, Inr ()) \<and>
    owner_snapshot w2 = ex_held_snapshot \<and> ow_answers w2 = [] \<and> ow_config w2 = ex_cfg \<and> \<not> ow_freeze_publication_failed w2"
proof -
  define w1 where "w1 = hold_views ''held'' ex_owner"
  have w1: "view_of Bid w1 = hold_state ''held'' ex_bid" "view_of Ask w1 = hold_state ''held'' empty_state"
      "view_of Taker w1 = hold_state ''held'' empty_state" "ow_config w1 = ex_cfg"
    using hold_views_simps [where reason = "''held''" and w = ex_owner] ex_view_keys by (simp_all add: w1_def ex_owner_def ex_snapshot_def)
  have w1': "ow_allocations w1 = sn_allocations ex_snapshot" "ow_answers w1 = []" "\<not> ow_freeze_publication_failed w1"
      "\<not> ow_cycle_freeze_only w1"
    by (simp_all add: w1_def hold_views_def ex_view_keys ex_owner_def put_view_def)
  define b where "b = hold_state ''held'' ex_bid"
  have b: "b = ex_bid\<lparr>ss_halt_reason := Some ''held'', ss_source_freeze_reason := Some ''held''\<rparr>"
    by (simp add: b_def hold_state_def ex_bid_def empty_state_def)
  let ?r = "ex_order\<lparr>so_filled_ounces := 3\<rparr>"
  let ?s1 = "b\<lparr>ss_seen_source_fills := {''o1|v1|t2'', ''o1|v1|t1''}, ss_source_orders := [(''o1'', ?r)]\<rparr>"
  let ?v1 = "(ow_views w1 Bid)\<lparr>vw_state := ?s1\<rparr>"
  have book: "book_source_fill ''o1|v1|t2'' ''o1'' BUY 1 (Some ''held'') ex_order (ow_views w1 Bid) = (?v1, Inr ())"
    using w1(1) by (simp add: book_source_fill_def ex_one b_def [symmetric] update_state_def modify_tx_def set_order_def Let_def)
      (simp add: b ex_order_def ex_one ex_bid_def)
  let ?w = "put_view Bid ?v1 w1"
  have "route_balances ex_cfg (owner_snapshot ?w) = [(route_of ex_order, 0, Bid)]"
    by (simp add: route_balances_def w1' ex_snapshot_def checkpoint_balances_def ex_cfg_def
        add_to_balance_def fill_view_def view_keys_def ex_two w1 hold_state_def empty_state_def)
  then have al: "owner_allocate ex_order ''o1|v1|t2'' 1 ?w = (1, ?w\<lparr>ow_allocations := sn_allocations ex_held_snapshot\<rparr>)"
    by (simp add: owner_allocate_def w1 w1' ex_one ex_held_snapshot_def)
  have "valid_intent ex_held_intent"
    by (simp add: ex_held_intent_def new_intent_def valid_intent_iff intent_scalars_ok_def check_rejected_history_def ex_order_def)
  then have mk: "mk_hedge_intent ex_held_intent = Inr ex_held_intent" by (rule mk_hedge_intent_valid)
  let ?w2 = "put_view Bid (?v1\<lparr>vw_state := ?s1\<lparr>ss_hedge_intents := dict_set (hi_intent_id ex_held_intent) ex_held_intent
      (ss_hedge_intents ?s1)\<rparr>\<rparr>) (?w\<lparr>ow_allocations := sn_allocations ex_held_snapshot\<rparr>)"
  have o1: "dict_get (ss_source_orders ex_bid) ''o1'' = Some ex_order" "''o1|v1|t2'' \<notin> ss_seen_source_fills ex_bid" by (simp_all add: ex_bid_def)
  have keys: "source_fill_key (ex_owner_fill ''t2'' 1) = ''o1|v1|t2''" "nf_trade_id (ex_owner_fill ''t2'' 1) = ''t2''"
    "nf_last_qty (ex_owner_fill ''t2'' 1) = 1"
    by (simp_all add: source_fill_key_def ex_owner_fill_def bar_join3_def)
  have sg: "signed_ounces BUY 1 = 1" by (simp add: signed_ounces_def)
  have run: "book_suffix (maker_view Bid) id ''held'' ''o1'' BUY [ex_owner_fill ''t2'' 1] w1 = (?w2, Inr ())"
    by (simp add: book_suffix_def reserve_source_fill_step_def keys w1(1) o1 bind_tx_def on_view_def book sg al
        put_intent_def ex_held_intent_def [symmetric] mk lift_tx_def update_state_def modify_tx_def ret_tx_def)
  have view: "view_of k ?w2 = sn_states ex_held_snapshot k" for k
    using w1 by (cases k) (simp_all add: ex_held_snapshot_def ex_held_bid_def b ex_bid_def insert_commute ex_hedge_def
        ex_held_intent_def new_intent_def)
  have "owner_snapshot ?w2 = ex_held_snapshot"
    using w1'(4) by (simp only: owner_snapshot_def view) (simp add: ex_held_snapshot_def)
  moreover have "ow_answers ?w2 = [] \<and> ow_config ?w2 = ex_cfg \<and> \<not> ow_freeze_publication_failed ?w2"
    using w1(4) w1' by (simp add: put_view_def)
  ultimately show ?thesis using run unfolding w1_def by blast
qed

lemma ex_owner_projected:
  "snd (project_owner_fills id [ex_owner_order] ''S'' ''T'' ''m'' ''held'' ex_owner) = Inr 1"
proof -
  have snap: "owner_snapshot ex_owner = ex_snapshot" "ow_config ex_owner = ex_cfg" "oc_source_instrument_id ex_cfg = ''S''"
    by (simp_all add: ex_owner_def owner_snapshot_def ex_cfg_def) (simp add: ex_snapshot_def)
  obtain w2 where b: "book_suffix (maker_view Bid) id ''held'' ''o1'' BUY [ex_owner_fill ''t2'' 1] (hold_views ''held'' ex_owner) = (w2, Inr ())"
    and w2: "owner_snapshot w2 = ex_held_snapshot" "ow_answers w2 = []" "ow_config w2 = ex_cfg" "\<not> ow_freeze_publication_failed w2"
    using ex_owner_booked by blast
  have "owner_persist w2 = (fst (owner_persist w2), Inr ())"
    using w2 by (simp add: owner_persist_def settled_def Let_def ex_held_valid persist_payload_def next_answer_def all_well_def
        replace_and_sync_parent_def publish_and_sync_parent_def)
  then obtain w3 where "owner_persist w2 = (w3, Inr ())" by metis
  then show ?thesis
    by (simp add: project_owner_fills_def snap ex_snapshot_valid ex_owner_plan restoring_def bind_tx_def modify_tx_def b ret_tx_def)
qed

theorem source_projection_completes_witness:
  "case project_store_fills id [ex_native_order] ''XAUT'' ''T'' ''m'' ''held'' ex_begun of (w', r) \<Rightarrow>
   case project_owner_fills id [ex_owner_order] ''S'' ''T'' ''m'' ''held'' ex_owner of (v', q) \<Rightarrow>
     r = Inr 1 \<and> q = Inr 1 \<and> book_complete [ex_native_order] [cu_state standalone w'] \<and> st_file w' = Some (cu_state standalone w') \<and>
     book_complete [ex_owner_order] (owner_views v') \<and> ow_file v' = Some (owner_snapshot v')"
proof -
  obtain w' r where e: "project_store_fills id [ex_native_order] ''XAUT'' ''T'' ''m'' ''held'' ex_begun = (w', r)" by fastforce
  obtain v' q where f: "project_owner_fills id [ex_owner_order] ''S'' ''T'' ''m'' ''held'' ex_owner = (v', q)" by fastforce
  have "r = Inr 1" "q = Inr 1" using e f ex_projected ex_owner_projected by simp_all
  with source_projection_completes [OF e f] e f show ?thesis by simp
qed

end
