(* ===== verification/Hedge_Projection.thy ===== *)
theory Hedge_Projection
  imports Source_Projection Hedge_Cycle
begin

text \<open>
  \<^verbatim>\<open>hedge_projection.py\<close>: the native fills of all bound hedge orders are compared with the durable
  intents, and only the missing fills of complete current orders are booked, with every view held.
  The views of a projection are those of \<^verbatim>\<open>Source_Projection\<close>.
\<close>

section \<open>The order history of an intent\<close>

definition hedge_fill_key :: "native_fill \<Rightarrow> string" where
  "hedge_fill_key fill = bar_join2 (nf_client_order_id fill) (nf_trade_id fill)"

definition planned_history :: "hedge_intent \<Rightarrow> exn + string list" where
  "planned_history intent =
    (let ids = hedge_leg_order_ids intent; current = hi_hedge_client_order_id intent;
         index = hi_hedge_leg_index intent; plan = hi_hedge_plan intent in
     if length ids \<noteq> index + (if current \<noteq> None then 1 else 0)
       \<or> (case current of None \<Rightarrow> False | Some c \<Rightarrow> index = length plan \<or> c \<noteq> ids ! index) then
       Inl (ValueError ''hedge projection plan order history differs from its current leg'')
     else if hi_hedge_position_id intent \<noteq> None \<and>
       (length plan \<noteq> 1 \<or> leg_position_id (plan ! 0) \<noteq> hi_hedge_position_id intent
        \<or> (hi_hedge_position_quantity_ounces intent \<noteq> None
            \<and> leg_expected_position_quantity_ounces (plan ! 0) \<noteq> hi_hedge_position_quantity_ounces intent)) then
       Inl (ValueError ''hedge projection plan differs from the bound exit ticket'')
     else Inr ids)"

definition unplanned_history :: "hedge_intent \<Rightarrow> exn + string list" where
  "unplanned_history intent =
    (let ids = (case hi_hedge_client_order_id intent of
           Some c \<Rightarrow> if hedge_leg_order_ids intent = [] then [c] else hedge_leg_order_ids intent
         | None \<Rightarrow> hedge_leg_order_ids intent) in
     if 1 < length ids \<or> (ids \<noteq> [] \<and> hi_hedge_client_order_id intent \<noteq> Some (ids ! 0)) then
       Inl (ValueError ''hedge projection unplanned history has no unique current order'')
     else if (case hi_hedge_position_quantity_ounces intent of None \<Rightarrow> False
         | Some q \<Rightarrow> q < hi_hedge_quantity_ounces intent) then
       Inl (ValueError ''hedge projection unplanned close exceeds its bound ticket'')
     else Inr ids)"

definition bound_order_ids :: "hedge_intent \<Rightarrow> source_order_record \<Rightarrow> exn + string list" where
  "bound_order_ids intent record =
    (if (hi_hedge_position_id intent, hi_hedge_position_quantity_ounces intent)
         \<noteq> (so_hedge_position_id record, so_hedge_position_quantity_ounces record) then
       Inl (ValueError ''hedge projection source/intent ticket binding differs'')
     else bindE (if hi_hedge_plan intent \<noteq> [] then planned_history intent else unplanned_history intent)
       (\<lambda>ids. if \<not> distinct ids \<or> list_ex (\<lambda>cid. cid = [] \<or> CHR ''|'' \<in> set cid) ids then
          Inl (ValueError ''hedge projection order history identity is not unique'')
        else Inr ids))"

section \<open>One order\<close>

definition expected_leg :: "hedge_intent \<Rightarrow> nat \<Rightarrow> rat \<times> string option" where
  "expected_leg intent index = (if hi_hedge_plan intent \<noteq> [] then
      (leg_quantity_ounces (hi_hedge_plan intent ! index), leg_position_id (hi_hedge_plan intent ! index))
    else (hi_hedge_quantity_ounces intent, hi_hedge_position_id intent))"

definition checked_hedge_fills ::
  "order_facts \<Rightarrow> source_order_record \<Rightarrow> hedge_intent \<Rightarrow> nat \<Rightarrow> string \<Rightarrow> string \<Rightarrow> string \<Rightarrow> exn + native_fill list"
where
  "checked_hedge_fills order record intent index instrument trader strategy =
    (let (quantity, position) = expected_leg intent index; side = Some (hi_hedge_side intent) in
     case first_event order of None \<Rightarrow> Inl (ValueError ''hedge projection requires original native initialization'')
     | Some initial \<Rightarrow>
       if po_trader_id order \<noteq> trader \<or> po_strategy_id order \<noteq> strategy
         \<or> po_instrument_id order \<noteq> instrument \<or> po_side order \<noteq> side
         \<or> po_order_type order \<noteq> ''MARKET'' \<or> po_time_in_force order \<noteq> ''FOK''
         \<or> po_is_quote_quantity order \<or> po_is_reduce_only order \<noteq> (position \<noteq> None)
         \<or> po_quantity order \<noteq> quantity \<or> in_quantity initial \<noteq> quantity
         \<or> in_side initial \<noteq> side \<or> in_order_type initial \<noteq> ''MARKET''
         \<or> in_time_in_force initial \<noteq> ''FOK'' \<or> in_quote_quantity initial
         \<or> in_reduce_only initial \<noteq> (position \<noteq> None)
         \<or> (case (so_hedge_account_id record, po_account_id order) of (Some a, Some b) \<Rightarrow> a \<noteq> b | _ \<Rightarrow> False)
         \<or> (case (position, po_position_id order) of (Some a, Some b) \<Rightarrow> a \<noteq> b | _ \<Rightarrow> False)
       then Inl (ValueError (''hedge projection order or ticket facts differ: '' @ po_client_order_id order))
       else if list_ex (\<lambda>e. foreign_event order instrument trader strategy e
           \<or> (event_account e \<noteq> None \<and> event_account e \<noteq> po_account_id order)) (po_events order)
       then Inl (ValueError ''hedge projection event ownership differs'')
       else let fills = order_fills order in
       if list_ex (\<lambda>f. Some (nf_account_id f) \<noteq> po_account_id order \<or> Some (nf_venue_order_id f) \<noteq> po_venue_order_id order
           \<or> CHR ''|'' \<in> set (nf_trade_id f) \<or> nf_side f \<noteq> side \<or> nf_order_type f \<noteq> ''MARKET''
           \<or> nf_position_id f = None \<or> nf_position_id f \<noteq> po_position_id order \<or> nf_last_qty f \<le> 0) fills
       then Inl (ValueError ''hedge projection fill identity, ticket or quantity differs'')
       else if fill_total fills \<noteq> po_filled_qty order \<or> quantity < fill_total fills
         \<or> po_trade_ids order \<noteq> map nf_trade_id fills
         \<or> (po_status order = ''FILLED'' \<and> fill_total fills \<noteq> quantity)
       then Inl (ValueError ''hedge projection native fill history is incomplete'')
       else Inr fills)"

section \<open>The bound orders\<close>

record 'k hedge_binding =
  hb_view :: 'k
  hb_state :: store_state
  hb_intent :: hedge_intent
  hb_record :: source_order_record
  hb_index :: nat

record 'k hedge_identities =
  hid_sources :: "string set"
  hid_intents :: "string set"
  hid_source_fills :: "string set"
  hid_bindings :: "(string \<times> 'k hedge_binding) list"

definition no_hedge_identities :: "'k hedge_identities" where
  "no_hedge_identities = \<lparr>hid_sources = {}, hid_intents = {}, hid_source_fills = {}, hid_bindings = []\<rparr>"

definition identify_source :: "string \<times> source_order_record \<Rightarrow> 'k hedge_identities \<Rightarrow> exn + 'k hedge_identities" where
  "identify_source = (\<lambda>(cid, record) ids.
     if cid = [] \<or> cid \<noteq> so_client_order_id record \<or> cid \<in> hid_sources ids then
       Inl (ValueError ''hedge projection source dictionary identity differs'')
     else Inr (ids\<lparr>hid_sources := insert cid (hid_sources ids)\<rparr>))"

definition bind_order_id ::
  "string \<Rightarrow> string \<Rightarrow> 'k hedge_binding \<Rightarrow> 'k hedge_identities \<Rightarrow> exn + 'k hedge_identities"
where
  "bind_order_id message cid b ids =
    (if dict_get (hid_bindings ids) cid \<noteq> None then Inl (ValueError message)
     else Inr (ids\<lparr>hid_bindings := dict_set cid b (hid_bindings ids)\<rparr>))"

definition intent_identity_ok :: "store_state \<Rightarrow> string \<times> hedge_intent \<Rightarrow> 'k hedge_identities \<Rightarrow> bool" where
  "intent_identity_ok s = (\<lambda>(identity, intent) ids. let parts = split_bar (hi_fill_key intent) in
     identity \<noteq> [] \<and> identity = hi_intent_id intent \<and> identity \<notin> hid_intents ids
     \<and> hi_fill_key intent \<notin> hid_source_fills ids
     \<and> (case dict_get (ss_source_orders s) (hi_source_client_order_id intent) of None \<Rightarrow> False
        | Some record \<Rightarrow> hi_source_side intent = so_side record)
     \<and> hi_fill_key intent \<in> ss_seen_source_fills s
     \<and> length parts = 3 \<and> list_all (\<lambda>p. p \<noteq> []) parts
     \<and> parts ! 0 = hi_source_client_order_id intent \<and> parts ! 2 = hi_source_trade_id intent)"

definition bind_attempt ::
  "'k \<Rightarrow> store_state \<Rightarrow> hedge_intent \<Rightarrow> source_order_record \<Rightarrow> 'k hedge_identities \<Rightarrow> exn + 'k hedge_identities"
where
  "bind_attempt k s intent record ids = (case hi_rejected_attempt intent of None \<Rightarrow> Inr ids
     | Some a \<Rightarrow> bind_order_id ''hedge projection rejected order belongs to multiple intents'' (ra_client_order_id a)
         \<lparr>hb_view = k, hb_state = s, hb_intent = intent, hb_record = record, hb_index = ra_leg_index a\<rparr> ids)"

definition identify_intent ::
  "'k \<Rightarrow> store_state \<Rightarrow> string \<times> hedge_intent \<Rightarrow> 'k hedge_identities \<Rightarrow> exn + 'k hedge_identities"
where
  "identify_intent k s = (\<lambda>(identity, intent) ids.
     if \<not> intent_identity_ok s (identity, intent) ids then
       Inl (ValueError ''hedge projection intent source identity differs'')
     else
     let record = the (dict_get (ss_source_orders s) (hi_source_client_order_id intent));
         ids = ids\<lparr>hid_intents := insert identity (hid_intents ids),
           hid_source_fills := insert (hi_fill_key intent) (hid_source_fills ids)\<rparr> in
     bindE (bound_order_ids intent record) (\<lambda>cids.
     bindE (foldE (\<lambda>(index, cid). bind_order_id ''hedge projection order belongs to multiple intents'' cid
         \<lparr>hb_view = k, hb_state = s, hb_intent = intent, hb_record = record, hb_index = index\<rparr>)
         (zip [0..<length cids] cids) ids)
       (bind_attempt k s intent record)))"

definition identify_view ::
  "'k \<times> store_state \<Rightarrow> 'k hedge_identities \<Rightarrow> exn + 'k hedge_identities"
where
  "identify_view = (\<lambda>(k, s) ids.
     if (case ss_active_source_order_id s of None \<Rightarrow> False | Some cid \<Rightarrow> dict_get (ss_source_orders s) cid = None) then
       Inl (ValueError ''hedge projection active source identity differs'')
     else bindE (foldE identify_source (ss_source_orders s) ids) (foldE (identify_intent k s) (ss_hedge_intents s)))"

section \<open>The native history of the bound orders\<close>

record 'k hedge_progress =
  hg_trades :: "(string \<times> string) set"
  hg_totals :: "string \<Rightarrow> rat"
  hg_current_totals :: "string \<Rightarrow> rat"
  hg_keys :: "'k \<Rightarrow> string set"
  hg_missing :: "('k \<times> native_fill) list"

definition no_hedge_progress :: "'k hedge_progress" where
  "no_hedge_progress = \<lparr>hg_trades = {}, hg_totals = (\<lambda>_. 0), hg_current_totals = (\<lambda>_. 0), hg_keys = (\<lambda>_. {}), hg_missing = []\<rparr>"

definition add_hedge_trade :: "native_fill \<Rightarrow> 'k hedge_progress \<Rightarrow> exn + 'k hedge_progress" where
  "add_hedge_trade fill pg =
    (if (nf_account_id fill, nf_trade_id fill) \<in> hg_trades pg then
       Inl (ValueError ''hedge projection native TradeId is duplicated'')
     else Inr (pg\<lparr>hg_trades := insert (nf_account_id fill, nf_trade_id fill) (hg_trades pg)\<rparr>))"

text \<open>The seen fills of an order are its first native fills; only a complete current order may miss some.\<close>

definition match_hedge_prefix ::
  "string \<Rightarrow> 'k hedge_binding \<Rightarrow> order_facts \<Rightarrow> native_fill list \<Rightarrow> 'k hedge_progress \<Rightarrow> exn + 'k hedge_progress"
where
  "match_hedge_prefix cid b order fills pg =
    (let intent = hb_intent b; iid = hi_intent_id intent; keys = map hedge_fill_key fills;
         seen = {key \<in> ss_seen_hedge_fills (hb_state b). hd (split_bar key) = cid}; count = card seen;
         prefix = fill_total (take count fills); current = (Some cid = hi_hedge_client_order_id intent) in
     if seen \<noteq> set (take count keys) then
       Inl (ValueError ''hedge projection seen fills are not a complete contiguous prefix'')
     else if \<not> current \<and> (po_status order \<noteq> ''FILLED'' \<or> count \<noteq> length fills) then
       Inl (ValueError ''hedge projection advanced historical leg is incomplete'')
     else if drop count fills \<noteq> [] \<and> (hi_status intent = COMPLETED \<or> \<not> current \<or> po_status order \<noteq> ''FILLED'') then
       Inl (ValueError ''hedge projection missing fills require a complete current FOK'')
     else Inr (pg\<lparr>hg_keys := (hg_keys pg)(hb_view b := hg_keys pg (hb_view b) \<union> set keys),
       hg_totals := (hg_totals pg)(iid := dadd (hg_totals pg iid) prefix),
       hg_current_totals := (if current then (hg_current_totals pg)(iid := prefix) else hg_current_totals pg),
       hg_missing := hg_missing pg @ map (\<lambda>fill. (hb_view b, fill)) (drop count fills)\<rparr>))"

definition project_hedge_order ::
  "'k projection \<Rightarrow> (string \<times> order_facts) list \<Rightarrow> string \<Rightarrow> string \<Rightarrow> string \<Rightarrow>
    string \<times> 'k hedge_binding \<Rightarrow> 'k hedge_progress \<Rightarrow> exn + 'k hedge_progress"
where
  "project_hedge_order pj by_id instrument trader strategy = (\<lambda>(cid, b) pg.
     bindE (dict_index by_id cid) (\<lambda>order.
     bindE (pj_owner_id pj (hb_view b)) (\<lambda>owner_id.
     bindE (checked_hedge_fills order (hb_record b) (hb_intent b) (hb_index b) instrument trader
         (case owner_id of Some i \<Rightarrow> if i \<noteq> [] then i else strategy | None \<Rightarrow> strategy)) (\<lambda>fills.
     if is_rejected_attempt (hb_intent b) cid then
       (if po_status order \<noteq> ''REJECTED'' \<or> po_filled_qty order \<noteq> 0 \<or> fills \<noteq> [] \<or> po_trade_ids order \<noteq> [] then
          Inl (ValueError ''hedge projection archived rejection has conflicting native facts'')
        else Inr pg)
     else bindE (foldE add_hedge_trade fills pg) (match_hedge_prefix cid b order fills)))))"

section \<open>The recorded progress\<close>

definition check_intent_progress :: "'k hedge_progress \<Rightarrow> hedge_intent \<Rightarrow> exn + unit" where
  "check_intent_progress pg intent =
    (let total = hg_totals pg (hi_intent_id intent) in
     if total \<noteq> hi_hedge_filled_ounces intent \<or> hi_hedge_quantity_ounces intent < total then
       Inl (ValueError ''hedge projection seen prefix differs from aggregate fill'')
     else if hi_hedge_plan intent \<noteq> [] \<and> (hg_current_totals pg (hi_intent_id intent) \<noteq> hi_hedge_leg_filled_ounces intent
         \<or> total \<noteq> dsum (hi_hedge_leg_filled_ounces intent)
             (map leg_quantity_ounces (take (hi_hedge_leg_index intent) (hi_hedge_plan intent)))) then
       Inl (ValueError ''hedge projection seen prefix differs from current leg progress'')
     else if hi_status intent = COMPLETED \<and> total \<noteq> hi_hedge_quantity_ounces intent then
       Inl (ValueError ''hedge projection completed intent is not fully seen'')
     else Inr ())"

definition check_view_progress :: "'k hedge_progress \<Rightarrow> 'k \<times> store_state \<Rightarrow> exn + unit" where
  "check_view_progress pg = (\<lambda>(k, s).
     if \<not> ss_seen_hedge_fills s \<subseteq> hg_keys pg k then
       Inl (ValueError ''hedge projection seen fill has no owned native order'')
     else foldE (\<lambda>intent _. check_intent_progress pg intent) (state_intents s) ())"

text \<open>Everything before the effect: the missing fills with their views, in the order they are booked.\<close>

definition check_hedge_projection ::
  "'k projection \<Rightarrow> order_facts list \<Rightarrow> string \<Rightarrow> string \<Rightarrow> string \<Rightarrow> exn + ('k \<times> native_fill) list"
where
  "check_hedge_projection pj orders instrument trader strategy =
    bindE (foldE identify_view (pj_views pj) no_hedge_identities) (\<lambda>ids.
    let by_id = orders_by_id orders in
    if hid_sources ids \<inter> dict_keys (hid_bindings ids) \<noteq> {} \<or> length by_id \<noteq> length orders
      \<or> dict_keys by_id \<noteq> dict_keys (hid_bindings ids) then
      Inl (ValueError ''hedge projection requires the exact complete hedge order set'')
    else bindE (foldE (project_hedge_order pj by_id instrument trader strategy) (hid_bindings ids) no_hedge_progress) (\<lambda>pg.
    bindE (foldE (\<lambda>view _. check_view_progress pg view) (pj_views pj) ()) (\<lambda>_. Inr (hg_missing pg))))"

section \<open>The effect\<close>

definition book_missing :: "('k \<Rightarrow> 'w custody) \<Rightarrow> string \<Rightarrow> ('k \<times> native_fill) list \<Rightarrow> ('w, unit) tx" where
  "book_missing cu reason = each_tx (\<lambda>(k, fill). bind_tx (on_view (cu k) (apply_hedge_fill_step
     (nf_client_order_id fill) (nf_trade_id fill) (nf_last_qty fill) (Some reason))) (\<lambda>_. ret_tx ()))"

definition project_store_hedges ::
  "order_facts list \<Rightarrow> string \<Rightarrow> string \<Rightarrow> string \<Rightarrow> string \<Rightarrow> (store, nat) tx"
where
  "project_store_hedges orders instrument trader strategy reason = (\<lambda>w.
     if reason = [] then (w, Inl (ValueError ''hedge projection requires a non-empty HOLD reason''))
     else case check_hedge_projection (store_projection w) orders instrument trader strategy of
       Inl e \<Rightarrow> (w, Inl e)
     | Inr missing \<Rightarrow>
         if missing = [] then (w, Inr 0)
         else rolling_back standalone (cu_state standalone w)
           (bind_tx (on_view standalone (update_state (hold_state reason))) (\<lambda>_.
            bind_tx (book_missing (\<lambda>_. standalone) reason missing) (\<lambda>_.
            bind_tx (cu_persist standalone) (\<lambda>_. ret_tx (length missing))))) w)"

definition project_owner_hedges ::
  "order_facts list \<Rightarrow> string \<Rightarrow> string \<Rightarrow> string \<Rightarrow> string \<Rightarrow> (owner, nat) tx"
where
  "project_owner_hedges orders instrument trader strategy reason = (\<lambda>w.
     if reason = [] then (w, Inl (ValueError ''hedge projection requires a non-empty HOLD reason''))
     else if oc_hedge_instrument_id (ow_config w) \<noteq> instrument then
       (w, Inl (ValueError ''hedge projection Maker instrument differs''))
     else case bindE (validate (ow_config w) (owner_snapshot w))
         (\<lambda>_. check_hedge_projection (owner_projection w) orders instrument trader strategy) of
       Inl e \<Rightarrow> (w, Inl e)
     | Inr missing \<Rightarrow>
         if missing = [] then (w, Inr 0)
         else restoring (owner_snapshot w)
           (bind_tx (modify_tx (hold_views reason)) (\<lambda>_.
            bind_tx (book_missing maker_view reason missing) (\<lambda>_.
            bind_tx owner_persist (\<lambda>_. ret_tx (length missing))))) w)"

section \<open>The bound orders of a store\<close>

text \<open>A loop that raises on no element keeps what every step extends.\<close>

lemma foldE_done:
  assumes "foldE f xs s = Inr s'" "P [] s" "\<And>d x s s'. x \<in> set xs \<Longrightarrow> P d s \<Longrightarrow> f x s = Inr s' \<Longrightarrow> P (d @ [x]) s'"
  shows "P xs s'"
proof -
  have "foldE f ys t = Inr t' \<Longrightarrow> P d t \<Longrightarrow> set ys \<subseteq> set xs \<Longrightarrow> P (d @ ys) t'" for ys t t' d
  proof (induction ys arbitrary: d t)
    case (Cons y ys)
    then obtain t1 where "f y t = Inr t1" "foldE f ys t1 = Inr t'" by (auto simp: bindE_Inr_iff)
    then show ?case using Cons.IH [of t1 "d @ [y]"] Cons.prems(2,3) assms(3) [of y d t t1] by simp
  qed simp
  from this [of xs s s' "[]"] assms(1,2) show ?thesis by simp
qed

lemma bind_order_id_Inr:
  "bind_order_id m cid b ids = Inr ids' \<longleftrightarrow> cid \<notin> dict_keys (hid_bindings ids) \<and>
    ids' = ids\<lparr>hid_bindings := hid_bindings ids @ [(cid, b)]\<rparr>"
  by (auto simp: bind_order_id_def map_of_eq_None_iff dict_set_fresh)

lemma bind_order_ids_Inr:
  assumes "foldE (\<lambda>(n, cid). bind_order_id m cid (B n)) xs ids = Inr ids'" "distinct (map fst (hid_bindings ids))"
  shows "hid_bindings ids' = hid_bindings ids @ map (\<lambda>(n, cid). (cid, B n)) xs \<and> distinct (map fst (hid_bindings ids'))"
proof (rule foldE_done [OF assms(1), where P = "\<lambda>d t. hid_bindings t = hid_bindings ids @ map (\<lambda>(n, cid). (cid, B n)) d \<and>
      distinct (map fst (hid_bindings t))"])
  fix d x and t t' :: "'a hedge_identities"
  assume t: "hid_bindings t = hid_bindings ids @ map (\<lambda>(n, cid). (cid, B n)) d \<and> distinct (map fst (hid_bindings t))"
    and x: "(case x of (n, cid) \<Rightarrow> bind_order_id m cid (B n)) t = Inr t'"
  obtain n cid where n: "x = (n, cid)" by (cases x)
  have t': "hid_bindings t' = hid_bindings t @ [(cid, B n)]" "cid \<notin> dict_keys (hid_bindings t)"
    using x by (simp_all add: n bind_order_id_Inr)
  have "distinct (map fst (hid_bindings t'))" using conjunct2 [OF t] t'(2) unfolding t'(1) by simp
  then show "hid_bindings t' = hid_bindings ids @ map (\<lambda>(n, cid). (cid, B n)) (d @ [x]) \<and> distinct (map fst (hid_bindings t'))"
    using t t'(1) n by simp
qed (use assms(2) in simp)

lemma history_current:
  "planned_history intent = Inr ids \<Longrightarrow> hi_hedge_client_order_id intent = Some c \<Longrightarrow> c \<in> set ids"
  "unplanned_history intent = Inr ids \<Longrightarrow> hi_hedge_client_order_id intent = Some c \<Longrightarrow> c \<in> set ids"
  by (simp add: planned_history_def Let_def del: not_None_eq) (auto simp: unplanned_history_def Let_def nth_Cons split: if_splits)

lemma bound_order_ids_Inr:
  assumes "bound_order_ids intent record = Inr cids"
  shows "hi_hedge_client_order_id intent = Some c \<Longrightarrow> c \<in> set cids" "cid \<in> set cids \<Longrightarrow> CHR ''|'' \<notin> set cid"
  using assms history_current [of intent cids c]
  by (auto simp: bound_order_ids_def bindE_Inr_iff list_ex_iff simp del: not_None_eq split: if_splits)

text \<open>Every order of an intent is bound to it, and to no other.\<close>

definition binds :: "store_state \<Rightarrow> (string \<times> hedge_intent) list \<Rightarrow> (string \<times> 'k hedge_binding) list \<Rightarrow> bool" where
  "binds s xs bs \<longleftrightarrow> distinct (map fst bs) \<and>
    (\<forall>(cid, b) \<in> set bs. hb_state b = s \<and> hb_intent b \<in> snd ` set xs \<and>
      (CHR ''|'' \<in> set cid \<longrightarrow> is_rejected_attempt (hb_intent b) cid)) \<and>
    (\<forall>(iid, i) \<in> set xs. iid = hi_intent_id i \<and>
      (\<forall>c. hi_hedge_client_order_id i = Some c \<or> is_rejected_attempt i c \<longrightarrow> (\<exists>b. (c, b) \<in> set bs \<and> hb_intent b = i)))"

lemma identify_intent_binds:
  assumes "identify_intent k s (iid, i) ids = Inr ids'" "binds s xs (hid_bindings ids)"
  shows "binds s (xs @ [(iid, i)]) (hid_bindings ids')"
proof -
  define B where "B = (\<lambda>n. \<lparr>hb_view = k, hb_state = s, hb_intent = i,
    hb_record = the (dict_get (ss_source_orders s) (hi_source_client_order_id i)), hb_index = n\<rparr>)"
  have B: "hb_state (B n) = s" "hb_intent (B n) = i" for n by (simp_all add: B_def)
  let ?ids = "ids\<lparr>hid_intents := insert iid (hid_intents ids), hid_source_fills := insert (hi_fill_key i) (hid_source_fills ids)\<rparr>"
  obtain cids ids1 where id: "iid = hi_intent_id i" and c: "bound_order_ids i (hb_record (B 0)) = Inr cids"
    and f: "foldE (\<lambda>(index, cid). bind_order_id ''hedge projection order belongs to multiple intents'' cid (B index))
         (zip [0..<length cids] cids) ?ids = Inr ids1"
    and a: "bind_attempt k s i (hb_record (B 0)) ids1 = Inr ids'"
    using assms(1) by (auto simp: identify_intent_def intent_identity_ok_def Let_def bindE_Inr_iff B_def split: if_splits)
  have d: "distinct (map fst (hid_bindings ?ids))" using assms(2) by (simp add: binds_def)
  note f = bind_order_ids_Inr [OF f d]
  define news where "news = map (\<lambda>(n, cid). (cid, B n)) (zip [0..<length cids] cids) @
    (case hi_rejected_attempt i of None \<Rightarrow> [] | Some a \<Rightarrow> [(ra_client_order_id a, B (ra_leg_index a))])"
  have e: "hid_bindings ids' = hid_bindings ids @ news" and d': "distinct (map fst (hid_bindings ids'))"
    using f a by (auto simp: bind_attempt_def bind_order_id_Inr news_def B_def split: option.splits)
  have old: "hb_intent b = i \<and> hb_state b = s \<and> (CHR ''|'' \<in> set cid \<longrightarrow> is_rejected_attempt i cid)" if "(cid, b) \<in> set news" for cid b
    using that bound_order_ids_Inr(2) [OF c, of cid]
    by (auto simp: news_def B is_rejected_attempt_def split: option.splits dest: set_zip_rightD)
  have new: "\<exists>b. (cid, b) \<in> set news" if "hi_hedge_client_order_id i = Some cid \<or> is_rejected_attempt i cid" for cid
    using that
  proof
      assume "hi_hedge_client_order_id i = Some cid"
      then have "cid \<in> set cids" by (rule bound_order_ids_Inr(1) [OF c])
      then obtain n where "n < length cids" "cids ! n = cid" by (auto simp: in_set_conv_nth)
      then have "(cid, B n) \<in> set news" by (force simp: news_def in_set_zip)
      then show ?thesis by blast
    next
      assume "is_rejected_attempt i cid"
      then show ?thesis by (auto simp: news_def is_rejected_attempt_def split: option.splits)
  qed
  show ?thesis
    unfolding binds_def
  proof (intro conjI ballI)
    show "distinct (map fst (hid_bindings ids'))" by (rule d')
    show "case p of (cid, b) \<Rightarrow> hb_state b = s \<and> hb_intent b \<in> snd ` set (xs @ [(iid, i)]) \<and>
      (CHR ''|'' \<in> set cid \<longrightarrow> is_rejected_attempt (hb_intent b) cid)" if "p \<in> set (hid_bindings ids')" for p
      using that old assms(2) by (fastforce simp: e binds_def)
    show "case p of (iid, i) \<Rightarrow> iid = hi_intent_id i \<and>
      (\<forall>c. hi_hedge_client_order_id i = Some c \<or> is_rejected_attempt i c \<longrightarrow> (\<exists>b. (c, b) \<in> set (hid_bindings ids') \<and> hb_intent b = i))"
      if "p \<in> set (xs @ [(iid, i)])" for p
    proof (cases "p = (iid, i)")
      case True
      then show ?thesis using id new old e by fastforce
    next
      case False
      with that have "p \<in> set xs" by simp
      with assms(2) show ?thesis by (fastforce simp: e binds_def)
    qed
  qed
qed

lemma identify_view_binds:
  assumes "identify_view (k, s) no_hedge_identities = Inr ids"
  shows "binds s (ss_hedge_intents s) (hid_bindings ids)"
proof -
  obtain ids1 where o1: "foldE identify_source (ss_source_orders s) no_hedge_identities = Inr ids1"
    and o2: "foldE (identify_intent k s) (ss_hedge_intents s) ids1 = Inr ids"
    using assms by (auto simp: identify_view_def bindE_Inr_iff split: if_splits)
  have "hid_bindings ids1 = []"
    by (rule foldE_done [OF o1, where P = "\<lambda>_ t. hid_bindings t = []"])
      (auto simp: no_hedge_identities_def identify_source_def split: if_splits)
  then have "binds s [] (hid_bindings ids1)" by (simp add: binds_def)
  then show ?thesis
    by (rule foldE_done [OF o2, where P = "\<lambda>d t. binds s d (hid_bindings t)"]) (use identify_intent_binds in force)
qed

section \<open>What the check establishes\<close>

lemma checked_hedge_fills_Inr:
  assumes "checked_hedge_fills order record intent index instrument trader strategy = Inr fills"
  shows "fills = order_fills order" "\<And>f. f \<in> set fills \<Longrightarrow> nf_client_order_id f = po_client_order_id order \<and> 0 < nf_last_qty f"
proof -
  have f: "fills = order_fills order \<and> \<not> list_ex (\<lambda>e. foreign_event order instrument trader strategy e
        \<or> (event_account e \<noteq> None \<and> event_account e \<noteq> po_account_id order)) (po_events order)
      \<and> list_all (\<lambda>f. 0 < nf_last_qty f) fills"
    using assms unfolding checked_hedge_fills_def Let_def
    by (simp add: list_all_iff list_ex_iff not_le split: option.splits prod.splits)
  then show "fills = order_fills order" by blast
  then show "nf_client_order_id f = po_client_order_id order \<and> 0 < nf_last_qty f" if "f \<in> set fills" for f
    using f that order_fills_event [of f order] by (force simp: list_ex_iff list_all_iff foreign_event_def Let_def)
qed

lemma add_hedge_trades:
  "foldE add_hedge_trade fills pg = Inr pg' \<Longrightarrow> hg_keys pg' = hg_keys pg \<and> hg_missing pg' = hg_missing pg"
  by (erule foldE_done [where P = "\<lambda>_ t. hg_keys t = hg_keys pg \<and> hg_missing t = hg_missing pg"])
    (auto simp: add_hedge_trade_def split: if_splits)

text \<open>A missing fill belongs to the current order of an intent that never rejected that order.\<close>

definition missing_ok :: "(string \<times> unit hedge_binding) list \<Rightarrow> native_fill \<Rightarrow> bool" where
  "missing_ok bs f \<longleftrightarrow> 0 < nf_last_qty f \<and> (\<exists>b. (nf_client_order_id f, b) \<in> set bs \<and>
     hi_hedge_client_order_id (hb_intent b) = Some (nf_client_order_id f) \<and> \<not> is_rejected_attempt (hb_intent b) (nf_client_order_id f))"

definition native_keys :: "(string \<times> order_facts) list \<Rightarrow> string \<Rightarrow> string set" where
  "native_keys by_id cid = hedge_fill_key ` set (order_fills (the (dict_get by_id cid)))"

definition covers :: "store_state \<Rightarrow> (string \<times> order_facts) list \<Rightarrow> (string \<times> unit hedge_binding) list \<Rightarrow> unit hedge_progress \<Rightarrow> bool" where
  "covers s by_id bs pg \<longleftrightarrow> hg_keys pg () = (\<Union>cid \<in> fst ` set bs. native_keys by_id cid) \<and>
     (\<Union>cid \<in> fst ` set bs. native_keys by_id cid) \<subseteq> ss_seen_hedge_fills s \<union> hedge_fill_key ` snd ` set (hg_missing pg) \<and>
     hedge_fill_key ` snd ` set (hg_missing pg) \<subseteq> hg_keys pg () \<and> (\<forall>f \<in> snd ` set (hg_missing pg). missing_ok bs f)"

lemma coversD:
  assumes "covers s by_id bs pg"
  shows "hg_keys pg () = (\<Union>cid \<in> fst ` set bs. native_keys by_id cid)"
    "(\<Union>cid \<in> fst ` set bs. native_keys by_id cid) \<subseteq> ss_seen_hedge_fills s \<union> hedge_fill_key ` snd ` set (hg_missing pg)"
    "hedge_fill_key ` snd ` set (hg_missing pg) \<subseteq> hg_keys pg ()" "f \<in> snd ` set (hg_missing pg) \<Longrightarrow> missing_ok bs f"
  by (insert assms [unfolded covers_def], (elim conjE, assumption)+) (elim conjE, erule bspec)

lemma match_hedge_prefix_Inr:
  assumes "match_hedge_prefix cid b order fills pg = Inr pg'"
  obtains c where "hedge_fill_key ` set (take c fills) \<subseteq> ss_seen_hedge_fills (hb_state b)"
    "drop c fills \<noteq> [] \<Longrightarrow> hi_hedge_client_order_id (hb_intent b) = Some cid"
    "hg_keys pg' = (hg_keys pg)(hb_view b := hg_keys pg (hb_view b) \<union> hedge_fill_key ` set fills)"
    "hg_missing pg' = hg_missing pg @ map (\<lambda>fill. (hb_view b, fill)) (drop c fills)"
proof -
  define seen where "seen = {key \<in> ss_seen_hedge_fills (hb_state b). hd (split_bar key) = cid}"
  have "seen = set (take (card seen) (map hedge_fill_key fills))"
    "drop (card seen) fills \<noteq> [] \<Longrightarrow> hi_hedge_client_order_id (hb_intent b) = Some cid"
    "hg_keys pg' = (hg_keys pg)(hb_view b := hg_keys pg (hb_view b) \<union> hedge_fill_key ` set fills)"
    "hg_missing pg' = hg_missing pg @ map (\<lambda>fill. (hb_view b, fill)) (drop (card seen) fills)"
    using assms unfolding match_hedge_prefix_def Let_def seen_def [symmetric]
    by (auto simp del: drop_eq_Nil drop_eq_Nil2)
  moreover from this(1) have "hedge_fill_key ` set (take (card seen) fills) \<subseteq> ss_seen_hedge_fills (hb_state b)"
    by (auto simp: seen_def take_map)
  ultimately show thesis by (intro that) 
qed

lemma project_hedge_order_covers:
  assumes e: "project_hedge_order pj by_id instrument trader strategy (cid, b) pg = Inr pg'"
    and p: "covers s by_id bs pg" and b: "hb_state b = s" and k: "keyed_by_id by_id"
  shows "covers s by_id (bs @ [(cid, b)]) pg'"
proof -
  obtain order strategy' fills where o: "dict_get by_id cid = Some order"
    and f: "checked_hedge_fills order (hb_record b) (hb_intent b) (hb_index b) instrument trader strategy' = Inr fills"
    and r: "(if is_rejected_attempt (hb_intent b) cid then
       (if po_status order \<noteq> ''REJECTED'' \<or> po_filled_qty order \<noteq> 0 \<or> fills \<noteq> [] \<or> po_trade_ids order \<noteq> [] then
          Inl (ValueError ''hedge projection archived rejection has conflicting native facts'')
        else Inr pg)
     else bindE (foldE add_hedge_trade fills pg) (match_hedge_prefix cid b order fills)) = Inr pg'"
    using e by (auto simp: project_hedge_order_def bindE_Inr_iff)
  note x = checked_hedge_fills_Inr [OF f]
  have n: "native_keys by_id cid = hedge_fill_key ` set fills" using o x(1) by (simp add: native_keys_def)
  have cid: "po_client_order_id order = cid" using k o by (simp add: keyed_by_id_def)
  have m: "missing_ok (bs @ [(cid, b)]) f" if "missing_ok bs f" for f using that by (auto simp: missing_ok_def)
  show ?thesis
  proof (cases "is_rejected_attempt (hb_intent b) cid")
    case True
    with r have "fills = []" "pg' = pg" by (auto split: if_splits)
    with p n m show ?thesis unfolding covers_def by (elim conjE) simp
  next
    case False
    with r obtain pg1 where a: "foldE add_hedge_trade fills pg = Inr pg1" and pm: "match_hedge_prefix cid b order fills pg1 = Inr pg'"
      by (auto simp: bindE_Inr_iff)
    obtain c where c: "hedge_fill_key ` set (take c fills) \<subseteq> ss_seen_hedge_fills s"
      "drop c fills \<noteq> [] \<Longrightarrow> hi_hedge_client_order_id (hb_intent b) = Some cid"
      "hg_keys pg' () = hg_keys pg () \<union> hedge_fill_key ` set fills"
      "hg_missing pg' = hg_missing pg @ map (\<lambda>fill. (hb_view b, fill)) (drop c fills)"
      by (rule match_hedge_prefix_Inr [OF pm]) (rule that, use add_hedge_trades [OF a] b in simp_all)
    have s: "set fills = set (take c fills) \<union> set (drop c fills)" by (metis append_take_drop_id set_append)
    have new: "missing_ok (bs @ [(cid, b)]) f" if f: "f \<in> set (drop c fills)" for f
    proof -
      have "f \<in> set fills" "drop c fills \<noteq> []" using f by (auto dest: in_set_dropD)
      then show ?thesis using x(2) [of f] cid c(2) False by (auto simp: missing_ok_def)
    qed
    have d: "snd ` set (hg_missing pg') = snd ` set (hg_missing pg) \<union> set (drop c fills)"
      by (simp add: c(4) image_Un image_image)
    have u: "(\<Union>cid \<in> fst ` set (bs @ [(cid, b)]). native_keys by_id cid) =
        (\<Union>cid \<in> fst ` set bs. native_keys by_id cid) \<union> hedge_fill_key ` set fills" by (simp add: n Un_commute)
    note old = coversD [OF p]
    have keys: "hg_keys pg' () = (\<Union>cid \<in> fst ` set (bs @ [(cid, b)]). native_keys by_id cid)"
      unfolding u c(3) old(1) ..
    have "hedge_fill_key ` set fills \<subseteq> ss_seen_hedge_fills s \<union> hedge_fill_key ` snd ` set (hg_missing pg')"
      using c(1) unfolding d s by blast
    then have sub: "(\<Union>cid \<in> fst ` set (bs @ [(cid, b)]). native_keys by_id cid) \<subseteq>
        ss_seen_hedge_fills s \<union> hedge_fill_key ` snd ` set (hg_missing pg')"
      using old(2) unfolding u d by blast
    have mem: "hedge_fill_key ` snd ` set (hg_missing pg') \<subseteq> hg_keys pg' ()"
      using old(3) unfolding d c(3) s by blast
    have "missing_ok (bs @ [(cid, b)]) f" if "f \<in> snd ` set (hg_missing pg')" for f
      using that m [OF old(4)] new unfolding d by blast
    then show ?thesis unfolding covers_def by (intro conjI ballI keys sub mem)
  qed
qed

text \<open>The store can book a fill of this order as a held fill.\<close>

definition fillable :: "store_state \<Rightarrow> string \<Rightarrow> bool" where
  "fillable s cid \<longleftrightarrow> (\<exists>i \<in> set (state_intents s). hi_hedge_client_order_id i = Some cid) \<and>
     (\<forall>i \<in> set (state_intents s). \<not> is_rejected_attempt i cid)"

lemma missing_fillable:
  assumes b: "binds s (ss_hedge_intents s) bs" and m: "missing_ok bs f"
  shows "fillable s (nf_client_order_id f)"
proof -
  obtain x where x: "(nf_client_order_id f, x) \<in> set bs" "hi_hedge_client_order_id (hb_intent x) = Some (nf_client_order_id f)"
      "\<not> is_rejected_attempt (hb_intent x) (nf_client_order_id f)"
    using m by (auto simp: missing_ok_def)
  have i: "hb_intent x \<in> set (state_intents s)" using b x(1) by (fastforce simp: binds_def state_intents_def)
  have "\<not> is_rejected_attempt j (nf_client_order_id f)" if j: "j \<in> set (state_intents s)" for j
  proof
    assume a: "is_rejected_attempt j (nf_client_order_id f)"
    obtain iid where "(iid, j) \<in> set (ss_hedge_intents s)" using j by (auto simp: state_intents_def)
    with b a obtain y where y: "(nf_client_order_id f, y) \<in> set bs" "hb_intent y = j" by (fastforce simp: binds_def)
    have "y = x" using b x(1) y(1) by (auto simp: binds_def dest: eq_key_imp_eq_value)
    with x(3) y(2) a show False by simp
  qed
  with i x(2) show ?thesis by (auto simp: fillable_def)
qed

text \<open>The bound hedge orders and the fills the check leaves to book.\<close>

definition hedge_plan_ok :: "order_facts list \<Rightarrow> store_state \<Rightarrow> (unit \<times> native_fill) list \<Rightarrow> bool" where
  "hedge_plan_ok orders s missing \<longleftrightarrow>
    (\<forall>(iid, i) \<in> set (ss_hedge_intents s). iid = hi_intent_id i) \<and>
    hedge_fill_key ` set (concat (map order_fills orders)) = ss_seen_hedge_fills s \<union> hedge_fill_key ` snd ` set missing \<and>
    (\<forall>f \<in> snd ` set missing. 0 < nf_last_qty f \<and> fillable s (nf_client_order_id f))"

lemma check_hedge_projection_Inr:
  assumes "check_hedge_projection pj orders instrument trader strategy = Inr missing" "pj_views pj = [((), s)]"
  shows "hedge_plan_ok orders s missing"
proof -
  let ?b = "orders_by_id orders"
  obtain ids pg where i: "identify_view ((), s) no_hedge_identities = Inr ids"
    and l: "length ?b = length orders" "dict_keys ?b = dict_keys (hid_bindings ids)"
    and pg: "foldE (project_hedge_order pj ?b instrument trader strategy) (hid_bindings ids) no_hedge_progress = Inr pg"
    and seen: "ss_seen_hedge_fills s \<subseteq> hg_keys pg ()" and m: "missing = hg_missing pg"
    using assms by (auto simp: check_hedge_projection_def Let_def bindE_Inr_iff check_view_progress_def split: if_splits)
  note b = identify_view_binds [OF i] and k = by_id_facts [OF l(1)]
  have st: "hb_state x = s" if "(cid, x) \<in> set (hid_bindings ids)" for cid x
    using b that by (fastforce simp: binds_def)
  have c: "covers s ?b (hid_bindings ids) pg"
  proof (rule foldE_done [OF pg, where P = "\<lambda>d t. covers s ?b d t"])
    show "covers s ?b [] no_hedge_progress" by (simp add: covers_def no_hedge_progress_def)
    show "covers s ?b (d @ [x]) t'" if "x \<in> set (hid_bindings ids)" "covers s ?b d t"
        "project_hedge_order pj ?b instrument trader strategy x t = Inr t'" for d x t t'
    proof -
      obtain cid y where x: "x = (cid, y)" by (cases x)
      show ?thesis unfolding x by (rule project_hedge_order_covers [OF that(3) [unfolded x] that(2) _ k(2)]) (use st that(1) x in blast)
    qed
  qed
  have "(\<Union>cid \<in> fst ` set (hid_bindings ids). native_keys ?b cid) = hedge_fill_key ` set (concat (map order_fills orders))"
  proof -
    have "(\<Union>cid \<in> fst ` set (hid_bindings ids). native_keys ?b cid) = (\<Union>n \<in> set orders. hedge_fill_key ` set (order_fills n))"
      unfolding l(2) [symmetric] k(4) image_image native_keys_def by (intro SUP_cong refl) (simp add: k(3) [THEN iffD2])
    then show ?thesis by (simp add: image_UN)
  qed
  then have keys: "hedge_fill_key ` set (concat (map order_fills orders)) = hg_keys pg ()"
    using coversD(1) [OF c] by simp
  have sub: "hg_keys pg () \<subseteq> ss_seen_hedge_fills s \<union> hedge_fill_key ` snd ` set missing"
    "hedge_fill_key ` snd ` set missing \<subseteq> hg_keys pg ()"
    using coversD(1-3) [OF c] unfolding m by simp_all
  show ?thesis
    unfolding hedge_plan_ok_def
  proof (intro conjI ballI)
    show "case p of (iid, i) \<Rightarrow> iid = hi_intent_id i" if "p \<in> set (ss_hedge_intents s)" for p
      using b that by (fastforce simp: binds_def)
    show "hedge_fill_key ` set (concat (map order_fills orders)) = ss_seen_hedge_fills s \<union> hedge_fill_key ` snd ` set missing"
      using keys sub seen by blast
    show "0 < nf_last_qty f" "fillable s (nf_client_order_id f)" if "f \<in> snd ` set missing" for f
      using coversD(4) [OF c, of f] that missing_fillable [OF b, of f] by (simp_all add: m missing_ok_def)
  qed
qed

section \<open>What booking the missing fills does\<close>

lemma hold_step:
  assumes e: "apply_hedge_fill_step cid trade q (Some reason) v = (v', r)" and k: "keyed (vw_state v)"
    and f: "fillable (vw_state v) cid" and q: "0 < q" and h: "ss_halt_reason (vw_state v) \<noteq> None"
  shows "case r of Inl x \<Rightarrow> \<exists>m. x = ValueError m
    | Inr _ \<Rightarrow> (\<exists>ids. vw_state v' = (vw_state v)\<lparr>ss_seen_hedge_fills := insert (bar_join2 cid trade) (ss_seen_hedge_fills (vw_state v)),
          ss_hedge_intents := ids\<rparr>) \<and>
        keyed (vw_state v') \<and>
        (\<forall>c. fillable (vw_state v) c \<longrightarrow> fillable (vw_state v') c)"
proof (cases "bar_join2 cid trade \<in> ss_seen_hedge_fills (vw_state v)")
  case True
  then have "v' = v" "r = Inr False" using e by (simp_all add: apply_hedge_fill_step_def)
  with True k show ?thesis by (auto simp: insert_absorb intro!: exI [of _ "ss_hedge_intents (vw_state v)"])
next
  case False
  let ?s = "vw_state v"
  obtain i where i: "intent_for_hedge_order ?s cid = Some i"
    using f by (fastforce simp: fillable_def intent_for_hedge_order_def find_None_iff)
  then have mem: "i \<in> set (state_intents ?s)" and "hi_hedge_client_order_id i = Some cid \<or> is_rejected_attempt i cid"
    by (auto simp: intent_for_hedge_order_def find_Some_iff)
  with f have c: "hi_hedge_client_order_id i = Some cid" "\<not> is_rejected_attempt i cid" by (auto simp: fillable_def)
  define j where "j = i\<lparr>hi_hedge_filled_ounces := dadd (hi_hedge_filled_ounces i) q,
    hi_hedge_leg_filled_ounces := (if hi_hedge_plan i \<noteq> [] \<and> hi_hedge_leg_index i < length (hi_hedge_plan i)
           then dadd (hi_hedge_leg_filled_ounces i) q else hi_hedge_leg_filled_ounces i), hi_status := BLOCKED\<rparr>"
  have j: "hi_hedge_client_order_id j = hi_hedge_client_order_id i" "is_rejected_attempt j = is_rejected_attempt i"
      "hi_intent_id j = hi_intent_id i"
    by (simp_all add: j_def is_rejected_attempt_def fun_eq_iff)
  have run: "(v', r) = bind_tx (put_intent j) (\<lambda>_. bind_tx (update_state (\<lambda>s. if ss_halt_reason s = None then set_halt (Some reason) s else s))
      (\<lambda>_. ret_tx True)) (v\<lparr>vw_state := ?s\<lparr>ss_seen_hedge_fills := insert (bar_join2 cid trade) (ss_seen_hedge_fills ?s)\<rparr>\<rparr>)"
    using e False i c q by (simp add: apply_hedge_fill_step_def hold_hedge_fill_def j_def update_state_def not_le)
  show ?thesis
  proof (cases "check_hedge_intent j")
    case (Inl x)
    with run have "r = Inl x" by (simp add: put_intent_def mk_hedge_intent_def bind_tx_def)
    with check_hedge_intent_error [OF Inl] show ?thesis by simp
  next
    case (Inr u)
    let ?ids = "dict_set (hi_intent_id i) j (ss_hedge_intents ?s)"
    have s': "vw_state v' = ?s\<lparr>ss_seen_hedge_fills := insert (bar_join2 cid trade) (ss_seen_hedge_fills ?s), ss_hedge_intents := ?ids\<rparr>"
      and r: "r = Inr True"
      using run Inr h j(3) by (auto simp: put_intent_def mk_hedge_intent_def bind_tx_def update_state_def)
    have sub: "set ?ids \<subseteq> insert (hi_intent_id i, j) (set (ss_hedge_intents ?s))" by (rule set_dict_set_subset)
    have keyed: "keyed (vw_state v')" using sub k j(3) by (fastforce simp: keyed_def s')
    have d: "distinct (map fst (ss_hedge_intents ?s))" using k by (simp add: keyed_def)
    have "fillable (vw_state v') c" if f: "fillable ?s c" for c
      unfolding fillable_def
    proof
      show "\<forall>x \<in> set (state_intents (vw_state v')). \<not> is_rejected_attempt x c"
        using f sub mem j(2) by (fastforce simp: fillable_def state_intents_def s')
      obtain x where x: "x \<in> set (state_intents ?s)" "hi_hedge_client_order_id x = Some c" using f by (auto simp: fillable_def)
      show "\<exists>x \<in> set (state_intents (vw_state v')). hi_hedge_client_order_id x = Some c"
      proof (cases "x = i")
        case True
        then show ?thesis using x j(1) by (intro bexI [of _ j]) (auto simp: state_intents_def s' set_dict_set [OF d] image_iff)
      next
        case False
        obtain iid where iid: "(iid, x) \<in> set (ss_hedge_intents ?s)" using x by (auto simp: state_intents_def)
        obtain iid' where iid': "(iid', i) \<in> set (ss_hedge_intents ?s)" using mem by (auto simp: state_intents_def)
        have "iid = hi_intent_id x" "iid' = hi_intent_id i" using k iid iid' by (auto simp: keyed_def)
        with False eq_key_imp_eq_value [OF d iid] iid' have "hi_intent_id x \<noteq> hi_intent_id i" by auto
        then have "(iid, x) \<in> set ?ids" using iid k by (auto simp: set_dict_set [OF d] keyed_def)
        then show ?thesis using x(2) by (intro bexI [of _ x]) (auto simp: state_intents_def s' intro: rev_image_eqI)
      qed
    qed
    with s' keyed r show ?thesis by auto
  qed
qed

lemma book_missing_run:
  assumes "book_missing (\<lambda>_. standalone) reason missing w = (w', r)" "keyed (cu_state standalone w)"
    "ss_halt_reason (cu_state standalone w) \<noteq> None"
    "\<And>f. f \<in> snd ` set missing \<Longrightarrow> 0 < nf_last_qty f \<and> fillable (cu_state standalone w) (nf_client_order_id f)"
  shows "st_file w' = st_file w \<and> (case r of Inl x \<Rightarrow> \<exists>m. x = ValueError m
    | Inr _ \<Rightarrow> \<exists>ids. cu_state standalone w' = (cu_state standalone w)\<lparr>ss_seen_hedge_fills :=
        ss_seen_hedge_fills (cu_state standalone w) \<union> hedge_fill_key ` snd ` set missing, ss_hedge_intents := ids\<rparr>)"
  using assms
proof (induction missing arbitrary: w)
  case Nil
  then show ?case by (auto simp: book_missing_def intro!: exI [of _ "ss_hedge_intents (cu_state standalone w)"])
next
  case (Cons p missing)
  obtain k f where p: "p = (k, f)" by (cases p)
  let ?s = "cu_state standalone w"
  obtain v1 r1 where a: "apply_hedge_fill_step (nf_client_order_id f) (nf_trade_id f) (nf_last_qty f) (Some reason) (cu_view standalone w) = (v1, r1)"
    by fastforce
  have f: "fillable ?s (nf_client_order_id f)" "0 < nf_last_qty f" using Cons.prems(4) [of f] by (auto simp: p)
  note h = hold_step [OF a Cons.prems(2) f Cons.prems(3)]
  define w1 where "w1 = cu_set_view standalone v1 w"
  have w1: "cu_state standalone w1 = vw_state v1" "st_file w1 = st_file w" by (simp_all add: w1_def standalone_simps)
  show ?case
  proof (cases r1)
    case (Inl x)
    with Cons.prems(1) a h w1 show ?thesis by (auto simp: p book_missing_def bind_tx_def on_view_def w1_def)
  next
    case (Inr b)
    define m where "m = bind_tx (on_view standalone (apply_hedge_fill_step (nf_client_order_id f) (nf_trade_id f) (nf_last_qty f) (Some reason)))
        (\<lambda>_. ret_tx ())"
    have "m w = (w1, Inr ())" using a Inr by (simp add: m_def bind_tx_def on_view_def w1_def)
    moreover have "bind_tx m (\<lambda>_. book_missing (\<lambda>_. standalone) reason missing) w = (w', r)"
      using Cons.prems(1) by (simp add: p book_missing_def m_def)
    ultimately have run: "book_missing (\<lambda>_. standalone) reason missing w1 = (w', r)" by (simp add: bind_tx_def)
    obtain ids where ids: "cu_state standalone w1 = ?s\<lparr>ss_seen_hedge_fills := insert (hedge_fill_key f) (ss_seen_hedge_fills ?s),
          ss_hedge_intents := ids\<rparr>" and keyed: "keyed (cu_state standalone w1)"
      and fb: "\<And>c. fillable ?s c \<Longrightarrow> fillable (cu_state standalone w1) c"
      using h Inr w1(1) by (auto simp: hedge_fill_key_def)
    have "st_file w' = st_file w1 \<and> (case r of Inl x \<Rightarrow> \<exists>m. x = ValueError m
      | Inr _ \<Rightarrow> \<exists>ids. cu_state standalone w' = (cu_state standalone w1)\<lparr>ss_seen_hedge_fills :=
          ss_seen_hedge_fills (cu_state standalone w1) \<union> hedge_fill_key ` snd ` set missing, ss_hedge_intents := ids\<rparr>)"
      by (rule Cons.IH [OF run keyed]) (use Cons.prems(3,4) ids fb in auto)
    then show ?thesis by (cases r) (auto simp: ids w1(2) p)
  qed
qed

text \<open>a successful hedge projection leaves the durable hedge fills complete. The seen hedge fills are
  exactly the fills of the native hedge orders; nothing else changed if none was missing, and otherwise
  the store is stopped and paused, in memory and on disk, and no source fact moved. A failed
  projection leaves view and file as they were, unless only the directory sync failed: then the file
  has the new book.\<close>

theorem hedge_projection_completes:
  assumes e: "project_store_hedges orders instrument trader strategy reason w = (w', r)"
    and d: "distinct (map fst (ss_hedge_intents (cu_state standalone w)))"
  shows "case r of
      Inr n \<Rightarrow> ss_seen_hedge_fills (cu_state standalone w') = hedge_fill_key ` set (concat (map order_fills orders)) \<and>
        (if n = 0 then w' = w
         else ss_halt_reason (cu_state standalone w') \<noteq> None \<and> ss_source_freeze_reason (cu_state standalone w') \<noteq> None \<and>
           ss_source_orders (cu_state standalone w') = ss_source_orders (cu_state standalone w) \<and>
           ss_seen_source_fills (cu_state standalone w') = ss_seen_source_fills (cu_state standalone w) \<and>
           ss_net_unhedged_ounces (cu_state standalone w') = ss_net_unhedged_ounces (cu_state standalone w) \<and>
           st_file w' = Some (cu_state standalone w'))
    | Inl e \<Rightarrow> e = ParentDirectorySyncError \<and> st_file w' = Some (cu_state standalone w') \<or>
        cu_state standalone w' = cu_state standalone w \<and> st_file w' = st_file w"
proof -
  let ?pj = "store_projection w" and ?s = "cu_state standalone w"
  have views: "pj_views ?pj = [((), ?s)]" by (simp add: store_projection_def)
  show ?thesis
  proof (cases "reason \<noteq> [] \<and> (\<exists>missing. check_hedge_projection ?pj orders instrument trader strategy = Inr missing)")
    case False
    with e have "w' = w" "\<exists>x. r = Inl x"
      by (auto simp: project_store_hedges_def split: if_splits sum.splits)
    then show ?thesis by auto
  next
    case True
    then obtain missing where c: "check_hedge_projection ?pj orders instrument trader strategy = Inr missing" by blast
    have checked: "hedge_plan_ok orders ?s missing"
        "(if missing = [] then (w, Inr 0) else rolling_back standalone ?s
            (bind_tx (on_view standalone (update_state (hold_state reason))) (\<lambda>_.
            bind_tx (book_missing (\<lambda>_. standalone) reason missing) (\<lambda>_.
            bind_tx (cu_persist standalone) (\<lambda>_. ret_tx (length missing))))) w) = (w', r)"
      using e True check_hedge_projection_Inr [OF c views] by (simp_all add: project_store_hedges_def c)
    note ok = checked(1) [unfolded hedge_plan_ok_def]
    show ?thesis
    proof (cases "missing = []")
      case True
      with checked(2) ok show ?thesis by auto
    next
      case False
      let ?w = "upd_state standalone (hold_state reason) w"
      obtain w2 r2 where b: "book_missing (\<lambda>_. standalone) reason missing ?w = (w2, r2)" by fastforce
      have s: "cu_state standalone ?w = hold_state reason ?s" "st_file ?w = st_file w"
        by (simp_all add: upd_state_def standalone_simps)
      have keyed: "keyed (cu_state standalone ?w)" using ok d by (simp add: s keyed_def)
      have fb: "0 < nf_last_qty f \<and> fillable (cu_state standalone ?w) (nf_client_order_id f)" if "f \<in> snd ` set missing" for f
      proof -
        have "fillable ?s c \<Longrightarrow> fillable (cu_state standalone ?w) c" for c by (simp add: s fillable_def state_intents_def)
        then show ?thesis using ok that by blast
      qed
      have h: "ss_halt_reason (cu_state standalone ?w) \<noteq> None" by (simp add: s)
      note m = book_missing_run [OF b keyed h fb]
      show ?thesis
      proof (cases r2)
        case (Inl x)
        with checked(2) False b m s show ?thesis by (auto simp: rolling_back_def bind_tx_def)
      next
        case (Inr u)
        then obtain ids where ids: "cu_state standalone w2 = (hold_state reason ?s)\<lparr>ss_seen_hedge_fills :=
            hedge_fill_key ` set (concat (map order_fills orders)), ss_hedge_intents := ids\<rparr>" "st_file w2 = st_file w"
          using m ok s by auto
        show ?thesis
          by (cases w2 rule: standalone.persist_cases) (use checked(2) False b Inr ids in \<open>auto simp: rolling_back_def bind_tx_def\<close>)
      qed
    qed
  qed
qed

text \<open>A hedge order of two ounces that filled while the program was away.\<close>

definition ex_sent :: hedge_intent where
  "ex_sent = ex_hedge\<lparr>hi_status := ACCEPTED, hi_hedge_client_order_id := Some ''h1'', hi_hedge_order_ids := [''h1'']\<rparr>"

definition ex_away :: store where
  "ex_away = open_store (Some (ex_bid\<lparr>ss_hedge_intents := [(hi_intent_id ex_sent, ex_sent)]\<rparr>)) []"

definition ex_hedge_fill :: native_fill where
  "ex_hedge_fill = \<lparr>nf_head = \<lparr>eh_trader_id = ''T'', eh_strategy_id = ''m'', eh_instrument_id = ''GOLD'',
      eh_client_order_id = ''h1''\<rparr>, nf_account_id = ''b'', nf_venue_order_id = ''9'', nf_trade_id = ''d1'',
    nf_side = Some SELL, nf_order_type = ''MARKET'', nf_last_qty = 2, nf_position_id = Some ''20''\<rparr>"

definition ex_hedge_order :: order_facts where
  "ex_hedge_order = \<lparr>po_trader_id = ''T'', po_strategy_id = ''m'', po_instrument_id = ''GOLD'',
    po_client_order_id = ''h1'', po_side = Some SELL, po_order_type = ''MARKET'', po_time_in_force = ''FOK'',
    po_is_quote_quantity = False, po_is_reduce_only = False, po_quantity = 2, po_filled_qty = 2,
    po_account_id = Some ''b'', po_venue_order_id = Some ''9'', po_position_id = Some ''20'',
    po_status = ''FILLED'', po_trade_ids = [''d1''],
    po_events = [EvInitialized (nf_head ex_hedge_fill) \<lparr>in_quantity = 2, in_side = Some SELL, in_order_type = ''MARKET'',
        in_time_in_force = ''FOK'', in_quote_quantity = False, in_reduce_only = False\<rparr>, EvFilled ex_hedge_fill]\<rparr>"

lemma ex_hedge_projection_plan:
  "check_hedge_projection (store_projection ex_away) [ex_hedge_order] ''GOLD'' ''T'' ''m'' = Inr [((), ex_hedge_fill)]"
proof -
  have z: "dsum 0 [] = 0" "dsum 0 [2] = 2" "dadd 0 0 = 0" "dadd 0 2 = 2"
    using dadd_exact [of 0 2] dadd_exact [of 0 0] by simp_all
  show ?thesis
    by (simp add: check_hedge_projection_def store_projection_def ex_away_def open_store_def standalone_simps Let_def z
      identify_view_def ex_bid_def ex_order_def no_hedge_identities_def identify_source_def identify_intent_def intent_identity_ok_def
      ex_sent_def ex_hedge_def new_intent_def bound_order_ids_def unplanned_history_def hedge_leg_order_ids_def
      bind_order_id_def bind_attempt_def orders_by_id_def dict_of_def ex_hedge_order_def ex_hedge_fill_def no_hedge_progress_def
      project_hedge_order_def dict_index_def checked_hedge_fills_def expected_leg_def first_event_def foreign_event_def
      order_fills_def fill_total_def is_rejected_attempt_def add_hedge_trade_def match_hedge_prefix_def hedge_fill_key_def
      bar_join2_def check_view_progress_def state_intents_def check_intent_progress_def empty_state_def)
qed

theorem hedge_projection_completes_witness:
  "case project_store_hedges [ex_hedge_order] ''GOLD'' ''T'' ''m'' ''held'' ex_away of
     (w', Inr n) \<Rightarrow> n = 1 \<and> ss_seen_hedge_fills (cu_state standalone w') = {''h1|d1''} \<and>
       ss_halt_reason (cu_state standalone w') \<noteq> None \<and> st_file w' = Some (cu_state standalone w')
   | (_, Inl _) \<Rightarrow> False"
proof -
  obtain w' r where e: "project_store_hedges [ex_hedge_order] ''GOLD'' ''T'' ''m'' ''held'' ex_away = (w', r)" by fastforce
  have "dadd 0 2 = 2" by (simp add: ex_two)
  then have "project_store_hedges [ex_hedge_order] ''GOLD'' ''T'' ''m'' ''held'' ex_away = (w', r) \<Longrightarrow> r = Inr 1"
    by (simp add: project_store_hedges_def ex_hedge_projection_plan)
      (simp add: rolling_back_def bind_tx_def on_view_def update_state_def
       book_missing_def apply_hedge_fill_step_def standalone_simps ex_away_def open_store_def hold_state_def
       Let_def ex_bid_def ex_order_def empty_state_def ex_hedge_fill_def put_intent_def lift_tx_def mk_hedge_intent_valid
       ex_sent_def ex_hedge_def new_intent_def bar_join2_def valid_intent_iff intent_scalars_ok_def check_rejected_history_def
       persist_well ret_tx_def intent_for_hedge_order_def state_intents_def is_rejected_attempt_def hold_hedge_fill_def)
  then have "r = Inr 1" using e by blast
  moreover have "distinct (map fst (ss_hedge_intents (cu_state standalone ex_away)))"
    by (simp add: ex_away_def open_store_def standalone_simps)
  ultimately show ?thesis using hedge_projection_completes [OF e] e
    by (simp add: order_fills_def ex_hedge_order_def ex_hedge_fill_def hedge_fill_key_def bar_join2_def)
qed

end
