(* ===== verification/Store_Codec.thy ===== *)
theory Store_Codec
  imports Py_Value State_Store "HOL-Library.Multiset"
begin

text \<open>
  The JSON codec of \<^verbatim>\<open>store.py\<close>: \<^verbatim>\<open>_to_payload\<close>, what the file holds after \<^verbatim>\<open>json.dump\<close> with
  sorted keys, and \<^verbatim>\<open>_from_payload\<close>.

  A Decimal is written as the plain text of its value (\<open>dec_text\<close>); Python may write the same
  value with trailing zeros or an exponent, which its reader takes back to the same value.
  Two things the reader of the code tolerates are errors here: a record of the file that is not an
  object and a fill key that is not text are a \<open>TypeError\<close>, and a NaN or infinite quantity of a
  source order or of the residual is a \<open>ValueError\<close>. \<^verbatim>\<open>str(x)\<close> of a list or an object is a
  parameter.
\<close>

section \<open>Decimal text reads back\<close>

lemma parse_nat_append: "parse_nat (a @ b) = parse_nat a * 10 ^ length b + parse_nat b"
proof (induction b rule: rev_induct)
  case (snoc c b)
  have s: "parse_nat (d @ [c]) = 10 * parse_nat d + digit_value c" for d by (simp add: parse_nat_def)
  show ?case using s [of "a @ b"] s [of b] snoc.IH by (simp add: algebra_simps)
qed (simp add: parse_nat_def)

lemma nat_digits_decimal: "nat_digits n \<noteq> [] \<and> list_all is_digit (nat_digits n)"
proof (induction n rule: nat_digits.induct)
  case (1 n)
  have "is_digit (char_of (48 + k))" if "k < 10" for k :: nat
    using that by (simp add: is_digit_def less_eq_char_def)
  with 1 show ?case by (simp add: nat_digits.simps [of n])
qed

definition short_decimal :: "rat \<Rightarrow> bool" where
  "short_decimal x \<longleftrightarrow> of_int \<lfloor>x * 10 ^ dec_places\<rfloor> = x * 10 ^ dec_places"

lemma frac_digits_value:
  "0 \<le> x \<Longrightarrow> x < 1 \<Longrightarrow> x * 10 ^ k = of_int m \<Longrightarrow>
    list_all is_digit (frac_digits k x) \<and> of_int (parse_nat (frac_digits k x)) = x * 10 ^ length (frac_digits k x)"
proof (induction k arbitrary: x m)
  case 0
  then have "x = of_int m" by simp
  with 0 have "x = 0" by simp
  then show ?case by (simp add: parse_nat_def)
next
  case (Suc k)
  show ?case
  proof (cases "x = 0")
    case True
    then show ?thesis by (simp add: parse_nat_def)
  next
    case False
    define d where "d = nat \<lfloor>10 * x\<rfloor>"
    have d: "\<lfloor>10 * x\<rfloor> = int d" "d < 10" using Suc.prems(1,2) by (simp_all add: d_def) linarith
    let ?y = "10 * x - of_nat d"
    have y: "0 \<le> ?y" "?y < 1" using d(1) by linarith+
    have "?y * 10 ^ k = of_int (m - int d * 10 ^ k)" using Suc.prems(3) by (simp add: algebra_simps)
    note ih = Suc.IH [OF y this]
    have e: "frac_digits (Suc k) x = char_of (48 + d) # frac_digits k ?y"
      using False d(1) by (simp add: d_def [symmetric])
    have "is_digit (char_of (48 + d))" using d(2) by (simp add: is_digit_def less_eq_char_def)
    moreover have "parse_nat (char_of (48 + d) # ds) = int d * 10 ^ length ds + parse_nat ds" for ds
      using parse_nat_append [of "[char_of (48 + d)]" ds] d(2) by (simp add: parse_nat_def digit_value_char)
    ultimately show ?thesis unfolding e using ih by (simp add: algebra_simps)
  qed
qed

lemma digits_plain: "list_all is_digit s \<Longrightarrow> c \<in> set s \<Longrightarrow> c \<noteq> CHR ''_'' \<and> c \<noteq> CHR ''.'' \<and> c \<noteq> CHR ''-'' \<and> c \<noteq> CHR ''+'' \<and> \<not> is_space c"
  by (auto simp: list_all_iff is_digit_def is_space_def less_eq_char_def Let_def)

lemma py_strip_plain: "(\<And>c. c \<in> set s \<Longrightarrow> \<not> is_space c) \<Longrightarrow> py_strip s = s"
proof -
  assume a: "\<And>c. c \<in> set s \<Longrightarrow> \<not> is_space c"
  have "dropWhile is_space t = t" if "\<And>c. c \<in> set t \<Longrightarrow> \<not> is_space c" for t
    using that by (cases t) auto
  from this [of s] this [of "rev s"] a show ?thesis by (simp add: py_strip_def)
qed

lemma take_digits_split:
  assumes "list_all is_digit ds" "rest = [] \<or> \<not> is_digit (hd rest)"
  shows "take_digits (ds @ rest) = (ds, rest)"
proof -
  have "takeWhile is_digit (ds @ rest) = ds @ takeWhile is_digit rest" "dropWhile is_digit (ds @ rest) = dropWhile is_digit rest"
    using assms(1) by (simp_all add: list_all_iff)
  then show ?thesis using assms(2) by (cases rest) (auto simp: take_digits_def)
qed

lemma decimal_coefficient_digits:
  assumes "list_all is_digit w" "w \<noteq> []" "list_all is_digit f"
  shows "decimal_coefficient (w @ (if f = [] then [] else CHR ''.'' # f)) = Some ((w, f), [])"
proof -
  have "\<not> is_digit (CHR ''.'')" by (simp add: is_digit_def less_eq_char_def)
  then show ?thesis
    using assms take_digits_split [of w "CHR ''.'' # f"] take_digits_split [of w "[]"] take_digits_split [of f "[]"]
    by (simp add: decimal_coefficient_def)
qed

lemma digits_not_special: "is_digit c \<Longrightarrow> \<not> special_decimal (c # cs)"
  by (auto simp: special_decimal_def py_lower_def lower_char_def is_digit_def less_eq_char_def Let_def numeral_3_eq_3 numeral_eq_Suc)

text \<open>Writing a value of at most \<open>dec_places\<close> places and reading it back gives the value.\<close>

lemma decimal_roundtrip:
  assumes "short_decimal x"
  shows "decimal_of_text (dec_text x) = Some (Fin x)"
proof -
  define a where "a = \<bar>x\<bar>"
  define w where "w = nat_digits (nat \<lfloor>a\<rfloor>)"
  define f where "f = frac_digits dec_places (a - of_int \<lfloor>a\<rfloor>)"
  define body where "body = w @ (if f = [] then [] else CHR ''.'' # f)"
  have a0: "0 \<le> a" by (simp add: a_def)
  obtain n where n: "x * 10 ^ dec_places = of_int n" using assms by (metis short_decimal_def)
  have "a * 10 ^ dec_places = \<bar>x * 10 ^ dec_places\<bar>" by (simp add: a_def abs_mult)
  then have "\<exists>m. a * 10 ^ dec_places = of_int m" by (intro exI [of _ "\<bar>n\<bar>"]) (simp only: n of_int_abs)
  then obtain m where m: "a * 10 ^ dec_places = of_int m" ..
  have u: "(a - of_int \<lfloor>a\<rfloor>) * 10 ^ dec_places = of_int (m - \<lfloor>a\<rfloor> * 10 ^ dec_places)" using m by (simp add: algebra_simps)
  have "0 \<le> a - of_int \<lfloor>a\<rfloor>" "a - of_int \<lfloor>a\<rfloor> < 1" by linarith+
  note f = frac_digits_value [OF this u, folded f_def, THEN conjunct1] frac_digits_value [OF this u, folded f_def, THEN conjunct2]
  have w: "w \<noteq> []" "list_all is_digit w" "parse_nat w = \<lfloor>a\<rfloor>"
    using nat_digits_decimal parse_nat_digits a0 by (simp_all add: w_def)
  have t: "dec_text x = (if x < 0 then ''-'' else []) @ body"
    by (simp add: dec_text_def Let_def body_def w_def f_def a_def)
  have plain: "c \<noteq> CHR ''_'' \<and> \<not> is_space c" if "c \<in> set (dec_text x)" for c
    using that digits_plain [OF f(1)] digits_plain [OF w(2)]
    by (auto simp: t body_def is_space_def split: if_splits)
  have strip: "py_strip (dec_text x) = dec_text x" using plain by (intro py_strip_plain) blast
  have keep: "filter (\<lambda>c. c \<noteq> CHR ''_'') (dec_text x) = dec_text x" using plain by (simp add: filter_id_conv)
  obtain c cs where c: "body = c # cs" "is_digit c" using w(1,2) by (cases w) (auto simp: body_def)
  have sg: "decimal_sign (dec_text x) = (if x < 0 then - 1 else 1, body)"
    using digits_plain [of "[c]" c] c by (auto simp: t decimal_sign_def)
  have coefficient: "decimal_coefficient body = Some ((w, f), [])"
    unfolding body_def by (rule decimal_coefficient_digits [OF w(2,1) f(1)])
  have "of_int (parse_nat (w @ f)) = a * 10 ^ length f"
    using w(3) f(2) by (simp add: parse_nat_append algebra_simps)
  then have "of_int (parse_nat (w @ f)) * 10 powi (0 - int (length f)) = a"
    by (simp add: power_int_minus power_int_of_nat field_simps)
  moreover have "(if x < 0 then - 1 else 1) * a = x" by (simp add: a_def)
  ultimately have "(if x < 0 then - 1 else 1) * of_int (parse_nat (w @ f)) * 10 powi (0 - int (length f)) = x"
    by (simp add: mult.assoc)
  then show ?thesis
    using digits_not_special [OF c(2), of cs]
    by (simp add: decimal_of_text_def strip keep sg coefficient c(1) [symmetric] decimal_exponent_def)
qed

section \<open>Writing\<close>

definition opt_value :: "('a \<Rightarrow> pyval) \<Rightarrow> 'a option \<Rightarrow> pyval" where
  "opt_value f x = (case x of None \<Rightarrow> PNone | Some v \<Rightarrow> f v)"

definition dec_json :: "rat \<Rightarrow> pyval" where
  "dec_json x = PStr (dec_text x)"

text \<open>\<^verbatim>\<open>_decimal_strings(asdict(record))\<close>.\<close>

definition record_payload :: "source_order_record \<Rightarrow> pyval" where
  "record_payload r = PObj [
    (''client_order_id'', PStr (so_client_order_id r)), (''side'', PStr (side_value (so_side r))),
    (''quantity_ounces'', dec_json (so_quantity_ounces r)),
    (''source_account_id'', opt_value PStr (so_source_account_id r)), (''source_client_id'', opt_value PStr (so_source_client_id r)),
    (''hedge_account_id'', opt_value PStr (so_hedge_account_id r)), (''hedge_client_id'', opt_value PStr (so_hedge_client_id r)),
    (''hedge_position_id'', opt_value PStr (so_hedge_position_id r)),
    (''hedge_position_quantity_ounces'', opt_value dec_json (so_hedge_position_quantity_ounces r)),
    (''filled_ounces'', dec_json (so_filled_ounces r)), (''status'', PStr (so_status r))]"

definition leg_payload :: "hedge_leg \<Rightarrow> pyval" where
  "leg_payload leg = PObj [
    (''side'', PStr (side_value (leg_side leg))), (''quantity_ounces'', dec_json (leg_quantity_ounces leg)),
    (''position_id'', opt_value PStr (leg_position_id leg)),
    (''expected_position_side'', opt_value (\<lambda>s. PStr (side_value s)) (leg_expected_position_side leg)),
    (''expected_position_quantity_ounces'', opt_value dec_json (leg_expected_position_quantity_ounces leg))]"

definition attempt_payload :: "rejected_attempt \<Rightarrow> pyval" where
  "attempt_payload a = PObj [(''client_order_id'', PStr (ra_client_order_id a)), (''leg_index'', PInt (int (ra_leg_index a)))]"

definition intent_payload :: "hedge_intent \<Rightarrow> pyval" where
  "intent_payload i = PObj [
    (''intent_id'', PStr (hi_intent_id i)), (''fill_key'', PStr (hi_fill_key i)),
    (''source_client_order_id'', PStr (hi_source_client_order_id i)), (''source_trade_id'', PStr (hi_source_trade_id i)),
    (''source_side'', PStr (side_value (hi_source_side i))), (''source_fill_ounces'', dec_json (hi_source_fill_ounces i)),
    (''hedge_side'', PStr (side_value (hi_hedge_side i))), (''hedge_quantity_ounces'', dec_json (hi_hedge_quantity_ounces i)),
    (''hedge_position_id'', opt_value PStr (hi_hedge_position_id i)),
    (''hedge_position_quantity_ounces'', opt_value dec_json (hi_hedge_position_quantity_ounces i)),
    (''status'', PStr (status_value (hi_status i))),
    (''hedge_client_order_id'', opt_value PStr (hi_hedge_client_order_id i)),
    (''hedge_filled_ounces'', dec_json (hi_hedge_filled_ounces i)),
    (''hedge_plan'', PList (map leg_payload (hi_hedge_plan i))), (''hedge_leg_index'', PInt (int (hi_hedge_leg_index i))),
    (''hedge_leg_filled_ounces'', dec_json (hi_hedge_leg_filled_ounces i)),
    (''hedge_order_ids'', PList (map PStr (hi_hedge_order_ids i))),
    (''rejected_attempt'', opt_value attempt_payload (hi_rejected_attempt i))]"

text \<open>\<^verbatim>\<open>_to_payload\<close>.\<close>

definition state_payload :: "store_state \<Rightarrow> pyval" where
  "state_payload s = PObj [(''schema_version'', PInt 2),
    (''source_orders'', PObj (map (\<lambda>(k, r). (k, record_payload r)) (ss_source_orders s))),
    (''active_source_order_id'', opt_value PStr (ss_active_source_order_id s)),
    (''seen_source_fills'', PList (map PStr (sorted_list_of_set (ss_seen_source_fills s)))),
    (''seen_hedge_fills'', PList (map PStr (sorted_list_of_set (ss_seen_hedge_fills s)))),
    (''hedge_intents'', PObj (map (\<lambda>(k, i). (k, intent_payload i)) (ss_hedge_intents s))),
    (''net_unhedged_ounces'', dec_json (ss_net_unhedged_ounces s)),
    (''halt_reason'', opt_value PStr (ss_halt_reason s)),
    (''source_freeze_reason'', opt_value PStr (ss_source_freeze_reason s))]"

text \<open>What \<^verbatim>\<open>json.loads\<close> returns for the text \<^verbatim>\<open>json.dump(value, sort_keys=True)\<close> wrote.\<close>

fun json_sorted :: "pyval \<Rightarrow> pyval" where
  "json_sorted (PList vs) = PList (map json_sorted vs)"
| "json_sorted (PObj d) = PObj (sort_key fst (map (\<lambda>(k, v). (k, json_sorted v)) d))"
| "json_sorted v = v"

section \<open>Reading\<close>

fun py_str :: "(pyval \<Rightarrow> string) \<Rightarrow> pyval \<Rightarrow> string" where
  "py_str rp PNone = ''None''"
| "py_str rp (PBool b) = (if b then ''True'' else ''False'')"
| "py_str rp (PInt n) = int_text n"
| "py_str rp (PFloat NonFinite) = ''nan''"
| "py_str rp (PFloat (Fin x)) = dec_text x"
| "py_str rp (PDec NonFinite) = ''NaN''"
| "py_str rp (PDec (Fin x)) = dec_text x"
| "py_str rp (PStr s) = s"
| "py_str rp v = rp v"

definition obj_get :: "pyobj \<Rightarrow> string \<Rightarrow> pyval" where
  "obj_get d k = (case dict_get d k of None \<Rightarrow> PNone | Some v \<Rightarrow> v)"

definition read_obj :: "pyval \<Rightarrow> exn + pyobj" where
  "read_obj v = (case v of PObj d \<Rightarrow> Inr d | _ \<Rightarrow> Inl (TypeError ''not an object''))"

definition read_str :: "pyval \<Rightarrow> exn + string" where
  "read_str v = (case v of PStr s \<Rightarrow> Inr s | _ \<Rightarrow> Inl (TypeError ''not text''))"

text \<open>Iterating a value.\<close>

definition py_items :: "pyval \<Rightarrow> exn + pyval list" where
  "py_items v = (case v of PList vs \<Rightarrow> Inr vs | PStr s \<Rightarrow> Inr (map (\<lambda>c. PStr [c]) s)
    | PObj d \<Rightarrow> Inr (map (\<lambda>(k, _). PStr k) d) | _ \<Rightarrow> Inl (TypeError ''not iterable''))"

definition optional_string :: "(pyval \<Rightarrow> string) \<Rightarrow> pyval \<Rightarrow> string option" where
  "optional_string rp v = (if v = PNone then None else Some (py_str rp v))"

definition read_dec :: "(pyval \<Rightarrow> string) \<Rightarrow> pyval \<Rightarrow> exn + dec" where
  "read_dec rp v = (case decimal_of_text (py_str rp v) of None \<Rightarrow> Inl ArithmeticError | Some d \<Rightarrow> Inr d)"

definition read_rat :: "(pyval \<Rightarrow> string) \<Rightarrow> pyval \<Rightarrow> exn + rat" where
  "read_rat rp v = bindE (read_dec rp v) (\<lambda>d. case d of Fin x \<Rightarrow> Inr x | NonFinite \<Rightarrow> Inl (ValueError ''quantity must be finite''))"

definition read_opt :: "(pyval \<Rightarrow> exn + 'a) \<Rightarrow> pyval \<Rightarrow> exn + 'a option" where
  "read_opt f v = (if v = PNone then Inr None else bindE (f v) (\<lambda>x. Inr (Some x)))"

definition read_side :: "(pyval \<Rightarrow> string) \<Rightarrow> pyval \<Rightarrow> exn + business_side" where
  "read_side rp v = (case find (\<lambda>s. side_value s = py_str rp v) [BUY, SELL] of
     None \<Rightarrow> Inl (ValueError ''not a valid BusinessOrderSide'') | Some s \<Rightarrow> Inr s)"

definition read_status :: "(pyval \<Rightarrow> string) \<Rightarrow> pyval \<Rightarrow> exn + obligation_status" where
  "read_status rp v = (case find (\<lambda>s. status_value s = py_str rp v)
       [PENDING, SUBMITTING, SUBMITTED, ACCEPTED, COMPLETED, BLOCKED, REJECTED, UNKNOWN] of
     None \<Rightarrow> Inl (ValueError ''not a valid ObligationStatus'') | Some s \<Rightarrow> Inr s)"

definition exact_int :: "pyval \<Rightarrow> exn + int" where
  "exact_int v = (case v of PInt n \<Rightarrow> Inr n | _ \<Rightarrow> Inl (ValueError ''persisted hedge plan index must be an exact int''))"

definition read_record :: "(pyval \<Rightarrow> string) \<Rightarrow> pyval \<Rightarrow> exn + source_order_record" where
  "read_record rp v =
    bindE (read_obj v) (\<lambda>d.
    bindE (dict_index d ''client_order_id'') (\<lambda>cid.
    bindE (dict_index d ''side'') (\<lambda>side. bindE (read_side rp side) (\<lambda>side.
    bindE (dict_index d ''quantity_ounces'') (\<lambda>quantity. bindE (read_rat rp quantity) (\<lambda>quantity.
    bindE (read_opt (read_rat rp) (obj_get d ''hedge_position_quantity_ounces'')) (\<lambda>position_quantity.
    bindE (dict_index d ''filled_ounces'') (\<lambda>filled. bindE (read_rat rp filled) (\<lambda>filled.
    bindE (dict_index d ''status'') (\<lambda>status.
    Inr \<lparr>so_client_order_id = py_str rp cid, so_side = side, so_quantity_ounces = quantity,
      so_source_account_id = optional_string rp (obj_get d ''source_account_id''),
      so_source_client_id = optional_string rp (obj_get d ''source_client_id''),
      so_hedge_account_id = optional_string rp (obj_get d ''hedge_account_id''),
      so_hedge_client_id = optional_string rp (obj_get d ''hedge_client_id''),
      so_hedge_position_id = optional_string rp (obj_get d ''hedge_position_id''),
      so_hedge_position_quantity_ounces = position_quantity, so_filled_ounces = filled,
      so_status = py_str rp status\<rparr>))))))))))"

definition read_leg :: "(pyval \<Rightarrow> string) \<Rightarrow> pyval \<Rightarrow> exn + hedge_leg" where
  "read_leg rp v =
    bindE (read_obj v) (\<lambda>d.
    bindE (dict_index d ''side'') (\<lambda>side. bindE (read_side rp side) (\<lambda>side.
    bindE (dict_index d ''quantity_ounces'') (\<lambda>quantity. bindE (read_dec rp quantity) (\<lambda>quantity.
    bindE (read_opt (read_side rp) (obj_get d ''expected_position_side'')) (\<lambda>expected_side.
    bindE (read_opt (read_dec rp) (obj_get d ''expected_position_quantity_ounces'')) (\<lambda>expected_quantity.
    make_hedge_leg side quantity (optional_string rp (obj_get d ''position_id'')) expected_side expected_quantity)))))))"

definition read_attempt :: "pyval \<Rightarrow> exn + rejected_attempt option" where
  "read_attempt v = (if v = PNone then Inr None
    else case v of
      PObj d \<Rightarrow>
        (case (if dict_keys d = {''client_order_id'', ''leg_index''} then dict_get d ''client_order_id'' else None) of
           Some (PStr cid) \<Rightarrow> bindE (bindE (dict_index d ''leg_index'') exact_int) (\<lambda>index.
             bindE (make_rejected_attempt cid index) (\<lambda>a. Inr (Some a)))
         | _ \<Rightarrow> Inl (ValueError ''invalid rejected hedge attempt record''))
    | _ \<Rightarrow> Inl (ValueError ''invalid rejected hedge attempt record''))"

definition obj_default :: "pyobj \<Rightarrow> string \<Rightarrow> pyval \<Rightarrow> pyval" where
  "obj_default d k v = (case dict_get d k of None \<Rightarrow> v | Some x \<Rightarrow> x)"

definition index_in_range :: "int \<Rightarrow> exn + nat" where
  "index_in_range n = (if n < 0 then Inl (ValueError ''hedge plan index is out of bounds'') else Inr (nat n))"

text \<open>The dispatch half of an intent: its status, current order, plan and progress.\<close>

definition read_progress :: "(pyval \<Rightarrow> string) \<Rightarrow> pyobj \<Rightarrow> hedge_intent \<Rightarrow> exn + hedge_intent" where
  "read_progress rp d i =
    bindE (dict_index d ''status'') (\<lambda>status. bindE (read_status rp status) (\<lambda>status.
    bindE (dict_index d ''hedge_client_order_id'') (\<lambda>cid.
    bindE (dict_index d ''hedge_filled_ounces'') (\<lambda>filled. bindE (read_rat rp filled) (\<lambda>filled.
    bindE (py_items (obj_default d ''hedge_plan'' (PList []))) (\<lambda>legs. bindE (mapE (read_leg rp) legs) (\<lambda>plan.
    bindE (exact_int (obj_default d ''hedge_leg_index'' (PInt 0))) (\<lambda>index.
    bindE (read_rat rp (obj_default d ''hedge_leg_filled_ounces'' (PInt 0))) (\<lambda>leg_filled.
    bindE (py_items (obj_default d ''hedge_order_ids'' (PList []))) (\<lambda>ids.
    bindE (read_attempt (obj_get d ''rejected_attempt'')) (\<lambda>attempt.
    bindE (index_in_range index) (\<lambda>index.
    mk_hedge_intent (i\<lparr>hi_status := status, hi_hedge_client_order_id := optional_string rp cid,
      hi_hedge_filled_ounces := filled, hi_hedge_plan := plan, hi_hedge_leg_index := index,
      hi_hedge_leg_filled_ounces := leg_filled, hi_hedge_order_ids := map (py_str rp) ids,
      hi_rejected_attempt := attempt\<rparr>)))))))))))))"

definition read_intent :: "(pyval \<Rightarrow> string) \<Rightarrow> pyval \<Rightarrow> exn + hedge_intent" where
  "read_intent rp v =
    bindE (read_obj v) (\<lambda>d.
    bindE (dict_index d ''intent_id'') (\<lambda>iid. bindE (dict_index d ''fill_key'') (\<lambda>fill_key.
    bindE (dict_index d ''source_client_order_id'') (\<lambda>cid. bindE (dict_index d ''source_trade_id'') (\<lambda>trade.
    bindE (dict_index d ''source_side'') (\<lambda>source_side. bindE (read_side rp source_side) (\<lambda>source_side.
    bindE (dict_index d ''source_fill_ounces'') (\<lambda>fill. bindE (read_rat rp fill) (\<lambda>fill.
    bindE (dict_index d ''hedge_side'') (\<lambda>hedge_side. bindE (read_side rp hedge_side) (\<lambda>hedge_side.
    bindE (dict_index d ''hedge_quantity_ounces'') (\<lambda>quantity. bindE (read_rat rp quantity) (\<lambda>quantity.
    bindE (read_opt (read_rat rp) (obj_get d ''hedge_position_quantity_ounces'')) (\<lambda>position_quantity.
    read_progress rp d \<lparr>hi_intent_id = py_str rp iid, hi_fill_key = py_str rp fill_key,
      hi_source_client_order_id = py_str rp cid, hi_source_trade_id = py_str rp trade, hi_source_side = source_side,
      hi_source_fill_ounces = fill, hi_hedge_side = hedge_side, hi_hedge_quantity_ounces = quantity,
      hi_hedge_position_id = optional_string rp (obj_get d ''hedge_position_id''),
      hi_hedge_position_quantity_ounces = position_quantity, hi_status = PENDING, hi_hedge_client_order_id = None,
      hi_hedge_filled_ounces = 0, hi_hedge_plan = [], hi_hedge_leg_index = 0, hi_hedge_leg_filled_ounces = 0,
      hi_hedge_order_ids = [], hi_rejected_attempt = None\<rparr>))))))))))))))"

text \<open>\<^verbatim>\<open>{key: f(value) for key, value in raw.items()}\<close>.\<close>

definition read_entries :: "(pyval \<Rightarrow> exn + 'a) \<Rightarrow> pyobj \<Rightarrow> exn + (string \<times> 'a) list" where
  "read_entries f d = mapE (\<lambda>(k, v). bindE (f v) (\<lambda>x. Inr (k, x))) d"

definition attempt_schema_ok :: "int \<Rightarrow> pyval \<Rightarrow> bool" where
  "attempt_schema_ok version v = (case v of
     PObj d \<Rightarrow> \<not> (version = 1 \<and> obj_get d ''rejected_attempt'' \<noteq> PNone)
       \<and> \<not> (version = 2 \<and> dict_get d ''rejected_attempt'' = None)
   | _ \<Rightarrow> True)"

definition late_archived_fill :: "store_state \<Rightarrow> bool" where
  "late_archived_fill s \<longleftrightarrow> list_ex (\<lambda>i. case hi_rejected_attempt i of None \<Rightarrow> False
     | Some a \<Rightarrow> \<exists>key \<in> ss_seen_hedge_fills s. hd (split_bar key) = ra_client_order_id a) (state_intents s)"

definition read_texts :: "pyval \<Rightarrow> exn + string set" where
  "read_texts v = bindE (py_items v) (\<lambda>vs. bindE (mapE read_str vs) (\<lambda>ks. Inr (set ks)))"

text \<open>\<^verbatim>\<open>_from_payload\<close>.\<close>

definition state_of_payload :: "(pyval \<Rightarrow> string) \<Rightarrow> pyval \<Rightarrow> exn + store_state" where
  "state_of_payload rp raw =
    bindE (read_obj raw) (\<lambda>d.
    case obj_get d ''schema_version'' of
      PInt version \<Rightarrow>
        if version \<noteq> 1 \<and> version \<noteq> 2 then Inl (ValueError ''unsupported state schema'')
        else
        bindE (dict_index d ''source_orders'') (\<lambda>orders_raw. bindE (dict_index d ''hedge_intents'') (\<lambda>intents_raw.
        bindE (read_obj intents_raw) (\<lambda>intents_raw.
        if \<not> list_all (\<lambda>(_, v). attempt_schema_ok version v) intents_raw then
          Inl (ValueError ''rejected hedge attempt does not match state schema'')
        else
        bindE (read_obj orders_raw) (\<lambda>orders_raw.
        bindE (read_entries (read_record rp) orders_raw) (\<lambda>orders.
        bindE (read_entries (read_intent rp) intents_raw) (\<lambda>intents.
        bindE (dict_index d ''active_source_order_id'') (\<lambda>active.
        bindE (dict_index d ''seen_source_fills'') (\<lambda>source_fills. bindE (read_texts source_fills) (\<lambda>source_fills.
        bindE (dict_index d ''seen_hedge_fills'') (\<lambda>hedge_fills. bindE (read_texts hedge_fills) (\<lambda>hedge_fills.
        bindE (dict_index d ''net_unhedged_ounces'') (\<lambda>net. bindE (read_rat rp net) (\<lambda>net.
        bindE (dict_index d ''halt_reason'') (\<lambda>halt.
        let s = \<lparr>ss_source_orders = orders, ss_active_source_order_id = optional_string rp active,
          ss_seen_source_fills = source_fills, ss_seen_hedge_fills = hedge_fills, ss_hedge_intents = intents,
          ss_net_unhedged_ounces = net, ss_halt_reason = optional_string rp halt,
          ss_source_freeze_reason = optional_string rp (obj_get d ''source_freeze_reason'')\<rparr>
        in if late_archived_fill s then
             Inl (ValueError ''archived rejected hedge attempt cannot have recorded fills'')
           else Inr s))))))))))))))
    | _ \<Rightarrow> Inl (ValueError ''unsupported state schema''))"

section \<open>Reading what was written\<close>

lemma sort_key_dict:
  assumes "distinct (map fst d)"
  shows "distinct (map fst (sort_key fst d))" "map_of (sort_key fst d) = map_of d"
proof -
  have "mset (map fst (sort_key fst d)) = mset (map fst d)" unfolding mset_map mset_sort ..
  then show s: "distinct (map fst (sort_key fst d))" using assms by (metis mset_eq_imp_distinct_iff)
  show "map_of (sort_key fst d) = map_of d" using s assms by (simp add: map_of_inject_set)
qed

definition json_obj :: "pyobj \<Rightarrow> pyobj" where
  "json_obj d = sort_key fst (map (\<lambda>(k, v). (k, json_sorted v)) d)"

lemma json_sorted_obj: "json_sorted (PObj d) = PObj (json_obj d)"
  by (simp add: json_obj_def)

declare json_sorted.simps(2) [simp del]

lemma json_obj_get: "distinct (map fst d) \<Longrightarrow> dict_get (json_obj d) k = map_option json_sorted (dict_get d k)"
proof -
  assume d: "distinct (map fst d)"
  have "map fst (map (\<lambda>(k, v). (k, json_sorted v)) d) = map fst d" by (simp add: case_prod_unfold)
  with d have "map_of (json_obj d) = map_of (map (\<lambda>(k, v). (k, json_sorted v)) d)"
    unfolding json_obj_def by (intro sort_key_dict(2)) (simp only:)
  moreover have "dict_get (map (\<lambda>(k, v). (k, json_sorted v)) d) k = map_option json_sorted (dict_get d k)" by (induction d) auto
  ultimately show ?thesis by simp
qed

named_theorems codec_simps \<open>one field at a time\<close>

lemma opt_value_codec [codec_simps]:
  "json_sorted (opt_value PStr x) = opt_value PStr x" "json_sorted (opt_value dec_json y) = opt_value dec_json y"
  "json_sorted (dec_json z) = dec_json z" "json_sorted (opt_value (\<lambda>s. PStr (side_value s)) u) = opt_value (\<lambda>s. PStr (side_value s)) u"
  "optional_string rp (opt_value PStr x) = x"
  by (auto simp: opt_value_def dec_json_def optional_string_def split: option.splits)

lemma read_dec_json [codec_simps]: "short_decimal x \<Longrightarrow> read_dec rp (dec_json x) = Inr (Fin x)"
  by (simp add: read_dec_def dec_json_def decimal_roundtrip)

lemma read_rat_value [codec_simps]: "short_decimal x \<Longrightarrow> read_rat rp (dec_json x) = Inr x"
  by (simp add: read_rat_def read_dec_json)

lemma read_opt_rat [codec_simps]: "pred_option short_decimal x \<Longrightarrow> read_opt (read_rat rp) (opt_value dec_json x) = Inr x"
  by (cases x) (auto simp: read_opt_def opt_value_def read_rat_value, simp add: dec_json_def)

lemma read_opt_dec [codec_simps]: "pred_option short_decimal x \<Longrightarrow> read_opt (read_dec rp) (opt_value dec_json x) = Inr (map_option Fin x)"
  by (cases x) (auto simp: read_opt_def opt_value_def read_dec_json, simp add: dec_json_def)

lemma read_side_value [codec_simps]: "read_side rp (PStr (side_value s)) = Inr s"
  by (cases s) (simp_all add: read_side_def)

lemma read_opt_side [codec_simps]: "read_opt (read_side rp) (opt_value (\<lambda>s. PStr (side_value s)) x) = Inr x"
  by (cases x) (simp_all add: read_opt_def opt_value_def read_side_value)

lemma read_status_value [codec_simps]: "read_status rp (PStr (status_value s)) = Inr s"
  by (cases s) (simp_all add: read_status_def)

definition short_record :: "source_order_record \<Rightarrow> bool" where
  "short_record r \<longleftrightarrow> short_decimal (so_quantity_ounces r) \<and> short_decimal (so_filled_ounces r)
    \<and> pred_option short_decimal (so_hedge_position_quantity_ounces r)"

lemma read_record_payload: "short_record r \<Longrightarrow> read_record rp (json_sorted (record_payload r)) = Inr r"
  by (simp add: read_record_def record_payload_def json_sorted_obj read_obj_def json_obj_get dict_index_def obj_get_def
    short_record_def codec_simps)

definition short_leg :: "hedge_leg \<Rightarrow> bool" where
  "short_leg leg \<longleftrightarrow> short_decimal (leg_quantity_ounces leg) \<and> pred_option short_decimal (leg_expected_position_quantity_ounces leg)"

lemma make_valid_leg:
  "valid_leg leg \<Longrightarrow> make_hedge_leg (leg_side leg) (Fin (leg_quantity_ounces leg)) (leg_position_id leg) (leg_expected_position_side leg)
    (map_option Fin (leg_expected_position_quantity_ounces leg)) = Inr leg"
  by (cases "leg_position_id leg") (auto simp: valid_leg_def make_hedge_leg_def)

lemma read_leg_payload: "short_leg leg \<Longrightarrow> valid_leg leg \<Longrightarrow> read_leg rp (json_sorted (leg_payload leg)) = Inr leg"
  by (simp add: read_leg_def leg_payload_def json_sorted_obj read_obj_def json_obj_get dict_index_def obj_get_def
    short_leg_def codec_simps make_valid_leg)

definition valid_attempt :: "rejected_attempt \<Rightarrow> bool" where
  "valid_attempt a \<longleftrightarrow> ra_client_order_id a \<noteq> [] \<and> CHR ''|'' \<notin> set (ra_client_order_id a)"

lemma json_obj_keys: "dict_keys (json_obj d) = dict_keys d"
  by (force simp: json_obj_def)

lemma read_attempt_payload:
  "pred_option valid_attempt x \<Longrightarrow> read_attempt (json_sorted (opt_value attempt_payload x)) = Inr x"
  by (cases x) (auto simp: read_attempt_def opt_value_def attempt_payload_def json_sorted_obj json_obj_keys json_obj_get
      dict_index_def exact_int_def make_rejected_attempt_def valid_attempt_def)

definition short_intent :: "hedge_intent \<Rightarrow> bool" where
  "short_intent i \<longleftrightarrow> short_decimal (hi_source_fill_ounces i) \<and> short_decimal (hi_hedge_quantity_ounces i)
    \<and> pred_option short_decimal (hi_hedge_position_quantity_ounces i) \<and> short_decimal (hi_hedge_filled_ounces i)
    \<and> short_decimal (hi_hedge_leg_filled_ounces i) \<and> list_all short_leg (hi_hedge_plan i)"

lemma mapE_map_Inr: "(\<And>x. x \<in> set xs \<Longrightarrow> f (g x) = Inr x) \<Longrightarrow> mapE f (map g xs) = Inr xs"
  by (induction xs) auto

lemma read_progress_payload:
  assumes "dict_get d ''status'' = Some (PStr (status_value (hi_status i)))"
    "dict_get d ''hedge_client_order_id'' = Some (opt_value PStr (hi_hedge_client_order_id i))"
    "dict_get d ''hedge_filled_ounces'' = Some (dec_json (hi_hedge_filled_ounces i))"
    "dict_get d ''hedge_plan'' = Some (PList (map (\<lambda>l. json_sorted (leg_payload l)) (hi_hedge_plan i)))"
    "dict_get d ''hedge_leg_index'' = Some (PInt (int (hi_hedge_leg_index i)))"
    "dict_get d ''hedge_leg_filled_ounces'' = Some (dec_json (hi_hedge_leg_filled_ounces i))"
    "dict_get d ''hedge_order_ids'' = Some (PList (map PStr (hi_hedge_order_ids i)))"
    "dict_get d ''rejected_attempt'' = Some (json_sorted (opt_value attempt_payload (hi_rejected_attempt i)))"
    "short_intent i" "valid_intent i" "list_all valid_leg (hi_hedge_plan i)" "pred_option valid_attempt (hi_rejected_attempt i)"
    "i = j\<lparr>hi_status := hi_status i, hi_hedge_client_order_id := hi_hedge_client_order_id i,
      hi_hedge_filled_ounces := hi_hedge_filled_ounces i, hi_hedge_plan := hi_hedge_plan i, hi_hedge_leg_index := hi_hedge_leg_index i,
      hi_hedge_leg_filled_ounces := hi_hedge_leg_filled_ounces i, hi_hedge_order_ids := hi_hedge_order_ids i,
      hi_rejected_attempt := hi_rejected_attempt i\<rparr>"
  shows "read_progress rp d j = Inr i"
proof -
  have plan: "mapE (read_leg rp) (map (\<lambda>l. json_sorted (leg_payload l)) (hi_hedge_plan i)) = Inr (hi_hedge_plan i)"
    by (rule mapE_map_Inr) (use assms(9,11) in \<open>auto simp: short_intent_def list_all_iff read_leg_payload\<close>)
  have "map (py_str rp) (map PStr (hi_hedge_order_ids i)) = hi_hedge_order_ids i" by (simp add: o_def)
  with assms(1-10,12) plan show ?thesis
    unfolding read_progress_def
    by (simp add: dict_index_def codec_simps obj_default_def obj_get_def py_items_def exact_int_def index_in_range_def
      read_attempt_payload short_intent_def del: map_map mk_hedge_intent_Inr) (simp add: assms(13) [symmetric])
qed

lemma read_intent_payload:
  assumes "short_intent i" "valid_intent i" "list_all valid_leg (hi_hedge_plan i)" "pred_option valid_attempt (hi_rejected_attempt i)"
  shows "read_intent rp (json_sorted (intent_payload i)) = Inr i"
proof -
  define fields where "fields = (case intent_payload i of PObj d \<Rightarrow> d | _ \<Rightarrow> [])"
  have f: "intent_payload i = PObj fields" "distinct (map fst fields)" by (simp_all add: fields_def intent_payload_def)
  have get: "dict_get (json_obj fields) ''intent_id'' = Some (PStr (hi_intent_id i))"
    "dict_get (json_obj fields) ''fill_key'' = Some (PStr (hi_fill_key i))"
    "dict_get (json_obj fields) ''source_client_order_id'' = Some (PStr (hi_source_client_order_id i))"
    "dict_get (json_obj fields) ''source_trade_id'' = Some (PStr (hi_source_trade_id i))"
    "dict_get (json_obj fields) ''source_side'' = Some (PStr (side_value (hi_source_side i)))"
    "dict_get (json_obj fields) ''source_fill_ounces'' = Some (dec_json (hi_source_fill_ounces i))"
    "dict_get (json_obj fields) ''hedge_side'' = Some (PStr (side_value (hi_hedge_side i)))"
    "dict_get (json_obj fields) ''hedge_quantity_ounces'' = Some (dec_json (hi_hedge_quantity_ounces i))"
    "dict_get (json_obj fields) ''hedge_position_id'' = Some (opt_value PStr (hi_hedge_position_id i))"
    "dict_get (json_obj fields) ''hedge_position_quantity_ounces'' = Some (opt_value dec_json (hi_hedge_position_quantity_ounces i))"
    unfolding json_obj_get [OF f(2)] by (simp_all add: fields_def intent_payload_def codec_simps)
  have progress: "read_progress rp (json_obj fields) \<lparr>hi_intent_id = hi_intent_id i, hi_fill_key = hi_fill_key i,
      hi_source_client_order_id = hi_source_client_order_id i, hi_source_trade_id = hi_source_trade_id i,
      hi_source_side = hi_source_side i, hi_source_fill_ounces = hi_source_fill_ounces i, hi_hedge_side = hi_hedge_side i,
      hi_hedge_quantity_ounces = hi_hedge_quantity_ounces i, hi_hedge_position_id = hi_hedge_position_id i,
      hi_hedge_position_quantity_ounces = hi_hedge_position_quantity_ounces i, hi_status = PENDING,
      hi_hedge_client_order_id = None, hi_hedge_filled_ounces = 0, hi_hedge_plan = [], hi_hedge_leg_index = 0,
      hi_hedge_leg_filled_ounces = 0, hi_hedge_order_ids = [], hi_rejected_attempt = None\<rparr> = Inr i"
    by (rule read_progress_payload)
      (unfold json_obj_get [OF f(2)], simp_all add: assms fields_def intent_payload_def codec_simps o_def)
  show ?thesis
    unfolding f(1) json_sorted_obj read_intent_def read_obj_def
    using assms(1) by (simp add: dict_index_def obj_get_def get codec_simps short_intent_def progress)
qed

lemma sort_key_map:
  assumes "\<And>p. fst (h p) = fst p"
  shows "sort_key fst (map h d) = map h (sort_key fst d)"
proof -
  have "insort_key fst (h p) (map h xs) = map h (insort_key fst p xs)" for p xs
    by (induction xs) (simp_all add: assms)
  then show ?thesis by (induction d) simp_all
qed

lemma read_entries_payload:
  assumes "\<And>k x. (k, x) \<in> set d \<Longrightarrow> f (json_sorted (g x)) = Inr x"
  shows "read_entries f (json_obj (map (\<lambda>(k, x). (k, g x)) d)) = Inr (sort_key fst d)"
proof -
  have "json_obj (map (\<lambda>(k, x). (k, g x)) d) = map (\<lambda>(k, x). (k, json_sorted (g x))) (sort_key fst d)"
    unfolding json_obj_def by (simp add: sort_key_map [symmetric] case_prod_unfold o_def)
  moreover have "mapE (\<lambda>(k, v). bindE (f v) (\<lambda>x. Inr (k, x))) (map (\<lambda>(k, x). (k, json_sorted (g x))) (sort_key fst d)) = Inr (sort_key fst d)"
    by (rule mapE_map_Inr) (use assms in auto)
  ultimately show ?thesis by (simp add: read_entries_def)
qed

text \<open>A state the program can hold: dictionaries have one value per key, every intent, leg and
  archived attempt was constructed, and quantities have at most \<open>dec_places\<close> places.\<close>

definition storable_intent :: "hedge_intent \<Rightarrow> bool" where
  "storable_intent i \<longleftrightarrow> short_intent i \<and> valid_intent i \<and> list_all valid_leg (hi_hedge_plan i)
    \<and> pred_option valid_attempt (hi_rejected_attempt i)"

definition storable :: "store_state \<Rightarrow> bool" where
  "storable s \<longleftrightarrow> distinct (map fst (ss_source_orders s)) \<and> distinct (map fst (ss_hedge_intents s))
    \<and> finite (ss_seen_source_fills s) \<and> finite (ss_seen_hedge_fills s)
    \<and> list_all short_record (state_orders s) \<and> list_all storable_intent (state_intents s)
    \<and> short_decimal (ss_net_unhedged_ounces s) \<and> \<not> late_archived_fill s"

definition key_sorted :: "store_state \<Rightarrow> store_state" where
  "key_sorted s = s\<lparr>ss_source_orders := sort_key fst (ss_source_orders s), ss_hedge_intents := sort_key fst (ss_hedge_intents s)\<rparr>"

lemma read_texts_sorted: "finite A \<Longrightarrow> read_texts (PList (map PStr (sorted_list_of_set A))) = Inr A"
proof -
  assume a: "finite A"
  have "mapE read_str (map PStr xs) = Inr xs" for xs by (rule mapE_map_Inr) (simp add: read_str_def)
  with a show ?thesis by (simp add: read_texts_def py_items_def)
qed

lemma attempt_schema_written: "attempt_schema_ok 2 (json_sorted (intent_payload i))"
proof -
  define fields where "fields = (case intent_payload i of PObj d \<Rightarrow> d | _ \<Rightarrow> [])"
  have f: "intent_payload i = PObj fields" "distinct (map fst fields)" by (simp_all add: fields_def intent_payload_def)
  then show ?thesis by (simp add: json_sorted_obj attempt_schema_ok_def json_obj_get) (simp add: fields_def intent_payload_def)
qed

lemma late_archived_sorted: "late_archived_fill (key_sorted s) \<longleftrightarrow> late_archived_fill s"
  by (simp add: late_archived_fill_def key_sorted_def state_intents_def list_ex_iff cong: option.case_cong)

lemma state_codec:
  assumes "storable s"
  shows "state_of_payload rp (json_sorted (state_payload s)) = Inr (key_sorted s)"
proof -
  define fields where "fields = (case state_payload s of PObj d \<Rightarrow> d | _ \<Rightarrow> [])"
  have f: "state_payload s = PObj fields" "distinct (map fst fields)" by (simp_all add: fields_def state_payload_def)
  have lists: "json_sorted (PList (map PStr xs)) = PList (map PStr xs)" for xs by (simp add: o_def)
  have get: "dict_get (json_obj fields) ''schema_version'' = Some (PInt 2)"
    "dict_get (json_obj fields) ''source_orders'' = Some (PObj (json_obj (map (\<lambda>(k, r). (k, record_payload r)) (ss_source_orders s))))"
    "dict_get (json_obj fields) ''active_source_order_id'' = Some (opt_value PStr (ss_active_source_order_id s))"
    "dict_get (json_obj fields) ''seen_source_fills'' = Some (PList (map PStr (sorted_list_of_set (ss_seen_source_fills s))))"
    "dict_get (json_obj fields) ''seen_hedge_fills'' = Some (PList (map PStr (sorted_list_of_set (ss_seen_hedge_fills s))))"
    "dict_get (json_obj fields) ''hedge_intents'' = Some (PObj (json_obj (map (\<lambda>(k, i). (k, intent_payload i)) (ss_hedge_intents s))))"
    "dict_get (json_obj fields) ''net_unhedged_ounces'' = Some (dec_json (ss_net_unhedged_ounces s))"
    "dict_get (json_obj fields) ''halt_reason'' = Some (opt_value PStr (ss_halt_reason s))"
    "dict_get (json_obj fields) ''source_freeze_reason'' = Some (opt_value PStr (ss_source_freeze_reason s))"
    unfolding json_obj_get [OF f(2)]
    by (simp_all add: fields_def state_payload_def codec_simps lists json_sorted_obj del: json_sorted.simps(1))
  have orders: "read_entries (read_record rp) (json_obj (map (\<lambda>(k, r). (k, record_payload r)) (ss_source_orders s))) =
      Inr (sort_key fst (ss_source_orders s))"
    by (rule read_entries_payload) (use assms in \<open>fastforce simp: storable_def list_all_iff state_orders_def read_record_payload\<close>)
  have intents: "read_entries (read_intent rp) (json_obj (map (\<lambda>(k, i). (k, intent_payload i)) (ss_hedge_intents s))) =
      Inr (sort_key fst (ss_hedge_intents s))"
    by (rule read_entries_payload, rule read_intent_payload)
      (use assms in \<open>fastforce simp: storable_def storable_intent_def list_all_iff state_intents_def\<close>)+
  have schema: "list_all (\<lambda>(_, v). attempt_schema_ok 2 v) (json_obj (map (\<lambda>(k, i). (k, intent_payload i)) (ss_hedge_intents s)))"
    by (auto simp: list_all_iff json_obj_def attempt_schema_written)
  have "\<not> late_archived_fill (key_sorted s)" using assms late_archived_sorted by (simp add: storable_def)
  then have late: "\<not> late_archived_fill \<lparr>ss_source_orders = sort_key fst (ss_source_orders s),
      ss_active_source_order_id = ss_active_source_order_id s, ss_seen_source_fills = ss_seen_source_fills s,
      ss_seen_hedge_fills = ss_seen_hedge_fills s, ss_hedge_intents = sort_key fst (ss_hedge_intents s),
      ss_net_unhedged_ounces = ss_net_unhedged_ounces s, ss_halt_reason = ss_halt_reason s,
      ss_source_freeze_reason = ss_source_freeze_reason s\<rparr>"
    by (cases s) (simp add: key_sorted_def)
  show ?thesis
    unfolding f(1) json_sorted_obj state_of_payload_def read_obj_def
    using assms by (simp add: obj_get_def dict_index_def get orders intents schema read_texts_sorted codec_simps storable_def late Let_def)
      (simp add: key_sorted_def)
qed

text \<open>C27: what the store writes it reads back. The state read from the file the store wrote is the state it
  wrote, with both dictionaries in key order.\<close>

theorem state_roundtrip:
  assumes "storable s"
  shows "state_of_payload rp (json_sorted (state_payload s)) = Inr (key_sorted s)"
  using assms by (rule state_codec)

text \<open>A store with two orders out of key order, and a half-filled hedge plan.\<close>

definition ex_saved_order :: "string \<Rightarrow> source_order_record" where
  "ex_saved_order cid = \<lparr>so_client_order_id = cid, so_side = BUY, so_quantity_ounces = 5/2, so_source_account_id = Some ''a'',
     so_source_client_id = None, so_hedge_account_id = Some ''b'', so_hedge_client_id = None, so_hedge_position_id = None,
     so_hedge_position_quantity_ounces = None, so_filled_ounces = 2, so_status = ''PARTIALLY_FILLED''\<rparr>"

definition ex_saved_leg :: "rat \<Rightarrow> string option \<Rightarrow> hedge_leg" where
  "ex_saved_leg q ticket = \<lparr>leg_side = SELL, leg_quantity_ounces = q, leg_position_id = ticket,
     leg_expected_position_side = (if ticket = None then None else Some BUY),
     leg_expected_position_quantity_ounces = (if ticket = None then None else Some q)\<rparr>"

definition ex_saved_intent :: hedge_intent where
  "ex_saved_intent = \<lparr>hi_intent_id = ''i1'', hi_fill_key = ''o2|v1|t1'', hi_source_client_order_id = ''o2'',
     hi_source_trade_id = ''t1'', hi_source_side = BUY, hi_source_fill_ounces = 2, hi_hedge_side = SELL,
     hi_hedge_quantity_ounces = 2, hi_hedge_position_id = None, hi_hedge_position_quantity_ounces = None,
     hi_status = SUBMITTING, hi_hedge_client_order_id = Some ''h2'', hi_hedge_filled_ounces = 1,
     hi_hedge_plan = [ex_saved_leg 1 (Some ''20''), ex_saved_leg 1 None], hi_hedge_leg_index = 1,
     hi_hedge_leg_filled_ounces = 0, hi_hedge_order_ids = [''h1'', ''h2''], hi_rejected_attempt = None\<rparr>"

definition ex_saved :: store_state where
  "ex_saved = empty_state\<lparr>ss_source_orders := [(''o2'', ex_saved_order ''o2''), (''o1'', ex_saved_order ''o1'')],
     ss_active_source_order_id := Some ''o2'', ss_seen_source_fills := {''o2|v1|t1'', ''o1|v0|t0''},
     ss_seen_hedge_fills := {''h1|d1''}, ss_hedge_intents := [(''i1'', ex_saved_intent)], ss_net_unhedged_ounces := - 1/4\<rparr>"

lemma short_examples: "short_decimal 0" "short_decimal 1" "short_decimal 2" "short_decimal (5/2)" "short_decimal (- (1/4))"
  by (simp_all add: short_decimal_def dec_places_def)

lemma ex_saved_storable: "storable ex_saved"
proof -
  have "dsum 0 [1, 1] = 2" "dsum 0 [1] = 1"
    using dsum_exact [of 0 "[1, 1]"] dsum_exact [of 0 "[1]"] by simp_all
  then show ?thesis
    by (simp add: storable_def ex_saved_def empty_state_def state_orders_def state_intents_def short_record_def ex_saved_order_def
      storable_intent_def short_intent_def ex_saved_intent_def short_leg_def ex_saved_leg_def short_examples valid_leg_def
      late_archived_fill_def valid_intent_def check_hedge_intent_def check_rejected_history_def check_plan_progress_def plan_total_def)
qed

theorem state_roundtrip_witness:
  "state_of_payload (\<lambda>_. []) (json_sorted (state_payload ex_saved)) = Inr (ex_saved\<lparr>ss_source_orders :=
     [(''o1'', ex_saved_order ''o1''), (''o2'', ex_saved_order ''o2'')]\<rparr>)"
  using state_roundtrip [OF ex_saved_storable, of "\<lambda>_. []"]
  by (simp add: key_sorted_def ex_saved_def empty_state_def)

end
