(* ===== verification/Maker_Codec.thy ===== *)
theory Maker_Codec
  imports Store_Codec Maker_Store
begin

text \<open>
  The JSON codec of \<^verbatim>\<open>maker_store.py\<close>: the payload of the owner, its strict reader with the schema of
  every version, the ordered allocations and the legacy checkpoint.

  As in \<open>Store_Codec\<close> quantities are finite; \<^verbatim>\<open>Decimal(x)\<close> of a list is an error (the code accepts a
  list of sign, digits and exponent).
\<close>

section \<open>Writing\<close>

fun key_name :: "view_key \<Rightarrow> string" where
  "key_name Bid = ''bid''"
| "key_name Ask = ''ask''"
| "key_name Taker = ''taker''"

definition route_payload :: "route \<Rightarrow> pyval" where
  "route_payload = (\<lambda>(source, source_client, hedge, hedge_client, isolated). PObj [
    (''source_account_id'', opt_value PStr source), (''source_client_id'', opt_value PStr source_client),
    (''hedge_account_id'', opt_value PStr hedge), (''hedge_client_id'', opt_value PStr hedge_client),
    (''isolated_source_order_id'', opt_value PStr isolated)])"

definition allocation_payload :: "allocation \<Rightarrow> pyval" where
  "allocation_payload a = PObj [(''fill_key'', PStr (al_fill_key a)), (''route'', route_payload (al_route a)),
    (''signed_fill_ounces'', dec_json (al_signed_fill_ounces a)), (''allocated_ounces'', dec_json (al_allocated_ounces a))]"

definition legacy_order_payload :: "legacy_order \<Rightarrow> pyval" where
  "legacy_order_payload o' = PObj [(''client_order_id'', PStr (lo_client_order_id o')),
    (''direction'', PStr (direction_value (lo_direction o'))), (''route'', route_payload (lo_route o')),
    (''filled_ounces'', dec_json (lo_filled_ounces o')), (''fill_keys'', PList (map PStr (lo_fill_keys o'))),
    (''intent_ids'', PList (map PStr (lo_intent_ids o'))), (''allocated_ounces'', dec_json (lo_allocated_ounces o'))]"

definition checkpoint_payload :: "(string \<times> string) list \<Rightarrow> legacy_order list \<Rightarrow> pyval" where
  "checkpoint_payload sources orders = PObj [(''projection'', PStr ''bid_then_ask''),
    (''sources'', PList (map (\<lambda>(path, digest). PObj [(''path'', PStr path), (''sha256'', PStr digest)]) sources)),
    (''orders'', PList (map legacy_order_payload orders))]"

definition owner_kind :: "owner_config \<Rightarrow> string" where
  "owner_kind cfg = (if oc_shared_strategy_ids cfg \<noteq> None then ''shared'' else ''maker'')"

definition strategy_bindings :: "string \<times> string \<Rightarrow> pyobj" where
  "strategy_bindings = (\<lambda>(maker, taker). [(''bid'', PStr maker), (''ask'', PStr maker), (''taker'', PStr taker)])"

text \<open>\<^verbatim>\<open>_to_payload\<close>.\<close>

definition owner_payload :: "owner_config \<Rightarrow> snapshot \<Rightarrow> pyval" where
  "owner_payload cfg sn = PObj ([
    (''schema_version'', PInt (if oc_shared_strategy_ids cfg \<noteq> None then 9 else if oc_legacy_sources cfg = None then 7 else 8)),
    (''cycle_freeze_only'', PBool (sn_cycle_freeze_only sn)), (''kind'', PStr (owner_kind cfg)),
    (''source_instrument_id'', PStr (oc_source_instrument_id cfg)), (''hedge_instrument_id'', PStr (oc_hedge_instrument_id cfg)),
    (''allocations'', PList (map allocation_payload (sn_allocations sn))),
    (''directions'', PObj (map (\<lambda>k. (key_name k, state_payload (sn_states sn k))) (view_keys cfg)))]
    @ (case oc_shared_strategy_ids cfg of None \<Rightarrow> [] | Some ids \<Rightarrow> [(''strategy_ids'', PObj (strategy_bindings ids))])
    @ (case oc_legacy_sources cfg of None \<Rightarrow> []
       | Some sources \<Rightarrow> [(''legacy_checkpoint'', checkpoint_payload sources (oc_legacy_orders cfg))]))"

section \<open>Reading\<close>

text \<open>\<^verbatim>\<open>isinstance(value, dict) and set(value) == fields\<close>.\<close>

definition obj_with :: "string set \<Rightarrow> pyval \<Rightarrow> pyobj option" where
  "obj_with names v = (case v of PObj d \<Rightarrow> if dict_keys d = names then Some d else None | _ \<Rightarrow> None)"

text \<open>\<^verbatim>\<open>Decimal(value)\<close>; the callers turn every failure into one error.\<close>

definition decimal_of :: "pyval \<Rightarrow> rat option" where
  "decimal_of v = (case v of
     PStr s \<Rightarrow> (case decimal_of_text s of Some (Fin x) \<Rightarrow> Some x | _ \<Rightarrow> None)
   | PInt n \<Rightarrow> Some (of_int n) | PBool b \<Rightarrow> Some (of_bool b)
   | PFloat (Fin x) \<Rightarrow> Some (to_float x) | PDec (Fin x) \<Rightarrow> Some x | _ \<Rightarrow> None)"

definition text_or_none :: "pyval \<Rightarrow> string option option" where
  "text_or_none v = (case v of PNone \<Rightarrow> Some None | PStr s \<Rightarrow> Some (Some s) | _ \<Rightarrow> None)"

definition route_fields :: "string list" where
  "route_fields = [''source_account_id'', ''source_client_id'', ''hedge_account_id'', ''hedge_client_id'', ''isolated_source_order_id'']"

definition read_route :: "pyval \<Rightarrow> route option" where
  "read_route v = (case obj_with (set route_fields) v of None \<Rightarrow> None
     | Some d \<Rightarrow> (case map (\<lambda>k. text_or_none (obj_get d k)) route_fields of
         [Some a, Some b, Some c, Some e, Some f] \<Rightarrow> Some (a, b, c, e, f) | _ \<Rightarrow> None))"

definition read_allocation :: "pyval \<Rightarrow> exn + allocation" where
  "read_allocation v =
    (case obj_with {''fill_key'', ''route'', ''signed_fill_ounces'', ''allocated_ounces''} v of
       None \<Rightarrow> Inl (ValueError ''invalid Maker allocation record'')
     | Some d \<Rightarrow> (case obj_get d ''fill_key'' of
         PStr key \<Rightarrow> (case read_route (obj_get d ''route'') of
           None \<Rightarrow> Inl (ValueError ''invalid Maker allocation route snapshot'')
         | Some route \<Rightarrow> (case (decimal_of (obj_get d ''signed_fill_ounces''), decimal_of (obj_get d ''allocated_ounces'')) of
             (Some signed, Some allocated) \<Rightarrow> Inr \<lparr>al_fill_key = key, al_route = route,
               al_signed_fill_ounces = signed, al_allocated_ounces = allocated\<rparr>
           | _ \<Rightarrow> Inl (ValueError ''invalid Maker allocation quantity'')))
       | _ \<Rightarrow> Inl (ValueError ''invalid Maker allocation record'')))"

definition read_allocations :: "pyval \<Rightarrow> exn + allocation list" where
  "read_allocations v = (case v of PList vs \<Rightarrow> mapE read_allocation vs
     | _ \<Rightarrow> Inl (ValueError ''Maker allocations must be an ordered list''))"

definition is_hex :: "char \<Rightarrow> bool" where
  "is_hex c \<longleftrightarrow> c \<in> set ''0123456789abcdef''"

definition read_source :: "pyval \<Rightarrow> exn + string \<times> string" where
  "read_source v = (case obj_with {''path'', ''sha256''} v of
     Some d \<Rightarrow> (case (obj_get d ''path'', obj_get d ''sha256'') of
       (PStr path, PStr digest) \<Rightarrow>
         if path = [] \<or> length digest \<noteq> 64 \<or> \<not> list_all is_hex digest then
           Inl (ValueError ''invalid legacy checkpoint source metadata'')
         else Inr (path, digest)
     | _ \<Rightarrow> Inl (ValueError ''invalid legacy checkpoint source metadata''))
   | None \<Rightarrow> Inl (ValueError ''invalid legacy checkpoint source metadata''))"

definition text_list :: "pyval \<Rightarrow> string list option" where
  "text_list v = (case v of PList vs \<Rightarrow>
      if list_all is_str vs then Some (map (\<lambda>x. case x of PStr s \<Rightarrow> s | _ \<Rightarrow> []) vs) else None | _ \<Rightarrow> None)"

definition read_direction :: "pyval \<Rightarrow> source_direction option" where
  "read_direction v = find (\<lambda>d. PStr (direction_value d) = v) [LONG, SHORT]"

definition read_legacy_order :: "pyval \<Rightarrow> exn + legacy_order" where
  "read_legacy_order v =
    (case obj_with {''client_order_id'', ''direction'', ''route'', ''filled_ounces'', ''fill_keys'', ''intent_ids'', ''allocated_ounces''} v of
       None \<Rightarrow> Inl (ValueError ''invalid legacy checkpoint order'')
     | Some d \<Rightarrow> (case obj_get d ''client_order_id'' of
         PStr cid \<Rightarrow> (case (read_route (obj_get d ''route''), text_list (obj_get d ''fill_keys''), text_list (obj_get d ''intent_ids'')) of
           (Some route, Some fill_keys, Some intent_ids) \<Rightarrow>
             (case (read_direction (obj_get d ''direction''), decimal_of (obj_get d ''filled_ounces''),
                 decimal_of (obj_get d ''allocated_ounces'')) of
               (Some direction, Some filled, Some allocated) \<Rightarrow> Inr \<lparr>lo_client_order_id = cid, lo_direction = direction,
                 lo_route = route, lo_filled_ounces = filled, lo_fill_keys = fill_keys, lo_intent_ids = intent_ids,
                 lo_allocated_ounces = allocated\<rparr>
             | _ \<Rightarrow> Inl (ValueError ''invalid legacy checkpoint quantity or direction''))
         | _ \<Rightarrow> Inl (ValueError ''invalid legacy checkpoint route or identities''))
       | _ \<Rightarrow> Inl (ValueError ''invalid legacy checkpoint order'')))"

definition read_checkpoint :: "pyval \<Rightarrow> exn + (string \<times> string) list \<times> legacy_order list" where
  "read_checkpoint v =
    (case obj_with {''projection'', ''sources'', ''orders''} v of
       None \<Rightarrow> Inl (ValueError ''invalid legacy checkpoint'')
     | Some d \<Rightarrow> (case (obj_get d ''projection'' = PStr ''bid_then_ask'', obj_get d ''sources'', obj_get d ''orders'') of
         (True, PList sources, PList orders) \<Rightarrow>
           if length sources \<notin> {1, 2} then Inl (ValueError ''invalid legacy checkpoint'')
           else bindE (mapE read_source sources) (\<lambda>sources.
             if \<not> distinct (map fst sources) then Inl (ValueError ''duplicate legacy checkpoint source'')
             else bindE (mapE read_legacy_order orders) (\<lambda>orders. Inr (sources, orders)))
       | _ \<Rightarrow> Inl (ValueError ''invalid legacy checkpoint'')))"

text \<open>\<^verbatim>\<open>except (KeyError, TypeError, AttributeError)\<close>.\<close>

definition as_invalid_state :: "exn + 'a \<Rightarrow> exn + 'a" where
  "as_invalid_state m = (case m of
     Inl KeyError \<Rightarrow> Inl (ValueError ''invalid Maker direction state'')
   | Inl (TypeError _) \<Rightarrow> Inl (ValueError ''invalid Maker direction state'')
   | _ \<Rightarrow> m)"

definition expected_fields :: "owner_config \<Rightarrow> int \<Rightarrow> string set" where
  "expected_fields cfg version =
    {''schema_version'', ''kind'', ''source_instrument_id'', ''hedge_instrument_id'', ''directions'', ''allocations''}
    \<union> (if version \<in> {4, 6, 8} then {''legacy_checkpoint''} else {})
    \<union> (if version \<in> {5, 6, 7, 8, 9} then {''cycle_freeze_only''} else {})
    \<union> (if oc_shared_strategy_ids cfg \<noteq> None then {''strategy_ids''} else {})"

definition supported_version :: "owner_config \<Rightarrow> int \<Rightarrow> bool" where
  "supported_version cfg version \<longleftrightarrow>
    (if oc_shared_strategy_ids cfg \<noteq> None then version = 9 else 3 \<le> version \<and> version \<le> 8)"

definition same_bindings :: "pyval \<Rightarrow> pyobj \<Rightarrow> bool" where
  "same_bindings v e = (case obj_with (dict_keys e) v of None \<Rightarrow> False
     | Some d \<Rightarrow> list_all (\<lambda>(k, x). dict_get d k = Some x) e)"

definition direction_schema_ok :: "int \<Rightarrow> pyval \<Rightarrow> bool" where
  "direction_schema_ok version v = (case v of
     PObj d \<Rightarrow> obj_get d ''schema_version'' = PInt (if version \<in> {7, 8, 9} then 2 else 1) | _ \<Rightarrow> False)"

text \<open>The views, checkpoint and allocations of a file whose header passed.\<close>

definition read_owner_body ::
  "(pyval \<Rightarrow> string) \<Rightarrow> owner_config \<Rightarrow> pyobj \<Rightarrow> int \<Rightarrow> pyobj \<Rightarrow> exn + ((string \<times> string) list option \<times> legacy_order list)
     \<times> allocation list \<times> (view_key \<Rightarrow> store_state)"
where
  "read_owner_body rp cfg d version directions =
    bindE (if version \<in> {4, 6, 8} then bindE (read_checkpoint (obj_get d ''legacy_checkpoint''))
        (\<lambda>(sources, orders). Inr (Some sources, orders)) else Inr (oc_legacy_sources cfg, oc_legacy_orders cfg)) (\<lambda>legacy.
    bindE (read_allocations (obj_get d ''allocations'')) (\<lambda>allocations.
    bindE (mapE (\<lambda>k. bindE (state_of_payload rp (obj_get directions (key_name k))) (\<lambda>s. Inr (k, s))) (view_keys cfg)) (\<lambda>states.
    Inr (legacy, allocations, \<lambda>k. case dict_get states k of None \<Rightarrow> empty_state | Some s \<Rightarrow> s))))"

text \<open>\<^verbatim>\<open>_load\<close>: the configuration with the legacy checkpoint of the file, and the snapshot.\<close>

definition owner_of_payload :: "(pyval \<Rightarrow> string) \<Rightarrow> owner_config \<Rightarrow> pyval \<Rightarrow> exn + owner_config \<times> snapshot" where
  "owner_of_payload rp cfg raw =
    (case raw of
      PObj d \<Rightarrow> (case obj_get d ''schema_version'' of
        PInt version \<Rightarrow>
          if dict_keys d \<noteq> expected_fields cfg version \<or> \<not> supported_version cfg version then
            Inl (ValueError ''unsupported Maker state schema; legacy state requires migration'')
          else if (case oc_shared_strategy_ids cfg of None \<Rightarrow> False
              | Some ids \<Rightarrow> \<not> same_bindings (obj_get d ''strategy_ids'') (strategy_bindings ids)) then
            Inl (ValueError ''shared state strategy bindings differ'')
          else (case obj_default d ''cycle_freeze_only'' (PBool False) of
            PBool freeze_only \<Rightarrow>
              if obj_get d ''kind'' \<noteq> PStr (owner_kind cfg)
                \<or> obj_get d ''source_instrument_id'' \<noteq> PStr (oc_source_instrument_id cfg)
                \<or> obj_get d ''hedge_instrument_id'' \<noteq> PStr (oc_hedge_instrument_id cfg) then
                Inl (ValueError ''Maker state kind or instrument binding differs'')
              else (case obj_with (key_name ` set (view_keys cfg)) (obj_get d ''directions'') of
                None \<Rightarrow> Inl (ValueError ''state owner requires exactly its configured views'')
              | Some directions \<Rightarrow>
                  if \<not> list_all (\<lambda>(_, v). direction_schema_ok version v) directions then
                    Inl (ValueError ''invalid Maker direction schema'')
                  else bindE (as_invalid_state (read_owner_body rp cfg d version directions))
                    (\<lambda>((sources, orders), allocations, states).
                      Inr (cfg\<lparr>oc_legacy_sources := sources, oc_legacy_orders := orders\<rparr>,
                        \<lparr>sn_states = states, sn_allocations = allocations, sn_cycle_freeze_only = freeze_only\<rparr>)))
          | _ \<Rightarrow> Inl (ValueError ''Maker cycle freeze provenance must be a boolean''))
      | _ \<Rightarrow> Inl (ValueError ''unsupported Maker state schema; legacy state requires migration''))
    | _ \<Rightarrow> Inl (ValueError ''unsupported Maker state schema; legacy state requires migration''))"

section \<open>Reading what was written\<close>

lemma obj_with_written: "names = dict_keys d \<Longrightarrow> obj_with names (json_sorted (PObj d)) = Some (json_obj d)"
  by (simp add: obj_with_def json_sorted_obj json_obj_keys)

lemma decimal_of_written [codec_simps]: "short_decimal x \<Longrightarrow> decimal_of (dec_json x) = Some x"
  by (simp add: decimal_of_def dec_json_def decimal_roundtrip)

lemma text_or_none_written [codec_simps]: "text_or_none (opt_value PStr x) = Some x"
  by (cases x) (simp_all add: text_or_none_def opt_value_def)

lemma read_route_written [codec_simps]: "read_route (json_sorted (route_payload r)) = Some r"
proof -
  obtain a b c e f where r: "r = (a, b, c, e, f)" by (cases r)
  show ?thesis
    unfolding r route_payload_def prod.case read_route_def
    by (subst obj_with_written) (auto simp: route_fields_def obj_get_def json_obj_get codec_simps)
qed

lemma read_direction_written: "read_direction (PStr (direction_value d)) = Some d"
  by (cases d) (simp_all add: read_direction_def)

lemma text_list_written: "text_list (json_sorted (PList (map PStr xs))) = Some xs"
  by (simp add: text_list_def list_all_iff is_str_def o_def)

definition short_allocation :: "allocation \<Rightarrow> bool" where
  "short_allocation a \<longleftrightarrow> short_decimal (al_signed_fill_ounces a) \<and> short_decimal (al_allocated_ounces a)"

lemma read_allocation_written: "short_allocation a \<Longrightarrow> read_allocation (json_sorted (allocation_payload a)) = Inr a"
  unfolding read_allocation_def allocation_payload_def
  by (subst obj_with_written) (auto simp: obj_get_def json_obj_get codec_simps short_allocation_def)

lemma read_allocations_written:
  "list_all short_allocation xs \<Longrightarrow> read_allocations (json_sorted (PList (map allocation_payload xs))) = Inr xs"
  by (simp add: read_allocations_def o_def) (rule mapE_map_Inr, simp add: list_all_iff read_allocation_written)

definition source_ok :: "string \<times> string \<Rightarrow> bool" where
  "source_ok = (\<lambda>(path, digest). path \<noteq> [] \<and> length digest = 64 \<and> list_all is_hex digest)"

lemma read_source_written:
  "source_ok s \<Longrightarrow> read_source (json_sorted (PObj [(''path'', PStr (fst s)), (''sha256'', PStr (snd s))])) = Inr s"
  unfolding read_source_def
  by (subst obj_with_written) (auto simp: obj_get_def json_obj_get source_ok_def split: prod.splits)

definition short_legacy :: "legacy_order \<Rightarrow> bool" where
  "short_legacy l \<longleftrightarrow> short_decimal (lo_filled_ounces l) \<and> short_decimal (lo_allocated_ounces l)"

lemma read_legacy_written: "short_legacy l \<Longrightarrow> read_legacy_order (json_sorted (legacy_order_payload l)) = Inr l"
  unfolding read_legacy_order_def legacy_order_payload_def
  by (subst obj_with_written)
    (auto simp: obj_get_def json_obj_get codec_simps short_legacy_def read_direction_written text_list_written simp del: json_sorted.simps(1))

text \<open>A checkpoint the migration can have recorded.\<close>

definition checkpoint_ok :: "(string \<times> string) list \<Rightarrow> legacy_order list \<Rightarrow> bool" where
  "checkpoint_ok sources orders \<longleftrightarrow> length sources \<in> {1, 2} \<and> distinct (map fst sources) \<and> list_all source_ok sources
    \<and> list_all short_legacy orders"

lemma read_checkpoint_written:
  assumes "checkpoint_ok sources orders"
  shows "read_checkpoint (json_sorted (checkpoint_payload sources orders)) = Inr (sources, orders)"
proof -
  have s: "mapE read_source (map (\<lambda>s. json_sorted (PObj [(''path'', PStr (fst s)), (''sha256'', PStr (snd s))])) sources) = Inr sources"
    by (rule mapE_map_Inr) (use assms in \<open>auto simp: checkpoint_ok_def list_all_iff read_source_written\<close>)
  have l: "mapE read_legacy_order (map (\<lambda>l. json_sorted (legacy_order_payload l)) orders) = Inr orders"
    by (rule mapE_map_Inr) (use assms in \<open>auto simp: checkpoint_ok_def list_all_iff read_legacy_written\<close>)
  show ?thesis
    unfolding read_checkpoint_def checkpoint_payload_def
    by (subst obj_with_written) (use assms s l in \<open>auto simp: obj_get_def json_obj_get checkpoint_ok_def o_def case_prod_unfold\<close>)
qed

text \<open>An owner the program can hold; only its views have a state.\<close>

definition legacy_ok :: "owner_config \<Rightarrow> bool" where
  "legacy_ok cfg \<longleftrightarrow> (case oc_legacy_sources cfg of None \<Rightarrow> oc_legacy_orders cfg = []
     | Some sources \<Rightarrow> oc_shared_strategy_ids cfg = None \<and> checkpoint_ok sources (oc_legacy_orders cfg))"

definition storable_owner :: "owner_config \<Rightarrow> snapshot \<Rightarrow> bool" where
  "storable_owner cfg sn \<longleftrightarrow> list_all (\<lambda>k. storable (sn_states sn k)) (view_keys cfg)
    \<and> (\<forall>k. k \<notin> set (view_keys cfg) \<longrightarrow> sn_states sn k = empty_state)
    \<and> list_all short_allocation (sn_allocations sn) \<and> legacy_ok cfg"

definition no_checkpoint :: "owner_config \<Rightarrow> owner_config" where
  "no_checkpoint cfg = cfg\<lparr>oc_legacy_sources := None, oc_legacy_orders := []\<rparr>"

lemma no_checkpoint_simps [simp]:
  "oc_shared_strategy_ids (no_checkpoint cfg) = oc_shared_strategy_ids cfg" "view_keys (no_checkpoint cfg) = view_keys cfg"
  "oc_source_instrument_id (no_checkpoint cfg) = oc_source_instrument_id cfg"
  "oc_hedge_instrument_id (no_checkpoint cfg) = oc_hedge_instrument_id cfg" "owner_kind (no_checkpoint cfg) = owner_kind cfg"
  by (simp_all add: no_checkpoint_def view_keys_def owner_kind_def)

lemma key_name_eq [simp]: "key_name k = key_name l \<longleftrightarrow> k = l"
  by (cases k; cases l) simp_all

lemma view_keys_distinct: "distinct (view_keys cfg)"
  by (simp add: view_keys_def)

lemma direction_get:
  "k \<in> set ks \<Longrightarrow> distinct ks \<Longrightarrow>
    dict_get (json_obj (map (\<lambda>k. (key_name k, f k)) ks)) (key_name k) = Some (json_sorted (f k))"
proof -
  assume k: "k \<in> set ks" and d: "distinct ks"
  have "distinct (map key_name ks)" using d by (simp add: distinct_map inj_on_def)
  then have "distinct (map fst (map (\<lambda>k. (key_name k, f k)) ks))" by (simp add: o_def)
  moreover have "dict_get (map (\<lambda>k. (key_name k, f k)) ks) (key_name k) = Some (f k)" using k by (induction ks) auto
  ultimately show ?thesis by (simp add: json_obj_get)
qed

lemma read_directions_written:
  assumes "list_all (\<lambda>k. storable (sn_states sn k)) ks" "distinct ks"
  shows "mapE (\<lambda>k. bindE (state_of_payload rp (obj_get (json_obj (map (\<lambda>k. (key_name k, state_payload (sn_states sn k))) ks)) (key_name k)))
      (\<lambda>s. Inr (k, s))) ks = Inr (map (\<lambda>k. (k, key_sorted (sn_states sn k))) ks)"
  by (rule mapE_Inr)
    (use assms in \<open>simp add: obj_get_def direction_get list_all_iff state_codec\<close>)

lemma direction_schema_written: "version \<in> {7, 8, 9} \<Longrightarrow> direction_schema_ok version (json_sorted (state_payload s))"
  by (auto simp: direction_schema_ok_def state_payload_def json_sorted_obj obj_get_def json_obj_get)

lemma directions_schema_written:
  "version \<in> {7, 8, 9} \<Longrightarrow> list_all (\<lambda>(_, v). direction_schema_ok version v) (json_obj (map (\<lambda>k. (key_name k, state_payload (f k))) ks))"
  by (auto simp: list_all_iff json_obj_def direction_schema_written)

lemma as_invalid_state_Inr [simp]: "as_invalid_state (Inr x) = Inr x"
  by (simp add: as_invalid_state_def)

lemma bindings_written:
  "same_bindings (json_sorted (PObj (strategy_bindings ids))) (strategy_bindings ids)"
proof -
  obtain m t where i: "ids = (m, t)" by (cases ids)
  show ?thesis unfolding same_bindings_def by (subst obj_with_written) (auto simp: i strategy_bindings_def json_obj_get)
qed

lemma owner_body_written:
  assumes "storable_owner cfg sn"
    "obj_get d ''allocations'' = json_sorted (PList (map allocation_payload (sn_allocations sn)))"
    "directions = json_obj (map (\<lambda>k. (key_name k, state_payload (sn_states sn k))) (view_keys cfg))"
    "case oc_legacy_sources cfg of None \<Rightarrow> version \<notin> {4, 6, 8}
     | Some sources \<Rightarrow> version = 8 \<and> obj_get d ''legacy_checkpoint'' = json_sorted (checkpoint_payload sources (oc_legacy_orders cfg))"
  shows "read_owner_body rp (no_checkpoint cfg) d version directions =
    Inr ((oc_legacy_sources cfg, oc_legacy_orders cfg), sn_allocations sn, \<lambda>k. key_sorted (sn_states sn k))"
proof -
  have legacy: "(if version \<in> {4, 6, 8} then bindE (read_checkpoint (obj_get d ''legacy_checkpoint''))
        (\<lambda>(sources, orders). Inr (Some sources, orders)) else Inr (oc_legacy_sources (no_checkpoint cfg), oc_legacy_orders (no_checkpoint cfg)))
      = (Inr (oc_legacy_sources cfg, oc_legacy_orders cfg) :: exn + _)"
    using assms(1,4) by (cases "oc_legacy_sources cfg")
      (simp_all add: storable_owner_def legacy_ok_def no_checkpoint_def read_checkpoint_written)
  have allocations: "read_allocations (obj_get d ''allocations'') = Inr (sn_allocations sn)"
    unfolding assms(2) by (rule read_allocations_written) (use assms(1) in \<open>simp add: storable_owner_def\<close>)
  have states: "mapE (\<lambda>k. bindE (state_of_payload rp (obj_get directions (key_name k))) (\<lambda>s. Inr (k, s))) (view_keys cfg) =
      Inr (map (\<lambda>k. (k, key_sorted (sn_states sn k))) (view_keys cfg))"
    unfolding assms(3) using assms(1) by (intro read_directions_written view_keys_distinct) (simp add: storable_owner_def)
  have "(case dict_get (map (\<lambda>k. (k, key_sorted (sn_states sn k))) ks) k of None \<Rightarrow> empty_state | Some s \<Rightarrow> s) =
      (if k \<in> set ks then key_sorted (sn_states sn k) else empty_state)" for ks k
    by (induction ks) auto
  moreover have "key_sorted empty_state = empty_state" by (simp add: key_sorted_def empty_state_def)
  ultimately have "(\<lambda>k. case dict_get (map (\<lambda>k. (k, key_sorted (sn_states sn k))) (view_keys cfg)) k of None \<Rightarrow> empty_state | Some s \<Rightarrow> s) =
      (\<lambda>k. key_sorted (sn_states sn k))"
    using assms(1) by (auto simp: storable_owner_def fun_eq_iff)
  then show ?thesis
    unfolding read_owner_body_def legacy bindE_simps allocations no_checkpoint_simps states by simp
qed

text \<open>C26: what the owner writes it reads back. The snapshot read from the file the owner wrote is the one it
  wrote, with every dictionary in key order, and the legacy checkpoint is the one it holds.\<close>

theorem owner_roundtrip:
  assumes "storable_owner cfg sn"
  shows "owner_of_payload rp (no_checkpoint cfg) (json_sorted (owner_payload cfg sn)) =
    Inr (cfg, sn\<lparr>sn_states := \<lambda>k. key_sorted (sn_states sn k)\<rparr>)"
proof -
  define fields where "fields = (case owner_payload cfg sn of PObj d \<Rightarrow> d | _ \<Rightarrow> [])"
  define version where "version = (if oc_shared_strategy_ids cfg \<noteq> None then 9 else if oc_legacy_sources cfg = None then 7 else 8 :: int)"
  let ?directions = "map (\<lambda>k. (key_name k, state_payload (sn_states sn k))) (view_keys cfg)"
  have one: "oc_shared_strategy_ids cfg = None \<or> oc_legacy_sources cfg = None"
    using assms by (auto simp: storable_owner_def legacy_ok_def split: option.splits)
  have f: "owner_payload cfg sn = PObj fields" "distinct (map fst fields)"
    using one by (auto simp: fields_def owner_payload_def split: option.splits)
  have get: "obj_get (json_obj fields) ''schema_version'' = PInt version"
    "obj_get (json_obj fields) ''kind'' = PStr (owner_kind cfg)"
    "obj_get (json_obj fields) ''source_instrument_id'' = PStr (oc_source_instrument_id cfg)"
    "obj_get (json_obj fields) ''hedge_instrument_id'' = PStr (oc_hedge_instrument_id cfg)"
    "obj_default (json_obj fields) ''cycle_freeze_only'' (PBool False) = PBool (sn_cycle_freeze_only sn)"
    "obj_get (json_obj fields) ''allocations'' = json_sorted (PList (map allocation_payload (sn_allocations sn)))"
    "obj_get (json_obj fields) ''directions'' = json_sorted (PObj ?directions)"
    unfolding obj_get_def obj_default_def json_obj_get [OF f(2)]
    by (simp_all add: fields_def owner_payload_def version_def)
  have ids: "obj_get (json_obj fields) ''strategy_ids'' = json_sorted (PObj (strategy_bindings ids))"
    if "oc_shared_strategy_ids cfg = Some ids" for ids
    unfolding obj_get_def json_obj_get [OF f(2)] using that by (simp add: fields_def owner_payload_def)
  have legacy: "case oc_legacy_sources cfg of None \<Rightarrow> version \<notin> {4, 6, 8}
     | Some sources \<Rightarrow> version = 8 \<and> obj_get (json_obj fields) ''legacy_checkpoint'' = json_sorted (checkpoint_payload sources (oc_legacy_orders cfg))"
    unfolding obj_get_def json_obj_get [OF f(2)]
    using one by (auto simp: fields_def owner_payload_def version_def split: option.split)
  have keys: "dict_keys (json_obj fields) = expected_fields (no_checkpoint cfg) version"
  proof (cases "oc_shared_strategy_ids cfg")
    case None
    then show ?thesis by (cases "oc_legacy_sources cfg")
      (simp_all only: json_obj_keys, simp_all add: fields_def owner_payload_def version_def expected_fields_def insert_commute)
  next
    case (Some ids)
    with one show ?thesis
      by (simp only: json_obj_keys) (simp add: fields_def owner_payload_def version_def expected_fields_def insert_commute)
  qed
  have version: "supported_version (no_checkpoint cfg) version" "version \<in> {7, 8, 9}"
    by (simp_all add: version_def supported_version_def)
  have dirs: "obj_with (key_name ` set (view_keys cfg)) (json_sorted (PObj ?directions)) = Some (json_obj ?directions)"
    by (rule obj_with_written) force
  note body = owner_body_written [OF assms get(6) refl legacy, of rp]
  have cfg: "(no_checkpoint cfg)\<lparr>oc_legacy_sources := oc_legacy_sources cfg, oc_legacy_orders := oc_legacy_orders cfg\<rparr> = cfg"
    by (simp add: no_checkpoint_def)
  have strategies: "\<not> (case oc_shared_strategy_ids cfg of None \<Rightarrow> False
      | Some ids \<Rightarrow> \<not> same_bindings (obj_get (json_obj fields) ''strategy_ids'') (strategy_bindings ids))"
    using ids bindings_written by (simp split: option.split)
  note schema = directions_schema_written [OF version(2), of "sn_states sn" "view_keys cfg"]
  show ?thesis
    unfolding f(1) json_sorted_obj owner_of_payload_def no_checkpoint_simps
    by (simp add: get keys version(1) strategies dirs schema body cfg del: json_sorted.simps)
qed

theorem owner_roundtrip_witness:
  "owner_of_payload (\<lambda>_. []) (no_checkpoint (ex_cfg\<lparr>oc_legacy_sources := None\<rparr>))
     (json_sorted (owner_payload ex_cfg (ex_snapshot\<lparr>sn_cycle_freeze_only := True\<rparr>))) =
   Inr (ex_cfg, ex_snapshot\<lparr>sn_cycle_freeze_only := True\<rparr>)"
proof -
  have "short_decimal 5" by (simp add: short_decimal_def dec_places_def)
  then have "storable_owner ex_cfg (ex_snapshot\<lparr>sn_cycle_freeze_only := True\<rparr>)"
    by (auto simp: storable_owner_def view_keys_def ex_cfg_def ex_snapshot_def legacy_ok_def short_allocation_def short_examples
      storable_def ex_bid_def empty_state_def state_orders_def state_intents_def short_record_def ex_order_def late_archived_fill_def
      storable_intent_def short_intent_def ex_hedge_def new_intent_def valid_intent_iff intent_scalars_ok_def check_rejected_history_def)
  from owner_roundtrip [OF this, of "\<lambda>_. []"] show ?thesis
    by (simp add: no_checkpoint_def ex_cfg_def key_sorted_def ex_snapshot_def ex_bid_def empty_state_def fun_eq_iff)
qed

end
