(* ===== verification/Mt5_Costs.thy ===== *)
theory Mt5_Costs
  imports Py_Value Economics
begin

text \<open>
  \<^verbatim>\<open>strategies/_mt5_costs.py\<close>: the MT5 instrument facts both strategies read. An instrument is its
  identity, its observation time, its \<^verbatim>\<open>info\<close> and the dictionary \<^verbatim>\<open>to_dict\<close> makes of it. Two facts of
  the live venue may change, the swap terms and the observation times; everything else is fixed.
\<close>

section \<open>Python equality of dynamic values\<close>

text \<open>Numbers compare by value across types, dictionaries without their order.\<close>

definition py_number :: "pyval \<Rightarrow> rat option" where
  "py_number v = (case v of
     PBool b \<Rightarrow> Some (of_bool b) | PInt n \<Rightarrow> Some (of_int n)
   | PFloat (Fin x) \<Rightarrow> Some (to_float x) | PDec (Fin x) \<Rightarrow> Some x | _ \<Rightarrow> None)"

fun py_eq :: "pyval \<Rightarrow> pyval \<Rightarrow> bool" where
  "py_eq (PList xs) v = (case v of PList ys \<Rightarrow> list_all2 py_eq xs ys | _ \<Rightarrow> False)"
| "py_eq (PObj d) v = (case v of PObj d' \<Rightarrow> length d = length d' \<and>
     list_all (\<lambda>(k, x). case dict_get d' k of None \<Rightarrow> False | Some y \<Rightarrow> py_eq x y) d | _ \<Rightarrow> False)"
| "py_eq PNone v = (v = PNone)"
| "py_eq (PStr s) v = (v = PStr s)"
| "py_eq u v = (py_number u \<noteq> None \<and> py_number u = py_number v)"

section \<open>The instrument\<close>

record instrument =
  ins_id :: string
  ins_ts_event :: int
  ins_info :: pyval
  ins_dict :: pyobj

text \<open>\<^verbatim>\<open>Decimal(str(value))\<close>, finite.\<close>

definition cost_decimal :: "pyval \<Rightarrow> exn + rat" where
  "cost_decimal v = (case (case v of
       PInt n \<Rightarrow> Some (Fin (of_int n)) | PFloat d \<Rightarrow> Some d | PDec d \<Rightarrow> Some d | PStr s \<Rightarrow> decimal_of_text s | _ \<Rightarrow> None) of
     None \<Rightarrow> Inl (ValueError ''MT5 cost metadata has an invalid decimal'')
   | Some NonFinite \<Rightarrow> Inl (ValueError ''MT5 cost metadata must be finite'')
   | Some (Fin x) \<Rightarrow> Inr x)"

record swap_spec =
  sw_long :: rat
  sw_short :: rat
  sw_point :: rat
  sw_mode :: int
  sw_rates :: "rat list"
  sw_timezone :: string

definition swap_of_spec :: "zone_db \<Rightarrow> swap_spec \<Rightarrow> rat \<Rightarrow> int \<Rightarrow> exn + rat \<times> rat" where
  "swap_of_spec zone spec ask now_ns = normalize_mt5_points_swap zone (Fin (sw_long spec)) (Fin (sw_short spec))
    (Fin (sw_point spec)) (Fin ask) (sw_mode spec) (map Fin (sw_rates spec)) now_ns (sw_timezone spec)"

definition mt5_swap_spec :: "zone_db \<Rightarrow> instrument \<Rightarrow> exn + swap_spec" where
  "mt5_swap_spec zone ins = (case ins_info ins of
     PObj info \<Rightarrow>
       bindE (bindE (dict_index info ''swap_long'') cost_decimal) (\<lambda>swap_long.
       bindE (bindE (dict_index info ''swap_short'') cost_decimal) (\<lambda>swap_short.
       bindE (bindE (dict_index info ''point'') cost_decimal) (\<lambda>point.
       bindE (dict_index info ''swap_mode'') (\<lambda>mode.
       bindE (dict_index info ''swap_rates'') (\<lambda>rates.
       bindE (dict_index info ''server_timezone'') (\<lambda>timezone.
       case (mode, rates, timezone) of
         (PInt m, PList rs, PStr tz) \<Rightarrow>
           bindE (mapE cost_decimal rs) (\<lambda>swap_rates.
           let spec = \<lparr>sw_long = swap_long, sw_short = swap_short, sw_point = point, sw_mode = m,
             sw_rates = swap_rates, sw_timezone = tz\<rparr> in
           bindE (swap_of_spec zone spec 1 0) (\<lambda>_. Inr spec))
       | _ \<Rightarrow> Inl (TypeError ''MT5 swap mode, rates, or timezone has the wrong type'')))))))
   | _ \<Rightarrow> Inl (TypeError ''MT5 instrument info must be a mapping''))"

text \<open>\<^verbatim>\<open>d.pop(key)\<close>.\<close>

definition dict_pop :: "string \<Rightarrow> pyobj \<Rightarrow> exn + pyobj" where
  "dict_pop k d = bindE (dict_index d k) (\<lambda>_. Inr (filter (\<lambda>e. fst e \<noteq> k) d))"

definition exact_entry :: "string \<Rightarrow> pyobj \<Rightarrow> exn + pyobj" where
  "exact_entry k d = bindE (bindE (dict_index d k) cost_decimal) (\<lambda>x. Inr (dict_set k (PDec (Fin x)) d))"

definition mt5_instrument_structure :: "instrument \<Rightarrow> exn + pyobj" where
  "mt5_instrument_structure ins =
    bindE (foldE dict_pop [''ts_event'', ''ts_init''] (ins_dict ins)) (\<lambda>fixed.
    bindE (dict_index fixed ''info'') (\<lambda>info.
    case info of
      PObj d \<Rightarrow>
        bindE (foldE dict_pop [''swap_long'', ''swap_short'', ''swap_mode'', ''swap_rates''] d) (\<lambda>d.
        bindE (foldE exact_entry [''point'', ''mt5_contract_size_ounces'', ''mt5_volume_step_lots''] d) (\<lambda>d.
        Inr (dict_set ''info'' (PObj d) fixed)))
    | _ \<Rightarrow> Inl (TypeError ''info must be a mapping'')))"

definition mt5_instrument_is_fresh :: "instrument \<Rightarrow> int \<Rightarrow> int \<Rightarrow> bool" where
  "mt5_instrument_is_fresh ins now_ns max_age_ns \<longleftrightarrow>
    0 < ins_ts_event ins \<and> - MAX_OBSERVATION_FUTURE_NS \<le> now_ns - ins_ts_event ins \<and>
    now_ns - ins_ts_event ins \<le> max_age_ns"

text \<open>The answer: whether the swap terms changed.\<close>

definition validate_mt5_instrument_update :: "zone_db \<Rightarrow> instrument \<Rightarrow> instrument \<Rightarrow> int \<Rightarrow> int \<Rightarrow> exn + bool" where
  "validate_mt5_instrument_update zone previous ins now_ns max_age_ns =
    bindE (mt5_swap_spec zone ins) (\<lambda>spec.
    bindE (mt5_swap_spec zone previous) (\<lambda>previous_spec.
    let changed = spec \<noteq> previous_spec;
        refused = Inl (ValueError ''MT5 instrument changed structure or has invalid observation time'')
    in if \<not> mt5_instrument_is_fresh ins now_ns max_age_ns \<or> ins_ts_event ins < ins_ts_event previous then refused
       else bindE (mt5_instrument_structure ins) (\<lambda>structure.
         bindE (mt5_instrument_structure previous) (\<lambda>previous_structure.
         if \<not> py_eq (PObj structure) (PObj previous_structure)
           \<or> (ins_ts_event ins = ins_ts_event previous \<and> changed) then refused
         else Inr changed))))"

section \<open>What an accepted update keeps\<close>

lemma validate_update_Inr:
  "validate_mt5_instrument_update zone previous ins now_ns max_age_ns = Inr changed \<longleftrightarrow>
    (\<exists>spec spec' st st'. mt5_swap_spec zone ins = Inr spec \<and> mt5_swap_spec zone previous = Inr spec' \<and>
      changed = (spec \<noteq> spec') \<and> mt5_instrument_is_fresh ins now_ns max_age_ns \<and>
      ins_ts_event previous \<le> ins_ts_event ins \<and>
      mt5_instrument_structure ins = Inr st \<and> mt5_instrument_structure previous = Inr st' \<and>
      py_eq (PObj st) (PObj st') \<and> (ins_ts_event ins = ins_ts_event previous \<longrightarrow> spec = spec'))"
  by (auto simp: validate_mt5_instrument_update_def bindE_Inr_iff Let_def)

definition ex_mt5_info :: "rat \<Rightarrow> pyval" where
  "ex_mt5_info swap = PObj [(''swap_long'', PDec (Fin swap)), (''swap_short'', PInt 2), (''point'', PStr ''0.01''),
    (''swap_mode'', PInt 1), (''swap_rates'', PList [PInt 1, PInt 1, PInt 1, PInt 3, PInt 1, PInt 0, PInt 0]),
    (''server_timezone'', PStr ''UTC''), (''mt5_contract_size_ounces'', PInt 100), (''mt5_volume_step_lots'', PStr ''0.01'')]"

definition ex_instrument :: "int \<Rightarrow> rat \<Rightarrow> instrument" where
  "ex_instrument ts swap = \<lparr>ins_id = ''XAUUSD.MT5'', ins_ts_event = ts, ins_info = ex_mt5_info swap,
    ins_dict = [(''ts_event'', PInt ts), (''ts_init'', PInt ts), (''id'', PStr ''XAUUSD.MT5''), (''info'', ex_mt5_info swap)]\<rparr>"

definition ex_zone :: zone_db where
  "ex_zone tz = (if tz = ''UTC'' then Some (\<lambda>s. Some ((s div 86400 + 3) mod 7)) else None)"

lemma ex_update:
  "validate_mt5_instrument_update ex_zone (ex_instrument 5 1) (ex_instrument 7 3) 8 100 = Inr True"
  "validate_mt5_instrument_update ex_zone (ex_instrument 5 1) (ex_instrument 5 3) 8 100 =
    Inl (ValueError ''MT5 instrument changed structure or has invalid observation time'')"
  by code_simp+

end
