(* ===== verification/Source_Terminal.thy ===== *)
theory Source_Terminal
  imports State_Store
begin

text \<open>
  \<^verbatim>\<open>strategies/_source_terminal.py\<close>: when a venue report is exact evidence that a cancelled or
  expired source order is finished with the fills the store has booked. Enumerations of the
  platform are their names; \<open>None\<close> as a side is neither buy nor sell.
\<close>

section \<open>Events, orders and reports\<close>

record terminal_event =
  te_is_canceled :: bool
  te_client_order_id :: string
  te_venue_order_id :: "string option"
  te_instrument_id :: string
  te_account_id :: "string option"

record terminal_order =
  to_instrument_id :: string
  to_account_id :: "string option"
  to_client_order_id :: string
  to_venue_order_id :: "string option"
  to_status :: string
  to_is_closed :: bool
  to_side :: "business_side option"
  to_order_type :: string
  to_time_in_force :: string
  to_is_post_only :: bool
  to_is_reduce_only :: bool
  to_quantity :: rat
  to_filled_qty :: rat
  to_price :: "rat option"
  to_avg_px :: "rat option"

record status_report =
  rp_instrument_id :: string
  rp_account_id :: string
  rp_client_order_id :: "string option"
  rp_venue_order_id :: string
  rp_order_status :: string
  rp_order_side :: "business_side option"
  rp_order_type :: string
  rp_time_in_force :: string
  rp_post_only :: bool
  rp_reduce_only :: bool
  rp_quantity :: rat
  rp_filled_qty :: rat
  rp_price :: "rat option"
  rp_avg_px :: "rat option"

section \<open>The check\<close>

text \<open>\<^verbatim>\<open>math.isclose\<close> with its default tolerances, without the rounding of its own multiplication.\<close>

definition is_close :: "rat \<Rightarrow> rat \<Rightarrow> bool" where
  "is_close a b \<longleftrightarrow> \<bar>a - b\<bar> \<le> max \<bar>a\<bar> \<bar>b\<bar> / 10 ^ 9"

definition average_is_exact :: "source_order_record \<Rightarrow> terminal_order \<Rightarrow> status_report \<Rightarrow> bool" where
  "average_is_exact record order report =
    (if so_filled_ounces record = 0 then rp_avg_px report = None
     else case (to_avg_px order, rp_avg_px report) of
       (Some a, Some b) \<Rightarrow> is_close (to_float a) (to_float b) | _ \<Rightarrow> False)"

definition order_shape_is_exact :: "bool \<Rightarrow> terminal_order \<Rightarrow> bool" where
  "order_shape_is_exact maker order =
    (let ioc_shape = (to_time_in_force order = ''IOC'' \<and> \<not> to_is_post_only order) in
     if maker then
       (to_time_in_force order = ''GTC'' \<and> to_is_post_only order \<and> \<not> to_is_reduce_only order)
       \<or> (ioc_shape \<and> to_is_reduce_only order)
     else ioc_shape)"

definition terminal_name :: "terminal_event \<Rightarrow> string" where
  "terminal_name event = (if te_is_canceled event then ''CANCELED'' else ''EXPIRED'')"

definition route_of_record :: "source_account_route list \<Rightarrow> source_order_record \<Rightarrow> source_account_route option" where
  "route_of_record source_accounts record =
    find (\<lambda>row. Some (sr_account_id row) = so_source_account_id record) source_accounts"

definition source_cancel_report_is_exact ::
  "source_order_record option \<Rightarrow> terminal_order option \<Rightarrow> terminal_event \<Rightarrow> status_report \<Rightarrow> string \<Rightarrow>
    source_account_route list \<Rightarrow> bool \<Rightarrow> bool"
where
  "source_cancel_report_is_exact record order event report source_instrument_id source_accounts maker =
    (case (record, order, te_venue_order_id event) of
       (Some record, Some order, Some venue_order_id) \<Rightarrow>
         (case route_of_record source_accounts record of
            None \<Rightarrow> False
          | Some route \<Rightarrow>
              let client_order_id = te_client_order_id event in
              so_client_order_id record = client_order_id \<and> so_status record = terminal_name event
              \<and> so_source_client_id record = sr_client_id route
              \<and> te_instrument_id event = source_instrument_id \<and> te_account_id event = Some (sr_account_id route)
              \<and> rp_instrument_id report = source_instrument_id \<and> rp_account_id report = sr_account_id route
              \<and> to_instrument_id order = source_instrument_id \<and> to_account_id order = Some (sr_account_id route)
              \<and> rp_client_order_id report = Some client_order_id \<and> to_client_order_id order = client_order_id
              \<and> rp_venue_order_id report = venue_order_id \<and> to_venue_order_id order = Some venue_order_id
              \<and> rp_order_status report = terminal_name event \<and> to_status order = terminal_name event
              \<and> to_is_closed order \<and> rp_order_side report = Some (so_side record) \<and> to_side order = Some (so_side record)
              \<and> rp_order_type report = ''LIMIT'' \<and> to_order_type order = ''LIMIT''
              \<and> rp_time_in_force report = to_time_in_force order \<and> order_shape_is_exact maker order
              \<and> (to_is_post_only order \<or> \<not> rp_post_only report)
              \<and> rp_reduce_only report = to_is_reduce_only order
              \<and> rp_quantity report = so_quantity_ounces record \<and> to_quantity order = so_quantity_ounces record
              \<and> rp_filled_qty report = so_filled_ounces record \<and> to_filled_qty order = so_filled_ounces record
              \<and> rp_price report = to_price order \<and> average_is_exact record order report)
     | _ \<Rightarrow> False)"

lemma cancel_report_exactD:
  assumes "source_cancel_report_is_exact record order event report iid accounts maker"
  shows "\<exists>r ord. record = Some r \<and> order = Some ord \<and> so_client_order_id r = te_client_order_id event \<and>
    so_status r = terminal_name event \<and> to_is_closed ord \<and> to_filled_qty ord = so_filled_ounces r \<and>
    rp_filled_qty report = so_filled_ounces r \<and> rp_quantity report = so_quantity_ounces r \<and>
    rp_order_status report = terminal_name event \<and> rp_venue_order_id report = the (te_venue_order_id event) \<and>
    (\<exists>route \<in> set accounts. rp_account_id report = sr_account_id route \<and> so_source_account_id r = Some (sr_account_id route))"
proof -
  from assms obtain r ord vid where s: "record = Some r" "order = Some ord" "te_venue_order_id event = Some vid"
    by (auto simp: source_cancel_report_is_exact_def split: option.splits prod.splits)
  with assms obtain route where f: "route_of_record accounts r = Some route"
    by (auto simp: source_cancel_report_is_exact_def split: option.splits)
  then have "route \<in> set accounts" "so_source_account_id r = Some (sr_account_id route)"
    by (auto simp: route_of_record_def find_Some_iff)
  with assms s f show ?thesis by (auto simp: source_cancel_report_is_exact_def Let_def)
qed

end
