(* ===== verification/Taker_Strategy.thy ===== *)
theory Taker_Strategy
  imports Hedge_Cycle Mt5_Costs Source_Terminal
begin

text \<open>
  \<^verbatim>\<open>strategies/taker.py\<close>: the Taker strategy between the platform's callbacks and its store.

  The record \<open>taker\<close> holds the strategy's fields, its store and, in order, the requests it handed
  to the platform. The constructor's arguments are the record \<open>wiring\<close>. Everything a handler asks
  its surroundings for (the clock, the cache, the portfolio, callables of the composition, the
  outcome of a submission) is the record \<open>facts\<close> of that call. A handler runs on one clock reading
  per reading of the code; the platform does not re-enter the strategy from inside a submission.
  Log lines are not modelled.
\<close>

section \<open>Configuration and state\<close>

record taker_strategy_config =
  tc_source_instrument_id :: string
  tc_hedge_instrument_id :: string
  tc_source_accounts :: "source_account_route list"
  tc_hedge_account_id :: string
  tc_hedge_max_long_ounces :: rat
  tc_hedge_max_short_ounces :: rat
  tc_economics :: taker_economics_config
  tc_hedge_client_id :: "string option"
  tc_max_quote_age_ns :: int
  tc_max_cross_leg_skew_ns :: int
  tc_max_cost_age_ns :: int
  tc_max_session_age_ns :: int
  tc_initial_cost_ts_ns :: int
  tc_initial_hedge_session_open :: bool
  tc_initial_session_ts_ns :: int

record 'w wiring =
  wi_config :: taker_strategy_config
  wi_store :: "'w store_object"
  wi_release :: "('w, bool) tx"
  wi_admission :: "(business_side \<Rightarrow> rat \<Rightarrow> ('w, bool) tx) option"
  wi_live_costs :: bool
  wi_one_shot :: bool
  wi_allowed_direction :: "source_direction option"
  wi_must_reduce_only :: bool
  wi_terminal_query :: bool
  wi_account_reader :: bool
  wi_zone :: zone_db
  wi_trader_id :: string
  wi_strategy_id :: string

record source_request =
  sq_client_order_id :: string
  sq_side :: business_side
  sq_quantity :: rat
  sq_price :: rat
  sq_reduce_only :: bool
  sq_client_id :: "string option"
  sq_leverage :: int

record hedge_request =
  hq_client_order_id :: string
  hq_intent_id :: string
  hq_side :: business_side
  hq_quantity :: rat
  hq_reduce_only :: bool
  hq_position_id :: "string option"
  hq_client_id :: "string option"
  hq_expected_position_quantity :: "rat option"

datatype feed = SourceBookFeed | HedgeInstrumentFeed | FundingFeed | HedgeQuoteFeed | HedgeStatusFeed

datatype request =
    SendSource source_request
  | SendHedge hedge_request
  | CancelSource string
  | AskTerminal terminal_event nat
  | Subscribe feed
  | StopSelf

record 'w taker =
  tk_store :: 'w
  tk_draining :: bool
  tk_terminal_inflight :: "string set"
  tk_terminal_stopped :: bool
  tk_terminal_generation :: nat
  tk_account_loop :: bool
  tk_account_handle :: "nat option"
  tk_account_topics :: "string set"
  tk_hedge_position_id :: "string option"
  tk_hedge_position_quantity :: "rat option"
  tk_armed :: bool
  tk_claimed :: bool
  tk_closed :: bool
  tk_book_subscribed :: bool
  tk_book_callbacks :: nat
  tk_last_attempt_ts :: "int option"
  tk_gate :: string
  tk_source_instrument :: "instrument option"
  tk_hedge_instrument :: "instrument option"
  tk_hedge_valid :: bool
  tk_carry :: carry_config
  tk_fx :: fx_config
  tk_cost_ts :: int
  tk_cost_valid :: bool
  tk_cost_recovery :: int
  tk_session_open :: bool
  tk_session_ts :: int
  tk_sent :: "request list"

text \<open>\<^verbatim>\<open>__init__\<close>; \<open>injected\<close> says that the composition passed its own store.\<close>

definition make_taker :: "'w wiring \<Rightarrow> bool \<Rightarrow> 'w \<Rightarrow> exn + 'w taker" where
  "make_taker W injected store =
    (if wi_must_reduce_only W \<and> \<not> wi_one_shot W then
       Inl (ValueError ''hedge_must_reduce_only requires one_shot execution'')
     else if injected \<and> wi_one_shot W then
       Inl (ValueError ''injected state is supported only by the ordinary Taker'')
     else let c = wi_config W in
       Inr \<lparr>tk_store = store, tk_draining = False, tk_terminal_inflight = {}, tk_terminal_stopped = False,
         tk_terminal_generation = 0, tk_account_loop = False, tk_account_handle = None, tk_account_topics = {},
         tk_hedge_position_id = None, tk_hedge_position_quantity = None, tk_armed = False, tk_claimed = False,
         tk_closed = False, tk_book_subscribed = False, tk_book_callbacks = 0, tk_last_attempt_ts = None,
         tk_gate = (if wi_one_shot W then ''not_armed'' else ''not_started''), tk_source_instrument = None,
         tk_hedge_instrument = None, tk_hedge_valid = False, tk_carry = te_carry (tc_economics c),
         tk_fx = te_fx (tc_economics c), tk_cost_ts = tc_initial_cost_ts_ns c,
         tk_cost_valid = (0 < tc_initial_cost_ts_ns c), tk_cost_recovery = 0,
         tk_session_open = tc_initial_hedge_session_open c, tk_session_ts = tc_initial_session_ts_ns c, tk_sent = []\<rparr>)"

section \<open>What a handler asks for\<close>

type_synonym book_level = "rat \<times> rat list"

record order_book =
  ob_bids :: "book_level list"
  ob_asks :: "book_level list"
  ob_ts_last :: int

record quote_tick =
  qt_bid_price :: rat
  qt_ask_price :: rat
  qt_bid_size :: rat
  qt_ask_size :: rat
  qt_ts_event :: int

record netting_position =
  np_is_closed :: bool
  np_trader_id :: string
  np_strategy_id :: string
  np_instrument_id :: string
  np_account_id :: string
  np_is_long :: bool
  np_is_short :: bool
  np_quantity :: rat

record facts =
  fa_now_ns :: int
  fa_restart_blocked :: bool
  fa_source_book :: "order_book option"
  fa_hedge_tick :: "quote_tick option"
  fa_account_view :: "book_top \<Rightarrow> int \<Rightarrow> book_top \<Rightarrow> int \<Rightarrow> (source_account \<times> hedge_account \<times> bool) option"
  fa_net_position :: "string \<Rightarrow> string \<Rightarrow> rat"
  fa_hedge_positions :: "position list"
  fa_submission_ready :: "bool option"
  fa_quantity_ready :: "(rat \<Rightarrow> exn + bool) option"
  fa_netting_position :: "netting_position option"
  fa_make_source_qty :: "rat \<Rightarrow> exn + rat"
  fa_make_price :: "rat \<Rightarrow> exn + rat"
  fa_make_hedge_qty :: "rat \<Rightarrow> exn + rat"
  fa_fresh_order_id :: string
  fa_submission :: "exn option"

definition on_store :: "('w, 'a) tx \<Rightarrow> ('w taker, 'a) tx" where
  "on_store m = (\<lambda>t. case m (tk_store t) of (w, r) \<Rightarrow> (t\<lparr>tk_store := w\<rparr>, r))"

definition send :: "request \<Rightarrow> 'w taker \<Rightarrow> 'w taker" where
  "send q t = t\<lparr>tk_sent := tk_sent t @ [q]\<rparr>"

definition at_gate :: "string \<Rightarrow> ('w taker, unit) tx" where
  "at_gate gate = modify_tx (\<lambda>t. t\<lparr>tk_gate := gate\<rparr>)"

fun exn_class :: "exn \<Rightarrow> string" where
  "exn_class (ValueError _) = ''ValueError''"
| "exn_class (TypeError _) = ''TypeError''"
| "exn_class (RuntimeError _) = ''RuntimeError''"
| "exn_class KeyError = ''KeyError''"
| "exn_class IndexError = ''IndexError''"
| "exn_class ArithmeticError = ''ArithmeticError''"
| "exn_class OSError = ''OSError''"
| "exn_class ParentDirectorySyncError = ''ParentDirectorySyncError''"
| "exn_class (HedgePlanningError _) = ''HedgePlanningError''"
| "exn_class (HedgeLaneBusy _) = ''HedgeLaneBusy''"

section \<open>Books and quotes\<close>

fun reference_level :: "book_level list \<Rightarrow> rat \<Rightarrow> rat \<Rightarrow> (rat \<times> rat) option" where
  "reference_level [] quantity cumulative = None"
| "reference_level ((price, sizes) # levels) quantity cumulative =
    (let cumulative = dadd cumulative (dsum 0 sizes) in
     if quantity \<le> cumulative then Some (price, of_int \<lfloor>cumulative\<rfloor>)
     else reference_level levels quantity cumulative)"

definition reference_book :: "order_book \<Rightarrow> rat \<Rightarrow> exn + book_top option" where
  "reference_book book quantity =
    (if quantity \<le> 0 then Inl (ValueError ''base book quantity must be positive'')
     else Inr (case (reference_level (take 25 (ob_bids book)) quantity 0, reference_level (take 25 (ob_asks book)) quantity 0) of
         (Some bid, Some ask) \<Rightarrow>
           Some \<lparr>bt_bid = fst bid, bt_ask = fst ask, bt_bid_size = snd bid, bt_ask_size = snd ask\<rparr>
       | _ \<Rightarrow> None))"

definition book_top_of :: "quote_tick \<Rightarrow> book_top" where
  "book_top_of tick = \<lparr>bt_bid = qt_bid_price tick, bt_ask = qt_ask_price tick, bt_bid_size = qt_bid_size tick,
    bt_ask_size = qt_ask_size tick\<rparr>"

definition quote_is_fresh :: "'w wiring \<Rightarrow> quote_tick \<Rightarrow> int \<Rightarrow> bool" where
  "quote_is_fresh W tick now_ns \<longleftrightarrow>
    qt_ts_event tick \<le> now_ns \<and> now_ns - qt_ts_event tick \<le> tc_max_quote_age_ns (wi_config W)"

section \<open>Costs and session\<close>

definition invalidate_cost_snapshot :: "'w taker \<Rightarrow> 'w taker" where
  "invalidate_cost_snapshot t =
    t\<lparr>tk_cost_valid := False, tk_cost_recovery := max (tk_cost_recovery t) (tk_cost_ts t)\<rparr>"

definition update_cost_snapshot ::
  "'w wiring \<Rightarrow> carry_config \<Rightarrow> fx_config \<Rightarrow> int \<Rightarrow> int \<Rightarrow> 'w taker \<Rightarrow> 'w taker \<times> bool"
where
  "update_cost_snapshot W carry fx ts_event_ns now_ns t =
    (if ts_event_ns \<le> 0 then (invalidate_cost_snapshot t, False)
     else if \<not> (0 \<le> now_ns - ts_event_ns \<and> now_ns - ts_event_ns \<le> tc_max_cost_age_ns (wi_config W)) then
       (invalidate_cost_snapshot t, False)
     else if ts_event_ns < tk_cost_ts t then (invalidate_cost_snapshot t, False)
     else if ts_event_ns = tk_cost_ts t then
       (if carry \<noteq> tk_carry t \<or> fx \<noteq> tk_fx t then (invalidate_cost_snapshot t, False)
        else (t, tk_cost_valid t))
     else if ts_event_ns \<le> tk_cost_recovery t then (t, False)
     else (t\<lparr>tk_carry := carry, tk_fx := fx, tk_cost_ts := ts_event_ns, tk_cost_valid := True,
       tk_cost_recovery := 0\<rparr>, True))"

definition update_hedge_session :: "bool \<Rightarrow> int \<Rightarrow> 'w taker \<Rightarrow> 'w taker" where
  "update_hedge_session is_open ts_event_ns t =
    (if tk_session_ts t \<le> ts_event_ns then t\<lparr>tk_session_open := is_open, tk_session_ts := ts_event_ns\<rparr> else t)"

definition required_hedge_instrument :: "'w taker \<Rightarrow> exn + instrument" where
  "required_hedge_instrument t = (case tk_hedge_instrument t of
     None \<Rightarrow> Inl (RuntimeError ''hedge instrument unavailable before strategy start'') | Some i \<Rightarrow> Inr i)"

text \<open>A hedge instrument with stale or rejected cost facts; only asked with adapter costs.\<close>

definition hedge_costs_usable :: "'w wiring \<Rightarrow> int \<Rightarrow> 'w taker \<Rightarrow> exn + bool" where
  "hedge_costs_usable W now_ns t =
    (if \<not> wi_live_costs W then Inr True
     else if \<not> tk_hedge_valid t then Inr False
     else bindE (required_hedge_instrument t) (\<lambda>i.
       Inr (mt5_instrument_is_fresh i now_ns (tc_max_cost_age_ns (wi_config W)))))"

definition market_is_fresh :: "'w wiring \<Rightarrow> int \<Rightarrow> int \<Rightarrow> int \<Rightarrow> 'w taker \<Rightarrow> bool" where
  "market_is_fresh W now_ns source_ts_ns hedge_ts_ns t =
    (let c = wi_config W in market_inputs_are_fresh now_ns source_ts_ns hedge_ts_ns (tk_cost_ts t) (tk_session_ts t)
      (tk_session_open t) (tc_max_quote_age_ns c) (tc_max_cross_leg_skew_ns c) (tc_max_cost_age_ns c)
      (tc_max_session_age_ns c))"

definition source_independent_inputs_ready :: "'w wiring \<Rightarrow> facts \<Rightarrow> 'w taker \<Rightarrow> exn + bool" where
  "source_independent_inputs_ready W f t = (case fa_hedge_tick f of
     None \<Rightarrow> Inr False
   | Some tick \<Rightarrow>
       if \<not> tk_cost_valid t then Inr False
       else bindE (hedge_costs_usable W (fa_now_ns f) t) (\<lambda>usable.
         Inr (usable \<and> market_is_fresh W (fa_now_ns f) (qt_ts_event tick) (qt_ts_event tick) t)))"

definition inputs_are_fresh :: "'w wiring \<Rightarrow> facts \<Rightarrow> int \<Rightarrow> quote_tick \<Rightarrow> ('w taker, bool) tx" where
  "inputs_are_fresh W f source_ts_ns tick = (\<lambda>t.
     case hedge_costs_usable W (fa_now_ns f) t of
       Inl e \<Rightarrow> (t, Inl e)
     | Inr False \<Rightarrow> (t, Inr False)
     | Inr True \<Rightarrow>
         if wi_one_shot W \<and> (\<not> tk_armed t \<or> tk_claimed t) then (t, Inr False)
         else if fa_submission_ready f = Some False then (t, Inr False)
         else if \<not> tk_cost_valid t then (t, Inr False)
         else if fa_now_ns f < tk_cost_ts t then (invalidate_cost_snapshot t, Inr False)
         else (t, Inr (market_is_fresh W (fa_now_ns f) source_ts_ns (qt_ts_event tick) t)))"

text \<open>\<^verbatim>\<open>except (KeyError, TypeError, ValueError)\<close>.\<close>

fun cost_failure :: "exn \<Rightarrow> bool" where
  "cost_failure KeyError = True"
| "cost_failure (TypeError _) = True"
| "cost_failure (ValueError _) = True"
| "cost_failure (HedgePlanningError _) = False"
| "cost_failure _ = False"

definition or_unavailable :: "exn + 'a \<Rightarrow> exn + 'a option" where
  "or_unavailable r = (case r of Inr x \<Rightarrow> Inr (Some x) | Inl e \<Rightarrow> if cost_failure e then Inr None else Inl e)"

definition carry_for_hedge_tick :: "'w wiring \<Rightarrow> quote_tick \<Rightarrow> int \<Rightarrow> 'w taker \<Rightarrow> exn + carry_config option" where
  "carry_for_hedge_tick W tick now_ns t =
    (if \<not> wi_live_costs W then Inr (Some (tk_carry t))
     else bindE (or_unavailable (bindE (required_hedge_instrument t) (\<lambda>i.
         bindE (mt5_swap_spec (wi_zone W) i) (\<lambda>spec. swap_of_spec (wi_zone W) spec (qt_ask_price tick) now_ns)))) (\<lambda>swap.
       Inr (case swap of
         None \<Rightarrow> None
       | Some (swap_long, swap_short) \<Rightarrow> Some \<lparr>cc_bitfinex_long = cc_bitfinex_long (tk_carry t),
           cc_bitfinex_short = cc_bitfinex_short (tk_carry t), cc_mt5_long_swap = swap_long,
           cc_mt5_short_swap = swap_short,
           cc_total_trade_fee = cc_total_trade_fee (te_carry (tc_economics (wi_config W)))\<rparr>)))"

section \<open>The one-shot gate\<close>

definition subscribe_source_book :: "('w taker, unit) tx" where
  "subscribe_source_book = modify_tx (\<lambda>t. if tk_book_subscribed t then t
     else (send (Subscribe SourceBookFeed) t)\<lparr>tk_book_subscribed := True\<rparr>)"

definition arm_one_shot :: "'w wiring \<Rightarrow> bool \<Rightarrow> ('w taker, unit) tx" where
  "arm_one_shot W is_running = (\<lambda>t.
     let cu = sb_custody (wi_store W); s = cu_state cu (tk_store t) in
     if \<not> wi_one_shot W then (t, Inl (RuntimeError ''strategy is not configured for one-shot execution''))
     else if tk_armed t \<or> tk_claimed t \<or> tk_closed t then
       (t, Inl (RuntimeError ''one-shot execution was already armed or claimed''))
     else if \<not> can_submit_source cu (tk_store t) \<or> ss_source_orders s \<noteq> [] \<or> ss_hedge_intents s \<noteq> [] then
       (t, Inl (RuntimeError ''one-shot execution requires a fresh state store''))
     else bind_tx (modify_tx (\<lambda>t. t\<lparr>tk_armed := True, tk_book_callbacks := 0, tk_gate := ''awaiting_source_book''\<rparr>))
       (\<lambda>_. if is_running then subscribe_source_book else ret_tx ()) t)"

definition disarm_one_shot :: "'w wiring \<Rightarrow> 'w taker \<Rightarrow> 'w taker" where
  "disarm_one_shot W t =
    (if \<not> wi_one_shot W \<or> tk_claimed t then t else t\<lparr>tk_armed := False, tk_closed := True\<rparr>)"

definition claim_one_shot :: "'w wiring \<Rightarrow> ('w taker, bool) tx" where
  "claim_one_shot W = (\<lambda>t.
     if \<not> wi_one_shot W then (t, Inr True)
     else if \<not> tk_armed t \<or> tk_claimed t then (t, Inr False)
     else (t\<lparr>tk_armed := False, tk_claimed := True, tk_closed := True\<rparr>, Inr True))"

definition one_shot_freeze_reason :: string where
  "one_shot_freeze_reason = ''one-shot source attempt claimed''"

section \<open>Is the hedge executable\<close>

text \<open>The quantity check of every leg; an exception of the callable is a refusal.\<close>

definition legs_admitted :: "(rat \<Rightarrow> exn + bool) option \<Rightarrow> hedge_leg list \<Rightarrow> bool" where
  "legs_admitted quantity_ready plan = (case quantity_ready of
     None \<Rightarrow> True | Some admits \<Rightarrow> list_all (\<lambda>leg. admits (leg_quantity_ounces leg) = Inr True) plan)"

text \<open>The exit Taker: the plan must be one close, of the ticket chosen before.\<close>

definition claim_close_target :: "hedge_leg list \<Rightarrow> ('w taker, bool) tx" where
  "claim_close_target plan = (\<lambda>t. case plan of
     [leg] \<Rightarrow>
       if \<not> leg_is_close leg then (t, Inr False)
       else if tk_hedge_position_id t \<noteq> None \<and> tk_hedge_position_id t \<noteq> leg_position_id leg then (t, Inr False)
       else (t\<lparr>tk_hedge_position_id := leg_position_id leg,
           tk_hedge_position_quantity := leg_expected_position_quantity_ounces leg\<rparr>, Inr True)
   | _ \<Rightarrow> (t, Inr False))"

definition source_hedge_is_executable :: "'w wiring \<Rightarrow> facts \<Rightarrow> opportunity \<Rightarrow> rat \<Rightarrow> ('w taker, bool) tx" where
  "source_hedge_is_executable W f opp source_quantity = (\<lambda>t.
     let hedge_side = (if op_direction opp = LONG then SELL else BUY);
         max_hedge_ounces = \<bar>round_hedge_ounces source_quantity\<bar>
     in if max_hedge_ounces = 0 then (t, Inr True)
     else case plan_hedge_delta (fa_hedge_positions f) hedge_side (Fin (of_int max_hedge_ounces)) of
       Inl e \<Rightarrow> if planning_failure e then (t, Inr False) else (t, Inl e)
     | Inr plan \<Rightarrow>
         if \<not> legs_admitted (fa_quantity_ready f) plan then (t, Inr False)
         else if wi_must_reduce_only W then claim_close_target plan t
         else (t, Inr True))"

section \<open>Submitting the source order\<close>

text \<open>The order only shrinks this strategy's own open position, and the account's.\<close>

definition source_reduce_only :: "'w wiring \<Rightarrow> facts \<Rightarrow> business_side \<Rightarrow> rat \<Rightarrow> source_account \<Rightarrow> bool" where
  "source_reduce_only W f side quantity account \<longleftrightarrow>
    ((side = SELL \<and> quantity \<le> sa_position_ounces account)
     \<or> (side = BUY \<and> quantity \<le> dneg (sa_position_ounces account)))
    \<and> (case fa_netting_position f of
         None \<Rightarrow> False
       | Some p \<Rightarrow> \<not> np_is_closed p \<and> np_trader_id p = wi_trader_id W \<and> np_strategy_id p = wi_strategy_id W
           \<and> np_instrument_id p = tc_source_instrument_id (wi_config W) \<and> np_account_id p = sa_account_id account
           \<and> (if side = BUY then np_is_short p else np_is_long p) \<and> quantity \<le> np_quantity p)"

definition side_of_direction :: "source_direction \<Rightarrow> business_side" where
  "side_of_direction d = (if d = LONG then BUY else SELL)"

definition taker_route :: "'w wiring \<Rightarrow> opportunity \<Rightarrow> 'w taker \<Rightarrow> source_route" where
  "taker_route W opp t =
    \<lparr>rt_source_account_id = Some (sa_account_id (op_source_account opp)),
     rt_source_client_id = sa_client_id (op_source_account opp),
     rt_hedge_account_id = Some (tc_hedge_account_id (wi_config W)),
     rt_hedge_client_id = tc_hedge_client_id (wi_config W),
     rt_hedge_position_id = tk_hedge_position_id t,
     rt_hedge_position_quantity_ounces =
       (if tk_hedge_position_id t \<noteq> None then map_option Fin (tk_hedge_position_quantity t) else None)\<rparr>"

text \<open>\<^verbatim>\<open>submit_order\<close> inside its \<^verbatim>\<open>try\<close>: the request is handed over, an exception marks the order unknown.\<close>

definition submit_source_order :: "'w wiring \<Rightarrow> facts \<Rightarrow> source_request \<Rightarrow> ('w taker, unit) tx" where
  "submit_source_order W f q = (\<lambda>t. case fa_submission f of
     None \<Rightarrow> (send (SendSource q) t, Inr ())
   | Some e \<Rightarrow> bind_tx (on_store (mark_source_unknown (sb_custody (wi_store W)) (sq_client_order_id q)
         (''source submission raised '' @ exn_class e))) (\<lambda>_. raise_tx e) (send (SendSource q) t))"

definition place_source_order :: "'w wiring \<Rightarrow> facts \<Rightarrow> opportunity \<Rightarrow> rat \<Rightarrow> int option \<Rightarrow> ('w taker, bool) tx" where
  "place_source_order W f opp source_quantity market_ts_ns =
    (let side = side_of_direction (op_direction opp); cid = fa_fresh_order_id f in
     bind_tx (lift_tx (fa_make_price f (op_source_price_usdt opp))) (\<lambda>price.
     bind_tx (\<lambda>t. on_store (begin_source (sb_custody (wi_store W)) cid side source_quantity (taker_route W opp t)
         (if wi_one_shot W then Some one_shot_freeze_reason else None)) t) (\<lambda>_.
     bind_tx (modify_tx (\<lambda>t. case market_ts_ns of None \<Rightarrow> t | Some ts \<Rightarrow> t\<lparr>tk_last_attempt_ts := Some ts\<rparr>)) (\<lambda>_.
     bind_tx (submit_source_order W f
         \<lparr>sq_client_order_id = cid, sq_side = side, sq_quantity = source_quantity, sq_price = price,
          sq_reduce_only = source_reduce_only W f side source_quantity (op_source_account opp),
          sq_client_id = sa_client_id (op_source_account opp), sq_leverage = op_leverage opp\<rparr>) (\<lambda>_.
     ret_tx True)))))"

definition submit_source :: "'w wiring \<Rightarrow> facts \<Rightarrow> opportunity \<Rightarrow> int option \<Rightarrow> ('w taker, bool) tx" where
  "submit_source W f opp market_ts_ns = (\<lambda>t.
     if fa_restart_blocked f \<or> tk_draining t then (t, Inr False)
     else if wi_allowed_direction W \<noteq> None \<and> wi_allowed_direction W \<noteq> Some (op_direction opp) then (t, Inr False)
     else if tk_source_instrument t = None then
       (t, Inl (RuntimeError ''source instrument unavailable before strategy start''))
     else bind_tx (lift_tx (fa_make_source_qty f (op_source_quantity_ounces opp))) (\<lambda>source_quantity.
       bind_tx (case wi_admission W of None \<Rightarrow> ret_tx True
         | Some admits \<Rightarrow> on_store (admits (side_of_direction (op_direction opp)) source_quantity)) (\<lambda>admitted.
       if \<not> admitted then ret_tx False
       else bind_tx (source_hedge_is_executable W f opp source_quantity) (\<lambda>executable.
         if \<not> executable then ret_tx False
         else bind_tx (claim_one_shot W) (\<lambda>claimed.
           if \<not> claimed then ret_tx False
           else place_source_order W f opp source_quantity market_ts_ns)))) t)"

section \<open>The decision\<close>

text \<open>A route's capacity takes part in comparisons, which a NaN makes raise.\<close>

definition finite_decimal :: "dec \<Rightarrow> exn + rat" where
  "finite_decimal d = (case d of Fin x \<Rightarrow> Inr x | NonFinite \<Rightarrow> Inl ArithmeticError)"

definition source_accounts_of :: "'w wiring \<Rightarrow> facts \<Rightarrow> exn + source_account list" where
  "source_accounts_of W f = mapE (\<lambda>route.
     bindE (finite_decimal (sr_max_long_ounces route)) (\<lambda>max_long.
     bindE (finite_decimal (sr_max_short_ounces route)) (\<lambda>max_short.
     bindE (finite_decimal (sr_base_margin_level route)) (\<lambda>base.
     Inr \<lparr>sa_account_id = sr_account_id route, sa_client_id = sr_client_id route,
       sa_position_ounces = fa_net_position f (tc_source_instrument_id (wi_config W)) (sr_account_id route),
       sa_max_long_ounces = max_long, sa_max_short_ounces = max_short, sa_base_margin_level = base\<rparr>))))
     (tc_source_accounts (wi_config W))"

definition hedge_account_of :: "'w wiring \<Rightarrow> facts \<Rightarrow> hedge_account" where
  "hedge_account_of W f = (let c = wi_config W in
    \<lparr>ha_position_ounces = fa_net_position f (tc_hedge_instrument_id c) (tc_hedge_account_id c),
     ha_max_long_ounces = tc_hedge_max_long_ounces c, ha_max_short_ounces = tc_hedge_max_short_ounces c\<rparr>)"

text \<open>The bound reader's current view, or the configured routes; \<open>None\<close> when the view is unusable.\<close>

definition current_accounts ::
  "'w wiring \<Rightarrow> facts \<Rightarrow> book_top \<Rightarrow> int \<Rightarrow> quote_tick \<Rightarrow> exn + (source_account list \<times> hedge_account) option"
where
  "current_accounts W f reference source_ts_ns tick =
    (if wi_account_reader W then
       Inr (case fa_account_view f reference source_ts_ns (book_top_of tick) (qt_ts_event tick) of
         Some (source, hedge, True) \<Rightarrow> Some ([source], hedge) | _ \<Rightarrow> None)
     else bindE (source_accounts_of W f) (\<lambda>accounts. Inr (Some (accounts, hedge_account_of W f))))"

text \<open>From the accounts on: coalesce one market time, price the carry, evaluate, submit.\<close>

definition evaluate_market ::
  "'w wiring \<Rightarrow> facts \<Rightarrow> book_top \<Rightarrow> int \<Rightarrow> quote_tick \<Rightarrow> source_account list \<Rightarrow> hedge_account \<Rightarrow> ('w taker, unit) tx"
where
  "evaluate_market W f reference source_ts_ns tick accounts hedge = (\<lambda>t.
     let market_ts_ns = max source_ts_ns (qt_ts_event tick) in
     if tk_last_attempt_ts t = Some market_ts_ns then at_gate ''market_event_already_claimed'' t
     else bind_tx (lift_tx (carry_for_hedge_tick W tick (fa_now_ns f) t)) (\<lambda>carry t. case carry of
       None \<Rightarrow> at_gate ''carry_unavailable'' t
     | Some carry \<Rightarrow>
         bind_tx (lift_tx (evaluate_taker reference (book_top_of tick) accounts hedge (tc_economics (wi_config W))
             (wi_allowed_direction W) (Some carry) (Some (tk_fx t)))) (\<lambda>opp. case opp of
           None \<Rightarrow> at_gate ''not_qualifying''
         | Some opp \<Rightarrow> bind_tx (at_gate ''source_admission'') (\<lambda>_.
             bind_tx (submit_source W f opp (Some market_ts_ns)) (\<lambda>submitted.
             at_gate (if submitted then ''source_claimed'' else ''source_admission_blocked'')))) t) t)"

text \<open>With both market sides in the cache.\<close>

definition evaluate_book :: "'w wiring \<Rightarrow> facts \<Rightarrow> order_book \<Rightarrow> quote_tick \<Rightarrow> ('w taker, unit) tx" where
  "evaluate_book W f book tick =
    bind_tx (lift_tx (reference_book book (te_base_book_quantity (tc_economics (wi_config W))))) (\<lambda>reference.
    case reference of
      None \<Rightarrow> at_gate ''reference_depth_insufficient''
    | Some reference \<Rightarrow>
        bind_tx (inputs_are_fresh W f (ob_ts_last book) tick) (\<lambda>usable.
        if \<not> usable then at_gate ''inputs_not_fresh''
        else bind_tx (lift_tx (current_accounts W f reference (ob_ts_last book) tick)) (\<lambda>view. case view of
          None \<Rightarrow> at_gate ''account_budget_unavailable''
        | Some (accounts, hedge) \<Rightarrow>
            evaluate_market W f reference (ob_ts_last book) tick accounts hedge)))"

definition evaluate_and_submit :: "'w wiring \<Rightarrow> facts \<Rightarrow> ('w taker, unit) tx" where
  "evaluate_and_submit W f = (\<lambda>t.
     if tk_draining t then at_gate ''draining'' t
     else if fa_restart_blocked f then at_gate ''restart_pending'' t
     else bind_tx (on_store (wi_release W)) (\<lambda>_ t.
       if \<not> can_submit_source (sb_custody (wi_store W)) (tk_store t) then at_gate ''state_store_closed'' t
       else case (fa_source_book f, fa_hedge_tick f) of
         (Some book, Some tick) \<Rightarrow> evaluate_book W f book tick t
       | _ \<Rightarrow> at_gate ''market_cache_missing'' t) t)"

section \<open>Dispatching hedges\<close>

definition failed_statuses :: "obligation_status set" where
  "failed_statuses = {BLOCKED, REJECTED, UNKNOWN}"

definition active_statuses :: "obligation_status set" where
  "active_statuses = {SUBMITTING, SUBMITTED, ACCEPTED}"

definition hedge_request_of :: "'w wiring \<Rightarrow> string \<Rightarrow> string \<Rightarrow> rat \<Rightarrow> hedge_leg \<Rightarrow> hedge_request" where
  "hedge_request_of W cid intent_id quantity leg =
    \<lparr>hq_client_order_id = cid, hq_intent_id = intent_id, hq_side = leg_side leg, hq_quantity = quantity,
     hq_reduce_only = leg_is_close leg, hq_position_id = (if leg_is_close leg then leg_position_id leg else None),
     hq_client_id = tc_hedge_client_id (wi_config W), hq_expected_position_quantity = hedge_order_params leg\<rparr>"

definition submit_hedge_order :: "'w wiring \<Rightarrow> facts \<Rightarrow> hedge_request \<Rightarrow> ('w taker, unit) tx" where
  "submit_hedge_order W f q = (\<lambda>t. case fa_submission f of
     None \<Rightarrow> (send (SendHedge q) t, Inr ())
   | Some e \<Rightarrow> bind_tx (on_store (update_hedge_status (sb_custody (wi_store W)) (hq_client_order_id q) UNKNOWN None))
       (\<lambda>_. raise_tx e) (send (SendHedge q) t))"

definition place_hedge_order :: "'w wiring \<Rightarrow> facts \<Rightarrow> string \<Rightarrow> hedge_leg \<Rightarrow> ('w taker, unit) tx" where
  "place_hedge_order W f intent_id leg =
    bind_tx (lift_tx (fa_make_hedge_qty f (leg_quantity_ounces leg))) (\<lambda>quantity.
    bind_tx (on_store (bind_hedge_leg (wi_store W) intent_id (fa_fresh_order_id f))) (\<lambda>_.
    submit_hedge_order W f (hedge_request_of W (fa_fresh_order_id f) intent_id quantity leg)))"

definition hedge_route_differs :: "'w wiring \<Rightarrow> source_order_record option \<Rightarrow> bool" where
  "hedge_route_differs W source \<longleftrightarrow> (case source of
     None \<Rightarrow> True
   | Some s \<Rightarrow> so_hedge_account_id s \<noteq> Some (tc_hedge_account_id (wi_config W))
       \<or> so_hedge_client_id s \<noteq> tc_hedge_client_id (wi_config W))"

fun hedge_planning_error :: "exn \<Rightarrow> bool" where
  "hedge_planning_error (HedgePlanningError _) = True"
| "hedge_planning_error (HedgeLaneBusy _) = True"
| "hedge_planning_error _ = False"

definition submit_hedge_intent :: "'w wiring \<Rightarrow> facts \<Rightarrow> hedge_intent \<Rightarrow> ('w taker, unit) tx" where
  "submit_hedge_intent W f intent = (\<lambda>t.
     let ob = wi_store W; s = sb_state ob (tk_store t); iid = hi_intent_id intent in
     if fa_restart_blocked f \<or> \<not> sb_dispatch_ready ob iid (tk_store t) then (t, Inr ())
     else if hedge_route_differs W (dict_get (ss_source_orders s) (hi_source_client_order_id intent)) then
       on_store (block_hedge_intent (sb_custody ob) iid
         ''durable Taker hedge route is missing or differs from configuration'') t
     else if tk_hedge_instrument t = None then
       (t, Inl (RuntimeError ''hedge instrument unavailable before strategy start''))
     else if (case fa_hedge_tick f of None \<Rightarrow> True | Some tick \<Rightarrow> \<not> quote_is_fresh W tick (fa_now_ns f)) then
       (t, Inr ())
     else case on_store (next_hedge_leg ob iid (fa_hedge_positions f)) t of
       (t, Inl e) \<Rightarrow> if hedge_planning_error e then (t, Inr ()) else (t, Inl e)
     | (t, Inr leg) \<Rightarrow> place_hedge_order W f iid leg t)"

definition pending_hedge :: "store_state \<Rightarrow> hedge_intent option" where
  "pending_hedge s =
    (if list_ex (\<lambda>intent. hi_status intent \<in> failed_statuses) (state_intents s) then None
     else if list_ex (\<lambda>intent. hi_status intent \<in> active_statuses) (state_intents s) then None
     else find (\<lambda>intent. hi_status intent = PENDING \<and> hi_hedge_client_order_id intent = None) (state_intents s))"

definition submit_next_pending_hedge :: "'w wiring \<Rightarrow> facts \<Rightarrow> ('w taker, unit) tx" where
  "submit_next_pending_hedge W f = (\<lambda>t.
     if fa_restart_blocked f then (t, Inr ())
     else case pending_hedge (sb_state (wi_store W) (tk_store t)) of
       None \<Rightarrow> (t, Inr ()) | Some intent \<Rightarrow> submit_hedge_intent W f intent t)"

end
