(* ===== verification/Taker_Events.thy ===== *)
theory Taker_Events
  imports Taker_Strategy
begin

text \<open>
  The callbacks of \<^verbatim>\<open>TakerStrategy\<close>: market data, order events, the terminal query, costs, account
  updates, start, drain and stop. \<open>taker_event\<close> makes each of them a datum, so that a run of the
  strategy is a list of events.
\<close>

section \<open>Order events\<close>

definition source_known :: "'w wiring \<Rightarrow> 'w taker \<Rightarrow> string \<Rightarrow> bool" where
  "source_known W t cid \<longleftrightarrow> knows_source_order (sb_state (wi_store W) (tk_store t)) cid"

text \<open>\<^verbatim>\<open>_update_order_status\<close>, on_order_submitted and on_order_accepted.\<close>

definition update_order_status :: "'w wiring \<Rightarrow> bool \<Rightarrow> string \<Rightarrow> bool \<Rightarrow> ('w taker, unit) tx" where
  "update_order_status W blocked cid accepted = (\<lambda>t.
     let cu = sb_custody (wi_store W) in
     if blocked then (t, Inr ())
     else if source_known W t cid then
       on_store (update_source_status cu cid (if accepted then ''ACCEPTED'' else ''SUBMITTED'')) t
     else on_store (update_hedge_status cu cid (if accepted then ACCEPTED else SUBMITTED) None) t)"

definition finish_or_reject :: "'w wiring \<Rightarrow> bool \<Rightarrow> string \<Rightarrow> string \<Rightarrow> ('w taker, unit) tx" where
  "finish_or_reject W blocked cid status = (\<lambda>t.
     let cu = sb_custody (wi_store W) in
     if blocked then (t, Inr ())
     else if source_known W t cid then on_store (update_source_status cu cid status) t
     else on_store (update_hedge_status cu cid REJECTED (Some status)) t)"

definition on_order_rejected :: "'w wiring \<Rightarrow> bool \<Rightarrow> string \<Rightarrow> string \<Rightarrow> ('w taker, unit) tx" where
  "on_order_rejected W blocked cid reason = (\<lambda>t.
     let cu = sb_custody (wi_store W) in
     if blocked then (t, Inr ())
     else if py_upper (py_strip reason) = ''UNKNOWN'' then
       (if source_known W t cid then
          on_store (mark_source_unknown cu cid ''Nautilus reported an unknown source submission outcome'') t
        else on_store (update_hedge_status cu cid UNKNOWN None) t)
     else finish_or_reject W blocked cid ''REJECTED'' t)"

section \<open>The terminal query\<close>

text \<open>\<open>outcome\<close>: the exception the query callable raised, if any. Its callback comes back as an event.\<close>

definition request_source_terminal_query :: "'w wiring \<Rightarrow> bool \<Rightarrow> terminal_event \<Rightarrow> exn option \<Rightarrow> 'w taker \<Rightarrow> 'w taker" where
  "request_source_terminal_query W blocked event outcome t =
    (let cid = te_client_order_id event in
     if blocked then t
     else if \<not> wi_terminal_query W \<or> tk_terminal_stopped t \<or> \<not> source_known W t cid \<or> cid \<in> tk_terminal_inflight t then t
     else if te_venue_order_id event = None then t
     else let t = send (AskTerminal event (tk_terminal_generation t)) (t\<lparr>tk_terminal_inflight := insert cid (tk_terminal_inflight t)\<rparr>)
       in case outcome of None \<Rightarrow> t
          | Some _ \<Rightarrow> t\<lparr>tk_terminal_inflight := tk_terminal_inflight t - {cid}\<rparr>)"

definition on_order_terminated :: "'w wiring \<Rightarrow> bool \<Rightarrow> terminal_event \<Rightarrow> exn option \<Rightarrow> ('w taker, unit) tx" where
  "on_order_terminated W blocked event outcome =
    bind_tx (finish_or_reject W blocked (te_client_order_id event) (terminal_name event)) (\<lambda>_.
    modify_tx (request_source_terminal_query W blocked event outcome))"

text \<open>The callback; an exception of the store is swallowed and leaves the query in flight.\<close>

definition complete_source_terminal_query ::
  "'w wiring \<Rightarrow> bool \<Rightarrow> terminal_event \<Rightarrow> status_report option \<Rightarrow> terminal_order option \<Rightarrow> 'w taker \<Rightarrow> 'w taker \<times> bool"
where
  "complete_source_terminal_query W blocked event report order t =
    (let cid = te_client_order_id event; cu = sb_custody (wi_store W) in
     if blocked then (t, False)
     else if tk_terminal_stopped t \<or> cid \<notin> tk_terminal_inflight t then (t, False)
     else if (case report of None \<Rightarrow> True
         | Some r \<Rightarrow> \<not> source_cancel_report_is_exact (dict_get (ss_source_orders (cu_state cu (tk_store t))) cid) order
             event r (tc_source_instrument_id (wi_config W)) (tc_source_accounts (wi_config W)) False)
     then (t, False)
     else case on_store (confirm_source_reconciled cu cid) t of
       (t, Inl _) \<Rightarrow> (t, False)
     | (t, Inr _) \<Rightarrow> (t\<lparr>tk_terminal_inflight := tk_terminal_inflight t - {cid}\<rparr>, True))"

definition terminal_callback ::
  "'w wiring \<Rightarrow> bool \<Rightarrow> terminal_event \<Rightarrow> nat \<Rightarrow> status_report option \<Rightarrow> terminal_order option \<Rightarrow> 'w taker \<Rightarrow> 'w taker \<times> bool"
where
  "terminal_callback W blocked event generation report order t =
    (if generation = tk_terminal_generation t then complete_source_terminal_query W blocked event report order t
     else (t, False))"

section \<open>Fills\<close>

definition on_order_filled :: "'w wiring \<Rightarrow> facts \<Rightarrow> order_filled \<Rightarrow> ('w taker, unit) tx" where
  "on_order_filled W f event = (\<lambda>t.
     let c = wi_config W in
     if fa_restart_blocked f then (t, Inr ())
     else if of_instrument_id event = tc_source_instrument_id c then
       bind_tx (on_store (on_source_filled (wi_store W) (tc_source_instrument_id c) event)) (\<lambda>intent.
         case intent of None \<Rightarrow> ret_tx () | Some _ \<Rightarrow> submit_next_pending_hedge W f) t
     else if of_instrument_id event = tc_hedge_instrument_id c then
       bind_tx (on_store (on_hedge_filled (wi_store W) event)) (\<lambda>applied.
         if applied then submit_next_pending_hedge W f else ret_tx ()) t
     else (t, Inr ()))"

section \<open>Market data\<close>

definition on_order_book_deltas :: "'w wiring \<Rightarrow> facts \<Rightarrow> string \<Rightarrow> ('w taker, unit) tx" where
  "on_order_book_deltas W f instrument_id =
    (if instrument_id \<noteq> tc_source_instrument_id (wi_config W) then ret_tx ()
     else bind_tx (modify_tx (\<lambda>t. t\<lparr>tk_book_callbacks := tk_book_callbacks t + 1\<rparr>)) (\<lambda>_. evaluate_and_submit W f))"

text \<open>The hedge first, then the decision, each with the facts of its own moment.\<close>

definition on_quote_tick :: "'w wiring \<Rightarrow> facts \<Rightarrow> facts \<Rightarrow> string \<Rightarrow> ('w taker, unit) tx" where
  "on_quote_tick W f f' instrument_id =
    (if instrument_id = tc_hedge_instrument_id (wi_config W) then
       bind_tx (submit_next_pending_hedge W f) (\<lambda>_. evaluate_and_submit W f')
     else ret_tx ())"

definition on_instrument_status :: "'w wiring \<Rightarrow> string \<Rightarrow> bool option \<Rightarrow> int \<Rightarrow> 'w taker \<Rightarrow> 'w taker" where
  "on_instrument_status W instrument_id is_trading ts_event_ns t =
    (if instrument_id \<noteq> tc_hedge_instrument_id (wi_config W) then t
     else update_hedge_session (is_trading = Some True) ts_event_ns t)"

definition on_instrument :: "'w wiring \<Rightarrow> int \<Rightarrow> instrument \<Rightarrow> ('w taker, unit) tx" where
  "on_instrument W now_ns ins = (\<lambda>t.
     if \<not> wi_live_costs W \<or> ins_id ins \<noteq> tc_hedge_instrument_id (wi_config W) then (t, Inr ())
     else case required_hedge_instrument t of
       Inl e \<Rightarrow> (t, Inl e)
     | Inr previous \<Rightarrow>
         (case or_unavailable (validate_mt5_instrument_update (wi_zone W) previous ins now_ns
             (tc_max_cost_age_ns (wi_config W))) of
           Inl e \<Rightarrow> (t, Inl e)
         | Inr None \<Rightarrow> (t\<lparr>tk_hedge_valid := False\<rparr>, Inr ())
         | Inr (Some _) \<Rightarrow>
             if ins_ts_event ins = ins_ts_event previous \<and> \<not> tk_hedge_valid t then (t, Inr ())
             else (t\<lparr>tk_hedge_instrument := Some ins, tk_hedge_valid := True\<rparr>, Inr ())))"

definition on_funding_rate :: "'w wiring \<Rightarrow> string \<Rightarrow> dec \<Rightarrow> int \<Rightarrow> int \<Rightarrow> int \<Rightarrow> 'w taker \<Rightarrow> 'w taker" where
  "on_funding_rate W instrument_id rate ts_event_ns now_ns update_now_ns t =
    (if \<not> wi_live_costs W \<or> instrument_id \<noteq> tc_source_instrument_id (wi_config W) then t
     else if now_ns < ts_event_ns then invalidate_cost_snapshot t
     else case rate of
       NonFinite \<Rightarrow> invalidate_cost_snapshot t
     | Fin r \<Rightarrow>
         if 1 < dabs r then invalidate_cost_snapshot t
         else let static = te_carry (tc_economics (wi_config W)) in
           fst (update_cost_snapshot W \<lparr>cc_bitfinex_long = r, cc_bitfinex_short = dneg r,
               cc_mt5_long_swap = cc_mt5_long_swap static, cc_mt5_short_swap = cc_mt5_short_swap static,
               cc_total_trade_fee = cc_total_trade_fee static\<rparr>
             (te_fx (tc_economics (wi_config W))) ts_event_ns update_now_ns t))"

section \<open>Account updates\<close>

text \<open>An account publication only schedules an evaluation, bound to the current generation.\<close>

definition on_account_update :: "bool \<Rightarrow> 'w taker \<Rightarrow> 'w taker" where
  "on_account_update loop_closed t =
    (if tk_terminal_stopped t \<or> \<not> tk_account_loop t \<or> loop_closed then t
     else if tk_account_handle t = None then t\<lparr>tk_account_handle := Some (tk_terminal_generation t)\<rparr> else t)"

definition evaluate_account_update :: "'w wiring \<Rightarrow> facts \<Rightarrow> nat \<Rightarrow> 'w taker \<Rightarrow> 'w taker" where
  "evaluate_account_update W f generation t =
    (if tk_terminal_stopped t \<or> generation \<noteq> tk_terminal_generation t then t
     else fst (evaluate_and_submit W f (t\<lparr>tk_account_handle := None\<rparr>)))"

section \<open>Start, drain and stop\<close>

record start_facts =
  sf_source_instrument :: "instrument option"
  sf_hedge_instrument :: "instrument option"
  sf_now_ns :: int

definition account_topics :: "'w wiring \<Rightarrow> exn + string set" where
  "account_topics W = (case tc_source_accounts (wi_config W) of
     [] \<Rightarrow> Inl IndexError
   | route # _ \<Rightarrow> Inr {''events.account.'' @ sr_account_id route, ''events.account.'' @ tc_hedge_account_id (wi_config W)})"

definition hedge_instrument_usable :: "'w wiring \<Rightarrow> int \<Rightarrow> instrument \<Rightarrow> exn + unit" where
  "hedge_instrument_usable W now_ns ins =
    bindE (mt5_swap_spec (wi_zone W) ins) (\<lambda>_.
    bindE (mt5_instrument_structure ins) (\<lambda>_.
    if mt5_instrument_is_fresh ins now_ns (tc_max_cost_age_ns (wi_config W)) then Inr ()
    else Inl (ValueError ''MT5 instrument observation is not fresh'')))"

definition bind_account_loop :: "'w wiring \<Rightarrow> ('w taker, unit) tx" where
  "bind_account_loop W = (if \<not> wi_account_reader W then ret_tx ()
     else bind_tx (modify_tx (\<lambda>t. t\<lparr>tk_account_loop := True\<rparr>)) (\<lambda>_.
       bind_tx (lift_tx (account_topics W)) (\<lambda>topics. modify_tx (\<lambda>t. t\<lparr>tk_account_topics := topics\<rparr>))))"

definition subscribe_inputs :: "'w wiring \<Rightarrow> 'w taker \<Rightarrow> 'w taker" where
  "subscribe_inputs W t = (let t = (if wi_live_costs W then send (Subscribe FundingFeed) (send (Subscribe HedgeInstrumentFeed) t) else t)
    in send (Subscribe HedgeStatusFeed) (send (Subscribe HedgeQuoteFeed) t))"

definition on_start :: "'w wiring \<Rightarrow> start_facts \<Rightarrow> ('w taker, unit) tx" where
  "on_start W sf =
    bind_tx (modify_tx (\<lambda>t. t\<lparr>tk_draining := False, tk_terminal_stopped := False\<rparr>)) (\<lambda>_.
    bind_tx (bind_account_loop W) (\<lambda>_.
    bind_tx (modify_tx (\<lambda>t. t\<lparr>tk_source_instrument := sf_source_instrument sf,
      tk_hedge_instrument := sf_hedge_instrument sf\<rparr>)) (\<lambda>_.
    case (sf_source_instrument sf, sf_hedge_instrument sf) of
      (Some _, Some hedge) \<Rightarrow>
        bind_tx (lift_tx (if wi_live_costs W then or_unavailable (hedge_instrument_usable W (sf_now_ns sf) hedge)
          else Inr (Some ()))) (\<lambda>usable.
        if usable = None then modify_tx (send StopSelf)
        else bind_tx (modify_tx (\<lambda>t. if wi_live_costs W then t\<lparr>tk_hedge_valid := True\<rparr> else t)) (\<lambda>_.
          bind_tx (on_store (recover_for_start (sb_custody (wi_store W)))) (\<lambda>_.
          bind_tx (\<lambda>t. if \<not> wi_one_shot W \<or> tk_armed t then subscribe_source_book t else (t, Inr ())) (\<lambda>_.
          modify_tx (subscribe_inputs W)))))
    | _ \<Rightarrow> modify_tx (send StopSelf))))"

definition begin_drain :: "'w taker \<Rightarrow> 'w taker" where
  "begin_drain t = t\<lparr>tk_draining := True\<rparr>"

definition continue_drain :: "'w wiring \<Rightarrow> facts \<Rightarrow> ('w taker, unit) tx" where
  "continue_drain W f = bind_tx (submit_next_pending_hedge W f) (\<lambda>_.
     if fa_restart_blocked f then ret_tx () else bind_tx (on_store (wi_release W)) (\<lambda>_. ret_tx ()))"

text \<open>The answer of the cache for the active order, and of \<^verbatim>\<open>cancel_order\<close>.\<close>

record stop_facts =
  sp_restart_blocked :: bool
  sp_order_closed :: "bool option"
  sp_cancel :: "exn option"

definition on_stop :: "'w wiring \<Rightarrow> stop_facts \<Rightarrow> ('w taker, unit) tx" where
  "on_stop W sp = (\<lambda>t.
     let cu = sb_custody (wi_store W);
         t = t\<lparr>tk_terminal_stopped := True, tk_terminal_generation := tk_terminal_generation t + 1,
           tk_terminal_inflight := {}, tk_account_handle := None, tk_account_topics := {}, tk_account_loop := False\<rparr>
     in if sp_restart_blocked sp \<or> tk_draining t then (t, Inr ())
     else case ss_active_source_order_id (cu_state cu (tk_store t)) of
       None \<Rightarrow> (t, Inr ())
     | Some cid \<Rightarrow> (case sp_order_closed sp of
         None \<Rightarrow> on_store (mark_source_unknown cu cid ''strategy stop could not resolve the active Nautilus order'') t
       | Some True \<Rightarrow> (t, Inr ())
       | Some False \<Rightarrow>
           let t = send (CancelSource cid) t in
           case sp_cancel sp of None \<Rightarrow> (t, Inr ())
           | Some e \<Rightarrow> on_store (mark_source_unknown cu cid (''source cancel on stop raised '' @ exn_class e)) t))"

section \<open>Events\<close>

datatype taker_event =
    BookDeltas facts string
  | QuoteTick facts facts string
  | InstrumentStatus string "bool option" int
  | InstrumentUpdate int instrument
  | FundingRate string dec int int int
  | CostSnapshot carry_config fx_config int int
  | AccountUpdate bool
  | AccountEvaluation facts nat
  | OrderProgress bool string bool
  | OrderDenied bool string
  | OrderRejected bool string string
  | OrderTerminated bool terminal_event "exn option"
  | TerminalAnswer bool terminal_event nat "status_report option" "terminal_order option"
  | OrderFilled facts order_filled
  | Arm bool
  | Disarm
  | Start start_facts
  | Drain
  | ContinueDrain facts
  | Stop stop_facts

fun run_taker :: "'w wiring \<Rightarrow> taker_event \<Rightarrow> 'w taker \<Rightarrow> 'w taker" where
  "run_taker W (BookDeltas f i) t = fst (on_order_book_deltas W f i t)"
| "run_taker W (QuoteTick f f' i) t = fst (on_quote_tick W f f' i t)"
| "run_taker W (InstrumentStatus i tr ts) t = on_instrument_status W i tr ts t"
| "run_taker W (InstrumentUpdate now ins) t = fst (on_instrument W now ins t)"
| "run_taker W (FundingRate i r ts now now') t = on_funding_rate W i r ts now now' t"
| "run_taker W (CostSnapshot carry fx ts now) t = fst (update_cost_snapshot W carry fx ts now t)"
| "run_taker W (AccountUpdate lc) t = on_account_update lc t"
| "run_taker W (AccountEvaluation f g) t = evaluate_account_update W f g t"
| "run_taker W (OrderProgress b cid accepted) t = fst (update_order_status W b cid accepted t)"
| "run_taker W (OrderDenied b cid) t = fst (finish_or_reject W b cid ''DENIED'' t)"
| "run_taker W (OrderRejected b cid reason) t = fst (on_order_rejected W b cid reason t)"
| "run_taker W (OrderTerminated b ev out) t = fst (on_order_terminated W b ev out t)"
| "run_taker W (TerminalAnswer b ev g rep ord) t = fst (terminal_callback W b ev g rep ord t)"
| "run_taker W (OrderFilled f ev) t = fst (on_order_filled W f ev t)"
| "run_taker W (Arm running) t = fst (arm_one_shot W running t)"
| "run_taker W Disarm t = disarm_one_shot W t"
| "run_taker W (Start sf) t = fst (on_start W sf t)"
| "run_taker W Drain t = begin_drain t"
| "run_taker W (ContinueDrain f) t = fst (continue_drain W f t)"
| "run_taker W (Stop sp) t = fst (on_stop W sp t)"

end
