(* ===== verification/Taker_Runs.thy ===== *)
theory Taker_Runs
  imports Taker_Events
begin

text \<open>
  Runs of the Taker on the standalone store. Whatever a callback does to the store is a sequence of
  store operations with the arguments the strategy passes, so a run of the strategy, restarts
  included, is a run of the store: the theorems about every reachable store hold for the store of
  every reachable strategy.
\<close>

section \<open>Sequences of store operations\<close>

inductive store_runs :: "(string \<Rightarrow> string) \<Rightarrow> store \<Rightarrow> store \<Rightarrow> bool" for digest w where
  none: "store_runs digest w w"
| more: "store_runs digest w w' \<Longrightarrow> sane_op digest w' op \<Longrightarrow> store_runs digest w (run_op standalone digest op w')"

lemma store_runs_trans: "store_runs digest u v \<Longrightarrow> store_runs digest w u \<Longrightarrow> store_runs digest w v"
  by (induction rule: store_runs.induct) (auto intro: store_runs.more)

lemma store_runs_reachable: "store_runs digest w w' \<Longrightarrow> store_reachable digest w \<Longrightarrow> store_reachable digest w'"
  by (induction rule: store_runs.induct) (auto intro: store_reachable.operate)

lemma store_runs_op: "sane_op digest w op \<Longrightarrow> store_runs digest w (run_op standalone digest op w)"
  by (rule store_runs.more [OF store_runs.none])

text \<open>The operations the strategy calls directly; only a new order and a source fill have a side condition.\<close>

named_theorems run_rules

lemma store_runs_calls [run_rules]:
  "store_runs digest w (fst (update_source_status standalone cid status w))"
  "store_runs digest w (fst (update_hedge_status standalone cid st native w))"
  "store_runs digest w (fst (mark_source_unknown standalone cid reason w))"
  "store_runs digest w (fst (confirm_source_reconciled standalone cid w))"
  "store_runs digest w (fst (bind_hedge_order standalone iid cid w))"
  "store_runs digest w (fst (bind_hedge_plan standalone iid plan w))"
  "store_runs digest w (fst (block_hedge_intent standalone iid reason w))"
  "store_runs digest w (fst (recover_for_start standalone w))"
  "store_runs digest w (fst (apply_hedge_fill standalone cid trade q w))"
  using store_runs_op [of digest w "SourceStatus cid status"] store_runs_op [of digest w "HedgeStatus cid st native"]
    store_runs_op [of digest w "MarkUnknown cid reason"] store_runs_op [of digest w "Confirm cid"]
    store_runs_op [of digest w "BindOrder iid cid"] store_runs_op [of digest w "BindPlan iid plan"]
    store_runs_op [of digest w "Block iid reason"] store_runs_op [of digest w Recover]
    store_runs_op [of digest w "HedgeFill cid trade q"]
  by (simp_all add: sane_op_def)

section \<open>What a callback does to the store\<close>

text \<open>\<open>drives\<close>: from this strategy, the body runs the store by store operations.\<close>

definition drives :: "(string \<Rightarrow> string) \<Rightarrow> (store taker, 'a) tx \<Rightarrow> store taker \<Rightarrow> bool" where
  "drives digest m t \<longleftrightarrow> store_runs digest (tk_store t) (tk_store (fst (m t)))"

lemma drives_bind [run_rules]:
  assumes "drives digest m t" "\<And>t' x. m t = (t', Inr x) \<Longrightarrow> drives digest (f x) t'"
  shows "drives digest (bind_tx m f) t"
  using assms by (auto simp: drives_def bind_tx_def split: prod.splits sum.splits intro: store_runs_trans)

lemma drives_same: "tk_store (fst (m t)) = tk_store t \<Longrightarrow> drives digest m t"
  by (simp add: drives_def store_runs.none)

lemma drives_pure [run_rules]:
  "drives digest (ret_tx x) t" "drives digest (raise_tx e) t" "drives digest (lift_tx y) t"
  "drives digest (\<lambda>t. (t, r t)) t" "drives digest (at_gate g) t"
  by (simp_all add: drives_same at_gate_def)

lemma drives_modify [run_rules]: "(\<And>t. tk_store (g t) = tk_store t) \<Longrightarrow> drives digest (modify_tx g) t"
  by (simp add: drives_same)

lemma drives_store [run_rules]: "store_runs digest (tk_store t) (fst (m (tk_store t))) \<Longrightarrow> drives digest (on_store m) t"
  by (auto simp: drives_def on_store_def split: prod.splits)

lemma drives_calls:
  "drives digest (on_store (update_source_status standalone cid status)) t"
  "drives digest (on_store (update_hedge_status standalone cid st native)) t"
  "drives digest (on_store (mark_source_unknown standalone cid reason)) t"
  "drives digest (on_store (confirm_source_reconciled standalone cid)) t"
  "drives digest (on_store (recover_for_start standalone)) t"
  by (simp_all add: drives_store store_runs_calls)

lemma drives_if [run_rules]:
  "(b \<Longrightarrow> drives digest m t) \<Longrightarrow> (\<not> b \<Longrightarrow> drives digest m' t) \<Longrightarrow> drives digest (if b then m else m') t"
  by simp

lemma drives_apply: "drives digest m t \<Longrightarrow> store_runs digest (tk_store t) (tk_store (fst (m t)))"
  by (simp add: drives_def)

lemma send_simps [simp]: "tk_store (send q t) = tk_store t" "tk_sent (send q t) = tk_sent t @ [q]"
  by (simp_all add: send_def)

text \<open>The same on the store alone.\<close>

definition store_drives :: "(string \<Rightarrow> string) \<Rightarrow> (store, 'a) tx \<Rightarrow> store \<Rightarrow> bool" where
  "store_drives digest m w \<longleftrightarrow> store_runs digest w (fst (m w))"

lemma store_drives_bind:
  assumes "store_drives digest m w" "\<And>w' x. m w = (w', Inr x) \<Longrightarrow> store_drives digest (f x) w'"
  shows "store_drives digest (bind_tx m f) w"
  using assms by (auto simp: store_drives_def bind_tx_def split: prod.splits sum.splits intro: store_runs_trans)

lemma store_drives_rules:
  "store_drives digest (ret_tx x) w" "store_drives digest (raise_tx e) w" "store_drives digest (lift_tx y) w"
  "store_drives digest (bind_hedge_plan standalone iid plan) w" "store_drives digest (block_hedge_intent standalone iid reason) w"
  by (simp_all add: store_drives_def store_runs.none store_runs_calls)

lemma store_drives_if:
  "(b \<Longrightarrow> store_drives digest m w) \<Longrightarrow> (\<not> b \<Longrightarrow> store_drives digest m' w) \<Longrightarrow> store_drives digest (if b then m else m') w"
  by simp

lemma drives_planned_leg: "store_drives digest (planned_leg (standalone_object d) i positions) w"
  unfolding planned_leg_def standalone_object_simps Let_def
  by (intro store_drives_bind store_drives_if store_drives_rules)

lemma runs_next_leg: "store_runs digest w (fst (next_hedge_leg (standalone_object d) iid positions w))"
proof (cases "dict_get (ss_hedge_intents (cu_state standalone w)) iid")
  case (Some i)
  obtain w1 r where w1: "planned_leg (standalone_object d) i positions w = (w1, r)" by fastforce
  have p: "store_runs digest w w1" using drives_planned_leg [of digest d i positions w] w1 by (simp add: store_drives_def)
  have b: "store_drives digest (bind_tx (lift_tx y) (\<lambda>current. bind_tx (if hi_status current \<noteq> COMPLETED
      then block_hedge_intent standalone iid reason else ret_tx ()) (\<lambda>_. raise_tx e :: (store, hedge_leg) tx))) w1" for y reason e
    by (intro store_drives_bind store_drives_if store_drives_rules)
  show ?thesis
    using store_runs_trans [OF b [unfolded store_drives_def] p] p w1 Some
    unfolding next_hedge_leg_def standalone_object_simps
    by (auto simp: dict_index_def split: sum.splits)
qed (simp add: next_hedge_leg_def dict_index_def store_runs.none)

section \<open>The wiring of the standalone Taker\<close>

text \<open>
  The store of the ordinary Taker: its own file, no release of anybody's pause, and an admission
  (where there is one) that only answers.
\<close>

definition standalone_release :: "(store, bool) tx" where
  "standalone_release = ret_tx False"

definition standalone_wiring :: "(string \<Rightarrow> string) \<Rightarrow> store wiring \<Rightarrow> bool" where
  "standalone_wiring digest W \<longleftrightarrow> wi_store W = standalone_object digest \<and> wi_release W = standalone_release \<and>
    (\<forall>admits side q w. wi_admission W = Some admits \<longrightarrow> fst (admits side q w) = w)"

lemma wiringD:
  assumes "standalone_wiring digest W"
  shows "wi_store W = standalone_object digest" "wi_release W = standalone_release"
    "\<And>admits side q w. wi_admission W = Some admits \<Longrightarrow> fst (admits side q w) = w"
  using assms by (simp_all add: standalone_wiring_def)

section \<open>Hedge dispatch\<close>

lemma drives_submit_hedge_order:
  assumes "standalone_wiring digest W"
  shows "drives digest (submit_hedge_order W f q) t"
proof (cases "fa_submission f")
  case (Some e)
  have "drives digest (bind_tx (on_store (update_hedge_status standalone c UNKNOWN None)) (\<lambda>_. raise_tx e :: (store taker, unit) tx))
      (send (SendHedge q) t)" for c
    by (intro drives_bind drives_store drives_pure) (rule store_runs_calls)
  with Some show ?thesis by (simp add: submit_hedge_order_def drives_def wiringD [OF assms])
qed (simp add: submit_hedge_order_def drives_def store_runs.none)

lemma drives_place_hedge: "standalone_wiring digest W \<Longrightarrow> drives digest (place_hedge_order W f iid leg) t"
  unfolding place_hedge_order_def bind_hedge_leg_def
  by (intro drives_bind drives_pure drives_store drives_submit_hedge_order) (simp_all add: wiringD store_runs_calls)

lemma drives_hedge_intent:
  assumes w: "standalone_wiring digest W"
  shows "drives digest (submit_hedge_intent W f i) t"
proof -
  obtain t1 r where l: "on_store (next_hedge_leg (wi_store W) (hi_intent_id i) (fa_hedge_positions f)) t = (t1, r)"
    by fastforce
  have n: "store_runs digest (tk_store t) (tk_store t1)"
    using runs_next_leg [of digest "tk_store t" digest "hi_intent_id i" "fa_hedge_positions f"] l
    by (auto simp: on_store_def wiringD [OF w] split: prod.splits)
  have b: "drives digest (on_store (block_hedge_intent (sb_custody (wi_store W)) iid reason)) t" for iid reason
    by (intro drives_store) (simp add: wiringD [OF w] store_runs_calls)
  show ?thesis
    using store_runs_trans [OF drives_apply [OF drives_place_hedge [OF w]] n] n b [unfolded drives_def] l
    by (auto simp: submit_hedge_intent_def drives_def Let_def store_runs.none split: sum.splits)
qed

lemma drives_next_hedge: "standalone_wiring digest W \<Longrightarrow> drives digest (submit_next_pending_hedge W f) t"
  using drives_hedge_intent [of digest W f _ t]
  by (auto simp: submit_next_pending_hedge_def drives_def store_runs.none split: option.splits)

section \<open>The decision\<close>

text \<open>The order identity a decision would use must be new.\<close>

definition fresh_order :: "facts \<Rightarrow> store taker \<Rightarrow> bool" where
  "fresh_order f t \<longleftrightarrow> fa_fresh_order_id f \<notin> dict_keys (ss_source_orders (cu_state standalone (tk_store t)))"

lemma drives_submit_source_order:
  assumes "standalone_wiring digest W"
  shows "drives digest (submit_source_order W f q) t"
proof (cases "fa_submission f")
  case (Some e)
  have "drives digest (bind_tx (on_store (mark_source_unknown standalone c reason)) (\<lambda>_. raise_tx e :: (store taker, unit) tx))
      (send (SendSource q) t)" for c reason
    by (intro drives_bind drives_store drives_pure) (rule store_runs_calls)
  with Some show ?thesis by (simp add: submit_source_order_def drives_def wiringD [OF assms])
qed (simp add: submit_source_order_def drives_def store_runs.none)

lemma drives_place_source:
  assumes w: "standalone_wiring digest W" and f: "fresh_order f t"
  shows "drives digest (place_source_order W f opp q ts) t"
proof -
  have b: "drives digest (\<lambda>t. on_store (begin_source (sb_custody (wi_store W)) (fa_fresh_order_id f) side q (route t) fr) t) t"
    for side route fr
    using f store_runs_op [of digest "tk_store t" "Begin (fa_fresh_order_id f) side q (route t) fr"]
    by (auto simp: drives_def on_store_def sane_op_def fresh_order_def wiringD [OF w] split: prod.splits)
  show ?thesis
    unfolding place_source_order_def Let_def
    by (intro drives_bind drives_pure) (auto intro!: b drives_modify drives_submit_source_order [OF w] split: option.splits)
qed

lemma fresh_order_same: "fresh_order f t \<Longrightarrow> tk_store t' = tk_store t \<Longrightarrow> fresh_order f t'"
  by (simp add: fresh_order_def)

text \<open>Everything between the entry of a decision and the new order leaves the store alone.\<close>

definition quiet :: "('w taker, 'a) tx \<Rightarrow> 'w taker \<Rightarrow> bool" where
  "quiet m t \<longleftrightarrow> tk_store (fst (m t)) = tk_store t"

lemma quietD: "m t = (t', r) \<Longrightarrow> quiet m t \<Longrightarrow> tk_store t' = tk_store t"
  by (simp add: quiet_def)

lemma quiet_drives: "quiet m t \<Longrightarrow> drives digest m t"
  by (simp add: quiet_def drives_same)

lemma quiet_plain: "quiet (claim_one_shot W) t" "quiet (lift_tx y) t" "quiet (at_gate g) t" "quiet (ret_tx x) t"
  by (simp_all add: quiet_def claim_one_shot_def at_gate_def)

lemma quiet_inputs: "quiet (inputs_are_fresh W f ts tick) t"
  by (simp add: quiet_def inputs_are_fresh_def invalidate_cost_snapshot_def split: sum.split bool.split)

lemma quiet_target: "quiet (claim_close_target plan) t"
  by (cases plan; cases "tl plan") (simp_all add: quiet_def claim_close_target_def)

lemma quiet_executable: "quiet (source_hedge_is_executable W f opp q) t"
  using quiet_target [of _ t]
  by (simp add: quiet_def source_hedge_is_executable_def Let_def split: sum.split)

lemmas quiet_steps = quiet_plain quiet_inputs quiet_executable

lemma quiet_admission:
  assumes "standalone_wiring digest W"
  shows "quiet (case wi_admission W of None \<Rightarrow> ret_tx True | Some admits \<Rightarrow> on_store (admits side q)) t"
  using wiringD(3) [OF assms, of _ side q "tk_store t"]
  by (auto simp: quiet_def on_store_def split: option.splits prod.splits)

lemma quiet_release: "standalone_wiring digest W \<Longrightarrow> quiet (on_store (wi_release W)) t"
  by (auto simp: quiet_def wiringD standalone_release_def on_store_def)

lemma drives_after:
  assumes "quiet m t" "\<And>t' x. tk_store t' = tk_store t \<Longrightarrow> drives digest (f x) t'"
  shows "drives digest (bind_tx m f) t"
  using assms by (intro drives_bind [OF quiet_drives]) (auto dest: quietD)

lemma drives_submit_source:
  assumes w: "standalone_wiring digest W" and f: "fresh_order f t"
  shows "drives digest (submit_source W f opp ts) t"
proof -
  have body: "drives digest (bind_tx (case wi_admission W of None \<Rightarrow> ret_tx True
        | Some admits \<Rightarrow> on_store (admits (side_of_direction (op_direction opp)) q)) (\<lambda>admitted.
      if \<not> admitted then ret_tx False
      else bind_tx (source_hedge_is_executable W f opp q) (\<lambda>executable.
        if \<not> executable then ret_tx False
        else bind_tx (claim_one_shot W) (\<lambda>claimed.
          if \<not> claimed then ret_tx False else place_source_order W f opp q ts)))) t" for q
    by (intro drives_after drives_if drives_pure quiet_admission [OF w] quiet_steps drives_place_source [OF w])
      (simp add: fresh_order_same [OF f])
  show ?thesis
    using body
    by (auto simp: submit_source_def drives_def bind_tx_def lift_tx_def store_runs.none split: sum.splits)
qed

lemma drives_evaluate_market:
  assumes w: "standalone_wiring digest W" and f: "fresh_order f t"
  shows "drives digest (evaluate_market W f reference ts tick accounts hedge) t"
proof -
  have opp: "drives digest (bind_tx (lift_tx y) (\<lambda>opp. case opp of None \<Rightarrow> at_gate g
      | Some opp \<Rightarrow> bind_tx (at_gate g') (\<lambda>_. bind_tx (submit_source W f opp m) (\<lambda>b. at_gate (h b))))) t" for y g g' m h
    by (intro drives_after quiet_steps, split option.split, intro conjI allI impI drives_after drives_bind drives_pure quiet_steps
        drives_submit_source [OF w]) (simp add: fresh_order_same [OF f])
  show ?thesis
  proof (cases "carry_for_hedge_tick W tick (fa_now_ns f) t")
    case (Inr carry)
    show ?thesis
    proof (cases carry)
      case (Some c)
      show ?thesis
        unfolding evaluate_market_def Let_def drives_def Inr Some tx_run(8) option.case
        by (intro if_casesI [where P = "\<lambda>p. store_runs digest (tk_store t) (tk_store (fst p))"]
            drives_pure(5) [unfolded drives_def] opp [unfolded drives_def])
    qed (simp add: evaluate_market_def Inr drives_def Let_def at_gate_def store_runs.none)
  qed (simp add: evaluate_market_def drives_def Let_def at_gate_def store_runs.none)
qed

lemma drives_evaluate:
  assumes w: "standalone_wiring digest W" and f: "fresh_order f t"
  shows "drives digest (evaluate_and_submit W f) t"
proof -
  have market: "drives digest (evaluate_book W f book tick) t" for book tick
    unfolding evaluate_book_def
    by (intro drives_after quiet_steps; split option.split; intro conjI allI impI drives_pure drives_after drives_if quiet_steps;
        split option.split; auto intro!: drives_pure drives_evaluate_market [OF w] simp: fresh_order_same [OF f])
  have r: "bind_tx (on_store (wi_release W)) k t = k False t" for k :: "bool \<Rightarrow> (store taker, unit) tx"
    by (simp add: wiringD [OF w] standalone_release_def on_store_def bind_tx_def)
  note gate = drives_pure(5) [unfolded drives_def]
  show ?thesis
    unfolding evaluate_and_submit_def drives_def r
    by (intro if_casesI [where P = "\<lambda>p. store_runs digest (tk_store t) (tk_store (fst p))"] gate)
      (auto split: option.split intro: gate market [unfolded drives_def])
qed

section \<open>Every callback\<close>

text \<open>
  What a run assumes of its surroundings: the platform's order identities are new, and a source
  fill is one the ledger accepts (on the quantity grid, within the bounds of exact arithmetic, no
  collision of the digest).
\<close>

definition sane_taker :: "(string \<Rightarrow> string) \<Rightarrow> store wiring \<Rightarrow> taker_event \<Rightarrow> store taker \<Rightarrow> bool" where
  "sane_taker digest W e t = (case e of
     BookDeltas f _ \<Rightarrow> fresh_order f t
   | QuoteTick f f' _ \<Rightarrow> fresh_order f' (fst (submit_next_pending_hedge W f t))
   | AccountEvaluation f _ \<Rightarrow> fresh_order f t
   | OrderFilled _ ev \<Rightarrow> of_instrument_id ev = tc_source_instrument_id (wi_config W) \<longrightarrow>
       sane_op digest (tk_store t) (Reserve (fill_key_of ev) (of_client_order_id ev) (of_trade_id ev) BUY (of_last_qty ev))
   | _ \<Rightarrow> True)"

lemma drives_status:
  assumes "standalone_wiring digest W"
  shows "drives digest (update_order_status W b cid acc) t" "drives digest (finish_or_reject W b cid st) t"
    "drives digest (on_order_rejected W b cid reason) t"
proof -
  have f: "drives digest (finish_or_reject W b cid st) t" for b st
    using drives_calls(1) [of digest cid st t] drives_calls(2) [of digest cid REJECTED "Some st" t]
    by (simp add: finish_or_reject_def Let_def wiringD [OF assms] drives_def store_runs.none)
  from f show "drives digest (finish_or_reject W b cid st) t" .
  show "drives digest (update_order_status W b cid acc) t"
    using drives_calls(1) [of digest cid _ t] drives_calls(2) [of digest cid _ None t]
    by (simp add: update_order_status_def Let_def wiringD [OF assms] drives_def store_runs.none)
  show "drives digest (on_order_rejected W b cid reason) t"
    using f [of False "''REJECTED''"] drives_calls(3) [of digest cid _ t]
      drives_calls(2) [of digest cid UNKNOWN None t]
    by (simp add: on_order_rejected_def Let_def wiringD [OF assms] drives_def store_runs.none)
qed

lemma query_store: "tk_store (request_source_terminal_query W b ev out t) = tk_store t"
  by (simp add: request_source_terminal_query_def Let_def split: option.split)

lemma drives_terminated:
  assumes "standalone_wiring digest W"
  shows "drives digest (on_order_terminated W b ev out) t"
  unfolding on_order_terminated_def
  by (intro drives_bind drives_status [OF assms] drives_modify) (simp add: query_store)

lemma drives_answer:
  assumes "standalone_wiring digest W"
  shows "store_runs digest (tk_store t) (tk_store (fst (terminal_callback W b ev g report order t)))"
proof -
  obtain t1 r where c: "on_store (confirm_source_reconciled standalone (te_client_order_id ev)) t = (t1, r)" by fastforce
  have "store_runs digest (tk_store t) (tk_store t1)"
    using drives_calls(4) [of digest "te_client_order_id ev" t] c by (simp add: drives_def)
  with c show ?thesis
    by (auto simp: terminal_callback_def complete_source_terminal_query_def Let_def wiringD [OF assms] store_runs.none
        split: option.split sum.split)
qed

lemma source_drives:
  assumes w: "standalone_wiring digest W" and s: "sane_taker digest W (OrderFilled f ev) t"
    and i: "of_instrument_id ev = tc_source_instrument_id (wi_config W)"
  shows "drives digest (on_store (on_source_filled (wi_store W) (tc_source_instrument_id (wi_config W)) ev)) t"
proof (rule drives_store)
  have r: "store_runs digest (tk_store t) (fst (reserve_source_fill standalone digest (fill_key_of ev)
      (of_client_order_id ev) (of_trade_id ev) side (of_last_qty ev) (tk_store t)))" for side
    using store_runs_op [of digest "tk_store t" "Reserve (fill_key_of ev) (of_client_order_id ev) (of_trade_id ev) side (of_last_qty ev)"]
      s i by (simp add: sane_taker_def sane_op_def)
  then show "store_runs digest (tk_store t)
      (fst (on_source_filled (wi_store W) (tc_source_instrument_id (wi_config W)) ev (tk_store t)))"
    by (cases "of_order_side ev") (simp_all add: on_source_filled_def business_side_of_def wiringD [OF w] store_runs.none)
qed

lemma hedge_drives: "standalone_wiring digest W \<Longrightarrow> drives digest (on_store (on_hedge_filled (wi_store W) ev)) t"
  by (rule drives_store) (simp add: on_hedge_filled_def wiringD store_runs_calls)

lemma drives_filled:
  assumes w: "standalone_wiring digest W" and s: "sane_taker digest W (OrderFilled f ev) t"
  shows "drives digest (on_order_filled W f ev) t"
proof -
  note src = source_drives [OF w s] and hedge = hedge_drives [OF w]
  have a: "drives digest (bind_tx (on_store (on_hedge_filled (wi_store W) ev))
      (\<lambda>applied. if applied then submit_next_pending_hedge W f else ret_tx ())) t"
    by (intro drives_bind hedge drives_if drives_next_hedge [OF w] drives_pure)
  have b: "drives digest (bind_tx (on_store (on_source_filled (wi_store W) (tc_source_instrument_id (wi_config W)) ev))
      (\<lambda>intent. case intent of None \<Rightarrow> ret_tx () | Some _ \<Rightarrow> submit_next_pending_hedge W f)) t"
    if "of_instrument_id ev = tc_source_instrument_id (wi_config W)"
    by (intro drives_bind src that) (auto intro!: drives_next_hedge [OF w] drives_pure split: option.split)
  show ?thesis
    using a b unfolding on_order_filled_def Let_def drives_def
    by (intro if_casesI [where P = "\<lambda>p. store_runs digest (tk_store t) (tk_store (fst p))"]) (auto intro: store_runs.none)
qed

lemma drives_start:
  assumes w: "standalone_wiring digest W"
  shows "drives digest (on_start W sf) t"
proof -
  have sub: "quiet (\<lambda>t. if c \<or> tk_armed t then subscribe_source_book t else (t, Inr ())) u" for c and u :: "store taker"
    by (simp add: quiet_def subscribe_source_book_def)
  have loop: "drives digest (bind_account_loop W) u" for u
    unfolding bind_account_loop_def by (intro drives_if drives_bind drives_pure drives_modify) simp_all
  have rec: "drives digest (on_store (recover_for_start (sb_custody (wi_store W)))) u" for u
    by (rule drives_store) (simp add: wiringD [OF w] store_runs_calls)
  have stop: "drives digest (modify_tx (send q)) u" for q u by (simp add: drives_modify)
  show ?thesis
    unfolding on_start_def
    by (intro drives_bind loop; (split option.split)?; (simp only: prod.case)?)
      (auto intro!: drives_modify drives_bind drives_if drives_pure rec stop quiet_drives [OF sub]
        simp: subscribe_inputs_def Let_def split: option.split)
qed

lemma drives_stop:
  assumes w: "standalone_wiring digest W"
  shows "drives digest (on_stop W sp) t"
proof -
  have u: "store_runs digest (tk_store t) (tk_store (fst (on_store (mark_source_unknown standalone cid reason) u)))"
    if "tk_store u = tk_store t" for cid reason u
    using drives_calls(3) [of digest cid reason u] that by (simp add: drives_def)
  show ?thesis
    by (auto simp: on_stop_def Let_def drives_def wiringD [OF w] store_runs.none intro!: u
        split: option.split bool.split)
qed

lemma drives_drain: "standalone_wiring digest W \<Longrightarrow> drives digest (continue_drain W f) t"
  unfolding continue_drain_def
  by (intro drives_bind drives_next_hedge drives_if drives_pure) (auto intro: quiet_drives quiet_release)

lemma drives_instrument: "drives digest (on_instrument W now ins) t"
  by (auto simp: on_instrument_def drives_def store_runs.none split: sum.split option.split)

lemma drives_arm: "drives digest (arm_one_shot W running) t"
  by (auto simp: arm_one_shot_def drives_def store_runs.none Let_def subscribe_source_book_def)

lemma cost_store: "tk_store (fst (update_cost_snapshot W carry fx ts now t)) = tk_store t"
  by (simp add: update_cost_snapshot_def invalidate_cost_snapshot_def)

lemma run_taker_drives:
  assumes w: "standalone_wiring digest W" and s: "sane_taker digest W e t"
  shows "store_runs digest (tk_store t) (tk_store (run_taker W e t))"
proof (cases e)
  case (QuoteTick f f' i)
  have "drives digest (bind_tx (submit_next_pending_hedge W f) (\<lambda>_. evaluate_and_submit W f')) t"
    by (intro drives_bind drives_next_hedge [OF w] drives_evaluate [OF w])
      (use s QuoteTick in \<open>simp add: sane_taker_def\<close>)
  with QuoteTick show ?thesis by (simp add: on_quote_tick_def drives_def store_runs.none)
next
  case (BookDeltas f i)
  then have "drives digest (evaluate_and_submit W f) (t\<lparr>tk_book_callbacks := tk_book_callbacks t + 1\<rparr>)"
    using s by (intro drives_evaluate [OF w]) (simp add: sane_taker_def fresh_order_def)
  with BookDeltas show ?thesis by (simp add: on_order_book_deltas_def drives_def store_runs.none)
next
  case (AccountEvaluation f g)
  then have "drives digest (evaluate_and_submit W f) (t\<lparr>tk_account_handle := None\<rparr>)"
    using s by (intro drives_evaluate [OF w]) (simp add: sane_taker_def fresh_order_def)
  with AccountEvaluation show ?thesis by (simp add: evaluate_account_update_def drives_def store_runs.none)
next
  case (OrderFilled f ev)
  with drives_filled [OF w, of f ev t] s show ?thesis by (simp add: drives_def)
next
  case (FundingRate i r ts now now')
  then show ?thesis
    by (auto simp: on_funding_rate_def invalidate_cost_snapshot_def cost_store Let_def store_runs.none split: dec.split)
qed (use drives_status [OF w] drives_terminated [OF w] drives_answer [OF w] drives_start [OF w] drives_stop [OF w]
    drives_drain [OF w] drives_instrument drives_arm in
    \<open>simp_all add: drives_def on_instrument_status_def update_hedge_session_def cost_store on_account_update_def
      disarm_one_shot_def begin_drain_def store_runs.none\<close>)

section \<open>Reachable strategies\<close>

text \<open>A restart opens the file again; the requests already handed over stay on the record.\<close>

inductive taker_reachable :: "(string \<Rightarrow> string) \<Rightarrow> store wiring \<Rightarrow> store taker \<Rightarrow> bool" for digest W where
  created: "make_taker W False (open_store None answers) = Inr t \<Longrightarrow> taker_reachable digest W t"
| happened: "taker_reachable digest W t \<Longrightarrow> sane_taker digest W e t \<Longrightarrow> taker_reachable digest W (run_taker W e t)"
| restarted: "taker_reachable digest W t \<Longrightarrow> make_taker W False (open_store (st_file (tk_store t)) answers) = Inr t' \<Longrightarrow>
    taker_reachable digest W (t'\<lparr>tk_sent := tk_sent t\<rparr>)"

lemma make_taker_store: "make_taker W injected w = Inr t \<Longrightarrow> tk_store t = w \<and> tk_sent t = []"
  by (auto simp: make_taker_def Let_def split: if_splits)

lemma taker_store_reachable:
  assumes w: "standalone_wiring digest W"
  shows "taker_reachable digest W t \<Longrightarrow> store_reachable digest (tk_store t)"
proof (induction rule: taker_reachable.induct)
  case (created answers t)
  then show ?case using make_taker_store [OF created] store_reachable.start by simp
next
  case (happened t e)
  then show ?case using store_runs_reachable run_taker_drives [OF w] by blast
next
  case (restarted t answers t')
  then show ?case using make_taker_store [OF restarted(2)] store_reachable.restart by simp
qed

text \<open>C9: the strategy refines its store: every callback acts on the store as a sequence of store operations,
  so the store of any reachable strategy, restarts and failed writes included, is a reachable store,
  and no ounce of its source fills is lost: the balance plus the hedge obligations equals the signed
  fills, in memory and in the file.\<close>

theorem taker_refines_store:
  assumes "standalone_wiring digest W" "taker_reachable digest W t"
  shows "store_reachable digest (tk_store t) \<and>
    (\<forall>e. sane_taker digest W e t \<longrightarrow> store_runs digest (tk_store t) (tk_store (run_taker W e t))) \<and>
    (\<forall>s \<in> on_record (tk_store t). \<bar>ss_net_unhedged_ounces s\<bar> \<le> 1/2 \<and>
      ss_net_unhedged_ounces s + obliged_ounces s = filled_ounces s)"
proof -
  note r = taker_store_reachable [OF assms]
  from reachable_invariant [OF r ledger_empty run_op_ledger] run_taker_drives [OF assms(1)] r
  show ?thesis by (auto simp: ledger_ok_def)
qed

end
