(* ===== verification/Taker_Example.thy ===== *)
theory Taker_Example
  imports Taker_Runs
begin

text \<open>
  One run of the Taker, evaluated: start, (for the one-shot Taker) arm, and one book update that
  signals a short of two ounces. The witnesses of the Taker's theorems are taken from it.
\<close>

definition ex_taker_config :: taker_strategy_config where
  "ex_taker_config = \<lparr>tc_source_instrument_id = ''XAUT'', tc_hedge_instrument_id = ''XAUUSD'',
    tc_source_accounts = [\<lparr>sr_account_id = ''BFX'', sr_max_long_ounces = Fin 5, sr_max_short_ounces = Fin 5,
      sr_client_id = None, sr_base_margin_level = Fin 0\<rparr>],
    tc_hedge_account_id = ''MT5'', tc_hedge_max_long_ounces = 5, tc_hedge_max_short_ounces = 5,
    tc_economics = ex_taker, tc_hedge_client_id = None, tc_max_quote_age_ns = 5000, tc_max_cross_leg_skew_ns = 2000,
    tc_max_cost_age_ns = 5000, tc_max_session_age_ns = 5000, tc_initial_cost_ts_ns = 990,
    tc_initial_hedge_session_open = True, tc_initial_session_ts_ns = 990\<rparr>"

definition ex_wiring :: "bool \<Rightarrow> store wiring" where
  "ex_wiring one_shot = \<lparr>wi_config = ex_taker_config, wi_store = standalone_object id, wi_release = standalone_release,
    wi_admission = None, wi_live_costs = False, wi_one_shot = one_shot, wi_allowed_direction = None,
    wi_must_reduce_only = False, wi_terminal_query = True, wi_account_reader = False, wi_zone = ex_zone,
    wi_trader_id = ''T'', wi_strategy_id = ''S''\<rparr>"

definition ex_facts :: "string \<Rightarrow> facts" where
  "ex_facts cid = \<lparr>fa_now_ns = 1000, fa_restart_blocked = False,
    fa_source_book = Some \<lparr>ob_bids = [(2000, [3, 4])], ob_asks = [(2001, [10])], ob_ts_last = 999\<rparr>,
    fa_hedge_tick = Some \<lparr>qt_bid_price = 1000, qt_ask_price = 1000, qt_bid_size = 10, qt_ask_size = 10, qt_ts_event = 998\<rparr>,
    fa_account_view = (\<lambda>_ _ _ _. None), fa_net_position = (\<lambda>_ _. 0), fa_hedge_positions = [],
    fa_submission_ready = None, fa_quantity_ready = None, fa_netting_position = None, fa_make_source_qty = Inr,
    fa_make_price = Inr, fa_make_hedge_qty = Inr, fa_fresh_order_id = cid, fa_submission = None\<rparr>"

definition ex_start :: start_facts where
  "ex_start = \<lparr>sf_source_instrument = Some (ex_instrument 5 1), sf_hedge_instrument = Some (ex_instrument 5 1), sf_now_ns = 1000\<rparr>"

definition ex_created :: "bool \<Rightarrow> store taker" where
  "ex_created one_shot = (case make_taker (ex_wiring one_shot) False (open_store None []) of Inr t \<Rightarrow> t | Inl _ \<Rightarrow> undefined)"


lemma recover_idle: "recover_for_start standalone (open_store None []) = (open_store None [], Inr None)"
  by (simp add: recover_for_start_def open_store_def standalone_simps unresolved_intents_def empty_state_def state_intents_def)


lemma ex_wiring_simps [simp]:
  "wi_config (ex_wiring b) = ex_taker_config" "wi_store (ex_wiring b) = standalone_object id"
  "wi_release (ex_wiring b) = standalone_release" "wi_admission (ex_wiring b) = None" "\<not> wi_live_costs (ex_wiring b)"
  "wi_one_shot (ex_wiring b) = b" "wi_allowed_direction (ex_wiring b) = None" "\<not> wi_must_reduce_only (ex_wiring b)"
  "\<not> wi_account_reader (ex_wiring b)"
  by (simp_all add: ex_wiring_def)

lemma ex_wiring_standalone: "standalone_wiring id (ex_wiring b)"
  by (simp add: standalone_wiring_def)

lemma standalone_release_run [simp]: "standalone_release w = (w, Inr False)"
  by (simp add: standalone_release_def)

definition ex_top where "ex_top = \<lparr>bt_bid = 2000, bt_ask = 2001, bt_bid_size = 7, bt_ask_size = 10\<rparr>"
definition ex_hedge_top where "ex_hedge_top = \<lparr>bt_bid = 1000, bt_ask = 1000, bt_bid_size = 10, bt_ask_size = 10\<rparr>"
definition ex_route_account where "ex_route_account = \<lparr>sa_account_id = ''BFX'', sa_client_id = None, sa_position_ounces = 0,
  sa_max_long_ounces = 5, sa_max_short_ounces = 5, sa_base_margin_level = 0\<rparr>"
definition ex_flat_hedge where "ex_flat_hedge = \<lparr>ha_position_ounces = 0, ha_max_long_ounces = 5, ha_max_short_ounces = 5\<rparr>"
definition ex_signal where "ex_signal = \<lparr>op_direction = SHORT, op_source_account = ex_route_account, op_source_price_usdt = 2000,
  op_hedge_reference_price_usd = 1000, op_source_quantity_ounces = 2, op_net_return = 1, op_leverage = 20\<rparr>"

lemma ex_allowed: "risk_allows ex_signal ex_flat_hedge ex_taker"
  by (simp add: risk_allows_def ex_signal_def ex_route_account_def ex_flat_hedge_def ex_taker_def ex_risk_def Let_def
    dadd_def dsub_def dmul_def dabs_def rnd28_exact)

lemma ex_opportunity: "evaluate_taker ex_top ex_hedge_top [ex_route_account] ex_flat_hedge ex_taker None (Some ex_carry) (Some (te_fx ex_taker)) = Inr (Some ex_signal)"
  using ex_allowed
  by (simp add: evaluate_taker_def validate_book_def require_positive_def short_net_return_def long_net_return_def Let_def short_candidate_def
   select_source_account_def expected_leverage_def ex_taker_def ex_carry_def dquot_def dmul_def dsub_def dadd_def rnd28_exact bindE_def
   ex_top_def ex_hedge_top_def ex_route_account_def ex_flat_hedge_def dfloordiv_def ex_signal_def)

lemma ex_plan: "round_hedge_ounces 2 = 2" "plan_hedge_delta [] BUY (Fin 2) = Inr [\<lparr>leg_side = BUY, leg_quantity_ounces = 2, leg_position_id = None,
  leg_expected_position_side = None, leg_expected_position_quantity_ounces = None\<rparr>]"
   apply (simp add: round_hedge_ounces_def round_float_eq_rhe)
  apply (simp add: plan_hedge_delta_def make_open_leg)
  done
lemma ex_reference: "reference_book \<lparr>ob_bids = [(2000, [3, 4])], ob_asks = [(2001, [10])], ob_ts_last = 999\<rparr> 1 = Inr (Some ex_top)"
  by (simp add: reference_book_def ex_top_def dadd_def rnd28_exact)

definition ex_record :: source_order_record where
  "ex_record = \<lparr>so_client_order_id = ''s1'', so_side = SELL, so_quantity_ounces = 2, so_source_account_id = Some ''BFX'',
    so_source_client_id = None, so_hedge_account_id = Some ''MT5'', so_hedge_client_id = None, so_hedge_position_id = None,
    so_hedge_position_quantity_ounces = None, so_filled_ounces = 0, so_status = ''SUBMITTING''\<rparr>"

definition ex_source_request :: source_request where
  "ex_source_request = \<lparr>sq_client_order_id = ''s1'', sq_side = SELL, sq_quantity = 2, sq_price = 2000, sq_reduce_only = False,
    sq_client_id = None, sq_leverage = 20\<rparr>"

definition ex_file :: "string option \<Rightarrow> store" where
  "ex_file fr = (let s = empty_state\<lparr>ss_source_orders := [(''s1'', ex_record)], ss_active_source_order_id := Some ''s1'',
       ss_source_freeze_reason := fr\<rparr> in \<lparr>st_view = \<lparr>vw_state = s, vw_log = []\<rparr>, st_file = Some s, st_answers = []\<rparr>)"

lemma ex_begin: "begin_source standalone ''s1'' SELL 2 \<lparr>rt_source_account_id = Some ''BFX'', rt_source_client_id = None,
   rt_hedge_account_id = Some ''MT5'', rt_hedge_client_id = None, rt_hedge_position_id = None, rt_hedge_position_quantity_ounces = None\<rparr> fr
   (open_store None []) = (ex_file fr, Inr ())"
  if "fr \<noteq> Some []"
  using that by (simp add: begin_source_def can_submit_source_def open_store_def standalone_def new_source_record_def
      outstanding_ounces_def state_intents_def all_completed_def empty_state_def ex_record_def
      on_view_def update_state_def persist_well set_order_def bind_tx_def modify_tx_def Let_def ex_file_def)

lemma ex_idle: "can_submit_source standalone (open_store None [])"
  by (simp add: can_submit_source_def open_store_def standalone_def
      outstanding_ounces_def state_intents_def all_completed_def empty_state_def)


lemma ex_submit:
  assumes "tk_store t = open_store None []" "\<not> tk_draining t" "tk_source_instrument t \<noteq> None" "tk_hedge_position_id t = None"
    "tk_armed t = b" "\<not> tk_claimed t" "\<not> tk_closed t"
  shows "submit_source (ex_wiring b) (ex_facts ''s1'') ex_signal (Some 999) t =
    (t\<lparr>tk_store := ex_file (if b then Some one_shot_freeze_reason else None), tk_armed := False, tk_claimed := b, tk_closed := b,
       tk_last_attempt_ts := Some 999, tk_sent := tk_sent t @ [SendSource ex_source_request]\<rparr>, Inr True)"
  using assms ex_plan ex_begin [of None] ex_begin [of "Some one_shot_freeze_reason"]
  by (simp add: submit_source_def ex_facts_def ex_signal_def bind_tx_def source_hedge_is_executable_def legs_admitted_def
    claim_one_shot_def place_source_order_def submit_source_order_def on_store_def taker_route_def ex_route_account_def ex_taker_config_def
    side_of_direction_def source_reduce_only_def send_def ex_source_request_def Let_def modify_tx_def ret_tx_def lift_tx_def
    one_shot_freeze_reason_def)

definition ex_ready :: "bool \<Rightarrow> store taker" where
  "ex_ready b = fold (run_taker (ex_wiring b)) (Start ex_start # (if b then [Arm True] else [])) (ex_created b)"

lemma ex_created_eq: "make_taker (ex_wiring b) False (open_store None []) = Inr (ex_created b)"
  by (simp add: ex_created_def make_taker_def Let_def)

lemma ex_ready_eq: "ex_ready b = (ex_created b)\<lparr>tk_source_instrument := Some (ex_instrument 5 1),
    tk_hedge_instrument := Some (ex_instrument 5 1), tk_armed := b, tk_book_subscribed := True,
    tk_gate := (if b then ''awaiting_source_book'' else ''not_started''),
    tk_sent := (if b then [Subscribe HedgeQuoteFeed, Subscribe HedgeStatusFeed, Subscribe SourceBookFeed]
      else [Subscribe SourceBookFeed, Subscribe HedgeQuoteFeed, Subscribe HedgeStatusFeed])\<rparr>"
  by (simp add: ex_ready_def on_start_def bind_account_loop_def ex_start_def bind_tx_def on_store_def recover_idle
    subscribe_source_book_def subscribe_inputs_def send_def ex_created_def make_taker_def Let_def arm_one_shot_def ex_idle
    modify_tx_def) (simp add: open_store_def standalone_simps empty_state_def)

definition ex_claimed :: "bool \<Rightarrow> store taker" where
  "ex_claimed b = run_taker (ex_wiring b) (BookDeltas (ex_facts ''s1'') ''XAUT'') (ex_ready b)"

lemma ex_taker_parts: "te_base_book_quantity ex_taker = 1" "te_carry ex_taker = ex_carry"
  by (simp_all add: ex_taker_def)

lemma ex_quote: "book_top_of \<lparr>qt_bid_price = 1000, qt_ask_price = 1000, qt_bid_size = 10, qt_ask_size = 10, qt_ts_event = 998\<rparr> = ex_hedge_top"
  by (simp add: book_top_of_def ex_hedge_top_def)

lemma ex_created_run: "tk_store (ex_created b) = open_store None []" "\<not> tk_draining (ex_created b)"
  "tk_hedge_position_id (ex_created b) = None" "\<not> tk_claimed (ex_created b)" "\<not> tk_closed (ex_created b)"
  "tk_carry (ex_created b) = ex_carry" "tk_fx (ex_created b) = te_fx ex_taker" "tk_cost_ts (ex_created b) = 990"
  "tk_cost_valid (ex_created b)" "tk_session_open (ex_created b)" "tk_session_ts (ex_created b) = 990"
  "tk_last_attempt_ts (ex_created b) = None" "tk_book_callbacks (ex_created b) = 0" "tk_sent (ex_created b) = []"
  by (simp_all add: ex_created_def make_taker_def Let_def ex_taker_config_def ex_taker_parts)

lemma ex_accounts: "source_accounts_of (ex_wiring b) (ex_facts cid) = Inr [ex_route_account]"
  "hedge_account_of (ex_wiring b) (ex_facts cid) = ex_flat_hedge"
  by (simp_all add: source_accounts_of_def hedge_account_of_def ex_taker_config_def ex_facts_def finite_decimal_def
      ex_route_account_def ex_flat_hedge_def)

lemma ex_market:
  assumes "tk_carry t = ex_carry" "tk_fx t = te_fx ex_taker" "tk_last_attempt_ts t = None"
  shows "evaluate_market (ex_wiring b) (ex_facts ''s1'') ex_top 999
      \<lparr>qt_bid_price = 1000, qt_ask_price = 1000, qt_bid_size = 10, qt_ask_size = 10, qt_ts_event = 998\<rparr>
      [ex_route_account] ex_flat_hedge t =
    bind_tx (submit_source (ex_wiring b) (ex_facts ''s1'') ex_signal (Some 999))
      (\<lambda>submitted. at_gate (if submitted then ''source_claimed'' else ''source_admission_blocked''))
      (t\<lparr>tk_gate := ''source_admission''\<rparr>)"
  using assms ex_opportunity
  by (simp add: evaluate_market_def carry_for_hedge_tick_def ex_quote ex_taker_config_def at_gate_def)

lemma ex_fresh: "tk_cost_valid t \<Longrightarrow> tk_cost_ts t = 990 \<Longrightarrow> tk_session_open t \<Longrightarrow> tk_session_ts t = 990 \<Longrightarrow>
    tk_armed t = b \<Longrightarrow> \<not> tk_claimed t \<Longrightarrow> inputs_are_fresh (ex_wiring b) (ex_facts cid) 999
      \<lparr>qt_bid_price = 1000, qt_ask_price = 1000, qt_bid_size = 10, qt_ask_size = 10, qt_ts_event = 998\<rparr> t = (t, Inr True)"
  by (simp add: inputs_are_fresh_def hedge_costs_usable_def market_is_fresh_def market_inputs_are_fresh_def
      MAX_OBSERVATION_FUTURE_NS_def ex_facts_def ex_taker_config_def)

lemma ex_evaluate:
  assumes "tk_store t = open_store None []" "\<not> tk_draining t" "tk_source_instrument t \<noteq> None" "tk_hedge_position_id t = None"
    "tk_armed t = b" "\<not> tk_claimed t" "\<not> tk_closed t" "tk_carry t = ex_carry" "tk_fx t = te_fx ex_taker"
    "tk_last_attempt_ts t = None" "tk_cost_valid t" "tk_cost_ts t = 990" "tk_session_open t" "tk_session_ts t = 990"
  shows "evaluate_and_submit (ex_wiring b) (ex_facts ''s1'') t =
    (t\<lparr>tk_gate := ''source_claimed'', tk_store := ex_file (if b then Some one_shot_freeze_reason else None), tk_armed := False,
       tk_claimed := b, tk_closed := b, tk_last_attempt_ts := Some 999,
       tk_sent := tk_sent t @ [SendSource ex_source_request]\<rparr>, Inr ())"
proof -
  have f: "fa_source_book (ex_facts ''s1'') = Some \<lparr>ob_bids = [(2000, [3, 4])], ob_asks = [(2001, [10])], ob_ts_last = 999\<rparr>"
    "fa_hedge_tick (ex_facts ''s1'') = Some \<lparr>qt_bid_price = 1000, qt_ask_price = 1000, qt_bid_size = 10, qt_ask_size = 10, qt_ts_event = 998\<rparr>"
    "\<not> fa_restart_blocked (ex_facts ''s1'')" by (simp_all add: ex_facts_def)
  have c: "te_base_book_quantity (tc_economics ex_taker_config) = 1" by (simp add: ex_taker_config_def ex_taker_parts)
  have fresh: "inputs_are_fresh (ex_wiring b) (ex_facts ''s1'') 999
      \<lparr>qt_bid_price = 1000, qt_ask_price = 1000, qt_bid_size = 10, qt_ask_size = 10, qt_ts_event = 998\<rparr> t = (t, Inr True)"
    by (rule ex_fresh) (use assms in simp_all)
  have submit: "submit_source (ex_wiring b) (ex_facts ''s1'') ex_signal (Some 999) (t\<lparr>tk_gate := ''source_admission''\<rparr>) =
      (t\<lparr>tk_gate := ''source_admission'', tk_store := ex_file (if b then Some one_shot_freeze_reason else None),
        tk_armed := False, tk_claimed := b, tk_closed := b, tk_last_attempt_ts := Some 999,
        tk_sent := tk_sent t @ [SendSource ex_source_request]\<rparr>, Inr True)"
    by (subst ex_submit) (use assms in simp_all)
  show ?thesis
    using assms fresh ex_idle submit
    by (simp add: evaluate_and_submit_def evaluate_book_def on_store_def bind_tx_def f c ex_reference current_accounts_def ex_accounts
        ex_market at_gate_def)
qed

lemma ex_claimed_eq: "ex_claimed b = (ex_ready b)\<lparr>tk_book_callbacks := 1, tk_gate := ''source_claimed'',
    tk_store := ex_file (if b then Some one_shot_freeze_reason else None), tk_armed := False, tk_claimed := b, tk_closed := b,
    tk_last_attempt_ts := Some 999, tk_sent := tk_sent (ex_ready b) @ [SendSource ex_source_request]\<rparr>"
proof -
  let ?t = "(ex_ready b)\<lparr>tk_book_callbacks := 1\<rparr>"
  have "tk_source_instrument ?t \<noteq> None" "tk_armed ?t = b" by (simp_all add: ex_ready_eq)
  then have "evaluate_and_submit (ex_wiring b) (ex_facts ''s1'') ?t = (?t\<lparr>tk_gate := ''source_claimed'',
      tk_store := ex_file (if b then Some one_shot_freeze_reason else None), tk_armed := False,
      tk_claimed := b, tk_closed := b, tk_last_attempt_ts := Some 999,
      tk_sent := tk_sent ?t @ [SendSource ex_source_request]\<rparr>, Inr ())"
    by (intro ex_evaluate) (simp_all add: ex_ready_eq ex_created_run)
  then show ?thesis
    by (simp add: ex_claimed_def on_order_book_deltas_def ex_taker_config_def ex_ready_eq ex_created_run)
qed

lemma ex_ready_reachable: "taker_reachable id (ex_wiring b) (ex_ready b)"
  using taker_reachable.created [OF ex_created_eq [of b], of id] unfolding ex_ready_def
  by (cases b) (simp_all add: taker_reachable.happened sane_taker_def del: run_taker.simps)

lemma ex_claimed_reachable: "taker_reachable id (ex_wiring b) (ex_claimed b)"
  unfolding ex_claimed_def
  by (intro taker_reachable.happened ex_ready_reachable)
    (simp add: sane_taker_def fresh_order_def ex_ready_eq ex_created_run open_store_def standalone_simps empty_state_def)

end
