(* ===== verification/Store_Lasting.thy ===== *)
theory Store_Lasting
  imports Store_Runs
begin

text \<open>
  Facts of the store that last: an order, once recorded, keeps its side and quantity, and an order
  identity bound to a hedge obligation stays in its history, through every operation, write failure
  and restart. Both are instances of one interface, a fact that no update of the store breaks.
\<close>

section \<open>Facts no update breaks\<close>

locale lasting_fact =
  fixes I :: "store_state \<Rightarrow> bool" and good_order :: "string \<Rightarrow> source_order_record \<Rightarrow> bool"
    and good_intent :: "hedge_intent \<Rightarrow> bool"
  assumes only_orders_and_intents:
      "ss_source_orders t = ss_source_orders s \<Longrightarrow> ss_hedge_intents t = ss_hedge_intents s \<Longrightarrow> I s \<Longrightarrow> I t"
    and put_order: "I s \<Longrightarrow> good_order k r \<Longrightarrow> I (set_order k r s)"
    and put_intent_ok: "I s \<Longrightarrow> good_intent i \<Longrightarrow> I (s\<lparr>ss_hedge_intents := dict_set (hi_intent_id i) i (ss_hedge_intents s)\<rparr>)"
    and order_in: "I s \<Longrightarrow> dict_get (ss_source_orders s) k = Some r \<Longrightarrow> good_order k r"
    and intent_in: "I s \<Longrightarrow> keyed s \<Longrightarrow> i \<in> set (state_intents s) \<Longrightarrow> good_intent i"
    and order_update: "good_order k r \<Longrightarrow> good_order k (r\<lparr>so_filled_ounces := f, so_status := st\<rparr>)"
    and intent_update: "good_intent i \<Longrightarrow> hi_intent_id i' = hi_intent_id i \<Longrightarrow>
      set (hi_hedge_order_ids i) \<subseteq> set (hi_hedge_order_ids i') \<Longrightarrow> good_intent i'"
begin

lemma plain_updates [simp]:
  "I (s\<lparr>ss_halt_reason := h\<rparr>) \<longleftrightarrow> I s" "I (s\<lparr>ss_source_freeze_reason := fr\<rparr>) \<longleftrightarrow> I s"
  "I (s\<lparr>ss_active_source_order_id := a\<rparr>) \<longleftrightarrow> I s" "I (s\<lparr>ss_seen_hedge_fills := k\<rparr>) \<longleftrightarrow> I s"
  "I (s\<lparr>ss_seen_source_fills := k\<rparr>) \<longleftrightarrow> I s" "I (s\<lparr>ss_net_unhedged_ounces := x\<rparr>) \<longleftrightarrow> I s" "I (set_halt h s) \<longleftrightarrow> I s"
  by (auto simp: set_halt_def intro: only_orders_and_intents [rotated 2])

lemma status_update: "good_order k r \<Longrightarrow> good_order k (r\<lparr>so_status := st\<rparr>)"
  using order_update [where k = k and r = r and f = "so_filled_ounces r" and st = st] by simp

lemma stays_put: "good_intent i \<Longrightarrow> stays I (put_intent i)"
  unfolding put_intent_def by (intro keeps_check ledger_rules) (simp add: put_intent_ok)

lemma stays_hold_rejected:
  assumes "good_intent i"
  shows "stays I (hold_rejected_attempt i cid evidence)"
proof -
  have g: "good_intent (i\<lparr>hi_status := BLOCKED\<rparr>)" using intent_update [OF assms] by simp
  have "stays I (\<lambda>v. bind_tx (update_state (\<lambda>t. set_halt (Some r)
      (t\<lparr>ss_hedge_intents := dict_set (hi_intent_id i) (i\<lparr>hi_status := BLOCKED\<rparr>) (ss_hedge_intents t)\<rparr>)))
      (\<lambda>_. ret_tx (c v)) v)" for r and c :: "view \<Rightarrow> bool"
    using put_intent_ok [OF _ g] by (simp add: stays_def update_state_def)
  then show ?thesis unfolding hold_rejected_attempt_def Let_def by (intro keeps_check ledger_rules)
qed

lemma stays_fills:
  assumes "good_intent i"
  shows "stays I (hold_hedge_fill i cid f None)" "stays I (fill_planned_leg i cid f)" "stays I (fill_unplanned i f)"
  unfolding hold_hedge_fill_def fill_planned_leg_def fill_unplanned_def Let_def option.case
  by (intro ledger_rules stays_put intent_update [OF assms]; simp)+

lemma stays_mark_source: "stays I mark_source_in_flight"
proof -
  have "I s \<Longrightarrow> dict_get (ss_source_orders s) a = Some r \<Longrightarrow> I (set_order a (r\<lparr>so_status := st\<rparr>) s)" for s a r st
    using put_order order_in status_update by blast
  then show ?thesis
    by (auto simp: stays_def mark_source_in_flight_def update_state_def dict_index_def bind_tx_def modify_tx_def
        split: option.splits sum.splits)
qed

lemma stays_mark_hedges:
  assumes "\<And>i. i \<in> set u \<Longrightarrow> good_intent i"
  shows "stays I (mark_hedges_in_flight u)"
proof -
  have "i \<in> set u \<Longrightarrow> good_intent (i\<lparr>hi_status := st\<rparr>)" for i st using intent_update [OF assms, of i] by simp
  then show ?thesis unfolding mark_hedges_in_flight_def by (intro ledger_rules stays_put) auto
qed

end

section \<open>The operations of a store that carries the fact\<close>

text \<open>
  \<open>J\<close> is the fact as the whole store carries it: in the view, and wherever a failed write may restore the
  view from. What the three primitives of a store keep, every operation keeps.
\<close>

definition kept :: "('w \<Rightarrow> bool) \<Rightarrow> ('w, 'b) tx \<Rightarrow> bool" where
  "kept J m \<longleftrightarrow> (\<forall>w. J w \<longrightarrow> J (fst (m w)))"

lemma kept_apply: "kept J m \<Longrightarrow> J w \<Longrightarrow> J (fst (m w))"
  by (simp add: kept_def)

lemma kept_bind: "kept J m \<Longrightarrow> (\<And>x. kept J (f x)) \<Longrightarrow> kept J (bind_tx m f)"
  unfolding kept_def by (intro allI impI bind_tx_preserves [where P = J]) auto

lemma kept_pure: "kept J (ret_tx x)" "kept J (raise_tx e)" "kept J (lift_tx y)" "kept J (\<lambda>w. (w, r w))"
  by (simp_all add: kept_def)

lemma kept_if: "(b \<Longrightarrow> kept J m) \<Longrightarrow> (\<not> b \<Longrightarrow> kept J m') \<Longrightarrow> kept J (if b then m else m')"
  by simp

lemma kept_read: "(\<And>u. kept J (m u)) \<Longrightarrow> kept J (\<lambda>w. m (h w) w)"
  by (simp add: kept_def)

lemma kept_branch: "kept J m \<Longrightarrow> kept J m' \<Longrightarrow> kept J (\<lambda>w. if d w then m w else m' w)"
  by (simp add: kept_def)

locale lasting_custody = lasting_fact I good_order good_intent
  for I :: "store_state \<Rightarrow> bool" and good_order :: "string \<Rightarrow> source_order_record \<Rightarrow> bool"
    and good_intent :: "hedge_intent \<Rightarrow> bool" +
  fixes cu :: "'w custody" and J :: "'w \<Rightarrow> bool"
  assumes fact: "J w \<Longrightarrow> I (cu_state cu w)"
    and set_view: "J w \<Longrightarrow> I (vw_state v) \<Longrightarrow> J (cu_set_view cu v w)"
    and persists: "J w \<Longrightarrow> J (fst (cu_persist cu w))"
    and allocates: "cu_allocate cu rec key f w = (n, w') \<Longrightarrow> J w \<Longrightarrow> J w'"
begin

lemmas keep = kept_apply [where J = J]

lemma kept_persist: "kept J (cu_persist cu)"
  by (simp add: kept_def persists)

lemma kept_on_view: "stays I m \<Longrightarrow> kept J (on_view cu m)"
  unfolding kept_def
proof (intro allI impI)
  fix w assume m: "stays I m" and j: "J w"
  have "I (vw_state (fst (m (cu_view cu w))))" by (rule stays_apply [OF m fact [OF j]])
  then show "J (fst (on_view cu m w))" by (auto simp: on_view_def intro: set_view [OF j] split: prod.split)
qed

lemma kept_upd: "J w \<Longrightarrow> I (f (cu_state cu w)) \<Longrightarrow> J (upd_state cu f w)"
  unfolding upd_state_def by (rule set_view) simp_all

lemma rolled_back:
  assumes "J (fst (m w))" "I previous"
  shows "J (fst (rolling_back cu previous m w))"
proof -
  obtain w1 r where m: "m w = (w1, r)" by fastforce
  have "J (fst (bind_tx (on_view cu (update_state (\<lambda>_. previous))) (\<lambda>_. raise_tx e) w1))" for e
    using assms m by (intro keep [of "bind_tx (on_view cu (update_state (\<lambda>_. previous))) (\<lambda>_. raise_tx e)"]
        kept_bind kept_pure kept_on_view ledger_rules) simp_all
  with assms m show ?thesis by (cases r) (simp_all add: rolling_back_def)
qed

lemma kept_rolling_back: "kept J m \<Longrightarrow> I previous \<Longrightarrow> kept J (rolling_back cu previous m)"
  by (simp add: kept_def rolled_back)

lemmas kept_rules = kept_bind kept_pure kept_persist kept_if kept_on_view kept_rolling_back

lemma lasts_source_ops:
  assumes j: "J w"
  shows "J (fst (freeze_source_submissions cu reason w))" "J (fst (clear_source_freeze cu w))"
    "J (fst (update_source_status cu cid status w))" "J (fst (confirm_source_reconciled cu cid w))"
    "J (fst (mark_source_unknown cu cid reason w))"
proof -
  let ?P = "\<lambda>p. J (fst p)"
  note ap = keep [OF _ j] and i = fact [OF j]
  show "?P (freeze_source_submissions cu reason w)"
    unfolding freeze_source_submissions_def
    by (rule ap, intro kept_rules kept_branch ledger_rules) simp_all
  show "?P (clear_source_freeze cu w)"
    unfolding clear_source_freeze_def
    by (rule ap, intro kept_rules kept_branch ledger_rules) simp_all
  show "?P (update_source_status cu cid status w)"
  proof (cases "dict_get (ss_source_orders (cu_state cu w)) cid")
    case (Some r)
    note g = status_update [OF order_in [OF i Some]]
    show ?thesis unfolding update_source_status_def Some option.case
      by (rule ap, intro kept_rules ledger_rules) (auto simp: put_order g)
  qed (simp add: update_source_status_def j)
  show "?P (confirm_source_reconciled cu cid w)"
    unfolding confirm_source_reconciled_def Let_def
    by (intro if_casesI [where P = ?P] ap kept_rules ledger_rules) (simp_all add: j i)
  show "?P (mark_source_unknown cu cid reason w)"
    unfolding mark_source_unknown_def
    by (rule ap, intro kept_rules ledger_rules)
      (auto split: option.splits intro: put_order status_update order_in)
qed

lemma lasts_hedge_ops:
  assumes j: "J w" and k: "keyed (cu_state cu w)"
  shows "J (fst (bind_hedge_order cu iid cid w))" "J (fst (bind_hedge_plan cu iid plan w))"
    "J (fst (block_hedge_intent cu iid reason w))" "J (fst (update_hedge_status cu cid status native w))"
    "J (fst (apply_hedge_fill cu cid trade f w))"
proof -
  let ?P = "\<lambda>p. J (fst p)"
  note ap = keep [OF _ j] and i = fact [OF j]
  have good: "good_intent i" "hi_intent_id i = iid" if "dict_get (ss_hedge_intents (cu_state cu w)) iid = Some i" for i
    using keyed_index [OF k that] intent_in [OF i k] by auto
  have put: "I t \<Longrightarrow> I (t\<lparr>ss_hedge_intents := dict_set iid i' (ss_hedge_intents t)\<rparr>)"
    if "dict_get (ss_hedge_intents (cu_state cu w)) iid = Some i" "hi_intent_id i' = iid"
      "set (hi_hedge_order_ids i) \<subseteq> set (hi_hedge_order_ids i')" for i i' t
    using put_intent_ok [of t i'] intent_update [OF good(1) [OF that(1)], of i'] good(2) [OF that(1)] that(2,3) by simp
  show "?P (bind_hedge_order cu iid cid w)"
  proof (cases "dict_get (ss_hedge_intents (cu_state cu w)) iid")
    case (Some i)
    show ?thesis unfolding bind_hedge_order_def
      by (simp only: dict_index_def Some option.case tx_run, intro if_casesI [where P = ?P], simp add: j,
          rule ap, intro kept_rules keeps_check ledger_rules) (auto intro: put [OF Some] simp: good(2) [OF Some])
  qed (simp add: bind_hedge_order_def dict_index_def j)
  show "?P (bind_hedge_plan cu iid plan w)"
  proof (cases "dict_get (ss_hedge_intents (cu_state cu w)) iid")
    case (Some i)
    show ?thesis unfolding bind_hedge_plan_def
      by (simp only: dict_index_def Some option.case tx_run, rule ap,
          intro kept_rules keeps_check ledger_rules) (auto intro: put [OF Some] simp: good(2) [OF Some])
  qed (simp add: bind_hedge_plan_def dict_index_def j)
  show "?P (block_hedge_intent cu iid reason w)"
  proof (cases "dict_get (ss_hedge_intents (cu_state cu w)) iid")
    case (Some i)
    show ?thesis unfolding block_hedge_intent_def
      by (simp only: dict_index_def Some option.case tx_run, rule ap,
          intro kept_rules ledger_rules keeps_check) (auto intro: put [OF Some] simp: good(2) [OF Some])
  qed (simp add: block_hedge_intent_def dict_index_def j)
  show "?P (update_hedge_status cu cid status native w)"
  proof (cases "intent_for_hedge_order (cu_state cu w) cid")
    case (Some h)
    note g = intent_in [OF i k intent_for_hedge_order_in [OF Some]]
    show ?thesis unfolding update_hedge_status_def Some option.case
      by (intro if_casesI [where P = ?P] ap kept_rules stays_hold_rejected g stays_put
          ledger_rules) (simp_all add: j intent_update [OF g])
  qed (simp add: update_hedge_status_def j)
  have v: "J (fst (on_view cu (apply_hedge_fill_step cid trade f None) w))"
  proof (cases "intent_for_hedge_order (cu_state cu w) cid")
    case (Some h)
    note g = intent_in [OF i k intent_for_hedge_order_in [OF Some]]
    have "I (vw_state (fst (apply_hedge_fill_step cid trade f None (cu_view cu w))))"
      using i unfolding apply_hedge_fill_step_def Let_def Some
      by (simp add: stays_apply [OF stays_hold_rejected [OF g]] stays_apply [OF stays_fills(1) [OF g]]
          stays_apply [OF stays_fills(2) [OF g]] stays_apply [OF stays_fills(3) [OF g]] update_state_def)
    then show ?thesis using j
      by (cases "apply_hedge_fill_step cid trade f None (cu_view cu w)") (simp add: on_view_def set_view)
  next
    case None
    then show ?thesis using i j by (simp add: on_view_def apply_hedge_fill_step_def Let_def set_view)
  qed
  have "?P (bind_tx (on_view cu (apply_hedge_fill_step cid trade f None)) (\<lambda>changed.
         if changed then bind_tx (cu_persist cu) (\<lambda>_. ret_tx changed) else ret_tx changed) w)"
    unfolding bind_tx_fst
    using v by (auto split: prod.splits sum.splits intro!: keep kept_rules)
  then have "?P (rolling_back cu (cu_state cu w) (bind_tx (on_view cu (apply_hedge_fill_step cid trade f None)) (\<lambda>changed.
         if changed then bind_tx (cu_persist cu) (\<lambda>_. ret_tx changed) else ret_tx changed)) w)"
    using i by (rule rolled_back)
  then show "?P (apply_hedge_fill cu cid trade f w)" by (simp add: apply_hedge_fill_def j)
qed

lemma lasts_recover:
  assumes j: "J w" and k: "keyed (cu_state cu w)"
  shows "J (fst (recover_for_start cu w))"
proof -
  let ?u = "unresolved_intents (cu_state cu w)"
  have hed: "stays I (mark_hedges_in_flight ?u)"
    by (rule stays_mark_hedges) (auto simp: unresolved_intents_def intro: intent_in [OF fact [OF j] k])
  have pub: "kept J (publish_recovery cu nh)" for nh
    unfolding kept_def
  proof (intro allI impI)
    fix t assume "J t"
    then have p: "J (fst (cu_persist cu t))" by (rule persists)
    have log: "kept J (on_view cu (if b then call_back c else ret_tx ()))" for b c
      by (intro kept_on_view) (simp add: stays_def call_back_def modify_tx_def)
    have opt: "kept J (bind_tx (on_view cu (case x of None \<Rightarrow> ret_tx () | Some y \<Rightarrow> if nh then call_back (RecordHalt y) else ret_tx ()))
        (\<lambda>_ w. (w, Inr (h w))))" for x and h :: "'w \<Rightarrow> string option"
      by (intro kept_bind kept_pure; cases x; simp add: log kept_on_view stays_def)
    obtain t1 r where t1: "cu_persist cu t = (t1, r)" by fastforce
    with p have j1: "J t1" by simp
    show "J (fst (publish_recovery cu nh t))"
    proof (cases r)
      case (Inl e)
      have "J (fst (bind_tx (on_view cu (call_back RecordFailure)) (\<lambda>_. raise_tx e) t1))"
        using keep [OF kept_bind [OF log [of True, simplified] kept_pure(2)] j1] .
      with Inl t1 j1 show ?thesis by (simp add: publish_recovery_def)
    next
      case (Inr u)
      with t1 show ?thesis
        using keep [OF opt [of "ss_halt_reason (cu_state cu t1)" "\<lambda>w. ss_halt_reason (cu_state cu w)"] j1]
        by (simp add: publish_recovery_def)
    qed
  qed
  have halt: "kept J (\<lambda>w. bind_tx (on_view cu (if ss_halt_reason (cu_state cu w) = None
      then update_state (set_halt (h w)) else ret_tx ())) (\<lambda>_. publish_recovery cu (ss_halt_reason (cu_state cu w) = None)) w)" for h
    unfolding kept_def
    by (intro allI impI keep) (intro kept_rules ledger_rules pub; simp)
  have "J (fst (bind_tx (on_view cu mark_source_in_flight) (\<lambda>sd.
      bind_tx (on_view cu (mark_hedges_in_flight ?u)) (\<lambda>hd w.
        bind_tx (on_view cu (if ss_halt_reason (cu_state cu w) = None then update_state (set_halt (Some
           (''restart requires reconciliation: '' @ join_space (sd @ hd)))) else ret_tx ()))
          (\<lambda>_. publish_recovery cu (ss_halt_reason (cu_state cu w) = None)) w)) w))"
    by (rule keep [OF _ j], intro kept_bind kept_on_view stays_mark_source hed halt)
  then show ?thesis
    unfolding recover_for_start_def Let_def using j
    by (intro if_casesI [where P = "\<lambda>p. J (fst p)"]) simp_all
qed

lemma lasts_reserve_step:
  assumes j: "J w" and new: "\<And>i. hi_intent_id i = ''hedge-'' @ digest key \<Longrightarrow> good_intent i"
  shows "J (fst (reserve_source_fill_step cu digest key cid trade side f None w))"
proof (cases "dict_get (ss_source_orders (cu_state cu w)) cid")
  case (Some r)
  note g = order_update [OF order_in [OF fact [OF j] Some]]
  have book: "kept J (on_view cu (book_source_fill key cid side f None r))"
    unfolding book_source_fill_def Let_def
    by (intro kept_on_view ledger_rules) (auto simp: put_order g)
  have rest: "kept J (\<lambda>w. case cu_allocate cu r key s w of (rounded, w) \<Rightarrow>
      if rounded = 0 then (w, Inr None)
      else bind_tx (on_view cu (put_intent (new_intent digest key cid trade side f None r rounded)))
        (\<lambda>i. ret_tx (Some i)) w)" for s
    unfolding kept_def
  proof (intro allI impI)
    fix w assume h: "J w"
    obtain n w2 where a: "cu_allocate cu r key s w = (n, w2)" by fastforce
    have "J w2" using allocates [OF a h] .
    then show "J (fst (case cu_allocate cu r key s w of (rounded, w) \<Rightarrow>
      if rounded = 0 then (w, Inr None)
      else bind_tx (on_view cu (put_intent (new_intent digest key cid trade side f None r rounded)))
        (\<lambda>i. ret_tx (Some i)) w))"
      by (simp add: a) (intro impI keep kept_rules stays_put new, simp_all add: new_intent_def)
  qed
  show ?thesis
    unfolding reserve_source_fill_step_def Some option.case
    by (intro if_casesI [where P = "\<lambda>p. J (fst p)"] keep [OF _ j] kept_bind kept_pure book rest)
qed (simp add: reserve_source_fill_step_def j)

lemma lasts_reserve:
  assumes j: "J w"
    and new: "\<And>i. key \<notin> ss_seen_source_fills (cu_state cu w) \<Longrightarrow> hi_intent_id i = ''hedge-'' @ digest key \<Longrightarrow> good_intent i"
  shows "J (fst (reserve_source_fill cu digest key cid trade side f w))"
proof (cases "key \<in> ss_seen_source_fills (cu_state cu w)")
  case False
  obtain w1 res where s: "reserve_source_fill_step cu digest key cid trade side f None w = (w1, res)" by fastforce
  have h: "J w1" using lasts_reserve_step [OF j, of digest key cid trade side f] new [OF False] s by simp
  have "J (fst (bind_tx (rolling_back cu (cu_state cu w) (cu_persist cu)) (\<lambda>_. ret_tx x) w1))" for x
    by (rule keep [OF _ h], intro kept_bind kept_rolling_back kept_pure kept_persist fact [OF j])
  moreover have "J (upd_state cu (\<lambda>_. cu_state cu w) w1)" by (rule kept_upd [OF h fact [OF j]])
  moreover have "J (fst (bind_tx (on_view cu (update_state (\<lambda>_. cu_state cu w))) (\<lambda>_. raise_tx e) w1))" for e
    by (rule keep [OF _ h], intro kept_bind kept_on_view kept_pure ledger_rules fact [OF j])
  ultimately show ?thesis
    using s h j False
    by (cases res; cases "dict_get (ss_source_orders (cu_state cu w)) cid") (simp_all add: reserve_source_fill_def Let_def)
qed (simp add: reserve_source_fill_def j)

lemma lasts_begin:
  assumes j: "J w" and new: "\<And>p. good_order cid (new_source_record cid side q route p)"
  shows "J (fst (begin_source cu cid side q route fr w))"
proof -
  let ?f = "\<lambda>p s. (set_order cid (new_source_record cid side q route p) s)
      \<lparr>ss_active_source_order_id := Some cid, ss_source_freeze_reason := fr\<rparr>"
  have "kept J (bind_tx (lift_tx y) (\<lambda>p. bind_tx (on_view cu (update_state (?f p))) (\<lambda>_. cu_persist cu)))" for y
    by (intro kept_rules ledger_rules) (simp add: put_order new)
  from keep [OF this j] show ?thesis
    unfolding begin_source_def Let_def using j
    by (intro if_casesI [where P = "\<lambda>p. J (fst p)"]) simp_all
qed

text \<open>An operation may only create orders and intents the fact has nothing against.\<close>

lemma lasts_run_op:
  assumes j: "J w" and k: "keyed (cu_state cu w)"
    and begins: "\<And>cid side q route fr r. op = Begin cid side q route fr \<Longrightarrow>
      so_side r = side \<Longrightarrow> so_quantity_ounces r = q \<Longrightarrow> good_order cid r"
    and fills: "\<And>key cid trade side f i. op = Reserve key cid trade side f \<Longrightarrow>
      key \<notin> ss_seen_source_fills (cu_state cu w) \<Longrightarrow> hi_intent_id i = ''hedge-'' @ digest key \<Longrightarrow> good_intent i"
  shows "J (run_op cu digest op w)"
proof (cases op)
  case (Begin cid side q route fr)
  then have "J (fst (begin_source cu cid side q route fr w))"
    by (intro lasts_begin [OF j]) (auto intro: begins simp: new_source_record_def)
  with Begin show ?thesis by simp
next
  case (Reserve key cid trade side f)
  then have "J (fst (reserve_source_fill cu digest key cid trade side f w))"
    by (intro lasts_reserve [OF j] fills) simp_all
  with Reserve show ?thesis by simp
qed (use lasts_source_ops [OF j] lasts_hedge_ops [OF j k] lasts_recover [OF j k] in simp_all)

end

section \<open>Orders and bindings last\<close>

definition has_order :: "string \<Rightarrow> business_side \<Rightarrow> rat \<Rightarrow> store_state \<Rightarrow> bool" where
  "has_order cid side q s \<longleftrightarrow> (\<exists>r. dict_get (ss_source_orders s) cid = Some r \<and> so_side r = side \<and> so_quantity_ounces r = q)"

definition has_binding :: "string \<Rightarrow> string \<Rightarrow> store_state \<Rightarrow> bool" where
  "has_binding iid cid s \<longleftrightarrow> (\<exists>i. dict_get (ss_hedge_intents s) iid = Some i \<and> cid \<in> set (hi_hedge_order_ids i))"

interpretation order_lasts: lasting_custody "has_order cid side q"
  "\<lambda>k r. k = cid \<longrightarrow> so_side r = side \<and> so_quantity_ounces r = q" "\<lambda>_. True"
  standalone "\<lambda>w. has_order cid side q (cu_state standalone w)" for cid side q
  by unfold_locales (auto simp: has_order_def set_order_def dest: standalone.allocate_keeps)

lemma binding_get: "has_binding iid cid s \<Longrightarrow> keyed s \<Longrightarrow> i \<in> set (state_intents s) \<Longrightarrow>
  hi_intent_id i = iid \<longrightarrow> cid \<in> set (hi_hedge_order_ids i)"
  using keyed_get [of s i] by (auto simp: has_binding_def)

interpretation binding_lasts: lasting_custody "has_binding iid cid" "\<lambda>_ _. True"
  "\<lambda>i. hi_intent_id i = iid \<longrightarrow> cid \<in> set (hi_hedge_order_ids i)"
  standalone "\<lambda>w. has_binding iid cid (cu_state standalone w)" for iid cid
  by unfold_locales (auto simp: has_binding_def set_order_def dest: standalone.allocate_keeps dest!: keyed_get)

text \<open>\<open>on_file\<close>: a fact of the file and of the memory.\<close>

definition on_file :: "(store_state \<Rightarrow> bool) \<Rightarrow> store \<Rightarrow> bool" where
  "on_file I w \<longleftrightarrow> st_file w \<noteq> None \<and> (\<forall>s \<in> on_record w. I s)"

lemma on_file_open: "on_file I w \<Longrightarrow> on_file I (open_store (st_file w) answers)"
  by (auto simp: on_file_def on_record_def open_store_def standalone_def)

lemma on_file_op:
  assumes "on_file I w" "I (cu_state standalone (run_op standalone digest op w))"
  shows "on_file I (run_op standalone digest op w)"
  using assms on_record_op [of digest op w] standalone.run_op_publishes [of digest op w]
  by (auto simp: on_file_def)

lemma order_on_file_op:
  assumes "on_file (has_order cid side q) w" "ledger_ok digest (cu_state standalone w)" "sane_op digest w op"
  shows "on_file (has_order cid side q) (run_op standalone digest op w)"
proof -
  have i: "has_order cid side q (cu_state standalone w)" using assms(1) by (simp add: on_file_def on_record_def)
  then have "cid \<in> dict_keys (ss_source_orders (cu_state standalone w))"
    by (force simp: has_order_def dest: map_of_SomeD)
  then have "has_order cid side q (cu_state standalone (run_op standalone digest op w))"
    using assms(3) by (intro order_lasts.lasts_run_op i ledger_ok_keyed [OF assms(2)]) (auto simp: sane_op_def)
  with assms(1) show ?thesis by (rule on_file_op)
qed

lemma binding_on_file_op:
  assumes "on_file (has_binding iid cid) w" "ledger_ok digest (cu_state standalone w)" "sane_op digest w op"
  shows "on_file (has_binding iid cid) (run_op standalone digest op w)"
proof -
  have i: "has_binding iid cid (cu_state standalone w)" using assms(1) by (simp add: on_file_def on_record_def)
  then have k: "iid \<in> dict_keys (ss_hedge_intents (cu_state standalone w))"
    by (force simp: has_binding_def dest: map_of_SomeD)
  have "iid \<noteq> ''hedge-'' @ digest key" if "op = Reserve key c trade side f" "key \<notin> ss_seen_source_fills (cu_state standalone w)"
    for key c trade side f
  proof -
    have "inj_on digest (insert key (ss_seen_source_fills (cu_state standalone w)))" using that(1) assms(3) by (simp add: sane_op_def)
    from new_intent_fresh [OF assms(2) that(2) this] k show ?thesis by metis
  qed
  then have "has_binding iid cid (cu_state standalone (run_op standalone digest op w))"
    by (intro binding_lasts.lasts_run_op i ledger_ok_keyed [OF assms(2)]) auto
  with assms(1) show ?thesis by (rule on_file_op)
qed

end
