(* ===== verification/Taker_Safety.thy ===== *)
theory Taker_Safety
  imports Taker_Example Store_Lasting
begin

text \<open>
  What the Taker's requests rest on: a source order is handed to the venue only after a decision on
  fresh inputs and only when the file already holds it, a hedge order only when the file already
  binds it to its obligation, and the one-shot Taker sends one source order at most.
\<close>

section \<open>How a source order comes to be sent\<close>

definition source_request_of :: "'w wiring \<Rightarrow> facts \<Rightarrow> opportunity \<Rightarrow> rat \<Rightarrow> rat \<Rightarrow> source_request" where
  "source_request_of W f opp q price =
    \<lparr>sq_client_order_id = fa_fresh_order_id f, sq_side = side_of_direction (op_direction opp), sq_quantity = q,
     sq_price = price, sq_reduce_only = source_reduce_only W f (side_of_direction (op_direction opp)) q (op_source_account opp),
     sq_client_id = sa_client_id (op_source_account opp), sq_leverage = op_leverage opp\<rparr>"

text \<open>The hand-over: the store has begun the order, the request is appended.\<close>

definition hands_over :: "'w wiring \<Rightarrow> facts \<Rightarrow> opportunity \<Rightarrow> rat \<Rightarrow> 'w taker \<Rightarrow> 'w taker \<Rightarrow> bool" where
  "hands_over W f opp q t t' \<longleftrightarrow> (\<exists>price route w0 w1.
     let cu = sb_custody (wi_store W); request = source_request_of W f opp q price in
     fa_make_price f (op_source_price_usdt opp) = Inr price \<and>
     begin_source cu (fa_fresh_order_id f) (side_of_direction (op_direction opp)) q route
       (if wi_one_shot W then Some one_shot_freeze_reason else None) w0 = (w1, Inr ()) \<and>
     tk_sent t' = tk_sent t @ [SendSource request] \<and>
     tk_store t' = (case fa_submission f of None \<Rightarrow> w1 | Some e \<Rightarrow>
       fst (mark_source_unknown cu (fa_fresh_order_id f) (''source submission raised '' @ exn_class e) w1)))"

lemma submit_order_run:
  assumes "submit_source_order W f q t = (t', r)"
  shows "tk_armed t' = tk_armed t \<and> tk_claimed t' = tk_claimed t \<and> tk_closed t' = tk_closed t \<and>
    tk_sent t' = tk_sent t @ [SendSource q] \<and>
    tk_store t' = (case fa_submission f of None \<Rightarrow> tk_store t | Some e \<Rightarrow>
      fst (mark_source_unknown (sb_custody (wi_store W)) (sq_client_order_id q)
        (''source submission raised '' @ exn_class e) (tk_store t)))"
proof (cases "fa_submission f")
  case (Some e)
  obtain w x where m: "mark_source_unknown (sb_custody (wi_store W)) (sq_client_order_id q)
      (''source submission raised '' @ exn_class e) (tk_store t) = (w, x)" by fastforce
  with assms Some show ?thesis
    by (cases x) (auto simp: submit_source_order_def on_store_def bind_tx_def send_def)
qed (use assms in \<open>auto simp: submit_source_order_def send_def\<close>)

lemma place_sends:
  assumes "place_source_order W f opp q ts t = (t', r)"
  shows "tk_armed t' = tk_armed t \<and> tk_claimed t' = tk_claimed t \<and> tk_closed t' = tk_closed t \<and>
    (tk_sent t' = tk_sent t \<or> hands_over W f opp q t t')"
proof (cases "fa_make_price f (op_source_price_usdt opp)")
  case (Inl e)
  with assms show ?thesis by (auto simp: place_source_order_def Let_def)
next
  case (Inr price)
  let ?req = "source_request_of W f opp q price"
  let ?begun = "begin_source (sb_custody (wi_store W)) (fa_fresh_order_id f) (side_of_direction (op_direction opp)) q
    (taker_route W opp t) (if wi_one_shot W then Some one_shot_freeze_reason else None)"
  obtain w1 x where b: "?begun (tk_store t) = (w1, x)" by fastforce
  show ?thesis
  proof (cases x)
    case (Inl e)
    with assms b Inr show ?thesis by (auto simp: place_source_order_def Let_def bind_tx_def on_store_def)
  next
    case (Inr u)
    let ?t1 = "(t\<lparr>tk_store := w1\<rparr>)\<lparr>tk_last_attempt_ts := (case ts of None \<Rightarrow> tk_last_attempt_ts t | Some m \<Rightarrow> Some m)\<rparr>"
    have t1: "(case ts of None \<Rightarrow> t\<lparr>tk_store := w1\<rparr> | Some m \<Rightarrow> t\<lparr>tk_store := w1, tk_last_attempt_ts := Some m\<rparr>) = ?t1"
      by (cases ts) simp_all
    obtain t2 y where s: "submit_source_order W f ?req ?t1 = (t2, y)" by fastforce
    then have "t' = t2"
      using assms b Inr \<open>fa_make_price f (op_source_price_usdt opp) = Inr price\<close> t1
      by (cases y) (simp_all add: place_source_order_def Let_def bind_tx_def on_store_def source_request_of_def lift_tx_def
          modify_tx_def)
    moreover have "hands_over W f opp q t t2"
      unfolding hands_over_def Let_def
      by (intro exI [of _ price] exI [of _ "taker_route W opp t"] exI [of _ "tk_store t"] exI [of _ w1],
          cases "fa_submission f")
        (use submit_order_run [OF s] b Inr \<open>fa_make_price f (op_source_price_usdt opp) = Inr price\<close> in
          \<open>simp_all add: source_request_of_def\<close>)
    ultimately show ?thesis using submit_order_run [OF s] by simp
  qed
qed

text \<open>The hedge of the order can be executed: its plan exists and every leg passed the quantity check.\<close>

definition hedge_executable :: "'w wiring \<Rightarrow> facts \<Rightarrow> opportunity \<Rightarrow> rat \<Rightarrow> bool" where
  "hedge_executable W f opp q \<longleftrightarrow> round_hedge_ounces q = 0 \<or>
    (\<exists>plan. plan_hedge_delta (fa_hedge_positions f) (if op_direction opp = LONG then SELL else BUY)
        (Fin (of_int \<bar>round_hedge_ounces q\<bar>)) = Inr plan \<and> legs_admitted (fa_quantity_ready f) plan \<and>
      (wi_must_reduce_only W \<longrightarrow> (\<exists>leg. plan = [leg] \<and> leg_is_close leg)))"

lemma target_keeps:
  "claim_close_target plan t = (t', r) \<Longrightarrow> tk_sent t' = tk_sent t \<and> tk_armed t' = tk_armed t \<and> tk_claimed t' = tk_claimed t \<and>
    tk_closed t' = tk_closed t \<and> (r = Inr True \<longrightarrow> (\<exists>leg. plan = [leg] \<and> leg_is_close leg))"
  by (cases plan; cases "tl plan") (auto simp: claim_close_target_def split: if_splits)

lemma executable_keeps:
  assumes "source_hedge_is_executable W f opp q t = (t', r)"
  shows "tk_sent t' = tk_sent t \<and> tk_armed t' = tk_armed t \<and> tk_claimed t' = tk_claimed t \<and> tk_closed t' = tk_closed t \<and>
    (r = Inr True \<longrightarrow> hedge_executable W f opp q)"
proof (cases "plan_hedge_delta (fa_hedge_positions f) (if op_direction opp = LONG then SELL else BUY)
    (Fin (of_int \<bar>round_hedge_ounces q\<bar>))")
  case (Inl e)
  with assms show ?thesis by (auto simp: source_hedge_is_executable_def hedge_executable_def Let_def split: if_splits)
next
  case (Inr plan)
  with assms target_keeps [of plan t t' r] show ?thesis
    by (auto simp: source_hedge_is_executable_def hedge_executable_def Let_def split: if_splits)
qed

text \<open>What a step leaves of the one-shot gate: it can only close.\<close>

definition gate_moves :: "'w taker \<Rightarrow> 'w taker \<Rightarrow> bool" where
  "gate_moves t t' \<longleftrightarrow> (tk_armed t' \<longrightarrow> tk_armed t) \<and> (tk_claimed t \<longrightarrow> tk_claimed t') \<and>
    (tk_claimed t' \<longrightarrow> tk_claimed t \<or> tk_armed t \<and> \<not> tk_armed t') \<and> (tk_closed t \<longrightarrow> tk_closed t')"

lemma gate_moves_refl [simp]: "gate_moves t t"
  by (simp add: gate_moves_def)

lemma gate_moves_trans: "gate_moves t u \<Longrightarrow> gate_moves u v \<Longrightarrow> gate_moves t v"
  by (auto simp: gate_moves_def)

lemma gate_moves_same:
  "tk_armed t' = tk_armed t \<Longrightarrow> tk_claimed t' = tk_claimed t \<Longrightarrow> tk_closed t' = tk_closed t \<Longrightarrow> gate_moves t t'"
  by (simp add: gate_moves_def)

lemma claim_gate:
  assumes "claim_one_shot W t = (t', Inr b)"
  shows "gate_moves t t' \<and> tk_sent t' = tk_sent t \<and>
    (b \<longrightarrow> wi_one_shot W \<longrightarrow> tk_armed t \<and> \<not> tk_claimed t \<and> tk_claimed t' \<and> \<not> tk_armed t')"
  using assms by (auto simp: claim_one_shot_def gate_moves_def split: if_splits)

lemma admission_keeps:
  "(case wi_admission W of None \<Rightarrow> ret_tx True | Some admits \<Rightarrow> on_store (admits side q)) t = (t', r) \<Longrightarrow>
    gate_moves t t' \<and> tk_sent t' = tk_sent t"
  by (auto simp: on_store_def gate_moves_def split: option.splits prod.splits)

definition sends_at_most :: "'w wiring \<Rightarrow> facts \<Rightarrow> opportunity \<Rightarrow> 'w taker \<Rightarrow> 'w taker \<Rightarrow> bool" where
  "sends_at_most W f opp t t' \<longleftrightarrow> gate_moves t t' \<and> (tk_sent t' = tk_sent t \<or>
    (\<exists>q. fa_make_source_qty f (op_source_quantity_ounces opp) = Inr q \<and> hands_over W f opp q t t' \<and>
      hedge_executable W f opp q \<and>
      (wi_one_shot W \<longrightarrow> tk_armed t \<and> \<not> tk_claimed t \<and> tk_claimed t' \<and> \<not> tk_armed t')))"

lemma sends_nothing: "gate_moves t t' \<Longrightarrow> tk_sent t' = tk_sent t \<Longrightarrow> sends_at_most W f opp t t'"
  by (simp add: sends_at_most_def)

lemma hands_over_from: "hands_over W f opp q t t' \<Longrightarrow> tk_sent u = tk_sent t \<Longrightarrow> hands_over W f opp q u t'"
  by (simp add: hands_over_def)

lemma submit_sends:
  assumes "submit_source W f opp ts t = (t', r)"
  shows "sends_at_most W f opp t t'"
proof (cases "fa_restart_blocked f \<or> tk_draining t \<or>
    wi_allowed_direction W \<noteq> None \<and> wi_allowed_direction W \<noteq> Some (op_direction opp) \<or> tk_source_instrument t = None")
  case True
  with assms have "t' = t" by (auto simp: submit_source_def split: if_splits)
  then show ?thesis by (simp add: sends_nothing)
next
  case False
  show ?thesis
  proof (cases "fa_make_source_qty f (op_source_quantity_ounces opp)")
    case (Inl e)
    with assms False have "t' = t" by (auto simp: submit_source_def)
    then show ?thesis by (simp add: sends_nothing)
  next
    case (Inr q)
    let ?admit = "case wi_admission W of None \<Rightarrow> ret_tx True
      | Some admits \<Rightarrow> on_store (admits (side_of_direction (op_direction opp)) q)"
    have run: "bind_tx ?admit (\<lambda>admitted.
       if \<not> admitted then ret_tx False
       else bind_tx (source_hedge_is_executable W f opp q) (\<lambda>executable.
         if \<not> executable then ret_tx False
         else bind_tx (claim_one_shot W) (\<lambda>claimed.
           if \<not> claimed then ret_tx False
           else place_source_order W f opp q ts))) t = (t', r)"
      using assms False Inr by (auto simp: submit_source_def)
    obtain t1 r1 where a: "?admit t = (t1, r1)" by fastforce
    obtain t2 r2 where e: "source_hedge_is_executable W f opp q t1 = (t2, r2)" by fastforce
    obtain t3 r3 where c: "claim_one_shot W t2 = (t3, r3)" by fastforce
    obtain t4 r4 where p: "place_source_order W f opp q ts t3 = (t4, r4)" by fastforce
    have g1: "gate_moves t t1" "tk_sent t1 = tk_sent t" using admission_keeps [OF a] by auto
    have g2: "gate_moves t t2" "tk_sent t2 = tk_sent t" "r2 = Inr True \<Longrightarrow> hedge_executable W f opp q"
      "tk_armed t2 = tk_armed t1" "tk_claimed t2 = tk_claimed t1"
      using executable_keeps [OF e] gate_moves_trans [OF g1(1) gate_moves_same [of t2 t1]] g1(2) by auto
    from run a e have "t' \<in> {t1, t2} \<or> r1 = Inr True \<and> r2 = Inr True"
      by (cases r1; cases r2) (auto simp: bind_tx_def split: if_splits)
    then show ?thesis
    proof
      assume "t' \<in> {t1, t2}"
      with g1 g2 show ?thesis by (auto intro: sends_nothing)
    next
      assume ok: "r1 = Inr True \<and> r2 = Inr True"
      show ?thesis
      proof (cases "r3 = Inr True")
        case False
        with run a e c ok have "t' = t3" by (cases r3) (auto simp: bind_tx_def split: if_splits)
        moreover have "\<And>x. r3 \<noteq> Inl x" using c by (auto simp: claim_one_shot_def split: if_splits)
        ultimately show ?thesis
          using claim_gate [of W t2 t3] c g2 by (cases r3) (auto intro!: sends_nothing intro: gate_moves_trans)
      next
        case True
        from run a e c p ok True have t': "t' = t4" by (auto simp: bind_tx_def)
        note cl = claim_gate [OF c [unfolded True]] and pl = place_sends [OF p]
        have g: "gate_moves t t4" "tk_sent t3 = tk_sent t"
          using gate_moves_trans [OF g2(1) gate_moves_trans [of t2 t3 t4]] cl pl g2(2) by (auto intro: gate_moves_same)
        have o: "wi_one_shot W \<longrightarrow> tk_armed t \<and> \<not> tk_claimed t \<and> tk_claimed t4 \<and> \<not> tk_armed t4"
          using cl pl g1(1) g2(1,4,5) admission_keeps [OF a] by (auto simp: gate_moves_def)
        from pl show ?thesis
        proof (elim conjE disjE)
          assume "tk_sent t4 = tk_sent t3"
          with g t' show ?thesis by (simp add: sends_nothing)
        next
          assume "hands_over W f opp q t3 t4"
          from hands_over_from [OF this g(2) [symmetric]] g(1) o g2(3) ok Inr t' show ?thesis
            unfolding sends_at_most_def by blast
        qed
      qed
    qed
  qed
qed

text \<open>Only the fields the one-shot gate and the requests live in matter.\<close>

definition same_gate :: "'w taker \<Rightarrow> 'w taker \<Rightarrow> bool" where
  "same_gate t u \<longleftrightarrow> tk_armed u = tk_armed t \<and> tk_claimed u = tk_claimed t \<and> tk_closed u = tk_closed t \<and> tk_sent u = tk_sent t"

lemma same_gate_silent: "same_gate t u \<Longrightarrow> gate_moves t u \<and> tk_sent u = tk_sent t"
  by (simp add: same_gate_def gate_moves_def)

lemma sends_transfer:
  assumes "sends_at_most W f opp u u'" "same_gate t u" "same_gate u' t'" "tk_store t' = tk_store u'"
  shows "sends_at_most W f opp t t'"
proof -
  have "hands_over W f opp q u u' \<Longrightarrow> hands_over W f opp q t t'" for q
    using assms(2-4) unfolding hands_over_def same_gate_def by simp
  then show ?thesis
    using assms(1-3) unfolding sends_at_most_def same_gate_def gate_moves_def by metis
qed

definition market_decides ::
  "'w wiring \<Rightarrow> facts \<Rightarrow> book_top \<Rightarrow> int \<Rightarrow> quote_tick \<Rightarrow> source_account list \<Rightarrow> hedge_account \<Rightarrow> 'w taker \<Rightarrow> opportunity \<Rightarrow> bool"
where
  "market_decides W f reference source_ts tick accounts hedge t opp \<longleftrightarrow> (\<exists>carry.
    tk_last_attempt_ts t \<noteq> Some (max source_ts (qt_ts_event tick)) \<and>
    carry_for_hedge_tick W tick (fa_now_ns f) t = Inr (Some carry) \<and>
    evaluate_taker reference (book_top_of tick) accounts hedge (tc_economics (wi_config W)) (wi_allowed_direction W)
      (Some carry) (Some (tk_fx t)) = Inr (Some opp))"

lemma at_gate_keeps: "at_gate g t = (t', r) \<Longrightarrow> same_gate t t' \<and> tk_store t' = tk_store t"
  by (auto simp: at_gate_def same_gate_def)

lemma same_gate_refl [simp]: "same_gate t t"
  by (simp add: same_gate_def)

lemma market_sends:
  assumes "evaluate_market W f reference source_ts tick accounts hedge t = (t', r)"
  shows "same_gate t t' \<or> (\<exists>opp. market_decides W f reference source_ts tick accounts hedge t opp \<and> sends_at_most W f opp t t')"
proof (cases "\<exists>opp. market_decides W f reference source_ts tick accounts hedge t opp")
  case False
  with assms show ?thesis
    by (auto simp: evaluate_market_def Let_def market_decides_def at_gate_def same_gate_def bind_tx_def lift_tx_def
        split: if_splits sum.splits option.splits)
next
  case True
  then obtain opp where d: "market_decides W f reference source_ts tick accounts hedge t opp" ..
  then have run: "bind_tx (at_gate ''source_admission'') (\<lambda>_.
      bind_tx (submit_source W f opp (Some (max source_ts (qt_ts_event tick)))) (\<lambda>submitted.
      at_gate (if submitted then ''source_claimed'' else ''source_admission_blocked''))) t = (t', r)"
    using assms by (auto simp: evaluate_market_def Let_def market_decides_def)
  let ?t = "t\<lparr>tk_gate := ''source_admission''\<rparr>"
  obtain u x where u: "submit_source W f opp (Some (max source_ts (qt_ts_event tick))) ?t = (u, x)" by fastforce
  have "same_gate u t' \<and> tk_store t' = tk_store u"
    using run u by (cases x) (auto simp: bind_tx_def at_gate_def modify_tx_def same_gate_def)
  with sends_transfer [OF submit_sends [OF u], of t t'] d show ?thesis by (auto simp: same_gate_def)
qed

text \<open>Everything a decision to send has checked, in the state it started from.\<close>

definition decision_holds :: "'w wiring \<Rightarrow> facts \<Rightarrow> 'w taker \<Rightarrow> opportunity \<Rightarrow> bool" where
  "decision_holds W f t opp \<longleftrightarrow> (\<exists>book tick reference accounts hedge.
    \<not> tk_draining t \<and> \<not> fa_restart_blocked f \<and>
    can_submit_source (sb_custody (wi_store W)) (fst (wi_release W (tk_store t))) \<and>
    fa_source_book f = Some book \<and> fa_hedge_tick f = Some tick \<and>
    reference_book book (te_base_book_quantity (tc_economics (wi_config W))) = Inr (Some reference) \<and>
    hedge_costs_usable W (fa_now_ns f) t = Inr True \<and> fa_submission_ready f \<noteq> Some False \<and>
    tk_cost_valid t \<and> tk_cost_ts t \<le> fa_now_ns f \<and>
    market_is_fresh W (fa_now_ns f) (ob_ts_last book) (qt_ts_event tick) t \<and>
    current_accounts W f reference (ob_ts_last book) tick = Inr (Some (accounts, hedge)) \<and>
    market_decides W f reference (ob_ts_last book) tick accounts hedge t opp)"

lemma inputs_fresh_True:
  "inputs_are_fresh W f ts tick t = (t', Inr True) \<longleftrightarrow> t' = t \<and> hedge_costs_usable W (fa_now_ns f) t = Inr True \<and>
    (wi_one_shot W \<longrightarrow> tk_armed t \<and> \<not> tk_claimed t) \<and> fa_submission_ready f \<noteq> Some False \<and> tk_cost_valid t \<and>
    tk_cost_ts t \<le> fa_now_ns f \<and> market_is_fresh W (fa_now_ns f) ts (qt_ts_event tick) t"
  by (auto simp: inputs_are_fresh_def not_less split: sum.splits bool.splits if_splits)

lemma inputs_gate: "inputs_are_fresh W f ts tick t = (t', r) \<Longrightarrow> same_gate t t'"
  by (auto simp: inputs_are_fresh_def invalidate_cost_snapshot_def same_gate_def split: sum.splits bool.splits if_splits)

lemma carry_ignores_store [simp]: "carry_for_hedge_tick W tick n (t\<lparr>tk_store := w\<rparr>) = carry_for_hedge_tick W tick n t"
  by (simp add: carry_for_hedge_tick_def required_hedge_instrument_def cong: option.case_cong)

lemma decision_ignores_store [simp]:
  "hedge_costs_usable W n (t\<lparr>tk_store := w\<rparr>) = hedge_costs_usable W n t"
  "market_is_fresh W n a b (t\<lparr>tk_store := w\<rparr>) = market_is_fresh W n a b t"
  "market_decides W f reference ts tick accounts hedge (t\<lparr>tk_store := w\<rparr>) opp =
    market_decides W f reference ts tick accounts hedge t opp"
  by (simp_all add: hedge_costs_usable_def required_hedge_instrument_def market_is_fresh_def market_decides_def)

lemma same_gate_store [simp]: "same_gate t (t\<lparr>tk_store := w\<rparr>)"
  by (simp add: same_gate_def)

lemma same_gate_trans: "same_gate t u \<Longrightarrow> same_gate u v \<Longrightarrow> same_gate t v"
  by (simp add: same_gate_def)

lemma evaluate_sends:
  assumes "evaluate_and_submit W f t = (t', r)"
  shows "same_gate t t' \<or> (\<exists>opp. decision_holds W f t opp \<and> sends_at_most W f opp t t')"
proof (rule disjCI)
  assume no: "\<not> (\<exists>opp. decision_holds W f t opp \<and> sends_at_most W f opp t t')"
  obtain w x where rel: "wi_release W (tk_store t) = (w, x)" by fastforce
  let ?t = "t\<lparr>tk_store := w\<rparr>"
  have gate: "same_gate t u" if "at_gate g v = (u, y)" "same_gate t v" for g u v y
    using at_gate_keeps [OF that(1)] that(2) by (blast intro: same_gate_trans)
  consider (early) "same_gate t t'"
    | (opened) book tick where "\<not> tk_draining t" "\<not> fa_restart_blocked f" "x \<in> range Inr"
        "can_submit_source (sb_custody (wi_store W)) w" "fa_source_book f = Some book" "fa_hedge_tick f = Some tick"
        "evaluate_book W f book tick ?t = (t', r)"
    using assms rel gate [of _ t] gate [of _ ?t]
    by (cases x) (auto simp: evaluate_and_submit_def on_store_def bind_tx_def split: if_splits option.splits)
  then show "same_gate t t'"
  proof cases
    case (opened book tick)
    note run = opened(7) [unfolded evaluate_book_def]
    show ?thesis
    proof (cases "reference_book book (te_base_book_quantity (tc_economics (wi_config W)))")
      case (Inl e)
      with run show ?thesis by auto
    next
      case (Inr ref)
      show ?thesis
      proof (cases ref)
        case None
        with run Inr gate [of _ ?t] show ?thesis by auto
      next
        case (Some reference)
        obtain t2 y where i: "inputs_are_fresh W f (ob_ts_last book) tick ?t = (t2, y)" by fastforce
        have s2: "same_gate t t2" using inputs_gate [OF i] by (rule same_gate_trans [rotated]) simp
        show ?thesis
        proof (cases "y = Inr True")
          case False
          with run Inr Some i s2 gate [of _ t2] show ?thesis
            by (cases y) (auto simp: bind_tx_def)
        next
          case True
          with i have t2: "t2 = ?t" and fresh: "hedge_costs_usable W (fa_now_ns f) t = Inr True"
            "fa_submission_ready f \<noteq> Some False" "tk_cost_valid t" "tk_cost_ts t \<le> fa_now_ns f"
            "market_is_fresh W (fa_now_ns f) (ob_ts_last book) (qt_ts_event tick) t"
            by (simp_all add: inputs_fresh_True)
          show ?thesis
          proof (cases "\<exists>accounts hedge. current_accounts W f reference (ob_ts_last book) tick = Inr (Some (accounts, hedge))")
            case False
            with run Inr Some i True t2 gate [of _ ?t] show ?thesis
              by (cases "current_accounts W f reference (ob_ts_last book) tick")
                (auto simp: bind_tx_def lift_tx_def split: option.splits)
          next
            case acc: True
            then obtain accounts hedge where acc: "current_accounts W f reference (ob_ts_last book) tick = Inr (Some (accounts, hedge))"
              by blast
            with run Inr Some i True t2
            have m: "evaluate_market W f reference (ob_ts_last book) tick accounts hedge ?t = (t', r)"
              by (simp add: bind_tx_def)
            have "same_gate ?t t'"
            proof (rule ccontr)
              assume "\<not> same_gate ?t t'"
              with market_sends [OF m] obtain opp
                where d: "market_decides W f reference (ob_ts_last book) tick accounts hedge t opp" and u: "sends_at_most W f opp ?t t'"
                by auto
              have "sends_at_most W f opp t t'" by (rule sends_transfer [OF u]) simp_all
              moreover have "decision_holds W f t opp"
                unfolding decision_holds_def using opened rel Inr Some fresh acc d by (simp add: exI)
              ultimately show False using no by blast
            qed
            then show ?thesis by (rule same_gate_trans [rotated]) simp
          qed
        qed
      qed
    qed
  qed
qed

section \<open>A source order is justified\<close>

lemma sent_decision:
  assumes "evaluate_and_submit W f t = (t', r)" "tk_sent t' \<noteq> tk_sent t"
  shows "\<exists>opp q. decision_holds W f t opp \<and> fa_make_source_qty f (op_source_quantity_ounces opp) = Inr q \<and>
    hedge_executable W f opp q \<and> hands_over W f opp q t t' \<and> gate_moves t t' \<and>
    (wi_one_shot W \<longrightarrow> tk_armed t \<and> \<not> tk_claimed t \<and> tk_claimed t' \<and> \<not> tk_armed t')"
  using evaluate_sends [OF assms(1)] assms(2)
  unfolding sends_at_most_def same_gate_def by blast

text \<open>C6: a source order is never sent on a stale or partial view. When a decision hands an order to the
  venue, the strategy is neither draining nor held, the store admits a new order, both market sides
  are in the cache and fresh, the costs are current, the accounts' view is usable, and the request
  is the one of an opportunity that is signalled, allowed, within both accounts' capacities and
  admitted by the risk gate at these very inputs; a hedge plan for its rounded quantity exists on
  the MT5 tickets and every leg passed the quantity check.\<close>

theorem source_order_justified:
  assumes "evaluate_and_submit W f t = (t', r)" "tk_sent t' \<noteq> tk_sent t"
  shows "\<exists>book tick reference accounts hedge carry opp q price.
    \<not> tk_draining t \<and> \<not> fa_restart_blocked f \<and>
    can_submit_source (sb_custody (wi_store W)) (fst (wi_release W (tk_store t))) \<and>
    fa_source_book f = Some book \<and> fa_hedge_tick f = Some tick \<and>
    reference_book book (te_base_book_quantity (tc_economics (wi_config W))) = Inr (Some reference) \<and>
    tk_cost_valid t \<and> market_is_fresh W (fa_now_ns f) (ob_ts_last book) (qt_ts_event tick) t \<and>
    current_accounts W f reference (ob_ts_last book) tick = Inr (Some (accounts, hedge)) \<and>
    (wi_allowed_direction W = None \<or> wi_allowed_direction W = Some (op_direction opp)) \<and>
    opportunity_sound reference (book_top_of tick) accounts hedge (tc_economics (wi_config W)) (Some carry) (Some (tk_fx t)) opp \<and>
    fa_make_source_qty f (op_source_quantity_ounces opp) = Inr q \<and> hedge_executable W f opp q \<and>
    fa_make_price f (op_source_price_usdt opp) = Inr price \<and>
    tk_sent t' = tk_sent t @ [SendSource (source_request_of W f opp q price)]"
proof -
  from sent_decision [OF assms] obtain opp q where d: "decision_holds W f t opp"
    and q: "fa_make_source_qty f (op_source_quantity_ounces opp) = Inr q" "hedge_executable W f opp q" "hands_over W f opp q t t'"
    by blast
  from q(3) obtain price where p: "fa_make_price f (op_source_price_usdt opp) = Inr price"
    "tk_sent t' = tk_sent t @ [SendSource (source_request_of W f opp q price)]" by (auto simp: hands_over_def Let_def)
  from d obtain book tick reference accounts hedge carry where "fa_source_book f = Some book" "fa_hedge_tick f = Some tick"
    "reference_book book (te_base_book_quantity (tc_economics (wi_config W))) = Inr (Some reference)"
    "current_accounts W f reference (ob_ts_last book) tick = Inr (Some (accounts, hedge))"
    "market_is_fresh W (fa_now_ns f) (ob_ts_last book) (qt_ts_event tick) t" "tk_cost_valid t" "\<not> tk_draining t"
    "\<not> fa_restart_blocked f" "can_submit_source (sb_custody (wi_store W)) (fst (wi_release W (tk_store t)))"
    and e: "evaluate_taker reference (book_top_of tick) accounts hedge (tc_economics (wi_config W)) (wi_allowed_direction W)
      (Some carry) (Some (tk_fx t)) = Inr (Some opp)"
    unfolding decision_holds_def market_decides_def by blast
  with p q evaluate_taker_opportunity [OF e] show ?thesis by blast
qed

theorem source_order_justified_witness:
  "\<exists>book tick reference accounts hedge carry opp q price.
    fa_source_book (ex_facts ''s1'') = Some book \<and> fa_hedge_tick (ex_facts ''s1'') = Some tick \<and>
    opportunity_sound reference (book_top_of tick) accounts hedge ex_taker (Some carry) (Some (tk_fx (ex_ready False))) opp \<and>
    hedge_executable (ex_wiring False) (ex_facts ''s1'') opp q \<and>
    tk_sent (fst (evaluate_and_submit (ex_wiring False) (ex_facts ''s1'') (ex_ready False))) =
      tk_sent (ex_ready False) @ [SendSource (source_request_of (ex_wiring False) (ex_facts ''s1'') opp q price)]"
proof -
  have e: "evaluate_and_submit (ex_wiring False) (ex_facts ''s1'') (ex_ready False) =
      ((ex_ready False)\<lparr>tk_gate := ''source_claimed'', tk_store := ex_file None, tk_armed := False,
       tk_claimed := False, tk_closed := False, tk_last_attempt_ts := Some 999,
       tk_sent := tk_sent (ex_ready False) @ [SendSource ex_source_request]\<rparr>, Inr ())"
    by (subst ex_evaluate [where b = False]) (simp_all add: ex_ready_eq ex_created_run)
  have t: "tc_economics ex_taker_config = ex_taker" by (simp add: ex_taker_config_def)
  from source_order_justified [OF e] show ?thesis
    unfolding e fst_conv ex_wiring_simps t by simp blast
qed

section \<open>How a hedge order comes to be sent\<close>

text \<open>The binding of an order to its obligation, in memory and in the file.\<close>

lemma bind_on_file:
  assumes "bind_hedge_order standalone iid cid w = (w', Inr ())"
  shows "on_file (has_binding iid cid) w'"
proof -
  from assms obtain i where i: "dict_get (ss_hedge_intents (cu_state standalone w)) iid = Some i"
    by (auto simp: bind_hedge_order_def dict_index_def split: option.splits)
  let ?j = "i\<lparr>hi_hedge_client_order_id := Some cid, hi_hedge_order_ids := hi_hedge_order_ids i @ [cid], hi_status := SUBMITTING\<rparr>"
  let ?f = "\<lambda>j s. s\<lparr>ss_hedge_intents := dict_set iid j (ss_hedge_intents s)\<rparr>"
  from assms i have run: "bind_tx (on_view standalone (bind_tx (lift_tx (mk_hedge_intent ?j)) (\<lambda>j. update_state (?f j))))
      (\<lambda>_. cu_persist standalone) w = (w', Inr ())"
    by (auto simp: bind_hedge_order_def dict_index_def split: if_splits)
  then have v: "valid_intent ?j"
    by (cases "mk_hedge_intent ?j") (auto simp: bind_tx_def on_view_def)
  then have "bind_tx (on_view standalone (update_state (?f ?j))) (\<lambda>_. cu_persist standalone) w = (w', Inr ())"
    using run mk_hedge_intent_valid [OF v] by (simp add: bind_tx_def on_view_def)
  then have "cu_persist standalone (upd_state standalone (?f ?j) w) = (w', Inr ())"
    by (simp add: bind_tx_def on_view_def update_state_def upd_state_def)
  from persist_standalone_state [OF this] show ?thesis
    by (auto simp: on_file_def on_record_def has_binding_def)
qed

lemma submit_hedge_run:
  assumes "submit_hedge_order W f q t = (t', r)"
  shows "tk_armed t' = tk_armed t \<and> tk_claimed t' = tk_claimed t \<and> tk_closed t' = tk_closed t \<and>
    tk_sent t' = tk_sent t @ [SendHedge q] \<and>
    tk_store t' = (case fa_submission f of None \<Rightarrow> tk_store t | Some e \<Rightarrow>
      fst (update_hedge_status (sb_custody (wi_store W)) (hq_client_order_id q) UNKNOWN None (tk_store t)))"
proof (cases "fa_submission f")
  case (Some e)
  obtain w x where m: "update_hedge_status (sb_custody (wi_store W)) (hq_client_order_id q) UNKNOWN None (tk_store t) = (w, x)"
    by fastforce
  with assms Some show ?thesis
    by (cases x) (auto simp: submit_hedge_order_def on_store_def bind_tx_def send_def)
qed (use assms in \<open>auto simp: submit_hedge_order_def send_def\<close>)

text \<open>The hand-over of a hedge order: its binding is made first.\<close>

definition hands_hedge :: "'w wiring \<Rightarrow> facts \<Rightarrow> string \<Rightarrow> hedge_leg \<Rightarrow> 'w taker \<Rightarrow> 'w taker \<Rightarrow> bool" where
  "hands_hedge W f iid leg t t' \<longleftrightarrow> (\<exists>q w1. let cu = sb_custody (wi_store W); cid = fa_fresh_order_id f in
     fa_make_hedge_qty f (leg_quantity_ounces leg) = Inr q \<and> bind_hedge_order cu iid cid (tk_store t) = (w1, Inr ()) \<and>
     tk_sent t' = tk_sent t @ [SendHedge (hedge_request_of W cid iid q leg)] \<and>
     tk_store t' = (case fa_submission f of None \<Rightarrow> w1 | Some e \<Rightarrow> fst (update_hedge_status cu cid UNKNOWN None w1)))"

definition gate_kept :: "'w taker \<Rightarrow> 'w taker \<Rightarrow> bool" where
  "gate_kept t t' \<longleftrightarrow> tk_armed t' = tk_armed t \<and> tk_claimed t' = tk_claimed t \<and> tk_closed t' = tk_closed t"

lemma place_hedge_run:
  assumes "place_hedge_order W f iid leg t = (t', r)"
  shows "gate_kept t t' \<and> (tk_sent t' = tk_sent t \<or> hands_hedge W f iid leg t t')"
proof (cases "fa_make_hedge_qty f (leg_quantity_ounces leg)")
  case (Inl e)
  with assms show ?thesis by (simp add: place_hedge_order_def gate_kept_def)
next
  case q: (Inr q)
  obtain w1 x where b: "bind_hedge_order (sb_custody (wi_store W)) iid (fa_fresh_order_id f) (tk_store t) = (w1, x)" by fastforce
  show ?thesis
  proof (cases x)
    case (Inl e)
    with assms b q show ?thesis by (auto simp: place_hedge_order_def bind_hedge_leg_def bind_tx_def on_store_def gate_kept_def)
  next
    case (Inr u)
    let ?q = "hedge_request_of W (fa_fresh_order_id f) iid q leg" and ?t = "t\<lparr>tk_store := w1\<rparr>"
    have "submit_hedge_order W f ?q ?t = (t', r)"
      using assms b q Inr by (simp add: place_hedge_order_def bind_hedge_leg_def bind_tx_def on_store_def)
    note s = submit_hedge_run [OF this]
    have "hands_hedge W f iid leg t t'"
      unfolding hands_hedge_def Let_def
      by (intro exI [of _ q] exI [of _ w1], cases "fa_submission f") (use s b q Inr in \<open>simp_all add: hedge_request_of_def\<close>)
    with s show ?thesis by (simp add: gate_kept_def)
  qed
qed

definition hedge_decided :: "'w wiring \<Rightarrow> facts \<Rightarrow> 'w taker \<Rightarrow> hedge_intent \<Rightarrow> hedge_leg \<Rightarrow> 'w \<Rightarrow> bool" where
  "hedge_decided W f t intent leg w1 \<longleftrightarrow>
    pending_hedge (sb_state (wi_store W) (tk_store t)) = Some intent \<and>
    sb_dispatch_ready (wi_store W) (hi_intent_id intent) (tk_store t) \<and> \<not> fa_restart_blocked f \<and>
    \<not> hedge_route_differs W (dict_get (ss_source_orders (sb_state (wi_store W) (tk_store t))) (hi_source_client_order_id intent)) \<and>
    (\<exists>tick. fa_hedge_tick f = Some tick \<and> quote_is_fresh W tick (fa_now_ns f)) \<and>
    next_hedge_leg (wi_store W) (hi_intent_id intent) (fa_hedge_positions f) (tk_store t) = (w1, Inr leg)"

lemma hedge_sends:
  assumes "submit_next_pending_hedge W f t = (t', r)"
  shows "gate_kept t t' \<and> (tk_sent t' = tk_sent t \<or>
    (\<exists>intent leg w1. hedge_decided W f t intent leg w1 \<and> hands_hedge W f (hi_intent_id intent) leg (t\<lparr>tk_store := w1\<rparr>) t'))"
proof (cases "fa_restart_blocked f \<or> pending_hedge (sb_state (wi_store W) (tk_store t)) = None")
  case True
  with assms show ?thesis by (auto simp: submit_next_pending_hedge_def gate_kept_def split: if_splits)
next
  case False
  then obtain i where i: "pending_hedge (sb_state (wi_store W) (tk_store t)) = Some i" "\<not> fa_restart_blocked f" by blast
  with assms have run: "submit_hedge_intent W f i t = (t', r)" by (simp add: submit_next_pending_hedge_def)
  let ?guard = "sb_dispatch_ready (wi_store W) (hi_intent_id i) (tk_store t) \<and>
    \<not> hedge_route_differs W (dict_get (ss_source_orders (sb_state (wi_store W) (tk_store t))) (hi_source_client_order_id i)) \<and>
    tk_hedge_instrument t \<noteq> None \<and> (\<exists>tick. fa_hedge_tick f = Some tick \<and> quote_is_fresh W tick (fa_now_ns f))"
  show ?thesis
  proof (cases ?guard)
    case False
    with run i show ?thesis
      by (auto simp: submit_hedge_intent_def Let_def on_store_def gate_kept_def split: if_splits option.splits prod.splits)
  next
    case True
    obtain w1 x where n: "next_hedge_leg (wi_store W) (hi_intent_id i) (fa_hedge_positions f) (tk_store t) = (w1, x)" by fastforce
    show ?thesis
    proof (cases x)
      case (Inl e)
      with run i True n show ?thesis
        by (auto simp: submit_hedge_intent_def Let_def on_store_def gate_kept_def split: if_splits)
    next
      case (Inr leg)
      with run i True n have p: "place_hedge_order W f (hi_intent_id i) leg (t\<lparr>tk_store := w1\<rparr>) = (t', r)"
        by (auto simp: submit_hedge_intent_def Let_def on_store_def)
      have "hedge_decided W f t i leg w1" unfolding hedge_decided_def using i True n Inr by simp
      with place_hedge_run [OF p] show ?thesis by (auto simp: gate_kept_def)
    qed
  qed
qed

lemma hedge_binding:
  assumes "hands_hedge W f iid leg u t'" "wi_store W = standalone_object digest" "keyed (cu_state standalone (tk_store u))"
  shows "on_file (has_binding iid (fa_fresh_order_id f)) (tk_store t')"
proof -
  let ?cid = "fa_fresh_order_id f"
  from assms(1,2) obtain w1 where b: "bind_hedge_order standalone iid ?cid (tk_store u) = (w1, Inr ())"
    and t': "tk_store t' = (case fa_submission f of None \<Rightarrow> w1 | Some e \<Rightarrow> fst (update_hedge_status standalone ?cid UNKNOWN None w1))"
    by (auto simp: hands_hedge_def Let_def)
  note o = bind_on_file [OF b]
  have k: "keyed (cu_state standalone w1)"
    using same_ledger_keyed [OF standalone.ledger_bind_order [OF assms(3), of iid ?cid]] assms(3) b by simp
  have i: "has_binding iid ?cid (cu_state standalone w1)" using o by (simp add: on_file_def on_record_def)
  have "on_file (has_binding iid ?cid) (run_op standalone digest (HedgeStatus ?cid UNKNOWN None) w1)"
    by (rule on_file_op [OF o]) (simp add: binding_lasts.lasts_hedge_ops [OF i k])
  with o t' show ?thesis by (cases "fa_submission f") simp_all
qed

lemma next_leg_current:
  assumes "next_hedge_leg (standalone_object digest) iid positions w = (w', Inr leg)" "keyed (cu_state standalone w)"
  shows "validate_hedge_leg leg positions = Inr () \<and>
    (\<exists>j. dict_get (ss_hedge_intents (cu_state standalone w')) iid = Some j \<and> hi_hedge_leg_index j < length (hi_hedge_plan j) \<and>
      hi_hedge_plan j ! hi_hedge_leg_index j = leg)"
proof -
  from assms(1) obtain i where i: "dict_get (ss_hedge_intents (cu_state standalone w)) iid = Some i"
    by (auto simp: next_hedge_leg_def dict_index_def split: option.splits)
  obtain w1 r1 where p: "planned_leg (standalone_object digest) i positions w = (w1, r1)" by fastforce
  have "r1 = Inr leg \<and> w' = w1"
  proof (cases r1)
    case (Inl e)
    with assms(1) i p show ?thesis
      by (auto simp: next_hedge_leg_def dict_index_def bind_tx_Inr_iff raise_tx_def split: if_splits)
  next
    case (Inr l)
    with assms(1) i p show ?thesis by (auto simp: next_hedge_leg_def dict_index_def)
  qed
  with planned_leg_Inr [of digest i positions w w1 leg iid] p i keyed_index [OF assms(2) i] show ?thesis by auto
qed

lemma keyed_next_leg:
  assumes "next_hedge_leg (standalone_object digest) iid positions w = (w', r)" "ledger_ok digest (cu_state standalone w)"
  shows "ledger_ok digest (cu_state standalone w')"
proof -
  have "store_runs digest w w' \<Longrightarrow> ledger_ok digest (cu_state standalone w')" for w'
    by (induction rule: store_runs.induct) (auto intro: assms(2) run_op_ledger)
  then show ?thesis using runs_next_leg [of digest w digest iid positions] assms(1) by simp
qed

lemma pending_hedge_alone:
  assumes "pending_hedge s = Some i"
  shows "i \<in> set (state_intents s) \<and> hi_status i = PENDING \<and> hi_hedge_client_order_id i = None \<and>
    (\<forall>j \<in> set (state_intents s). hi_status j \<in> {PENDING, COMPLETED})"
proof -
  have "hi_status j \<in> {PENDING, COMPLETED}" if "j \<in> set (state_intents s)" for j
    using assms that by (cases "hi_status j")
      (auto simp: pending_hedge_def failed_statuses_def active_statuses_def list_ex_iff split: if_splits)
  with assms show ?thesis by (auto simp: pending_hedge_def find_Some_iff split: if_splits)
qed

text \<open>C7: a hedge order is sent one at a time and only when it is already on file. It belongs to a pending
  obligation while every other one is pending or completed, on the configured route and a fresh
  quote; it is the current leg of the durable plan, authenticated against the present MT5 tickets;
  and the order's identity is bound to its obligation, in memory and in the file.\<close>

theorem hedge_order_justified:
  assumes "wi_store W = standalone_object digest" "ledger_ok digest (cu_state standalone (tk_store t))"
    and "submit_next_pending_hedge W f t = (t', r)" "tk_sent t' \<noteq> tk_sent t"
  shows "\<exists>intent tick leg q w.
    intent \<in> set (state_intents (cu_state standalone (tk_store t))) \<and> hi_status intent = PENDING \<and>
    (\<forall>j \<in> set (state_intents (cu_state standalone (tk_store t))). hi_status j \<in> {PENDING, COMPLETED}) \<and>
    fa_hedge_tick f = Some tick \<and> quote_is_fresh W tick (fa_now_ns f) \<and>
    \<not> hedge_route_differs W (dict_get (ss_source_orders (cu_state standalone (tk_store t))) (hi_source_client_order_id intent)) \<and>
    next_hedge_leg (standalone_object digest) (hi_intent_id intent) (fa_hedge_positions f) (tk_store t) = (w, Inr leg) \<and>
    validate_hedge_leg leg (fa_hedge_positions f) = Inr () \<and>
    (\<exists>j. dict_get (ss_hedge_intents (cu_state standalone w)) (hi_intent_id intent) = Some j \<and>
      hi_hedge_plan j ! hi_hedge_leg_index j = leg) \<and>
    fa_make_hedge_qty f (leg_quantity_ounces leg) = Inr q \<and>
    tk_sent t' = tk_sent t @ [SendHedge (hedge_request_of W (fa_fresh_order_id f) (hi_intent_id intent) q leg)] \<and>
    on_file (has_binding (hi_intent_id intent) (fa_fresh_order_id f)) (tk_store t')"
proof -
  from hedge_sends [OF assms(3)] assms(4) obtain intent leg w
    where d: "hedge_decided W f t intent leg w" and h: "hands_hedge W f (hi_intent_id intent) leg (t\<lparr>tk_store := w\<rparr>) t'" by blast
  note d = d [unfolded hedge_decided_def assms(1) standalone_object_simps]
  from d have n: "next_hedge_leg (standalone_object digest) (hi_intent_id intent) (fa_hedge_positions f) (tk_store t) = (w, Inr leg)"
    by blast
  note l = keyed_next_leg [OF n assms(2)]
  note b = hedge_binding [OF h assms(1)]
  from h obtain q where q: "fa_make_hedge_qty f (leg_quantity_ounces leg) = Inr q"
    "tk_sent t' = tk_sent t @ [SendHedge (hedge_request_of W (fa_fresh_order_id f) (hi_intent_id intent) q leg)]"
    by (auto simp: hands_hedge_def Let_def)
  from d obtain tick where t: "fa_hedge_tick f = Some tick" "quote_is_fresh W tick (fa_now_ns f)" by blast
  have p: "pending_hedge (cu_state standalone (tk_store t)) = Some intent" using d by blast
  from pending_hedge_alone [OF p] next_leg_current [OF n ledger_ok_keyed [OF assms(2)]] b ledger_ok_keyed [OF l] d n q t
  show ?thesis by auto
qed

end
