(* ===== verification/Taker_Steps.thy ===== *)
theory Taker_Steps
  imports Taker_Events
begin

text \<open>
  Relations between a strategy before and after a callback. \<open>always R m\<close> says that the body \<open>m\<close> takes
  every strategy to one related by \<open>R\<close>; a preorder that does not look at the store is kept by the
  composition of bodies.
\<close>

definition always :: "('w taker \<Rightarrow> 'w taker \<Rightarrow> bool) \<Rightarrow> ('w taker, 'a) tx \<Rightarrow> bool" where
  "always R m \<longleftrightarrow> (\<forall>t. R t (fst (m t)))"

lemma alwaysD: "always R m \<Longrightarrow> R t (fst (m t))"
  by (simp add: always_def)

locale step_order =
  fixes R :: "'w taker \<Rightarrow> 'w taker \<Rightarrow> bool"
  assumes refl: "R t t"
    and trans: "R t u \<Longrightarrow> R u v \<Longrightarrow> R t v"
    and store: "R t (t\<lparr>tk_store := w\<rparr>)"
begin

lemma bind_run: "R t (fst (m t)) \<Longrightarrow> (\<And>t' x. m t = (t', Inr x) \<Longrightarrow> R t' (fst (f x t'))) \<Longrightarrow> R t (fst (bind_tx m f t))"
  by (auto simp: bind_tx_def intro: trans split: prod.splits sum.splits)

lemma bind: "always R m \<Longrightarrow> (\<And>x. always R (f x)) \<Longrightarrow> always R (bind_tx m f)"
  by (simp add: always_def bind_run)

lemma on_store: "always R (on_store m)"
  by (simp add: always_def on_store_def store split: prod.split)

lemma pure: "always R (ret_tx x)" "always R (raise_tx e)" "always R (lift_tx y)" "always R (\<lambda>t. (t, r t))"
  by (simp_all add: always_def refl)

lemma modify: "(\<And>t. R t (g t)) \<Longrightarrow> always R (modify_tx g)"
  by (simp add: always_def)

lemma cases: "always R m \<Longrightarrow> always R m' \<Longrightarrow> always R (if c then m else m')"
  "always R m \<Longrightarrow> always R m' \<Longrightarrow> always R (\<lambda>t. if d t then m t else m' t)"
  "always R m \<Longrightarrow> (\<And>y. always R (k y)) \<Longrightarrow> always R (case x of None \<Rightarrow> m | Some y \<Rightarrow> k y)"
  "always R m \<Longrightarrow> (\<And>y. always R (k y)) \<Longrightarrow> always R (\<lambda>t. case h t of None \<Rightarrow> m t | Some y \<Rightarrow> k y t)"
  by (simp_all add: always_def split: option.split)

lemma after: "(\<And>t. R t (g t)) \<Longrightarrow> always R m \<Longrightarrow> always R (\<lambda>t. m (g t))"
  by (auto simp: always_def intro: trans)

lemma read: "(\<And>u. always R (m u)) \<Longrightarrow> always R (\<lambda>t. m (h t) t)"
  by (simp add: always_def)

end

end
