(* ===== verification/Taker_Custody.thy ===== *)
theory Taker_Custody
  imports Taker_Safety Taker_Steps
begin

text \<open>
  What holds of every run of the Taker: each order it handed over is on file, and the one-shot Taker
  hands over one source order at most.
\<close>

section \<open>A pending hedge, dispatched\<close>

definition ex_buy_leg :: hedge_leg where
  "ex_buy_leg = \<lparr>leg_side = BUY, leg_quantity_ounces = 2, leg_position_id = None, leg_expected_position_side = None,
    leg_expected_position_quantity_ounces = None\<rparr>"

definition ex_owed :: hedge_intent where
  "ex_owed = \<lparr>hi_intent_id = ''hedge-k'', hi_fill_key = ''k'', hi_source_client_order_id = ''s1'',
    hi_source_trade_id = ''t1'', hi_source_side = SELL, hi_source_fill_ounces = 2, hi_hedge_side = BUY,
    hi_hedge_quantity_ounces = 2, hi_hedge_position_id = None, hi_hedge_position_quantity_ounces = None,
    hi_status = PENDING, hi_hedge_client_order_id = None, hi_hedge_filled_ounces = 0,
    hi_hedge_plan = [ex_buy_leg], hi_hedge_leg_index = 0, hi_hedge_leg_filled_ounces = 0,
    hi_hedge_order_ids = [], hi_rejected_attempt = None\<rparr>"

definition ex_owing_state :: store_state where
  "ex_owing_state = empty_state\<lparr>ss_source_orders := [(''s1'', ex_record\<lparr>so_filled_ounces := 2, so_status := ''FILLED''\<rparr>)],
    ss_seen_source_fills := {''k''}, ss_hedge_intents := [(''hedge-k'', ex_owed)]\<rparr>"

definition ex_owing :: "store taker" where
  "ex_owing = (ex_ready False)\<lparr>tk_store := open_store (Some ex_owing_state) []\<rparr>"

definition ex_hedge_request :: hedge_request where
  "ex_hedge_request = \<lparr>hq_client_order_id = ''h1'', hq_intent_id = ''hedge-k'', hq_side = BUY, hq_quantity = 2,
    hq_reduce_only = False, hq_position_id = None, hq_client_id = None, hq_expected_position_quantity = None\<rparr>"

lemma ex_owing_ledger: "ledger_ok id ex_owing_state"
  by (simp add: ledger_ok_def keyed_def ex_owing_state_def ex_owed_def empty_state_def state_orders_def state_intents_def
      ex_record_def obliged_ounces_def filled_ounces_def on_grid_def signed_def)

lemma ex_owing_store: "cu_state standalone (tk_store ex_owing) = ex_owing_state"
  by (simp add: ex_owing_def open_store_def standalone_simps)

lemma ex_owing_leg:
  "next_hedge_leg (standalone_object id) ''hedge-k'' [] (open_store (Some ex_owing_state) []) =
    (open_store (Some ex_owing_state) [], Inr ex_buy_leg)"
  by (simp add: next_hedge_leg_def open_store_def standalone_simps dict_index_def planned_leg_def ex_owing_state_def
      ex_owed_def ex_buy_leg_def validate_hedge_leg_def leg_is_close_def)

lemma ex_owed_bound: "valid_intent (ex_owed\<lparr>hi_hedge_client_order_id := Some ''h1'', hi_hedge_order_ids := [''h1''], hi_status := SUBMITTING\<rparr>)"
  by (simp add: ex_owed_def valid_intent_iff intent_scalars_ok_def plan_matches_def progress_exact_def plan_total_def
      ex_buy_leg_def check_rejected_history_def dadd_def rnd28_exact)

lemma ex_bind:
  "\<exists>w. bind_hedge_order standalone ''hedge-k'' ''h1'' (open_store (Some ex_owing_state) []) = (w, Inr ())"
proof -
  have "hi_status ex_owed = PENDING" "hi_hedge_client_order_id ex_owed = None" "hi_hedge_order_ids ex_owed = []"
    by (simp_all add: ex_owed_def)
  then show ?thesis
    by (simp add: bind_hedge_order_def open_store_def standalone_def dict_index_def ex_owing_state_def state_intents_def
        update_state_def on_view_def bind_tx_def modify_tx_def persist_well mk_hedge_intent_valid [OF ex_owed_bound])
qed

lemma ex_hedge_sent:
  "\<exists>t'. submit_next_pending_hedge (ex_wiring False) (ex_facts ''h1'') ex_owing = (t', Inr ()) \<and>
    tk_sent t' = tk_sent ex_owing @ [SendHedge ex_hedge_request]"
proof -
  from ex_bind obtain w where w: "bind_hedge_order standalone ''hedge-k'' ''h1'' (open_store (Some ex_owing_state) []) = (w, Inr ())" ..
  have p: "pending_hedge ex_owing_state = Some ex_owed"
    by (simp add: pending_hedge_def ex_owing_state_def ex_owed_def state_intents_def failed_statuses_def active_statuses_def)
  have r: "\<not> hedge_route_differs (ex_wiring False) (dict_get (ss_source_orders ex_owing_state) ''s1'')"
    by (simp add: hedge_route_differs_def ex_owing_state_def ex_record_def ex_taker_config_def)
  have i: "hi_intent_id ex_owed = ''hedge-k''" "hi_source_client_order_id ex_owed = ''s1''" by (simp_all add: ex_owed_def)
  have s: "tk_store ex_owing = open_store (Some ex_owing_state) []" "tk_hedge_instrument ex_owing \<noteq> None"
    by (simp_all add: ex_owing_def ex_ready_eq)
  have f: "\<not> fa_restart_blocked (ex_facts ''h1'')" "fa_hedge_positions (ex_facts ''h1'') = []"
    "fa_make_hedge_qty (ex_facts ''h1'') = Inr" "fa_fresh_order_id (ex_facts ''h1'') = ''h1''"
    "fa_submission (ex_facts ''h1'') = None"
    "\<exists>tick. fa_hedge_tick (ex_facts ''h1'') = Some tick \<and> quote_is_fresh (ex_wiring False) tick (fa_now_ns (ex_facts ''h1''))"
    by (simp_all add: ex_facts_def quote_is_fresh_def ex_taker_config_def)
  have c: "sb_state (standalone_object id) = cu_state standalone"
    "cu_state standalone (open_store (Some ex_owing_state) []) = ex_owing_state"
    by (simp_all add: open_store_def standalone_simps standalone_object_def)
  show ?thesis
    using f w p r s ex_owing_leg
    by (auto simp: submit_next_pending_hedge_def submit_hedge_intent_def c i Let_def on_store_def place_hedge_order_def
        bind_hedge_leg_def bind_tx_def submit_hedge_order_def hedge_request_of_def ex_buy_leg_def ex_hedge_request_def
        hedge_order_params_def leg_is_close_def ex_taker_config_def)
qed

theorem hedge_order_justified_witness:
  "\<exists>t' leg q w. submit_next_pending_hedge (ex_wiring False) (ex_facts ''h1'') ex_owing = (t', Inr ()) \<and>
    validate_hedge_leg leg [] = Inr () \<and>
    tk_sent t' = tk_sent ex_owing @ [SendHedge (hedge_request_of (ex_wiring False) ''h1'' ''hedge-k'' q leg)] \<and>
    on_file (has_binding ''hedge-k'' ''h1'') (tk_store t') \<and>
    next_hedge_leg (standalone_object id) ''hedge-k'' [] (tk_store ex_owing) = (w, Inr leg)"
proof -
  from ex_hedge_sent obtain t' where t': "submit_next_pending_hedge (ex_wiring False) (ex_facts ''h1'') ex_owing = (t', Inr ())"
    "tk_sent t' = tk_sent ex_owing @ [SendHedge ex_hedge_request]" by blast
  have l: "ledger_ok id (cu_state standalone (tk_store ex_owing))" using ex_owing_ledger by (simp add: ex_owing_store)
  have f: "fa_hedge_positions (ex_facts ''h1'') = []" "fa_fresh_order_id (ex_facts ''h1'') = ''h1''" by (simp_all add: ex_facts_def)
  have i: "state_intents (cu_state standalone (tk_store ex_owing)) = [ex_owed]"
    by (simp add: ex_owing_store ex_owing_state_def state_intents_def)
  have id: "hi_intent_id ex_owed = ''hedge-k''" by (simp add: ex_owed_def)
  from hedge_order_justified [OF _ l t'(1)] t'(2) t'(1) show ?thesis
    by (auto simp: f i id)
qed

section \<open>Every order handed over is on file\<close>

fun request_on_file :: "request \<Rightarrow> store \<Rightarrow> bool" where
  "request_on_file (SendSource q) w = on_file (has_order (sq_client_order_id q) (sq_side q) (sq_quantity q)) w"
| "request_on_file (SendHedge q) w = on_file (has_binding (hq_intent_id q) (hq_client_order_id q)) w"
| "request_on_file _ w = True"

lemma runs_ledger:
  "store_runs digest w w' \<Longrightarrow> ledger_ok digest (cu_state standalone w) \<Longrightarrow> ledger_ok digest (cu_state standalone w')"
  by (induction rule: store_runs.induct) (auto intro: run_op_ledger)

lemma request_stays_on_file:
  "store_runs digest w w' \<Longrightarrow> ledger_ok digest (cu_state standalone w) \<Longrightarrow> request_on_file q w \<Longrightarrow> request_on_file q w'"
proof (induction rule: store_runs.induct)
  case (more w' op)
  then show ?case using runs_ledger [OF more(1)] order_on_file_op binding_on_file_op by (cases q) auto
qed

lemma begun_on_file:
  assumes "begin_source standalone cid side q route fr w = (w', Inr ())"
  shows "on_file (has_order cid side q) w'"
proof -
  let ?f = "\<lambda>p s. (set_order cid (new_source_record cid side q route p) s)
      \<lparr>ss_active_source_order_id := Some cid, ss_source_freeze_reason := fr\<rparr>"
  from assms obtain p where "bind_tx (on_view standalone (update_state (?f p))) (\<lambda>_. cu_persist standalone) w = (w', Inr ())"
    by (auto simp: begin_source_def Let_def bind_tx_def lift_tx_def split: if_splits sum.splits)
  then have "cu_persist standalone (upd_state standalone (?f p) w) = (w', Inr ())"
    by (simp add: bind_tx_def on_view_def update_state_def upd_state_def)
  from persist_standalone_state [OF this] show ?thesis
    by (auto simp: on_file_def on_record_def has_order_def set_order_def new_source_record_def)
qed

lemma handed_on_file:
  assumes "hands_over W f opp q t t'" "wi_store W = standalone_object digest"
  shows "\<exists>r. tk_sent t' = tk_sent t @ [SendSource r] \<and> request_on_file (SendSource r) (tk_store t')"
proof -
  let ?cid = "fa_fresh_order_id f" and ?side = "side_of_direction (op_direction opp)"
  from assms obtain price route w0 w1 fr where
    b: "begin_source standalone ?cid ?side q route fr w0 = (w1, Inr ())" and
    s: "tk_sent t' = tk_sent t @ [SendSource (source_request_of W f opp q price)]" and
    t': "tk_store t' = (case fa_submission f of None \<Rightarrow> w1 | Some e \<Rightarrow>
       fst (mark_source_unknown standalone ?cid (''source submission raised '' @ exn_class e) w1))"
    by (auto simp: hands_over_def Let_def)
  note o = begun_on_file [OF b]
  then have i: "has_order ?cid ?side q (cu_state standalone w1)" by (simp add: on_file_def on_record_def)
  have "on_file (has_order ?cid ?side q) (run_op standalone digest (MarkUnknown ?cid reason) w1)" for reason
    by (rule on_file_op [OF o]) (simp add: order_lasts.lasts_source_ops(5) [OF i])
  with o t' s show ?thesis by (cases "fa_submission f") (auto simp: source_request_of_def)
qed

section \<open>What one callback hands over\<close>

text \<open>\<open>silent\<close>: no order is handed over and the one-shot gate does not open. \<open>one_order\<close>: one order, on file;
  a source order of the one-shot Taker closes the gate it came through.\<close>

fun is_order :: "request \<Rightarrow> bool" where
  "is_order (SendSource _) = True"
| "is_order (SendHedge _) = True"
| "is_order _ = False"

definition silent :: "'w taker \<Rightarrow> 'w taker \<Rightarrow> bool" where
  "silent t t' \<longleftrightarrow> (tk_armed t' \<longrightarrow> tk_armed t) \<and> (\<exists>qs. tk_sent t' = tk_sent t @ qs \<and> \<not> list_ex is_order qs)"

definition one_order :: "store wiring \<Rightarrow> store taker \<Rightarrow> store taker \<Rightarrow> bool" where
  "one_order W t t' \<longleftrightarrow> (\<exists>q. tk_sent t' = tk_sent t @ [q] \<and> request_on_file q (tk_store t') \<and>
    (case q of SendSource _ \<Rightarrow> wi_one_shot W \<longrightarrow> tk_armed t \<and> \<not> tk_armed t' | _ \<Rightarrow> tk_armed t' \<longrightarrow> tk_armed t))"

lemma silent_refl [simp]: "silent t t"
  by (simp add: silent_def)

lemma silentI: "tk_armed t' \<longrightarrow> tk_armed t \<Longrightarrow> tk_sent t' = tk_sent t @ qs \<Longrightarrow> \<not> list_ex is_order qs \<Longrightarrow> silent t t'"
  by (auto simp: silent_def)

lemma silent_same: "tk_armed t' \<longrightarrow> tk_armed t \<Longrightarrow> tk_sent t' = tk_sent t \<Longrightarrow> silent t t'"
  by (rule silentI [where qs = "[]"]) simp_all

lemma silent_trans:
  assumes "silent t u" "silent u v"
  shows "silent t v"
proof -
  from assms obtain qs qs' where "tk_sent u = tk_sent t @ qs" "\<not> list_ex is_order qs" "tk_sent v = tk_sent u @ qs'"
    "\<not> list_ex is_order qs'" "tk_armed u \<longrightarrow> tk_armed t" "tk_armed v \<longrightarrow> tk_armed u" by (auto simp: silent_def)
  then show ?thesis by (intro silentI [where qs = "qs @ qs'"]) simp_all
qed

lemma same_gate_keeps: "same_gate t t' \<Longrightarrow> silent t t'"
  by (simp add: silent_same same_gate_def)

lemma one_order_from:
  "one_order W t t' \<Longrightarrow> tk_sent u = tk_sent t \<Longrightarrow> tk_armed u = tk_armed t \<Longrightarrow> one_order W u t'"
  unfolding one_order_def by (simp only:)

lemma evaluate_hands:
  assumes "standalone_wiring digest W"
  shows "silent t (fst (evaluate_and_submit W f t)) \<or> one_order W t (fst (evaluate_and_submit W f t))"
proof -
  obtain t' r where e: "evaluate_and_submit W f t = (t', r)" by fastforce
  show ?thesis
  proof (cases "tk_sent t' = tk_sent t")
    case True
    have "gate_moves t t'" using evaluate_sends [OF e] same_gate_silent [of t t'] by (auto simp: sends_at_most_def)
    with True e show ?thesis by (simp add: silent_same gate_moves_def)
  next
    case False
    from sent_decision [OF e False] obtain opp q where h: "hands_over W f opp q t t'"
      and g: "wi_one_shot W \<longrightarrow> tk_armed t \<and> \<not> tk_claimed t \<and> tk_claimed t' \<and> \<not> tk_armed t'" by blast
    from handed_on_file [OF h wiringD(1) [OF assms]] g have "one_order W t t'" by (auto simp: one_order_def)
    with e show ?thesis by simp
  qed
qed

lemma hedge_hands:
  assumes "standalone_wiring digest W" "ledger_ok digest (cu_state standalone (tk_store t))"
  shows "silent t (fst (submit_next_pending_hedge W f t)) \<or> one_order W t (fst (submit_next_pending_hedge W f t))"
proof -
  obtain t' r where e: "submit_next_pending_hedge W f t = (t', r)" by fastforce
  note w = wiringD(1) [OF assms(1)]
  from hedge_sends [OF e] have "gate_kept t t'" by blast
  then have armed: "tk_armed t' = tk_armed t" by (simp add: gate_kept_def)
  from hedge_sends [OF e] consider "tk_sent t' = tk_sent t"
    | intent leg w1 where "hedge_decided W f t intent leg w1" "hands_hedge W f (hi_intent_id intent) leg (t\<lparr>tk_store := w1\<rparr>) t'"
    by blast
  then show ?thesis
  proof cases
    case 1
    with e armed show ?thesis by (simp add: silent_same)
  next
    case (2 intent leg w1)
    from 2(1) have "next_hedge_leg (standalone_object digest) (hi_intent_id intent) (fa_hedge_positions f) (tk_store t) = (w1, Inr leg)"
      by (simp add: hedge_decided_def w)
    from keyed_next_leg [OF this assms(2)] have "keyed (cu_state standalone (tk_store (t\<lparr>tk_store := w1\<rparr>)))"
      by (simp add: ledger_ok_keyed)
    note b = hedge_binding [OF 2(2) w this]
    from 2(2) obtain q where "tk_sent t' = tk_sent t @ [SendHedge (hedge_request_of W (fa_fresh_order_id f) (hi_intent_id intent) q leg)]"
      by (auto simp: hands_hedge_def Let_def)
    with b armed have "one_order W t t'" by (auto simp: one_order_def hedge_request_of_def)
    with e show ?thesis by simp
  qed
qed

text \<open>The callbacks that hand over no order.\<close>

lemma silent_store: "silent t (fst (on_store m t))"
  by (auto simp: on_store_def intro: silent_same split: prod.split)

interpretation silence: step_order silent
  by unfold_locales (auto intro: silent_trans silent_same)

lemma silent_send: "\<not> is_order q \<Longrightarrow> silent t (send q t)"
  by (rule silentI [where qs = "[q]"]) (simp_all add: send_def)

lemma silent_status:
  "silent t (fst (update_order_status W b cid acc t))" "silent t (fst (finish_or_reject W b cid st t))"
  "silent t (fst (on_order_rejected W b cid reason t))"
  by (simp_all add: update_order_status_def finish_or_reject_def on_order_rejected_def Let_def silent_store)

lemma silent_query: "silent t (request_source_terminal_query W b ev out t)"
proof -
  have "silent t (send (AskTerminal ev g) (t\<lparr>tk_terminal_inflight := s\<rparr>))" for g s
    by (rule silentI [where qs = "[AskTerminal ev g]"]) (simp_all add: send_def)
  moreover have "silent t (send (AskTerminal ev g) (t\<lparr>tk_terminal_inflight := s\<rparr>)\<lparr>tk_terminal_inflight := s'\<rparr>)" for g s s'
    by (rule silentI [where qs = "[AskTerminal ev g]"]) (simp_all add: send_def)
  ultimately show ?thesis
    by (simp add: request_source_terminal_query_def Let_def split: option.split)
qed

lemma silent_terminated: "silent t (fst (on_order_terminated W b ev out t))"
  unfolding on_order_terminated_def by (intro silence.bind_run silent_status) (simp add: silent_query)

lemma silent_answer: "silent t (fst (terminal_callback W b ev g report order t))"
proof -
  have "silent t (t1\<lparr>tk_terminal_inflight := s\<rparr>) \<and> silent t t1" if "on_store m t = (t1, r)" for m t1 s r
    using that by (auto simp: on_store_def intro!: silent_same split: prod.splits)
  then show ?thesis
    by (auto simp: terminal_callback_def complete_source_terminal_query_def Let_def split: option.split sum.split prod.split)
qed

lemma silent_market:
  "silent t (on_instrument_status W i tr ts t)" "silent t (fst (on_instrument W now ins t))"
  "silent t (fst (update_cost_snapshot W carry fx ts now t))" "silent t (on_funding_rate W i rate ts now now' t)"
  "silent t (on_account_update lc t)" "silent t (begin_drain t)" "silent t (disarm_one_shot W t)"
proof -
  show c: "silent t (fst (update_cost_snapshot W carry fx ts now t))" for carry fx ts now
    by (rule silent_same) (simp_all add: update_cost_snapshot_def invalidate_cost_snapshot_def split: if_splits)
  show "silent t (on_funding_rate W i rate ts now now' t)"
    using c by (auto simp: on_funding_rate_def Let_def invalidate_cost_snapshot_def intro: silent_same split: dec.split)
qed (auto simp: on_instrument_status_def update_hedge_session_def on_instrument_def on_account_update_def begin_drain_def
    disarm_one_shot_def intro!: silent_same split: sum.split option.split)

lemma silent_start: "always silent (on_start (W :: 'a wiring) sf)"
proof -
  have sub: "silent u (subscribe_inputs W u)" for u :: "'a taker"
    by (auto simp: subscribe_inputs_def Let_def intro!: silent_trans [OF _ silent_send] silent_send)
  have "silent u (send (Subscribe SourceBookFeed) u\<lparr>tk_book_subscribed := True\<rparr>)" for u :: "'a taker"
    by (rule silentI [where qs = "[Subscribe SourceBookFeed]"]) (simp_all add: send_def)
  then have book: "always silent (subscribe_source_book :: ('a taker, unit) tx)"
    unfolding subscribe_source_book_def by (intro silence.modify) simp
  have fields: "silent u (u\<lparr>tk_draining := d, tk_terminal_stopped := s\<rparr>)" "silent u (u\<lparr>tk_account_loop := b\<rparr>)"
    "silent u (u\<lparr>tk_account_topics := ts\<rparr>)" "silent u (u\<lparr>tk_source_instrument := si, tk_hedge_instrument := hi\<rparr>)"
    "silent u (if b then u\<lparr>tk_hedge_valid := True\<rparr> else u)" for u :: "'a taker" and d s b ts si hi
    by (simp_all add: silent_same)
  have stop: "always silent (modify_tx (send StopSelf) :: ('a taker, unit) tx)" by (intro silence.modify silent_send) simp
  have body: "always silent (bind_tx (lift_tx y) (\<lambda>usable. if usable = None then modify_tx (send StopSelf)
      else bind_tx (modify_tx (\<lambda>t. if wi_live_costs W then t\<lparr>tk_hedge_valid := True\<rparr> else t)) (\<lambda>_.
        bind_tx (on_store (recover_for_start (sb_custody (wi_store W)))) (\<lambda>_.
        bind_tx (\<lambda>t. if \<not> wi_one_shot W \<or> tk_armed t then subscribe_source_book t else (t, Inr ())) (\<lambda>_.
        modify_tx (subscribe_inputs W))))))" for y :: "exn + unit option"
    by (intro silence.bind silence.cases silence.pure silence.on_store silence.modify stop sub book fields)
  show ?thesis
    unfolding on_start_def bind_account_loop_def
    by (intro silence.bind silence.cases silence.pure silence.on_store silence.modify fields; (simp split: option.split)?;
        intro conjI allI impI stop body)
qed

lemma silent_stop: "silent t (fst (on_stop W sp t))"
proof -
  have m: "silent t u \<Longrightarrow> silent t (fst (on_store m u))" for m u
    using silent_store silent_trans by blast
  have s: "silent t u \<Longrightarrow> silent t (send (CancelSource cid) u)" for cid u
    by (rule silent_trans [OF _ silent_send]) simp_all
  show ?thesis
    unfolding on_stop_def Let_def by (auto intro!: m s silent_same split: option.split bool.split)
qed

section \<open>What any callback hands over\<close>

text \<open>Nothing, one order, or (on a quote) a hedge order and then a source order; arming needs an empty ledger.\<close>

definition hands_orders :: "(string \<Rightarrow> string) \<Rightarrow> store wiring \<Rightarrow> store taker \<Rightarrow> store taker \<Rightarrow> bool" where
  "hands_orders digest W t t' \<longleftrightarrow> (silent t t' \<or> one_order W t t') \<and> store_runs digest (tk_store t) (tk_store t')"

definition arms :: "store taker \<Rightarrow> store taker \<Rightarrow> bool" where
  "arms t t' \<longleftrightarrow> tk_store t' = tk_store t \<and> ss_source_orders (cu_state standalone (tk_store t)) = [] \<and>
    (\<exists>qs. tk_sent t' = tk_sent t @ qs \<and> \<not> list_ex is_order qs)"

lemma silent_before:
  assumes "silent t u" "silent u v \<or> one_order W u v" "tk_sent u = tk_sent t"
  shows "silent t v \<or> one_order W t v"
proof (cases "silent u v")
  case True
  with silent_trans [OF assms(1)] show ?thesis by blast
next
  case False
  with assms(2) obtain q where q: "tk_sent v = tk_sent u @ [q]" "request_on_file q (tk_store v)"
    "case q of SendSource _ \<Rightarrow> wi_one_shot W \<longrightarrow> tk_armed u \<and> \<not> tk_armed v | _ \<Rightarrow> tk_armed v \<longrightarrow> tk_armed u"
    by (auto simp: one_order_def)
  moreover have "tk_armed u \<Longrightarrow> tk_armed t" using assms(1) by (simp add: silent_def)
  ultimately have "one_order W t v"
    unfolding one_order_def using assms(3) by (intro exI [of _ q]) (cases q; simp)
  then show ?thesis ..
qed

lemma sent_store: "tk_sent (fst (on_store m t)) = tk_sent t"
  by (simp add: on_store_def split: prod.split)

text \<open>A store operation, and then perhaps the next hedge.\<close>

lemma hands_after_store:
  assumes w: "standalone_wiring digest W" and l: "ledger_ok digest (cu_state standalone (tk_store t))"
    and d: "drives digest (on_store m) t"
  shows "silent t (fst (bind_tx (on_store m) (\<lambda>x. if c x then submit_next_pending_hedge W f else ret_tx ()) t)) \<or>
    one_order W t (fst (bind_tx (on_store m) (\<lambda>x. if c x then submit_next_pending_hedge W f else ret_tx ()) t))"
proof -
  obtain u y where u: "on_store m t = (u, y)" by fastforce
  have l': "ledger_ok digest (cu_state standalone (tk_store u))" using runs_ledger [OF _ l] d u by (simp add: drives_def)
  have s: "silent t u" "tk_sent u = tk_sent t" using silent_store [of t m] sent_store [of m t] u by simp_all
  show ?thesis
  proof (cases y)
    case (Inr x)
    then have "?thesis \<longleftrightarrow> (if c x then silent t (fst (submit_next_pending_hedge W f u)) \<or>
        one_order W t (fst (submit_next_pending_hedge W f u)) else silent t u \<or> one_order W t u)"
      by (simp add: bind_tx_def u)
    then show ?thesis using s silent_before [OF s(1) hedge_hands [OF w l'] s(2)] by simp
  qed (simp add: bind_tx_def u s)
qed

lemma hands_filled:
  assumes w: "standalone_wiring digest W" and s: "sane_taker digest W (OrderFilled f ev) t"
    and l: "ledger_ok digest (cu_state standalone (tk_store t))"
  shows "silent t (fst (on_order_filled W f ev t)) \<or> one_order W t (fst (on_order_filled W f ev t))"
proof -
  have "(\<lambda>intent. case intent of None \<Rightarrow> ret_tx () | Some (_ :: hedge_intent) \<Rightarrow> submit_next_pending_hedge W f) =
    (\<lambda>intent. if intent \<noteq> None then submit_next_pending_hedge W f else ret_tx ())"
    by (auto split: option.split)
  then show ?thesis
    using hands_after_store [OF w l source_drives [OF w s], where f = f and c = "\<lambda>i. i \<noteq> None"]
      hands_after_store [OF w l hedge_drives [OF w], where f = f and c = "\<lambda>b. b"]
    unfolding on_order_filled_def Let_def by simp
qed

lemma hands_once: "hands_orders digest W t t' \<Longrightarrow> \<exists>u. hands_orders digest W t u \<and> hands_orders digest W u t'"
  by (intro exI [of _ t']) (simp add: hands_orders_def store_runs.none)

lemma hands_drain:
  assumes w: "standalone_wiring digest W" and l: "ledger_ok digest (cu_state standalone (tk_store t))"
  shows "silent t (fst (continue_drain W f t)) \<or> one_order W t (fst (continue_drain W f t))"
proof -
  obtain u x where u: "submit_next_pending_hedge W f t = (u, x)" by fastforce
  have r: "bind_tx (on_store (wi_release W)) (\<lambda>_. ret_tx ()) u = (u, Inr ())"
    by (simp add: wiringD [OF w] standalone_release_def on_store_def bind_tx_def)
  have "fst (continue_drain W f t) = u" using r by (cases x) (simp_all add: continue_drain_def bind_tx_def u)
  with hedge_hands [OF w l, of f] u show ?thesis by simp
qed

lemma arm_effect: "silent t (fst (arm_one_shot W running t)) \<or> arms t (fst (arm_one_shot (W :: store wiring) running t))"
  if "wi_store W = standalone_object digest"
proof -
  have c: "sb_custody (wi_store W) = standalone" by (simp add: that)
  show ?thesis
    by (auto simp: arm_one_shot_def Let_def c arms_def subscribe_source_book_def send_def)
qed

lemma event_hands:
  assumes w: "standalone_wiring digest W" and s: "sane_taker digest W e t"
    and l: "ledger_ok digest (cu_state standalone (tk_store t))"
  shows "(\<exists>u. hands_orders digest W t u \<and> hands_orders digest W u (run_taker W e t)) \<or> arms t (run_taker W e t)"
proof -
  let ?t = "run_taker W e t"
  note runs = run_taker_drives [OF w s]
  have once: ?thesis if "silent t ?t \<or> one_order W t ?t"
    using hands_once [of digest W t ?t] that runs by (simp add: hands_orders_def)
  note ev = evaluate_hands [OF w]
  show ?thesis
  proof (cases e)
    case (QuoteTick f f' i)
    show ?thesis
    proof (cases "i = tc_hedge_instrument_id (wi_config W)")
      case True
      obtain u x where u: "submit_next_pending_hedge W f t = (u, x)" by fastforce
      have h: "hands_orders digest W t u"
        using hedge_hands [OF w l, of f] drives_apply [OF drives_next_hedge [OF w, of f t]] u by (simp add: hands_orders_def)
      show ?thesis
      proof (cases x)
        case (Inl ex)
        with True QuoteTick u have "?t = u" by (simp add: on_quote_tick_def bind_tx_def)
        with hands_once [OF h] show ?thesis by simp
      next
        case (Inr y)
        with True QuoteTick u have "?t = fst (evaluate_and_submit W f' u)" by (simp add: on_quote_tick_def bind_tx_def)
        moreover have "fresh_order f' u" using s QuoteTick u by (simp add: sane_taker_def)
        ultimately have "hands_orders digest W u ?t"
          using ev [of u f'] drives_apply [OF drives_evaluate [OF w]] by (simp add: hands_orders_def)
        with h show ?thesis by blast
      qed
    qed (use QuoteTick in \<open>intro once; simp add: on_quote_tick_def\<close>)
  next
    case (BookDeltas f i)
    let ?u = "t\<lparr>tk_book_callbacks := tk_book_callbacks t + 1\<rparr>"
    have "silent t ?u" by (simp add: silent_same)
    then have "silent t (fst (evaluate_and_submit W f ?u)) \<or> one_order W t (fst (evaluate_and_submit W f ?u))"
      by (rule silent_before) (use ev in simp_all)
    with BookDeltas show ?thesis by (intro once) (simp add: on_order_book_deltas_def)
  next
    case (AccountEvaluation f g)
    let ?u = "t\<lparr>tk_account_handle := None\<rparr>"
    have "silent t ?u" by (simp add: silent_same)
    then have "silent t (fst (evaluate_and_submit W f ?u)) \<or> one_order W t (fst (evaluate_and_submit W f ?u))"
      by (rule silent_before) (use ev in simp_all)
    with AccountEvaluation show ?thesis by (intro once) (simp add: evaluate_account_update_def)
  next
    case (OrderFilled f ev')
    with hands_filled [OF w _ l, of f ev'] s show ?thesis by (intro once) simp
  next
    case (ContinueDrain f)
    with hands_drain [OF w l] show ?thesis by (intro once) simp
  next
    case (Arm running)
    with arm_effect [OF wiringD(1) [OF w], of t running] once show ?thesis by auto
  next
    case (Start sf)
    with silent_start [of W sf] show ?thesis by (intro once) (simp add: always_def)
  qed (intro once, simp add: silent_status silent_terminated silent_answer silent_market silent_stop)+
qed

section \<open>Every run\<close>

fun is_source :: "request \<Rightarrow> bool" where
  "is_source (SendSource _) = True"
| "is_source _ = False"

definition sources_sent :: "'w taker \<Rightarrow> request list" where
  "sources_sent t = filter is_source (tk_sent t)"

definition custody_ok :: "store wiring \<Rightarrow> store taker \<Rightarrow> bool" where
  "custody_ok W t \<longleftrightarrow> (\<forall>q \<in> set (tk_sent t). request_on_file q (tk_store t)) \<and>
    (wi_one_shot W \<longrightarrow> length (sources_sent t) \<le> 1 \<and> (tk_armed t \<longrightarrow> sources_sent t = []))"

lemma harmless_on_file: "\<not> is_order q \<Longrightarrow> request_on_file q w"
  by (cases q) simp_all

lemma harmless_sources: "\<not> list_ex is_order qs \<Longrightarrow> filter is_source qs = []"
proof -
  have "is_source q \<Longrightarrow> is_order q" for q by (cases q) simp_all
  then show "\<not> list_ex is_order qs \<Longrightarrow> filter is_source qs = []" by (auto simp: list_ex_iff filter_empty_conv)
qed

lemma custody_silent:
  assumes "custody_ok W t" "\<forall>q \<in> set (tk_sent t). request_on_file q (tk_store t')"
    and "tk_sent t' = tk_sent t @ qs" "\<not> list_ex is_order qs" "wi_one_shot W \<Longrightarrow> tk_armed t' \<Longrightarrow> sources_sent t = []"
  shows "custody_ok W t'"
proof -
  have "sources_sent t' = sources_sent t" using harmless_sources [OF assms(4)] assms(3) by (simp add: sources_sent_def)
  moreover have "\<forall>q \<in> set qs. request_on_file q (tk_store t')" using assms(4) harmless_on_file by (auto simp: list_ex_iff)
  ultimately show ?thesis using assms by (auto simp: custody_ok_def)
qed

lemma custody_hands:
  assumes "hands_orders digest W t t'" "custody_ok W t" "ledger_ok digest (cu_state standalone (tk_store t))"
  shows "custody_ok W t'"
proof -
  have old: "\<forall>q \<in> set (tk_sent t). request_on_file q (tk_store t')"
    using assms request_stays_on_file by (auto simp: hands_orders_def custody_ok_def)
  from assms(1) consider (silent) "silent t t'" | (order) "one_order W t t'" by (auto simp: hands_orders_def)
  then show ?thesis
  proof cases
    case silent
    then obtain qs where "tk_sent t' = tk_sent t @ qs" "\<not> list_ex is_order qs" "tk_armed t' \<longrightarrow> tk_armed t"
      by (auto simp: silent_def)
    with custody_silent [OF assms(2) old] assms(2) show ?thesis by (auto simp: custody_ok_def)
  next
    case order
    then obtain q where q: "tk_sent t' = tk_sent t @ [q]" "request_on_file q (tk_store t')"
      "case q of SendSource _ \<Rightarrow> wi_one_shot W \<longrightarrow> tk_armed t \<and> \<not> tk_armed t' | _ \<Rightarrow> tk_armed t' \<longrightarrow> tk_armed t"
      by (auto simp: one_order_def)
    have "sources_sent t' = sources_sent t @ (if is_source q then [q] else [])" by (simp add: sources_sent_def q)
    with q old assms(2) show ?thesis unfolding custody_ok_def by (cases q) simp_all
  qed
qed

lemma custody_arms:
  assumes "arms t t'" "custody_ok W t"
  shows "custody_ok W t'"
proof -
  have none: "sources_sent t = []"
  proof (rule ccontr)
    assume "sources_sent t \<noteq> []"
    then obtain q where "SendSource q \<in> set (tk_sent t)"
      by (auto simp: sources_sent_def filter_empty_conv elim: is_source.elims)
    with assms have "on_file (has_order (sq_client_order_id q) (sq_side q) (sq_quantity q)) (tk_store t)"
      by (auto simp: custody_ok_def)
    with assms(1) show False by (auto simp: arms_def on_file_def on_record_def has_order_def)
  qed
  from assms(1) obtain qs where "tk_sent t' = tk_sent t @ qs" "\<not> list_ex is_order qs" "tk_store t' = tk_store t"
    by (auto simp: arms_def)
  with assms(2) none show ?thesis by (intro custody_silent [OF assms(2)]) (auto simp: custody_ok_def)
qed

lemma reachable_ledger:
  assumes "standalone_wiring digest W" "taker_reachable digest W t"
  shows "ledger_ok digest (cu_state standalone (tk_store t))"
  using reachable_invariant [OF taker_store_reachable [OF assms] ledger_empty run_op_ledger] by (simp add: on_record_def)

lemma request_on_file_open: "request_on_file q w \<Longrightarrow> request_on_file q (open_store (st_file w) answers)"
  by (cases q) (simp_all add: on_file_open)

lemma reachable_custody:
  assumes w: "standalone_wiring digest W"
  shows "taker_reachable digest W t \<Longrightarrow> custody_ok W t"
proof (induction rule: taker_reachable.induct)
  case (created answers t)
  then show ?case by (auto simp: make_taker_def Let_def custody_ok_def sources_sent_def split: if_splits)
next
  case (happened t e)
  note l = reachable_ledger [OF w happened(1)]
  from event_hands [OF w happened(2) l] show ?case
  proof (elim disjE exE conjE)
    fix u assume u: "hands_orders digest W t u" "hands_orders digest W u (run_taker W e t)"
    have "ledger_ok digest (cu_state standalone (tk_store u))" using runs_ledger [OF _ l] u(1) by (simp add: hands_orders_def)
    then show ?thesis using custody_hands u l happened by blast
  qed (use custody_arms happened in blast)
next
  case (restarted t answers t')
  from restarted(2) have t': "tk_store t' = open_store (st_file (tk_store t)) answers" "\<not> tk_armed t'"
    by (auto simp: make_taker_def Let_def split: if_splits)
  with restarted(3) show ?case by (auto simp: custody_ok_def request_on_file_open sources_sent_def)
qed

text \<open>C2: write-ahead. In every run of the Taker, with any failures of writes and any restarts, every order that
  was ever handed to the platform is on file: a source order is recorded, with its side and
  quantity, and a hedge order's identity is bound to its obligation, in memory and on disk.\<close>

theorem orders_written_ahead:
  assumes "standalone_wiring digest W" "taker_reachable digest W t"
  shows "(SendSource q \<in> set (tk_sent t) \<longrightarrow>
      on_file (has_order (sq_client_order_id q) (sq_side q) (sq_quantity q)) (tk_store t)) \<and>
    (SendHedge h \<in> set (tk_sent t) \<longrightarrow> on_file (has_binding (hq_intent_id h) (hq_client_order_id h)) (tk_store t))"
  using reachable_custody [OF assms] by (auto simp: custody_ok_def)

theorem orders_written_ahead_witness:
  "SendSource ex_source_request \<in> set (tk_sent (ex_claimed False)) \<and>
    on_file (has_order ''s1'' SELL 2) (tk_store (ex_claimed False))"
  using orders_written_ahead [OF ex_wiring_standalone ex_claimed_reachable, of ex_source_request False]
  by (simp add: ex_claimed_eq ex_source_request_def)

text \<open>C8: the one-shot Taker sends one source order in its life: over every run, restarts included, at most one
  source order is handed to the platform, and never one while it is still armed.\<close>

theorem one_shot_sends_once:
  assumes "standalone_wiring digest W" "wi_one_shot W" "taker_reachable digest W t"
  shows "length (sources_sent t) \<le> 1 \<and> (tk_armed t \<longrightarrow> sources_sent t = [])"
  using reachable_custody [OF assms(1,3)] assms(2) by (simp add: custody_ok_def)

theorem one_shot_sends_once_witness:
  "sources_sent (ex_claimed True) = [SendSource ex_source_request] \<and> length (sources_sent (ex_claimed True)) \<le> 1"
proof -
  have "length (sources_sent (ex_claimed True)) \<le> 1"
    using one_shot_sends_once [OF ex_wiring_standalone _ ex_claimed_reachable] by simp
  then show ?thesis by (simp add: ex_claimed_eq sources_sent_def ex_ready_eq)
qed

theorem taker_refines_store_witness:
  "store_reachable id (tk_store (ex_claimed False)) \<and>
    (let s = cu_state standalone (tk_store (ex_claimed False))
     in ss_net_unhedged_ounces s + obliged_ounces s = filled_ounces s)"
  using taker_refines_store [OF ex_wiring_standalone ex_claimed_reachable, of False] by (simp add: on_record_def)

end
