(* ===== verification/Taker_Evidence.thy ===== *)
theory Taker_Evidence
  imports Taker_Custody
begin

text \<open>
  The Taker's evidence: a terminal order is released only on an exact report, and a cost snapshot
  that was given up only yields to a newer one.
\<close>

section \<open>A terminal order is confirmed on an exact report\<close>

definition confirmed_state :: "string \<Rightarrow> store_state \<Rightarrow> store_state" where
  "confirmed_state cid s = (let s = (if ss_active_source_order_id s = Some cid then s\<lparr>ss_active_source_order_id := None\<rparr> else s)
    in if ss_halt_reason s = Some (source_reconcile_reason cid) then set_halt None s else s)"

lemma set_view_again [simp]:
  "cu_set_view standalone v (cu_set_view standalone v' w) = cu_set_view standalone v w"
  "cu_set_view standalone (cu_view standalone w) w = w"
  by (simp_all add: standalone_def)

lemma confirmed:
  assumes "confirm_source_reconciled standalone cid w = (w', Inr ())"
  shows "cu_state standalone w' = confirmed_state cid (cu_state standalone w) \<and>
    st_file w' = Some (confirmed_state cid (cu_state standalone w))"
proof -
  let ?s = "cu_state standalone w"
  let ?w = "upd_state standalone (confirmed_state cid) w"
  from assms have "rolling_back standalone ?s (cu_persist standalone) ?w = (w', Inr ())"
    by (auto simp: confirm_source_reconciled_def Let_def bind_tx_def on_view_def update_state_def upd_state_def confirmed_state_def
        modify_tx_def Let_def split: if_splits)
  then have "cu_persist standalone ?w = (w', Inr ())"
    by (auto simp: rolling_back_def split: prod.splits sum.splits if_splits)
  from persist_standalone_state [OF this] show ?thesis by simp
qed

text \<open>What a callback must meet to release the order.\<close>

definition release_due ::
  "'w wiring \<Rightarrow> bool \<Rightarrow> terminal_event \<Rightarrow> nat \<Rightarrow> status_report option \<Rightarrow> terminal_order option \<Rightarrow> 'w taker \<Rightarrow> bool"
where
  "release_due W blocked event g report order t \<longleftrightarrow> g = tk_terminal_generation t \<and> \<not> blocked \<and> \<not> tk_terminal_stopped t \<and>
    te_client_order_id event \<in> tk_terminal_inflight t \<and>
    (\<exists>r. report = Some r \<and> source_cancel_report_is_exact
      (dict_get (ss_source_orders (cu_state (sb_custody (wi_store W)) (tk_store t))) (te_client_order_id event)) order
      event r (tc_source_instrument_id (wi_config W)) (tc_source_accounts (wi_config W)) False)"

lemma callback_cases:
  assumes "terminal_callback W blocked event g report order t = (t', released)"
  shows "if released then release_due W blocked event g report order t \<and>
      (\<exists>w u. confirm_source_reconciled (sb_custody (wi_store W)) (te_client_order_id event) (tk_store t) = (w, Inr u) \<and>
        t' = t\<lparr>tk_store := w, tk_terminal_inflight := tk_terminal_inflight t - {te_client_order_id event}\<rparr>)
    else t' = t \<or> release_due W blocked event g report order t \<and>
      (\<exists>w e. confirm_source_reconciled (sb_custody (wi_store W)) (te_client_order_id event) (tk_store t) = (w, Inl e) \<and>
        t' = t\<lparr>tk_store := w\<rparr>)"
  using assms
  by (auto simp: terminal_callback_def complete_source_terminal_query_def release_due_def Let_def on_store_def
      split: if_splits option.splits prod.splits sum.splits)

text \<open>C22: a terminal source order is released only on exact evidence. When the answer of the venue query releases
  the order, the query was the current generation's, the strategy not stopped, the recorded order
  stands with the event's status, and report and order agree with it on identity, account, quantity
  and filled quantity; then the active order and its own reconciliation halt, and nothing else, are
  cleared in memory and on disk. Otherwise nothing happens, except that a failed confirmation may
  have touched the store.\<close>

theorem terminal_release_on_evidence:
  assumes "wi_store W = standalone_object digest"
    and "terminal_callback W blocked event g report order t = (t', released)"
  shows "if released then
      (\<exists>rep ord record. report = Some rep \<and> order = Some ord \<and>
        dict_get (ss_source_orders (cu_state standalone (tk_store t))) (te_client_order_id event) = Some record \<and>
        so_client_order_id record = te_client_order_id event \<and> so_status record = terminal_name event \<and>
        rp_order_status rep = terminal_name event \<and> to_is_closed ord \<and>
        rp_quantity rep = so_quantity_ounces record \<and> rp_filled_qty rep = so_filled_ounces record \<and>
        to_filled_qty ord = so_filled_ounces record \<and> so_source_account_id record = Some (rp_account_id rep)) \<and>
      g = tk_terminal_generation t \<and> \<not> tk_terminal_stopped t \<and> te_client_order_id event \<in> tk_terminal_inflight t \<and>
      tk_terminal_inflight t' = tk_terminal_inflight t - {te_client_order_id event} \<and>
      cu_state standalone (tk_store t') = confirmed_state (te_client_order_id event) (cu_state standalone (tk_store t)) \<and>
      st_file (tk_store t') = Some (cu_state standalone (tk_store t'))
    else t' = t \<or> (\<exists>e. confirm_source_reconciled standalone (te_client_order_id event) (tk_store t) = (tk_store t', Inl e) \<and>
      t' = t\<lparr>tk_store := tk_store t'\<rparr>)"
proof (cases released)
  case True
  with callback_cases [OF assms(2)] obtain w where d: "release_due W blocked event g report order t"
    and w: "confirm_source_reconciled standalone (te_client_order_id event) (tk_store t) = (w, Inr ())"
      "t' = t\<lparr>tk_store := w, tk_terminal_inflight := tk_terminal_inflight t - {te_client_order_id event}\<rparr>"
    by (auto simp: assms(1))
  from d obtain r where r: "report = Some r"
    "source_cancel_report_is_exact (dict_get (ss_source_orders (cu_state standalone (tk_store t))) (te_client_order_id event)) order
      event r (tc_source_instrument_id (wi_config W)) (tc_source_accounts (wi_config W)) False"
    by (auto simp: release_due_def assms(1))
  from cancel_report_exactD [OF r(2)] r(1) d confirmed [OF w(1)] w(2) True show ?thesis
    by (auto simp: release_due_def)
next
  case False
  with callback_cases [OF assms(2)] show ?thesis by (auto simp: assms(1))
qed

definition ex_event :: terminal_event where
  "ex_event = \<lparr>te_is_canceled = True, te_client_order_id = ''s1'', te_venue_order_id = Some ''v1'',
    te_instrument_id = ''XAUT'', te_account_id = Some ''BFX''\<rparr>"

definition ex_order :: terminal_order where
  "ex_order = \<lparr>to_instrument_id = ''XAUT'', to_account_id = Some ''BFX'', to_client_order_id = ''s1'',
    to_venue_order_id = Some ''v1'', to_status = ''CANCELED'', to_is_closed = True, to_side = Some SELL,
    to_order_type = ''LIMIT'', to_time_in_force = ''IOC'', to_is_post_only = False, to_is_reduce_only = False,
    to_quantity = 2, to_filled_qty = 0, to_price = Some 2000, to_avg_px = None\<rparr>"

definition ex_report :: "rat \<Rightarrow> status_report" where
  "ex_report quantity = \<lparr>rp_instrument_id = ''XAUT'', rp_account_id = ''BFX'', rp_client_order_id = Some ''s1'',
    rp_venue_order_id = ''v1'', rp_order_status = ''CANCELED'', rp_order_side = Some SELL, rp_order_type = ''LIMIT'',
    rp_time_in_force = ''IOC'', rp_post_only = False, rp_reduce_only = False, rp_quantity = quantity,
    rp_filled_qty = 0, rp_price = Some 2000, rp_avg_px = None\<rparr>"

definition ex_cancelled_state :: store_state where
  "ex_cancelled_state = empty_state\<lparr>ss_source_orders := [(''s1'', ex_record\<lparr>so_status := ''CANCELED''\<rparr>)],
    ss_active_source_order_id := Some ''s1'', ss_halt_reason := Some (source_reconcile_reason ''s1'')\<rparr>"

definition ex_asking :: "store taker" where
  "ex_asking = (ex_ready False)\<lparr>tk_store := open_store (Some ex_cancelled_state) [], tk_terminal_inflight := {''s1''}\<rparr>"

lemma ex_asking_run: "tk_terminal_generation ex_asking = 0" "\<not> tk_terminal_stopped ex_asking" "tk_terminal_inflight ex_asking = {''s1''}"
  "cu_state standalone (tk_store ex_asking) = ex_cancelled_state"
  by (simp_all add: ex_asking_def ex_ready_eq ex_created_def make_taker_def Let_def open_store_def standalone_simps)

lemma ex_report_exact:
  "source_cancel_report_is_exact (dict_get (ss_source_orders ex_cancelled_state) ''s1'') (Some ex_order) ex_event (ex_report q)
    (tc_source_instrument_id ex_taker_config) (tc_source_accounts ex_taker_config) False \<longleftrightarrow> q = 2"
  by (simp add: ex_cancelled_state_def source_cancel_report_is_exact_def ex_order_def ex_event_def ex_report_def ex_record_def
      ex_taker_config_def route_of_record_def terminal_name_def order_shape_is_exact_def average_is_exact_def Let_def)

lemma ex_confirm: "\<exists>w. confirm_source_reconciled standalone ''s1'' (tk_store ex_asking) = (w, Inr ())"
  by (simp add: confirm_source_reconciled_def ex_asking_run Let_def bind_tx_def rolling_back_def on_view_def update_state_def modify_tx_def
    ex_cancelled_state_def ex_record_def) (simp add: ex_asking_def open_store_def standalone_def persist_well)

theorem terminal_release_on_evidence_witness:
  "(\<exists>t'. terminal_callback (ex_wiring False) False ex_event 0 (Some (ex_report 2)) (Some ex_order) ex_asking = (t', True) \<and>
      tk_terminal_inflight t' = {} \<and> ss_active_source_order_id (cu_state standalone (tk_store t')) = None \<and>
      ss_halt_reason (cu_state standalone (tk_store t')) = None) \<and>
    terminal_callback (ex_wiring False) False ex_event 0 (Some (ex_report 1)) (Some ex_order) ex_asking = (ex_asking, False)"
proof -
  obtain w where w: "confirm_source_reconciled standalone ''s1'' (tk_store ex_asking) = (w, Inr ())" using ex_confirm ..
  have e: "te_client_order_id ex_event = ''s1''" by (simp add: ex_event_def)
  obtain t' where t': "terminal_callback (ex_wiring False) False ex_event 0 (Some (ex_report 2)) (Some ex_order) ex_asking = (t', True)"
    using w ex_report_exact [of 2]
    by (simp add: terminal_callback_def complete_source_terminal_query_def ex_asking_run e Let_def on_store_def)
  have n: "terminal_callback (ex_wiring False) False ex_event 0 (Some (ex_report 1)) (Some ex_order) ex_asking = (ex_asking, False)"
    using ex_report_exact [of 1]
    by (simp add: terminal_callback_def complete_source_terminal_query_def ex_asking_run e Let_def)
  show ?thesis
    using terminal_release_on_evidence [OF _ t', of id] t' n
    by (simp add: e ex_asking_run confirmed_state_def ex_cancelled_state_def empty_state_def Let_def set_halt_def)
qed

section \<open>Costs only move forward\<close>

text \<open>Time only advances; at one time the snapshot is one, and once invalid it stays so.\<close>

definition cost_step :: "'w taker \<Rightarrow> 'w taker \<Rightarrow> bool" where
  "cost_step t t' \<longleftrightarrow> tk_cost_ts t \<le> tk_cost_ts t' \<and>
    (tk_cost_ts t' = tk_cost_ts t \<longrightarrow> (tk_cost_valid t' \<longrightarrow> tk_cost_valid t) \<and> tk_carry t' = tk_carry t \<and> tk_fx t' = tk_fx t)"

lemma cost_same: "tk_cost_ts t' = tk_cost_ts t \<Longrightarrow> tk_cost_valid t' = tk_cost_valid t \<Longrightarrow> tk_carry t' = tk_carry t \<Longrightarrow>
    tk_fx t' = tk_fx t \<Longrightarrow> cost_step t t'"
  by (simp add: cost_step_def)

interpretation costs: step_order cost_step
  by unfold_locales (auto simp: cost_step_def)

lemma cost_invalidate: "cost_step t (invalidate_cost_snapshot t)"
  by (simp add: cost_step_def invalidate_cost_snapshot_def)

lemma cost_update: "cost_step t (fst (update_cost_snapshot W carry fx ts now t))"
  by (auto simp: update_cost_snapshot_def cost_invalidate costs.refl) (simp_all add: cost_step_def)

lemma cost_send: "cost_step t (send q t)"
  by (simp add: cost_same send_def)

lemma cost_sent: "always cost_step (\<lambda>t. (send q t, r t))"
  by (simp add: always_def cost_send)

text \<open>A failed submission: the request went out, the store is told.\<close>

lemma handed: "always cost_step (\<lambda>t. bind_tx (on_store m) (\<lambda>_. raise_tx e) (send q t))"
proof (rule costs.after [where g = "send q"])
  show "cost_step u (send q u)" for u by (rule cost_send)
  show "always cost_step (bind_tx (on_store m) (\<lambda>_. raise_tx e))" by (intro costs.bind costs.on_store costs.pure)
qed

lemma cost_gate: "always cost_step (at_gate g)"
  unfolding at_gate_def by (rule costs.modify) (simp add: cost_same)

lemma cost_submit_source: "always cost_step (submit_source W f opp ts)"
proof -
  have order: "always cost_step (submit_source_order W f q)" for q
    unfolding submit_source_order_def
    by (cases "fa_submission f") (simp_all add: cost_sent handed)
  have place: "always cost_step (place_source_order W f opp q ts)" for q
    unfolding place_source_order_def Let_def
    by (intro costs.bind costs.pure order costs.modify)
      (auto simp: always_def alwaysD [OF costs.on_store] cost_same split: option.split)
  have target: "always cost_step (claim_close_target plan)" for plan
    by (cases plan; cases "tl plan") (auto simp: always_def claim_close_target_def cost_same)
  have exe: "always cost_step (source_hedge_is_executable W f opp q)" for q
    using target by (auto simp: always_def source_hedge_is_executable_def Let_def costs.refl split: sum.split)
  have shot: "always cost_step (claim_one_shot W)"
    by (auto simp: always_def claim_one_shot_def cost_same)
  have body: "always cost_step (bind_tx (lift_tx y) (\<lambda>q. bind_tx (case wi_admission W of None \<Rightarrow> ret_tx True
      | Some admits \<Rightarrow> on_store (admits side q)) (\<lambda>admitted. if \<not> admitted then ret_tx False
      else bind_tx (source_hedge_is_executable W f opp q) (\<lambda>executable. if \<not> executable then ret_tx False
        else bind_tx (claim_one_shot W) (\<lambda>claimed. if \<not> claimed then ret_tx False
          else place_source_order W f opp q ts)))))" for y side
    by (intro costs.bind costs.pure costs.cases costs.on_store place exe shot)
  show ?thesis
    unfolding submit_source_def by (intro costs.cases costs.pure body)
qed

lemma cost_evaluate: "always cost_step (evaluate_and_submit W f)"
proof -
  have inputs: "always cost_step (inputs_are_fresh W f ts tick)" for ts tick
    by (auto simp: always_def inputs_are_fresh_def cost_invalidate costs.refl split: sum.split bool.split)
  have opp: "always cost_step (bind_tx (lift_tx y) (\<lambda>opp. case opp of None \<Rightarrow> at_gate g
      | Some opp \<Rightarrow> bind_tx (at_gate g') (\<lambda>_. bind_tx (submit_source W f opp m) (\<lambda>b. at_gate (h b)))))" for y g g' m h
    by (intro costs.bind costs.pure costs.cases cost_gate cost_submit_source)
  have market: "always cost_step (evaluate_market W f reference ts tick accounts hedge)" for reference ts tick accounts hedge
    unfolding evaluate_market_def Let_def always_def
    by (intro allI) (auto intro!: alwaysD [OF cost_gate] costs.bind_run alwaysD [OF costs.pure(3)] alwaysD [OF opp]
        split: option.split)
  have book: "always cost_step (evaluate_book W f book tick)" for book tick
    unfolding evaluate_book_def
    by (intro costs.bind costs.pure costs.cases cost_gate inputs) (auto intro: market costs.cases cost_gate split: option.split)
  show ?thesis
    unfolding evaluate_and_submit_def always_def
    by (intro allI) (auto intro!: alwaysD [OF cost_gate] costs.bind_run alwaysD [OF costs.on_store] alwaysD [OF book]
        split: option.split)
qed

lemma cost_hedge: "always cost_step (submit_next_pending_hedge W f)"
proof -
  have order: "always cost_step (submit_hedge_order W f q)" for q
    unfolding submit_hedge_order_def
    by (cases "fa_submission f") (simp_all add: cost_sent handed)
  have place: "always cost_step (place_hedge_order W f iid leg)" for iid leg
    unfolding place_hedge_order_def by (intro costs.bind costs.pure costs.on_store order)
  have "always cost_step (submit_hedge_intent W f i)" for i
    unfolding always_def
  proof
    fix t
    obtain u r where u: "on_store (next_hedge_leg (wi_store W) (hi_intent_id i) (fa_hedge_positions f)) t = (u, r)" by fastforce
    have "cost_step t u" using alwaysD [OF costs.on_store] u by (metis fst_conv)
    then show "cost_step t (fst (submit_hedge_intent W f i t))"
      by (auto simp: submit_hedge_intent_def Let_def costs.refl u alwaysD [OF costs.on_store]
          intro: costs.trans alwaysD [OF place] split: sum.split)
  qed
  then show ?thesis
    by (auto simp: always_def submit_next_pending_hedge_def costs.refl split: option.split)
qed

lemma cost_status:
  "always cost_step (update_order_status W b cid acc)" "always cost_step (finish_or_reject W b cid st)"
  "always cost_step (on_order_rejected W b cid reason)"
  by (simp_all add: always_def update_order_status_def finish_or_reject_def on_order_rejected_def Let_def
      costs.refl alwaysD [OF costs.on_store])

lemma cost_terminated: "always cost_step (on_order_terminated W b ev out)"
  unfolding on_order_terminated_def
  by (intro costs.bind cost_status costs.modify)
    (auto simp: request_source_terminal_query_def Let_def send_def intro: cost_same split: option.split)

lemma cost_answer: "cost_step t (fst (terminal_callback W b ev g report order t))"
  using callback_cases [of W b ev g report order t]
  by (cases "terminal_callback W b ev g report order t") (auto intro: cost_same split: if_splits)

lemma cost_filled: "always cost_step (on_order_filled W f ev)"
proof -
  have a: "always cost_step (bind_tx (on_store m) (\<lambda>intent. case intent of None \<Rightarrow> ret_tx ()
      | Some (_ :: hedge_intent) \<Rightarrow> submit_next_pending_hedge W f))" for m
    by (intro costs.bind costs.on_store costs.cases costs.pure cost_hedge)
  have b: "always cost_step (bind_tx (on_store m) (\<lambda>applied. if applied then submit_next_pending_hedge W f else ret_tx ()))" for m
    by (intro costs.bind costs.on_store costs.cases costs.pure cost_hedge)
  show ?thesis
    using a b by (simp add: on_order_filled_def Let_def always_def costs.refl)
qed

lemma cost_start: "always cost_step (on_start W sf)"
proof -
  have sub: "cost_step t (subscribe_inputs W t)" for t by (simp add: cost_same subscribe_inputs_def Let_def send_def)
  have book: "always cost_step subscribe_source_book"
    unfolding subscribe_source_book_def by (intro costs.modify) (simp add: cost_same send_def)
  have stop: "always cost_step (modify_tx (send StopSelf))" by (intro costs.modify cost_send)
  have body: "always cost_step (bind_tx (lift_tx y) (\<lambda>usable. if usable = None then modify_tx (send StopSelf)
      else bind_tx (modify_tx (\<lambda>t. if wi_live_costs W then t\<lparr>tk_hedge_valid := True\<rparr> else t)) (\<lambda>_.
        bind_tx (on_store (recover_for_start (sb_custody (wi_store W)))) (\<lambda>_.
        bind_tx (\<lambda>t. if \<not> wi_one_shot W \<or> tk_armed t then subscribe_source_book t else (t, Inr ())) (\<lambda>_.
        modify_tx (subscribe_inputs W))))))" for y :: "exn + unit option"
    by (intro costs.bind costs.cases costs.pure costs.on_store costs.modify stop sub book) (simp add: cost_same)
  show ?thesis
    unfolding on_start_def bind_account_loop_def
    by (intro costs.bind costs.cases costs.pure costs.modify; (simp add: cost_same split: option.split)?;
        intro conjI allI impI stop body)
qed

lemma cost_stop: "always cost_step (on_stop W sp)"
proof -
  have m: "cost_step t u \<Longrightarrow> cost_step t (fst (on_store m u))" for m t u
    using alwaysD [OF costs.on_store] costs.trans by blast
  have s: "cost_step t u \<Longrightarrow> cost_step t (send q u)" for q t u
    by (rule costs.trans [OF _ cost_send])
  show ?thesis
    unfolding always_def on_stop_def Let_def by (auto intro!: m s cost_same split: option.split bool.split)
qed

lemma cost_run: "cost_step t (run_taker W e t)"
proof (cases e)
  case (BookDeltas f i)
  have "always cost_step (on_order_book_deltas W f i)"
    unfolding on_order_book_deltas_def by (intro costs.cases costs.pure costs.bind costs.modify cost_evaluate) (simp add: cost_same)
  with BookDeltas show ?thesis by (simp add: alwaysD)
next
  case (QuoteTick f f' i)
  have "always cost_step (on_quote_tick W f f' i)"
    unfolding on_quote_tick_def by (intro costs.cases costs.pure costs.bind cost_evaluate cost_hedge)
  with QuoteTick show ?thesis by (simp add: alwaysD)
next
  case (AccountEvaluation f g)
  have "cost_step t (t\<lparr>tk_account_handle := None\<rparr>)" by (simp add: cost_same)
  from costs.trans [OF this alwaysD [OF cost_evaluate]] AccountEvaluation show ?thesis
    by (simp add: evaluate_account_update_def costs.refl)
next
  case (ContinueDrain f)
  have "always cost_step (continue_drain W f)"
    unfolding continue_drain_def by (intro costs.cases costs.pure costs.bind costs.on_store cost_hedge)
  with ContinueDrain show ?thesis by (simp add: alwaysD)
next
  case (FundingRate i r ts now now')
  then show ?thesis
    by (auto simp: on_funding_rate_def Let_def cost_invalidate costs.refl cost_update split: dec.split)
qed (auto simp: alwaysD [OF cost_status(1)] alwaysD [OF cost_status(2)] alwaysD [OF cost_status(3)] alwaysD [OF cost_terminated]
    cost_answer alwaysD [OF cost_filled] alwaysD [OF cost_start] alwaysD [OF cost_stop] cost_update
    on_instrument_status_def update_hedge_session_def on_instrument_def on_account_update_def begin_drain_def disarm_one_shot_def
    arm_one_shot_def Let_def subscribe_source_book_def send_def intro: cost_same split: sum.split option.split)

text \<open>C23: the cost snapshot only moves forward. Over any run its time never decreases; two moments with the same
  time have the same carry and exchange rates; and once a snapshot was given up, whatever was
  refused in between, only a strictly newer one makes costs valid again.\<close>

theorem costs_move_forward:
  "let t' = fold (run_taker W) events t in
    tk_cost_ts t \<le> tk_cost_ts t' \<and>
    (tk_cost_ts t' = tk_cost_ts t \<longrightarrow> tk_carry t' = tk_carry t \<and> tk_fx t' = tk_fx t) \<and>
    (\<not> tk_cost_valid t \<and> tk_cost_valid t' \<longrightarrow> tk_cost_ts t < tk_cost_ts t')"
proof -
  have "cost_step t (fold (run_taker W) events t)"
    by (induction events arbitrary: t) (auto intro: costs.refl costs.trans cost_run)
  then show ?thesis by (auto simp: cost_step_def Let_def)
qed

theorem costs_move_forward_witness:
  "let t = invalidate_cost_snapshot (ex_ready False);
       t' = fold (run_taker (ex_wiring False)) [CostSnapshot ex_carry (te_fx ex_taker) 995 1000] t
   in \<not> tk_cost_valid t \<and> tk_cost_valid t' \<and> tk_cost_ts t < tk_cost_ts t'"
proof -
  let ?t = "invalidate_cost_snapshot (ex_ready False)"
  let ?e = "CostSnapshot ex_carry (te_fx ex_taker) 995 1000"
  have "\<not> tk_cost_valid ?t" by (simp add: invalidate_cost_snapshot_def)
  moreover have "tk_cost_valid (fold (run_taker (ex_wiring False)) [?e] ?t)"
    by (simp add: update_cost_snapshot_def invalidate_cost_snapshot_def ex_ready_eq ex_created_run ex_taker_config_def
        ex_created_def make_taker_def Let_def)
  ultimately show ?thesis
    using costs_move_forward [where t = ?t and W = "ex_wiring False" and events = "[?e]"] unfolding Let_def by blast
qed

end
