(* ===== verification/Maker_Strategy.thy ===== *)
theory Maker_Strategy
  imports Taker_Strategy Shared_Admission
begin

text \<open>
  \<^verbatim>\<open>strategies/maker.py\<close>, first part: the strategy's state, its holds, protective cancels, stale
  timers, costs and freshness.

  The record \<open>maker\<close> holds the strategy's fields, its store (the allocation owner), the alerts it set
  at the clock, the calls it left with the event loop and, in order, the requests it handed to the
  platform. A handler reads its surroundings (clock, cache, portfolio, bound callables, outcomes of
  submissions) through the record \<open>maker_facts\<close>; where a handler reads the cache again after it has
  changed orders, it takes the facts of that later moment as a further argument. The platform does
  not re-enter the strategy from inside a request. Log lines are not modelled.
\<close>

section \<open>Configuration and state\<close>

record maker_runtime =
  mr_strategy :: maker_strategy_config
  mr_source_instrument_id :: string
  mr_hedge_instrument_id :: string
  mr_fixed_amount :: bool
  mr_max_quote_age_ns :: int
  mr_max_cross_leg_skew_ns :: int
  mr_max_cost_age_ns :: int
  mr_max_session_age_ns :: int
  mr_initial_cost_ts_ns :: int
  mr_initial_hedge_session_open :: bool
  mr_initial_session_ts_ns :: int

record maker_wiring =
  mw_config :: maker_runtime
  mw_digest :: "string \<Rightarrow> string"
  mw_admission :: "(view_key \<Rightarrow> business_side \<Rightarrow> rat \<Rightarrow> (owner, bool) tx) option"
  mw_live_costs :: bool
  mw_terminal_query :: bool
  mw_account_reader :: bool
  mw_live_clock :: bool
  mw_zone :: zone_db
  mw_trader_id :: string
  mw_strategy_id :: string

abbreviation mw_economics :: "maker_wiring \<Rightarrow> maker_economics_config" where
  "mw_economics W \<equiv> mc_economics (mr_strategy (mw_config W))"

definition bounded_carry :: "maker_wiring \<Rightarrow> bool" where
  "bounded_carry W \<longleftrightarrow> mc_residual_mode (mr_strategy (mw_config W)) = ''bounded-carry''"

record quote_request =
  qr_client_order_id :: string
  qr_side :: business_side
  qr_quantity :: rat
  qr_price :: rat
  qr_direction :: source_direction
  qr_client_id :: "string option"
  qr_leverage :: int

record modify_request =
  md_client_order_id :: string
  md_quantity :: "rat option"
  md_price :: rat
  md_client_id :: "string option"
  md_leverage :: int

datatype maker_feed = SourceQuotes | HedgeQuotes | HedgeInstruments | SourceFunding | HedgeStatusUpdates

datatype maker_request =
    SubmitQuote quote_request
  | ModifyQuote modify_request
  | CancelQuote string
  | SubmitHedge hedge_request
  | AskVenue source_direction terminal_event nat
  | MakerSubscribe maker_feed
  | StopMaker

text \<open>An acceptance of a source order, as far as the deferred cancel reads it.\<close>

record acceptance =
  ac_trader_id :: string
  ac_strategy_id :: string
  ac_instrument_id :: string
  ac_account_id :: string
  ac_client_order_id :: string
  ac_venue_order_id :: string

record maker =
  mm_store :: owner
  mm_draining :: bool
  mm_terminal_inflight :: "string set"
  mm_terminal_stopped :: bool
  mm_terminal_generation :: nat
  mm_account_loop :: bool
  mm_account_handle :: "nat option"
  mm_account_topics :: "string set"
  mm_account_deadline :: "int option"
  mm_budget_waiting :: bool
  mm_working :: "(string \<times> maker_quote_rec) list"
  mm_pending_cancels :: "string set"
  mm_timers :: "source_direction \<Rightarrow> string option"
  mm_timer_loop :: bool
  mm_hold :: bool
  mm_source_instrument :: "instrument option"
  mm_hedge_instrument :: "instrument option"
  mm_hedge_valid :: bool
  mm_carry :: carry_config
  mm_quote_carry :: carry_config
  mm_fx :: fx_config
  mm_cost_ts :: int
  mm_cost_valid :: bool
  mm_cost_recovery :: int
  mm_session_open :: bool
  mm_session_ts :: int
  mm_alerts :: "(string \<times> int \<times> nat) list"
  mm_deferred :: "(acceptance \<times> nat) list"
  mm_sent :: "maker_request list"

text \<open>\<^verbatim>\<open>__init__\<close>, on a store that was opened or passed in.\<close>

definition make_maker :: "maker_wiring \<Rightarrow> owner \<Rightarrow> maker" where
  "make_maker W store = (let c = mw_config W in
    \<lparr>mm_store = store, mm_draining = False, mm_terminal_inflight = {}, mm_terminal_stopped = False,
     mm_terminal_generation = 0, mm_account_loop = False, mm_account_handle = None, mm_account_topics = {},
     mm_account_deadline = None, mm_budget_waiting = False, mm_working = [], mm_pending_cancels = {},
     mm_timers = (\<lambda>_. None), mm_timer_loop = False, mm_hold = False, mm_source_instrument = None,
     mm_hedge_instrument = None, mm_hedge_valid = False, mm_carry = me_carry (mw_economics W),
     mm_quote_carry = me_carry (mw_economics W), mm_fx = me_fx (mw_economics W),
     mm_cost_ts = mr_initial_cost_ts_ns c, mm_cost_valid = (0 < mr_initial_cost_ts_ns c), mm_cost_recovery = 0,
     mm_session_open = mr_initial_hedge_session_open c, mm_session_ts = mr_initial_session_ts_ns c,
     mm_alerts = [], mm_deferred = [], mm_sent = []\<rparr>)"

section \<open>What a handler asks for\<close>

text \<open>The events of a cached order that are read: cancel marks and fills with their accounts.\<close>

datatype order_event =
    PendingCancelMark | CancelRejectedMark | CanceledMark | ExpiredMark | RejectedMark
  | FillMark order_filled string
  | OtherMark

record working_order =
  wo_client_order_id :: string
  wo_trader_id :: string
  wo_strategy_id :: string
  wo_instrument_id :: string
  wo_account_id :: "string option"
  wo_venue_order_id :: "string option"
  wo_status :: string
  wo_is_closed :: bool
  wo_is_pending_cancel :: bool
  wo_is_pending_update :: bool
  wo_side :: "business_side option"
  wo_price :: rat
  wo_quantity :: rat
  wo_filled_qty :: rat
  wo_leaves_qty :: rat
  wo_events :: "order_event list"

record maker_facts =
  mf_now_ns :: int
  mf_restart_blocked :: bool
  mf_source_tick :: "quote_tick option"
  mf_hedge_tick :: "quote_tick option"
  mf_order :: "string \<Rightarrow> working_order option"
  mf_client_id :: "string \<Rightarrow> string option"
  mf_account_view :: "book_top \<Rightarrow> int \<Rightarrow> book_top \<Rightarrow> int \<Rightarrow> bool \<Rightarrow>
    (source_account \<times> hedge_account \<times> int \<times> bool) option"
  mf_net_position :: "string \<Rightarrow> string \<Rightarrow> rat"
  mf_hedge_positions :: "string \<Rightarrow> position list"
  mf_submission_ready :: "(exn + bool) option"
  mf_quantity_ready :: "(rat \<Rightarrow> exn + bool) option"
  mf_refresh_paused :: bool
  mf_price_increment :: rat
  mf_make_source_qty :: "rat \<Rightarrow> exn + rat"
  mf_make_price :: "rat \<Rightarrow> exn + rat"
  mf_make_hedge_qty :: "rat \<Rightarrow> exn + rat"
  mf_fresh_order_id :: string
  mf_submission :: "exn option"
  mf_modification :: "exn option"
  mf_cancel :: "string \<Rightarrow> exn option"

definition on_owner :: "(owner, 'a) tx \<Rightarrow> (maker, 'a) tx" where
  "on_owner m = (\<lambda>t. case m (mm_store t) of (w, r) \<Rightarrow> (t\<lparr>mm_store := w\<rparr>, r))"

definition hand :: "maker_request \<Rightarrow> maker \<Rightarrow> maker" where
  "hand q t = t\<lparr>mm_sent := mm_sent t @ [q]\<rparr>"

text \<open>\<^verbatim>\<open>except Exception\<close> that only logs; \<^verbatim>\<open>except\<close> that handles and re-raises; \<^verbatim>\<open>finally\<close>.\<close>

definition quietly :: "('s, 'a) tx \<Rightarrow> ('s, unit) tx" where
  "quietly m = (\<lambda>s. (fst (m s), Inr ()))"

definition on_failure :: "('s, 'a) tx \<Rightarrow> (exn \<Rightarrow> ('s, unit) tx) \<Rightarrow> ('s, 'a) tx" where
  "on_failure m h = (\<lambda>s. case m s of (s, Inr x) \<Rightarrow> (s, Inr x) | (s, Inl e) \<Rightarrow> bind_tx (h e) (\<lambda>_. raise_tx e) s)"

definition and_finally :: "('s, 'a) tx \<Rightarrow> ('s, unit) tx \<Rightarrow> ('s, 'a) tx" where
  "and_finally m g = (\<lambda>s. case m s of (s, r) \<Rightarrow> bind_tx g (\<lambda>_. lift_tx r) s)"

definition view_object_of :: "maker_wiring \<Rightarrow> source_direction \<Rightarrow> owner store_object" where
  "view_object_of W d = view_object (mw_digest W) (direction_view d)"

abbreviation direction_store :: "source_direction \<Rightarrow> owner custody" where
  "direction_store d \<equiv> maker_view (direction_view d)"

abbreviation direction_state :: "source_direction \<Rightarrow> maker \<Rightarrow> store_state" where
  "direction_state d t \<equiv> view_of (direction_view d) (mm_store t)"

definition active_order :: "source_direction \<Rightarrow> maker \<Rightarrow> string option" where
  "active_order d t = ss_active_source_order_id (direction_state d t)"

definition direction_for_source_order :: "maker \<Rightarrow> string \<Rightarrow> source_direction option" where
  "direction_for_source_order t cid =
    (if knows_source_order (direction_state LONG t) cid then Some LONG
     else if knows_source_order (direction_state SHORT t) cid then Some SHORT else None)"

section \<open>Protective cancels\<close>

text \<open>The last cancel mark of an order decides whether its cancel is still pending.\<close>

fun is_cancel_mark :: "order_event \<Rightarrow> bool" where
  "is_cancel_mark OtherMark = False"
| "is_cancel_mark (FillMark _ _) = False"
| "is_cancel_mark _ = True"

definition cancel_is_pending :: "working_order \<Rightarrow> bool" where
  "cancel_is_pending order \<longleftrightarrow> find is_cancel_mark (rev (wo_events order)) = Some PendingCancelMark"

definition discard_pending :: "string \<Rightarrow> maker \<Rightarrow> maker" where
  "discard_pending cid t = t\<lparr>mm_pending_cancels := mm_pending_cancels t - {cid}\<rparr>"

text \<open>The cancel of one cached, open, accepted order; \<open>cancel_order\<close> is handed over even when it raises.\<close>

definition send_cancel :: "maker_facts \<Rightarrow> source_direction \<Rightarrow> string \<Rightarrow> string \<Rightarrow> (maker, unit) tx" where
  "send_cancel f d cid reason = (\<lambda>t.
     let t = hand (CancelQuote cid) (discard_pending cid t) in
     case mf_cancel f cid of
       None \<Rightarrow> (t, Inr ())
     | Some e \<Rightarrow> on_owner (mark_source_unknown (direction_store d) cid (reason @ '': Maker cancel raised '' @ exn_class e)) t)"

definition cancel_working :: "maker_facts \<Rightarrow> source_direction \<Rightarrow> string option \<Rightarrow> string \<Rightarrow> (maker, unit) tx" where
  "cancel_working f d expected reason = (\<lambda>t.
     if mf_restart_blocked f then (t, Inr ())
     else case active_order d t of
       None \<Rightarrow> (t, Inr ())
     | Some cid \<Rightarrow>
         if expected \<noteq> None \<and> expected \<noteq> Some cid then (t, Inr ())
         else case mf_order f cid of
           None \<Rightarrow> on_owner (mark_source_unknown (direction_store d) cid
             (reason @ '': active Maker order missing from cache'')) t
         | Some order \<Rightarrow>
             if wo_is_closed order \<or> wo_is_pending_cancel order \<or> cancel_is_pending order then
               (discard_pending cid t, Inr ())
             else if wo_status order \<in> {''INITIALIZED'', ''SUBMITTED''} then
               (if mm_terminal_stopped t then t
                else t\<lparr>mm_pending_cancels := insert cid (mm_pending_cancels t)\<rparr>, Inr ())
             else send_cancel f d cid reason t)"

definition cancel_all_best_effort :: "maker_facts \<Rightarrow> string \<Rightarrow> (maker, unit) tx" where
  "cancel_all_best_effort f reason =
    bind_tx (quietly (cancel_working f LONG None reason)) (\<lambda>_. quietly (cancel_working f SHORT None reason))"

definition freeze_all_best_effort :: "string \<Rightarrow> (maker, unit) tx" where
  "freeze_all_best_effort reason = quietly (on_owner (freeze_sources reason))"

definition freeze_and_cancel_all :: "maker_facts \<Rightarrow> string \<Rightarrow> bool \<Rightarrow> (maker, unit) tx" where
  "freeze_and_cancel_all f reason market_input =
    bind_tx (modify_tx (\<lambda>t. t\<lparr>mm_hold := True\<rparr>)) (\<lambda>_.
    bind_tx (if market_input then ret_tx () else freeze_all_best_effort reason) (\<lambda>_.
    if mf_restart_blocked f then ret_tx () else cancel_all_best_effort f reason))"

section \<open>Costs, session and timers\<close>

definition maker_hedge_instrument :: "maker \<Rightarrow> exn + instrument" where
  "maker_hedge_instrument t = (case mm_hedge_instrument t of
     None \<Rightarrow> Inl (RuntimeError ''hedge instrument unavailable before Maker start'') | Some i \<Rightarrow> Inr i)"

definition maker_source_instrument :: "maker \<Rightarrow> exn + instrument" where
  "maker_source_instrument t = (case mm_source_instrument t of
     None \<Rightarrow> Inl (RuntimeError ''source instrument unavailable before Maker start'') | Some i \<Rightarrow> Inr i)"

definition maker_invalidate_costs :: "maker_facts \<Rightarrow> string \<Rightarrow> (maker, unit) tx" where
  "maker_invalidate_costs f reason =
    bind_tx (modify_tx (\<lambda>t. t\<lparr>mm_cost_valid := False, mm_cost_recovery := max (mm_cost_recovery t) (mm_cost_ts t)\<rparr>))
      (\<lambda>_. freeze_and_cancel_all f reason True)"

definition maker_update_costs ::
  "maker_wiring \<Rightarrow> maker_facts \<Rightarrow> carry_config \<Rightarrow> fx_config \<Rightarrow> int \<Rightarrow> (maker, bool) tx"
where
  "maker_update_costs W f carry fx ts_event_ns = (\<lambda>t.
     let refuse = (\<lambda>reason. bind_tx (maker_invalidate_costs f reason) (\<lambda>_. ret_tx False)) in
     if ts_event_ns \<le> 0 then refuse ''Maker costs are invalid'' t
     else if \<not> (0 \<le> mf_now_ns f - ts_event_ns \<and> mf_now_ns f - ts_event_ns \<le> mr_max_cost_age_ns (mw_config W)) then
       refuse ''Maker cost observation is stale or future-dated'' t
     else if ts_event_ns < mm_cost_ts t then refuse ''Maker costs moved backwards'' t
     else if ts_event_ns = mm_cost_ts t then
       (if carry \<noteq> mm_carry t \<or> fx \<noteq> mm_fx t then refuse ''Maker costs conflict at one timestamp'' t
        else (t, Inr (mm_cost_valid t)))
     else if ts_event_ns \<le> mm_cost_recovery t then (t, Inr False)
     else let changed = (carry \<noteq> mm_carry t \<or> fx \<noteq> mm_fx t) in
       bind_tx (if changed then freeze_and_cancel_all f ''Maker costs changed'' True else ret_tx ()) (\<lambda>_. ret_tx True)
         (t\<lparr>mm_carry := carry, mm_quote_carry := carry, mm_fx := fx, mm_cost_ts := ts_event_ns,
           mm_cost_valid := True, mm_cost_recovery := 0\<rparr>))"

definition maker_timer_name :: "source_direction \<Rightarrow> string \<Rightarrow> string" where
  "maker_timer_name d order_id = ''maker-stale|'' @ direction_value d @ ''|'' @ order_id"

text \<open>\<^verbatim>\<open>split("|", 2)\<close>: at most two cuts.\<close>

definition split_twice :: "string \<Rightarrow> string list" where
  "split_twice s = (case split_bar s of
     a # b # c # rest \<Rightarrow> [a, b, drop (length a + length b + 2) s] | parts \<Rightarrow> parts)"

definition maker_timer_target :: "string \<Rightarrow> string option \<Rightarrow> string option \<Rightarrow> (source_direction \<times> string) option" where
  "maker_timer_target name active_bid active_ask = (case split_twice name of
     [prefix, direction, order_id] \<Rightarrow>
       if prefix \<noteq> ''maker-stale'' then None
       else (case find (\<lambda>d. direction_value d = direction) [LONG, SHORT] of
         None \<Rightarrow> None
       | Some d \<Rightarrow> if Some order_id \<noteq> (if d = LONG then active_bid else active_ask) then None else Some (d, order_id))
   | _ \<Rightarrow> None)"

text \<open>The earliest time at which one of the inputs of a working order goes stale.\<close>

definition stale_deadline :: "maker_wiring \<Rightarrow> quote_tick \<Rightarrow> quote_tick \<Rightarrow> maker \<Rightarrow> exn + int" where
  "stale_deadline W source_tick hedge_tick t =
    (let c = mw_config W;
         deadline = min (min (qt_ts_event source_tick + mr_max_quote_age_ns c) (qt_ts_event hedge_tick + mr_max_quote_age_ns c))
           (min (mm_cost_ts t + mr_max_cost_age_ns c) (mm_session_ts t + mr_max_session_age_ns c)) + 1
     in if \<not> mw_live_costs W then Inr deadline
        else bindE (maker_hedge_instrument t) (\<lambda>i. Inr (min deadline (ins_ts_event i + mr_max_cost_age_ns c + 1))))"

definition forget_timer :: "source_direction \<Rightarrow> maker \<Rightarrow> maker" where
  "forget_timer d t = (case mm_timers t d of
     None \<Rightarrow> t
   | Some name \<Rightarrow> t\<lparr>mm_timers := (mm_timers t)(d := None), mm_alerts := AList.delete name (mm_alerts t)\<rparr>)"

definition set_alert :: "source_direction \<Rightarrow> string \<Rightarrow> int \<Rightarrow> maker \<Rightarrow> maker" where
  "set_alert d name deadline t = t\<lparr>mm_timers := (mm_timers t)(d := Some name),
    mm_alerts := dict_set name (deadline, mm_terminal_generation t) (mm_alerts t)\<rparr>"

definition schedule_stale_timer :: "maker_wiring \<Rightarrow> maker_facts \<Rightarrow> source_direction \<Rightarrow> string \<Rightarrow> (maker, unit) tx" where
  "schedule_stale_timer W f d order_id = (\<lambda>t.
     if mm_draining t then (t, Inr ())
     else let t = forget_timer d t in
     case (mf_source_tick f, mf_hedge_tick f) of
       (Some source_tick, Some hedge_tick) \<Rightarrow>
         (case stale_deadline W source_tick hedge_tick t of
            Inl e \<Rightarrow> (t, Inl e)
          | Inr deadline \<Rightarrow>
              if \<not> mw_account_reader W then (set_alert d (maker_timer_name d order_id) deadline t, Inr ())
              else case mm_account_deadline t of
                None \<Rightarrow> (t, Inr ())
              | Some limit \<Rightarrow>
                  if min deadline limit \<le> mf_now_ns f then freeze_and_cancel_all f ''account deadline'' True t
                  else (set_alert d (maker_timer_name d order_id) (min deadline limit) t, Inr ()))
     | _ \<Rightarrow> (t, Inr ()))"

definition reschedule_active_timers :: "maker_wiring \<Rightarrow> maker_facts \<Rightarrow> (maker, unit) tx" where
  "reschedule_active_timers W f = (\<lambda>t.
     if mm_source_instrument t = None then (t, Inr ())
     else each_tx (\<lambda>d t. case active_order d t of None \<Rightarrow> (t, Inr ()) | Some cid \<Rightarrow> schedule_stale_timer W f d cid t)
       [LONG, SHORT] t)"

definition maker_update_session :: "maker_wiring \<Rightarrow> maker_facts \<Rightarrow> bool \<Rightarrow> int \<Rightarrow> (maker, unit) tx" where
  "maker_update_session W f is_open ts_event_ns = (\<lambda>t.
     if ts_event_ns < mm_session_ts t then (t, Inr ())
     else let t = t\<lparr>mm_session_open := is_open, mm_session_ts := ts_event_ns\<rparr> in
       if \<not> is_open \<or> mf_now_ns f + MAX_OBSERVATION_FUTURE_NS < ts_event_ns then
         freeze_and_cancel_all f ''hedge session closed or future-dated'' True t
       else reschedule_active_timers W f t)"

section \<open>Freshness\<close>

definition maker_costs_usable :: "maker_wiring \<Rightarrow> int \<Rightarrow> maker \<Rightarrow> exn + bool" where
  "maker_costs_usable W now_ns t =
    (if \<not> mw_live_costs W then Inr True
     else if \<not> mm_hedge_valid t then Inr False
     else bindE (maker_hedge_instrument t) (\<lambda>i.
       Inr (mt5_instrument_is_fresh i now_ns (mr_max_cost_age_ns (mw_config W)))))"

definition maker_market_fresh :: "maker_wiring \<Rightarrow> int \<Rightarrow> quote_tick \<Rightarrow> quote_tick \<Rightarrow> maker \<Rightarrow> bool" where
  "maker_market_fresh W now_ns source_tick hedge_tick t =
    (let c = mw_config W in market_inputs_are_fresh now_ns (qt_ts_event source_tick) (qt_ts_event hedge_tick) (mm_cost_ts t)
      (mm_session_ts t) (mm_session_open t) (mr_max_quote_age_ns c) (mr_max_cross_leg_skew_ns c) (mr_max_cost_age_ns c)
      (mr_max_session_age_ns c))"

definition maker_inputs_fresh :: "maker_wiring \<Rightarrow> maker_facts \<Rightarrow> quote_tick \<Rightarrow> quote_tick \<Rightarrow> (maker, bool) tx" where
  "maker_inputs_fresh W f source_tick hedge_tick = (\<lambda>t. case maker_costs_usable W (mf_now_ns f) t of
     Inl e \<Rightarrow> (t, Inl e)
   | Inr False \<Rightarrow> (t, Inr False)
   | Inr True \<Rightarrow>
       if mf_submission_ready f \<noteq> None \<and> mf_submission_ready f \<noteq> Some (Inr True) then (t, Inr False)
       else if \<not> mm_cost_valid t then (t, Inr False)
       else if mf_now_ns f < mm_cost_ts t then
         bind_tx (maker_invalidate_costs f ''Maker costs are future-dated'') (\<lambda>_. ret_tx False) t
       else (t, Inr (maker_market_fresh W (mf_now_ns f) source_tick hedge_tick t)))"

definition maker_carry :: "maker_wiring \<Rightarrow> quote_tick \<Rightarrow> int \<Rightarrow> maker \<Rightarrow> exn + carry_config option" where
  "maker_carry W tick now_ns t =
    (if \<not> mw_live_costs W then Inr (Some (mm_carry t))
     else bindE (or_unavailable (bindE (maker_hedge_instrument t) (\<lambda>i.
         bindE (mt5_swap_spec (mw_zone W) i) (\<lambda>spec. swap_of_spec (mw_zone W) spec (qt_ask_price tick) now_ns)))) (\<lambda>swap.
       Inr (map_option (\<lambda>(swap_long, swap_short). \<lparr>cc_bitfinex_long = cc_bitfinex_long (mm_carry t),
           cc_bitfinex_short = cc_bitfinex_short (mm_carry t), cc_mt5_long_swap = swap_long,
           cc_mt5_short_swap = swap_short, cc_total_trade_fee = cc_total_trade_fee (me_carry (mw_economics W))\<rparr>) swap)))"

definition maker_quote_is_fresh :: "maker_wiring \<Rightarrow> quote_tick \<Rightarrow> int \<Rightarrow> bool" where
  "maker_quote_is_fresh W tick now_ns \<longleftrightarrow>
    qt_ts_event tick \<le> now_ns \<and> now_ns - qt_ts_event tick \<le> mr_max_quote_age_ns (mw_config W)"

section \<open>The obligation block\<close>

definition global_obligation_block :: "maker \<Rightarrow> bool" where
  "global_obligation_block t \<longleftrightarrow> (let w = mm_store t; cfg = ow_config w in
     mm_hold t \<or> ow_freeze_publication_failed w \<or> \<not> source_balance_is_admissible cfg (owner_snapshot w)
     \<or> list_ex (\<lambda>k. ss_halt_reason (view_of k w) \<noteq> None \<or> ss_source_freeze_reason (view_of k w) \<noteq> None
         \<or> has_unresolved_hedges (view_of k w) \<or> \<not> view_admissible k w) (view_keys cfg))"

definition try_release_cycle :: "maker_facts \<Rightarrow> bool \<Rightarrow> (maker, bool) tx" where
  "try_release_cycle f inputs_fresh = (\<lambda>t.
     let w = mm_store t; cfg = ow_config w in
     if mf_restart_blocked f then (t, Inr False)
     else if \<not> owner_cycle_freeze_only w then
       (if \<not> inputs_fresh \<or> ow_freeze_publication_failed w \<or> \<not> source_balance_is_admissible cfg (owner_snapshot w)
         \<or> list_ex (\<lambda>k. ss_halt_reason (view_of k w) \<noteq> None \<or> ss_source_freeze_reason (view_of k w) \<noteq> None
             \<or> \<not> cycle_evidence_complete (maker_view k) w) (view_keys cfg)
        then (t, Inr False) else (t\<lparr>mm_hold := False\<rparr>, Inr True))
     else bind_tx (on_owner clear_source_freezes) (\<lambda>cleared.
       if \<not> cleared then ret_tx False
       else bind_tx (modify_tx (\<lambda>t. t\<lparr>mm_hold := False\<rparr>)) (\<lambda>_. ret_tx True)) t)"

end
