(* ===== verification/Maker_Quoting.thy ===== *)
theory Maker_Quoting
  imports Maker_Strategy
begin

text \<open>
  \<^verbatim>\<open>strategies/maker.py\<close>, second part: the accounts of a quote, new and bound quotes, the checks
  before a source order, submitting and moving it, and the dispatch of hedges.

  A configured route is found by its account; the code's \<^verbatim>\<open>next\<close> without a default raises when there is
  none, which is a \<open>RuntimeError\<close> here. A capacity that is not finite raises when it is compared.
\<close>

section \<open>Accounts\<close>

definition source_route_for :: "maker_wiring \<Rightarrow> string \<Rightarrow> exn + source_account_route" where
  "source_route_for W account_id = (case find (\<lambda>r. sr_account_id r = account_id) (mc_source_accounts (mr_strategy (mw_config W))) of
     None \<Rightarrow> Inl (RuntimeError ''StopIteration'') | Some r \<Rightarrow> Inr r)"

definition hedge_route_for :: "maker_wiring \<Rightarrow> string \<Rightarrow> exn + hedge_account_route" where
  "hedge_route_for W account_id = (case find (\<lambda>r. hr_account_id r = account_id) (mc_hedge_accounts (mr_strategy (mw_config W))) of
     None \<Rightarrow> Inl (RuntimeError ''StopIteration'') | Some r \<Rightarrow> Inr r)"

definition maker_source_account :: "maker_wiring \<Rightarrow> maker_facts \<Rightarrow> string \<Rightarrow> exn + source_account" where
  "maker_source_account W f account_id = bindE (source_route_for W account_id) (\<lambda>route.
     bindE (finite_decimal (sr_max_long_ounces route)) (\<lambda>max_long.
     bindE (finite_decimal (sr_max_short_ounces route)) (\<lambda>max_short.
     bindE (finite_decimal (sr_base_margin_level route)) (\<lambda>base.
     Inr \<lparr>sa_account_id = sr_account_id route, sa_client_id = sr_client_id route,
       sa_position_ounces = mf_net_position f (mr_source_instrument_id (mw_config W)) (sr_account_id route),
       sa_max_long_ounces = max_long, sa_max_short_ounces = max_short, sa_base_margin_level = base\<rparr>))))"

definition maker_hedge_account :: "maker_wiring \<Rightarrow> maker_facts \<Rightarrow> string \<Rightarrow> exn + maker_account" where
  "maker_hedge_account W f account_id = bindE (hedge_route_for W account_id) (\<lambda>route.
     bindE (finite_decimal (hr_max_long_ounces route)) (\<lambda>max_long.
     bindE (finite_decimal (hr_max_short_ounces route)) (\<lambda>max_short.
     Inr \<lparr>ma_account_id = hr_account_id route, ma_client_id = hr_client_id route,
       ma_position_ounces = mf_net_position f (mr_hedge_instrument_id (mw_config W)) (hr_account_id route),
       ma_max_long_ounces = max_long, ma_max_short_ounces = max_short\<rparr>)))"

definition maker_source_accounts :: "maker_wiring \<Rightarrow> maker_facts \<Rightarrow> exn + source_account list" where
  "maker_source_accounts W f = mapE (\<lambda>route. maker_source_account W f (sr_account_id route))
     (mc_source_accounts (mr_strategy (mw_config W)))"

definition maker_hedge_accounts :: "maker_wiring \<Rightarrow> maker_facts \<Rightarrow> exn + maker_account list" where
  "maker_hedge_accounts W f = mapE (\<lambda>route. maker_hedge_account W f (hr_account_id route))
     (mc_hedge_accounts (mr_strategy (mw_config W)))"

text \<open>The first routes: the only ones of a live or bounded-carry composition.\<close>

definition first_source_route :: "maker_wiring \<Rightarrow> exn + source_account_route" where
  "first_source_route W = (case mc_source_accounts (mr_strategy (mw_config W)) of [] \<Rightarrow> Inl IndexError | r # _ \<Rightarrow> Inr r)"

definition first_hedge_route :: "maker_wiring \<Rightarrow> exn + hedge_account_route" where
  "first_hedge_route W = (case mc_hedge_accounts (mr_strategy (mw_config W)) of [] \<Rightarrow> Inl IndexError | r # _ \<Rightarrow> Inr r)"

text \<open>The bound reader's view; it moves the account deadline and the budget flag.\<close>

definition live_quote_accounts ::
  "maker_wiring \<Rightarrow> maker_facts \<Rightarrow> book_top \<Rightarrow> book_top \<Rightarrow> bool \<Rightarrow> (maker, (source_account \<times> maker_account) option) tx"
where
  "live_quote_accounts W f source_book hedge_book new_source = (\<lambda>t.
     case (mf_source_tick f, mf_hedge_tick f) of
       (Some source_tick, Some hedge_tick) \<Rightarrow>
         (case mf_account_view f source_book (qt_ts_event source_tick) hedge_book (qt_ts_event hedge_tick) new_source of
            None \<Rightarrow> (t\<lparr>mm_account_deadline := None, mm_budget_waiting := mm_budget_waiting t \<or> new_source\<rparr>, Inr None)
          | Some (source, hedge, deadline, budget_ready) \<Rightarrow>
              let t = t\<lparr>mm_account_deadline := Some deadline\<rparr> in
              if new_source \<and> \<not> budget_ready then (t\<lparr>mm_budget_waiting := True\<rparr>, Inr None)
              else (case first_hedge_route W of
                Inl e \<Rightarrow> (t, Inl e)
              | Inr route \<Rightarrow> (t, Inr (Some (source, \<lparr>ma_account_id = hr_account_id route, ma_client_id = hr_client_id route,
                  ma_position_ounces = ha_position_ounces hedge, ma_max_long_ounces = ha_max_long_ounces hedge,
                  ma_max_short_ounces = ha_max_short_ounces hedge\<rparr>)))))
     | _ \<Rightarrow> (t, Inr None))"

section \<open>Is a working order what the strategy believes\<close>

definition live_working_order_is_exact ::
  "maker_wiring \<Rightarrow> maker_facts \<Rightarrow> source_direction \<Rightarrow> working_order \<Rightarrow> maker_quote_rec \<Rightarrow> maker \<Rightarrow> exn + bool"
where
  "live_working_order_is_exact W f d order bound t =
    bindE (first_source_route W) (\<lambda>source_route. bindE (first_hedge_route W) (\<lambda>hedge_route.
    Inr (case dict_get (ss_source_orders (direction_state d t)) (wo_client_order_id order) of
      None \<Rightarrow> False
    | Some record \<Rightarrow>
        wo_strategy_id order = mw_strategy_id W
        \<and> mf_client_id f (wo_client_order_id order) = sr_client_id source_route
        \<and> mq_direction bound = d
        \<and> sa_account_id (mq_source_account bound) = sr_account_id source_route
        \<and> sa_client_id (mq_source_account bound) = sr_client_id source_route
        \<and> ma_account_id (mq_hedge_account bound) = hr_account_id hedge_route
        \<and> ma_client_id (mq_hedge_account bound) = hr_client_id hedge_route
        \<and> so_source_account_id record = Some (sa_account_id (mq_source_account bound))
        \<and> so_hedge_account_id record = Some (ma_account_id (mq_hedge_account bound))
        \<and> so_source_client_id record = sr_client_id source_route
        \<and> so_hedge_client_id record = hr_client_id hedge_route
        \<and> (wo_account_id order = Some (sa_account_id (mq_source_account bound))
           \<or> wo_status order = ''INITIALIZED'' \<and> wo_account_id order = None)
        \<and> wo_instrument_id order = mr_source_instrument_id (mw_config W)
        \<and> wo_side order = Some (side_of_direction d)
        \<and> so_side record = side_of_direction d
        \<and> so_quantity_ounces record = wo_quantity order
        \<and> so_filled_ounces record = wo_filled_qty order \<and> wo_filled_qty order = 0
        \<and> wo_leaves_qty order = mq_quantity_ounces bound)))"

section \<open>The carry budget\<close>

definition maker_residual :: "maker \<Rightarrow> rat" where
  "maker_residual t = carry_residual_ounces (ow_config (mm_store t)) (owner_snapshot (mm_store t))"

definition carry_hedge_delta_bound :: "source_direction \<Rightarrow> rat \<Rightarrow> maker \<Rightarrow> exn + rat" where
  "carry_hedge_delta_bound d quantity t =
    bindE (maker_carry_bounds (Fin (maker_residual t)) (Fin (if d = LONG then quantity else 0)) (Fin (if d = SHORT then quantity else 0)))
      (\<lambda>(_, buy, sell). Inr (if d = LONG then sell else buy))"

text \<open>One direction's step of the loop over the working orders; \<open>None\<close> where the evidence differs.\<close>

definition add_working ::
  "maker_wiring \<Rightarrow> maker_facts \<Rightarrow> rat \<Rightarrow> string option \<Rightarrow> maker \<Rightarrow> source_direction \<Rightarrow> rat \<Rightarrow> exn + rat option"
where
  "add_working W f quantity exclude t d amount = (case active_order d t of
     None \<Rightarrow> Inr (Some amount)
   | Some cid \<Rightarrow> (case (mf_order f cid, dict_get (mm_working t) cid) of
       (Some order, Some bound) \<Rightarrow>
         if wo_is_closed order then Inr None
         else bindE (live_working_order_is_exact W f d order bound t) (\<lambda>exact.
           Inr (if \<not> exact \<or> exclude = None \<and> wo_status order \<noteq> ''ACCEPTED'' then None
             else if Some cid = exclude then (if quantity \<noteq> wo_leaves_qty order then None else Some amount)
             else Some (dadd amount (wo_leaves_qty order))))
     | _ \<Rightarrow> Inr None))"

definition carry_working_leaves ::
  "maker_wiring \<Rightarrow> maker_facts \<Rightarrow> maker_quote_rec \<Rightarrow> rat \<Rightarrow> string option \<Rightarrow> maker \<Rightarrow> exn + (rat \<times> rat) option"
where
  "carry_working_leaves W f quote quantity exclude t =
    bindE (first_source_route W) (\<lambda>source. bindE (first_hedge_route W) (\<lambda>hedge.
    if sa_account_id (mq_source_account quote) \<noteq> sr_account_id source \<or> sa_client_id (mq_source_account quote) \<noteq> sr_client_id source
      \<or> ma_account_id (mq_hedge_account quote) \<noteq> hr_account_id hedge \<or> ma_client_id (mq_hedge_account quote) \<noteq> hr_client_id hedge
      \<or> exclude \<noteq> None \<and> exclude \<noteq> active_order (mq_direction quote) t
    then Inr None
    else bindE (add_working W f quantity exclude t LONG (if mq_direction quote = LONG then quantity else 0)) (\<lambda>buys. case buys of
      None \<Rightarrow> Inr None
    | Some buys \<Rightarrow>
        bindE (add_working W f quantity exclude t SHORT (if mq_direction quote = SHORT then quantity else 0)) (\<lambda>sells.
        Inr (map_option (Pair buys) sells)))))"

text \<open>The quantities the hedges of one working side may take: the plan's legs, every ticket it may meet,
  and the part that may have to be opened.\<close>

definition carry_quantities ::
  "position list \<Rightarrow> rat \<Rightarrow> source_direction \<Rightarrow> rat \<Rightarrow> rat \<Rightarrow> exn + rat list"
where
  "carry_quantities positions signed_net d largest cumulative =
    (let side = (if d = LONG then SELL else BUY) in
     bindE (plan_hedge_delta positions side (Fin largest)) (\<lambda>plan.
     bindE (mapE (\<lambda>p. finite_decimal (pos_quantity p)) (filter (\<lambda>p. pos_is_long p = (side = SELL)) positions)) (\<lambda>held.
     let future_open = min largest (max 0 (dadd cumulative (if side = SELL then dneg signed_net else signed_net)))
     in Inr (1 # map leg_quantity_ounces plan @ map (min largest) held @ (if 0 < future_open then [future_open] else [])))))"

text \<open>\<^verbatim>\<open>except (HedgePlanningError, TypeError, ValueError, ArithmeticError)\<close>.\<close>

fun carry_failure :: "exn \<Rightarrow> bool" where
  "carry_failure (HedgePlanningError _) = True"
| "carry_failure (HedgeLaneBusy _) = True"
| "carry_failure (TypeError _) = True"
| "carry_failure (ValueError _) = True"
| "carry_failure ArithmeticError = True"
| "carry_failure _ = False"

text \<open>The preflight of one side; an exception of the quantity check is a refusal.\<close>

definition carry_side_ready ::
  "maker_facts \<Rightarrow> position list \<Rightarrow> rat \<Rightarrow> rat \<Rightarrow> rat \<times> rat \<Rightarrow> source_direction \<Rightarrow> rat \<Rightarrow> rat \<Rightarrow> exn + bool"
where
  "carry_side_ready f positions signed_net residual both d amount cumulative =
    (if amount = 0 then Inr True
     else let largest = maker_hedge_quantity_bound residual amount d (fst both \<noteq> 0 \<and> snd both \<noteq> 0) in
       if largest = 0 then Inr True
       else bindE (carry_quantities positions signed_net d largest cumulative) (\<lambda>quantities. Inr (case mf_quantity_ready f of
         None \<Rightarrow> True | Some admits \<Rightarrow> list_all (\<lambda>q. admits q = Inr True) quantities)))"

definition carry_source_is_executable ::
  "maker_wiring \<Rightarrow> maker_facts \<Rightarrow> maker_quote_rec \<Rightarrow> rat \<Rightarrow> string option \<Rightarrow> maker \<Rightarrow> exn + bool"
where
  "carry_source_is_executable W f quote quantity exclude t =
    (if global_obligation_block t then Inr False
     else bindE (carry_working_leaves W f quote quantity exclude t) (\<lambda>both. case both of
       None \<Rightarrow> Inr False
     | Some both \<Rightarrow>
         bindE (maker_carry_bounds (Fin (maker_residual t)) (Fin (fst both)) (Fin (snd both))) (\<lambda>(exposure, hedge_buy, hedge_sell).
         if (case mc_max_unhedged_ounces (mr_strategy (mw_config W)) of None \<Rightarrow> True | Some m \<Rightarrow> dec_value m < exposure)
           \<or> \<not> maker_hedge_bounds_allow (mq_hedge_account quote) (me_risk (mw_economics W)) hedge_buy hedge_sell
         then Inr False
         else let positions = mf_hedge_positions f (ma_account_id (mq_hedge_account quote));
                  net = ma_position_ounces (mq_hedge_account quote) in
           case bindE (carry_side_ready f positions net (maker_residual t) both LONG (fst both) hedge_sell) (\<lambda>ready.
               if \<not> ready then Inr False
               else carry_side_ready f positions net (maker_residual t) both SHORT (snd both) hedge_buy) of
             Inr ready \<Rightarrow> Inr ready
           | Inl e \<Rightarrow> if carry_failure e then Inr False else Inl e)))"

section \<open>Quotes\<close>

definition side_config :: "maker_economics_config \<Rightarrow> source_direction \<Rightarrow> maker_side_config" where
  "side_config economics d = (if d = LONG then me_bid economics else me_ask economics)"

definition with_open_quantity :: "source_direction \<Rightarrow> rat \<Rightarrow> maker_economics_config \<Rightarrow> maker_economics_config" where
  "with_open_quantity d quantity economics =
    (let side = (side_config economics d)\<lparr>ms_open_quantity_ounces := quantity\<rparr>
     in if d = LONG then economics\<lparr>me_bid := side\<rparr> else economics\<lparr>me_ask := side\<rparr>)"

definition passive_quote ::
  "maker_wiring \<Rightarrow> maker_facts \<Rightarrow> maker \<Rightarrow> maker_quote_rec option \<Rightarrow> book_top \<Rightarrow> exn + maker_quote_rec option"
where
  "passive_quote W f t quote source_book = (case quote of
     None \<Rightarrow> Inr None
   | Some quote \<Rightarrow>
       bindE (maker_source_instrument t) (\<lambda>_.
       bindE (passive_maker_price (mq_direction quote) (mq_source_price_usdt quote) source_book (mf_price_increment f)
           (mc_cross_clamp_ticks (mr_strategy (mw_config W)))) (\<lambda>price.
       Inr (Some (quote\<lparr>mq_source_price_usdt := price\<rparr>)))))"

text \<open>The quote for given accounts: in bounded-carry mode for the exact order quantity and hedge bound.\<close>

definition priced_quote ::
  "maker_wiring \<Rightarrow> maker_facts \<Rightarrow> source_direction \<Rightarrow> book_top \<Rightarrow> source_account list \<Rightarrow> maker_account list \<Rightarrow>
    maker_economics_config \<Rightarrow> rat option \<Rightarrow> maker \<Rightarrow> exn + maker_quote_rec option"
where
  "priced_quote W f d hedge_book sources hedges economics carried t =
    bindE (case carried of None \<Rightarrow> Inr None | Some quantity \<Rightarrow> bindE (carry_hedge_delta_bound d quantity t) (Inr \<circ> Some)) (\<lambda>hedge_quantity.
    maker_quote d hedge_book sources hedges
      (case carried of None \<Rightarrow> economics | Some quantity \<Rightarrow> with_open_quantity d quantity economics)
      (Some (mm_quote_carry t)) (Some (mm_fx t)) hedge_quantity)"

text \<open>With a reader: no other direction's order may be in doubt.\<close>

definition orders_settled :: "maker_facts \<Rightarrow> maker \<Rightarrow> bool" where
  "orders_settled f t \<longleftrightarrow> list_all (\<lambda>d. case active_order d t of
     None \<Rightarrow> True
   | Some cid \<Rightarrow> (case mf_order f cid of None \<Rightarrow> False | Some order \<Rightarrow> wo_status order = ''ACCEPTED'')) [LONG, SHORT]"

definition new_quote_accounts ::
  "maker_wiring \<Rightarrow> maker_facts \<Rightarrow> book_top \<Rightarrow> book_top \<Rightarrow> (maker, (source_account list \<times> maker_account list) option) tx"
where
  "new_quote_accounts W f source_book hedge_book =
    (if mw_account_reader W then
       bind_tx (live_quote_accounts W f source_book hedge_book True) (\<lambda>view t. case view of
         None \<Rightarrow> (t, Inr None)
       | Some (source, hedge) \<Rightarrow>
           if mf_refresh_paused f \<or> global_obligation_block t then (t, Inr None)
           else if \<not> orders_settled f t then (t\<lparr>mm_budget_waiting := True\<rparr>, Inr None)
           else (t, Inr (Some ([source], [hedge]))))
     else lift_tx (bindE (maker_source_accounts W f) (\<lambda>sources. bindE (maker_hedge_accounts W f) (\<lambda>hedges.
       Inr (Some (sources, hedges))))))"

definition new_quote ::
  "maker_wiring \<Rightarrow> maker_facts \<Rightarrow> source_direction \<Rightarrow> book_top \<Rightarrow> book_top \<Rightarrow> (maker, maker_quote_rec option) tx"
where
  "new_quote W f d source_book hedge_book =
    (if ms_open_quantity_ounces (side_config (mw_economics W) d) \<le> 0 then ret_tx None
     else bind_tx (new_quote_accounts W f source_book hedge_book) (\<lambda>accounts t. case accounts of
       None \<Rightarrow> (t, Inr None)
     | Some (sources, hedges) \<Rightarrow>
         (t, bindE (if bounded_carry W then
               bindE (maker_source_instrument t) (\<lambda>_.
               bindE (mf_make_source_qty f (ms_open_quantity_ounces (side_config (mw_economics W) d))) (Inr \<circ> Some))
             else Inr None) (\<lambda>carried.
           bindE (priced_quote W f d hedge_book sources hedges (mw_economics W) carried t) (\<lambda>quote.
           passive_quote W f t quote source_book)))))"

text \<open>The accounts of a working order: its own route, the risk limits recomputed.\<close>

definition bound_quote_accounts ::
  "maker_wiring \<Rightarrow> maker_facts \<Rightarrow> maker_quote_rec \<Rightarrow> book_top \<Rightarrow> book_top \<Rightarrow> (maker, (source_account \<times> maker_account) option) tx"
where
  "bound_quote_accounts W f bound source_book hedge_book =
    (if mw_account_reader W then
       bind_tx (live_quote_accounts W f source_book hedge_book False) (\<lambda>view. case view of
         None \<Rightarrow> ret_tx None
       | Some (source, hedge) \<Rightarrow>
           if sa_account_id source \<noteq> sa_account_id (mq_source_account bound)
             \<or> ma_account_id hedge \<noteq> ma_account_id (mq_hedge_account bound) then ret_tx None
           else lift_tx (bindE (first_source_route W) (\<lambda>route.
             bindE (finite_decimal (sr_max_long_ounces route)) (\<lambda>max_long.
             bindE (finite_decimal (sr_max_short_ounces route)) (\<lambda>max_short.
             let maximum = rc_source_max_abs (me_risk (mw_economics W)) in
             Inr (Some (source\<lparr>sa_max_long_ounces := min max_long (max (dsub maximum (sa_position_ounces source)) 0),
               sa_max_short_ounces := min max_short (max (dadd maximum (sa_position_ounces source)) 0)\<rparr>, hedge)))))))
     else lift_tx (bindE (maker_source_account W f (sa_account_id (mq_source_account bound))) (\<lambda>source.
       bindE (maker_hedge_account W f (ma_account_id (mq_hedge_account bound))) (\<lambda>hedge. Inr (Some (source, hedge))))))"

definition bound_quote ::
  "maker_wiring \<Rightarrow> maker_facts \<Rightarrow> maker_quote_rec \<Rightarrow> book_top \<Rightarrow> book_top \<Rightarrow> (maker, maker_quote_rec option) tx"
where
  "bound_quote W f bound source_book hedge_book =
    bind_tx (bound_quote_accounts W f bound source_book hedge_book) (\<lambda>accounts t. case accounts of
      None \<Rightarrow> (t, Inr None)
    | Some (source, hedge) \<Rightarrow>
        let d = mq_direction bound; quantity = mq_quantity_ounces bound;
            economics = (if mw_account_reader W then with_open_quantity d quantity (mw_economics W) else mw_economics W) in
        (t, bindE (priced_quote W f d hedge_book [source] [hedge] economics (if bounded_carry W then Some quantity else None) t) (\<lambda>quote.
          case quote of
            None \<Rightarrow> Inr None
          | Some q \<Rightarrow> bindE (if bounded_carry W then carry_source_is_executable W f q (mq_quantity_ounces q) (active_order d t) t else Inr True)
              (\<lambda>executable. if \<not> executable then Inr None else passive_quote W f t (Some q) source_book))))"

end
