(* ===== verification/Maker_Orders.thy ===== *)
theory Maker_Orders
  imports Maker_Quoting
begin

text \<open>
  \<^verbatim>\<open>strategies/maker.py\<close>, third part: submitting a quote, moving it, refreshing one direction, and
  the dispatch of the hedge queue.
\<close>

section \<open>A new source order\<close>

definition maker_hedge_executable :: "maker_wiring \<Rightarrow> maker_facts \<Rightarrow> maker_quote_rec \<Rightarrow> rat \<Rightarrow> maker \<Rightarrow> exn + bool" where
  "maker_hedge_executable W f quote source_quantity t =
    (if bounded_carry W then carry_source_is_executable W f quote source_quantity None t
     else let max_hedge_ounces = \<bar>round_hedge_ounces source_quantity\<bar> in
       if max_hedge_ounces = 0 then Inr True
       else case plan_hedge_delta (mf_hedge_positions f (ma_account_id (mq_hedge_account quote)))
           (if mq_direction quote = LONG then SELL else BUY) (Fin (of_int max_hedge_ounces)) of
         Inl e \<Rightarrow> if planning_failure e then Inr False else Inl e
       | Inr plan \<Rightarrow> Inr (legs_admitted (mf_quantity_ready f) plan))"

definition quote_route :: "maker_quote_rec \<Rightarrow> source_route" where
  "quote_route quote =
    \<lparr>rt_source_account_id = Some (sa_account_id (mq_source_account quote)),
     rt_source_client_id = sa_client_id (mq_source_account quote),
     rt_hedge_account_id = Some (ma_account_id (mq_hedge_account quote)),
     rt_hedge_client_id = ma_client_id (mq_hedge_account quote),
     rt_hedge_position_id = None, rt_hedge_position_quantity_ounces = None\<rparr>"

definition quote_request_of :: "maker_facts \<Rightarrow> maker_quote_rec \<Rightarrow> rat \<Rightarrow> rat \<Rightarrow> quote_request" where
  "quote_request_of f quote quantity price =
    \<lparr>qr_client_order_id = mf_fresh_order_id f, qr_side = side_of_direction (mq_direction quote), qr_quantity = quantity,
     qr_price = price, qr_direction = mq_direction quote, qr_client_id = sa_client_id (mq_source_account quote),
     qr_leverage = mq_leverage quote\<rparr>"

text \<open>\<^verbatim>\<open>submit_order\<close> and the timer inside their \<^verbatim>\<open>try\<close>: an exception marks the order unknown.\<close>

definition submit_quote_order :: "maker_wiring \<Rightarrow> maker_facts \<Rightarrow> maker_quote_rec \<Rightarrow> quote_request \<Rightarrow> (maker, unit) tx" where
  "submit_quote_order W f quote q =
    on_failure (bind_tx (modify_tx (hand (SubmitQuote q))) (\<lambda>_.
        case mf_submission f of Some e \<Rightarrow> raise_tx e
        | None \<Rightarrow> schedule_stale_timer W f (mq_direction quote) (qr_client_order_id q)))
      (\<lambda>e. on_owner (mark_source_unknown (direction_store (mq_direction quote)) (qr_client_order_id q)
        (''Maker source submission raised '' @ exn_class e)))"

definition place_quote :: "maker_wiring \<Rightarrow> maker_facts \<Rightarrow> maker_quote_rec \<Rightarrow> rat \<Rightarrow> (maker, unit) tx" where
  "place_quote W f quote quantity =
    bind_tx (lift_tx (mf_make_price f (mq_source_price_usdt quote))) (\<lambda>price.
    bind_tx (on_owner (begin_source (direction_store (mq_direction quote)) (mf_fresh_order_id f)
        (side_of_direction (mq_direction quote)) quantity (quote_route quote) None)) (\<lambda>_.
    bind_tx (modify_tx (\<lambda>t. t\<lparr>mm_working := dict_set (mf_fresh_order_id f) quote (mm_working t)\<rparr>)) (\<lambda>_.
    submit_quote_order W f quote (quote_request_of f quote quantity price))))"

definition source_admission :: "maker_wiring \<Rightarrow> maker_quote_rec \<Rightarrow> rat \<Rightarrow> (maker, bool) tx" where
  "source_admission W quote quantity = (case mw_admission W of
     None \<Rightarrow> ret_tx True
   | Some admits \<Rightarrow> on_owner (admits (direction_view (mq_direction quote)) (side_of_direction (mq_direction quote)) quantity))"

definition submit_quote :: "maker_wiring \<Rightarrow> maker_facts \<Rightarrow> maker_quote_rec \<Rightarrow> (maker, unit) tx" where
  "submit_quote W f quote = (\<lambda>t.
     if mf_restart_blocked f \<or> mm_draining t then (t, Inr ())
     else bind_tx (lift_tx (bindE (maker_source_instrument t) (\<lambda>_. mf_make_source_qty f (mq_quantity_ounces quote)))) (\<lambda>quantity.
       bind_tx (source_admission W quote quantity) (\<lambda>admitted t.
       if \<not> admitted then (t, Inr ())
       else bind_tx (lift_tx (maker_hedge_executable W f quote quantity t)) (\<lambda>executable.
         if \<not> executable then ret_tx () else place_quote W f quote quantity) t)) t)"

section \<open>Moving a working order\<close>

definition requote_required :: "rat \<Rightarrow> rat \<Rightarrow> rat \<Rightarrow> exn + bool" where
  "requote_required current_price next_price threshold =
    (if current_price \<le> 0 then Inl (ValueError ''current Maker price must be positive'')
     else Inr (dabs threshold < dabs (dsub (dquot next_price current_price) 1)))"

definition requote :: "maker_wiring \<Rightarrow> maker_facts \<Rightarrow> working_order \<Rightarrow> maker_quote_rec \<Rightarrow> (maker, unit) tx" where
  "requote W f order desired = (\<lambda>t.
     if mf_restart_blocked f \<or> mm_draining t then (t, Inr ())
     else if wo_is_pending_update order \<or> wo_is_pending_cancel order then (t, Inr ())
     else bind_tx (lift_tx (bindE (maker_source_instrument t) (\<lambda>_.
         bindE (mf_make_price f (mq_source_price_usdt desired)) (\<lambda>next_price.
         bindE (requote_required (wo_price order) next_price
             (dabs (ms_delta (side_config (mw_economics W) (mq_direction desired))))) (\<lambda>required.
         if \<not> required then Inr None
         else if mr_fixed_amount (mw_config W) then
           bindE (mf_make_source_qty f (mq_quantity_ounces desired)) (\<lambda>quantity. Inr (Some (next_price, Some quantity)))
         else Inr (Some (next_price, None))))))) (\<lambda>change t. case change of
       None \<Rightarrow> (t, Inr ())
     | Some (price, quantity) \<Rightarrow>
         (hand (ModifyQuote \<lparr>md_client_order_id = wo_client_order_id order, md_quantity = quantity, md_price = price,
            md_client_id = sa_client_id (mq_source_account desired), md_leverage = mq_leverage desired\<rparr>) t,
          case mf_modification f of None \<Rightarrow> Inr () | Some e \<Rightarrow> Inl e)) t)"

section \<open>One direction\<close>

text \<open>The working order is marked unknown and cancelled.\<close>

definition give_up_order :: "maker_facts \<Rightarrow> source_direction \<Rightarrow> string \<Rightarrow> string \<Rightarrow> string \<Rightarrow> (maker, unit) tx" where
  "give_up_order f d cid unknown_reason cancel_reason =
    bind_tx (on_owner (mark_source_unknown (direction_store d) cid unknown_reason)) (\<lambda>_.
    cancel_working f d (Some cid) cancel_reason)"

text \<open>With the order exact: price it again, cancel it when no quote is left, else move it and renew its timer.\<close>

definition maintain_order ::
  "maker_wiring \<Rightarrow> maker_facts \<Rightarrow> source_direction \<Rightarrow> string \<Rightarrow> working_order \<Rightarrow> maker_quote_rec \<Rightarrow> book_top \<Rightarrow> book_top \<Rightarrow>
    (maker, unit) tx"
where
  "maintain_order W f d cid order bound source_book hedge_book =
    bind_tx (bound_quote W f bound source_book hedge_book) (\<lambda>desired t. case desired of
      None \<Rightarrow> cancel_working f d (Some cid) ''risk changed'' t
    | Some desired \<Rightarrow>
        bind_tx (if mw_account_reader W \<and> (mm_budget_waiting t \<or> mf_refresh_paused f \<or> wo_status order \<noteq> ''ACCEPTED'')
          then ret_tx ()
          else bind_tx (requote W f order desired) (\<lambda>_. modify_tx (\<lambda>t. t\<lparr>mm_working := dict_set cid desired (mm_working t)\<rparr>)))
          (\<lambda>_. schedule_stale_timer W f d cid) t)"

definition refresh_working ::
  "maker_wiring \<Rightarrow> maker_facts \<Rightarrow> source_direction \<Rightarrow> string \<Rightarrow> book_top \<Rightarrow> book_top \<Rightarrow> (maker, unit) tx"
where
  "refresh_working W f d cid source_book hedge_book = (\<lambda>t. case mf_order f cid of
     None \<Rightarrow> on_owner (mark_source_unknown (direction_store d) cid ''Maker cache lost the active source order'') t
   | Some order \<Rightarrow>
       if wo_is_closed order then (t, Inr ())
       else if cid \<in> mm_pending_cancels t then cancel_working f d (Some cid) ''requested cancel'' t
       else case dict_get (mm_working t) cid of
         None \<Rightarrow> give_up_order f d cid ''Maker account pair missing for active order'' ''route missing'' t
       | Some bound \<Rightarrow>
           bind_tx (lift_tx (if mw_account_reader W \<or> bounded_carry W then live_working_order_is_exact W f d order bound t
             else Inr True)) (\<lambda>exact.
           if \<not> exact then give_up_order f d cid ''Maker live order/route evidence differs'' ''route differs''
           else maintain_order W f d cid order bound source_book hedge_book) t)"

definition refresh_direction :: "maker_wiring \<Rightarrow> maker_facts \<Rightarrow> book_top \<Rightarrow> book_top \<Rightarrow> source_direction \<Rightarrow> (maker, unit) tx" where
  "refresh_direction W f source_book hedge_book d = (\<lambda>t. case active_order d t of
     None \<Rightarrow>
       if can_submit_source (direction_store d) (mm_store t) then
         bind_tx (new_quote W f d source_book hedge_book) (\<lambda>quote.
           case quote of None \<Rightarrow> ret_tx () | Some quote \<Rightarrow> submit_quote W f quote) t
       else (t, Inr ())
   | Some cid \<Rightarrow> refresh_working W f d cid source_book hedge_book t)"

section \<open>Dispatching hedges\<close>

definition durable_hedge_route ::
  "maker_wiring \<Rightarrow> source_direction \<Rightarrow> string \<Rightarrow> (maker, (string \<times> string option) option) tx"
where
  "durable_hedge_route W d cid = (\<lambda>t.
     let refuse = (\<lambda>reason. bind_tx (on_owner (mark_source_unknown (direction_store d) cid reason)) (\<lambda>_. ret_tx None)) in
     case dict_get (ss_source_orders (direction_state d t)) cid of
       None \<Rightarrow> refuse ''Maker source order has no durable hedge route'' t
     | Some record \<Rightarrow> (case so_hedge_account_id record of
         None \<Rightarrow> refuse ''Maker source order has no durable hedge route'' t
       | Some account_id \<Rightarrow>
           (case find (\<lambda>r. hr_account_id r = account_id) (mc_hedge_accounts (mr_strategy (mw_config W))) of
              None \<Rightarrow> refuse (''Durable hedge account '' @ account_id @ '' is not configured'') t
            | Some route \<Rightarrow>
                if so_hedge_client_id record \<noteq> hr_client_id route then
                  refuse ''Durable Maker hedge client differs from the configured account route'' t
                else (t, Inr (Some (account_id, hr_client_id route))))))"

definition maker_hedge_request :: "string \<Rightarrow> string option \<Rightarrow> string \<Rightarrow> rat \<Rightarrow> hedge_leg \<Rightarrow> hedge_request" where
  "maker_hedge_request cid client_id intent_id quantity leg =
    \<lparr>hq_client_order_id = cid, hq_intent_id = intent_id, hq_side = leg_side leg, hq_quantity = quantity,
     hq_reduce_only = leg_is_close leg, hq_position_id = (if leg_is_close leg then leg_position_id leg else None),
     hq_client_id = client_id, hq_expected_position_quantity = hedge_order_params leg\<rparr>"

definition place_maker_hedge ::
  "maker_wiring \<Rightarrow> maker_facts \<Rightarrow> source_direction \<Rightarrow> string option \<Rightarrow> string \<Rightarrow> hedge_leg \<Rightarrow> (maker, unit) tx"
where
  "place_maker_hedge W f d client_id intent_id leg =
    (let cid = mf_fresh_order_id f in
     bind_tx (lift_tx (mf_make_hedge_qty f (leg_quantity_ounces leg))) (\<lambda>quantity.
     bind_tx (on_owner (bind_hedge_leg (view_object_of W d) intent_id cid)) (\<lambda>_.
     on_failure (bind_tx (modify_tx (hand (SubmitHedge (maker_hedge_request cid client_id intent_id quantity leg)))) (\<lambda>_.
         case mf_submission f of Some e \<Rightarrow> raise_tx e | None \<Rightarrow> ret_tx ()))
       (\<lambda>e. on_owner (update_hedge_status (direction_store d) cid UNKNOWN None)))))"

definition submit_maker_hedge ::
  "maker_wiring \<Rightarrow> maker_facts \<Rightarrow> source_direction \<Rightarrow> string \<Rightarrow> string option \<Rightarrow> hedge_intent \<Rightarrow> (maker, unit) tx"
where
  "submit_maker_hedge W f d account_id client_id intent = (\<lambda>t.
     let iid = hi_intent_id intent; ob = view_object_of W d in
     if mf_restart_blocked f \<or> \<not> sb_dispatch_ready ob iid (mm_store t) then (t, Inr ())
     else if (case mf_hedge_tick f of None \<Rightarrow> True | Some tick \<Rightarrow> \<not> maker_quote_is_fresh W tick (mf_now_ns f)) then (t, Inr ())
     else bind_tx (lift_tx (maker_hedge_instrument t)) (\<lambda>_ t.
       case on_owner (next_hedge_leg ob iid (mf_hedge_positions f account_id)) t of
         (t, Inl e) \<Rightarrow> if hedge_planning_error e then (t, Inr ()) else (t, Inl e)
       | (t, Inr leg) \<Rightarrow> place_maker_hedge W f d client_id iid leg t) t)"

text \<open>The intents of both directions: a failed or active one keeps every other waiting.\<close>

definition queued_intents :: "maker \<Rightarrow> hedge_intent list" where
  "queued_intents t = state_intents (direction_state LONG t) @ state_intents (direction_state SHORT t)"

definition submit_next_maker_hedge :: "maker_wiring \<Rightarrow> maker_facts \<Rightarrow> (maker, unit) tx" where
  "submit_next_maker_hedge W f = (\<lambda>t.
     if mf_restart_blocked f then (t, Inr ())
     else if list_ex (\<lambda>i. hi_status i \<in> failed_statuses) (queued_intents t) then (t, Inr ())
     else if list_ex (\<lambda>i. hi_status i \<in> active_statuses) (queued_intents t) then (t, Inr ())
     else case next_pending_hedge (ow_config (mm_store t)) (owner_snapshot (mm_store t)) of
       None \<Rightarrow> (t, Inr ())
     | Some (d, intent) \<Rightarrow>
         bind_tx (durable_hedge_route W d (hi_source_client_order_id intent)) (\<lambda>route. case route of
           None \<Rightarrow> on_owner (block_hedge_intent (direction_store d) (hi_intent_id intent)
             ''durable Maker hedge route is missing or differs from configuration'')
         | Some (account_id, client_id) \<Rightarrow> submit_maker_hedge W f d account_id client_id intent) t)"

end
