(* ===== verification/Maker_Events.thy ===== *)
theory Maker_Events
  imports Maker_Orders
begin

text \<open>
  The callbacks of \<^verbatim>\<open>MakerStrategy\<close>: market data, costs, account updates, order events, the deferred
  cancel, the terminal query, stale timers, start, drain and stop. \<open>maker_event\<close> makes each of them
  a datum, so that a run of the strategy is a list of events.
\<close>

section \<open>Quotes\<close>

text \<open>
  The evaluation reads the cache at three moments: for the freshness check (\<open>f\<close>), for the release,
  the block and the pause (\<open>f'\<close>), and for each direction (\<open>g\<close>), after what came before it.
\<close>

definition quote_directions :: "maker_wiring \<Rightarrow> maker \<Rightarrow> source_direction list" where
  "quote_directions W t =
    (if mw_account_reader W then sort_key (\<lambda>d. active_order d t \<noteq> None) [LONG, SHORT] else [LONG, SHORT])"

definition refresh_all ::
  "maker_wiring \<Rightarrow> maker_facts \<Rightarrow> (source_direction \<Rightarrow> maker_facts) \<Rightarrow> quote_tick \<Rightarrow> quote_tick \<Rightarrow> (maker, unit) tx"
where
  "refresh_all W f g source_tick hedge_tick = (\<lambda>t.
     if global_obligation_block t then
       bind_tx (modify_tx (\<lambda>t. t\<lparr>mm_hold := True\<rparr>)) (\<lambda>_. cancel_all_best_effort f ''unresolved Maker obligations'') t
     else if \<not> mw_account_reader W \<and> mf_refresh_paused f then (t, Inr ())
     else let t = (if mw_account_reader W then t\<lparr>mm_budget_waiting := False\<rparr> else t) in
       each_tx (\<lambda>d. refresh_direction W (g d) (book_top_of source_tick) (book_top_of hedge_tick) d)
         (quote_directions W t) t)"

text \<open>The freshness of the inputs together with the carry they imply.\<close>

definition usable_inputs :: "maker_wiring \<Rightarrow> maker_facts \<Rightarrow> quote_tick \<Rightarrow> quote_tick \<Rightarrow> (maker, bool) tx" where
  "usable_inputs W f source_tick hedge_tick =
    bind_tx (maker_inputs_fresh W f source_tick hedge_tick) (\<lambda>fresh t.
      if \<not> fresh then (t, Inr False)
      else bind_tx (lift_tx (maker_carry W hedge_tick (mf_now_ns f) t)) (\<lambda>carry. case carry of
        None \<Rightarrow> ret_tx False
      | Some carry \<Rightarrow> bind_tx (modify_tx (\<lambda>t. t\<lparr>mm_quote_carry := carry\<rparr>)) (\<lambda>_. ret_tx True)) t)"

definition evaluate_quotes ::
  "maker_wiring \<Rightarrow> maker_facts \<Rightarrow> maker_facts \<Rightarrow> (source_direction \<Rightarrow> maker_facts) \<Rightarrow> (maker, unit) tx"
where
  "evaluate_quotes W f f' g = (\<lambda>t.
     if mf_restart_blocked f \<or> mm_draining t then (t, Inr ())
     else case (mf_source_tick f, mf_hedge_tick f) of
       (Some source_tick, Some hedge_tick) \<Rightarrow>
         bind_tx (usable_inputs W f source_tick hedge_tick) (\<lambda>usable.
           if \<not> usable then freeze_and_cancel_all f' ''stale, closed, or unresolved'' True
           else bind_tx (try_release_cycle f' True) (\<lambda>_. refresh_all W f' g source_tick hedge_tick)) t
     | _ \<Rightarrow> (t, Inr ()))"

definition maker_quote_tick ::
  "maker_wiring \<Rightarrow> maker_facts \<Rightarrow> maker_facts \<Rightarrow> maker_facts \<Rightarrow> (source_direction \<Rightarrow> maker_facts) \<Rightarrow> string \<Rightarrow> (maker, unit) tx"
where
  "maker_quote_tick W fh f f' g instrument_id =
    (if instrument_id \<notin> {mr_source_instrument_id (mw_config W), mr_hedge_instrument_id (mw_config W)} then ret_tx ()
     else bind_tx (if instrument_id = mr_hedge_instrument_id (mw_config W) then submit_next_maker_hedge W fh else ret_tx ())
       (\<lambda>_. evaluate_quotes W f f' g))"

section \<open>Accounts, costs and session\<close>

definition maker_account_update :: "bool \<Rightarrow> maker \<Rightarrow> maker" where
  "maker_account_update loop_closed t =
    (if mm_terminal_stopped t \<or> \<not> mm_account_loop t \<or> loop_closed then t
     else if mm_account_handle t = None then t\<lparr>mm_account_handle := Some (mm_terminal_generation t)\<rparr> else t)"

definition maker_account_evaluation ::
  "maker_wiring \<Rightarrow> maker_facts \<Rightarrow> maker_facts \<Rightarrow> maker_facts \<Rightarrow> (source_direction \<Rightarrow> maker_facts) \<Rightarrow> nat \<Rightarrow> maker \<Rightarrow> maker"
where
  "maker_account_evaluation W fh f f' g generation t =
    (if mm_terminal_stopped t \<or> generation \<noteq> mm_terminal_generation t then t
     else let t = t\<lparr>mm_account_handle := None\<rparr> in
       if mf_source_tick fh = None then t
       else fst (maker_quote_tick W fh f f' g (mr_source_instrument_id (mw_config W)) t))"

definition maker_instrument_status :: "maker_wiring \<Rightarrow> maker_facts \<Rightarrow> string \<Rightarrow> bool option \<Rightarrow> int \<Rightarrow> (maker, unit) tx" where
  "maker_instrument_status W f instrument_id is_trading ts_event_ns =
    (if instrument_id \<noteq> mr_hedge_instrument_id (mw_config W) then ret_tx ()
     else maker_update_session W f (is_trading = Some True) ts_event_ns)"

definition maker_instrument :: "maker_wiring \<Rightarrow> maker_facts \<Rightarrow> instrument \<Rightarrow> (maker, unit) tx" where
  "maker_instrument W f ins = (\<lambda>t.
     if \<not> mw_live_costs W \<or> ins_id ins \<noteq> mr_hedge_instrument_id (mw_config W) then (t, Inr ())
     else bind_tx (lift_tx (bindE (maker_hedge_instrument t) (\<lambda>previous.
         bindE (or_unavailable (validate_mt5_instrument_update (mw_zone W) previous ins (mf_now_ns f)
           (mr_max_cost_age_ns (mw_config W)))) (\<lambda>changed. Inr (previous, changed))))) (\<lambda>(previous, changed) t.
       case changed of
         None \<Rightarrow> freeze_and_cancel_all f ''invalid MT5 cost observation'' True (t\<lparr>mm_hedge_valid := False\<rparr>)
       | Some changed \<Rightarrow>
           if ins_ts_event ins = ins_ts_event previous \<and> \<not> mm_hedge_valid t then (t, Inr ())
           else (if changed then freeze_and_cancel_all f ''MT5 swap costs changed'' True else ret_tx ())
             (t\<lparr>mm_hedge_instrument := Some ins, mm_hedge_valid := True\<rparr>)) t)"

definition maker_funding_rate :: "maker_wiring \<Rightarrow> maker_facts \<Rightarrow> maker_facts \<Rightarrow> string \<Rightarrow> dec \<Rightarrow> int \<Rightarrow> (maker, unit) tx" where
  "maker_funding_rate W f f' instrument_id rate ts_event_ns =
    (if \<not> mw_live_costs W \<or> instrument_id \<noteq> mr_source_instrument_id (mw_config W) then ret_tx ()
     else if mf_now_ns f < ts_event_ns then maker_invalidate_costs f ''Bitfinex funding observation is future-dated''
     else let refuse = maker_invalidate_costs f ''Bitfinex funding observation is invalid'' in
     case rate of
       NonFinite \<Rightarrow> refuse
     | Fin r \<Rightarrow>
         if 1 < dabs r then refuse
         else let static = me_carry (mw_economics W) in
           bind_tx (maker_update_costs W f' \<lparr>cc_bitfinex_long = r, cc_bitfinex_short = dneg r,
               cc_mt5_long_swap = cc_mt5_long_swap static, cc_mt5_short_swap = cc_mt5_short_swap static,
               cc_total_trade_fee = cc_total_trade_fee static\<rparr> (me_fx (mw_economics W)) ts_event_ns) (\<lambda>_. ret_tx ()))"

section \<open>Order events\<close>

definition each_hedge_status :: "string \<Rightarrow> obligation_status \<Rightarrow> string option \<Rightarrow> (maker, unit) tx" where
  "each_hedge_status cid status native =
    each_tx (\<lambda>d. on_owner (update_hedge_status (direction_store d) cid status native)) [LONG, SHORT]"

definition maker_order_progress :: "bool \<Rightarrow> string \<Rightarrow> bool \<Rightarrow> (maker, unit) tx" where
  "maker_order_progress blocked cid accepted = (\<lambda>t.
     if blocked then (t, Inr ())
     else case direction_for_source_order t cid of
       Some d \<Rightarrow> on_owner (update_source_status (direction_store d) cid (if accepted then ''ACCEPTED'' else ''SUBMITTED'')) t
     | None \<Rightarrow> each_hedge_status cid (if accepted then ACCEPTED else SUBMITTED) None t)"

text \<open>An acceptance with a cancel waiting for it leaves the cancel with the event loop, when there is one.\<close>

definition maker_order_accepted :: "maker_facts \<Rightarrow> bool \<Rightarrow> acceptance \<Rightarrow> (maker, unit) tx" where
  "maker_order_accepted f loop_running event =
    bind_tx (maker_order_progress (mf_restart_blocked f) (ac_client_order_id event) True) (\<lambda>_.
    modify_tx (\<lambda>t. if ac_client_order_id event \<in> mm_pending_cancels t \<and> (mm_timer_loop t \<or> loop_running)
      then t\<lparr>mm_deferred := mm_deferred t @ [(event, mm_terminal_generation t)]\<rparr> else t))"

definition acceptance_is_exact :: "maker_wiring \<Rightarrow> maker_facts \<Rightarrow> acceptance \<Rightarrow> working_order \<Rightarrow> source_order_record \<Rightarrow> bool" where
  "acceptance_is_exact W f event order record \<longleftrightarrow>
    ac_trader_id event = wo_trader_id order \<and> wo_trader_id order = mw_trader_id W
    \<and> ac_strategy_id event = wo_strategy_id order \<and> wo_strategy_id order = mw_strategy_id W
    \<and> ac_instrument_id event = wo_instrument_id order \<and> wo_instrument_id order = mr_source_instrument_id (mw_config W)
    \<and> wo_account_id order = Some (ac_account_id event) \<and> so_source_account_id record = Some (ac_account_id event)
    \<and> wo_venue_order_id order = Some (ac_venue_order_id event)
    \<and> mf_client_id f (ac_client_order_id event) = so_source_client_id record"

definition cancel_after_acceptance :: "maker_wiring \<Rightarrow> maker_facts \<Rightarrow> acceptance \<Rightarrow> nat \<Rightarrow> (maker, unit) tx" where
  "cancel_after_acceptance W f event generation = (\<lambda>t.
     let cid = ac_client_order_id event in
     if mm_terminal_stopped t \<or> generation \<noteq> mm_terminal_generation t \<or> mf_restart_blocked f then (t, Inr ())
     else if cid \<notin> mm_pending_cancels t then (t, Inr ())
     else case direction_for_source_order t cid of
       None \<Rightarrow> (discard_pending cid t, Inr ())
     | Some d \<Rightarrow>
         if active_order d t \<noteq> Some cid then (discard_pending cid t, Inr ())
         else if (case mf_order f cid of None \<Rightarrow> False | Some order \<Rightarrow> wo_is_closed order) then (discard_pending cid t, Inr ())
         else if (case (mf_order f cid, dict_get (ss_source_orders (direction_state d t)) cid) of
             (Some order, Some record) \<Rightarrow> acceptance_is_exact W f event order record | _ \<Rightarrow> False)
         then cancel_working f d (Some cid) ''accepted cancel'' t
         else let reason = ''Maker deferred cancel acceptance identity differs'' in
           bind_tx (on_owner (mark_source_unknown (direction_store d) cid reason)) (\<lambda>_. freeze_all_best_effort reason)
             (t\<lparr>mm_hold := True\<rparr>))"

definition maker_mark_unknown :: "maker_facts \<Rightarrow> string \<Rightarrow> string \<Rightarrow> (maker, unit) tx" where
  "maker_mark_unknown f cid reason = (\<lambda>t.
     if mf_restart_blocked f then (t, Inr ())
     else case direction_for_source_order t cid of
       None \<Rightarrow> (t, Inr ())
     | Some d \<Rightarrow> and_finally (on_owner (mark_source_unknown (direction_store d) cid reason)) (freeze_and_cancel_all f reason False)
         (t\<lparr>mm_hold := True\<rparr>))"

definition maker_finish_or_reject :: "maker_facts \<Rightarrow> string \<Rightarrow> string \<Rightarrow> (maker, unit) tx" where
  "maker_finish_or_reject f cid status = (\<lambda>t.
     if mf_restart_blocked f then (t, Inr ())
     else case direction_for_source_order t cid of
       Some d \<Rightarrow> bind_tx (on_owner (update_source_status (direction_store d) cid status)) (\<lambda>_.
         bind_tx (modify_tx (\<lambda>t. discard_pending cid (t\<lparr>mm_working := AList.delete cid (mm_working t)\<rparr>))) (\<lambda>_.
         bind_tx (try_release_cycle f False) (\<lambda>_. ret_tx ()))) t
     | None \<Rightarrow> each_hedge_status cid REJECTED (Some status) t)"

definition maker_order_rejected :: "maker_facts \<Rightarrow> string \<Rightarrow> string \<Rightarrow> (maker, unit) tx" where
  "maker_order_rejected f cid reason = (\<lambda>t.
     if mf_restart_blocked f then (t, Inr ())
     else if py_upper (py_strip reason) = ''UNKNOWN'' then
       (if direction_for_source_order t cid \<noteq> None then
          maker_mark_unknown f cid ''Nautilus reported an unknown Maker submission outcome'' t
        else bind_tx (each_hedge_status cid UNKNOWN None) (\<lambda>_.
          freeze_and_cancel_all f ''unknown Maker hedge submission outcome'' False) t)
     else maker_finish_or_reject f cid ''REJECTED'' t)"

section \<open>Rejected cancels and modifications\<close>

text \<open>The native status a terminal record stands for.\<close>

definition terminal_status :: "string \<Rightarrow> string option" where
  "terminal_status status = (if status \<in> {''CANCELED'', ''EXPIRED'', ''FILLED''} then Some status else None)"

definition order_fill_events :: "working_order \<Rightarrow> (order_filled \<times> string) list" where
  "order_fill_events order = concat (map (\<lambda>e. case e of FillMark fill account \<Rightarrow> [(fill, account)] | _ \<Rightarrow> []) (wo_events order))"

text \<open>A protective cancel of this order is on its way, which a rejected modification does not touch.\<close>

definition protective_cancel :: "source_direction \<Rightarrow> string \<Rightarrow> source_order_record \<Rightarrow> working_order \<Rightarrow> maker \<Rightarrow> bool" where
  "protective_cancel d cid record order t \<longleftrightarrow>
    ((so_status record = ''PARTIALLY_FILLED'' \<and> 0 < so_filled_ounces record \<and> so_filled_ounces record < so_quantity_ounces record
       \<and> ss_source_freeze_reason (direction_state d t) \<noteq> None)
     \<or> (so_status record = ''ACCEPTED'' \<and> so_filled_ounces record = 0 \<and> wo_status order = ''PENDING_CANCEL''))
    \<and> active_order d t = Some cid \<and> mm_hold t \<and> wo_status order \<in> {''PENDING_CANCEL'', ''PARTIALLY_FILLED''}
    \<and> cancel_is_pending order"

text \<open>Event, native order, record, configured routes and booked fills all agree.\<close>

definition action_facts_agree ::
  "maker_wiring \<Rightarrow> acceptance \<Rightarrow> source_account_route \<Rightarrow> hedge_account_route \<Rightarrow> source_direction \<Rightarrow> source_order_record \<Rightarrow>
    working_order \<Rightarrow> maker \<Rightarrow> bool"
where
  "action_facts_agree W event source_route hedge_route d record order t \<longleftrightarrow>
    ac_trader_id event = wo_trader_id order \<and> wo_trader_id order = mw_trader_id W
    \<and> ac_strategy_id event = wo_strategy_id order \<and> wo_strategy_id order = mw_strategy_id W
    \<and> ac_instrument_id event = wo_instrument_id order \<and> wo_instrument_id order = mr_source_instrument_id (mw_config W)
    \<and> wo_account_id order = Some (ac_account_id event) \<and> ac_account_id event = sr_account_id source_route
    \<and> ac_client_order_id event = wo_client_order_id order \<and> ac_client_order_id event = so_client_order_id record
    \<and> wo_venue_order_id order = Some (ac_venue_order_id event)
    \<and> so_source_client_id record = sr_client_id source_route \<and> so_hedge_client_id record = hr_client_id hedge_route
    \<and> wo_side order = Some (so_side record) \<and> wo_quantity order = so_quantity_ounces record
    \<and> wo_filled_qty order = so_filled_ounces record
    \<and> dsum 0 (map (of_last_qty \<circ> fst) (order_fill_events order)) = so_filled_ounces record
    \<and> list_all (\<lambda>(fill, account). account = ac_account_id event \<and> of_instrument_id fill = ac_instrument_id event
        \<and> of_client_order_id fill = ac_client_order_id event \<and> of_venue_order_id fill = ac_venue_order_id event
        \<and> of_order_side fill = Some (so_side record)
        \<and> has_seen_source_fill (view_object_of W d) (mr_source_instrument_id (mw_config W)) fill (mm_store t))
      (order_fill_events order)"

text \<open>\<open>venue_known\<close>: the event carries a venue order id and an account.\<close>

definition source_action_is_obsolete :: "maker_wiring \<Rightarrow> maker_facts \<Rightarrow> bool \<Rightarrow> bool \<Rightarrow> acceptance \<Rightarrow> maker \<Rightarrow> bool" where
  "source_action_is_obsolete W f modify venue_known event t =
    (let cid = ac_client_order_id event; c = mr_strategy (mw_config W) in
     case direction_for_source_order t cid of
       None \<Rightarrow> False
     | Some d \<Rightarrow> venue_known \<and> (case (dict_get (ss_source_orders (direction_state d t)) cid, mf_order f cid) of
         (Some record, Some order) \<Rightarrow>
           ((wo_is_closed order \<and> terminal_status (so_status record) = Some (wo_status order))
            \<or> (modify \<and> protective_cancel d cid record order t))
           \<and> (case (find (\<lambda>r. Some (sr_account_id r) = so_source_account_id record) (mc_source_accounts c),
                find (\<lambda>r. Some (hr_account_id r) = so_hedge_account_id record) (mc_hedge_accounts c)) of
              (Some source_route, Some hedge_route) \<Rightarrow> action_facts_agree W event source_route hedge_route d record order t
            | _ \<Rightarrow> False)
       | _ \<Rightarrow> False))"

definition maker_action_rejected :: "maker_wiring \<Rightarrow> maker_facts \<Rightarrow> bool \<Rightarrow> bool \<Rightarrow> acceptance \<Rightarrow> (maker, unit) tx" where
  "maker_action_rejected W f modify venue_known event = (\<lambda>t.
     if source_action_is_obsolete W f modify venue_known event t then (t, Inr ())
     else maker_mark_unknown f (ac_client_order_id event)
       (if modify then ''maker modify rejected'' else ''maker cancel rejected'') t)"

section \<open>Fills\<close>

definition book_maker_fill :: "maker_wiring \<Rightarrow> maker_facts \<Rightarrow> source_direction \<Rightarrow> order_filled \<Rightarrow> (maker, hedge_intent option) tx" where
  "book_maker_fill W f d event =
    on_failure (on_owner (on_source_filled (view_object_of W d) (mr_source_instrument_id (mw_config W)) event)) (\<lambda>_.
      bind_tx (freeze_all_best_effort (fill_freeze_reason (of_client_order_id event) (of_trade_id event))) (\<lambda>_.
      cancel_all_best_effort f ''source fill WAL failed''))"

text \<open>The hold comes first; the booking, the hedge, and in any case the cancel of both orders.\<close>

definition maker_source_fill :: "maker_wiring \<Rightarrow> maker_facts \<Rightarrow> source_direction \<Rightarrow> order_filled \<Rightarrow> (maker, unit) tx" where
  "maker_source_fill W f d event =
    bind_tx (modify_tx (\<lambda>t. t\<lparr>mm_hold := True\<rparr>)) (\<lambda>_.
    bind_tx (book_maker_fill W f d event) (\<lambda>intent.
    bind_tx (and_finally (if intent \<noteq> None then submit_next_maker_hedge W f else ret_tx ())
      (cancel_all_best_effort f ''source fill froze Maker quoting'')) (\<lambda>_.
    modify_tx (\<lambda>t. if active_order d t = None
      then discard_pending (of_client_order_id event) (t\<lparr>mm_working := AList.delete (of_client_order_id event) (mm_working t)\<rparr>)
      else t))))"

text \<open>\<^verbatim>\<open>any\<close> over the coordinators stops at the first that applied the fill.\<close>

definition maker_hedge_fill :: "maker_wiring \<Rightarrow> maker_facts \<Rightarrow> order_filled \<Rightarrow> (maker, unit) tx" where
  "maker_hedge_fill W f event =
    bind_tx (on_owner (on_hedge_filled (view_object_of W LONG) event)) (\<lambda>long_applied.
    bind_tx (if long_applied then ret_tx True else on_owner (on_hedge_filled (view_object_of W SHORT) event)) (\<lambda>applied.
    bind_tx (if applied then submit_next_maker_hedge W f else ret_tx ()) (\<lambda>_.
    bind_tx (try_release_cycle f False) (\<lambda>_. ret_tx ()))))"

definition maker_order_filled :: "maker_wiring \<Rightarrow> maker_facts \<Rightarrow> order_filled \<Rightarrow> (maker, unit) tx" where
  "maker_order_filled W f event = (\<lambda>t.
     if mf_restart_blocked f then (t, Inr ())
     else if of_instrument_id event = mr_source_instrument_id (mw_config W) then
       (case direction_for_source_order t (of_client_order_id event) of
          None \<Rightarrow> (t, Inr ())
        | Some d \<Rightarrow>
            if has_seen_source_fill (view_object_of W d) (mr_source_instrument_id (mw_config W)) event (mm_store t) then (t, Inr ())
            else maker_source_fill W f d event t)
     else if of_instrument_id event = mr_hedge_instrument_id (mw_config W) then maker_hedge_fill W f event t
     else (t, Inr ()))"

section \<open>The terminal query\<close>

definition request_maker_query ::
  "maker_wiring \<Rightarrow> bool \<Rightarrow> source_direction \<Rightarrow> terminal_event \<Rightarrow> exn option \<Rightarrow> maker \<Rightarrow> maker"
where
  "request_maker_query W blocked d event outcome t =
    (let cid = te_client_order_id event in
     if blocked \<or> \<not> mw_terminal_query W \<or> mm_terminal_stopped t then t
     else if te_venue_order_id event = None \<or> cid \<in> mm_terminal_inflight t then t
     else let t = hand (AskVenue d event (mm_terminal_generation t)) (t\<lparr>mm_terminal_inflight := insert cid (mm_terminal_inflight t)\<rparr>)
       in case outcome of None \<Rightarrow> t
          | Some _ \<Rightarrow> t\<lparr>mm_terminal_inflight := mm_terminal_inflight t - {cid}\<rparr>)"

definition maker_order_terminated :: "maker_wiring \<Rightarrow> maker_facts \<Rightarrow> terminal_event \<Rightarrow> exn option \<Rightarrow> (maker, unit) tx" where
  "maker_order_terminated W f event outcome = (\<lambda>t.
     let d = direction_for_source_order t (te_client_order_id event) in
     bind_tx (maker_finish_or_reject f (te_client_order_id event) (terminal_name event)) (\<lambda>_.
     case d of None \<Rightarrow> ret_tx ()
     | Some d \<Rightarrow> modify_tx (request_maker_query W (mf_restart_blocked f) d event outcome)) t)"

text \<open>The callback; an exception of the store is swallowed and leaves the query in flight.\<close>

definition complete_maker_query ::
  "maker_wiring \<Rightarrow> maker_facts \<Rightarrow> source_direction \<Rightarrow> terminal_event \<Rightarrow> status_report option \<Rightarrow> terminal_order option \<Rightarrow>
    maker \<Rightarrow> maker \<times> bool"
where
  "complete_maker_query W f d event report order t =
    (let cid = te_client_order_id event in
     if mf_restart_blocked f then (t, False)
     else if mm_terminal_stopped t \<or> cid \<notin> mm_terminal_inflight t then (t, False)
     else if (case report of None \<Rightarrow> True
         | Some r \<Rightarrow> \<not> source_cancel_report_is_exact (dict_get (ss_source_orders (direction_state d t)) cid) order event r
             (mr_source_instrument_id (mw_config W)) (mc_source_accounts (mr_strategy (mw_config W))) True)
     then (t, False)
     else case bind_tx (on_owner (confirm_source_reconciled (direction_store d) cid)) (\<lambda>_. try_release_cycle f False) t of
       (t, Inl _) \<Rightarrow> (t, False)
     | (t, Inr _) \<Rightarrow> (t\<lparr>mm_terminal_inflight := mm_terminal_inflight t - {cid}\<rparr>, True))"

definition maker_terminal_callback ::
  "maker_wiring \<Rightarrow> maker_facts \<Rightarrow> source_direction \<Rightarrow> terminal_event \<Rightarrow> nat \<Rightarrow> status_report option \<Rightarrow> terminal_order option \<Rightarrow>
    maker \<Rightarrow> maker \<times> bool"
where
  "maker_terminal_callback W f d event generation report order t =
    (if generation = mm_terminal_generation t then complete_maker_query W f d event report order t else (t, False))"

end
