(* ===== verification/Maker_Callbacks.thy ===== *)
theory Maker_Callbacks
  imports Maker_Events
begin

text \<open>
  \<^verbatim>\<open>strategies/maker.py\<close>, last part: stale timers, start, drain and stop, and every callback as a datum
  of the type \<open>maker_event\<close>.
\<close>

section \<open>Stale timers\<close>

text \<open>
  The freshness check runs on \<open>f\<close>; what follows, after a cancel it may have sent, on \<open>f'\<close>.
\<close>

definition stale_inputs_usable :: "maker_wiring \<Rightarrow> maker_facts \<Rightarrow> (maker, bool) tx" where
  "stale_inputs_usable W f = (case (mf_source_tick f, mf_hedge_tick f) of
     (Some source_tick, Some hedge_tick) \<Rightarrow>
       bind_tx (maker_inputs_fresh W f source_tick hedge_tick) (\<lambda>fresh.
         if \<not> fresh then ret_tx False
         else if \<not> mw_account_reader W then ret_tx True
         else bind_tx (live_quote_accounts W f (book_top_of source_tick) (book_top_of hedge_tick) False) (\<lambda>view.
           ret_tx (view \<noteq> None)))
   | _ \<Rightarrow> ret_tx False)"

definition on_stale_timer :: "maker_wiring \<Rightarrow> maker_facts \<Rightarrow> maker_facts \<Rightarrow> string \<Rightarrow> (maker, unit) tx" where
  "on_stale_timer W f f' name = (\<lambda>t.
     if mf_restart_blocked f \<or> mm_draining t then (t, Inr ())
     else case maker_timer_target name (active_order LONG t) (active_order SHORT t) of
       None \<Rightarrow> (t, Inr ())
     | Some (d, order_id) \<Rightarrow>
         bind_tx (stale_inputs_usable W f) (\<lambda>usable.
           if usable then schedule_stale_timer W f' d order_id
           else freeze_and_cancel_all f' ''stale timer'' True)
           (if mm_timers t d = Some name then t\<lparr>mm_timers := (mm_timers t)(d := None)\<rparr> else t))"

text \<open>The clock fires an alert it holds; a live clock delivers through the loop, checking the generation.\<close>

definition fire_alert :: "maker_wiring \<Rightarrow> maker_facts \<Rightarrow> maker_facts \<Rightarrow> bool \<Rightarrow> string \<Rightarrow> (maker, unit) tx" where
  "fire_alert W f f' loop_closed name = (\<lambda>t. case dict_get (mm_alerts t) name of
     None \<Rightarrow> (t, Inr ())
   | Some (_, generation) \<Rightarrow>
       let t = t\<lparr>mm_alerts := AList.delete name (mm_alerts t)\<rparr> in
       if mw_live_clock W \<and> (\<not> mm_timer_loop t \<or> loop_closed
           \<or> mm_terminal_stopped t \<or> generation \<noteq> mm_terminal_generation t)
       then (t, Inr ()) else on_stale_timer W f f' name t)"

section \<open>Start, drain and stop\<close>

definition maker_account_topics :: "maker_wiring \<Rightarrow> exn + string set" where
  "maker_account_topics W = bindE (first_source_route W) (\<lambda>source. bindE (first_hedge_route W) (\<lambda>hedge.
     Inr {''events.account.'' @ sr_account_id source, ''events.account.'' @ hr_account_id hedge}))"

definition bind_maker_loop :: "maker_wiring \<Rightarrow> (maker, unit) tx" where
  "bind_maker_loop W = (if \<not> mw_account_reader W then ret_tx ()
     else bind_tx (modify_tx (\<lambda>t. t\<lparr>mm_account_loop := True\<rparr>)) (\<lambda>_.
       bind_tx (lift_tx (maker_account_topics W)) (\<lambda>topics. modify_tx (\<lambda>t. t\<lparr>mm_account_topics := topics\<rparr>))))"

definition maker_instrument_usable :: "maker_wiring \<Rightarrow> int \<Rightarrow> instrument \<Rightarrow> exn + unit" where
  "maker_instrument_usable W now_ns ins =
    bindE (mt5_swap_spec (mw_zone W) ins) (\<lambda>_.
    bindE (mt5_instrument_structure ins) (\<lambda>_.
    if mt5_instrument_is_fresh ins now_ns (mr_max_cost_age_ns (mw_config W)) then Inr ()
    else Inl (ValueError ''MT5 instrument observation is not fresh'')))"

definition subscribe_maker_inputs :: "maker_wiring \<Rightarrow> maker \<Rightarrow> maker" where
  "subscribe_maker_inputs W t = fold (\<lambda>feed. hand (MakerSubscribe feed))
     ([SourceQuotes, HedgeQuotes] @ (if mw_live_costs W then [HedgeInstruments, SourceFunding] else []) @ [HedgeStatusUpdates]) t"

definition recover_views :: "(maker, unit) tx" where
  "recover_views = each_tx (\<lambda>d. bind_tx (on_owner (recover_for_start (direction_store d))) (\<lambda>_. ret_tx ())) [LONG, SHORT]"

definition maker_start :: "maker_wiring \<Rightarrow> maker_facts \<Rightarrow> instrument option \<Rightarrow> instrument option \<Rightarrow> (maker, unit) tx" where
  "maker_start W f source_instrument hedge_instrument =
    bind_tx (modify_tx (\<lambda>t. t\<lparr>mm_draining := False, mm_pending_cancels := {}, mm_timer_loop := mw_live_clock W,
      mm_terminal_stopped := False\<rparr>)) (\<lambda>_.
    bind_tx (bind_maker_loop W) (\<lambda>_.
    bind_tx (modify_tx (\<lambda>t. t\<lparr>mm_source_instrument := source_instrument, mm_hedge_instrument := hedge_instrument\<rparr>)) (\<lambda>_.
    case (source_instrument, hedge_instrument) of
      (Some _, Some hedge) \<Rightarrow>
        bind_tx (lift_tx (if mw_live_costs W then or_unavailable (maker_instrument_usable W (mf_now_ns f) hedge)
          else Inr (Some ()))) (\<lambda>usable.
        if usable = None then modify_tx (hand StopMaker)
        else bind_tx (modify_tx (\<lambda>t. if mw_live_costs W then t\<lparr>mm_hedge_valid := True\<rparr> else t)) (\<lambda>_.
          bind_tx recover_views (\<lambda>_.
          bind_tx (try_release_cycle f False) (\<lambda>_.
          modify_tx (subscribe_maker_inputs W)))))
    | _ \<Rightarrow> modify_tx (hand StopMaker))))"

definition maker_begin_drain :: "maker \<Rightarrow> maker" where
  "maker_begin_drain t = (forget_timer SHORT (forget_timer LONG t))\<lparr>mm_draining := True\<rparr>"

definition maker_continue_drain :: "maker_wiring \<Rightarrow> maker_facts \<Rightarrow> (maker, unit) tx" where
  "maker_continue_drain W f =
    bind_tx (submit_next_maker_hedge W f) (\<lambda>_. bind_tx (try_release_cycle f False) (\<lambda>_. ret_tx ()))"

definition maker_stop :: "maker_facts \<Rightarrow> (maker, unit) tx" where
  "maker_stop f = (\<lambda>t.
     let t = t\<lparr>mm_terminal_stopped := True, mm_terminal_generation := mm_terminal_generation t + 1,
       mm_terminal_inflight := {}, mm_account_handle := None, mm_account_topics := {}, mm_account_loop := False,
       mm_pending_cancels := {}\<rparr>
     in if mf_restart_blocked f \<or> mm_draining t then (t, Inr ())
        else each_tx (\<lambda>d. cancel_working f d None ''strategy stop'') [LONG, SHORT] t)"

section \<open>Events\<close>

datatype maker_event =
    MakerQuoteTick maker_facts maker_facts maker_facts "source_direction \<Rightarrow> maker_facts" string
  | MakerStatus maker_facts string "bool option" int
  | MakerInstrument maker_facts instrument
  | MakerFunding maker_facts maker_facts string dec int
  | MakerCosts maker_facts carry_config fx_config int
  | MakerAccountUpdate bool
  | MakerAccountEvaluation maker_facts maker_facts maker_facts "source_direction \<Rightarrow> maker_facts" nat
  | MakerSubmitted maker_facts string
  | MakerAccepted maker_facts bool acceptance
  | MakerDeferredCancel maker_facts
  | MakerDenied maker_facts string
  | MakerRejected maker_facts string string
  | MakerTerminated maker_facts terminal_event "exn option"
  | MakerActionRejected maker_facts bool bool acceptance
  | MakerAnswer maker_facts source_direction terminal_event nat "status_report option" "terminal_order option"
  | MakerFilled maker_facts order_filled
  | MakerAlert maker_facts maker_facts bool string
  | MakerStart maker_facts "instrument option" "instrument option"
  | MakerDrain
  | MakerContinueDrain maker_facts
  | MakerStop maker_facts

text \<open>The event loop runs the oldest call it was left with.\<close>

definition run_deferred :: "maker_wiring \<Rightarrow> maker_facts \<Rightarrow> maker \<Rightarrow> maker" where
  "run_deferred W f t = (case mm_deferred t of
     [] \<Rightarrow> t
   | (event, generation) # rest \<Rightarrow> fst (cancel_after_acceptance W f event generation (t\<lparr>mm_deferred := rest\<rparr>)))"

fun run_maker :: "maker_wiring \<Rightarrow> maker_event \<Rightarrow> maker \<Rightarrow> maker" where
  "run_maker W (MakerQuoteTick fh f f' g i) t = fst (maker_quote_tick W fh f f' g i t)"
| "run_maker W (MakerStatus f i tr ts) t = fst (maker_instrument_status W f i tr ts t)"
| "run_maker W (MakerInstrument f ins) t = fst (maker_instrument W f ins t)"
| "run_maker W (MakerFunding f f' i r ts) t = fst (maker_funding_rate W f f' i r ts t)"
| "run_maker W (MakerCosts f carry fx ts) t = fst (maker_update_costs W f carry fx ts t)"
| "run_maker W (MakerAccountUpdate lc) t = maker_account_update lc t"
| "run_maker W (MakerAccountEvaluation fh f f' g n) t = maker_account_evaluation W fh f f' g n t"
| "run_maker W (MakerSubmitted f cid) t = fst (maker_order_progress (mf_restart_blocked f) cid False t)"
| "run_maker W (MakerAccepted f running ev) t = fst (maker_order_accepted f running ev t)"
| "run_maker W (MakerDeferredCancel f) t = run_deferred W f t"
| "run_maker W (MakerDenied f cid) t = fst (maker_finish_or_reject f cid ''DENIED'' t)"
| "run_maker W (MakerRejected f cid reason) t = fst (maker_order_rejected f cid reason t)"
| "run_maker W (MakerTerminated f ev out) t = fst (maker_order_terminated W f ev out t)"
| "run_maker W (MakerActionRejected f md known ev) t = fst (maker_action_rejected W f md known ev t)"
| "run_maker W (MakerAnswer f d ev g rep ord) t = fst (maker_terminal_callback W f d ev g rep ord t)"
| "run_maker W (MakerFilled f ev) t = fst (maker_order_filled W f ev t)"
| "run_maker W (MakerAlert f f' lc name) t = fst (fire_alert W f f' lc name t)"
| "run_maker W (MakerStart f si hi) t = fst (maker_start W f si hi t)"
| "run_maker W MakerDrain t = maker_begin_drain t"
| "run_maker W (MakerContinueDrain f) t = fst (maker_continue_drain W f t)"
| "run_maker W (MakerStop f) t = fst (maker_stop f t)"

end
