(* ===== verification/Owner_Lasting.thy ===== *)
theory Owner_Lasting
  imports Store_Lasting Maker_Runs
begin

text \<open>
  Lasting facts of the allocation owner. A view of the owner restores the last committed snapshot when a
  write fails, so the owner carries a fact of a view in the view and in that snapshot. Whatever fact no
  update of a store breaks, no operation of the owner breaks, through any view; orders and hedge bindings
  are such facts, and so is an order identity that was never used.
\<close>

definition carried :: "(store_state \<Rightarrow> bool) \<Rightarrow> view_key \<Rightarrow> owner \<Rightarrow> bool" where
  "carried I k w \<longleftrightarrow> I (view_of k w) \<and> I (sn_states (ow_committed w) k)"

lemma carried_persist: "carried I k w \<Longrightarrow> carried I k (fst (owner_persist w))"
proof -
  assume c: "carried I k w"
  have s: "owner_snapshot w' = sn \<Longrightarrow> view_of k w' = sn_states sn k" for w' sn by auto
  show ?thesis
    by (cases rule: owner_persist_cases [of w]) (use c in \<open>auto simp: carried_def dest: s\<close>)
qed

lemma carried_other: "ow_views w' k = ow_views w k \<Longrightarrow> ow_committed w' = ow_committed w \<Longrightarrow> carried I k w' = carried I k w"
  by (simp add: carried_def)

lemma others_guarded:
  assumes "k' \<noteq> k"
  shows "guarded (maker_view k') (carried I k)"
proof
  show "carried I k w \<Longrightarrow> carried I k (cu_set_view (maker_view k') v w)" for w v
    using assms by (simp add: carried_def)
  show "carried I k w \<Longrightarrow> carried I k (fst (cu_persist (maker_view k') w))" for w
    by (simp add: carried_persist)
  show "cu_allocate (maker_view k') rec key f w = (n, w') \<Longrightarrow> carried I k w \<Longrightarrow> carried I k w'" for rec key f w n w'
    using owner_allocate_run [of rec key f w n w'] by (auto simp: carried_def)
qed

locale owner_fact = lasting_fact I good_order good_intent
  for I :: "store_state \<Rightarrow> bool" and good_order :: "string \<Rightarrow> source_order_record \<Rightarrow> bool"
    and good_intent :: "hedge_intent \<Rightarrow> bool" +
  fixes k :: view_key
  assumes with_keys: "I s \<Longrightarrow> keyed s"

sublocale owner_fact \<subseteq> lasting_custody I good_order good_intent "maker_view k" "carried I k"
proof
  show "carried I k w \<Longrightarrow> I (cu_state (maker_view k) w)" for w
    by (simp add: carried_def)
  show "carried I k w \<Longrightarrow> I (vw_state v) \<Longrightarrow> carried I k (cu_set_view (maker_view k) v w)" for w v
    by (simp add: carried_def)
  show "carried I k w \<Longrightarrow> carried I k (fst (cu_persist (maker_view k) w))" for w
    by (simp add: carried_persist)
  show "cu_allocate (maker_view k) rec key f w = (n, w') \<Longrightarrow> carried I k w \<Longrightarrow> carried I k w'" for rec key f w n w'
    using owner_allocate_run [of rec key f w n w'] by (auto simp: carried_def)
qed

context owner_fact
begin

lemma fact_put: "carried I k w \<Longrightarrow> I (vw_state v) \<or> j \<noteq> k \<Longrightarrow> carried I k (put_view j v w)"
  by (auto simp: carried_def)

lemma fact_set_freeze: "carried I k w \<Longrightarrow> carried I k (set_freeze reason j w)"
  unfolding set_freeze_def by (rule fact_put) (auto simp: carried_def)

lemma fact_set_freezes: "carried I k w \<Longrightarrow> carried I k (snd (set_freezes reason ks w))"
  by (induction ks arbitrary: w) (simp_all add: fact_set_freeze)

lemma fact_revoke: "carried I k w \<Longrightarrow> carried I k (revoke_views ks w)"
proof -
  have "carried I k w \<Longrightarrow> carried I k (put_view j ((ow_views w j)\<lparr>vw_log := vw_log (ow_views w j) @ [c]\<rparr>) w)" for j c w
    by (rule fact_put) (auto simp: carried_def)
  then show "carried I k w \<Longrightarrow> carried I k (revoke_views ks w)"
    unfolding revoke_views_def by (induction ks arbitrary: w) simp_all
qed

lemma fact_cycle [simp]:
  "carried I k (w\<lparr>ow_cycle_freeze_only := b\<rparr>) = carried I k w"
  "carried I k (w\<lparr>ow_freeze_publication_failed := b\<rparr>) = carried I k w"
  by (simp_all add: carried_def)

lemma fact_freeze_external: "carried I k w \<Longrightarrow> carried I k (fst (freeze_external reason ks w))"
proof -
  assume c: "carried I k w"
  obtain b w1 where s: "set_freezes reason ks (revoke_views ks w) = (b, w1)" by fastforce
  have w1: "carried I k w1" using fact_set_freezes [OF fact_revoke [OF c], of reason ks ks] s by simp
  obtain w3 r3 where p: "owner_persist (w1\<lparr>ow_cycle_freeze_only := False\<rparr>) = (w3, r3)" by fastforce
  have "carried I k w3" using carried_persist [of I k "w1\<lparr>ow_cycle_freeze_only := False\<rparr>"] w1 p by simp
  with c w1 show ?thesis by (cases r3) (simp_all add: freeze_external_def s p Let_def)
qed

lemma fact_clear: "carried I k w \<Longrightarrow> carried I k (fst (clear_source_freezes w))"
proof -
  assume c: "carried I k w"
  have "carried I k (fold (set_freeze None) ks w)" for ks
    using c by (induction ks arbitrary: w) (simp_all add: fact_set_freeze)
  then have "carried I k (fst (bind_tx owner_persist (\<lambda>_. ret_tx True)
      ((fold (set_freeze None) ks w)\<lparr>ow_cycle_freeze_only := False\<rparr>)))" for ks
    unfolding bind_ret_fst by (intro carried_persist) simp
  then show ?thesis using c unfolding clear_source_freezes_def Let_def by simp
qed

lemma fact_maker_clear: "carried I k w \<Longrightarrow> carried I k (fst (maker_clear_source_freeze w))"
  using fact_clear [of w] unfolding maker_clear_source_freeze_def
  by (cases "clear_source_freezes w") (auto simp: bind_tx_fst split: sum.split)

lemma fact_run_op:
  assumes c: "carried I k w"
    and begins: "\<And>cid side q route fr r. j = k \<Longrightarrow> op = Begin cid side q route fr \<Longrightarrow>
      so_side r = side \<Longrightarrow> so_quantity_ounces r = q \<Longrightarrow> good_order cid r"
    and fills: "\<And>key cid trade side f i. j = k \<Longrightarrow> op = Reserve key cid trade side f \<Longrightarrow>
      key \<notin> ss_seen_source_fills (view_of k w) \<Longrightarrow> hi_intent_id i = ''hedge-'' @ digest key \<Longrightarrow> good_intent i"
  shows "carried I k (run_op (maker_view j) digest op w)"
proof (cases "j = k")
  case True
  have "keyed (cu_state (maker_view k) w)" using fact [OF c] by (rule with_keys)
  from lasts_run_op [OF c this, of op digest] begins fills True show ?thesis by simp
next
  case False
  from guarded.run_op_guarded [OF others_guarded [OF False] c] show ?thesis .
qed

lemma fact_reserve:
  assumes c: "carried I k w"
    and fills: "\<And>i. j = k \<Longrightarrow> key \<notin> ss_seen_source_fills (view_of k w) \<Longrightarrow> hi_intent_id i = ''hedge-'' @ digest key \<Longrightarrow> good_intent i"
  shows "carried I k (fst (maker_reserve_source_fill j digest key cid trade side f w))"
proof -
  define w1 where "w1 = snd (set_freezes (fill_freeze_reason cid trade) (view_keys (ow_config w)) (claim_cycle_freeze w))"
  have "carried I k (claim_cycle_freeze w)" using c by (simp add: claim_cycle_freeze_def Let_def)
  then have w1: "carried I k w1" unfolding w1_def by (rule fact_set_freezes)
  have cv: "view_of k' (claim_cycle_freeze w) = view_of k' w" for k' by (simp add: claim_cycle_freeze_def Let_def)
  have seen: "ss_seen_source_fills (view_of k (snd (set_freezes reason ks u))) = ss_seen_source_fills (view_of k u)" for reason ks u
    by (induction ks arbitrary: u) (simp_all add: set_freeze_def)
  obtain w2 r where s: "reserve_source_fill (maker_view j) digest key cid trade side f w1 = (w2, r)" by fastforce
  have "carried I k (run_op (maker_view j) digest (Reserve key cid trade side f) w1)"
    using fills by (intro fact_run_op [OF w1]) (auto simp: w1_def seen cv)
  then have w2: "carried I k w2" using s by simp
  have "carried I k (owner_restore (owner_snapshot w) w2)"
    using c w2 by (simp add: carried_def owner_restore_def owner_snapshot_def)
  with c s w2 show ?thesis
    by (cases r) (simp_all add: maker_reserve_source_fill_def w1_def [symmetric] Let_def)
qed

text \<open>An operation of the owner may only create orders and intents of this view the fact has nothing against.\<close>

lemma fact_owner_op:
  assumes c: "carried I k w"
    and begins: "\<And>cid side q route fr r. op = ViewOp k (Begin cid side q route fr) \<Longrightarrow>
      so_side r = side \<Longrightarrow> so_quantity_ounces r = q \<Longrightarrow> good_order cid r"
    and fills: "\<And>key cid trade side f i. op = ViewOp k (Reserve key cid trade side f) \<Longrightarrow>
      key \<notin> ss_seen_source_fills (view_of k w) \<Longrightarrow> hi_intent_id i = ''hedge-'' @ digest key \<Longrightarrow> good_intent i"
  shows "carried I k (run_owner_op digest op w)"
proof (cases op)
  case (ViewOp j sop)
  have "carried I k (run_op (maker_view j) digest sop w)"
    using begins fills ViewOp by (intro fact_run_op [OF c]) auto
  moreover have "carried I k (fst (maker_reserve_source_fill j digest key cid trade side f w))"
    if "sop = Reserve key cid trade side f" for key cid trade side f
    using fills ViewOp that by (intro fact_reserve [OF c]) auto
  ultimately have "carried I k (run_view_op j digest sop w)"
    using fact_freeze_external [OF c] fact_maker_clear [OF c]
    by (cases sop) (simp_all add: maker_freeze_source_submissions_def)
  with c ViewOp show ?thesis by simp
qed (use c fact_freeze_external fact_clear in \<open>simp_all add: freeze_sources_def release_completed_cycle_def\<close>)

end

section \<open>Three facts\<close>

definition unused_order :: "string \<Rightarrow> store_state \<Rightarrow> bool" where
  "unused_order cid s \<longleftrightarrow> cid \<notin> dict_keys (ss_source_orders s)"

lemma keyed_changes:
  "ss_hedge_intents t = ss_hedge_intents s \<Longrightarrow> keyed s \<Longrightarrow> keyed t"
  "keyed s \<Longrightarrow> keyed (set_order j r s)"
  "keyed s \<Longrightarrow> keyed (s\<lparr>ss_hedge_intents := dict_set (hi_intent_id i) i (ss_hedge_intents s)\<rparr>)"
  by (auto simp: keyed_def set_order_def dest: set_dict_set_subset [THEN subsetD])

interpretation unused_carried: owner_fact "\<lambda>s. unused_order cid s \<and> keyed s" "\<lambda>j r. j \<noteq> cid" "\<lambda>_. True" k for cid k
  by unfold_locales (auto simp: unused_order_def set_order_def rev_image_eqI intro: keyed_changes [unfolded set_order_def] dest!: map_of_SomeD)

interpretation order_carried: owner_fact "\<lambda>s. has_order cid side q s \<and> keyed s"
  "\<lambda>j r. j = cid \<longrightarrow> so_side r = side \<and> so_quantity_ounces r = q" "\<lambda>_. True" k for cid side q k
  by unfold_locales (auto simp: has_order_def set_order_def intro: keyed_changes [unfolded set_order_def])

interpretation binding_carried: owner_fact "\<lambda>s. has_binding iid cid s \<and> keyed s" "\<lambda>_ _. True"
  "\<lambda>i. hi_intent_id i = iid \<longrightarrow> cid \<in> set (hi_hedge_order_ids i)" k for iid cid k
  by unfold_locales (auto simp: has_binding_def set_order_def intro: keyed_changes [unfolded set_order_def] dest: keyed_get)

end
