(* ===== verification/Maker_Steps.thy ===== *)
theory Maker_Steps
  imports Maker_Callbacks Owner_Lasting
begin

text \<open>
  What the callbacks of the Maker may change. The locale \<open>maker_invariant\<close> lists what they are made of:
  fields of the strategy, owner operations that neither create an order nor book a fill, requests that
  are not orders, and the placement of one hedge. Whatever these keep, every callback keeps, apart
  from a new quote and a source fill, which its theorems take as premises.
\<close>

section \<open>Owner operations that create nothing\<close>

definition creates_nothing :: "owner_op \<Rightarrow> bool" where
  "creates_nothing op \<longleftrightarrow> (\<forall>k cid side q route fr. op \<noteq> ViewOp k (Begin cid side q route fr)) \<and>
    (\<forall>k key cid trade side f. op \<noteq> ViewOp k (Reserve key cid trade side f))"

inductive owner_runs :: "(string \<Rightarrow> string) \<Rightarrow> owner \<Rightarrow> owner \<Rightarrow> bool" for digest w where
  none: "owner_runs digest w w"
| more: "owner_runs digest w w' \<Longrightarrow> creates_nothing op \<Longrightarrow> owner_runs digest w (run_owner_op digest op w')"

lemma owner_runs_trans: "owner_runs digest v u \<Longrightarrow> owner_runs digest w v \<Longrightarrow> owner_runs digest w u"
  by (induction rule: owner_runs.induct) (auto intro: owner_runs.more)

lemma owner_runs_reachable: "owner_runs digest w w' \<Longrightarrow> owner_reachable cfg digest w \<Longrightarrow> owner_reachable cfg digest w'"
  by (induction rule: owner_runs.induct) (auto intro: owner_reachable.operated)

lemma owner_runs_order:
  "owner_runs digest w w' \<Longrightarrow> carried (\<lambda>s. has_order cid side q s \<and> keyed s) k w \<Longrightarrow>
    carried (\<lambda>s. has_order cid side q s \<and> keyed s) k w'"
  by (induction rule: owner_runs.induct) (auto simp: creates_nothing_def intro: order_carried.fact_owner_op)

lemma owner_runs_binding:
  "owner_runs digest w w' \<Longrightarrow> carried (\<lambda>s. has_binding iid cid s \<and> keyed s) k w \<Longrightarrow>
    carried (\<lambda>s. has_binding iid cid s \<and> keyed s) k w'"
  by (induction rule: owner_runs.induct) (auto simp: creates_nothing_def intro: binding_carried.fact_owner_op)

lemma owner_runs_unused:
  "owner_runs digest w w' \<Longrightarrow> carried (\<lambda>s. unused_order cid s \<and> keyed s) k w \<Longrightarrow>
    carried (\<lambda>s. unused_order cid s \<and> keyed s) k w'"
  by (induction rule: owner_runs.induct) (auto simp: creates_nothing_def intro: unused_carried.fact_owner_op)

definition plain :: "(string \<Rightarrow> string) \<Rightarrow> (owner, 'a) tx \<Rightarrow> bool" where
  "plain digest m \<longleftrightarrow> (\<forall>w. owner_runs digest w (fst (m w)))"

named_theorems plain_rules

lemma plain_bind [plain_rules]: "plain digest m \<Longrightarrow> (\<And>x. plain digest (f x)) \<Longrightarrow> plain digest (bind_tx m f)"
  unfolding plain_def bind_tx_fst by (auto split: prod.splits sum.splits intro: owner_runs_trans)
    (metis fst_conv owner_runs_trans)+

lemma plain_pure [plain_rules]: "plain digest (ret_tx x)" "plain digest (raise_tx e)" "plain digest (lift_tx y)"
  "plain digest (\<lambda>w. (w, r w))"
  by (simp_all add: plain_def owner_runs.none)

lemma plain_if [plain_rules]: "(b \<Longrightarrow> plain digest m) \<Longrightarrow> (\<not> b \<Longrightarrow> plain digest m') \<Longrightarrow> plain digest (if b then m else m')"
  by simp

lemma direction_viewed [simp]: "direction_view d \<in> set (view_keys cfg)"
  by (cases d) (simp_all add: view_keys_def)

lemma plain_call: "creates_nothing op \<Longrightarrow> (\<And>w. run_owner_op digest op w = fst (m w)) \<Longrightarrow> plain digest m"
  unfolding plain_def using owner_runs.more [OF owner_runs.none] by metis

lemma plain_calls [plain_rules]:
  "plain digest (update_source_status (direction_store d) cid status)"
  "plain digest (update_hedge_status (direction_store d) cid st native)"
  "plain digest (mark_source_unknown (direction_store d) cid reason)"
  "plain digest (confirm_source_reconciled (direction_store d) cid)"
  "plain digest (bind_hedge_order (direction_store d) iid cid)"
  "plain digest (bind_hedge_plan (direction_store d) iid plan)"
  "plain digest (block_hedge_intent (direction_store d) iid reason)"
  "plain digest (recover_for_start (direction_store d))"
  "plain digest (apply_hedge_fill (direction_store d) cid trade q)"
  "plain digest (freeze_sources reason)" "plain digest clear_source_freezes"
  by (rule plain_call [where op = "ViewOp (direction_view d) (SourceStatus cid status)"]
      plain_call [where op = "ViewOp (direction_view d) (HedgeStatus cid st native)"]
      plain_call [where op = "ViewOp (direction_view d) (MarkUnknown cid reason)"]
      plain_call [where op = "ViewOp (direction_view d) (Confirm cid)"]
      plain_call [where op = "ViewOp (direction_view d) (BindOrder iid cid)"]
      plain_call [where op = "ViewOp (direction_view d) (BindPlan iid plan)"]
      plain_call [where op = "ViewOp (direction_view d) (Block iid reason)"]
      plain_call [where op = "ViewOp (direction_view d) Recover"]
      plain_call [where op = "ViewOp (direction_view d) (HedgeFill cid trade q)"]
      plain_call [where op = "FreezeAll reason"] plain_call [where op = ClearAll]; simp add: creates_nothing_def)+

lemma view_object_simps [simp]:
  "sb_custody (view_object digest k) = maker_view k"
  "sb_reserve (view_object digest k) = maker_reserve_source_fill k digest"
  by (simp_all add: view_object_def)

lemma plain_next_leg [plain_rules]: "plain digest (next_hedge_leg (view_object dg (direction_view d)) iid positions)"
proof -
  let ?ob = "view_object dg (direction_view d)"
  have leg: "plain digest (planned_leg ?ob i positions)" for i
    unfolding planned_leg_def Let_def view_object_simps by (intro plain_rules)
  have fail: "plain digest (bind_tx (lift_tx y) (\<lambda>current.
      bind_tx (if hi_status current \<noteq> COMPLETED then block_hedge_intent (direction_store d) iid reason else ret_tx ())
        (\<lambda>_. raise_tx e :: (owner, hedge_leg) tx)))" for y reason e
    by (intro plain_rules)
  show ?thesis
    unfolding plain_def
  proof
    fix w
    have l: "owner_runs digest w (fst (planned_leg ?ob i positions w))" for i using leg by (simp add: plain_def)
    show "owner_runs digest w (fst (next_hedge_leg ?ob iid positions w))"
    proof (cases "dict_get (ss_hedge_intents (view_of (direction_view d) w)) iid")
      case (Some i)
      obtain w1 r where p: "planned_leg ?ob i positions w = (w1, r)" by fastforce
      with l [of i] have w1: "owner_runs digest w w1" by simp
      note f = owner_runs_trans [OF fail [unfolded plain_def, rule_format] w1]
      show ?thesis
      proof (cases r)
        case (Inl e)
        with f [of "dict_index (ss_hedge_intents (view_of (direction_view d) w1)) iid" "exn_text e" "HedgePlanningError (exn_text e)"]
          p Some w1 show ?thesis
          by (simp only: next_hedge_leg_def view_object_simps dict_index_def [of _ iid] option.case tx_run prod.case sum.case
              split: if_split) (simp add: owner_runs.none dict_index_def)
      qed (use p Some w1 in \<open>simp add: next_hedge_leg_def dict_index_def owner_runs.none\<close>)
    qed (simp add: next_hedge_leg_def dict_index_def owner_runs.none)
  qed
qed

lemma plain_filled [plain_rules]: "plain digest (on_hedge_filled (view_object dg (direction_view d)) event)"
  by (simp add: on_hedge_filled_def plain_rules)

section \<open>What every callback keeps\<close>

fun is_order :: "maker_request \<Rightarrow> bool" where
  "is_order (SubmitQuote q) = True"
| "is_order (SubmitHedge q) = True"
| "is_order _ = False"

lemma leaves_sum [leave_rules]:
  "(\<And>e. y = Inl e \<Longrightarrow> leaves P (f e)) \<Longrightarrow> (\<And>x. y = Inr x \<Longrightarrow> leaves P (g x)) \<Longrightarrow>
    leaves P (case y of Inl e \<Rightarrow> f e | Inr x \<Rightarrow> g x)"
  by (cases y) simp_all

lemma leaves_pair [leave_rules]: "(\<And>a b. y = (a, b) \<Longrightarrow> leaves P (f a b)) \<Longrightarrow> leaves P (case y of (a, b) \<Rightarrow> f a b)"
  by (cases y) simp

lemma leaves_bool [leave_rules]: "(b \<Longrightarrow> leaves P p) \<Longrightarrow> (\<not> b \<Longrightarrow> leaves P q) \<Longrightarrow> leaves P (case b of True \<Rightarrow> p | False \<Rightarrow> q)"
  by (cases b) simp_all

lemma leaves_applied [leave_rules]:
  "(y = None \<Longrightarrow> leaves P (m t)) \<Longrightarrow> (\<And>x. y = Some x \<Longrightarrow> leaves P (f x t)) \<Longrightarrow>
    leaves P ((case y of None \<Rightarrow> m | Some x \<Rightarrow> f x) t)"
  "(\<And>a b. z = (a, b) \<Longrightarrow> leaves P (g a b t)) \<Longrightarrow> leaves P ((case z of (a, b) \<Rightarrow> g a b) t)"
  by (auto split: option.split prod.split)

lemma leaves_run: "P t \<Longrightarrow> (P t \<Longrightarrow> leaves P (m t)) \<Longrightarrow> m t = (u, r) \<Longrightarrow> P u"
  by (simp add: leaves_def)

lemma leaves_quietly [leave_rules]: "(P t \<Longrightarrow> leaves P (m t)) \<Longrightarrow> P t \<Longrightarrow> leaves P (quietly m t)"
  by (simp add: quietly_def leaves_def)

lemma leaves_failure [leave_rules]:
  "P t \<Longrightarrow> (P t \<Longrightarrow> leaves P (m t)) \<Longrightarrow> (\<And>e u. P u \<Longrightarrow> leaves P (h e u)) \<Longrightarrow> leaves P (on_failure m h t)"
  unfolding on_failure_def by (intro leave_rules) (auto simp: leaves_def bind_tx_fst split: prod.splits sum.splits)

lemma leaves_finally [leave_rules]:
  "P t \<Longrightarrow> (P t \<Longrightarrow> leaves P (m t)) \<Longrightarrow> (\<And>u. P u \<Longrightarrow> leaves P (g u)) \<Longrightarrow> leaves P (and_finally m g t)"
  unfolding and_finally_def by (intro leave_rules) (auto simp: leaves_def bind_tx_fst split: prod.splits sum.splits)

lemma leaves_each [leave_rules]:
  "P t \<Longrightarrow> (\<And>x u. P u \<Longrightarrow> leaves P (f x u)) \<Longrightarrow> leaves P (each_tx f xs t)"
  unfolding leaves_def by (rule each_tx_preserves)

lemma field_simps_maker [simp]:
  "mm_store (discard_pending cid t) = mm_store t" "mm_sent (discard_pending cid t) = mm_sent t"
  "mm_store (forget_timer d t) = mm_store t" "mm_sent (forget_timer d t) = mm_sent t"
  "mm_store (set_alert d n due t) = mm_store t" "mm_sent (set_alert d n due t) = mm_sent t"
  "mm_store (hand q t) = mm_store t" "mm_sent (hand q t) = mm_sent t @ [q]"
  by (simp_all add: discard_pending_def forget_timer_def set_alert_def hand_def split: option.split)

locale maker_frame =
  fixes P :: "maker \<Rightarrow> bool" and W :: maker_wiring
  assumes frame: "P t \<Longrightarrow> mm_store u = mm_store t \<Longrightarrow> mm_sent u = mm_sent t \<Longrightarrow> P u"
    and hands: "P t \<Longrightarrow> \<not> is_order q \<Longrightarrow> P (hand q t)"
    and steps: "P t \<Longrightarrow> owner_runs (mw_digest W) (mm_store t) w \<Longrightarrow> P (t\<lparr>mm_store := w\<rparr>)"
begin

lemma on_fields: "mm_store (g t) = mm_store t \<Longrightarrow> mm_sent (g t) = mm_sent t \<Longrightarrow> P t \<Longrightarrow> P (g t)"
  by (rule frame)

lemma with_fields: "P t \<Longrightarrow> (\<And>t. mm_store (g t) = mm_store t \<and> mm_sent (g t) = mm_sent t) \<Longrightarrow> leaves P (modify_tx g t)"
  by (simp add: leaves_def on_fields)

lemma with_owner: "P t \<Longrightarrow> plain (mw_digest W) m \<Longrightarrow> leaves P (on_owner m t)"
  by (auto simp: leaves_def on_owner_def plain_def split: prod.splits) (metis fst_conv steps)

text \<open>A hedge order, when its hand-over after the binding keeps the invariant.\<close>

lemma hedge_places:
  assumes t: "P t"
    and send: "\<And>quantity w. bind_hedge_order (direction_store d) iid (mf_fresh_order_id f) (mm_store t) = (w, Inr ()) \<Longrightarrow>
      P (t\<lparr>mm_store := w\<rparr>) \<Longrightarrow>
      P (hand (SubmitHedge (maker_hedge_request (mf_fresh_order_id f) client iid quantity leg)) (t\<lparr>mm_store := w\<rparr>))"
  shows "leaves P (place_maker_hedge W f d client iid leg t)"
proof -
  let ?cid = "mf_fresh_order_id f"
  let ?b = "on_owner (bind_hedge_order (direction_store d) iid ?cid)"
  have b: "leaves P (?b t)" by (intro with_owner plain_rules t)
  have s: "leaves P (on_failure (bind_tx (modify_tx (hand (SubmitHedge (maker_hedge_request ?cid client iid quantity leg))))
      (\<lambda>_. case mf_submission f of Some e \<Rightarrow> raise_tx e | None \<Rightarrow> ret_tx ()))
      (\<lambda>e. on_owner (update_hedge_status (direction_store d) ?cid UNKNOWN None)) u)" if bu: "?b t = (u, Inr ())" for u quantity
  proof -
    obtain w where w: "bind_hedge_order (direction_store d) iid ?cid (mm_store t) = (w, Inr ())" "u = t\<lparr>mm_store := w\<rparr>"
      using bu by (auto simp: on_owner_def split: prod.splits)
    have u: "P u" using b bu by (simp add: leaves_def)
    have h: "P (hand (SubmitHedge (maker_hedge_request ?cid client iid quantity leg)) u)" using send [OF w(1)] u w(2) by simp
    show ?thesis
      by (intro leave_rules with_owner plain_rules u; (assumption | simp add: leaves_def h))
  qed
  have "leaves P (bind_tx ?b (\<lambda>_. on_failure (bind_tx (modify_tx (hand (SubmitHedge (maker_hedge_request ?cid client iid quantity leg))))
      (\<lambda>_. case mf_submission f of Some e \<Rightarrow> raise_tx e | None \<Rightarrow> ret_tx ()))
      (\<lambda>e. on_owner (update_hedge_status (direction_store d) ?cid UNKNOWN None))) t)" for quantity
  proof (cases "?b t")
    case (Pair u r)
    with b s [of u quantity] show ?thesis by (cases r) (simp_all add: leaves_def bind_tx_def)
  qed
  then show ?thesis
    using t unfolding place_maker_hedge_def Let_def view_object_of_def bind_hedge_leg_def view_object_simps
    by (cases "mf_make_hedge_qty f (leg_quantity_ounces leg)") (simp_all add: leaves_def)
qed

end

locale maker_invariant = maker_frame +
  assumes hedges: "P t \<Longrightarrow> leaves P (place_maker_hedge W f d client iid leg t)"
begin

lemma cancels: "P t \<Longrightarrow> leaves P (cancel_working f d expected reason t)"
proof -
  have send: "P t \<Longrightarrow> leaves P (send_cancel f d cid reason t)" for cid t
    unfolding send_cancel_def Let_def
    by (intro leave_rules with_owner plain_rules; auto intro!: hands on_fields [where g = "discard_pending cid"])
  show "P t \<Longrightarrow> leaves P (cancel_working f d expected reason t)"
    unfolding cancel_working_def
    by (intro leave_rules with_owner plain_rules send; (assumption | erule frame; simp))
qed

lemma cancels_all: "P t \<Longrightarrow> leaves P (cancel_all_best_effort f reason t)"
  unfolding cancel_all_best_effort_def by (intro leave_rules cancels; assumption)

lemma freezes_all: "P t \<Longrightarrow> leaves P (freeze_all_best_effort reason t)"
  unfolding freeze_all_best_effort_def by (intro leave_rules with_owner plain_rules; assumption)

lemma freezes_and_cancels: "P t \<Longrightarrow> leaves P (freeze_and_cancel_all f reason b t)"
  unfolding freeze_and_cancel_all_def
  by (intro leave_rules with_fields cancels_all freezes_all; (assumption | simp))

lemma costs: "P t \<Longrightarrow> leaves P (maker_invalidate_costs f reason t)" "P t \<Longrightarrow> leaves P (maker_update_costs W f carry fx ts t)"
proof -
  have i: "P t \<Longrightarrow> leaves P (maker_invalidate_costs f reason t)" for t reason
    unfolding maker_invalidate_costs_def by (intro leave_rules with_fields freezes_and_cancels; (assumption | simp))
  then show "P t \<Longrightarrow> leaves P (maker_invalidate_costs f reason t)" .
  show "P t \<Longrightarrow> leaves P (maker_update_costs W f carry fx ts t)"
    unfolding maker_update_costs_def Let_def
    by (intro leave_rules i freezes_and_cancels; (assumption | erule frame; simp))
qed

lemma timers: "P t \<Longrightarrow> leaves P (schedule_stale_timer W f d cid t)" "P t \<Longrightarrow> leaves P (reschedule_active_timers W f t)"
proof -
  have s: "P t \<Longrightarrow> leaves P (schedule_stale_timer W f d cid t)" for t d cid
    unfolding schedule_stale_timer_def Let_def
    by (intro leave_rules freezes_and_cancels; (assumption | erule frame; simp))
  then show "P t \<Longrightarrow> leaves P (schedule_stale_timer W f d cid t)" .
  show "P t \<Longrightarrow> leaves P (reschedule_active_timers W f t)"
    unfolding reschedule_active_timers_def by (intro leave_rules s; assumption)
qed

lemma sessions: "P t \<Longrightarrow> leaves P (maker_update_session W f is_open ts t)"
  unfolding maker_update_session_def Let_def
  by (intro leave_rules freezes_and_cancels timers; (assumption | erule frame; simp))

lemma inputs: "P t \<Longrightarrow> leaves P (maker_inputs_fresh W f st ht t)" "P t \<Longrightarrow> leaves P (usable_inputs W f st ht t)"
proof -
  have i: "P t \<Longrightarrow> leaves P (maker_inputs_fresh W f st ht t)" for t
    unfolding maker_inputs_fresh_def Let_def
    by (intro leave_rules costs; assumption)
  then show "P t \<Longrightarrow> leaves P (maker_inputs_fresh W f st ht t)" .
  show "P t \<Longrightarrow> leaves P (usable_inputs W f st ht t)"
    unfolding usable_inputs_def
    by (intro leave_rules i with_fields; (assumption | simp))
qed

lemma releases: "P t \<Longrightarrow> leaves P (try_release_cycle f b t)"
  unfolding try_release_cycle_def Let_def
  by (intro leave_rules with_owner plain_rules with_fields; (assumption | erule frame; simp | simp))

section \<open>Hedges and order events\<close>

lemma routes: "P t \<Longrightarrow> leaves P (durable_hedge_route W d cid t)"
  unfolding durable_hedge_route_def Let_def by (intro leave_rules with_owner plain_rules; assumption)

lemma hedge_queue: "P t \<Longrightarrow> leaves P (submit_next_maker_hedge W f t)"
proof -
  have leg: "P t \<Longrightarrow> leaves P (on_owner (next_hedge_leg (view_object_of W d) iid positions) t)" for d iid positions t
    unfolding view_object_of_def by (intro with_owner plain_rules)
  have one: "P t \<Longrightarrow> leaves P (submit_maker_hedge W f d account client i t)" for d account client i t
    unfolding submit_maker_hedge_def Let_def
    by (intro leave_rules hedges; (assumption | erule (1) leaves_run [OF _ leg]))
  show "P t \<Longrightarrow> leaves P (submit_next_maker_hedge W f t)"
    unfolding submit_next_maker_hedge_def
    by (intro leave_rules routes one with_owner plain_rules; assumption)
qed

lemma statuses: "P t \<Longrightarrow> leaves P (each_hedge_status cid st native t)"
  unfolding each_hedge_status_def by (intro leave_rules with_owner plain_rules; assumption)

lemma progress: "P t \<Longrightarrow> leaves P (maker_order_progress b cid acc t)"
  "P t \<Longrightarrow> leaves P (maker_order_accepted f running event t)"
proof -
  have g: "P t \<Longrightarrow> leaves P (maker_order_progress b cid acc t)" for b cid acc t
    unfolding maker_order_progress_def by (intro leave_rules statuses with_owner plain_rules; assumption)
  then show "P t \<Longrightarrow> leaves P (maker_order_progress b cid acc t)" .
  show "P t \<Longrightarrow> leaves P (maker_order_accepted f running event t)"
    unfolding maker_order_accepted_def by (intro leave_rules g with_fields; (assumption | simp))
qed

lemma deferred: "P t \<Longrightarrow> leaves P (cancel_after_acceptance W f event generation t)"
  unfolding cancel_after_acceptance_def Let_def
  by (intro leave_rules cancels freezes_all with_owner plain_rules; (assumption | erule frame; simp))

lemma unknowns: "P t \<Longrightarrow> leaves P (maker_mark_unknown f cid reason t)"
  unfolding maker_mark_unknown_def
  by (intro leave_rules freezes_and_cancels with_owner plain_rules; (assumption | erule frame; simp))

lemma finishes: "P t \<Longrightarrow> leaves P (maker_finish_or_reject f cid status t)"
  "P t \<Longrightarrow> leaves P (maker_order_rejected f cid reason t)" "P t \<Longrightarrow> leaves P (maker_action_rejected W f md known event t)"
proof -
  have g: "P t \<Longrightarrow> leaves P (maker_finish_or_reject f cid status t)" for status
    unfolding maker_finish_or_reject_def
    by (intro leave_rules statuses releases with_fields with_owner plain_rules; (assumption | simp))
  then show "P t \<Longrightarrow> leaves P (maker_finish_or_reject f cid status t)" .
  show "P t \<Longrightarrow> leaves P (maker_order_rejected f cid reason t)"
    unfolding maker_order_rejected_def
    by (intro leave_rules g statuses unknowns freezes_and_cancels; assumption)
  show "P t \<Longrightarrow> leaves P (maker_action_rejected W f md known event t)"
    unfolding maker_action_rejected_def by (intro leave_rules unknowns; assumption)
qed

lemma hedge_fills: "P t \<Longrightarrow> leaves P (maker_hedge_fill W f event t)"
  unfolding maker_hedge_fill_def view_object_of_def
  by (intro leave_rules hedge_queue releases with_owner plain_rules; assumption)

lemma queries: "P t \<Longrightarrow> P (request_maker_query W b d event outcome t)"
proof -
  assume t: "P t"
  let ?u = "hand (AskVenue d event (mm_terminal_generation t))
    (t\<lparr>mm_terminal_inflight := insert (te_client_order_id event) (mm_terminal_inflight t)\<rparr>)"
  have u: "P ?u" by (rule hands [OF frame [OF t]]) simp_all
  show ?thesis
    using t u frame [OF u, of "?u\<lparr>mm_terminal_inflight := m\<rparr>" for m]
    by (simp add: request_maker_query_def Let_def split: option.split)
qed

lemma terminations: "P t \<Longrightarrow> leaves P (maker_order_terminated W f event outcome t)"
  unfolding maker_order_terminated_def Let_def
  by (intro leave_rules finishes; (assumption | simp add: leaves_def queries))

lemma answers: "P t \<Longrightarrow> P (fst (maker_terminal_callback W f d event g report order t))"
proof -
  assume t: "P t"
  have c: "leaves P (bind_tx (on_owner (confirm_source_reconciled (direction_store d) cid)) (\<lambda>_. try_release_cycle f False) t)" for cid
    by (intro leave_rules releases with_owner plain_rules t; assumption)
  show ?thesis
    using t c [of "te_client_order_id event"]
    by (auto simp: maker_terminal_callback_def complete_maker_query_def Let_def leaves_def split: option.split prod.splits sum.splits
        intro: frame [OF c [of "te_client_order_id event", unfolded leaves_def]])
qed

section \<open>Quotes, timers, start and stop\<close>

lemma account_views: "P t \<Longrightarrow> leaves P (live_quote_accounts W f sb hb new t)"
  unfolding live_quote_accounts_def Let_def
  by (intro leave_rules; (assumption | erule frame; simp))

lemma quotes: "P t \<Longrightarrow> leaves P (new_quote W f d sb hb t)" "P t \<Longrightarrow> leaves P (bound_quote W f bound sb hb t)"
proof -
  have n: "P t \<Longrightarrow> leaves P (new_quote_accounts W f sb hb t)"
    unfolding new_quote_accounts_def by (intro leave_rules account_views; (assumption | erule frame; simp))
  have b: "P t \<Longrightarrow> leaves P (bound_quote_accounts W f bound sb hb t)"
    unfolding bound_quote_accounts_def by (intro leave_rules account_views; assumption)
  show "P t \<Longrightarrow> leaves P (new_quote W f d sb hb t)"
    unfolding new_quote_def by (intro leave_rules n; assumption)
  show "P t \<Longrightarrow> leaves P (bound_quote W f bound sb hb t)"
    unfolding bound_quote_def Let_def by (intro leave_rules b; assumption)
qed

lemma working: "P t \<Longrightarrow> leaves P (refresh_working W f d cid sb hb t)"
proof -
  have r: "P t \<Longrightarrow> leaves P (requote W f order desired t)" for order desired t
    unfolding requote_def by (intro leave_rules; (assumption | rule hands; simp))
  have g: "P t \<Longrightarrow> leaves P (give_up_order f d cid a b t)" for a b t
    unfolding give_up_order_def by (intro leave_rules cancels with_owner plain_rules; assumption)
  have m: "P t \<Longrightarrow> leaves P (maintain_order W f d cid order bound sb hb t)" for order bound t
    unfolding maintain_order_def
    by (intro leave_rules quotes cancels r timers with_fields; (assumption | simp))
  show "P t \<Longrightarrow> leaves P (refresh_working W f d cid sb hb t)"
    unfolding refresh_working_def
    by (intro leave_rules cancels g m with_owner plain_rules; assumption)
qed

lemma alerts: "P t \<Longrightarrow> leaves P (fire_alert W f f' lc name t)"
proof -
  have u: "P t \<Longrightarrow> leaves P (stale_inputs_usable W f t)" for t
    unfolding stale_inputs_usable_def by (intro leave_rules inputs account_views; assumption)
  have s: "P t \<Longrightarrow> leaves P (on_stale_timer W f f' name t)" for t
    unfolding on_stale_timer_def
    by (intro leave_rules u timers freezes_and_cancels; (assumption | erule frame; simp))
  show "P t \<Longrightarrow> leaves P (fire_alert W f f' lc name t)"
    unfolding fire_alert_def Let_def by (intro leave_rules s; (assumption | erule frame; simp))
qed

lemma starts: "P t \<Longrightarrow> leaves P (maker_start W f si hi t)"
proof -
  have l: "P t \<Longrightarrow> leaves P (bind_maker_loop W t)" for t
    unfolding bind_maker_loop_def by (intro leave_rules with_fields; (assumption | simp))
  have v: "P t \<Longrightarrow> leaves P (recover_views t)" for t
    unfolding recover_views_def by (intro leave_rules with_owner plain_rules; assumption)
  have stop: "P t \<Longrightarrow> leaves P (modify_tx (hand StopMaker) t)" for t by (simp add: leaves_def hands)
  have sub: "P t \<Longrightarrow> leaves P (modify_tx (subscribe_maker_inputs W) t)" for t
    unfolding subscribe_maker_inputs_def by (simp add: leaves_def hands)
  show "P t \<Longrightarrow> leaves P (maker_start W f si hi t)"
    unfolding maker_start_def
    by (intro leave_rules l v stop sub releases with_fields; (assumption | simp))
qed

lemma stops: "P t \<Longrightarrow> leaves P (maker_stop f t)" "P t \<Longrightarrow> P (maker_begin_drain t)" "P t \<Longrightarrow> leaves P (maker_continue_drain W f t)"
proof -
  show "P t \<Longrightarrow> leaves P (maker_stop f t)"
    unfolding maker_stop_def Let_def by (intro leave_rules cancels; (assumption | erule frame; simp))
  show "P t \<Longrightarrow> P (maker_begin_drain t)"
    by (erule frame) (simp_all add: maker_begin_drain_def)
  show "P t \<Longrightarrow> leaves P (maker_continue_drain W f t)"
    unfolding maker_continue_drain_def by (intro leave_rules hedge_queue releases; assumption)
qed

lemma instruments: "P t \<Longrightarrow> leaves P (maker_instrument W f ins t)" "P t \<Longrightarrow> leaves P (maker_funding_rate W f f' i rate ts t)"
proof -
  show "P t \<Longrightarrow> leaves P (maker_instrument W f ins t)"
    unfolding maker_instrument_def
    by (intro leave_rules freezes_and_cancels; (assumption | erule frame; simp))
  have d: "leaves P (m t) \<Longrightarrow> (\<And>r. leaves P (g r t)) \<Longrightarrow> leaves P ((case rate of NonFinite \<Rightarrow> m | Fin r \<Rightarrow> g r) t)"
    for m :: "(maker, unit) tx" and g
    by (cases rate) simp_all
  show "P t \<Longrightarrow> leaves P (maker_funding_rate W f f' i rate ts t)"
    unfolding maker_funding_rate_def Let_def
    by (intro leave_rules costs d; assumption)
qed

section \<open>A new quote\<close>

text \<open>
  Everything before the placement of the order keeps the invariant; what the placement leads to is
  the caller's to say, from what was established before.
\<close>

lemma leads_bind: "P t \<Longrightarrow> (P t \<Longrightarrow> leaves P (m t)) \<Longrightarrow> (\<And>u. P u \<Longrightarrow> Q u) \<Longrightarrow>
    (\<And>x u. m t = (u, Inr x) \<Longrightarrow> P u \<Longrightarrow> leaves Q (g x u)) \<Longrightarrow> leaves Q (bind_tx m g t)"
  by (auto simp: leaves_def bind_tx_fst split: prod.splits sum.splits)

end

definition quoting_facts :: "maker_event \<Rightarrow> (source_direction \<Rightarrow> maker_facts) option" where
  "quoting_facts e = (case e of MakerQuoteTick fh f f' g i \<Rightarrow> Some g | MakerAccountEvaluation fh f f' g n \<Rightarrow> Some g | _ \<Rightarrow> None)"

definition pausing :: "maker_wiring \<Rightarrow> bool" where
  "pausing W \<longleftrightarrow> (\<forall>admits k side q. mw_admission W = Some admits \<longrightarrow> plain (mw_digest W) (admits k side q))"

text \<open>What is established when a new order is placed.\<close>

definition quote_ready ::
  "maker_wiring \<Rightarrow> maker_facts \<Rightarrow> source_direction \<Rightarrow> book_top \<Rightarrow> book_top \<Rightarrow> maker \<Rightarrow> maker_quote_rec \<Rightarrow> rat \<Rightarrow> maker \<Rightarrow> bool"
where
  "quote_ready W f d sb hb t quote q u \<longleftrightarrow> active_order d t = None \<and> can_submit_source (direction_store d) (mm_store t) \<and>
    (\<exists>t'. new_quote W f d sb hb t = (t', Inr (Some quote)) \<and> \<not> mf_restart_blocked f \<and> \<not> mm_draining t' \<and>
      source_admission W quote q t' = (u, Inr True)) \<and>
    mf_make_source_qty f (mq_quantity_ounces quote) = Inr q \<and> maker_hedge_executable W f quote q u = Inr True"

context maker_invariant
begin

lemma submits:
  assumes t: "P t" and w: "pausing W" and weak: "\<And>u. P u \<Longrightarrow> Q u"
    and place: "\<And>q u. \<not> mf_restart_blocked f \<Longrightarrow> \<not> mm_draining t \<Longrightarrow> mf_make_source_qty f (mq_quantity_ounces quote) = Inr q \<Longrightarrow>
      source_admission W quote q t = (u, Inr True) \<Longrightarrow> maker_hedge_executable W f quote q u = Inr True \<Longrightarrow> P u \<Longrightarrow>
      leaves Q (place_quote W f quote q u)"
  shows "leaves Q (submit_quote W f quote t)"
proof (cases "mf_restart_blocked f \<or> mm_draining t")
  case True
  then show ?thesis using weak [OF t] by (simp add: submit_quote_def leaves_def)
next
  case False
  have a: "leaves P (source_admission W quote q t)" for q
    unfolding source_admission_def using w t by (intro leave_rules with_owner) (auto simp: pausing_def)
  have b: "leaves Q (bind_tx (lift_tx (maker_hedge_executable W f quote q u)) (\<lambda>executable.
      if \<not> executable then ret_tx () else place_quote W f quote q) u)"
    if "P u" "mf_make_source_qty f (mq_quantity_ounces quote) = Inr q" "source_admission W quote q t = (u, Inr True)" for q u
    using False by (intro leads_bind [OF that(1) _ weak]) (auto intro!: leave_rules place that weak)
  have c: "leaves Q (bind_tx (source_admission W quote q) (\<lambda>admitted t. if \<not> admitted then (t, Inr ())
       else bind_tx (lift_tx (maker_hedge_executable W f quote q t)) (\<lambda>executable.
         if \<not> executable then ret_tx () else place_quote W f quote q) t) t)"
    if "mf_make_source_qty f (mq_quantity_ounces quote) = Inr q" for q
  proof (rule leads_bind [OF t])
    show "leaves P (source_admission W quote q t)" by (rule a)
  qed (auto intro!: leaves_pure b that weak)
  have "leaves Q (bind_tx (lift_tx (bindE (maker_source_instrument t) (\<lambda>_. mf_make_source_qty f (mq_quantity_ounces quote)))) g t)"
    if "\<And>q. mf_make_source_qty f (mq_quantity_ounces quote) = Inr q \<Longrightarrow> leaves Q (g q t)" for g :: "rat \<Rightarrow> (maker, unit) tx"
    by (rule leads_bind [OF t _ weak]) (auto intro!: leave_rules that simp: bindE_Inr_iff weak t)
  with False show ?thesis unfolding submit_quote_def by (simp add: c)
qed

lemma refreshes:
  assumes t: "P t" and w: "pausing W" and weak: "\<And>u. P u \<Longrightarrow> Q u"
    and place: "\<And>quote q u. quote_ready W f d sb hb t quote q u \<Longrightarrow> P u \<Longrightarrow> leaves Q (place_quote W f quote q u)"
  shows "leaves Q (refresh_direction W f sb hb d t)"
proof (cases "active_order d t")
  case (Some cid)
  then show ?thesis using working [OF t, of f d cid sb hb] weak by (simp add: refresh_direction_def leaves_def)
next
  case None
  show ?thesis
  proof (cases "can_submit_source (direction_store d) (mm_store t)")
    case True
    have "leaves Q (bind_tx (new_quote W f d sb hb) (\<lambda>quote. case quote of None \<Rightarrow> ret_tx () | Some quote \<Rightarrow> submit_quote W f quote) t)"
    proof (rule leads_bind [OF t quotes(1) weak])
      fix x u assume n: "new_quote W f d sb hb t = (u, Inr x)" and u: "P u"
      show "leaves Q ((case x of None \<Rightarrow> ret_tx () | Some quote \<Rightarrow> submit_quote W f quote) u)"
      proof (cases x)
        case (Some quote)
        have "leaves Q (submit_quote W f quote u)"
          by (rule submits [OF u w weak], assumption, rule place)
            (use n Some None True in \<open>auto simp: quote_ready_def\<close>)
        with Some show ?thesis by simp
      qed (use weak [OF u] in \<open>simp add: leaves_def\<close>)
    qed
    with None True show ?thesis by (simp add: refresh_direction_def)
  qed (use None weak [OF t] in \<open>simp add: refresh_direction_def leaves_def\<close>)
qed

text \<open>An evaluation, up to the walk over the directions; a fill, up to its booking.\<close>

lemma quote_ticks:
  assumes t: "P t" and weak: "\<And>u. P u \<Longrightarrow> Q u"
    and walk: "\<And>st ht u. P u \<Longrightarrow> leaves Q (each_tx (\<lambda>d. refresh_direction W (g d) (book_top_of st) (book_top_of ht) d) (quote_directions W u) u)"
  shows "leaves Q (maker_quote_tick W fh f f' g i t)"
proof -
  have r: "leaves Q (refresh_all W f' g st ht u)" if u: "P u" for st ht u
  proof -
    have w: "P (u\<lparr>mm_budget_waiting := False\<rparr>)" by (rule frame [OF u]) simp_all
    have c: "leaves P (bind_tx (modify_tx (\<lambda>t. t\<lparr>mm_hold := True\<rparr>)) (\<lambda>_. cancel_all_best_effort f' reason) u)" for reason
      by (intro leave_rules with_fields cancels_all u; (assumption | simp))
    show ?thesis
      using c walk [OF u] walk [OF w] weak [OF u] weak unfolding refresh_all_def Let_def
      by (auto simp: leaves_def)
  qed
  have e: "leaves Q (evaluate_quotes W f f' g u)" if u: "P u" for u
  proof -
    have "leaves Q (bind_tx (usable_inputs W f st ht) (\<lambda>usable. if \<not> usable then freeze_and_cancel_all f' reason True
        else bind_tx (try_release_cycle f' True) (\<lambda>_. refresh_all W f' g st ht)) u)" for st ht reason
    proof (rule leads_bind [OF u inputs(2) weak])
      fix x v assume v: "P v"
      have "leaves Q (bind_tx (try_release_cycle f' True) (\<lambda>_. refresh_all W f' g st ht) v)"
        by (rule leads_bind [OF v releases weak]) (auto intro: r)
      then show "leaves Q ((if \<not> x then freeze_and_cancel_all f' reason True
          else bind_tx (try_release_cycle f' True) (\<lambda>_. refresh_all W f' g st ht)) v)"
        using freezes_and_cancels [OF v, of f' reason True] weak by (simp add: leaves_def)
    qed
    then show ?thesis
      using weak [OF u] unfolding evaluate_quotes_def by (auto simp: leaves_def split: option.split)
  qed
  have "leaves Q (bind_tx (if i = mr_hedge_instrument_id (mw_config W) then submit_next_maker_hedge W fh else ret_tx ())
      (\<lambda>_. evaluate_quotes W f f' g) t)"
  proof (rule leads_bind [OF t _ weak])
    show "leaves P ((if i = mr_hedge_instrument_id (mw_config W) then submit_next_maker_hedge W fh else ret_tx ()) t)"
      by (intro leave_rules hedge_queue t)
  qed (auto intro: e)
  with weak [OF t] show ?thesis by (simp add: maker_quote_tick_def leaves_def)
qed

lemma fills:
  assumes t: "P t"
    and book: "\<And>d. direction_for_source_order t (of_client_order_id event) = Some d \<Longrightarrow>
      of_instrument_id event = mr_source_instrument_id (mw_config W) \<Longrightarrow> P (t\<lparr>mm_hold := True\<rparr>) \<Longrightarrow>
      leaves P (on_owner (on_source_filled (view_object_of W d) (mr_source_instrument_id (mw_config W)) event) (t\<lparr>mm_hold := True\<rparr>))"
  shows "leaves P (maker_order_filled W f event t)"
proof -
  have h: "P (t\<lparr>mm_hold := True\<rparr>)" by (rule frame [OF t]) simp_all
  have "leaves P (maker_source_fill W f d event t)"
    if d: "direction_for_source_order t (of_client_order_id event) = Some d"
      "of_instrument_id event = mr_source_instrument_id (mw_config W)" for d
  proof -
    have b: "leaves P (book_maker_fill W f d event (t\<lparr>mm_hold := True\<rparr>))"
      unfolding book_maker_fill_def
      by (intro leave_rules book [OF d] freezes_all cancels_all h; assumption)
    have "leaves P (bind_tx (book_maker_fill W f d event) (\<lambda>intent.
      bind_tx (and_finally (if intent \<noteq> None then submit_next_maker_hedge W f else ret_tx ())
        (cancel_all_best_effort f reason)) (\<lambda>_. modify_tx (\<lambda>t. if active_order d t = None
        then discard_pending (of_client_order_id event) (t\<lparr>mm_working := AList.delete (of_client_order_id event) (mm_working t)\<rparr>)
        else t))) (t\<lparr>mm_hold := True\<rparr>))" for reason
      by (rule leaves_bind, rule h, rule b) (intro leave_rules hedge_queue cancels_all with_fields; (assumption | simp))
    then show ?thesis by (simp add: maker_source_fill_def)
  qed
  with t hedge_fills [OF t] show ?thesis
    unfolding maker_order_filled_def by (auto simp: leaves_def split: option.split)
qed

text \<open>Every event, with the walk and the booking as premises.\<close>

lemma events:
  assumes t: "P t" and weak: "\<And>u. P u \<Longrightarrow> Q u"
    and walk: "\<And>g st ht u. quoting_facts e = Some g \<Longrightarrow> P u \<Longrightarrow>
      leaves Q (each_tx (\<lambda>d. refresh_direction W (g d) (book_top_of st) (book_top_of ht) d) (quote_directions W u) u)"
    and book: "\<And>f ev d. e = MakerFilled f ev \<Longrightarrow> direction_for_source_order t (of_client_order_id ev) = Some d \<Longrightarrow>
      of_instrument_id ev = mr_source_instrument_id (mw_config W) \<Longrightarrow> P (t\<lparr>mm_hold := True\<rparr>) \<Longrightarrow>
      leaves P (on_owner (on_source_filled (view_object_of W d) (mr_source_instrument_id (mw_config W)) ev) (t\<lparr>mm_hold := True\<rparr>))"
  shows "Q (run_maker W e t)"
proof (cases e)
  case (MakerQuoteTick fh f f' g i)
  have "leaves Q (maker_quote_tick W fh f f' g i t)"
    using walk MakerQuoteTick by (intro quote_ticks t weak) (simp_all add: quoting_facts_def)
  with MakerQuoteTick show ?thesis by (simp add: leaves_def)
next
  case (MakerAccountEvaluation fh f f' g n)
  have h: "P (t\<lparr>mm_account_handle := None\<rparr>)" by (rule frame [OF t]) simp_all
  have "leaves Q (maker_quote_tick W fh f f' g (mr_source_instrument_id (mw_config W)) (t\<lparr>mm_account_handle := None\<rparr>))"
    using walk MakerAccountEvaluation by (intro quote_ticks h weak) (simp_all add: quoting_facts_def)
  with MakerAccountEvaluation show ?thesis
    using weak [OF t] weak [OF h] by (simp add: leaves_def maker_account_evaluation_def Let_def)
next
  case (MakerFilled f ev)
  with fills [OF t, of ev f] book weak show ?thesis by (simp add: leaves_def)
next
  case (MakerAccountUpdate b)
  have "P (maker_account_update b t)" by (rule frame [OF t]) (simp_all add: maker_account_update_def)
  with MakerAccountUpdate weak show ?thesis by simp
next
  case (MakerDeferredCancel f)
  have "P (run_deferred W f t)"
    using t deferred frame [OF t, of "t\<lparr>mm_deferred := r\<rparr>" for r]
    by (auto simp: run_deferred_def leaves_def split: list.split)
  with MakerDeferredCancel weak show ?thesis by simp
qed (use weak sessions [OF t] instruments [OF t] costs [OF t] progress [OF t] finishes [OF t] terminations [OF t] answers [OF t]
    alerts [OF t] starts [OF t] stops [OF t] t in \<open>simp_all add: leaves_def maker_instrument_status_def\<close>)

end

end
