(* ===== verification/Maker_Custody.thy ===== *)
theory Maker_Custody
  imports Maker_Steps
begin

text \<open>
  Runs of the Maker, restarts included: every callback is a sequence of owner operations, and every
  order handed to the platform was recorded before, in memory and in the owner's file, and stays so.
\<close>

section \<open>The shared admission only pauses\<close>

lemma admission_plain: "plain digest (admit_source config vf k side quantity)"
proof -
  have f: "plain digest (bind_tx (freeze_sources reason) (\<lambda>_. ret_tx x))" for reason and x :: "bool \<times> bool"
    by (intro plain_rules)
  have l: "plain digest (bind_tx (lift_tx y) (\<lambda>allowed. ret_tx (allowed, False)))" for y :: "exn + bool"
    by (intro plain_rules)
  show ?thesis
    using f l unfolding admit_source_def plain_def Let_def
    by (auto simp: owner_runs.none split: option.split)
qed

section \<open>A successful persist carries the facts of the view\<close>

lemma persist_carries: "owner_persist w = (w', Inr u) \<Longrightarrow> I (view_of k w) \<Longrightarrow> carried I k w'"
  by (cases rule: owner_persist_cases [of w]) (auto simp: carried_def owner_snapshot_def)

lemma begin_carries:
  assumes "begin_source (maker_view k) cid side q route fr w = (w', Inr ())" "keyed (view_of k w)"
  shows "carried (\<lambda>s. has_order cid side q s \<and> keyed s) k w'"
proof -
  from assms(1) obtain p w1 where w1: "on_view (maker_view k) (update_state (\<lambda>s. (set_order cid (new_source_record cid side q route p) s)
      \<lparr>ss_active_source_order_id := Some cid, ss_source_freeze_reason := fr\<rparr>)) w = (w1, Inr ())"
    and p: "owner_persist w1 = (w', Inr ())"
    by (auto simp: begin_source_def Let_def bind_tx_Inr_iff lift_tx_def split: if_splits)
  have "view_of k w1 = (set_order cid (new_source_record cid side q route p) (view_of k w))
      \<lparr>ss_active_source_order_id := Some cid, ss_source_freeze_reason := fr\<rparr>"
    using w1 by (auto simp: on_view_def update_state_def)
  then have "has_order cid side q (view_of k w1) \<and> keyed (view_of k w1)"
    using assms(2) by (simp add: has_order_def set_order_def new_source_record_def keyed_def)
  with persist_carries [OF p, where I = "\<lambda>s. has_order cid side q s \<and> keyed s"] show ?thesis by simp
qed

lemma binding_carries:
  assumes "bind_hedge_order (maker_view k) iid cid w = (w', Inr ())" "keyed (view_of k w)"
  shows "carried (\<lambda>s. has_binding iid cid s \<and> keyed s) k w'"
proof -
  obtain i where i: "dict_get (ss_hedge_intents (view_of k w)) iid = Some i"
    using assms(1) by (cases "dict_get (ss_hedge_intents (view_of k w)) iid") (auto simp: bind_hedge_order_def dict_index_def)
  define j where "j = i\<lparr>hi_hedge_client_order_id := Some cid, hi_hedge_order_ids := hi_hedge_order_ids i @ [cid], hi_status := SUBMITTING\<rparr>"
  obtain w1 where w1: "on_view (maker_view k) (bind_tx (lift_tx (mk_hedge_intent j))
      (\<lambda>i. update_state (\<lambda>s. s\<lparr>ss_hedge_intents := dict_set iid i (ss_hedge_intents s)\<rparr>))) w = (w1, Inr ())"
    and p: "owner_persist w1 = (w', Inr ())"
    using assms(1) i by (auto simp: bind_hedge_order_def dict_index_def bind_tx_Inr_iff j_def split: if_splits)
  have "view_of k w1 = (view_of k w)\<lparr>ss_hedge_intents := dict_set iid j (ss_hedge_intents (view_of k w))\<rparr>"
    using w1 by (cases "mk_hedge_intent j")
      (auto simp: on_view_def update_state_def mk_hedge_intent_def bindE_def split: sum.splits)
  moreover have "hi_intent_id j = iid" using keyed_index [OF assms(2) i] by (simp add: j_def)
  ultimately have "has_binding iid cid (view_of k w1) \<and> keyed (view_of k w1)"
    using keyed_changes(3) [OF assms(2), of j] by (auto simp: has_binding_def j_def)
  with persist_carries [OF p, where I = "\<lambda>s. has_binding iid cid s \<and> keyed s"] show ?thesis by simp
qed

interpretation keyed_carried: owner_fact keyed "\<lambda>_ _. True" "\<lambda>_. True" k for k
  by unfold_locales (auto intro: keyed_changes [unfolded set_order_def] simp: set_order_def)

lemma owner_runs_keyed: "owner_runs digest w w' \<Longrightarrow> carried keyed k w \<Longrightarrow> carried keyed k w'"
  by (induction rule: owner_runs.induct) (auto intro: keyed_carried.fact_owner_op)

section \<open>Every callback is a sequence of owner operations\<close>

definition operated_from :: "(string \<Rightarrow> string) \<Rightarrow> owner \<Rightarrow> maker \<Rightarrow> bool" where
  "operated_from digest w t \<longleftrightarrow> (\<exists>ops. mm_store t = fold (run_owner_op digest) ops w)"

lemma operated_more: "operated_from digest w t \<Longrightarrow> mm_store u = run_owner_op digest op (mm_store t) \<Longrightarrow> operated_from digest w u"
  unfolding operated_from_def by (metis fold_append comp_apply fold_simps(2) fold_simps(1))

lemma operated_runs: "owner_runs digest v v' \<Longrightarrow> (\<exists>ops. v' = fold (run_owner_op digest) ops v)"
proof (induction rule: owner_runs.induct)
  case none
  show ?case by (rule exI [of _ "[]"]) simp
next
  case (more w' op)
  then obtain ops where "w' = fold (run_owner_op digest) ops v" by blast
  then show ?case by (intro exI [of _ "ops @ [op]"]) simp
qed

interpretation operated_frame: maker_frame "operated_from (mw_digest W) w" W for w W
proof
  show "operated_from (mw_digest W) w t \<Longrightarrow> owner_runs (mw_digest W) (mm_store t) v \<Longrightarrow>
      operated_from (mw_digest W) w (t\<lparr>mm_store := v\<rparr>)" for t v
    by (auto simp: operated_from_def dest!: operated_runs) (metis fold_append comp_apply)
qed (auto simp: operated_from_def)

interpretation operated: maker_invariant "operated_from (mw_digest W) w" W for w W
  by unfold_locales (rule operated_frame.hedge_places, auto simp: operated_from_def)

lemma operated_on_owner:
  "operated_from digest w t \<Longrightarrow> (\<And>v. \<exists>ops. fst (m v) = fold (run_owner_op digest) ops v) \<Longrightarrow> leaves (operated_from digest w) (on_owner m t)"
  unfolding operated_from_def leaves_def on_owner_def
  by (auto split: prod.splits) (metis fst_conv fold_append comp_apply)

lemma operated_single: "fst (m v) = run_owner_op digest op v \<Longrightarrow> \<exists>ops. fst (m v) = fold (run_owner_op digest) ops v"
  by (rule exI [of _ "[op]"]) simp

lemma operated_quote:
  assumes "operated_from (mw_digest W) w t"
  shows "leaves (operated_from (mw_digest W) w) (place_quote W f quote q t)"
proof -
  let ?P = "operated_from (mw_digest W) w"
  have b: "?P u \<Longrightarrow> leaves ?P (on_owner (begin_source (direction_store d) cid side q route None) u)" for d cid side route u
    by (rule operated_on_owner, assumption) (rule operated_single [where op = "ViewOp (direction_view d) (Begin cid side q route None)"], simp)
  have h: "?P u \<Longrightarrow> leaves ?P (modify_tx (hand r) u)" for r u by (simp add: leaves_def operated_from_def)
  show ?thesis
    using assms unfolding place_quote_def submit_quote_order_def
    by (intro leave_rules b h operated_frame.with_fields operated.timers operated_frame.with_owner plain_rules; (assumption | simp))
qed

lemma operated_fill:
  "operated_from (mw_digest W) w t \<Longrightarrow> leaves (operated_from (mw_digest W) w) (on_owner (on_source_filled (view_object_of W d) i ev) t)"
proof (rule operated_on_owner)
  fix v
  have r: "\<exists>ops. fst (maker_reserve_source_fill (direction_view d) (mw_digest W) key cid trade side x v) = fold (run_owner_op (mw_digest W)) ops v"
    for key cid trade side x
    by (rule operated_single [where op = "ViewOp (direction_view d) (Reserve key cid trade side x)"]) simp
  have n: "\<exists>ops. v = fold (run_owner_op (mw_digest W)) ops v" by (rule exI [of _ "[]"]) simp
  show "\<exists>ops. fst (on_source_filled (view_object_of W d) i ev v) = fold (run_owner_op (mw_digest W)) ops v"
    using r n by (cases "of_order_side ev") (simp_all add: on_source_filled_def view_object_of_def business_side_of_def)
qed

lemma callback_operates:
  assumes w: "pausing W"
  shows "\<exists>ops. mm_store (run_maker W e t) = fold (run_owner_op (mw_digest W)) ops (mm_store t)"
proof -
  let ?P = "operated_from (mw_digest W) (mm_store t)"
  have "?P t" by (auto simp: operated_from_def intro: exI [of _ "[]"])
  then have "?P (run_maker W e t)"
  proof (rule operated.events)
    fix g st ht u assume u: "?P u"
    have "leaves ?P (refresh_direction W (g d) sb hb d v)" if "?P v" for d sb hb v
      using that by (rule operated.refreshes [OF _ w]) (auto intro: operated_quote)
    then show "leaves ?P (each_tx (\<lambda>d. refresh_direction W (g d) (book_top_of st) (book_top_of ht) d) (quote_directions W u) u)"
      by (intro leave_rules u)
  qed (auto intro: operated_fill)
  then show ?thesis by (simp add: operated_from_def)
qed

section \<open>Reachable strategies\<close>

text \<open>
  What a run assumes of its surroundings: the identity of a new source order is new to its view, and the
  digest of a new fill is not the name of another obligation of its view. Between the callbacks the owner may
  take any step that creates nothing in the Maker's views, such as those of the Taker that shares it.
\<close>

definition new_identity :: "string \<Rightarrow> source_direction \<Rightarrow> owner \<Rightarrow> bool" where
  "new_identity cid d w \<longleftrightarrow> carried (unused_order cid) (direction_view d) w"

definition new_digest :: "maker_wiring \<Rightarrow> order_filled \<Rightarrow> source_direction \<Rightarrow> owner \<Rightarrow> bool" where
  "new_digest W ev d w \<longleftrightarrow> fill_key_of ev \<in> ss_seen_source_fills (view_of (direction_view d) w) \<or>
    ''hedge-'' @ mw_digest W (fill_key_of ev) \<notin> dict_keys (ss_hedge_intents (view_of (direction_view d) w))"

definition sane_maker :: "maker_wiring \<Rightarrow> maker_event \<Rightarrow> maker \<Rightarrow> bool" where
  "sane_maker W e t \<longleftrightarrow>
    (\<forall>g. quoting_facts e = Some g \<longrightarrow> (\<forall>d. new_identity (mf_fresh_order_id (g d)) d (mm_store t))) \<and>
    (\<forall>f ev d. e = MakerFilled f ev \<longrightarrow> direction_for_source_order t (of_client_order_id ev) = Some d \<longrightarrow> new_digest W ev d (mm_store t))"

inductive maker_reachable :: "owner_config \<Rightarrow> maker_wiring \<Rightarrow> maker \<Rightarrow> bool" for cfg W where
  created: "open_owner cfg legacy_files maker_file None answers = Inr w \<Longrightarrow> maker_reachable cfg W (make_maker W w)"
| happened: "maker_reachable cfg W t \<Longrightarrow> sane_maker W e t \<Longrightarrow> maker_reachable cfg W (run_maker W e t)"
| meanwhile: "maker_reachable cfg W t \<Longrightarrow> creates_nothing op \<or> op = ViewOp Taker sop \<Longrightarrow>
    maker_reachable cfg W (t\<lparr>mm_store := run_owner_op (mw_digest W) op (mm_store t)\<rparr>)"
| restarted: "maker_reachable cfg W t \<Longrightarrow> open_owner cfg legacy_files maker_file (ow_file (mm_store t)) answers = Inr w \<Longrightarrow>
    maker_reachable cfg W ((make_maker W w)\<lparr>mm_sent := mm_sent t\<rparr>)"

lemma make_maker_simps [simp]: "mm_store (make_maker W w) = w" "mm_sent (make_maker W w) = []"
  by (simp_all add: make_maker_def Let_def)

lemma fold_reachable: "owner_reachable cfg digest w \<Longrightarrow> owner_reachable cfg digest (fold (run_owner_op digest) ops w)"
  by (induction ops arbitrary: w) (simp_all add: owner_reachable.operated)

lemma maker_owner_reachable:
  assumes w: "pausing W"
  shows "maker_reachable cfg W t \<Longrightarrow> owner_reachable cfg (mw_digest W) (mm_store t)"
proof (induction rule: maker_reachable.induct)
  case (happened t e)
  then show ?case using callback_operates [OF w, of e t] fold_reachable by metis
qed (auto intro: owner_reachable.opened owner_reachable.operated)

lemma reachable_file_bound: "owner_reachable cfg digest w \<Longrightarrow> file_bound cfg w"
  by (erule bound.reachable_guarded) (simp add: open_owner_bound)

text \<open>C10: the strategy refines its owner: every callback acts on the allocation owner as a sequence of owner
  operations, so the owner of every reachable Maker, restarts, failed writes and the steps of another
  strategy included, is a reachable owner: its last committed snapshot passes the full validation, its
  file holds that snapshot or does not exist yet, and the next start from the file resumes from it.\<close>

theorem maker_refines_owner:
  assumes "pausing W" "maker_reachable cfg W t"
  shows "owner_reachable cfg (mw_digest W) (mm_store t) \<and>
    (\<forall>e. \<exists>ops. mm_store (run_maker W e t) = fold (run_owner_op (mw_digest W)) ops (mm_store t)) \<and>
    validate cfg (ow_committed (mm_store t)) = Inr () \<and>
    (case ow_file (mm_store t) of None \<Rightarrow> ow_committed (mm_store t) = empty_snapshot
     | Some sn \<Rightarrow> sn = ow_committed (mm_store t) \<and>
        (\<exists>w. open_owner cfg legacy_files maker_file (Some sn) answers = Inr w \<and> owner_snapshot w = sn))"
proof -
  have r: "owner_reachable cfg (mw_digest W) (mm_store t)" by (rule maker_owner_reachable [OF assms])
  from reachable_file_bound [OF r] have b: "file_bound cfg (mm_store t)" .
  then have "\<exists>w. open_owner cfg legacy_files maker_file (Some (ow_committed (mm_store t))) answers = Inr w \<and>
      owner_snapshot w = ow_committed (mm_store t)"
    by (simp add: file_bound_def open_owner_def Let_def owner_snapshot_def)
  with r b callback_operates [OF assms(1)] show ?thesis
    by (auto simp: file_bound_def split: option.split)
qed

section \<open>Orders are recorded before they are handed over\<close>

abbreviation carries_order :: "quote_request \<Rightarrow> owner \<Rightarrow> bool" where
  "carries_order q \<equiv> carried (\<lambda>s. has_order (qr_client_order_id q) (qr_side q) (qr_quantity q) s \<and> keyed s) (direction_view (qr_direction q))"

abbreviation carries_binding :: "hedge_request \<Rightarrow> source_direction \<Rightarrow> owner \<Rightarrow> bool" where
  "carries_binding q d \<equiv> carried (\<lambda>s. has_binding (hq_intent_id q) (hq_client_order_id q) s \<and> keyed s) (direction_view d)"

abbreviation carries_unused :: "string \<Rightarrow> source_direction \<Rightarrow> owner \<Rightarrow> bool" where
  "carries_unused cid d \<equiv> carried (\<lambda>s. unused_order cid s \<and> keyed s) (direction_view d)"

text \<open>\<open>B\<close>: the identities that are still to be used, one for each direction an evaluation has not reached.\<close>

definition recorded :: "(source_direction \<times> string) set \<Rightarrow> maker \<Rightarrow> bool" where
  "recorded B t \<longleftrightarrow> (\<forall>d. carried keyed (direction_view d) (mm_store t)) \<and>
    (\<forall>q. SubmitQuote q \<in> set (mm_sent t) \<longrightarrow> carries_order q (mm_store t)) \<and>
    (\<forall>q. SubmitHedge q \<in> set (mm_sent t) \<longrightarrow> (\<exists>d. carries_binding q d (mm_store t))) \<and>
    (\<forall>(d, cid) \<in> B. carries_unused cid d (mm_store t))"

lemma recorded_mono: "recorded B t \<Longrightarrow> C \<subseteq> B \<Longrightarrow> recorded C t"
  by (auto simp: recorded_def)

lemma recorded_through:
  assumes r: "recorded B t" and s: "mm_sent u = mm_sent t"
    and k: "\<And>d. carried keyed (direction_view d) (mm_store t) \<Longrightarrow> carried keyed (direction_view d) (mm_store u)"
    and o: "\<And>q. SubmitQuote q \<in> set (mm_sent t) \<Longrightarrow> carries_order q (mm_store t) \<Longrightarrow> carries_order q (mm_store u)"
    and b: "\<And>q d. SubmitHedge q \<in> set (mm_sent t) \<Longrightarrow> carries_binding q d (mm_store t) \<Longrightarrow> carries_binding q d (mm_store u)"
    and n: "\<And>d cid. (d, cid) \<in> C \<Longrightarrow> (d, cid) \<in> B" "\<And>d cid. (d, cid) \<in> C \<Longrightarrow> carries_unused cid d (mm_store t) \<Longrightarrow> carries_unused cid d (mm_store u)"
  shows "recorded C u"
proof -
  have "\<forall>q. SubmitHedge q \<in> set (mm_sent u) \<longrightarrow> (\<exists>d. carries_binding q d (mm_store u))"
    using r b unfolding s recorded_def by blast
  moreover have "\<forall>x \<in> C. case x of (d, cid) \<Rightarrow> carries_unused cid d (mm_store u)"
  proof
    fix x assume x: "x \<in> C"
    obtain d cid where dc: "x = (d, cid)" by fastforce
    have "\<forall>x \<in> B. case x of (d, cid) \<Rightarrow> carries_unused cid d (mm_store t)" using r unfolding recorded_def by blast
    from bspec [OF this n(1) [OF x [unfolded dc]]] n(2) [OF x [unfolded dc]] dc
    show "case x of (d, cid) \<Rightarrow> carries_unused cid d (mm_store u)" by simp
  qed
  ultimately show ?thesis using r k o unfolding recorded_def s by simp
qed

interpretation recorded_frame: maker_frame "recorded B" W for B W
proof
  show "recorded B t \<Longrightarrow> mm_store u = mm_store t \<Longrightarrow> mm_sent u = mm_sent t \<Longrightarrow> recorded B u" for t u
    by (simp add: recorded_def)
  show "recorded B t \<Longrightarrow> \<not> is_order q \<Longrightarrow> recorded B (hand q t)" for t q
    by (auto simp: recorded_def)
  show "recorded B (t\<lparr>mm_store := w\<rparr>)" if "recorded B t" "owner_runs (mw_digest W) (mm_store t) w" for t w
    using that(1) by (rule recorded_through)
      (auto intro: owner_runs_keyed [OF that(2)] owner_runs_order [OF that(2)] owner_runs_binding [OF that(2)] owner_runs_unused [OF that(2)])
qed

interpretation recorded: maker_invariant "recorded B" W for B W
proof
  fix t f d client iid leg assume "recorded B t"
  then show "leaves (recorded B) (place_maker_hedge W f d client iid leg t)"
  proof (rule recorded_frame.hedge_places)
    fix quantity w assume b: "bind_hedge_order (direction_store d) iid (mf_fresh_order_id f) (mm_store t) = (w, Inr ())"
      and r: "recorded B (t\<lparr>mm_store := w\<rparr>)"
    have "keyed (view_of (direction_view d) (mm_store t))"
      using \<open>recorded B t\<close> by (simp add: recorded_def carried_def)
    from binding_carries [OF b this] r
    show "recorded B (hand (SubmitHedge (maker_hedge_request (mf_fresh_order_id f) client iid quantity leg)) (t\<lparr>mm_store := w\<rparr>))"
      by (auto simp: recorded_def maker_hedge_request_def)
  qed
qed

lemma has_order_used: "has_order cid side q s \<Longrightarrow> \<not> unused_order cid s"
  by (force simp: has_order_def unused_order_def dest: map_of_SomeD)

lemma begin_recorded:
  assumes r: "recorded B t" and b: "(d, cid) \<in> B"
  shows "recorded (B - {(d, cid)}) (t\<lparr>mm_store := fst (begin_source (direction_store d) cid side q route fr (mm_store t))\<rparr>)"
proof -
  let ?op = "ViewOp (direction_view d) (Begin cid side q route fr)"
  have w: "fst (begin_source (direction_store d) cid side q route fr (mm_store t)) = run_owner_op id ?op (mm_store t)" by simp
  have u: "unused_order cid (view_of (direction_view d) (mm_store t))" using r b by (auto simp: recorded_def carried_def)
  have dv: "direction_view d = direction_view d' \<longleftrightarrow> d = d'" for d' by (cases d; cases d') simp_all
  have o: "carries_order p (run_owner_op id ?op (mm_store t))" if "SubmitQuote p \<in> set (mm_sent t)" for p
  proof (rule order_carried.fact_owner_op)
    show c: "carries_order p (mm_store t)" using r that by (simp add: recorded_def)
    then have "\<not> unused_order (qr_client_order_id p) (view_of (direction_view (qr_direction p)) (mm_store t))"
      by (auto simp: carried_def dest: has_order_used)
    then show "?op = ViewOp (direction_view (qr_direction p)) (Begin c s x rt f) \<Longrightarrow> so_side rec = s \<Longrightarrow> so_quantity_ounces rec = x \<Longrightarrow>
        c = qr_client_order_id p \<longrightarrow> so_side rec = qr_side p \<and> so_quantity_ounces rec = qr_quantity p" for c s x rt f rec
      using u by (auto simp: dv)
  qed simp
  have n: "carries_unused c d' (run_owner_op id ?op (mm_store t))" if "carries_unused c d' (mm_store t)" "(d', c) \<noteq> (d, cid)" for d' c
    using that by (intro unused_carried.fact_owner_op) (auto simp: dv)
  show ?thesis
    unfolding w by (rule recorded_through [OF r])
      (auto simp del: run_owner_op.simps intro: o n keyed_carried.fact_owner_op binding_carried.fact_owner_op)
qed

lemma quote_recorded:
  assumes r: "recorded B t" and b: "(mq_direction quote, mf_fresh_order_id f) \<in> B"
  shows "leaves (recorded (B - {(mq_direction quote, mf_fresh_order_id f)})) (place_quote W f quote q t)"
proof -
  let ?d = "mq_direction quote" and ?cid = "mf_fresh_order_id f" and ?side = "side_of_direction (mq_direction quote)"
  let ?C = "B - {(?d, ?cid)}"
  have weak: "recorded ?C t" using r by (rule recorded_mono) auto
  have sent: "leaves (recorded ?C) (submit_quote_order W f quote p u)" if u: "recorded ?C u" and c: "carries_order p (mm_store u)" for p u
  proof -
    have "recorded ?C (hand (SubmitQuote p) u)" using u c by (auto simp: recorded_def)
    then show ?thesis unfolding submit_quote_order_def
      by (intro leave_rules recorded.timers recorded_frame.with_owner plain_rules u; (assumption | simp add: leaves_def))
  qed
  have "leaves (recorded ?C) (bind_tx (on_owner (begin_source (direction_store ?d) ?cid ?side q (quote_route quote) None)) (\<lambda>_.
      bind_tx (modify_tx (\<lambda>t. t\<lparr>mm_working := dict_set ?cid quote (mm_working t)\<rparr>)) (\<lambda>_.
      submit_quote_order W f quote (quote_request_of f quote q price))) t)" for price
  proof -
    obtain w x where w: "begin_source (direction_store ?d) ?cid ?side q (quote_route quote) None (mm_store t) = (w, x)" by fastforce
    have rw: "recorded ?C (t\<lparr>mm_store := w\<rparr>)"
      using begin_recorded [OF r b, of ?side q "quote_route quote" None] w by simp
    show ?thesis
    proof (cases x)
      case (Inl e)
      with w rw show ?thesis by (simp add: leaves_def bind_tx_def on_owner_def)
    next
      case (Inr y)
      have "keyed (view_of (direction_view ?d) (mm_store t))" using r by (simp add: recorded_def carried_def)
      with w Inr have c: "carries_order (quote_request_of f quote q price) w"
        by (auto simp: quote_request_of_def intro: begin_carries)
      have "leaves (recorded ?C) (submit_quote_order W f quote (quote_request_of f quote q price)
          (t\<lparr>mm_store := w, mm_working := dict_set ?cid quote (mm_working t)\<rparr>))"
        using c by (intro sent recorded_frame.frame [OF rw]) simp_all
      with w Inr show ?thesis by (simp add: leaves_def bind_tx_def on_owner_def modify_tx_def)
    qed
  qed
  then show ?thesis
    using weak unfolding place_quote_def by (cases "mf_make_price f (mq_source_price_usdt quote)") (simp_all add: leaves_def)
qed

lemma fill_recorded:
  assumes r: "recorded {} t" and n: "new_digest W ev d (mm_store t)"
  shows "leaves (recorded {}) (on_owner (on_source_filled (view_object_of W d) i ev) t)"
proof -
  have res: "recorded {} (t\<lparr>mm_store := fst (maker_reserve_source_fill (direction_view d) (mw_digest W) (fill_key_of ev)
      (of_client_order_id ev) (of_trade_id ev) side (of_last_qty ev) (mm_store t))\<rparr>)" for side
  proof -
    let ?op = "ViewOp (direction_view d) (Reserve (fill_key_of ev) (of_client_order_id ev) (of_trade_id ev) side (of_last_qty ev))"
    have w: "fst (maker_reserve_source_fill (direction_view d) (mw_digest W) (fill_key_of ev) (of_client_order_id ev) (of_trade_id ev)
        side (of_last_qty ev) (mm_store t)) = run_owner_op (mw_digest W) ?op (mm_store t)" by simp
    have b: "carries_binding p d' (run_owner_op (mw_digest W) ?op (mm_store t))" if c: "carries_binding p d' (mm_store t)" for p d'
    proof (rule binding_carried.fact_owner_op [OF c])
      have "hq_intent_id p \<in> dict_keys (ss_hedge_intents (view_of (direction_view d') (mm_store t)))"
        using c by (force simp: carried_def has_binding_def dest: map_of_SomeD)
      then have "hq_intent_id p \<noteq> ''hedge-'' @ mw_digest W (fill_key_of ev)"
        if "direction_view d = direction_view d'" "fill_key_of ev \<notin> ss_seen_source_fills (view_of (direction_view d') (mm_store t))"
        using n that unfolding new_digest_def by metis
      then show "?op = ViewOp (direction_view d') (Reserve key cid trade s f) \<Longrightarrow>
          key \<notin> ss_seen_source_fills (view_of (direction_view d') (mm_store t)) \<Longrightarrow> hi_intent_id j = ''hedge-'' @ mw_digest W key \<Longrightarrow>
          hi_intent_id j = hq_intent_id p \<longrightarrow> hq_client_order_id p \<in> set (hi_hedge_order_ids j)" for key cid trade s f j
        by auto
    qed simp
    show ?thesis
      unfolding w by (rule recorded_through [OF r])
        (auto simp del: run_owner_op.simps intro: b keyed_carried.fact_owner_op order_carried.fact_owner_op)
  qed
  have u: "t\<lparr>mm_store := mm_store t\<rparr> = t" by simp
  show ?thesis
    using r res by (cases "of_order_side ev")
      (auto simp: on_owner_def on_source_filled_def view_object_of_def business_side_of_def leaves_def u split: prod.splits,
       metis fst_conv)
qed

lemma sort_key_directions: "distinct (quote_directions W t) \<and> set (quote_directions W t) = {LONG, SHORT}"
  by (auto simp: quote_directions_def distinct_sort simp del: sort_key_simps)

definition still_to_use :: "(source_direction \<Rightarrow> maker_facts) \<Rightarrow> source_direction set \<Rightarrow> (source_direction \<times> string) set" where
  "still_to_use g D = {(d, cid). d \<in> D \<and> cid = mf_fresh_order_id (g d)}"

lemma maker_quote_direction: "maker_quote d book ss hs c carry fx h = Inr (Some q) \<Longrightarrow> mq_direction q = d"
  by (auto simp: maker_quote_def Let_def bindE_Inr_iff split: if_splits option.splits)

lemma priced_quote_direction: "priced_quote W f d hb ss hs ec exact t = Inr (Some q) \<Longrightarrow> mq_direction q = d"
  by (auto simp: priced_quote_def bindE_Inr_iff dest: maker_quote_direction)

lemma passive_quote_cases:
  "passive_quote W f t x sb = Inr (Some quote) \<Longrightarrow> \<exists>q price. x = Some q \<and>
    passive_maker_price (mq_direction q) (mq_source_price_usdt q) sb (mf_price_increment f)
      (mc_cross_clamp_ticks (mr_strategy (mw_config W))) = Inr price \<and> quote = q\<lparr>mq_source_price_usdt := price\<rparr>"
  by (auto simp: passive_quote_def bindE_Inr_iff split: option.splits)

text \<open>A new quote is a priced quote whose price was clamped to its side of the source book.\<close>

lemma new_quote_cases:
  assumes "new_quote W f d sb hb t = (t', Inr (Some quote))"
  obtains sources hedges exact q price where
    "new_quote_accounts W f sb hb t = (t', Inr (Some (sources, hedges)))"
    "priced_quote W f d hb sources hedges (mw_economics W) exact t' = Inr (Some q)"
    "passive_maker_price d (mq_source_price_usdt q) sb (mf_price_increment f)
      (mc_cross_clamp_ticks (mr_strategy (mw_config W))) = Inr price"
    "quote = q\<lparr>mq_source_price_usdt := price\<rparr>" "mq_direction q = d"
proof -
  have open_: "\<not> ms_open_quantity_ounces (side_config (mw_economics W) d) \<le> 0"
    using assms by (auto simp: new_quote_def)
  with assms obtain t1 accounts where a: "new_quote_accounts W f sb hb t = (t1, Inr accounts)"
    by (cases "new_quote_accounts W f sb hb t"; cases "snd (new_quote_accounts W f sb hb t)") (auto simp: new_quote_def bind_tx_def)
  obtain sources hedges where s: "accounts = Some (sources, hedges)"
    using assms open_ a by (cases accounts) (auto simp: new_quote_def bind_tx_def)
  from assms open_ a s obtain exact x where q: "t1 = t'" "priced_quote W f d hb sources hedges (mw_economics W) exact t' = Inr x"
      "passive_quote W f t' x sb = Inr (Some quote)"
    by (auto simp: new_quote_def bind_tx_def bindE_Inr_iff)
  from passive_quote_cases [OF q(3)] obtain y price where "x = Some y"
    "passive_maker_price (mq_direction y) (mq_source_price_usdt y) sb (mf_price_increment f)
      (mc_cross_clamp_ticks (mr_strategy (mw_config W))) = Inr price" "quote = y\<lparr>mq_source_price_usdt := price\<rparr>" by blast
  with q a s priced_quote_direction that show thesis by metis
qed

lemma new_quote_direction: "new_quote W f d sb hb t = (t', Inr (Some quote)) \<Longrightarrow> mq_direction quote = d"
  by (erule new_quote_cases) simp

lemma walk_recorded:
  assumes w: "pausing W"
  shows "distinct ds \<Longrightarrow> recorded (still_to_use g (set ds)) t \<Longrightarrow>
    leaves (recorded {}) (each_tx (\<lambda>d. refresh_direction W (g d) sb hb d) ds t)"
proof (induction ds arbitrary: t)
  case Nil
  then show ?case by (simp add: leaves_def still_to_use_def)
next
  case (Cons d ds)
  let ?B = "still_to_use g (set (d # ds))" and ?C = "still_to_use g (set ds)"
  have weak: "recorded ?B u \<Longrightarrow> recorded ?C u" for u by (erule recorded_mono) (auto simp: still_to_use_def)
  have empty: "recorded ?C u \<Longrightarrow> recorded {} u" for u by (erule recorded_mono) simp
  have c: "?C = ?B - {(d, mf_fresh_order_id (g d))}" using Cons.prems(1) by (auto simp: still_to_use_def)
  have "leaves (recorded ?C) (refresh_direction W (g d) sb hb d t)"
  proof (rule recorded.refreshes [OF Cons.prems(2) w weak])
    fix quote q u assume "quote_ready W (g d) d sb hb t quote q u" and u: "recorded ?B u"
    then have "mq_direction quote = d" by (auto simp: quote_ready_def dest: new_quote_direction)
    then show "leaves (recorded ?C) (place_quote W (g d) quote q u)"
      using quote_recorded [OF u, of quote "g d" W q] unfolding c by (simp add: still_to_use_def)
  qed
  then show ?case
    using Cons.IH Cons.prems(1) empty
    by (cases "refresh_direction W (g d) sb hb d t"; cases "snd (refresh_direction W (g d) sb hb d t)")
      (auto simp: leaves_def bind_tx_def)
qed

lemma direction_not_taker [simp]: "direction_view d \<noteq> Taker" "Taker \<noteq> direction_view d"
  by (cases d; simp)+

lemma maker_recorded:
  assumes w: "pausing W"
  shows "maker_reachable cfg W t \<Longrightarrow> recorded {} t"
proof (induction rule: maker_reachable.induct)
  case (created lf mf answers w)
  then have "view_of k w = empty_state \<and> sn_states (ow_committed w) k = empty_state" for k
    by (auto simp: open_owner_def bindE_Inr_iff Let_def empty_snapshot_def split: if_splits)
  then show ?case by (simp add: recorded_def carried_def keyed_def empty_state_def)
next
  case (happened t e)
  have keyed: "carried keyed (direction_view d) (mm_store t)" for d using happened.IH by (simp add: recorded_def)
  show ?case
  proof (cases "quoting_facts e")
    case (Some g)
    have "recorded (still_to_use g {LONG, SHORT}) t"
      using happened.IH happened.hyps(2) keyed Some
      by (auto simp: recorded_def still_to_use_def sane_maker_def new_identity_def carried_def)
    then show ?thesis
    proof (rule recorded.events)
      show "recorded (still_to_use g {LONG, SHORT}) u \<Longrightarrow> recorded {} u" for u by (erule recorded_mono) simp
      show "leaves (recorded {}) (each_tx (\<lambda>d. refresh_direction W (g' d) (book_top_of st) (book_top_of ht) d) (quote_directions W u) u)"
        if "quoting_facts e = Some g'" "recorded (still_to_use g {LONG, SHORT}) u" for g' st ht u
        using walk_recorded [OF w, of "quote_directions W u" g' u] that Some sort_key_directions [of W u] by simp
      show "leaves (recorded (still_to_use g {LONG, SHORT})) (on_owner (on_source_filled (view_object_of W d) i ev) v)"
        if "e = MakerFilled f ev" for f ev d i v
        using that Some by (simp add: quoting_facts_def)
    qed
  next
    case None
    show ?thesis
    proof (rule recorded.events [OF happened.IH])
      show "leaves (recorded {}) (on_owner (on_source_filled (view_object_of W d) (mr_source_instrument_id (mw_config W)) ev) (t\<lparr>mm_hold := True\<rparr>))"
        if "e = MakerFilled f ev" "direction_for_source_order t (of_client_order_id ev) = Some d" "recorded {} (t\<lparr>mm_hold := True\<rparr>)" for f ev d
        using happened.hyps(2) that by (intro fill_recorded) (auto simp: sane_maker_def)
    qed (use None in auto)
  qed
next
  case (meanwhile t op sop)
  show ?case
    by (rule recorded_through [OF meanwhile.IH])
      (use meanwhile.hyps(2) in \<open>auto simp: creates_nothing_def simp del: run_owner_op.simps
        intro: keyed_carried.fact_owner_op order_carried.fact_owner_op binding_carried.fact_owner_op\<close>)
next
  case (restarted t lf mf answers w)
  have b: "file_bound cfg (mm_store t)"
    using reachable_file_bound maker_owner_reachable [OF assms restarted.hyps(1)] by blast
  have "view_of k w = sn_states (ow_committed (mm_store t)) k \<and> ow_committed w = ow_committed (mm_store t)" for k
    using restarted.hyps(2) b by (auto simp: open_owner_def bindE_Inr_iff Let_def file_bound_def split: if_splits)
  then have c: "carried I k (mm_store t) \<Longrightarrow> carried I k w" for I k by (simp add: carried_def)
  show ?case by (rule recorded_through [OF restarted.IH]) (simp_all add: c)
qed

text \<open>C3: write-ahead: in every run of the Maker, with any write failures, restarts and steps of another strategy on
  the shared owner, every source order it ever handed to the platform is recorded with its side and
  quantity in the view of its direction, in memory and in the owner's file, and every hedge order is bound
  to its obligation, in memory and in the file.\<close>

theorem maker_orders_written_ahead:
  assumes "pausing W" "maker_reachable cfg W t"
  shows "(\<forall>q. SubmitQuote q \<in> set (mm_sent t) \<longrightarrow> (\<exists>sn. ow_file (mm_store t) = Some sn \<and>
      (\<forall>s \<in> {direction_state (qr_direction q) t, sn_states sn (direction_view (qr_direction q))}.
        has_order (qr_client_order_id q) (qr_side q) (qr_quantity q) s))) \<and>
    (\<forall>q. SubmitHedge q \<in> set (mm_sent t) \<longrightarrow> (\<exists>sn d. ow_file (mm_store t) = Some sn \<and>
      (\<forall>s \<in> {direction_state d t, sn_states sn (direction_view d)}. has_binding (hq_intent_id q) (hq_client_order_id q) s)))"
proof -
  have r: "recorded {} t" by (rule maker_recorded [OF assms])
  have b: "file_bound cfg (mm_store t)"
    using reachable_file_bound maker_owner_reachable [OF assms] by blast
  have f: "\<exists>sn. ow_file (mm_store t) = Some sn \<and> (\<forall>s \<in> {view_of k (mm_store t), sn_states sn k}. I s)"
    if "carried (\<lambda>s. I s \<and> keyed s) k (mm_store t)" "\<not> I empty_state" for I k
    using that b by (auto simp: carried_def file_bound_def empty_snapshot_def)
  have e: "\<not> has_order cid side q empty_state" "\<not> has_binding iid cid empty_state" for cid side q iid
    by (simp_all add: has_order_def has_binding_def empty_state_def)
  show ?thesis
    using r f [where I = "has_order cid side q" for cid side q, OF _ e(1)]
      f [where I = "has_binding iid cid" for iid cid, OF _ e(2)] unfolding recorded_def by meson
qed

end
