(* ===== verification/Maker_Example.thy ===== *)
theory Maker_Example
  imports Maker_Custody Mt5_Costs
begin

text \<open>
  One run of the Maker, evaluated: start, and one tick of the source book that places a bid of one ounce.
  The witnesses of the Maker's theorems are taken from it.
\<close>

definition ex_economics :: maker_economics_config where
  "ex_economics = ex_maker\<lparr>me_ask := \<lparr>ms_open_quantity_ounces = 0, ms_open_spread = 0, ms_delta = 0\<rparr>\<rparr>"

definition ex_maker_config :: maker_strategy_config where
  "ex_maker_config = \<lparr>mc_source_accounts = [\<lparr>sr_account_id = ''A'', sr_max_long_ounces = Fin 5, sr_max_short_ounces = Fin 5,
      sr_client_id = None, sr_base_margin_level = Fin 15\<rparr>],
    mc_hedge_accounts = [\<lparr>hr_account_id = ''H'', hr_max_long_ounces = Fin 5, hr_max_short_ounces = Fin 5, hr_client_id = None\<rparr>],
    mc_economics = ex_economics, mc_residual_mode = ''strict'', mc_residual_limit_ounces = Fin 0, mc_max_unhedged_ounces = None,
    mc_keep_last_accounts = False, mc_cross_clamp_ticks = 2\<rparr>"

definition ex_maker_wiring :: maker_wiring where
  "ex_maker_wiring = \<lparr>mw_config = \<lparr>mr_strategy = ex_maker_config, mr_source_instrument_id = ''S'', mr_hedge_instrument_id = ''H'',
      mr_fixed_amount = False, mr_max_quote_age_ns = 5000, mr_max_cross_leg_skew_ns = 2000, mr_max_cost_age_ns = 5000,
      mr_max_session_age_ns = 5000, mr_initial_cost_ts_ns = 990, mr_initial_hedge_session_open = True, mr_initial_session_ts_ns = 990\<rparr>,
    mw_digest = id, mw_admission = None, mw_live_costs = False, mw_terminal_query = True, mw_account_reader = False,
    mw_live_clock = False, mw_zone = ex_zone, mw_trader_id = ''T'', mw_strategy_id = ''S''\<rparr>"

definition ex_source_tick :: quote_tick where
  "ex_source_tick = \<lparr>qt_bid_price = 2000, qt_ask_price = 2001, qt_bid_size = 5, qt_ask_size = 5, qt_ts_event = 999\<rparr>"

definition ex_hedge_tick :: quote_tick where
  "ex_hedge_tick = \<lparr>qt_bid_price = 2000, qt_ask_price = 2001, qt_bid_size = 5, qt_ask_size = 5, qt_ts_event = 998\<rparr>"

definition ex_maker_facts :: maker_facts where
  "ex_maker_facts = \<lparr>mf_now_ns = 1000, mf_restart_blocked = False, mf_source_tick = Some ex_source_tick,
    mf_hedge_tick = Some ex_hedge_tick, mf_order = (\<lambda>_. None), mf_client_id = (\<lambda>_. None),
    mf_account_view = (\<lambda>_ _ _ _ _. None), mf_net_position = (\<lambda>_ _. 0), mf_hedge_positions = (\<lambda>_. []),
    mf_submission_ready = None, mf_quantity_ready = None, mf_refresh_paused = False, mf_price_increment = 1,
    mf_make_source_qty = Inr, mf_make_price = Inr, mf_make_hedge_qty = Inr, mf_fresh_order_id = ''o1'',
    mf_submission = None, mf_modification = None, mf_cancel = (\<lambda>_. None)\<rparr>"

definition ex_empty_owner :: owner where
  "ex_empty_owner = \<lparr>ow_config = ex_cfg, ow_views = (\<lambda>_. \<lparr>vw_state = empty_state, vw_log = []\<rparr>), ow_allocations = [],
     ow_cycle_freeze_only = False, ow_freeze_publication_failed = False, ow_committed = empty_snapshot, ow_file = None,
     ow_answers = []\<rparr>"

lemma ex_empty_valid: "validate ex_cfg empty_snapshot = Inr ()"
  by (simp add: validate_def ex_cfg_def empty_snapshot_def view_keys_def validate_view_def Let_def no_identities_def
    validate_orders_def validate_source_fills_def validate_intents_def validate_hedge_fills_def empty_state_def
    validate_allocations_def all_records_def all_intents_def all_seen_def
    dict_of_def state_intents_def validate_checkpoint_def checkpoint_balances_def)

lemma ex_empty_opened: "open_owner ex_cfg False False None [] = Inr ex_empty_owner"
  by (simp add: open_owner_def ex_config_ok ex_empty_valid ex_empty_owner_def Let_def) (simp add: empty_snapshot_def)

lemma ex_pausing: "pausing ex_maker_wiring"
  by (simp add: pausing_def ex_maker_wiring_def)

definition ex_quote_source :: source_account where
  "ex_quote_source = \<lparr>sa_account_id = ''A'', sa_client_id = None, sa_position_ounces = 0,
    sa_max_long_ounces = 5, sa_max_short_ounces = 5, sa_base_margin_level = 15\<rparr>"

definition ex_quote_hedge :: maker_account where
  "ex_quote_hedge = \<lparr>ma_account_id = ''H'', ma_client_id = None, ma_position_ounces = 0, ma_max_long_ounces = 5, ma_max_short_ounces = 5\<rparr>"

definition ex_placed_quote :: maker_quote_rec where
  "ex_placed_quote = \<lparr>mq_direction = LONG, mq_source_account = ex_quote_source, mq_hedge_account = ex_quote_hedge,
    mq_source_price_usdt = 2000, mq_hedge_reference_price_usd = 2000, mq_quantity_ounces = 1,
    mq_adjusted_spread = 0, mq_leverage = 19\<rparr>"

lemma ex_priced: "maker_quote LONG (book_top_of ex_hedge_tick) [ex_quote_source] [ex_quote_hedge] ex_economics
    (Some ex_carry) (Some (me_fx ex_economics)) None = Inr (Some ex_placed_quote)"
  by (simp add: maker_quote_def ex_economics_def ex_maker_def ex_quote_source_def ex_quote_hedge_def ex_placed_quote_def ex_defs
      select_source_def select_hedge_def source_allows_def hedge_allows_def account_allows_def maker_adjusted_spread_def
      ex_account_exact Let_def expected_leverage_def dfloordiv_def book_top_of_def ex_hedge_tick_def dadd_def dsub_def dmul_def dabs_def
      dneg_def rnd28_exact)

lemma ex_passive: "passive_maker_price LONG 2000 (book_top_of ex_source_tick) 1 2 = Inr 2000"
  by (simp add: passive_maker_price_def to_increment_def ex_source_tick_def book_top_of_def dmul_def dquot_def rnd28_exact Let_def)


section \<open>The owner's part\<close>

definition ex_placed_record :: source_order_record where
  "ex_placed_record = new_source_record ''o1'' BUY 1 (quote_route ex_placed_quote) None"

definition ex_placed_state :: store_state where
  "ex_placed_state = empty_state\<lparr>ss_source_orders := [(''o1'', ex_placed_record)], ss_active_source_order_id := Some ''o1''\<rparr>"

definition ex_placed_snapshot :: Maker_Store.snapshot where
  "ex_placed_snapshot = \<lparr>sn_states = (\<lambda>k. if k = Bid then ex_placed_state else empty_state), sn_allocations = [], sn_cycle_freeze_only = False\<rparr>"

definition ex_placed_owner :: owner where
  "ex_placed_owner = ex_empty_owner\<lparr>ow_views := (\<lambda>k. \<lparr>vw_state = sn_states ex_placed_snapshot k, vw_log = []\<rparr>),
    ow_committed := ex_placed_snapshot, ow_file := Some ex_placed_snapshot\<rparr>"

lemma ex_placed_valid: "validate ex_cfg ex_placed_snapshot = Inr ()"
  by (simp add: validate_def ex_cfg_def ex_placed_snapshot_def view_keys_def validate_view_def Let_def no_identities_def
    validate_orders_def validate_order_def validate_source_fills_def validate_intents_def validate_hedge_fills_def
    ex_placed_state_def empty_state_def ex_placed_record_def new_source_record_def
    validate_allocations_def all_records_def all_intents_def all_seen_def
    dict_of_def state_intents_def validate_checkpoint_def checkpoint_balances_def)

lemma ex_balances: "route_balances ex_cfg (owner_snapshot ex_empty_owner) = []"
  by (simp add: route_balances_def owner_snapshot_def ex_empty_owner_def checkpoint_balances_def ex_cfg_def)

lemma ex_admissible: "view_admissible k ex_empty_owner"
  using ex_balances by (simp add: view_admissible_def source_balance_is_admissible_def residuals_def rounding_residual_def
    ex_empty_owner_def state_intents_def empty_state_def outstanding_ounces_def Let_def)

lemma ex_can_submit: "can_submit_source (maker_view k) ex_empty_owner"
  using ex_admissible by (simp add: can_submit_source_def maker_view_def ex_empty_owner_def empty_state_def all_completed_def state_intents_def)

lemma ex_unblocked: "mm_store t = ex_empty_owner \<Longrightarrow> \<not> mm_hold t \<Longrightarrow> \<not> global_obligation_block t"
  using ex_balances ex_admissible
  by (simp add: global_obligation_block_def Let_def source_balance_is_admissible_def residuals_def has_unresolved_hedges_def list_ex_iff)
    (simp add: ex_empty_owner_def empty_state_def state_intents_def)

lemma ex_owner_begins:
  "begin_source (maker_view Bid) ''o1'' BUY 1 (quote_route ex_placed_quote) None ex_empty_owner = (ex_placed_owner, Inr ())"
proof -
  have v: "owner_snapshot (put_view Bid \<lparr>vw_state = ex_placed_state, vw_log = []\<rparr> ex_empty_owner) = ex_placed_snapshot"
    by (simp add: owner_snapshot_def put_view_def ex_empty_owner_def ex_placed_snapshot_def fun_eq_iff)
  have p: "owner_persist (put_view Bid \<lparr>vw_state = ex_placed_state, vw_log = []\<rparr> ex_empty_owner) = (ex_placed_owner, Inr ())"
    using v ex_placed_valid
    by (simp add: owner_persist_def settled_def Let_def persist_payload_def next_answer_def all_well_def
      replace_and_sync_parent_def publish_and_sync_parent_def put_view_def ex_empty_owner_def mark_committed_def)
      (simp add: ex_placed_owner_def ex_empty_owner_def ex_placed_snapshot_def fun_eq_iff)
  have s: "(ow_views ex_empty_owner Bid)\<lparr>vw_state := (set_order ''o1'' ex_placed_record (view_of Bid ex_empty_owner))
      \<lparr>ss_active_source_order_id := Some ''o1'', ss_source_freeze_reason := None\<rparr>\<rparr> = \<lparr>vw_state = ex_placed_state, vw_log = []\<rparr>"
    by (simp add: ex_empty_owner_def set_order_def ex_placed_state_def empty_state_def)
  have r: "rt_hedge_position_id (quote_route q) = None" "rt_hedge_position_quantity_ounces (quote_route q) = None" for q
    by (simp_all add: quote_route_def)
  show ?thesis
    using ex_can_submit [of Bid] p s
    by (simp add: begin_source_def bind_tx_def on_view_def update_state_def r ex_placed_record_def)
qed

section \<open>The run\<close>

definition ex_waiting :: maker where
  "ex_waiting = run_maker ex_maker_wiring (MakerStart ex_maker_facts (Some (ex_instrument 5 1)) (Some (ex_instrument 5 1)))
    (make_maker ex_maker_wiring ex_empty_owner)"

definition ex_quoting :: maker where
  "ex_quoting = run_maker ex_maker_wiring (MakerQuoteTick ex_maker_facts ex_maker_facts ex_maker_facts (\<lambda>_. ex_maker_facts) ''S'') ex_waiting"

definition ex_quote_request :: quote_request where
  "ex_quote_request = \<lparr>qr_client_order_id = ''o1'', qr_side = BUY, qr_quantity = 1, qr_price = 2000, qr_direction = LONG,
    qr_client_id = None, qr_leverage = 19\<rparr>"

lemma ex_maker_wiring_simps [simp]:
  "mw_economics ex_maker_wiring = ex_economics" "mw_admission ex_maker_wiring = None" "\<not> mw_live_costs ex_maker_wiring"
  "\<not> mw_account_reader ex_maker_wiring" "\<not> mw_live_clock ex_maker_wiring" "mr_source_instrument_id (mw_config ex_maker_wiring) = ''S''"
  "mr_hedge_instrument_id (mw_config ex_maker_wiring) = ''H''" "mr_strategy (mw_config ex_maker_wiring) = ex_maker_config"
  "mc_economics ex_maker_config = ex_economics"
  "mr_max_quote_age_ns (mw_config ex_maker_wiring) = 5000" "mr_max_cross_leg_skew_ns (mw_config ex_maker_wiring) = 2000"
  "mr_max_cost_age_ns (mw_config ex_maker_wiring) = 5000" "mr_max_session_age_ns (mw_config ex_maker_wiring) = 5000"
  "mr_initial_cost_ts_ns (mw_config ex_maker_wiring) = 990" "mr_initial_session_ts_ns (mw_config ex_maker_wiring) = 990"
  "mr_initial_hedge_session_open (mw_config ex_maker_wiring)"
  by (simp_all add: ex_maker_wiring_def ex_maker_config_def)

lemma ex_maker_facts_simps [simp]:
  "mf_now_ns ex_maker_facts = 1000" "\<not> mf_restart_blocked ex_maker_facts" "mf_source_tick ex_maker_facts = Some ex_source_tick"
  "mf_hedge_tick ex_maker_facts = Some ex_hedge_tick" "mf_hedge_positions ex_maker_facts a = []"
  "mf_submission_ready ex_maker_facts = None" "mf_quantity_ready ex_maker_facts = None" "\<not> mf_refresh_paused ex_maker_facts"
  "mf_price_increment ex_maker_facts = 1" "mf_make_source_qty ex_maker_facts = Inr" "mf_make_price ex_maker_facts = Inr"
  "mf_fresh_order_id ex_maker_facts = ''o1''" "mf_submission ex_maker_facts = None" "mf_net_position ex_maker_facts i a = 0"
  by (simp_all add: ex_maker_facts_def)

lemma ex_owner_simps [simp]: "view_of k ex_empty_owner = empty_state" "\<not> ow_cycle_freeze_only ex_empty_owner"
  "view_of Ask ex_placed_owner = empty_state" "ss_active_source_order_id empty_state = None"
  by (simp_all add: ex_empty_owner_def ex_placed_owner_def ex_placed_snapshot_def empty_state_def)

lemma ex_owner_idle: "recover_for_start (maker_view k) ex_empty_owner = (ex_empty_owner, Inr None)"
  by (simp add: recover_for_start_def unresolved_intents_def maker_view_def ex_empty_owner_def empty_state_def state_intents_def)

lemma ex_waiting_eq: "ex_waiting = (make_maker ex_maker_wiring ex_empty_owner)\<lparr>mm_source_instrument := Some (ex_instrument 5 1),
    mm_hedge_instrument := Some (ex_instrument 5 1), mm_sent := map MakerSubscribe [SourceQuotes, HedgeQuotes, HedgeStatusUpdates]\<rparr>"
  by (simp add: ex_waiting_def maker_start_def bind_maker_loop_def recover_views_def on_owner_def bind_tx_def ex_owner_idle
      try_release_cycle_def owner_cycle_freeze_only_def subscribe_maker_inputs_def hand_def make_maker_def Let_def)


lemma ex_source_side: "maker_source_accounts ex_maker_wiring ex_maker_facts = Inr [ex_quote_source]"
  "maker_hedge_accounts ex_maker_wiring ex_maker_facts = Inr [ex_quote_hedge]"
  by (simp_all add: maker_source_accounts_def maker_hedge_accounts_def maker_source_account_def maker_hedge_account_def
      source_route_for_def hedge_route_for_def ex_maker_config_def finite_decimal_def ex_quote_source_def ex_quote_hedge_def)

lemma ex_open_sides: "\<not> ms_open_quantity_ounces (side_config ex_economics LONG) \<le> 0"
  "ms_open_quantity_ounces (side_config ex_economics SHORT) \<le> 0"
  by (simp_all add: side_config_def ex_economics_def ex_maker_def)

lemma ex_new_quote:
  assumes "mm_source_instrument t \<noteq> None" "mm_quote_carry t = ex_carry" "mm_fx t = me_fx ex_economics"
  shows "new_quote ex_maker_wiring ex_maker_facts LONG (book_top_of ex_source_tick) (book_top_of ex_hedge_tick) t =
    (t, Inr (Some ex_placed_quote))"
proof -
  have b: "\<not> bounded_carry ex_maker_wiring" by (simp add: bounded_carry_def ex_maker_config_def)
  have q: "priced_quote ex_maker_wiring ex_maker_facts LONG (book_top_of ex_hedge_tick) [ex_quote_source] [ex_quote_hedge] ex_economics
      None t = Inr (Some ex_placed_quote)"
    using assms ex_priced by (simp add: priced_quote_def)
  have "mq_direction ex_placed_quote = LONG" "mq_source_price_usdt ex_placed_quote = 2000" "mc_cross_clamp_ticks ex_maker_config = 2"
    "ex_placed_quote\<lparr>mq_source_price_usdt := 2000\<rparr> = ex_placed_quote"
    by (simp_all add: ex_placed_quote_def ex_maker_config_def)
  then have "passive_quote ex_maker_wiring ex_maker_facts t (Some ex_placed_quote) (book_top_of ex_source_tick) = Inr (Some ex_placed_quote)"
    using assms(1) ex_passive by (auto simp: passive_quote_def maker_source_instrument_def)
  with b q show ?thesis
    by (simp add: new_quote_def new_quote_accounts_def ex_open_sides bind_tx_def ex_source_side)
qed

lemma ex_hedge_possible: "maker_hedge_executable ex_maker_wiring ex_maker_facts ex_placed_quote 1 t = Inr True"
proof -
  have "round_hedge_ounces 1 = 1" by (simp add: round_hedge_ounces_def round_float_eq_rhe)
  moreover have "plan_hedge_delta [] SELL (Fin 1) = Inr [\<lparr>leg_side = SELL, leg_quantity_ounces = 1, leg_position_id = None,
      leg_expected_position_side = None, leg_expected_position_quantity_ounces = None\<rparr>]"
    by (simp add: plan_hedge_delta_def make_open_leg)
  moreover have "\<not> bounded_carry ex_maker_wiring" by (simp add: bounded_carry_def ex_maker_config_def)
  moreover have "mq_direction ex_placed_quote = LONG" by (simp add: ex_placed_quote_def)
  ultimately show ?thesis by (simp add: maker_hedge_executable_def legs_admitted_def)
qed

lemma ex_deadline: "stale_deadline ex_maker_wiring ex_source_tick ex_hedge_tick t =
    Inr (min (min 5999 5998) (min (mm_cost_ts t + 5000) (mm_session_ts t + 5000)) + 1)"
  by (simp add: stale_deadline_def ex_source_tick_def ex_hedge_tick_def Let_def)

lemma ex_place:
  assumes "mm_store t = ex_empty_owner" "\<not> mm_draining t" "mm_timers t LONG = None"
  shows "\<exists>u. place_quote ex_maker_wiring ex_maker_facts ex_placed_quote 1 t = (u, Inr ()) \<and> mm_store u = ex_placed_owner \<and>
    mm_sent u = mm_sent t @ [SubmitQuote ex_quote_request]"
proof -
  have q: "mq_direction ex_placed_quote = LONG" "mq_source_price_usdt ex_placed_quote = 2000"
    "quote_request_of ex_maker_facts ex_placed_quote 1 2000 = ex_quote_request" "qr_client_order_id ex_quote_request = ''o1''"
    by (simp_all add: ex_placed_quote_def quote_request_of_def ex_quote_request_def ex_quote_source_def side_of_direction_def)
  from assms show ?thesis
    using ex_owner_begins
    by (simp add: place_quote_def q side_of_direction_def on_owner_def bind_tx_def submit_quote_order_def on_failure_def modify_tx_def
        schedule_stale_timer_def forget_timer_def ex_deadline set_alert_def hand_def Let_def)
qed

lemma ex_bid:
  assumes "mm_store t = ex_empty_owner" "\<not> mm_draining t" "mm_timers t LONG = None"
    "mm_source_instrument t \<noteq> None" "mm_quote_carry t = ex_carry" "mm_fx t = me_fx ex_economics"
  shows "\<exists>u. refresh_direction ex_maker_wiring ex_maker_facts (book_top_of ex_source_tick) (book_top_of ex_hedge_tick) LONG t = (u, Inr ()) \<and>
    mm_store u = ex_placed_owner \<and> mm_sent u = mm_sent t @ [SubmitQuote ex_quote_request]"
proof -
  have "mq_quantity_ounces ex_placed_quote = 1" by (simp add: ex_placed_quote_def)
  moreover obtain i where "mm_source_instrument t = Some i" using assms(4) by blast
  ultimately show ?thesis
    using assms ex_place [OF assms(1-3)] ex_can_submit [of Bid] ex_hedge_possible ex_new_quote [OF assms(4-6)]
    by (simp add: refresh_direction_def active_order_def bind_tx_def submit_quote_def source_admission_def maker_source_instrument_def)
qed

lemma ex_no_ask: "mm_store t = ex_placed_owner \<Longrightarrow>
    refresh_direction ex_maker_wiring ex_maker_facts sb hb SHORT t = (t, Inr ())"
  by (simp add: refresh_direction_def active_order_def bind_tx_def new_quote_def ex_open_sides)

lemma ex_quoting_store: "mm_store ex_quoting = ex_placed_owner" "SubmitQuote ex_quote_request \<in> set (mm_sent ex_quoting)"
proof -
  let ?t = "ex_waiting\<lparr>mm_quote_carry := ex_carry\<rparr>"
  have t: "mm_store ?t = ex_empty_owner" "\<not> mm_draining ?t" "mm_timers ?t LONG = None" "mm_source_instrument ?t \<noteq> None"
    "mm_quote_carry ?t = ex_carry" "mm_fx ?t = me_fx ex_economics" "\<not> mm_hold ?t"
    by (simp_all add: ex_waiting_eq make_maker_def Let_def)
  have c: "mm_carry ex_waiting = ex_carry" "mm_cost_valid ex_waiting" "mm_cost_ts ex_waiting = 990" "mm_session_ts ex_waiting = 990"
    "mm_session_open ex_waiting" "\<not> mm_draining ex_waiting" "mm_store ex_waiting = ex_empty_owner"
    by (simp_all add: ex_waiting_eq make_maker_def Let_def ex_economics_def ex_maker_def)
  have fresh: "maker_inputs_fresh ex_maker_wiring ex_maker_facts ex_source_tick ex_hedge_tick ex_waiting = (ex_waiting, Inr True)"
    using c by (simp add: maker_inputs_fresh_def maker_costs_usable_def maker_market_fresh_def market_inputs_are_fresh_def
        MAX_OBSERVATION_FUTURE_NS_def ex_source_tick_def ex_hedge_tick_def Let_def)
  have "usable_inputs ex_maker_wiring ex_maker_facts ex_source_tick ex_hedge_tick ex_waiting = (?t, Inr True)"
    using fresh c by (simp add: usable_inputs_def bind_tx_def maker_carry_def modify_tx_def)
  moreover have "\<exists>b. try_release_cycle ex_maker_facts True ?t = (?t, Inr b)"
    using t by (auto simp: try_release_cycle_def owner_cycle_freeze_only_def Let_def)
  moreover obtain u where u: "refresh_direction ex_maker_wiring ex_maker_facts (book_top_of ex_source_tick) (book_top_of ex_hedge_tick)
      LONG ?t = (u, Inr ())" "mm_store u = ex_placed_owner" "mm_sent u = mm_sent ?t @ [SubmitQuote ex_quote_request]"
    using ex_bid [OF t(1-6)] by blast
  moreover have "refresh_all ex_maker_wiring ex_maker_facts (\<lambda>_. ex_maker_facts) ex_source_tick ex_hedge_tick ?t = (u, Inr ())"
    using ex_unblocked [OF t(1,7)] u ex_no_ask [OF u(2)]
    by (simp add: refresh_all_def quote_directions_def bind_tx_def)
  ultimately have "ex_quoting = u"
    using c by (auto simp: ex_quoting_def maker_quote_tick_def evaluate_quotes_def bind_tx_def)
  with u show "mm_store ex_quoting = ex_placed_owner" "SubmitQuote ex_quote_request \<in> set (mm_sent ex_quoting)"
    by simp_all
qed

lemma ex_quoting_reachable: "maker_reachable ex_cfg ex_maker_wiring ex_quoting"
proof -
  have "maker_reachable ex_cfg ex_maker_wiring ex_waiting"
    unfolding ex_waiting_def
    by (rule maker_reachable.happened [OF maker_reachable.created [OF ex_empty_opened]]) (simp add: sane_maker_def quoting_facts_def)
  moreover have "mm_store ex_waiting = ex_empty_owner" by (simp add: ex_waiting_eq)
  then have "new_identity ''o1'' d (mm_store ex_waiting)" for d
    by (simp add: new_identity_def carried_def unused_order_def empty_state_def) (simp add: ex_empty_owner_def empty_snapshot_def empty_state_def)
  ultimately show ?thesis
    unfolding ex_quoting_def by (intro maker_reachable.happened) (auto simp: sane_maker_def quoting_facts_def)
qed

section \<open>Witnesses\<close>

theorem maker_orders_written_ahead_witness:
  "SubmitQuote ex_quote_request \<in> set (mm_sent ex_quoting) \<and> (\<exists>sn. ow_file (mm_store ex_quoting) = Some sn \<and>
    has_order ''o1'' BUY 1 (direction_state LONG ex_quoting) \<and> has_order ''o1'' BUY 1 (sn_states sn Bid))"
  using maker_orders_written_ahead [OF ex_pausing ex_quoting_reachable] ex_quoting_store(2)
  by (auto simp: ex_quote_request_def)

theorem maker_refines_owner_witness:
  "owner_reachable ex_cfg id (mm_store ex_quoting) \<and> validate ex_cfg (ow_committed ex_placed_owner) = Inr () \<and>
    (\<exists>w. open_owner ex_cfg True True (ow_file ex_placed_owner) [] = Inr w \<and> owner_snapshot w = ex_placed_snapshot)"
proof -
  have "mw_digest ex_maker_wiring = id" "ow_file ex_placed_owner = Some ex_placed_snapshot"
    by (simp_all add: ex_maker_wiring_def ex_placed_owner_def)
  with maker_refines_owner [OF ex_pausing ex_quoting_reachable, of True True "[]"] ex_quoting_store(1)
  show ?thesis by auto
qed

end
