(* ===== verification/Cid_Store.thy ===== *)
theory Cid_Store
  imports Maker_Codec
begin

text \<open>
  \<^verbatim>\<open>bitfinex_v1_cids.py\<close>: the durable binding of client order identities to Bitfinex's 45 bit CIDs,
  and the evidence of fills and fees kept with them.

  The file is the value \<^verbatim>\<open>json.loads\<close> returns for it. Both error classes of the module are a
  \<open>ValueError\<close>; the fee conflict is told by its message. Amounts are finite, as the caller's
  are, and an exception text leaves out the \<^verbatim>\<open>repr\<close> of a value.
\<close>

section \<open>Records\<close>

definition MAX_CID :: int where "MAX_CID = 2 ^ 45 - 1"

record cid_binding =
  cb_client_order_id :: string
  cb_cid :: int
  cb_allocated_utc_date :: string

record native_fee_fill =
  nf_trade_id :: string
  nf_native_fill_origin :: string
  nf_signed_quantity :: rat
  nf_price :: rat
  nf_ts_event_ns :: int
  nf_liquidity_side :: string
  nf_commission :: rat
  nf_commission_currency :: string

record fee_trade =
  ft_trade_id :: int
  ft_ts_event_ms :: int
  ft_execution_qty :: rat
  ft_execution_price :: rat
  ft_order_type :: string
  ft_order_price :: rat
  ft_maker :: bool
  ft_raw_fee :: "rat option"
  ft_fee_currency :: "string option"

definition fee_finality :: "fee_trade \<Rightarrow> string" where
  "fee_finality t = (if ft_raw_fee t = None then ''pending'' else ''final'')"

record fee_metadata =
  fm_cid :: int
  fm_venue_order_id :: int
  fm_instrument_id :: string
  fm_raw_symbol :: string
  fm_native_fills :: "native_fee_fill list"
  fm_venue_trades :: "fee_trade list"

record cid_store =
  cs_account_id :: string
  cs_by_client :: "(string \<times> cid_binding) list"
  cs_by_cid :: "(int \<times> cid_binding) list"
  cs_last_cid :: int
  cs_fee_metadata :: "(int \<times> fee_metadata) list"
  cs_accounting_conflict :: bool
  cs_fees_durable :: bool
  cs_file :: "pyval option"
  cs_answers :: "os_answers list"

abbreviation cid_bindings :: "cid_store \<Rightarrow> cid_binding list" where
  "cid_bindings s \<equiv> dict_values (cs_by_client s)"

section \<open>Checked values\<close>

definition cid_text :: "string \<Rightarrow> string \<Rightarrow> exn + string" where
  "cid_text v label = (if v = [] then Inl (ValueError (label @ '' must be a non-empty string'')) else Inr v)"

definition cid_nonnegative :: "int \<Rightarrow> string \<Rightarrow> exn + int" where
  "cid_nonnegative v label = (if v < 0 then Inl (ValueError (label @ '' must be a non-negative exact integer'')) else Inr v)"

definition cid_number :: "int \<Rightarrow> exn + int" where
  "cid_number v = bindE (cid_nonnegative v ''cid'') (\<lambda>v.
     if \<not> (1 \<le> v \<and> v \<le> MAX_CID) then Inl (ValueError ''cid is out of range'') else Inr v)"

definition binding_for_client :: "cid_store \<Rightarrow> string \<Rightarrow> exn + cid_binding option" where
  "binding_for_client s client_order_id = bindE (cid_text client_order_id ''client_order_id'') (\<lambda>k. Inr (dict_get (cs_by_client s) k))"

definition binding_for_cid :: "cid_store \<Rightarrow> int \<Rightarrow> exn + cid_binding option" where
  "binding_for_cid s cid = bindE (cid_number cid) (\<lambda>k. Inr (dict_get (cs_by_cid s) k))"

definition fee_metadata_for_cid :: "cid_store \<Rightarrow> int \<Rightarrow> exn + fee_metadata option" where
  "fee_metadata_for_cid s cid = bindE (cid_number cid) (\<lambda>k. Inr (dict_get (cs_fee_metadata s) k))"

section \<open>Dates\<close>

text \<open>\<^verbatim>\<open>datetime.fromtimestamp(seconds, UTC).date().isoformat()\<close> for a time since 1970.\<close>

definition leap_year :: "nat \<Rightarrow> bool" where
  "leap_year y \<longleftrightarrow> 4 dvd y \<and> (\<not> 100 dvd y \<or> 400 dvd y)"

definition month_lengths :: "nat \<Rightarrow> nat list" where
  "month_lengths y = [31, if leap_year y then 29 else 28, 31, 30, 31, 30, 31, 31, 30, 31, 30, 31]"

definition year_days :: "nat \<Rightarrow> nat" where
  "year_days y = sum_list (month_lengths y)"

function civil_year :: "nat \<Rightarrow> nat \<Rightarrow> nat \<times> nat" where
  "civil_year y d = (if d < year_days y then (y, d) else civil_year (y + 1) (d - year_days y))"
  by auto
termination
  by (relation "measure snd") (auto simp: year_days_def month_lengths_def)

declare civil_year.simps [simp del]

fun civil_month :: "nat list \<Rightarrow> nat \<Rightarrow> nat \<Rightarrow> nat \<times> nat" where
  "civil_month [] m d = (m, d + 1)"
| "civil_month (l # ls) m d = (if d < l then (m, d + 1) else civil_month ls (m + 1) (d - l))"

definition padded :: "nat \<Rightarrow> nat \<Rightarrow> string" where
  "padded width n = (let ds = nat_digits n in replicate (width - length ds) (CHR ''0'') @ ds)"

definition iso_date :: "nat \<Rightarrow> string" where
  "iso_date days = (case civil_year 1970 days of (y, d) \<Rightarrow> case civil_month (month_lengths y) 1 d of (m, d) \<Rightarrow>
     padded 4 y @ ''-'' @ padded 2 m @ ''-'' @ padded 2 d)"

definition utc_date :: "int \<Rightarrow> string" where
  "utc_date epoch_ms = iso_date (nat (epoch_ms div 1000 div 86400))"

text \<open>\<^verbatim>\<open>date.fromisoformat(text).isoformat() == text\<close>: the text is a date in this very format.\<close>

definition canonical_date :: "string \<Rightarrow> bool" where
  "canonical_date s \<longleftrightarrow> length s = 10 \<and> s ! 4 = CHR ''-'' \<and> s ! 7 = CHR ''-''
    \<and> list_all is_digit (take 4 s) \<and> list_all is_digit (take 2 (drop 5 s)) \<and> list_all is_digit (drop 8 s)
    \<and> (let y = nat (parse_nat (take 4 s)); m = nat (parse_nat (take 2 (drop 5 s))); d = nat (parse_nat (drop 8 s))
       in 1 \<le> y \<and> 1 \<le> m \<and> m \<le> 12 \<and> 1 \<le> d \<and> d \<le> month_lengths y ! (m - 1))"

section \<open>Writing the file\<close>

definition binding_payload :: "cid_binding \<Rightarrow> pyval" where
  "binding_payload b = PObj [(''client_order_id'', PStr (cb_client_order_id b)), (''cid'', PInt (cb_cid b)),
    (''allocated_utc_date'', PStr (cb_allocated_utc_date b))]"

definition native_payload :: "native_fee_fill \<Rightarrow> pyval" where
  "native_payload f = PObj [(''trade_id'', PStr (nf_trade_id f)), (''native_fill_origin'', PStr (nf_native_fill_origin f)),
    (''signed_quantity'', dec_json (nf_signed_quantity f)), (''price'', dec_json (nf_price f)),
    (''ts_event_ns'', PInt (nf_ts_event_ns f)), (''liquidity_side'', PStr (nf_liquidity_side f)),
    (''commission'', dec_json (nf_commission f)), (''commission_currency'', PStr (nf_commission_currency f))]"

definition trade_payload :: "fee_trade \<Rightarrow> pyval" where
  "trade_payload t = PObj [(''trade_id'', PInt (ft_trade_id t)), (''ts_event_ms'', PInt (ft_ts_event_ms t)),
    (''execution_qty'', dec_json (ft_execution_qty t)), (''execution_price'', dec_json (ft_execution_price t)),
    (''order_type'', PStr (ft_order_type t)), (''order_price'', dec_json (ft_order_price t)), (''maker'', PBool (ft_maker t)),
    (''raw_fee'', opt_value dec_json (ft_raw_fee t)), (''fee_currency'', opt_value PStr (ft_fee_currency t))]"

definition metadata_payload :: "fee_metadata \<Rightarrow> pyval" where
  "metadata_payload m = PObj [(''cid'', PInt (fm_cid m)), (''venue_order_id'', PInt (fm_venue_order_id m)),
    (''instrument_id'', PStr (fm_instrument_id m)), (''raw_symbol'', PStr (fm_raw_symbol m)),
    (''native_fills'', PList (map native_payload (fm_native_fills m))),
    (''venue_trades'', PList (map trade_payload (fm_venue_trades m)))]"

definition cid_payload :: "string \<Rightarrow> int \<Rightarrow> bool \<Rightarrow> cid_binding list \<Rightarrow> fee_metadata list \<Rightarrow> pyval" where
  "cid_payload account last_cid conflict bindings metadata = PObj [(''schema_version'', PInt 2), (''account_id'', PStr account),
    (''last_cid'', PInt last_cid), (''accounting_conflict'', PBool conflict),
    (''bindings'', PList (map binding_payload (sort_key cb_cid bindings))),
    (''fee_metadata'', PList (map metadata_payload (sort_key fm_cid metadata)))]"

definition new_payload :: "int \<Rightarrow> cid_binding list \<Rightarrow> cid_store \<Rightarrow> pyval" where
  "new_payload last_cid bindings s =
    cid_payload (cs_account_id s) last_cid (cs_accounting_conflict s) bindings (dict_values (cs_fee_metadata s))"

definition cid_persist :: "int \<Rightarrow> cid_binding list \<Rightarrow> (cid_store, unit) tx" where
  "cid_persist last_cid bindings = (\<lambda>s.
     case persist_payload (next_answer (cs_answers s)) True (json_sorted (new_payload last_cid bindings s)) (cs_file s) of
       (file, r) \<Rightarrow> let s = s\<lparr>cs_file := file, cs_answers := tl (cs_answers s)\<rparr> in
         (case r of Inl e \<Rightarrow> (s, Inl e) | Inr _ \<Rightarrow> (s\<lparr>cs_fees_durable := True\<rparr>, Inr ())))"

text \<open>\<^verbatim>\<open>self._persist(self._last_cid, tuple(self._by_client.values()))\<close>.\<close>

definition cid_persist_all :: "(cid_store, unit) tx" where
  "cid_persist_all = (\<lambda>s. cid_persist (cs_last_cid s) (cid_bindings s) s)"

section \<open>Allocation\<close>

definition remember :: "cid_binding \<Rightarrow> cid_store \<Rightarrow> cid_store" where
  "remember b s = s\<lparr>cs_by_client := dict_set (cb_client_order_id b) b (cs_by_client s),
     cs_by_cid := dict_set (cb_cid b) b (cs_by_cid s), cs_last_cid := cb_cid b\<rparr>"

definition allocate_cid :: "string \<Rightarrow> int \<Rightarrow> (cid_store, cid_binding) tx" where
  "allocate_cid client_order_id epoch_ms =
    bind_tx (lift_tx (cid_text client_order_id ''client_order_id'')) (\<lambda>client_id s.
    if client_id \<in> dict_keys (cs_by_client s) then (s, Inl (ValueError ''client_order_id is already bound''))
    else bind_tx (lift_tx (cid_nonnegative epoch_ms ''epoch_ms'')) (\<lambda>now_ms s.
      let cid = max now_ms (cs_last_cid s + 1) in
      if MAX_CID < cid then (s, Inl (ValueError ''CID exceeds int45 maximum''))
      else let binding = \<lparr>cb_client_order_id = client_id, cb_cid = cid, cb_allocated_utc_date = utc_date now_ms\<rparr> in
        case cid_persist cid (cid_bindings s @ [binding]) s of
          (s, Inr _) \<Rightarrow> (remember binding s, Inr binding)
        | (s, Inl e) \<Rightarrow> (if e = ParentDirectorySyncError then remember binding s else s, Inl e)) s)"

section \<open>Fills and fees\<close>

definition without_rows :: "fee_metadata \<Rightarrow> fee_metadata" where
  "without_rows m = m\<lparr>fm_native_fills := [], fm_venue_trades := []\<rparr>"

definition fee_scope :: "fee_metadata \<Rightarrow> cid_store \<Rightarrow> exn + fee_metadata" where
  "fee_scope scope s =
    (if fm_cid scope \<notin> dict_keys (cs_by_cid s) \<or> fm_native_fills scope \<noteq> [] \<or> fm_venue_trades scope \<noteq> [] then
       Inl (ValueError ''fee scope must reference an existing CID without fill rows'')
     else let current = (case dict_get (cs_fee_metadata s) (fm_cid scope) of None \<Rightarrow> scope | Some m \<Rightarrow> m) in
       if without_rows current \<noteq> scope
         \<or> list_ex (\<lambda>row. fm_cid row \<noteq> fm_cid scope \<and> fm_venue_order_id row = fm_venue_order_id scope) (dict_values (cs_fee_metadata s))
       then Inl (ValueError ''fee metadata changes CID/order identity'')
       else Inr current)"

text \<open>Observed facts stay in memory when the write fails.\<close>

definition save_fee_metadata :: "fee_metadata \<Rightarrow> (cid_store, unit) tx" where
  "save_fee_metadata m = (\<lambda>s.
     if dict_get (cs_fee_metadata s) (fm_cid m) = Some m \<and> cs_fees_durable s then (s, Inr ())
     else cid_persist_all (s\<lparr>cs_fee_metadata := dict_set (fm_cid m) m (cs_fee_metadata s), cs_fees_durable := False\<rparr>))"

definition with_native_fill :: "native_fee_fill \<Rightarrow> fee_metadata \<Rightarrow> exn + fee_metadata" where
  "with_native_fill fill current = (case find (\<lambda>row. nf_trade_id row = nf_trade_id fill) (fm_native_fills current) of
     Some previous \<Rightarrow> if previous \<noteq> fill then Inl (ValueError ''native fill changed its applied facts or origin'') else Inr current
   | None \<Rightarrow> Inr (current\<lparr>fm_native_fills := fm_native_fills current @ [fill]\<rparr>))"

definition record_native_fill :: "fee_metadata \<Rightarrow> native_fee_fill \<Rightarrow> (cid_store, unit) tx" where
  "record_native_fill scope fill = (\<lambda>s.
     bind_tx (lift_tx (bindE (fee_scope scope s) (with_native_fill fill))) save_fee_metadata s)"

definition without_fee :: "fee_trade \<Rightarrow> fee_trade" where
  "without_fee t = t\<lparr>ft_raw_fee := None, ft_fee_currency := None\<rparr>"

text \<open>What a repeated observation leaves: a final fee is never erased.\<close>

definition merge_trade :: "fee_trade \<Rightarrow> fee_trade \<Rightarrow> exn + fee_trade" where
  "merge_trade previous trade =
    (if without_fee previous \<noteq> without_fee trade then Inl (ValueError ''Bitfinex trade ID changed its execution facts or fee'')
     else if ft_raw_fee previous \<noteq> None \<and> ft_raw_fee trade \<noteq> None \<and> previous \<noteq> trade then
       Inl (ValueError ''Bitfinex trade ID changed its final fee facts'')
     else Inr (if ft_raw_fee previous \<noteq> None then previous else trade))"

definition trade_rows :: "fee_metadata \<Rightarrow> (int \<times> fee_trade) list" where
  "trade_rows m = fold (\<lambda>row d. dict_set (ft_trade_id row) row d) (fm_venue_trades m) []"

definition add_venue_trade :: "fee_trade \<Rightarrow> fee_metadata \<Rightarrow> exn + fee_metadata" where
  "add_venue_trade trade current =
    bindE (case find (\<lambda>row. ft_trade_id row = ft_trade_id trade) (fm_venue_trades current) of
        None \<Rightarrow> Inr trade | Some previous \<Rightarrow> merge_trade previous trade) (\<lambda>trade.
    Inr (current\<lparr>fm_venue_trades := dict_values (dict_set (ft_trade_id trade) trade (trade_rows current))\<rparr>))"

definition record_venue_trade :: "fee_metadata \<Rightarrow> fee_trade \<Rightarrow> (cid_store, unit) tx" where
  "record_venue_trade scope trade = (\<lambda>s.
     bind_tx (lift_tx (bindE (fee_scope scope s) (add_venue_trade trade))) save_fee_metadata s)"

definition mark_accounting_conflict :: "(cid_store, unit) tx" where
  "mark_accounting_conflict = (\<lambda>s.
     if cs_accounting_conflict s \<and> cs_fees_durable s then (s, Inr ())
     else cid_persist_all (s\<lparr>cs_accounting_conflict := True, cs_fees_durable := False\<rparr>))"

section \<open>Reading the file\<close>

definition read_cid_text :: "pyval \<Rightarrow> string \<Rightarrow> exn + string" where
  "read_cid_text v label = (case v of PStr s \<Rightarrow> cid_text s label
     | _ \<Rightarrow> Inl (ValueError (label @ '' must be a non-empty string'')))"

definition read_nonnegative :: "pyval \<Rightarrow> string \<Rightarrow> exn + int" where
  "read_nonnegative v label = (case v of PInt n \<Rightarrow> cid_nonnegative n label
     | _ \<Rightarrow> Inl (ValueError (label @ '' must be a non-negative exact integer'')))"

definition read_cid :: "pyval \<Rightarrow> exn + int" where
  "read_cid v = bindE (read_nonnegative v ''cid'') cid_number"

definition read_amount :: "(rat \<Rightarrow> bool) \<Rightarrow> pyval \<Rightarrow> exn + rat" where
  "read_amount ok v = (case v of
     PStr s \<Rightarrow> (case decimal_of_text s of
       None \<Rightarrow> Inl (ValueError ''invalid fee decimal'')
     | Some NonFinite \<Rightarrow> Inl (ValueError ''invalid finite fee quantity/price/amount'')
     | Some (Fin x) \<Rightarrow> if ok x then Inr x else Inl (ValueError ''invalid finite fee quantity/price/amount''))
   | _ \<Rightarrow> Inl (ValueError ''fee amounts must be decimal strings''))"

definition read_fields :: "string set \<Rightarrow> pyval \<Rightarrow> exn + pyobj" where
  "read_fields names v = (case obj_with names v of
     None \<Rightarrow> Inl (ValueError ''fee metadata fields are invalid'') | Some d \<Rightarrow> Inr d)"

definition read_array :: "pyval \<Rightarrow> exn + pyval list" where
  "read_array v = (case v of PList vs \<Rightarrow> Inr vs | _ \<Rightarrow> Inl (ValueError ''fee metadata rows must be arrays''))"

definition read_binding :: "pyval \<Rightarrow> exn + cid_binding" where
  "read_binding v = (case obj_with {''client_order_id'', ''cid'', ''allocated_utc_date''} v of
     None \<Rightarrow> Inl (ValueError ''binding fields are invalid'')
   | Some row \<Rightarrow>
       bindE (read_cid_text (obj_get row ''allocated_utc_date'') ''allocated_utc_date'') (\<lambda>allocated.
       if \<not> canonical_date allocated then Inl (ValueError ''allocated_utc_date is not canonical'')
       else bindE (read_cid_text (obj_get row ''client_order_id'') ''client_order_id'') (\<lambda>client.
         bindE (read_cid (obj_get row ''cid'')) (\<lambda>cid.
         Inr \<lparr>cb_client_order_id = client, cb_cid = cid, cb_allocated_utc_date = allocated\<rparr>))))"

definition fill_origins :: "string set" where
  "fill_origins = {''te_paper'', ''tu'', ''rest'', ''inferred'', ''unknown''}"

definition liquidity_sides :: "string set" where
  "liquidity_sides = {''MAKER'', ''TAKER'', ''NO_LIQUIDITY_SIDE''}"

definition read_native_fill :: "pyval \<Rightarrow> exn + native_fee_fill" where
  "read_native_fill v = bindE (read_fields {''trade_id'', ''native_fill_origin'', ''signed_quantity'', ''price'', ''ts_event_ns'',
      ''liquidity_side'', ''commission'', ''commission_currency''} v) (\<lambda>row.
    bindE (read_cid_text (obj_get row ''native_fill_origin'') ''native_fill_origin'') (\<lambda>origin.
    bindE (read_cid_text (obj_get row ''liquidity_side'') ''liquidity_side'') (\<lambda>liquidity.
    if origin \<notin> fill_origins \<or> liquidity \<notin> liquidity_sides then Inl (ValueError ''invalid native fill origin or liquidity'')
    else bindE (read_cid_text (obj_get row ''trade_id'') ''trade_id'') (\<lambda>trade_id.
      bindE (read_amount (\<lambda>x. x \<noteq> 0) (obj_get row ''signed_quantity'')) (\<lambda>quantity.
      bindE (read_amount (\<lambda>x. 0 < x) (obj_get row ''price'')) (\<lambda>price.
      bindE (read_nonnegative (obj_get row ''ts_event_ns'') ''ts_event_ns'') (\<lambda>ts.
      bindE (read_amount (\<lambda>_. True) (obj_get row ''commission'')) (\<lambda>commission.
      bindE (read_cid_text (obj_get row ''commission_currency'') ''commission_currency'') (\<lambda>currency.
      Inr \<lparr>nf_trade_id = trade_id, nf_native_fill_origin = origin, nf_signed_quantity = quantity, nf_price = price,
        nf_ts_event_ns = ts, nf_liquidity_side = liquidity, nf_commission = commission, nf_commission_currency = currency\<rparr>)))))))))"

definition read_fee_trade :: "pyval \<Rightarrow> exn + fee_trade" where
  "read_fee_trade v = bindE (read_fields {''trade_id'', ''ts_event_ms'', ''execution_qty'', ''execution_price'', ''order_type'',
      ''order_price'', ''maker'', ''raw_fee'', ''fee_currency''} v) (\<lambda>row.
    bindE (read_nonnegative (obj_get row ''trade_id'') ''trade_id'') (\<lambda>trade_id.
    bindE (read_cid_text (obj_get row ''order_type'') ''order_type'') (\<lambda>order_type.
    case obj_get row ''maker'' of PBool maker \<Rightarrow>
      (if trade_id = 0 \<or> order_type \<notin> {''IOC'', ''LIMIT''} then Inl (ValueError ''invalid fee trade identity/type/maker'')
       else if (obj_get row ''raw_fee'' = PNone) \<noteq> (obj_get row ''fee_currency'' = PNone) then
         Inl (ValueError ''final fee needs both amount and currency'')
       else bindE (read_nonnegative (obj_get row ''ts_event_ms'') ''ts_event_ms'') (\<lambda>ts.
         bindE (read_amount (\<lambda>x. x \<noteq> 0) (obj_get row ''execution_qty'')) (\<lambda>quantity.
         bindE (read_amount (\<lambda>x. 0 < x) (obj_get row ''execution_price'')) (\<lambda>price.
         bindE (read_amount (\<lambda>x. 0 < x) (obj_get row ''order_price'')) (\<lambda>order_price.
         bindE (read_opt (read_amount (\<lambda>_. True)) (obj_get row ''raw_fee'')) (\<lambda>fee.
         bindE (read_opt (\<lambda>v. read_cid_text v ''fee_currency'') (obj_get row ''fee_currency'')) (\<lambda>currency.
         Inr \<lparr>ft_trade_id = trade_id, ft_ts_event_ms = ts, ft_execution_qty = quantity, ft_execution_price = price,
           ft_order_type = order_type, ft_order_price = order_price, ft_maker = maker, ft_raw_fee = fee,
           ft_fee_currency = currency\<rparr>)))))))
    | _ \<Rightarrow> Inl (ValueError ''invalid fee trade identity/type/maker''))))"

definition read_metadata :: "pyval \<Rightarrow> exn + fee_metadata" where
  "read_metadata v = bindE (read_fields {''cid'', ''venue_order_id'', ''instrument_id'', ''raw_symbol'', ''native_fills'', ''venue_trades''} v)
    (\<lambda>row.
    bindE (bindE (read_array (obj_get row ''native_fills'')) (mapE read_native_fill)) (\<lambda>native.
    bindE (bindE (read_array (obj_get row ''venue_trades'')) (mapE read_fee_trade)) (\<lambda>trades.
    if \<not> distinct (map nf_trade_id native) \<or> \<not> distinct (map ft_trade_id trades) then Inl (ValueError ''duplicate fee trade identity'')
    else bindE (read_nonnegative (obj_get row ''venue_order_id'') ''venue_order_id'') (\<lambda>venue_id.
      if venue_id = 0 then Inl (ValueError ''fee venue_order_id must be positive'')
      else bindE (read_cid (obj_get row ''cid'')) (\<lambda>cid.
        bindE (read_cid_text (obj_get row ''instrument_id'') ''instrument_id'') (\<lambda>instrument.
        bindE (read_cid_text (obj_get row ''raw_symbol'') ''raw_symbol'') (\<lambda>symbol.
        Inr \<lparr>fm_cid = cid, fm_venue_order_id = venue_id, fm_instrument_id = instrument, fm_raw_symbol = symbol,
          fm_native_fills = native, fm_venue_trades = trades\<rparr>)))))))"

definition load_binding :: "pyval \<Rightarrow> cid_store \<Rightarrow> exn + cid_store" where
  "load_binding v s = bindE (read_binding v) (\<lambda>b.
     if cb_client_order_id b \<in> dict_keys (cs_by_client s) \<or> cb_cid b \<in> dict_keys (cs_by_cid s) then
       Inl (ValueError ''duplicate persisted binding'')
     else Inr (s\<lparr>cs_by_client := dict_set (cb_client_order_id b) b (cs_by_client s),
       cs_by_cid := dict_set (cb_cid b) b (cs_by_cid s)\<rparr>))"

definition load_metadata :: "pyval \<Rightarrow> cid_store \<Rightarrow> exn + cid_store" where
  "load_metadata v s = bindE (read_metadata v) (\<lambda>m.
     if fm_cid m \<in> dict_keys (cs_fee_metadata s) then Inl (ValueError ''duplicate fee metadata CID'')
     else bindE (fee_scope (without_rows m) s) (\<lambda>_.
       Inr (s\<lparr>cs_fee_metadata := dict_set (fm_cid m) m (cs_fee_metadata s)\<rparr>)))"

definition load_fees :: "pyobj \<Rightarrow> cid_store \<Rightarrow> exn + cid_store" where
  "load_fees raw s = (case obj_get raw ''accounting_conflict'' of
     PBool conflict \<Rightarrow> (case obj_get raw ''fee_metadata'' of
       PList rows \<Rightarrow> foldE load_metadata rows (s\<lparr>cs_accounting_conflict := conflict\<rparr>)
     | _ \<Rightarrow> Inl (ValueError ''fee_metadata must be an array''))
   | _ \<Rightarrow> Inl (ValueError ''accounting_conflict must be a boolean''))"

definition load_cids :: "pyval \<Rightarrow> cid_store \<Rightarrow> exn + cid_store" where
  "load_cids v s = (case v of
     PObj raw \<Rightarrow> (case obj_get raw ''schema_version'' of
       PInt version \<Rightarrow>
         if version \<noteq> 1 \<and> version \<noteq> 2 then Inl (ValueError ''unsupported CID state schema'')
         else if obj_get raw ''account_id'' \<noteq> PStr (cs_account_id s) then
           Inl (ValueError ''CID state account_id does not match configuration'')
         else bindE (read_nonnegative (obj_get raw ''last_cid'') ''last_cid'') (\<lambda>last_cid.
           case obj_get raw ''bindings'' of
             PList rows \<Rightarrow> bindE (foldE load_binding rows s) (\<lambda>s.
               if last_cid \<noteq> foldr max (map fst (cs_by_cid s)) 0 then
                 Inl (ValueError ''last_cid does not match persisted bindings'')
               else let s = s\<lparr>cs_last_cid := last_cid\<rparr> in if version = 2 then load_fees raw s else Inr s)
           | _ \<Rightarrow> Inl (ValueError ''bindings must be an array''))
     | _ \<Rightarrow> Inl (ValueError ''unsupported CID state schema''))
   | _ \<Rightarrow> Inl (ValueError ''unsupported CID state schema''))"

text \<open>\<^verbatim>\<open>__init__\<close>.\<close>

definition open_cid_store :: "string \<Rightarrow> pyval option \<Rightarrow> os_answers list \<Rightarrow> exn + cid_store" where
  "open_cid_store account_id content answers = bindE (cid_text account_id ''account_id'') (\<lambda>account_id.
     let s = \<lparr>cs_account_id = account_id, cs_by_client = [], cs_by_cid = [], cs_last_cid = 0, cs_fee_metadata = [],
       cs_accounting_conflict = False, cs_fees_durable = True, cs_file = content, cs_answers = answers\<rparr>
     in case content of None \<Rightarrow> Inr s | Some v \<Rightarrow> load_cids v s)"

section \<open>Operations\<close>

datatype cid_op =
    Allocate string int
  | NativeFill fee_metadata native_fee_fill
  | VenueTrade fee_metadata fee_trade
  | MarkConflict

fun run_cid_op :: "cid_op \<Rightarrow> cid_store \<Rightarrow> cid_store" where
  "run_cid_op (Allocate client ms) s = fst (allocate_cid client ms s)"
| "run_cid_op (NativeFill scope fill) s = fst (record_native_fill scope fill s)"
| "run_cid_op (VenueTrade scope trade) s = fst (record_venue_trade scope trade s)"
| "run_cid_op MarkConflict s = fst (mark_accounting_conflict s)"

end
