(* ===== verification/Cid_Types.thy ===== *)
theory Cid_Types
  imports Cid_Store
begin

text \<open>
  The typing of a CID store, what the reader of its file accepts, and the round trip: what a well
  typed store wrote is read back as the same bindings, fees and conflict mark.
\<close>

section \<open>Well typed values\<close>

definition wf_cid :: "int \<Rightarrow> bool" where
  "wf_cid c \<longleftrightarrow> 1 \<le> c \<and> c \<le> MAX_CID"

definition wf_binding :: "cid_binding \<Rightarrow> bool" where
  "wf_binding b \<longleftrightarrow> cb_client_order_id b \<noteq> [] \<and> wf_cid (cb_cid b) \<and> canonical_date (cb_allocated_utc_date b)"

definition wf_native :: "native_fee_fill \<Rightarrow> bool" where
  "wf_native f \<longleftrightarrow> nf_trade_id f \<noteq> [] \<and> nf_native_fill_origin f \<in> fill_origins \<and> nf_liquidity_side f \<in> liquidity_sides
    \<and> nf_signed_quantity f \<noteq> 0 \<and> 0 < nf_price f \<and> 0 \<le> nf_ts_event_ns f \<and> nf_commission_currency f \<noteq> []
    \<and> short_decimal (nf_signed_quantity f) \<and> short_decimal (nf_price f) \<and> short_decimal (nf_commission f)"

definition wf_trade :: "fee_trade \<Rightarrow> bool" where
  "wf_trade t \<longleftrightarrow> 0 < ft_trade_id t \<and> 0 \<le> ft_ts_event_ms t \<and> ft_order_type t \<in> {''IOC'', ''LIMIT''}
    \<and> ft_execution_qty t \<noteq> 0 \<and> 0 < ft_execution_price t \<and> 0 < ft_order_price t
    \<and> (ft_raw_fee t = None \<longleftrightarrow> ft_fee_currency t = None) \<and> ft_fee_currency t \<noteq> Some []
    \<and> short_decimal (ft_execution_qty t) \<and> short_decimal (ft_execution_price t) \<and> short_decimal (ft_order_price t)
    \<and> pred_option short_decimal (ft_raw_fee t)"

definition wf_identity :: "fee_metadata \<Rightarrow> bool" where
  "wf_identity m \<longleftrightarrow> wf_cid (fm_cid m) \<and> 0 < fm_venue_order_id m \<and> fm_instrument_id m \<noteq> [] \<and> fm_raw_symbol m \<noteq> []"

definition wf_metadata :: "fee_metadata \<Rightarrow> bool" where
  "wf_metadata m \<longleftrightarrow> wf_identity m \<and> list_all wf_native (fm_native_fills m) \<and> list_all wf_trade (fm_venue_trades m)
    \<and> distinct (map nf_trade_id (fm_native_fills m)) \<and> distinct (map ft_trade_id (fm_venue_trades m))"

text \<open>The bindings in the order of their CIDs; the fee rows by bound CID, one venue order each.\<close>

definition wf_bindings :: "cid_binding list \<Rightarrow> bool" where
  "wf_bindings bs \<longleftrightarrow> list_all wf_binding bs \<and> distinct (map cb_client_order_id bs) \<and> sorted_wrt (<) (map cb_cid bs)"

definition wf_fees :: "cid_binding list \<Rightarrow> fee_metadata list \<Rightarrow> bool" where
  "wf_fees bs ms \<longleftrightarrow> list_all wf_metadata ms \<and> distinct (map fm_cid ms) \<and> distinct (map fm_venue_order_id ms)
    \<and> fm_cid ` set ms \<subseteq> cb_cid ` set bs"

definition newest_cid :: "cid_binding list \<Rightarrow> int" where
  "newest_cid bs = (if bs = [] then 0 else cb_cid (last bs))"

definition wf_cid_store :: "cid_store \<Rightarrow> bool" where
  "wf_cid_store s \<longleftrightarrow> cs_account_id s \<noteq> [] \<and> wf_bindings (cid_bindings s) \<and> wf_fees (cid_bindings s) (dict_values (cs_fee_metadata s))
    \<and> cs_by_client s = map (\<lambda>b. (cb_client_order_id b, b)) (cid_bindings s)
    \<and> cs_by_cid s = map (\<lambda>b. (cb_cid b, b)) (cid_bindings s)
    \<and> cs_fee_metadata s = map (\<lambda>m. (fm_cid m, m)) (dict_values (cs_fee_metadata s))
    \<and> cs_last_cid s = newest_cid (cid_bindings s)"

section \<open>Dates\<close>

lemma nat_digits_length: "n < 10 ^ Suc k \<Longrightarrow> length (nat_digits n) \<le> Suc k"
proof (induction k arbitrary: n)
  case (Suc k)
  have "length (nat_digits (n div 10)) \<le> Suc k" if "\<not> n < 10"
    by (rule Suc.IH) (use Suc.prems in \<open>simp add: less_mult_imp_div_less\<close>)
  then show ?case by (subst nat_digits.simps) auto
qed (simp add: nat_digits.simps)

lemma padded_length: "0 < w \<Longrightarrow> n < 10 ^ w \<Longrightarrow> length (padded w n) = w"
  using nat_digits_length [of n "w - 1"] by (simp add: padded_def Let_def)

lemma padded_value: "parse_nat (padded w n) = int n" "list_all is_digit (padded w n)"
proof -
  have z: "parse_nat (replicate k (CHR ''0'')) = 0" for k
    by (induction k) (simp_all add: parse_nat_def digit_value_def foldl_conv_fold flip: replicate_append_same)
  show "parse_nat (padded w n) = int n" by (simp add: padded_def Let_def parse_nat_append z parse_nat_digits)
  show "list_all is_digit (padded w n)"
    using nat_digits_decimal [of n] by (auto simp: padded_def Let_def list_all_iff is_digit_def)
qed

lemma civil_year_bounds:
  "civil_year y0 d0 = (y, d) \<Longrightarrow> d < year_days y \<and> y0 \<le> y \<and> 365 * (y - y0) \<le> d0"
proof (induction y0 d0 rule: civil_year.induct)
  case (1 y0 d0)
  have "365 \<le> year_days y0" by (simp add: year_days_def month_lengths_def)
  with 1 show ?case by (fastforce simp: civil_year.simps [of y0 d0] split: if_splits)
qed

lemma civil_month_bounds:
  "civil_month ls m0 d0 = (m, d) \<Longrightarrow> d0 < sum_list ls \<Longrightarrow> \<exists>k < length ls. m = m0 + k \<and> 1 \<le> d \<and> d \<le> ls ! k"
proof (induction ls m0 d0 rule: civil_month.induct)
  case (2 l ls m0 d0)
  show ?case
  proof (cases "d0 < l")
    case False
    with 2 have "d0 - l < sum_list ls" "civil_month ls (m0 + 1) (d0 - l) = (m, d)" by simp_all
    with 2(1) False obtain k where "k < length ls" "m = m0 + 1 + k" "1 \<le> d" "d \<le> ls ! k" by blast
    then show ?thesis by (intro exI [of _ "Suc k"]) simp
  qed (use 2 in \<open>auto intro!: exI [of _ 0]\<close>)
qed simp

lemma iso_date_canonical:
  assumes "days < 1000000"
  shows "canonical_date (iso_date days)"
proof -
  obtain y d where y: "civil_year 1970 days = (y, d)" by fastforce
  obtain m e where m: "civil_month (month_lengths y) 1 d = (m, e)" by fastforce
  from civil_year_bounds [OF y] assms have b: "d < year_days y" "1970 \<le> y" "y < 10000" by auto
  have "d < sum_list (month_lengths y)" "length (month_lengths y) = 12"
    using b(1) by (simp_all add: year_days_def) (simp add: month_lengths_def)
  with civil_month_bounds [OF m] have c: "1 \<le> m" "m - 1 < 12" "1 \<le> e" "e \<le> month_lengths y ! (m - 1)" by auto
  have "month_lengths y ! (m - 1) < 32"
    using c(2) by (auto simp: month_lengths_def less_Suc_eq numeral_eq_Suc)
  with c have s: "m < 100" "e < 100" "m \<le> 12" by auto
  define Y where "Y = padded 4 y"
  define M where "M = padded 2 m"
  define E where "E = padded 2 e"
  have l: "length Y = 4" "length M = 2" "length E = 2" 
    using padded_length [of 4 y] padded_length [of 2 m] padded_length [of 2 e] b(3) s by (simp_all add: Y_def M_def E_def)
  have v: "parse_nat Y = int y" "parse_nat M = int m" "parse_nat E = int e" "list_all is_digit Y" "list_all is_digit M"
    "list_all is_digit E" by (simp_all add: Y_def M_def E_def padded_value)
  have i: "iso_date days = Y @ ''-'' @ M @ ''-'' @ E" unfolding iso_date_def y prod.case m Y_def M_def E_def ..
  show ?thesis
    unfolding canonical_date_def i using l v b c s by (simp add: nth_append Let_def)
qed

lemma utc_date_canonical: "0 \<le> ms \<Longrightarrow> ms \<le> MAX_CID \<Longrightarrow> canonical_date (utc_date ms)"
  unfolding utc_date_def by (rule iso_date_canonical) (simp add: MAX_CID_def)


section \<open>Reading what was written\<close>

lemma cid_text_ok: "v \<noteq> [] \<Longrightarrow> cid_text v label = Inr v"
  by (simp add: cid_text_def)

lemma canonical_nonempty: "canonical_date s \<Longrightarrow> s \<noteq> []"
  by (auto simp: canonical_date_def)

lemma read_values_written:
  "v \<noteq> [] \<Longrightarrow> read_cid_text (PStr v) label = Inr v"
  "0 \<le> n \<Longrightarrow> read_nonnegative (PInt n) label = Inr n"
  "wf_cid n \<Longrightarrow> read_cid (PInt n) = Inr n"
  "short_decimal x \<Longrightarrow> ok x \<Longrightarrow> read_amount ok (dec_json x) = Inr x"
  by (simp_all add: read_cid_text_def cid_text_def read_nonnegative_def cid_nonnegative_def read_cid_def cid_number_def wf_cid_def
      read_amount_def dec_json_def decimal_roundtrip)

lemma read_options_written:
  "pred_option short_decimal x \<Longrightarrow> read_opt (read_amount (\<lambda>_. True)) (opt_value dec_json x) = Inr x"
  "y \<noteq> Some [] \<Longrightarrow> read_opt (\<lambda>v. read_cid_text v label) (opt_value PStr y) = Inr y"
  "opt_value dec_json x = PNone \<longleftrightarrow> x = None" "opt_value PStr y = PNone \<longleftrightarrow> y = None"
  by (cases x; cases y; auto simp: read_opt_def opt_value_def read_values_written dec_json_def [symmetric];
      simp add: dec_json_def)+

lemma read_fields_written: "names = dict_keys d \<Longrightarrow> read_fields names (json_sorted (PObj d)) = Inr (json_obj d)"
  by (simp add: read_fields_def obj_with_written)

lemma json_field: "distinct (map fst d) \<Longrightarrow> obj_get (json_obj d) k = json_sorted (obj_get d k)"
  by (simp add: obj_get_def json_obj_get split: option.split)

lemma read_binding_written:
  assumes "wf_binding b"
  shows "read_binding (json_sorted (binding_payload b)) = Inr b"
proof -
  define d where "d = [(''client_order_id'', PStr (cb_client_order_id b)), (''cid'', PInt (cb_cid b)),
    (''allocated_utc_date'', PStr (cb_allocated_utc_date b))]"
  have d: "distinct (map fst d)" "dict_keys d = {''client_order_id'', ''cid'', ''allocated_utc_date''}" by (auto simp: d_def)
  have get: "obj_get (json_obj d) ''client_order_id'' = PStr (cb_client_order_id b)"
    "obj_get (json_obj d) ''cid'' = PInt (cb_cid b)"
    "obj_get (json_obj d) ''allocated_utc_date'' = PStr (cb_allocated_utc_date b)"
    unfolding json_field [OF d(1)] by (simp_all add: d_def obj_get_def)
  have p: "binding_payload b = PObj d" by (simp add: binding_payload_def d_def)
  show ?thesis
    using assms canonical_nonempty [of "cb_allocated_utc_date b"] unfolding read_binding_def p obj_with_written [OF d(2) [symmetric]]
    by (simp add: get wf_binding_def read_values_written)
qed

lemma read_native_written:
  assumes "wf_native f"
  shows "read_native_fill (json_sorted (native_payload f)) = Inr f"
proof -
  define d where "d = (case native_payload f of PObj d \<Rightarrow> d | _ \<Rightarrow> [])"
  note e = d_def [unfolded native_payload_def pyval.case]
  have d: "distinct (map fst d)" "dict_keys d = {''trade_id'', ''native_fill_origin'', ''signed_quantity'', ''price'', ''ts_event_ns'',
      ''liquidity_side'', ''commission'', ''commission_currency''}" by (auto simp: e)
  have get: "obj_get (json_obj d) ''trade_id'' = PStr (nf_trade_id f)"
    "obj_get (json_obj d) ''native_fill_origin'' = PStr (nf_native_fill_origin f)"
    "obj_get (json_obj d) ''signed_quantity'' = dec_json (nf_signed_quantity f)"
    "obj_get (json_obj d) ''price'' = dec_json (nf_price f)"
    "obj_get (json_obj d) ''ts_event_ns'' = PInt (nf_ts_event_ns f)"
    "obj_get (json_obj d) ''liquidity_side'' = PStr (nf_liquidity_side f)"
    "obj_get (json_obj d) ''commission'' = dec_json (nf_commission f)"
    "obj_get (json_obj d) ''commission_currency'' = PStr (nf_commission_currency f)"
    unfolding json_field [OF d(1)] by (simp_all add: e obj_get_def codec_simps)
  have p: "native_payload f = PObj d" by (simp add: native_payload_def e)
  have "nf_native_fill_origin f \<noteq> []" "nf_liquidity_side f \<noteq> []"
    using assms by (auto simp: wf_native_def fill_origins_def liquidity_sides_def)
  then show ?thesis
    using assms unfolding read_native_fill_def p read_fields_written [OF d(2) [symmetric]]
    by (simp add: get wf_native_def read_values_written)
qed

lemma read_trade_written:
  assumes "wf_trade t"
  shows "read_fee_trade (json_sorted (trade_payload t)) = Inr t"
proof -
  define d where "d = (case trade_payload t of PObj d \<Rightarrow> d | _ \<Rightarrow> [])"
  note e = d_def [unfolded trade_payload_def pyval.case]
  have d: "distinct (map fst d)" "dict_keys d = {''trade_id'', ''ts_event_ms'', ''execution_qty'', ''execution_price'', ''order_type'',
      ''order_price'', ''maker'', ''raw_fee'', ''fee_currency''}" by (auto simp: e)
  have get: "obj_get (json_obj d) ''trade_id'' = PInt (ft_trade_id t)"
    "obj_get (json_obj d) ''ts_event_ms'' = PInt (ft_ts_event_ms t)"
    "obj_get (json_obj d) ''execution_qty'' = dec_json (ft_execution_qty t)"
    "obj_get (json_obj d) ''execution_price'' = dec_json (ft_execution_price t)"
    "obj_get (json_obj d) ''order_type'' = PStr (ft_order_type t)"
    "obj_get (json_obj d) ''order_price'' = dec_json (ft_order_price t)"
    "obj_get (json_obj d) ''maker'' = PBool (ft_maker t)"
    "obj_get (json_obj d) ''raw_fee'' = opt_value dec_json (ft_raw_fee t)"
    "obj_get (json_obj d) ''fee_currency'' = opt_value PStr (ft_fee_currency t)"
    unfolding json_field [OF d(1)] by (simp_all add: e obj_get_def codec_simps)
  have p: "trade_payload t = PObj d" by (simp add: trade_payload_def e)
  have "ft_order_type t \<noteq> []" using assms by (auto simp: wf_trade_def)
  then show ?thesis
    using assms unfolding read_fee_trade_def p read_fields_written [OF d(2) [symmetric]]
    by (simp add: get wf_trade_def read_values_written read_options_written)
qed

lemma read_metadata_written: "wf_metadata m \<Longrightarrow> read_metadata (json_sorted (metadata_payload m)) = Inr m"
proof -
  assume m: "wf_metadata m"
  then have n: "mapE read_native_fill (map (\<lambda>f. json_sorted (native_payload f)) (fm_native_fills m)) = Inr (fm_native_fills m)"
    and t: "mapE read_fee_trade (map (\<lambda>f. json_sorted (trade_payload f)) (fm_venue_trades m)) = Inr (fm_venue_trades m)"
    by (auto intro!: mapE_map_Inr read_native_written read_trade_written simp: wf_metadata_def list_all_iff)
  define d where "d = (case metadata_payload m of PObj d \<Rightarrow> d | _ \<Rightarrow> [])"
  note e = d_def [unfolded metadata_payload_def pyval.case]
  have d: "distinct (map fst d)"
    "dict_keys d = {''cid'', ''venue_order_id'', ''instrument_id'', ''raw_symbol'', ''native_fills'', ''venue_trades''}" by (auto simp: e)
  have get: "obj_get (json_obj d) ''cid'' = PInt (fm_cid m)" "obj_get (json_obj d) ''venue_order_id'' = PInt (fm_venue_order_id m)"
    "obj_get (json_obj d) ''instrument_id'' = PStr (fm_instrument_id m)" "obj_get (json_obj d) ''raw_symbol'' = PStr (fm_raw_symbol m)"
    "obj_get (json_obj d) ''native_fills'' = PList (map (\<lambda>f. json_sorted (native_payload f)) (fm_native_fills m))"
    "obj_get (json_obj d) ''venue_trades'' = PList (map (\<lambda>f. json_sorted (trade_payload f)) (fm_venue_trades m))"
    unfolding json_field [OF d(1)] by (simp_all add: e obj_get_def o_def)
  have p: "metadata_payload m = PObj d" by (simp add: metadata_payload_def e)
  show ?thesis
    using m n t unfolding read_metadata_def p read_fields_written [OF d(2) [symmetric]]
    by (simp add: get wf_metadata_def wf_identity_def read_values_written read_array_def)
qed


section \<open>The whole file\<close>

abbreviation by_client_of :: "cid_binding list \<Rightarrow> (string \<times> cid_binding) list" where
  "by_client_of \<equiv> map (\<lambda>b. (cb_client_order_id b, b))"

abbreviation by_cid_of :: "cid_binding list \<Rightarrow> (int \<times> cid_binding) list" where
  "by_cid_of \<equiv> map (\<lambda>b. (cb_cid b, b))"

abbreviation fees_of :: "fee_metadata list \<Rightarrow> (int \<times> fee_metadata) list" where
  "fees_of \<equiv> map (\<lambda>m. (fm_cid m, m))"

lemma wf_bindings_append: "wf_bindings (bs @ b # rest) \<Longrightarrow> cb_client_order_id b \<notin> cb_client_order_id ` set bs \<and> cb_cid b \<notin> cb_cid ` set bs"
  by (auto simp: wf_bindings_def sorted_wrt_append)

lemma load_bindings_written:
  "wf_bindings (pre @ bs) \<Longrightarrow> cs_by_client s = by_client_of pre \<Longrightarrow> cs_by_cid s = by_cid_of pre \<Longrightarrow>
    foldE load_binding (map (\<lambda>b. json_sorted (binding_payload b)) bs) s =
      Inr (s\<lparr>cs_by_client := by_client_of (pre @ bs), cs_by_cid := by_cid_of (pre @ bs)\<rparr>)"
proof (induction bs arbitrary: pre s)
  case (Cons b bs)
  have n: "cb_client_order_id b \<notin> dict_keys (by_client_of pre)" "cb_cid b \<notin> dict_keys (by_cid_of pre)"
    using wf_bindings_append [OF Cons.prems(1)] by (auto simp: image_image)
  have w: "wf_binding b" using Cons.prems(1) by (simp add: wf_bindings_def)
  have "load_binding (json_sorted (binding_payload b)) s =
      Inr (s\<lparr>cs_by_client := by_client_of (pre @ [b]), cs_by_cid := by_cid_of (pre @ [b])\<rparr>)"
    using n Cons.prems(2,3) by (simp add: load_binding_def read_binding_written [OF w] dict_set_fresh)
  then show ?case
    using Cons.IH [of "pre @ [b]" "s\<lparr>cs_by_client := by_client_of (pre @ [b]), cs_by_cid := by_cid_of (pre @ [b])\<rparr>"] Cons.prems(1)
    by simp
qed simp

lemma without_rows_simps [simp]: "fm_cid (without_rows m) = fm_cid m" "fm_venue_order_id (without_rows m) = fm_venue_order_id m"
  "fm_native_fills (without_rows m) = []" "fm_venue_trades (without_rows m) = []" "without_rows (without_rows m) = without_rows m"
  "wf_identity (without_rows m) = wf_identity m"
  by (simp_all add: without_rows_def wf_identity_def)

lemma map_of_fees: "map_of (fees_of ms) c = None \<longleftrightarrow> c \<notin> fm_cid ` set ms"
  by (simp add: map_of_eq_None_iff image_image)

lemma load_fees_written:
  "wf_fees bs (pre @ ms) \<Longrightarrow> cs_by_cid s = by_cid_of bs \<Longrightarrow> cs_fee_metadata s = fees_of pre \<Longrightarrow>
    foldE load_metadata (map (\<lambda>m. json_sorted (metadata_payload m)) ms) s = Inr (s\<lparr>cs_fee_metadata := fees_of (pre @ ms)\<rparr>)"
proof (induction ms arbitrary: pre s)
  case (Cons m ms)
  have w: "wf_metadata m" and n: "fm_cid m \<notin> fm_cid ` set pre" "fm_venue_order_id m \<notin> fm_venue_order_id ` set pre"
    and b: "fm_cid m \<in> cb_cid ` set bs" using Cons.prems(1) by (auto simp: wf_fees_def)
  have "fee_scope (without_rows m) s = Inr (without_rows m)"
    using n b map_of_fees [of pre "fm_cid m"] Cons.prems(2,3)
    by (auto simp: fee_scope_def image_image list_ex_iff rev_image_eqI)
  then have "load_metadata (json_sorted (metadata_payload m)) s = Inr (s\<lparr>cs_fee_metadata := fees_of (pre @ [m])\<rparr>)"
    using n(1) Cons.prems(3) by (simp add: load_metadata_def read_metadata_written [OF w] image_image dict_set_fresh)
  then show ?case
    using Cons.IH [of "pre @ [m]" "s\<lparr>cs_fee_metadata := fees_of (pre @ [m])\<rparr>"] Cons.prems(1,2) by simp
qed simp

lemma newest_is_max: "wf_bindings bs \<Longrightarrow> foldr max (map cb_cid bs) 0 = newest_cid bs"
proof -
  have "foldr max cs 0 = (if cs = [] then 0 else last cs)" if "sorted_wrt (<) cs" "\<forall>c \<in> set cs. (1::int) \<le> c" for cs
    using that last_in_set [of cs] by (induction cs) (auto simp: max_def dest: bspec [OF _ last_in_set])
  then show "wf_bindings bs \<Longrightarrow> foldr max (map cb_cid bs) 0 = newest_cid bs"
    by (simp add: wf_bindings_def newest_cid_def last_map list_all_iff wf_binding_def wf_cid_def)
qed

lemma wf_fees_sorted: "wf_fees bs ms \<Longrightarrow> wf_fees bs (sort_key fm_cid ms)"
proof -
  have "distinct (map f (sort_key fm_cid ms)) = distinct (map f ms)" for f :: "fee_metadata \<Rightarrow> int"
    by (metis mset_map mset_sort mset_eq_imp_distinct_iff)
  then show "wf_fees bs ms \<Longrightarrow> wf_fees bs (sort_key fm_cid ms)" by (simp add: wf_fees_def list_all_iff)
qed

lemma cid_file_loads:
  assumes "account \<noteq> []" "wf_bindings bs" "wf_fees bs ms"
    and v: "v = json_sorted (cid_payload account (newest_cid bs) conflict bs ms)"
  shows "open_cid_store account (Some v) answers = Inr
    \<lparr>cs_account_id = account, cs_by_client = by_client_of bs, cs_by_cid = by_cid_of bs, cs_last_cid = newest_cid bs,
     cs_fee_metadata = fees_of (sort_key fm_cid ms), cs_accounting_conflict = conflict, cs_fees_durable = True,
     cs_file = Some v, cs_answers = answers\<rparr>"
proof -
  define d where "d = (case cid_payload account (newest_cid bs) conflict bs ms of PObj d \<Rightarrow> d | _ \<Rightarrow> [])"
  note e = d_def [unfolded cid_payload_def pyval.case]
  have d: "distinct (map fst d)" by (simp add: e)
  have sb: "sort_key cb_cid bs = bs"
    using assms(2) by (simp add: wf_bindings_def sort_key_id_if_sorted strict_sorted_imp_sorted)
  have n: "0 \<le> newest_cid bs"
    using assms(2) by (auto dest!: bspec [OF _ last_in_set] simp: newest_cid_def wf_bindings_def list_all_iff wf_binding_def wf_cid_def)
  have get: "obj_get (json_obj d) ''schema_version'' = PInt 2" "obj_get (json_obj d) ''account_id'' = PStr account"
    "obj_get (json_obj d) ''last_cid'' = PInt (newest_cid bs)" "obj_get (json_obj d) ''accounting_conflict'' = PBool conflict"
    "obj_get (json_obj d) ''bindings'' = PList (map (\<lambda>b. json_sorted (binding_payload b)) bs)"
    "obj_get (json_obj d) ''fee_metadata'' = PList (map (\<lambda>m. json_sorted (metadata_payload m)) (sort_key fm_cid ms))"
    unfolding json_field [OF d] by (simp_all add: e obj_get_def o_def sb)
  have j: "v = PObj (json_obj d)" unfolding v json_sorted_obj [symmetric] by (simp add: cid_payload_def e)
  have m: "foldr max (map fst (by_cid_of bs)) 0 = newest_cid bs" using newest_is_max [OF assms(2)] by (simp add: o_def)
  show ?thesis
    using load_bindings_written [of "[]" bs] load_fees_written [of bs "[]" "sort_key fm_cid ms"] wf_fees_sorted [OF assms(3)]
      assms(1,2) n m
    by (simp add: open_cid_store_def cid_text_def j load_cids_def get read_values_written load_fees_def Let_def)
qed

end
