(* ===== verification/Cid_Runs.thy ===== *)
theory Cid_Runs
  imports Cid_Types
begin

text \<open>
  Runs of a CID store, with write failures and restarts: it stays well typed, its file always loads
  and holds the bindings in memory, bindings are only ever appended with greater CIDs, and what is
  known of fills and fees only grows.
\<close>

section \<open>Evidence only grows\<close>

definition trade_kept :: "fee_trade \<Rightarrow> fee_trade \<Rightarrow> bool" where
  "trade_kept t t' \<longleftrightarrow> t' = t \<or> ft_raw_fee t = None \<and> without_fee t' = without_fee t"

definition metadata_grows :: "fee_metadata \<Rightarrow> fee_metadata \<Rightarrow> bool" where
  "metadata_grows m m' \<longleftrightarrow> without_rows m' = without_rows m \<and> set (fm_native_fills m) \<subseteq> set (fm_native_fills m')
    \<and> (\<forall>t \<in> set (fm_venue_trades m). \<exists>t' \<in> set (fm_venue_trades m'). trade_kept t t')"

definition fees_grow :: "fee_metadata list \<Rightarrow> fee_metadata list \<Rightarrow> bool" where
  "fees_grow ms ms' \<longleftrightarrow> (\<forall>m \<in> set ms. \<exists>m' \<in> set ms'. metadata_grows m m')"

lemma trade_kept_trans: "trade_kept t t' \<Longrightarrow> trade_kept t' t'' \<Longrightarrow> trade_kept t t''"
  by (auto simp: trade_kept_def)

lemma metadata_grows_refl [simp]: "metadata_grows m m"
  by (auto simp: metadata_grows_def trade_kept_def)

lemma metadata_grows_trans: "metadata_grows m m' \<Longrightarrow> metadata_grows m' m'' \<Longrightarrow> metadata_grows m m''"
  unfolding metadata_grows_def by (metis subset_trans trade_kept_trans)

lemma fees_grow_refl [simp]: "fees_grow ms ms"
  by (auto simp: fees_grow_def intro: metadata_grows_refl)

lemma fees_grow_trans: "fees_grow ms ms' \<Longrightarrow> fees_grow ms' ms'' \<Longrightarrow> fees_grow ms ms''"
  unfolding fees_grow_def by (meson metadata_grows_trans)

lemma fees_grow_Nil [simp]: "fees_grow [] ms"
  by (simp add: fees_grow_def)

section \<open>One observation\<close>

lemma with_native_fill_grows:
  assumes "with_native_fill f m = Inr m'" "wf_metadata m" "wf_native f"
  shows "metadata_grows m m' \<and> wf_metadata m' \<and> fm_cid m' = fm_cid m"
proof (cases "find (\<lambda>row. nf_trade_id row = nf_trade_id f) (fm_native_fills m)")
  case None
  then have "nf_trade_id f \<notin> nf_trade_id ` set (fm_native_fills m)" by (force simp: find_None_iff)
  with None assms show ?thesis
    by (auto simp: with_native_fill_def metadata_grows_def without_rows_def trade_kept_def wf_metadata_def wf_identity_def)
qed (use assms in \<open>auto simp: with_native_fill_def split: if_splits\<close>)

lemma trade_rows_eq: "distinct (map ft_trade_id (fm_venue_trades m)) \<Longrightarrow> trade_rows m = map (\<lambda>t. (ft_trade_id t, t)) (fm_venue_trades m)"
proof -
  have "distinct (map ft_trade_id (pre @ ts)) \<Longrightarrow> fold (\<lambda>row d. dict_set (ft_trade_id row) row d) ts (map (\<lambda>t. (ft_trade_id t, t)) pre) =
      map (\<lambda>t. (ft_trade_id t, t)) (pre @ ts)" for pre ts
  proof (induction ts arbitrary: pre)
    case (Cons t ts)
    then have "ft_trade_id t \<notin> dict_keys (map (\<lambda>t. (ft_trade_id t, t)) pre)" by auto
    with Cons.IH [of "pre @ [t]"] Cons.prems show ?case by (simp add: dict_set_fresh)
  qed simp
  from this [of "[]"] show "distinct (map ft_trade_id (fm_venue_trades m)) \<Longrightarrow> ?thesis" by (simp add: trade_rows_def)
qed

text \<open>A dictionary of values under their own key, when one value is set.\<close>

lemma keyed_set:
  "distinct (map f xs) \<Longrightarrow> f x = k \<Longrightarrow>
    \<exists>ys. dict_set k x (map (\<lambda>y. (f y, y)) xs) = map (\<lambda>y. (f y, y)) ys \<and> distinct (map f ys) \<and>
      set ys = insert x {y \<in> set xs. f y \<noteq> k} \<and> set (map f ys) = insert k (set (map f xs))"
proof (induction xs)
  case (Cons y xs)
  show ?case
  proof (cases "f y = k")
    case True
    with Cons.prems show ?thesis by (intro exI [of _ "x # xs"]) (auto simp: rev_image_eqI)
  next
    case False
    with Cons obtain ys where "dict_set k x (map (\<lambda>y. (f y, y)) xs) = map (\<lambda>y. (f y, y)) ys" "distinct (map f ys)"
      "set ys = insert x {y \<in> set xs. f y \<noteq> k}" "set (map f ys) = insert k (set (map f xs))" by auto
    with False Cons.prems(1) show ?thesis by (intro exI [of _ "y # ys"]) auto
  qed
qed (auto intro: exI [of _ "[x]"])

lemma merge_trade_kept:
  assumes "merge_trade p t = Inr u" "wf_trade p" "wf_trade t" "ft_trade_id p = ft_trade_id t"
  shows "trade_kept p u \<and> wf_trade u \<and> ft_trade_id u = ft_trade_id t"
  using assms by (auto simp: merge_trade_def trade_kept_def split: if_splits)

lemma add_venue_trade_grows:
  assumes "add_venue_trade t m = Inr m'" "wf_metadata m" "wf_trade t"
  shows "metadata_grows m m' \<and> wf_metadata m' \<and> fm_cid m' = fm_cid m"
proof -
  have d: "distinct (map ft_trade_id (fm_venue_trades m))" and w: "\<forall>t \<in> set (fm_venue_trades m). wf_trade t"
    using assms(2) by (auto simp: wf_metadata_def list_all_iff)
  obtain u where u: "wf_trade u" "ft_trade_id u = ft_trade_id t"
    and keeps: "\<And>p. p \<in> set (fm_venue_trades m) \<Longrightarrow> ft_trade_id p = ft_trade_id t \<Longrightarrow> trade_kept p u"
    and m': "m' = m\<lparr>fm_venue_trades := dict_values (dict_set (ft_trade_id u) u (trade_rows m))\<rparr>"
  proof (cases "find (\<lambda>row. ft_trade_id row = ft_trade_id t) (fm_venue_trades m)")
    case None
    then have "\<And>p. p \<in> set (fm_venue_trades m) \<Longrightarrow> ft_trade_id p \<noteq> ft_trade_id t" by (auto simp: find_None_iff)
    with that [of t] None assms(1,3) show ?thesis by (auto simp: add_venue_trade_def)
  next
    case (Some p)
    then have p: "p \<in> set (fm_venue_trades m)" "ft_trade_id p = ft_trade_id t" by (auto simp: find_Some_iff)
    from assms(1) Some obtain u where u: "merge_trade p t = Inr u"
      and m': "m' = m\<lparr>fm_venue_trades := dict_values (dict_set (ft_trade_id u) u (trade_rows m))\<rparr>"
      by (auto simp: add_venue_trade_def bindE_Inr_iff)
    have "\<And>q. q \<in> set (fm_venue_trades m) \<Longrightarrow> ft_trade_id q = ft_trade_id t \<Longrightarrow> q = p"
      using d p by (metis distinct_map inj_onD)
    with that [OF _ _ _ m'] merge_trade_kept [OF u] w p assms(3) show ?thesis by blast
  qed
  from keyed_set [OF d refl, of u] obtain ts where ts: "dict_set (ft_trade_id u) u (trade_rows m) = map (\<lambda>t. (ft_trade_id t, t)) ts"
    "distinct (map ft_trade_id ts)" "set ts = insert u {t \<in> set (fm_venue_trades m). ft_trade_id t \<noteq> ft_trade_id u}"
    unfolding trade_rows_eq [OF d] by blast
  then have e: "m' = m\<lparr>fm_venue_trades := ts\<rparr>" using m' by (simp add: o_def)
  have "\<exists>t' \<in> set ts. trade_kept p t'" if p: "p \<in> set (fm_venue_trades m)" for p
    using keeps [OF p] ts(3) p u(2) by (cases "ft_trade_id p = ft_trade_id u") (auto simp: trade_kept_def)
  then have "metadata_grows m m'" unfolding e by (simp add: metadata_grows_def without_rows_def)
  moreover have "wf_metadata m'"
    using assms(2) ts w u(1) unfolding e by (auto simp: wf_metadata_def wf_identity_def list_all_iff)
  ultimately show ?thesis by (simp add: e)
qed


section \<open>The file\<close>

abbreviation fees_in :: "cid_store \<Rightarrow> fee_metadata list" where
  "fees_in s \<equiv> dict_values (cs_fee_metadata s)"

definition file_content :: "cid_store \<Rightarrow> bool \<Rightarrow> fee_metadata list \<Rightarrow> pyval" where
  "file_content s conflict ms = json_sorted (cid_payload (cs_account_id s) (newest_cid (cid_bindings s)) conflict (cid_bindings s) ms)"

text \<open>The file holds every binding, and of the fees and the conflict mark at least what was there when
  they were last said to be durable; \<open>ms\<close> are the fees of the file.\<close>

definition filed :: "cid_store \<Rightarrow> bool \<Rightarrow> fee_metadata list \<Rightarrow> bool" where
  "filed s conflict ms \<longleftrightarrow> wf_fees (cid_bindings s) ms \<and> fees_grow ms (fees_in s) \<and> (conflict \<longrightarrow> cs_accounting_conflict s)
    \<and> (cs_fees_durable s \<longrightarrow> fees_grow (fees_in s) ms \<and> conflict = cs_accounting_conflict s)
    \<and> (case cs_file s of None \<Rightarrow> cid_bindings s = [] \<and> \<not> conflict | Some v \<Rightarrow> v = file_content s conflict ms)"

definition custody_of :: "cid_store \<Rightarrow> bool \<Rightarrow> fee_metadata list \<Rightarrow> bool" where
  "custody_of s conflict ms \<longleftrightarrow> wf_cid_store s \<and> filed s conflict ms"

lemma cid_persist_cases:
  obtains (written) "cid_persist last_cid bs s =
      (s\<lparr>cs_file := Some (json_sorted (new_payload last_cid bs s)), cs_answers := tl (cs_answers s), cs_fees_durable := True\<rparr>, Inr ())"
  | (unsynced) "cid_persist last_cid bs s =
      (s\<lparr>cs_file := Some (json_sorted (new_payload last_cid bs s)), cs_answers := tl (cs_answers s)\<rparr>, Inl ParentDirectorySyncError)"
  | (refused) "cid_persist last_cid bs s = (s\<lparr>cs_answers := tl (cs_answers s)\<rparr>, Inl OSError)"
proof (cases rule: persist_payload_cases [where os = "next_answer (cs_answers s)" and overwrite = True
      and payload = "json_sorted (new_payload last_cid bs s)" and ?f0.0 = "cs_file s"])
  case written
  then show thesis by (intro that(1)) (simp add: cid_persist_def Let_def)
next
  case unsynced
  then show thesis by (intro that(2)) (simp add: cid_persist_def Let_def)
next
  case refused
  then show thesis by (intro that(3)) (simp add: cid_persist_def Let_def)
qed

text \<open>A write of the whole store, whatever becomes of it.\<close>

lemma persist_all_custody:
  assumes w: "wf_cid_store s" and f: "filed s conflict ms" and d: "\<not> cs_fees_durable s"
  shows "\<exists>ms' conflict'. custody_of (fst (cid_persist_all s)) conflict' ms' \<and> fees_grow ms ms' \<and> (conflict \<longrightarrow> conflict') \<and>
    cs_by_client (fst (cid_persist_all s)) = cs_by_client s \<and> cs_fee_metadata (fst (cid_persist_all s)) = cs_fee_metadata s \<and>
    cs_accounting_conflict (fst (cid_persist_all s)) = cs_accounting_conflict s \<and> cs_account_id (fst (cid_persist_all s)) = cs_account_id s"
proof -
  have new: "custody_of u (cs_accounting_conflict s) (fees_in s)"
    if "cs_file u = Some (json_sorted (new_payload (cs_last_cid s) (cid_bindings s) s))" "cs_by_client u = cs_by_client s" "cs_by_cid u = cs_by_cid s" "cs_last_cid u = cs_last_cid s"
      "cs_fee_metadata u = cs_fee_metadata s" "cs_accounting_conflict u = cs_accounting_conflict s" "cs_account_id u = cs_account_id s" for u
    using w that by (simp add: custody_of_def wf_cid_store_def filed_def file_content_def new_payload_def)
  have old: "custody_of (s\<lparr>cs_answers := a\<rparr>) conflict ms" for a
    using w f by (simp add: custody_of_def wf_cid_store_def filed_def file_content_def split: option.splits)
  have g: "fees_grow ms (fees_in s)" "conflict \<longrightarrow> cs_accounting_conflict s" using f by (simp_all add: filed_def)
  show ?thesis
  proof (cases rule: cid_persist_cases [of "cs_last_cid s" "cid_bindings s" s])
    case written
    then show ?thesis
      unfolding cid_persist_all_def using g
      by (intro exI [of _ "fees_in s"] exI [of _ "cs_accounting_conflict s"]) (simp add: new)
  next
    case unsynced
    then show ?thesis
      unfolding cid_persist_all_def using g
      by (intro exI [of _ "fees_in s"] exI [of _ "cs_accounting_conflict s"]) (simp add: new)
  next
    case refused
    then show ?thesis
      unfolding cid_persist_all_def by (intro exI [of _ ms] exI [of _ conflict]) (simp add: old)
  qed
qed

section \<open>The operations\<close>

text \<open>What one operation leaves: the same account, more bindings, more evidence, in memory and in the file.\<close>

definition advances :: "cid_store \<Rightarrow> bool \<Rightarrow> fee_metadata list \<Rightarrow> cid_store \<Rightarrow> bool" where
  "advances s conflict ms s' \<longleftrightarrow> (\<exists>ms' conflict' more. custody_of s' conflict' ms' \<and> fees_grow ms ms' \<and> (conflict \<longrightarrow> conflict') \<and>
    cid_bindings s' = cid_bindings s @ more \<and> cs_account_id s' = cs_account_id s)"

lemma advances_refl: "custody_of s conflict ms \<Longrightarrow> advances s conflict ms s"
  unfolding advances_def by (intro exI [of _ ms] exI [of _ conflict] exI [of _ "[]"]) simp

lemma persisted_advances:
  assumes "wf_cid_store s'" "filed s' conflict ms" "\<not> cs_fees_durable s'" "cs_by_client s' = cs_by_client s" "cs_account_id s' = cs_account_id s"
  shows "advances s conflict ms (fst (cid_persist_all s'))"
proof -
  from persist_all_custody [OF assms(1-3)] obtain ms' conflict' where
    "custody_of (fst (cid_persist_all s')) conflict' ms'" "fees_grow ms ms'" "conflict \<longrightarrow> conflict'"
    "cs_by_client (fst (cid_persist_all s')) = cs_by_client s" "cs_account_id (fst (cid_persist_all s')) = cs_account_id s"
    using assms(4,5) by auto
  then show ?thesis
    unfolding advances_def by (intro exI [of _ ms'] exI [of _ conflict'] exI [of _ "[]"]) simp
qed

lemma mark_conflict_advances: "custody_of s conflict ms \<Longrightarrow> advances s conflict ms (fst (mark_accounting_conflict s))"
  using advances_refl [of s conflict ms]
  by (cases "cs_accounting_conflict s \<and> cs_fees_durable s")
    (auto simp: mark_accounting_conflict_def custody_of_def wf_cid_store_def filed_def file_content_def split: option.splits
      intro!: persisted_advances)

lemma save_advances:
  assumes c: "custody_of s conflict ms" and m: "wf_metadata m" "fm_cid m \<in> cb_cid ` set (cid_bindings s)"
    and old: "\<And>o'. dict_get (cs_fee_metadata s) (fm_cid m) = Some o' \<Longrightarrow> metadata_grows o' m"
    and venue: "\<And>r. r \<in> set (fees_in s) \<Longrightarrow> fm_cid r \<noteq> fm_cid m \<Longrightarrow> fm_venue_order_id r \<noteq> fm_venue_order_id m"
  shows "advances s conflict ms (fst (save_fee_metadata m s))"
proof (cases "dict_get (cs_fee_metadata s) (fm_cid m) = Some m \<and> cs_fees_durable s")
  case False
  define u where "u = s\<lparr>cs_fee_metadata := dict_set (fm_cid m) m (cs_fee_metadata s), cs_fees_durable := False\<rparr>"
  obtain F where F: "fees_in s = F" by simp
  have k: "cs_fee_metadata s = fees_of F" and f: "wf_fees (cid_bindings s) F"
    using c F unfolding custody_of_def wf_cid_store_def by metis+
  have d: "distinct (map fm_cid F)" and i: "inj_on fm_venue_order_id (set F)" using f by (simp_all add: wf_fees_def distinct_map)
  from keyed_set [OF d refl, of m] obtain ns where n: "dict_set (fm_cid m) m (fees_of F) = fees_of ns"
    "distinct (map fm_cid ns)" "set ns = insert m {r \<in> set F. fm_cid r \<noteq> fm_cid m}" by blast
  have u: "cs_fee_metadata u = fees_of ns" "fees_in u = ns" using n(1) k by (simp_all add: u_def o_def)
  have "inj_on fm_venue_order_id (set ns)"
    unfolding n(3) using venue i unfolding F inj_on_def by (metis (mono_tags, lifting) insert_iff mem_Collect_eq)
  moreover have "distinct ns" using n(2) by (simp add: distinct_map)
  ultimately have "distinct (map fm_venue_order_id ns)" by (simp add: distinct_map)
  then have wn: "wf_fees (cid_bindings s) ns" using f n(2,3) m by (auto simp: wf_fees_def list_all_iff)
  have "metadata_grows r m" if "r \<in> set F" "fm_cid r = fm_cid m" for r
  proof (rule old)
    have "map_of (fees_of F) (fm_cid r) = Some r" using that(1) d by (intro map_of_is_SomeI) (simp_all add: o_def)
    with that(2) k show "dict_get (cs_fee_metadata s) (fm_cid m) = Some r" by simp
  qed
  then have g: "fees_grow F ns"
    unfolding fees_grow_def n(3) by (metis (mono_tags, lifting) insert_iff mem_Collect_eq metadata_grows_refl)
  have w: "wf_cid_store u" using c wn u by (simp add: custody_of_def wf_cid_store_def u_def o_def)
  have "filed u conflict ms"
    using c g u F by (auto simp: custody_of_def filed_def file_content_def u_def intro: fees_grow_trans split: option.splits)
  with w have "advances s conflict ms (fst (cid_persist_all u))"
    by (intro persisted_advances) (simp_all add: u_def)
  with False show ?thesis by (auto simp: save_fee_metadata_def u_def)
qed (simp add: save_fee_metadata_def advances_refl [OF c])


lemma fee_scope_cases:
  assumes "fee_scope scope s = Inr current" "wf_cid_store s" "wf_identity scope"
  shows "wf_metadata current" "fm_cid current = fm_cid scope" "fm_venue_order_id current = fm_venue_order_id scope"
    "fm_cid current \<in> cb_cid ` set (cid_bindings s)"
    "\<And>o'. dict_get (cs_fee_metadata s) (fm_cid current) = Some o' \<Longrightarrow> o' = current"
    "\<And>r. r \<in> set (fees_in s) \<Longrightarrow> fm_cid r \<noteq> fm_cid current \<Longrightarrow> fm_venue_order_id r \<noteq> fm_venue_order_id current"
proof -
  obtain F bs where F: "fees_in s = F" "cid_bindings s = bs" by simp
  have k: "cs_fee_metadata s = fees_of F" "cs_by_cid s = by_cid_of bs" "wf_fees bs F"
    using assms(2) F unfolding wf_cid_store_def by metis+
  have c: "fm_cid scope \<in> cb_cid ` set bs" "without_rows current = scope" "fm_native_fills scope = []" "fm_venue_trades scope = []"
    "current = (case dict_get (cs_fee_metadata s) (fm_cid scope) of None \<Rightarrow> scope | Some m \<Rightarrow> m)"
    and v: "\<forall>row \<in> set F. fm_cid row \<noteq> fm_cid scope \<longrightarrow> fm_venue_order_id row \<noteq> fm_venue_order_id scope"
    using assms(1) k(2) F by (auto simp: fee_scope_def Let_def list_ex_iff image_image split: if_splits)
  have i: "fm_cid current = fm_cid scope" "fm_venue_order_id current = fm_venue_order_id scope"
    using c(2) by (metis without_rows_simps(1,2))+
  then show "fm_cid current = fm_cid scope" "fm_venue_order_id current = fm_venue_order_id scope" by simp_all
  show "fm_cid current \<in> cb_cid ` set (cid_bindings s)" using c(1) i F by simp
  show "o' = current" if "dict_get (cs_fee_metadata s) (fm_cid current) = Some o'" for o' using that c(5) i by simp
  show "fm_venue_order_id r \<noteq> fm_venue_order_id current" if "r \<in> set (fees_in s)" "fm_cid r \<noteq> fm_cid current" for r
    using that v i F by simp
  show "wf_metadata current"
  proof (cases "dict_get (cs_fee_metadata s) (fm_cid scope)")
    case None
    with c assms(3) show ?thesis by (simp add: wf_metadata_def)
  next
    case (Some m)
    then have "m \<in> set F" using k(1) by (auto dest!: map_of_SomeD)
    with Some c(5) k(3) show ?thesis by (simp add: wf_fees_def list_all_iff)
  qed
qed

lemma observation_advances:
  assumes c: "custody_of s conflict ms" "wf_identity scope"
    and grows: "\<And>m m'. add m = Inr m' \<Longrightarrow> wf_metadata m \<Longrightarrow> metadata_grows m m' \<and> wf_metadata m' \<and> fm_cid m' = fm_cid m"
  shows "advances s conflict ms (fst (bind_tx (lift_tx (bindE (fee_scope scope s) add)) save_fee_metadata s))"
proof (cases "bindE (fee_scope scope s) add")
  case (Inr m)
  then obtain current where cur: "fee_scope scope s = Inr current" "add current = Inr m" by (auto simp: bindE_Inr_iff)
  have w: "wf_cid_store s" using c(1) by (simp add: custody_of_def)
  note f = fee_scope_cases [OF cur(1) w c(2)]
  from grows [OF cur(2) f(1)] have g: "metadata_grows current m" "wf_metadata m" "fm_cid m = fm_cid current" by blast+
  have "fm_venue_order_id m = fm_venue_order_id current" using g(1) unfolding metadata_grows_def by (metis without_rows_simps(2))
  with f g have "advances s conflict ms (fst (save_fee_metadata m s))" by (intro save_advances [OF c(1)]) auto
  with Inr show ?thesis by simp
qed (simp add: advances_refl [OF c(1)])

section \<open>Allocation\<close>

lemma newest_cid_bound:
  assumes "wf_bindings bs" "b \<in> set bs"
  shows "cb_cid b \<le> newest_cid bs"
proof -
  have "c \<le> last cs" if "sorted_wrt (<) cs" "c \<in> set cs" for c :: int and cs
    using that by (induction cs) (auto simp: less_imp_le)
  from this [of "map cb_cid bs" "cb_cid b"] assms show ?thesis
    by (cases "bs = []") (simp_all add: wf_bindings_def newest_cid_def last_map)
qed

lemma max_above: "(c::int) \<le> foldr max cs c"
  by (induction cs) auto

lemma newest_nonneg: "wf_bindings bs \<Longrightarrow> 0 \<le> newest_cid bs"
  using newest_is_max [of bs] max_above [of 0 "map cb_cid bs"] by simp

lemma allocate_refused:
  assumes "client = [] \<or> client \<in> dict_keys (cs_by_client s) \<or> now < 0 \<or> MAX_CID < max now (cs_last_cid s + 1)"
  shows "\<exists>e. allocate_cid client now s = (s, Inl e)"
proof (cases "client = []")
  case c: False
  show ?thesis
  proof (cases "client \<in> dict_keys (cs_by_client s)")
    case d: False
    show ?thesis
    proof (cases "now < 0")
      case n: False
      with c d assms have "MAX_CID < max now (cs_last_cid s + 1)" by blast
      with c d n show ?thesis by (simp add: allocate_cid_def cid_text_def cid_nonnegative_def bind_tx_def lift_tx_def Let_def)
    qed (use c d in \<open>simp add: allocate_cid_def cid_text_def cid_nonnegative_def bind_tx_def lift_tx_def\<close>)
  qed (use c in \<open>simp add: allocate_cid_def cid_text_def bind_tx_def lift_tx_def\<close>)
qed (simp add: allocate_cid_def cid_text_def bind_tx_def lift_tx_def)

text \<open>What an allocation that gets as far as the write leaves.\<close>

lemma allocate_cases:
  assumes c: "custody_of s conflict ms"
  obtains (refused) e where "allocate_cid client ms_now s = (s, Inl e)"
  | (unwritten) "allocate_cid client ms_now s = (s\<lparr>cs_answers := tl (cs_answers s)\<rparr>, Inl OSError)"
  | (bound) b s' where "custody_of s' (cs_accounting_conflict s) (fees_in s)" "cid_bindings s' = cid_bindings s @ [b]"
      "cs_account_id s' = cs_account_id s" "cb_client_order_id b = client" "newest_cid (cid_bindings s) < cb_cid b" "ms_now \<le> cb_cid b"
      "cs_file s' = Some (json_sorted (new_payload (cb_cid b) (cid_bindings s @ [b]) s))"
      "allocate_cid client ms_now s = (s', Inr b) \<or> allocate_cid client ms_now s = (s', Inl ParentDirectorySyncError)"
proof (cases "client = [] \<or> client \<in> dict_keys (cs_by_client s) \<or> ms_now < 0 \<or> MAX_CID < max ms_now (cs_last_cid s + 1)")
  case True
  with allocate_refused [OF True] refused show ?thesis by blast
next
  case False
  define b where "b = \<lparr>cb_client_order_id = client, cb_cid = max ms_now (cs_last_cid s + 1), cb_allocated_utc_date = utc_date ms_now\<rparr>"
  obtain bs where bs: "cid_bindings s = bs" by simp
  have w: "wf_bindings bs" "cs_by_client s = by_client_of bs" "cs_by_cid s = by_cid_of bs" "cs_last_cid s = newest_cid bs"
    "cs_account_id s \<noteq> []" "wf_fees bs (fees_in s)" "cs_fee_metadata s = fees_of (fees_in s)"
    using c bs unfolding custody_of_def wf_cid_store_def by metis+
  have n: "0 \<le> newest_cid bs"
    by (rule newest_nonneg [OF w(1)])
  have fresh: "cb_client_order_id b \<notin> cb_client_order_id ` set bs" "\<forall>x \<in> set bs. cb_cid x < cb_cid b"
    using False w newest_cid_bound [OF w(1)] by (fastforce simp: b_def image_image)+
  have wb: "wf_binding b"
    using False n w(4) utc_date_canonical [of ms_now] by (auto simp: wf_binding_def b_def wf_cid_def max_def split: if_splits)
  then have wbs: "wf_bindings (bs @ [b])" using w(1) fresh by (auto simp: wf_bindings_def sorted_wrt_append)
  have up: "custody_of (remember b u) (cs_accounting_conflict s) (fees_in s)" "cid_bindings (remember b u) = bs @ [b]"
    "cs_account_id (remember b u) = cs_account_id s" "cs_file (remember b u) = cs_file u"
    if u: "cs_by_client u = cs_by_client s" "cs_by_cid u = cs_by_cid s" "cs_fee_metadata u = cs_fee_metadata s"
      "cs_accounting_conflict u = cs_accounting_conflict s" "cs_account_id u = cs_account_id s"
      "cs_file u = Some (json_sorted (new_payload (cb_cid b) (cid_bindings s @ [b]) s))" for u
  proof -
    have k: "cb_client_order_id b \<notin> dict_keys (by_client_of bs)" "cb_cid b \<notin> dict_keys (by_cid_of bs)"
      using fresh by (auto simp: image_image)
    show r: "cid_bindings (remember b u) = bs @ [b]" "cs_account_id (remember b u) = cs_account_id s" "cs_file (remember b u) = cs_file u"
      using k u w by (simp_all add: remember_def dict_set_fresh o_def)
    have f: "wf_fees (bs @ [b]) (fees_in s)" using w(6) by (auto simp: wf_fees_def)
    have "wf_cid_store (remember b u)"
      using k u w r(1) wbs f by (simp add: wf_cid_store_def remember_def dict_set_fresh newest_cid_def o_def)
    moreover have "filed (remember b u) (cs_accounting_conflict s) (fees_in s)"
      unfolding filed_def r file_content_def using u f
      by (simp add: remember_def new_payload_def bs newest_cid_def)
    ultimately show "custody_of (remember b u) (cs_accounting_conflict s) (fees_in s)" by (simp add: custody_of_def)
  qed
  have run: "allocate_cid client ms_now s = (case cid_persist (cb_cid b) (cid_bindings s @ [b]) s of
          (s, Inr _) \<Rightarrow> (remember b s, Inr b)
        | (s, Inl e) \<Rightarrow> (if e = ParentDirectorySyncError then remember b s else s, Inl e))"
    using False unfolding b_def by (simp add: allocate_cid_def cid_text_def cid_nonnegative_def Let_def)
  have new: "newest_cid (cid_bindings s) < cb_cid b" "ms_now \<le> cb_cid b" "cb_client_order_id b = client"
    using w(4) by (simp_all add: b_def bs)
  show ?thesis
  proof (cases rule: cid_persist_cases [of "cb_cid b" "cid_bindings s @ [b]" s])
    case written
    then show ?thesis using new up run
      by (intro bound [of "remember b (fst (cid_persist (cb_cid b) (cid_bindings s @ [b]) s))" b]) (simp_all add: bs)
  next
    case unsynced
    then show ?thesis using new up run
      by (intro bound [of "remember b (fst (cid_persist (cb_cid b) (cid_bindings s @ [b]) s))" b]) (simp_all add: bs)
  qed (use unwritten run in simp)
qed

section \<open>Runs\<close>

definition well_typed_op :: "cid_op \<Rightarrow> bool" where
  "well_typed_op x = (case x of Allocate client now \<Rightarrow> True | NativeFill scope fill \<Rightarrow> wf_identity scope \<and> wf_native fill
     | VenueTrade scope trade \<Rightarrow> wf_identity scope \<and> wf_trade trade | MarkConflict \<Rightarrow> True)"

text \<open>Operations in any order, each write answered in any way, and restarts from the file at any moment.\<close>

inductive cid_steps :: "cid_store \<Rightarrow> cid_store \<Rightarrow> bool" where
  still: "cid_steps s s"
| operated: "cid_steps s s' \<Longrightarrow> well_typed_op x \<Longrightarrow> cid_steps s (run_cid_op x s')"
| restarted: "cid_steps s s' \<Longrightarrow> open_cid_store (cs_account_id s') (cs_file s') answers = Inr u \<Longrightarrow> cid_steps s u"

text \<open>A run that began with no file.\<close>

definition reachable_cids :: "cid_store \<Rightarrow> bool" where
  "reachable_cids s \<longleftrightarrow> (\<exists>account answers s0. open_cid_store account None answers = Inr s0 \<and> cid_steps s0 s)"

lemma operation_advances:
  assumes c: "custody_of s conflict ms" and x: "well_typed_op x"
  shows "advances s conflict ms (run_cid_op x s)"
proof (cases x)
  case (Allocate client now)
  from c show ?thesis
  proof (cases rule: allocate_cases [where client = client and ms_now = now])
    case (refused e)
    with Allocate show ?thesis by (simp add: advances_refl [OF c])
  next
    case unwritten
    have "custody_of (s\<lparr>cs_answers := tl (cs_answers s)\<rparr>) conflict ms"
      using c by (simp add: custody_of_def wf_cid_store_def filed_def file_content_def split: option.splits)
    with unwritten Allocate show ?thesis
      unfolding advances_def by (intro exI [of _ ms] exI [of _ conflict] exI [of _ "[]"]) simp
  next
    case (bound b s')
    have "fees_grow ms (fees_in s)" "conflict \<longrightarrow> cs_accounting_conflict s" using c by (simp_all add: custody_of_def filed_def)
    moreover have "run_cid_op x s = s'" using bound(8) Allocate by auto
    ultimately show ?thesis
      unfolding advances_def using bound(1-3)
      by (intro exI [of _ "fees_in s"] exI [of _ "cs_accounting_conflict s"] exI [of _ "[b]"]) simp
  qed
next
  case (NativeFill scope fill)
  with x have "wf_identity scope" "wf_native fill" by (simp_all add: well_typed_op_def)
  with NativeFill show ?thesis
    using observation_advances [OF c, of scope "with_native_fill fill"] with_native_fill_grows
    by (simp add: record_native_fill_def)
next
  case (VenueTrade scope trade)
  with x have "wf_identity scope" "wf_trade trade" by (simp_all add: well_typed_op_def)
  with VenueTrade show ?thesis
    using observation_advances [OF c, of scope "add_venue_trade trade"] add_venue_trade_grows
    by (simp add: record_venue_trade_def)
qed (simp add: mark_conflict_advances [OF c])

text \<open>A restart finds the store again as the file has it.\<close>

lemma restart_custody:
  assumes c: "custody_of s conflict ms" and o: "open_cid_store (cs_account_id s) (cs_file s) answers = Inr u"
  shows "advances s conflict ms u \<and> cs_fees_durable u"
proof (cases "cs_file s")
  case None
  with c o show ?thesis
    by (auto simp: open_cid_store_def cid_text_def custody_of_def filed_def wf_cid_store_def wf_bindings_def wf_fees_def
        newest_cid_def advances_def Let_def split: if_splits intro!: exI [of _ "[]"] exI [of _ False])
next
  case (Some v)
  obtain bs where bs: "cid_bindings s = bs" by simp
  have w: "cs_account_id s \<noteq> []" "wf_bindings bs" and f: "wf_fees bs ms" and v: "v = file_content s conflict ms"
    using c Some bs by (simp_all add: custody_of_def wf_cid_store_def filed_def)
  note v' = v [unfolded file_content_def bs]
  have u: "u = \<lparr>cs_account_id = cs_account_id s, cs_by_client = by_client_of bs, cs_by_cid = by_cid_of bs, cs_last_cid = newest_cid bs,
     cs_fee_metadata = fees_of (sort_key fm_cid ms), cs_accounting_conflict = conflict, cs_fees_durable = True,
     cs_file = Some v, cs_answers = answers\<rparr>"
    using cid_file_loads [OF w f v', of answers] o Some by simp
  have s: "wf_fees bs (sort_key fm_cid ms)" by (rule wf_fees_sorted [OF f])
  have same: "fees_grow ms (sort_key fm_cid ms)" "fees_grow (sort_key fm_cid ms) ms"
    unfolding fees_grow_def by (auto intro: metadata_grows_refl)
  have "custody_of u conflict ms"
    using w f s v' same unfolding u by (simp add: custody_of_def wf_cid_store_def filed_def file_content_def o_def)
  then show ?thesis
    unfolding advances_def using bs by (intro conjI exI [of _ ms] exI [of _ conflict] exI [of _ "[]"]) (simp_all add: u o_def)
qed

lemma advances_trans:
  "advances s conflict ms s' \<Longrightarrow> (\<And>conflict' ms'. custody_of s' conflict' ms' \<Longrightarrow> advances s' conflict' ms' s'') \<Longrightarrow> advances s conflict ms s''"
  unfolding advances_def by (metis append.assoc fees_grow_trans)

lemma steps_advance: "cid_steps s s' \<Longrightarrow> custody_of s conflict ms \<Longrightarrow> advances s conflict ms s'"
proof (induction rule: cid_steps.induct)
  case (still s)
  then show ?case by (rule advances_refl)
next
  case (operated s s' x)
  from operated.IH [OF operated.prems] show ?case
    by (rule advances_trans) (rule operation_advances [OF _ operated.hyps(2)])
next
  case (restarted s s' answers u)
  from restarted.IH [OF restarted.prems] show ?case
    by (rule advances_trans) (simp add: restart_custody [OF _ restarted.hyps(2)])
qed

lemma empty_custody: "open_cid_store account None answers = Inr s \<Longrightarrow> custody_of s False []"
  by (auto simp: open_cid_store_def cid_text_def custody_of_def filed_def wf_cid_store_def wf_bindings_def wf_fees_def
      newest_cid_def Let_def split: if_splits)

lemma cids_custody: "reachable_cids s \<Longrightarrow> \<exists>conflict ms. custody_of s conflict ms"
  using steps_advance empty_custody unfolding reachable_cids_def advances_def by blast

lemma restart_bindings:
  assumes "custody_of s conflict ms" "open_cid_store (cs_account_id s) (cs_file s) answers = Inr u"
  shows "cid_bindings u = cid_bindings s"
proof (cases "cs_file s")
  case None
  with assms show ?thesis by (auto simp: open_cid_store_def cid_text_def custody_of_def filed_def Let_def split: if_splits)
next
  case (Some v)
  with assms(1) have "cs_account_id s \<noteq> []" "wf_bindings (cid_bindings s)" "wf_fees (cid_bindings s) ms"
    "v = json_sorted (cid_payload (cs_account_id s) (newest_cid (cid_bindings s)) conflict (cid_bindings s) ms)"
    by (simp_all add: custody_of_def wf_cid_store_def filed_def file_content_def)
  from cid_file_loads [OF this, of answers] assms(2) Some
  have "cs_by_client u = by_client_of (cid_bindings s)" by auto
  then show ?thesis by (simp add: o_def)
qed

lemma cid_steps_trans: "cid_steps s' s'' \<Longrightarrow> cid_steps s s' \<Longrightarrow> cid_steps s s''"
  by (induction rule: cid_steps.induct) (auto intro: operated restarted)

lemma reachable_further: "reachable_cids s \<Longrightarrow> cid_steps s s' \<Longrightarrow> reachable_cids s'"
  unfolding reachable_cids_def using cid_steps_trans by blast

end
