(* ===== verification/Cid_Safety.thy ===== *)
theory Cid_Safety
  imports Cid_Runs
begin

text \<open>
  What a CID store promises over any run with write failures and restarts: it stays well typed and
  opens again with the same bindings, no CID is used twice, and a final fee once durable is never lost.
\<close>

section \<open>Example\<close>

definition example_scope :: fee_metadata where
  "example_scope = \<lparr>fm_cid = 1000, fm_venue_order_id = 77, fm_instrument_id = ''XAUT-PERP.BITFINEX'', fm_raw_symbol = ''tXAUTF0:USTF0'',
     fm_native_fills = [], fm_venue_trades = []\<rparr>"

definition example_trade :: fee_trade where
  "example_trade = \<lparr>ft_trade_id = 5, ft_ts_event_ms = 1500, ft_execution_qty = 2, ft_execution_price = 3000, ft_order_type = ''LIMIT'',
     ft_order_price = 3000, ft_maker = True, ft_raw_fee = Some (- 1), ft_fee_currency = Some ''USTF0''\<rparr>"

definition empty_cids :: "os_answers list \<Rightarrow> cid_store" where
  "empty_cids answers = \<lparr>cs_account_id = ''main'', cs_by_client = [], cs_by_cid = [], cs_last_cid = 0, cs_fee_metadata = [],
     cs_accounting_conflict = False, cs_fees_durable = True, cs_file = None, cs_answers = answers\<rparr>"

definition example_cids :: cid_store where
  "example_cids = run_cid_op (VenueTrade example_scope example_trade) (run_cid_op (Allocate ''O-1'' 1000) (empty_cids []))"

text \<open>The same trade without its fee is observed again, and another identity is bound in the same millisecond.\<close>

definition later_cids :: cid_store where
  "later_cids = run_cid_op (Allocate ''O-2'' 1000) (run_cid_op (VenueTrade example_scope (without_fee example_trade)) example_cids)"

lemma empty_cids_open: "open_cid_store ''main'' None answers = Inr (empty_cids answers)"
  by (simp add: open_cid_store_def cid_text_def empty_cids_def)

lemma example_well_typed:
  "well_typed_op (Allocate client now)" "well_typed_op (VenueTrade example_scope example_trade)"
  "well_typed_op (VenueTrade example_scope (without_fee example_trade))"
proof -
  have "wf_identity example_scope" by (simp add: wf_identity_def wf_cid_def MAX_CID_def example_scope_def)
  moreover have "wf_trade example_trade" by (simp add: wf_trade_def example_trade_def short_decimal_def dec_places_def)
  ultimately show "well_typed_op (Allocate client now)" "well_typed_op (VenueTrade example_scope example_trade)"
    "well_typed_op (VenueTrade example_scope (without_fee example_trade))"
    by (simp_all add: well_typed_op_def wf_trade_def without_fee_def)
qed

lemma example_reachable: "reachable_cids example_cids" "cid_steps example_cids later_cids"
proof -
  have "cid_steps (empty_cids []) example_cids" "cid_steps example_cids later_cids"
    unfolding example_cids_def later_cids_def by (intro operated still example_well_typed)+
  then show "reachable_cids example_cids" "cid_steps example_cids later_cids"
    unfolding reachable_cids_def using empty_cids_open by blast+
qed

lemma persist_unfold: "cid_persist last_cid bs s = (s\<lparr>cs_file := Some (json_sorted (new_payload last_cid bs s)), cs_answers := [],
    cs_fees_durable := True\<rparr>, Inr ())" if "cs_answers s = []"
  using that by (simp add: cid_persist_def persist_payload_def next_answer_def all_well_def replace_and_sync_parent_def
    publish_and_sync_parent_def Let_def)

definition first_cid :: cid_binding where
  "first_cid = \<lparr>cb_client_order_id = ''O-1'', cb_cid = 1000, cb_allocated_utc_date = utc_date 1000\<rparr>"

definition second_cid :: cid_binding where
  "second_cid = \<lparr>cb_client_order_id = ''O-2'', cb_cid = 1001, cb_allocated_utc_date = utc_date 1000\<rparr>"

lemma allocate_example: 
  "cs_by_client s = by_client_of bs \<Longrightarrow> cs_answers s = [] \<Longrightarrow> client \<noteq> [] \<Longrightarrow> client \<notin> cb_client_order_id ` set bs \<Longrightarrow> 0 \<le> now \<Longrightarrow>
    max now (cs_last_cid s + 1) = c \<Longrightarrow> c \<le> MAX_CID \<Longrightarrow>
    fst (allocate_cid client now s) = remember \<lparr>cb_client_order_id = client, cb_cid = c, cb_allocated_utc_date = utc_date now\<rparr>
      (s\<lparr>cs_file := Some (json_sorted (new_payload c (bs @ [\<lparr>cb_client_order_id = client, cb_cid = c, cb_allocated_utc_date = utc_date now\<rparr>]) s)),
         cs_answers := [], cs_fees_durable := True\<rparr>)"
  by (auto simp: allocate_cid_def cid_text_def cid_nonnegative_def Let_def persist_unfold o_def image_image)

definition filled_scope :: fee_metadata where
  "filled_scope = example_scope\<lparr>fm_venue_trades := [example_trade]\<rparr>"

lemma example_cids_facts:
  "cs_by_client example_cids = by_client_of [first_cid]" "cs_by_cid example_cids = by_cid_of [first_cid]" "cs_last_cid example_cids = 1000"
  "cs_fee_metadata example_cids = fees_of [filled_scope]" "cs_answers example_cids = []" "cs_fees_durable example_cids"
  "cs_account_id example_cids = ''main''"
proof -
  define s where "s = run_cid_op (Allocate ''O-1'' 1000) (empty_cids [])"
  have s: "cs_by_client s = by_client_of [first_cid]" "cs_by_cid s = by_cid_of [first_cid]" "cs_last_cid s = 1000"
    "cs_fee_metadata s = []" "cs_answers s = []" "cs_account_id s = ''main''"
    unfolding s_def run_cid_op.simps
    by (subst allocate_example [where bs = "[]" and c = 1000]; simp add: empty_cids_def MAX_CID_def remember_def first_cid_def)+
  have a: "bindE (fee_scope example_scope s) (add_venue_trade example_trade) = Inr filled_scope"
    using s by (simp add: fee_scope_def add_venue_trade_def trade_rows_def example_scope_def without_rows_def first_cid_def filled_scope_def Let_def)
  have e: "example_cids = fst (save_fee_metadata filled_scope s)"
    unfolding example_cids_def s_def [symmetric] by (simp add: record_venue_trade_def a)
  have c: "fm_cid filled_scope = 1000" by (simp add: filled_scope_def example_scope_def)
  show "cs_by_client example_cids = by_client_of [first_cid]" "cs_by_cid example_cids = by_cid_of [first_cid]" "cs_last_cid example_cids = 1000"
    "cs_fee_metadata example_cids = fees_of [filled_scope]" "cs_answers example_cids = []" "cs_fees_durable example_cids"
    "cs_account_id example_cids = ''main''"
    unfolding e using s by (simp_all add: save_fee_metadata_def cid_persist_all_def persist_unfold c)
qed

lemma later_cids_facts: "cid_bindings later_cids = [first_cid, second_cid]" "fees_in later_cids = [filled_scope]"
proof -
  have a: "bindE (fee_scope example_scope example_cids) (add_venue_trade (without_fee example_trade)) = Inr filled_scope"
    using example_cids_facts
    by (simp add: fee_scope_def add_venue_trade_def trade_rows_def merge_trade_def example_scope_def without_rows_def first_cid_def filled_scope_def
        without_fee_def example_trade_def Let_def)
  have c: "fm_cid filled_scope = 1000" by (simp add: filled_scope_def example_scope_def)
  have "run_cid_op (VenueTrade example_scope (without_fee example_trade)) example_cids = example_cids"
    using example_cids_facts by (simp add: record_venue_trade_def a save_fee_metadata_def c)
  then have l: "later_cids = fst (allocate_cid ''O-2'' 1000 example_cids)" by (simp add: later_cids_def)
  show "cid_bindings later_cids = [first_cid, second_cid]" "fees_in later_cids = [filled_scope]"
    unfolding l
    by (subst allocate_example [where bs = "[first_cid]" and c = 1001];
        simp add: example_cids_facts MAX_CID_def remember_def first_cid_def second_cid_def)+
qed

section \<open>Properties\<close>

text \<open>C33: At every moment of a run, with writes that fail in any way and restarts, the store is well typed
  (text and date of each binding, ranges, one row per key, the two indexes and the newest CID agree), and
  its file opens again to a well typed store with the very same bindings.
\<close>
theorem cid_store_well_typed:
  assumes "reachable_cids s"
  shows "wf_cid_store s \<and> (\<exists>u. open_cid_store (cs_account_id s) (cs_file s) answers = Inr u \<and> wf_cid_store u
    \<and> cid_bindings u = cid_bindings s)"
proof -
  from cids_custody [OF assms] obtain conflict ms where c: "custody_of s conflict ms" by blast
  have "\<exists>u. open_cid_store (cs_account_id s) (cs_file s) answers = Inr u"
  proof (cases "cs_file s")
    case None
    with c show ?thesis by (simp add: open_cid_store_def cid_text_def custody_of_def wf_cid_store_def)
  next
    case (Some v)
    with c have "cs_account_id s \<noteq> []" "wf_bindings (cid_bindings s)" "wf_fees (cid_bindings s) ms"
      "v = json_sorted (cid_payload (cs_account_id s) (newest_cid (cid_bindings s)) conflict (cid_bindings s) ms)"
      by (simp_all add: custody_of_def wf_cid_store_def filed_def file_content_def)
    from cid_file_loads [OF this, of answers] Some show ?thesis by simp
  qed
  then obtain u where u: "open_cid_store (cs_account_id s) (cs_file s) answers = Inr u" by blast
  have "cid_bindings u = cid_bindings s" by (rule restart_bindings [OF c u])
  moreover have "wf_cid_store u" using restart_custody [OF c u] by (auto simp: advances_def custody_of_def)
  ultimately show ?thesis using c u by (auto simp: custody_of_def)
qed

theorem cid_store_well_typed_witness:
  "wf_cid_store later_cids \<and> (\<exists>u. open_cid_store (cs_account_id later_cids) (cs_file later_cids) [] = Inr u \<and> wf_cid_store u
    \<and> cid_bindings u = cid_bindings later_cids) \<and> cid_bindings later_cids = [first_cid, second_cid]"
  using cid_store_well_typed [of later_cids "[]"] reachable_further [OF example_reachable] later_cids_facts by blast

lemma appended_bindings:
  assumes "wf_bindings (bs @ rest)"
  shows "\<forall>b \<in> set bs. \<forall>b' \<in> set rest. cb_cid b < cb_cid b' \<and> cb_client_order_id b \<noteq> cb_client_order_id b'"
    "distinct (map cb_client_order_id (bs @ rest))" "distinct (map cb_cid (bs @ rest))"
  using assms strict_sorted_iff [of "map cb_cid (bs @ rest)"] by (simp_all add: wf_bindings_def sorted_wrt_append) force

text \<open>C31: A CID is never used twice. Over any further run with write failures and restarts the bindings made
  so far stay as they are and new ones are only appended, each with a greater CID and for an identity not
  bound before.
\<close>
theorem cids_never_reused:
  assumes "reachable_cids s" "cid_steps s s'"
  shows "\<exists>more. cid_bindings s' = cid_bindings s @ more
    \<and> (\<forall>b \<in> set (cid_bindings s). \<forall>b' \<in> set more. cb_cid b < cb_cid b' \<and> cb_client_order_id b \<noteq> cb_client_order_id b')
    \<and> distinct (map cb_client_order_id (cid_bindings s')) \<and> distinct (map cb_cid (cid_bindings s'))"
proof -
  from cids_custody [OF assms(1)] obtain conflict ms where "custody_of s conflict ms" by blast
  from steps_advance [OF assms(2) this] obtain more conflict' ms' where
    more: "cid_bindings s' = cid_bindings s @ more" and w: "custody_of s' conflict' ms'" unfolding advances_def by blast
  from w have "wf_bindings (cid_bindings s @ more)" by (simp add: custody_of_def wf_cid_store_def more)
  then show ?thesis
    unfolding more by (intro exI [of _ more] conjI refl appended_bindings)
qed

theorem cids_never_reused_witness:
  "\<exists>more. cid_bindings later_cids = cid_bindings example_cids @ more \<and> second_cid \<in> set more \<and> cb_cid first_cid < cb_cid second_cid"
  using cids_never_reused [OF example_reachable] later_cids_facts(1) example_cids_facts(1) by fastforce

text \<open>C32: A final fee is never lost. Once the store says its fees are durable, each fill and each venue trade
  with its final fee stays, unchanged and under the same order, at every later moment, over repeated
  observations that lack the fee, write failures and restarts.
\<close>
theorem final_fee_survives:
  assumes "reachable_cids s" "cs_fees_durable s" "cid_steps s s'" "m \<in> set (fees_in s)"
  shows "\<exists>m' \<in> set (fees_in s'). without_rows m' = without_rows m \<and> set (fm_native_fills m) \<subseteq> set (fm_native_fills m')
    \<and> {t \<in> set (fm_venue_trades m). fee_finality t = ''final''} \<subseteq> set (fm_venue_trades m')"
proof -
  from cids_custody [OF assms(1)] obtain conflict ms where c: "custody_of s conflict ms" by blast
  then have "fees_grow (fees_in s) ms" using assms(2) by (simp add: custody_of_def filed_def)
  moreover have "\<exists>ms'. fees_grow ms ms' \<and> fees_grow ms' (fees_in s')"
    using steps_advance [OF assms(3) c] by (auto simp: advances_def custody_of_def filed_def)
  ultimately have "fees_grow (fees_in s) (fees_in s')" using fees_grow_trans by blast
  with assms(4) obtain m' where "m' \<in> set (fees_in s')" "metadata_grows m m'" unfolding fees_grow_def by blast
  then show ?thesis
    unfolding metadata_grows_def trade_kept_def fee_finality_def by (intro bexI [of _ m']) auto
qed

theorem final_fee_survives_witness:
  "\<exists>m' \<in> set (fees_in later_cids). example_trade \<in> set (fm_venue_trades m')"
proof -
  have "filled_scope \<in> set (fees_in example_cids)" using example_cids_facts(4) by simp
  from final_fee_survives [OF example_reachable(1) example_cids_facts(6) example_reachable(2) this]
  show ?thesis by (auto simp: filled_scope_def example_trade_def fee_finality_def)
qed

end
