(* ===== verification/Mt5_Wire.thy ===== *)
theory Mt5_Wire
  imports Maker_Codec
begin

text \<open>
  The first half of \<^verbatim>\<open>mt5_v1_protocol.py\<close>, the wire of the MT5 expert advisor: the decoding of one
  JSON object, the checked values, the identity, the binding and the requests.

  The characters of a text are those of ASCII, so its bytes in UTF-8 are itself. What \<^verbatim>\<open>json.loads\<close>
  makes of a text before the program's hooks see it, whether bytes are UTF-8, and the hex digest of
  SHA-256 are parameters. A \<open>WireError\<close> carries its code and message, without the quoted member names in it; the other two errors are what
  Python raises itself on values the checks do not expect.
\<close>

section \<open>Errors and limits\<close>

datatype wire_code =
    BINDING_MISMATCH | CURSOR_AHEAD | CURSOR_EXPIRED | EXECUTION_DISABLED | IDEMPOTENCY_CONFLICT
  | MALFORMED | RECOVERY_BLOCKED | SCHEMA_MISMATCH | SNAPSHOT_UNAVAILABLE | UNKNOWN_OP

definition ERROR_CODES :: "string set" where
  "ERROR_CODES = {''BINDING_MISMATCH'', ''CURSOR_AHEAD'', ''CURSOR_EXPIRED'', ''EXECUTION_DISABLED'', ''IDEMPOTENCY_CONFLICT'',
     ''MALFORMED'', ''RECOVERY_BLOCKED'', ''SCHEMA_MISMATCH'', ''SNAPSHOT_UNAVAILABLE'', ''UNKNOWN_OP''}"

datatype wire_error = WireError wire_code string | UnhashableValue | TooManyDigits

definition MAX_WIRE_BYTES :: nat where "MAX_WIRE_BYTES = 64 * 1024"
definition MAX_TEXT_LENGTH :: nat where "MAX_TEXT_LENGTH = 256"
definition MAX_IDENTIFIER_LENGTH :: nat where "MAX_IDENTIFIER_LENGTH = 128"
definition MAX_EVENTS_LIMIT :: nat where "MAX_EVENTS_LIMIT = 500"
definition MAX_JSON_DEPTH :: nat where "MAX_JSON_DEPTH = 32"
definition MAX_JSON_INT_DIGITS :: nat where "MAX_JSON_INT_DIGITS = 20"
definition UINT64_MAX :: int where "UINT64_MAX = 2 ^ 64 - 1"

abbreviation malformed :: "string \<Rightarrow> wire_error + 'a" where
  "malformed message \<equiv> Inl (WireError MALFORMED message)"

abbreviation mismatch :: "string \<Rightarrow> wire_error + 'a" where
  "mismatch message \<equiv> Inl (WireError SCHEMA_MISMATCH message)"

abbreviation unbound :: "string \<Rightarrow> wire_error + 'a" where
  "unbound message \<equiv> Inl (WireError BINDING_MISMATCH message)"

section \<open>Decoding\<close>

text \<open>A JSON text as the scanner reads it: integer and constant tokens as text, members in order with duplicates.\<close>

datatype json_doc =
    DNull
  | DBool bool
  | DInt string
  | DFloat dec
  | DConstant string
  | DText string
  | DArray "json_doc list"
  | DObject "(string \<times> json_doc) list"

definition bounded_json_int :: "string \<Rightarrow> wire_error + pyval" where
  "bounded_json_int token =
    (let digits = (case token of c # cs \<Rightarrow> if c = CHR ''-'' then cs else token | [] \<Rightarrow> token) in
     if MAX_JSON_INT_DIGITS < length digits then malformed ''JSON integer exceeds digit limit''
     else Inr (PInt (if digits = token then parse_nat digits else - parse_nat digits)))"

definition unique_members :: "(string \<times> pyval) list \<Rightarrow> wire_error + pyobj" where
  "unique_members pairs = foldE (\<lambda>(key, v) result.
     if key \<in> dict_keys result then malformed ''duplicate JSON member'' else Inr (dict_set key v result)) pairs []"

text \<open>The values the hooks make, innermost first, in the order of the text.\<close>

fun build :: "json_doc \<Rightarrow> wire_error + pyval"
  and build_items :: "json_doc list \<Rightarrow> wire_error + pyval list"
  and build_members :: "(string \<times> json_doc) list \<Rightarrow> wire_error + (string \<times> pyval) list" where
  "build DNull = Inr PNone"
| "build (DBool b) = Inr (PBool b)"
| "build (DInt token) = bounded_json_int token"
| "build (DFloat x) = Inr (PFloat x)"
| "build (DConstant name) = malformed ''non-finite JSON constant''"
| "build (DText s) = Inr (PStr s)"
| "build (DArray items) = bindE (build_items items) (\<lambda>vs. Inr (PList vs))"
| "build (DObject members) = bindE (bindE (build_members members) unique_members) (\<lambda>d. Inr (PObj d))"
| "build_items [] = Inr []"
| "build_items (d # ds) = bindE (build d) (\<lambda>v. bindE (build_items ds) (\<lambda>vs. Inr (v # vs)))"
| "build_members [] = Inr []"
| "build_members ((k, d) # ds) = bindE (build d) (\<lambda>v. bindE (build_members ds) (\<lambda>vs. Inr ((k, v) # vs)))"

text \<open>The loop over a stack of values and their depths; the head of the list is the top.\<close>

function validate_json_tree :: "(pyval \<times> nat) list \<Rightarrow> wire_error + unit" where
  "validate_json_tree [] = Inr ()"
| "validate_json_tree ((current, depth) # stack) =
    (if MAX_JSON_DEPTH < depth then malformed ''JSON nesting exceeds v1 limit''
     else case current of
       PObj d \<Rightarrow> validate_json_tree (rev (map (\<lambda>(_, child). (child, depth + 1)) d) @ stack)
     | PList vs \<Rightarrow> validate_json_tree (rev (map (\<lambda>child. (child, depth + 1)) vs) @ stack)
     | PFloat NonFinite \<Rightarrow> malformed ''JSON number is not finite''
     | _ \<Rightarrow> validate_json_tree stack)"
  by pat_completeness auto
termination
proof (relation "measure (\<lambda>stack. sum_list (map (\<lambda>(v, _). Suc (size v)) stack))")
  have o: "sum_list (map (\<lambda>p. Suc (size (snd p))) d) < Suc (size (PObj d))" for d :: "(string \<times> pyval) list"
    by (induction d) auto
  have l: "sum_list (map (\<lambda>v. Suc (size v)) vs) < Suc (size (PList vs))" for vs :: "pyval list"
    by (induction vs) auto
  have r: "sum_list (rev xs) = sum_list xs" for xs :: "nat list" by (induction xs) auto
  show "((rev (map (\<lambda>(_, child). (child, depth + 1)) d) @ stack), (current, depth) # stack)
      \<in> measure (\<lambda>stack. sum_list (map (\<lambda>(v, _). Suc (size v)) stack))" if "current = PObj d" for current depth stack d
    using o [of d] that by (simp add: rev_map [symmetric] r o_def case_prod_unfold)
  show "((rev (map (\<lambda>child. (child, depth + 1)) vs) @ stack), (current, depth) # stack)
      \<in> measure (\<lambda>stack. sum_list (map (\<lambda>(v, _). Suc (size v)) stack))" if "current = PList vs" for current depth stack vs
    using l [of vs] that by (simp add: rev_map [symmetric] r o_def)
qed auto

record wire_env =
  we_utf8 :: "string \<Rightarrow> bool"
  we_loads :: "string \<Rightarrow> json_doc option"
  we_sha256 :: "string \<Rightarrow> string"

text \<open>A text the scanner refuses is told by that alone, also where a hook would have refused it earlier.\<close>

definition decode_json_object :: "wire_env \<Rightarrow> string \<Rightarrow> wire_error + pyobj" where
  "decode_json_object E raw =
    (if MAX_WIRE_BYTES < length raw then malformed ''wire payload exceeds 64 KiB''
     else if \<not> we_utf8 E raw then malformed ''wire payload is not UTF-8''
     else case we_loads E raw of None \<Rightarrow> malformed ''malformed JSON''
     | Some doc \<Rightarrow> bindE (build doc) (\<lambda>decoded. case decoded of
         PObj d \<Rightarrow> bindE (validate_json_tree [(PObj d, 0)]) (\<lambda>_. Inr d)
       | _ \<Rightarrow> malformed ''wire root must be an object''))"

section \<open>Checked values\<close>

text \<open>The characters of Unicode's category \<^verbatim>\<open>Cc\<close>.\<close>

definition control_char :: "char \<Rightarrow> bool" where
  "control_char c \<longleftrightarrow> c < CHR '' '' \<or> c = CHR 0x7F"

definition validated_text :: "nat \<Rightarrow> pyval \<Rightarrow> string \<Rightarrow> wire_error + string" where
  "validated_text max_length v label = (case v of
     PStr s \<Rightarrow>
       if s = [] \<or> s \<noteq> py_strip s \<or> max_length < length s then mismatch (label @ '' is empty, untrimmed, or too long'')
       else if list_ex control_char s then mismatch (label @ '' contains forbidden text'')
       else Inr s
   | _ \<Rightarrow> mismatch (label @ '' must be a string''))"

definition validated_optional_text :: "nat \<Rightarrow> pyval \<Rightarrow> string \<Rightarrow> wire_error + string" where
  "validated_optional_text max_length v label = (if v = PStr [] then Inr [] else validated_text max_length v label)"

definition validated_bool :: "pyval \<Rightarrow> string \<Rightarrow> wire_error + bool" where
  "validated_bool v label = (case v of PBool b \<Rightarrow> Inr b | _ \<Rightarrow> mismatch (label @ '' must be a JSON bool''))"

definition visible_char :: "char \<Rightarrow> bool" where
  "visible_char c \<longleftrightarrow> CHR ''!'' \<le> c \<and> c \<le> CHR ''~''"

definition safe_char :: "char \<Rightarrow> bool" where
  "safe_char c \<longleftrightarrow> CHR ''A'' \<le> c \<and> c \<le> CHR ''Z'' \<or> CHR ''a'' \<le> c \<and> c \<le> CHR ''z'' \<or> is_digit c \<or> c = CHR ''_'' \<or> c = CHR ''-''"

definition validated_identifier :: "nat \<Rightarrow> pyval \<Rightarrow> string \<Rightarrow> wire_error + string" where
  "validated_identifier max_length v label = bindE (validated_text max_length v label) (\<lambda>text.
     if list_all visible_char text then Inr text else mismatch (label @ '' must be visible ASCII''))"

abbreviation validated_name :: "pyval \<Rightarrow> string \<Rightarrow> wire_error + string" where
  "validated_name \<equiv> validated_identifier MAX_IDENTIFIER_LENGTH"

definition validated_safe_token :: "pyval \<Rightarrow> string \<Rightarrow> wire_error + string" where
  "validated_safe_token v label = bindE (validated_name v label) (\<lambda>text.
     if list_all safe_char text then Inr text else mismatch (label @ '' must use safe token characters''))"

text \<open>\<^verbatim>\<open>0|[1-9][0-9]*\<close>\<close>

definition canonical_uint :: "string \<Rightarrow> bool" where
  "canonical_uint s \<longleftrightarrow> s = ''0'' \<or> is_decimal s \<and> hd s \<noteq> CHR ''0''"

text \<open>\<^verbatim>\<open>int(text)\<close> refuses more than 4300 digits.\<close>

definition uint64_string :: "bool \<Rightarrow> pyval \<Rightarrow> string \<Rightarrow> wire_error + string" where
  "uint64_string positive v label = (case v of
     PStr s \<Rightarrow>
       if \<not> canonical_uint s then mismatch (label @ '' must be a canonical uint64 string'')
       else if 4300 < length s then Inl TooManyDigits
       else if UINT64_MAX < parse_nat s \<or> positive \<and> parse_nat s = 0 then mismatch (label @ '' is outside uint64 range'')
       else Inr s
   | _ \<Rightarrow> mismatch (label @ '' must be a canonical uint64 string''))"

text \<open>\<^verbatim>\<open>-?(?:0|[1-9][0-9]*)(?:\.[0-9]+)?\<close>\<close>

definition canonical_decimal :: "string \<Rightarrow> bool" where
  "canonical_decimal s = (case take_digits (case s of c # cs \<Rightarrow> if c = CHR ''-'' then cs else s | [] \<Rightarrow> s) of (whole, rest) \<Rightarrow>
     canonical_uint whole \<and> (case rest of [] \<Rightarrow> True | c # cs \<Rightarrow> c = CHR ''.'' \<and> is_decimal cs))"

definition decimal_value :: "string \<Rightarrow> rat" where
  "decimal_value s = (case decimal_of_text s of Some (Fin x) \<Rightarrow> x | _ \<Rightarrow> 0)"

definition decimal_string :: "bool \<Rightarrow> pyval \<Rightarrow> string \<Rightarrow> wire_error + string" where
  "decimal_string positive v label = (case v of
     PStr s \<Rightarrow>
       if 64 < length s \<or> \<not> canonical_decimal s then mismatch (label @ '' must be a non-exponent decimal string'')
       else case decimal_of_text s of
         None \<Rightarrow> mismatch (label @ '' is not finite decimal'')
       | Some NonFinite \<Rightarrow> mismatch (label @ '' must be positive finite decimal'')
       | Some (Fin x) \<Rightarrow> if positive \<and> x \<le> 0 then mismatch (label @ '' must be positive finite decimal'') else Inr s
   | _ \<Rightarrow> mismatch (label @ '' must be a non-exponent decimal string''))"

definition bounded_int :: "int \<Rightarrow> int \<Rightarrow> pyval \<Rightarrow> string \<Rightarrow> wire_error + int" where
  "bounded_int minimum maximum v label = (case v of
     PInt n \<Rightarrow> if minimum \<le> n \<and> n \<le> maximum then Inr n else mismatch (label @ '' must be an exact bounded JSON int'')
   | _ \<Rightarrow> mismatch (label @ '' must be an exact bounded JSON int''))"

text \<open>The message leaves out the two lists of names.\<close>

definition closed_object :: "pyval \<Rightarrow> string \<Rightarrow> string set \<Rightarrow> wire_error + pyobj" where
  "closed_object v label names = (case v of
     PObj d \<Rightarrow> if dict_keys d = names then Inr d else mismatch (label @ '' keys differ'')
   | _ \<Rightarrow> mismatch (label @ '' must be an object''))"

text \<open>A check of each of some members, in order.\<close>

definition each_field :: "(pyval \<Rightarrow> string \<Rightarrow> wire_error + 'a) \<Rightarrow> string list \<Rightarrow> string \<Rightarrow> pyobj \<Rightarrow> wire_error + unit" where
  "each_field check names label data = foldE (\<lambda>name _. bindE (check (obj_get data name) (label @ name)) (\<lambda>_. Inr ())) names ()"

text \<open>\<^verbatim>\<open>value not in {...}\<close> raises on a value without a hash.\<close>

definition not_among :: "pyval \<Rightarrow> string set \<Rightarrow> wire_error + bool" where
  "not_among v names = (case v of
     PObj _ \<Rightarrow> Inl UnhashableValue | PList _ \<Rightarrow> Inl UnhashableValue
   | PStr s \<Rightarrow> Inr (s \<notin> names) | _ \<Rightarrow> Inr True)"

section \<open>Derived names\<close>

definition ACCOUNT_ID_DOMAIN :: string where "ACCOUNT_ID_DOMAIN = ''py000.mt5/account-id/v1'' @ [CHR 0x00]"
definition JOURNAL_NAMESPACE_DOMAIN :: string where "JOURNAL_NAMESPACE_DOMAIN = ''py000.mt5/journal-namespace/v1'' @ [CHR 0x00]"
definition JOURNAL_NAMESPACE_PREFIX :: string where "JOURNAL_NAMESPACE_PREFIX = ''PY000_MT5_V1_''"

text \<open>\<^verbatim>\<open>n.to_bytes(4, "big")\<close>\<close>

definition four_bytes :: "nat \<Rightarrow> string" where
  "four_bytes n = map (\<lambda>k. char_of (int n div 256 ^ k mod 256)) [3, 2, 1, 0]"

definition account_bytes :: "string \<Rightarrow> string \<Rightarrow> string" where
  "account_bytes server login = ACCOUNT_ID_DOMAIN @ four_bytes (length server) @ server @ [CHR 0x00] @ login"

definition normalized_account_id :: "wire_env \<Rightarrow> pyval \<Rightarrow> pyval \<Rightarrow> wire_error + string" where
  "normalized_account_id E broker_server broker_login =
    bindE (validated_text 128 broker_server ''broker_server'') (\<lambda>server.
    bindE (uint64_string True broker_login ''broker_login'') (\<lambda>login.
    Inr (''mt5-sha256-'' @ we_sha256 E (account_bytes server login))))"

definition namespace_bytes :: "string \<Rightarrow> string \<Rightarrow> string \<Rightarrow> string" where
  "namespace_bytes account symbol magic = JOURNAL_NAMESPACE_DOMAIN @ account @ [CHR 0x00] @ symbol @ [CHR 0x00] @ magic"

definition normalized_journal_namespace :: "wire_env \<Rightarrow> pyval \<Rightarrow> pyval \<Rightarrow> pyval \<Rightarrow> wire_error + string" where
  "normalized_journal_namespace E account_id symbol magic =
    bindE (validated_name account_id ''account_id'') (\<lambda>account.
    bindE (validated_text 128 symbol ''symbol'') (\<lambda>raw_symbol.
    bindE (uint64_string False magic ''magic'') (\<lambda>canonical_magic.
    Inr (JOURNAL_NAMESPACE_PREFIX @ we_sha256 E (namespace_bytes account raw_symbol canonical_magic)))))"

section \<open>Identity and binding\<close>

record binding =
  bd_account_id :: string
  bd_symbol :: string
  bd_ea_build_id :: string
  bd_stream_id :: string
  bd_boot_id :: string

record identity =
  id_account_id :: string
  id_broker_server :: string
  id_broker_login :: string
  id_server_timezone :: string
  id_server_timezone_source :: pyval
  id_symbol :: string
  id_terminal_build :: int
  id_ea_build_id :: string
  id_declared_source_sha256 :: string
  id_stream_id :: string
  id_boot_id :: string
  id_magic :: string
  id_execution_enabled :: bool

definition hex_lower :: "char \<Rightarrow> bool" where
  "hex_lower c \<longleftrightarrow> is_digit c \<or> CHR ''a'' \<le> c \<and> c \<le> CHR ''f''"

text \<open>\<^verbatim>\<open>Identity.__post_init__\<close>\<close>

definition check_identity :: "wire_env \<Rightarrow> identity \<Rightarrow> wire_error + unit" where
  "check_identity E i =
    bindE (normalized_account_id E (PStr (id_broker_server i)) (PStr (id_broker_login i))) (\<lambda>expected.
    bindE (validated_name (PStr (id_account_id i)) ''account_id'') (\<lambda>account.
    if account \<noteq> expected then mismatch ''account_id is not derived from server+login''
    else bindE (validated_name (PStr (id_symbol i)) ''symbol'') (\<lambda>_.
      bindE (validated_text 64 (PStr (id_server_timezone i)) ''server_timezone'') (\<lambda>_.
      if id_server_timezone_source i \<noteq> PStr ''configured_input'' then mismatch ''server_timezone_source mismatch''
      else bindE (bounded_int 1 (2 ^ 31 - 1) (PInt (id_terminal_build i)) ''terminal_build'') (\<lambda>_.
        bindE (validated_safe_token (PStr (id_ea_build_id i)) ''ea_build_id'') (\<lambda>_.
        bindE (validated_identifier 64 (PStr (id_declared_source_sha256 i)) ''declared_source_sha256'') (\<lambda>sha.
        if length sha \<noteq> 64 \<or> \<not> list_all hex_lower sha \<or> set sha = {CHR ''0''} then
          mismatch ''declared_source_sha256 must be non-placeholder lowercase SHA-256''
        else bindE (validated_safe_token (PStr (id_stream_id i)) ''stream_id'') (\<lambda>_.
          bindE (validated_safe_token (PStr (id_boot_id i)) ''boot_id'') (\<lambda>_.
          bindE (uint64_string False (PStr (id_magic i)) ''magic'') (\<lambda>_. Inr ()))))))))))"

definition identity_fields :: "string set" where
  "identity_fields = {''account_id'', ''broker_login'', ''broker_server'', ''server_timezone'', ''server_timezone_source'', ''boot_id'',
     ''ea_build_id'', ''declared_source_sha256'', ''execution_enabled'', ''magic'', ''stream_id'', ''symbol'', ''terminal_build''}"

definition identity_from_wire :: "wire_env \<Rightarrow> pyval \<Rightarrow> wire_error + identity" where
  "identity_from_wire E v =
    bindE (closed_object v ''identity'' identity_fields) (\<lambda>data.
    bindE (validated_bool (obj_get data ''execution_enabled'') ''identity.execution_enabled'') (\<lambda>execution_enabled.
    bindE (validated_name (obj_get data ''account_id'') ''identity.account_id'') (\<lambda>account_id.
    bindE (validated_text 128 (obj_get data ''broker_server'') ''identity.broker_server'') (\<lambda>broker_server.
    bindE (uint64_string True (obj_get data ''broker_login'') ''identity.broker_login'') (\<lambda>broker_login.
    bindE (validated_text 64 (obj_get data ''server_timezone'') ''identity.server_timezone'') (\<lambda>server_timezone.
    bindE (validated_name (obj_get data ''symbol'') ''identity.symbol'') (\<lambda>symbol.
    bindE (bounded_int 1 (2 ^ 31 - 1) (obj_get data ''terminal_build'') ''identity.terminal_build'') (\<lambda>terminal_build.
    bindE (validated_safe_token (obj_get data ''ea_build_id'') ''identity.ea_build_id'') (\<lambda>ea_build_id.
    bindE (validated_identifier 64 (obj_get data ''declared_source_sha256'') ''identity.declared_source_sha256'') (\<lambda>sha.
    bindE (validated_safe_token (obj_get data ''stream_id'') ''identity.stream_id'') (\<lambda>stream_id.
    bindE (validated_safe_token (obj_get data ''boot_id'') ''identity.boot_id'') (\<lambda>boot_id.
    bindE (uint64_string False (obj_get data ''magic'') ''identity.magic'') (\<lambda>magic.
    let i = \<lparr>id_account_id = account_id, id_broker_server = broker_server, id_broker_login = broker_login,
      id_server_timezone = server_timezone, id_server_timezone_source = obj_get data ''server_timezone_source'', id_symbol = symbol,
      id_terminal_build = terminal_build, id_ea_build_id = ea_build_id, id_declared_source_sha256 = sha, id_stream_id = stream_id,
      id_boot_id = boot_id, id_magic = magic, id_execution_enabled = execution_enabled\<rparr>
    in bindE (check_identity E i) (\<lambda>_. Inr i))))))))))))))"

definition binding_of :: "identity \<Rightarrow> binding" where
  "binding_of i = \<lparr>bd_account_id = id_account_id i, bd_symbol = id_symbol i, bd_ea_build_id = id_ea_build_id i,
     bd_stream_id = id_stream_id i, bd_boot_id = id_boot_id i\<rparr>"

definition identity_to_wire :: "identity \<Rightarrow> pyobj" where
  "identity_to_wire i = [(''account_id'', PStr (id_account_id i)), (''broker_login'', PStr (id_broker_login i)),
     (''broker_server'', PStr (id_broker_server i)), (''server_timezone'', PStr (id_server_timezone i)),
     (''server_timezone_source'', id_server_timezone_source i), (''boot_id'', PStr (id_boot_id i)),
     (''ea_build_id'', PStr (id_ea_build_id i)), (''declared_source_sha256'', PStr (id_declared_source_sha256 i)),
     (''execution_enabled'', PBool (id_execution_enabled i)), (''magic'', PStr (id_magic i)), (''stream_id'', PStr (id_stream_id i)),
     (''symbol'', PStr (id_symbol i)), (''terminal_build'', PInt (id_terminal_build i))]"

definition binding_from_wire :: "pyval \<Rightarrow> wire_error + binding" where
  "binding_from_wire v =
    bindE (closed_object v ''binding'' {''account_id'', ''symbol'', ''ea_build_id'', ''stream_id'', ''boot_id''}) (\<lambda>data.
    bindE (validated_name (obj_get data ''account_id'') ''binding.account_id'') (\<lambda>account_id.
    bindE (validated_name (obj_get data ''symbol'') ''binding.symbol'') (\<lambda>symbol.
    bindE (validated_safe_token (obj_get data ''ea_build_id'') ''binding.ea_build_id'') (\<lambda>ea_build_id.
    bindE (validated_safe_token (obj_get data ''stream_id'') ''binding.stream_id'') (\<lambda>stream_id.
    bindE (validated_safe_token (obj_get data ''boot_id'') ''binding.boot_id'') (\<lambda>boot_id.
    Inr \<lparr>bd_account_id = account_id, bd_symbol = symbol, bd_ea_build_id = ea_build_id, bd_stream_id = stream_id,
      bd_boot_id = boot_id\<rparr>))))))"

definition binding_to_wire :: "binding \<Rightarrow> pyobj" where
  "binding_to_wire b = [(''account_id'', PStr (bd_account_id b)), (''boot_id'', PStr (bd_boot_id b)),
     (''ea_build_id'', PStr (bd_ea_build_id b)), (''stream_id'', PStr (bd_stream_id b)), (''symbol'', PStr (bd_symbol b))]"

section \<open>Requests\<close>

datatype wire_request =
    HelloRequest string
  | SnapshotRequest string binding
  | SubmitMarketDeltaRequest string binding string string string
  | ClosePositionRequest string binding string string string string string
  | ExecutionEventsRequest string binding string int

fun request_id :: "wire_request \<Rightarrow> string" where
  "request_id (HelloRequest rid) = rid"
| "request_id (SnapshotRequest rid b) = rid"
| "request_id (SubmitMarketDeltaRequest rid b client side lots) = rid"
| "request_id (ClosePositionRequest rid b client side lots ticket position) = rid"
| "request_id (ExecutionEventsRequest rid b after limit) = rid"

fun request_op :: "wire_request \<Rightarrow> string" where
  "request_op (HelloRequest rid) = ''hello''"
| "request_op (SnapshotRequest rid b) = ''get_snapshot''"
| "request_op (SubmitMarketDeltaRequest rid b client side lots) = ''submit_market_delta''"
| "request_op (ClosePositionRequest rid b client side lots ticket position) = ''close_position''"
| "request_op (ExecutionEventsRequest rid b after limit) = ''get_execution_events''"

fun request_binding :: "wire_request \<Rightarrow> binding option" where
  "request_binding (HelloRequest rid) = None"
| "request_binding (SnapshotRequest rid b) = Some b"
| "request_binding (SubmitMarketDeltaRequest rid b client side lots) = Some b"
| "request_binding (ClosePositionRequest rid b client side lots ticket position) = Some b"
| "request_binding (ExecutionEventsRequest rid b after limit) = Some b"

definition validate_submission :: "string \<Rightarrow> string \<Rightarrow> string \<Rightarrow> wire_error + unit" where
  "validate_submission client side lots =
    bindE (validated_safe_token (PStr client) ''request.client_request_id'') (\<lambda>_.
    if side \<notin> {''buy'', ''sell''} then mismatch ''request side must be buy or sell''
    else bindE (decimal_string True (PStr lots) ''request.quantity_lots'') (\<lambda>_. Inr ()))"

definition validate_request :: "wire_request \<Rightarrow> wire_error + unit" where
  "validate_request r = bindE (validated_identifier 64 (PStr (request_id r)) ''request.request_id'') (\<lambda>_.
     case request_binding r of None \<Rightarrow> Inr ()
     | Some b \<Rightarrow> bindE (binding_from_wire (PObj (binding_to_wire b))) (\<lambda>_.
       (case r of
          SubmitMarketDeltaRequest rid b client side lots \<Rightarrow> validate_submission client side lots
        | ClosePositionRequest rid b client side lots ticket position \<Rightarrow>
            bindE (validate_submission client side lots) (\<lambda>_.
            bindE (uint64_string True (PStr ticket) ''request.position_ticket'') (\<lambda>_.
            bindE (uint64_string True (PStr position) ''request.position_identifier'') (\<lambda>_. Inr ())))
        | ExecutionEventsRequest rid b after limit \<Rightarrow>
            bindE (uint64_string False (PStr after) ''request.after_cursor'') (\<lambda>_.
            bindE (bounded_int 1 (int MAX_EVENTS_LIMIT) (PInt limit) ''request.limit'') (\<lambda>_. Inr ()))
        | _ \<Rightarrow> Inr ())))"

definition PROTOCOL :: string where "PROTOCOL = ''py000.mt5''"
definition VERSION :: int where "VERSION = 1"

definition submission_members :: "string \<Rightarrow> string \<Rightarrow> string \<Rightarrow> pyobj" where
  "submission_members client side lots = [(''client_request_id'', PStr client), (''quantity_lots'', PStr lots), (''side'', PStr side)]"

definition request_to_wire :: "wire_request \<Rightarrow> wire_error + pyobj" where
  "request_to_wire r = bindE (validate_request r) (\<lambda>_.
     let base = [(''op'', PStr (request_op r)), (''protocol'', PStr PROTOCOL), (''request_id'', PStr (request_id r)), (''version'', PInt VERSION)] in
     case request_binding r of None \<Rightarrow> Inr base
     | Some b \<Rightarrow> Inr (base @ (''binding'', PObj (binding_to_wire b)) # (case r of
          SubmitMarketDeltaRequest rid b client side lots \<Rightarrow> submission_members client side lots
        | ClosePositionRequest rid b client side lots ticket position \<Rightarrow> submission_members client side lots @
            [(''position_identifier'', PStr position), (''position_ticket'', PStr ticket)]
        | ExecutionEventsRequest rid b after limit \<Rightarrow> [(''after_cursor'', PStr after), (''limit'', PInt limit)]
        | _ \<Rightarrow> [])))"

end
