(* ===== verification/Mt5_Responses.thy ===== *)
theory Mt5_Responses
  imports Mt5_Wire
begin

text \<open>
  The second half of \<^verbatim>\<open>mt5_v1_protocol.py\<close>: what a response of the expert advisor must be, for a
  snapshot, for a page of execution events and for the outcome of an order, its binding to the request
  it answers, and the published ticks and heartbeats.
\<close>

section \<open>Snapshots\<close>

definition validated_recovery_state :: "pyval \<Rightarrow> string \<Rightarrow> wire_error + unit" where
  "validated_recovery_state v label = bindE (not_among v {''ready'', ''blocked''}) (\<lambda>bad.
     if bad then mismatch (label @ '' must be ready or blocked'') else Inr ())"

definition validate_account :: "pyval \<Rightarrow> wire_error + pyobj" where
  "validate_account v =
    bindE (closed_object v ''snapshot.account'' {''balance'', ''broker_login'', ''broker_server'', ''currency'', ''equity'', ''leverage'',
      ''margin'', ''margin_free'', ''margin_level'', ''trade_allowed'', ''trade_expert''}) (\<lambda>data.
    bindE (decimal_string False (obj_get data ''balance'') ''snapshot.account.balance'') (\<lambda>_.
    bindE (uint64_string True (obj_get data ''broker_login'') ''snapshot.account.broker_login'') (\<lambda>_.
    bindE (validated_text 128 (obj_get data ''broker_server'') ''snapshot.account.broker_server'') (\<lambda>_.
    bindE (validated_identifier 16 (obj_get data ''currency'') ''snapshot.account.currency'') (\<lambda>_.
    bindE (each_field (decimal_string False) [''equity'', ''margin'', ''margin_free'', ''margin_level''] ''snapshot.account.'' data) (\<lambda>_.
    bindE (bounded_int 1 (2 ^ 31 - 1) (obj_get data ''leverage'') ''snapshot.account.leverage'') (\<lambda>_.
    bindE (validated_bool (obj_get data ''trade_allowed'') ''snapshot.account.trade_allowed'') (\<lambda>_.
    bindE (validated_bool (obj_get data ''trade_expert'') ''snapshot.account.trade_expert'') (\<lambda>_. Inr data)))))))))"

definition validate_authority_flags :: "pyval \<Rightarrow> wire_error + pyobj" where
  "validate_authority_flags v =
    bindE (closed_object v ''snapshot.authority_flags'' {''account_trade_allowed'', ''account_trade_expert'', ''market_open_hint'',
      ''mql_trade_allowed'', ''symbol_trade_mode'', ''terminal_connected'', ''terminal_trade_allowed''}) (\<lambda>data.
    bindE (each_field validated_bool [''account_trade_allowed'', ''account_trade_expert'', ''market_open_hint'', ''mql_trade_allowed'',
      ''terminal_connected'', ''terminal_trade_allowed''] ''snapshot.authority_flags.'' data) (\<lambda>_.
    bindE (bounded_int 0 (2 ^ 31 - 1) (obj_get data ''symbol_trade_mode'') ''snapshot.authority_flags.symbol_trade_mode'') (\<lambda>_. Inr data)))"

definition symbol_decimals :: "string list" where
  "symbol_decimals = [''contract_size'', ''margin_initial'', ''margin_maintenance'', ''point'', ''swap_long'', ''swap_short'', ''tick_size'',
     ''tick_value'', ''tick_value_loss'', ''tick_value_profit'', ''volume_limit'', ''volume_max'', ''volume_min'', ''volume_step'']"

definition symbol_currencies :: "string list" where
  "symbol_currencies = [''currency_base'', ''currency_margin'', ''currency_profit'']"

definition symbol_modes :: "string list" where
  "symbol_modes = [''expiration_mode'', ''filling_mode'', ''freeze_level'', ''order_mode'', ''stops_level'', ''swap_mode'',
     ''trade_calc_mode'', ''trade_mode'']"

definition swap_rate :: "nat \<times> pyval \<Rightarrow> wire_error + unit" where
  "swap_rate = (\<lambda>(index, v). let label = ''snapshot.symbol_spec.swap_rates['' @ nat_digits index @ '']'' in
     bindE (decimal_string False v label) (\<lambda>rate.
     if decimal_value rate \<notin> {0, 1, 3} then mismatch (label @ '' must be 0, 1, or 3'') else Inr ()))"

definition validate_symbol_spec :: "pyval \<Rightarrow> wire_error + pyobj" where
  "validate_symbol_spec v =
    bindE (closed_object v ''snapshot.symbol_spec''
      (set symbol_decimals \<union> set symbol_currencies \<union> set symbol_modes \<union> {''digits'', ''symbol'', ''swap_rates''})) (\<lambda>data.
    bindE (each_field (decimal_string False) symbol_decimals ''snapshot.symbol_spec.'' data) (\<lambda>_.
    bindE (validated_name (obj_get data ''symbol'') ''snapshot.symbol_spec.symbol'') (\<lambda>_.
    bindE (each_field (validated_identifier 16) symbol_currencies ''snapshot.symbol_spec.'' data) (\<lambda>_.
    case obj_get data ''swap_rates'' of
      PList rates \<Rightarrow>
        if length rates \<noteq> 7 then mismatch ''snapshot.symbol_spec.swap_rates must be a seven-item array''
        else bindE (mapE swap_rate (enumerate 0 rates)) (\<lambda>_.
          bindE (bounded_int 0 16 (obj_get data ''digits'') ''snapshot.symbol_spec.digits'') (\<lambda>_.
          bindE (each_field (bounded_int 0 (2 ^ 31 - 1)) symbol_modes ''snapshot.symbol_spec.'' data) (\<lambda>_. Inr data)))
    | _ \<Rightarrow> mismatch ''snapshot.symbol_spec.swap_rates must be a seven-item array''))))"

text \<open>The digits after the last point.\<close>

definition fraction_digits :: "string \<Rightarrow> string" where
  "fraction_digits s = rev (takeWhile (\<lambda>c. c \<noteq> CHR ''.'') (rev s))"

definition validate_execution_limits :: "pyval \<Rightarrow> wire_error + unit" where
  "validate_execution_limits v =
    bindE (closed_object v ''snapshot.execution_limits'' {''max_order_lots''}) (\<lambda>data.
    bindE (decimal_string True (obj_get data ''max_order_lots'') ''snapshot.execution_limits.max_order_lots'') (\<lambda>lots.
    if CHR ''.'' \<in> set lots \<and> 8 < length (fraction_digits lots) then
      mismatch ''snapshot.execution_limits.max_order_lots exceeds 8 decimal places''
    else Inr ()))"

definition validate_position :: "pyval \<Rightarrow> wire_error + unit" where
  "validate_position v =
    bindE (closed_object v ''snapshot.position'' {''comment'', ''identifier'', ''magic'', ''price_current'', ''price_open'', ''profit'',
      ''side'', ''stop_loss'', ''swap'', ''take_profit'', ''ticket'', ''time_msc'', ''volume_lots''}) (\<lambda>data.
    bindE (validated_optional_text 128 (obj_get data ''comment'') ''snapshot.position.comment'') (\<lambda>_.
    bindE (uint64_string True (obj_get data ''identifier'') ''snapshot.position.identifier'') (\<lambda>_.
    bindE (uint64_string False (obj_get data ''magic'') ''snapshot.position.magic'') (\<lambda>_.
    bindE (uint64_string True (obj_get data ''ticket'') ''snapshot.position.ticket'') (\<lambda>_.
    bindE (uint64_string True (obj_get data ''time_msc'') ''snapshot.position.time_msc'') (\<lambda>_.
    bindE (each_field (decimal_string False) [''price_current'', ''price_open'', ''profit'', ''stop_loss'', ''swap'', ''take_profit'']
      ''snapshot.position.'' data) (\<lambda>_.
    bindE (decimal_string True (obj_get data ''volume_lots'') ''snapshot.position.volume_lots'') (\<lambda>_.
    bindE (not_among (obj_get data ''side'') {''buy'', ''sell''}) (\<lambda>bad.
    if bad then mismatch ''snapshot.position.side must be buy or sell'' else Inr ())))))))))"

definition validate_time_provenance :: "identity \<Rightarrow> pyval \<Rightarrow> wire_error + unit" where
  "validate_time_provenance i v =
    bindE (closed_object v ''snapshot.time'' {''observed_utc_ms'', ''observed_utc_precision_ms'', ''observed_utc_source'',
      ''server_quote_time_ms'', ''server_quote_time_source'', ''server_timezone''}) (\<lambda>data.
    bindE (uint64_string True (obj_get data ''observed_utc_ms'') ''snapshot.time.observed_utc_ms'') (\<lambda>_.
    if obj_get data ''observed_utc_precision_ms'' \<noteq> PStr ''1000'' then mismatch ''UTC observation precision mismatch''
    else if obj_get data ''observed_utc_source'' \<noteq> PStr ''mt5_time_gmt_second_precision'' then mismatch ''UTC observation source mismatch''
    else bindE (uint64_string True (obj_get data ''server_quote_time_ms'') ''snapshot.time.server_quote_time_ms'') (\<lambda>_.
      if obj_get data ''server_quote_time_source'' \<noteq> PStr ''mt5_time_current_last_known_quote'' then mismatch ''server quote time source mismatch''
      else if obj_get data ''server_timezone'' \<noteq> PStr (id_server_timezone i) then mismatch ''snapshot timezone differs from identity''
      else Inr ())))"

definition optional_uint64 :: "bool \<Rightarrow> pyval \<Rightarrow> string \<Rightarrow> wire_error + unit" where
  "optional_uint64 positive v label = (if v = PNone then Inr () else bindE (uint64_string positive v label) (\<lambda>_. Inr ()))"

definition validate_session :: "bool \<Rightarrow> pyval \<Rightarrow> wire_error + pyobj" where
  "validate_session terminal_connected v =
    bindE (closed_object v ''snapshot.session'' {''freshness'', ''freshness_age_ms'', ''freshness_source'', ''sample_server_time_ms'',
      ''sample_server_time_source'', ''scheduled_open'', ''session_schedule_available'', ''session_open'', ''session_source''}) (\<lambda>data.
    bindE (validated_bool (obj_get data ''session_open'') ''snapshot.session.session_open'') (\<lambda>session_open.
    bindE (validated_bool (obj_get data ''scheduled_open'') ''snapshot.session.scheduled_open'') (\<lambda>scheduled_open.
    bindE (validated_bool (obj_get data ''session_schedule_available'') ''snapshot.session.session_schedule_available'') (\<lambda>available.
    bindE (optional_uint64 True (obj_get data ''sample_server_time_ms'') ''snapshot.session.sample_server_time_ms'') (\<lambda>_.
    if obj_get data ''sample_server_time_source'' \<noteq> PStr ''mt5_time_trade_server_calculated_second_precision'' then
      mismatch ''session sample time source mismatch''
    else if obj_get data ''session_source'' \<noteq> PStr ''mt5_symbol_info_session_trade_at_time_trade_server'' then
      mismatch ''session source mismatch''
    else bindE (not_among (obj_get data ''freshness'') {''fresh'', ''stale'', ''unknown''}) (\<lambda>bad.
      if bad then mismatch ''session freshness mismatch''
      else bindE (optional_uint64 False (obj_get data ''freshness_age_ms'') ''snapshot.session.freshness_age_ms'') (\<lambda>_.
        if (obj_get data ''freshness'' = PStr ''unknown'') \<noteq> (obj_get data ''freshness_age_ms'' = PNone) then
          mismatch ''session freshness and age disagree''
        else if obj_get data ''freshness_source'' \<noteq> PStr ''mt5_symbol_info_tick_vs_time_trade_server'' then
          mismatch ''session freshness source mismatch''
        else if obj_get data ''sample_server_time_ms'' = PNone
            \<and> (obj_get data ''freshness'' \<noteq> PStr ''unknown'' \<or> available \<or> scheduled_open) then
          mismatch ''unknown session time cannot establish schedule''
        else if \<not> available \<and> scheduled_open then mismatch ''unavailable schedule cannot be open''
        else if session_open \<noteq> (scheduled_open \<and> terminal_connected \<and> obj_get data ''freshness'' = PStr ''fresh'') then
          mismatch ''session_open overstates current availability''
        else Inr data)))))))"

definition validate_snapshot_data :: "wire_env \<Rightarrow> pyval \<Rightarrow> wire_error + unit" where
  "validate_snapshot_data E v =
    bindE (closed_object v ''snapshot data'' {''account'', ''authority_flags'', ''execution_enabled'', ''execution_limits'', ''identity'',
      ''positions'', ''recovery_state'', ''session'', ''symbol_spec'', ''time''}) (\<lambda>data.
    bindE (identity_from_wire E (obj_get data ''identity'')) (\<lambda>i.
    bindE (validated_bool (obj_get data ''execution_enabled'') ''snapshot.execution_enabled'') (\<lambda>execution_enabled.
    if execution_enabled \<noteq> id_execution_enabled i then mismatch ''snapshot execution_enabled differs from identity''
    else bindE (validate_execution_limits (obj_get data ''execution_limits'')) (\<lambda>_.
      bindE (validated_recovery_state (obj_get data ''recovery_state'') ''snapshot.recovery_state'') (\<lambda>_.
      bindE (validate_time_provenance i (obj_get data ''time'')) (\<lambda>_.
      bindE (validate_authority_flags (obj_get data ''authority_flags'')) (\<lambda>flags.
      bindE (validate_session (obj_get flags ''terminal_connected'' = PBool True) (obj_get data ''session'')) (\<lambda>_.
      bindE (validate_account (obj_get data ''account'')) (\<lambda>account.
      if obj_get account ''broker_login'' \<noteq> PStr (id_broker_login i) then mismatch ''snapshot account login differs from identity''
      else if obj_get account ''broker_server'' \<noteq> PStr (id_broker_server i) then mismatch ''snapshot account server differs from identity''
      else bindE (validate_symbol_spec (obj_get data ''symbol_spec'')) (\<lambda>spec.
        if obj_get spec ''symbol'' \<noteq> PStr (id_symbol i) then mismatch ''snapshot symbol differs from identity''
        else case obj_get data ''positions'' of
          PList positions \<Rightarrow> bindE (mapE validate_position positions) (\<lambda>_. Inr ())
        | _ \<Rightarrow> mismatch ''snapshot.positions must be an array''))))))))))"

section \<open>Execution events\<close>

definition close_target :: "string set" where
  "close_target = {''position_identifier'', ''position_ticket''}"

definition validate_submission_payload :: "string \<Rightarrow> pyval \<Rightarrow> wire_error + pyobj" where
  "validate_submission_payload event_type v = (case v of
     PObj d \<Rightarrow>
       let supplied_target = close_target \<inter> dict_keys d in
       if supplied_target \<noteq> {} \<and> supplied_target \<noteq> close_target then
         mismatch (event_type @ '' payload must carry both close target fields'')
       else let target_keys = (if supplied_target \<noteq> {} then close_target else {});
           refused = event_type \<in> {''order_rejected'', ''order_unknown''};
           names = {''client_request_id'', ''side'', ''quantity_lots''} \<union> target_keys \<union>
             (if event_type = ''submission_reserved'' then {}
              else if refused then {''reason'', ''broker_retcode''}
              else {''broker_retcode'', ''commission'', ''fill_price'', ''filled_quantity_lots'', ''venue_deal_id'', ''venue_order_id'',
                ''venue_position_id''})
         in bindE (closed_object v (event_type @ '' payload'') names) (\<lambda>payload.
         bindE (validated_safe_token (obj_get payload ''client_request_id'') ''event.payload.client_request_id'') (\<lambda>_.
         if obj_get payload ''side'' \<notin> {PStr ''buy'', PStr ''sell''} then mismatch ''event.payload.side must be buy or sell''
         else bindE (decimal_string True (obj_get payload ''quantity_lots'') ''event.payload.quantity_lots'') (\<lambda>_.
           bindE (if target_keys = {} then Inr () else
             each_field (uint64_string True) [''position_identifier'', ''position_ticket''] ''event.payload.'' payload) (\<lambda>_.
           if refused then
             bindE (validated_safe_token (obj_get payload ''reason'') ''event.payload.reason'') (\<lambda>_.
             bindE (uint64_string False (obj_get payload ''broker_retcode'') ''event.payload.broker_retcode'') (\<lambda>_. Inr payload))
           else if event_type = ''order_filled'' then
             bindE (decimal_string True (obj_get payload ''filled_quantity_lots'') ''event.payload.filled_quantity_lots'') (\<lambda>_.
             bindE (decimal_string True (obj_get payload ''fill_price'') ''event.payload.fill_price'') (\<lambda>_.
             bindE (decimal_string False (obj_get payload ''commission'') ''event.payload.commission'') (\<lambda>_.
             bindE (each_field (uint64_string True) [''venue_order_id'', ''venue_deal_id'', ''venue_position_id''] ''event.payload.'' payload) (\<lambda>_.
             bindE (uint64_string False (obj_get payload ''broker_retcode'') ''event.payload.broker_retcode'') (\<lambda>_.
             if target_keys \<noteq> {} \<and> obj_get payload ''venue_position_id'' \<noteq> obj_get payload ''position_identifier'' then
               mismatch ''close fill venue_position_id differs from position_identifier''
             else Inr payload)))))
           else Inr payload))))
   | _ \<Rightarrow> mismatch (event_type @ '' payload must be an object''))"

definition event_fields :: "string set" where
  "event_fields = {''event_seq'', ''event_time_ms'', ''event_type'', ''stream_id'', ''boot_id'', ''payload''}"

definition event_types :: "string set" where
  "event_types = {''stream_started'', ''submission_reserved'', ''order_rejected'', ''order_filled'', ''order_unknown''}"

text \<open>The event's sequence number and type.\<close>

definition validate_event :: "string \<Rightarrow> pyval \<Rightarrow> wire_error + string \<times> string" where
  "validate_event stream v =
    bindE (closed_object v ''execution event'' event_fields) (\<lambda>data.
    bindE (uint64_string True (obj_get data ''event_seq'') ''event.event_seq'') (\<lambda>seq.
    bindE (uint64_string True (obj_get data ''event_time_ms'') ''event.event_time_ms'') (\<lambda>_.
    bindE (validated_safe_token (obj_get data ''boot_id'') ''event.boot_id'') (\<lambda>_.
    bindE (validated_safe_token (obj_get data ''event_type'') ''event.event_type'') (\<lambda>event_type.
    if event_type \<notin> event_types then mismatch ''v1 event_type is unsupported''
    else if obj_get data ''stream_id'' \<noteq> PStr stream then mismatch ''event stream_id differs from page''
    else bindE (if event_type = ''stream_started'' then
          bindE (closed_object (obj_get data ''payload'') ''stream_started payload'' {''ea_build_id'', ''execution_enabled''}) (\<lambda>payload.
          bindE (validated_safe_token (obj_get payload ''ea_build_id'') ''event.payload.ea_build_id'') (\<lambda>_.
          bindE (validated_bool (obj_get payload ''execution_enabled'') ''event.payload.execution_enabled'') (\<lambda>_. Inr ())))
        else bindE (validate_submission_payload event_type (obj_get data ''payload'')) (\<lambda>_. Inr ())) (\<lambda>_.
      Inr (seq, event_type)))))))"

fun contiguous :: "int list \<Rightarrow> bool" where
  "contiguous (left # right # rest) \<longleftrightarrow> right = left + 1 \<and> contiguous (right # rest)"
| "contiguous _ \<longleftrightarrow> True"

definition value_obj :: "pyval \<Rightarrow> pyobj" where
  "value_obj v = (case v of PObj d \<Rightarrow> d | _ \<Rightarrow> [])"

definition validate_events_data :: "wire_env \<Rightarrow> pyval \<Rightarrow> wire_error + unit" where
  "validate_events_data E v =
    bindE (closed_object v ''events data'' {''events'', ''first_retained_cursor'', ''has_more'', ''identity'', ''last_cursor'',
      ''next_cursor'', ''stream_id''}) (\<lambda>data.
    bindE (identity_from_wire E (obj_get data ''identity'')) (\<lambda>i.
    bindE (validated_safe_token (obj_get data ''stream_id'') ''events.stream_id'') (\<lambda>stream.
    if stream \<noteq> id_stream_id i then mismatch ''event page stream differs from identity''
    else bindE (uint64_string False (obj_get data ''first_retained_cursor'') ''first_retained_cursor'') (\<lambda>first.
      bindE (uint64_string False (obj_get data ''last_cursor'') ''last_cursor'') (\<lambda>final.
      bindE (uint64_string False (obj_get data ''next_cursor'') ''next_cursor'') (\<lambda>cursor.
      if \<not> (parse_nat first \<le> parse_nat cursor \<and> parse_nat cursor \<le> parse_nat final) then mismatch ''event page cursors are not ordered''
      else bindE (validated_bool (obj_get data ''has_more'') ''events.has_more'') (\<lambda>has_more.
        if has_more \<noteq> (parse_nat cursor < parse_nat final) then mismatch ''events.has_more differs from cursors''
        else case obj_get data ''events'' of
          PList events \<Rightarrow>
            if MAX_EVENTS_LIMIT < length events then mismatch ''events must be a bounded array''
            else bindE (mapE (validate_event stream) events) (\<lambda>validated.
              let sequences = map (\<lambda>(seq, _). parse_nat seq) validated;
                  boots = map (\<lambda>(event, _). obj_get (value_obj event) ''boot_id'')
                    (filter (\<lambda>(_, _, event_type). event_type = ''stream_started'') (zip events validated))
              in if \<not> distinct boots then mismatch ''event page repeats a stream_started boot_id''
              else if \<not> contiguous sequences then mismatch ''event page sequence is not contiguous''
              else if sequences \<noteq> [] \<and> last sequences \<noteq> parse_nat cursor then mismatch ''next_cursor differs from final event''
              else if sequences = [] \<and> has_more then mismatch ''empty event page cannot have_more''
              else Inr ())
        | _ \<Rightarrow> mismatch ''events must be a bounded array'')))))))"

section \<open>Responses\<close>

definition CAPABILITIES :: "string list" where
  "CAPABILITIES = [''close_position'', ''get_execution_events'', ''get_snapshot'', ''hello'', ''submit_market_delta'']"

definition terminal_types :: "string set" where
  "terminal_types = {''order_rejected'', ''order_filled'', ''order_unknown''}"

definition validate_success_data :: "wire_env \<Rightarrow> string \<Rightarrow> pyval \<Rightarrow> wire_error + unit" where
  "validate_success_data E op v =
    (if op \<notin> set CAPABILITIES then mismatch ''successful response op is unknown''
     else if op = ''hello'' then
       bindE (closed_object v ''hello data'' {''capabilities'', ''identity'', ''recovery_state''}) (\<lambda>data.
       if obj_get data ''capabilities'' \<noteq> PList (map PStr CAPABILITIES) then mismatch ''hello capabilities mismatch''
       else bindE (identity_from_wire E (obj_get data ''identity'')) (\<lambda>_.
         validated_recovery_state (obj_get data ''recovery_state'') ''hello.recovery_state''))
     else if op = ''get_snapshot'' then validate_snapshot_data E v
     else if op = ''get_execution_events'' then validate_events_data E v
     else bindE (closed_object v ''submit data'' {''identity'', ''outcome''}) (\<lambda>data.
       bindE (identity_from_wire E (obj_get data ''identity'')) (\<lambda>i.
       bindE (closed_object (obj_get data ''outcome'') ''submit outcome'' event_fields) (\<lambda>outcome.
       bindE (validate_event (id_stream_id i) (PObj outcome)) (\<lambda>(_, event_type).
       if event_type \<notin> terminal_types then mismatch ''submit outcome must be a terminal execution event'' else Inr ())))))"

definition response_members :: "string set" where
  "response_members = {''protocol'', ''version'', ''request_id'', ''op'', ''ok''}"

definition validate_error :: "string \<Rightarrow> pyval \<Rightarrow> wire_error + unit" where
  "validate_error op v = bindE (closed_object v ''error'' {''code'', ''message''}) (\<lambda>error.
     bindE (validated_identifier 64 (obj_get error ''code'') ''error.code'') (\<lambda>code.
     if code \<notin> ERROR_CODES then mismatch ''unknown response error code''
     else if code = ''SNAPSHOT_UNAVAILABLE'' \<and> op \<noteq> ''get_snapshot'' then mismatch ''SNAPSHOT_UNAVAILABLE requires get_snapshot''
     else bindE (validated_text MAX_TEXT_LENGTH (obj_get error ''message'') ''error.message'') (\<lambda>_. Inr ())))"

definition decode_response :: "wire_env \<Rightarrow> string \<Rightarrow> wire_error + pyobj" where
  "decode_response E raw =
    bindE (decode_json_object E raw) (\<lambda>data.
    if obj_get data ''protocol'' \<noteq> PStr PROTOCOL then mismatch ''response protocol mismatch''
    else if obj_get data ''version'' \<noteq> PInt VERSION then mismatch ''response version mismatch''
    else bindE (validated_identifier 64 (obj_get data ''request_id'') ''response.request_id'') (\<lambda>_.
      bindE (validated_identifier 64 (obj_get data ''op'') ''response.op'') (\<lambda>op.
      case obj_get data ''ok'' of
        PBool ok \<Rightarrow>
          if ok then bindE (closed_object (PObj data) ''success response'' (insert ''data'' response_members)) (\<lambda>_.
            bindE (validate_success_data E op (obj_get data ''data'')) (\<lambda>_. Inr data))
          else bindE (closed_object (PObj data) ''error response'' (insert ''error'' response_members)) (\<lambda>_.
            bindE (validate_error op (obj_get data ''error'')) (\<lambda>_. Inr data))
      | _ \<Rightarrow> mismatch ''response ok must be bool'')))"

text \<open>The outcome must be about the very order that was requested.\<close>

definition outcome_of :: "pyobj \<Rightarrow> pyobj" where
  "outcome_of data = value_obj (obj_get data ''outcome'')"

definition outcome_matches :: "wire_request \<Rightarrow> pyobj \<Rightarrow> wire_error + unit" where
  "outcome_matches r data =
    (let outcome = outcome_of data; payload = value_obj (obj_get outcome ''payload'') in
     case r of
       SubmitMarketDeltaRequest rid b client side lots \<Rightarrow>
         if ''position_identifier'' \<in> dict_keys payload \<or> ''position_ticket'' \<in> dict_keys payload then
           unbound ''market delta outcome contains a close target''
         else if list_ex (\<lambda>(name, v). obj_get payload name \<noteq> v) (submission_members client side lots) then
           unbound ''submit outcome differs from request''
         else Inr ()
     | ClosePositionRequest rid b client side lots ticket position \<Rightarrow>
         if ''position_identifier'' \<notin> dict_keys payload \<or> ''position_ticket'' \<notin> dict_keys payload then
           unbound ''close outcome omits its target position''
         else if obj_get outcome ''event_type'' = PStr ''order_filled'' \<and> obj_get payload ''venue_position_id'' \<noteq> PStr position then
           unbound ''close fill differs from its target position''
         else if list_ex (\<lambda>(name, v). obj_get payload name \<noteq> v) (submission_members client side lots @
             [(''position_identifier'', PStr position), (''position_ticket'', PStr ticket)]) then
           unbound ''submit outcome differs from request''
         else Inr ()
     | _ \<Rightarrow> Inr ())"

text \<open>The number a validated member holds.\<close>

definition number_of :: "pyval \<Rightarrow> int" where
  "number_of v = (case v of PStr s \<Rightarrow> parse_nat s | _ \<Rightarrow> 0)"

definition events_of :: "pyobj \<Rightarrow> pyval list" where
  "events_of data = (case obj_get data ''events'' of PList events \<Rightarrow> events | _ \<Rightarrow> [])"

definition page_follows :: "string \<Rightarrow> int \<Rightarrow> pyobj \<Rightarrow> wire_error + unit" where
  "page_follows after limit data =
    (let events = events_of data; after = parse_nat after; cursor = number_of (obj_get data ''next_cursor'') in
     if limit < int (length events) then mismatch ''event page exceeds requested limit''
     else if \<not> (number_of (obj_get data ''first_retained_cursor'') \<le> after \<and> after \<le> number_of (obj_get data ''last_cursor'')) then
       mismatch ''event page does not contain after_cursor''
     else if events \<noteq> [] \<and> number_of (obj_get (value_obj (hd events)) ''event_seq'') \<noteq> after + 1 then
       mismatch ''first event does not follow after_cursor''
     else if events = [] \<and> cursor \<noteq> after then mismatch ''empty page advanced its cursor''
     else if obj_get data ''has_more'' = PBool True \<and> (events = [] \<or> cursor \<le> after) then
       mismatch ''event page cannot make forward progress''
     else Inr ())"

definition decode_response_for :: "wire_env \<Rightarrow> wire_request \<Rightarrow> string \<Rightarrow> wire_error + pyobj" where
  "decode_response_for E r raw =
    bindE (validate_request r) (\<lambda>_.
    bindE (decode_response E raw) (\<lambda>response.
    if obj_get response ''request_id'' \<noteq> PStr (request_id r) \<or> obj_get response ''op'' \<noteq> PStr (request_op r) then
      unbound ''response envelope differs from request''
    else if obj_get response ''ok'' \<noteq> PBool True then Inr response
    else case request_binding r of None \<Rightarrow> Inr response
    | Some b \<Rightarrow>
        let data = value_obj (obj_get response ''data'') in
        bindE (identity_from_wire E (obj_get data ''identity'')) (\<lambda>i.
        if binding_of i \<noteq> b then unbound ''response identity differs from request binding''
        else bindE (case r of
            ExecutionEventsRequest rid b after limit \<Rightarrow> page_follows after limit data
          | _ \<Rightarrow> outcome_matches r data) (\<lambda>_. Inr response))))"

section \<open>Published messages\<close>

definition pub_members :: "string set" where
  "pub_members = {''protocol'', ''version'', ''message_type'', ''event_time_ms'', ''event_time_source'', ''identity'', ''market_open_hint''}"

definition decode_pub :: "wire_env \<Rightarrow> string \<Rightarrow> wire_error + pyobj" where
  "decode_pub E raw =
    bindE (decode_json_object E raw) (\<lambda>data.
    if obj_get data ''protocol'' \<noteq> PStr PROTOCOL then mismatch ''PUB protocol mismatch''
    else if obj_get data ''version'' \<noteq> PInt VERSION then mismatch ''PUB version mismatch''
    else bindE (identity_from_wire E (obj_get data ''identity'')) (\<lambda>_.
      bindE (uint64_string True (obj_get data ''event_time_ms'') ''PUB event_time_ms'') (\<lambda>_.
      bindE (validated_bool (obj_get data ''market_open_hint'') ''PUB market_open_hint'') (\<lambda>_.
      if obj_get data ''message_type'' = PStr ''tick'' then
        bindE (closed_object (PObj data) ''tick PUB'' (pub_members \<union> {''bid'', ''ask''})) (\<lambda>_.
        if obj_get data ''event_time_source'' \<noteq> PStr ''mt5_symbol_info_tick'' then mismatch ''tick time source mismatch''
        else bindE (decimal_string True (obj_get data ''bid'') ''tick.bid'') (\<lambda>bid.
          bindE (decimal_string True (obj_get data ''ask'') ''tick.ask'') (\<lambda>ask.
          if decimal_value ask < decimal_value bid then mismatch ''tick bid exceeds ask'' else Inr data)))
      else if obj_get data ''message_type'' = PStr ''heartbeat'' then
        bindE (closed_object (PObj data) ''heartbeat PUB'' (pub_members \<union> {''last_tick_time_ms''})) (\<lambda>_.
        if obj_get data ''event_time_source'' \<noteq> PStr ''mt5_time_gmt_second_precision'' then mismatch ''heartbeat time source mismatch''
        else bindE (optional_uint64 True (obj_get data ''last_tick_time_ms'') ''heartbeat.last_tick_time_ms'') (\<lambda>_. Inr data))
      else mismatch ''PUB message_type mismatch''))))"

end
