(* ===== verification/Mt5_Client.thy ===== *)
theory Mt5_Client
  imports Mt5_Responses "HOL-Library.AList_Mapping"
begin

text \<open>
  The state of the MT5 execution client (\<^verbatim>\<open>mt5_v1_execution.py\<close>), the projection of its journal, and
  the steps that read and apply one journal event, one account snapshot, one order.

  The transport is a parameter: any function of the number of the call and the call. The client's
  lock makes submissions and polls whole, so each is one step. A validated event is kept with its
  members; its payload is the finite map of its members, since Python compares dictionaries that way.
  What the client hands to the platform is appended to \<open>mc_out\<close>, what it asks of the transport to
  \<open>mc_calls\<close>.
\<close>

section \<open>Errors\<close>

text \<open>\<open>BudgetTimeout\<close> is the \<^verbatim>\<open>TimeoutError\<close> of a pagination's time budget.\<close>

datatype mt5_error =
    ExecutionError string
  | RequestTimeout string
  | RemoteError string string
  | TransportError string
  | BudgetTimeout
  | Cancelled
  | OtherError string string

fun error_name :: "mt5_error \<Rightarrow> string" where
  "error_name (ExecutionError m) = ''Mt5V1ExecutionError''"
| "error_name (RequestTimeout m) = ''Mt5V1RequestTimeout''"
| "error_name (RemoteError code m) = ''Mt5V1RemoteError''"
| "error_name (TransportError m) = ''Mt5V1TransportError''"
| "error_name BudgetTimeout = ''TimeoutError''"
| "error_name Cancelled = ''CancelledError''"
| "error_name (OtherError name m) = name"

fun error_text :: "mt5_error \<Rightarrow> string" where
  "error_text (ExecutionError m) = m"
| "error_text (RequestTimeout m) = m"
| "error_text (RemoteError code m) = code @ '': '' @ m"
| "error_text (TransportError m) = m"
| "error_text BudgetTimeout = ''''"
| "error_text Cancelled = ''''"
| "error_text (OtherError name m) = m"

definition failure_text :: "mt5_error \<Rightarrow> string" where
  "failure_text e = take 300 (error_name e @ '': '' @ error_text e)"

definition is_transport_error :: "mt5_error \<Rightarrow> bool" where
  "is_transport_error e = (case e of RequestTimeout _ \<Rightarrow> True | RemoteError _ _ \<Rightarrow> True | TransportError _ \<Rightarrow> True | _ \<Rightarrow> False)"

fun join_text :: "string \<Rightarrow> string list \<Rightarrow> string" where
  "join_text sep [] = []"
| "join_text sep [x] = x"
| "join_text sep (x # xs) = x @ sep @ join_text sep xs"

section \<open>Events\<close>

type_synonym payload = "(string, pyval) mapping"

record exec_event =
  ev_seq :: string
  ev_time_ms :: string
  ev_type :: string
  ev_stream_id :: string
  ev_boot_id :: string
  ev_payload :: payload

definition text_value :: "pyval \<Rightarrow> string" where
  "text_value v = (case v of PStr s \<Rightarrow> s | _ \<Rightarrow> [])"

definition event_of :: "pyval \<Rightarrow> exec_event" where
  "event_of v = (let d = value_obj v in
     \<lparr>ev_seq = text_value (obj_get d ''event_seq''), ev_time_ms = text_value (obj_get d ''event_time_ms''),
      ev_type = text_value (obj_get d ''event_type''), ev_stream_id = text_value (obj_get d ''stream_id''),
      ev_boot_id = text_value (obj_get d ''boot_id''), ev_payload = Mapping (value_obj (obj_get d ''payload''))\<rparr>)"

definition field :: "payload \<Rightarrow> string \<Rightarrow> string" where
  "field p name = (case Mapping.lookup p name of Some v \<Rightarrow> text_value v | None \<Rightarrow> [])"

definition event_number :: "exec_event \<Rightarrow> int" where
  "event_number event = parse_nat (ev_seq event)"

definition event_request :: "exec_event \<Rightarrow> string" where
  "event_request event = field (ev_payload event) ''client_request_id''"

definition submission_signature :: "payload \<Rightarrow> pyval option \<times> pyval option \<times> pyval option \<times> pyval option" where
  "submission_signature p = (Mapping.lookup p ''side'', Mapping.lookup p ''quantity_lots'', Mapping.lookup p ''position_ticket'',
     Mapping.lookup p ''position_identifier'')"

definition validate_close_fill_target :: "string \<Rightarrow> payload \<Rightarrow> payload \<Rightarrow> mt5_error + unit" where
  "validate_close_fill_target event_type reservation terminal =
    (if event_type = ''order_filled'' \<and> Mapping.lookup reservation ''position_identifier'' \<noteq> None
        \<and> Mapping.lookup terminal ''venue_position_id'' \<noteq> Mapping.lookup reservation ''position_identifier'' then
       Inl (ExecutionError ''MT5 close fill does not match reserved target position'')
     else Inr ())"

section \<open>The projection of a journal\<close>

record journal =
  jn_reservations :: "(string \<times> exec_event) list"
  jn_terminals :: "(string \<times> exec_event) list"

definition unknown_requests :: "journal \<Rightarrow> string list" where
  "unknown_requests j = sort (map fst (filter (\<lambda>(_, event). ev_type event = ''order_unknown'') (jn_terminals j)))"

definition dangling_requests :: "journal \<Rightarrow> string list" where
  "dangling_requests j = sort (filter (\<lambda>r. r \<notin> dict_keys (jn_terminals j)) (map fst (jn_reservations j)))"

definition reserved_payload :: "journal \<Rightarrow> string \<Rightarrow> payload" where
  "reserved_payload j r = (case dict_get (jn_reservations j) r of Some event \<Rightarrow> ev_payload event | None \<Rightarrow> Mapping.empty)"

definition mismatched_fills :: "journal \<Rightarrow> string list" where
  "mismatched_fills j = sort (map fst (filter (\<lambda>(r, event). ev_type event = ''order_filled''
     \<and> decimal_value (field (ev_payload event) ''filled_quantity_lots'') \<noteq> decimal_value (field (reserved_payload j r) ''quantity_lots''))
     (jn_terminals j)))"

definition hold_reason :: "journal \<Rightarrow> string option" where
  "hold_reason j =
    (if unknown_requests j \<noteq> [] then Some (''journal contains UNKNOWN request(s): '' @ join_text '', '' (unknown_requests j))
     else if dangling_requests j \<noteq> [] then Some (''journal contains dangling reservation(s): '' @ join_text '', '' (dangling_requests j))
     else if mismatched_fills j \<noteq> [] then Some (''journal contains mismatched FOK fill(s): '' @ join_text '', '' (mismatched_fills j))
     else None)"

text \<open>The two steps on the journal, as \<^verbatim>\<open>_record_reservation\<close>, \<^verbatim>\<open>_record_terminal\<close> and the loop have them alike.\<close>

definition add_reservation :: "exec_event \<Rightarrow> journal \<Rightarrow> mt5_error + journal" where
  "add_reservation event j = (let r = event_request event in
     if r \<in> dict_keys (jn_reservations j) \<or> r \<in> dict_keys (jn_terminals j) then
       Inl (ExecutionError ''execution journal repeats a request reservation'')
     else Inr (j\<lparr>jn_reservations := dict_set r event (jn_reservations j)\<rparr>))"

definition add_terminal :: "exec_event \<Rightarrow> journal \<Rightarrow> mt5_error + journal" where
  "add_terminal event j = (let r = event_request event in
     case dict_get (jn_reservations j) r of
       None \<Rightarrow> Inl (ExecutionError ''terminal execution event has no reservation'')
     | Some reservation \<Rightarrow>
         if r \<in> dict_keys (jn_terminals j) then Inl (ExecutionError ''execution journal repeats a terminal outcome'')
         else if ev_boot_id reservation \<noteq> ev_boot_id event then Inl (ExecutionError ''terminal execution event changed EA boot'')
         else if submission_signature (ev_payload event) \<noteq> submission_signature (ev_payload reservation) then
           Inl (ExecutionError ''terminal execution payload differs from its reservation'')
         else bindE (validate_close_fill_target (ev_type event) (ev_payload reservation) (ev_payload event)) (\<lambda>_.
           Inr (j\<lparr>jn_terminals := dict_set r event (jn_terminals j)\<rparr>)))"

definition unsupported_event :: "exec_event \<Rightarrow> mt5_error" where
  "unsupported_event event = ExecutionError (''unsupported execution event '' @ [CHR 0x27] @ ev_type event @ [CHR 0x27])"

record projecting =
  pj_journal :: journal
  pj_boots :: "string set"
  pj_active :: "string option"

definition project_event :: "exec_event \<Rightarrow> projecting \<Rightarrow> mt5_error + projecting" where
  "project_event event P =
    (if ev_type event = ''stream_started'' then
       if ev_boot_id event \<in> pj_boots P then Inl (ExecutionError ''execution journal repeats a boot ID'')
       else Inr (P\<lparr>pj_boots := insert (ev_boot_id event) (pj_boots P), pj_active := Some (ev_boot_id event)\<rparr>)
     else if Some (ev_boot_id event) \<noteq> pj_active P then Inl (ExecutionError ''execution event belongs to an inactive EA boot'')
     else if ev_type event = ''submission_reserved'' then
       bindE (add_reservation event (pj_journal P)) (\<lambda>j. Inr (P\<lparr>pj_journal := j\<rparr>))
     else if ev_type event \<notin> terminal_types then
       Inl (unsupported_event event)
     else bindE (add_terminal event (pj_journal P)) (\<lambda>j. Inr (P\<lparr>pj_journal := j\<rparr>)))"

definition no_journal :: journal where
  "no_journal = \<lparr>jn_reservations = [], jn_terminals = []\<rparr>"

definition project_journal :: "string \<Rightarrow> exec_event list \<Rightarrow> mt5_error + journal" where
  "project_journal current_boot_id events = (case events of
     [] \<Rightarrow> Inl (ExecutionError ''execution journal does not begin with stream_started'')
   | first # _ \<Rightarrow>
       if ev_type first \<noteq> ''stream_started'' then Inl (ExecutionError ''execution journal does not begin with stream_started'')
       else bindE (foldE project_event events \<lparr>pj_journal = no_journal, pj_boots = {}, pj_active = None\<rparr>) (\<lambda>P.
         if pj_active P \<noteq> None \<and> pj_active P \<noteq> Some current_boot_id then
           Inl (ExecutionError ''execution journal does not end at the current EA boot'')
         else Inr (pj_journal P)))"

section \<open>Exact lots\<close>

text \<open>\<^verbatim>\<open>x % y\<close> for a nonzero divisor; the quotient may not need more than 28 digits.\<close>

definition dmod :: "rat \<Rightarrow> rat \<Rightarrow> mt5_error + rat" where
  "dmod x y = (case dfloordiv x y of
     None \<Rightarrow> Inl (OtherError ''DivisionImpossible'' '''')
   | Some t \<Rightarrow> Inr (rnd28 (x - y * of_int t)))"

definition quantity_to_lots :: "rat \<Rightarrow> rat \<Rightarrow> rat \<Rightarrow> rat \<Rightarrow> rat \<Rightarrow> mt5_error + rat" where
  "quantity_to_lots quantity lot_size volume_min volume_max volume_step =
    (if min quantity (min lot_size (min volume_min (min volume_max volume_step))) \<le> 0 then
       Inl (ExecutionError ''quantity and MT5 volume constraints must be positive'')
     else let lots = dquot quantity lot_size in
       if lots < volume_min \<or> volume_max < lots then
         Inl (ExecutionError ''canonical quantity is not an exact permitted MT5 lot size'')
       else bindE (dmod lots volume_step) (\<lambda>rest.
         if rest \<noteq> 0 then Inl (ExecutionError ''canonical quantity is not an exact permitted MT5 lot size'') else Inr lots))"

section \<open>The client\<close>

record mt5_order =
  mo_client_order_id :: string
  mo_instrument_id :: string
  mo_buy :: bool
  mo_quantity :: rat
  mo_market :: bool
  mo_fill_or_kill :: bool
  mo_reduce_only :: bool
  mo_quote_quantity :: bool
  mo_exec_algorithm :: bool

definition wire_side :: "mt5_order \<Rightarrow> string" where
  "wire_side order = (if mo_buy order then ''buy'' else ''sell'')"

record submit_command =
  sc_order :: mt5_order
  sc_position_id :: "string option"
  sc_params :: pyobj

record pending =
  pe_order :: mt5_order
  pe_lots :: rat
  pe_lot_size :: rat
  pe_ticket :: "string option"
  pe_position :: "string option"
  pe_unknown :: bool
  pe_accepted :: bool

datatype mt5_call =
    OpenCall
  | CloseCall
  | HelloCall
  | SnapshotCall binding
  | EventsCall binding string int
  | DeltaCall binding string string string
  | ClosePositionCall binding string string string string string

datatype mt5_output =
    OrderDenied string string
  | OrderSubmitted string
  | OrderAccepted string string int
  | OrderRejected string string int
  | OrderFilled string string string string bool rat rat rat int
  | AccountPublished int bool rat nat

record mt5_config =
  xc_instrument_id :: string
  xc_account_id :: string
  xc_symbol :: string
  xc_magic :: string
  xc_ea_build_id :: string
  xc_source_sha256 :: string
  xc_max_order_lots :: rat
  xc_stream_id :: string
  xc_server_timezone :: string
  xc_refresh_interval_ms :: int
  xc_page_limit :: int
  xc_max_pages :: nat

text \<open>
  The world around the client: its configuration, the transport, the instrument (its lot size) and the
  platform's factories of quantities, prices and commissions, which may refuse, and its check of a balance.
\<close>

record mt5_world =
  xw_env :: wire_env
  xw_config :: mt5_config
  xw_transport :: "nat \<Rightarrow> mt5_call \<Rightarrow> mt5_error + pyobj"
  xw_lot_size :: "rat option"
  xw_make_qty :: "rat \<Rightarrow> rat option"
  xw_make_price :: "rat \<Rightarrow> rat option"
  xw_commission :: "rat \<Rightarrow> rat option"
  xw_balance_ok :: "rat \<Rightarrow> rat \<Rightarrow> rat \<Rightarrow> bool"

definition made :: "rat option \<Rightarrow> mt5_error + rat" where
  "made r = (case r of None \<Rightarrow> Inl (OtherError ''ValueError'' '''') | Some x \<Rightarrow> Inr x)"

text \<open>The clocks: nanoseconds since the epoch and the seconds of the event loop.\<close>

record mt5_clock =
  xk_now_ns :: int
  xk_loop_time :: rat

record mt5_client =
  mc_identity :: "identity option"
  mc_bound_stream_id :: "string option"
  mc_snapshot :: "pyobj option"
  mc_refresh_healthy :: bool
  mc_sample_observed_ns :: "int option"
  mc_sample_last_valid_ns :: "int option"
  mc_sample_valid :: bool
  mc_cursor :: string
  mc_pending :: "(string \<times> pending) list"
  mc_seen :: "string set"
  mc_journal :: journal
  mc_recovery :: "string option"
  mc_foreign :: "string list"
  mc_spec :: "pyval list option"
  mc_next_refresh :: "rat option"
  mc_hold :: "string option"
  mc_running :: bool
  mc_connected :: bool
  mc_last_failure :: "string option"
  mc_transient :: "string option"
  mc_calls :: "mt5_call list"
  mc_out :: "mt5_output list"

type_synonym 'a mt5 = "(mt5_client, mt5_error, 'a) act"

definition initial_client :: mt5_client where
  "initial_client = \<lparr>mc_identity = None, mc_bound_stream_id = None, mc_snapshot = None, mc_refresh_healthy = False,
     mc_sample_observed_ns = None, mc_sample_last_valid_ns = None, mc_sample_valid = False, mc_cursor = ''0'', mc_pending = [],
     mc_seen = {}, mc_journal = no_journal, mc_recovery = None, mc_foreign = [], mc_spec = None, mc_next_refresh = None,
     mc_hold = Some ''MT5 execution is not connected'', mc_running = False, mc_connected = False, mc_last_failure = None,
     mc_transient = None, mc_calls = [], mc_out = []\<rparr>"

definition call_transport :: "mt5_world \<Rightarrow> mt5_call \<Rightarrow> pyobj mt5" where
  "call_transport X c = (\<lambda>s. (s\<lparr>mc_calls := mc_calls s @ [c]\<rparr>, xw_transport X (length (mc_calls s)) c))"

definition emit :: "mt5_output \<Rightarrow> unit mt5" where
  "emit x = modify_tx (\<lambda>s. s\<lparr>mc_out := mc_out s @ [x]\<rparr>)"

definition deny :: "mt5_order \<Rightarrow> string \<Rightarrow> unit mt5" where
  "deny order reason = emit (OrderDenied (mo_client_order_id order) reason)"

definition require_identity :: "identity mt5" where
  "require_identity = (\<lambda>s. (s, case mc_identity s of None \<Rightarrow> Inl (ExecutionError ''MT5 execution identity is unavailable'') | Some i \<Rightarrow> Inr i))"

definition require_snapshot :: "mt5_client \<Rightarrow> mt5_error + pyobj" where
  "require_snapshot s = (case mc_snapshot s of None \<Rightarrow> Inl (ExecutionError ''MT5 execution snapshot is unavailable'') | Some d \<Rightarrow> Inr d)"

text \<open>What decoding raises inside the client.\<close>

definition wire_failure :: "wire_error + 'a \<Rightarrow> mt5_error + 'a" where
  "wire_failure r = (case r of
     Inr x \<Rightarrow> Inr x
   | Inl (WireError code m) \<Rightarrow> Inl (OtherError ''WireError'' m)
   | Inl UnhashableValue \<Rightarrow> Inl (OtherError ''TypeError'' '''')
   | Inl TooManyDigits \<Rightarrow> Inl (OtherError ''ValueError'' ''''))"

section \<open>The execution hold\<close>

definition hold_reasons :: "mt5_client \<Rightarrow> string list" where
  "hold_reasons s =
    (if mc_identity s = None then [''MT5 execution is not connected'']
     else if \<not> mc_refresh_healthy s then [''MT5 execution snapshot is temporarily unavailable''] else [])
    @ (if mc_recovery s = Some ''blocked'' then [''EA recovery state is blocked''] else [])
    @ (case hold_reason (mc_journal s) of None \<Rightarrow> [] | Some reason \<Rightarrow> [reason])
    @ (if list_ex (\<lambda>(_, p). pe_unknown p) (mc_pending s) then [''a local submission has an UNKNOWN outcome'']
       else if mc_pending s \<noteq> [] then [''a local submission is unresolved''] else [])
    @ (if mc_foreign s \<noteq> [] then [''snapshot contains foreign-magic position(s)''] else [])
    @ (if mc_transient s \<noteq> None then [''MT5 REP request path is temporarily unavailable''] else [])"

definition refresh_execution_hold :: "mt5_client \<Rightarrow> mt5_client" where
  "refresh_execution_hold s = s\<lparr>mc_hold := (if hold_reasons s = [] then None else Some (join_text ''; '' (hold_reasons s)))\<rparr>"

definition mark_transient_request_timeout :: "mt5_error \<Rightarrow> mt5_client \<Rightarrow> mt5_client" where
  "mark_transient_request_timeout e s =
    refresh_execution_hold (s\<lparr>mc_transient := Some (failure_text e), mc_last_failure := Some (failure_text e)\<rparr>)"

definition clear_transient_request_timeout :: "mt5_client \<Rightarrow> mt5_client" where
  "clear_transient_request_timeout s = (let s = s\<lparr>mc_transient := None\<rparr> in
     refresh_execution_hold (if mc_refresh_healthy s \<and> \<not> list_ex (\<lambda>(_, p). pe_unknown p) (mc_pending s)
       then s\<lparr>mc_last_failure := None\<rparr> else s))"

definition execution_admitted :: "mt5_client \<Rightarrow> bool" where
  "execution_admitted s \<longleftrightarrow> mc_identity s \<noteq> None \<and> mc_hold s = None"

definition account_capacity_ready :: "int \<Rightarrow> int \<Rightarrow> mt5_client \<Rightarrow> bool" where
  "account_capacity_ready now_ns max_age_ns s \<longleftrightarrow>
    \<not> (max_age_ns < 0 \<or> \<not> mc_connected s \<or> mc_identity s = None \<or> \<not> mc_refresh_healthy s \<or> \<not> mc_sample_valid s) \<and>
    (case mc_sample_observed_ns s of None \<Rightarrow> False
     | Some observed \<Rightarrow> - MAX_OBSERVATION_FUTURE_NS \<le> now_ns - observed \<and> now_ns - observed \<le> max_age_ns)"

definition cleared :: "mt5_client \<Rightarrow> mt5_client" where
  "cleared s = s\<lparr>mc_identity := None, mc_snapshot := None, mc_refresh_healthy := False, mc_recovery := None, mc_spec := None,
     mc_next_refresh := None, mc_hold := Some ''MT5 execution is not connected'', mc_transient := None\<rparr>"

end
