(* ===== verification/Mt5_Execution.thy ===== *)
theory Mt5_Execution
  imports Mt5_Client
begin

text \<open>
  The operations of the MT5 execution client: applying a journal event, reading pages up to a target,
  the snapshot refresh, the preparation and submission of an order, one round of the poll loop, and
  connecting and disconnecting.
\<close>

section \<open>Applying an event\<close>

definition mark_unknown :: "string \<Rightarrow> mt5_client \<Rightarrow> mt5_client" where
  "mark_unknown r s = s\<lparr>mc_pending := map (\<lambda>(k, p). (k, if k = r then p\<lparr>pe_unknown := True\<rparr> else p)) (mc_pending s)\<rparr>"

definition drop_pending :: "string \<Rightarrow> mt5_client \<Rightarrow> mt5_client" where
  "drop_pending r s = s\<lparr>mc_pending := filter (\<lambda>(k, _). k \<noteq> r) (mc_pending s)\<rparr>"

definition match_pending :: "payload \<Rightarrow> pending mt5" where
  "match_pending p = (\<lambda>s. let r = field p ''client_request_id'' in
     case dict_get (mc_pending s) r of
       None \<Rightarrow> (s, Inl (ExecutionError ''execution event has no local pending order''))
     | Some pend \<Rightarrow>
         if field p ''side'' \<noteq> wire_side (pe_order pend) \<or> decimal_value (field p ''quantity_lots'') \<noteq> pe_lots pend
           \<or> Mapping.lookup p ''position_ticket'' \<noteq> map_option PStr (pe_ticket pend)
           \<or> Mapping.lookup p ''position_identifier'' \<noteq> map_option PStr (pe_position pend)
         then (mark_unknown r s, Inl (ExecutionError ''execution event differs from the local submission''))
         else (s, Inr pend))"

definition record_reservation :: "exec_event \<Rightarrow> unit mt5" where
  "record_reservation event = (\<lambda>s. case add_reservation event (mc_journal s) of
     Inl e \<Rightarrow> (s, Inl e) | Inr j \<Rightarrow> (s\<lparr>mc_journal := j, mc_seen := insert (event_request event) (mc_seen s)\<rparr>, Inr ()))"

definition record_terminal :: "exec_event \<Rightarrow> unit mt5" where
  "record_terminal event = (\<lambda>s. case add_terminal event (mc_journal s) of
     Inl e \<Rightarrow> (s, Inl e) | Inr j \<Rightarrow> (s\<lparr>mc_journal := j\<rparr>, Inr ()))"

definition event_ts :: "exec_event \<Rightarrow> int" where
  "event_ts event = parse_nat (ev_time_ms event) * 1000000"

text \<open>The platform's values of a fill: quantity, price and commission, where it accepts all three.\<close>

definition fill_values :: "mt5_world \<Rightarrow> exec_event \<Rightarrow> pending \<Rightarrow> mt5_error + rat \<times> rat \<times> rat" where
  "fill_values X event pend = (let p = ev_payload event in
     bindE (made (xw_make_qty X (dmul (decimal_value (field p ''filled_quantity_lots'')) (pe_lot_size pend)))) (\<lambda>quantity.
     bindE (made (xw_make_price X (decimal_value (field p ''fill_price'')))) (\<lambda>price.
     bindE (made (xw_commission X (- decimal_value (field p ''commission'')))) (\<lambda>commission.
     Inr (quantity, price, commission)))))"

definition report_fill :: "mt5_world \<Rightarrow> exec_event \<Rightarrow> pending \<Rightarrow> unit mt5" where
  "report_fill X event pend = (let p = ev_payload event; r = mo_client_order_id (pe_order pend) in
     bind_tx (lift_tx (fill_values X event pend)) (\<lambda>(quantity, price, commission).
     bind_tx (modify_tx (\<lambda>s. s\<lparr>mc_sample_valid := False\<rparr>)) (\<lambda>_.
     bind_tx (if pe_accepted pend then ret_tx () else emit (OrderAccepted r (field p ''venue_order_id'') (event_ts event))) (\<lambda>_.
     bind_tx (modify_tx (refresh_execution_hold \<circ> drop_pending r)) (\<lambda>_.
     emit (OrderFilled r (field p ''venue_order_id'') (field p ''venue_position_id'') (field p ''venue_deal_id'')
       (mo_buy (pe_order pend)) quantity price commission (event_ts event)))))))"

definition fill_mismatch :: "payload \<Rightarrow> pending \<Rightarrow> string option" where
  "fill_mismatch p pend =
    (if decimal_value (field p ''filled_quantity_lots'') \<noteq> pe_lots pend then Some ''partial or mismatched MT5 fill is UNKNOWN''
     else if pe_position pend \<noteq> None \<and> Mapping.lookup p ''venue_position_id'' \<noteq> map_option PStr (pe_position pend) then
       Some ''MT5 close fill does not match reserved target position''
     else None)"

definition apply_fill :: "mt5_world \<Rightarrow> exec_event \<Rightarrow> unit mt5" where
  "apply_fill X event = bind_tx (match_pending (ev_payload event)) (\<lambda>pend. case fill_mismatch (ev_payload event) pend of
     Some reason \<Rightarrow> bind_tx (modify_tx (mark_unknown (mo_client_order_id (pe_order pend)))) (\<lambda>_. raise_tx (ExecutionError reason))
   | None \<Rightarrow> report_fill X event pend)"

definition reject_pending :: "exec_event \<Rightarrow> unit mt5" where
  "reject_pending event = (let p = ev_payload event in
     bind_tx (match_pending p) (\<lambda>pend. let r = mo_client_order_id (pe_order pend) in
     bind_tx (emit (OrderRejected r (field p ''reason'' @ '' (retcode='' @ field p ''broker_retcode'' @ '')'') (event_ts event))) (\<lambda>_.
     modify_tx (drop_pending r))))"

definition unknown_pending :: "exec_event \<Rightarrow> unit mt5" where
  "unknown_pending event = bind_tx (match_pending (ev_payload event)) (\<lambda>pend.
     modify_tx (mark_unknown (mo_client_order_id (pe_order pend))))"

definition apply_event :: "mt5_world \<Rightarrow> exec_event \<Rightarrow> unit mt5" where
  "apply_event X event =
    (if ev_type event = ''submission_reserved'' then
       bind_tx (record_reservation event) (\<lambda>_. bind_tx (match_pending (ev_payload event)) (\<lambda>_. ret_tx ()))
     else if ev_type event = ''order_unknown'' then
       bind_tx (record_terminal event) (\<lambda>_. bind_tx (unknown_pending event) (\<lambda>_. modify_tx refresh_execution_hold))
     else if ev_type event = ''order_rejected'' then
       bind_tx (record_terminal event) (\<lambda>_. bind_tx (reject_pending event) (\<lambda>_. modify_tx refresh_execution_hold))
     else if ev_type event = ''order_filled'' then
       bind_tx (record_terminal event) (\<lambda>_. apply_fill X event)
     else if ev_type event = ''stream_started'' then raise_tx (ExecutionError ''MT5 execution stream restarted while connected'')
     else raise_tx (unsupported_event event))"

section \<open>Reading pages\<close>

definition validate_page_identity :: "mt5_world \<Rightarrow> pyobj \<Rightarrow> identity \<Rightarrow> mt5_error + unit" where
  "validate_page_identity X page i =
    bindE (wire_failure (identity_from_wire (xw_env X) (obj_get page ''identity''))) (\<lambda>i'.
    if i' \<noteq> i \<or> obj_get page ''stream_id'' \<noteq> PStr (id_stream_id i) then
      Inl (ExecutionError ''MT5 execution event page identity changed'')
    else Inr ())"

text \<open>The events of one page; true when the expected outcome was reached.\<close>

fun apply_events :: "mt5_world \<Rightarrow> exec_event option \<Rightarrow> exec_event list \<Rightarrow> bool mt5" where
  "apply_events X expected [] = ret_tx False"
| "apply_events X expected (event # events) = (\<lambda>s.
     if event_number event \<noteq> parse_nat (mc_cursor s) + 1 then
       (s, Inl (ExecutionError ''execution journal cursor is not contiguous''))
     else if (case expected of None \<Rightarrow> False | Some outcome \<Rightarrow> event_number event = event_number outcome \<and> event \<noteq> outcome) then
       (s, Inl (ExecutionError ''submit outcome differs from its durable execution event''))
     else bind_tx (apply_event X event) (\<lambda>_.
       bind_tx (modify_tx (\<lambda>s. s\<lparr>mc_cursor := ev_seq event\<rparr>)) (\<lambda>_.
       if map_option event_number expected = Some (event_number event) then ret_tx True
       else apply_events X expected events)) s)"

definition reached_target :: "exec_event option \<Rightarrow> unit mt5" where
  "reached_target expected = (if expected = None then ret_tx ()
     else raise_tx (ExecutionError ''submit outcome is missing from the durable execution stream''))"

definition page_target :: "exec_event option \<Rightarrow> int option \<Rightarrow> pyobj \<Rightarrow> mt5_error + int" where
  "page_target expected target page = (let final = number_of (obj_get page ''last_cursor'') in
     case target of
       None \<Rightarrow> (case expected of
           Some outcome \<Rightarrow> if final < event_number outcome then Inl (ExecutionError ''submit outcome exceeds the durable execution stream tail'')
             else Inr final
         | None \<Rightarrow> Inr final)
     | Some t \<Rightarrow> if final < t then Inl (ExecutionError ''execution journal tail moved behind the pagination target'') else Inr t)"

fun consume_pages :: "mt5_world \<Rightarrow> identity \<Rightarrow> exec_event option \<Rightarrow> nat \<Rightarrow> int option \<Rightarrow> unit mt5" where
  "consume_pages X i expected 0 target = raise_tx (ExecutionError ''execution journal pagination exceeded its page budget'')"
| "consume_pages X i expected (Suc n) target = (\<lambda>s.
     let current = parse_nat (mc_cursor s) in
     if (case target of None \<Rightarrow> False | Some t \<Rightarrow> t \<le> current) then reached_target expected s
     else let limit = (case target of None \<Rightarrow> xc_page_limit (xw_config X) | Some t \<Rightarrow> min (xc_page_limit (xw_config X)) (t - current)) in
       bind_tx (call_transport X (EventsCall (binding_of i) (mc_cursor s) limit)) (\<lambda>page.
       bind_tx (lift_tx (validate_page_identity X page i)) (\<lambda>_.
       bind_tx (lift_tx (page_target expected target page)) (\<lambda>t.
       bind_tx (apply_events X expected (map event_of (events_of page))) (\<lambda>found.
       if found then ret_tx ()
       else (\<lambda>s. if t \<le> parse_nat (mc_cursor s) then reached_target expected s
         else if obj_get page ''has_more'' \<noteq> PBool True then
           (s, Inl (ExecutionError ''execution journal ended before its pagination target''))
         else consume_pages X i expected n (Some t) s))))) s)"

definition budget_failure :: "mt5_client \<times> (mt5_error + 'a) \<Rightarrow> mt5_client \<times> (mt5_error + 'a)" where
  "budget_failure r = (case r of (s, Inl BudgetTimeout) \<Rightarrow>
       (s, Inl (ExecutionError ''execution journal pagination exceeded its time budget'')) | _ \<Rightarrow> r)"

definition consume_event_pages :: "mt5_world \<Rightarrow> exec_event option \<Rightarrow> unit mt5" where
  "consume_event_pages X expected = bind_tx require_identity (\<lambda>i s.
     budget_failure (consume_pages X i expected (xc_max_pages (xw_config X)) None s))"

fun read_events :: "exec_event list \<Rightarrow> string \<Rightarrow> exec_event list \<Rightarrow> mt5_error + string \<times> exec_event list" where
  "read_events [] cursor events = Inr (cursor, events)"
| "read_events (event # rest) cursor events =
    (if event_number event \<noteq> parse_nat cursor + 1 then Inl (ExecutionError ''execution journal cursor is not contiguous'')
     else read_events rest (ev_seq event) (events @ [event]))"

fun read_pages :: "mt5_world \<Rightarrow> identity \<Rightarrow> nat \<Rightarrow> pyval option \<Rightarrow> string \<Rightarrow> exec_event list \<Rightarrow> (exec_event list \<times> string) mt5" where
  "read_pages X i 0 final cursor events = raise_tx (ExecutionError ''execution journal pagination exceeded its page budget'')"
| "read_pages X i (Suc n) final cursor events =
     bind_tx (call_transport X (EventsCall (binding_of i) cursor (xc_page_limit (xw_config X)))) (\<lambda>page.
     bind_tx (lift_tx (validate_page_identity X page i)) (\<lambda>_.
     if obj_get page ''first_retained_cursor'' \<noteq> PStr ''0'' then raise_tx (ExecutionError ''execution journal history is not fully retained'')
     else if final \<noteq> None \<and> final \<noteq> Some (obj_get page ''last_cursor'') then
       raise_tx (ExecutionError ''execution journal tail changed during pagination'')
     else bind_tx (lift_tx (read_events (map event_of (events_of page)) cursor events)) (\<lambda>(cursor, events).
       if obj_get page ''next_cursor'' \<noteq> PStr cursor then raise_tx (ExecutionError ''execution journal page cursor is inconsistent'')
       else if obj_get page ''has_more'' \<noteq> PBool True then
         (if obj_get page ''last_cursor'' \<noteq> PStr cursor then
            raise_tx (ExecutionError ''execution journal ended before its declared tail'')
          else ret_tx (events, cursor))
       else read_pages X i n (Some (obj_get page ''last_cursor'')) cursor events)))"

definition read_complete_journal :: "mt5_world \<Rightarrow> identity \<Rightarrow> (exec_event list \<times> string) mt5" where
  "read_complete_journal X i = (\<lambda>s. budget_failure (read_pages X i (xc_max_pages (xw_config X)) None ''0'' [] s))"

definition verify_unchanged_journal_tail :: "mt5_world \<Rightarrow> identity \<Rightarrow> string \<Rightarrow> unit mt5" where
  "verify_unchanged_journal_tail X i cursor =
    bind_tx (call_transport X (EventsCall (binding_of i) cursor (xc_page_limit (xw_config X)))) (\<lambda>page.
    bind_tx (lift_tx (validate_page_identity X page i)) (\<lambda>_.
    if obj_get page ''first_retained_cursor'' \<noteq> PStr ''0'' \<or> obj_get page ''next_cursor'' \<noteq> PStr cursor
      \<or> obj_get page ''last_cursor'' \<noteq> PStr cursor \<or> events_of page \<noteq> [] then
      raise_tx (ExecutionError ''execution journal changed while snapshot was captured'')
    else ret_tx ()))"

section \<open>The account snapshot\<close>

abbreviation sub_obj :: "pyobj \<Rightarrow> string \<Rightarrow> pyobj" where
  "sub_obj d name \<equiv> value_obj (obj_get d name)"

abbreviation decimal_at :: "pyobj \<Rightarrow> string \<Rightarrow> rat" where
  "decimal_at d name \<equiv> decimal_value (text_value (obj_get d name))"

definition snapshot_tickets :: "pyobj \<Rightarrow> pyobj list" where
  "snapshot_tickets snapshot = (case obj_get snapshot ''positions'' of PList vs \<Rightarrow> map value_obj vs | _ \<Rightarrow> [])"

definition snapshot_execution_spec :: "pyobj \<Rightarrow> pyval list" where
  "snapshot_execution_spec snapshot =
    map (obj_get (sub_obj snapshot ''symbol_spec'')) [''symbol'', ''contract_size'', ''currency_base'', ''currency_margin'', ''currency_profit'',
      ''digits'', ''filling_mode'', ''order_mode'', ''point'', ''tick_size'', ''trade_calc_mode'', ''trade_mode'', ''volume_max'',
      ''volume_min'', ''volume_step'']
    @ [obj_get (sub_obj snapshot ''execution_limits'') ''max_order_lots'']"

definition validate_snapshot :: "mt5_world \<Rightarrow> pyobj \<Rightarrow> identity \<Rightarrow> string option \<Rightarrow> pyval list option \<Rightarrow> mt5_error + unit" where
  "validate_snapshot X snapshot i recovery expected_spec =
    bindE (wire_failure (identity_from_wire (xw_env X) (obj_get snapshot ''identity''))) (\<lambda>i'.
    if i' \<noteq> i \<or> obj_get snapshot ''execution_enabled'' \<noteq> PBool True
      \<or> Some (obj_get snapshot ''recovery_state'') \<noteq> map_option PStr recovery
      \<or> obj_get (sub_obj snapshot ''account'') ''currency'' \<noteq> PStr ''USD''
      \<or> decimal_at (sub_obj snapshot ''execution_limits'') ''max_order_lots'' \<noteq> xc_max_order_lots (xw_config X) then
      Inl (ExecutionError ''MT5 execution snapshot is inconsistent'')
    else if expected_spec \<noteq> None \<and> expected_spec \<noteq> Some (snapshot_execution_spec snapshot) then
      Inl (ExecutionError ''MT5 execution symbol spec changed'')
    else Inr ())"

definition net_position :: "pyobj \<Rightarrow> rat" where
  "net_position snapshot = dsum 0 (map (\<lambda>ticket.
     dmul (dmul (decimal_at ticket ''volume_lots'') (decimal_at (sub_obj snapshot ''symbol_spec'') ''contract_size''))
       (if obj_get ticket ''side'' = PStr ''buy'' then 1 else - 1)) (snapshot_tickets snapshot))"

definition foreign_tickets :: "mt5_world \<Rightarrow> pyobj \<Rightarrow> string list" where
  "foreign_tickets X snapshot = map (\<lambda>ticket. text_value (obj_get ticket ''identifier''))
     (filter (\<lambda>ticket. obj_get ticket ''magic'' \<noteq> PStr (xc_magic (xw_config X))) (snapshot_tickets snapshot))"

definition install_snapshot :: "mt5_world \<Rightarrow> mt5_clock \<Rightarrow> pyobj \<Rightarrow> unit mt5" where
  "install_snapshot X k snapshot = (\<lambda>s.
     let account = sub_obj snapshot ''account'' in
     if decimal_at account ''margin'' < 0 then (s, Inl (ExecutionError ''MT5 account margin cannot be negative''))
     else if \<not> xw_balance_ok X (decimal_at account ''equity'') (decimal_at account ''margin'') (decimal_at account ''margin_free'') then
       (s, Inl (ExecutionError ''MT5 account equity, margin, and free margin are inconsistent''))
     else let observed = number_of (obj_get (sub_obj snapshot ''time'') ''observed_utc_ms'') * 1000000;
         valid = (observed \<le> xk_now_ns k + MAX_OBSERVATION_FUTURE_NS
           \<and> (case mc_sample_last_valid_ns s of None \<Rightarrow> True | Some last_valid \<Rightarrow> last_valid \<le> observed))
       in emit (AccountPublished observed valid (net_position snapshot) (length (snapshot_tickets snapshot)))
         (s\<lparr>mc_snapshot := Some snapshot, mc_foreign := foreign_tickets X snapshot, mc_sample_observed_ns := Some observed,
            mc_sample_valid := valid, mc_sample_last_valid_ns := (if valid then Some observed else mc_sample_last_valid_ns s),
            mc_refresh_healthy := True\<rparr>))"

definition schedule_snapshot_refresh :: "mt5_world \<Rightarrow> mt5_clock \<Rightarrow> mt5_client \<Rightarrow> mt5_client" where
  "schedule_snapshot_refresh X k s =
    s\<lparr>mc_next_refresh := Some (xk_loop_time k + of_int (xc_refresh_interval_ms (xw_config X)) / 1000)\<rparr>"

definition mark_snapshot_unavailable :: "mt5_world \<Rightarrow> mt5_clock \<Rightarrow> mt5_error \<Rightarrow> mt5_client \<Rightarrow> mt5_client" where
  "mark_snapshot_unavailable X k e s = schedule_snapshot_refresh X k
     (refresh_execution_hold (s\<lparr>mc_refresh_healthy := False, mc_last_failure := Some (failure_text e)\<rparr>))"

definition fail_closed_disconnect :: "mt5_client \<Rightarrow> mt5_client" where
  "fail_closed_disconnect s = cleared (s\<lparr>mc_running := False, mc_connected := False, mc_calls := mc_calls s @ [CloseCall]\<rparr>)"

definition refresh_snapshot :: "mt5_world \<Rightarrow> mt5_clock \<Rightarrow> unit mt5" where
  "refresh_snapshot X k =
    bind_tx require_identity (\<lambda>i.
    bind_tx (call_transport X (SnapshotCall (binding_of i))) (\<lambda>snapshot.
    bind_tx (\<lambda>s. lift_tx (validate_snapshot X snapshot i (mc_recovery s) (mc_spec s)) s) (\<lambda>_.
    bind_tx (\<lambda>s. verify_unchanged_journal_tail X i (mc_cursor s) s) (\<lambda>_.
    bind_tx (install_snapshot X k snapshot) (\<lambda>_.
    modify_tx (schedule_snapshot_refresh X k \<circ> clear_transient_request_timeout))))))"

definition refresh_snapshot_if_due :: "mt5_world \<Rightarrow> mt5_clock \<Rightarrow> bool \<Rightarrow> unit mt5" where
  "refresh_snapshot_if_due X k force = (\<lambda>s.
     if \<not> force \<and> (case mc_next_refresh s of None \<Rightarrow> True | Some deadline \<Rightarrow> xk_loop_time k < deadline) then (s, Inr ())
     else case refresh_snapshot X k s of
       (s, Inr _) \<Rightarrow> (s, Inr ())
     | (s, Inl e) \<Rightarrow>
         (case e of
            RequestTimeout _ \<Rightarrow> (mark_snapshot_unavailable X k e s, Inl e)
          | RemoteError code _ \<Rightarrow>
              if code = ''SNAPSHOT_UNAVAILABLE'' then (mark_snapshot_unavailable X k e s, Inl e)
              else (fail_closed_disconnect (s\<lparr>mc_last_failure := Some (failure_text e)\<rparr>), Inl e)
          | _ \<Rightarrow> (fail_closed_disconnect (s\<lparr>mc_last_failure := Some (failure_text e)\<rparr>), Inl e)))"

section \<open>Preparing an order\<close>

text \<open>Whether the command is a leg of a hedge plan, and the ounces its ticket must still have.\<close>

definition hedge_plan_precondition :: "submit_command \<Rightarrow> mt5_error + bool \<times> rat option" where
  "hedge_plan_precondition c = (let params = sc_params c; marker = ''py000_hedge_plan''; key = ''py000_expected_position_ounces'' in
     if marker \<notin> dict_keys params \<and> key \<notin> dict_keys params then Inr (False, None)
     else if obj_get params marker \<noteq> PBool True then Inl (ExecutionError ''invalid hedge plan marker'')
     else if sc_position_id c = None then
       (if key \<in> dict_keys params then Inl (ExecutionError ''planned open cannot contain a close target quantity'') else Inr (True, None))
     else case obj_get params key of
       PDec (Fin x) \<Rightarrow> if x \<le> 0 then Inl (ExecutionError ''planned close requires a positive finite Decimal quantity'') else Inr (True, Some x)
     | _ \<Rightarrow> Inl (ExecutionError ''planned close requires a positive finite Decimal quantity''))"

definition quantity_to_current_lots :: "mt5_world \<Rightarrow> rat \<Rightarrow> mt5_client \<Rightarrow> mt5_error + rat" where
  "quantity_to_current_lots X quantity s = (case xw_lot_size X of
     None \<Rightarrow> Inl (ExecutionError ''canonical MT5 instrument or lot_size is unavailable'')
   | Some lot_size \<Rightarrow> bindE (require_snapshot s) (\<lambda>snapshot. let spec = sub_obj snapshot ''symbol_spec'' in
       if lot_size \<noteq> decimal_at spec ''contract_size'' then Inl (ExecutionError ''instrument lot_size differs from MT5 contract_size'')
       else quantity_to_lots quantity lot_size (decimal_at spec ''volume_min'')
         (min (decimal_at spec ''volume_max'') (decimal_at (sub_obj snapshot ''execution_limits'') ''max_order_lots''))
         (decimal_at spec ''volume_step'')))"

definition can_execute_quantity :: "mt5_world \<Rightarrow> rat \<Rightarrow> mt5_client \<Rightarrow> bool" where
  "can_execute_quantity X quantity s \<longleftrightarrow> execution_admitted s \<and> (case quantity_to_current_lots X quantity s of Inl _ \<Rightarrow> False | Inr _ \<Rightarrow> True)"

definition MAX_SNAPSHOT_POSITION_TICKETS :: nat where "MAX_SNAPSHOT_POSITION_TICKETS = 32"

definition new_pending :: "mt5_order \<Rightarrow> rat \<Rightarrow> rat \<Rightarrow> string option \<Rightarrow> string option \<Rightarrow> pending" where
  "new_pending order lots lot_size ticket position =
    \<lparr>pe_order = order, pe_lots = lots, pe_lot_size = lot_size, pe_ticket = ticket, pe_position = position, pe_unknown = False,
     pe_accepted = False\<rparr>"

definition prepare_close :: "mt5_world \<Rightarrow> pyobj \<Rightarrow> mt5_order \<Rightarrow> string \<Rightarrow> bool \<Rightarrow> rat option \<Rightarrow> rat \<Rightarrow> rat \<Rightarrow> mt5_error + pending" where
  "prepare_close X snapshot order position planned expected lots lot_size =
    (let spec = sub_obj snapshot ''symbol_spec'' in
     case filter (\<lambda>ticket. obj_get ticket ''identifier'' = PStr position) (snapshot_tickets snapshot) of
       [target] \<Rightarrow>
         let target_lots = decimal_at target ''volume_lots''; remaining = dsub target_lots lots in
         if obj_get target ''magic'' \<noteq> PStr (xc_magic (xw_config X)) then Inl (ExecutionError ''close target has foreign magic'')
         else if wire_side order \<noteq> (if obj_get target ''side'' = PStr ''buy'' then ''sell'' else ''buy'') then
           Inl (ExecutionError ''close order side does not oppose the target position'')
         else if planned \<and> Some (dmul target_lots lot_size) \<noteq> expected then
           Inl (ExecutionError ''planned target quantity differs from the live snapshot'')
         else if target_lots < lots then Inl (ExecutionError ''close quantity exceeds the live target position'')
         else bindE (if remaining = 0 then Inr True
             else if remaining < decimal_at spec ''volume_min'' then Inr False
             else bindE (dmod remaining (decimal_at spec ''volume_step'')) (\<lambda>rest. Inr (rest = 0))) (\<lambda>valid.
           if \<not> valid then Inl (ExecutionError ''close would leave an invalid MT5 lot remainder'')
           else Inr (new_pending order lots lot_size (Some (text_value (obj_get target ''ticket''))) (Some position)))
     | _ \<Rightarrow> Inl (ExecutionError ''close target is absent or duplicated in the live snapshot''))"

definition prepare_open :: "pyobj \<Rightarrow> mt5_order \<Rightarrow> bool \<Rightarrow> rat \<Rightarrow> rat \<Rightarrow> mt5_error + pending" where
  "prepare_open snapshot order planned lots lot_size =
    (if MAX_SNAPSHOT_POSITION_TICKETS \<le> length (snapshot_tickets snapshot) then
       Inl (ExecutionError ''MT5 new position capacity is exhausted'')
     else if planned \<and> list_ex (\<lambda>ticket. obj_get ticket ''side'' = PStr (if mo_buy order then ''sell'' else ''buy'')) (snapshot_tickets snapshot) then
       Inl (ExecutionError ''opposing MT5 ticket appeared before planned open'')
     else Inr (new_pending order lots lot_size None None))"

definition prepare :: "mt5_world \<Rightarrow> mt5_order \<Rightarrow> string option \<Rightarrow> bool \<Rightarrow> rat option \<Rightarrow> mt5_client \<Rightarrow> mt5_error + pending" where
  "prepare X order position planned expected s =
    (if mo_instrument_id order \<noteq> xc_instrument_id (xw_config X) then
       Inl (ExecutionError ''order instrument is outside the configured MT5 boundary'')
     else case xw_lot_size X of
       None \<Rightarrow> Inl (ExecutionError ''canonical MT5 instrument or lot_size is unavailable'')
     | Some lot_size \<Rightarrow>
         bindE (quantity_to_current_lots X (mo_quantity order) s) (\<lambda>lots.
         bindE (require_snapshot s) (\<lambda>snapshot. case position of
           None \<Rightarrow> prepare_open snapshot order planned lots lot_size
         | Some identifier \<Rightarrow> prepare_close X snapshot order identifier planned expected lots lot_size)))"

section \<open>Submission\<close>

text \<open>The request that sends a prepared order.\<close>

definition order_call :: "binding \<Rightarrow> pending \<Rightarrow> mt5_call" where
  "order_call b pend = (let r = mo_client_order_id (pe_order pend); side = wire_side (pe_order pend); lots = dec_text (pe_lots pend) in
     case (pe_ticket pend, pe_position pend) of
       (Some ticket, Some position) \<Rightarrow> ClosePositionCall b r side lots ticket position
     | _ \<Rightarrow> DeltaCall b r side lots)"

text \<open>The command after its order was announced: the request, and the events up to its outcome.\<close>

definition send_pending :: "mt5_world \<Rightarrow> pending \<Rightarrow> unit mt5" where
  "send_pending X pend =
     bind_tx require_identity (\<lambda>i.
     bind_tx (call_transport X (order_call (binding_of i) pend)) (\<lambda>data.
     bind_tx (lift_tx (wire_failure (identity_from_wire (xw_env X) (obj_get data ''identity'')))) (\<lambda>i' s.
     if mc_identity s \<noteq> Some i' then (s, Inl (ExecutionError ''submit identity changed''))
     else if event_number (event_of (obj_get data ''outcome'')) \<le> parse_nat (mc_cursor s) then
       (s, Inl (ExecutionError ''submit outcome does not advance the journal cursor''))
     else consume_event_pages X (Some (event_of (obj_get data ''outcome''))) s)))"

definition submission_failed :: "string \<Rightarrow> mt5_error \<Rightarrow> mt5_client \<Rightarrow> mt5_client" where
  "submission_failed r e s = (let s = (mark_unknown r s)\<lparr>mc_last_failure := Some (failure_text e)\<rparr> in
     refresh_execution_hold (case e of RequestTimeout _ \<Rightarrow> s\<lparr>mc_transient := Some (failure_text e)\<rparr> | _ \<Rightarrow> s))"

definition submit_pending :: "mt5_world \<Rightarrow> pending \<Rightarrow> unit mt5" where
  "submit_pending X pend = (let r = mo_client_order_id (pe_order pend) in
     bind_tx (emit (OrderSubmitted r)) (\<lambda>_.
     bind_tx (modify_tx (\<lambda>s. s\<lparr>mc_pending := dict_set r pend (mc_pending s), mc_seen := insert r (mc_seen s)\<rparr>)) (\<lambda>_ s.
     case send_pending X pend s of
       (s, Inr _) \<Rightarrow> (s, Inr ())
     | (s, Inl e) \<Rightarrow> (submission_failed r e s, if e = BudgetTimeout \<or> is_transport_error e then Inr () else Inl e))))"

text \<open>The submission once the lock is held, the order is new and the snapshot was refreshed.\<close>

definition place_order :: "mt5_world \<Rightarrow> submit_command \<Rightarrow> bool \<Rightarrow> rat option \<Rightarrow> unit mt5" where
  "place_order X c planned expected = (\<lambda>s. case mc_hold s of
     Some reason \<Rightarrow> deny (sc_order c) (''MT5 execution HOLD: '' @ reason) s
   | None \<Rightarrow>
       if mc_pending s \<noteq> [] then deny (sc_order c) ''MT5 execution is blocked by an unresolved UNKNOWN submission'' s
       else case prepare X (sc_order c) (sc_position_id c) planned expected s of
         Inl (ExecutionError reason) \<Rightarrow> deny (sc_order c) reason s
       | Inl e \<Rightarrow> (s, Inl e)
       | Inr pend \<Rightarrow> submit_pending X pend s)"

definition refresh_refused :: "mt5_order \<Rightarrow> mt5_error \<Rightarrow> unit mt5" where
  "refresh_refused order e = (\<lambda>s. if e = Cancelled then (s, Inl e)
     else deny order (''MT5 snapshot refresh failed: '' @ error_name e @ '': '' @ error_text e)
       (case e of RequestTimeout _ \<Rightarrow> mark_transient_request_timeout e s | _ \<Rightarrow> s))"

definition submit_checked :: "mt5_world \<Rightarrow> mt5_clock \<Rightarrow> submit_command \<Rightarrow> bool \<Rightarrow> rat option \<Rightarrow> unit mt5" where
  "submit_checked X k c planned expected = (\<lambda>s.
     case refresh_snapshot_if_due X k (mo_reduce_only (sc_order c) \<or> sc_position_id c \<noteq> None \<or> planned) s of
       (s, Inl e) \<Rightarrow> refresh_refused (sc_order c) e s
     | (s, Inr _) \<Rightarrow> place_order X c planned expected s)"

definition submit_order :: "mt5_world \<Rightarrow> mt5_clock \<Rightarrow> submit_command \<Rightarrow> unit mt5" where
  "submit_order X k c = (let order = sc_order c in
     if \<not> mo_market order \<or> \<not> mo_fill_or_kill order then deny order ''MT5 v1 execution supports MARKET FOK orders only''
     else if mo_reduce_only order \<noteq> (sc_position_id c \<noteq> None) then
       deny order ''MT5 close requires both reduce-only and an exact position ID''
     else if mo_quote_quantity order \<or> mo_exec_algorithm order then
       deny order ''MT5 v1 execution does not support additional order semantics''
     else (\<lambda>s. if mo_client_order_id order \<in> mc_seen s then deny order ''MT5 execution journal already contains this order ID'' s
       else case hedge_plan_precondition c of
         Inl e \<Rightarrow> deny order (error_text e) s
       | Inr (planned, expected) \<Rightarrow> submit_checked X k c planned expected s))"

section \<open>Polling\<close>

definition poll_once :: "mt5_world \<Rightarrow> mt5_clock \<Rightarrow> unit mt5" where
  "poll_once X k = (\<lambda>s. case bind_tx (consume_event_pages X None) (\<lambda>_. refresh_snapshot_if_due X k False) s of
     (s, Inr _) \<Rightarrow> (clear_transient_request_timeout s, Inr ())
   | (s, Inl e) \<Rightarrow>
       (case e of
          RequestTimeout _ \<Rightarrow> (mark_transient_request_timeout e s, Inr ())
        | RemoteError code _ \<Rightarrow> if code \<noteq> ''SNAPSHOT_UNAVAILABLE'' then (s, Inl e) else (s, Inr ())
        | _ \<Rightarrow> (s, Inl e)))"

text \<open>One round of \<^verbatim>\<open>_poll_events\<close>; an error other than a cancellation disconnects and ends the loop.\<close>

definition poll_round :: "mt5_world \<Rightarrow> mt5_clock \<Rightarrow> mt5_client \<Rightarrow> mt5_client" where
  "poll_round X k s = (if \<not> mc_running s then s else case poll_once X k s of
     (s, Inr _) \<Rightarrow> s
   | (s, Inl e) \<Rightarrow>
       if e = Cancelled then s
       else let s = s\<lparr>mc_last_failure := Some (failure_text e)\<rparr> in
         if mc_identity s \<noteq> None then fail_closed_disconnect s else s)"

section \<open>Connecting\<close>

definition validate_identity :: "mt5_world \<Rightarrow> identity \<Rightarrow> pyval \<Rightarrow> mt5_error + string" where
  "validate_identity X i recovery = (let config = xw_config X in
     if id_stream_id i \<noteq> xc_stream_id config then Inl (ExecutionError ''MT5 journal stream differs from expected_stream_id'')
     else if recovery \<notin> {PStr ''ready'', PStr ''blocked''} \<or> \<not> id_execution_enabled i
       \<or> id_account_id i \<noteq> xc_account_id config \<or> id_symbol i \<noteq> xc_symbol config \<or> id_magic i \<noteq> xc_magic config
       \<or> id_ea_build_id i \<noteq> xc_ea_build_id config \<or> id_declared_source_sha256 i \<noteq> xc_source_sha256 config
       \<or> id_server_timezone i \<noteq> xc_server_timezone config then
       Inl (ExecutionError ''MT5 execution identity is not configured and enabled'')
     else Inr (text_value recovery))"

text \<open>A journalled outcome of an order this process still waits for.\<close>

definition recover_pending :: "mt5_world \<Rightarrow> string \<Rightarrow> unit mt5" where
  "recover_pending X r = (\<lambda>s. case dict_get (jn_terminals (mc_journal s)) r of
     None \<Rightarrow> (s, Inr ())
   | Some event \<Rightarrow>
       if ev_type event = ''order_unknown'' then unknown_pending event s
       else if ev_type event = ''order_rejected'' then reject_pending event s
       else if ev_type event = ''order_filled'' then apply_fill X event s
       else (s, Inr ()))"

definition recover_local_pending :: "mt5_world \<Rightarrow> unit mt5" where
  "recover_local_pending X = (\<lambda>s. each_tx (recover_pending X) (map fst (mc_pending s)) s)"

record mt5_facts =
  xf_identity :: identity
  xf_recovery :: string
  xf_cursor :: string
  xf_snapshot :: pyobj
  xf_journal :: journal

text \<open>What a connection must establish before anything is taken over: identity, whole journal and snapshot.\<close>

definition establish :: "mt5_world \<Rightarrow> mt5_facts mt5" where
  "establish X =
    bind_tx (call_transport X OpenCall) (\<lambda>_.
    bind_tx (call_transport X HelloCall) (\<lambda>hello.
    bind_tx (lift_tx (wire_failure (identity_from_wire (xw_env X) (obj_get hello ''identity'')))) (\<lambda>i.
    bind_tx (lift_tx (validate_identity X i (obj_get hello ''recovery_state''))) (\<lambda>recovery.
    bind_tx (\<lambda>s. (s, if mc_bound_stream_id s \<noteq> None \<and> mc_bound_stream_id s \<noteq> Some (id_stream_id i) then
        Inl (ExecutionError ''MT5 execution journal stream changed'') else Inr ())) (\<lambda>_.
    bind_tx (read_complete_journal X i) (\<lambda>(events, cursor).
    bind_tx (call_transport X (SnapshotCall (binding_of i))) (\<lambda>snapshot.
    bind_tx (lift_tx (validate_snapshot X snapshot i (Some recovery) None)) (\<lambda>_.
    bind_tx (verify_unchanged_journal_tail X i cursor) (\<lambda>_.
    bind_tx (lift_tx (project_journal (id_boot_id i) events)) (\<lambda>j.
    ret_tx \<lparr>xf_identity = i, xf_recovery = recovery, xf_cursor = cursor, xf_snapshot = snapshot, xf_journal = j\<rparr>))))))))))"

definition install_journal :: "mt5_facts \<Rightarrow> mt5_client \<Rightarrow> mt5_client" where
  "install_journal f s = s\<lparr>mc_cursor := xf_cursor f, mc_journal := xf_journal f,
     mc_seen := dict_keys (jn_reservations (xf_journal f)) \<union> dict_keys (mc_pending s), mc_recovery := Some (xf_recovery f)\<rparr>"

definition take_over :: "mt5_world \<Rightarrow> mt5_clock \<Rightarrow> mt5_facts \<Rightarrow> unit mt5" where
  "take_over X k f =
    bind_tx (modify_tx (\<lambda>s. s\<lparr>mc_bound_stream_id := Some (id_stream_id (xf_identity f)), mc_identity := Some (xf_identity f),
        mc_spec := Some (snapshot_execution_spec (xf_snapshot f))\<rparr>)) (\<lambda>_.
    bind_tx (install_snapshot X k (xf_snapshot f)) (\<lambda>_.
    bind_tx (modify_tx (install_journal f)) (\<lambda>_.
    bind_tx (recover_local_pending X) (\<lambda>_.
    modify_tx (\<lambda>s. (schedule_snapshot_refresh X k (refresh_execution_hold (s\<lparr>mc_transient := None\<rparr>)))\<lparr>mc_last_failure := None\<rparr>)))))"

definition connect :: "mt5_world \<Rightarrow> mt5_clock \<Rightarrow> unit mt5" where
  "connect X k = (\<lambda>s. case bind_tx (establish X) (take_over X k) s of
     (s, Inr _) \<Rightarrow> (s\<lparr>mc_connected := True, mc_running := True\<rparr>, Inr ())
   | (s, Inl e) \<Rightarrow> (cleared (s\<lparr>mc_last_failure := Some (failure_text e), mc_calls := mc_calls s @ [CloseCall]\<rparr>), Inl e))"

definition disconnect :: "mt5_client \<Rightarrow> mt5_client" where
  "disconnect s = cleared (s\<lparr>mc_running := False, mc_calls := mc_calls s @ [CloseCall]\<rparr>)"

section \<open>Operations\<close>

datatype mt5_op = Connect mt5_clock | Submit mt5_clock submit_command | PollRound mt5_clock | Disconnect

fun run_mt5 :: "mt5_world \<Rightarrow> mt5_op \<Rightarrow> mt5_client \<Rightarrow> mt5_client" where
  "run_mt5 X (Connect k) s = fst (connect X k s)"
| "run_mt5 X (Submit k c) s = fst (submit_order X k c s)"
| "run_mt5 X (PollRound k) s = poll_round X k s"
| "run_mt5 X Disconnect s = disconnect s"

end
