(* ===== verification/Mt5_Runs.thy ===== *)
theory Mt5_Runs
  imports Mt5_Execution
begin

text \<open>
  Runs of the MT5 execution client: every order is sent at most once and finished at most once,
  whatever the transport answers, over any sequence of submissions, polls, connections and
  disconnections whose journal is append only.
\<close>

lemma dict_set_elem: "(k, v) \<in> set (dict_set r x d) \<Longrightarrow> k = r \<and> v = x \<or> (k, v) \<in> set d"
  by (induction d) (auto split: if_splits)

section \<open>Reasoning about steps\<close>

definition runs :: "('s \<Rightarrow> bool) \<Rightarrow> ('s, 'e, 'a) act \<Rightarrow> ('s \<Rightarrow> bool) \<Rightarrow> ('e \<Rightarrow> 's \<Rightarrow> bool) \<Rightarrow> bool" where
  "runs P m Q E \<longleftrightarrow> (\<forall>s. P s \<longrightarrow> (case m s of (u, Inr _) \<Rightarrow> Q u | (u, Inl e) \<Rightarrow> E e u))"

abbreviation keeps :: "('s \<Rightarrow> bool) \<Rightarrow> ('s, 'e, 'a) act \<Rightarrow> bool" where
  "keeps P m \<equiv> runs P m P (\<lambda>_. P)"

named_theorems runs_rules \<open>composing \<open>runs\<close>\<close>

lemma runs_bind [runs_rules]: "runs P m R E \<Longrightarrow> (\<And>x. runs R (f x) Q E) \<Longrightarrow> runs P (bind_tx m f) Q E"
  by (fastforce simp: runs_def bind_tx_def split: prod.splits sum.splits)

lemma runs_ret [runs_rules]: "(\<And>s. P s \<Longrightarrow> Q s) \<Longrightarrow> runs P (ret_tx x) Q E"
  by (simp add: runs_def)

lemma runs_raise [runs_rules]: "(\<And>s. P s \<Longrightarrow> E e s) \<Longrightarrow> runs P (raise_tx e) Q E"
  by (simp add: runs_def)

lemma runs_lift [runs_rules]: "(\<And>s. P s \<Longrightarrow> Q s) \<Longrightarrow> (\<And>e s. P s \<Longrightarrow> E e s) \<Longrightarrow> runs P (lift_tx r) Q E"
  by (cases r) (simp_all add: runs_def)

lemma runs_modify [runs_rules]: "(\<And>s. P s \<Longrightarrow> Q (f s)) \<Longrightarrow> runs P (modify_tx f) Q E"
  by (simp add: runs_def)

lemma runs_if [runs_rules]: "(c \<Longrightarrow> runs P a Q E) \<Longrightarrow> (\<not> c \<Longrightarrow> runs P b Q E) \<Longrightarrow> runs P (if c then a else b) Q E"
  by simp

lemma runs_at: "(\<And>s. P s \<Longrightarrow> runs (\<lambda>t. t = s) (f s) Q E) \<Longrightarrow> runs P (\<lambda>s. f s s) Q E"
  by (simp add: runs_def)

lemma runs_weaken: "runs P m Q E \<Longrightarrow> (\<And>s. P' s \<Longrightarrow> P s) \<Longrightarrow> (\<And>s. Q s \<Longrightarrow> Q' s) \<Longrightarrow> (\<And>e s. E e s \<Longrightarrow> E' e s) \<Longrightarrow> runs P' m Q' E'"
  by (fastforce simp: runs_def split: prod.splits sum.splits)

lemma runs_fst: "keeps P m \<Longrightarrow> P s \<Longrightarrow> P (fst (m s))"
  unfolding runs_def by (cases "m s"; cases "snd (m s)") (auto dest!: spec [of _ s])

lemma keepsI: "(\<And>s. P s \<Longrightarrow> P (fst (m s))) \<Longrightarrow> keeps P m"
  by (auto simp: runs_def split: prod.splits sum.splits) (metis fst_conv)+

lemma keeps_guard: "keeps P m \<Longrightarrow> keeps P (\<lambda>s. if c s then (s, r s) else m s)"
  by (auto simp: runs_def split: sum.splits)

lemma runs_call [runs_rules]:
  "(\<And>s. P s \<Longrightarrow> Q (s\<lparr>mc_calls := mc_calls s @ [c]\<rparr>)) \<Longrightarrow> (\<And>e s. P s \<Longrightarrow> E e (s\<lparr>mc_calls := mc_calls s @ [c]\<rparr>)) \<Longrightarrow>
    runs P (call_transport X c) Q E"
  by (auto simp: runs_def call_transport_def split: sum.splits)

lemma runs_emit [runs_rules]: "(\<And>s. P s \<Longrightarrow> Q (s\<lparr>mc_out := mc_out s @ [x]\<rparr>)) \<Longrightarrow> runs P (emit x) Q E"
  unfolding emit_def by (rule runs_modify)

lemma runs_identity [runs_rules]: "(\<And>s. P s \<Longrightarrow> Q s) \<Longrightarrow> (\<And>e s. P s \<Longrightarrow> E e s) \<Longrightarrow> runs P require_identity Q E"
  by (auto simp: runs_def require_identity_def split: option.splits)

section \<open>What was sent and how it ended\<close>

fun request_sent :: "mt5_call \<Rightarrow> string list" where
  "request_sent (DeltaCall b r side lots) = [r]"
| "request_sent (ClosePositionCall b r side lots ticket position) = [r]"
| "request_sent _ = []"

fun order_announced :: "mt5_output \<Rightarrow> string list" where
  "order_announced (OrderSubmitted r) = [r]"
| "order_announced _ = []"

fun order_finished :: "mt5_output \<Rightarrow> string list" where
  "order_finished (OrderFilled r v p t buy q x c ts) = [r]"
| "order_finished (OrderRejected r reason ts) = [r]"
| "order_finished _ = []"

text \<open>The requests that send an order.\<close>

definition mutations :: "mt5_client \<Rightarrow> mt5_call list" where
  "mutations s = filter (\<lambda>c. request_sent c \<noteq> []) (mc_calls s)"

definition sent_orders :: "mt5_client \<Rightarrow> string list" where
  "sent_orders s = concat (map request_sent (mutations s))"

definition announced_orders :: "mt5_client \<Rightarrow> string list" where
  "announced_orders s = concat (map order_announced (mc_out s))"

definition finished_orders :: "mt5_client \<Rightarrow> string list" where
  "finished_orders s = concat (map order_finished (mc_out s))"

abbreviation reserved :: "mt5_client \<Rightarrow> string set" where
  "reserved s \<equiv> dict_keys (jn_reservations (mc_journal s))"

abbreviation waiting :: "mt5_client \<Rightarrow> string set" where
  "waiting s \<equiv> dict_keys (mc_pending s)"

text \<open>Announced, seen, waiting, reserved, finished, sent and journalled as ended.\<close>

definition orders_once :: "string list \<Rightarrow> string set \<Rightarrow> string set \<Rightarrow> string set \<Rightarrow> string list \<Rightarrow> string list \<Rightarrow> string set \<Rightarrow> bool" where
  "orders_once A S W R F N T \<longleftrightarrow> distinct A \<and> set A \<subseteq> S \<and> set A \<subseteq> W \<union> R \<and> distinct F \<and> set F \<subseteq> set A \<and> set F \<inter> W = {}
    \<and> distinct N \<and> set N \<subseteq> set A \<and> W \<subseteq> set A \<and> T \<subseteq> R \<and> R \<subseteq> S"

definition keyed_terminals :: "journal \<Rightarrow> bool" where
  "keyed_terminals j \<longleftrightarrow> (\<forall>(r, event) \<in> set (jn_terminals j). event_request event = r)"

definition once :: "mt5_client \<Rightarrow> bool" where
  "once s \<longleftrightarrow> orders_once (announced_orders s) (mc_seen s) (waiting s) (reserved s) (finished_orders s) (sent_orders s)
      (dict_keys (jn_terminals (mc_journal s)))
    \<and> (\<forall>(r, p) \<in> set (mc_pending s). mo_client_order_id (pe_order p) = r) \<and> length (mc_pending s) \<le> 1
    \<and> keyed_terminals (mc_journal s)"

definition same_orders :: "mt5_client \<Rightarrow> mt5_client \<Rightarrow> bool" where
  "same_orders s u \<longleftrightarrow> announced_orders u = announced_orders s \<and> finished_orders u = finished_orders s \<and> mutations u = mutations s
    \<and> mc_seen u = mc_seen s \<and> mc_journal u = mc_journal s
    \<and> map (\<lambda>(r, p). (r, pe_order p)) (mc_pending u) = map (\<lambda>(r, p). (r, pe_order p)) (mc_pending s)"

lemma pending_view: 
  assumes "map (\<lambda>(r, p). (r, pe_order p)) ps = map (\<lambda>(r, p). (r, pe_order p)) qs"
  shows "dict_keys ps = dict_keys qs" "length ps = length qs"
    "(\<forall>(r, p) \<in> set ps. P r (pe_order p)) \<longleftrightarrow> (\<forall>(r, p) \<in> set qs. P r (pe_order p))"
proof -
  show "dict_keys ps = dict_keys qs"
    using arg_cong [OF assms, of "\<lambda>xs. fst ` set xs"] by (simp add: image_image case_prod_unfold)
  show "length ps = length qs" using arg_cong [OF assms, of length] by simp
  have "(\<forall>(r, p) \<in> set ps. P r (pe_order p)) \<longleftrightarrow> (\<forall>(r, x) \<in> set (map (\<lambda>(r, p). (r, pe_order p)) ps). P r x)" for ps by auto
  then show "(\<forall>(r, p) \<in> set ps. P r (pe_order p)) \<longleftrightarrow> (\<forall>(r, p) \<in> set qs. P r (pe_order p))" using assms by metis
qed

lemma same_orders_once: "same_orders s u \<Longrightarrow> once u \<longleftrightarrow> once s"
proof -
  assume a: "same_orders s u"
  then have p: "map (\<lambda>(r, p). (r, pe_order p)) (mc_pending u) = map (\<lambda>(r, p). (r, pe_order p)) (mc_pending s)"
    and o: "announced_orders u = announced_orders s" "finished_orders u = finished_orders s" "sent_orders u = sent_orders s"
      "mc_seen u = mc_seen s" "mc_journal u = mc_journal s"
    by (simp_all add: same_orders_def sent_orders_def)
  show "once u \<longleftrightarrow> once s"
    unfolding once_def o pending_view(1,2) [OF p] using pending_view(3) [OF p, of "\<lambda>r x. mo_client_order_id x = r"] by simp
qed

lemma same_orders_refl [simp]: "same_orders s s"
  by (simp add: same_orders_def)

lemmas order_views = announced_orders_def finished_orders_def sent_orders_def mutations_def

lemma unchanged_orders [simp]:
  "same_orders s (refresh_execution_hold s)" "same_orders s (mark_unknown r s)" "same_orders s (s\<lparr>mc_sample_valid := b\<rparr>)"
  "same_orders s (s\<lparr>mc_cursor := c\<rparr>)" "same_orders s (schedule_snapshot_refresh X k s)" "same_orders s (mark_snapshot_unavailable X k e s)"
  "same_orders s (fail_closed_disconnect s)" "same_orders s (clear_transient_request_timeout s)"
  "same_orders s (mark_transient_request_timeout e s)" "same_orders s (cleared s)" "same_orders s (s\<lparr>mc_last_failure := f\<rparr>)"
  "same_orders s (s\<lparr>mc_transient := f\<rparr>)" "same_orders s (disconnect s)"
  by (simp_all add: same_orders_def order_views refresh_execution_hold_def mark_unknown_def schedule_snapshot_refresh_def
      mark_snapshot_unavailable_def fail_closed_disconnect_def clear_transient_request_timeout_def mark_transient_request_timeout_def
      cleared_def disconnect_def Let_def case_prod_beta o_def cong: map_cong if_cong)

lemma once_unchanged [simp]:
  "once (refresh_execution_hold s) = once s" "once (mark_unknown r s) = once s" "once (s\<lparr>mc_sample_valid := b\<rparr>) = once s"
  "once (s\<lparr>mc_cursor := c\<rparr>) = once s" "once (schedule_snapshot_refresh X k s) = once s" "once (mark_snapshot_unavailable X k e s) = once s"
  "once (fail_closed_disconnect s) = once s" "once (clear_transient_request_timeout s) = once s"
  "once (mark_transient_request_timeout e s) = once s" "once (cleared s) = once s" "once (s\<lparr>mc_last_failure := f\<rparr>) = once s"
  "once (s\<lparr>mc_transient := g\<rparr>) = once s" "once (disconnect s) = once s"
  by (rule same_orders_once; simp)+

section \<open>Events\<close>

lemma match_pending_cases:
  obtains (refused) u e where "match_pending p s = (u, Inl (ExecutionError e))" "u = s \<or> u = mark_unknown (field p ''client_request_id'') s"
  | (matched) pend where "match_pending p s = (s, Inr pend)" "dict_get (mc_pending s) (field p ''client_request_id'') = Some pend"
proof (cases "dict_get (mc_pending s) (field p ''client_request_id'')")
  case None
  show thesis by (rule refused [OF _ disjI1 [OF refl]]) (simp add: match_pending_def None)
next
  case (Some pend)
  show thesis
  proof (cases "field p ''side'' \<noteq> wire_side (pe_order pend) \<or> decimal_value (field p ''quantity_lots'') \<noteq> pe_lots pend
      \<or> Mapping.lookup p ''position_ticket'' \<noteq> map_option PStr (pe_ticket pend) \<or> Mapping.lookup p ''position_identifier'' \<noteq> map_option PStr (pe_position pend)")
    case True
    show thesis by (rule refused [OF _ disjI2 [OF refl]]) (simp only: match_pending_def Let_def Some option.case if_P [OF True])
  next
    case False
    show thesis by (rule matched [OF _ Some]) (simp only: match_pending_def Let_def Some option.case if_not_P [OF False])
  qed
qed

lemma once_pending_id: "once s \<Longrightarrow> dict_get (mc_pending s) r = Some p \<Longrightarrow> mo_client_order_id (pe_order p) = r \<and> r \<in> waiting s"
  using map_of_SomeD [of "mc_pending s" r p] unfolding once_def by (force simp del: map_of_eq_Some_iff)

text \<open>An order leaves the waiting ones with its last report.\<close>

definition settled_order :: "string \<Rightarrow> mt5_client \<Rightarrow> mt5_client \<Rightarrow> bool" where
  "settled_order r s u \<longleftrightarrow> announced_orders u = announced_orders s \<and> finished_orders u = finished_orders s @ [r]
    \<and> sent_orders u = sent_orders s \<and> mc_seen u = mc_seen s \<and> mc_journal u = mc_journal s
    \<and> mc_pending u = filter (\<lambda>(k, _). k \<noteq> r) (mc_pending s)"

lemma once_settled:
  assumes "once s" "r \<in> waiting s" "r \<in> reserved s" "settled_order r s u"
  shows "once u"
proof -
  have w: "waiting u = waiting s - {r}" and l: "length (mc_pending u) \<le> length (mc_pending s)"
    and p: "set (mc_pending u) \<subseteq> set (mc_pending s)"
    using assms(4) by (auto simp: settled_order_def)
  have "orders_once A S W R F N T \<Longrightarrow> r \<in> W \<Longrightarrow> r \<in> R \<Longrightarrow> orders_once A S (W - {r}) R (F @ [r]) N T" for A S W R F N T
    by (auto simp: orders_once_def)
  then have "orders_once (announced_orders u) (mc_seen u) (waiting u) (reserved u) (finished_orders u) (sent_orders u)
      (dict_keys (jn_terminals (mc_journal u)))"
    using assms unfolding w once_def settled_order_def by metis
  moreover have "length (mc_pending u) \<le> 1" "\<forall>(r, p) \<in> set (mc_pending u). mo_client_order_id (pe_order p) = r"
    "keyed_terminals (mc_journal u)"
    using assms(1,4) l p unfolding once_def settled_order_def by (linarith, blast, simp)
  ultimately show ?thesis unfolding once_def by blast
qed

lemma once_reject:
  assumes "once s" "event_request event \<in> reserved s"
  shows "once (fst (reject_pending event s))"
proof (cases rule: match_pending_cases [of "ev_payload event" s])
  case (refused u e)
  then show ?thesis using assms by (auto simp: reject_pending_def Let_def bind_tx_run)
next
  case (matched pend)
  from once_pending_id [OF assms(1) matched(2)] have "mo_client_order_id (pe_order pend) = event_request event"
    "event_request event \<in> waiting s" by (simp_all add: event_request_def)
  moreover from this(1) have "settled_order (event_request event) s (fst (reject_pending event s))"
    using matched(1) by (simp add: reject_pending_def Let_def bind_tx_run emit_def settled_order_def order_views drop_pending_def)
  ultimately show ?thesis using once_settled [OF assms(1) _ assms(2)] by blast
qed

lemma once_unknown: "once s \<Longrightarrow> once (fst (unknown_pending event s))"
  by (cases rule: match_pending_cases [of "ev_payload event" s]) (auto simp: unknown_pending_def bind_tx_run)

lemma hold_reasons_view [simp]:
  "hold_reasons (s\<lparr>mc_out := x\<rparr>) = hold_reasons s" "hold_reasons (s\<lparr>mc_hold := h\<rparr>) = hold_reasons s"
  "hold_reasons (s\<lparr>mc_last_failure := f\<rparr>) = hold_reasons s" "hold_reasons (s\<lparr>mc_next_refresh := n\<rparr>) = hold_reasons s"
  "hold_reasons (s\<lparr>mc_cursor := c\<rparr>) = hold_reasons s" "hold_reasons (s\<lparr>mc_calls := cs\<rparr>) = hold_reasons s"
  "hold_reasons (s\<lparr>mc_sample_valid := b\<rparr>) = hold_reasons s"
  by (simp_all add: hold_reasons_def)

lemma report_fill_cases:
  obtains (refused) e where "report_fill X event pend s = (s, Inl e)" "fill_values X event pend = Inl e"
  | (filled) u where "report_fill X event pend s = (u, Inr ())" "settled_order (mo_client_order_id (pe_order pend)) s u"
      "mc_hold u = mc_hold (refresh_execution_hold u)"
proof (cases "fill_values X event pend")
  case (Inl e)
  then show thesis by (intro refused) (simp_all add: report_fill_def Let_def)
next
  case (Inr v)
  then obtain quantity price commission where v: "fill_values X event pend = Inr (quantity, price, commission)" by (cases v) auto
  define r where "r = mo_client_order_id (pe_order pend)"
  define accepted where "accepted = (if pe_accepted pend then [] else
    [OrderAccepted r (field (ev_payload event) ''venue_order_id'') (event_ts event)])"
  define t where "t = refresh_execution_hold (drop_pending r (s\<lparr>mc_sample_valid := False, mc_out := mc_out s @ accepted\<rparr>))"
  define x where "x = OrderFilled r (field (ev_payload event) ''venue_order_id'') (field (ev_payload event) ''venue_position_id'')
    (field (ev_payload event) ''venue_deal_id'') (mo_buy (pe_order pend)) quantity price commission (event_ts event)"
  have "report_fill X event pend s = (t\<lparr>mc_out := mc_out t @ [x]\<rparr>, Inr ())"
    by (cases "pe_accepted pend") (simp_all add: report_fill_def Let_def emit_def v t_def x_def accepted_def r_def)
  moreover have "settled_order r s (t\<lparr>mc_out := mc_out t @ [x]\<rparr>)"
    by (simp add: t_def x_def accepted_def settled_order_def order_views drop_pending_def refresh_execution_hold_def)
  moreover have "mc_hold (t\<lparr>mc_out := mc_out t @ [x]\<rparr>) = mc_hold (refresh_execution_hold (t\<lparr>mc_out := mc_out t @ [x]\<rparr>))"
    by (simp add: refresh_execution_hold_def) (simp add: t_def refresh_execution_hold_def)
  ultimately show thesis unfolding r_def by (rule filled)
qed

lemma once_fill:
  assumes "once s" "event_request event \<in> reserved s"
  shows "once (fst (apply_fill X event s))"
proof (cases rule: match_pending_cases [of "ev_payload event" s])
  case (refused u e)
  then show ?thesis using assms by (auto simp: apply_fill_def bind_tx_run)
next
  case (matched pend)
  from once_pending_id [OF assms(1) matched(2)] have r: "mo_client_order_id (pe_order pend) = event_request event"
    "event_request event \<in> waiting s" by (simp_all add: event_request_def)
  show ?thesis
  proof (cases "fill_mismatch (ev_payload event) pend")
    case None
    then have a: "apply_fill X event s = report_fill X event pend s" using matched(1) by (simp add: apply_fill_def bind_tx_run)
    show ?thesis
      by (cases rule: report_fill_cases [of X event pend s]) (use assms r once_settled in \<open>auto simp: a\<close>)
  next
    case (Some reason)
    then show ?thesis using matched(1) assms(1) by (simp add: apply_fill_def bind_tx_run)
  qed
qed

lemma once_reservation: "keeps once (record_reservation event)"
proof (rule keepsI)
  fix s assume s: "once s"
  show "once (fst (record_reservation event s))"
  proof (cases "add_reservation event (mc_journal s)")
    case (Inr j)
    have "orders_once A S W R F N T \<Longrightarrow> orders_once A (insert x S) W (insert x R) F N T" for A S W R F N T x
      by (auto simp: orders_once_def)
    with s Inr show ?thesis
      by (auto simp: record_reservation_def add_reservation_def Let_def once_def order_views keyed_terminals_def split: if_splits)
  qed (use s in \<open>simp add: record_reservation_def\<close>)
qed

lemma record_terminal_cases:
  obtains (refused) e where "record_terminal event s = (s, Inl (ExecutionError e))"
  | (recorded) j where "record_terminal event s = (s\<lparr>mc_journal := j\<rparr>, Inr ())" "add_terminal event (mc_journal s) = Inr j"
proof (cases "add_terminal event (mc_journal s)")
  case (Inl e)
  then obtain m where "e = ExecutionError m"
    by (auto simp: add_terminal_def Let_def validate_close_fill_target_def split: option.splits if_splits)
  with Inl show thesis by (intro refused) (simp add: record_terminal_def)
qed (auto simp: record_terminal_def intro: recorded)

lemma add_terminal_Inr:
  "add_terminal event j = Inr j' \<Longrightarrow> event_request event \<in> dict_keys (jn_reservations j)
    \<and> j' = j\<lparr>jn_terminals := dict_set (event_request event) event (jn_terminals j)\<rparr>"
  by (force simp: add_terminal_def Let_def bindE_Inr_iff split: option.splits if_splits dest: map_of_SomeD)

lemma add_terminal_keyed: "add_terminal event j = Inr j' \<Longrightarrow> keyed_terminals j \<Longrightarrow> keyed_terminals j'"
  using add_terminal_Inr [of event j j'] by (auto simp: keyed_terminals_def dest!: dict_set_elem)

lemma once_terminal:
  assumes "once s" "add_terminal event (mc_journal s) = Inr j"
  shows "once (s\<lparr>mc_journal := j\<rparr>) \<and> event_request event \<in> reserved (s\<lparr>mc_journal := j\<rparr>)"
proof -
  have "orders_once A S W R F N T \<Longrightarrow> x \<in> R \<Longrightarrow> orders_once A S W R F N (insert x T)" for A S W R F N T x
    by (auto simp: orders_once_def)
  moreover have "keyed_terminals j" using add_terminal_keyed [OF assms(2)] assms(1) by (simp add: once_def)
  ultimately show ?thesis using add_terminal_Inr [OF assms(2)] assms(1) by (auto simp: once_def order_views)
qed

lemma after_terminal:
  assumes "once s" "\<And>t. once t \<Longrightarrow> event_request event \<in> reserved t \<Longrightarrow> once (fst (m t))"
  shows "once (fst (bind_tx (record_terminal event) (\<lambda>_. m) s))"
proof (cases rule: record_terminal_cases [of event s])
  case (refused e)
  then show ?thesis using assms(1) by (simp add: bind_tx_run)
next
  case (recorded j)
  then show ?thesis using once_terminal [OF assms(1) recorded(2)] assms(2) by (simp add: bind_tx_run)
qed

lemma once_then_hold: "once (fst (m t)) \<Longrightarrow> once (fst (bind_tx m (\<lambda>_. modify_tx refresh_execution_hold) t))"
  by (auto simp: bind_tx_fst split: prod.splits sum.splits)

lemma once_match: "keeps once (match_pending p)"
  by (rule keepsI) (metis fst_conv match_pending_cases once_unchanged(2))

lemma once_apply_event: "keeps once (apply_event X event)"
proof -
  have "keeps once (bind_tx (record_reservation event) (\<lambda>_. bind_tx (match_pending (ev_payload event)) (\<lambda>_. ret_tx ())))"
    by (rule runs_bind [OF once_reservation], rule runs_bind [OF once_match], rule runs_ret)
  moreover have "keeps once (bind_tx (record_terminal event) (\<lambda>_. bind_tx (unknown_pending event) (\<lambda>_. modify_tx refresh_execution_hold)))"
    "keeps once (bind_tx (record_terminal event) (\<lambda>_. bind_tx (reject_pending event) (\<lambda>_. modify_tx refresh_execution_hold)))"
    "keeps once (bind_tx (record_terminal event) (\<lambda>_. apply_fill X event))"
    by (intro keepsI after_terminal once_then_hold once_fill once_reject once_unknown; assumption)+
  ultimately show ?thesis unfolding apply_event_def by (intro runs_if runs_raise) assumption+
qed

section \<open>Pages, snapshots and submission\<close>

lemma once_call: "request_sent c = [] \<Longrightarrow> once (s\<lparr>mc_calls := mc_calls s @ [c]\<rparr>) = once s"
  by (rule same_orders_once) (simp add: same_orders_def order_views)

lemma keeps_call: "request_sent c = [] \<Longrightarrow> keeps once (call_transport X c)"
  by (intro runs_rules) (simp_all add: once_call)

lemma once_apply_events: "keeps once (apply_events X expected events)"
proof (induction events)
  case (Cons event events)
  have a: "keeps once (bind_tx (apply_event X event) (\<lambda>_. bind_tx (modify_tx (\<lambda>s. s\<lparr>mc_cursor := ev_seq event\<rparr>)) (\<lambda>_.
       if map_option event_number expected = Some (event_number event) then ret_tx True else apply_events X expected events)))"
    by (rule runs_bind [OF once_apply_event], rule runs_bind [where R = once]) (auto intro!: runs_rules Cons.IH)
  show ?case unfolding apply_events.simps by (intro keeps_guard a)
qed (unfold apply_events.simps, rule runs_ret)

text \<open>Reading pages, for whatever applying the events of one page keeps.\<close>

lemma runs_guard: "runs P m Q E \<Longrightarrow> (\<And>s. P s \<Longrightarrow> c s \<Longrightarrow> E e s) \<Longrightarrow> runs P (\<lambda>s. if c s then (s, Inl e) else m s) Q E"
  by (auto simp: runs_def split: sum.splits)

lemma runs_consume_pages:
  assumes events: "\<And>es. runs P (apply_events X expected es) P E"
    and calls: "\<And>b cursor limit. runs P (call_transport X (EventsCall b cursor limit)) P E"
    and fails: "\<And>e s. P s \<Longrightarrow> E e s"
  shows "runs P (consume_pages X i expected n target) P E"
proof (induction n arbitrary: target)
  case (Suc n)
  have reached: "runs P (reached_target expected) P E"
    unfolding reached_target_def by (intro runs_if runs_ret runs_raise) (simp_all add: fails)
  have lift: "runs P (lift_tx r) P E" for r :: "mt5_error + 'a" by (rule runs_lift) (simp_all add: fails)
  have next_page: "runs P (\<lambda>s. if t \<le> parse_nat (mc_cursor s) then reached_target expected s
         else if obj_get page ''has_more'' \<noteq> PBool True then (s, Inl (ExecutionError m))
         else consume_pages X i expected n (Some t) s) P E" for t page m
    using reached Suc.IH [of "Some t"] fails by (auto simp: runs_def split: sum.splits)
  have page: "runs P (bind_tx (call_transport X (EventsCall b cursor limit)) (\<lambda>page.
       bind_tx (lift_tx (validate_page_identity X page i)) (\<lambda>_.
       bind_tx (lift_tx (page_target expected target page)) (\<lambda>t.
       bind_tx (apply_events X expected (map event_of (events_of page))) (\<lambda>found.
       if found then ret_tx ()
       else (\<lambda>s. if t \<le> parse_nat (mc_cursor s) then reached_target expected s
         else if obj_get page ''has_more'' \<noteq> PBool True then
           (s, Inl (ExecutionError ''execution journal ended before its pagination target''))
         else consume_pages X i expected n (Some t) s)))))) P E" for b cursor limit
    by (rule runs_bind [OF calls], rule runs_bind [OF lift], rule runs_bind [OF lift], rule runs_bind [OF events],
        intro runs_if runs_ret next_page)
  show ?case
    using reached page by (auto simp: runs_def Let_def split: sum.splits option.splits)
qed (simp add: runs_raise fails)

lemma once_consume_pages: "keeps once (consume_pages X i expected n target)"
  by (intro runs_consume_pages once_apply_events keeps_call) simp_all

lemma fst_budget_failure [simp]: "fst (budget_failure r) = fst r"
  by (auto simp: budget_failure_def split: prod.splits sum.splits mt5_error.splits)

lemma once_consume: "keeps once (consume_event_pages X expected)"
  unfolding consume_event_pages_def
  by (rule runs_bind [where R = once], (rule runs_identity; assumption), rule keepsI, simp add: runs_fst [OF once_consume_pages])

text \<open>Calls that send no order, checks and snapshots leave all this as it is.\<close>

lemma same_orders_iff: "same_orders s u \<Longrightarrow> same_orders s0 u = same_orders s0 s"
  by (simp add: same_orders_def)

lemma same_orders_unchanged [simp]:
  "same_orders s0 (refresh_execution_hold s) = same_orders s0 s" "same_orders s0 (schedule_snapshot_refresh X k s) = same_orders s0 s"
  "same_orders s0 (mark_snapshot_unavailable X k e s) = same_orders s0 s" "same_orders s0 (fail_closed_disconnect s) = same_orders s0 s"
  "same_orders s0 (clear_transient_request_timeout s) = same_orders s0 s" "same_orders s0 (s\<lparr>mc_last_failure := f\<rparr>) = same_orders s0 s"
  "same_orders s0 (mark_transient_request_timeout e s) = same_orders s0 s"
  by (rule same_orders_iff; simp)+

lemma same_call: "request_sent c = [] \<Longrightarrow> keeps (same_orders s0) (call_transport X c)"
  by (intro runs_rules) (simp_all add: same_orders_def order_views)

lemma same_identity: "keeps (same_orders s0) require_identity"
  by (intro runs_identity) simp_all

lemma same_lift: "keeps (same_orders s0) (lift_tx r)" "keeps (same_orders s0) (\<lambda>s. lift_tx (f s) s)"
  by (intro runs_lift keepsI; simp)+

lemma same_verify: "keeps (same_orders s0) (verify_unchanged_journal_tail X i cursor)"
  unfolding verify_unchanged_journal_tail_def
  by (rule runs_bind [OF same_call], simp, rule runs_bind [OF same_lift(1)]) (intro runs_if runs_ret runs_raise; assumption)

lemma same_install: "keeps (same_orders s0) (install_snapshot X k snapshot)"
  by (rule keepsI) (simp add: install_snapshot_def Let_def emit_def same_orders_def order_views)

lemma same_refresh_snapshot: "keeps (same_orders s0) (refresh_snapshot X k)"
proof -
  have v: "keeps (same_orders s0) (\<lambda>s. verify_unchanged_journal_tail X i (mc_cursor s) s)" for i
    by (rule keepsI) (rule runs_fst [OF same_verify])
  have m: "keeps (same_orders s0) (modify_tx (schedule_snapshot_refresh X k \<circ> clear_transient_request_timeout))"
    by (rule runs_modify) simp
  show ?thesis
    unfolding refresh_snapshot_def
    by (rule runs_bind [OF same_identity], rule runs_bind [OF same_call], simp, rule runs_bind [OF same_lift(2)],
        rule runs_bind [OF v], rule runs_bind [OF same_install m])
qed

lemma same_refresh: "same_orders s (fst (refresh_snapshot_if_due X k force s))"
proof -
  obtain u r where u: "refresh_snapshot X k s = (u, r)" by fastforce
  have "same_orders s (fst (refresh_snapshot X k s))" by (rule runs_fst [OF same_refresh_snapshot]) simp
  then have "same_orders s u" using u by simp
  then show ?thesis using u by (auto simp: refresh_snapshot_if_due_def split: sum.splits mt5_error.splits)
qed

lemma same_deny: "same_orders s (fst (deny order reason s))"
  by (simp add: deny_def emit_def same_orders_def order_views)

text \<open>An order is announced, kept and sent once.\<close>

lemma once_announced:
  assumes "once s" "mc_pending s = []" "r \<notin> mc_seen s" "mo_client_order_id (pe_order p) = r"
  shows "once (s\<lparr>mc_out := mc_out s @ [OrderSubmitted r], mc_pending := dict_set r p (mc_pending s), mc_seen := insert r (mc_seen s)\<rparr>)"
proof -
  have "orders_once A S {} R F N T \<Longrightarrow> r \<notin> S \<Longrightarrow> orders_once (A @ [r]) (insert r S) {r} R F N T" for A S R F N T
    by (auto simp: orders_once_def)
  with assms show ?thesis by (simp add: once_def order_views)
qed

lemma once_sent:
  assumes "once s" "r \<in> set (announced_orders s)" "r \<notin> set (sent_orders s)" "request_sent c = [r]"
  shows "once (s\<lparr>mc_calls := mc_calls s @ [c]\<rparr>)"
proof -
  have "orders_once A S W R F N T \<Longrightarrow> r \<in> set A \<Longrightarrow> r \<notin> set N \<Longrightarrow> orders_once A S W R F (N @ [r]) T" for A S W R F N T
    by (auto simp: orders_once_def)
  with assms show ?thesis by (simp add: once_def order_views)
qed

lemma order_call_sends: "request_sent (order_call b p) = [mo_client_order_id (pe_order p)]"
  by (simp add: order_call_def Let_def split: option.splits)

lemma once_send:
  assumes "once s" "mo_client_order_id (pe_order p) \<in> set (announced_orders s)" "mo_client_order_id (pe_order p) \<notin> set (sent_orders s)"
  shows "once (fst (send_pending X p s))"
proof -
  define r where "r = mo_client_order_id (pe_order p)"
  define P where "P = (\<lambda>s. once s \<and> r \<in> set (announced_orders s) \<and> r \<notin> set (sent_orders s))"
  have rest: "keeps once (\<lambda>s. if mc_identity s \<noteq> Some i' then (s, Inl (ExecutionError m))
     else if event_number outcome \<le> parse_nat (mc_cursor s) then (s, Inl (ExecutionError m'))
       else consume_event_pages X (Some outcome) s)" for i' m m' outcome
    by (intro keeps_guard once_consume)
  have c: "runs P (call_transport X (order_call b p)) once (\<lambda>_. once)" for b
    by (intro runs_call) (auto simp: P_def r_def intro!: once_sent order_call_sends)
  have "runs P (send_pending X p) once (\<lambda>_. once)"
    unfolding send_pending_def
    by (rule runs_bind [where R = P], (rule runs_identity; simp add: P_def), rule runs_bind [OF c],
        rule runs_bind [where R = once], (rule runs_lift; assumption), rule rest)
  then show ?thesis
    using assms unfolding runs_def P_def r_def [symmetric] by (cases "send_pending X p s"; cases "snd (send_pending X p s)") (auto dest!: spec [of _ s])
qed

lemma once_failed [simp]: "once (submission_failed r e s) = once s"
  by (simp add: submission_failed_def Let_def split: mt5_error.splits)

lemma once_submit_pending:
  assumes "once s" "mc_pending s = []" "mo_client_order_id (pe_order p) \<notin> mc_seen s"
  shows "once (fst (submit_pending X p s))"
proof -
  define r where "r = mo_client_order_id (pe_order p)"
  define t where "t = s\<lparr>mc_out := mc_out s @ [OrderSubmitted r], mc_pending := dict_set r p (mc_pending s), mc_seen := insert r (mc_seen s)\<rparr>"
  have t: "once t" unfolding t_def by (rule once_announced) (use assms in \<open>simp_all add: r_def\<close>)
  have "set (sent_orders s) \<subseteq> mc_seen s" using assms(1) by (auto simp: once_def orders_once_def)
  then have "r \<in> set (announced_orders t)" "r \<notin> set (sent_orders t)" using assms(3) by (auto simp: t_def order_views r_def)
  then have "once (fst (send_pending X p t))" using once_send [OF t] by (simp add: r_def)
  moreover have "submit_pending X p s = (case send_pending X p t of
       (s, Inr _) \<Rightarrow> (s, Inr ())
     | (s, Inl e) \<Rightarrow> (submission_failed r e s, if e = BudgetTimeout \<or> is_transport_error e then Inr () else Inl e))"
    unfolding t_def r_def by (simp add: submit_pending_def Let_def emit_def)
  ultimately show ?thesis by (auto split: prod.splits sum.splits)
qed

lemma prepare_order:
  assumes "prepare X order position planned expected s = Inr p"
  shows "pe_order p = order \<and> \<not> pe_unknown p \<and> \<not> pe_accepted p"
proof -
  have "prepare_open d order planned lots lot_size = Inr p \<Longrightarrow> ?thesis" for d lots lot_size
    by (auto simp: prepare_open_def new_pending_def split: if_splits)
  moreover have "prepare_close X d order t planned expected lots lot_size = Inr p \<Longrightarrow> ?thesis" for d t lots lot_size
    by (auto simp: prepare_close_def new_pending_def Let_def bindE_Inr_iff split: if_splits list.splits)
  ultimately show ?thesis
    using assms by (auto simp: prepare_def bindE_Inr_iff split: if_splits option.splits)
qed

lemma once_deny: "once (fst (deny order reason s)) = once s"
  using same_orders_once [OF same_deny] .

lemma once_place:
  assumes "once s" "mo_client_order_id (sc_order c) \<notin> mc_seen s"
  shows "once (fst (place_order X c planned expected s))"
proof -
  have "once (fst (submit_pending X p s))" if "prepare X (sc_order c) (sc_position_id c) planned expected s = Inr p" "mc_pending s = []" for p
    using once_submit_pending [OF assms(1) that(2), of p X] prepare_order [OF that(1)] assms(2) by simp
  then show ?thesis
    using assms(1) by (auto simp: place_order_def once_deny split: option.splits sum.splits mt5_error.splits)
qed

lemma once_submit_checked:
  assumes "once s" "mo_client_order_id (sc_order c) \<notin> mc_seen s"
  shows "once (fst (submit_checked X k c planned expected s))"
proof -
  obtain t x where t: "refresh_snapshot_if_due X k (mo_reduce_only (sc_order c) \<or> sc_position_id c \<noteq> None \<or> planned) s = (t, x)"
    by fastforce
  then have same: "same_orders s t"
    using same_refresh [of s X k "mo_reduce_only (sc_order c) \<or> sc_position_id c \<noteq> None \<or> planned"] by simp
  have o: "once t" "mo_client_order_id (sc_order c) \<notin> mc_seen t"
    using assms same_orders_once [OF same] same by (simp_all add: same_orders_def)
  have "once (fst (refresh_refused (sc_order c) e t))" for e
    using o(1) by (simp add: refresh_refused_def once_deny split: mt5_error.splits)
  then show ?thesis
    using once_place [OF o] by (cases x) (simp_all only: submit_checked_def t prod.case sum.case)
qed

lemma once_submit: "once s \<Longrightarrow> once (fst (submit_order X k c s))"
  by (auto simp: submit_order_def Let_def once_deny split: sum.splits intro!: once_submit_checked)

lemma once_poll: "once s \<Longrightarrow> once (poll_round X k s)"
proof -
  assume s: "once s"
  have "keeps once (bind_tx (consume_event_pages X None) (\<lambda>_. refresh_snapshot_if_due X k False))"
    by (rule runs_bind [OF once_consume], rule keepsI) (use same_orders_once [OF same_refresh] in blast)
  from runs_fst [OF this s] have "once (fst (poll_once X k s))"
    by (auto simp: poll_once_def split: prod.splits sum.splits mt5_error.splits)
  with s show ?thesis by (auto simp: poll_round_def Let_def split: prod.splits sum.splits)
qed

section \<open>Connecting\<close>

definition wf_journal :: "journal \<Rightarrow> bool" where
  "wf_journal j \<longleftrightarrow> keyed_terminals j \<and> dict_keys (jn_terminals j) \<subseteq> dict_keys (jn_reservations j)"

lemma add_terminal_wf: "add_terminal event j = Inr j' \<Longrightarrow> wf_journal j \<Longrightarrow> wf_journal j'"
  using add_terminal_Inr [of event j j'] add_terminal_keyed [of event j j'] by (auto simp: wf_journal_def)

lemma add_reservation_wf:
  assumes "add_reservation event j = Inr j'" "wf_journal j"
  shows "wf_journal j'"
proof -
  have "j' = j\<lparr>jn_reservations := dict_set (event_request event) event (jn_reservations j)\<rparr>"
    using assms(1) by (auto simp: add_reservation_def Let_def split: if_splits)
  then show ?thesis using assms(2) by (simp add: wf_journal_def keyed_terminals_def subset_insertI2)
qed

lemma project_event_wf: "project_event event P = Inr P' \<Longrightarrow> wf_journal (pj_journal P) \<Longrightarrow> wf_journal (pj_journal P')"
  by (auto simp: project_event_def bindE_Inr_iff intro: add_terminal_wf add_reservation_wf split: if_splits)

lemma project_journal_wf: "project_journal b events = Inr j \<Longrightarrow> wf_journal j"
proof -
  have "foldE project_event es P = Inr P' \<Longrightarrow> wf_journal (pj_journal P) \<Longrightarrow> wf_journal (pj_journal P')" for es P P'
    by (induction es arbitrary: P) (auto simp: bindE_Inr_iff dest: project_event_wf)
  moreover have "wf_journal no_journal" by (simp add: wf_journal_def keyed_terminals_def no_journal_def)
  moreover assume "project_journal b events = Inr j"
  then obtain P where "foldE project_event events \<lparr>pj_journal = no_journal, pj_boots = {}, pj_active = None\<rparr> = Inr P" "j = pj_journal P"
    by (auto simp: project_journal_def bindE_Inr_iff simp del: foldE.simps split: list.splits if_splits)
  ultimately show ?thesis by simp
qed

lemma same_read_pages: "keeps (same_orders s0) (read_pages X i n final cursor events)"
proof (induction n arbitrary: final cursor events)
  case (Suc n)
  show ?case
    unfolding read_pages.simps
    by (rule runs_bind [OF same_call], simp, rule runs_bind [OF same_lift(1)], intro runs_if runs_raise; (assumption | rule runs_bind [OF same_lift(1)]))
      (auto intro!: runs_if runs_raise runs_ret Suc.IH)
qed (simp add: runs_raise)

lemma same_establish: "same_orders s (fst (establish X s))"
proof -
  have b: "keeps (same_orders s0) (\<lambda>s. (s, if mc_bound_stream_id s \<noteq> None \<and> mc_bound_stream_id s \<noteq> Some (id_stream_id i) then
        Inl (ExecutionError m) else Inr ()))" for s0 i m
    by (rule keepsI) simp
  have r: "keeps (same_orders s0) (read_complete_journal X i)" for s0 i
    unfolding read_complete_journal_def by (rule keepsI) (simp add: runs_fst [OF same_read_pages])
  have "keeps (same_orders s) (establish X)"
    unfolding establish_def
    by (rule runs_bind [OF same_call], simp, rule runs_bind [OF same_call], simp, rule runs_bind [OF same_lift(1)], rule runs_bind [OF same_lift(1)],
        rule runs_bind [OF b], rule runs_bind [OF r], simp add: case_prod_beta, rule runs_bind [OF same_call], simp, rule runs_bind [OF same_lift(1)],
        rule runs_bind [OF same_verify], rule runs_bind [OF same_lift(1)], rule runs_ret, assumption)
  then show ?thesis by (rule runs_fst) simp
qed

lemma establish_sound: "establish X s = (t, Inr f) \<Longrightarrow> wf_journal (xf_journal f)"
  by (auto simp: establish_def bind_tx_Inr_iff dest!: project_journal_wf)

lemma once_installed:
  assumes "once s" "wf_journal (xf_journal f)" "reserved s \<subseteq> dict_keys (jn_reservations (xf_journal f))"
  shows "once (install_journal f s)"
proof -
  have "orders_once A S W R F N T \<Longrightarrow> R \<subseteq> R' \<Longrightarrow> T' \<subseteq> R' \<Longrightarrow> orders_once A (R' \<union> W) W R' F N T'" for A S W R F N T R' T'
    by (auto simp: orders_once_def)
  with assms show ?thesis by (auto simp: once_def install_journal_def order_views wf_journal_def)
qed

lemma recover_journal: "mc_journal (fst (recover_pending X r s)) = mc_journal s"
proof -
  have u: "mc_journal (fst (unknown_pending event s)) = mc_journal s" "mc_journal (fst (reject_pending event s)) = mc_journal s" for event
    by (cases rule: match_pending_cases [of "ev_payload event" s];
        auto simp: unknown_pending_def reject_pending_def Let_def bind_tx_run mark_unknown_def emit_def drop_pending_def)+
  have r: "mc_journal (fst (report_fill X event pend t)) = mc_journal t" for event pend t
    by (cases rule: report_fill_cases [of X event pend t]) (auto simp: settled_order_def)
  have f: "mc_journal (fst (apply_fill X event s)) = mc_journal s" for event
    by (cases rule: match_pending_cases [of "ev_payload event" s])
      (auto simp: apply_fill_def bind_tx_run mark_unknown_def r split: option.splits)
  show ?thesis by (simp add: recover_pending_def u f split: option.splits)
qed

lemma once_recover: "keeps (\<lambda>s. once s \<and> mc_journal s = j) (recover_pending X r)"
proof (rule keepsI)
  fix s assume s: "once s \<and> mc_journal s = j"
  have "once (fst (recover_pending X r s))"
  proof (cases "dict_get (jn_terminals (mc_journal s)) r")
    case (Some event)
    then have e: "(r, event) \<in> set (jn_terminals (mc_journal s))" by (rule map_of_SomeD)
    then have "r \<in> dict_keys (jn_terminals (mc_journal s))" by (rule rev_image_eqI) simp
    moreover have "keyed_terminals (mc_journal s)" "dict_keys (jn_terminals (mc_journal s)) \<subseteq> reserved s"
      using s unfolding once_def orders_once_def by blast+
    ultimately have "event_request event \<in> reserved s" using e unfolding keyed_terminals_def by blast
    with Some s show ?thesis by (simp add: recover_pending_def once_unknown once_reject once_fill)
  qed (use s in \<open>simp add: recover_pending_def\<close>)
  then show "once (fst (recover_pending X r s)) \<and> mc_journal (fst (recover_pending X r s)) = j" using s by (simp add: recover_journal)
qed

lemma keeps_each_tx: "(\<And>x. keeps P (f x)) \<Longrightarrow> keeps P (each_tx f xs)"
proof (induction xs)
  case (Cons x xs)
  show ?case unfolding each_tx.simps by (rule runs_bind [OF Cons.prems Cons.IH [OF Cons.prems]])
qed (simp add: runs_ret)

lemma same_orders_carry: "same_orders s u \<Longrightarrow> once s \<Longrightarrow> once u \<and> reserved u = reserved s"
  using same_orders_once [of s u] by (simp add: same_orders_def)

lemma journal_unchanged [simp]: "mc_journal (schedule_snapshot_refresh X k s) = mc_journal s" "mc_journal (refresh_execution_hold s) = mc_journal s"
  by (simp_all add: schedule_snapshot_refresh_def refresh_execution_hold_def)

lemma once_take_over:
  assumes "once s" "wf_journal (xf_journal f)" "reserved s \<subseteq> reserved (fst (take_over X k f s))"
  shows "once (fst (take_over X k f s))"
proof -
  define s1 where "s1 = s\<lparr>mc_bound_stream_id := Some (id_stream_id (xf_identity f)), mc_identity := Some (xf_identity f),
        mc_spec := Some (snapshot_execution_spec (xf_snapshot f))\<rparr>"
  obtain s2 x where i: "install_snapshot X k (xf_snapshot f) s1 = (s2, x)" by fastforce
  have "same_orders s s1" by (simp add: s1_def same_orders_def order_views)
  moreover have "same_orders s1 s2" using runs_fst [OF same_install same_orders_refl, of s1 X k "xf_snapshot f"] i by simp
  ultimately have "same_orders s s2" by (simp add: same_orders_def)
  from same_orders_carry [OF this assms(1)] have s2: "once s2" "reserved s2 = reserved s" by blast+
  define conclude where "conclude = bind_tx (recover_local_pending X) (\<lambda>_. modify_tx (\<lambda>s.
      (schedule_snapshot_refresh X k (refresh_execution_hold (s\<lparr>mc_transient := None\<rparr>)))\<lparr>mc_last_failure := None\<rparr>))"
  have hold: "keeps (\<lambda>s. once s \<and> mc_journal s = j) conclude" for j
  proof -
    have "keeps (\<lambda>s. once s \<and> mc_journal s = j) (recover_local_pending X)"
      unfolding recover_local_pending_def by (rule keepsI) (rule runs_fst [OF keeps_each_tx [OF once_recover]])
    then show ?thesis
      unfolding conclude_def
      by (rule runs_bind, intro runs_modify) simp
  qed
  have journal: "keeps (\<lambda>s. mc_journal s = j) conclude" for j
  proof -
    have "keeps (\<lambda>s. mc_journal s = j) (recover_local_pending X)"
      unfolding recover_local_pending_def
      by (rule keepsI) (rule runs_fst [OF keeps_each_tx], rule keepsI, simp_all add: recover_journal)
    then show ?thesis
      unfolding conclude_def by (rule runs_bind, intro runs_modify) simp
  qed
  show ?thesis
  proof (cases x)
    case (Inl e)
    then have "fst (take_over X k f s) = s2" using i by (simp add: take_over_def s1_def bind_tx_run)
    with s2 show ?thesis by simp
  next
    case (Inr v)
    have tail: "fst (take_over X k f s) = fst (conclude (install_journal f s2))"
      using i Inr by (simp add: take_over_def s1_def conclude_def bind_tx_run)
    have "mc_journal (fst (take_over X k f s)) = xf_journal f"
      unfolding tail by (rule runs_fst [OF journal]) (simp add: install_journal_def)
    then have "reserved s2 \<subseteq> dict_keys (jn_reservations (xf_journal f))" using assms(3) s2 by simp
    from once_installed [OF s2(1) assms(2) this]
    have "once (install_journal f s2) \<and> mc_journal (install_journal f s2) = xf_journal f" by (simp add: install_journal_def)
    from runs_fst [OF hold this] show ?thesis unfolding tail by simp
  qed
qed

lemma once_connect:
  assumes "once s" "reserved s \<subseteq> reserved (fst (connect X k s))"
  shows "once (fst (connect X k s))"
proof -
  obtain t x where t: "establish X s = (t, x)" by fastforce
  have same: "same_orders s t" using same_establish [of s X] t by simp
  from same_orders_carry [OF this assms(1)] have o: "once t" "reserved t = reserved s" by blast+
  have r: "reserved (fst (connect X k s)) = reserved (fst (bind_tx (establish X) (take_over X k) s))"
    "once (fst (connect X k s)) = once (fst (bind_tx (establish X) (take_over X k) s))"
    by (auto simp: connect_def once_def order_views cleared_def split: prod.splits sum.splits)
  show ?thesis
  proof (cases x)
    case (Inr f)
    have "reserved t \<subseteq> reserved (fst (take_over X k f t))" using assms(2) o(2) t Inr unfolding r(1) by (simp add: bind_tx_run)
    from once_take_over [OF o(1) _ this] show ?thesis unfolding r(2) using establish_sound t Inr by (simp add: bind_tx_run)
  qed (use t o r in \<open>simp add: bind_tx_run\<close>)
qed

text \<open>
  A run of the client. The journal of the expert advisor is append only: a connection finds every
  reservation again that this process already knows.
\<close>

inductive mt5_reachable :: "mt5_world \<Rightarrow> mt5_client \<Rightarrow> bool" for X where
  fresh_client: "mt5_reachable X initial_client"
| operated_client: "mt5_reachable X s \<Longrightarrow> reserved s \<subseteq> reserved (run_mt5 X x s) \<Longrightarrow> mt5_reachable X (run_mt5 X x s)"

lemma reachable_once: "mt5_reachable X s \<Longrightarrow> once s"
proof (induction rule: mt5_reachable.induct)
  case fresh_client
  show ?case by (simp add: once_def orders_once_def initial_client_def order_views no_journal_def keyed_terminals_def)
next
  case (operated_client s x)
  then show ?case by (cases x) (simp_all add: once_connect once_submit once_poll)
qed

end
