(* ===== verification/Mt5_Safety.thy ===== *)
theory Mt5_Safety
  imports Mt5_Runs
begin

text \<open>
  What the MT5 execution client promises: an order is sent and finished once, and sent only when
  nothing is unresolved, on the snapshot it was prepared from.
\<close>

section \<open>The hold is kept up to date\<close>

text \<open>Connected, with a fresh snapshot, an unblocked advisor, a resolved journal, no foreign ticket, no pending timeout.\<close>

definition clear_to_trade :: "mt5_client \<Rightarrow> bool" where
  "clear_to_trade s \<longleftrightarrow> mc_identity s \<noteq> None \<and> mc_refresh_healthy s \<and> mc_recovery s \<noteq> Some ''blocked''
    \<and> hold_reason (mc_journal s) = None \<and> mc_foreign s = [] \<and> mc_transient s = None"

definition hold_sound :: "mt5_client \<Rightarrow> bool" where
  "hold_sound s \<longleftrightarrow> (mc_hold s = None \<and> mc_pending s = [] \<longrightarrow> hold_reasons s = [])"

lemma no_reason_clear: "hold_reasons s = [] \<Longrightarrow> clear_to_trade s"
  by (auto simp: hold_reasons_def clear_to_trade_def split: if_splits option.splits)

lemma hold_sound_refreshed [simp]: "hold_sound (refresh_execution_hold s)"
  by (simp add: hold_sound_def refresh_execution_hold_def)

lemma hold_sound_view [simp]:
  "hold_sound (s\<lparr>mc_out := x\<rparr>) = hold_sound s" "hold_sound (s\<lparr>mc_last_failure := f\<rparr>) = hold_sound s"
  "hold_sound (s\<lparr>mc_cursor := c\<rparr>) = hold_sound s" "hold_sound (s\<lparr>mc_calls := cs\<rparr>) = hold_sound s"
  "hold_sound (schedule_snapshot_refresh X k s) = hold_sound s"
  by (simp_all add: hold_sound_def schedule_snapshot_refresh_def)

lemma hold_sound_set [simp]:
  "hold_sound (cleared s)" "hold_sound (fail_closed_disconnect s)" "hold_sound (disconnect s)" "hold_sound (clear_transient_request_timeout s)"
  "hold_sound (mark_transient_request_timeout e s)" "hold_sound (mark_snapshot_unavailable X k e s)" "hold_sound (submission_failed r e s)"
  by (simp_all add: fail_closed_disconnect_def disconnect_def clear_transient_request_timeout_def mark_transient_request_timeout_def
      mark_snapshot_unavailable_def submission_failed_def Let_def) (simp_all add: hold_sound_def cleared_def)

text \<open>The errors of the checks, after which the client disconnects or holds.\<close>

definition hard_error :: "mt5_error \<Rightarrow> bool" where
  "hard_error e = (case e of ExecutionError _ \<Rightarrow> True | OtherError _ _ \<Rightarrow> True | _ \<Rightarrow> False)"

definition held :: "mt5_client \<Rightarrow> bool" where
  "held s \<longleftrightarrow> hold_sound s \<and> mc_identity s \<noteq> None"

definition failing :: "mt5_error \<Rightarrow> mt5_client \<Rightarrow> bool" where
  "failing e s \<longleftrightarrow> hold_sound s \<or> hard_error e \<and> mc_identity s \<noteq> None"

definition same_base :: "mt5_client \<Rightarrow> mt5_client \<Rightarrow> bool" where
  "same_base s u \<longleftrightarrow> mc_identity u = mc_identity s \<and> mc_calls u = mc_calls s"

lemma base_refresh [simp]: "same_base s (refresh_execution_hold u) = same_base s u" "same_base s (mark_unknown r u) = same_base s u"
  "same_base s (drop_pending r u) = same_base s u" "same_base s (u\<lparr>mc_out := x\<rparr>) = same_base s u" "same_base s s"
  "same_base s (u\<lparr>mc_cursor := c\<rparr>) = same_base s u"
  by (simp_all add: same_base_def refresh_execution_hold_def mark_unknown_def drop_pending_def)

lemma base_match: "same_base s (fst (match_pending p s))"
  by (cases rule: match_pending_cases [of p s]) auto

lemma base_report: "same_base s (fst (report_fill X event pend s))"
  by (cases "fill_values X event pend"; cases "pe_accepted pend")
    (simp_all add: report_fill_def Let_def emit_def same_base_def refresh_execution_hold_def drop_pending_def split: prod.splits)

lemma base_pieces:
  "keeps (same_base s) (match_pending p)" "keeps (same_base s) (unknown_pending event)" "keeps (same_base s) (reject_pending event)"
  "keeps (same_base s) (apply_fill X event)"
proof -
  have m: "keeps (same_base s) (match_pending p)" for p
    by (rule keepsI) (use base_match in \<open>auto simp: same_base_def\<close>)
  have f: "keeps (same_base s) (report_fill X event pend)" for pend
    by (rule keepsI) (use base_report in \<open>auto simp: same_base_def\<close>)
  show "keeps (same_base s) (match_pending p)" by (rule m)
  show "keeps (same_base s) (unknown_pending event)"
    unfolding unknown_pending_def by (rule runs_bind [OF m], rule runs_modify, simp)
  show "keeps (same_base s) (reject_pending event)"
    unfolding reject_pending_def Let_def by (rule runs_bind [OF m], rule runs_bind [where R = "same_base s"], rule runs_emit, simp, rule runs_modify, simp)
  show "keeps (same_base s) (apply_fill X event)"
    unfolding apply_fill_def
    by (rule runs_bind [OF m]) (auto split: option.splits intro!: f runs_bind [where R = "same_base s"] runs_modify runs_raise)
qed

lemma keeps_base_event: "keeps (same_base s) (apply_event X event)"
proof -
  have j: "keeps (same_base s) (record_reservation event)" "keeps (same_base s) (record_terminal event)"
    by (rule keepsI; simp add: record_reservation_def record_terminal_def same_base_def split: sum.splits)+
  have t: "keeps (same_base s) (modify_tx refresh_execution_hold)" "keeps (same_base s) (ret_tx ())"
    by (rule runs_modify, simp) (rule runs_ret)
  show ?thesis
    unfolding apply_event_def
    by (intro runs_if runs_raise runs_bind [OF j(1) runs_bind [OF base_pieces(1) t(2)]] runs_bind [OF j(2) runs_bind [OF base_pieces(2) t(1)]]
        runs_bind [OF j(2) runs_bind [OF base_pieces(3) t(1)]] runs_bind [OF j(2) base_pieces(4)])
qed

lemma base_event: "same_base s (fst (apply_event X event s))"
  by (rule runs_fst [OF keeps_base_event]) simp

lemma keeps_recover: "keeps (same_base s) (recover_pending X r)"
proof (rule keepsI)
  fix t
  assume t: "same_base s t"
  note p = runs_fst [OF base_pieces(2) t] runs_fst [OF base_pieces(3) t] runs_fst [OF base_pieces(4) t]
  show "same_base s (fst (recover_pending X r t))"
  proof (cases "dict_get (jn_terminals (mc_journal t)) r")
    case None
    with t show ?thesis by (simp add: recover_pending_def)
  next
    case (Some event)
    have e: "recover_pending X r t = (if ev_type event = ''order_unknown'' then unknown_pending event t
       else if ev_type event = ''order_rejected'' then reject_pending event t
       else if ev_type event = ''order_filled'' then apply_fill X event t else (t, Inr ()))"
      by (simp only: recover_pending_def Some option.case)
    show ?thesis
      by (cases "ev_type event = ''order_unknown''"; cases "ev_type event = ''order_rejected''"; cases "ev_type event = ''order_filled''")
        (simp_all only: e if_True if_False p fst_conv t refl)
  qed
qed

lemma base_recover: "same_base s (fst (recover_local_pending X s))"
proof -
  have k: "keeps (same_base s) (each_tx (recover_pending X) rs)" for rs by (rule keeps_each_tx, rule keeps_recover)
  show ?thesis unfolding recover_local_pending_def by (rule runs_fst [OF k]) simp
qed

lemma keeps_base_events: "keeps (same_base s) (apply_events X expected events)"
proof (induction events)
  case (Cons event events)
  have "keeps (same_base s) (bind_tx (apply_event X event) (\<lambda>_. bind_tx (modify_tx (\<lambda>s. s\<lparr>mc_cursor := ev_seq event\<rparr>)) (\<lambda>_.
       if map_option event_number expected = Some (event_number event) then ret_tx True else apply_events X expected events)))"
    by (rule runs_bind [OF keeps_base_event], rule runs_bind [where R = "same_base s"]) (auto intro!: runs_modify runs_if runs_ret Cons.IH)
  then show ?case unfolding apply_events.simps by (intro keeps_guard)
qed (unfold apply_events.simps, rule runs_ret)

text \<open>The errors of an event are hard; after a success the hold is right.\<close>

lemma match_hard: "match_pending p s = (u, Inl e) \<Longrightarrow> hard_error e"
  by (cases rule: match_pending_cases [of p s]) (auto simp: hard_error_def)

lemma fill_values_hard: "fill_values X event pend = Inl e \<Longrightarrow> hard_error e"
  by (auto simp: fill_values_def Let_def bindE_Inl_iff made_def hard_error_def split: option.splits)

lemma report_hard: "report_fill X event pend s = (u, Inl e) \<Longrightarrow> hard_error e"
  by (cases rule: report_fill_cases [of X event pend s]) (auto intro: fill_values_hard)

lemma fill_hard: "apply_fill X event s = (u, Inl e) \<Longrightarrow> hard_error e"
  by (auto simp: apply_fill_def bind_tx_Inl_iff hard_error_def dest: match_hard report_hard split: option.splits)

lemma record_hard: "record_terminal event s = (u, Inl e) \<Longrightarrow> hard_error e" "record_reservation event s = (u, Inl e) \<Longrightarrow> hard_error e"
  by (cases rule: record_terminal_cases [of event s]; simp add: hard_error_def)
    (auto simp: record_reservation_def add_reservation_def Let_def hard_error_def split: sum.splits if_splits)

lemma pending_hard: "unknown_pending event s = (u, Inl e) \<Longrightarrow> hard_error e" "reject_pending event s = (u, Inl e) \<Longrightarrow> hard_error e"
  by (auto simp: unknown_pending_def reject_pending_def Let_def bind_tx_Inl_iff emit_def dest: match_hard)

lemma event_hard: "apply_event X event s = (u, Inl e) \<Longrightarrow> hard_error e"
  by (auto simp: apply_event_def bind_tx_Inl_iff dest: record_hard match_hard pending_hard fill_hard split: if_splits)
    (auto simp: hard_error_def unsupported_event_def)

lemma hold_soundI: "mc_hold u = mc_hold (refresh_execution_hold u) \<Longrightarrow> hold_sound u"
  by (simp add: hold_sound_def refresh_execution_hold_def split: if_splits)

lemma fill_sound:
  assumes "apply_fill X event s = (u, Inr ())"
  shows "hold_sound u"
proof -
  from assms obtain t pend where "match_pending (ev_payload event) s = (t, Inr pend)" and f: "report_fill X event pend t = (u, Inr ())"
    by (auto simp: apply_fill_def bind_tx_Inr_iff split: option.splits)
  show ?thesis by (cases rule: report_fill_cases [of X event pend t]) (use f in \<open>auto intro: hold_soundI\<close>)
qed

lemma matched_waiting: "match_pending p s = (u, Inr pend) \<Longrightarrow> mc_pending u \<noteq> []"
  by (cases rule: match_pending_cases [of p s]) auto

lemma event_sound: "apply_event X event s = (u, Inr ()) \<Longrightarrow> hold_sound u"
  by (auto simp: apply_event_def bind_tx_Inr_iff dest: fill_sound split: if_splits)
    (simp add: hold_sound_def matched_waiting)

lemma held_event: "runs held (apply_event X event) held failing"
proof -
  have "mc_identity (fst (apply_event X event s)) = mc_identity s" for s using base_event [of s X event] by (simp add: same_base_def)
  then show ?thesis
    unfolding runs_def held_def failing_def by (auto split: prod.splits sum.splits dest: event_sound event_hard) (metis fst_conv)+
qed

lemma held_view [simp]: "held (s\<lparr>mc_cursor := c\<rparr>) = held s" "held (s\<lparr>mc_calls := cs\<rparr>) = held s" "held (s\<lparr>mc_out := x\<rparr>) = held s"
  by (simp_all add: held_def)

lemma held_fails [simp]: "held s \<Longrightarrow> failing e s"
  by (simp add: held_def failing_def)

lemma held_events: "runs held (apply_events X expected events) held failing"
proof (induction events)
  case (Cons event events)
  have a: "runs held (bind_tx (apply_event X event) (\<lambda>_. bind_tx (modify_tx (\<lambda>s. s\<lparr>mc_cursor := ev_seq event\<rparr>)) (\<lambda>_.
       if map_option event_number expected = Some (event_number event) then ret_tx True else apply_events X expected events))) held failing"
    by (rule runs_bind [OF held_event], rule runs_bind [where R = held]) (auto intro!: runs_modify runs_if runs_ret Cons.IH)
  show ?case unfolding apply_events.simps by (intro runs_guard a) (simp_all add: held_fails)
qed (unfold apply_events.simps, rule runs_ret)

lemma held_call: "runs held (call_transport X c) held failing"
  by (rule runs_call) (simp_all add: held_fails)

lemma held_lift: "runs held (lift_tx r) held failing"
  by (rule runs_lift) (simp_all add: held_fails)

lemma held_consume_pages: "runs held (consume_pages X i expected n target) held failing"
  by (intro runs_consume_pages held_events held_call) simp

lemma held_identity: "runs hold_sound require_identity held failing"
  by (auto simp: runs_def require_identity_def held_def failing_def split: option.splits)

lemma runs_budget:
  assumes "runs P m Q E" "\<And>s m. E BudgetTimeout s \<Longrightarrow> E (ExecutionError m) s"
  shows "runs P (\<lambda>s. budget_failure (m s)) Q E"
  unfolding runs_def
proof (intro allI impI)
  fix s assume "P s"
  obtain u r where "m s = (u, r)" by fastforce
  with \<open>P s\<close> assms show "case budget_failure (m s) of (u, Inl e) \<Rightarrow> E e u | (u, Inr x) \<Rightarrow> Q u"
    unfolding runs_def by (cases r) (auto simp: budget_failure_def dest!: spec [of _ s] split: mt5_error.splits)
qed

lemma held_consume: "runs hold_sound (consume_event_pages X expected) held failing"
proof -
  have "runs held (\<lambda>s. budget_failure (consume_pages X i expected (xc_max_pages (xw_config X)) None s)) held failing" for i
    by (rule runs_budget [OF held_consume_pages]) (simp add: failing_def hard_error_def)
  then show ?thesis unfolding consume_event_pages_def by (rule runs_bind [OF held_identity])
qed

text \<open>A refresh leaves a right hold whatever happens.\<close>

lemma sound_refresh_snapshot: "runs hold_sound (refresh_snapshot X k) hold_sound (\<lambda>e s. hold_sound s \<or> hard_error e)"
proof -
  let ?E = "\<lambda>e s. hold_sound s \<or> hard_error e"
  have c: "runs hold_sound (call_transport X c) hold_sound ?E" for c by (rule runs_call) simp_all
  have l: "runs hold_sound (lift_tx r) hold_sound ?E" "runs hold_sound (\<lambda>s. lift_tx (f s) s) hold_sound ?E"
    for r :: "mt5_error + 'a" and f :: "mt5_client \<Rightarrow> mt5_error + 'a"
    by (rule runs_lift; simp) (simp add: runs_def split: sum.split)
  have v: "runs hold_sound (\<lambda>s. verify_unchanged_journal_tail X i (mc_cursor s) s) hold_sound ?E" for i
  proof -
    have "runs hold_sound (verify_unchanged_journal_tail X i cursor) hold_sound ?E" for cursor
      unfolding verify_unchanged_journal_tail_def
      by (rule runs_bind [OF c], rule runs_bind [OF l(1)], intro runs_if runs_ret runs_raise) simp_all
    then show ?thesis by (simp add: runs_def)
  qed
  have n: "runs hold_sound (install_snapshot X k d) (\<lambda>_. True) ?E" for d
    by (auto simp: runs_def install_snapshot_def Let_def emit_def hard_error_def)
  have m: "runs (\<lambda>_. True) (modify_tx (schedule_snapshot_refresh X k \<circ> clear_transient_request_timeout)) hold_sound ?E"
    by (rule runs_modify) simp
  have r: "runs hold_sound require_identity hold_sound ?E" by (rule runs_identity) simp_all
  show ?thesis
    unfolding refresh_snapshot_def
    by (rule runs_bind [OF r], rule runs_bind [OF c], rule runs_bind [OF l(2)], rule runs_bind [OF v], rule runs_bind [OF n m])
qed

lemma sound_refresh: "keeps hold_sound (refresh_snapshot_if_due X k force)"
proof (rule keepsI)
  fix s assume s: "hold_sound s"
  obtain u r where u: "refresh_snapshot X k s = (u, r)" by fastforce
  with s sound_refresh_snapshot [of X k] have "r = Inr () \<Longrightarrow> hold_sound u" unfolding runs_def by (auto dest!: spec [of _ s])
  with s u show "hold_sound (fst (refresh_snapshot_if_due X k force s))"
    by (auto simp: refresh_snapshot_if_due_def split: sum.splits mt5_error.splits)
qed

lemma sound_poll: "hold_sound s \<Longrightarrow> hold_sound (poll_round X k s)"
proof -
  assume s: "hold_sound s"
  have "runs held (refresh_snapshot_if_due X k False) hold_sound failing"
    by (rule runs_weaken [OF sound_refresh]) (simp_all add: held_def failing_def)
  then have r: "runs hold_sound (bind_tx (consume_event_pages X None) (\<lambda>_. refresh_snapshot_if_due X k False)) hold_sound failing"
    by (rule runs_bind [OF held_consume])
  obtain u x where u: "bind_tx (consume_event_pages X None) (\<lambda>_. refresh_snapshot_if_due X k False) s = (u, x)" by fastforce
  have e: "failing e u" if "x = Inl e" for e using r s u that unfolding runs_def by (auto dest!: spec [of _ s])
  have q: "x = Inr y \<Longrightarrow> hold_sound u" for y using r s u unfolding runs_def by (auto dest!: spec [of _ s])
  obtain v z where v: "poll_once X k s = (v, z)" by fastforce
  have "(\<forall>w. z = Inr w \<longrightarrow> hold_sound v) \<and> (\<forall>e. z = Inl e \<longrightarrow> failing e v)"
    using e q v u by (auto simp: poll_once_def failing_def hard_error_def split: sum.splits mt5_error.splits if_splits)
  then have z: "\<And>w. z = Inr w \<Longrightarrow> hold_sound v" "\<And>e. z = Inl e \<Longrightarrow> failing e v" by blast+
  show ?thesis
  proof (cases z)
    case (Inl f)
    from z(2) [OF this] show ?thesis using Inl s v by (auto simp: poll_round_def Let_def failing_def hard_error_def)
  next
    case (Inr w)
    with z(1) s v show ?thesis by (auto simp: poll_round_def)
  qed
qed

lemma sound_deny [simp]: "hold_sound (fst (deny order reason s)) = hold_sound s"
  by (simp add: deny_def emit_def)

lemma sound_submit_pending: "hold_sound (fst (submit_pending X p s))"
proof -
  define t where "t = s\<lparr>mc_out := mc_out s @ [OrderSubmitted (mo_client_order_id (pe_order p))],
    mc_pending := dict_set (mo_client_order_id (pe_order p)) p (mc_pending s), mc_seen := insert (mo_client_order_id (pe_order p)) (mc_seen s)\<rparr>"
  have t: "hold_sound t" by (cases "mc_pending s") (auto simp: t_def hold_sound_def)
  have c: "runs held (call_transport X c) held failing" for c by (rule held_call)
  have g: "runs held (\<lambda>s. if mc_identity s \<noteq> Some i' then (s, Inl (ExecutionError m))
     else if event_number outcome \<le> parse_nat (mc_cursor s) then (s, Inl (ExecutionError m'))
       else consume_event_pages X (Some outcome) s) held failing" for i' m m' outcome
    by (intro runs_guard runs_weaken [OF held_consume]) (simp_all add: held_def)
  have "runs hold_sound (send_pending X p) held failing"
    unfolding send_pending_def
    by (rule runs_bind [OF held_identity], rule runs_bind [OF held_call], rule runs_bind [OF held_lift], rule g)
  then have "snd (send_pending X p t) = Inr () \<Longrightarrow> hold_sound (fst (send_pending X p t))"
    using t unfolding runs_def by (cases "send_pending X p t") (auto simp: held_def dest!: spec [of _ t])
  moreover have "submit_pending X p s = (case send_pending X p t of
       (s, Inr _) \<Rightarrow> (s, Inr ())
     | (s, Inl e) \<Rightarrow> (submission_failed (mo_client_order_id (pe_order p)) e s,
         if e = BudgetTimeout \<or> is_transport_error e then Inr () else Inl e))"
    unfolding t_def by (simp add: submit_pending_def Let_def emit_def)
  ultimately show ?thesis by (auto split: prod.splits sum.splits)
qed

lemma sound_submit: "hold_sound s \<Longrightarrow> hold_sound (fst (submit_order X k c s))"
proof -
  assume s: "hold_sound s"
  have p: "hold_sound (fst (place_order X c planned expected t))" if "hold_sound t" for planned expected t
    using that by (auto simp: place_order_def sound_submit_pending split: option.splits sum.splits mt5_error.splits)
  have "hold_sound (fst (submit_checked X k c planned expected s))" for planned expected
  proof -
    obtain t x where t: "refresh_snapshot_if_due X k (mo_reduce_only (sc_order c) \<or> sc_position_id c \<noteq> None \<or> planned) s = (t, x)"
      by fastforce
    then have "hold_sound t"
      using runs_fst [OF sound_refresh s, of X k "mo_reduce_only (sc_order c) \<or> sc_position_id c \<noteq> None \<or> planned"] by simp
    moreover from this have "hold_sound (fst (refresh_refused (sc_order c) e t))" for e
      by (simp add: refresh_refused_def split: mt5_error.splits)
    ultimately show ?thesis using p by (cases x) (simp_all only: submit_checked_def t prod.case sum.case)
  qed
  with s show ?thesis by (auto simp: submit_order_def Let_def split: sum.splits)
qed

lemma sound_connect: "hold_sound (fst (connect X k s))"
proof -
  have "hold_sound u" if "bind_tx (establish X) (take_over X k) s = (u, Inr ())" for u
    using that by (auto simp: bind_tx_Inr_iff take_over_def modify_tx_def)
  moreover have "hold_sound (u\<lparr>mc_connected := b, mc_running := b'\<rparr>) = hold_sound u" for u b b'
    by (simp add: hold_sound_def hold_reasons_def)
  ultimately show ?thesis by (auto simp: connect_def split: prod.splits sum.splits)
qed

lemma reachable_hold_sound: "mt5_reachable X s \<Longrightarrow> hold_sound s"
proof (induction rule: mt5_reachable.induct)
  case fresh_client
  show ?case by (simp add: hold_sound_def initial_client_def)
next
  case (operated_client s x)
  then show ?case by (cases x) (simp_all add: sound_connect sound_submit sound_poll)
qed

section \<open>What is sent\<close>

lemma mutations_view [simp]: "mutations (s\<lparr>mc_calls := mc_calls s @ [c]\<rparr>) = mutations s @ (if request_sent c = [] then [] else [c])"
  "mutations (s\<lparr>mc_out := x\<rparr>) = mutations s" "mutations (s\<lparr>mc_last_failure := f\<rparr>) = mutations s"
  "mutations (s\<lparr>mc_out := x, mc_pending := p, mc_seen := n\<rparr>) = mutations s"
  by (simp_all add: mutations_def)

lemma mutations_base: "same_base s u \<Longrightarrow> mutations u = mutations s"
  by (simp add: same_base_def mutations_def)

lemma mutations_same: "same_orders s u \<Longrightarrow> mutations u = mutations s"
  by (simp add: same_orders_def)

lemma mutations_failed [simp]: "mutations (submission_failed r e s) = mutations s"
  by (simp add: submission_failed_def Let_def mutations_def refresh_execution_hold_def mark_unknown_def split: mt5_error.splits)

lemma consume_mutations: "mutations (fst (consume_event_pages X expected s)) = mutations s"
proof -
  have e: "keeps (\<lambda>u. mutations u = M) (apply_events X expected es)" for M es
    by (rule keepsI) (metis mutations_base runs_fst keeps_base_events base_refresh(5))
  have "keeps (\<lambda>u. mutations u = M) (consume_pages X i expected n target)" for M i n target
    by (intro runs_consume_pages e runs_call) simp_all
  then have "keeps (\<lambda>u. mutations u = M) (consume_event_pages X expected)" for M
    unfolding consume_event_pages_def
    by (intro runs_bind [where R = "\<lambda>u. mutations u = M"] runs_identity keepsI) (simp_all add: runs_fst [of "\<lambda>u. mutations u = M"])
  then show ?thesis by (rule runs_fst) simp
qed

lemma send_mutations:
  assumes i: "mc_identity s = Some i"
  shows "mutations (fst (send_pending X p s)) = mutations s @ [order_call (binding_of i) p]"
proof -
  define A where "A = (\<lambda>u. mutations u = mutations s)"
  define B where "B = (\<lambda>u. mutations u = mutations s @ [order_call (binding_of i) p])"
  define sent where "sent = bind_tx (call_transport X (order_call (binding_of i) p)) (\<lambda>data.
     bind_tx (lift_tx (wire_failure (identity_from_wire (xw_env X) (obj_get data ''identity'')))) (\<lambda>i' s.
     if mc_identity s \<noteq> Some i' then (s, Inl (ExecutionError ''submit identity changed''))
     else if event_number (event_of (obj_get data ''outcome'')) \<le> parse_nat (mc_cursor s) then
       (s, Inl (ExecutionError ''submit outcome does not advance the journal cursor''))
     else consume_event_pages X (Some (event_of (obj_get data ''outcome''))) s))"
  have g: "keeps B (\<lambda>s. if mc_identity s \<noteq> Some i' then (s, Inl (ExecutionError m))
     else if event_number outcome \<le> parse_nat (mc_cursor s) then (s, Inl (ExecutionError m'))
       else consume_event_pages X (Some outcome) s)" for i' m m' outcome
    by (intro keeps_guard keepsI) (simp add: consume_mutations B_def)
  have "runs A sent B (\<lambda>_. B)"
    unfolding sent_def
  proof (rule runs_bind [where R = B])
    show "runs A (call_transport X (order_call (binding_of i) p)) B (\<lambda>_. B)"
      by (rule runs_call) (simp_all add: A_def B_def order_call_sends)
    show "keeps B (bind_tx (lift_tx (wire_failure (identity_from_wire (xw_env X) (obj_get data ''identity'')))) (\<lambda>i' s.
     if mc_identity s \<noteq> Some i' then (s, Inl (ExecutionError ''submit identity changed''))
     else if event_number (event_of (obj_get data ''outcome'')) \<le> parse_nat (mc_cursor s) then
       (s, Inl (ExecutionError ''submit outcome does not advance the journal cursor''))
     else consume_event_pages X (Some (event_of (obj_get data ''outcome''))) s))" for data
      by (rule runs_bind [OF runs_lift g])
  qed
  then have "B (fst (sent s))" unfolding runs_def by (cases "sent s"; cases "snd (sent s)") (auto simp: A_def dest!: spec [of _ s])
  moreover have "require_identity s = (s, Inr i)" by (simp add: require_identity_def i)
  then have "send_pending X p s = sent s" by (simp only: send_pending_def sent_def bind_tx_def prod.case sum.case)
  ultimately show ?thesis by (simp add: B_def)
qed

lemma submit_pending_run:
  obtains t e where "mc_identity t = mc_identity s" "mutations t = mutations s"
    "announced_orders t = announced_orders s @ [mo_client_order_id (pe_order p)]"
    "fst (submit_pending X p s) = fst (send_pending X p t)
      \<or> fst (submit_pending X p s) = submission_failed (mo_client_order_id (pe_order p)) e (fst (send_pending X p t))"
proof -
  define t where "t = s\<lparr>mc_out := mc_out s @ [OrderSubmitted (mo_client_order_id (pe_order p))],
    mc_pending := dict_set (mo_client_order_id (pe_order p)) p (mc_pending s), mc_seen := insert (mo_client_order_id (pe_order p)) (mc_seen s)\<rparr>"
  have "submit_pending X p s = (case send_pending X p t of
       (s, Inr _) \<Rightarrow> (s, Inr ())
     | (s, Inl e) \<Rightarrow> (submission_failed (mo_client_order_id (pe_order p)) e s,
         if e = BudgetTimeout \<or> is_transport_error e then Inr () else Inl e))"
    unfolding t_def by (simp add: submit_pending_def Let_def emit_def)
  then show thesis
    by (cases "send_pending X p t"; cases "snd (send_pending X p t)") (auto intro: that [of t] simp: t_def announced_orders_def)
qed

lemma submit_mutations:
  "mc_identity s = Some i \<Longrightarrow> mutations (fst (submit_pending X p s)) = mutations s @ [order_call (binding_of i) p]"
  by (rule submit_pending_run [of s p X]) (auto simp: send_mutations)

lemma mutations_unchanged [simp]:
  "mutations (clear_transient_request_timeout s) = mutations s" "mutations (mark_transient_request_timeout e s) = mutations s"
  "mutations (fail_closed_disconnect s) = mutations s" "mutations (disconnect s) = mutations s"
  by (rule mutations_same; simp)+

lemma refresh_mutations [simp]: "mutations (fst (refresh_snapshot_if_due X k force s)) = mutations s"
  using mutations_same [OF same_refresh] .

lemma poll_mutations: "mutations (poll_round X k s) = mutations s"
proof -
  have "keeps (\<lambda>u. mutations u = mutations s) (bind_tx (consume_event_pages X None) (\<lambda>_. refresh_snapshot_if_due X k False))"
    by (rule runs_bind; rule keepsI) (simp_all add: consume_mutations)
  from runs_fst [OF this refl] have "mutations (fst (poll_once X k s)) = mutations s"
    by (auto simp: poll_once_def split: prod.splits sum.splits mt5_error.splits)
  then show ?thesis
    by (auto simp: poll_round_def Let_def split: prod.splits sum.splits)
qed

lemma connect_mutations: "mutations (fst (connect X k s)) = mutations s"
proof -
  let ?P = "\<lambda>u. mutations u = mutations s"
  have i: "keeps ?P (install_snapshot X k d)" for d
    by (rule keepsI) (use mutations_same [OF runs_fst [OF same_install same_orders_refl]] in simp)
  have r: "keeps ?P (recover_local_pending X)"
    by (rule keepsI) (use mutations_base [OF base_recover] in simp)
  have m: "keeps ?P (take_over X k f)" for f
    unfolding take_over_def
    by (rule runs_bind [where R = ?P], rule runs_modify, simp add: mutations_def, rule runs_bind [OF i], rule runs_bind [where R = ?P],
        rule runs_modify, simp add: install_journal_def mutations_def, rule runs_bind [OF r], rule runs_modify)
      (simp add: schedule_snapshot_refresh_def refresh_execution_hold_def mutations_def)
  have "keeps ?P (establish X)" by (rule keepsI) (use mutations_same [OF same_establish] in simp)
  then have "keeps ?P (bind_tx (establish X) (take_over X k))" by (rule runs_bind [OF _ m])
  from runs_fst [OF this refl] show ?thesis
    by (auto simp: connect_def cleared_def mutations_def split: prod.splits sum.splits)
qed

lemma deny_mutations [simp]: "mutations (fst (deny order reason s)) = mutations s"
  using mutations_same [OF same_deny] .

lemma place_mutations:
  assumes "hold_sound s" "mutations (fst (place_order X c planned expected s)) \<noteq> mutations s"
  obtains i p where "clear_to_trade s" "mc_pending s = []" "mc_identity s = Some i"
    "prepare X (sc_order c) (sc_position_id c) planned expected s = Inr p"
    "mutations (fst (place_order X c planned expected s)) = mutations s @ [order_call (binding_of i) p]"
proof -
  have p: "mc_hold s = None" "mc_pending s = []"
    using assms(2) by (auto simp: place_order_def split: option.splits if_splits)
  then have c: "clear_to_trade s" using assms(1) by (intro no_reason_clear) (simp add: hold_sound_def)
  then obtain i where i: "mc_identity s = Some i" by (auto simp: clear_to_trade_def)
  obtain q where q: "prepare X (sc_order c) (sc_position_id c) planned expected s = Inr q"
    using assms(2) p by (auto simp: place_order_def split: sum.splits mt5_error.splits)
  then have "mutations (fst (place_order X c planned expected s)) = mutations s @ [order_call (binding_of i) q]"
    using p submit_mutations [OF i] by (simp add: place_order_def)
  from that [OF c p(2) i q this] show thesis .
qed

lemma refresh_run:
  assumes "hold_sound s" "refresh_snapshot_if_due X k force s = (t, x)"
  shows "hold_sound t \<and> mutations t = mutations s"
  using runs_fst [OF sound_refresh assms(1), of X k force] refresh_mutations [of X k force s] unfolding assms(2) fst_conv by blast

text \<open>The client after the refresh that precedes the order.\<close>

definition refreshed :: "mt5_world \<Rightarrow> mt5_clock \<Rightarrow> submit_command \<Rightarrow> bool \<Rightarrow> mt5_client \<Rightarrow> mt5_client" where
  "refreshed X k c planned s =
    fst (refresh_snapshot_if_due X k (mo_reduce_only (sc_order c) \<or> sc_position_id c \<noteq> None \<or> planned) s)"

lemma order_sent_when_clear:
  assumes "hold_sound s" "mutations (fst (submit_order X k c s)) \<noteq> mutations s"
  obtains planned expected i p where "mo_client_order_id (sc_order c) \<notin> mc_seen s"
    "hedge_plan_precondition c = Inr (planned, expected)"
    "clear_to_trade (refreshed X k c planned s)" "mc_pending (refreshed X k c planned s) = []"
    "mc_identity (refreshed X k c planned s) = Some i"
    "prepare X (sc_order c) (sc_position_id c) planned expected (refreshed X k c planned s) = Inr p"
    "mutations (fst (submit_order X k c s)) = mutations s @ [order_call (binding_of i) p]"
proof -
  obtain planned expected where n: "mo_client_order_id (sc_order c) \<notin> mc_seen s" "hedge_plan_precondition c = Inr (planned, expected)"
    and m: "submit_order X k c s = submit_checked X k c planned expected s"
    using assms(2) by (auto simp: submit_order_def Let_def split: if_splits sum.splits)
  obtain t x where t: "refresh_snapshot_if_due X k (mo_reduce_only (sc_order c) \<or> sc_position_id c \<noteq> None \<or> planned) s = (t, x)"
    by fastforce
  then have r: "refreshed X k c planned s = t" by (simp add: refreshed_def)
  have h: "hold_sound t" and same: "mutations t = mutations s"
    using refresh_run [OF assms(1) t] by blast+
  have "mutations (fst (refresh_refused (sc_order c) e t)) = mutations t" for e
    by (simp add: refresh_refused_def split: mt5_error.splits)
  then obtain y where "submit_checked X k c planned expected s = place_order X c planned expected t"
    using assms(2) same unfolding m submit_checked_def t by (cases x) simp_all
  with assms(2) same have "mutations (fst (place_order X c planned expected t)) \<noteq> mutations t"
    and e: "submit_order X k c s = place_order X c planned expected t" by (simp_all add: m)
  from place_mutations [OF h this(1)] obtain i p where "clear_to_trade t" "mc_pending t = []" "mc_identity t = Some i"
    "prepare X (sc_order c) (sc_position_id c) planned expected t = Inr p"
    "mutations (fst (place_order X c planned expected t)) = mutations t @ [order_call (binding_of i) p]" .
  then show thesis by (intro that [OF n]) (simp_all add: r e same)
qed

lemma only_submit_sends: "mutations (run_mt5 X x s) \<noteq> mutations s \<Longrightarrow> \<exists>k c. x = Submit k c"
  by (cases x) (simp_all add: poll_mutations connect_mutations)

end
