(* ===== verification/Mt5_Pages.thy ===== *)
theory Mt5_Pages
  imports Mt5_Client
begin

text \<open>
  What an accepted answer of the MT5 expert advisor says: a page of events holds exactly the events
  after the requested cursor, and the outcome of an order is the outcome of the requested order.
\<close>

section \<open>Checked values\<close>

lemma case_kind_Inr:
  "(case v of PList vs \<Rightarrow> f vs | _ \<Rightarrow> Inl e) = Inr y \<longleftrightarrow> (\<exists>vs. v = PList vs \<and> f vs = Inr y)"
  "(case v of PBool b \<Rightarrow> g b | _ \<Rightarrow> Inl e) = Inr y \<longleftrightarrow> (\<exists>b. v = PBool b \<and> g b = Inr y)"
  by (cases v; simp)+

lemma closed_object_Inr: "closed_object v label names = Inr d \<Longrightarrow> v = PObj d \<and> dict_keys d = names"
  by (auto simp: closed_object_def split: pyval.splits if_splits)

lemma uint64_Inr: "uint64_string positive v label = Inr s \<Longrightarrow> v = PStr s \<and> canonical_uint s \<and> parse_nat s \<le> UINT64_MAX"
  by (auto simp: uint64_string_def split: pyval.splits if_splits)

lemma text_Inr: "validated_text n v label = Inr s \<Longrightarrow> v = PStr s"
  by (auto simp: validated_text_def split: pyval.splits if_splits)

lemma name_Inr: "validated_identifier n v label = Inr s \<Longrightarrow> v = PStr s"
  by (auto simp: validated_identifier_def bindE_Inr_iff dest!: text_Inr split: if_splits)

lemma token_Inr: "validated_safe_token v label = Inr s \<Longrightarrow> v = PStr s"
  by (auto simp: validated_safe_token_def bindE_Inr_iff dest!: name_Inr split: if_splits)

lemma bool_Inr: "validated_bool v label = Inr b \<Longrightarrow> v = PBool b"
  by (auto simp: validated_bool_def split: pyval.splits)

section \<open>Events\<close>

lemma valid_event:
  assumes "validate_event stream v = Inr (seq, event_type)"
  shows "ev_seq (event_of v) = seq \<and> ev_type (event_of v) = event_type \<and> ev_stream_id (event_of v) = stream \<and> event_type \<in> event_types"
proof -
  from assms obtain d time boot where "closed_object v ''execution event'' event_fields = Inr d"
    and s: "uint64_string True (obj_get d ''event_seq'') ''event.event_seq'' = Inr seq"
    and t: "validated_safe_token (obj_get d ''event_type'') ''event.event_type'' = Inr event_type"
    and r: "obj_get d ''stream_id'' = PStr stream" "event_type \<in> event_types"
    unfolding validate_event_def by (auto simp: bindE_Inr_iff simp del: insert_iff split: if_splits)
  then have "v = PObj d" using closed_object_Inr by blast
  then show ?thesis using uint64_Inr [OF s] token_Inr [OF t] r by (simp add: event_of_def value_obj_def text_value_def)
qed

lemma valid_events:
  assumes "mapE (validate_event stream) vs = Inr checked"
  shows "map (\<lambda>(seq, _). parse_nat seq) checked = map (\<lambda>v. event_number (event_of v)) vs
    \<and> (\<forall>v \<in> set vs. ev_stream_id (event_of v) = stream \<and> ev_type (event_of v) \<in> event_types)"
  using assms
  by (induction vs arbitrary: checked) (auto simp: bindE_Inr_iff event_number_def dest!: valid_event)

lemma contiguous_upto: "contiguous (x # xs) \<Longrightarrow> x # xs = [x..last (x # xs)]"
proof (induction xs arbitrary: x)
  case Nil
  show ?case by simp
next
  case (Cons y xs)
  then have "y = x + 1" and u: "y # xs = [y..last (y # xs)]" by (simp, metis contiguous.simps(1))
  from this(2) have l: "y \<le> last (y # xs)" by (metis list.distinct(1) upto_Nil2 not_le)
  define L where "L = last (y # xs)"
  from l \<open>y = x + 1\<close> have "[x..L] = x # [y..L]" by (simp add: L_def upto_rec1)
  moreover have "y # xs = [y..L]" using u by (simp only: L_def)
  moreover have "last (x # y # xs) = L" by (simp add: L_def)
  ultimately show ?case by metis
qed

section \<open>A page of events\<close>

lemma valid_events_page:
  assumes "validate_events_data E v = Inr ()"
  obtains d i where "v = PObj d" "identity_from_wire E (obj_get d ''identity'') = Inr i"
    "contiguous (map (\<lambda>v. event_number (event_of v)) (events_of d))"
    "events_of d \<noteq> [] \<Longrightarrow> event_number (event_of (last (events_of d))) = number_of (obj_get d ''next_cursor'')"
    "\<And>v. v \<in> set (events_of d) \<Longrightarrow> ev_stream_id (event_of v) = id_stream_id i \<and> ev_type (event_of v) \<in> event_types"
    "obj_get d ''has_more'' = PBool (number_of (obj_get d ''next_cursor'') < number_of (obj_get d ''last_cursor''))"
    "number_of (obj_get d ''first_retained_cursor'') \<le> number_of (obj_get d ''next_cursor'')"
    "number_of (obj_get d ''next_cursor'') \<le> number_of (obj_get d ''last_cursor'')"
    "events_of d = [] \<Longrightarrow> obj_get d ''has_more'' = PBool False"
proof -
  from assms obtain d i stream first final cursor more vs checked where
    d: "closed_object v ''events data'' {''events'', ''first_retained_cursor'', ''has_more'', ''identity'', ''last_cursor'',
      ''next_cursor'', ''stream_id''} = Inr d" and i: "identity_from_wire E (obj_get d ''identity'') = Inr i"
    and stream: "stream = id_stream_id i"
    and "uint64_string False (obj_get d ''first_retained_cursor'') ''first_retained_cursor'' = Inr first"
    and "uint64_string False (obj_get d ''last_cursor'') ''last_cursor'' = Inr final"
    and "uint64_string False (obj_get d ''next_cursor'') ''next_cursor'' = Inr cursor"
    and order: "parse_nat first \<le> parse_nat cursor" "parse_nat cursor \<le> parse_nat final"
    and "validated_bool (obj_get d ''has_more'') ''events.has_more'' = Inr more" and more: "more = (parse_nat cursor < parse_nat final)"
    and vs: "obj_get d ''events'' = PList vs" and checked: "mapE (validate_event stream) vs = Inr checked"
    and contiguous: "contiguous (map (\<lambda>(seq, _). parse_nat seq) checked)"
    and last: "map (\<lambda>(seq, _). parse_nat seq) checked \<noteq> [] \<Longrightarrow> last (map (\<lambda>(seq, _). parse_nat seq) checked) = parse_nat cursor"
    and empty: "map (\<lambda>(seq, _). parse_nat seq) checked = [] \<Longrightarrow> \<not> more"
    unfolding validate_events_data_def Let_def
    by (auto simp: bindE_Inr_iff case_kind_Inr simp del: insert_iff contiguous.simps split: if_splits)
  then have n: "number_of (obj_get d ''first_retained_cursor'') = parse_nat first" "number_of (obj_get d ''last_cursor'') = parse_nat final"
    "number_of (obj_get d ''next_cursor'') = parse_nat cursor" "obj_get d ''has_more'' = PBool more"
    by (auto simp: number_of_def dest!: uint64_Inr bool_Inr)
  have e: "events_of d = vs" by (simp add: events_of_def vs)
  from valid_events [OF checked] have s: "map (\<lambda>(seq, _). parse_nat seq) checked = map (\<lambda>v. event_number (event_of v)) vs"
    and t: "\<And>v. v \<in> set vs \<Longrightarrow> ev_stream_id (event_of v) = id_stream_id i \<and> ev_type (event_of v) \<in> event_types"
    by (simp_all add: stream)
  show thesis
  proof (rule that [of d i])
    show "v = PObj d" using closed_object_Inr [OF d] by simp
    show "contiguous (map (\<lambda>v. event_number (event_of v)) (events_of d))" using contiguous by (simp only: s e)
    show "events_of d \<noteq> [] \<Longrightarrow> event_number (event_of (last (events_of d))) = number_of (obj_get d ''next_cursor'')"
      using last unfolding s e n by (simp add: last_map)
    show "events_of d = [] \<Longrightarrow> obj_get d ''has_more'' = PBool False" using empty unfolding s e n by simp
  qed (use i t order more in \<open>simp_all add: n e\<close>)
qed

lemma page_numbers:
  assumes "contiguous (map f vs)" "vs \<noteq> []" "f (hd vs) = a + 1" "f (last vs) = c"
  shows "map f vs = [a + 1..c]"
  using assms contiguous_upto [of "f (hd vs)" "map f (tl vs)"] by (cases vs) (simp_all add: last_map split: if_splits)

section \<open>Responses\<close>

lemma valid_response:
  assumes "decode_response_for E r raw = Inr response" "obj_get response ''ok'' = PBool True" "request_binding r = Some b"
  obtains i where "obj_get response ''op'' = PStr (request_op r)" "obj_get response ''request_id'' = PStr (request_id r)"
    "validate_success_data E (request_op r) (obj_get response ''data'') = Inr ()"
    "identity_from_wire E (obj_get (value_obj (obj_get response ''data'')) ''identity'') = Inr i" "binding_of i = b"
    "(case r of ExecutionEventsRequest rid b after limit \<Rightarrow> page_follows after limit (value_obj (obj_get response ''data''))
       | _ \<Rightarrow> outcome_matches r (value_obj (obj_get response ''data''))) = Inr ()"
proof -
  from assms have d: "decode_response E raw = Inr response"
    and o: "obj_get response ''op'' = PStr (request_op r)" "obj_get response ''request_id'' = PStr (request_id r)"
    by (auto simp: decode_response_for_def bindE_Inr_iff Let_def split: if_splits)
  from assms o obtain i where "identity_from_wire E (obj_get (value_obj (obj_get response ''data'')) ''identity'') = Inr i" "binding_of i = b"
    "(case r of ExecutionEventsRequest rid b after limit \<Rightarrow> page_follows after limit (value_obj (obj_get response ''data''))
       | _ \<Rightarrow> outcome_matches r (value_obj (obj_get response ''data''))) = Inr ()"
    by (auto simp: decode_response_for_def bindE_Inr_iff Let_def split: if_splits)
  moreover from d assms(2) o(1) have "validate_success_data E (request_op r) (obj_get response ''data'') = Inr ()"
    by (auto simp: decode_response_def bindE_Inr_iff case_kind_Inr dest!: name_Inr split: if_splits)
  ultimately show thesis using that o by blast
qed

text \<open>An accepted page of the events after a cursor.\<close>

abbreviation page_data :: "pyobj \<Rightarrow> pyobj" where
  "page_data response \<equiv> value_obj (obj_get response ''data'')"

lemma page_exact:
  assumes "decode_response_for E (ExecutionEventsRequest rid b after limit) raw = Inr response" "obj_get response ''ok'' = PBool True"
  shows "map event_number (map event_of (events_of (page_data response)))
      = [parse_nat after + 1..number_of (obj_get (page_data response) ''next_cursor'')]
    \<and> int (length (events_of (page_data response))) \<le> limit
    \<and> parse_nat after \<le> number_of (obj_get (page_data response) ''next_cursor'')
    \<and> (\<forall>v \<in> set (events_of (page_data response)). ev_stream_id (event_of v) = bd_stream_id b)
    \<and> (obj_get (page_data response) ''has_more'' = PBool True \<longleftrightarrow>
        number_of (obj_get (page_data response) ''next_cursor'') < number_of (obj_get (page_data response) ''last_cursor''))
    \<and> (obj_get (page_data response) ''has_more'' = PBool True \<longrightarrow> parse_nat after < number_of (obj_get (page_data response) ''next_cursor''))"
proof -
  let ?d = "page_data response"
  from assms obtain i where success: "validate_events_data E (obj_get response ''data'') = Inr ()"
    and i: "identity_from_wire E (obj_get ?d ''identity'') = Inr i" "binding_of i = b" and f: "page_follows after limit ?d = Inr ()"
    by (rule valid_response) (auto simp: validate_success_data_def CAPABILITIES_def)
  from success obtain d j where "obj_get response ''data'' = PObj d" "identity_from_wire E (obj_get d ''identity'') = Inr j"
    and c: "contiguous (map (\<lambda>v. event_number (event_of v)) (events_of d))"
    and l: "events_of d \<noteq> [] \<Longrightarrow> event_number (event_of (last (events_of d))) = number_of (obj_get d ''next_cursor'')"
    and s: "\<And>v. v \<in> set (events_of d) \<Longrightarrow> ev_stream_id (event_of v) = id_stream_id j \<and> ev_type (event_of v) \<in> event_types"
    and m: "obj_get d ''has_more'' = PBool (number_of (obj_get d ''next_cursor'') < number_of (obj_get d ''last_cursor''))"
    and e: "events_of d = [] \<Longrightarrow> obj_get d ''has_more'' = PBool False"
    by (rule valid_events_page) blast
  then have d: "?d = d" and j: "j = i" using i by (simp_all add: value_obj_def)
  have stream: "id_stream_id i = bd_stream_id b" using i(2) by (auto simp: binding_of_def)
  have n: "number_of (obj_get (value_obj v) ''event_seq'') = event_number (event_of v)" for v
    by (simp add: event_number_def event_of_def Let_def number_of_def text_value_def parse_nat_def split: pyval.splits)
  from f have b: "int (length (events_of d)) \<le> limit" "events_of d \<noteq> [] \<Longrightarrow> event_number (event_of (hd (events_of d))) = parse_nat after + 1"
    "events_of d = [] \<Longrightarrow> number_of (obj_get d ''next_cursor'') = parse_nat after"
    "obj_get d ''has_more'' = PBool True \<Longrightarrow> parse_nat after < number_of (obj_get d ''next_cursor'')"
    unfolding page_follows_def Let_def d n by (auto split: if_splits)
  have "map (\<lambda>v. event_number (event_of v)) (events_of d) = [parse_nat after + 1..number_of (obj_get d ''next_cursor'')]
    \<and> parse_nat after \<le> number_of (obj_get d ''next_cursor'')"
  proof (cases "events_of d = []")
    case False
    from page_numbers [OF c False b(2) [OF False] l [OF False]] have
      r: "map (\<lambda>v. event_number (event_of v)) (events_of d) = [parse_nat after + 1..number_of (obj_get d ''next_cursor'')]" .
    moreover from this False have "[parse_nat after + 1..number_of (obj_get d ''next_cursor'')] \<noteq> []" by (metis map_is_Nil_conv)
    ultimately show ?thesis by (simp add: upto.simps split: if_splits)
  qed (use b(3) in simp)
  with b s m show ?thesis unfolding d j stream by (simp add: o_def)
qed

section \<open>The outcome of an order\<close>

lemma outcome_event:
  assumes "decode_response_for E r raw = Inr response" "obj_get response ''ok'' = PBool True" "request_binding r = Some b"
    "request_op r \<in> {''submit_market_delta'', ''close_position''}"
  obtains "ev_type (event_of (obj_get (page_data response) ''outcome'')) \<in> terminal_types"
    "ev_stream_id (event_of (obj_get (page_data response) ''outcome'')) = bd_stream_id b"
    "outcome_matches r (page_data response) = Inr ()"
    "\<exists>i. identity_from_wire E (obj_get (page_data response) ''identity'') = Inr i \<and> binding_of i = b"
proof -
  from assms(4) have o: "request_op r \<in> set CAPABILITIES" "request_op r \<notin> {''hello'', ''get_snapshot'', ''get_execution_events''}"
    by (auto simp: CAPABILITIES_def)
  from assms(1-3) obtain i where success: "validate_success_data E (request_op r) (obj_get response ''data'') = Inr ()"
    and i: "identity_from_wire E (obj_get (page_data response) ''identity'') = Inr i" "binding_of i = b"
    and m: "(case r of ExecutionEventsRequest rid b after limit \<Rightarrow> page_follows after limit (page_data response)
       | _ \<Rightarrow> outcome_matches r (page_data response)) = Inr ()"
    by (rule valid_response)
  from success o obtain d j seq t e where d: "closed_object (obj_get response ''data'') ''submit data'' {''identity'', ''outcome''} = Inr d"
    and j: "identity_from_wire E (obj_get d ''identity'') = Inr j"
    and e: "closed_object (obj_get d ''outcome'') ''submit outcome'' event_fields = Inr e"
    and v: "validate_event (id_stream_id j) (PObj e) = Inr (seq, t)" and t: "t \<in> terminal_types"
    unfolding validate_success_data_def by (auto simp: bindE_Inr_iff simp del: insert_iff split: if_splits) blast
  have p: "page_data response = d" "obj_get d ''outcome'' = PObj e"
    using closed_object_Inr [OF d] closed_object_Inr [OF e] by (simp_all add: value_obj_def)
  moreover have "id_stream_id j = bd_stream_id b" using i j unfolding p by (auto simp: binding_of_def)
  moreover have "outcome_matches r (page_data response) = Inr ()" using m assms(4) by (cases r) simp_all
  ultimately show thesis using that valid_event [OF v] t i by simp
qed

lemma members_agree: "\<not> list_ex (\<lambda>(name, v). obj_get p name \<noteq> v) xs \<longleftrightarrow> (\<forall>(name, v) \<in> set xs. obj_get p name = v)"
  by (induction xs) auto

lemma field_at: "obj_get p name = PStr s \<Longrightarrow> field (Mapping p) name = s"
  by (simp add: obj_get_def field_def text_value_def split: option.splits)

lemma text_at: "obj_get p name = PStr s \<Longrightarrow> dict_get p name = Some (PStr s)"
  by (simp add: obj_get_def split: option.splits)

lemma outcome_payload: "ev_payload (event_of (obj_get d ''outcome'')) = Mapping (value_obj (obj_get (outcome_of d) ''payload''))"
  by (simp add: event_of_def Let_def outcome_of_def)

lemma delta_outcome:
  assumes "outcome_matches (SubmitMarketDeltaRequest rid b client side lots) d = Inr ()"
  defines "p \<equiv> ev_payload (event_of (obj_get d ''outcome''))"
  shows "field p ''client_request_id'' = client \<and> field p ''side'' = side \<and> field p ''quantity_lots'' = lots
    \<and> Mapping.lookup p ''position_ticket'' = None \<and> Mapping.lookup p ''position_identifier'' = None"
  using assms(1) unfolding p_def outcome_payload
  by (auto simp: outcome_matches_def Let_def members_agree submission_members_def map_of_eq_None_iff dest: field_at split: if_splits)

lemma close_outcome:
  assumes "outcome_matches (ClosePositionRequest rid b client side lots ticket position) d = Inr ()"
  defines "event \<equiv> event_of (obj_get d ''outcome'')"
  defines "p \<equiv> ev_payload event"
  shows "field p ''client_request_id'' = client \<and> field p ''side'' = side \<and> field p ''quantity_lots'' = lots
    \<and> Mapping.lookup p ''position_ticket'' = Some (PStr ticket) \<and> Mapping.lookup p ''position_identifier'' = Some (PStr position)
    \<and> (ev_type event = ''order_filled'' \<longrightarrow> field p ''venue_position_id'' = position)"
proof -
  have "ev_type event = ''order_filled'' \<Longrightarrow> obj_get (outcome_of d) ''event_type'' = PStr ''order_filled''"
    by (simp add: event_def event_of_def Let_def outcome_of_def text_value_def split: pyval.splits)
  then show ?thesis
    using assms(1) unfolding p_def event_def outcome_payload
    by (auto simp: outcome_matches_def Let_def members_agree submission_members_def dest: field_at text_at split: if_splits)
qed

end
