(* ===== verification/Mt5_Journal.thy ===== *)
theory Mt5_Journal
  imports Mt5_Safety Mt5_Pages
begin

text \<open>
  The journal the client keeps while it applies events one by one is the journal it would project from
  the whole stream: the incremental and the complete reading of the execution journal agree.
\<close>

section \<open>The step of a projection\<close>

text \<open>The journal of a stream that began with a boot and whose current boot is \<open>b\<close>.\<close>

abbreviation unread :: projecting where
  "unread \<equiv> \<lparr>pj_journal = no_journal, pj_boots = {}, pj_active = None\<rparr>"

lemma project_event_active: "project_event event P = Inr P' \<Longrightarrow> pj_active P \<noteq> None \<Longrightarrow> pj_active P' \<noteq> None"
  by (auto simp: project_event_def bindE_Inr_iff split: if_splits)

lemma project_events_active: "foldE project_event es P = Inr P' \<Longrightarrow> pj_active P \<noteq> None \<Longrightarrow> pj_active P' \<noteq> None"
  by (induction es arbitrary: P) (fastforce simp: bindE_Inr_iff dest: project_event_active)+

lemma project_journal_iff:
  "project_journal b es = Inr j \<longleftrightarrow> es \<noteq> [] \<and> ev_type (hd es) = ''stream_started''
    \<and> (\<exists>P. foldE project_event es unread = Inr P \<and> pj_active P = Some b \<and> pj_journal P = j)"
proof (cases es)
  case (Cons e rest)
  have "ev_type e = ''stream_started'' \<Longrightarrow> foldE project_event es unread = Inr P \<Longrightarrow> pj_active P \<noteq> None" for P
    by (auto simp: Cons project_event_def dest!: project_events_active)
  then show ?thesis
    unfolding project_journal_def Cons list.case by (auto simp: bindE_Inr_iff Cons simp del: foldE.simps)
qed (simp add: project_journal_def)

lemma project_journal_step:
  assumes "project_journal b es = Inr j" "ev_boot_id event = b"
    "ev_type event = ''submission_reserved'' \<and> add_reservation event j = Inr j'
      \<or> ev_type event \<in> terminal_types \<and> add_terminal event j = Inr j'"
  shows "project_journal b (es @ [event]) = Inr j'"
proof -
  from assms(1) obtain P where e: "es \<noteq> []" "ev_type (hd es) = ''stream_started''" and f: "foldE project_event es unread = Inr P"
    and P: "pj_active P = Some b" "pj_journal P = j"
    unfolding project_journal_iff by blast
  have "project_event event P = Inr (P\<lparr>pj_journal := j'\<rparr>)"
    using assms(2,3) P by (auto simp: project_event_def terminal_types_def)
  then show ?thesis using e f P unfolding project_journal_iff by (simp add: foldE_append)
qed

section \<open>The journal under an event\<close>

lemma keeps_journal:
  "keeps (\<lambda>s. mc_journal s = j) (match_pending p)" "keeps (\<lambda>s. mc_journal s = j) (unknown_pending event)"
  "keeps (\<lambda>s. mc_journal s = j) (reject_pending event)" "keeps (\<lambda>s. mc_journal s = j) (apply_fill X event)"
  "keeps (\<lambda>s. mc_journal s = j) (modify_tx refresh_execution_hold)"
proof -
  have m: "keeps (\<lambda>s. mc_journal s = j) (match_pending p)" for p
  proof (rule keepsI)
    fix s :: mt5_client assume "mc_journal s = j"
    then show "mc_journal (fst (match_pending p s)) = j"
      by (cases rule: match_pending_cases [of p s]) (auto simp: mark_unknown_def)
  qed
  show "keeps (\<lambda>s. mc_journal s = j) (match_pending p)" by (rule m)
  show "keeps (\<lambda>s. mc_journal s = j) (unknown_pending event)"
    unfolding unknown_pending_def by (rule runs_bind [OF m], rule runs_modify) (simp add: mark_unknown_def)
  show "keeps (\<lambda>s. mc_journal s = j) (reject_pending event)"
    unfolding reject_pending_def Let_def
    by (rule runs_bind [OF m], rule runs_bind [where R = "\<lambda>s. mc_journal s = j"], rule runs_emit, simp, rule runs_modify) (simp add: drop_pending_def)
  have r: "keeps (\<lambda>s. mc_journal s = j) (report_fill X event pend)" for pend
  proof (rule keepsI)
    fix t :: mt5_client assume "mc_journal t = j"
    then show "mc_journal (fst (report_fill X event pend t)) = j"
      by (cases rule: report_fill_cases [of X event pend t]) (auto simp: settled_order_def)
  qed
  show "keeps (\<lambda>s. mc_journal s = j) (apply_fill X event)"
    unfolding apply_fill_def
  proof (rule runs_bind [OF m])
    fix pend
    show "keeps (\<lambda>s. mc_journal s = j) (case fill_mismatch (ev_payload event) pend of
       Some reason \<Rightarrow> bind_tx (modify_tx (mark_unknown (mo_client_order_id (pe_order pend)))) (\<lambda>_. raise_tx (ExecutionError reason))
     | None \<Rightarrow> report_fill X event pend)"
    proof (cases "fill_mismatch (ev_payload event) pend")
      case (Some reason)
      show ?thesis
        unfolding Some option.case
        by (rule runs_bind [where R = "\<lambda>s. mc_journal s = j"], rule runs_modify, simp add: mark_unknown_def, rule runs_raise)
    qed (simp add: r)
  qed
  show "keeps (\<lambda>s. mc_journal s = j) (modify_tx refresh_execution_hold)" by (rule runs_modify) simp
qed

lemma journal_kept: "keeps (\<lambda>s. mc_journal s = j) m \<Longrightarrow> m s = (t, r) \<Longrightarrow> mc_journal s = j \<Longrightarrow> mc_journal t = j"
  using runs_fst [of "\<lambda>s. mc_journal s = j" m s] by simp

lemma recorded: 
  "record_reservation event s = (t, Inr ()) \<Longrightarrow> add_reservation event (mc_journal s) = Inr (mc_journal t)"
  "record_terminal event s = (t, Inr ()) \<Longrightarrow> add_terminal event (mc_journal s) = Inr (mc_journal t)"
  by (auto simp: record_reservation_def record_terminal_def split: sum.splits)

lemma applied_event:
  assumes "apply_event X event s = (t, Inr ())"
  shows "ev_type event = ''submission_reserved'' \<and> add_reservation event (mc_journal s) = Inr (mc_journal t)
      \<or> ev_type event \<in> terminal_types \<and> add_terminal event (mc_journal s) = Inr (mc_journal t)"
proof -
  have tail: "bind_tx (record_terminal event) (\<lambda>_. m) s = (t, Inr ()) \<Longrightarrow> (\<And>j. keeps (\<lambda>s. mc_journal s = j) m) \<Longrightarrow>
      add_terminal event (mc_journal s) = Inr (mc_journal t)" for m
    by (auto simp: bind_tx_Inr_iff dest!: recorded(2)) (metis journal_kept)
  have head: "bind_tx (record_reservation event) (\<lambda>_. m) s = (t, Inr ()) \<Longrightarrow> (\<And>j. keeps (\<lambda>s. mc_journal s = j) m) \<Longrightarrow>
      add_reservation event (mc_journal s) = Inr (mc_journal t)" for m
    by (auto simp: bind_tx_Inr_iff dest!: recorded(1)) (metis journal_kept)
  have k: "keeps (\<lambda>s. mc_journal s = j) (bind_tx (unknown_pending event) (\<lambda>_. modify_tx refresh_execution_hold))"
    "keeps (\<lambda>s. mc_journal s = j) (bind_tx (reject_pending event) (\<lambda>_. modify_tx refresh_execution_hold))"
    "keeps (\<lambda>s. mc_journal s = j) (bind_tx (match_pending (ev_payload event)) (\<lambda>_. ret_tx ()))" for j
    by (rule runs_bind [OF keeps_journal(2) keeps_journal(5)] runs_bind [OF keeps_journal(3) keeps_journal(5)]
        runs_bind [OF keeps_journal(1) runs_ret], simp?)+
  consider "ev_type event = ''submission_reserved''" | "ev_type event = ''order_unknown''" | "ev_type event = ''order_rejected''"
    | "ev_type event = ''order_filled''"
    using assms by (auto simp: apply_event_def split: if_splits)
  then show ?thesis
  proof cases
    case 1
    then show ?thesis using assms head [OF _ k(3)] by (simp add: apply_event_def)
  next
    case 2
    then show ?thesis using assms tail [OF _ k(1)] by (simp add: apply_event_def terminal_types_def)
  next
    case 3
    then show ?thesis using assms tail [OF _ k(2)] by (simp add: apply_event_def terminal_types_def)
  next
    case 4
    then show ?thesis using assms tail [OF _ keeps_journal(4)] by (simp add: apply_event_def terminal_types_def)
  qed
qed

lemma projected_events:
  assumes "project_journal b es = Inr (mc_journal s)" "\<forall>event \<in> set events. ev_boot_id event = b"
    "apply_events X None events s = (t, Inr found)"
  shows "project_journal b (es @ events) = Inr (mc_journal t)"
  using assms
proof (induction events arbitrary: es s)
  case (Cons event events)
  from Cons.prems(3) obtain u where u: "apply_event X event s = (u, Inr ())"
    and v: "apply_events X None events (u\<lparr>mc_cursor := ev_seq event\<rparr>) = (t, Inr found)"
    by (auto simp: bind_tx_Inr_iff modify_tx_def split: if_splits)
  have "project_journal b (es @ [event]) = Inr (mc_journal u)"
    using project_journal_step [OF Cons.prems(1) _ applied_event [OF u]] Cons.prems(2) by simp
  with Cons.IH [of "es @ [event]" "u\<lparr>mc_cursor := ev_seq event\<rparr>"] v Cons.prems(2) show ?case by simp
qed simp

end
