(* ===== verification/Mt5_Guarantees.thy ===== *)
theory Mt5_Guarantees
  imports Mt5_Journal
begin

text \<open>
  The promises of the MT5 execution client and of its wire, with a run of a client against a small
  expert advisor that fills one order.
\<close>

section \<open>A small expert advisor\<close>

definition demo_digest :: string where
  "demo_digest = replicate 64 (CHR ''a'')"

definition demo_env :: wire_env where
  "demo_env = \<lparr>we_utf8 = (\<lambda>_. True), we_loads = (\<lambda>_. None), we_sha256 = (\<lambda>_. demo_digest)\<rparr>"

definition demo_identity :: identity where
  "demo_identity = \<lparr>id_account_id = ''mt5-sha256-'' @ demo_digest, id_broker_server = ''Demo'', id_broker_login = ''1'', id_server_timezone = ''UTC'',
     id_server_timezone_source = PStr ''configured_input'', id_symbol = ''XAUUSD'', id_terminal_build = 1, id_ea_build_id = ''ea'',
     id_declared_source_sha256 = demo_digest, id_stream_id = ''st'', id_boot_id = ''b1'', id_magic = ''7'', id_execution_enabled = True\<rparr>"

definition demo_wire :: pyval where
  "demo_wire = PObj (identity_to_wire demo_identity)"

definition demo_event :: "string \<Rightarrow> string \<Rightarrow> pyobj \<Rightarrow> pyval" where
  "demo_event seq event_type p = PObj [(''event_seq'', PStr seq), (''event_time_ms'', PStr ''5''), (''event_type'', PStr event_type),
     (''stream_id'', PStr ''st''), (''boot_id'', PStr ''b1''), (''payload'', PObj p)]"

definition demo_started :: pyval where
  "demo_started = demo_event ''1'' ''stream_started'' [(''ea_build_id'', PStr ''ea''), (''execution_enabled'', PBool True)]"

definition demo_reserved :: pyval where
  "demo_reserved = demo_event ''2'' ''submission_reserved'' (submission_members ''O-1'' ''buy'' ''0.01'')"

definition demo_filled :: pyval where
  "demo_filled = demo_event ''3'' ''order_filled'' (submission_members ''O-1'' ''buy'' ''0.01'' @
     [(''broker_retcode'', PStr ''10009''), (''commission'', PStr ''0''), (''fill_price'', PStr ''2000''), (''filled_quantity_lots'', PStr ''0.01''),
      (''venue_deal_id'', PStr ''11''), (''venue_order_id'', PStr ''12''), (''venue_position_id'', PStr ''13'')])"

definition demo_page :: "pyval list \<Rightarrow> string \<Rightarrow> pyobj" where
  "demo_page events cursor = [(''events'', PList events), (''first_retained_cursor'', PStr ''0''), (''has_more'', PBool False),
     (''identity'', demo_wire), (''last_cursor'', PStr cursor), (''next_cursor'', PStr cursor), (''stream_id'', PStr ''st'')]"

definition demo_snapshot :: pyobj where
  "demo_snapshot = [(''account'', PObj [(''currency'', PStr ''USD''), (''equity'', PStr ''100''), (''margin'', PStr ''0''), (''margin_free'', PStr ''100'')]),
     (''execution_enabled'', PBool True), (''execution_limits'', PObj [(''max_order_lots'', PStr ''1'')]),
     (''identity'', demo_wire), (''positions'', PList []), (''recovery_state'', PStr ''ready''),
     (''symbol_spec'', PObj [(''symbol'', PStr ''XAUUSD''), (''contract_size'', PStr ''100''), (''volume_min'', PStr ''0.01''),
        (''volume_max'', PStr ''10''), (''volume_step'', PStr ''0.01'')]),
     (''time'', PObj [(''observed_utc_ms'', PStr ''1'')])]"

text \<open>Its journal starts empty; the order sent fills at once.\<close>

definition demo_transport :: "nat \<Rightarrow> mt5_call \<Rightarrow> mt5_error + pyobj" where
  "demo_transport n c = (case c of
     HelloCall \<Rightarrow> Inr [(''identity'', demo_wire), (''recovery_state'', PStr ''ready'')]
   | SnapshotCall b \<Rightarrow> Inr demo_snapshot
   | EventsCall b after limit \<Rightarrow>
       Inr (if n < 4 then demo_page [demo_started] ''1'' else if n = 4 then demo_page [] ''1'' else demo_page [demo_reserved, demo_filled] ''3'')
   | DeltaCall b r side lots \<Rightarrow> Inr [(''identity'', demo_wire), (''outcome'', demo_filled)]
   | _ \<Rightarrow> Inr [])"

definition demo_world :: mt5_world where
  "demo_world = \<lparr>xw_env = demo_env,
     xw_config = \<lparr>xc_instrument_id = ''XAUUSD.MT5'', xc_account_id = id_account_id demo_identity, xc_symbol = ''XAUUSD'', xc_magic = ''7'',
       xc_ea_build_id = ''ea'', xc_source_sha256 = demo_digest, xc_max_order_lots = 1, xc_stream_id = ''st'', xc_server_timezone = ''UTC'',
       xc_refresh_interval_ms = 1000, xc_page_limit = 100, xc_max_pages = 3\<rparr>,
     xw_transport = demo_transport, xw_lot_size = Some 100, xw_make_qty = Some, xw_make_price = Some, xw_commission = Some,
     xw_balance_ok = (\<lambda>equity margin free. equity = margin + free)\<rparr>"

definition demo_clock :: mt5_clock where
  "demo_clock = \<lparr>xk_now_ns = 2000000, xk_loop_time = 0\<rparr>"

definition demo_submit :: submit_command where
  "demo_submit = \<lparr>sc_order = \<lparr>mo_client_order_id = ''O-1'', mo_instrument_id = ''XAUUSD.MT5'', mo_buy = True, mo_quantity = 1, mo_market = True,
     mo_fill_or_kill = True, mo_reduce_only = False, mo_quote_quantity = False, mo_exec_algorithm = False\<rparr>, sc_position_id = None, sc_params = []\<rparr>"

definition demo_connected :: mt5_client where
  "demo_connected = run_mt5 demo_world (Connect demo_clock) initial_client"

definition demo_traded :: mt5_client where
  "demo_traded = run_mt5 demo_world (Submit demo_clock demo_submit) demo_connected"

section \<open>Its run\<close>

abbreviation demo_binding :: binding where
  "demo_binding \<equiv> binding_of demo_identity"

lemma demo_identity_reads [simp]: "identity_from_wire demo_env demo_wire = Inr demo_identity"
  by code_simp

lemma demo_world_simps [simp]:
  "xw_env demo_world = demo_env" "xw_transport demo_world = demo_transport" "xc_page_limit (xw_config demo_world) = 100"
  "xc_max_pages (xw_config demo_world) = 3" "xc_refresh_interval_ms (xw_config demo_world) = 1000"
  by (simp_all add: demo_world_def)

lemma demo_stream [simp]: "id_stream_id demo_identity = ''st''"
  by (simp add: demo_identity_def)

lemma obj_get_members [simp]: "obj_get ((k, v) # d) k' = (if k = k' then v else obj_get d k')"
  by (simp add: obj_get_def)

lemma number_of_text [simp]: "number_of (PStr t) = parse_nat t"
  by (simp add: number_of_def)

lemma demo_page_simps [simp]:
  "obj_get (demo_page es c) ''identity'' = demo_wire" "obj_get (demo_page es c) ''stream_id'' = PStr ''st''"
  "obj_get (demo_page es c) ''first_retained_cursor'' = PStr ''0''" "obj_get (demo_page es c) ''last_cursor'' = PStr c"
  "obj_get (demo_page es c) ''next_cursor'' = PStr c" "obj_get (demo_page es c) ''has_more'' = PBool False" "events_of (demo_page es c) = es"
  by (simp_all add: demo_page_def events_of_def)

lemma demo_page_valid [simp]: "validate_page_identity demo_world (demo_page es c) demo_identity = Inr ()"
  by (simp add: validate_page_identity_def wire_failure_def)

lemma demo_event_numbers [simp]:
  "event_number (event_of demo_started) = 1" "event_number (event_of demo_reserved) = 2" "event_number (event_of demo_filled) = 3"
  "ev_seq (event_of demo_started) = ''1''" "ev_seq (event_of demo_reserved) = ''2''" "ev_seq (event_of demo_filled) = ''3''"
  "parse_nat ''0'' = 0" "parse_nat ''1'' = 1" "parse_nat ''2'' = 2" "parse_nat ''3'' = 3"
  by code_simp+

lemma demo_checks:
  "validate_snapshot demo_world demo_snapshot demo_identity (Some ''ready'') None = Inr ()"
  "validate_identity demo_world demo_identity (PStr ''ready'') = Inr ''ready''"
  "project_journal (id_boot_id demo_identity) [event_of demo_started] = Inr no_journal"
proof -
  show "validate_snapshot demo_world demo_snapshot demo_identity (Some ''ready'') None = Inr ()" by code_simp
  show "validate_identity demo_world demo_identity (PStr ''ready'') = Inr ''ready''" by code_simp
  show "project_journal (id_boot_id demo_identity) [event_of demo_started] = Inr no_journal" by code_simp
qed

definition demo_facts :: mt5_facts where
  "demo_facts = \<lparr>xf_identity = demo_identity, xf_recovery = ''ready'', xf_cursor = ''1'', xf_snapshot = demo_snapshot, xf_journal = no_journal\<rparr>"

definition demo_opened :: mt5_client where
  "demo_opened = initial_client\<lparr>mc_calls := [OpenCall, HelloCall, EventsCall demo_binding ''0'' 100, SnapshotCall demo_binding,
     EventsCall demo_binding ''1'' 100]\<rparr>"

lemma demo_established: "establish demo_world initial_client = (demo_opened, Inr demo_facts)"
  by (simp add: establish_def bind_tx_def call_transport_def demo_transport_def initial_client_def wire_failure_def
      demo_checks read_complete_journal_def budget_failure_def numeral_3_eq_3 verify_unchanged_journal_tail_def demo_opened_def demo_facts_def)


lemma demo_amounts:
  "decimal_at (sub_obj demo_snapshot ''account'') ''margin'' = 0" "decimal_at (sub_obj demo_snapshot ''account'') ''equity'' = 100"
  "decimal_at (sub_obj demo_snapshot ''account'') ''margin_free'' = 100" "number_of (obj_get (sub_obj demo_snapshot ''time'') ''observed_utc_ms'') = 1"
  "snapshot_tickets demo_snapshot = []"
  by code_simp+

lemma demo_connected_state:
  "demo_connected = demo_opened\<lparr>mc_identity := Some demo_identity, mc_bound_stream_id := Some ''st'', mc_snapshot := Some demo_snapshot,
     mc_refresh_healthy := True, mc_sample_observed_ns := Some 1000000, mc_sample_last_valid_ns := Some 1000000, mc_sample_valid := True,
     mc_cursor := ''1'', mc_recovery := Some ''ready'', mc_spec := Some (snapshot_execution_spec demo_snapshot), mc_next_refresh := Some 1,
     mc_hold := None, mc_running := True, mc_connected := True, mc_out := [AccountPublished 1000000 True 0 0]\<rparr>"
proof -
  have i: "install_snapshot demo_world demo_clock demo_snapshot s = (s\<lparr>mc_snapshot := Some demo_snapshot, mc_foreign := [],
      mc_sample_observed_ns := Some 1000000, mc_sample_valid := True, mc_sample_last_valid_ns := Some 1000000, mc_refresh_healthy := True,
      mc_out := mc_out s @ [AccountPublished 1000000 True 0 0]\<rparr>, Inr ())" if "mc_sample_last_valid_ns s = None" for s
    using that by (simp add: install_snapshot_def Let_def demo_amounts emit_def foreign_tickets_def net_position_def demo_world_def
        demo_clock_def MAX_OBSERVATION_FUTURE_NS_def)
  have t: "xk_loop_time demo_clock = 0" by (simp add: demo_clock_def)
  have e: "bind_tx (establish demo_world) (take_over demo_world demo_clock) initial_client = take_over demo_world demo_clock demo_facts demo_opened"
    by (simp only: bind_tx_def demo_established prod.case sum.case)
  show ?thesis
    unfolding demo_connected_def run_mt5.simps connect_def e
    by (simp add: bind_tx_def take_over_def modify_tx_def i demo_facts_def demo_opened_def t
        initial_client_def install_journal_def no_journal_def recover_local_pending_def refresh_execution_hold_def hold_reasons_def
        hold_reason_def unknown_requests_def dangling_requests_def mismatched_fills_def schedule_snapshot_refresh_def)
qed


definition demo_pending :: pending where
  "demo_pending = new_pending (sc_order demo_submit) (1 / 100) 100 None None"

lemma demo_prepared:
  "mc_snapshot s = Some demo_snapshot \<Longrightarrow> prepare demo_world (sc_order demo_submit) None False None s = Inr demo_pending"
proof -
  assume s: "mc_snapshot s = Some demo_snapshot"
  have "quantity_to_current_lots demo_world 1 (initial_client\<lparr>mc_snapshot := Some demo_snapshot\<rparr>) = Inr (1 / 100)" by code_simp
  moreover have "require_snapshot s = require_snapshot (initial_client\<lparr>mc_snapshot := Some demo_snapshot\<rparr>)"
    using s by (simp add: require_snapshot_def)
  then have "quantity_to_current_lots demo_world 1 s = quantity_to_current_lots demo_world 1 (initial_client\<lparr>mc_snapshot := Some demo_snapshot\<rparr>)"
    by (simp only: quantity_to_current_lots_def)
  ultimately have "quantity_to_current_lots demo_world 1 s = Inr (1 / 100)" by simp
  then show ?thesis
    using s by (simp add: prepare_def demo_submit_def demo_world_def require_snapshot_def prepare_open_def demo_amounts demo_pending_def
        MAX_SNAPSHOT_POSITION_TICKETS_def)
qed

lemma demo_order_call: "order_call demo_binding demo_pending = DeltaCall demo_binding ''O-1'' ''buy'' ''0.01''"
proof -
  have "dec_text (1 / 100) = ''0.01''" by code_simp
  then show ?thesis by (simp add: order_call_def Let_def demo_pending_def new_pending_def demo_submit_def wire_side_def)
qed

text \<open>The two events of the order, applied to a client that waits for it.\<close>

definition demo_sent :: mt5_client where
  "demo_sent = demo_connected\<lparr>mc_out := [AccountPublished 1000000 True 0 0, OrderSubmitted ''O-1''],
     mc_pending := [(''O-1'', demo_pending)], mc_seen := {''O-1''}\<rparr>"

definition demo_applied :: "mt5_client \<Rightarrow> mt5_client" where
  "demo_applied s = s\<lparr>mc_sample_valid := False, mc_cursor := ''3'', mc_pending := [], mc_seen := insert ''O-1'' (mc_seen s),
     mc_journal := \<lparr>jn_reservations = [(''O-1'', event_of demo_reserved)], jn_terminals = [(''O-1'', event_of demo_filled)]\<rparr>, mc_hold := None,
     mc_out := mc_out s @ [OrderAccepted ''O-1'' ''12'' 5000000, OrderFilled ''O-1'' ''12'' ''13'' ''11'' True 1 2000 0 5000000]\<rparr>"

lemma demo_event_applied:
  assumes "mc_pending s = [(''O-1'', demo_pending)]" "mc_cursor s = ''1''" "mc_journal s = no_journal" "mc_identity s \<noteq> None"
    "mc_refresh_healthy s" "mc_recovery s = Some ''ready''" "mc_foreign s = []" "mc_transient s = None" "expected \<in> {None, Some (event_of demo_filled)}"
  shows "apply_events demo_world expected [event_of demo_reserved, event_of demo_filled] s = (demo_applied s, Inr (expected \<noteq> None))"
proof -
  have k: "ev_type (event_of demo_reserved) = ''submission_reserved''" "ev_type (event_of demo_filled) = ''order_filled''"
    "event_request (event_of demo_reserved) = ''O-1''" "event_request (event_of demo_filled) = ''O-1''"
    "ev_boot_id (event_of demo_reserved) = ''b1''" "ev_boot_id (event_of demo_filled) = ''b1''"
    "submission_signature (ev_payload (event_of demo_filled)) = submission_signature (ev_payload (event_of demo_reserved))"
    "validate_close_fill_target ''order_filled'' (ev_payload (event_of demo_reserved)) (ev_payload (event_of demo_filled)) = Inr ()"
    "event_ts (event_of demo_filled) = 5000000"
    "fill_mismatch (ev_payload (event_of demo_filled)) demo_pending = None"
    "fill_values demo_world (event_of demo_filled) demo_pending = Inr (1, 2000, 0)"
    "field (ev_payload (event_of demo_filled)) ''venue_order_id'' = ''12''" "field (ev_payload (event_of demo_filled)) ''venue_position_id'' = ''13''"
    "field (ev_payload (event_of demo_filled)) ''venue_deal_id'' = ''11''"
    by code_simp+
  have m: "match_pending (ev_payload event) u = (u, Inr demo_pending)"
    if "mc_pending u = [(''O-1'', demo_pending)]" "event \<in> {event_of demo_reserved, event_of demo_filled}" for u event
  proof -
    have p: "field (ev_payload e) ''side'' = wire_side (pe_order demo_pending)" "decimal_value (field (ev_payload e) ''quantity_lots'') = pe_lots demo_pending"
      "Mapping.lookup (ev_payload e) ''position_ticket'' = None" "Mapping.lookup (ev_payload e) ''position_identifier'' = None"
      "pe_ticket demo_pending = None" "pe_position demo_pending = None" "field (ev_payload e) ''client_request_id'' = ''O-1''"
      if "e = event_of demo_reserved \<or> e = event_of demo_filled" for e
      using that by (elim disjE; simp only:; code_simp)+
    show ?thesis using that p by (auto simp: match_pending_def Let_def)
  qed
  have d: "pe_accepted demo_pending = False" "mo_client_order_id (pe_order demo_pending) = ''O-1''" "mo_buy (pe_order demo_pending)"
    by (simp_all add: demo_pending_def new_pending_def demo_submit_def)
  have j: "mismatched_fills \<lparr>jn_reservations = [(''O-1'', event_of demo_reserved)], jn_terminals = [(''O-1'', event_of demo_filled)]\<rparr> = []"
    by code_simp
  have f: "apply_event demo_world (event_of demo_filled) u = (u\<lparr>mc_sample_valid := False, mc_pending := [], 
     mc_journal := \<lparr>jn_reservations = [(''O-1'', event_of demo_reserved)], jn_terminals = [(''O-1'', event_of demo_filled)]\<rparr>, mc_hold := None,
     mc_out := mc_out u @ [OrderAccepted ''O-1'' ''12'' 5000000, OrderFilled ''O-1'' ''12'' ''13'' ''11'' True 1 2000 0 5000000]\<rparr>, Inr ())"
    if "mc_journal u = \<lparr>jn_reservations = [(''O-1'', event_of demo_reserved)], jn_terminals = []\<rparr>" "mc_pending u = [(''O-1'', demo_pending)]"
      "mc_identity u \<noteq> None" "mc_refresh_healthy u" "mc_recovery u = Some ''ready''" "mc_foreign u = []" "mc_transient u = None" for u
    using that by (simp add: apply_event_def k bind_tx_def record_terminal_def add_terminal_def Let_def apply_fill_def m report_fill_def d emit_def
        modify_tx_def lift_tx_def refresh_execution_hold_def drop_pending_def hold_reasons_def hold_reason_def unknown_requests_def
        dangling_requests_def j)
  have r: "apply_event demo_world (event_of demo_reserved) u = (u\<lparr>mc_seen := insert ''O-1'' (mc_seen u), 
     mc_journal := \<lparr>jn_reservations = [(''O-1'', event_of demo_reserved)], jn_terminals = []\<rparr>\<rparr>, Inr ())"
    if "mc_journal u = no_journal" "mc_pending u = [(''O-1'', demo_pending)]" for u
    using that by (simp add: apply_event_def k bind_tx_def record_reservation_def add_reservation_def Let_def no_journal_def m)
  define u where "u = s\<lparr>mc_seen := insert ''O-1'' (mc_seen s), mc_cursor := ''2'',
     mc_journal := \<lparr>jn_reservations = [(''O-1'', event_of demo_reserved)], jn_terminals = []\<rparr>\<rparr>"
  have a: "apply_events demo_world expected [event_of demo_filled] u = (demo_applied s, Inr (expected \<noteq> None))"
  proof -
    from assms have e: "apply_event demo_world (event_of demo_filled) u = ((demo_applied s)\<lparr>mc_cursor := ''2''\<rparr>, Inr ())"
      by (subst f) (simp_all add: u_def demo_applied_def)
    have "(demo_applied s)\<lparr>mc_cursor := ''3''\<rparr> = demo_applied s" by (simp add: demo_applied_def)
    moreover have "mc_cursor u = ''2''" by (simp add: u_def)
    ultimately show ?thesis using assms(9) by (elim insertE emptyE) (simp_all add: bind_tx_def modify_tx_def e)
  qed
  have "apply_event demo_world (event_of demo_reserved) s = (u\<lparr>mc_cursor := ''1''\<rparr>, Inr ())"
    using assms by (subst r) (simp_all add: u_def)
  moreover have "u\<lparr>mc_cursor := ''2''\<rparr> = u" by (simp add: u_def)
  ultimately have "apply_events demo_world expected [event_of demo_reserved, event_of demo_filled] s
      = apply_events demo_world expected [event_of demo_filled] u"
    using assms(2,9) by (elim insertE emptyE) (simp_all only: apply_events.simps bind_tx_def modify_tx_def prod.case sum.case demo_event_numbers option.case
      option.simps simp_thms if_True if_False, simp_all)
  with a show ?thesis by simp
qed


definition demo_called :: mt5_client where
  "demo_called = demo_sent\<lparr>mc_calls := mc_calls demo_sent @ [DeltaCall demo_binding ''O-1'' ''buy'' ''0.01'', EventsCall demo_binding ''1'' 100]\<rparr>"

lemma demo_send: "send_pending demo_world demo_pending demo_sent = (demo_applied demo_called, Inr ())"
proof -
  have c: "mc_calls demo_sent = mc_calls demo_opened" "mc_identity demo_sent = Some demo_identity" "mc_cursor demo_sent = ''1''"
    "length (mc_calls demo_opened) = 5"
    by (simp_all add: demo_sent_def demo_connected_state demo_opened_def)
  have t: "demo_transport 5 (DeltaCall demo_binding ''O-1'' ''buy'' ''0.01'') = Inr [(''identity'', demo_wire), (''outcome'', demo_filled)]"
    "demo_transport 6 (EventsCall demo_binding ''1'' 100) = Inr (demo_page [demo_reserved, demo_filled] ''3'')"
    by (simp_all add: demo_transport_def)
  have a: "apply_events demo_world (Some (event_of demo_filled)) [event_of demo_reserved, event_of demo_filled] demo_called
      = (demo_applied demo_called, Inr True)"
    by (subst demo_event_applied) (simp_all add: demo_called_def demo_sent_def demo_connected_state demo_opened_def initial_client_def no_journal_def)
  define sent where "sent = demo_sent\<lparr>mc_calls := mc_calls demo_sent @ [DeltaCall demo_binding ''O-1'' ''buy'' ''0.01'']\<rparr>"
  have s: "mc_calls sent = mc_calls demo_opened @ [DeltaCall demo_binding ''O-1'' ''buy'' ''0.01'']" "mc_identity sent = Some demo_identity"
    "mc_cursor sent = ''1''" "sent\<lparr>mc_calls := mc_calls demo_opened @ [DeltaCall demo_binding ''O-1'' ''buy'' ''0.01'', EventsCall demo_binding ''1'' 100]\<rparr> = demo_called"
    by (simp_all add: sent_def c demo_called_def)
  have "consume_event_pages demo_world (Some (event_of demo_filled)) sent = (demo_applied demo_called, Inr ())"
    by (simp add: consume_event_pages_def bind_tx_def require_identity_def s budget_failure_def numeral_3_eq_3 call_transport_def t c Let_def
        lift_tx_def page_target_def number_of_def a del: apply_events.simps)
  then show ?thesis
    by (simp add: send_pending_def bind_tx_def require_identity_def c demo_order_call call_transport_def t lift_tx_def wire_failure_def sent_def)
qed

lemma demo_traded_state: "demo_traded = demo_applied demo_called"
proof -
  have "submit_pending demo_world demo_pending demo_connected = (demo_applied demo_called, Inr ())"
  proof -
    have "mo_client_order_id (pe_order demo_pending) = ''O-1''" by (simp add: demo_pending_def new_pending_def demo_submit_def)
    moreover have "demo_connected\<lparr>mc_out := mc_out demo_connected @ [OrderSubmitted ''O-1''], mc_pending := [(''O-1'', demo_pending)],
        mc_seen := insert ''O-1'' (mc_seen demo_connected)\<rparr> = demo_sent"
      by (simp add: demo_sent_def demo_connected_state demo_opened_def initial_client_def)
    moreover have "mc_pending demo_connected = []" by (simp add: demo_connected_state demo_opened_def initial_client_def)
    ultimately show ?thesis by (simp add: submit_pending_def Let_def bind_tx_def emit_def modify_tx_def demo_send)
  qed
  moreover have "mc_hold demo_connected = None" "mc_pending demo_connected = []" "mc_seen demo_connected = {}"
    "mc_snapshot demo_connected = Some demo_snapshot" "mc_next_refresh demo_connected = Some 1" "xk_loop_time demo_clock = 0"
    by (simp_all add: demo_connected_state demo_opened_def initial_client_def demo_clock_def)
  moreover have "sc_position_id demo_submit = None" "mo_reduce_only (sc_order demo_submit) = False" "mo_market (sc_order demo_submit)"
    "mo_fill_or_kill (sc_order demo_submit)" "\<not> mo_quote_quantity (sc_order demo_submit)" "\<not> mo_exec_algorithm (sc_order demo_submit)"
    "hedge_plan_precondition demo_submit = Inr (False, None)"
    by (simp_all add: demo_submit_def hedge_plan_precondition_def)
  ultimately show ?thesis
    unfolding demo_traded_def run_mt5.simps submit_order_def submit_checked_def place_order_def refresh_snapshot_if_due_def Let_def
    by (simp add: demo_prepared)
qed

lemma demo_run:
  "reserved demo_connected = {}" "sent_orders demo_connected = []" "sent_orders demo_traded = [''O-1'']" "finished_orders demo_traded = [''O-1'']"
  by (simp_all add: demo_traded_state demo_connected_state demo_called_def demo_sent_def demo_opened_def demo_applied_def initial_client_def
      no_journal_def sent_orders_def finished_orders_def mutations_def)

lemma demo_reachable: "mt5_reachable demo_world demo_connected" "mt5_reachable demo_world demo_traded"
proof -
  show "mt5_reachable demo_world demo_connected"
    unfolding demo_connected_def by (rule operated_client [OF fresh_client]) (simp add: initial_client_def no_journal_def)
  then show "mt5_reachable demo_world demo_traded"
    unfolding demo_traded_def by (rule operated_client) (simp add: demo_run)
qed

section \<open>Orders\<close>

text \<open>C4: Whatever the transport answers, over any sequence of connections, submissions, polls and disconnections with an
  append-only journal, no order is sent twice, reported as finished twice or announced twice; only announced orders are sent
  and finished; and at most one order is unresolved.\<close>

theorem mt5_orders_sent_once:
  assumes "mt5_reachable X s"
  shows "distinct (sent_orders s) \<and> distinct (finished_orders s) \<and> distinct (announced_orders s)
    \<and> set (sent_orders s) \<subseteq> set (announced_orders s) \<and> set (finished_orders s) \<subseteq> set (announced_orders s)
    \<and> length (mc_pending s) \<le> 1"
proof -
  from reachable_once [OF assms] have o: "orders_once (announced_orders s) (mc_seen s) (waiting s) (reserved s) (finished_orders s)
      (sent_orders s) (dict_keys (jn_terminals (mc_journal s)))" and l: "length (mc_pending s) \<le> 1"
    unfolding once_def by blast+
  have "orders_once A S W R F N T \<Longrightarrow> distinct N \<and> distinct F \<and> distinct A \<and> set N \<subseteq> set A \<and> set F \<subseteq> set A" for A S W R F N T
    by (simp add: orders_once_def)
  from this [OF o] l show ?thesis by blast
qed

theorem mt5_orders_sent_once_witness: "distinct (sent_orders demo_traded) \<and> sent_orders demo_traded = [''O-1'']"
  using mt5_orders_sent_once [OF demo_reachable(2)] demo_run(3) by blast

text \<open>C5: A request that sends an order leaves the client only in a submission of a new order, when the client, after the refresh
  that precedes it, is connected with a fresh snapshot, an unblocked advisor, a resolved journal, no foreign ticket, no
  unresolved order and no request timeout pending; and it is the one request for the order prepared on that snapshot.\<close>

theorem mt5_sends_only_when_clear:
  assumes "mt5_reachable X s" "mutations (run_mt5 X x s) \<noteq> mutations s"
  shows "\<exists>k c planned expected i p. x = Submit k c \<and> mo_client_order_id (sc_order c) \<notin> mc_seen s
    \<and> hedge_plan_precondition c = Inr (planned, expected)
    \<and> clear_to_trade (refreshed X k c planned s) \<and> mc_pending (refreshed X k c planned s) = []
    \<and> mc_identity (refreshed X k c planned s) = Some i
    \<and> prepare X (sc_order c) (sc_position_id c) planned expected (refreshed X k c planned s) = Inr p
    \<and> mutations (run_mt5 X x s) = mutations s @ [order_call (binding_of i) p]"
proof -
  from only_submit_sends [OF assms(2)] obtain k c where x: "x = Submit k c" by blast
  from assms(2) have "mutations (fst (submit_order X k c s)) \<noteq> mutations s" by (simp add: x)
  from order_sent_when_clear [OF reachable_hold_sound [OF assms(1)] this] show ?thesis
    unfolding x run_mt5.simps by (metis (no_types, opaque_lifting))
qed

theorem mt5_sends_only_when_clear_witness:
  "\<exists>planned. clear_to_trade (refreshed demo_world demo_clock demo_submit planned demo_connected)"
proof -
  have "sent_orders demo_traded \<noteq> sent_orders demo_connected" by (simp add: demo_run)
  then have "mutations (run_mt5 demo_world (Submit demo_clock demo_submit) demo_connected) \<noteq> mutations demo_connected"
    by (auto simp: sent_orders_def demo_traded_def)
  from mt5_sends_only_when_clear [OF demo_reachable(1) this] show ?thesis by auto
qed

section \<open>The journal\<close>

text \<open>C28: Reading a page event by event leaves the client with the journal that a complete reading of the stream would
  project: incremental and complete projection agree, for events of the active boot.\<close>

theorem mt5_journal_incremental:
  assumes "project_journal b es = Inr (mc_journal s)" "\<forall>event \<in> set events. ev_boot_id event = b"
    "apply_events X None events s = (t, Inr found)"
  shows "project_journal b (es @ events) = Inr (mc_journal t)"
  by (rule projected_events [OF assms])

theorem mt5_journal_incremental_witness:
  "project_journal ''b1'' [event_of demo_started, event_of demo_reserved, event_of demo_filled] =
    Inr (mc_journal (demo_applied demo_sent))"
proof -
  have "project_journal ''b1'' [event_of demo_started] = Inr (mc_journal demo_sent)"
    using demo_checks(3) by (simp add: demo_sent_def demo_connected_state demo_opened_def initial_client_def demo_identity_def)
  moreover have "\<forall>event \<in> set [event_of demo_reserved, event_of demo_filled]. ev_boot_id event = ''b1''" by code_simp
  moreover have "apply_events demo_world None [event_of demo_reserved, event_of demo_filled] demo_sent = (demo_applied demo_sent, Inr False)"
    by (subst demo_event_applied) (simp_all add: demo_sent_def demo_connected_state demo_opened_def initial_client_def)
  ultimately have "project_journal ''b1'' ([event_of demo_started] @ [event_of demo_reserved, event_of demo_filled])
      = Inr (mc_journal (demo_applied demo_sent))"
    by (rule mt5_journal_incremental)
  then show ?thesis by simp
qed

section \<open>The wire\<close>

text \<open>C29: An accepted page of events holds exactly the events after the requested cursor up to the next cursor, at most as
  many as asked for and of the bound stream; it says that there is more exactly when its cursor is not the last, and then
  it went forward.\<close>

theorem mt5_event_page_exact:
  assumes "decode_response_for E (ExecutionEventsRequest rid b after limit) raw = Inr response" "obj_get response ''ok'' = PBool True"
  shows "map event_number (map event_of (events_of (page_data response)))
      = [parse_nat after + 1..number_of (obj_get (page_data response) ''next_cursor'')]
    \<and> int (length (events_of (page_data response))) \<le> limit
    \<and> parse_nat after \<le> number_of (obj_get (page_data response) ''next_cursor'')
    \<and> (\<forall>v \<in> set (events_of (page_data response)). ev_stream_id (event_of v) = bd_stream_id b)
    \<and> (obj_get (page_data response) ''has_more'' = PBool True \<longleftrightarrow>
        number_of (obj_get (page_data response) ''next_cursor'') < number_of (obj_get (page_data response) ''last_cursor''))
    \<and> (obj_get (page_data response) ''has_more'' = PBool True \<longrightarrow> parse_nat after < number_of (obj_get (page_data response) ''next_cursor''))"
  by (rule page_exact [OF assms])

text \<open>The document whose value is given.\<close>

fun doc_of :: "pyval \<Rightarrow> json_doc" where
  "doc_of (PBool b) = DBool b"
| "doc_of (PInt n) = DInt (nat_digits (nat n))"
| "doc_of (PStr s) = DText s"
| "doc_of (PList vs) = DArray (map doc_of vs)"
| "doc_of (PObj d) = DObject (map (\<lambda>(k, v). (k, doc_of v)) d)"
| "doc_of _ = DNull"

definition demo_response :: "string \<Rightarrow> pyobj \<Rightarrow> pyobj" where
  "demo_response op data = [(''protocol'', PStr PROTOCOL), (''version'', PInt 1), (''request_id'', PStr ''q''), (''op'', PStr op),
     (''ok'', PBool True), (''data'', PObj data)]"

definition demo_answers :: "pyobj \<Rightarrow> wire_env" where
  "demo_answers d = demo_env\<lparr>we_loads := (\<lambda>_. Some (doc_of (PObj d)))\<rparr>"

lemma demo_answers_identity [simp]: "identity_from_wire (demo_answers d) demo_wire = Inr demo_identity"
proof -
  have "identity_from_wire (demo_answers d) v = identity_from_wire demo_env v" for v
    by (simp add: identity_from_wire_def check_identity_def normalized_account_id_def demo_answers_def demo_env_def)
  then show ?thesis by simp
qed

lemma demo_response_simps [simp]:
  "obj_get (demo_response op data) ''protocol'' = PStr PROTOCOL" "obj_get (demo_response op data) ''version'' = PInt VERSION"
  "obj_get (demo_response op data) ''request_id'' = PStr ''q''" "obj_get (demo_response op data) ''op'' = PStr op"
  "obj_get (demo_response op data) ''ok'' = PBool True" "obj_get (demo_response op data) ''data'' = PObj data"
  "closed_object (PObj (demo_response op data)) label (insert ''data'' response_members) = Inr (demo_response op data)"
proof -
  have "dict_keys (demo_response op data) = insert ''data'' response_members" by (auto simp: demo_response_def response_members_def)
  then show "closed_object (PObj (demo_response op data)) label (insert ''data'' response_members) = Inr (demo_response op data)"
    by (simp add: closed_object_def)
qed (simp_all add: demo_response_def VERSION_def)

lemma demo_json:
  assumes "build (doc_of (PObj d)) = Inr (PObj d)" "validate_json_tree [(PObj d, 0)] = Inr ()"
  shows "decode_json_object (demo_answers d) ''{}'' = Inr d"
  using assms by (simp add: decode_json_object_def MAX_WIRE_BYTES_def demo_answers_def demo_env_def del: doc_of.simps build.simps validate_json_tree.simps)

lemma demo_built:
  "build (doc_of demo_wire) = Inr demo_wire" "build (DInt (nat_digits 1)) = Inr (PInt 1)"
  "build (doc_of demo_reserved) = Inr demo_reserved" "build (doc_of demo_filled) = Inr demo_filled"
  by code_simp+

lemma demo_tree:
  assumes "depth \<le> 10"
  shows "validate_json_tree ((demo_wire, depth) # stack) = validate_json_tree stack"
    "validate_json_tree ((demo_reserved, depth) # stack) = validate_json_tree stack"
    "validate_json_tree ((demo_filled, depth) # stack) = validate_json_tree stack"
  using assms by (simp_all add: demo_wire_def identity_to_wire_def demo_identity_def demo_reserved_def demo_filled_def demo_event_def submission_members_def
      MAX_JSON_DEPTH_def)

lemma json_tree_kinds:
  "depth \<le> 32 \<Longrightarrow> validate_json_tree ((PStr t, depth) # stack) = validate_json_tree stack"
  "depth \<le> 32 \<Longrightarrow> validate_json_tree ((PBool b, depth) # stack) = validate_json_tree stack"
  "depth \<le> 32 \<Longrightarrow> validate_json_tree ((PInt n, depth) # stack) = validate_json_tree stack"
  "depth \<le> 32 \<Longrightarrow> validate_json_tree ((PList vs, depth) # stack) = validate_json_tree (rev (map (\<lambda>v. (v, Suc depth)) vs) @ stack)"
  "depth \<le> 32 \<Longrightarrow> validate_json_tree ((PObj d, depth) # stack) = validate_json_tree (rev (map (\<lambda>(_, v). (v, Suc depth)) d) @ stack)"
  by (simp_all add: MAX_JSON_DEPTH_def)

lemma demo_page_built:
  "build (doc_of (PObj (demo_page [demo_reserved, demo_filled] ''3''))) = Inr (PObj (demo_page [demo_reserved, demo_filled] ''3''))"
  "depth \<le> 5 \<Longrightarrow> validate_json_tree ((PObj (demo_page [demo_reserved, demo_filled] ''3''), depth) # stack) = validate_json_tree stack"
  unfolding demo_page_def by (simp_all add: demo_built demo_tree unique_members_def json_tree_kinds del: validate_json_tree.simps(2))

lemma demo_response_built:
  assumes "build (doc_of (PObj data)) = Inr (PObj data)" "\<And>depth stack. depth \<le> 5 \<Longrightarrow> validate_json_tree ((PObj data, depth) # stack) = validate_json_tree stack"
  shows "decode_json_object (demo_answers (demo_response op data)) ''{}'' = Inr (demo_response op data)"
proof (rule demo_json)
  have "build (DInt (nat_digits (Suc 0))) = Inr (PInt 1)" using demo_built(2) by simp
  with assms(1) show "build (doc_of (PObj (demo_response op data))) = Inr (PObj (demo_response op data))"
    unfolding demo_response_def by (simp add: unique_members_def del: build.simps(3))
  show "validate_json_tree [(PObj (demo_response op data), 0)] = Inr ()"
    using assms(2) [of "Suc 0"] by (simp add: demo_response_def json_tree_kinds del: validate_json_tree.simps(2))
qed

lemma demo_decoded:
  assumes "decode_json_object (demo_answers (demo_response op data)) ''{}'' = Inr (demo_response op data)" "validate_request r = Inr ()"
    "validated_identifier 64 (PStr op) ''response.op'' = Inr op" "request_op r = op" "request_id r = ''q''" "request_binding r = Some demo_binding"
    "validate_success_data (demo_answers (demo_response op data)) op (PObj data) = Inr ()" "obj_get data ''identity'' = demo_wire"
    "(case r of ExecutionEventsRequest rid b after limit \<Rightarrow> page_follows after limit data | _ \<Rightarrow> outcome_matches r data) = Inr ()"
  shows "decode_response_for (demo_answers (demo_response op data)) r ''{}'' = Inr (demo_response op data)"
proof -
  have "validated_identifier 64 (PStr ''q'') ''response.request_id'' = Inr ''q''" by code_simp
  with assms show ?thesis by (simp add: decode_response_for_def decode_response_def value_obj_def Let_def)
qed

definition demo_events_response :: pyobj where
  "demo_events_response = demo_response ''get_execution_events'' (demo_page [demo_reserved, demo_filled] ''3'')"

theorem mt5_event_page_exact_witness: "map event_number (map event_of (events_of (page_data demo_events_response))) = [2..3]"
proof -
  have "decode_response_for (demo_answers demo_events_response) (ExecutionEventsRequest ''q'' demo_binding ''1'' 100) ''{}''
      = Inr demo_events_response"
    unfolding demo_events_response_def
  proof (rule demo_decoded)
    have e: "validate_event ''st'' demo_reserved = Inr (''2'', ''submission_reserved'')" "validate_event ''st'' demo_filled = Inr (''3'', ''order_filled'')"
      by code_simp+
    have t: "validated_safe_token (PStr ''st'') ''events.stream_id'' = Inr ''st''" "uint64_string False (PStr ''0'') ''first_retained_cursor'' = Inr ''0''"
      "uint64_string False (PStr ''3'') ''last_cursor'' = Inr ''3''" "uint64_string False (PStr ''3'') ''next_cursor'' = Inr ''3''"
      "validated_bool (PBool False) ''events.has_more'' = Inr False"
      by code_simp+
    have d: "closed_object (PObj (demo_page [demo_reserved, demo_filled] ''3'')) ''events data'' {''events'', ''first_retained_cursor'', ''has_more'',
        ''identity'', ''last_cursor'', ''next_cursor'', ''stream_id''} = Inr (demo_page [demo_reserved, demo_filled] ''3'')"
      "obj_get (demo_page [demo_reserved, demo_filled] ''3'') ''events'' = PList [demo_reserved, demo_filled]"
      by (auto simp: closed_object_def demo_page_def)
    show "validate_success_data (demo_answers (demo_response ''get_execution_events'' (demo_page [demo_reserved, demo_filled] ''3'')))
        ''get_execution_events'' (PObj (demo_page [demo_reserved, demo_filled] ''3'')) = Inr ()"
      by (simp add: validate_success_data_def CAPABILITIES_def validate_events_data_def d e t Let_def MAX_EVENTS_LIMIT_def)
    have n: "number_of (obj_get (value_obj demo_reserved) ''event_seq'') = 2" by code_simp
    show "(case ExecutionEventsRequest ''q'' demo_binding ''1'' 100 of
        ExecutionEventsRequest rid b after limit \<Rightarrow> page_follows after limit (demo_page [demo_reserved, demo_filled] ''3'')
      | _ \<Rightarrow> outcome_matches (ExecutionEventsRequest ''q'' demo_binding ''1'' 100) (demo_page [demo_reserved, demo_filled] ''3'')) = Inr ()"
      by (simp add: page_follows_def Let_def n)
    show "decode_json_object (demo_answers (demo_response ''get_execution_events'' (demo_page [demo_reserved, demo_filled] ''3''))) ''{}''
      = Inr (demo_response ''get_execution_events'' (demo_page [demo_reserved, demo_filled] ''3''))"
      by (rule demo_response_built [OF demo_page_built])
    show "validate_request (ExecutionEventsRequest ''q'' demo_binding ''1'' 100) = Inr ()" by code_simp
    show "validated_identifier 64 (PStr ''get_execution_events'') ''response.op'' = Inr ''get_execution_events''" by code_simp
  qed simp_all
  moreover have "obj_get demo_events_response ''ok'' = PBool True" by (simp add: demo_events_response_def)
  ultimately have "map event_number (map event_of (events_of (page_data demo_events_response)))
      = [parse_nat ''1'' + 1..number_of (obj_get (page_data demo_events_response) ''next_cursor'')]"
    by (rule mt5_event_page_exact [THEN conjunct1])
  moreover have "number_of (obj_get (page_data demo_events_response) ''next_cursor'') = 3"
    by (simp add: demo_events_response_def value_obj_def number_of_def)
  ultimately show ?thesis by simp
qed

text \<open>C30: An accepted answer to an order carries its terminal outcome on the bound stream, for exactly the requested client
  id, side and lots; the outcome of a close names the requested ticket and position, and its fill is of that position.\<close>

theorem mt5_outcome_bound:
  assumes "obj_get response ''ok'' = PBool True"
    "decode_response_for E (case target of None \<Rightarrow> SubmitMarketDeltaRequest rid b client side lots
      | Some (ticket, position) \<Rightarrow> ClosePositionRequest rid b client side lots ticket position) raw = Inr response"
  defines "event \<equiv> event_of (obj_get (page_data response) ''outcome'')"
  shows "ev_type event \<in> terminal_types \<and> ev_stream_id event = bd_stream_id b \<and> event_request event = client
    \<and> field (ev_payload event) ''side'' = side \<and> field (ev_payload event) ''quantity_lots'' = lots
    \<and> (case target of
        None \<Rightarrow> Mapping.lookup (ev_payload event) ''position_ticket'' = None \<and> Mapping.lookup (ev_payload event) ''position_identifier'' = None
      | Some (ticket, position) \<Rightarrow> field (ev_payload event) ''position_ticket'' = ticket
          \<and> field (ev_payload event) ''position_identifier'' = position
          \<and> (ev_type event = ''order_filled'' \<longrightarrow> field (ev_payload event) ''venue_position_id'' = position))"
proof (cases target)
  case None
  from assms(2) have d: "decode_response_for E (SubmitMarketDeltaRequest rid b client side lots) raw = Inr response" by (simp add: None)
  show ?thesis unfolding event_def
    by (rule outcome_event [OF d assms(1)]) (use delta_outcome in \<open>auto simp: None event_request_def\<close>)
next
  case (Some tp)
  obtain ticket position where tp: "tp = (ticket, position)" by (cases tp)
  from assms(2) have d: "decode_response_for E (ClosePositionRequest rid b client side lots ticket position) raw = Inr response"
    by (simp add: Some tp)
  show ?thesis unfolding event_def
    by (rule outcome_event [OF d assms(1)]) (use close_outcome in \<open>auto simp: Some tp event_request_def field_def text_value_def\<close>)
qed

definition demo_submit_response :: pyobj where
  "demo_submit_response = demo_response ''submit_market_delta''
     [(''identity'', demo_wire), (''outcome'', demo_filled)]"

theorem mt5_outcome_bound_witness: "event_request (event_of (obj_get (page_data demo_submit_response) ''outcome'')) = ''O-1''"
proof -
  have "decode_response_for (demo_answers demo_submit_response) (case None of None \<Rightarrow>
      SubmitMarketDeltaRequest ''q'' demo_binding ''O-1'' ''buy'' ''0.01''
      | Some (ticket, position) \<Rightarrow> ClosePositionRequest ''q'' demo_binding ''O-1'' ''buy'' ''0.01'' ticket position) ''{}''
      = Inr demo_submit_response"
    unfolding demo_submit_response_def option.case
  proof (rule demo_decoded)
    let ?d = "[(''identity'', demo_wire), (''outcome'', demo_filled)]"
    have e: "validate_event ''st'' demo_filled = Inr (''3'', ''order_filled'')"
      "closed_object demo_filled ''submit outcome'' event_fields = Inr (value_obj demo_filled)" "PObj (value_obj demo_filled) = demo_filled"
      by code_simp+
    have d: "closed_object (PObj ?d) ''submit data'' {''identity'', ''outcome''} = Inr ?d"
      by (auto simp: closed_object_def)
    show "validate_success_data (demo_answers (demo_response ''submit_market_delta'' ?d)) ''submit_market_delta'' (PObj ?d) = Inr ()"
      by (simp add: validate_success_data_def CAPABILITIES_def d e terminal_types_def)
    have "outcome_matches (SubmitMarketDeltaRequest ''q'' demo_binding ''O-1'' ''buy'' ''0.01'') [(''outcome'', demo_filled)] = Inr ()" by code_simp
    then show "(case SubmitMarketDeltaRequest ''q'' demo_binding ''O-1'' ''buy'' ''0.01'' of
        ExecutionEventsRequest rid b after limit \<Rightarrow> page_follows after limit ?d
      | _ \<Rightarrow> outcome_matches (SubmitMarketDeltaRequest ''q'' demo_binding ''O-1'' ''buy'' ''0.01'') ?d) = Inr ()"
      by (simp add: outcome_matches_def outcome_of_def)
    show "decode_json_object (demo_answers (demo_response ''submit_market_delta'' ?d)) ''{}'' = Inr (demo_response ''submit_market_delta'' ?d)"
      by (rule demo_response_built) (simp_all add: demo_built demo_tree unique_members_def json_tree_kinds del: validate_json_tree.simps(2))
    show "validate_request (SubmitMarketDeltaRequest ''q'' demo_binding ''O-1'' ''buy'' ''0.01'') = Inr ()" by code_simp
    show "validated_identifier 64 (PStr ''submit_market_delta'') ''response.op'' = Inr ''submit_market_delta''" by code_simp
  qed simp_all
  moreover have "obj_get demo_submit_response ''ok'' = PBool True" by (simp add: demo_submit_response_def)
  ultimately show ?thesis using mt5_outcome_bound by blast
qed

section \<open>Failures that are no \<open>WireError\<close>\<close>

lemma validate_request_other_error:
  "validate_request (ExecutionEventsRequest ''q'' demo_binding (replicate 4301 (CHR ''1'')) 1) = Inl TooManyDigits"
proof -
  have "canonical_uint (replicate 4301 (CHR ''1''))" by (simp add: canonical_uint_def is_decimal_def list_all_iff is_digit_def)
  then have "uint64_string False (PStr (replicate 4301 (CHR ''1''))) label = Inl TooManyDigits" for label
    by (simp add: uint64_string_def)
  moreover have "validated_identifier 64 (PStr ''q'') ''request.request_id'' = Inr ''q''" by code_simp
  moreover have "binding_from_wire (PObj (binding_to_wire demo_binding)) = Inr demo_binding" by code_simp
  ultimately show ?thesis by (simp add: validate_request_def)
qed

lemma recovery_state_other_error: "validated_recovery_state (PList vs) label = Inl UnhashableValue"
  by (simp add: validated_recovery_state_def not_among_def)

end
