(* ===== verification/Spec2Isabelle.thy ===== *)
theory Spec2Isabelle
  imports Hedge_Planning Maker_Economics Durability Store_Safety Store_Restart Maker_Safety Hedge_Cycle Shared_Admission
    Hedge_Projection Maker_Codec Taker_Evidence Maker_Example Cid_Safety Mt5_Guarantees
begin

text \<open>
  A verification library of the hedging core of arbi-nautilus, \<^verbatim>\<open>src/src/py000_nautilus\<close>.

  \<^bold>\<open>The program.\<close> Two strategies trade gold between a source venue (Bitfinex) and a hedge venue (an MT5
  account behind an expert advisor). The Taker decides on two order books and sends one market order at a
  time; the Maker keeps limit quotes. Every source fill becomes an obligation to hedge whole ounces, the
  remainder is carried. Orders, fills and obligations are written ahead to a JSON file: one store per Taker,
  one owner with two views per direction for the Maker, which the Taker may share. After a restart the files
  are compared with the native orders of the platform. The MT5 client sends hedge orders through a
  request/reply transport and learns their outcome from an append-only journal of events; the Bitfinex client
  allocates numeric client ids from a store of its own.

  \<^bold>\<open>Conventions.\<close> A Decimal is its rational value, with the rounding to 28 significant digits of every
  operator written out (\<open>Py_Decimal\<close>); binary64 appears where the program passes through it. A dictionary is an
  association list in insertion order, a set a set, the payload of an event a finite map. A raise is a value
  of \<open>exn + 'a\<close>; a method that changes an object takes and returns the state also when it raises
  (\<open>('s, 'e, 'a) act\<close> in \<open>Prelude\<close>). Texts are ASCII. What the operating system answers to a write, the time
  zone database, SHA-256, \<^verbatim>\<open>json.loads\<close>, the platform's cache, clocks, factories, and the transports are arguments
  of the definitions, and no theorem assumes more of them than it states.

  \<^bold>\<open>Theories and code.\<close>
    \<^item> \<open>Py_Decimal\<close>, \<open>Py_Value\<close>, \<open>Prelude\<close>: Python's values, exceptions, dictionaries; shared lemmas and hint collections.
    \<^item> \<open>Models\<close>: \<^verbatim>\<open>models.py\<close>, \<^verbatim>\<open>config.py\<close>. \<open>Economics\<close>: \<^verbatim>\<open>economics.py\<close>. \<open>Maker_Economics\<close>: \<^verbatim>\<open>maker_economics.py\<close>.
      \<open>Margin\<close>: \<^verbatim>\<open>margin.py\<close>. \<open>Mt5_Costs\<close>, \<open>Source_Terminal\<close>: \<^verbatim>\<open>strategies/_mt5_costs.py\<close>, \<^verbatim>\<open>strategies/_source_terminal.py\<close>.
    \<^item> \<open>Durability\<close>: \<^verbatim>\<open>durability.py\<close>, the replacement of a file and what its exceptions tell.
    \<^item> \<open>State_Store\<close>, \<open>Store_Codec\<close>: \<^verbatim>\<open>store.py\<close>. \<open>Store_Ledger\<close> states the interface of a store with its file as the locale
      \<open>custody\<close>; \<open>Store_Runs\<close>, \<open>Store_Safety\<close>, \<open>Store_Restart\<close>, \<open>Store_Lasting\<close> prove what holds of every run.
    \<^item> \<open>Maker_Store\<close>, \<open>Maker_Codec\<close>: \<^verbatim>\<open>maker_store.py\<close>, the allocation owner, its views, its validation and its file. \<open>Maker_Runs\<close>,
      \<open>Maker_Ledger\<close>, \<open>Maker_Safety\<close>, \<open>Owner_Lasting\<close> interpret the same locales for the owner.
    \<^item> \<open>Hedge_Planning\<close>, \<open>Hedge_Coordinator\<close>, \<open>Hedge_Cycle\<close>: \<^verbatim>\<open>hedge.py\<close>, the plan over MT5 tickets, its durable legs, and a whole cycle.
    \<^item> \<open>Shared_Admission\<close>: \<^verbatim>\<open>shared_admission.py\<close>. \<open>Native_Orders\<close>, \<open>Source_Projection\<close>, \<open>Hedge_Projection\<close>: \<^verbatim>\<open>source_projection.py\<close>,
      \<^verbatim>\<open>hedge_projection.py\<close>, the comparison after a restart.
    \<^item> \<open>Taker_Strategy\<close>, \<open>Taker_Events\<close>: \<^verbatim>\<open>strategies/taker.py\<close>, every callback. \<open>Taker_Runs\<close>, \<open>Taker_Steps\<close>, \<open>Taker_Safety\<close>,
      \<open>Taker_Custody\<close>, \<open>Taker_Evidence\<close>, \<open>Taker_Example\<close>: its runs as an inductive relation, refinement of the store, justified orders.
    \<^item> \<open>Maker_Strategy\<close>, \<open>Maker_Quoting\<close>, \<open>Maker_Orders\<close>, \<open>Maker_Events\<close>, \<open>Maker_Callbacks\<close>: \<^verbatim>\<open>strategies/maker.py\<close>, every callback.
      \<open>Maker_Steps\<close>, \<open>Maker_Custody\<close>, \<open>Maker_Example\<close>: the locale of facts that every callback keeps, and its instances.
    \<^item> \<open>Cid_Store\<close>, \<open>Cid_Types\<close>, \<open>Cid_Runs\<close>, \<open>Cid_Safety\<close>: \<^verbatim>\<open>bitfinex_v1_cids.py\<close>.
    \<^item> \<open>Mt5_Wire\<close>, \<open>Mt5_Responses\<close>, \<open>Mt5_Pages\<close>: \<^verbatim>\<open>mt5_v1_protocol.py\<close>. \<open>Mt5_Client\<close>, \<open>Mt5_Execution\<close>: \<^verbatim>\<open>mt5_v1_execution.py\<close>, the client's
      state and its operations; \<open>Mt5_Runs\<close>, \<open>Mt5_Safety\<close>, \<open>Mt5_Journal\<close>, \<open>Mt5_Guarantees\<close>: its runs, with a small expert advisor
      as the example.

  \<^bold>\<open>What the lemmas show.\<close>
    \<^item> Ledgers: in memory and in the file, obligations plus residual equal the signed source fills; over every history
      of deliveries, failures and restarts a fill is booked once, or not at all; the owner's allocations and the legacy checkpoint
      explain every balance; a pause is lifted only on evidence; a halt survives failures and restarts; files always load again.
    \<^item> Refinement: a callback of a strategy acts on its store as a sequence of store operations, so every run of a strategy
      carries the invariants of its store; an order is written before it is handed over.
    \<^item> Decisions: an order is sent only on fresh inputs and within limits; quotes, capacities and carry bounds hold for every
      partial fill and every interleaving; the plan of a hedge moves the position by exactly its quantity and its cycle ends.
    \<^item> Restart: projections leave exactly the native fills, in the store of a Taker and in the views of the owner, or change nothing.
    \<^item> MT5: accepted pages and outcomes are those asked for; an order is sent and finished once and sent only when nothing is
      unresolved; reading the journal in pieces gives the journal of a complete reading.
    \<^item> Files: what is written is read back, dictionaries in key order.

  \<^bold>\<open>Bounds and fuel.\<close> Loops over finite data are structural recursions. The calendar of a CID recurses on the days left and
  the stack walk of \<open>validate_json_tree\<close> on the size of the values left, each with its measure. The pages of the MT5 journal are
  counted by the configured \<^verbatim>\<open>event_pagination_max_pages\<close>, the program's own bound. The one number chosen here is
  \<open>dec_places\<close>: a decimal is printed with at most 30 places, and the round trips are stated for values that need no more.
  A hedge cycle takes at most one round per ticket and one more, which is proved.

  \<^bold>\<open>Not modelled.\<close> Log lines. Of \<^verbatim>\<open>mt5_v1_execution.py\<close>: the commission cash flows, the reports for the platform's
  reconciliation, the check of the configuration, and commands that are only refused; of \<^verbatim>\<open>mt5_v1_protocol.py\<close>: \<^verbatim>\<open>encode_json\<close>, and
  the lists of names in two messages. The Bitfinex adapters (\<^verbatim>\<open>bitfinex_v1_execution.py\<close>, \<^verbatim>\<open>_data\<close>, \<^verbatim>\<open>_protocol\<close>, \<^verbatim>\<open>_reports\<close>, \<^verbatim>\<open>_rest\<close>,
  \<^verbatim>\<open>_transport\<close>), the MT5 data client and sockets, the startup recovery and migration, the live composition, canaries,
  backtests, the accounting report and the account lock: platform objects, I/O and wiring around the modelled core.
  Finer than the model: a route capacity configured as infinite (here it raises when a decision reads it), the points at
  which connecting and disconnecting the MT5 client release its lock (here one step each), and callbacks that the platform makes
  from inside \<^verbatim>\<open>submit_order\<close> (here they follow it).
\<close>

end
